(* ===== verification/Heapq.thy ===== *)
theory Heapq
  imports Main "HOL-Library.Multiset"
begin

text \<open>
  The binary heap behind \<open>asyncio.PriorityQueue\<close> (Python's \<open>heapq\<close>), which the order queue of
  \<^verbatim>\<open>app/services/position/order_queue.py\<close> stores its tasks in. The two sift loops are written as
  the standard library writes them; \<open>f\<close> is the sort key of an element.

  \<open>priority_queue\<close> is the interface the order queue relies on. Its lemmas say that draining a
  well-formed queue serves every element exactly once and in key order.
\<close>

section \<open>The sift loops\<close>

function siftdown :: "('a \<Rightarrow> 'k::linorder) \<Rightarrow> 'a list \<Rightarrow> nat \<Rightarrow> nat \<Rightarrow> 'a \<Rightarrow> 'a list" where
  "siftdown f h start pos x =
     (if start < pos \<and> f x < f (h ! ((pos - 1) div 2))
      then siftdown f (h[pos := h ! ((pos - 1) div 2)]) start ((pos - 1) div 2) x
      else h[pos := x])"
  by pat_completeness auto
termination
  by (relation "measure (\<lambda>(f, h, start, pos, x). pos)") auto

declare siftdown.simps [simp del]

definition smaller_child :: "('a \<Rightarrow> 'k::linorder) \<Rightarrow> 'a list \<Rightarrow> nat \<Rightarrow> nat" where
  "smaller_child f h pos =
     (let child = 2 * pos + 1; right = child + 1 in
      if right < length h \<and> \<not> f (h ! child) < f (h ! right) then right else child)"

function siftup_walk :: "('a \<Rightarrow> 'k::linorder) \<Rightarrow> 'a list \<Rightarrow> nat \<Rightarrow> 'a list \<times> nat" where
  "siftup_walk f h pos =
     (if 2 * pos + 1 < length h
      then siftup_walk f (h[pos := h ! smaller_child f h pos]) (smaller_child f h pos)
      else (h, pos))"
  by pat_completeness auto
termination
  by (relation "measure (\<lambda>(f, h, pos). length h - pos)")
     (auto simp: smaller_child_def Let_def)

declare siftup_walk.simps [simp del]

definition heappush :: "('a \<Rightarrow> 'k::linorder) \<Rightarrow> 'a list \<Rightarrow> 'a \<Rightarrow> 'a list" where
  "heappush f h x = siftdown f (h @ [x]) 0 (length h) x"

definition heappop :: "('a \<Rightarrow> 'k::linorder) \<Rightarrow> 'a list \<Rightarrow> ('a \<times> 'a list) option" where
  "heappop f h =
     (case h of
        [] \<Rightarrow> None
      | _ \<Rightarrow>
          (let lastelt = last h; h' = butlast h in
           if h' = [] then Some (lastelt, [])
           else let (w, pos) = siftup_walk f h' 0
                in Some (hd h', siftdown f w 0 pos lastelt)))"

section \<open>The elements are kept\<close>

lemma length_siftdown [simp]: "length (siftdown f h s p x) = length h"
  by (induction f h s p x rule: siftdown.induct) (subst siftdown.simps, simp)

lemma mset_swap_in: "p < length h \<Longrightarrow> q < length h \<Longrightarrow> p \<noteq> q \<Longrightarrow>
    mset ((h[p := h ! q])[q := x]) = mset (h[p := x])"
proof -
  assume a: "p < length h" "q < length h" "p \<noteq> q"
  let ?g = "h[p := x]"
  have "(h[p := h ! q])[q := x] = ?g[p := ?g ! q, q := ?g ! p]"
    using a by simp
  then show ?thesis using a mset_swap [of q ?g p] by simp
qed

lemma mset_siftdown: "p < length h \<Longrightarrow> mset (siftdown f h s p x) = mset (h[p := x])"
proof (induction f h s p x rule: siftdown.induct)
  case (1 f h s p x)
  let ?q = "(p - 1) div 2"
  show ?case
  proof (cases "s < p \<and> f x < f (h ! ?q)")
    case True
    then have q: "?q < length h" "?q \<noteq> p" using "1.prems" by auto
    with 1 True show ?thesis
      by (subst siftdown.simps) (simp add: mset_swap_in)
  next
    case False
    then show ?thesis by (subst siftdown.simps) (simp only: if_False)
  qed
qed

lemma smaller_child_range:
  "2 * pos + 1 < length h \<Longrightarrow> pos < smaller_child f h pos \<and> smaller_child f h pos < length h
     \<and> (smaller_child f h pos - 1) div 2 = pos"
  by (auto simp: smaller_child_def Let_def)

lemma siftup_walk_range:
  "pos < length h \<Longrightarrow> siftup_walk f h pos = (w, q) \<Longrightarrow>
     length w = length h \<and> q < length h \<and> \<not> 2 * q + 1 < length h
     \<and> mset (w[q := x]) = mset (h[pos := x])"
proof (induction f h pos arbitrary: w q rule: siftup_walk.induct)
  case (1 f h pos)
  let ?c = "smaller_child f h pos"
  show ?case
  proof (cases "2 * pos + 1 < length h")
    case True
    note c = smaller_child_range [OF True, of f]
    from True "1.prems"(2) have "siftup_walk f (h[pos := h ! ?c]) ?c = (w, q)"
      by (subst (asm) siftup_walk.simps) simp
    from "1.IH" [OF True _ this] c
    have "length w = length h \<and> q < length h \<and> \<not> 2 * q + 1 < length h
        \<and> mset (w[q := x]) = mset ((h[pos := h ! ?c])[?c := x])"
      by simp
    with c "1.prems"(1) show ?thesis by (simp add: mset_swap_in)
  next
    case False
    with "1.prems" show ?thesis by (subst (asm) siftup_walk.simps) simp
  qed
qed

lemma mset_heappush: "mset (heappush f h x) = add_mset x (mset h)"
  by (simp add: heappush_def mset_siftdown)

lemma heappop_None_iff: "heappop f h = None \<longleftrightarrow> h = []"
  by (auto simp: heappop_def Let_def split: list.splits prod.splits)

lemma heappop_hd: "heappop f h = Some (x, h') \<Longrightarrow> h \<noteq> [] \<and> x = hd h"
  by (cases h) (auto simp: heappop_def Let_def split: if_splits prod.splits)

lemma mset_heappop:
  assumes "heappop f h = Some (x, h')"
  shows "mset h = add_mset x (mset h')"
proof (cases "butlast h = []")
  case True
  with assms show ?thesis
    by (cases h) (auto simp: heappop_def Let_def split: if_splits)
next
  case False
  then have h: "h = butlast h @ [last h]" by (cases h) auto
  obtain w q where wq: "siftup_walk f (butlast h) 0 = (w, q)" by force
  with assms False have h': "h' = siftdown f w 0 q (last h)" "x = hd (butlast h)"
    by (auto simp: heappop_def Let_def split: list.splits)
  have len: "0 < length (butlast h)" using False by (rule length_greater_0_conv [THEN iffD2])
  have "mset h' = mset ((butlast h)[0 := last h])"
    using siftup_walk_range [OF len wq, of "last h"] by (simp add: h' mset_siftdown)
  moreover obtain b bs where "butlast h = b # bs" using False by (cases "butlast h") auto
  ultimately have "add_mset x (mset h') = add_mset (last h) (mset (butlast h))"
    by (simp add: h')
  also have "\<dots> = mset h" by (subst (3) h) simp
  finally show ?thesis by simp
qed

section \<open>The heap order is kept\<close>

definition heap_ok :: "('a \<Rightarrow> 'k::linorder) \<Rightarrow> 'a list \<Rightarrow> bool" where
  "heap_ok f h = (\<forall>i < length h. 0 < i \<longrightarrow> f (h ! ((i - 1) div 2)) \<le> f (h ! i))"

lemma heap_ok_root: "heap_ok f h \<Longrightarrow> i < length h \<Longrightarrow> f (h ! 0) \<le> f (h ! i)"
proof (induction i rule: less_induct)
  case (less i)
  show ?case
  proof (cases "i = 0")
    case False
    then have "(i - 1) div 2 < i" by auto
    with less have "f (h ! 0) \<le> f (h ! ((i - 1) div 2))" by auto
    also have "\<dots> \<le> f (h ! i)" using less.prems False by (simp add: heap_ok_def)
    finally show ?thesis .
  qed simp
qed

text \<open>Order everywhere but at the hole \<open>p\<close>, with the hole's parent below the hole's children.\<close>

definition heap_hole :: "('a \<Rightarrow> 'k::linorder) \<Rightarrow> 'a list \<Rightarrow> nat \<Rightarrow> bool" where
  "heap_hole f h p =
     ((\<forall>i < length h. 0 < i \<longrightarrow> i \<noteq> p \<longrightarrow> (i - 1) div 2 \<noteq> p \<longrightarrow>
          f (h ! ((i - 1) div 2)) \<le> f (h ! i))
      \<and> (\<forall>i < length h. 0 < i \<longrightarrow> 0 < p \<longrightarrow> (i - 1) div 2 = p \<longrightarrow>
          f (h ! ((p - 1) div 2)) \<le> f (h ! i)))"

lemma heap_hole_of_ok: "heap_ok f h \<Longrightarrow> heap_hole f h p"
proof -
  assume ok: "heap_ok f h"
  have "f (h ! ((p - 1) div 2)) \<le> f (h ! i)"
    if i: "i < length h" "0 < i" "0 < p" "(i - 1) div 2 = p" for i
  proof -
    have "p < length h" using i by auto
    then have "f (h ! ((p - 1) div 2)) \<le> f (h ! p)" using ok i by (simp add: heap_ok_def)
    also have "\<dots> \<le> f (h ! i)" using ok i by (auto simp: heap_ok_def)
    finally show ?thesis .
  qed
  with ok show ?thesis by (auto simp: heap_hole_def heap_ok_def)
qed

text \<open>Moving \<open>h ! q\<close> into the hole \<open>p\<close>, where \<open>q\<close> is the parent of \<open>p\<close>: the hole moves to \<open>q\<close>.\<close>

lemma heap_hole_up:
  assumes hole: "heap_hole f h p" and p: "0 < p" "p < length h" and q: "q = (p - 1) div 2"
  shows "heap_hole f (h[p := h ! q]) q"
proof -
  have qp: "q < p" using p q by auto
  let ?g = "h[p := h ! q]"
  have A: "f (?g ! ((i - 1) div 2)) \<le> f (?g ! i)"
    if i: "i < length h" "0 < i" "i \<noteq> q" "(i - 1) div 2 \<noteq> q" for i
  proof (cases "(i - 1) div 2 = p")
    case True
    moreover from this have "i \<noteq> p" using i by auto
    ultimately show ?thesis using hole i p q by (auto simp: heap_hole_def)
  next
    case False
    then show ?thesis using hole i p q by (auto simp: heap_hole_def nth_list_update)
  qed
  have B: "f (?g ! ((q - 1) div 2)) \<le> f (?g ! i)"
    if i: "i < length h" "0 < i" "0 < q" "(i - 1) div 2 = q" for i
  proof -
    have ne: "(q - 1) div 2 \<noteq> p" "(q - 1) div 2 \<noteq> q" "q \<noteq> p" using qp i(3) by auto
    have "f (h ! ((q - 1) div 2)) \<le> f (h ! q)"
      using hole ne i qp p by (auto simp: heap_hole_def)
    moreover have "f (h ! q) \<le> f (h ! i)" if "i \<noteq> p"
      using hole that i qp by (auto simp: heap_hole_def)
    ultimately show ?thesis using ne p by (cases "i = p") auto
  qed
  show ?thesis unfolding heap_hole_def using A B by simp
qed

lemma siftdown_heap_ok:
  assumes "heap_hole f h p" and "p < length h"
    and "\<And>i. i < length h \<Longrightarrow> 0 < i \<Longrightarrow> (i - 1) div 2 = p \<Longrightarrow> f x \<le> f (h ! i)"
  shows "heap_ok f (siftdown f h 0 p x)"
  using assms
proof (induction f h "0::nat" p x rule: siftdown.induct)
  case (1 f h p x)
  let ?q = "(p - 1) div 2"
  show ?case
  proof (cases "0 < p \<and> f x < f (h ! ?q)")
    case True
    let ?g = "h[p := h ! ?q]"
    have qp: "?q < p" using True by auto
    have kids: "f x \<le> f (?g ! i)" if "i < length ?g" "0 < i" "(i - 1) div 2 = ?q" for i
    proof (cases "i = p")
      case True
      then show ?thesis using that \<open>0 < p \<and> f x < f (h ! ?q)\<close> by auto
    next
      case False
      moreover have "?q \<noteq> p" using qp by simp
      ultimately have "f (h ! ?q) \<le> f (h ! i)"
        using "1.prems"(1) that by (auto simp: heap_hole_def)
      then show ?thesis using True False that by auto
    qed
    have "heap_ok f (siftdown f ?g 0 ?q x)"
      using "1.hyps" [OF True] heap_hole_up [OF "1.prems"(1) _ "1.prems"(2) refl] True qp kids
        "1.prems"(2) by auto
    with True show ?thesis by (simp add: siftdown.simps [of f h 0 p x])
  next
    case False
    have "heap_ok f (h[p := x])"
      unfolding heap_ok_def
    proof (intro allI impI)
      fix i
      assume i: "i < length (h[p := x])" "0 < i"
      show "f (h[p := x] ! ((i - 1) div 2)) \<le> f (h[p := x] ! i)"
      proof (cases "i = p")
        case True
        then show ?thesis using False i by auto
      next
        case False
        then show ?thesis using "1.prems" i
          by (cases "(i - 1) div 2 = p") (auto simp: heap_hole_def)
      qed
    qed
    then show ?thesis using False by (auto simp: siftdown.simps [of f h 0 p x])
  qed
qed

lemma heap_ok_push:
  assumes "heap_ok f h"
  shows "heap_ok f (heappush f h x)"
  unfolding heappush_def
proof (rule siftdown_heap_ok)
  show "heap_hole f (h @ [x]) (length h)"
    using assms by (auto simp: heap_hole_def heap_ok_def nth_append)
qed auto

text \<open>The downward walk: the smaller child moves up into the hole.\<close>

lemma heap_hole_down:
  assumes hole: "heap_hole f h p" and c: "2 * p + 1 < length h"
  shows "heap_hole f (h[p := h ! smaller_child f h p]) (smaller_child f h p)"
proof -
  let ?c = "smaller_child f h p" and ?g = "h[p := h ! smaller_child f h p]"
  note rng = smaller_child_range [OF c, of f]
  have least: "f (h ! ?c) \<le> f (h ! i)" if "i < length h" "0 < i" "(i - 1) div 2 = p" for i
  proof -
    have "i = 2 * p + 1 \<or> i = 2 * p + 2" using that by auto
    then show ?thesis using that by (auto simp: smaller_child_def Let_def)
  qed
  have A: "f (?g ! ((i - 1) div 2)) \<le> f (?g ! i)"
    if i: "i < length h" "0 < i" "i \<noteq> ?c" "(i - 1) div 2 \<noteq> ?c" for i
  proof (cases "(i - 1) div 2 = p")
    case True
    moreover from this have "i \<noteq> p" using i by auto
    ultimately show ?thesis using least i rng by auto
  next
    case False
    then show ?thesis
      using hole i rng least [of ?c] by (auto simp: heap_hole_def nth_list_update)
  qed
  have B: "f (?g ! ((?c - 1) div 2)) \<le> f (?g ! i)"
    if i: "i < length h" "0 < i" "(i - 1) div 2 = ?c" for i
  proof -
    have "i \<noteq> p" "?c \<noteq> p" using rng i by auto
    then show ?thesis using hole i rng by (auto simp: heap_hole_def)
  qed
  show ?thesis unfolding heap_hole_def using A B by simp
qed

lemma siftup_walk_hole: "heap_hole f h p \<Longrightarrow> siftup_walk f h p = (w, q) \<Longrightarrow> heap_hole f w q"
proof (induction f h p arbitrary: w q rule: siftup_walk.induct)
  case (1 f h p)
  show ?case
  proof (cases "2 * p + 1 < length h")
    case True
    with "1.prems"(2)
    have "siftup_walk f (h[p := h ! smaller_child f h p]) (smaller_child f h p) = (w, q)"
      by (simp add: siftup_walk.simps [of f h p])
    with "1.IH" [OF True heap_hole_down [OF "1.prems"(1) True]] show ?thesis by blast
  next
    case False
    with "1.prems" show ?thesis by (subst (asm) siftup_walk.simps) simp
  qed
qed

lemma heap_ok_butlast: "heap_ok f h \<Longrightarrow> heap_ok f (butlast h)"
  by (auto simp: heap_ok_def nth_butlast)

lemma heap_ok_pop:
  assumes "heap_ok f h" and "heappop f h = Some (x, h')"
  shows "heap_ok f h'"
proof (cases "butlast h = []")
  case True
  with assms show ?thesis
    by (cases h) (auto simp: heappop_def Let_def heap_ok_def split: if_splits)
next
  case False
  obtain w q where wq: "siftup_walk f (butlast h) 0 = (w, q)" by force
  with assms False have h': "h' = siftdown f w 0 q (last h)"
    by (auto simp: heappop_def Let_def split: list.splits)
  have "heap_hole f w q"
    using siftup_walk_hole [OF heap_hole_of_ok [OF heap_ok_butlast [OF assms(1)]] wq] .
  moreover have "0 < length (butlast h)" using False by (rule length_greater_0_conv [THEN iffD2])
  then have "q < length w" "\<not> 2 * q + 1 < length w"
    using siftup_walk_range [OF _ wq] by auto
  ultimately show ?thesis unfolding h' by (intro siftdown_heap_ok) auto
qed

section \<open>The interface\<close>

text \<open>Taking elements until the queue is empty; \<open>n\<close> bounds the number of takes.\<close>

fun drain :: "('q \<Rightarrow> ('a \<times> 'q) option) \<Rightarrow> nat \<Rightarrow> 'q \<Rightarrow> 'a list" where
  "drain get 0 q = []"
| "drain get (Suc n) q = (case get q of None \<Rightarrow> [] | Some (x, q') \<Rightarrow> x # drain get n q')"

locale priority_queue =
  fixes put :: "'q \<Rightarrow> 'a \<Rightarrow> 'q"
    and get :: "'q \<Rightarrow> ('a \<times> 'q) option"
    and content :: "'q \<Rightarrow> 'a multiset"
    and invar :: "'q \<Rightarrow> bool"
    and key :: "'a \<Rightarrow> 'k::linorder"
  assumes content_put: "content (put q x) = add_mset x (content q)"
    and get_empty: "get q = None \<longleftrightarrow> content q = {#}"
    and content_get: "get q = Some (x, q') \<Longrightarrow> content q = add_mset x (content q')"
    and get_least: "invar q \<Longrightarrow> get q = Some (x, q') \<Longrightarrow> y \<in># content q \<Longrightarrow> key x \<le> key y"
    and invar_put: "invar q \<Longrightarrow> invar (put q x)"
    and invar_get: "invar q \<Longrightarrow> get q = Some (x, q') \<Longrightarrow> invar q'"
begin

lemma drain_mset: "size (content q) \<le> n \<Longrightarrow> mset (drain get n q) = content q"
proof (induction n arbitrary: q)
  case (Suc n)
  show ?case
  proof (cases "get q")
    case None
    then have "content q = {#}" by (simp only: get_empty [symmetric])
    with None show ?thesis by simp
  next
    case (Some xq)
    then obtain x q' where xq: "get q = Some (x, q')" by (cases xq) simp
    with content_get [OF xq] Suc show ?thesis by simp
  qed
qed simp

lemma drain_sorted:
  "invar q \<Longrightarrow> size (content q) \<le> n \<Longrightarrow> sorted (map key (drain get n q))"
proof (induction n arbitrary: q)
  case (Suc n)
  show ?case
  proof (cases "get q")
    case (Some xq)
    then obtain x q' where xq: "get q = Some (x, q')" by (cases xq) simp
    have sz: "size (content q') \<le> n" using content_get [OF xq] Suc.prems by simp
    have "key x \<le> key y" if "y \<in> set (drain get n q')" for y
    proof -
      have "y \<in># content q'" using that drain_mset [OF sz] by (metis set_mset_mset)
      then show ?thesis using get_least [OF Suc.prems(1) xq] content_get [OF xq] by simp
    qed
    with Suc.IH [OF invar_get [OF Suc.prems(1) xq] sz] xq show ?thesis by simp
  qed simp
qed simp

end

interpretation heapq: priority_queue "heappush f" "heappop f" mset "heap_ok f" f
  for f :: "'a \<Rightarrow> 'k::linorder"
proof unfold_locales
  fix q x
  show "mset (heappush f q x) = add_mset x (mset q)" by (rule mset_heappush)
next
  fix q
  show "heappop f q = None \<longleftrightarrow> mset q = {#}" by (simp add: heappop_None_iff)
next
  fix q x q'
  assume "heappop f q = Some (x, q')"
  then show "mset q = add_mset x (mset q')" by (rule mset_heappop)
next
  fix q x q' y
  assume "heap_ok f q" "heappop f q = Some (x, q')" "y \<in># mset q"
  then show "f x \<le> f y"
    using heappop_hd [of f q x q'] heap_ok_root [of f q]
    by (auto simp: hd_conv_nth in_set_conv_nth)
next
  fix q x
  assume "heap_ok f q"
  then show "heap_ok f (heappush f q x)" by (rule heap_ok_push)
next
  fix q x q'
  assume "heap_ok f q" "heappop f q = Some (x, q')"
  then show "heap_ok f q'" by (rule heap_ok_pop)
qed

end
