(* ===== verification/Prelude.thy ===== *)
theory Prelude
  imports Complex_Main
begin

text \<open>
  Shared vocabulary of the development.

  \<^item> \<open>pyval\<close> is the dynamically typed value that flows through the program's dictionaries
    (task parameters, database rows, JSON columns). Python floats are idealised as real
    numbers: rounding, infinities and NaN are not values of the model.
  \<^item> \<open>dict_get\<close> and \<open>dict_set\<close> are lookup and store of an insertion-ordered dictionary, kept
    as an association list because the code iterates over some of its dictionaries.
  \<^item> \<open>py_strip\<close>, \<open>py_lower\<close>, \<open>py_upper\<close>, \<open>py_float\<close> and \<open>py_int\<close> are the string and
    conversion primitives of the language that the sources use, on ASCII text.
  \<^item> \<open>py_simps\<close> collects the definitions of these primitives, for evaluating them on concrete
    arguments.
\<close>

named_theorems py_simps \<open>definitions of the Python primitives, for evaluation\<close>

section \<open>Values\<close>

datatype order_side = BUY | SELL

datatype pyval =
    VNone
  | VBool bool
  | VInt int
  | VFloat real
  | VStr string
  | VTime string
  | VSide order_side
  | VList "pyval list"
  | VDict "(string \<times> pyval) list"

text \<open>\<open>VTime s\<close> is a \<open>datetime\<close> whose ISO text is \<open>s\<close>; \<open>VSide\<close> is a member of the string
  enumeration \<open>OrderSide\<close> of \<^verbatim>\<open>app/services/exchange/adapter.py\<close>.\<close>

type_synonym pydict = "(string \<times> pyval) list"

datatype py_error =
    ValueError string
  | IndexError string
  | KeyError string
  | TypeError string
  | AttributeError string
  | ZeroDivisionError string

section \<open>Dictionaries\<close>

definition dict_get :: "('k \<times> 'v) list \<Rightarrow> 'k \<Rightarrow> 'v option" where
  "dict_get d k = map_of d k"

fun dict_set :: "('k \<times> 'v) list \<Rightarrow> 'k \<Rightarrow> 'v \<Rightarrow> ('k \<times> 'v) list" where
  "dict_set [] k v = [(k, v)]"
| "dict_set ((k', v') # d) k v =
     (if k' = k then (k, v) # d else (k', v') # dict_set d k v)"

fun dict_pop :: "('k \<times> 'v) list \<Rightarrow> 'k \<Rightarrow> ('k \<times> 'v) list" where
  "dict_pop [] k = []"
| "dict_pop ((k', v') # d) k = (if k' = k then d else (k', v') # dict_pop d k)"

lemma dict_get_Nil [simp]: "dict_get [] k = None"
  by (simp add: dict_get_def)

lemma dict_get_Cons [simp]:
  "dict_get ((k', v) # d) k = (if k' = k then Some v else dict_get d k)"
  by (simp add: dict_get_def)

lemma dict_get_set [simp]:
  "dict_get (dict_set d k v) k' = (if k' = k then Some v else dict_get d k')"
  by (induction d k v rule: dict_set.induct) (auto simp: dict_get_def)

lemma dict_keys_set: "fst ` set (dict_set d k v) = insert k (fst ` set d)"
  by (induction d k v rule: dict_set.induct) auto

lemma distinct_dict_set: "distinct (map fst d) \<Longrightarrow> distinct (map fst (dict_set d k v))"
proof (induction d k v rule: dict_set.induct)
  case (2 k' v' d k v)
  then show ?case using dict_keys_set [of d k v] by auto
qed simp

lemma dict_keys_pop_subset: "fst ` set (dict_pop d k) \<subseteq> fst ` set d"
  by (induction d k rule: dict_pop.induct) auto

lemma distinct_dict_pop: "distinct (map fst d) \<Longrightarrow> distinct (map fst (dict_pop d k))"
proof (induction d k rule: dict_pop.induct)
  case (2 k' v' d k)
  have "k' \<notin> fst ` set (dict_pop d k)"
    using "2.prems" dict_keys_pop_subset [of d k] by auto
  with 2 show ?case by auto
qed simp

lemma dict_get_None_iff: "dict_get d k = None \<longleftrightarrow> k \<notin> fst ` set d"
  by (simp add: dict_get_def map_of_eq_None_iff)

lemma dict_get_pop:
  assumes "distinct (map fst d)"
  shows "dict_get (dict_pop d k) k' = (if k' = k then None else dict_get d k')"
  using assms
proof (induction d k rule: dict_pop.induct)
  case (2 k0 v0 d k)
  show ?case
  proof (cases "k0 = k")
    case True
    with 2 show ?thesis by (auto simp: dict_get_None_iff)
  next
    case False
    with 2 show ?thesis by auto
  qed
qed simp

lemma dict_get_in_set: "dict_get d k = Some v \<Longrightarrow> (k, v) \<in> set d"
  by (simp add: dict_get_def map_of_SomeD)

lemma set_dict_set: "set (dict_set d k v) \<subseteq> insert (k, v) (set d)"
  by (induction d k v rule: dict_set.induct) auto

lemma set_dict_pop: "set (dict_pop d k) \<subseteq> set d"
  by (induction d k rule: dict_pop.induct) auto

section \<open>Python strings\<close>

definition is_space :: "char \<Rightarrow> bool" where
  "is_space c = (let n = (of_char c :: nat) in (9 \<le> n \<and> n \<le> 13) \<or> (28 \<le> n \<and> n \<le> 32))"

definition py_strip :: "string \<Rightarrow> string" where
  "py_strip s = rev (dropWhile is_space (rev (dropWhile is_space s)))"

definition lower_char :: "char \<Rightarrow> char" where
  "lower_char c = (let n = (of_char c :: nat) in
     if 65 \<le> n \<and> n \<le> 90 then char_of (n + 32) else c)"

definition upper_char :: "char \<Rightarrow> char" where
  "upper_char c = (let n = (of_char c :: nat) in
     if 97 \<le> n \<and> n \<le> 122 then char_of (n - 32) else c)"

definition py_lower :: "string \<Rightarrow> string" where
  "py_lower s = map lower_char s"

definition py_upper :: "string \<Rightarrow> string" where
  "py_upper s = map upper_char s"

fun starts_with :: "string \<Rightarrow> string \<Rightarrow> bool" where
  "starts_with s [] = True"
| "starts_with [] (p # ps) = False"
| "starts_with (c # s) (p # ps) = (c = p \<and> starts_with s ps)"

fun contains_sub :: "string \<Rightarrow> string \<Rightarrow> bool" where
  "contains_sub [] p = (p = [])"
| "contains_sub (c # s) p = (starts_with (c # s) p \<or> contains_sub s p)"

definition is_digit :: "char \<Rightarrow> bool" where
  "is_digit c = (let n = (of_char c :: nat) in 48 \<le> n \<and> n \<le> 57)"

definition digit_val :: "char \<Rightarrow> nat" where
  "digit_val c = (of_char c :: nat) - 48"

fun nat_of_digits :: "nat \<Rightarrow> string \<Rightarrow> nat" where
  "nat_of_digits acc [] = acc"
| "nat_of_digits acc (c # cs) = nat_of_digits (10 * acc + digit_val c) cs"

definition all_digits :: "string \<Rightarrow> bool" where
  "all_digits s = (s \<noteq> [] \<and> list_all is_digit s)"

fun show_nat :: "nat \<Rightarrow> string" where
  "show_nat n = (if n < 10 then [char_of (48 + n)]
                 else show_nat (n div 10) @ [char_of (48 + n mod 10)])"

declare show_nat.simps [simp del]

definition show_int :: "int \<Rightarrow> string" where
  "show_int i = (if i < 0 then CHR ''-'' # show_nat (nat (- i)) else show_nat (nat i))"

fun py_split_aux :: "string \<Rightarrow> string \<Rightarrow> string list" where
  "py_split_aux acc [] = (if acc = [] then [] else [rev acc])"
| "py_split_aux acc (c # cs) =
     (if is_space c then (if acc = [] then py_split_aux [] cs else rev acc # py_split_aux [] cs)
      else py_split_aux (c # acc) cs)"

text \<open>\<open>str.split()\<close> without a separator, and \<open>" ".join(...)\<close>.\<close>

definition py_split :: "string \<Rightarrow> string list" where
  "py_split s = py_split_aux [] s"

fun join_space :: "string list \<Rightarrow> string" where
  "join_space [] = []"
| "join_space [w] = w"
| "join_space (w # ws) = w @ CHR '' '' # join_space ws"

section \<open>Conversions\<close>

text \<open>\<open>float(text)\<close> on a decimal literal: an optional sign, digits with an optional point, an
  optional exponent. Anything else is a \<open>ValueError\<close>.\<close>

definition parse_exponent :: "string \<Rightarrow> int option" where
  "parse_exponent s =
     (case s of
        [] \<Rightarrow> Some 0
      | c # r \<Rightarrow>
          if c \<noteq> CHR ''e'' \<and> c \<noteq> CHR ''E'' then None
          else let neg = (r \<noteq> [] \<and> hd r = CHR ''-'');
                   ds = (if r \<noteq> [] \<and> (hd r = CHR ''-'' \<or> hd r = CHR ''+'') then tl r else r)
               in if all_digits ds
                  then Some (if neg then - int (nat_of_digits 0 ds) else int (nat_of_digits 0 ds))
                  else None)"

definition scale10 :: "real \<Rightarrow> int \<Rightarrow> real" where
  "scale10 x e = (if 0 \<le> e then x * 10 ^ nat e else x / 10 ^ nat (- e))"

definition parse_ufloat :: "string \<Rightarrow> real option" where
  "parse_ufloat s =
     (let ip = takeWhile is_digit s; r = dropWhile is_digit s;
          dot = (r \<noteq> [] \<and> hd r = CHR ''.'');
          fp = (if dot then takeWhile is_digit (tl r) else []);
          r' = (if dot then dropWhile is_digit (tl r) else r)
      in if ip = [] \<and> fp = [] then None
         else map_option (\<lambda>e. scale10 (real (nat_of_digits 0 (ip @ fp)) / 10 ^ length fp) e)
                (parse_exponent r'))"

definition parse_float :: "string \<Rightarrow> real option" where
  "parse_float s =
     (case py_strip s of
        [] \<Rightarrow> None
      | c # r \<Rightarrow> if c = CHR ''-'' then map_option uminus (parse_ufloat r)
                 else if c = CHR ''+'' then parse_ufloat r
                 else parse_ufloat (c # r))"

definition parse_int :: "string \<Rightarrow> int option" where
  "parse_int s =
     (case py_strip s of
        [] \<Rightarrow> None
      | c # r \<Rightarrow> if c = CHR ''-'' then (if all_digits r then Some (- int (nat_of_digits 0 r)) else None)
                 else if c = CHR ''+'' then (if all_digits r then Some (int (nat_of_digits 0 r)) else None)
                 else if all_digits (c # r) then Some (int (nat_of_digits 0 (c # r))) else None)"

fun order_side_value :: "order_side \<Rightarrow> string" where
  "order_side_value BUY = ''buy''"
| "order_side_value SELL = ''sell''"

text \<open>\<open>float(v)\<close> and \<open>int(v)\<close>.\<close>

fun py_float :: "pyval \<Rightarrow> py_error + real" where
  "py_float (VBool b) = Inr (if b then 1 else 0)"
| "py_float (VInt i) = Inr (of_int i)"
| "py_float (VFloat x) = Inr x"
| "py_float (VStr s) =
     (case parse_float s of None \<Rightarrow> Inl (ValueError ''could not convert string to float'')
      | Some x \<Rightarrow> Inr x)"
| "py_float (VSide s) = Inl (ValueError ''could not convert string to float'')"
| "py_float _ = Inl (TypeError ''float() argument must be a string or a real number'')"

definition trunc_real :: "real \<Rightarrow> int" where
  "trunc_real x = (if 0 \<le> x then \<lfloor>x\<rfloor> else \<lceil>x\<rceil>)"

text \<open>\<open>round(x)\<close>: halves go to the even neighbour.\<close>

definition round_half_even :: "real \<Rightarrow> int" where
  "round_half_even x =
     (let n = \<lfloor>x\<rfloor>; d = x - of_int n in
      if d < 1 / 2 then n else if d > 1 / 2 then n + 1 else if even n then n else n + 1)"

fun py_int :: "pyval \<Rightarrow> py_error + int" where
  "py_int (VBool b) = Inr (if b then 1 else 0)"
| "py_int (VInt i) = Inr i"
| "py_int (VFloat x) = Inr (trunc_real x)"
| "py_int (VStr s) =
     (case parse_int s of None \<Rightarrow> Inl (ValueError ''invalid literal for int()'')
      | Some i \<Rightarrow> Inr i)"
| "py_int (VSide s) = Inl (ValueError ''invalid literal for int()'')"
| "py_int _ = Inl (TypeError ''int() argument must be a string or a real number'')"

text \<open>\<open>bool(v)\<close>.\<close>

fun py_truth :: "pyval \<Rightarrow> bool" where
  "py_truth VNone = False"
| "py_truth (VBool b) = b"
| "py_truth (VInt i) = (i \<noteq> 0)"
| "py_truth (VFloat x) = (x \<noteq> 0)"
| "py_truth (VStr s) = (s \<noteq> [])"
| "py_truth (VTime s) = True"
| "py_truth (VSide s) = True"
| "py_truth (VList xs) = (xs \<noteq> [])"
| "py_truth (VDict d) = (d \<noteq> [])"

text \<open>\<open>a or b\<close>.\<close>

definition py_or :: "pyval \<Rightarrow> pyval \<Rightarrow> pyval" where
  "py_or a b = (if py_truth a then a else b)"

text \<open>\<open>str(v)\<close>. The text of a float, a list or a dictionary is the parameter \<open>rp\<close>: no decision of
  the modelled code depends on it.\<close>

fun py_str :: "(pyval \<Rightarrow> string) \<Rightarrow> pyval \<Rightarrow> string" where
  "py_str rp VNone = ''None''"
| "py_str rp (VBool b) = (if b then ''True'' else ''False'')"
| "py_str rp (VInt i) = show_int i"
| "py_str rp (VStr s) = s"
| "py_str rp (VTime s) = s"
| "py_str rp (VSide BUY) = ''OrderSide.BUY''"
| "py_str rp (VSide SELL) = ''OrderSide.SELL''"
| "py_str rp v = rp v"

text \<open>\<open>d.get(k)\<close> and \<open>d.get(k, default)\<close>.\<close>

definition get_default :: "pydict \<Rightarrow> string \<Rightarrow> pyval \<Rightarrow> pyval" where
  "get_default d k v = (case dict_get d k of None \<Rightarrow> v | Some w \<Rightarrow> w)"

abbreviation get_none :: "pydict \<Rightarrow> string \<Rightarrow> pyval" where
  "get_none d k \<equiv> get_default d k VNone"

definition opt_float :: "real option \<Rightarrow> pyval" where
  "opt_float x = (case x of None \<Rightarrow> VNone | Some r \<Rightarrow> VFloat r)"

definition opt_str :: "string option \<Rightarrow> pyval" where
  "opt_str x = (case x of None \<Rightarrow> VNone | Some r \<Rightarrow> VStr r)"

lemma get_default_Nil [simp]: "get_default [] k v = v"
  by (simp add: get_default_def)

lemma get_default_Cons [simp]:
  "get_default ((k', w) # d) k v = (if k' = k then w else get_default d k v)"
  by (simp add: get_default_def)

lemma get_default_set [simp]:
  "get_default (dict_set d k w) k' v = (if k' = k then w else get_default d k' v)"
  by (simp add: get_default_def)

lemma starts_with_append [simp]: "starts_with (p @ s) p"
  by (induction p) auto

lemma starts_with_iff: "starts_with s p \<longleftrightarrow> (\<exists>t. s = p @ t)"
  by (induction s p rule: starts_with.induct) auto

lemmas [py_simps] = py_strip_def is_space_def py_lower_def lower_char_def py_upper_def upper_char_def
  is_digit_def digit_val_def all_digits_def py_split_def parse_float_def parse_ufloat_def
  parse_exponent_def parse_int_def scale10_def trunc_real_def round_half_even_def py_or_def

end
