(* ===== verification/Lifecycle.thy ===== *)
theory Lifecycle
  imports Prelude
begin

text \<open>
  The interface shared by the program's two lifecycle machines (the position machine of
  \<^verbatim>\<open>app/services/position/state_machine.py\<close> and the promotion machine of
  \<^verbatim>\<open>app/services/auto_trade/promotion/state_machine.py\<close>): a machine with a current state, a
  transition log and a step that either raises or moves the state and appends one log entry.
  The lemmas of the locale follow from the four laws and hold for both machines.
\<close>

record ('s, 't) log_entry =
  le_timestamp :: string
  le_from :: 's
  le_to :: 's
  le_trigger :: 't
  le_reason :: string
  le_metadata :: pydict

text \<open>A log is a chain from \<open>a\<close> to \<open>b\<close> when it starts at \<open>a\<close>, every entry starts where the
  previous one ended, and the last one ends at \<open>b\<close>.\<close>

fun log_chain :: "'s \<Rightarrow> ('s, 't) log_entry list \<Rightarrow> 's \<Rightarrow> bool" where
  "log_chain a [] b = (a = b)"
| "log_chain a (e # es) b = (le_from e = a \<and> log_chain (le_to e) es b)"

lemma log_chain_append:
  "log_chain a (es @ fs) b \<longleftrightarrow> (\<exists>c. log_chain a es c \<and> log_chain c fs b)"
  by (induction es arbitrary: a) auto

lemma log_chain_snoc:
  "log_chain a es b \<Longrightarrow> le_from e = b \<Longrightarrow> log_chain a (es @ [e]) (le_to e)"
  by (auto simp: log_chain_append)

text \<open>Driving a machine with a list of events; a rejected event raises and stops the run.\<close>

fun run_machine :: "('m \<Rightarrow> 'i \<Rightarrow> 'e + 'm) \<Rightarrow> 'm \<Rightarrow> 'i list \<Rightarrow> 'e + 'm" where
  "run_machine st m [] = Inr m"
| "run_machine st m (i # is) =
     (case st m i of Inl e \<Rightarrow> Inl e | Inr m' \<Rightarrow> run_machine st m' is)"

locale lifecycle =
  fixes machine_step :: "'m \<Rightarrow> 'i \<Rightarrow> 'e + 'm"
    and state_of :: "'m \<Rightarrow> 's"
    and log_of :: "'m \<Rightarrow> ('s, 't) log_entry list"
    and trig_of :: "'i \<Rightarrow> 't"
    and enabled :: "'s \<Rightarrow> 't \<Rightarrow> bool"
    and is_terminal :: "'s \<Rightarrow> bool"
  assumes step_rejects: "\<not> enabled (state_of m) (trig_of i) \<Longrightarrow> \<exists>e. machine_step m i = Inl e"
    and step_accepts: "enabled (state_of m) (trig_of i) \<Longrightarrow> \<exists>m'. machine_step m i = Inr m'"
    and step_logs: "machine_step m i = Inr m' \<Longrightarrow>
        \<exists>e. log_of m' = log_of m @ [e] \<and> le_from e = state_of m \<and> le_to e = state_of m'
            \<and> le_trigger e = trig_of i"
    and terminal_disabled: "is_terminal s \<Longrightarrow> \<not> enabled s t"
begin

lemma step_ok_iff: "(\<exists>m'. machine_step m i = Inr m') \<longleftrightarrow> enabled (state_of m) (trig_of i)"
  using step_accepts step_rejects by (metis Inr_Inl_False)

lemma run_log_chain:
  "run_machine machine_step m is = Inr m' \<Longrightarrow>
   \<exists>es. log_of m' = log_of m @ es \<and> log_chain (state_of m) es (state_of m')
      \<and> map le_trigger es = map trig_of is"
proof (induction "is" arbitrary: m)
  case Nil
  then show ?case by simp
next
  case (Cons i "is")
  then obtain m1 where m1: "machine_step m i = Inr m1"
    and rest: "run_machine machine_step m1 is = Inr m'"
    by (auto split: sum.splits)
  obtain e where e: "log_of m1 = log_of m @ [e]" "le_from e = state_of m"
      "le_to e = state_of m1" "le_trigger e = trig_of i"
    using step_logs [OF m1] by blast
  obtain es where es: "log_of m' = log_of m1 @ es" "log_chain (state_of m1) es (state_of m')"
      "map le_trigger es = map trig_of is"
    using Cons.IH [OF rest] by blast
  have "log_of m' = log_of m @ (e # es)" "log_chain (state_of m) (e # es) (state_of m')"
    "map le_trigger (e # es) = map trig_of (i # is)"
    using e es by auto
  then show ?case by blast
qed

lemma run_from_terminal:
  assumes "is_terminal (state_of m)" and "run_machine machine_step m is = Inr m'"
  shows "is = [] \<and> m' = m"
proof (cases "is")
  case Nil
  with assms show ?thesis by simp
next
  case (Cons i js)
  obtain e where "machine_step m i = Inl e"
    using step_rejects terminal_disabled [OF assms(1)] by blast
  with assms(2) Cons show ?thesis by simp
qed

end

end
