(* ===== verification/Position_FSM.thy ===== *)
theory Position_FSM
  imports Lifecycle
begin

text \<open>
  \<^verbatim>\<open>app/services/position/state_machine.py\<close>: the states and triggers of a position, the table
  \<open>VALID_TRANSITIONS\<close>, and the class \<open>PositionStateMachine\<close> with its reconnect memory and its
  transition log. The clock reading that the code stamps into each log entry is an argument.
  \<open>_transition_log\<close> is the restored prefix \<open>pm_restored\<close> (raw dictionaries read back from the
  database) followed by the entries \<open>pm_log\<close> appended by this machine.
\<close>

datatype position_state =
    PENDING | ENTERING | OPEN | ADJUSTING | CLOSING | CLOSED | CANCELLED | FAILED
  | RECONNECTING | ERROR_RECOVERY

datatype transition_trigger =
    ENTRY_SUBMITTED | ENTRY_FILLED | ENTRY_REJECTED | ENTRY_TIMEOUT | ENTRY_CANCELLED
  | INDICATOR_TRIGGER | TRAILING_TICK | BREAKEVEN_REACHED | VOLATILITY_SHIFT
  | ADJUSTMENT_COMPLETE | ADJUSTMENT_FAILED
  | SL_TRIGGERED | TP_TRIGGERED | PARTIAL_CLOSE | MANUAL_CLOSE | ALL_CLOSED | CLOSE_FAILED
  | WS_DISCONNECTED | WS_RECONNECTED | SYNC_COMPLETE | EMERGENCY_SL_PLACED | EMERGENCY_CLOSE

fun position_state_value :: "position_state \<Rightarrow> string" where
  "position_state_value PENDING = ''pending''"
| "position_state_value ENTERING = ''entering''"
| "position_state_value OPEN = ''open''"
| "position_state_value ADJUSTING = ''adjusting''"
| "position_state_value CLOSING = ''closing''"
| "position_state_value CLOSED = ''closed''"
| "position_state_value CANCELLED = ''cancelled''"
| "position_state_value FAILED = ''failed''"
| "position_state_value RECONNECTING = ''reconnecting''"
| "position_state_value ERROR_RECOVERY = ''error_recovery''"

fun trigger_value :: "transition_trigger \<Rightarrow> string" where
  "trigger_value ENTRY_SUBMITTED = ''entry_submitted''"
| "trigger_value ENTRY_FILLED = ''entry_filled''"
| "trigger_value ENTRY_REJECTED = ''entry_rejected''"
| "trigger_value ENTRY_TIMEOUT = ''entry_timeout''"
| "trigger_value ENTRY_CANCELLED = ''entry_cancelled''"
| "trigger_value INDICATOR_TRIGGER = ''indicator_trigger''"
| "trigger_value TRAILING_TICK = ''trailing_tick''"
| "trigger_value BREAKEVEN_REACHED = ''breakeven_reached''"
| "trigger_value VOLATILITY_SHIFT = ''volatility_shift''"
| "trigger_value ADJUSTMENT_COMPLETE = ''adjustment_complete''"
| "trigger_value ADJUSTMENT_FAILED = ''adjustment_failed''"
| "trigger_value SL_TRIGGERED = ''sl_triggered''"
| "trigger_value TP_TRIGGERED = ''tp_triggered''"
| "trigger_value PARTIAL_CLOSE = ''partial_close''"
| "trigger_value MANUAL_CLOSE = ''manual_close''"
| "trigger_value ALL_CLOSED = ''all_closed''"
| "trigger_value CLOSE_FAILED = ''close_failed''"
| "trigger_value WS_DISCONNECTED = ''ws_disconnected''"
| "trigger_value WS_RECONNECTED = ''ws_reconnected''"
| "trigger_value SYNC_COMPLETE = ''sync_complete''"
| "trigger_value EMERGENCY_SL_PLACED = ''emergency_sl_placed''"
| "trigger_value EMERGENCY_CLOSE = ''emergency_close''"

definition all_position_states :: "position_state list" where
  "all_position_states =
     [PENDING, ENTERING, OPEN, ADJUSTING, CLOSING, CLOSED, CANCELLED, FAILED, RECONNECTING,
      ERROR_RECOVERY]"

fun valid_transitions :: "position_state \<Rightarrow> (transition_trigger \<times> position_state) list" where
  "valid_transitions PENDING = [(ENTRY_SUBMITTED, ENTERING), (ENTRY_CANCELLED, CANCELLED)]"
| "valid_transitions ENTERING =
     [(ENTRY_FILLED, OPEN), (ENTRY_REJECTED, FAILED), (ENTRY_TIMEOUT, FAILED),
      (ENTRY_CANCELLED, CANCELLED)]"
| "valid_transitions OPEN =
     [(INDICATOR_TRIGGER, ADJUSTING), (TRAILING_TICK, ADJUSTING),
      (BREAKEVEN_REACHED, ADJUSTING), (VOLATILITY_SHIFT, ADJUSTING),
      (SL_TRIGGERED, CLOSING), (TP_TRIGGERED, CLOSING), (PARTIAL_CLOSE, CLOSING),
      (MANUAL_CLOSE, CLOSING), (WS_DISCONNECTED, RECONNECTING)]"
| "valid_transitions ADJUSTING =
     [(ADJUSTMENT_COMPLETE, OPEN), (ADJUSTMENT_FAILED, ERROR_RECOVERY),
      (SL_TRIGGERED, CLOSING), (TP_TRIGGERED, CLOSING), (MANUAL_CLOSE, CLOSING),
      (WS_DISCONNECTED, RECONNECTING)]"
| "valid_transitions CLOSING =
     [(ALL_CLOSED, CLOSED), (CLOSE_FAILED, ERROR_RECOVERY), (PARTIAL_CLOSE, OPEN),
      (WS_DISCONNECTED, RECONNECTING)]"
| "valid_transitions RECONNECTING =
     [(WS_RECONNECTED, OPEN), (SYNC_COMPLETE, OPEN), (ALL_CLOSED, CLOSED)]"
| "valid_transitions ERROR_RECOVERY = [(EMERGENCY_SL_PLACED, OPEN), (EMERGENCY_CLOSE, CLOSED)]"
| "valid_transitions _ = []"

datatype fsm_error = InvalidTransitionError transition_trigger position_state string

record position_machine =
  pm_position_id :: string
  pm_state :: position_state
  pm_pre_reconnect :: "position_state option"
  pm_restored :: "pydict list"
  pm_log :: "(position_state, transition_trigger) log_entry list"

definition new_position_machine :: "string \<Rightarrow> position_state \<Rightarrow> position_machine" where
  "new_position_machine pid st =
     \<lparr>pm_position_id = pid, pm_state = st, pm_pre_reconnect = None, pm_restored = [],
      pm_log = []\<rparr>"

definition can_transition :: "position_machine \<Rightarrow> transition_trigger \<Rightarrow> bool" where
  "can_transition m t = (map_of (valid_transitions (pm_state m)) t \<noteq> None)"

record transition_call =
  tc_trigger :: transition_trigger
  tc_reason :: string
  tc_metadata :: "pydict option"
  tc_now :: string

definition transition :: "position_machine \<Rightarrow> transition_call \<Rightarrow> fsm_error + position_machine" where
  "transition m c =
     (case map_of (valid_transitions (pm_state m)) (tc_trigger c) of
        None \<Rightarrow> Inl (InvalidTransitionError (tc_trigger c) (pm_state m) (pm_position_id m))
      | Some new_state \<Rightarrow>
          let old_state = pm_state m;
              pre = (if new_state = RECONNECTING then Some old_state else pm_pre_reconnect m);
              restore = (tc_trigger c = SYNC_COMPLETE \<and> pre \<noteq> None);
              new_state' = (if restore then the pre else new_state);
              pre' = (if restore then None else pre);
              entry = \<lparr>le_timestamp = tc_now c, le_from = old_state, le_to = new_state',
                       le_trigger = tc_trigger c, le_reason = tc_reason c,
                       le_metadata = (case tc_metadata c of None \<Rightarrow> [] | Some d \<Rightarrow> d)\<rparr>
          in Inr (m\<lparr>pm_state := new_state', pm_pre_reconnect := pre',
                    pm_log := pm_log m @ [entry]\<rparr>))"

definition log_entry_dict :: "(position_state, transition_trigger) log_entry \<Rightarrow> pydict" where
  "log_entry_dict e =
     [(''timestamp'', VStr (le_timestamp e)),
      (''from'', VStr (position_state_value (le_from e))),
      (''to'', VStr (position_state_value (le_to e))),
      (''trigger'', VStr (trigger_value (le_trigger e))),
      (''reason'', VStr (le_reason e)),
      (''metadata'', VDict (le_metadata e))]"

definition get_transition_log :: "position_machine \<Rightarrow> pydict list" where
  "get_transition_log m = pm_restored m @ map log_entry_dict (pm_log m)"

definition terminal_position_state :: "position_state \<Rightarrow> bool" where
  "terminal_position_state s = (s = CLOSED \<or> s = CANCELLED \<or> s = FAILED)"

section \<open>The machine keeps the lifecycle laws\<close>

definition position_enabled :: "position_state \<Rightarrow> transition_trigger \<Rightarrow> bool" where
  "position_enabled s t = (map_of (valid_transitions s) t \<noteq> None)"

lemma can_transition_iff [simp]: "can_transition m t = position_enabled (pm_state m) t"
  by (simp add: can_transition_def position_enabled_def)

lemma transition_ok_iff: "(\<exists>m'. transition m c = Inr m') \<longleftrightarrow> can_transition m (tc_trigger c)"
  by (auto simp: transition_def position_enabled_def Let_def split: option.splits)

interpretation pos: lifecycle transition pm_state pm_log tc_trigger position_enabled
  terminal_position_state
proof unfold_locales
  fix m :: position_machine and i :: transition_call
  assume "\<not> position_enabled (pm_state m) (tc_trigger i)"
  then show "\<exists>e. transition m i = Inl e"
    by (auto simp: transition_def position_enabled_def)
next
  fix m :: position_machine and i :: transition_call
  assume "position_enabled (pm_state m) (tc_trigger i)"
  then show "\<exists>m'. transition m i = Inr m'"
    by (simp add: transition_ok_iff)
next
  fix m m' :: position_machine and i :: transition_call
  assume "transition m i = Inr m'"
  then show "\<exists>e. pm_log m' = pm_log m @ [e] \<and> le_from e = pm_state m \<and> le_to e = pm_state m'
      \<and> le_trigger e = tc_trigger i"
    by (auto simp: transition_def Let_def split: option.splits)
next
  fix s t
  assume "terminal_position_state s"
  then show "\<not> position_enabled s t"
    by (auto simp: terminal_position_state_def position_enabled_def)
qed

lemma terminal_iff_stuck: "terminal_position_state s \<longleftrightarrow> (\<forall>t. \<not> position_enabled s t)"
proof
  assume "\<forall>t. \<not> position_enabled s t"
  then have "map_of (valid_transitions s) = Map.empty"
    by (simp add: position_enabled_def fun_eq_iff del: map_of_eq_empty_iff)
  then have "valid_transitions s = []"
    by (simp only: map_of_eq_empty_iff)
  then show "terminal_position_state s"
    by (cases s) (auto simp: terminal_position_state_def)
qed (use pos.terminal_disabled in blast)

text \<open>The reconnect memory: in a machine driven only by \<open>transition\<close> from a fresh one, the memory
  is set whenever the machine is reconnecting, and what it holds is a live working state.\<close>

definition reconnect_inv :: "position_machine \<Rightarrow> bool" where
  "reconnect_inv m =
     ((pm_state m = RECONNECTING \<longrightarrow> pm_pre_reconnect m \<noteq> None)
      \<and> (\<forall>s. pm_pre_reconnect m = Some s \<longrightarrow> s \<in> {OPEN, ADJUSTING, CLOSING}))"

lemma to_reconnecting_from:
  "map_of (valid_transitions s) t = Some RECONNECTING \<Longrightarrow> s \<in> {OPEN, ADJUSTING, CLOSING}"
  by (cases s) (auto split: if_splits)

lemma sync_only_from_reconnecting:
  "map_of (valid_transitions s) SYNC_COMPLETE = Some s' \<Longrightarrow> s = RECONNECTING \<and> s' = OPEN"
  by (cases s) auto

lemma reconnect_inv_new: "st \<noteq> RECONNECTING \<Longrightarrow> reconnect_inv (new_position_machine pid st)"
  by (simp add: reconnect_inv_def new_position_machine_def)

lemma transition_reconnect_inv:
  assumes "reconnect_inv m" and "transition m c = Inr m'"
  shows "reconnect_inv m'"
proof -
  from assms(2) obtain s where s: "map_of (valid_transitions (pm_state m)) (tc_trigger c) = Some s"
    by (auto simp: transition_def split: option.splits)
  show ?thesis
  proof (cases "tc_trigger c = SYNC_COMPLETE")
    case True
    with s have "pm_state m = RECONNECTING" "s = OPEN"
      using sync_only_from_reconnecting by auto
    with assms s True show ?thesis
      by (auto simp: transition_def Let_def reconnect_inv_def)
  next
    case False
    with assms s show ?thesis
      by (auto simp: transition_def Let_def reconnect_inv_def split: if_splits
               dest: to_reconnecting_from)
  qed
qed

lemma run_reconnect_inv:
  "reconnect_inv m \<Longrightarrow> run_machine transition m cs = Inr m' \<Longrightarrow> reconnect_inv m'"
  by (induction cs arbitrary: m) (auto split: sum.splits dest: transition_reconnect_inv)

section \<open>Properties\<close>

definition plain_call :: "transition_trigger \<Rightarrow> transition_call" where
  "plain_call t = \<lparr>tc_trigger = t, tc_reason = [], tc_metadata = None, tc_now = []\<rparr>"

text \<open>A run of accepted triggers extends the log by one entry per trigger, in order; the new
  entries form an unbroken chain from the state the run started in to the state it ended in, and
  entries already written are never changed.\<close>

theorem position_run_logged:
  assumes "run_machine transition m cs = Inr m'"
  shows "\<exists>es. pm_log m' = pm_log m @ es \<and> log_chain (pm_state m) es (pm_state m')
    \<and> map le_trigger es = map tc_trigger cs"
  using assms by (rule pos.run_log_chain)

theorem position_run_logged_witness:
  "\<exists>m' es. run_machine transition (new_position_machine ''p'' PENDING)
       (map plain_call [ENTRY_SUBMITTED, ENTRY_FILLED, TP_TRIGGERED, ALL_CLOSED]) = Inr m'
     \<and> pm_log m' = es \<and> log_chain PENDING es CLOSED \<and> length es = 4"
proof -
  obtain m' where m': "run_machine transition (new_position_machine ''p'' PENDING)
       (map plain_call [ENTRY_SUBMITTED, ENTRY_FILLED, TP_TRIGGERED, ALL_CLOSED]) = Inr m'"
    and s: "pm_state m' = CLOSED"
    by (simp add: plain_call_def new_position_machine_def transition_def Let_def)
  obtain es where "pm_log m' = es" "log_chain PENDING es CLOSED"
    "map le_trigger es = [ENTRY_SUBMITTED, ENTRY_FILLED, TP_TRIGGERED, ALL_CLOSED]"
    using position_run_logged [OF m'] s by (auto simp: new_position_machine_def plain_call_def)
  moreover then have "length es = 4" using length_map [of le_trigger es] by simp
  ultimately show ?thesis using m' by blast
qed

text \<open>The terminal states of the position lifecycle are exactly the states no trigger leaves:
  \<open>CLOSED\<close>, \<open>CANCELLED\<close> and \<open>FAILED\<close>; every other state accepts some trigger.\<close>

lemma position_terminal_exact:
  "(\<forall>c. \<exists>e. transition m c = Inl e) \<longleftrightarrow> terminal_position_state (pm_state m)"
proof
  assume l: "\<forall>c. \<exists>e. transition m c = Inl e"
  have "\<not> position_enabled (pm_state m) t" for t
  proof -
    obtain e where "transition m (plain_call t) = Inl e" using l by blast
    with pos.step_accepts [of m "plain_call t"] show ?thesis by (auto simp: plain_call_def)
  qed
  then show "terminal_position_state (pm_state m)" by (simp add: terminal_iff_stuck)
qed (use pos.step_rejects pos.terminal_disabled in blast)

text \<open>Losing and regaining the stream is transparent. In any machine, a disconnect is
  accepted in exactly the working states \<open>OPEN\<close>, \<open>ADJUSTING\<close> and \<open>CLOSING\<close>, and
  the synchronisation that follows it is accepted and brings the machine back to the state it had
  before, with nothing left in the reconnect memory.\<close>

theorem reconnect_restores_state:
  assumes "tc_trigger c = WS_DISCONNECTED" and "tc_trigger d = SYNC_COMPLETE"
  shows "(\<exists>m1. transition m c = Inr m1) = (pm_state m \<in> {OPEN, ADJUSTING, CLOSING})
    \<and> (\<forall>m1. transition m c = Inr m1 \<longrightarrow> pm_state m1 = RECONNECTING
         \<and> (\<exists>m2. transition m1 d = Inr m2 \<and> pm_state m2 = pm_state m \<and> pm_pre_reconnect m2 = None))"
  using assms by (cases "pm_state m") (auto simp: transition_def Let_def)

theorem reconnect_restores_state_witness:
  "\<exists>m1 m2. transition (new_position_machine ''p'' CLOSING) (plain_call WS_DISCONNECTED) = Inr m1
     \<and> transition m1 (plain_call SYNC_COMPLETE) = Inr m2 \<and> pm_state m2 = CLOSING"
  using reconnect_restores_state [of "plain_call WS_DISCONNECTED" "plain_call SYNC_COMPLETE"
      "new_position_machine ''p'' CLOSING"]
  by (auto simp: plain_call_def new_position_machine_def)

text \<open>The reconnect memory is sound along every run from a fresh machine: whenever the machine
  is \<open>RECONNECTING\<close> the memory holds a state, and a state held there is a working state.\<close>

lemma reconnect_memory_sound:
  assumes "st \<noteq> RECONNECTING" and "run_machine transition (new_position_machine pid st) cs = Inr m"
  shows "(pm_state m = RECONNECTING \<longrightarrow> pm_pre_reconnect m \<noteq> None)
    \<and> (\<forall>s. pm_pre_reconnect m = Some s \<longrightarrow> s \<in> {OPEN, ADJUSTING, CLOSING})"
  using run_reconnect_inv [OF reconnect_inv_new [OF assms(1)] assms(2)]
  by (simp add: reconnect_inv_def)

end
