(* ===== verification/Position_Context.thy ===== *)
theory Position_Context
  imports Position_FSM
begin

text \<open>
  \<^verbatim>\<open>app/services/position/context.py\<close>: the persisted state of a position. Dynamic values are
  \<open>pyval\<close>s, \<open>rp\<close> is the text of a float or a container under \<open>str()\<close> and \<open>loads\<close> is
  \<open>json.loads\<close> (\<open>None\<close> for a \<open>JSONDecodeError\<close>): both are parameters, every theorem holds for any
  choice of them. \<open>from_db_row\<close> and \<open>to_db_dict\<close> are the two directions of the persistence
  boundary; the section at the end shows that a stored position is read back unchanged.
\<close>

section \<open>Enumerations and converters\<close>

datatype position_side = LONG | SHORT | BOTH

fun position_side_value :: "position_side \<Rightarrow> string" where
  "position_side_value LONG = ''long''"
| "position_side_value SHORT = ''short''"
| "position_side_value BOTH = ''both''"

definition supported_watcher_indicators :: "string list" where
  "supported_watcher_indicators = [''RSI'', ''MACD'', ''ATR'', ''EMA'', ''SMA'', ''EMA_CROSS'']"

definition parse_json :: "(string \<Rightarrow> pyval option) \<Rightarrow> pyval \<Rightarrow> pyval \<Rightarrow> pyval" where
  "parse_json loads value dflt =
     (case value of
        VNone \<Rightarrow> dflt
      | VStr s \<Rightarrow>
          (let raw = py_strip s in
           if raw = [] then dflt
           else (case loads raw of None \<Rightarrow> dflt | Some v \<Rightarrow> v))
      | _ \<Rightarrow> value)"

definition to_float :: "pyval \<Rightarrow> real \<Rightarrow> real" where
  "to_float value dflt =
     (if value = VNone then dflt
      else (case py_float value of Inl e \<Rightarrow> dflt | Inr x \<Rightarrow> x))"

definition to_int :: "pyval \<Rightarrow> int \<Rightarrow> int" where
  "to_int value dflt =
     (if value = VNone then dflt
      else (case py_int value of Inl e \<Rightarrow> dflt | Inr x \<Rightarrow> x))"

definition truthy_words :: "string list" where
  "truthy_words = [''1'', ''true'', ''yes'', ''y'', ''on'']"

definition to_bool :: "pyval \<Rightarrow> bool \<Rightarrow> bool" where
  "to_bool value dflt =
     (case value of
        VNone \<Rightarrow> dflt
      | VBool b \<Rightarrow> b
      | VStr s \<Rightarrow> py_lower (py_strip s) \<in> set truthy_words
      | VSide s \<Rightarrow> order_side_value s \<in> set truthy_words
      | _ \<Rightarrow> py_truth value)"

definition to_iso_string :: "(pyval \<Rightarrow> string) \<Rightarrow> pyval \<Rightarrow> string option \<Rightarrow> string option" where
  "to_iso_string rp value dflt =
     (case value of
        VNone \<Rightarrow> dflt
      | VTime s \<Rightarrow> Some s
      | _ \<Rightarrow> Some (py_str rp value))"

text \<open>The three watcher regular expressions, on text whose white space is already normalised.\<close>

definition match_number :: "string \<Rightarrow> bool" where
  "match_number s =
     (let t = (if s \<noteq> [] \<and> hd s = CHR ''-'' then tl s else s);
          ip = takeWhile is_digit t; r = dropWhile is_digit t
      in ip \<noteq> [] \<and> (r = [] \<or> (hd r = CHR ''.'' \<and> all_digits (tl r))))"

definition match_comparison :: "string \<Rightarrow> (string \<times> string) option" where
  "match_comparison s =
     (let op = (if starts_with s ''>='' then ''>='' else if starts_with s ''>'' then ''>''
                else if starts_with s ''<='' then ''<='' else if starts_with s ''<'' then ''<''
                else []);
          r = dropWhile is_space (drop (length op) s)
      in if op \<noteq> [] \<and> match_number r then Some (op, r) else None)"

definition match_between :: "string \<Rightarrow> (string \<times> string) option" where
  "match_between s =
     (case py_split s of
        [w, a, b] \<Rightarrow>
          if py_lower w = ''between'' \<and> match_number a \<and> match_number b then Some (a, b) else None
      | _ \<Rightarrow> None)"

definition match_cross :: "string \<Rightarrow> string option" where
  "match_cross s =
     (let l = py_lower s in
      if l = ''cross_below'' then Some ''below''
      else if l = ''cross_above'' then Some ''above'' else None)"

definition float_text :: "string \<Rightarrow> real" where
  "float_text s = (case parse_float s of None \<Rightarrow> 0 | Some x \<Rightarrow> x)"

definition normalize_watcher_condition :: "string \<Rightarrow> py_error + string" where
  "normalize_watcher_condition condition =
     (let normalized = join_space (py_split (py_strip condition)) in
      if normalized = [] then Inl (ValueError ''Watcher condition cannot be empty'')
      else case match_comparison normalized of
             Some (op, threshold) \<Rightarrow> Inr (op @ '' '' @ threshold)
           | None \<Rightarrow>
      (case match_between normalized of
         Some (lo, hi) \<Rightarrow>
           if float_text lo \<ge> float_text hi
           then Inl (ValueError ''Watcher between condition requires lower bound < upper bound'')
           else Inr (''between '' @ lo @ '' '' @ hi)
       | None \<Rightarrow>
      (case match_cross normalized of
         Some dir \<Rightarrow> Inr (''cross_'' @ dir)
       | None \<Rightarrow> Inl (ValueError ''Invalid watcher condition format''))))"

definition state_by_value :: "string \<Rightarrow> position_state option" where
  "state_by_value v = find (\<lambda>s. position_state_value s = v) all_position_states"

definition parse_position_state :: "(pyval \<Rightarrow> string) \<Rightarrow> pyval \<Rightarrow> position_state" where
  "parse_position_state rp value =
     (if value = VNone then PENDING
      else let raw = py_strip (py_str rp value) in
        if raw = [] then PENDING
        else case state_by_value (py_lower raw) of
               Some s \<Rightarrow> s
             | None \<Rightarrow>
                 (case find (\<lambda>s. py_upper (position_state_value s) = py_upper raw)
                    all_position_states of Some s \<Rightarrow> s | None \<Rightarrow> PENDING))"

definition parse_position_side :: "(pyval \<Rightarrow> string) \<Rightarrow> pyval \<Rightarrow> position_side" where
  "parse_position_side rp value =
     (if value = VNone then LONG
      else let raw = py_strip (py_str rp value) in
        if raw = [] then LONG
        else case find (\<lambda>s. position_side_value s = py_lower raw) [LONG, SHORT, BOTH] of
               Some s \<Rightarrow> s
             | None \<Rightarrow>
                 (case find (\<lambda>s. py_upper (position_side_value s) = py_upper raw)
                    [LONG, SHORT, BOTH] of Some s \<Rightarrow> s | None \<Rightarrow> LONG))"

section \<open>History entries, take-profit levels, watchers\<close>

record sl_history_entry =
  sh_timestamp :: string
  sh_old_price :: real
  sh_new_price :: real
  sh_reason :: string
  sh_trigger_source :: string
  sh_exchange_order_id :: string

record tp_history_entry =
  th_timestamp :: string
  th_tp_level :: int
  th_old_price :: real
  th_new_price :: real
  th_reason :: string
  th_close_pct :: real
  th_exchange_order_id :: string

record tp_level =
  tl_level :: int
  tl_price_offset_pct :: real
  tl_close_pct :: real
  tl_trigger_price :: real
  tl_status :: string
  tl_exchange_order_id :: "string option"
  tl_move_sl_to :: "string option"
  tl_sl_lock_pct :: "real option"

definition compute_trigger_price :: "real \<Rightarrow> real \<Rightarrow> position_side \<Rightarrow> real" where
  "compute_trigger_price entry_price price_offset_pct side =
     (if side = SHORT then entry_price * (1 - price_offset_pct / 100)
      else entry_price * (1 + price_offset_pct / 100))"

definition tp_level_from_offset ::
    "int \<Rightarrow> real \<Rightarrow> real \<Rightarrow> real \<Rightarrow> position_side \<Rightarrow> string \<Rightarrow> string option \<Rightarrow> string option
      \<Rightarrow> real option \<Rightarrow> tp_level" where
  "tp_level_from_offset level offset_pct close_pct entry_price side status xid move lock =
     \<lparr>tl_level = level, tl_price_offset_pct = offset_pct, tl_close_pct = close_pct,
      tl_trigger_price = compute_trigger_price entry_price offset_pct side,
      tl_status = status, tl_exchange_order_id = xid, tl_move_sl_to = move,
      tl_sl_lock_pct = lock\<rparr>"

definition opt_of :: "(pyval \<Rightarrow> 'a) \<Rightarrow> pyval \<Rightarrow> 'a option" where
  "opt_of f v = (if v = VNone then None else Some (f v))"

definition tp_level_from_dict ::
    "(pyval \<Rightarrow> string) \<Rightarrow> pydict \<Rightarrow> real \<Rightarrow> position_side \<Rightarrow> tp_level" where
  "tp_level_from_dict rp raw entry_price side =
     (let level = to_int (get_none raw ''level'') 0;
          offset_pct = to_float (get_none raw ''price_offset_pct'') 0;
          close_pct = to_float (get_none raw ''close_pct'') 0;
          trigger = get_none raw ''trigger_price'';
          trigger_price = (if trigger = VNone
                           then compute_trigger_price entry_price offset_pct side
                           else to_float trigger 0)
      in \<lparr>tl_level = level, tl_price_offset_pct = offset_pct, tl_close_pct = close_pct,
          tl_trigger_price = trigger_price,
          tl_status = py_str rp (get_default raw ''status'' (VStr ''pending'')),
          tl_exchange_order_id = opt_of (py_str rp) (get_none raw ''exchange_order_id''),
          tl_move_sl_to = opt_of (py_str rp) (get_none raw ''move_sl_to''),
          tl_sl_lock_pct = opt_of (\<lambda>v. to_float v 0) (get_none raw ''sl_lock_pct'')\<rparr>)"

record watcher_config =
  wc_indicator :: string
  wc_params :: pydict
  wc_condition :: string
  wc_action :: string
  wc_action_params :: pydict
  wc_is_active :: bool

text \<open>\<open>WatcherConfig.__post_init__\<close>, on fields whose dictionaries are dictionaries.\<close>

definition watcher_post_init :: "watcher_config \<Rightarrow> py_error + watcher_config" where
  "watcher_post_init w =
     (let indicator = py_upper (py_strip (wc_indicator w)) in
      if indicator \<notin> set supported_watcher_indicators
      then Inl (ValueError (''Unsupported watcher indicator '' @ indicator))
      else case normalize_watcher_condition (wc_condition w) of
             Inl e \<Rightarrow> Inl e
           | Inr condition \<Rightarrow>
               (let action = py_strip (wc_action w) in
                if action = [] then Inl (ValueError ''Watcher action cannot be empty.'')
                else Inr (w\<lparr>wc_indicator := indicator, wc_condition := condition,
                           wc_action := action\<rparr>)))"

section \<open>The position context\<close>

record position_context =
  pc_position_id :: string
  pc_user_id :: string
  pc_account_id :: string
  pc_exchange :: string
  pc_symbol :: string
  pc_state :: position_state
  pc_machine :: position_machine
  pc_side :: position_side
  pc_entry_price :: real
  pc_original_quantity :: real
  pc_current_quantity :: real
  pc_leverage :: int
  pc_current_sl_price :: real
  pc_sl_exchange_order_id :: "string option"
  pc_sl_type :: string
  pc_sl_history :: "sl_history_entry list"
  pc_tp_mode :: string
  pc_tp_levels :: "tp_level list"
  pc_current_tp_price :: "real option"
  pc_tp_history :: "tp_history_entry list"
  pc_dispatched_sl_levels :: "int set"
  pc_trailing_enabled :: bool
  pc_trailing_callback_rate :: "real option"
  pc_trailing_activation_price :: "real option"
  pc_trailing_highest_price :: "real option"
  pc_trailing_lowest_price :: "real option"
  pc_breakeven_enabled :: bool
  pc_breakeven_trigger_rr :: real
  pc_breakeven_activated :: bool
  pc_volatility_sl_enabled :: bool
  pc_volatility_atr_period :: int
  pc_volatility_atr_multiplier :: real
  pc_volatility_last_atr :: "real option"
  pc_kill_switch_enabled :: bool
  pc_kill_switch_atr_spike_mult :: "real option"
  pc_kill_switch_atr_period :: "int option"
  pc_kill_switch_price_move_pct :: "real option"
  pc_kill_switch_cooldown_seconds :: "int option"
  pc_active_watchers :: "watcher_config list"
  pc_adjustment_priority :: "string list"
  pc_opened_at :: string
  pc_closed_at :: "string option"
  pc_last_adjusted_at :: "string option"
  pc_realized_pnl :: real
  pc_commission_total :: real

definition default_priority :: "string list" where
  "default_priority = [''watcher'', ''trailing'', ''breakeven'', ''volatility'']"

text \<open>\<open>PositionContext()\<close> with every default.\<close>

definition default_context :: position_context where
  "default_context =
     \<lparr>pc_position_id = [], pc_user_id = [], pc_account_id = [], pc_exchange = [],
      pc_symbol = [], pc_state = PENDING, pc_machine = new_position_machine [] PENDING,
      pc_side = LONG, pc_entry_price = 0, pc_original_quantity = 0, pc_current_quantity = 0,
      pc_leverage = 1, pc_current_sl_price = 0, pc_sl_exchange_order_id = None,
      pc_sl_type = ''fixed'', pc_sl_history = [], pc_tp_mode = ''single'', pc_tp_levels = [],
      pc_current_tp_price = None, pc_tp_history = [], pc_dispatched_sl_levels = {},
      pc_trailing_enabled = False, pc_trailing_callback_rate = None,
      pc_trailing_activation_price = None, pc_trailing_highest_price = None,
      pc_trailing_lowest_price = None, pc_breakeven_enabled = False,
      pc_breakeven_trigger_rr = 1, pc_breakeven_activated = False,
      pc_volatility_sl_enabled = False, pc_volatility_atr_period = 14,
      pc_volatility_atr_multiplier = 2, pc_volatility_last_atr = None,
      pc_kill_switch_enabled = False, pc_kill_switch_atr_spike_mult = None,
      pc_kill_switch_atr_period = None, pc_kill_switch_price_move_pct = None,
      pc_kill_switch_cooldown_seconds = None, pc_active_watchers = [],
      pc_adjustment_priority = default_priority, pc_opened_at = [], pc_closed_at = None,
      pc_last_adjusted_at = None, pc_realized_pnl = 0, pc_commission_total = 0\<rparr>"

section \<open>Reading a database row\<close>

definition list_dicts :: "pyval \<Rightarrow> pydict list" where
  "list_dicts v =
     (case v of
        VList xs \<Rightarrow> List.map_filter (\<lambda>x. case x of VDict d \<Rightarrow> Some d | _ \<Rightarrow> None) xs
      | _ \<Rightarrow> [])"

definition as_dict :: "pyval \<Rightarrow> py_error + pydict" where
  "as_dict v = (case v of VDict d \<Rightarrow> Inr d | _ \<Rightarrow> Inl (AttributeError ''get''))"

definition sl_history_from_dict :: "(pyval \<Rightarrow> string) \<Rightarrow> pydict \<Rightarrow> sl_history_entry" where
  "sl_history_from_dict rp item =
     \<lparr>sh_timestamp = py_str rp (get_default item ''timestamp'' (VStr [])),
      sh_old_price = to_float (get_none item ''old_price'') 0,
      sh_new_price = to_float (get_none item ''new_price'') 0,
      sh_reason = py_str rp (get_default item ''reason'' (VStr [])),
      sh_trigger_source = py_str rp (get_default item ''trigger_source'' (VStr [])),
      sh_exchange_order_id = py_str rp (get_default item ''exchange_order_id'' (VStr []))\<rparr>"

definition tp_history_from_dict :: "(pyval \<Rightarrow> string) \<Rightarrow> pydict \<Rightarrow> tp_history_entry" where
  "tp_history_from_dict rp item =
     \<lparr>th_timestamp = py_str rp (get_default item ''timestamp'' (VStr [])),
      th_tp_level = to_int (get_none item ''tp_level'') 0,
      th_old_price = to_float (get_none item ''old_price'') 0,
      th_new_price = to_float (get_none item ''new_price'') 0,
      th_reason = py_str rp (get_default item ''reason'' (VStr [])),
      th_close_pct = to_float (get_none item ''close_pct'') 0,
      th_exchange_order_id = py_str rp (get_default item ''exchange_order_id'' (VStr []))\<rparr>"

definition dict_or_empty :: "pyval \<Rightarrow> pydict" where
  "dict_or_empty v = (case v of VDict d \<Rightarrow> d | _ \<Rightarrow> [])"

definition watcher_from_dict :: "(pyval \<Rightarrow> string) \<Rightarrow> pydict \<Rightarrow> py_error + watcher_config" where
  "watcher_from_dict rp item =
     watcher_post_init
       \<lparr>wc_indicator = py_str rp (get_default item ''indicator'' (VStr [])),
        wc_params = dict_or_empty (get_default item ''params'' (VDict [])),
        wc_condition = py_str rp (get_default item ''condition'' (VStr [])),
        wc_action = py_str rp (get_default item ''action'' (VStr [])),
        wc_action_params = dict_or_empty (get_default item ''action_params'' (VDict [])),
        wc_is_active = to_bool (get_none item ''is_active'') True\<rparr>"

fun watchers_from_dicts ::
    "(pyval \<Rightarrow> string) \<Rightarrow> pydict list \<Rightarrow> py_error + watcher_config list" where
  "watchers_from_dicts rp [] = Inr []"
| "watchers_from_dicts rp (d # ds) =
     (case watcher_from_dict rp d of
        Inl e \<Rightarrow> Inl e
      | Inr w \<Rightarrow> (case watchers_from_dicts rp ds of Inl e \<Rightarrow> Inl e | Inr ws \<Rightarrow> Inr (w # ws)))"

definition priority_from :: "(pyval \<Rightarrow> string) \<Rightarrow> pyval \<Rightarrow> string list" where
  "priority_from rp v = (case v of VList xs \<Rightarrow> map (py_str rp) xs | _ \<Rightarrow> default_priority)"

text \<open>The keyword arguments that do not come from a configuration column.\<close>

definition context_of_row ::
    "(pyval \<Rightarrow> string) \<Rightarrow> (string \<Rightarrow> pyval option) \<Rightarrow> pydict \<Rightarrow> position_context" where
  "context_of_row rp loads row =
     (let st = parse_position_state rp (get_none row ''state'');
          side = parse_position_side rp (get_default row ''side'' (get_none row ''position_side''));
          entry_price = to_float (get_none row ''entry_price'') 0;
          col = (\<lambda>k d. parse_json loads (get_none row k) d);
          pid = py_str rp (get_default row ''position_id'' (get_default row ''id'' (VStr [])))
      in default_context\<lparr>
           pc_position_id := pid,
           pc_user_id := py_str rp (get_default row ''user_id'' (VStr [])),
           pc_account_id := py_str rp (get_default row ''account_id'' (VStr [])),
           pc_exchange := py_str rp
             (get_default row ''exchange'' (get_default row ''exchange_name'' (VStr []))),
           pc_symbol := py_str rp (get_default row ''symbol'' (VStr [])),
           pc_state := st,
           pc_machine := (new_position_machine pid st)
             \<lparr>pm_restored := list_dicts (col ''transition_log_json'' (VList []))\<rparr>,
           pc_side := side,
           pc_entry_price := entry_price,
           pc_original_quantity := to_float
             (get_default row ''original_quantity'' (get_default row ''quantity'' (VFloat 0))) 0,
           pc_current_quantity := to_float
             (get_default row ''current_quantity'' (get_default row ''quantity'' (VFloat 0))) 0,
           pc_leverage := to_int (get_none row ''leverage'') 1,
           pc_current_sl_price := to_float
             (get_default row ''current_sl_price'' (get_default row ''sl_price'' (VFloat 0))) 0,
           pc_sl_exchange_order_id := opt_of (py_str rp) (get_none row ''sl_exchange_order_id''),
           pc_sl_type := py_str rp (get_default row ''sl_type'' (VStr ''fixed'')),
           pc_sl_history :=
             map (sl_history_from_dict rp) (list_dicts (col ''sl_history_json'' (VList []))),
           pc_tp_mode := py_str rp (get_default row ''tp_mode'' (VStr ''single'')),
           pc_tp_levels :=
             map (\<lambda>d. tp_level_from_dict rp d entry_price side)
               (list_dicts (col ''tp_levels_json'' (VList []))),
           pc_current_tp_price := opt_of (\<lambda>v. to_float v 0)
             (get_default row ''current_tp_price'' (get_none row ''tp_price'')),
           pc_tp_history :=
             map (tp_history_from_dict rp) (list_dicts (col ''tp_history_json'' (VList []))),
           pc_adjustment_priority := priority_from rp
             (col ''adjustment_priority_json'' (VList (map VStr default_priority))),
           pc_opened_at := (case to_iso_string rp (get_none row ''opened_at'') (Some []) of
                              None \<Rightarrow> [] | Some s \<Rightarrow> s),
           pc_closed_at := to_iso_string rp (get_none row ''closed_at'') None,
           pc_last_adjusted_at := to_iso_string rp (get_none row ''last_adjusted_at'') None,
           pc_realized_pnl := to_float
             (get_default row ''realized_pnl'' (get_none row ''realized_pnl_usdt'')) 0,
           pc_commission_total := to_float
             (get_default row ''commission_total'' (get_none row ''commission_total_usdt'')) 0\<rparr>)"

text \<open>The three rule configurations: a key of the JSON column wins over the flat column.\<close>

definition apply_rule_configs ::
    "pydict \<Rightarrow> pydict \<Rightarrow> pydict \<Rightarrow> pydict \<Rightarrow> position_context \<Rightarrow> position_context" where
  "apply_rule_configs row tcfg bcfg vcfg c =
     (let t = (\<lambda>k rk. get_default tcfg k (get_none row rk));
          b = (\<lambda>k rk. get_default bcfg k (get_none row rk));
          v = (\<lambda>k rk. get_default vcfg k (get_none row rk));
          f = (\<lambda>x. to_float x 0)
      in c\<lparr>pc_trailing_enabled := to_bool (t ''enabled'' ''trailing_enabled'') False,
           pc_trailing_callback_rate := opt_of f (t ''callback_rate'' ''trailing_callback_rate''),
           pc_trailing_activation_price :=
             opt_of f (t ''activation_price'' ''trailing_activation_price''),
           pc_trailing_highest_price := opt_of f (t ''highest_price'' ''trailing_highest_price''),
           pc_trailing_lowest_price := opt_of f (t ''lowest_price'' ''trailing_lowest_price''),
           pc_breakeven_enabled := to_bool (b ''enabled'' ''breakeven_enabled'') False,
           pc_breakeven_trigger_rr := to_float (b ''trigger_rr'' ''breakeven_trigger_rr'') 1,
           pc_breakeven_activated := to_bool (b ''activated'' ''breakeven_activated'') False,
           pc_volatility_sl_enabled := to_bool (v ''enabled'' ''volatility_sl_enabled'') False,
           pc_volatility_atr_period := to_int (v ''atr_period'' ''volatility_atr_period'') 14,
           pc_volatility_atr_multiplier :=
             to_float (v ''atr_multiplier'' ''volatility_atr_multiplier'') 2,
           pc_volatility_last_atr := opt_of f (v ''last_atr'' ''volatility_last_atr'')\<rparr>)"

definition from_db_row ::
    "(pyval \<Rightarrow> string) \<Rightarrow> (string \<Rightarrow> pyval option) \<Rightarrow> pydict \<Rightarrow> py_error + position_context" where
  "from_db_row rp loads row =
     (let col = (\<lambda>k d. parse_json loads (get_none row k) d) in
      case as_dict (col ''trailing_config_json'' (VDict [])) of Inl e \<Rightarrow> Inl e | Inr tcfg \<Rightarrow>
      case as_dict (col ''breakeven_config_json'' (VDict [])) of Inl e \<Rightarrow> Inl e | Inr bcfg \<Rightarrow>
      case as_dict (col ''volatility_config_json'' (VDict [])) of Inl e \<Rightarrow> Inl e | Inr vcfg \<Rightarrow>
      case watchers_from_dicts rp (list_dicts (col ''active_watchers_json'' (VList []))) of
        Inl e \<Rightarrow> Inl e
      | Inr ws \<Rightarrow>
          Inr ((apply_rule_configs row tcfg bcfg vcfg (context_of_row rp loads row))
                 \<lparr>pc_active_watchers := ws\<rparr>))"

section \<open>Writing a database row\<close>

definition sl_history_dict :: "sl_history_entry \<Rightarrow> pydict" where
  "sl_history_dict e =
     [(''timestamp'', VStr (sh_timestamp e)), (''old_price'', VFloat (sh_old_price e)),
      (''new_price'', VFloat (sh_new_price e)), (''reason'', VStr (sh_reason e)),
      (''trigger_source'', VStr (sh_trigger_source e)),
      (''exchange_order_id'', VStr (sh_exchange_order_id e))]"

definition tp_history_dict :: "tp_history_entry \<Rightarrow> pydict" where
  "tp_history_dict e =
     [(''timestamp'', VStr (th_timestamp e)), (''tp_level'', VInt (th_tp_level e)),
      (''old_price'', VFloat (th_old_price e)), (''new_price'', VFloat (th_new_price e)),
      (''reason'', VStr (th_reason e)), (''close_pct'', VFloat (th_close_pct e)),
      (''exchange_order_id'', VStr (th_exchange_order_id e))]"

definition tp_level_dict :: "tp_level \<Rightarrow> pydict" where
  "tp_level_dict l =
     [(''level'', VInt (tl_level l)), (''price_offset_pct'', VFloat (tl_price_offset_pct l)),
      (''close_pct'', VFloat (tl_close_pct l)), (''trigger_price'', VFloat (tl_trigger_price l)),
      (''status'', VStr (tl_status l)),
      (''exchange_order_id'', opt_str (tl_exchange_order_id l)),
      (''move_sl_to'', opt_str (tl_move_sl_to l)),
      (''sl_lock_pct'', opt_float (tl_sl_lock_pct l))]"

definition watcher_dict :: "watcher_config \<Rightarrow> pydict" where
  "watcher_dict w =
     [(''indicator'', VStr (wc_indicator w)), (''params'', VDict (wc_params w)),
      (''condition'', VStr (wc_condition w)), (''action'', VStr (wc_action w)),
      (''action_params'', VDict (wc_action_params w)), (''is_active'', VBool (wc_is_active w))]"

definition to_db_dict :: "position_context \<Rightarrow> pydict" where
  "to_db_dict c =
     (let trailing_config =
            [(''enabled'', VBool (pc_trailing_enabled c)),
             (''callback_rate'', opt_float (pc_trailing_callback_rate c)),
             (''activation_price'', opt_float (pc_trailing_activation_price c)),
             (''highest_price'', opt_float (pc_trailing_highest_price c)),
             (''lowest_price'', opt_float (pc_trailing_lowest_price c))];
          breakeven_config =
            [(''enabled'', VBool (pc_breakeven_enabled c)),
             (''trigger_rr'', VFloat (pc_breakeven_trigger_rr c)),
             (''activated'', VBool (pc_breakeven_activated c))];
          volatility_config =
            [(''enabled'', VBool (pc_volatility_sl_enabled c)),
             (''atr_period'', VInt (pc_volatility_atr_period c)),
             (''atr_multiplier'', VFloat (pc_volatility_atr_multiplier c)),
             (''last_atr'', opt_float (pc_volatility_last_atr c))]
      in [(''position_id'', VStr (pc_position_id c)), (''user_id'', VStr (pc_user_id c)),
          (''account_id'', VStr (pc_account_id c)), (''exchange'', VStr (pc_exchange c)),
          (''symbol'', VStr (pc_symbol c)),
          (''state'', VStr (position_state_value (pc_state c))),
          (''side'', VStr (position_side_value (pc_side c))),
          (''entry_price'', VFloat (pc_entry_price c)),
          (''original_quantity'', VFloat (pc_original_quantity c)),
          (''current_quantity'', VFloat (pc_current_quantity c)),
          (''quantity'', VFloat (pc_current_quantity c)),
          (''leverage'', VInt (pc_leverage c)),
          (''current_sl_price'', VFloat (pc_current_sl_price c)),
          (''sl_price'', VFloat (pc_current_sl_price c)),
          (''sl_exchange_order_id'', opt_str (pc_sl_exchange_order_id c)),
          (''sl_type'', VStr (pc_sl_type c)),
          (''sl_history_json'', VList (map (\<lambda>e. VDict (sl_history_dict e)) (pc_sl_history c))),
          (''tp_mode'', VStr (pc_tp_mode c)),
          (''tp_levels_json'', VList (map (\<lambda>e. VDict (tp_level_dict e)) (pc_tp_levels c))),
          (''current_tp_price'', opt_float (pc_current_tp_price c)),
          (''tp_price'', opt_float (pc_current_tp_price c)),
          (''tp_history_json'', VList (map (\<lambda>e. VDict (tp_history_dict e)) (pc_tp_history c))),
          (''trailing_config_json'', VDict trailing_config),
          (''breakeven_config_json'', VDict breakeven_config),
          (''volatility_config_json'', VDict volatility_config),
          (''active_watchers_json'',
             VList (map (\<lambda>w. VDict (watcher_dict w)) (pc_active_watchers c))),
          (''adjustment_priority_json'', VList (map VStr (pc_adjustment_priority c))),
          (''transition_log_json'', VList (map VDict (get_transition_log (pc_machine c)))),
          (''opened_at'', VStr (pc_opened_at c)),
          (''closed_at'', opt_str (pc_closed_at c)),
          (''last_adjusted_at'', opt_str (pc_last_adjusted_at c)),
          (''realized_pnl'', VFloat (pc_realized_pnl c)),
          (''commission_total'', VFloat (pc_commission_total c))])"

section \<open>Round trip\<close>

text \<open>What survives: everything but the kill-switch configuration, the dispatch guard and the
  machine's reconnect memory, none of which the row carries; the log becomes the restored prefix
  of a fresh machine.\<close>

definition persisted_part :: "position_context \<Rightarrow> position_context" where
  "persisted_part c =
     c\<lparr>pc_machine := (new_position_machine (pc_position_id c) (pc_state c))
         \<lparr>pm_restored := get_transition_log (pc_machine c)\<rparr>,
       pc_dispatched_sl_levels := {},
       pc_kill_switch_enabled := False, pc_kill_switch_atr_spike_mult := None,
       pc_kill_switch_atr_period := None, pc_kill_switch_price_move_pct := None,
       pc_kill_switch_cooldown_seconds := None\<rparr>"

definition watcher_normal :: "watcher_config \<Rightarrow> bool" where
  "watcher_normal w = (watcher_post_init w = Inr w)"

lemma list_dicts_map_VDict [simp]: "list_dicts (VList (map (\<lambda>x. VDict (f x)) xs)) = map f xs"
  by (induction xs) (auto simp: list_dicts_def map_filter_def)

lemma list_dicts_VDict [simp]: "list_dicts (VList (map VDict ds)) = ds"
  using list_dicts_map_VDict [of "\<lambda>d. d" ds] by simp

lemma parse_json_VList [simp]: "parse_json loads (VList xs) d = VList xs"
  by (simp add: parse_json_def)

lemma parse_json_VDict [simp]: "parse_json loads (VDict xs) d = VDict xs"
  by (simp add: parse_json_def)

lemma to_float_VFloat [simp]: "to_float (VFloat x) d = x"
  by (simp add: to_float_def)

lemma to_int_VInt [simp]: "to_int (VInt i) d = i"
  by (simp add: to_int_def)

lemma to_bool_VBool [simp]: "to_bool (VBool b) d = b"
  by (simp add: to_bool_def)

lemma opt_of_float [simp]: "opt_of (\<lambda>v. to_float v d) (opt_float x) = x"
  by (cases x) (simp_all add: opt_of_def opt_float_def)

lemma opt_of_str [simp]: "opt_of (py_str rp) (opt_str x) = x"
  by (cases x) (simp_all add: opt_of_def opt_str_def)

lemma to_iso_string_VStr [simp]: "to_iso_string rp (VStr s) d = Some s"
  by (simp add: to_iso_string_def)

lemma to_iso_string_opt [simp]: "to_iso_string rp (opt_str x) None = x"
  by (cases x) (simp_all add: opt_str_def to_iso_string_def)

lemma parse_state_value [simp]:
  "parse_position_state rp (VStr (position_state_value s)) = s"
  by (cases s) (simp_all add: parse_position_state_def state_by_value_def all_position_states_def
      Let_def py_strip_def is_space_def py_lower_def lower_char_def)

lemma parse_side_value [simp]:
  "parse_position_side rp (VStr (position_side_value s)) = s"
  by (cases s) (simp_all add: parse_position_side_def
      Let_def py_strip_def is_space_def py_lower_def lower_char_def)

lemma sl_history_roundtrip [simp]: "sl_history_from_dict rp (sl_history_dict e) = e"
  by (simp add: sl_history_from_dict_def sl_history_dict_def)

lemma tp_history_roundtrip [simp]: "tp_history_from_dict rp (tp_history_dict e) = e"
  by (simp add: tp_history_from_dict_def tp_history_dict_def)

lemma tp_level_roundtrip [simp]: "tp_level_from_dict rp (tp_level_dict l) ep side = l"
  by (simp add: tp_level_from_dict_def tp_level_dict_def Let_def)

lemma watcher_roundtrip: "watcher_normal w \<Longrightarrow> watcher_from_dict rp (watcher_dict w) = Inr w"
  by (cases w) (simp add: watcher_from_dict_def watcher_dict_def dict_or_empty_def watcher_normal_def)

lemma watchers_roundtrip:
  "list_all watcher_normal ws \<Longrightarrow> watchers_from_dicts rp (map watcher_dict ws) = Inr ws"
  by (induction ws) (simp_all add: watcher_roundtrip)

lemma priority_roundtrip [simp]: "priority_from rp (VList (map VStr ps)) = ps"
  by (induction ps) (simp_all add: priority_from_def)

lemma context_of_row_roundtrip:
  "context_of_row rp loads (to_db_dict c) =
     default_context\<lparr>pc_position_id := pc_position_id c, pc_user_id := pc_user_id c,
       pc_account_id := pc_account_id c, pc_exchange := pc_exchange c, pc_symbol := pc_symbol c,
       pc_state := pc_state c,
       pc_machine := (new_position_machine (pc_position_id c) (pc_state c))
         \<lparr>pm_restored := get_transition_log (pc_machine c)\<rparr>,
       pc_side := pc_side c, pc_entry_price := pc_entry_price c,
       pc_original_quantity := pc_original_quantity c,
       pc_current_quantity := pc_current_quantity c, pc_leverage := pc_leverage c,
       pc_current_sl_price := pc_current_sl_price c,
       pc_sl_exchange_order_id := pc_sl_exchange_order_id c, pc_sl_type := pc_sl_type c,
       pc_sl_history := pc_sl_history c, pc_tp_mode := pc_tp_mode c,
       pc_tp_levels := pc_tp_levels c, pc_current_tp_price := pc_current_tp_price c,
       pc_tp_history := pc_tp_history c, pc_adjustment_priority := pc_adjustment_priority c,
       pc_opened_at := pc_opened_at c, pc_closed_at := pc_closed_at c,
       pc_last_adjusted_at := pc_last_adjusted_at c, pc_realized_pnl := pc_realized_pnl c,
       pc_commission_total := pc_commission_total c\<rparr>"
  by (simp add: context_of_row_def to_db_dict_def Let_def comp_def)

lemma from_db_row_to_db_dict:
  assumes "list_all watcher_normal (pc_active_watchers c)"
  shows "from_db_row rp loads (to_db_dict c) = Inr (persisted_part c)"
proof -
  have cols: "parse_json loads (get_none (to_db_dict c) ''active_watchers_json'') d
      = VList (map (\<lambda>w. VDict (watcher_dict w)) (pc_active_watchers c))" for d
    by (simp add: to_db_dict_def)
  show ?thesis
    unfolding from_db_row_def Let_def cols list_dicts_map_VDict watchers_roundtrip [OF assms]
      context_of_row_roundtrip
    by (simp add: to_db_dict_def as_dict_def apply_rule_configs_def persisted_part_def
        default_context_def Let_def)
qed

section \<open>The watcher constructor is idempotent\<close>

abbreviation blank_free :: "string \<Rightarrow> bool" where
  "blank_free s \<equiv> (\<forall>c \<in> set s. \<not> is_space c)"

lemma dropWhile_hd_neg: "s = [] \<or> \<not> P (hd s) \<Longrightarrow> dropWhile P s = s"
  by (cases s) auto

lemma strip_ends: "py_strip s = [] \<or> (\<not> is_space (hd (py_strip s)) \<and> \<not> is_space (last (py_strip s)))"
proof -
  define t where "t = dropWhile is_space s"
  define u where "u = dropWhile is_space (rev t)"
  have u: "py_strip s = rev u" by (simp add: py_strip_def t_def u_def)
  have tl: "t = [] \<or> \<not> is_space (hd t)" using hd_dropWhile [of is_space s] by (auto simp: t_def)
  show ?thesis
  proof (cases "u = []")
    case False
    then have hd_u: "\<not> is_space (hd u)" unfolding u_def by (rule hd_dropWhile)
    obtain v where v: "rev t = v @ u" unfolding u_def by (metis takeWhile_dropWhile_id)
    then have "t = rev u @ rev v" by (metis rev_append rev_rev_ident)
    with False have "hd t = hd (rev u)" "t \<noteq> []" by simp_all
    with tl hd_u False show ?thesis by (simp add: u last_rev)
  qed (simp add: u)
qed

lemma strip_id: "s = [] \<or> (\<not> is_space (hd s) \<and> \<not> is_space (last s)) \<Longrightarrow> py_strip s = s"
  by (auto simp: py_strip_def dropWhile_hd_neg hd_rev)

lemma strip_strip [simp]: "py_strip (py_strip s) = py_strip s"
  by (rule strip_id [OF strip_ends])

lemma match_number_blank_free:
  assumes "match_number s"
  shows "s \<noteq> [] \<and> blank_free s"
proof -
  have dig: "\<not> is_space c" if "is_digit c" for c
    using that by (auto simp: is_digit_def is_space_def Let_def)
  define t where "t = (if s \<noteq> [] \<and> hd s = CHR ''-'' then tl s else s)"
  have s: "s = t \<or> s = CHR ''-'' # t" by (cases s) (auto simp: t_def)
  have t: "t = takeWhile is_digit t @ dropWhile is_digit t" by simp
  have mt: "takeWhile is_digit t \<noteq> [] \<and> (dropWhile is_digit t = []
      \<or> (hd (dropWhile is_digit t) = CHR ''.'' \<and> all_digits (tl (dropWhile is_digit t))))"
    using assms unfolding match_number_def Let_def t_def .
  then have "dropWhile is_digit t = [] \<or> (\<exists>r. dropWhile is_digit t = CHR ''.'' # r \<and> all_digits r)"
    by (metis list.collapse)
  then have "blank_free (dropWhile is_digit t)"
    using dig by (auto simp: all_digits_def list_all_iff is_space_def
        simp del: dropWhile_eq_Nil_conv)
  moreover have "blank_free (takeWhile is_digit t)" using dig by (auto dest: set_takeWhileD)
  ultimately have "blank_free t" by (metis t Un_iff set_append)
  moreover have "t \<noteq> []" using mt by auto
  ultimately show ?thesis using s by (auto simp: is_space_def)
qed

lemma split_aux_word:
  "blank_free w \<Longrightarrow> py_split_aux acc (w @ cs) = py_split_aux (rev w @ acc) cs"
  by (induction w arbitrary: acc) auto

lemma split_one: "blank_free w \<Longrightarrow> w \<noteq> [] \<Longrightarrow> py_split w = [w]"
  using split_aux_word [of w "[]" "[]"] by (simp add: py_split_def)

lemma split_word:
  "blank_free w \<Longrightarrow> w \<noteq> [] \<Longrightarrow> py_split (w @ CHR '' '' # cs) = w # py_split cs"
  using split_aux_word [of w "[]" "CHR '' '' # cs"] by (simp add: py_split_def is_space_def)

lemma strip_words:
  "blank_free a \<Longrightarrow> a \<noteq> [] \<Longrightarrow> blank_free b \<Longrightarrow> b \<noteq> [] \<Longrightarrow> py_strip (a @ m @ b) = a @ m @ b"
  by (intro strip_id) auto

lemma comparison_normal:
  assumes "match_comparison s = Some (op, t)"
  shows "normalize_watcher_condition (op @ '' '' @ t) = Inr (op @ '' '' @ t)"
proof -
  have op: "op \<in> {''>='', ''>'', ''<='', ''<''}" and t: "match_number t"
    using assms by (auto simp: match_comparison_def Let_def split: if_splits)
  note bf = match_number_blank_free [OF t]
  have opb: "blank_free op" "op \<noteq> []" using op by (auto simp: is_space_def)
  have n: "join_space (py_split (py_strip (op @ '' '' @ t))) = op @ '' '' @ t"
    using strip_words [of op t "'' ''"] split_word [OF opb, of t] split_one [of t] bf opb by simp
  have "dropWhile is_space t = t" using bf by (intro dropWhile_hd_neg) simp
  then have "match_comparison (op @ '' '' @ t) = Some (op, t)"
    using op t by (auto simp: match_comparison_def Let_def is_space_def)
  with n opb show ?thesis by (simp add: normalize_watcher_condition_def)
qed

lemma between_normal:
  assumes "match_between s = Some (lo, hi)" and "float_text lo < float_text hi"
  shows "normalize_watcher_condition (''between '' @ lo @ '' '' @ hi)
    = Inr (''between '' @ lo @ '' '' @ hi)"
proof -
  have m: "match_number lo" "match_number hi"
    using assms(1) by (auto simp: match_between_def split: list.splits if_splits)
  note bf = match_number_blank_free [OF m(1)] match_number_blank_free [OF m(2)]
  let ?s = "''between '' @ lo @ '' '' @ hi"
  have "blank_free ''between''" by (simp add: is_space_def)
  then have sp: "py_split ?s = [''between'', lo, hi]"
    using split_word [of "''between''" "lo @ '' '' @ hi"] split_word [of lo hi] split_one [of hi] bf
    by simp
  have st: "py_strip ?s = ?s"
    using strip_words [of "''between''" hi "'' '' @ lo @ '' ''"] bf by (simp add: is_space_def)
  have "match_comparison ?s = None" by (simp add: match_comparison_def)
  moreover have "match_between ?s = Some (lo, hi)"
    using m sp by (simp add: match_between_def py_lower_def lower_char_def)
  moreover have "join_space (py_split (py_strip ?s)) = ?s" unfolding st sp by simp
  ultimately show ?thesis using assms(2) unfolding normalize_watcher_condition_def Let_def
    by simp
qed

lemma cross_normal:
  "match_cross s = Some d \<Longrightarrow> normalize_watcher_condition (''cross_'' @ d) = Inr (''cross_'' @ d)"
  by (auto simp: match_cross_def Let_def split: if_splits) (code_simp+)

lemma condition_normal:
  assumes "normalize_watcher_condition s = Inr t"
  shows "normalize_watcher_condition t = Inr t"
  using assms comparison_normal between_normal cross_normal
  unfolding normalize_watcher_condition_def [of s] Let_def
  by (auto split: if_splits option.splits)

lemma indicator_normal:
  "i \<in> set supported_watcher_indicators \<Longrightarrow> py_upper (py_strip i) = i"
  by (auto simp: supported_watcher_indicators_def py_strip_def is_space_def py_upper_def
      upper_char_def)

lemma post_init_normal:
  assumes "watcher_post_init w = Inr w'"
  shows "watcher_normal w'"
proof -
  obtain c where c: "normalize_watcher_condition (wc_condition w) = Inr c"
    and w': "w' = w\<lparr>wc_indicator := py_upper (py_strip (wc_indicator w)), wc_condition := c,
                    wc_action := py_strip (wc_action w)\<rparr>"
    and i: "py_upper (py_strip (wc_indicator w)) \<in> set supported_watcher_indicators"
    and a: "py_strip (wc_action w) \<noteq> []"
    using assms by (auto simp: watcher_post_init_def Let_def split: if_splits sum.splits)
  show ?thesis
    using i a condition_normal [OF c] indicator_normal [OF i]
    by (simp add: watcher_normal_def watcher_post_init_def w' Let_def)
qed

section \<open>Properties\<close>

text \<open>C23: The database round trip. Writing a position with \<open>to_db_dict\<close> and reading the row back
  with \<open>from_db_row\<close> succeeds and gives the position back, except for the parts the row does not
  carry (the kill-switch configuration, the dispatch guard, the reconnect memory); the lifecycle
  log survives as the restored log. The only requirement is that every watcher came out of its
  constructor, which normalises and validates it.\<close>

theorem db_roundtrip:
  assumes "\<forall>w \<in> set (pc_active_watchers c). \<exists>w0. watcher_post_init w0 = Inr w"
  shows "from_db_row rp loads (to_db_dict c) = Inr (persisted_part c)"
  using assms post_init_normal by (intro from_db_row_to_db_dict) (auto simp: list_all_iff)

definition sample_watcher :: watcher_config where
  "sample_watcher = \<lparr>wc_indicator = '' rsi'', wc_params = [], wc_condition = '' >=  70.5 '',
     wc_action = ''tighten_sl '', wc_action_params = [], wc_is_active = True\<rparr>"

theorem db_roundtrip_witness:
  "\<exists>w. watcher_post_init sample_watcher = Inr w \<and> wc_condition w = ''>= 70.5''
     \<and> (let c = default_context\<lparr>pc_state := OPEN, pc_active_watchers := [w]\<rparr>
        in from_db_row (\<lambda>_. []) (\<lambda>_. None) (to_db_dict c) = Inr (persisted_part c))"
proof -
  have "watcher_post_init sample_watcher = Inr (sample_watcher\<lparr>wc_indicator := ''RSI'',
      wc_condition := ''>= 70.5'', wc_action := ''tighten_sl''\<rparr>)"
    by (simp add: sample_watcher_def) code_simp
  moreover from this have "from_db_row (\<lambda>_. []) (\<lambda>_. None) (to_db_dict c) = Inr (persisted_part c)"
    if "c = default_context\<lparr>pc_state := OPEN, pc_active_watchers := [sample_watcher\<lparr>wc_indicator := ''RSI'',
      wc_condition := ''>= 70.5'', wc_action := ''tighten_sl''\<rparr>]\<rparr>" for c
    unfolding that by (intro db_roundtrip) auto
  ultimately show ?thesis by (auto simp: Let_def)
qed

end
