(* ===== verification/SL_Rules.thy ===== *)
theory SL_Rules
  imports Position_Context
begin

text \<open>
  \<^verbatim>\<open>app/services/sl_tp/\<close>: the stop-loss rules (\<open>trailing.py\<close>, \<open>breakeven.py\<close>,
  \<open>volatility.py\<close>), the pipeline that picks the most protective candidate (\<open>pipeline.py\<close>) and the
  volatility kill-switch (\<open>kill_switch.py\<close>). The human-readable \<open>detail\<close> text of a candidate is
  not modelled.

  \<open>protective_rule\<close> is the contract of a rule that may only tighten the stop. Trailing and
  volatility satisfy it; break-even does not, and what the pipeline guarantees is stated with the
  condition break-even needs.
\<close>

section \<open>Candidates\<close>

record sl_adjustment =
  ar_new_sl_price :: real
  ar_reason :: string
  ar_is_valid :: bool
  ar_update_tracking :: pydict

text \<open>Python's \<open>x or y\<close> on an optional float.\<close>

definition or_float :: "real option \<Rightarrow> real \<Rightarrow> real" where
  "or_float x y = (case x of None \<Rightarrow> y | Some r \<Rightarrow> if r = 0 then y else r)"

definition evaluate_trailing :: "position_context \<Rightarrow> real \<Rightarrow> sl_adjustment option" where
  "evaluate_trailing position current_price =
     (if \<not> pc_trailing_enabled position then None
      else case pc_trailing_callback_rate position of
        None \<Rightarrow> None
      | Some callback_rate \<Rightarrow>
          if callback_rate \<le> 0 then None
          else if pc_side position = LONG then
            (let new_high = max (or_float (pc_trailing_highest_price position)
                                   (pc_entry_price position)) current_price;
                 new_sl = new_high * (1 - callback_rate / 100)
             in if new_sl \<le> pc_current_sl_price position then None
                else Some \<lparr>ar_new_sl_price = new_sl, ar_reason = ''trailing'', ar_is_valid = True,
                           ar_update_tracking = [(''trailing_highest_price'', VFloat new_high)]\<rparr>)
          else if pc_side position = SHORT then
            (let new_low = min (or_float (pc_trailing_lowest_price position)
                                  (pc_entry_price position)) current_price;
                 new_sl = new_low * (1 + callback_rate / 100)
             in if new_sl \<ge> pc_current_sl_price position then None
                else Some \<lparr>ar_new_sl_price = new_sl, ar_reason = ''trailing'', ar_is_valid = True,
                           ar_update_tracking = [(''trailing_lowest_price'', VFloat new_low)]\<rparr>)
          else None)"

definition evaluate_breakeven :: "position_context \<Rightarrow> real \<Rightarrow> sl_adjustment option" where
  "evaluate_breakeven position current_price =
     (if \<not> pc_breakeven_enabled position \<or> pc_breakeven_activated position then None
      else
        let risk = \<bar>pc_entry_price position - pc_current_sl_price position\<bar>;
            required_move = risk * pc_breakeven_trigger_rr position;
            result = Some \<lparr>ar_new_sl_price = pc_entry_price position, ar_reason = ''breakeven'',
                           ar_is_valid = True,
                           ar_update_tracking = [(''breakeven_activated'', VBool True)]\<rparr>
        in case pc_side position of
             LONG \<Rightarrow> if current_price < pc_entry_price position + required_move then None else result
           | SHORT \<Rightarrow> if current_price > pc_entry_price position - required_move then None else result
           | BOTH \<Rightarrow> None)"

definition evaluate_volatility :: "position_context \<Rightarrow> real option \<Rightarrow> sl_adjustment option" where
  "evaluate_volatility position current_atr =
     (case current_atr of
        None \<Rightarrow> None
      | Some atr \<Rightarrow>
          if \<not> pc_volatility_sl_enabled position then None
          else
            let distance = atr * pc_volatility_atr_multiplier position;
                result = (\<lambda>new_sl. Some \<lparr>ar_new_sl_price = new_sl, ar_reason = ''volatility'',
                            ar_is_valid = True,
                            ar_update_tracking = [(''volatility_last_atr'', VFloat atr)]\<rparr>)
            in case pc_side position of
                 LONG \<Rightarrow> (let new_sl = pc_entry_price position - distance in
                          if new_sl \<le> pc_current_sl_price position then None else result new_sl)
               | SHORT \<Rightarrow> (let new_sl = pc_entry_price position + distance in
                          if new_sl \<ge> pc_current_sl_price position then None else result new_sl)
               | BOTH \<Rightarrow> None)"

section \<open>The pipeline\<close>

definition evaluate_source ::
    "position_context \<Rightarrow> string \<Rightarrow> real \<Rightarrow> real option \<Rightarrow> sl_adjustment option" where
  "evaluate_source position source current_price atr =
     (if source = ''watcher'' then None
      else if source = ''trailing'' then evaluate_trailing position current_price
      else if source = ''breakeven'' then evaluate_breakeven position current_price
      else if source = ''volatility'' then evaluate_volatility position atr
      else None)"

definition pipeline_candidates :: "position_context \<Rightarrow> real \<Rightarrow> real option \<Rightarrow> sl_adjustment list" where
  "pipeline_candidates position current_price atr =
     filter ar_is_valid
       (List.map_filter (\<lambda>src. evaluate_source position src current_price atr)
          (pc_adjustment_priority position))"

text \<open>\<open>min(xs, key=...)\<close> and \<open>max(xs, key=...)\<close>: the first extreme element.\<close>

fun first_min :: "sl_adjustment \<Rightarrow> sl_adjustment list \<Rightarrow> sl_adjustment" where
  "first_min b [] = b"
| "first_min b (x # xs) = first_min (if ar_new_sl_price x < ar_new_sl_price b then x else b) xs"

fun first_max :: "sl_adjustment \<Rightarrow> sl_adjustment list \<Rightarrow> sl_adjustment" where
  "first_max b [] = b"
| "first_max b (x # xs) = first_max (if ar_new_sl_price x > ar_new_sl_price b then x else b) xs"

definition pipeline_evaluate ::
    "position_context \<Rightarrow> real \<Rightarrow> real option \<Rightarrow> sl_adjustment option" where
  "pipeline_evaluate position current_price atr =
     (case pipeline_candidates position current_price atr of
        [] \<Rightarrow> None
      | c # cs \<Rightarrow> Some (if pc_side position = SHORT then first_min c cs else first_max c cs))"

section \<open>The kill-switch\<close>

record kill_switch_signal =
  ks_should_close :: bool
  ks_reason :: "string option"
  ks_actual :: "real option"
  ks_threshold :: "real option"

definition ks_no_close :: kill_switch_signal where
  "ks_no_close = \<lparr>ks_should_close = False, ks_reason = None, ks_actual = None, ks_threshold = None\<rparr>"

definition detect_volatility_spike ::
    "real option \<Rightarrow> real option \<Rightarrow> real option \<Rightarrow> real option \<Rightarrow> real option \<Rightarrow> kill_switch_signal"
where
  "detect_volatility_spike current_atr baseline_atr spike_mult last_bar_move_pct price_threshold =
     (let price_branch =
        (case (price_threshold, last_bar_move_pct) of
           (Some th, Some mv) \<Rightarrow>
             if \<bar>mv\<bar> \<ge> th
             then \<lparr>ks_should_close = True, ks_reason = Some ''price_move'', ks_actual = Some \<bar>mv\<bar>,
                   ks_threshold = Some th\<rparr>
             else ks_no_close
         | _ \<Rightarrow> ks_no_close)
      in case (spike_mult, current_atr, baseline_atr) of
           (Some k, Some cur, Some base) \<Rightarrow>
             if base > 0 \<and> cur \<ge> k * base
             then \<lparr>ks_should_close = True, ks_reason = Some ''atr_spike'', ks_actual = Some cur,
                   ks_threshold = Some (k * base)\<rparr>
             else price_branch
         | _ \<Rightarrow> price_branch)"

section \<open>Applying a candidate\<close>

text \<open>\<open>_apply_state_changes\<close> of the live tracker: \<open>setattr\<close> of each tracked field, then the stop.\<close>

definition set_tracked :: "string \<times> pyval \<Rightarrow> position_context \<Rightarrow> position_context" where
  "set_tracked kv p =
     (case kv of
        (k, VFloat x) \<Rightarrow>
          if k = ''trailing_highest_price'' then p\<lparr>pc_trailing_highest_price := Some x\<rparr>
          else if k = ''trailing_lowest_price'' then p\<lparr>pc_trailing_lowest_price := Some x\<rparr>
          else if k = ''volatility_last_atr'' then p\<lparr>pc_volatility_last_atr := Some x\<rparr>
          else p
      | (k, VBool b) \<Rightarrow>
          if k = ''breakeven_activated'' then p\<lparr>pc_breakeven_activated := b\<rparr> else p
      | _ \<Rightarrow> p)"

definition apply_adjustment :: "sl_adjustment \<Rightarrow> position_context \<Rightarrow> position_context" where
  "apply_adjustment r p =
     (fold set_tracked (ar_update_tracking r) p)\<lparr>pc_current_sl_price := ar_new_sl_price r\<rparr>"

section \<open>What a protective rule promises\<close>

definition tighter :: "position_side \<Rightarrow> real \<Rightarrow> real \<Rightarrow> bool" where
  "tighter side new old = (case side of LONG \<Rightarrow> old < new | SHORT \<Rightarrow> new < old | BOTH \<Rightarrow> False)"

definition not_looser :: "position_side \<Rightarrow> real \<Rightarrow> real \<Rightarrow> bool" where
  "not_looser side new old = (case side of LONG \<Rightarrow> old \<le> new | SHORT \<Rightarrow> new \<le> old | BOTH \<Rightarrow> new = old)"

lemma not_looser_refl [simp]: "not_looser side x x"
  by (cases side) (simp_all add: not_looser_def)

lemma not_looser_trans: "not_looser side z y \<Longrightarrow> not_looser side y x \<Longrightarrow> not_looser side z x"
  by (cases side) (simp_all add: not_looser_def)

lemma tighter_not_looser: "tighter side y x \<Longrightarrow> not_looser side y x"
  by (cases side) (simp_all add: not_looser_def tighter_def)

lemma set_tracked_frame [simp]:
  "pc_side (set_tracked kv p) = pc_side p"
  "pc_entry_price (set_tracked kv p) = pc_entry_price p"
  "pc_current_sl_price (set_tracked kv p) = pc_current_sl_price p"
  "pc_current_quantity (set_tracked kv p) = pc_current_quantity p"
  "pc_position_id (set_tracked kv p) = pc_position_id p"
  "pc_state (set_tracked kv p) = pc_state p"
  "pc_symbol (set_tracked kv p) = pc_symbol p"
  "pc_trailing_enabled (set_tracked kv p) = pc_trailing_enabled p"
  "pc_breakeven_enabled (set_tracked kv p) = pc_breakeven_enabled p"
  "pc_volatility_sl_enabled (set_tracked kv p) = pc_volatility_sl_enabled p"
  by (cases kv; cases "snd kv"; simp add: set_tracked_def)+

lemma fold_set_tracked_frame [simp]:
  "pc_side (fold set_tracked kvs p) = pc_side p"
  "pc_entry_price (fold set_tracked kvs p) = pc_entry_price p"
  "pc_current_quantity (fold set_tracked kvs p) = pc_current_quantity p"
  "pc_position_id (fold set_tracked kvs p) = pc_position_id p"
  "pc_state (fold set_tracked kvs p) = pc_state p"
  "pc_symbol (fold set_tracked kvs p) = pc_symbol p"
  "pc_trailing_enabled (fold set_tracked kvs p) = pc_trailing_enabled p"
  "pc_breakeven_enabled (fold set_tracked kvs p) = pc_breakeven_enabled p"
  "pc_volatility_sl_enabled (fold set_tracked kvs p) = pc_volatility_sl_enabled p"
  by (induction kvs arbitrary: p) simp_all

lemma apply_adjustment_frame [simp]:
  "pc_side (apply_adjustment r p) = pc_side p"
  "pc_entry_price (apply_adjustment r p) = pc_entry_price p"
  "pc_current_quantity (apply_adjustment r p) = pc_current_quantity p"
  "pc_position_id (apply_adjustment r p) = pc_position_id p"
  "pc_state (apply_adjustment r p) = pc_state p"
  "pc_symbol (apply_adjustment r p) = pc_symbol p"
  "pc_trailing_enabled (apply_adjustment r p) = pc_trailing_enabled p"
  "pc_breakeven_enabled (apply_adjustment r p) = pc_breakeven_enabled p"
  "pc_volatility_sl_enabled (apply_adjustment r p) = pc_volatility_sl_enabled p"
  "pc_current_sl_price (apply_adjustment r p) = ar_new_sl_price r"
  by (simp_all add: apply_adjustment_def)

text \<open>Feeding one rule a sequence of inputs and applying every candidate it returns.\<close>

fun run_rule ::
    "(position_context \<Rightarrow> 'x \<Rightarrow> sl_adjustment option) \<Rightarrow> position_context \<Rightarrow> 'x list
      \<Rightarrow> position_context" where
  "run_rule rule p [] = p"
| "run_rule rule p (x # xs) =
     run_rule rule (case rule p x of None \<Rightarrow> p | Some r \<Rightarrow> apply_adjustment r p) xs"

locale protective_rule =
  fixes rule :: "position_context \<Rightarrow> 'x \<Rightarrow> sl_adjustment option"
    and sane :: "'x \<Rightarrow> bool"
  assumes tightens: "rule p x = Some r \<Longrightarrow> tighter (pc_side p) (ar_new_sl_price r) (pc_current_sl_price p)"
    and valid: "rule p x = Some r \<Longrightarrow> ar_is_valid r"
    and settles: "sane x \<Longrightarrow> rule p x = Some r \<Longrightarrow> rule (apply_adjustment r p) x = None"
begin

lemma run_side: "pc_side (run_rule rule p xs) = pc_side p"
  by (induction xs arbitrary: p) (auto split: option.splits)

lemma run_never_loosens:
  "not_looser (pc_side p) (pc_current_sl_price (run_rule rule p xs)) (pc_current_sl_price p)"
proof (induction xs arbitrary: p)
  case Nil
  show ?case by simp
next
  case (Cons x xs)
  show ?case
  proof (cases "rule p x")
    case None
    with Cons.IH [of p] show ?thesis by simp
  next
    case (Some r)
    with tightens [OF Some] Cons.IH [of "apply_adjustment r p"] show ?thesis
      by (auto intro: not_looser_trans tighter_not_looser)
  qed
qed

lemma repeated_input_is_no_op: "sane x \<Longrightarrow> run_rule rule p [x, x] = run_rule rule p [x]"
  using settles by (auto split: option.splits)

end

section \<open>Trailing and volatility are protective rules\<close>

lemmas trailing_simps = evaluate_trailing_def Let_def or_float_def apply_adjustment_def set_tracked_def

lemma trailing_settles:
  assumes "0 < x" and "evaluate_trailing p x = Some r"
  shows "evaluate_trailing (apply_adjustment r p) x = None"
proof (cases "pc_side p")
  case LONG
  with assms show ?thesis
    by (auto simp: trailing_simps max_def split: option.splits if_splits)
next
  case SHORT
  with assms show ?thesis
    by (auto simp: trailing_simps min_def split: option.splits if_splits)
next
  case BOTH
  with assms show ?thesis
    by (auto simp: evaluate_trailing_def split: option.splits if_splits)
qed

interpretation trailing: protective_rule evaluate_trailing "\<lambda>x. 0 < x"
proof unfold_locales
  fix p x r
  assume "evaluate_trailing p x = Some r"
  then show "tighter (pc_side p) (ar_new_sl_price r) (pc_current_sl_price p)" "ar_is_valid r"
    by (auto simp: evaluate_trailing_def Let_def tighter_def split: option.splits if_splits)
qed (rule trailing_settles)

interpretation volatility: protective_rule evaluate_volatility "\<lambda>_. True"
proof unfold_locales
  fix p x r
  assume r: "evaluate_volatility p x = Some r"
  then show "tighter (pc_side p) (ar_new_sl_price r) (pc_current_sl_price p)" "ar_is_valid r"
    by (auto simp: evaluate_volatility_def Let_def tighter_def
        split: option.splits if_splits position_side.splits)
  from r show "evaluate_volatility (apply_adjustment r p) x = None"
    by (auto simp: evaluate_volatility_def Let_def apply_adjustment_def set_tracked_def
        split: option.splits if_splits position_side.splits)
qed

section \<open>The pipeline\<close>

lemma first_min_in: "first_min b xs \<in> set (b # xs)"
  by (induction b xs rule: first_min.induct) auto

lemma first_min_base: "ar_new_sl_price (first_min b xs) \<le> ar_new_sl_price b"
  by (induction b xs rule: first_min.induct) (auto split: if_splits)

lemma first_min_le: "x \<in> set (b # xs) \<Longrightarrow> ar_new_sl_price (first_min b xs) \<le> ar_new_sl_price x"
proof (induction b xs arbitrary: x rule: first_min.induct)
  case (2 b y ys)
  let ?b = "if ar_new_sl_price y < ar_new_sl_price b then y else b"
  have "ar_new_sl_price ?b \<le> ar_new_sl_price b" "ar_new_sl_price ?b \<le> ar_new_sl_price y" by auto
  with "2.prems" "2.IH" [of x] first_min_base [of ?b ys] show ?case by force
qed simp

lemma first_max_in: "first_max b xs \<in> set (b # xs)"
  by (induction b xs rule: first_max.induct) auto

lemma first_max_base: "ar_new_sl_price b \<le> ar_new_sl_price (first_max b xs)"
  by (induction b xs rule: first_max.induct) (auto split: if_splits)

lemma first_max_ge: "x \<in> set (b # xs) \<Longrightarrow> ar_new_sl_price x \<le> ar_new_sl_price (first_max b xs)"
proof (induction b xs arbitrary: x rule: first_max.induct)
  case (2 b y ys)
  let ?b = "if ar_new_sl_price y > ar_new_sl_price b then y else b"
  have "ar_new_sl_price b \<le> ar_new_sl_price ?b" "ar_new_sl_price y \<le> ar_new_sl_price ?b" by auto
  with "2.prems" "2.IH" [of x] first_max_base [of ?b ys] show ?case by force
qed simp

lemma in_candidates_iff:
  "r \<in> set (pipeline_candidates p x atr) \<longleftrightarrow>
     (\<exists>src \<in> set (pc_adjustment_priority p). evaluate_source p src x atr = Some r \<and> ar_is_valid r)"
  by (force simp: pipeline_candidates_def map_filter_def)

lemma pipeline_None_iff: "pipeline_evaluate p x atr = None \<longleftrightarrow> pipeline_candidates p x atr = []"
  by (simp add: pipeline_evaluate_def split: list.splits)

lemma pipeline_picks_candidate:
  assumes "pipeline_evaluate p x atr = Some r"
  shows "r \<in> set (pipeline_candidates p x atr)"
proof -
  obtain c cs where "pipeline_candidates p x atr = c # cs"
    "r = (if pc_side p = SHORT then first_min c cs else first_max c cs)"
    using assms by (auto simp: pipeline_evaluate_def split: list.splits)
  then show ?thesis
    using first_min_in [of c cs] first_max_in [of c cs] by auto
qed

lemma pipeline_most_protective:
  assumes "pipeline_evaluate p x atr = Some r" and "r' \<in> set (pipeline_candidates p x atr)"
  shows "if pc_side p = SHORT then ar_new_sl_price r \<le> ar_new_sl_price r'
         else ar_new_sl_price r' \<le> ar_new_sl_price r"
proof -
  obtain c cs where "pipeline_candidates p x atr = c # cs"
    "r = (if pc_side p = SHORT then first_min c cs else first_max c cs)"
    using assms(1) by (auto simp: pipeline_evaluate_def split: list.splits)
  then show ?thesis
    using assms(2) first_min_le [of r' c cs] first_max_ge [of r' c cs] by auto
qed

text \<open>Break-even is protective exactly while the stop still lies on the loss side of the entry.\<close>

definition stop_on_loss_side :: "position_context \<Rightarrow> bool" where
  "stop_on_loss_side p =
     (case pc_side p of LONG \<Rightarrow> pc_current_sl_price p < pc_entry_price p
      | SHORT \<Rightarrow> pc_entry_price p < pc_current_sl_price p | BOTH \<Rightarrow> True)"

definition breakeven_armed :: "position_context \<Rightarrow> bool" where
  "breakeven_armed p = (pc_breakeven_enabled p \<and> \<not> pc_breakeven_activated p)"

lemma breakeven_Some:
  "evaluate_breakeven p x = Some r \<Longrightarrow>
     breakeven_armed p \<and> ar_new_sl_price r = pc_entry_price p \<and> pc_side p \<noteq> BOTH"
  by (auto simp: evaluate_breakeven_def breakeven_armed_def Let_def
      split: if_splits position_side.splits)

lemma breakeven_tightens:
  "evaluate_breakeven p x = Some r \<Longrightarrow> stop_on_loss_side p \<Longrightarrow>
     tighter (pc_side p) (ar_new_sl_price r) (pc_current_sl_price p)"
  using breakeven_Some [of p x r]
  by (cases "pc_side p") (auto simp: stop_on_loss_side_def tighter_def)

lemma source_tightens:
  assumes "evaluate_source p src x atr = Some r"
    and "breakeven_armed p \<Longrightarrow> stop_on_loss_side p"
  shows "tighter (pc_side p) (ar_new_sl_price r) (pc_current_sl_price p)"
proof -
  consider "evaluate_trailing p x = Some r" | "evaluate_breakeven p x = Some r"
    | "evaluate_volatility p atr = Some r"
    using assms(1) by (auto simp: evaluate_source_def split: if_splits)
  then show ?thesis
    by cases (use trailing.tightens volatility.tightens breakeven_tightens breakeven_Some assms(2)
        in blast)+
qed

lemma pipeline_tightens:
  assumes "pipeline_evaluate p x atr = Some r" and "breakeven_armed p \<Longrightarrow> stop_on_loss_side p"
  shows "tighter (pc_side p) (ar_new_sl_price r) (pc_current_sl_price p)"
  using pipeline_picks_candidate [OF assms(1)] assms(2)
  by (auto simp: in_candidates_iff intro: source_tightens)

section \<open>The kill-switch\<close>

definition atr_spike :: "real option \<Rightarrow> real option \<Rightarrow> real option \<Rightarrow> bool" where
  "atr_spike cur base k =
     (\<exists>c b m. cur = Some c \<and> base = Some b \<and> k = Some m \<and> 0 < b \<and> m * b \<le> c)"

definition price_spike :: "real option \<Rightarrow> real option \<Rightarrow> bool" where
  "price_spike mv th = (\<exists>m t. mv = Some m \<and> th = Some t \<and> t \<le> \<bar>m\<bar>)"

lemma detect_spike_cases:
  "detect_volatility_spike cur base k mv th =
     (if atr_spike cur base k
      then \<lparr>ks_should_close = True, ks_reason = Some ''atr_spike'', ks_actual = cur,
            ks_threshold = Some (the k * the base)\<rparr>
      else if price_spike mv th
      then \<lparr>ks_should_close = True, ks_reason = Some ''price_move'',
            ks_actual = Some \<bar>the mv\<bar>, ks_threshold = th\<rparr>
      else ks_no_close)"
  by (auto simp: detect_volatility_spike_def atr_spike_def price_spike_def Let_def
      split: option.splits)

lemma detect_should_close:
  "ks_should_close (detect_volatility_spike cur base k mv th) \<longleftrightarrow> atr_spike cur base k \<or> price_spike mv th"
  by (simp add: detect_spike_cases ks_no_close_def)

section \<open>A second look at the same input\<close>

text \<open>The stop each rule aims at, whatever the current one is: a rule fires exactly when its aim is
  tighter than the current stop. Applying a candidate of trailing or volatility moves no aim.\<close>

definition trail_aim ::
    "bool \<Rightarrow> real option \<Rightarrow> position_side \<Rightarrow> real \<Rightarrow> real \<Rightarrow> real option" where
  "trail_aim enabled rate side high low =
     (case rate of
        None \<Rightarrow> None
      | Some c \<Rightarrow>
          if \<not> enabled \<or> c \<le> 0 then None
          else case side of LONG \<Rightarrow> Some (high * (1 - c / 100)) | SHORT \<Rightarrow> Some (low * (1 + c / 100))
               | BOTH \<Rightarrow> None)"

definition range_aim ::
    "bool \<Rightarrow> position_side \<Rightarrow> real \<Rightarrow> real \<Rightarrow> real option \<Rightarrow> real option" where
  "range_aim enabled side entry mult atr =
     (case atr of
        None \<Rightarrow> None
      | Some a \<Rightarrow>
          if \<not> enabled then None
          else case side of LONG \<Rightarrow> Some (entry - a * mult) | SHORT \<Rightarrow> Some (entry + a * mult)
               | BOTH \<Rightarrow> None)"

definition highest_seen :: "position_context \<Rightarrow> real \<Rightarrow> real" where
  "highest_seen p x = max (or_float (pc_trailing_highest_price p) (pc_entry_price p)) x"

definition lowest_seen :: "position_context \<Rightarrow> real \<Rightarrow> real" where
  "lowest_seen p x = min (or_float (pc_trailing_lowest_price p) (pc_entry_price p)) x"

definition trailing_aim :: "position_context \<Rightarrow> real \<Rightarrow> real option" where
  "trailing_aim p x = trail_aim (pc_trailing_enabled p) (pc_trailing_callback_rate p) (pc_side p)
     (highest_seen p x) (lowest_seen p x)"

definition volatility_aim :: "position_context \<Rightarrow> real option \<Rightarrow> real option" where
  "volatility_aim p atr = range_aim (pc_volatility_sl_enabled p) (pc_side p) (pc_entry_price p)
     (pc_volatility_atr_multiplier p) atr"

definition aim_tighter :: "position_side \<Rightarrow> real option \<Rightarrow> real \<Rightarrow> bool" where
  "aim_tighter side aim sl = (case aim of None \<Rightarrow> False | Some a \<Rightarrow> tighter side a sl)"

lemmas aim_defs = trailing_aim_def trail_aim_def volatility_aim_def range_aim_def
  aim_tighter_def tighter_def highest_seen_def lowest_seen_def

lemma trailing_fires:
  "(evaluate_trailing p x \<noteq> None) = aim_tighter (pc_side p) (trailing_aim p x) (pc_current_sl_price p)"
  by (cases "pc_side p"; cases "pc_trailing_callback_rate p")
     (simp_all add: evaluate_trailing_def aim_defs Let_def not_le)

lemma trailing_hits_aim:
  "evaluate_trailing p x = Some r \<Longrightarrow> trailing_aim p x = Some (ar_new_sl_price r)"
  by (cases "pc_side p"; cases "pc_trailing_callback_rate p")
     (auto simp: evaluate_trailing_def aim_defs Let_def split: if_splits)

lemma volatility_fires:
  "(evaluate_volatility p atr \<noteq> None)
    = aim_tighter (pc_side p) (volatility_aim p atr) (pc_current_sl_price p)"
  by (cases "pc_side p"; cases atr) (simp_all add: evaluate_volatility_def aim_defs Let_def not_le)

lemma volatility_hits_aim:
  "evaluate_volatility p atr = Some r \<Longrightarrow> volatility_aim p atr = Some (ar_new_sl_price r)"
  by (cases "pc_side p"; cases atr) (auto simp: evaluate_volatility_def aim_defs Let_def
      split: if_splits)

lemma or_float_max: "0 < x \<Longrightarrow> max (or_float (Some (max y x)) e) x = max y x"
  by (auto simp: or_float_def max_def)

lemma or_float_min:
  "0 < x \<Longrightarrow> min (or_float (Some (min (or_float h e) x)) e) x = min (or_float h e) x"
  by (auto simp: or_float_def min_def split: option.splits if_splits)

lemma trailing_tracks:
  "evaluate_trailing p x = Some r \<Longrightarrow>
     ar_update_tracking r =
       (if pc_side p = LONG then [(''trailing_highest_price'', VFloat (highest_seen p x))]
        else [(''trailing_lowest_price'', VFloat (lowest_seen p x))])"
  by (auto simp: evaluate_trailing_def Let_def highest_seen_def lowest_seen_def
      split: option.splits if_splits)

lemma aims_after_trailing:
  assumes "0 < x" and "evaluate_trailing p x = Some r"
  shows "trailing_aim (apply_adjustment r p) x = trailing_aim p x
    \<and> volatility_aim (apply_adjustment r p) atr = volatility_aim p atr
    \<and> breakeven_armed (apply_adjustment r p) = breakeven_armed p"
proof -
  let ?q = "apply_adjustment r p"
  have eq: "?q = (if pc_side p = LONG
      then p\<lparr>pc_trailing_highest_price := Some (highest_seen p x),
             pc_current_sl_price := ar_new_sl_price r\<rparr>
      else p\<lparr>pc_trailing_lowest_price := Some (lowest_seen p x),
             pc_current_sl_price := ar_new_sl_price r\<rparr>)"
    using trailing_tracks [OF assms(2)] by (simp add: apply_adjustment_def set_tracked_def)
  have "highest_seen ?q x = highest_seen p x" "lowest_seen ?q x = lowest_seen p x"
    unfolding eq using or_float_max [OF assms(1)] or_float_min [OF assms(1)]
    by (simp_all add: highest_seen_def lowest_seen_def)
  then show ?thesis
    unfolding trailing_aim_def volatility_aim_def breakeven_armed_def by (simp add: eq)
qed

lemma aims_after_volatility:
  assumes "evaluate_volatility p atr = Some r"
  shows "trailing_aim (apply_adjustment r p) x = trailing_aim p x
    \<and> volatility_aim (apply_adjustment r p) atr' = volatility_aim p atr'
    \<and> breakeven_armed (apply_adjustment r p) = breakeven_armed p"
proof -
  have "ar_update_tracking r = [(''volatility_last_atr'', VFloat (the atr))]"
    using assms by (auto simp: evaluate_volatility_def Let_def
        split: option.splits if_splits position_side.splits)
  then have "apply_adjustment r p
      = p\<lparr>pc_volatility_last_atr := Some (the atr), pc_current_sl_price := ar_new_sl_price r\<rparr>"
    by (simp add: apply_adjustment_def set_tracked_def)
  then show ?thesis
    unfolding trailing_aim_def volatility_aim_def breakeven_armed_def highest_seen_def
      lowest_seen_def by simp
qed

lemma apply_priority [simp]:
  "pc_adjustment_priority (fold set_tracked kvs p) = pc_adjustment_priority p"
proof -
  have "pc_adjustment_priority (set_tracked kv q) = pc_adjustment_priority q" for kv q
    by (cases kv; cases "snd kv"; simp add: set_tracked_def)
  then show ?thesis by (induction kvs arbitrary: p) simp_all
qed

lemma apply_adjustment_priority [simp]:
  "pc_adjustment_priority (apply_adjustment r p) = pc_adjustment_priority p"
  by (simp add: apply_adjustment_def)

lemma tighter_trans: "tighter side z y \<Longrightarrow> tighter side y x \<Longrightarrow> tighter side z x"
  by (cases side) (simp_all add: tighter_def)

text \<open>A source whose aim is tighter than the stop just chosen would have won.\<close>

lemma unarmed_breakeven_silent: "\<not> breakeven_armed p \<Longrightarrow> evaluate_breakeven p x = None"
  by (auto simp: evaluate_breakeven_def breakeven_armed_def)

lemma no_source_beats_choice:
  assumes x: "0 < x" and b: "\<not> breakeven_armed p" and r: "pipeline_evaluate p x atr = Some r"
    and src: "src \<in> set (pc_adjustment_priority p)"
  shows "evaluate_source (apply_adjustment r p) src x atr = None"
proof (rule ccontr)
  let ?q = "apply_adjustment r p"
  assume "evaluate_source ?q src x atr \<noteq> None"
  then obtain r2 where r2: "evaluate_source ?q src x atr = Some r2" by blast
  have "evaluate_trailing p x = Some r \<or> evaluate_volatility p atr = Some r"
    using pipeline_picks_candidate [OF r] unarmed_breakeven_silent [OF b, of x]
    by (auto simp: in_candidates_iff evaluate_source_def split: if_splits)
  then have aims: "trailing_aim ?q x = trailing_aim p x" "volatility_aim ?q atr = volatility_aim p atr"
    "\<not> breakeven_armed ?q"
    using aims_after_trailing [OF x] aims_after_volatility b by blast+
  have t: "tighter (pc_side p) (ar_new_sl_price r2) (ar_new_sl_price r)"
    using source_tightens [OF r2] aims(3) by simp
  with pipeline_tightens [OF r] b
  have t2: "tighter (pc_side p) (ar_new_sl_price r2) (pc_current_sl_price p)"
    by (blast intro: tighter_trans)
  have same: "\<exists>r3. evaluate_source p src x atr = Some r3 \<and> ar_new_sl_price r3 = ar_new_sl_price r2"
  proof (cases "src = ''trailing''")
    case True
    with r2 have "evaluate_trailing ?q x = Some r2" by (simp add: evaluate_source_def)
    then have aim: "trailing_aim p x = Some (ar_new_sl_price r2)"
      using trailing_hits_aim aims(1) by simp
    with t2 trailing_fires [of p x] obtain r3 where r3: "evaluate_trailing p x = Some r3"
      by (auto simp: aim_tighter_def)
    with aim trailing_hits_aim [OF r3] True show ?thesis by (simp add: evaluate_source_def)
  next
    case False
    with r2 unarmed_breakeven_silent [OF aims(3), of x]
    have s: "src = ''volatility''" "evaluate_volatility ?q atr = Some r2"
      by (auto simp: evaluate_source_def split: if_splits)
    then have aim: "volatility_aim p atr = Some (ar_new_sl_price r2)"
      using volatility_hits_aim aims(2) by simp
    with t2 volatility_fires [of p atr] obtain r3 where r3: "evaluate_volatility p atr = Some r3"
      by (auto simp: aim_tighter_def)
    with aim volatility_hits_aim [OF r3] s show ?thesis by (simp add: evaluate_source_def)
  qed
  then obtain r3 where r3: "evaluate_source p src x atr = Some r3"
    "ar_new_sl_price r3 = ar_new_sl_price r2" by blast
  then have "ar_is_valid r3"
    using trailing.valid volatility.valid unarmed_breakeven_silent [OF b, of x]
    by (auto simp: evaluate_source_def split: if_splits)
  with r3 src have "r3 \<in> set (pipeline_candidates p x atr)" by (auto simp: in_candidates_iff)
  with pipeline_most_protective [OF r this] t r3 show False
    by (cases "pc_side p") (auto simp: tighter_def)
qed

section \<open>Properties\<close>

lemmas sample_simps = pipeline_evaluate_def pipeline_candidates_def map_filter_def default_priority_def
  evaluate_source_def evaluate_trailing_def evaluate_breakeven_def evaluate_volatility_def
  or_float_def Let_def

definition sample_long :: position_context where
  "sample_long = default_context\<lparr>pc_entry_price := 100, pc_current_sl_price := 90,
     pc_trailing_enabled := True, pc_trailing_callback_rate := Some 10,
     pc_volatility_sl_enabled := True\<rparr>"

definition sample_adjustment :: sl_adjustment where
  "sample_adjustment = \<lparr>ar_new_sl_price = 99, ar_reason = ''trailing'', ar_is_valid = True,
     ar_update_tracking = [(''trailing_highest_price'', VFloat 110)]\<rparr>"

lemma sample_pipeline: "pipeline_evaluate sample_long 110 (Some 2) = Some sample_adjustment"
  by (simp add: sample_simps sample_long_def sample_adjustment_def default_context_def)

text \<open>Trailing and volatility stops never loosen. Whatever sequence of prices, or of range
  readings, is fed to one of the two rules with every candidate applied, the stop ends at least as
  protective as it began.\<close>

theorem trailing_and_volatility_never_loosen:
  "not_looser (pc_side p) (pc_current_sl_price (run_rule evaluate_trailing p prices))
     (pc_current_sl_price p)
   \<and> not_looser (pc_side p) (pc_current_sl_price (run_rule evaluate_volatility p atrs))
     (pc_current_sl_price p)"
  using trailing.run_never_loosens volatility.run_never_loosens by blast

text \<open>The pipeline returns a candidate exactly when some source in the priority list produces
  one, the result is one of them, and it is the most protective: no candidate has a higher stop on
  a long position, or a lower one on a short position.\<close>

theorem pipeline_selects_most_protective:
  "(pipeline_evaluate p x atr = None) = (pipeline_candidates p x atr = [])
   \<and> (\<forall>r. pipeline_evaluate p x atr = Some r \<longrightarrow>
        r \<in> set (pipeline_candidates p x atr)
        \<and> (\<forall>r'. r' \<in> set (pipeline_candidates p x atr) \<longrightarrow>
             not_looser (if pc_side p = SHORT then SHORT else LONG) (ar_new_sl_price r)
               (ar_new_sl_price r')))"
  using pipeline_None_iff pipeline_picks_candidate pipeline_most_protective
  by (auto simp: not_looser_def split: if_splits)

theorem pipeline_selects_most_protective_witness:
  "sample_adjustment \<in> set (pipeline_candidates sample_long 110 (Some 2))
   \<and> length (pipeline_candidates sample_long 110 (Some 2)) = 2"
proof -
  have "length (pipeline_candidates sample_long 110 (Some 2)) = 2"
    by (simp add: sample_simps sample_long_def default_context_def)
  with pipeline_selects_most_protective [of sample_long 110 "Some 2"] sample_pipeline
  show ?thesis by simp
qed

text \<open>C12: An adjustment of the pipeline is strictly more protective than the current stop, provided
  that while break-even is armed the stop still lies on the loss side of the entry.\<close>

theorem pipeline_result_tightens:
  assumes "pipeline_evaluate p x atr = Some r" and "breakeven_armed p \<longrightarrow> stop_on_loss_side p"
  shows "tighter (pc_side p) (ar_new_sl_price r) (pc_current_sl_price p)"
  using assms by (blast intro: pipeline_tightens)

theorem pipeline_result_tightens_witness:
  "pipeline_evaluate sample_long 110 (Some 2) = Some sample_adjustment \<and> tighter LONG 99 90"
  using pipeline_result_tightens [OF sample_pipeline] sample_pipeline
  by (simp add: sample_long_def sample_adjustment_def default_context_def breakeven_armed_def)

text \<open>Identical ticks are no-ops. Once a candidate has been applied, evaluating the pipeline
  again at the same positive price and the same range finds nothing to do, break-even not being
  armed.\<close>

theorem identical_tick_is_no_op:
  assumes "0 < x" and "\<not> breakeven_armed p" and "pipeline_evaluate p x atr = Some r"
  shows "pipeline_evaluate (apply_adjustment r p) x atr = None"
  using no_source_beats_choice [OF assms(1,2,3)]
  by (auto simp: pipeline_None_iff pipeline_candidates_def map_filter_def)

theorem identical_tick_is_no_op_witness:
  "pipeline_evaluate sample_long 110 (Some 2) = Some sample_adjustment
   \<and> pipeline_evaluate (apply_adjustment sample_adjustment sample_long) 110 (Some 2) = None"
proof -
  have "\<not> breakeven_armed sample_long"
    by (simp add: breakeven_armed_def sample_long_def default_context_def)
  from identical_tick_is_no_op [OF _ this sample_pipeline] sample_pipeline show ?thesis by simp
qed

text \<open>Both conditions on break-even are needed. There is a long position, its stop trailed to a
  profit, that the pipeline moves back down to the entry price: a less protective stop.\<close>

theorem breakeven_can_loosen_trailed_stop:
  "\<exists>p x r. pc_side p = LONG \<and> pc_trailing_enabled p \<and> breakeven_armed p
     \<and> pc_entry_price p < pc_current_sl_price p \<and> pc_current_sl_price p < x
     \<and> pipeline_evaluate p x None = Some r \<and> ar_new_sl_price r < pc_current_sl_price p"
proof -
  define p where "p = default_context\<lparr>pc_entry_price := 100, pc_current_sl_price := 108,
    pc_trailing_enabled := True, pc_trailing_callback_rate := Some 10,
    pc_trailing_highest_price := Some 120, pc_breakeven_enabled := True\<rparr>"
  have "pc_side p = LONG \<and> pc_trailing_enabled p \<and> breakeven_armed p
     \<and> pc_entry_price p < pc_current_sl_price p \<and> pc_current_sl_price p < 115"
    by (simp add: p_def default_context_def breakeven_armed_def)
  moreover have "pipeline_evaluate p 115 None = Some \<lparr>ar_new_sl_price = 100, ar_reason = ''breakeven'',
      ar_is_valid = True, ar_update_tracking = [(''breakeven_activated'', VBool True)]\<rparr>"
    by (simp add: p_def default_context_def sample_simps)
  moreover have "100 < pc_current_sl_price p" by (simp add: p_def)
  ultimately show ?thesis by fastforce
qed

text \<open>The volatility kill-switch fires exactly on a range spike (the range is at least the
  configured multiple of a positive baseline) or on a price move of at least the configured size,
  the range test taking precedence in the reported reason; with a reading or a threshold missing,
  or a baseline that is not positive, that test cannot fire.\<close>

theorem kill_switch_exact:
  "detect_volatility_spike cur base k mv th =
     (if atr_spike cur base k
      then \<lparr>ks_should_close = True, ks_reason = Some ''atr_spike'', ks_actual = cur,
            ks_threshold = Some (the k * the base)\<rparr>
      else if price_spike mv th
      then \<lparr>ks_should_close = True, ks_reason = Some ''price_move'',
            ks_actual = Some \<bar>the mv\<bar>, ks_threshold = th\<rparr>
      else ks_no_close)"
  by (rule detect_spike_cases)

end
