(* ===== verification/Order_Task.thy ===== *)
theory Order_Task
  imports Prelude
begin

text \<open>
  \<^verbatim>\<open>app/services/position/order_queue.py\<close>, first part: priorities, tasks, the deduplication key
  and the routing of a task to an adapter call (\<open>_execute_task\<close> with its parameter validators).
  The exchange adapter is outside the model: \<open>execute_task\<close> yields the call the queue would make,
  and \<open>live_result\<close> is what \<open>get_position\<close> answered.
\<close>

section \<open>Tasks\<close>

datatype order_priority =
    Prio_EMERGENCY_SL | Prio_EMERGENCY_CLOSE | Prio_SL_ADJUSTMENT | Prio_TP_ADJUSTMENT
  | Prio_PARTIAL_CLOSE | Prio_NEW_CONDITIONAL | Prio_CANCEL_ORDER

fun priority_value :: "order_priority \<Rightarrow> int" where
  "priority_value Prio_EMERGENCY_SL = 0"
| "priority_value Prio_EMERGENCY_CLOSE = 1"
| "priority_value Prio_SL_ADJUSTMENT = 10"
| "priority_value Prio_TP_ADJUSTMENT = 20"
| "priority_value Prio_PARTIAL_CLOSE = 30"
| "priority_value Prio_NEW_CONDITIONAL = 40"
| "priority_value Prio_CANCEL_ORDER = 50"

lemma priority_value_inj: "priority_value p = priority_value q \<Longrightarrow> p = q"
  by (cases p; cases q) simp_all

text \<open>\<open>OrderPriority\<close> is an \<open>IntEnum\<close>: members compare by their values.\<close>

instantiation order_priority :: linorder
begin

definition less_eq_order_priority :: "order_priority \<Rightarrow> order_priority \<Rightarrow> bool" where
  "less_eq_order_priority p q = (priority_value p \<le> priority_value q)"

definition less_order_priority :: "order_priority \<Rightarrow> order_priority \<Rightarrow> bool" where
  "less_order_priority p q = (priority_value p < priority_value q)"

instance
  by standard
    (auto simp: less_eq_order_priority_def less_order_priority_def dest: priority_value_inj)

end

record order_task =
  ot_priority :: order_priority
  ot_created_at :: real
  ot_position_id :: string
  ot_action :: string
  ot_params :: pydict
  ot_retry_count :: int
  ot_max_retries :: int
  ot_on_success :: "string option"

section \<open>The deduplication key\<close>

text \<open>Decimal exponent of a positive number. 400 steps reach every exponent of a double, which
  lie between -324 and 308.\<close>

fun decimal_exponent :: "nat \<Rightarrow> real \<Rightarrow> int \<Rightarrow> int" where
  "decimal_exponent n x e =
     (if n = 0 then e
      else if x \<ge> 10 then decimal_exponent (n - 1) (x / 10) (e + 1)
      else if x < 1 then decimal_exponent (n - 1) (x * 10) (e - 1)
      else e)"

declare decimal_exponent.simps [simp del]

definition strip_zeros :: "string \<Rightarrow> string" where
  "strip_zeros s = rev (dropWhile (\<lambda>c. c = CHR ''0'') (rev s))"

definition dot_frac :: "string \<Rightarrow> string" where
  "dot_frac s = (let t = strip_zeros s in if t = [] then [] else CHR ''.'' # t)"

text \<open>The format specification \<open>.10g\<close>: ten significant digits, fixed notation for exponents
  from -4 to 9, scientific otherwise, trailing zeros removed.\<close>

definition fmt_g10 :: "real \<Rightarrow> string" where
  "fmt_g10 x =
     (if x = 0 then ''0''
      else
        let e0 = decimal_exponent 400 \<bar>x\<bar> 0;
            m0 = round_half_even (scale10 \<bar>x\<bar> (9 - e0));
            e = (if m0 = 10 ^ 10 then e0 + 1 else e0);
            m = (if m0 = 10 ^ 10 then 10 ^ 9 else m0);
            ds = show_nat (nat m);
            body = (if -4 \<le> e \<and> e < 10 then
                      (if 0 \<le> e then take (nat e + 1) ds @ dot_frac (drop (nat e + 1) ds)
                       else ''0'' @ dot_frac (replicate (nat (- e) - 1) (CHR ''0'') @ ds))
                    else take 1 ds @ dot_frac (drop 1 ds) @ ''e'' @
                         (if e < 0 then ''-'' else ''+'') @
                         (let t = show_nat (nat \<bar>e\<bar>) in if length t < 2 then CHR ''0'' # t else t))
        in if x < 0 then CHR ''-'' # body else body)"

definition task_key :: "(pyval \<Rightarrow> string) \<Rightarrow> string \<Rightarrow> string \<Rightarrow> pydict \<Rightarrow> string" where
  "task_key rp position_id action payload =
     (let base_key = position_id @ '':'' @ action in
      if action = ''place_tp'' \<and> get_none payload ''level'' \<noteq> VNone then
        base_key @ '':level:'' @ py_str rp (get_none payload ''level'')
      else if action = ''replace_tp'' \<and> py_truth (get_none payload ''existing_order_id'') then
        base_key @ '':order:'' @ py_str rp (get_none payload ''existing_order_id'')
      else if (action = ''place_sl'' \<or> action = ''replace_sl'')
              \<and> get_default payload ''new_trigger_price'' (get_none payload ''trigger_price'') \<noteq> VNone
      then
        (let target = get_default payload ''new_trigger_price'' (get_none payload ''trigger_price'')
         in base_key @ '':target:'' @
            (case py_float target of Inr x \<Rightarrow> fmt_g10 x | Inl e \<Rightarrow> py_str rp target))
      else if action = ''cancel_order'' \<and> py_truth (get_none payload ''order_id'') then
        base_key @ '':order:'' @ py_str rp (get_none payload ''order_id'')
      else base_key)"

section \<open>Parameter validators\<close>

definition ebind :: "'e + 'a \<Rightarrow> ('a \<Rightarrow> 'e + 'b) \<Rightarrow> 'e + 'b" where
  "ebind r k = (case r of Inl e \<Rightarrow> Inl e | Inr x \<Rightarrow> k x)"

lemma ebind_simps [simp]: "ebind (Inl e) k = Inl e" "ebind (Inr x) k = k x"
  by (simp_all add: ebind_def)

lemma ebind_Inr_iff: "ebind r k = Inr y \<longleftrightarrow> (\<exists>x. r = Inr x \<and> k x = Inr y)"
  by (cases r) auto

definition require_str :: "pydict \<Rightarrow> string \<Rightarrow> pyval \<Rightarrow> py_error + string" where
  "require_str params key dflt =
     (case get_default params key dflt of
        VStr s \<Rightarrow> if s \<noteq> [] then Inr s
                  else Inl (ValueError (''Missing or invalid string parameter: '' @ key))
      | VSide s \<Rightarrow> Inr (order_side_value s)
      | _ \<Rightarrow> Inl (ValueError (''Missing or invalid string parameter: '' @ key)))"

definition require_float :: "pydict \<Rightarrow> string \<Rightarrow> py_error + real" where
  "require_float params key =
     (if get_none params key = VNone then Inl (ValueError (''Missing numeric parameter: '' @ key))
      else case py_float (get_none params key) of
             Inl e \<Rightarrow> Inl (ValueError (''Invalid numeric parameter: '' @ key))
           | Inr x \<Rightarrow> Inr x)"

definition optional_float :: "pydict \<Rightarrow> string \<Rightarrow> py_error + real option" where
  "optional_float params key =
     (if get_none params key = VNone then Inr None
      else case py_float (get_none params key) of
             Inl e \<Rightarrow> Inl (ValueError (''Invalid numeric parameter: '' @ key))
           | Inr x \<Rightarrow> Inr (Some x))"

definition require_side :: "pydict \<Rightarrow> string \<Rightarrow> py_error + order_side" where
  "require_side params key =
     (case get_none params key of
        VSide s \<Rightarrow> Inr s
      | VStr s \<Rightarrow>
          (let raw = py_lower (py_strip s) in
           if raw = ''buy'' then Inr BUY else if raw = ''sell'' then Inr SELL
           else Inl (ValueError (''Invalid order side for '' @ key)))
      | _ \<Rightarrow> Inl (ValueError (''Missing order side parameter: '' @ key)))"

definition require_bool :: "pydict \<Rightarrow> string \<Rightarrow> bool \<Rightarrow> bool" where
  "require_bool params key dflt =
     (case get_default params key (VBool dflt) of
        VBool b \<Rightarrow> b
      | VStr s \<Rightarrow>
          (let normalized = py_lower (py_strip s) in
           if normalized \<in> {''1'', ''true'', ''yes'', ''y'', ''on''} then True
           else if normalized \<in> {''0'', ''false'', ''no'', ''n'', ''off''} then False
           else s \<noteq> [])
      | v \<Rightarrow> py_truth v)"

definition quantity_keys :: "string list" where
  "quantity_keys = [''full_quantity'', ''quantity'', ''new_quantity'']"

fun has_positive_in :: "pydict \<Rightarrow> string list \<Rightarrow> bool" where
  "has_positive_in params [] = False"
| "has_positive_in params (k # ks) =
     (if get_none params k = VNone then has_positive_in params ks
      else case py_float (get_none params k) of
             Inr x \<Rightarrow> if x > 0 then True else has_positive_in params ks
           | Inl e \<Rightarrow> has_positive_in params ks)"

definition has_positive_emergency_quantity :: "pydict \<Rightarrow> bool" where
  "has_positive_emergency_quantity params = has_positive_in params quantity_keys"

fun resolve_quantity_in :: "pydict \<Rightarrow> string list \<Rightarrow> py_error + real" where
  "resolve_quantity_in params [] = Inr 0"
| "resolve_quantity_in params (k # ks) =
     (if get_none params k = VNone then resolve_quantity_in params ks
      else case py_float (get_none params k) of
             Inl e \<Rightarrow> Inl (ValueError (''Invalid numeric parameter: '' @ k))
           | Inr x \<Rightarrow> if x > 0 then Inr x else resolve_quantity_in params ks)"

definition resolve_emergency_quantity :: "pydict \<Rightarrow> py_error + real" where
  "resolve_emergency_quantity params = resolve_quantity_in params quantity_keys"

section \<open>Routing a task to the adapter\<close>

datatype adapter_call =
    PlaceStopLoss string order_side real real string bool bool
  | CancelAndReplaceSl string string real real string bool
  | PlaceTakeProfit string order_side real real string bool "real option"
  | CancelAndReplaceTp string string real real string "real option"
  | PartialClose string order_side real string string "real option"
  | CancelConditionalOrder string string

text \<open>The answer of \<open>get_position\<close>: it raised, reported no position, returned a
  \<open>PositionSnapshot\<close> of some signed size, or returned an object of another class.\<close>

datatype live_result = LiveRaised | LiveNone | LiveSnapshot real real | LiveUnknown

definition emergency_close_dust_epsilon :: real where
  "emergency_close_dust_epsilon = 1 / 1000000"

text \<open>\<open>raw_live = None\<close> after the \<open>try\<close> block: the adapter said so, or it raised.\<close>

definition raw_live_is_none :: "live_result \<Rightarrow> bool" where
  "raw_live_is_none l = (l = LiveRaised \<or> l = LiveNone)"

definition live_size :: "live_result \<Rightarrow> real option" where
  "live_size l = (case l of LiveSnapshot sz mk \<Rightarrow> Some \<bar>sz\<bar> | _ \<Rightarrow> None)"

text \<open>The branch \<open>emergency_market_close\<close>; \<open>Inr None\<close> is the skip.\<close>

definition emergency_market_close ::
    "string \<Rightarrow> live_result \<Rightarrow> pydict \<Rightarrow> py_error + adapter_call option" where
  "emergency_market_close fallback_cid live params =
     ebind (require_str params ''symbol'' VNone) (\<lambda>symbol.
       if raw_live_is_none live then Inr None
       else if (case live_size live of None \<Rightarrow> False | Some z \<Rightarrow> z \<le> emergency_close_dust_epsilon)
       then Inr None
       else ebind (resolve_emergency_quantity params) (\<lambda>requested.
         if requested \<le> 0 \<and> live_size live = None then Inr None
         else
           let quantity = (if requested \<le> 0
                           then (case live_size live of None \<Rightarrow> 0 | Some z \<Rightarrow> z)
                           else case live_size live of
                                  Some z \<Rightarrow> min requested z
                                | None \<Rightarrow> requested)
           in ebind (require_side params ''side'') (\<lambda>side.
              ebind (require_str params ''client_order_id'' (VStr fallback_cid)) (\<lambda>cid.
              Inr (Some (PartialClose symbol side quantity cid ''market'' None))))))"

definition execute_task ::
    "string \<Rightarrow> live_result \<Rightarrow> order_task \<Rightarrow> py_error + adapter_call option" where
  "execute_task fallback_cid live task =
     (let params = ot_params task; action = ot_action task in
      if action = ''place_sl'' then
        ebind (require_str params ''symbol'' VNone) (\<lambda>symbol.
        ebind (require_side params ''side'') (\<lambda>side.
        ebind (require_float params ''quantity'') (\<lambda>quantity.
        ebind (require_float params ''trigger_price'') (\<lambda>trigger.
        ebind (require_str params ''client_order_id'' VNone) (\<lambda>cid.
        Inr (Some (PlaceStopLoss symbol side quantity trigger cid
               (require_bool params ''reduce_only'' True)
               (require_bool params ''close_position'' False))))))))
      else if action = ''replace_sl'' then
        ebind (require_str params ''symbol'' VNone) (\<lambda>symbol.
        ebind (require_str params ''existing_order_id'' VNone) (\<lambda>existing.
        ebind (require_float params ''new_trigger_price'') (\<lambda>trigger.
        ebind (require_float params ''new_quantity'') (\<lambda>quantity.
        ebind (require_str params ''client_order_id'' VNone) (\<lambda>cid.
        Inr (Some (CancelAndReplaceSl symbol existing trigger quantity cid
               (require_bool params ''close_position'' True))))))))
      else if action = ''place_tp'' then
        ebind (require_str params ''symbol'' VNone) (\<lambda>symbol.
        ebind (require_side params ''side'') (\<lambda>side.
        ebind (require_float params ''quantity'') (\<lambda>quantity.
        ebind (require_float params ''trigger_price'') (\<lambda>trigger.
        ebind (require_str params ''client_order_id'' VNone) (\<lambda>cid.
        ebind (optional_float params ''limit_price'') (\<lambda>limit.
        Inr (Some (PlaceTakeProfit symbol side quantity trigger cid
               (require_bool params ''reduce_only'' True) limit))))))))
      else if action = ''replace_tp'' then
        ebind (require_str params ''symbol'' VNone) (\<lambda>symbol.
        ebind (require_str params ''existing_order_id'' VNone) (\<lambda>existing.
        ebind (require_float params ''new_trigger_price'') (\<lambda>trigger.
        ebind (require_float params ''new_quantity'') (\<lambda>quantity.
        ebind (require_str params ''client_order_id'' VNone) (\<lambda>cid.
        ebind (optional_float params ''limit_price'') (\<lambda>limit.
        Inr (Some (CancelAndReplaceTp symbol existing trigger quantity cid limit))))))))
      else if action = ''partial_close'' then
        ebind (require_str params ''symbol'' VNone) (\<lambda>symbol.
        ebind (require_side params ''side'') (\<lambda>side.
        ebind (require_float params ''quantity'') (\<lambda>quantity.
        ebind (require_str params ''client_order_id'' VNone) (\<lambda>cid.
        ebind (require_str params ''order_type'' (VStr ''market'')) (\<lambda>otype.
        ebind (optional_float params ''price'') (\<lambda>price.
        Inr (Some (PartialClose symbol side quantity cid otype price))))))))
      else if action = ''emergency_market_close'' then
        emergency_market_close fallback_cid live params
      else if action = ''cancel_order'' then
        ebind (require_str params ''symbol'' VNone) (\<lambda>symbol.
        ebind (require_str params ''order_id'' VNone) (\<lambda>oid.
        Inr (Some (CancelConditionalOrder symbol oid))))
      else Inl (ValueError (''Unsupported order task action: '' @ action)))"

definition compute_backoff :: "int \<Rightarrow> real" where
  "compute_backoff retry_count = min (1 / 2 * 2 powi retry_count) 10"

section \<open>Facts about quantities and keys\<close>

lemma resolve_in_nonneg: "resolve_quantity_in params ks = Inr q \<Longrightarrow> 0 \<le> q"
  by (induction params ks rule: resolve_quantity_in.induct) (auto split: if_splits sum.splits)

lemma resolve_in_positive:
  "has_positive_in params ks \<Longrightarrow> resolve_quantity_in params ks = Inr q \<Longrightarrow> 0 < q"
  by (induction params ks rule: resolve_quantity_in.induct) (auto split: if_splits sum.splits)

lemma task_key_prefix: "starts_with (task_key rp pid action params) (pid @ '':'' @ action)"
proof -
  have "\<exists>t. task_key rp pid action params = (pid @ '':'' @ action) @ t"
    by (auto simp: task_key_def Let_def)
  then show ?thesis by (auto simp: starts_with_iff)
qed

lemma emergency_close_call:
  assumes "emergency_market_close fc live params = Inr (Some call)"
  obtains symbol side q cid where "call = PartialClose symbol side q cid ''market'' None"
    and "\<forall>z. live_size live = Some z \<longrightarrow> emergency_close_dust_epsilon < z \<and> q \<le> z" and "0 < q"
    and "\<not> raw_live_is_none live"
    and "\<exists>req. resolve_emergency_quantity params = Inr req \<and> (0 < req \<longrightarrow> q \<le> req)"
proof -
  from assms obtain symbol requested side cid where
    r: "resolve_emergency_quantity params = Inr requested" "\<not> raw_live_is_none live"
      "\<not> (requested \<le> 0 \<and> live_size live = None)"
      "\<forall>z. live_size live = Some z \<longrightarrow> emergency_close_dust_epsilon < z"
    and call: "call = PartialClose symbol side
         (if requested \<le> 0 then (case live_size live of None \<Rightarrow> 0 | Some z \<Rightarrow> z)
          else case live_size live of Some z \<Rightarrow> min requested z | None \<Rightarrow> requested) cid ''market'' None"
    by (auto simp: emergency_market_close_def ebind_Inr_iff Let_def split: if_splits option.splits)
  have eps: "0 < emergency_close_dust_epsilon" by (simp add: emergency_close_dust_epsilon_def)
  show ?thesis
    by (rule that [OF call]) (use r eps in \<open>auto split: option.splits simp: not_le\<close>)
qed

section \<open>How routing fails\<close>

definition value_errors :: "py_error + 'a \<Rightarrow> bool" where
  "value_errors r = (\<forall>e. r = Inl e \<longrightarrow> (\<exists>m. e = ValueError m))"

definition issues_call :: "py_error + adapter_call option \<Rightarrow> bool" where
  "issues_call r = (r \<noteq> Inr None)"

lemma value_errors_ebind [intro]:
  "value_errors r \<Longrightarrow> (\<And>x. value_errors (k x)) \<Longrightarrow> value_errors (ebind r k)"
  by (cases r) (auto simp: value_errors_def)

lemma value_errors_intros [intro]:
  "value_errors (Inr x)" "value_errors (Inl (ValueError m))"
  "value_errors (require_str params key d)" "value_errors (require_float params key)"
  "value_errors (optional_float params key)" "value_errors (require_side params key)"
  by (auto simp: value_errors_def require_str_def require_float_def optional_float_def
      require_side_def Let_def split: pyval.splits sum.splits if_splits)

lemma value_errors_quantity [intro]: "value_errors (resolve_emergency_quantity params)"
proof -
  have "value_errors (resolve_quantity_in params ks)" for ks
    by (induction ks) (auto simp: value_errors_def split: sum.splits)
  then show ?thesis by (simp add: resolve_emergency_quantity_def)
qed

lemma issues_call_ebind [intro]: "(\<And>x. issues_call (k x)) \<Longrightarrow> issues_call (ebind r k)"
  by (cases r) (auto simp: issues_call_def)

lemma issues_call_intros [intro]: "issues_call (Inr (Some c))" "issues_call (Inl e)"
  by (simp_all add: issues_call_def)

lemma value_errors_if: "value_errors a \<Longrightarrow> value_errors b \<Longrightarrow> value_errors (if c then a else b)"
  by simp

lemma issues_call_if: "issues_call a \<Longrightarrow> issues_call b \<Longrightarrow> issues_call (if c then a else b)"
  by simp

lemma value_errors_emergency: "value_errors (emergency_market_close fc live params)"
  unfolding emergency_market_close_def Let_def
  by (intro value_errors_ebind value_errors_if value_errors_intros value_errors_quantity)

lemma value_errors_execute: "value_errors (execute_task fc live t)"
  unfolding execute_task_def Let_def
  by (intro value_errors_ebind value_errors_if value_errors_intros value_errors_emergency)

lemma issues_call_execute:
  assumes "ot_action t \<noteq> ''emergency_market_close''"
  shows "issues_call (execute_task fc live t)"
  unfolding execute_task_def Let_def if_not_P [OF assms]
  by (intro issues_call_ebind issues_call_if issues_call_intros)

section \<open>Properties\<close>

text \<open>An emergency close never sells more than there is. Whenever the emergency branch issues
  an order, it is a market close of a positive quantity, at most the live size of the position
  where the exchange reported one (which then exceeds the dust threshold), and at most the
  requested quantity where one was given.\<close>

theorem emergency_close_bounded:
  assumes "emergency_market_close fc live params = Inr (Some call)"
  shows "\<exists>symbol side q cid. call = PartialClose symbol side q cid ''market'' None \<and> 0 < q
    \<and> (\<forall>z. live_size live = Some z \<longrightarrow> emergency_close_dust_epsilon < z \<and> q \<le> z)
    \<and> (\<exists>req. resolve_emergency_quantity params = Inr req \<and> (0 < req \<longrightarrow> q \<le> req))"
  by (rule emergency_close_call [OF assms]) blast

definition sample_close_params :: pydict where
  "sample_close_params = [(''symbol'', VStr ''BTC''), (''side'', VSide SELL),
     (''full_quantity'', VFloat 5), (''client_order_id'', VStr ''c1'')]"

lemmas close_simps = emergency_market_close_def require_str_def require_side_def live_size_def
  raw_live_is_none_def resolve_emergency_quantity_def quantity_keys_def
  emergency_close_dust_epsilon_def sample_close_params_def

theorem emergency_close_bounded_witness:
  "emergency_market_close ''f'' (LiveSnapshot (-3) 100) sample_close_params
     = Inr (Some (PartialClose ''BTC'' SELL 3 ''c1'' ''market'' None)) \<and> (3::real) \<le> 5"
proof -
  have e: "emergency_market_close ''f'' (LiveSnapshot (-3) 100) sample_close_params
     = Inr (Some (PartialClose ''BTC'' SELL 3 ''c1'' ''market'' None))" by (simp add: close_simps)
  from emergency_close_bounded [OF e] e show ?thesis by (simp add: close_simps)
qed

text \<open>When the exchange cannot be asked for the position (\<open>get_position\<close> raises), the emergency
  close is not attempted at all: a task with a valid symbol ends without an order, whatever
  quantity it carries.\<close>

theorem emergency_close_dropped_on_lookup_failure:
  assumes "require_str params ''symbol'' VNone = Inr symbol"
  shows "emergency_market_close fc LiveRaised params = Inr None"
  using assms by (simp add: emergency_market_close_def raw_live_is_none_def)

theorem emergency_close_dropped_on_lookup_failure_witness:
  "has_positive_emergency_quantity sample_close_params
   \<and> emergency_market_close ''f'' LiveRaised sample_close_params = Inr None"
proof -
  have "require_str sample_close_params ''symbol'' VNone = Inr ''BTC''" by (simp add: close_simps)
  from emergency_close_dropped_on_lookup_failure [OF this] show ?thesis
    by (simp add: has_positive_emergency_quantity_def close_simps)
qed

text \<open>Routing a task is total. It fails only with a \<open>ValueError\<close>, an unknown action always
  does, and every action but the emergency close, when it does not fail, issues an adapter call.\<close>

theorem execute_task_total:
  "(\<forall>e. execute_task fc live t = Inl e \<longrightarrow> (\<exists>m. e = ValueError m))
   \<and> (ot_action t \<notin> {''place_sl'', ''replace_sl'', ''place_tp'', ''replace_tp'', ''partial_close'',
        ''emergency_market_close'', ''cancel_order''} \<longrightarrow> (\<exists>e. execute_task fc live t = Inl e))
   \<and> (execute_task fc live t = Inr None \<longrightarrow> ot_action t = ''emergency_market_close'')"
proof (intro conjI)
  show "\<forall>e. execute_task fc live t = Inl e \<longrightarrow> (\<exists>m. e = ValueError m)"
    using value_errors_execute [of fc live t] by (simp add: value_errors_def)
  show "execute_task fc live t = Inr None \<longrightarrow> ot_action t = ''emergency_market_close''"
    using issues_call_execute [of t fc live] by (auto simp: issues_call_def)
qed (simp add: execute_task_def Let_def)

theorem execute_task_total_witness:
  "\<exists>m. execute_task ''f'' LiveNone \<lparr>ot_priority = Prio_CANCEL_ORDER, ot_created_at = 0,
     ot_position_id = ''p'', ot_action = ''cancel_order'', ot_params = [], ot_retry_count = 0,
     ot_max_retries = 3, ot_on_success = None\<rparr> = Inl (ValueError m)"
  (is "\<exists>m. execute_task ?f ?l ?t = _")
proof -
  have "\<exists>e. execute_task ?f ?l ?t = Inl e" by (simp add: execute_task_def require_str_def)
  with execute_task_total [of ?f ?l ?t] show ?thesis by blast
qed

end
