(* ===== verification/Order_Queue.thy ===== *)
theory Order_Queue
  imports Order_Task Heapq "HOL-Library.Product_Lexorder"
begin

text \<open>
  \<^verbatim>\<open>app/services/position/order_queue.py\<close>, second part: \<open>OrderExecutionQueue\<close>.

  Tasks are mutable objects shared by the priority queue, by \<open>_pending_tasks\<close> and by the running
  loop, and coalescing writes through that sharing, so the state has a store from addresses to
  tasks; the heap and the pending dictionary hold addresses. The processing loop is cut at its
  awaits: \<open>q_dequeue\<close> (take a task, drop it if tombstoned, else wait for rate-limit headroom),
  \<open>q_start\<close> (headroom, the adapter call begins), \<open>q_requeue\<close> (the loop was stopped while waiting),
  \<open>q_finish\<close> (the call ended, with its outcome), \<open>q_wake\<close> (the back-off sleep ended). \<open>enqueue\<close> and
  \<open>purge_pending\<close> hold the lock and may happen between any two of these steps; \<open>queue_step\<close> is
  that interleaving.
\<close>

section \<open>State\<close>

datatype loop_phase = Waiting | Executing | Backoff

record queue_state =
  qs_store :: "nat \<Rightarrow> order_task"
  qs_next :: nat
  qs_heap :: "nat list"
  qs_pending :: "(string \<times> nat) list"
  qs_tombstoned :: "string set"
  qs_executing :: "(string \<times> nat) list"
  qs_inflight :: "(string \<times> nat \<times> loop_phase) option"
  qs_processing :: bool
  qs_audit :: "(string \<times> string) list"

definition empty_task :: order_task where
  "empty_task = \<lparr>ot_priority = Prio_CANCEL_ORDER, ot_created_at = 0, ot_position_id = [],
     ot_action = [], ot_params = [], ot_retry_count = 0, ot_max_retries = 3, ot_on_success = None\<rparr>"

definition new_queue :: queue_state where
  "new_queue = \<lparr>qs_store = (\<lambda>_. empty_task), qs_next = 0, qs_heap = [], qs_pending = [],
     qs_tombstoned = {}, qs_executing = [], qs_inflight = None, qs_processing = True, qs_audit = []\<rparr>"

definition quickfire_window :: real where
  "quickfire_window = 1 / 2"

text \<open>\<open>@dataclass(order=True)\<close>: tasks compare by priority, then by creation time.\<close>

definition sort_key :: "(nat \<Rightarrow> order_task) \<Rightarrow> nat \<Rightarrow> int \<times> real" where
  "sort_key st a = (priority_value (ot_priority (st a)), ot_created_at (st a))"

definition is_sl_action :: "string \<Rightarrow> bool" where
  "is_sl_action a = (a = ''place_sl'' \<or> a = ''replace_sl'')"

definition is_multi_tp_reason :: "pyval \<Rightarrow> bool" where
  "is_multi_tp_reason reason =
     (case reason of VStr s \<Rightarrow> starts_with s ''tp'' \<and> contains_sub s ''sl_adjustment'' | _ \<Rightarrow> False)"

abbreviation key_of :: "(pyval \<Rightarrow> string) \<Rightarrow> order_task \<Rightarrow> string" where
  "key_of rp t \<equiv> task_key rp (ot_position_id t) (ot_action t) (ot_params t)"

section \<open>Enqueue\<close>

definition quickfire_match :: "(nat \<Rightarrow> order_task) \<Rightarrow> string \<Rightarrow> real \<Rightarrow> nat \<Rightarrow> bool" where
  "quickfire_match st position_id created_at a =
     (ot_position_id (st a) = position_id \<and> ot_action (st a) = ''replace_sl''
      \<and> is_multi_tp_reason (get_none (ot_params (st a)) ''reason'')
      \<and> \<bar>ot_created_at (st a) - created_at\<bar> \<le> quickfire_window)"

definition find_quickfire_replace_sl :: "queue_state \<Rightarrow> string \<Rightarrow> real \<Rightarrow> (string \<times> nat) option" where
  "find_quickfire_replace_sl q position_id created_at =
     find (\<lambda>(k, a). quickfire_match (qs_store q) position_id created_at a) (qs_pending q)"

text \<open>Latest intent wins: parameters and time of the new task, the higher priority of the two.\<close>

definition refresh_task :: "order_task \<Rightarrow> order_task \<Rightarrow> order_task" where
  "refresh_task existing task =
     existing\<lparr>ot_params := ot_params task, ot_created_at := ot_created_at task,
       ot_priority := (if ot_priority task < ot_priority existing
                       then ot_priority task else ot_priority existing)\<rparr>"

definition coalesce_quickfire ::
    "(pyval \<Rightarrow> string) \<Rightarrow> queue_state \<Rightarrow> order_task \<Rightarrow> string \<Rightarrow> nat \<Rightarrow> queue_state" where
  "coalesce_quickfire rp q task ckey a =
     (let new_key = key_of rp task in
      q\<lparr>qs_store := (qs_store q)(a := refresh_task (qs_store q a) task),
        qs_pending := (if new_key \<noteq> ckey then dict_set (dict_pop (qs_pending q) ckey) new_key a
                       else qs_pending q),
        qs_audit := qs_audit q @ [(''replace_sl_coalesced_inflight'', ot_position_id task)]\<rparr>)"

definition coalesce_existing :: "queue_state \<Rightarrow> order_task \<Rightarrow> nat \<Rightarrow> queue_state" where
  "coalesce_existing q task a =
     q\<lparr>qs_store := (qs_store q)(a :=
         (if is_sl_action (ot_action task) then refresh_task (qs_store q a) task
          else (qs_store q a)\<lparr>ot_params := ot_params task\<rparr>))\<rparr>"

definition put_new :: "(pyval \<Rightarrow> string) \<Rightarrow> queue_state \<Rightarrow> order_task \<Rightarrow> queue_state" where
  "put_new rp q task =
     (let a = qs_next q; st = (qs_store q)(a := task) in
      q\<lparr>qs_store := st, qs_next := a + 1,
        qs_pending := dict_set (qs_pending q) (key_of rp task) a,
        qs_heap := heappush (sort_key st) (qs_heap q) a\<rparr>)"

definition enqueue :: "(pyval \<Rightarrow> string) \<Rightarrow> queue_state \<Rightarrow> order_task \<Rightarrow> queue_state" where
  "enqueue rp q task =
     (let quick = (if ot_action task = ''replace_sl''
                      \<and> is_multi_tp_reason (get_none (ot_params task) ''reason'')
                   then find_quickfire_replace_sl q (ot_position_id task) (ot_created_at task)
                   else None)
      in case quick of
           Some (ckey, a) \<Rightarrow> coalesce_quickfire rp q task ckey a
         | None \<Rightarrow>
             (case dict_get (qs_pending q) (key_of rp task) of
                Some a \<Rightarrow> coalesce_existing q task a
              | None \<Rightarrow> put_new rp q task))"

section \<open>Purge and quiescence\<close>

definition purge_matches :: "queue_state \<Rightarrow> string \<Rightarrow> string set \<Rightarrow> string \<times> nat \<Rightarrow> bool" where
  "purge_matches q position_id actions ka =
     (starts_with (fst ka) (position_id @ '':'') \<and> ot_action (qs_store q (snd ka)) \<in> actions)"

definition purge_pending ::
    "queue_state \<Rightarrow> string \<Rightarrow> string set \<Rightarrow> queue_state \<times> string list" where
  "purge_pending q position_id actions =
     (let purged = map fst (filter (purge_matches q position_id actions) (qs_pending q)) in
      (q\<lparr>qs_pending := filter (\<lambda>ka. \<not> purge_matches q position_id actions ka) (qs_pending q),
         qs_tombstoned := qs_tombstoned q \<union> set purged\<rparr>, purged))"

text \<open>The second segment of \<open>key.split(":", 2)\<close>, if there is one.\<close>

definition key_action_segment :: "string \<Rightarrow> string option" where
  "key_action_segment key =
     (let r = dropWhile (\<lambda>c. c \<noteq> CHR '':'') key in
      if r = [] then None else Some (takeWhile (\<lambda>c. c \<noteq> CHR '':'') (tl r)))"

text \<open>The events \<open>await_quiescent\<close> waits for; it returns at once when there are none.\<close>

definition relevant_events :: "queue_state \<Rightarrow> string \<Rightarrow> string set \<Rightarrow> (string \<times> nat) list" where
  "relevant_events q position_id actions =
     filter (\<lambda>(k, ev). starts_with k (position_id @ '':'')
        \<and> (case key_action_segment k of None \<Rightarrow> False | Some s \<Rightarrow> s \<in> actions)) (qs_executing q)"

section \<open>The processing loop\<close>

datatype exec_outcome =
    Succeeded
  | TransientExchangeError string
  | PlacementWouldImmediatelyTrigger
  | PositionAlreadyFlat
  | FatalError string

text \<open>Take the next task. The loop only runs between \<open>start_processing\<close> and \<open>stop\<close>, and holds at
  most one task. The key is computed here, once, and used until the task is finished.\<close>

definition q_dequeue :: "(pyval \<Rightarrow> string) \<Rightarrow> queue_state \<Rightarrow> queue_state option" where
  "q_dequeue rp q =
     (if \<not> qs_processing q \<or> qs_inflight q \<noteq> None then None
      else case heappop (sort_key (qs_store q)) (qs_heap q) of
             None \<Rightarrow> None
           | Some (a, h) \<Rightarrow>
               let key = key_of rp (qs_store q a) in
               if key \<in> qs_tombstoned q
               then Some (q\<lparr>qs_heap := h, qs_tombstoned := qs_tombstoned q - {key}\<rparr>)
               else Some (q\<lparr>qs_heap := h, qs_inflight := Some (key, a, Waiting)\<rparr>))"

definition q_start :: "queue_state \<Rightarrow> queue_state option" where
  "q_start q =
     (case qs_inflight q of
        Some (key, a, Waiting) \<Rightarrow>
          Some (q\<lparr>qs_executing := dict_set (qs_executing q) key a,
                  qs_inflight := Some (key, a, Executing)\<rparr>)
      | _ \<Rightarrow> None)"

definition q_requeue :: "queue_state \<Rightarrow> queue_state option" where
  "q_requeue q =
     (case qs_inflight q of
        Some (key, a, Waiting) \<Rightarrow>
          if qs_processing q then None
          else Some (q\<lparr>qs_heap := heappush (sort_key (qs_store q)) (qs_heap q) a,
                       qs_inflight := None\<rparr>)
      | _ \<Rightarrow> None)"

definition emergency_task :: "order_task \<Rightarrow> real \<Rightarrow> string \<Rightarrow> order_task" where
  "emergency_task task now reason =
     (let p = ot_params task in
      \<lparr>ot_priority = Prio_EMERGENCY_CLOSE, ot_created_at = now,
       ot_position_id = ot_position_id task, ot_action = ''emergency_market_close'',
       ot_params =
         [(''symbol'', get_none p ''symbol''), (''side'', get_none p ''side''),
          (''full_quantity'', get_default p ''full_quantity''
             (get_default p ''quantity'' (get_none p ''new_quantity''))),
          (''client_order_id'', get_none p ''client_order_id''),
          (''reason'', VStr reason)],
       ot_retry_count = 0, ot_max_retries = 3, ot_on_success = None\<rparr>)"

definition handle_max_retries ::
    "(pyval \<Rightarrow> string) \<Rightarrow> real \<Rightarrow> queue_state \<Rightarrow> order_task \<Rightarrow> string \<Rightarrow> queue_state" where
  "handle_max_retries rp now q task err =
     (if \<not> is_sl_action (ot_action task) then q
      else if \<not> has_positive_emergency_quantity (ot_params task) then q
      else enqueue rp q
             (emergency_task task now (''SL placement failed after retries: '' @ err)))"

definition handle_fatal_error ::
    "(pyval \<Rightarrow> string) \<Rightarrow> real \<Rightarrow> queue_state \<Rightarrow> order_task \<Rightarrow> string \<Rightarrow> queue_state" where
  "handle_fatal_error rp now q task err =
     (let q' = q\<lparr>qs_audit := qs_audit q @ [(''order_queue_fatal_error'', ot_position_id task)]\<rparr> in
      if is_sl_action (ot_action task) then
        if \<not> has_positive_emergency_quantity (ot_params task) then q'
        else enqueue rp q'
               (emergency_task task now (''SL placement failed (non-transient): '' @ err))
      else q')"

definition clear_inflight :: "queue_state \<Rightarrow> string \<Rightarrow> queue_state" where
  "clear_inflight q key =
     q\<lparr>qs_pending := dict_pop (qs_pending q) key, qs_inflight := None\<rparr>"

text \<open>The adapter call of the running task ended. Its entry in \<open>_executing_keys\<close> goes first (the
  inner \<open>finally\<close>), then the handler of the outcome runs, then \<open>_pending_tasks.pop(key)\<close>.\<close>

definition q_finish ::
    "(pyval \<Rightarrow> string) \<Rightarrow> real \<Rightarrow> queue_state \<Rightarrow> exec_outcome \<Rightarrow> queue_state option" where
  "q_finish rp now q outcome =
     (case qs_inflight q of
        Some (key, a, Executing) \<Rightarrow>
          let task = qs_store q a;
              q1 = q\<lparr>qs_executing := dict_pop (qs_executing q) key\<rparr>
          in Some
             (case outcome of
                Succeeded \<Rightarrow> clear_inflight q1 key
              | TransientExchangeError err \<Rightarrow>
                  if ot_retry_count task < ot_max_retries task
                  then q1\<lparr>qs_store := (qs_store q1)(a := task\<lparr>ot_retry_count := ot_retry_count task + 1\<rparr>),
                          qs_inflight := Some (key, a, Backoff)\<rparr>
                  else clear_inflight (handle_max_retries rp now q1 task err) key
              | PlacementWouldImmediatelyTrigger \<Rightarrow>
                  clear_inflight (q1\<lparr>qs_audit := qs_audit q1 @
                    [(''sl_adjustment_skipped_would_trigger_immediately_vs_mark'', ot_position_id task)]\<rparr>) key
              | PositionAlreadyFlat \<Rightarrow>
                  clear_inflight (q1\<lparr>qs_audit := qs_audit q1 @
                    [(''sl_adjustment_skipped_position_already_flat'', ot_position_id task)]\<rparr>) key
              | FatalError err \<Rightarrow> clear_inflight (handle_fatal_error rp now q1 task err) key)
      | _ \<Rightarrow> None)"

text \<open>The back-off sleep ended: the same task object goes back on the heap.\<close>

definition q_wake :: "queue_state \<Rightarrow> queue_state option" where
  "q_wake q =
     (case qs_inflight q of
        Some (key, a, Backoff) \<Rightarrow>
          Some (q\<lparr>qs_heap := heappush (sort_key (qs_store q)) (qs_heap q) a, qs_inflight := None\<rparr>)
      | _ \<Rightarrow> None)"

definition q_stop :: "queue_state \<Rightarrow> queue_state" where
  "q_stop q = q\<lparr>qs_processing := False\<rparr>"

inductive queue_step :: "(pyval \<Rightarrow> string) \<Rightarrow> queue_state \<Rightarrow> queue_state \<Rightarrow> bool" for rp where
  step_enqueue: "queue_step rp q (enqueue rp q t)"
| step_purge: "queue_step rp q (fst (purge_pending q pid actions))"
| step_dequeue: "q_dequeue rp q = Some q' \<Longrightarrow> queue_step rp q q'"
| step_start: "q_start q = Some q' \<Longrightarrow> queue_step rp q q'"
| step_requeue: "q_requeue q = Some q' \<Longrightarrow> queue_step rp q q'"
| step_finish: "q_finish rp now q out = Some q' \<Longrightarrow> queue_step rp q q'"
| step_wake: "q_wake q = Some q' \<Longrightarrow> queue_step rp q q'"
| step_stop: "queue_step rp q (q_stop q)"

inductive queue_reachable :: "(pyval \<Rightarrow> string) \<Rightarrow> queue_state \<Rightarrow> bool" for rp where
  reach_new: "queue_reachable rp new_queue"
| reach_step: "queue_reachable rp q \<Longrightarrow> queue_step rp q q' \<Longrightarrow> queue_reachable rp q'"

inductive_cases queue_stepE: "queue_step rp q q'"

section \<open>The structural invariant\<close>

text \<open>Keys of the pending dictionary are distinct; the heap, the pending dictionary and the running
  task refer to allocated tasks; a task is on the heap at most once and never while it is running.\<close>

definition inflight_addr :: "queue_state \<Rightarrow> nat set" where
  "inflight_addr q = (case qs_inflight q of None \<Rightarrow> {} | Some (k, a, ph) \<Rightarrow> {a})"

definition queue_wf :: "queue_state \<Rightarrow> bool" where
  "queue_wf q =
     (distinct (map fst (qs_pending q))
      \<and> (\<forall>k a. (k, a) \<in> set (qs_pending q) \<longrightarrow> a < qs_next q)
      \<and> (\<forall>a \<in> set (qs_heap q) \<union> inflight_addr q. a < qs_next q)
      \<and> distinct (qs_heap q)
      \<and> set (qs_heap q) \<inter> inflight_addr q = {})"

lemma set_heappush: "set (heappush f h x) = insert x (set h)"
  using mset_heappush [of f h x] by (metis set_mset_add_mset_insert set_mset_mset)

lemma distinct_heappush: "distinct (heappush f h x) \<longleftrightarrow> x \<notin> set h \<and> distinct h"
  using mset_heappush [of f h x]
  by (metis distinct.simps(2) mset.simps(2) mset_eq_imp_distinct_iff)

lemma heappop_set:
  assumes "heappop f h = Some (x, h')"
  shows "set h = insert x (set h')" and "distinct h \<longleftrightarrow> x \<notin> set h' \<and> distinct h'"
proof -
  have "mset h = mset (x # h')" using mset_heappop [OF assms] by simp
  then show "set h = insert x (set h')" "distinct h \<longleftrightarrow> x \<notin> set h' \<and> distinct h'"
    by (metis list.simps(15) mset_eq_setD, metis distinct.simps(2) mset_eq_imp_distinct_iff)
qed

lemma find_quickfire_in:
  "find_quickfire_replace_sl q pid t = Some (k, a) \<Longrightarrow> (k, a) \<in> set (qs_pending q)"
  by (auto simp: find_quickfire_replace_sl_def find_Some_iff in_set_conv_nth)

lemma inflight_addr_simps [simp]:
  "inflight_addr (q\<lparr>qs_store := st\<rparr>) = inflight_addr q"
  "inflight_addr (q\<lparr>qs_pending := pd\<rparr>) = inflight_addr q"
  "inflight_addr (q\<lparr>qs_audit := au\<rparr>) = inflight_addr q"
  "inflight_addr (q\<lparr>qs_executing := ex\<rparr>) = inflight_addr q"
  "inflight_addr (q\<lparr>qs_heap := h\<rparr>) = inflight_addr q"
  "inflight_addr (q\<lparr>qs_next := n\<rparr>) = inflight_addr q"
  "inflight_addr (q\<lparr>qs_tombstoned := ts\<rparr>) = inflight_addr q"
  "inflight_addr (q\<lparr>qs_processing := b\<rparr>) = inflight_addr q"
  by (simp_all add: inflight_addr_def)

lemma coalesce_quickfire_wf:
  assumes "queue_wf q" and "(ckey, a) \<in> set (qs_pending q)"
  shows "queue_wf (coalesce_quickfire rp q task ckey a)"
proof -
  have "\<forall>k' b. (k', b) \<in> set (dict_set (dict_pop (qs_pending q) ckey) k a) \<longrightarrow> b < qs_next q" for k
    using set_dict_set [of "dict_pop (qs_pending q) ckey" k a] set_dict_pop [of "qs_pending q" ckey]
      assms by (auto simp: queue_wf_def)
  with assms(1) show ?thesis
    by (simp add: coalesce_quickfire_def Let_def queue_wf_def distinct_dict_set distinct_dict_pop)
qed

lemma put_new_wf:
  assumes "queue_wf q"
  shows "queue_wf (put_new rp q task)"
proof -
  have "\<forall>k' b. (k', b) \<in> set (dict_set (qs_pending q) k (qs_next q)) \<longrightarrow> b < Suc (qs_next q)" for k
    using set_dict_set [of "qs_pending q" k "qs_next q"] assms
    by (auto simp: queue_wf_def less_Suc_eq)
  with assms show ?thesis
    by (auto simp: put_new_def Let_def queue_wf_def distinct_dict_set set_heappush
        distinct_heappush less_Suc_eq)
qed

lemma enqueue_wf: "queue_wf q \<Longrightarrow> queue_wf (enqueue rp q task)"
  by (auto simp: enqueue_def Let_def intro: coalesce_quickfire_wf put_new_wf
      dest: find_quickfire_in split: option.splits if_splits)
    (simp_all add: coalesce_existing_def queue_wf_def)

lemma purge_wf: "queue_wf q \<Longrightarrow> queue_wf (fst (purge_pending q pid actions))"
  by (auto simp: purge_pending_def Let_def queue_wf_def intro: distinct_map_filter)

lemma dequeue_wf: "queue_wf q \<Longrightarrow> q_dequeue rp q = Some q' \<Longrightarrow> queue_wf q'"
  by (auto simp: q_dequeue_def Let_def queue_wf_def inflight_addr_def heappop_set
      subset_eq split: if_splits option.splits)

lemma clear_inflight_wf:
  "queue_wf q \<Longrightarrow> queue_wf (clear_inflight q key)"
  using set_dict_pop [of "qs_pending q" key]
  by (auto simp: clear_inflight_def queue_wf_def inflight_addr_def distinct_dict_pop)

lemma queue_wf_frame [simp]:
  "queue_wf (q\<lparr>qs_executing := ex\<rparr>) = queue_wf q"
  "queue_wf (q\<lparr>qs_audit := au\<rparr>) = queue_wf q"
  "queue_wf (q\<lparr>qs_store := st\<rparr>) = queue_wf q"
  "queue_wf (q\<lparr>qs_processing := b\<rparr>) = queue_wf q"
  by (simp_all add: queue_wf_def)

lemma handlers_wf:
  "queue_wf q \<Longrightarrow> queue_wf (handle_max_retries rp now q task err)"
  "queue_wf q \<Longrightarrow> queue_wf (handle_fatal_error rp now q task err)"
  by (simp_all add: handle_max_retries_def handle_fatal_error_def Let_def enqueue_wf)

lemma rephase_wf:
  "queue_wf q \<Longrightarrow> qs_inflight q = Some (key, a, ph) \<Longrightarrow>
     queue_wf (q\<lparr>qs_inflight := Some (key', a, ph')\<rparr>)"
  by (simp add: queue_wf_def inflight_addr_def)

lemma finish_wf:
  assumes "queue_wf q" and "q_finish rp now q out = Some q'"
  shows "queue_wf q'"
proof -
  obtain key a where infl: "qs_inflight q = Some (key, a, Executing)"
    using assms(2) by (auto simp: q_finish_def split: option.splits loop_phase.splits)
  let ?q1 = "q\<lparr>qs_executing := dict_pop (qs_executing q) key\<rparr>"
  have q1: "queue_wf ?q1" using assms(1) by simp
  have bk: "queue_wf (?q1\<lparr>qs_store := st, qs_inflight := Some (key, a, Backoff)\<rparr>)" for st
    using rephase_wf [of "?q1\<lparr>qs_store := st\<rparr>" key a Executing key Backoff] q1 infl by simp
  show ?thesis
    using assms(2) infl q1 bk
    by (cases out) (auto simp: q_finish_def Let_def split: if_splits
        intro!: clear_inflight_wf handlers_wf)
qed

lemma put_back_wf:
  assumes "queue_wf q" and "qs_inflight q = Some (key, a, ph)"
  shows "queue_wf (q\<lparr>qs_heap := heappush f (qs_heap q) a, qs_inflight := None\<rparr>)"
  using assms by (auto simp: queue_wf_def inflight_addr_def set_heappush distinct_heappush)

lemma wake_wf: "queue_wf q \<Longrightarrow> q_wake q = Some q' \<Longrightarrow> queue_wf q'"
  by (auto simp: q_wake_def intro: put_back_wf split: option.splits loop_phase.splits)

lemma requeue_wf: "queue_wf q \<Longrightarrow> q_requeue q = Some q' \<Longrightarrow> queue_wf q'"
  by (auto simp: q_requeue_def intro: put_back_wf split: option.splits loop_phase.splits if_splits)

lemma start_wf: "queue_wf q \<Longrightarrow> q_start q = Some q' \<Longrightarrow> queue_wf q'"
  by (auto simp: q_start_def intro!: rephase_wf [where ph = Waiting]
      split: option.splits loop_phase.splits)

lemma queue_step_wf:
  assumes "queue_step rp q q'" and "queue_wf q"
  shows "queue_wf q'"
  using assms
  by (cases rule: queue_step.cases)
    (auto intro: enqueue_wf purge_wf dequeue_wf finish_wf wake_wf requeue_wf start_wf
      simp: q_stop_def)

lemma new_queue_wf: "queue_wf new_queue"
  by (simp add: queue_wf_def new_queue_def inflight_addr_def)

lemma reachable_wf: "queue_reachable rp q \<Longrightarrow> queue_wf q"
  by (induction rule: queue_reachable.induct) (auto intro: new_queue_wf queue_step_wf)

section \<open>Order of service\<close>

lemma heap_ok_cong:
  assumes "\<And>a. a \<in> set h \<Longrightarrow> f a = g a"
  shows "heap_ok f h = heap_ok g h"
proof -
  have "f (h ! i) = g (h ! i)" if "i < length h" for i using assms that by simp
  then show ?thesis by (auto simp: heap_ok_def)
qed

lemma put_new_heap_ok:
  assumes "queue_wf q" and "heap_ok (sort_key (qs_store q)) (qs_heap q)"
  shows "heap_ok (sort_key (qs_store (put_new rp q t))) (qs_heap (put_new rp q t))"
proof -
  let ?st = "(qs_store q)(qs_next q := t)"
  have "sort_key ?st a = sort_key (qs_store q) a" if "a \<in> set (qs_heap q)" for a
    using assms(1) that by (auto simp: sort_key_def queue_wf_def)
  then have "heap_ok (sort_key ?st) (qs_heap q)"
    using assms(2) heap_ok_cong [of "qs_heap q" "sort_key ?st" "sort_key (qs_store q)"] by blast
  then show ?thesis by (simp add: put_new_def Let_def heap_ok_push)
qed

lemma dequeue_takes_least:
  assumes "heap_ok (sort_key (qs_store q)) (qs_heap q)"
    and "q_dequeue rp q = Some q'" and "qs_inflight q' = Some (key, a, ph)"
    and "b \<in> set (qs_heap q)"
  shows "sort_key (qs_store q) a \<le> sort_key (qs_store q) b"
proof -
  obtain h where "heappop (sort_key (qs_store q)) (qs_heap q) = Some (a, h)"
    using assms(2,3) by (auto simp: q_dequeue_def Let_def split: if_splits option.splits)
  then show ?thesis using heapq.get_least [OF assms(1)] assms(4) by simp
qed

section \<open>The running task keeps its identity\<close>

text \<open>Position and action of an allocated task never change, and the key of the running task is a
  key of that position and action (its parameters may have been refreshed meanwhile).\<close>

definition same_ident :: "order_task \<Rightarrow> order_task \<Rightarrow> bool" where
  "same_ident t u = (ot_position_id t = ot_position_id u \<and> ot_action t = ot_action u)"

definition inflight_key_ok :: "(pyval \<Rightarrow> string) \<Rightarrow> queue_state \<Rightarrow> bool" where
  "inflight_key_ok rp q =
     (\<forall>key a ph. qs_inflight q = Some (key, a, ph) \<longrightarrow>
        (\<exists>ps. key = task_key rp (ot_position_id (qs_store q a)) (ot_action (qs_store q a)) ps))"

lemma same_ident_refresh [simp]: "same_ident (refresh_task t u) t"
  by (simp add: same_ident_def refresh_task_def)

lemma enqueue_inflight [simp]: "qs_inflight (enqueue rp q t) = qs_inflight q"
  by (simp add: enqueue_def Let_def coalesce_quickfire_def coalesce_existing_def put_new_def
      split: option.splits)

lemma enqueue_ident:
  "a < qs_next q \<Longrightarrow> same_ident (qs_store (enqueue rp q t) a) (qs_store q a)"
  by (auto simp: enqueue_def Let_def coalesce_quickfire_def coalesce_existing_def put_new_def
      same_ident_def refresh_task_def split: option.splits)

lemma inflight_lt_next: "queue_wf q \<Longrightarrow> qs_inflight q = Some (key, a, ph) \<Longrightarrow> a < qs_next q"
  by (simp add: queue_wf_def inflight_addr_def)

lemma inflight_key_ok_cong:
  assumes "inflight_key_ok rp q" and "qs_inflight q = Some (key, a, ph)"
    and "qs_inflight q' = Some (key, a, ph')" and "same_ident (qs_store q' a) (qs_store q a)"
  shows "inflight_key_ok rp q'"
  using assms by (auto simp: inflight_key_ok_def same_ident_def)

lemma enqueue_key_ok:
  assumes "queue_wf q" and "inflight_key_ok rp q"
  shows "inflight_key_ok rp (enqueue rp q t)"
proof (cases "qs_inflight q")
  case None
  then show ?thesis by (simp add: inflight_key_ok_def)
next
  case (Some kap)
  then obtain key a ph where k: "qs_inflight q = Some (key, a, ph)" by (cases kap) auto
  then show ?thesis
    using assms enqueue_ident [OF inflight_lt_next [OF assms(1) k]]
    by (auto intro: inflight_key_ok_cong [OF _ k])
qed

lemma inflight_None_key_ok: "qs_inflight q = None \<Longrightarrow> inflight_key_ok rp q"
  by (simp add: inflight_key_ok_def)

lemma dequeue_key_ok: "q_dequeue rp q = Some q' \<Longrightarrow> inflight_key_ok rp q'"
  by (auto simp: q_dequeue_def inflight_key_ok_def Let_def split: if_splits option.splits) blast

lemma finish_key_ok:
  assumes "inflight_key_ok rp q" and "q_finish rp now q out = Some q'"
  shows "inflight_key_ok rp q'"
proof -
  obtain key a where infl: "qs_inflight q = Some (key, a, Executing)"
    using assms(2) by (auto simp: q_finish_def split: option.splits loop_phase.splits)
  have "qs_inflight q' = None \<or>
      (qs_inflight q' = Some (key, a, Backoff) \<and> same_ident (qs_store q' a) (qs_store q a))"
    using assms(2) infl
    by (cases out) (auto simp: q_finish_def Let_def clear_inflight_def same_ident_def
        split: if_splits)
  then show ?thesis
    using inflight_key_ok_cong [OF assms(1) infl] inflight_None_key_ok by blast
qed

lemma queue_step_key_ok:
  assumes "queue_step rp q q'" and "queue_wf q" and "inflight_key_ok rp q"
  shows "inflight_key_ok rp q'"
  using assms
proof (cases rule: queue_step.cases)
  case (step_start)
  with assms(3) show ?thesis
    by (auto simp: q_start_def inflight_key_ok_def split: option.splits loop_phase.splits) blast
next
  case (step_requeue)
  with assms(3) show ?thesis
    by (auto simp: q_requeue_def inflight_key_ok_def
        split: option.splits loop_phase.splits if_splits)
next
  case (step_wake)
  with assms(3) show ?thesis
    by (auto simp: q_wake_def inflight_key_ok_def split: option.splits loop_phase.splits)
next
  case (step_purge pid actions)
  with assms(3) show ?thesis by (simp add: purge_pending_def Let_def inflight_key_ok_def)
next
  case step_stop
  with assms(3) show ?thesis by (simp add: q_stop_def inflight_key_ok_def)
qed (use assms in \<open>auto intro: enqueue_key_ok dequeue_key_ok finish_key_ok\<close>)

lemma reachable_key_ok: "queue_reachable rp q \<Longrightarrow> inflight_key_ok rp q"
proof (induction rule: queue_reachable.induct)
  case reach_new
  show ?case by (simp add: new_queue_def inflight_key_ok_def)
next
  case (reach_step q q')
  then show ?case using queue_step_key_ok reachable_wf by blast
qed

section \<open>Escalation of a failed stop-loss task\<close>

abbreviation emergency_key :: "order_task \<Rightarrow> string" where
  "emergency_key t \<equiv> ot_position_id t @ '':emergency_market_close''"

lemma emergency_task_key [simp]:
  "task_key rp pid ''emergency_market_close'' ps = pid @ '':emergency_market_close''"
  by (simp add: task_key_def Let_def)

lemma emergency_task_ident [simp]:
  "ot_position_id (emergency_task t now r) = ot_position_id t"
  "ot_action (emergency_task t now r) = ''emergency_market_close''"
  "ot_priority (emergency_task t now r) = Prio_EMERGENCY_CLOSE"
  by (simp_all add: emergency_task_def Let_def)

lemma sl_key_not_emergency:
  "is_sl_action action \<Longrightarrow> task_key rp pid action ps \<noteq> pid @ '':emergency_market_close''"
  using task_key_prefix [of rp pid action ps] by (auto simp: is_sl_action_def starts_with_iff)

lemma enqueue_emergency:
  fixes rp q t now r
  defines "q' \<equiv> enqueue rp q (emergency_task t now r)"
  shows "\<exists>b. dict_get (qs_pending q') (emergency_key t) = Some b
      \<and> ot_params (qs_store q' b) = ot_params (emergency_task t now r)
      \<and> (dict_get (qs_pending q) (emergency_key t) = None \<longrightarrow>
           b \<in> set (qs_heap q') \<and> qs_store q' b = emergency_task t now r)"
  by (auto simp: q'_def enqueue_def Let_def coalesce_existing_def put_new_def is_sl_action_def
      set_heappush split: option.splits)

lemma escalation:
  assumes "queue_wf q" and "inflight_key_ok rp q" and "qs_inflight q = Some (key, a, Executing)"
    and "is_sl_action (ot_action (qs_store q a))"
    and "has_positive_emergency_quantity (ot_params (qs_store q a))"
    and "out = FatalError err \<or>
      (out = TransientExchangeError err \<and> ot_max_retries (qs_store q a) \<le> ot_retry_count (qs_store q a))"
    and "q_finish rp now q out = Some q'"
  shows "\<exists>b r. dict_get (qs_pending q') (emergency_key (qs_store q a)) = Some b
      \<and> ot_params (qs_store q' b) = ot_params (emergency_task (qs_store q a) now r)
      \<and> (dict_get (qs_pending q) (emergency_key (qs_store q a)) = None \<longrightarrow>
           b \<in> set (qs_heap q') \<and> qs_store q' b = emergency_task (qs_store q a) now r)"
proof -
  let ?t = "qs_store q a"
  have key: "key \<noteq> emergency_key ?t"
    using assms(2,3,4) sl_key_not_emergency by (auto simp: inflight_key_ok_def)
  obtain q1 r where q1: "qs_pending q1 = qs_pending q" "qs_store q1 = qs_store q" "queue_wf q1"
    and q': "q' = clear_inflight (enqueue rp q1 (emergency_task ?t now r)) key"
  proof (cases out)
    case (FatalError e)
    let ?q1 = "q\<lparr>qs_executing := dict_pop (qs_executing q) key,
      qs_audit := qs_audit q @ [(''order_queue_fatal_error'', ot_position_id ?t)]\<rparr>"
    show ?thesis
      by (rule that [of ?q1 "''SL placement failed (non-transient): '' @ err"]) (use assms FatalError in
        \<open>simp_all add: q_finish_def Let_def handle_fatal_error_def\<close>)
  next
    case (TransientExchangeError e)
    let ?q1 = "q\<lparr>qs_executing := dict_pop (qs_executing q) key\<rparr>"
    show ?thesis
      by (rule that [of ?q1 "''SL placement failed after retries: '' @ err"]) (use assms TransientExchangeError in
        \<open>simp_all add: q_finish_def Let_def handle_max_retries_def\<close>)
  qed (use assms(6) in simp_all)
  let ?q2 = "enqueue rp q1 (emergency_task ?t now r)"
  have "distinct (map fst (qs_pending ?q2))"
    using enqueue_wf [OF q1(3)] by (simp add: queue_wf_def)
  then have "dict_get (qs_pending q') (emergency_key ?t) = dict_get (qs_pending ?q2) (emergency_key ?t)"
    using key by (simp add: q' clear_inflight_def dict_get_pop)
  moreover have "qs_store q' = qs_store ?q2" "qs_heap q' = qs_heap ?q2"
    by (simp_all add: q' clear_inflight_def)
  ultimately show ?thesis using enqueue_emergency [where rp = rp and q = q1 and t = ?t and now = now and r = r] q1 by metis
qed

section \<open>Coalescing into a running task\<close>

text \<open>A multi-TP stop move that arrives while another one of the same position is executing, within
  the quick-fire window, is written into the running task object. The loop then removes the key it
  computed at dequeue time, so the new key stays in the dictionary with nothing left to run it.\<close>

lemma quickfire_into_running:
  assumes "queue_wf q" and "qs_inflight q = Some (key, a, Executing)"
    and "ot_action t = ''replace_sl''" "is_multi_tp_reason (get_none (ot_params t) ''reason'')"
    and "find_quickfire_replace_sl q (ot_position_id t) (ot_created_at t) = Some (key, a)"
    and "key_of rp t \<noteq> key"
    and "q_finish rp now (enqueue rp q t) Succeeded = Some q'"
  shows "qs_heap q' = qs_heap q \<and> qs_inflight q' = None \<and> a \<notin> set (qs_heap q')
    \<and> dict_get (qs_pending q') (key_of rp t) = Some a"
proof -
  have enq: "enqueue rp q t = coalesce_quickfire rp q t key a"
    using assms(3-5) by (simp add: enqueue_def)
  have d: "distinct (map fst (qs_pending (enqueue rp q t)))"
    using enqueue_wf [OF assms(1)] by (simp add: queue_wf_def)
  have "a \<notin> set (qs_heap q)" using assms(1,2) by (simp add: queue_wf_def inflight_addr_def)
  with assms(2,6,7) d show ?thesis
    by (auto simp: enq q_finish_def coalesce_quickfire_def Let_def clear_inflight_def dict_get_pop)
qed

lemma stale_pending_swallows:
  assumes "dict_get (qs_pending q) (key_of rp t) = Some a"
  shows "qs_heap (enqueue rp q t) = qs_heap q"
  using assms
  by (auto simp: enqueue_def Let_def coalesce_quickfire_def coalesce_existing_def
      split: option.splits if_splits)

section \<open>Purging\<close>

lemma purge_pending_iff:
  "(k, a) \<in> set (qs_pending (fst (purge_pending q pid actions))) \<longleftrightarrow>
     (k, a) \<in> set (qs_pending q)
     \<and> \<not> (starts_with k (pid @ '':'') \<and> ot_action (qs_store q a) \<in> actions)"
  by (auto simp: purge_pending_def Let_def purge_matches_def)

lemma purge_frame:
  "qs_heap (fst (purge_pending q pid actions)) = qs_heap q"
  "qs_store (fst (purge_pending q pid actions)) = qs_store q"
  "qs_tombstoned (fst (purge_pending q pid actions)) =
     qs_tombstoned q \<union> set (snd (purge_pending q pid actions))"
  by (simp_all add: purge_pending_def Let_def)

lemma dequeue_tombstoned:
  assumes "qs_processing q" and "qs_inflight q = None"
    and "heappop (sort_key (qs_store q)) (qs_heap q) = Some (a, h)"
    and "key_of rp (qs_store q a) \<in> qs_tombstoned q"
  shows "q_dequeue rp q =
    Some (q\<lparr>qs_heap := h, qs_tombstoned := qs_tombstoned q - {key_of rp (qs_store q a)}\<rparr>)"
  using assms by (simp add: q_dequeue_def Let_def)

section \<open>Retries\<close>

lemma backoff_bounds: "1 \<le> n \<Longrightarrow> 1 \<le> compute_backoff n \<and> compute_backoff n \<le> 10"
proof -
  assume "1 \<le> n"
  then have "(2::real) powi 1 \<le> 2 powi n" by (intro power_int_increasing) auto
  then show ?thesis by (simp add: compute_backoff_def)
qed

lemma backoff_mono: "m \<le> n \<Longrightarrow> compute_backoff m \<le> compute_backoff n"
proof -
  assume "m \<le> n"
  then have "(2::real) powi m \<le> 2 powi n" by (intro power_int_increasing) auto
  then show ?thesis by (simp add: compute_backoff_def min_def)
qed

section \<open>A batch of distinct tasks\<close>

text \<open>The heap operations on at most two elements.\<close>

lemma heappush_Nil [simp]: "heappush f [] x = [x]"
  by (simp add: heappush_def siftdown.simps [of f "[x]" 0 0 x])

lemma heappush_single [simp]: "heappush f [y] x = (if f x < f y then [x, y] else [y, x])"
proof -
  have "siftdown f [y, y] 0 0 x = [x, y]" by (simp add: siftdown.simps [of f "[y, y]" 0 0 x])
  then show ?thesis by (simp add: heappush_def siftdown.simps [of f "[y, x]" 0 "Suc 0" x])
qed

lemma heappop_pair [simp]: "heappop f [x, y] = Some (x, [y])"
  by (simp add: heappop_def siftup_walk.simps [of f "[x]" 0] siftdown.simps [of f "[x]" 0 0 y])

text \<open>Tasks that nothing coalesces: their keys are pairwise different and none is a multi-TP stop
  move.\<close>

definition plain_task :: "order_task \<Rightarrow> bool" where
  "plain_task t = (\<not> (ot_action t = ''replace_sl''
                      \<and> is_multi_tp_reason (get_none (ot_params t) ''reason'')))"

definition enqueue_all :: "(pyval \<Rightarrow> string) \<Rightarrow> order_task list \<Rightarrow> queue_state \<Rightarrow> queue_state" where
  "enqueue_all rp ts q = fold (\<lambda>t q. enqueue rp q t) ts q"

lemma enqueue_fresh:
  "plain_task t \<Longrightarrow> dict_get (qs_pending q) (key_of rp t) = None \<Longrightarrow> enqueue rp q t = put_new rp q t"
  by (auto simp: enqueue_def plain_task_def Let_def)

text \<open>What a queue of a plain batch looks like: the tasks in order in the store, all of them on
  a well-formed heap, and exactly their keys pending.\<close>

definition batch_queue :: "(pyval \<Rightarrow> string) \<Rightarrow> order_task list \<Rightarrow> queue_state \<Rightarrow> bool" where
  "batch_queue rp ts q =
     (queue_wf q \<and> heap_ok (sort_key (qs_store q)) (qs_heap q)
      \<and> qs_next q = length ts \<and> set (qs_heap q) = {..<length ts}
      \<and> (\<forall>i < length ts. qs_store q i = ts ! i)
      \<and> (\<forall>k. k \<notin> key_of rp ` set ts \<longrightarrow> dict_get (qs_pending q) k = None)
      \<and> qs_inflight q = None \<and> qs_processing q \<and> qs_tombstoned q = {})"

lemma batch_queue_new: "batch_queue rp [] new_queue"
  using new_queue_wf by (simp add: batch_queue_def new_queue_def heap_ok_def)

lemma batch_queue_put:
  assumes "batch_queue rp ts q"
  shows "batch_queue rp (ts @ [t]) (put_new rp q t)"
proof -
  have "queue_wf (put_new rp q t)"
    "heap_ok (sort_key (qs_store (put_new rp q t))) (qs_heap (put_new rp q t))"
    using assms put_new_wf put_new_heap_ok by (auto simp: batch_queue_def)
  with assms show ?thesis
    by (auto simp: batch_queue_def put_new_def Let_def set_heappush nth_append less_Suc_eq
        lessThan_Suc)
qed

lemma enqueue_all_batch:
  assumes "distinct (map (key_of rp) (us @ ts))" and "list_all plain_task ts"
    and "batch_queue rp us q"
  shows "batch_queue rp (us @ ts) (enqueue_all rp ts q)"
  using assms
proof (induction ts arbitrary: us q)
  case (Cons t ts)
  have "key_of rp t \<notin> key_of rp ` set us" using Cons.prems(1) by auto
  then have "enqueue rp q t = put_new rp q t"
    using Cons.prems(2,3) by (intro enqueue_fresh) (auto simp: batch_queue_def)
  then have "batch_queue rp (us @ [t]) (enqueue rp q t)"
    using batch_queue_put [OF Cons.prems(3)] by simp
  with Cons.IH [of "us @ [t]" "enqueue rp q t"] Cons.prems show ?case
    by (simp add: enqueue_all_def)
qed (simp add: enqueue_all_def)

text \<open>A stop-loss task and a take-profit task of one position, for the examples.\<close>

definition sample_sl_task :: order_task where
  "sample_sl_task = \<lparr>ot_priority = Prio_SL_ADJUSTMENT, ot_created_at = 20, ot_position_id = ''p'',
     ot_action = ''replace_sl'',
     ot_params = [(''symbol'', VStr ''BTC''), (''side'', VSide SELL), (''full_quantity'', VFloat 5),
       (''reason'', VStr ''manual''), (''client_order_id'', VStr ''c1'')],
     ot_retry_count = 0, ot_max_retries = 3, ot_on_success = None\<rparr>"

definition sample_tp_task :: order_task where
  "sample_tp_task = \<lparr>ot_priority = Prio_NEW_CONDITIONAL, ot_created_at = 10, ot_position_id = ''p'',
     ot_action = ''place_tp'', ot_params = [], ot_retry_count = 0, ot_max_retries = 3,
     ot_on_success = None\<rparr>"

definition sample_queue :: queue_state where
  "sample_queue = enqueue_all (\<lambda>_. []) [sample_tp_task, sample_sl_task] new_queue"

lemmas sample_task_simps = sample_sl_task_def sample_tp_task_def task_key_def plain_task_def
  is_multi_tp_reason_def

lemma sample_batch:
  "distinct (map (key_of (\<lambda>_. [])) [sample_tp_task, sample_sl_task])"
  "list_all plain_task [sample_tp_task, sample_sl_task]"
  by (simp_all add: sample_task_simps)

lemma enqueue_all_reachable: "queue_reachable rp q \<Longrightarrow> queue_reachable rp (enqueue_all rp ts q)"
  by (induction ts arbitrary: q)
     (auto simp: enqueue_all_def intro: queue_reachable.reach_step queue_step.step_enqueue)

lemma sample_queue_reachable: "queue_reachable (\<lambda>_. []) sample_queue"
  unfolding sample_queue_def by (intro enqueue_all_reachable queue_reachable.reach_new)

text \<open>The loop has taken the stop-loss task and its adapter call is running.\<close>

definition sample_running :: queue_state where
  "sample_running = sample_queue\<lparr>qs_heap := [0], qs_executing := [(''p:replace_sl'', 1)],
     qs_inflight := Some (''p:replace_sl'', 1, Executing)\<rparr>"

lemma sample_running_reachable: "queue_reachable (\<lambda>_. []) sample_running"
proof -
  let ?q1 = "sample_queue\<lparr>qs_heap := [0], qs_inflight := Some (''p:replace_sl'', 1, Waiting)\<rparr>"
  have d: "q_dequeue (\<lambda>_. []) sample_queue = Some ?q1"
    by (simp add: q_dequeue_def sample_queue_def enqueue_all_def enqueue_def put_new_def
        new_queue_def Let_def sample_task_simps sort_key_def)
  have s: "q_start ?q1 = Some sample_running"
    by (simp add: q_start_def sample_running_def sample_queue_def enqueue_all_def enqueue_def put_new_def
        new_queue_def Let_def sample_task_simps)
  show ?thesis
    by (rule queue_reachable.reach_step [OF queue_reachable.reach_step [OF sample_queue_reachable
          queue_step.step_dequeue [OF d]] queue_step.step_start [OF s]])
qed

section \<open>Properties\<close>

text \<open>C24: The structural invariant of the execution queue holds in every state the interleaving of
  enqueue, purge, the processing loop and stop can reach: pending keys are distinct, every address
  in use is allocated, a task is on the heap at most once and never while it is being run, and the
  key the loop holds is a key of the running task's position and action.\<close>

theorem queue_invariant:
  assumes "queue_reachable rp q"
  shows "distinct (map fst (qs_pending q)) \<and> distinct (qs_heap q)
    \<and> (\<forall>k a. (k, a) \<in> set (qs_pending q) \<longrightarrow> a < qs_next q)
    \<and> (\<forall>a \<in> set (qs_heap q). a < qs_next q)
    \<and> (\<forall>key a ph. qs_inflight q = Some (key, a, ph) \<longrightarrow> a < qs_next q \<and> a \<notin> set (qs_heap q)
         \<and> (\<exists>ps. key = task_key rp (ot_position_id (qs_store q a)) (ot_action (qs_store q a)) ps))"
  using reachable_wf [OF assms] reachable_key_ok [OF assms]
  by (auto simp: queue_wf_def inflight_key_ok_def inflight_addr_def)

theorem queue_invariant_witness:
  "qs_inflight sample_running = Some (''p:replace_sl'', 1, Executing)
   \<and> 1 \<notin> set (qs_heap sample_running) \<and> distinct (map fst (qs_pending sample_running))"
  using queue_invariant [OF sample_running_reachable] by (simp add: sample_running_def)

text \<open>C25: Service in priority order. After a batch of tasks that do not coalesce has been put on a
  fresh queue, the loop can take a task, and the one it takes is least in the order of priority and
  then creation time among the whole batch.\<close>

theorem highest_priority_served_first:
  assumes "distinct (map (key_of rp) ts)" and "list_all plain_task ts" and "ts \<noteq> []"
  shows "\<exists>q' key a. q_dequeue rp (enqueue_all rp ts new_queue) = Some q'
    \<and> qs_inflight q' = Some (key, a, Waiting) \<and> a < length ts \<and> qs_store q' a = ts ! a
    \<and> key = key_of rp (ts ! a)
    \<and> (\<forall>t \<in> set ts. (priority_value (ot_priority (ts ! a)), ot_created_at (ts ! a))
                      \<le> (priority_value (ot_priority t), ot_created_at t))"
proof -
  define q where "q = enqueue_all rp ts new_queue"
  have b: "batch_queue rp ts q"
    using enqueue_all_batch [OF _ assms(2) batch_queue_new] assms(1) by (simp add: q_def)
  then have "qs_heap q \<noteq> []" using assms(3) by (auto simp: batch_queue_def)
  then obtain a h where pop: "heappop (sort_key (qs_store q)) (qs_heap q) = Some (a, h)"
    by (metis heapq.get_empty mset_zero_iff option.exhaust surj_pair)
  let ?q' = "q\<lparr>qs_heap := h, qs_inflight := Some (key_of rp (qs_store q a), a, Waiting)\<rparr>"
  have d: "q_dequeue rp q = Some ?q'"
    using b pop by (simp add: q_dequeue_def batch_queue_def Let_def)
  have a: "a < length ts" "qs_store q a = ts ! a"
    using heappop_set(1) [OF pop] b by (auto simp: batch_queue_def)
  have least: "sort_key (qs_store q) a \<le> sort_key (qs_store q) i" if "i < length ts" for i
    using heapq.get_least [OF _ pop] b that by (auto simp: batch_queue_def)
  have "\<forall>t \<in> set ts. (priority_value (ot_priority (ts ! a)), ot_created_at (ts ! a))
                      \<le> (priority_value (ot_priority t), ot_created_at t)"
  proof
    fix t
    assume "t \<in> set ts"
    then obtain i where i: "i < length ts" "ts ! i = t" by (auto simp: in_set_conv_nth)
    then have "qs_store q i = t" using b by (simp add: batch_queue_def)
    with least [OF i(1)] a(2) show "(priority_value (ot_priority (ts ! a)), ot_created_at (ts ! a))
                      \<le> (priority_value (ot_priority t), ot_created_at t)"
      by (simp only: sort_key_def)
  qed
  with d a show ?thesis unfolding q_def [symmetric] by auto
qed

theorem highest_priority_served_first_witness:
  "\<exists>q' key a. q_dequeue (\<lambda>_. []) sample_queue = Some q' \<and> qs_inflight q' = Some (key, a, Waiting)
     \<and> a < 2 \<and> ot_priority (qs_store q' a) = Prio_SL_ADJUSTMENT"
proof -
  obtain q' key a where q': "q_dequeue (\<lambda>_. []) sample_queue = Some q'"
      "qs_inflight q' = Some (key, a, Waiting)" "a < 2"
      "qs_store q' a = [sample_tp_task, sample_sl_task] ! a"
    and le: "(priority_value (ot_priority ([sample_tp_task, sample_sl_task] ! a)),
         ot_created_at ([sample_tp_task, sample_sl_task] ! a)) \<le>
         (priority_value (ot_priority sample_sl_task), ot_created_at sample_sl_task)"
    using highest_priority_served_first [OF sample_batch]
    by (auto simp: sample_queue_def numeral_2_eq_2)
  from le q'(3) have "a = 1" by (cases a) (auto simp: sample_task_simps)
  with q' show ?thesis by (auto simp: sample_sl_task_def)
qed

text \<open>C3: No stop-loss failure goes unanswered. In every reachable state, when the adapter call of a
  stop-loss task with a positive emergency quantity ends in a fatal error, or in a transient one
  with the retries used up, the step leaves an emergency market close of that position pending
  with the failed task's quantity; if none was pending before, it is on the heap at the highest
  priority.\<close>

theorem failed_stop_loss_escalates:
  assumes "queue_reachable rp q" and "qs_inflight q = Some (key, a, Executing)"
    and "is_sl_action (ot_action (qs_store q a))"
    and "has_positive_emergency_quantity (ot_params (qs_store q a))"
    and "out = FatalError err \<or>
      (out = TransientExchangeError err \<and> ot_max_retries (qs_store q a) \<le> ot_retry_count (qs_store q a))"
    and "q_finish rp now q out = Some q'"
  shows "\<exists>b r. dict_get (qs_pending q') (ot_position_id (qs_store q a) @ '':emergency_market_close'') = Some b
      \<and> ot_params (qs_store q' b) = ot_params (emergency_task (qs_store q a) now r)
      \<and> (dict_get (qs_pending q) (ot_position_id (qs_store q a) @ '':emergency_market_close'') = None \<longrightarrow>
           b \<in> set (qs_heap q') \<and> ot_priority (qs_store q' b) = Prio_EMERGENCY_CLOSE
           \<and> ot_action (qs_store q' b) = ''emergency_market_close'')"
  using escalation [OF reachable_wf [OF assms(1)] reachable_key_ok [OF assms(1)] assms(2-6)]
  by (metis emergency_task_ident(2,3))

lemma sample_running_store [simp]: "qs_store sample_running (Suc 0) = sample_sl_task"
  by (simp add: sample_running_def sample_queue_def enqueue_all_def enqueue_def put_new_def
      new_queue_def Let_def sample_task_simps)

theorem failed_stop_loss_escalates_witness:
  "\<exists>q' b. q_finish (\<lambda>_. []) 30 sample_running (FatalError ''x'') = Some q'
     \<and> dict_get (qs_pending q') ''p:emergency_market_close'' = Some b"
proof -
  obtain q' where q': "q_finish (\<lambda>_. []) 30 sample_running (FatalError ''x'') = Some q'"
    by (simp add: q_finish_def sample_running_def Let_def)
  have i: "qs_inflight sample_running = Some (''p:replace_sl'', Suc 0, Executing)"
    by (simp add: sample_running_def)
  have "is_sl_action (ot_action sample_sl_task)"
    "has_positive_emergency_quantity (ot_params sample_sl_task)"
    "ot_position_id sample_sl_task = ''p''"
    by (simp_all add: is_sl_action_def sample_sl_task_def has_positive_emergency_quantity_def
        quantity_keys_def)
  with failed_stop_loss_escalates [OF sample_running_reachable i _ _ _ q'] q' show ?thesis by auto
qed

text \<open>Latest intent wins. Enqueueing a stop-loss task whose key is already pending adds nothing
  to the heap and no pending key; the pending task takes over the new parameters and creation time
  and the higher of the two priorities, and keeps its retry count.\<close>

theorem coalescing_keeps_latest_intent:
  assumes "is_sl_action (ot_action t)" and "plain_task t"
    and "dict_get (qs_pending q) (key_of rp t) = Some a"
  shows "qs_heap (enqueue rp q t) = qs_heap q \<and> qs_pending (enqueue rp q t) = qs_pending q
    \<and> ot_params (qs_store (enqueue rp q t) a) = ot_params t
    \<and> ot_created_at (qs_store (enqueue rp q t) a) = ot_created_at t
    \<and> ot_priority (qs_store (enqueue rp q t) a) = min (ot_priority t) (ot_priority (qs_store q a))
    \<and> ot_retry_count (qs_store (enqueue rp q t) a) = ot_retry_count (qs_store q a)"
  using assms by (auto simp: enqueue_def plain_task_def coalesce_existing_def refresh_task_def min_def)

theorem coalescing_keeps_latest_intent_witness:
  "qs_heap (enqueue (\<lambda>_. []) sample_running (sample_sl_task\<lparr>ot_created_at := 25\<rparr>)) = [0]"
proof -
  let ?t = "sample_sl_task\<lparr>ot_created_at := 25\<rparr>"
  have "is_sl_action (ot_action ?t)" "plain_task ?t"
    "dict_get (qs_pending sample_running) (key_of (\<lambda>_. []) ?t) = Some (Suc 0)"
    by (simp_all add: is_sl_action_def sample_task_simps sample_running_def sample_queue_def
        enqueue_all_def enqueue_def put_new_def new_queue_def Let_def)
  from coalescing_keeps_latest_intent [OF this] show ?thesis by (simp add: sample_running_def)
qed

text \<open>A stop move can be lost. In a reachable state in which a multi-TP stop move is executing,
  a second one of the same position that is merged into it by the quick-fire rule under another
  key is never run: when the running call succeeds, the loop is idle, no task was added to the
  heap, and the new key stays pending, so every later task with that key is merged into the dead
  entry as well.\<close>

theorem quickfire_merge_into_running_is_lost:
  assumes "queue_reachable rp q" and "qs_inflight q = Some (key, a, Executing)"
    and "ot_action t = ''replace_sl''" "is_multi_tp_reason (get_none (ot_params t) ''reason'')"
    and "find_quickfire_replace_sl q (ot_position_id t) (ot_created_at t) = Some (key, a)"
    and "key_of rp t \<noteq> key"
    and "q_finish rp now (enqueue rp q t) Succeeded = Some q'"
  shows "qs_heap q' = qs_heap q \<and> qs_inflight q' = None \<and> a \<notin> set (qs_heap q')
    \<and> dict_get (qs_pending q') (key_of rp t) = Some a
    \<and> qs_heap (enqueue rp q' t) = qs_heap q'"
  using quickfire_into_running [OF reachable_wf [OF assms(1)] assms(2-7)] stale_pending_swallows
  by blast

text \<open>A multi-TP stop move running on a queue of its own, and the next one, a quarter of a second
  later with another target.\<close>

definition sample_move :: "real \<Rightarrow> real \<Rightarrow> order_task" where
  "sample_move now target = \<lparr>ot_priority = Prio_SL_ADJUSTMENT, ot_created_at = now,
     ot_position_id = ''p'', ot_action = ''replace_sl'',
     ot_params = [(''new_trigger_price'', VFloat target), (''reason'', VStr ''tp1_hit_sl_adjustment'')],
     ot_retry_count = 0, ot_max_retries = 3, ot_on_success = None\<rparr>"

definition sample_moving :: queue_state where
  "sample_moving = new_queue\<lparr>qs_store := (\<lambda>_. empty_task)(0 := sample_move 10 1), qs_next := 1,
     qs_pending := [(''p:replace_sl:target:1'', 0)], qs_executing := [(''p:replace_sl:target:1'', 0)],
     qs_inflight := Some (''p:replace_sl:target:1'', 0, Executing)\<rparr>"

lemma sample_move_keys:
  "key_of (\<lambda>_. []) (sample_move now 1) = ''p:replace_sl:target:1''"
  "key_of (\<lambda>_. []) (sample_move now 2) = ''p:replace_sl:target:2''"
proof -
  have "(char_of (48::nat) :: char) = CHR ''0''" "(char_of (49::nat) :: char) = CHR ''1''"
    "(char_of (50::nat) :: char) = CHR ''2''" by code_simp+
  then have "fmt_g10 1 = ''1''" "fmt_g10 2 = ''2''"
    by (simp_all add: fmt_g10_def decimal_exponent.simps scale10_def round_half_even_def Let_def
        show_nat.simps dot_frac_def strip_zeros_def)
  then show "key_of (\<lambda>_. []) (sample_move now 1) = ''p:replace_sl:target:1''"
    "key_of (\<lambda>_. []) (sample_move now 2) = ''p:replace_sl:target:2''"
    by (simp_all add: sample_move_def task_key_def)
qed

lemma sample_moving_reachable: "queue_reachable (\<lambda>_. []) sample_moving"
proof -
  let ?q0 = "enqueue (\<lambda>_. []) new_queue (sample_move 10 1)"
  let ?q1 = "?q0\<lparr>qs_heap := [], qs_inflight := Some (''p:replace_sl:target:1'', 0, Waiting)\<rparr>"
  have e: "?q0 = put_new (\<lambda>_. []) new_queue (sample_move 10 1)"
    by (auto simp: enqueue_def find_quickfire_replace_sl_def new_queue_def)
  have d: "q_dequeue (\<lambda>_. []) ?q0 = Some ?q1"
    unfolding e using sample_move_keys(1) [of 10]
    by (simp add: q_dequeue_def put_new_def new_queue_def heappop_def Let_def)
  have s: "q_start ?q1 = Some sample_moving"
    unfolding e using sample_move_keys(1) [of 10]
    by (simp add: q_start_def put_new_def new_queue_def sample_moving_def Let_def)
  show ?thesis
    by (rule queue_reachable.reach_step [OF queue_reachable.reach_step [OF queue_reachable.reach_step
          [OF queue_reachable.reach_new queue_step.step_enqueue] queue_step.step_dequeue [OF d]]
          queue_step.step_start [OF s]])
qed

theorem quickfire_merge_into_running_is_lost_witness:
  "\<exists>q'. q_finish (\<lambda>_. []) 11 (enqueue (\<lambda>_. []) sample_moving (sample_move (41 / 4) 2)) Succeeded = Some q'
     \<and> qs_heap q' = [] \<and> dict_get (qs_pending q') ''p:replace_sl:target:2'' = Some 0"
proof -
  have f: "find_quickfire_replace_sl sample_moving (ot_position_id (sample_move (41 / 4) 2))
      (ot_created_at (sample_move (41 / 4) 2)) = Some (''p:replace_sl:target:1'', 0)"
    by (simp add: find_quickfire_replace_sl_def sample_moving_def sample_move_def quickfire_match_def
        is_multi_tp_reason_def quickfire_window_def)
  have i: "qs_inflight sample_moving = Some (''p:replace_sl:target:1'', 0, Executing)"
    by (simp add: sample_moving_def)
  obtain q' where q': "q_finish (\<lambda>_. []) 11
      (enqueue (\<lambda>_. []) sample_moving (sample_move (41 / 4) 2)) Succeeded = Some q'"
    using i by (simp add: q_finish_def Let_def)
  have r: "is_multi_tp_reason (get_none (ot_params (sample_move (41 / 4) 2)) ''reason'')"
    "ot_action (sample_move (41 / 4) 2) = ''replace_sl''"
    by (simp_all add: sample_move_def is_multi_tp_reason_def)
  have k: "key_of (\<lambda>_. []) (sample_move (41 / 4) 2) \<noteq> ''p:replace_sl:target:1''"
    unfolding sample_move_keys by simp
  from quickfire_merge_into_running_is_lost [OF sample_moving_reachable i r(2,1) f k q'] q'
  show ?thesis unfolding sample_move_keys by (simp add: sample_moving_def new_queue_def)
qed

text \<open>Purging is exact. It removes from the pending dictionary the entries of the given position
  whose task has one of the given actions, and no other; it returns and tombstones exactly their
  keys, and touches neither the heap nor any task.\<close>

theorem purge_exact:
  "(\<forall>k a. (k, a) \<in> set (qs_pending (fst (purge_pending q pid actions))) \<longleftrightarrow>
      (k, a) \<in> set (qs_pending q)
      \<and> \<not> (starts_with k (pid @ '':'') \<and> ot_action (qs_store q a) \<in> actions))
   \<and> set (snd (purge_pending q pid actions)) =
      {k. \<exists>a. (k, a) \<in> set (qs_pending q) \<and> starts_with k (pid @ '':'')
             \<and> ot_action (qs_store q a) \<in> actions}
   \<and> qs_tombstoned (fst (purge_pending q pid actions)) =
      qs_tombstoned q \<union> set (snd (purge_pending q pid actions))
   \<and> qs_heap (fst (purge_pending q pid actions)) = qs_heap q
   \<and> qs_store (fst (purge_pending q pid actions)) = qs_store q"
  by (auto simp: purge_pending_iff purge_frame)
     (auto simp: purge_pending_def Let_def purge_matches_def image_iff Bex_def)

text \<open>Retries are bounded and spaced. A transient failure either leaves the running task with one
  retry more, still within its maximum, waiting out a back-off of one to ten seconds, or (retries
  used up) ends it; and the delay never shrinks from one retry to the next.\<close>

theorem retries_bounded:
  assumes "qs_inflight q = Some (key, a, Executing)"
    and "q_finish rp now q (TransientExchangeError err) = Some q'"
    and "0 \<le> ot_retry_count (qs_store q a)"
  shows "(qs_inflight q' = Some (key, a, Backoff)
          \<and> ot_retry_count (qs_store q' a) = ot_retry_count (qs_store q a) + 1
          \<and> ot_retry_count (qs_store q' a) \<le> ot_max_retries (qs_store q' a)
          \<and> 1 \<le> compute_backoff (ot_retry_count (qs_store q' a))
          \<and> compute_backoff (ot_retry_count (qs_store q' a)) \<le> 10
          \<and> compute_backoff (ot_retry_count (qs_store q a)) \<le> compute_backoff (ot_retry_count (qs_store q' a)))
     \<or> (qs_inflight q' = None \<and> ot_max_retries (qs_store q a) \<le> ot_retry_count (qs_store q a))"
proof (cases "ot_retry_count (qs_store q a) < ot_max_retries (qs_store q a)")
  case True
  with assms backoff_bounds [of "ot_retry_count (qs_store q a) + 1"]
    backoff_mono [of "ot_retry_count (qs_store q a)" "ot_retry_count (qs_store q a) + 1"]
  show ?thesis by (auto simp: q_finish_def Let_def)
next
  case False
  with assms(1,2) show ?thesis by (auto simp: q_finish_def Let_def clear_inflight_def)
qed

theorem retries_bounded_witness:
  "\<exists>q'. q_finish (\<lambda>_. []) 30 sample_running (TransientExchangeError ''x'') = Some q'
     \<and> qs_inflight q' = Some (''p:replace_sl'', 1, Backoff)"
proof -
  have i: "qs_inflight sample_running = Some (''p:replace_sl'', 1, Executing)"
    by (simp add: sample_running_def)
  obtain q' where q': "q_finish (\<lambda>_. []) 30 sample_running (TransientExchangeError ''x'') = Some q'"
    using i by (simp add: q_finish_def Let_def)
  from retries_bounded [OF i q'] q' show ?thesis by (simp add: sample_sl_task_def)
qed

end
