(* ===== verification/Multi_TP.thy ===== *)
theory Multi_TP
  imports Position_Context Order_Queue
begin

text \<open>
  \<^verbatim>\<open>app/services/sl_tp/multi_tp.py\<close>: the engine that places the take-profit ladder and reacts to a
  filled level. The engine mutates the position, enqueues tasks on the order queue and emits audit
  events, so its state is the triple of the three. What it reads from outside (clock readings, the
  answer of \<open>get_position\<close>, the callback factories) is the environment record.
\<close>

record tp_env =
  te_now :: real
  te_iso :: string
  te_live :: live_result
  te_tp_callback :: "nat \<Rightarrow> string option"
  te_sl_callback :: "int \<Rightarrow> string option"

record engine_state =
  es_position :: position_context
  es_queue :: queue_state
  es_audit :: "(string \<times> string) list"

definition emit_audit :: "string \<Rightarrow> string \<Rightarrow> engine_state \<Rightarrow> engine_state" where
  "emit_audit event reason s = s\<lparr>es_audit := es_audit s @ [(event, reason)]\<rparr>"

definition closing_side :: "position_side \<Rightarrow> order_side" where
  "closing_side side = (if side = SHORT then BUY else SELL)"

definition build_client_order_id :: "position_context \<Rightarrow> real \<Rightarrow> string \<Rightarrow> nat option \<Rightarrow> string" where
  "build_client_order_id p now kind level_index =
     pc_position_id p @ ''-'' @ kind
     @ (case level_index of None \<Rightarrow> [] | Some i \<Rightarrow> ''-l'' @ show_nat (i + 1))
     @ ''-'' @ show_int (trunc_real (now * 1000))"

section \<open>Placing the ladder\<close>

definition place_tp_task :: "tp_env \<Rightarrow> position_context \<Rightarrow> nat \<Rightarrow> tp_level \<Rightarrow> order_task" where
  "place_tp_task env p index level =
     \<lparr>ot_priority = Prio_NEW_CONDITIONAL, ot_created_at = te_now env,
      ot_position_id = pc_position_id p, ot_action = ''place_tp'',
      ot_params =
        [(''level'', VInt (tl_level level)), (''symbol'', VStr (pc_symbol p)),
         (''side'', VSide (closing_side (pc_side p))),
         (''quantity'', VFloat (pc_original_quantity p * (tl_close_pct level / 100))),
         (''trigger_price'', VFloat (tl_trigger_price level)),
         (''client_order_id'', VStr (build_client_order_id p (te_now env) ''tp'' (Some index))),
         (''reduce_only'', VBool True)],
      ot_retry_count = 0, ot_max_retries = 3, ot_on_success = te_tp_callback env index\<rparr>"

fun place_levels ::
    "(pyval \<Rightarrow> string) \<Rightarrow> tp_env \<Rightarrow> position_context \<Rightarrow> nat \<Rightarrow> tp_level list \<Rightarrow> queue_state \<Rightarrow> queue_state"
where
  "place_levels rp env p i [] q = q"
| "place_levels rp env p i (l # ls) q =
     place_levels rp env p (i + 1) ls
       (if tl_status l \<noteq> ''pending'' then q else enqueue rp q (place_tp_task env p i l))"

definition initialize_tp_levels ::
    "(pyval \<Rightarrow> string) \<Rightarrow> tp_env \<Rightarrow> engine_state \<Rightarrow> engine_state" where
  "initialize_tp_levels rp env s =
     s\<lparr>es_queue := place_levels rp env (es_position s) 0 (pc_tp_levels (es_position s)) (es_queue s)\<rparr>"

section \<open>Where the stop moves\<close>

definition sl_prices_equal :: "real \<Rightarrow> real \<Rightarrow> bool" where
  "sl_prices_equal a b =
     (a = b \<or> \<bar>a - b\<bar> \<le> max (max \<bar>a\<bar> \<bar>b\<bar> * (1 / 1000000)) (1 / 1000000000))"

definition resolve_level :: "position_context \<Rightarrow> int \<Rightarrow> py_error + tp_level" where
  "resolve_level p i =
     (if i < 0 \<or> i \<ge> int (length (pc_tp_levels p))
      then Inl (IndexError (''TP level index out of range: '' @ show_int i))
      else Inr (pc_tp_levels p ! nat i))"

definition resolve_sl_shift_target :: "position_context \<Rightarrow> tp_level \<Rightarrow> real option" where
  "resolve_sl_shift_target p level =
     (case tl_sl_lock_pct level of
        Some pct \<Rightarrow>
          if pc_entry_price p \<le> 0 \<or> tl_trigger_price level \<le> 0 then None
          else Some (pc_entry_price p + (tl_trigger_price level - pc_entry_price p) * (pct / 100))
      | None \<Rightarrow>
          (case tl_move_sl_to level of
             None \<Rightarrow> None
           | Some move \<Rightarrow>
               let normalized = py_lower (py_strip move) in
               if normalized = ''none'' then None
               else if normalized = ''breakeven'' then Some (pc_entry_price p)
               else if starts_with normalized ''tp'' then
                 (let raw_index = drop 2 normalized in
                  if \<not> all_digits raw_index then None
                  else let n = nat_of_digits 0 raw_index in
                       if n = 0 \<or> n > length (pc_tp_levels p) then None
                       else Some (tl_trigger_price (pc_tp_levels p ! (n - 1))))
               else None))"

definition live_mark :: "live_result \<Rightarrow> real option" where
  "live_mark l = (case l of LiveSnapshot sz mk \<Rightarrow> if mk > 0 then Some mk else None | _ \<Rightarrow> None)"

definition replace_sl_task ::
    "tp_env \<Rightarrow> position_context \<Rightarrow> real \<Rightarrow> int \<Rightarrow> order_task" where
  "replace_sl_task env p new_sl_price triggered_level =
     \<lparr>ot_priority = Prio_SL_ADJUSTMENT, ot_created_at = te_now env,
      ot_position_id = pc_position_id p, ot_action = ''replace_sl'',
      ot_params =
        [(''symbol'', VStr (pc_symbol p)),
         (''existing_order_id'',
            VStr (case pc_sl_exchange_order_id p of
                    None \<Rightarrow> ''active-sl'' | Some i \<Rightarrow> if i = [] then ''active-sl'' else i)),
         (''new_trigger_price'', VFloat new_sl_price),
         (''trigger_price'', VFloat new_sl_price),
         (''new_quantity'', VFloat (pc_current_quantity p)),
         (''full_quantity'', VFloat (pc_current_quantity p)),
         (''side'', VSide (closing_side (pc_side p))),
         (''client_order_id'', VStr (build_client_order_id p (te_now env) ''sl'' None)),
         (''close_position'', VBool True),
         (''reason'', VStr (''tp'' @ show_int (triggered_level + 1) @ ''_hit_sl_adjustment''))]
        @ (case live_mark (te_live env) of
             None \<Rightarrow> [] | Some m \<Rightarrow> [(''mark_price_at_dispatch'', VFloat m)]),
      ot_retry_count = 0, ot_max_retries = 3,
      ot_on_success = te_sl_callback env triggered_level\<rparr>"

definition enqueue_sl_replace ::
    "(pyval \<Rightarrow> string) \<Rightarrow> tp_env \<Rightarrow> real \<Rightarrow> int \<Rightarrow> engine_state \<Rightarrow> engine_state" where
  "enqueue_sl_replace rp env new_sl_price triggered_level s =
     emit_audit ''sl_adjustment_dispatched'' []
       (s\<lparr>es_queue := enqueue rp (es_queue s)
            (replace_sl_task env (es_position s) new_sl_price triggered_level)\<rparr>)"

text \<open>Which way \<open>_dispatch_sl_shift\<close> goes: the new stop, or the reason it is skipped for.\<close>

datatype sl_shift = Shift real | Skip string string

definition sl_shift_decision ::
    "position_context \<Rightarrow> live_result \<Rightarrow> tp_level \<Rightarrow> bool \<Rightarrow> sl_shift" where
  "sl_shift_decision p live level is_last =
     (if is_last then Skip ''sl_adjustment_skipped'' ''last_level''
      else if pc_current_quantity p \<le> 0 then Skip ''sl_adjustment_skipped'' ''position_closing''
      else case resolve_sl_shift_target p level of
        None \<Rightarrow> Skip ''sl_adjustment_skipped'' ''lock_pct_null''
      | Some new_sl \<Rightarrow>
          if sl_prices_equal new_sl (pc_current_sl_price p)
          then Skip ''sl_adjustment_skipped'' ''no_change''
          else if pc_side p = LONG \<and> new_sl > tl_trigger_price level
          then Skip ''sl_adjustment_skipped'' ''would_trigger_immediately''
          else if pc_side p = SHORT \<and> new_sl < tl_trigger_price level
          then Skip ''sl_adjustment_skipped'' ''would_trigger_immediately''
          else if raw_live_is_none live
          then Skip ''sl_adjustment_skipped_position_already_flat'' []
          else if (case live_size live of None \<Rightarrow> False | Some z \<Rightarrow> z \<le> 1 / 1000000000)
          then Skip ''sl_adjustment_skipped_position_already_flat'' []
          else Shift new_sl)"

definition dispatch_sl_shift ::
    "(pyval \<Rightarrow> string) \<Rightarrow> tp_env \<Rightarrow> tp_level \<Rightarrow> int \<Rightarrow> bool \<Rightarrow> engine_state \<Rightarrow> engine_state" where
  "dispatch_sl_shift rp env level triggered_level is_last s =
     (case sl_shift_decision (es_position s) (te_live env) level is_last of
        Skip event reason \<Rightarrow> emit_audit event reason s
      | Shift new_sl \<Rightarrow>
          enqueue_sl_replace rp env new_sl triggered_level
            (emit_audit ''sl_adjustment_decided'' [] s))"

section \<open>Lifecycle moves\<close>

definition fire :: "string \<Rightarrow> string \<Rightarrow> transition_trigger \<Rightarrow> position_machine \<Rightarrow> position_machine" where
  "fire ts reason t m =
     (if can_transition m t
      then (case transition m \<lparr>tc_trigger = t, tc_reason = reason, tc_metadata = None, tc_now = ts\<rparr> of
              Inr m' \<Rightarrow> m' | Inl e \<Rightarrow> m)
      else m)"

definition fmt_fixed8 :: "real \<Rightarrow> string" where
  "fmt_fixed8 x =
     (let n = nat (round_half_even (\<bar>x\<bar> * 10 ^ 8));
          frac = show_nat (n mod 10 ^ 8)
      in (if x < 0 then ''-'' else []) @ show_nat (n div 10 ^ 8) @ ''.''
         @ replicate (8 - length frac) (CHR ''0'') @ frac)"

definition transition_partial_close ::
    "string \<Rightarrow> real \<Rightarrow> position_machine \<Rightarrow> position_machine" where
  "transition_partial_close ts qty m =
     (let reason = ''TP partial close, remaining='' @ fmt_fixed8 qty in
      if can_transition m PARTIAL_CLOSE then
        (let m' = fire ts reason PARTIAL_CLOSE m in
         if pm_state m' = CLOSING \<and> can_transition m' PARTIAL_CLOSE
         then fire ts reason PARTIAL_CLOSE m' else m')
      else if can_transition m TP_TRIGGERED then
        fire ts reason PARTIAL_CLOSE (fire ts reason TP_TRIGGERED m)
      else m)"

definition transition_all_closed :: "string \<Rightarrow> position_machine \<Rightarrow> position_machine" where
  "transition_all_closed ts m =
     (let reason = ''All TP levels completed'' in
      if can_transition m ALL_CLOSED then fire ts reason ALL_CLOSED m
      else
        let m' = fire ts reason TP_TRIGGERED m in
        if can_transition m' ALL_CLOSED then fire ts reason ALL_CLOSED m'
        else if can_transition m' PARTIAL_CLOSE
        then fire ts reason ALL_CLOSED (fire ts reason PARTIAL_CLOSE m')
        else m')"

section \<open>A take-profit level was hit\<close>

definition close_quantity :: "position_context \<Rightarrow> tp_level \<Rightarrow> bool \<Rightarrow> real" where
  "close_quantity p level is_last =
     (if is_last then pc_current_quantity p
      else pc_original_quantity p * (tl_close_pct level / 100))"

definition quantity_after :: "position_context \<Rightarrow> tp_level \<Rightarrow> bool \<Rightarrow> real" where
  "quantity_after p level is_last =
     (let n = pc_current_quantity p - close_quantity p level is_last;
          n' = (if n < 0 \<and> \<bar>n\<bar> \<le> 1 / 1000000000 then 0 else n)
      in max n' 0)"

definition record_fill :: "string \<Rightarrow> int \<Rightarrow> tp_level \<Rightarrow> bool \<Rightarrow> position_context \<Rightarrow> position_context" where
  "record_fill ts i level is_last p =
     p\<lparr>pc_dispatched_sl_levels := insert i (pc_dispatched_sl_levels p),
       pc_current_quantity := quantity_after p level is_last,
       pc_tp_history := pc_tp_history p @
         [\<lparr>th_timestamp = ts, th_tp_level = i, th_old_price = tl_trigger_price level,
           th_new_price = tl_trigger_price level,
           th_reason = ''tp_level_'' @ show_int (i + 1) @ ''_hit'',
           th_close_pct = tl_close_pct level,
           th_exchange_order_id =
             (case tl_exchange_order_id level of None \<Rightarrow> [] | Some x \<Rightarrow> x)\<rparr>],
       pc_tp_levels := (pc_tp_levels p)[nat i := level\<lparr>tl_status := ''triggered''\<rparr>]\<rparr>"

definition level_remaining :: "tp_level \<Rightarrow> bool" where
  "level_remaining l = (tl_status l = ''pending'' \<or> tl_status l = ''open'')"

definition settle_state :: "string \<Rightarrow> position_context \<Rightarrow> position_context" where
  "settle_state ts p =
     (let m = (if \<not> list_ex level_remaining (pc_tp_levels p) \<or> pc_current_quantity p \<le> 0
               then transition_all_closed ts (pc_machine p)
               else transition_partial_close ts (pc_current_quantity p) (pc_machine p))
      in p\<lparr>pc_machine := m, pc_state := pm_state m\<rparr>)"

definition handle_tp_triggered ::
    "(pyval \<Rightarrow> string) \<Rightarrow> tp_env \<Rightarrow> engine_state \<Rightarrow> int \<Rightarrow> py_error + engine_state" where
  "handle_tp_triggered rp env s i =
     (case resolve_level (es_position s) i of
        Inl e \<Rightarrow> Inl e
      | Inr level \<Rightarrow>
          let p = es_position s; already = i \<in> pc_dispatched_sl_levels p in
          if tl_status level = ''triggered'' \<or> already
          then Inr (emit_audit ''multi_tp_duplicate_dispatch_ignored''
                      (if already then ''already_dispatched'' else ''already_triggered'') s)
          else
            let is_last = (i = int (length (pc_tp_levels p)) - 1);
                s1 = s\<lparr>es_position := record_fill (te_iso env) i level is_last p\<rparr>;
                s2 = dispatch_sl_shift rp env level i is_last s1
            in Inr (s2\<lparr>es_position := settle_state (te_iso env) (es_position s2)\<rparr>))"

section \<open>Lemmas\<close>

lemma emit_audit_frame [simp]:
  "es_position (emit_audit ev r s) = es_position s" "es_queue (emit_audit ev r s) = es_queue s"
  by (simp_all add: emit_audit_def)

lemma dispatch_position [simp]: "es_position (dispatch_sl_shift rp env l i b s) = es_position s"
  by (simp add: dispatch_sl_shift_def enqueue_sl_replace_def split: sl_shift.splits)

lemma settle_frame [simp]:
  "pc_tp_levels (settle_state ts p) = pc_tp_levels p"
  "pc_current_quantity (settle_state ts p) = pc_current_quantity p"
  "pc_dispatched_sl_levels (settle_state ts p) = pc_dispatched_sl_levels p"
  "pc_tp_history (settle_state ts p) = pc_tp_history p"
  "pc_entry_price (settle_state ts p) = pc_entry_price p"
  "pc_original_quantity (settle_state ts p) = pc_original_quantity p"
  by (simp_all add: settle_state_def Let_def)

lemma handle_ok_cases:
  assumes "handle_tp_triggered rp env s i = Inr s'"
  obtains (dup) r where "s' = emit_audit ''multi_tp_duplicate_dispatch_ignored'' r s"
      "0 \<le> i" "i < int (length (pc_tp_levels (es_position s)))"
      "tl_status (pc_tp_levels (es_position s) ! nat i) = ''triggered''
         \<or> i \<in> pc_dispatched_sl_levels (es_position s)"
    | (fill) level is_last where "0 \<le> i" "i < int (length (pc_tp_levels (es_position s)))"
      "level = pc_tp_levels (es_position s) ! nat i"
      "is_last = (i = int (length (pc_tp_levels (es_position s))) - 1)"
      "tl_status level \<noteq> ''triggered''" "i \<notin> pc_dispatched_sl_levels (es_position s)"
      "es_position s' =
         settle_state (te_iso env) (record_fill (te_iso env) i level is_last (es_position s))"
      "es_queue s' = es_queue (dispatch_sl_shift rp env level i is_last
         (s\<lparr>es_position := record_fill (te_iso env) i level is_last (es_position s)\<rparr>))"
proof (cases "tl_status (pc_tp_levels (es_position s) ! nat i) = ''triggered''
    \<or> i \<in> pc_dispatched_sl_levels (es_position s)")
  case True
  with assms show ?thesis
    by (intro dup [of "if i \<in> pc_dispatched_sl_levels (es_position s) then ''already_dispatched''
           else ''already_triggered''"]) (auto simp: handle_tp_triggered_def resolve_level_def Let_def split: if_splits)
next
  case False
  with assms show ?thesis
    by (intro fill [OF _ _ refl refl])
      (auto simp: handle_tp_triggered_def resolve_level_def Let_def split: if_splits)
qed

lemma record_fill_frame [simp]:
  "pc_dispatched_sl_levels (record_fill ts i l b p) = insert i (pc_dispatched_sl_levels p)"
  "pc_current_quantity (record_fill ts i l b p) = quantity_after p l b"
  "pc_tp_levels (record_fill ts i l b p) = (pc_tp_levels p)[nat i := l\<lparr>tl_status := ''triggered''\<rparr>]"
  "length (pc_tp_history (record_fill ts i l b p)) = length (pc_tp_history p) + 1"
  "pc_side (record_fill ts i l b p) = pc_side p"
  "pc_entry_price (record_fill ts i l b p) = pc_entry_price p"
  "pc_current_sl_price (record_fill ts i l b p) = pc_current_sl_price p"
  "pc_machine (record_fill ts i l b p) = pc_machine p"
  "pc_original_quantity (record_fill ts i l b p) = pc_original_quantity p"
  by (simp_all add: record_fill_def)

lemma quantity_after_nonneg: "0 \<le> quantity_after p l b"
  by (simp add: quantity_after_def Let_def)

lemma quantity_after_last [simp]: "quantity_after p l True = 0"
  by (simp add: quantity_after_def close_quantity_def)

lemma quantity_after_le:
  assumes "0 \<le> pc_current_quantity p" "0 \<le> pc_original_quantity p" "0 \<le> tl_close_pct l"
  shows "quantity_after p l b \<le> pc_current_quantity p"
proof -
  have "0 \<le> close_quantity p l b" using assms by (simp add: close_quantity_def)
  then show ?thesis using assms(1) by (auto simp: quantity_after_def Let_def)
qed

lemma lock_target_between:
  assumes "tl_sl_lock_pct l = Some pct" "0 \<le> pct" "pct \<le> 100"
    and "resolve_sl_shift_target p l = Some x"
  shows "min (pc_entry_price p) (tl_trigger_price l) \<le> x
    \<and> x \<le> max (pc_entry_price p) (tl_trigger_price l)"
proof -
  let ?e = "pc_entry_price p" and ?t = "tl_trigger_price l"
  define r where "r = pct / 100"
  have x: "x = ?e + (?t - ?e) * r" and r: "0 \<le> r" "r \<le> 1"
    using assms by (auto simp: resolve_sl_shift_target_def r_def split: if_splits)
  have x': "x = (1 - r) * ?e + r * ?t" using x by (simp add: algebra_simps)
  show ?thesis
  proof (cases "?e \<le> ?t")
    case True
    have "r * ?e \<le> r * ?t" "(1 - r) * ?e \<le> (1 - r) * ?t"
      using True r by (auto intro: mult_left_mono)
    then show ?thesis using True x' by (simp add: algebra_simps)
  next
    case False
    then have "r * ?t \<le> r * ?e" "(1 - r) * ?t \<le> (1 - r) * ?e"
      using r by (auto intro!: mult_left_mono)
    then show ?thesis using False x' by (simp add: algebra_simps)
  qed
qed

text \<open>The lifecycle: from any working state a partial fill ends in \<open>OPEN\<close>, the last one in
  \<open>CLOSED\<close>.\<close>

lemma pm_state_fire:
  "pm_state (fire ts r t m) =
     (case map_of (valid_transitions (pm_state m)) t of
        None \<Rightarrow> pm_state m
      | Some s \<Rightarrow> if t = SYNC_COMPLETE \<and> pm_pre_reconnect m \<noteq> None then the (pm_pre_reconnect m) else s)"
  by (cases "pm_state m")
     (auto simp: fire_def transition_def position_enabled_def Let_def split: option.splits)

lemma partial_close_state:
  "pm_state m \<in> {OPEN, ADJUSTING, CLOSING} \<Longrightarrow> pm_state (transition_partial_close ts q m) = OPEN"
  by (auto simp: transition_partial_close_def position_enabled_def pm_state_fire Let_def)

lemma all_closed_state:
  "pm_state m \<in> {OPEN, ADJUSTING, CLOSING, RECONNECTING} \<Longrightarrow>
     pm_state (transition_all_closed ts m) = CLOSED"
  by (auto simp: transition_all_closed_def position_enabled_def pm_state_fire Let_def)

lemma closed_stays:
  "pm_state m = CLOSED \<Longrightarrow> pm_state (transition_partial_close ts q m) = CLOSED"
  "pm_state m = CLOSED \<Longrightarrow> pm_state (transition_all_closed ts m) = CLOSED"
  by (simp_all add: transition_partial_close_def transition_all_closed_def position_enabled_def
      pm_state_fire Let_def)

lemma settle_state_cases:
  assumes "pm_state (pc_machine p) \<in> {OPEN, CLOSED}"
  shows "pc_state (settle_state ts p) = pm_state (pc_machine (settle_state ts p))"
    and "pm_state (pc_machine (settle_state ts p)) \<in> {OPEN, CLOSED}"
    and "pm_state (pc_machine p) = CLOSED \<or> pc_current_quantity p \<le> 0
           \<or> \<not> list_ex level_remaining (pc_tp_levels p)
         \<Longrightarrow> pm_state (pc_machine (settle_state ts p)) = CLOSED"
  using assms closed_stays partial_close_state [of "pc_machine p"] all_closed_state [of "pc_machine p"]
  by (auto simp: settle_state_def Let_def)

section \<open>The whole ladder\<close>

fun hit_levels ::
    "(pyval \<Rightarrow> string) \<Rightarrow> tp_env \<Rightarrow> engine_state \<Rightarrow> int list \<Rightarrow> py_error + engine_state" where
  "hit_levels rp env s [] = Inr s"
| "hit_levels rp env s (i # is) =
     (case handle_tp_triggered rp env s i of Inl e \<Rightarrow> Inl e | Inr s' \<Rightarrow> hit_levels rp env s' is)"

text \<open>\<open>H\<close> is the set of levels that have been hit.\<close>

definition ladder_inv :: "nat \<Rightarrow> int set \<Rightarrow> position_context \<Rightarrow> bool" where
  "ladder_inv n H p =
     (length (pc_tp_levels p) = n \<and> pc_dispatched_sl_levels p = H
      \<and> (\<forall>i < n. (tl_status (pc_tp_levels p ! i) = ''triggered'') = (int i \<in> H))
      \<and> (\<forall>l \<in> set (pc_tp_levels p). 0 \<le> tl_close_pct l)
      \<and> 0 \<le> pc_original_quantity p \<and> 0 \<le> pc_current_quantity p
      \<and> pm_state (pc_machine p) \<in> {OPEN, CLOSED}
      \<and> (H \<noteq> {} \<longrightarrow> pc_state p = pm_state (pc_machine p))
      \<and> (int n - 1 \<in> H \<longrightarrow> pc_current_quantity p = 0 \<and> pm_state (pc_machine p) = CLOSED))"

lemma record_fill_ladder:
  assumes "ladder_inv n H p" and "i < n" and "int i \<notin> H" and "q = record_fill ts (int i) l b p"
    and "l = pc_tp_levels p ! i" and "b = (int i = int n - 1)"
  shows "ladder_inv n (insert (int i) H) (settle_state ts q)"
proof -
  have len: "length (pc_tp_levels p) = n" and inl: "l \<in> set (pc_tp_levels p)"
    using assms by (auto simp: ladder_inv_def)
  have qty: "0 \<le> pc_current_quantity q" "pc_current_quantity q \<le> pc_current_quantity p"
    using quantity_after_nonneg quantity_after_le [of p l b] assms inl by (auto simp: ladder_inv_def)
  have lev: "pc_tp_levels q = (pc_tp_levels p)[i := l\<lparr>tl_status := ''triggered''\<rparr>]"
    by (simp add: assms(4))
  have zero: "pc_current_quantity q = 0" if "int n - 1 \<in> insert (int i) H"
  proof (cases b)
    case False
    with that assms(6) have "int n - 1 \<in> H" by auto
    with assms(1) qty show ?thesis by (auto simp: ladder_inv_def)
  qed (simp add: assms(4))
  have st: "pm_state (pc_machine q) \<in> {OPEN, CLOSED}" using assms(1,4) by (simp add: ladder_inv_def)
  have "\<forall>l \<in> set (pc_tp_levels q). 0 \<le> tl_close_pct l"
    using assms(1) inl set_update_subset_insert [of "pc_tp_levels p" i "l\<lparr>tl_status := ''triggered''\<rparr>"]
    unfolding lev by (auto simp: ladder_inv_def)
  moreover have "\<forall>j < n. (tl_status (pc_tp_levels q ! j) = ''triggered'') = (int j \<in> insert (int i) H)"
    using assms(1,2) len unfolding lev by (auto simp: ladder_inv_def nth_list_update)
  ultimately show ?thesis
    using settle_state_cases [OF st, of ts] zero qty assms(1,4) len
    by (auto simp: ladder_inv_def)
qed

lemma handle_defined:
  assumes "0 \<le> i" and "i < int (length (pc_tp_levels (es_position s)))"
  shows "\<exists>s'. handle_tp_triggered rp env s i = Inr s'"
proof -
  have "resolve_level (es_position s) i = Inr (pc_tp_levels (es_position s) ! nat i)"
    using assms by (simp add: resolve_level_def)
  then show ?thesis unfolding handle_tp_triggered_def Let_def by simp
qed

lemma handle_ladder:
  assumes "ladder_inv n H (es_position s)" and "i < n"
  shows "\<exists>s'. handle_tp_triggered rp env s (int i) = Inr s'
    \<and> ladder_inv n (insert (int i) H) (es_position s')"
proof -
  have len: "length (pc_tp_levels (es_position s)) = n" using assms(1) by (simp add: ladder_inv_def)
  then obtain s' where s': "handle_tp_triggered rp env s (int i) = Inr s'"
    using assms(2) handle_defined by fastforce
  from s' have "ladder_inv n (insert (int i) H) (es_position s')"
  proof (cases rule: handle_ok_cases)
    case (dup r)
    then have "int i \<in> H" using assms by (auto simp: ladder_inv_def)
    with dup assms(1) show ?thesis by (simp add: insert_absorb)
  next
    case (fill level is_last)
    then have "int i \<notin> H" using assms(1) by (auto simp: ladder_inv_def)
    with record_fill_ladder [OF assms this refl] fill len show ?thesis by simp
  qed
  with s' show ?thesis by blast
qed

lemma hit_levels_ladder:
  assumes "ladder_inv n H (es_position s)" and "\<forall>i \<in> set is. 0 \<le> i \<and> i < int n"
  shows "\<exists>s'. hit_levels rp env s is = Inr s' \<and> ladder_inv n (H \<union> set is) (es_position s')"
  using assms
proof (induction "is" arbitrary: H s)
  case (Cons i "is")
  then obtain s1 where s1: "handle_tp_triggered rp env s i = Inr s1"
    "ladder_inv n (insert i H) (es_position s1)"
    using handle_ladder [of n H s "nat i" rp env] by (auto simp: nat_less_iff)
  with Cons.IH [OF s1(2)] Cons.prems(2) show ?case by auto
qed auto

section \<open>Properties\<close>

text \<open>A long position of two units entered at 100 with two take-profit levels, for the examples.\<close>

definition sample_level :: "int \<Rightarrow> real \<Rightarrow> tp_level" where
  "sample_level n price = \<lparr>tl_level = n, tl_price_offset_pct = 0, tl_close_pct = 50,
     tl_trigger_price = price, tl_status = ''open'', tl_exchange_order_id = None,
     tl_move_sl_to = None, tl_sl_lock_pct = Some 50\<rparr>"

definition sample_ladder :: position_context where
  "sample_ladder = default_context\<lparr>pc_position_id := ''p'', pc_state := OPEN,
     pc_machine := new_position_machine ''p'' OPEN, pc_entry_price := 100,
     pc_original_quantity := 2, pc_current_quantity := 2, pc_current_sl_price := 90,
     pc_tp_levels := [sample_level 1 110, sample_level 2 120]\<rparr>"

definition sample_engine :: engine_state where
  "sample_engine = \<lparr>es_position = sample_ladder, es_queue = new_queue, es_audit = []\<rparr>"

definition sample_env :: tp_env where
  "sample_env = \<lparr>te_now = 10, te_iso = ''t'', te_live = LiveSnapshot 1 110,
     te_tp_callback = (\<lambda>_. None), te_sl_callback = (\<lambda>_. None)\<rparr>"

lemma sample_ladder_simps:
  "pc_tp_levels (es_position sample_engine) = [sample_level 1 110, sample_level 2 120]"
  "pc_current_quantity (es_position sample_engine) = 2"
  "pc_original_quantity (es_position sample_engine) = 2"
  "pc_dispatched_sl_levels (es_position sample_engine) = {}"
  "pm_state (pc_machine (es_position sample_engine)) = OPEN"
  by (simp_all add: sample_engine_def sample_ladder_def default_context_def new_position_machine_def)

text \<open>C21: The ladder closes the position. For an open position with a non-empty ladder none of whose
  levels has been hit, hitting all levels, in whatever order and with whatever repetitions, raises
  nothing and leaves the position closed in its lifecycle and in its state field, with quantity
  zero and every level marked as triggered.\<close>

theorem ladder_closes_position:
  assumes "pc_tp_levels (es_position s) \<noteq> []" and "pm_state (pc_machine (es_position s)) = OPEN"
    and "pc_dispatched_sl_levels (es_position s) = {}"
    and "\<forall>l \<in> set (pc_tp_levels (es_position s)). tl_status l \<noteq> ''triggered'' \<and> 0 \<le> tl_close_pct l"
    and "0 \<le> pc_original_quantity (es_position s)" "0 \<le> pc_current_quantity (es_position s)"
    and "set is = {0..<int (length (pc_tp_levels (es_position s)))}"
  shows "\<exists>s'. hit_levels rp env s is = Inr s' \<and> pc_state (es_position s') = CLOSED
    \<and> pm_state (pc_machine (es_position s')) = CLOSED \<and> pc_current_quantity (es_position s') = 0
    \<and> (\<forall>l \<in> set (pc_tp_levels (es_position s')). tl_status l = ''triggered'')"
proof -
  let ?n = "length (pc_tp_levels (es_position s))"
  have "ladder_inv ?n {} (es_position s)" using assms(2-6) by (simp add: ladder_inv_def)
  with hit_levels_ladder [of ?n "{}" s "is" rp env] assms(7) obtain s' where
    s': "hit_levels rp env s is = Inr s'" "ladder_inv ?n (set is) (es_position s')" by auto
  have "0 < ?n" using assms(1) by simp
  then have last: "int ?n - 1 \<in> set is" using assms(7) by simp
  then have ne: "set is \<noteq> {}" by auto
  have "tl_status l = ''triggered''" if l: "l \<in> set (pc_tp_levels (es_position s'))" for l
  proof -
    obtain j where j: "j < length (pc_tp_levels (es_position s'))" "pc_tp_levels (es_position s') ! j = l"
      using l by (auto simp: in_set_conv_nth)
    then have "j < ?n" using s'(2) by (simp add: ladder_inv_def)
    moreover from this have "int j \<in> set is" using assms(7) by simp
    ultimately show ?thesis using s'(2) j(2) unfolding ladder_inv_def by blast
  qed
  moreover have "pc_current_quantity (es_position s') = 0" "pm_state (pc_machine (es_position s')) = CLOSED"
    "pc_state (es_position s') = CLOSED"
    using s'(2) last ne unfolding ladder_inv_def by auto
  ultimately show ?thesis using s'(1) by blast
qed

theorem ladder_closes_position_witness:
  "\<exists>s'. hit_levels (\<lambda>_. []) sample_env sample_engine [1, 0, 1] = Inr s'
     \<and> pc_state (es_position s') = CLOSED \<and> pc_current_quantity (es_position s') = 0"
proof -
  have "set [1, 0, 1] = {0..<int (length (pc_tp_levels (es_position sample_engine)))}"
    by (auto simp: sample_ladder_simps)
  from ladder_closes_position [of sample_engine "[1, 0, 1]" "\<lambda>_. []" sample_env, OF _ _ _ _ _ _ this]
  show ?thesis by (auto simp: sample_ladder_simps sample_level_def simp del: hit_levels.simps)
qed

text \<open>A repeated notification of the same level is harmless: handling it again succeeds and
  changes neither the position nor the order queue.\<close>

theorem duplicate_level_ignored:
  assumes "handle_tp_triggered rp env s i = Inr s1"
  shows "\<exists>s2. handle_tp_triggered rp env' s1 i = Inr s2
    \<and> es_position s2 = es_position s1 \<and> es_queue s2 = es_queue s1"
proof -
  let ?ls = "pc_tp_levels (es_position s1)"
  have hit: "0 \<le> i" "i < int (length ?ls)"
    "tl_status (?ls ! nat i) = ''triggered'' \<or> i \<in> pc_dispatched_sl_levels (es_position s1)"
    using assms by (cases rule: handle_ok_cases; auto)+
  then obtain s2 where s2: "handle_tp_triggered rp env' s1 i = Inr s2"
    using handle_defined by blast
  from s2 show ?thesis
    by (cases rule: handle_ok_cases) (use s2 hit(3) in auto)
qed

theorem duplicate_level_ignored_witness:
  "\<exists>s1 s2. handle_tp_triggered (\<lambda>_. []) sample_env sample_engine 0 = Inr s1
     \<and> handle_tp_triggered (\<lambda>_. []) sample_env s1 0 = Inr s2 \<and> es_position s2 = es_position s1"
proof -
  obtain s1 where s1: "handle_tp_triggered (\<lambda>_. []) sample_env sample_engine 0 = Inr s1"
    using handle_defined [of 0 sample_engine "\<lambda>_. []" sample_env] by (auto simp: sample_ladder_simps)
  from duplicate_level_ignored [OF s1, of sample_env] s1 show ?thesis by blast
qed

text \<open>One fill. Handling a level outside the ladder raises; otherwise the remaining quantity
  stays between zero and its old value, becomes zero when the last level fills for the first time,
  and the level is marked, either as triggered or as already dispatched.\<close>

theorem fill_effect:
  assumes "0 \<le> pc_current_quantity (es_position s)" "0 \<le> pc_original_quantity (es_position s)"
    and "\<forall>l \<in> set (pc_tp_levels (es_position s)). 0 \<le> tl_close_pct l"
  shows "(\<exists>s'. handle_tp_triggered rp env s i = Inr s')
      = (0 \<le> i \<and> i < int (length (pc_tp_levels (es_position s))))
    \<and> (\<forall>s'. handle_tp_triggered rp env s i = Inr s' \<longrightarrow>
         0 \<le> pc_current_quantity (es_position s')
         \<and> pc_current_quantity (es_position s') \<le> pc_current_quantity (es_position s)
         \<and> (tl_status (pc_tp_levels (es_position s') ! nat i) = ''triggered''
            \<or> i \<in> pc_dispatched_sl_levels (es_position s))
         \<and> (i = int (length (pc_tp_levels (es_position s))) - 1
            \<and> tl_status (pc_tp_levels (es_position s) ! nat i) \<noteq> ''triggered''
            \<and> i \<notin> pc_dispatched_sl_levels (es_position s)
            \<longrightarrow> pc_current_quantity (es_position s') = 0))"
proof (intro conjI allI impI)
  show "(\<exists>s'. handle_tp_triggered rp env s i = Inr s')
      = (0 \<le> i \<and> i < int (length (pc_tp_levels (es_position s))))"
    using handle_defined [of i s rp env]
    by (auto simp: handle_tp_triggered_def resolve_level_def split: if_splits)
next
  fix s'
  assume h: "handle_tp_triggered rp env s i = Inr s'"
  have le: "quantity_after (es_position s) l b \<le> pc_current_quantity (es_position s)"
    if "l \<in> set (pc_tp_levels (es_position s))" for l b
    using quantity_after_le [of "es_position s" l b] assms that by blast
  from h show "0 \<le> pc_current_quantity (es_position s')"
    by (cases rule: handle_ok_cases) (use assms quantity_after_nonneg in auto)
  from h show "pc_current_quantity (es_position s') \<le> pc_current_quantity (es_position s)"
    by (cases rule: handle_ok_cases) (use le in auto)
  from h show "tl_status (pc_tp_levels (es_position s') ! nat i) = ''triggered''
      \<or> i \<in> pc_dispatched_sl_levels (es_position s)"
    by (cases rule: handle_ok_cases) auto
  assume f: "i = int (length (pc_tp_levels (es_position s))) - 1
      \<and> tl_status (pc_tp_levels (es_position s) ! nat i) \<noteq> ''triggered''
      \<and> i \<notin> pc_dispatched_sl_levels (es_position s)"
  from h show "pc_current_quantity (es_position s') = 0"
    by (cases rule: handle_ok_cases) (use f in auto)
qed

theorem fill_effect_witness:
  "\<exists>s'. handle_tp_triggered (\<lambda>_. []) sample_env sample_engine 1 = Inr s'
     \<and> pc_current_quantity (es_position s') = 0"
proof -
  obtain s' where s': "handle_tp_triggered (\<lambda>_. []) sample_env sample_engine 1 = Inr s'"
    using handle_defined [of 1 sample_engine "\<lambda>_. []" sample_env] by (auto simp: sample_ladder_simps)
  with fill_effect [of sample_engine "\<lambda>_. []" sample_env 1] have "pc_current_quantity (es_position s') = 0"
    by (simp add: sample_ladder_simps) (simp add: sample_level_def)
  with s' show ?thesis by blast
qed

text \<open>Where the stop may go. If a filled level moves the stop, the position is not finished, the
  exchange reported it as not flat, the new stop differs from the old one, it does not lie beyond
  the filled level's trigger price on the side that would fire at once, and with a lock percentage
  between 0 and 100 it lies between the entry price and that trigger price.\<close>

theorem sl_shift_sound:
  assumes "sl_shift_decision p live level is_last = Shift x"
  shows "\<not> is_last \<and> 0 < pc_current_quantity p \<and> \<not> raw_live_is_none live
    \<and> (\<forall>z. live_size live = Some z \<longrightarrow> 1 / 1000000000 < z)
    \<and> x \<noteq> pc_current_sl_price p
    \<and> (pc_side p = LONG \<longrightarrow> x \<le> tl_trigger_price level)
    \<and> (pc_side p = SHORT \<longrightarrow> tl_trigger_price level \<le> x)
    \<and> (\<forall>pct. tl_sl_lock_pct level = Some pct \<and> 0 \<le> pct \<and> pct \<le> 100 \<longrightarrow>
         min (pc_entry_price p) (tl_trigger_price level) \<le> x
         \<and> x \<le> max (pc_entry_price p) (tl_trigger_price level))"
proof -
  have r: "resolve_sl_shift_target p level = Some x"
    using assms by (auto simp: sl_shift_decision_def split: if_splits option.splits)
  have "x \<noteq> pc_current_sl_price p"
    using assms by (auto simp: sl_shift_decision_def sl_prices_equal_def split: if_splits option.splits)
  moreover have "\<not> is_last \<and> 0 < pc_current_quantity p \<and> \<not> raw_live_is_none live
    \<and> (\<forall>z. live_size live = Some z \<longrightarrow> 1 / 1000000000 < z)
    \<and> (pc_side p = LONG \<longrightarrow> x \<le> tl_trigger_price level)
    \<and> (pc_side p = SHORT \<longrightarrow> tl_trigger_price level \<le> x)"
    using assms by (auto simp: sl_shift_decision_def split: if_splits option.splits)
  ultimately show ?thesis using lock_target_between [OF _ _ _ r] by auto
qed

lemmas shift_simps = sl_shift_decision_def resolve_sl_shift_target_def sl_prices_equal_def
  sample_ladder_def sample_level_def default_context_def raw_live_is_none_def live_size_def

theorem sl_shift_sound_witness:
  "sl_shift_decision sample_ladder (LiveSnapshot 1 110) (sample_level 1 110) False = Shift 105
   \<and> (105::real) \<le> 110"
proof -
  have d: "sl_shift_decision sample_ladder (LiveSnapshot 1 110) (sample_level 1 110) False = Shift 105"
    by (simp add: shift_simps)
  from sl_shift_sound [OF d] d show ?thesis by (simp add: sample_level_def sample_ladder_def default_context_def)
qed

text \<open>The stop does not move when the exchange cannot be asked. If \<open>get_position\<close> raises, a
  filled level never moves the stop; where it would otherwise have moved, the position is reported
  as already flat.\<close>

lemma sl_shift_skipped_on_lookup_failure:
  "(\<forall>x. sl_shift_decision p LiveRaised level is_last \<noteq> Shift x)
   \<and> (\<forall>x. sl_shift_decision p (LiveSnapshot 1 mark) level is_last = Shift x \<longrightarrow>
        sl_shift_decision p LiveRaised level is_last
          = Skip ''sl_adjustment_skipped_position_already_flat'' [])"
  by (auto simp: sl_shift_decision_def raw_live_is_none_def split: option.split)

end
