(* ===== verification/Live_Tracker.thy ===== *)
theory Live_Tracker
  imports SL_Rules Multi_TP
begin

text \<open>
  \<^verbatim>\<open>app/services/sl_tp/live_tracker.py\<close>: \<open>RealtimeSLAdjuster\<close>, which keeps the bar buffer of one
  symbol and, on every kline event, runs the kill-switch and then the stop-loss pipeline over the
  tracked positions.

  Parameters: \<open>atr_fn\<close> is \<open>pandas_ta.atr\<close> with its undefined values dropped (the empty list when
  there are none), \<open>on_kill\<close> the effect of the injected kill-switch handler on the position,
  \<open>mk_cid\<close> the client-order-id factory, \<open>now\<close> the reading of the injected clock, taken once per
  tick. The tasks handed to the account's queue are returned in order.
\<close>

section \<open>Bars and the buffer\<close>

record bar =
  br_open_time :: int
  br_open :: real
  br_high :: real
  br_low :: real
  br_close :: real
  br_volume :: real
  br_is_closed :: bool

record adjuster =
  ad_symbol :: string
  ad_buffer_bars :: nat
  ad_throttle :: real
  ad_buffer :: "bar list"
  ad_last_adjustment :: "(string \<times> real) list"
  ad_last_kill :: "(string \<times> real) list"
  ad_cache :: "(int \<times> real list option) list"
  ad_has_handler :: bool

definition new_adjuster :: "string \<Rightarrow> int \<Rightarrow> real \<Rightarrow> bool \<Rightarrow> py_error + adjuster" where
  "new_adjuster symbol buffer_bars throttle has_handler =
     (if buffer_bars \<le> 0 then Inl (ValueError ''buffer_bars must be positive'')
      else if throttle < 0 then Inl (ValueError ''throttle_seconds must be non-negative'')
      else Inr \<lparr>ad_symbol = symbol, ad_buffer_bars = nat buffer_bars, ad_throttle = throttle,
                ad_buffer = [], ad_last_adjustment = [], ad_last_kill = [], ad_cache = [],
                ad_has_handler = has_handler\<rparr>)"

definition event_float :: "pydict \<Rightarrow> string \<Rightarrow> real option" where
  "event_float event k =
     (case dict_get event k of
        None \<Rightarrow> None
      | Some v \<Rightarrow> (case py_float v of Inr x \<Rightarrow> Some x | Inl e \<Rightarrow> None))"

definition opt_ok :: "'e + 'a \<Rightarrow> 'a option" where
  "opt_ok r = (case r of Inl e \<Rightarrow> None | Inr x \<Rightarrow> Some x)"

definition extract_bar :: "pydict \<Rightarrow> bar option" where
  "extract_bar event =
     (let ot = get_default event ''open_time'' (get_none event ''timestamp'');
          vol = get_none event ''volume''
      in Option.bind (if ot = VNone then Some 0 else opt_ok (py_int ot)) (\<lambda>open_time.
         Option.bind (event_float event ''open'') (\<lambda>op.
         Option.bind (event_float event ''high'') (\<lambda>hi.
         Option.bind (event_float event ''low'') (\<lambda>lo.
         Option.bind (event_float event ''close'') (\<lambda>cl.
         Option.bind (if py_truth vol then opt_ok (py_float vol) else Some 0) (\<lambda>volume.
         Some \<lparr>br_open_time = open_time, br_open = op, br_high = hi, br_low = lo, br_close = cl,
               br_volume = volume,
               br_is_closed = py_truth (get_default event ''is_closed'' (VBool False))\<rparr>)))))))"

definition push_bar :: "nat \<Rightarrow> bar list \<Rightarrow> bar \<Rightarrow> bar list" where
  "push_bar cap buf b =
     (let buf' = (if buf \<noteq> [] \<and> br_open_time (last buf) = br_open_time b
                  then butlast buf @ [b] else buf @ [b])
      in drop (length buf' - cap) buf')"

definition update_buffer :: "adjuster \<Rightarrow> pydict \<Rightarrow> adjuster \<times> bar option" where
  "update_buffer ad event =
     (case extract_bar event of
        None \<Rightarrow> (ad, None)
      | Some b \<Rightarrow> (ad\<lparr>ad_buffer := push_bar (ad_buffer_bars ad) (ad_buffer ad) b, ad_cache := []\<rparr>,
                   Some b))"

section \<open>Average true range\<close>

definition atr_series ::
    "(bar list \<Rightarrow> int \<Rightarrow> real list) \<Rightarrow> adjuster \<Rightarrow> int \<Rightarrow> real list option \<times> adjuster" where
  "atr_series atr_fn ad period =
     (if period \<le> 0 \<or> int (length (ad_buffer ad)) < period + 1 then (None, ad)
      else case dict_get (ad_cache ad) period of
             Some s \<Rightarrow> (s, ad)
           | None \<Rightarrow>
               let xs = atr_fn (ad_buffer ad) period;
                   series = (if xs = [] then None else Some xs)
               in (series, ad\<lparr>ad_cache := dict_set (ad_cache ad) period series\<rparr>))"

definition compute_atr ::
    "(bar list \<Rightarrow> int \<Rightarrow> real list) \<Rightarrow> adjuster \<Rightarrow> int \<Rightarrow> real option \<times> adjuster" where
  "compute_atr atr_fn ad period =
     (let (s, ad') = atr_series atr_fn ad period in (map_option last s, ad'))"

definition atr_current_and_baseline ::
    "(bar list \<Rightarrow> int \<Rightarrow> real list) \<Rightarrow> adjuster \<Rightarrow> int \<Rightarrow> (real option \<times> real option) \<times> adjuster" where
  "atr_current_and_baseline atr_fn ad period =
     (let (s, ad') = atr_series atr_fn ad period in
      case s of
        None \<Rightarrow> ((None, None), ad')
      | Some xs \<Rightarrow>
          if length xs < 2 then ((None, None), ad')
          else
            let current = last xs;
                baseline = sum_list (butlast xs) / of_nat (length xs - 1)
            in if baseline \<le> 0 then ((None, None), ad') else ((Some current, Some baseline), ad'))"

section \<open>Who is adjusted\<close>

definition needs_pipeline :: "position_context \<Rightarrow> bool" where
  "needs_pipeline p =
     (pc_trailing_enabled p \<or> pc_breakeven_enabled p \<or> pc_volatility_sl_enabled p)"

definition needs_realtime_monitoring :: "position_context \<Rightarrow> bool" where
  "needs_realtime_monitoring p = (needs_pipeline p \<or> pc_kill_switch_enabled p)"

definition discard_position :: "adjuster \<Rightarrow> string \<Rightarrow> adjuster" where
  "discard_position ad pid =
     ad\<lparr>ad_last_adjustment := dict_pop (ad_last_adjustment ad) pid,
        ad_last_kill := dict_pop (ad_last_kill ad) pid\<rparr>"

definition is_position_eligible :: "adjuster \<Rightarrow> position_context \<Rightarrow> bool" where
  "is_position_eligible ad p =
     (pc_symbol p = ad_symbol ad \<and> pc_state p = OPEN \<and> needs_pipeline p)"

definition last_or_zero :: "(string \<times> real) list \<Rightarrow> string \<Rightarrow> real" where
  "last_or_zero d k = (case dict_get d k of None \<Rightarrow> 0 | Some t \<Rightarrow> t)"

definition cooldown_elapsed :: "adjuster \<Rightarrow> real \<Rightarrow> string \<Rightarrow> bool" where
  "cooldown_elapsed ad now pid =
     (now - last_or_zero (ad_last_adjustment ad) pid \<ge> ad_throttle ad)"

definition kill_switch_cooldown_elapsed :: "adjuster \<Rightarrow> real \<Rightarrow> position_context \<Rightarrow> bool" where
  "kill_switch_cooldown_elapsed ad now p =
     (let window = (case pc_kill_switch_cooldown_seconds p of
                      Some c \<Rightarrow> of_int c | None \<Rightarrow> ad_throttle ad)
      in now - last_or_zero (ad_last_kill ad) (pc_position_id p) \<ge> window)"

section \<open>The kill-switch pass\<close>

definition kill_atr_period :: "position_context \<Rightarrow> int" where
  "kill_atr_period p =
     (case pc_kill_switch_atr_period p of
        Some n \<Rightarrow> if n \<noteq> 0 then n
                  else if pc_volatility_atr_period p \<noteq> 0 then pc_volatility_atr_period p else 14
      | None \<Rightarrow> if pc_volatility_atr_period p \<noteq> 0 then pc_volatility_atr_period p else 14)"

definition kill_candidate :: "adjuster \<Rightarrow> real \<Rightarrow> position_context \<Rightarrow> bool" where
  "kill_candidate ad now p =
     (pc_symbol p = ad_symbol ad \<and> pc_state p = OPEN \<and> pc_kill_switch_enabled p
      \<and> kill_switch_cooldown_elapsed ad now p)"

definition last_bar_move_pct :: "bar \<Rightarrow> real option" where
  "last_bar_move_pct b =
     (if br_open b > 0 then Some ((br_close b - br_open b) / br_open b * 100) else None)"

definition kill_signal ::
    "(bar list \<Rightarrow> int \<Rightarrow> real list) \<Rightarrow> adjuster \<Rightarrow> bar \<Rightarrow> position_context
      \<Rightarrow> kill_switch_signal \<times> adjuster" where
  "kill_signal atr_fn ad b p =
     (let ((cur, base), ad') =
        (if pc_kill_switch_atr_spike_mult p \<noteq> None
         then atr_current_and_baseline atr_fn ad (kill_atr_period p) else ((None, None), ad))
      in (detect_volatility_spike cur base (pc_kill_switch_atr_spike_mult p) (last_bar_move_pct b)
            (pc_kill_switch_price_move_pct p), ad'))"

text \<open>The loop body of \<open>_check_kill_switch\<close> for one position, and whether it was handed off.\<close>

definition kill_position ::
    "(bar list \<Rightarrow> int \<Rightarrow> real list) \<Rightarrow> (position_context \<Rightarrow> kill_switch_signal \<Rightarrow> position_context)
      \<Rightarrow> real \<Rightarrow> bar \<Rightarrow> adjuster \<Rightarrow> position_context \<Rightarrow> adjuster \<times> position_context \<times> bool" where
  "kill_position atr_fn on_kill now b ad p =
     (if \<not> kill_candidate ad now p then (ad, p, False)
      else
        let (sig, ad1) = kill_signal atr_fn ad b p in
        if ks_should_close sig
        then (ad1\<lparr>ad_last_kill := dict_set (ad_last_kill ad1) (pc_position_id p) now\<rparr>,
              on_kill p sig, True)
        else (ad1, p, False))"

fun kill_pass ::
    "(bar list \<Rightarrow> int \<Rightarrow> real list) \<Rightarrow> (position_context \<Rightarrow> kill_switch_signal \<Rightarrow> position_context)
      \<Rightarrow> real \<Rightarrow> bar \<Rightarrow> adjuster \<Rightarrow> position_context list
      \<Rightarrow> adjuster \<times> position_context list \<times> string list" where
  "kill_pass atr_fn on_kill now b ad [] = (ad, [], [])"
| "kill_pass atr_fn on_kill now b ad (p # ps) =
     (let (ad1, p1, hit) = kill_position atr_fn on_kill now b ad p;
          (ad2, ps2, ks) = kill_pass atr_fn on_kill now b ad1 ps
      in (ad2, p1 # ps2, if hit then pc_position_id p # ks else ks))"

definition check_kill_switch ::
    "(bar list \<Rightarrow> int \<Rightarrow> real list) \<Rightarrow> (position_context \<Rightarrow> kill_switch_signal \<Rightarrow> position_context)
      \<Rightarrow> real \<Rightarrow> bar \<Rightarrow> adjuster \<Rightarrow> position_context list
      \<Rightarrow> adjuster \<times> position_context list \<times> string list" where
  "check_kill_switch atr_fn on_kill now b ad ps =
     (if \<not> ad_has_handler ad then (ad, ps, []) else kill_pass atr_fn on_kill now b ad ps)"

section \<open>The stop-loss pass\<close>

definition evaluate_pipeline ::
    "(bar list \<Rightarrow> int \<Rightarrow> real list) \<Rightarrow> adjuster \<Rightarrow> position_context \<Rightarrow> real
      \<Rightarrow> sl_adjustment option \<times> adjuster" where
  "evaluate_pipeline atr_fn ad p current_price =
     (let (atr, ad') = (if pc_volatility_sl_enabled p
                        then compute_atr atr_fn ad (pc_volatility_atr_period p) else (None, ad))
      in (pipeline_evaluate p current_price atr, ad'))"

definition apply_state_changes ::
    "real \<Rightarrow> adjuster \<Rightarrow> position_context \<Rightarrow> sl_adjustment \<Rightarrow> adjuster \<times> position_context" where
  "apply_state_changes now ad p r =
     (ad\<lparr>ad_last_adjustment := dict_set (ad_last_adjustment ad) (pc_position_id p) now\<rparr>,
      apply_adjustment r p)"

definition realtime_task ::
    "(string \<Rightarrow> string \<Rightarrow> string) \<Rightarrow> real \<Rightarrow> position_context \<Rightarrow> sl_adjustment \<Rightarrow> string \<Rightarrow> order_task" where
  "realtime_task mk_cid now p r existing =
     \<lparr>ot_priority = Prio_SL_ADJUSTMENT, ot_created_at = now, ot_position_id = pc_position_id p,
      ot_action = ''replace_sl'',
      ot_params =
        [(''symbol'', VStr (pc_symbol p)), (''existing_order_id'', VStr existing),
         (''new_trigger_price'', VFloat (ar_new_sl_price r)),
         (''trigger_price'', VFloat (ar_new_sl_price r)),
         (''new_quantity'', VFloat (pc_current_quantity p)),
         (''full_quantity'', VFloat (pc_current_quantity p)),
         (''side'', VSide (closing_side (pc_side p))),
         (''client_order_id'', VStr (mk_cid (pc_position_id p) ''rt-sl'')),
         (''close_position'', VBool False),
         (''reason'', VStr (''realtime_pipeline:'' @ ar_reason r))],
      ot_retry_count = 0, ot_max_retries = 3, ot_on_success = None\<rparr>"

definition dispatch_replace_sl ::
    "(string \<Rightarrow> string \<Rightarrow> string) \<Rightarrow> real \<Rightarrow> position_context \<Rightarrow> sl_adjustment \<Rightarrow> order_task option" where
  "dispatch_replace_sl mk_cid now p r =
     (case pc_sl_exchange_order_id p of
        None \<Rightarrow> None
      | Some i \<Rightarrow> if i = [] then None
                 else if pc_current_quantity p \<le> 0 then None
                 else Some (realtime_task mk_cid now p r i))"

text \<open>The loop body of \<open>on_tick\<close> for one position: the new adjuster and position, and the task if
  one was dispatched.\<close>

definition adjust_position ::
    "(bar list \<Rightarrow> int \<Rightarrow> real list) \<Rightarrow> (string \<Rightarrow> string \<Rightarrow> string) \<Rightarrow> real \<Rightarrow> real \<Rightarrow> string list
      \<Rightarrow> adjuster \<Rightarrow> position_context \<Rightarrow> adjuster \<times> position_context \<times> order_task option" where
  "adjust_position atr_fn mk_cid now price killed ad p =
     (if pc_position_id p \<in> set killed \<or> \<not> is_position_eligible ad p
         \<or> \<not> cooldown_elapsed ad now (pc_position_id p)
      then (ad, p, None)
      else
        let (res, ad1) = evaluate_pipeline atr_fn ad p price in
        case res of
          None \<Rightarrow> (ad1, p, None)
        | Some r \<Rightarrow>
            let (ad2, p2) = apply_state_changes now ad1 p r
            in (ad2, p2, dispatch_replace_sl mk_cid now p2 r))"

fun adjust_pass ::
    "(bar list \<Rightarrow> int \<Rightarrow> real list) \<Rightarrow> (string \<Rightarrow> string \<Rightarrow> string) \<Rightarrow> real \<Rightarrow> real \<Rightarrow> string list
      \<Rightarrow> adjuster \<Rightarrow> position_context list
      \<Rightarrow> adjuster \<times> position_context list \<times> order_task list" where
  "adjust_pass atr_fn mk_cid now price killed ad [] = (ad, [], [])"
| "adjust_pass atr_fn mk_cid now price killed ad (p # ps) =
     (let (ad1, p1, t) = adjust_position atr_fn mk_cid now price killed ad p;
          (ad2, ps2, ts) = adjust_pass atr_fn mk_cid now price killed ad1 ps
      in (ad2, p1 # ps2, (case t of None \<Rightarrow> ts | Some x \<Rightarrow> x # ts)))"

record tick_result =
  tr_adjuster :: adjuster
  tr_positions :: "position_context list"
  tr_killed :: "string list"
  tr_tasks :: "order_task list"

definition tr_adjusted :: "tick_result \<Rightarrow> string list" where
  "tr_adjusted r = map ot_position_id (tr_tasks r)"

definition on_tick ::
    "(bar list \<Rightarrow> int \<Rightarrow> real list) \<Rightarrow> (position_context \<Rightarrow> kill_switch_signal \<Rightarrow> position_context)
      \<Rightarrow> (string \<Rightarrow> string \<Rightarrow> string) \<Rightarrow> real \<Rightarrow> adjuster \<Rightarrow> pydict \<Rightarrow> position_context list \<Rightarrow> tick_result"
where
  "on_tick atr_fn on_kill mk_cid now ad event ps =
     (let (ad1, bo) = update_buffer ad event in
      case bo of
        None \<Rightarrow> \<lparr>tr_adjuster = ad1, tr_positions = ps, tr_killed = [], tr_tasks = []\<rparr>
      | Some b \<Rightarrow>
          if br_close b \<le> 0
          then \<lparr>tr_adjuster = ad1, tr_positions = ps, tr_killed = [], tr_tasks = []\<rparr>
          else
            let (ad2, ps2, killed) = check_kill_switch atr_fn on_kill now b ad1 ps;
                (ad3, ps3, ts) = adjust_pass atr_fn mk_cid now (br_close b) killed ad2 ps2
            in \<lparr>tr_adjuster = ad3, tr_positions = ps3, tr_killed = killed, tr_tasks = ts\<rparr>)"

section \<open>Lemmas\<close>

lemma push_bar_bounded: "length (push_bar cap buf b) \<le> cap"
  by (simp add: push_bar_def Let_def)

lemma last_of_suffix:
  assumes "0 < cap" "xs \<noteq> []"
  shows "drop (length xs - cap) xs \<noteq> []" and "last (drop (length xs - cap) xs) = last xs"
proof -
  from assms have "length xs - cap < length xs" by simp
  then show "drop (length xs - cap) xs \<noteq> []" "last (drop (length xs - cap) xs) = last xs"
    by (simp_all add: last_drop)
qed

lemma push_bar_last:
  assumes "0 < cap"
  shows "push_bar cap buf b \<noteq> [] \<and> last (push_bar cap buf b) = b"
  unfolding push_bar_def Let_def
  using last_of_suffix [OF assms, of "butlast buf @ [b]"] last_of_suffix [OF assms, of "buf @ [b]"]
  by (simp split: if_splits del: drop_append drop_eq_Nil length_append)

lemma atr_series_frame:
  "atr_series atr_fn ad n = (s, ad') \<Longrightarrow> \<exists>c. ad' = ad\<lparr>ad_cache := c\<rparr>"
proof -
  assume a: "atr_series atr_fn ad n = (s, ad')"
  have same: "ad = ad\<lparr>ad_cache := ad_cache ad\<rparr>" by simp
  have "ad' = ad \<or> (\<exists>c. ad' = ad\<lparr>ad_cache := c\<rparr>)"
    using a by (auto simp: atr_series_def Let_def split: if_splits option.splits)
  with same show ?thesis by metis
qed

lemma evaluate_pipeline_frame:
  assumes "evaluate_pipeline atr_fn ad p x = (r, ad')"
  shows "(\<exists>atr. r = pipeline_evaluate p x atr) \<and> (\<exists>c. ad' = ad\<lparr>ad_cache := c\<rparr>)"
proof (cases "pc_volatility_sl_enabled p")
  case True
  obtain s ad1 where s: "atr_series atr_fn ad (pc_volatility_atr_period p) = (s, ad1)" by force
  with assms True have "r = pipeline_evaluate p x (map_option last s)" "ad' = ad1"
    by (auto simp: evaluate_pipeline_def compute_atr_def Let_def)
  with atr_series_frame [OF s] show ?thesis by blast
next
  case False
  with assms have "r = pipeline_evaluate p x None" "ad' = ad\<lparr>ad_cache := ad_cache ad\<rparr>"
    by (auto simp: evaluate_pipeline_def)
  then show ?thesis by blast
qed

lemma adjust_position_cases:
  assumes "adjust_position atr_fn mk_cid now price killed ad p = (ad', p', t)"
  obtains (same) c where "p' = p" "t = None" "ad' = ad\<lparr>ad_cache := c\<rparr>"
    | (moved) r atr c where "pipeline_evaluate p price atr = Some r" "p' = apply_adjustment r p"
      "t = dispatch_replace_sl mk_cid now p' r" "is_position_eligible ad p"
      "cooldown_elapsed ad now (pc_position_id p)" "pc_position_id p \<notin> set killed"
      "ad' = ad\<lparr>ad_cache := c,
                ad_last_adjustment := dict_set (ad_last_adjustment ad) (pc_position_id p) now\<rparr>"
proof (cases "pc_position_id p \<in> set killed \<or> \<not> is_position_eligible ad p
    \<or> \<not> cooldown_elapsed ad now (pc_position_id p)")
  case True
  with assms show ?thesis by (intro same [of "ad_cache ad"]) (auto simp: adjust_position_def)
next
  case False
  obtain res ad1 where ev: "evaluate_pipeline atr_fn ad p price = (res, ad1)" by force
  obtain atr c where fr: "res = pipeline_evaluate p price atr" "ad1 = ad\<lparr>ad_cache := c\<rparr>"
    using evaluate_pipeline_frame [OF ev] by blast
  show ?thesis
  proof (cases res)
    case None
    with assms False ev fr show ?thesis by (intro same [of c]) (auto simp: adjust_position_def)
  next
    case (Some r)
    then have "pipeline_evaluate p price atr = Some r" using fr(1) by simp
    with assms False ev fr show ?thesis
      by (intro moved [of atr r c]) (auto simp: adjust_position_def apply_state_changes_def Let_def)
  qed
qed

lemma dispatch_Some:
  "dispatch_replace_sl mk_cid now p r = Some t \<Longrightarrow>
     0 < pc_current_quantity p
     \<and> (\<exists>i. pc_sl_exchange_order_id p = Some i \<and> i \<noteq> [] \<and> t = realtime_task mk_cid now p r i)"
  by (auto simp: dispatch_replace_sl_def split: option.splits if_splits)

lemma kill_signal_frame:
  "kill_signal atr_fn ad b p = (sig, ad') \<Longrightarrow> \<exists>c. ad' = ad\<lparr>ad_cache := c\<rparr>"
proof -
  assume a: "kill_signal atr_fn ad b p = (sig, ad')"
  obtain s ad1 where s: "atr_series atr_fn ad (kill_atr_period p) = (s, ad1)" by force
  have same: "ad = ad\<lparr>ad_cache := ad_cache ad\<rparr>" by simp
  have "ad' = ad \<or> ad' = ad1"
    using a s by (auto simp: kill_signal_def atr_current_and_baseline_def Let_def
        split: if_splits option.splits)
  with same atr_series_frame [OF s] show ?thesis by metis
qed

lemma kill_position_cases:
  assumes "kill_position atr_fn on_kill now b ad p = (ad', p', hit)"
  obtains (spared) c where "\<not> hit" "p' = p" "ad' = ad\<lparr>ad_cache := c\<rparr>"
    | (killed) sig c where "hit" "p' = on_kill p sig" "ks_should_close sig"
      "kill_candidate ad now p" "fst (kill_signal atr_fn ad b p) = sig"
      "ad' = ad\<lparr>ad_cache := c, ad_last_kill := dict_set (ad_last_kill ad) (pc_position_id p) now\<rparr>"
proof (cases "kill_candidate ad now p")
  case False
  with assms show ?thesis by (intro spared [of "ad_cache ad"]) (auto simp: kill_position_def)
next
  case True
  obtain sig ad1 where s: "kill_signal atr_fn ad b p = (sig, ad1)" by force
  obtain c where "ad1 = ad\<lparr>ad_cache := c\<rparr>" using kill_signal_frame [OF s] by blast
  with assms True s show ?thesis
    by (cases "ks_should_close sig")
       (auto simp: kill_position_def intro: spared killed)
qed

lemma kill_position_frame:
  "kill_position atr_fn on_kill now b ad p = (ad', p', hit) \<Longrightarrow>
     ad_last_adjustment ad' = ad_last_adjustment ad \<and> ad_symbol ad' = ad_symbol ad
     \<and> ad_throttle ad' = ad_throttle ad \<and> ad_buffer ad' = ad_buffer ad"
  by (elim kill_position_cases) simp_all

lemma kill_pass_frame:
  "kill_pass atr_fn on_kill now b ad ps = (ad', ps', ks) \<Longrightarrow>
     ad_last_adjustment ad' = ad_last_adjustment ad \<and> ad_symbol ad' = ad_symbol ad
     \<and> ad_throttle ad' = ad_throttle ad \<and> ad_buffer ad' = ad_buffer ad"
proof (induction ps arbitrary: ad ps' ks)
  case (Cons p ps)
  obtain ad1 p1 hit where k: "kill_position atr_fn on_kill now b ad p = (ad1, p1, hit)"
    by (metis prod_cases3)
  obtain ad2 ps2 ks2 where r: "kill_pass atr_fn on_kill now b ad1 ps = (ad2, ps2, ks2)"
    by (metis prod_cases3)
  from Cons.prems k r have "ad' = ad2" by auto
  with Cons.IH [OF r [folded this]] kill_position_frame [OF k] show ?case by simp
qed simp

lemma kill_candidate_update [simp]:
  "kill_candidate (ad\<lparr>ad_buffer := x\<rparr>) = kill_candidate ad"
  "kill_candidate (ad\<lparr>ad_cache := c\<rparr>) = kill_candidate ad"
  by (simp_all add: fun_eq_iff kill_candidate_def kill_switch_cooldown_elapsed_def Let_def
      split: option.split)

text \<open>What the kill-switch asks of a position, with the average true range read off the buffer
  directly: the reference the memoised code is compared with.\<close>

definition atr_reference :: "(bar list \<Rightarrow> int \<Rightarrow> real list) \<Rightarrow> bar list \<Rightarrow> int \<Rightarrow> real list option" where
  "atr_reference atr_fn buf period =
     (if period \<le> 0 \<or> int (length buf) < period + 1 \<or> atr_fn buf period = [] then None
      else Some (atr_fn buf period))"

definition range_spike :: "(bar list \<Rightarrow> int \<Rightarrow> real list) \<Rightarrow> bar list \<Rightarrow> position_context \<Rightarrow> bool" where
  "range_spike atr_fn buf p =
     (case (pc_kill_switch_atr_spike_mult p, atr_reference atr_fn buf (kill_atr_period p)) of
        (Some m, Some xs) \<Rightarrow>
          2 \<le> length xs \<and> 0 < sum_list (butlast xs)
          \<and> m * (sum_list (butlast xs) / of_nat (length xs - 1)) \<le> last xs
      | _ \<Rightarrow> False)"

definition spike_now ::
    "(bar list \<Rightarrow> int \<Rightarrow> real list) \<Rightarrow> bar list \<Rightarrow> bar \<Rightarrow> position_context \<Rightarrow> bool" where
  "spike_now atr_fn buf b p =
     (range_spike atr_fn buf p
      \<or> price_spike (last_bar_move_pct b) (pc_kill_switch_price_move_pct p))"

definition cache_ok :: "(bar list \<Rightarrow> int \<Rightarrow> real list) \<Rightarrow> adjuster \<Rightarrow> bool" where
  "cache_ok atr_fn ad =
     (\<forall>n s. dict_get (ad_cache ad) n = Some s \<longrightarrow> s = atr_reference atr_fn (ad_buffer ad) n)"

lemma atr_series_reference:
  assumes "cache_ok atr_fn ad" and "atr_series atr_fn ad n = (s, ad')"
  shows "s = atr_reference atr_fn (ad_buffer ad) n \<and> cache_ok atr_fn ad'
    \<and> ad_buffer ad' = ad_buffer ad"
proof (cases "(n \<le> 0 \<or> int (length (ad_buffer ad)) < n + 1) \<or> dict_get (ad_cache ad) n \<noteq> None")
  case True
  then have "s = atr_reference atr_fn (ad_buffer ad) n \<and> ad' = ad"
  proof
    assume "n \<le> 0 \<or> int (length (ad_buffer ad)) < n + 1"
    with assms(2) show ?thesis by (auto simp: atr_series_def atr_reference_def)
  next
    assume "dict_get (ad_cache ad) n \<noteq> None"
    then obtain s' where s': "dict_get (ad_cache ad) n = Some s'" by blast
    moreover have "s' = atr_reference atr_fn (ad_buffer ad) n"
      using assms(1) s' by (simp add: cache_ok_def)
    ultimately show ?thesis
      using assms(2) by (auto simp: atr_series_def atr_reference_def split: if_splits)
  qed
  with assms(1) show ?thesis by simp
next
  case False
  with assms have "s = atr_reference atr_fn (ad_buffer ad) n"
    "ad' = ad\<lparr>ad_cache := dict_set (ad_cache ad) n s\<rparr>"
    by (auto simp: atr_series_def atr_reference_def Let_def)
  with assms(1) show ?thesis by (simp add: cache_ok_def)
qed

lemma kill_signal_reference:
  assumes "cache_ok atr_fn ad" and "kill_signal atr_fn ad b p = (sig, ad')"
  shows "ks_should_close sig = spike_now atr_fn (ad_buffer ad) b p \<and> cache_ok atr_fn ad'"
proof -
  obtain s ad1 where s: "atr_series atr_fn ad (kill_atr_period p) = (s, ad1)" by force
  note r = atr_series_reference [OF assms(1) s]
  show ?thesis
  proof (cases "pc_kill_switch_atr_spike_mult p")
    case None
    with assms show ?thesis
      by (auto simp: kill_signal_def spike_now_def range_spike_def detect_should_close atr_spike_def)
  next
    case (Some m)
    show ?thesis
    proof (cases s)
      case None
      with Some assms s r show ?thesis
        by (auto simp: kill_signal_def spike_now_def range_spike_def detect_should_close
            atr_spike_def atr_current_and_baseline_def)
    next
      case (Some xs)
      have pos: "0 < sum_list (butlast xs) / of_nat (length xs - 1) \<longleftrightarrow> 0 < sum_list (butlast xs)"
        if "2 \<le> length xs" using that by (auto simp: zero_less_divide_iff)
      have ref: "atr_reference atr_fn (ad_buffer ad) (kill_atr_period p) = Some xs"
        using r Some by simp
      with \<open>pc_kill_switch_atr_spike_mult p = Some m\<close> Some assms s r pos show ?thesis
        by (auto simp: kill_signal_def spike_now_def range_spike_def detect_should_close not_le
            atr_spike_def atr_current_and_baseline_def Let_def split: if_splits)
    qed
  qed
qed

lemma kill_position_reference:
  assumes "cache_ok atr_fn ad" and "kill_position atr_fn on_kill now b ad p = (ad', p', hit)"
  shows "hit = (kill_candidate ad now p \<and> spike_now atr_fn (ad_buffer ad) b p) \<and> cache_ok atr_fn ad'
    \<and> (\<forall>q. pc_position_id q \<noteq> pc_position_id p \<longrightarrow> kill_candidate ad' now q = kill_candidate ad now q)"
proof -
  obtain sig ad1 where s: "kill_signal atr_fn ad b p = (sig, ad1)" by force
  obtain c where c: "ad1 = ad\<lparr>ad_cache := c\<rparr>" using kill_signal_frame [OF s] by blast
  have other: "kill_candidate (ad\<lparr>ad_cache := c,
      ad_last_kill := dict_set (ad_last_kill ad) (pc_position_id p) now\<rparr>) now q = kill_candidate ad now q" if "pc_position_id q \<noteq> pc_position_id p" for q
    using that by (simp add: kill_candidate_def kill_switch_cooldown_elapsed_def Let_def
        last_or_zero_def split: option.split)
  from kill_signal_reference [OF assms(1) s] assms s other show ?thesis
    by (auto simp: kill_position_def c cache_ok_def split: if_splits)
qed

lemma kill_pass_exact:
  assumes "cache_ok atr_fn ad" and "distinct (map pc_position_id ps)"
    and "kill_pass atr_fn on_kill now b ad ps = (ad', ps', ks)"
  shows "set ks = pc_position_id ` {p \<in> set ps. kill_candidate ad now p
                                      \<and> spike_now atr_fn (ad_buffer ad) b p}"
  using assms
proof (induction ps arbitrary: ad ad' ps' ks)
  case (Cons p ps)
  obtain ad1 p1 hit where k: "kill_position atr_fn on_kill now b ad p = (ad1, p1, hit)"
    by (metis prod_cases3)
  obtain ad2 ps2 ks2 where r: "kill_pass atr_fn on_kill now b ad1 ps = (ad2, ps2, ks2)"
    by (metis prod_cases3)
  note kr = kill_position_reference [OF Cons.prems(1) k]
  from Cons.prems k r have ks: "ks = (if hit then pc_position_id p # ks2 else ks2)" by auto
  have cand: "kill_candidate ad1 now q = kill_candidate ad now q" if "q \<in> set ps" for q
    using kr that Cons.prems(2) by (metis distinct.simps(2) image_eqI list.set_map list.simps(9))
  have "set ks2 = pc_position_id ` {q \<in> set ps. kill_candidate ad1 now q
                                      \<and> spike_now atr_fn (ad_buffer ad1) b q}"
    using Cons.IH [OF _ _ r] kr Cons.prems(2) by auto
  also have "\<dots> = pc_position_id ` {q \<in> set ps. kill_candidate ad now q
                                      \<and> spike_now atr_fn (ad_buffer ad) b q}"
    using cand kill_position_frame [OF k] by (metis (mono_tags, lifting))
  finally show ?case using ks kr by auto
qed simp

lemma adjust_position_frame:
  "adjust_position atr_fn mk_cid now price killed ad p = (ad', p', t) \<Longrightarrow>
     ad_symbol ad' = ad_symbol ad \<and> ad_throttle ad' = ad_throttle ad \<and> ad_buffer ad' = ad_buffer ad"
  by (elim adjust_position_cases) simp_all

text \<open>\<open>cooling ad now pid\<close>: the position was adjusted less than a throttle window ago. A pass over
  the positions never ends that, and while it lasts the position gets no task.\<close>

abbreviation cooling :: "adjuster \<Rightarrow> real \<Rightarrow> string \<Rightarrow> bool" where
  "cooling ad now pid \<equiv> \<not> cooldown_elapsed ad now pid"

lemma adjust_position_cooling:
  assumes "adjust_position atr_fn mk_cid now price killed ad p = (ad', p', t)"
    and "cooling ad now pid"
  shows "cooling ad' now pid \<and> (t = Some x \<longrightarrow> ot_position_id x \<noteq> pid)"
  using assms(1)
proof (cases rule: adjust_position_cases)
  case same
  with assms(2) show ?thesis by (simp add: cooldown_elapsed_def)
next
  case (moved r atr c)
  with assms(2) have "pc_position_id p \<noteq> pid" by auto
  with moved assms(2) show ?thesis
    by (auto simp: cooldown_elapsed_def last_or_zero_def realtime_task_def dest!: dispatch_Some)
qed

lemma adjust_pass_cooling:
  assumes "adjust_pass atr_fn mk_cid now price killed ad ps = (ad', ps', ts)"
    and "cooling ad now pid"
  shows "pid \<notin> ot_position_id ` set ts"
  using assms
proof (induction ps arbitrary: ad ad' ps' ts)
  case (Cons p ps)
  obtain ad1 p1 t where k: "adjust_position atr_fn mk_cid now price killed ad p = (ad1, p1, t)"
    by (metis prod_cases3)
  obtain ad2 ps2 ts2 where r: "adjust_pass atr_fn mk_cid now price killed ad1 ps = (ad2, ps2, ts2)"
    by (metis prod_cases3)
  from Cons.prems k r have ts: "ts = (case t of None \<Rightarrow> ts2 | Some x \<Rightarrow> x # ts2)" by auto
  from adjust_position_cooling [OF k Cons.prems(2)] Cons.IH [OF r] ts show ?case
    by (auto split: option.splits)
qed simp

lemma adjust_pass_stamps:
  assumes "adjust_pass atr_fn mk_cid now price killed ad ps = (ad', ps', ts)"
  shows "ad_throttle ad' = ad_throttle ad
    \<and> (dict_get (ad_last_adjustment ad) pid = Some now \<or> pid \<in> ot_position_id ` set ts
       \<longrightarrow> dict_get (ad_last_adjustment ad') pid = Some now)"
  using assms
proof (induction ps arbitrary: ad ad' ps' ts)
  case (Cons p ps)
  obtain ad1 p1 t where k: "adjust_position atr_fn mk_cid now price killed ad p = (ad1, p1, t)"
    by (metis prod_cases3)
  obtain ad2 ps2 ts2 where r: "adjust_pass atr_fn mk_cid now price killed ad1 ps = (ad2, ps2, ts2)"
    by (metis prod_cases3)
  from Cons.prems k r have ts: "ad' = ad2" "ts = (case t of None \<Rightarrow> ts2 | Some x \<Rightarrow> x # ts2)"
    by auto
  from k have "ad_throttle ad1 = ad_throttle ad
    \<and> (dict_get (ad_last_adjustment ad) pid = Some now \<or> (\<exists>x. t = Some x \<and> ot_position_id x = pid)
       \<longrightarrow> dict_get (ad_last_adjustment ad1) pid = Some now)"
    by (cases rule: adjust_position_cases) (auto simp: realtime_task_def dest!: dispatch_Some)
  with Cons.IH [OF r] ts show ?case by (auto split: option.splits)
qed simp

lemma adjust_pass_tasks:
  assumes "adjust_pass atr_fn mk_cid now price killed ad ps = (ad', ps', ts)" and "t \<in> set ts"
  shows "ot_position_id t \<notin> set killed
    \<and> (\<exists>p' \<in> set ps'. \<exists>r i. pc_state p' = OPEN \<and> pc_symbol p' = ad_symbol ad \<and> needs_pipeline p'
         \<and> pc_current_sl_price p' = ar_new_sl_price r \<and> 0 < pc_current_quantity p'
         \<and> pc_sl_exchange_order_id p' = Some i \<and> i \<noteq> [] \<and> t = realtime_task mk_cid now p' r i)"
  using assms
proof (induction ps arbitrary: ad ad' ps' ts)
  case (Cons p ps)
  obtain ad1 p1 u where k: "adjust_position atr_fn mk_cid now price killed ad p = (ad1, p1, u)"
    by (metis prod_cases3)
  obtain ad2 ps2 ts2 where r: "adjust_pass atr_fn mk_cid now price killed ad1 ps = (ad2, ps2, ts2)"
    by (metis prod_cases3)
  from Cons.prems k r have ts: "ps' = p1 # ps2" "ts = (case u of None \<Rightarrow> ts2 | Some x \<Rightarrow> x # ts2)"
    by auto
  show ?case
  proof (cases "t \<in> set ts2")
    case True
    from Cons.IH [OF r True] adjust_position_frame [OF k] ts show ?thesis by auto
  next
    case False
    with ts Cons.prems(2) have u: "u = Some t" by (auto split: option.splits)
    from k show ?thesis
    proof (cases rule: adjust_position_cases)
      case same
      with u show ?thesis by simp
    next
      case (moved q atr c)
      have np: "needs_pipeline p1 = needs_pipeline p" "pc_symbol p1 = pc_symbol p"
        using moved(2) by (simp_all add: needs_pipeline_def)
      from moved(3) u have "dispatch_replace_sl mk_cid now p1 q = Some t" by simp
      then obtain i where "0 < pc_current_quantity p1" "pc_sl_exchange_order_id p1 = Some i"
        "i \<noteq> []" "t = realtime_task mk_cid now p1 q i" by (auto dest!: dispatch_Some)
      with moved np ts show ?thesis by (auto simp: is_position_eligible_def realtime_task_def)
    qed
  qed
qed simp

lemma on_tick_cases:
  obtains (quiet) ad1 where
      "on_tick atr_fn on_kill mk_cid now ad event ps =
        \<lparr>tr_adjuster = ad1, tr_positions = ps, tr_killed = [], tr_tasks = []\<rparr>"
      "ad_last_adjustment ad1 = ad_last_adjustment ad" "ad_throttle ad1 = ad_throttle ad"
      "\<And>b. extract_bar event = Some b \<Longrightarrow> br_close b \<le> 0"
    | (work) b ad1 ad2 ps2 ks ad3 ps3 ts where
      "extract_bar event = Some b" "0 < br_close b"
      "ad1 = ad\<lparr>ad_buffer := push_bar (ad_buffer_bars ad) (ad_buffer ad) b, ad_cache := []\<rparr>"
      "check_kill_switch atr_fn on_kill now b ad1 ps = (ad2, ps2, ks)"
      "adjust_pass atr_fn mk_cid now (br_close b) ks ad2 ps2 = (ad3, ps3, ts)"
      "on_tick atr_fn on_kill mk_cid now ad event ps =
        \<lparr>tr_adjuster = ad3, tr_positions = ps3, tr_killed = ks, tr_tasks = ts\<rparr>"
      "ad_last_adjustment ad2 = ad_last_adjustment ad" "ad_throttle ad2 = ad_throttle ad"
      "ad_symbol ad2 = ad_symbol ad" "ad_buffer ad2 = ad_buffer ad1"
proof (cases "extract_bar event")
  case None
  then show ?thesis by (intro quiet [of ad]) (simp_all add: on_tick_def update_buffer_def)
next
  case (Some b)
  define ad1 where "ad1 = ad\<lparr>ad_buffer := push_bar (ad_buffer_bars ad) (ad_buffer ad) b, ad_cache := []\<rparr>"
  show ?thesis
  proof (cases "br_close b \<le> 0")
    case True
    with Some show ?thesis
      by (intro quiet [of ad1]) (simp_all add: on_tick_def update_buffer_def ad1_def)
  next
    case False
    obtain ad2 ps2 ks where k: "check_kill_switch atr_fn on_kill now b ad1 ps = (ad2, ps2, ks)"
      by (metis prod_cases3)
    obtain ad3 ps3 ts where a: "adjust_pass atr_fn mk_cid now (br_close b) ks ad2 ps2 = (ad3, ps3, ts)"
      by (metis prod_cases3)
    have "ad_last_adjustment ad2 = ad_last_adjustment ad1 \<and> ad_symbol ad2 = ad_symbol ad1
      \<and> ad_throttle ad2 = ad_throttle ad1 \<and> ad_buffer ad2 = ad_buffer ad1"
      using k kill_pass_frame [of atr_fn on_kill now b ad1 ps ad2 ps2 ks]
      by (auto simp: check_kill_switch_def split: if_splits)
    with Some False k a show ?thesis
      by (intro work [OF Some _ ad1_def k a]) (simp_all add: on_tick_def update_buffer_def ad1_def)
  qed
qed

section \<open>Properties\<close>

text \<open>A concrete tick for the examples: an open long position entered at 100, stop at 90, trailing
  by ten per cent, on a bar that closes at 110; and the same position armed with a five per cent
  kill-switch.\<close>

definition sample_trailing :: position_context where
  "sample_trailing = default_context\<lparr>pc_position_id := ''p1'', pc_symbol := ''BTC'', pc_state := OPEN,
     pc_entry_price := 100, pc_original_quantity := 2, pc_current_quantity := 2,
     pc_current_sl_price := 90, pc_sl_exchange_order_id := Some ''sl1'',
     pc_trailing_enabled := True, pc_trailing_callback_rate := Some 10\<rparr>"

definition sample_armed :: position_context where
  "sample_armed = sample_trailing\<lparr>pc_kill_switch_enabled := True,
     pc_kill_switch_price_move_pct := Some 5\<rparr>"

definition sample_adjuster :: adjuster where
  "sample_adjuster = \<lparr>ad_symbol = ''BTC'', ad_buffer_bars = 3, ad_throttle = 3, ad_buffer = [],
     ad_last_adjustment = [], ad_last_kill = [], ad_cache = [], ad_has_handler = True\<rparr>"

definition sample_event :: pydict where
  "sample_event = [(''open_time'', VInt 60), (''open'', VFloat 100), (''high'', VFloat 111),
     (''low'', VFloat 99), (''close'', VFloat 110), (''volume'', VFloat 7)]"

lemmas tick_simps = on_tick_def update_buffer_def extract_bar_def event_float_def opt_ok_def
  push_bar_def check_kill_switch_def kill_position_def kill_candidate_def
  kill_switch_cooldown_elapsed_def kill_signal_def adjust_position_def is_position_eligible_def
  needs_pipeline_def cooldown_elapsed_def last_or_zero_def evaluate_pipeline_def compute_atr_def
  pipeline_evaluate_def pipeline_candidates_def evaluate_source_def evaluate_trailing_def
  evaluate_breakeven_def evaluate_volatility_def or_float_def apply_state_changes_def
  apply_adjustment_def set_tracked_def dispatch_replace_sl_def realtime_task_def tr_adjusted_def
  detect_volatility_spike_def ks_no_close_def last_bar_move_pct_def default_context_def
  default_priority_def sample_trailing_def sample_armed_def sample_adjuster_def sample_event_def

text \<open>Every replace-stop task a tick dispatches is for a position that was not just handed to
  the kill-switch; that position is open, on the adjuster's symbol, has some stop rule enabled,
  a positive quantity and a known stop order; and the task asks for exactly the stop price now
  recorded on the position.\<close>

theorem on_tick_tasks_sound:
  assumes "t \<in> set (tr_tasks (on_tick atr_fn on_kill mk_cid now ad event ps))"
  shows "ot_position_id t \<notin> set (tr_killed (on_tick atr_fn on_kill mk_cid now ad event ps))
    \<and> (\<exists>p' \<in> set (tr_positions (on_tick atr_fn on_kill mk_cid now ad event ps)).
         ot_position_id t = pc_position_id p' \<and> pc_state p' = OPEN \<and> pc_symbol p' = ad_symbol ad
         \<and> needs_pipeline p' \<and> 0 < pc_current_quantity p'
         \<and> ot_action t = ''replace_sl'' \<and> ot_priority t = Prio_SL_ADJUSTMENT
         \<and> dict_get (ot_params t) ''existing_order_id''
             = map_option VStr (pc_sl_exchange_order_id p')
         \<and> dict_get (ot_params t) ''new_trigger_price'' = Some (VFloat (pc_current_sl_price p')))"
proof (cases rule: on_tick_cases [of atr_fn on_kill mk_cid now ad event ps])
  case quiet
  with assms show ?thesis by simp
next
  case (work b ad1 ad2 ps2 ks ad3 ps3 ts)
  with assms adjust_pass_tasks [OF work(5), of t] show ?thesis
    by (auto simp: realtime_task_def intro!: bexI)
qed

theorem on_tick_tasks_sound_witness:
  "tr_tasks (on_tick (\<lambda>_ _. []) (\<lambda>p _. p) (\<lambda>a b. a @ b) 50 sample_adjuster sample_event [sample_trailing]) \<noteq> [] \<and> 
   ot_position_id (hd (tr_tasks (on_tick (\<lambda>_ _. []) (\<lambda>p _. p) (\<lambda>a b. a @ b) 50 sample_adjuster sample_event [sample_trailing]))) = ''p1''
   \<and> dict_get (ot_params (hd (tr_tasks (on_tick (\<lambda>_ _. []) (\<lambda>p _. p) (\<lambda>a b. a @ b) 50 sample_adjuster sample_event [sample_trailing])))) ''new_trigger_price'' = Some (VFloat 99)"
proof -
  have t: "tr_tasks (on_tick (\<lambda>_ _. []) (\<lambda>p _. p) (\<lambda>a b. a @ b) 50 sample_adjuster sample_event [sample_trailing]) = [realtime_task (\<lambda>a b. a @ b) 50 (sample_trailing\<lparr>pc_current_sl_price := 99,
       pc_trailing_highest_price := Some 110\<rparr>) \<lparr>ar_new_sl_price = 99, ar_reason = ''trailing'',
       ar_is_valid = True, ar_update_tracking = [(''trailing_highest_price'', VFloat 110)]\<rparr> ''sl1'']"
    by (simp add: tick_simps)
  show ?thesis
    using on_tick_tasks_sound [of "hd (tr_tasks (on_tick (\<lambda>_ _. []) (\<lambda>p _. p) (\<lambda>a b. a @ b) 50 sample_adjuster sample_event [sample_trailing]))" "\<lambda>_ _. []" "\<lambda>p _. p" "\<lambda>a b. a @ b" 50
        sample_adjuster sample_event "[sample_trailing]"]
    unfolding t by (simp add: realtime_task_def sample_trailing_def)
qed

text \<open>The throttle. A position for which a tick dispatched a task gets no further task from a
  later tick of the same adjuster less than the throttle window afterwards, whatever that tick
  carries and whatever positions it is given.\<close>

theorem on_tick_throttled:
  assumes "pid \<in> set (tr_adjusted (on_tick atr_fn on_kill mk_cid now ad event ps))"
    and "now' - now < ad_throttle ad"
  shows "pid \<notin> set (tr_adjusted (on_tick atr_fn on_kill mk_cid now'
           (tr_adjuster (on_tick atr_fn on_kill mk_cid now ad event ps)) event' ps'))"
proof -
  define ad' where "ad' = tr_adjuster (on_tick atr_fn on_kill mk_cid now ad event ps)"
  have st: "ad_throttle ad' = ad_throttle ad \<and> dict_get (ad_last_adjustment ad') pid = Some now"
  proof (cases rule: on_tick_cases [of atr_fn on_kill mk_cid now ad event ps])
    case quiet
    with assms(1) show ?thesis by (simp add: tr_adjusted_def)
  next
    case (work b ad1 ad2 ps2 ks ad3 ps3 ts)
    with assms(1) adjust_pass_stamps [OF work(5), of pid] show ?thesis
      by (auto simp: tr_adjusted_def ad'_def)
  qed
  then have cool: "cooling ad' now' pid"
    using assms(2) by (simp add: cooldown_elapsed_def last_or_zero_def)
  have "pid \<notin> set (tr_adjusted (on_tick atr_fn on_kill mk_cid now' ad' event' ps'))"
  proof (cases rule: on_tick_cases [of atr_fn on_kill mk_cid now' ad' event' ps'])
    case quiet
    then show ?thesis by (simp add: tr_adjusted_def)
  next
    case (work b ad1 ad2 ps2 ks ad3 ps3 ts)
    then have "cooling ad2 now' pid" using cool by (simp add: cooldown_elapsed_def)
    with work adjust_pass_cooling [OF work(5)] show ?thesis by (simp add: tr_adjusted_def)
  qed
  then show ?thesis by (simp add: ad'_def)
qed

theorem on_tick_throttled_witness:
  "''p1'' \<in> set (tr_adjusted (on_tick (\<lambda>_ _. []) (\<lambda>p _. p) (\<lambda>a b. a @ b) 50 sample_adjuster sample_event [sample_trailing]))
   \<and> ''p1'' \<notin> set (tr_adjusted (on_tick (\<lambda>_ _. []) (\<lambda>p _. p) (\<lambda>a b. a @ b) 52
        (tr_adjuster (on_tick (\<lambda>_ _. []) (\<lambda>p _. p) (\<lambda>a b. a @ b) 50 sample_adjuster sample_event [sample_trailing])) (dict_set sample_event ''close'' (VFloat 150)) [sample_trailing]))"
proof -
  have "''p1'' \<in> set (tr_adjusted (on_tick (\<lambda>_ _. []) (\<lambda>p _. p) (\<lambda>a b. a @ b) 50 sample_adjuster sample_event [sample_trailing]))" by (simp add: tick_simps)
  moreover have "(52::real) - 50 < ad_throttle sample_adjuster" by (simp add: sample_adjuster_def)
  ultimately show ?thesis using on_tick_throttled by blast
qed

text \<open>C30: The kill-switch pass of a tick, exactly. On a well-formed bar with a positive close, and
  with a handler wired, the positions handed to the hard close are those and only those that are
  open on this symbol, armed, outside their kill cooldown, and for which either the last average
  true range is at least the configured multiple of the mean of the earlier ones, or the bar moved
  by the configured percentage: the per-tick memo changes nothing.\<close>

theorem on_tick_kills_exactly_spikes:
  assumes "extract_bar event = Some b" and "0 < br_close b" and "ad_has_handler ad"
    and "distinct (map pc_position_id ps)"
  shows "set (tr_killed (on_tick atr_fn on_kill mk_cid now ad event ps)) =
    pc_position_id ` {p \<in> set ps. kill_candidate ad now p
      \<and> spike_now atr_fn (push_bar (ad_buffer_bars ad) (ad_buffer ad) b) b p}"
proof (cases rule: on_tick_cases [of atr_fn on_kill mk_cid now ad event ps])
  case (work b' ad1 ad2 ps2 ks ad3 ps3 ts)
  with assms have b: "b' = b" and kp: "kill_pass atr_fn on_kill now b ad1 ps = (ad2, ps2, ks)"
    by (auto simp: check_kill_switch_def)
  have "cache_ok atr_fn ad1" using work(3) by (simp add: cache_ok_def)
  from kill_pass_exact [OF this assms(4) kp] work b show ?thesis by simp
next
  case (quiet ad1)
  with assms(1,2) show ?thesis by fastforce
qed

theorem on_tick_kills_exactly_spikes_witness:
  "set (tr_killed (on_tick (\<lambda>_ _. []) (\<lambda>p _. p) (\<lambda>a b. a @ b) 50 sample_adjuster sample_event [sample_armed])) = {''p1''}"
proof -
  have "extract_bar sample_event = Some \<lparr>br_open_time = 60, br_open = 100, br_high = 111, br_low = 99,
      br_close = 110, br_volume = 7, br_is_closed = False\<rparr>" by (simp add: tick_simps)
  from on_tick_kills_exactly_spikes [OF this, of sample_adjuster "[sample_armed]" "\<lambda>_ _. []"
      "\<lambda>p _. p" "\<lambda>a b. a @ b" 50]
  show ?thesis by (simp add: tick_simps spike_now_def price_spike_def)
qed


end
