(* ===== verification/Risk_Gate.thy ===== *)
theory Risk_Gate
  imports Prelude
begin

text \<open>
  \<^verbatim>\<open>app/services/auto_trade/risk/engine.py\<close> (the pre-trade gate) and
  \<^verbatim>\<open>app/services/auto_trade/risk/kpi_guard.py\<close> (the automatic pause on breached live KPIs).

  The gate's queries range over the table of auto-trade positions, which is an argument: a list of
  rows, a query being the filter and aggregate it denotes. The human-readable \<open>reason\<close> of a
  decision is not modelled; its rule name and its payload are.
\<close>

section \<open>Configuration and rows\<close>

record risk_config =
  rc_enabled :: bool
  rc_leverage_ceiling :: "int option"
  rc_max_open_positions :: "int option"
  rc_max_open_positions_per_symbol :: "int option"
  rc_conflicting_signal_policy :: string
  rc_exposure_cap_usdt :: "real option"
  rc_daily_loss_limit_usdt :: "real option"
  rc_daily_loss_limit_pct :: "real option"
  rc_kpi_guard_enabled :: bool
  rc_kpi_guard_max_daily_loss_usdt :: "real option"
  rc_kpi_guard_max_daily_loss_pct :: "real option"
  rc_kpi_guard_max_dd_pct :: "real option"
  rc_kpi_guard_min_win_rate_pct :: "real option"
  rc_kpi_guard_min_trades :: "int option"
  rc_promote_min_trades :: "int option"
  rc_promote_min_sandbox_days :: "real option"
  rc_promote_min_win_rate_pct :: "real option"
  rc_promote_max_dd_pct :: "real option"
  rc_kill_switch_enabled :: bool
  rc_kill_switch_atr_spike_mult :: "real option"
  rc_kill_switch_atr_period :: "int option"
  rc_kill_switch_price_move_pct :: "real option"
  rc_kill_switch_cooldown_seconds :: "int option"
  rc_anomaly_detection_enabled :: bool
  rc_anomaly_z_threshold :: "real option"
  rc_anomaly_window :: "int option"

record trade_config =
  tc_user_id :: int
  tc_leverage :: int
  tc_position_size_usdt :: real

record position_row =
  pr_user_id :: int
  pr_status :: string
  pr_symbol :: string
  pr_side :: string
  pr_position_size_usdt :: real

record risk_decision =
  rd_allowed :: bool
  rd_rule :: "string option"
  rd_payload :: pydict
  rd_warning :: "string option"

definition allow_decision :: "string option \<Rightarrow> risk_decision" where
  "allow_decision warning = \<lparr>rd_allowed = True, rd_rule = None, rd_payload = [], rd_warning = warning\<rparr>"

definition block_decision :: "string \<Rightarrow> pydict \<Rightarrow> risk_decision" where
  "block_decision rule payload =
     \<lparr>rd_allowed = False, rd_rule = Some rule, rd_payload = payload, rd_warning = None\<rparr>"

section \<open>The rules of the gate\<close>

text \<open>Each rule returns the block it decides on, or nothing.\<close>

definition open_rows :: "position_row list \<Rightarrow> int \<Rightarrow> position_row list" where
  "open_rows rows uid = filter (\<lambda>r. pr_user_id r = uid \<and> pr_status r = ''open'') rows"

definition leverage_rule :: "risk_config \<Rightarrow> trade_config \<Rightarrow> risk_decision option" where
  "leverage_rule rc tc =
     (case rc_leverage_ceiling rc of
        None \<Rightarrow> None
      | Some ceil \<Rightarrow>
          if tc_leverage tc > ceil
          then Some (block_decision ''leverage''
                 [(''leverage'', VInt (tc_leverage tc)), (''leverage_ceiling'', VInt ceil)])
          else None)"

definition max_open_rule ::
    "risk_config \<Rightarrow> trade_config \<Rightarrow> position_row list \<Rightarrow> risk_decision option" where
  "max_open_rule rc tc rows =
     (case rc_max_open_positions rc of
        None \<Rightarrow> None
      | Some max_open \<Rightarrow>
          let open_count = int (length (open_rows rows (tc_user_id tc))) in
          if open_count \<ge> max_open
          then Some (block_decision ''max_open''
                 [(''open_positions'', VInt open_count), (''max_open_positions'', VInt max_open)])
          else None)"

definition max_open_symbol_rule ::
    "risk_config \<Rightarrow> trade_config \<Rightarrow> position_row list \<Rightarrow> string \<Rightarrow> risk_decision option" where
  "max_open_symbol_rule rc tc rows symbol =
     (case rc_max_open_positions_per_symbol rc of
        None \<Rightarrow> None
      | Some max_open_sym \<Rightarrow>
          let sym_count = int (length (filter (\<lambda>r. pr_symbol r = symbol)
                                         (open_rows rows (tc_user_id tc)))) in
          if sym_count \<ge> max_open_sym
          then Some (block_decision ''max_open_per_symbol''
                 [(''symbol'', VStr symbol), (''open_positions_symbol'', VInt sym_count),
                  (''max_open_positions_per_symbol'', VInt max_open_sym)])
          else None)"

definition opposite_side :: "string \<Rightarrow> string" where
  "opposite_side trend = (if trend = ''LONG'' then ''SHORT'' else ''LONG'')"

definition conflict_rule ::
    "risk_config \<Rightarrow> trade_config \<Rightarrow> position_row list \<Rightarrow> string \<Rightarrow> string \<Rightarrow> risk_decision option" where
  "conflict_rule rc tc rows symbol trend =
     (if rc_conflicting_signal_policy rc = ''block_opposite'' \<and> (trend = ''LONG'' \<or> trend = ''SHORT'')
         \<and> list_ex (\<lambda>r. pr_symbol r = symbol \<and> pr_side r = opposite_side trend)
             (open_rows rows (tc_user_id tc))
      then Some (block_decision ''conflicting_signal''
             [(''symbol'', VStr symbol), (''intended_side'', VStr trend),
              (''open_opposite_side'', VStr (opposite_side trend))])
      else None)"

definition current_exposure :: "position_row list \<Rightarrow> int \<Rightarrow> real" where
  "current_exposure rows uid = sum_list (map pr_position_size_usdt (open_rows rows uid))"

definition exposure_rule ::
    "risk_config \<Rightarrow> trade_config \<Rightarrow> position_row list \<Rightarrow> risk_decision option" where
  "exposure_rule rc tc rows =
     (case rc_exposure_cap_usdt rc of
        None \<Rightarrow> None
      | Some cap \<Rightarrow>
          let current = current_exposure rows (tc_user_id tc);
              new_size = tc_position_size_usdt tc;
              projected = current + new_size
          in if projected > cap
             then Some (block_decision ''exposure''
                    [(''current_exposure_usdt'', VFloat current),
                     (''new_position_size_usdt'', VFloat new_size),
                     (''projected_exposure_usdt'', VFloat projected),
                     (''exposure_cap_usdt'', VFloat cap)])
             else None)"

definition loss_of :: "real \<Rightarrow> real" where
  "loss_of today_realized_pnl = max 0 (- today_realized_pnl)"

definition daily_loss_rule :: "risk_config \<Rightarrow> real \<Rightarrow> risk_decision option" where
  "daily_loss_rule rc pnl =
     (case rc_daily_loss_limit_usdt rc of
        None \<Rightarrow> None
      | Some limit \<Rightarrow>
          if loss_of pnl \<ge> limit
          then Some (block_decision ''daily_loss''
                 [(''today_loss_usdt'', VFloat (loss_of pnl)),
                  (''daily_loss_limit_usdt'', VFloat limit)])
          else None)"

text \<open>The text of the warning, up to the dash.\<close>

definition balance_warning :: string where
  "balance_warning = ''daily_loss_limit_pct not evaluated''"

text \<open>The last rule decides: a block, or the allowance with or without a warning.\<close>

definition daily_loss_pct_rule :: "risk_config \<Rightarrow> real \<Rightarrow> real option \<Rightarrow> risk_decision" where
  "daily_loss_pct_rule rc pnl balance =
     (case rc_daily_loss_limit_pct rc of
        None \<Rightarrow> allow_decision None
      | Some limit \<Rightarrow>
          if loss_of pnl > 0 then
            (case balance of
               None \<Rightarrow> allow_decision (Some balance_warning)
             | Some b \<Rightarrow>
                 if b > 0 \<and> loss_of pnl / b * 100 \<ge> limit
                 then block_decision ''daily_loss_pct''
                        [(''today_loss_usdt'', VFloat (loss_of pnl)),
                         (''today_loss_pct'', VFloat (loss_of pnl / b * 100)),
                         (''account_balance_usdt'', VFloat b),
                         (''daily_loss_limit_pct'', VFloat limit)]
                 else allow_decision None)
          else allow_decision None)"

text \<open>First violation wins.\<close>

fun first_block :: "risk_decision option list \<Rightarrow> risk_decision \<Rightarrow> risk_decision" where
  "first_block [] dflt = dflt"
| "first_block (Some d # ds) dflt = d"
| "first_block (None # ds) dflt = first_block ds dflt"

definition gate_rules ::
    "risk_config \<Rightarrow> trade_config \<Rightarrow> position_row list \<Rightarrow> string \<Rightarrow> string \<Rightarrow> real
      \<Rightarrow> risk_decision option list" where
  "gate_rules rc tc rows trend symbol pnl =
     [leverage_rule rc tc, max_open_rule rc tc rows, max_open_symbol_rule rc tc rows symbol,
      conflict_rule rc tc rows symbol trend, exposure_rule rc tc rows, daily_loss_rule rc pnl]"

definition check_pre_trade ::
    "position_row list \<Rightarrow> trade_config \<Rightarrow> risk_config option \<Rightarrow> string \<Rightarrow> string \<Rightarrow> real \<Rightarrow> real option
      \<Rightarrow> risk_decision" where
  "check_pre_trade rows tc risk_cfg trend execution_symbol pnl balance =
     (case risk_cfg of
        None \<Rightarrow> allow_decision None
      | Some rc \<Rightarrow>
          if \<not> rc_enabled rc then allow_decision None
          else first_block (gate_rules rc tc rows trend execution_symbol pnl)
                 (daily_loss_pct_rule rc pnl balance))"

section \<open>The KPI guard\<close>

definition health_min_trades :: int where
  "health_min_trades = 10"

definition health_class_insufficient :: string where
  "health_class_insufficient = ''insufficient_data''"

record strategy_health =
  sh_sample_size :: int
  sh_win_rate_pct :: real
  sh_max_dd_pct :: real
  sh_health_class :: string

record guard_breach =
  gb_rule :: string
  gb_actual :: real
  gb_threshold :: real

record guard_decision =
  gd_should_pause :: bool
  gd_breaches :: "guard_breach list"
  gd_warning :: "string option"

definition no_pause :: guard_decision where
  "no_pause = \<lparr>gd_should_pause = False, gd_breaches = [], gd_warning = None\<rparr>"

definition breach :: "string \<Rightarrow> real \<Rightarrow> real \<Rightarrow> guard_breach list" where
  "breach rule actual threshold =
     [\<lparr>gb_rule = rule, gb_actual = actual, gb_threshold = threshold\<rparr>]"

definition guard_daily_loss :: "risk_config \<Rightarrow> real \<Rightarrow> guard_breach list" where
  "guard_daily_loss rc realized_loss =
     (case rc_kpi_guard_max_daily_loss_usdt rc of
        None \<Rightarrow> []
      | Some limit \<Rightarrow> if realized_loss \<ge> limit then breach ''daily_loss'' realized_loss limit else [])"

definition guard_daily_loss_pct ::
    "risk_config \<Rightarrow> real \<Rightarrow> real option \<Rightarrow> guard_breach list \<times> string option" where
  "guard_daily_loss_pct rc realized_loss balance =
     (case rc_kpi_guard_max_daily_loss_pct rc of
        None \<Rightarrow> ([], None)
      | Some limit \<Rightarrow>
          if realized_loss > 0 then
            (case balance of
               None \<Rightarrow> ([], Some ''daily_loss_pct skipped: account balance unavailable'')
             | Some b \<Rightarrow>
                 if b \<le> 0 then ([], Some ''daily_loss_pct skipped: account balance unavailable'')
                 else let loss_pct = realized_loss / b * 100 in
                      if loss_pct \<ge> limit then (breach ''daily_loss_pct'' loss_pct limit, None)
                      else ([], None))
          else ([], None))"

definition reliable_sample :: "strategy_health \<Rightarrow> int option \<Rightarrow> bool" where
  "reliable_sample h min_trades =
     (sh_health_class h \<noteq> health_class_insufficient \<and> sh_sample_size h \<ge> health_min_trades
      \<and> (case min_trades of None \<Rightarrow> True | Some n \<Rightarrow> \<not> sh_sample_size h < n))"

definition guard_statistics :: "risk_config \<Rightarrow> strategy_health \<Rightarrow> guard_breach list" where
  "guard_statistics rc h =
     (if reliable_sample h (rc_kpi_guard_min_trades rc) then
        (case rc_kpi_guard_max_dd_pct rc of
           None \<Rightarrow> []
         | Some limit \<Rightarrow> if sh_max_dd_pct h \<ge> limit then breach ''max_dd'' (sh_max_dd_pct h) limit else [])
        @ (case rc_kpi_guard_min_win_rate_pct rc of
             None \<Rightarrow> []
           | Some limit \<Rightarrow> if sh_win_rate_pct h < limit
                          then breach ''min_win_rate'' (sh_win_rate_pct h) limit else [])
      else [])"

definition evaluate_kpi_guard ::
    "strategy_health \<Rightarrow> risk_config option \<Rightarrow> real \<Rightarrow> real option \<Rightarrow> guard_decision" where
  "evaluate_kpi_guard h risk_cfg pnl balance =
     (case risk_cfg of
        None \<Rightarrow> no_pause
      | Some rc \<Rightarrow>
          if \<not> rc_kpi_guard_enabled rc then no_pause
          else
            let realized_loss = - pnl;
                (pct, warning) = guard_daily_loss_pct rc realized_loss balance;
                breaches = guard_daily_loss rc realized_loss @ pct @ guard_statistics rc h
            in \<lparr>gd_should_pause = breaches \<noteq> [], gd_breaches = breaches, gd_warning = warning\<rparr>)"

section \<open>Lemmas\<close>

lemma first_block_cases:
  "first_block ds dflt = d \<Longrightarrow>
     (\<exists>pre post. ds = pre @ Some d # post \<and> (\<forall>x \<in> set pre. x = None))
     \<or> (d = dflt \<and> (\<forall>x \<in> set ds. x = None))"
proof (induction ds dflt rule: first_block.induct)
  case (2 d' ds dflt)
  then have "Some d' # ds = [] @ Some d # ds" by simp
  then show ?case by (metis empty_iff list.set(1))
next
  case (3 ds dflt)
  then consider pre post where "ds = pre @ Some d # post" "\<forall>x \<in> set pre. x = None"
    | "d = dflt" "\<forall>x \<in> set ds. x = None" by auto
  then show ?case
  proof cases
    case 1
    then have "None # ds = (None # pre) @ Some d # post" "\<forall>x \<in> set (None # pre). x = None" by auto
    then show ?thesis by blast
  qed auto
qed simp

lemma first_block_allowed:
  assumes "\<And>d. Some d \<in> set ds \<Longrightarrow> \<not> rd_allowed d" and "rd_allowed (first_block ds dflt)"
  shows "(\<forall>x \<in> set ds. x = None) \<and> first_block ds dflt = dflt"
  using assms by (induction ds dflt rule: first_block.induct) auto

lemmas rule_defs = leverage_rule_def max_open_rule_def max_open_symbol_rule_def conflict_rule_def
  exposure_rule_def daily_loss_rule_def

lemma rule_blocks:
  "leverage_rule rc tc = Some d \<Longrightarrow> \<not> rd_allowed d"
  "max_open_rule rc tc rows = Some d \<Longrightarrow> \<not> rd_allowed d"
  "max_open_symbol_rule rc tc rows symbol = Some d \<Longrightarrow> \<not> rd_allowed d"
  "conflict_rule rc tc rows symbol trend = Some d \<Longrightarrow> \<not> rd_allowed d"
  "exposure_rule rc tc rows = Some d \<Longrightarrow> \<not> rd_allowed d"
  "daily_loss_rule rc pnl = Some d \<Longrightarrow> \<not> rd_allowed d"
  by (auto simp: rule_defs block_decision_def Let_def split: option.splits if_splits)

lemma rules_only_block:
  assumes "Some d \<in> set (gate_rules rc tc rows trend symbol pnl)"
  shows "\<not> rd_allowed d"
proof -
  from assms consider "leverage_rule rc tc = Some d" | "max_open_rule rc tc rows = Some d"
    | "max_open_symbol_rule rc tc rows symbol = Some d" | "conflict_rule rc tc rows symbol trend = Some d"
    | "exposure_rule rc tc rows = Some d" | "daily_loss_rule rc pnl = Some d"
    by (auto simp: gate_rules_def)
  then show ?thesis by cases (erule rule_blocks)+
qed

lemma allowed_no_rule:
  assumes "rd_allowed (check_pre_trade rows tc (Some rc) trend symbol pnl balance)" and "rc_enabled rc"
  shows "(\<forall>x \<in> set (gate_rules rc tc rows trend symbol pnl). x = None)
    \<and> rd_allowed (daily_loss_pct_rule rc pnl balance)"
proof -
  have a: "rd_allowed (first_block (gate_rules rc tc rows trend symbol pnl)
      (daily_loss_pct_rule rc pnl balance))"
    using assms by (simp add: check_pre_trade_def)
  from first_block_allowed [OF rules_only_block a] a show ?thesis by simp
qed

section \<open>Properties\<close>


definition sample_risk :: risk_config where
  "sample_risk = \<lparr>rc_enabled = True, rc_leverage_ceiling = Some 10, rc_max_open_positions = Some 2,
     rc_max_open_positions_per_symbol = Some 1, rc_conflicting_signal_policy = ''block_opposite'',
     rc_exposure_cap_usdt = Some 300, rc_daily_loss_limit_usdt = Some 50,
     rc_daily_loss_limit_pct = Some 5, rc_kpi_guard_enabled = True,
     rc_kpi_guard_max_daily_loss_usdt = Some 40, rc_kpi_guard_max_daily_loss_pct = Some 5,
     rc_kpi_guard_max_dd_pct = Some 20, rc_kpi_guard_min_win_rate_pct = Some 40,
     rc_kpi_guard_min_trades = Some 15, rc_promote_min_trades = None,
     rc_promote_min_sandbox_days = None, rc_promote_min_win_rate_pct = None,
     rc_promote_max_dd_pct = None, rc_kill_switch_enabled = False, rc_kill_switch_atr_spike_mult = None,
     rc_kill_switch_atr_period = None, rc_kill_switch_price_move_pct = None,
     rc_kill_switch_cooldown_seconds = None, rc_anomaly_detection_enabled = False,
     rc_anomaly_z_threshold = None, rc_anomaly_window = None\<rparr>"

definition sample_rows :: "position_row list" where
  "sample_rows = [\<lparr>pr_user_id = 1, pr_status = ''open'', pr_symbol = ''ETH'', pr_side = ''LONG'',
     pr_position_size_usdt = 200\<rparr>]"

lemmas gate_simps = check_pre_trade_def gate_rules_def rule_defs daily_loss_pct_rule_def open_rows_def
  current_exposure_def loss_of_def allow_decision_def block_decision_def sample_risk_def
  sample_rows_def opposite_side_def


text \<open>Off means off, and only what is configured can block. A missing or disabled configuration
  allows every entry; and a block carries the name of a rule whose limit is set and whose condition
  is violated, every earlier rule having found nothing.\<close>

theorem gate_blocks_only_on_violation:
  "rd_allowed (check_pre_trade rows tc None trend symbol pnl balance)
   \<and> (\<not> rc_enabled rc \<longrightarrow> rd_allowed (check_pre_trade rows tc (Some rc) trend symbol pnl balance))
   \<and> (\<not> rd_allowed (check_pre_trade rows tc (Some rc) trend symbol pnl balance) \<longrightarrow>
        (rd_rule (check_pre_trade rows tc (Some rc) trend symbol pnl balance) = Some ''daily_loss_pct''
         \<and> (\<exists>l b. rc_daily_loss_limit_pct rc = Some l \<and> balance = Some b \<and> 0 < b
               \<and> l \<le> loss_of pnl / b * 100)
         \<and> (\<forall>x \<in> set (gate_rules rc tc rows trend symbol pnl). x = None))
        \<or> (\<exists>pre post. gate_rules rc tc rows trend symbol pnl
               = pre @ Some (check_pre_trade rows tc (Some rc) trend symbol pnl balance) # post
             \<and> (\<forall>x \<in> set pre. x = None)))"
proof (intro conjI impI)
  assume b: "\<not> rd_allowed (check_pre_trade rows tc (Some rc) trend symbol pnl balance)"
  define d where "d = check_pre_trade rows tc (Some rc) trend symbol pnl balance"
  have d: "first_block (gate_rules rc tc rows trend symbol pnl) (daily_loss_pct_rule rc pnl balance) = d"
    using b by (auto simp: check_pre_trade_def allow_decision_def d_def split: if_splits)
  have pct: "rd_rule d = Some ''daily_loss_pct'' \<and> (\<exists>l b. rc_daily_loss_limit_pct rc = Some l
      \<and> balance = Some b \<and> 0 < b \<and> l \<le> loss_of pnl / b * 100)"
    if "d = daily_loss_pct_rule rc pnl balance"
    using b that unfolding d_def [symmetric]
    by (auto simp: daily_loss_pct_rule_def allow_decision_def block_decision_def
        split: option.splits if_splits)
  show "(rd_rule (check_pre_trade rows tc (Some rc) trend symbol pnl balance) = Some ''daily_loss_pct''
         \<and> (\<exists>l b. rc_daily_loss_limit_pct rc = Some l \<and> balance = Some b \<and> 0 < b
               \<and> l \<le> loss_of pnl / b * 100)
         \<and> (\<forall>x \<in> set (gate_rules rc tc rows trend symbol pnl). x = None))
        \<or> (\<exists>pre post. gate_rules rc tc rows trend symbol pnl
               = pre @ Some (check_pre_trade rows tc (Some rc) trend symbol pnl balance) # post
             \<and> (\<forall>x \<in> set pre. x = None))"
    unfolding d_def [symmetric] using first_block_cases [OF d] pct by blast
qed (simp_all add: check_pre_trade_def allow_decision_def)

theorem gate_blocks_only_on_violation_witness:
  "\<not> rd_allowed (check_pre_trade sample_rows \<lparr>tc_user_id = 1, tc_leverage = 5, tc_position_size_usdt = 150\<rparr>
       (Some sample_risk) ''SHORT'' ''BTC'' 0 None)
   \<and> rd_allowed (check_pre_trade sample_rows \<lparr>tc_user_id = 1, tc_leverage = 5, tc_position_size_usdt = 150\<rparr>
       None ''SHORT'' ''BTC'' 0 None)"
  using gate_blocks_only_on_violation [of sample_rows
      "\<lparr>tc_user_id = 1, tc_leverage = 5, tc_position_size_usdt = 150\<rparr>" "''SHORT''" "''BTC''" 0 None
      sample_risk]
  by (simp add: gate_simps)

text \<open>The KPI guard pauses exactly on a breach it reports. It is silent when absent or off; its
  drawdown and win-rate rules need a reliable sample (a health class, ten trades, and the
  operator's own minimum); the daily-loss percentage needs a loss and a positive balance; and a
  warning never comes with a percentage breach.\<close>

theorem kpi_guard_exact:
  "evaluate_kpi_guard h None pnl balance = no_pause
   \<and> (\<not> rc_kpi_guard_enabled rc \<longrightarrow> evaluate_kpi_guard h (Some rc) pnl balance = no_pause)
   \<and> (rc_kpi_guard_enabled rc \<longrightarrow>
        gd_should_pause (evaluate_kpi_guard h (Some rc) pnl balance) =
          ((\<exists>l. rc_kpi_guard_max_daily_loss_usdt rc = Some l \<and> l \<le> - pnl)
           \<or> (\<exists>l b. rc_kpi_guard_max_daily_loss_pct rc = Some l \<and> balance = Some b \<and> 0 < b
                 \<and> 0 < - pnl \<and> l \<le> - pnl / b * 100)
           \<or> (reliable_sample h (rc_kpi_guard_min_trades rc)
               \<and> ((\<exists>l. rc_kpi_guard_max_dd_pct rc = Some l \<and> l \<le> sh_max_dd_pct h)
                  \<or> (\<exists>l. rc_kpi_guard_min_win_rate_pct rc = Some l \<and> sh_win_rate_pct h < l)))))
   \<and> (gd_warning (evaluate_kpi_guard h (Some rc) pnl balance) \<noteq> None \<longrightarrow>
        (\<forall>b \<in> set (gd_breaches (evaluate_kpi_guard h (Some rc) pnl balance)).
           gb_rule b \<noteq> ''daily_loss_pct''))"
proof -
  obtain pct w where gp: "guard_daily_loss_pct rc (- pnl) balance = (pct, w)" by force
  have pct: "(pct \<noteq> []) = (\<exists>l b. rc_kpi_guard_max_daily_loss_pct rc = Some l \<and> balance = Some b \<and> 0 < b
                 \<and> 0 < - pnl \<and> l \<le> - pnl / b * 100)" and w: "w \<noteq> None \<longrightarrow> pct = []"
    using gp by (auto simp: guard_daily_loss_pct_def breach_def Let_def split: option.splits if_splits)
  have st: "(guard_statistics rc h \<noteq> []) = (reliable_sample h (rc_kpi_guard_min_trades rc)
               \<and> ((\<exists>l. rc_kpi_guard_max_dd_pct rc = Some l \<and> l \<le> sh_max_dd_pct h)
                  \<or> (\<exists>l. rc_kpi_guard_min_win_rate_pct rc = Some l \<and> sh_win_rate_pct h < l)))"
    by (auto simp: guard_statistics_def breach_def split: option.splits)
  have dl: "(guard_daily_loss rc (- pnl) \<noteq> [])
      = (\<exists>l. rc_kpi_guard_max_daily_loss_usdt rc = Some l \<and> l \<le> - pnl)"
    by (auto simp: guard_daily_loss_def breach_def split: option.splits)
  have other: "\<forall>b \<in> set (guard_daily_loss rc (- pnl) @ guard_statistics rc h). gb_rule b \<noteq> ''daily_loss_pct''"
    by (auto simp: guard_daily_loss_def guard_statistics_def breach_def split: option.splits if_splits)
  show ?thesis
    using pct st dl other w by (auto simp: evaluate_kpi_guard_def gp no_pause_def)
qed

theorem kpi_guard_exact_witness:
  "gd_should_pause (evaluate_kpi_guard \<lparr>sh_sample_size = 20, sh_win_rate_pct = 35, sh_max_dd_pct = 10,
      sh_health_class = ''warning''\<rparr> (Some sample_risk) 5 None)"
  using kpi_guard_exact [of "\<lparr>sh_sample_size = 20, sh_win_rate_pct = 35, sh_max_dd_pct = 10,
      sh_health_class = ''warning''\<rparr>" 5 None sample_risk]
  by (simp add: sample_risk_def reliable_sample_def health_class_insufficient_def health_min_trades_def)

text \<open>A daily-loss limit of zero, which the database accepts, halts a strategy that has lost
  nothing: the gate blocks every entry that reaches the rule and the guard pauses, on a day with no
  realised result at all.\<close>

theorem zero_daily_loss_limit_fires_without_loss:
  assumes "rc_enabled rc" "rc_daily_loss_limit_usdt rc = Some 0"
    and "rc_kpi_guard_enabled rc" "rc_kpi_guard_max_daily_loss_usdt rc = Some 0"
  shows "\<not> rd_allowed (check_pre_trade rows tc (Some rc) trend symbol 0 balance)
    \<and> gd_should_pause (evaluate_kpi_guard h (Some rc) 0 balance)"
proof -
  have "daily_loss_rule rc 0 \<noteq> None" using assms(2) by (simp add: daily_loss_rule_def loss_of_def)
  then have "\<not> rd_allowed (check_pre_trade rows tc (Some rc) trend symbol 0 balance)"
    using allowed_no_rule [OF _ assms(1), of rows tc trend symbol 0 balance]
    by (auto simp: gate_rules_def)
  moreover have "gd_should_pause (evaluate_kpi_guard h (Some rc) 0 balance)"
    using assms(3,4) by (simp add: evaluate_kpi_guard_def guard_daily_loss_def breach_def Let_def
        split: prod.split)
  ultimately show ?thesis ..
qed

theorem zero_daily_loss_limit_fires_without_loss_witness:
  "\<not> rd_allowed (check_pre_trade [] \<lparr>tc_user_id = 1, tc_leverage = 1, tc_position_size_usdt = 10\<rparr>
      (Some (sample_risk\<lparr>rc_daily_loss_limit_usdt := Some 0, rc_kpi_guard_max_daily_loss_usdt := Some 0\<rparr>))
      ''LONG'' ''BTC'' 0 (Some 1000))"
  using zero_daily_loss_limit_fires_without_loss [of "sample_risk\<lparr>rc_daily_loss_limit_usdt := Some 0,
      rc_kpi_guard_max_daily_loss_usdt := Some 0\<rparr>"]
  by (simp add: sample_risk_def)

end
