(* ===== verification/Promotion.thy ===== *)
theory Promotion
  imports Lifecycle Risk_Gate
begin

text \<open>
  \<^verbatim>\<open>app/services/auto_trade/promotion/\<close>: the lifecycle machine of a strategy
  (\<open>state_machine.py\<close>), which satisfies the same \<open>lifecycle\<close> interface as the position machine,
  and the KPI gate on the way to real money (\<open>kpi_gate.py\<close>).
\<close>

section \<open>Stages and triggers\<close>

datatype lifecycle_stage = RESEARCH | SANDBOX | VALIDATION | LIVE | REJECTED | ARCHIVED

datatype promotion_trigger =
  SUBMIT_TO_SANDBOX | REQUEST_PROMOTION | GATE_PASSED | GATE_FAILED | DEMOTE | REJECT | ARCHIVE

fun stage_value :: "lifecycle_stage \<Rightarrow> string" where
  "stage_value RESEARCH = ''research''"
| "stage_value SANDBOX = ''sandbox''"
| "stage_value VALIDATION = ''validation''"
| "stage_value LIVE = ''live''"
| "stage_value REJECTED = ''rejected''"
| "stage_value ARCHIVED = ''archived''"

fun promotion_trigger_value :: "promotion_trigger \<Rightarrow> string" where
  "promotion_trigger_value SUBMIT_TO_SANDBOX = ''submit_to_sandbox''"
| "promotion_trigger_value REQUEST_PROMOTION = ''request_promotion''"
| "promotion_trigger_value GATE_PASSED = ''gate_passed''"
| "promotion_trigger_value GATE_FAILED = ''gate_failed''"
| "promotion_trigger_value DEMOTE = ''demote''"
| "promotion_trigger_value REJECT = ''reject''"
| "promotion_trigger_value ARCHIVE = ''archive''"

definition default_new_stage :: lifecycle_stage where
  "default_new_stage = SANDBOX"

fun promotion_transitions :: "lifecycle_stage \<Rightarrow> (promotion_trigger \<times> lifecycle_stage) list" where
  "promotion_transitions RESEARCH =
     [(SUBMIT_TO_SANDBOX, SANDBOX), (REJECT, REJECTED), (ARCHIVE, ARCHIVED)]"
| "promotion_transitions SANDBOX =
     [(REQUEST_PROMOTION, VALIDATION), (REJECT, REJECTED), (ARCHIVE, ARCHIVED)]"
| "promotion_transitions VALIDATION =
     [(GATE_PASSED, LIVE), (GATE_FAILED, SANDBOX), (ARCHIVE, ARCHIVED)]"
| "promotion_transitions LIVE = [(DEMOTE, SANDBOX), (ARCHIVE, ARCHIVED)]"
| "promotion_transitions REJECTED = []"
| "promotion_transitions ARCHIVED = []"

datatype promotion_error = InvalidPromotionError string

definition can_promote_by :: "lifecycle_stage \<Rightarrow> promotion_trigger \<Rightarrow> bool" where
  "can_promote_by stage t = (map_of (promotion_transitions stage) t \<noteq> None)"

definition apply_transition ::
    "lifecycle_stage \<Rightarrow> promotion_trigger \<Rightarrow> promotion_error + lifecycle_stage" where
  "apply_transition stage t =
     (case map_of (promotion_transitions stage) t of
        None \<Rightarrow> Inl (InvalidPromotionError (''Cannot '' @ promotion_trigger_value t @ '' in stage ''
                        @ stage_value stage))
      | Some s \<Rightarrow> Inr s)"

section \<open>The machine\<close>

record promotion_machine =
  prm_config_id :: int
  prm_stage :: lifecycle_stage
  prm_log :: "(lifecycle_stage, promotion_trigger) log_entry list"

record promotion_call =
  prc_trigger :: promotion_trigger
  prc_reason :: string
  prc_metadata :: "pydict option"
  prc_now :: string

definition new_promotion_machine :: "int \<Rightarrow> lifecycle_stage \<Rightarrow> promotion_machine" where
  "new_promotion_machine cid stage = \<lparr>prm_config_id = cid, prm_stage = stage, prm_log = []\<rparr>"

definition promote_step :: "promotion_machine \<Rightarrow> promotion_call \<Rightarrow> promotion_error + promotion_machine" where
  "promote_step m c =
     (let old_stage = prm_stage m in
      case apply_transition old_stage (prc_trigger c) of
        Inl e \<Rightarrow> Inl e
      | Inr new_stage \<Rightarrow>
          Inr (m\<lparr>prm_stage := new_stage,
                 prm_log := prm_log m @
                   [\<lparr>le_timestamp = prc_now c, le_from = old_stage, le_to = new_stage,
                     le_trigger = prc_trigger c, le_reason = prc_reason c,
                     le_metadata = (case prc_metadata c of None \<Rightarrow> [] | Some d \<Rightarrow> d)\<rparr>]\<rparr>))"

definition promotion_log_dict :: "(lifecycle_stage, promotion_trigger) log_entry \<Rightarrow> pydict" where
  "promotion_log_dict e =
     [(''timestamp'', VStr (le_timestamp e)), (''from'', VStr (stage_value (le_from e))),
      (''to'', VStr (stage_value (le_to e))),
      (''trigger'', VStr (promotion_trigger_value (le_trigger e))),
      (''reason'', VStr (le_reason e)), (''metadata'', VDict (le_metadata e))]"

definition get_promotion_log :: "promotion_machine \<Rightarrow> pydict list" where
  "get_promotion_log m = map promotion_log_dict (prm_log m)"

definition terminal_stage :: "lifecycle_stage \<Rightarrow> bool" where
  "terminal_stage s = (s = REJECTED \<or> s = ARCHIVED)"

interpretation prom: lifecycle promote_step prm_stage prm_log prc_trigger can_promote_by terminal_stage
proof unfold_locales
  fix m :: promotion_machine and i :: promotion_call
  assume "\<not> can_promote_by (prm_stage m) (prc_trigger i)"
  then show "\<exists>e. promote_step m i = Inl e"
    by (simp add: promote_step_def apply_transition_def can_promote_by_def Let_def)
next
  fix m :: promotion_machine and i :: promotion_call
  assume "can_promote_by (prm_stage m) (prc_trigger i)"
  then show "\<exists>m'. promote_step m i = Inr m'"
    by (auto simp: promote_step_def apply_transition_def can_promote_by_def Let_def)
next
  fix m m' :: promotion_machine and i :: promotion_call
  assume "promote_step m i = Inr m'"
  then show "\<exists>e. prm_log m' = prm_log m @ [e] \<and> le_from e = prm_stage m \<and> le_to e = prm_stage m'
      \<and> le_trigger e = prc_trigger i"
    by (auto simp: promote_step_def Let_def split: sum.splits)
next
  fix s t
  assume "terminal_stage s"
  then show "\<not> can_promote_by s t"
    by (auto simp: terminal_stage_def can_promote_by_def)
qed

section \<open>The KPI gate\<close>

definition default_promote_min_win_rate_pct :: real where
  "default_promote_min_win_rate_pct = 50"

definition default_promote_max_dd_pct :: real where
  "default_promote_max_dd_pct = 25"

definition default_promote_min_trades :: int where
  "default_promote_min_trades = 20"

definition default_promote_min_sandbox_days :: real where
  "default_promote_min_sandbox_days = 7"

record gate_criterion =
  gc_name :: string
  gc_actual :: real
  gc_threshold :: real
  gc_passed :: bool

record promotion_decision =
  pd_can_promote :: bool
  pd_criteria :: "gate_criterion list"

definition pd_passed :: "promotion_decision \<Rightarrow> gate_criterion list" where
  "pd_passed d = filter gc_passed (pd_criteria d)"

definition pd_failed :: "promotion_decision \<Rightarrow> gate_criterion list" where
  "pd_failed d = filter (\<lambda>c. \<not> gc_passed c) (pd_criteria d)"

definition resolve_threshold :: "'a option \<Rightarrow> 'a \<Rightarrow> 'a" where
  "resolve_threshold v d = (case v of None \<Rightarrow> d | Some x \<Rightarrow> x)"

definition evaluate_promotion_gate ::
    "strategy_health \<Rightarrow> risk_config option \<Rightarrow> real \<Rightarrow> promotion_decision" where
  "evaluate_promotion_gate h risk_cfg sandbox_days =
     (let min_trades = resolve_threshold (Option.bind risk_cfg rc_promote_min_trades)
                         default_promote_min_trades;
          min_sandbox_days = resolve_threshold (Option.bind risk_cfg rc_promote_min_sandbox_days)
                         default_promote_min_sandbox_days;
          min_win_rate = resolve_threshold (Option.bind risk_cfg rc_promote_min_win_rate_pct)
                         default_promote_min_win_rate_pct;
          max_dd = resolve_threshold (Option.bind risk_cfg rc_promote_max_dd_pct)
                         default_promote_max_dd_pct;
          reliable = (sh_health_class h \<noteq> health_class_insufficient
                      \<and> sh_sample_size h \<ge> health_min_trades \<and> sh_sample_size h \<ge> min_trades);
          criteria =
            [\<lparr>gc_name = ''min_trades'', gc_actual = of_int (sh_sample_size h),
              gc_threshold = of_int min_trades, gc_passed = reliable\<rparr>,
             \<lparr>gc_name = ''min_sandbox_days'', gc_actual = sandbox_days,
              gc_threshold = min_sandbox_days, gc_passed = sandbox_days \<ge> min_sandbox_days\<rparr>,
             \<lparr>gc_name = ''min_win_rate'', gc_actual = sh_win_rate_pct h,
              gc_threshold = min_win_rate, gc_passed = reliable \<and> sh_win_rate_pct h \<ge> min_win_rate\<rparr>,
             \<lparr>gc_name = ''max_dd'', gc_actual = sh_max_dd_pct h,
              gc_threshold = max_dd, gc_passed = reliable \<and> sh_max_dd_pct h \<le> max_dd\<rparr>]
      in \<lparr>pd_can_promote = list_all gc_passed criteria, pd_criteria = criteria\<rparr>)"

section \<open>Lemmas\<close>

lemma only_validation_enters_live:
  "map_of (promotion_transitions s) t = Some LIVE \<Longrightarrow> s = VALIDATION \<and> t = GATE_PASSED"
  by (cases s) (auto split: if_splits)

lemma live_needs_gate_entry:
  "log_chain a es LIVE \<Longrightarrow> a \<noteq> LIVE \<Longrightarrow> \<exists>e \<in> set es. le_from e \<noteq> LIVE \<and> le_to e = LIVE"
proof (induction es arbitrary: a)
  case (Cons e es)
  then show ?case by (cases "le_to e = LIVE") auto
qed simp

text \<open>Every entry of a machine's log is a legal move.\<close>

definition log_legal :: "promotion_machine \<Rightarrow> bool" where
  "log_legal m = (\<forall>e \<in> set (prm_log m).
     map_of (promotion_transitions (le_from e)) (le_trigger e) = Some (le_to e))"

lemma promote_step_legal: "log_legal m \<Longrightarrow> promote_step m c = Inr m' \<Longrightarrow> log_legal m'"
  by (auto simp: log_legal_def promote_step_def apply_transition_def Let_def split: option.splits)

lemma run_legal: "log_legal m \<Longrightarrow> run_machine promote_step m cs = Inr m' \<Longrightarrow> log_legal m'"
  by (induction cs arbitrary: m) (auto split: sum.splits dest: promote_step_legal)

section \<open>Properties\<close>

text \<open>No strategy reaches real money without the gate. If a machine that started outside
  \<open>LIVE\<close> is live, its log contains a passage from \<open>VALIDATION\<close> to \<open>LIVE\<close> by \<open>GATE_PASSED\<close>, and
  the log is an unbroken chain of moves from the start to the current stage.\<close>

theorem live_only_through_gate:
  assumes "run_machine promote_step (new_promotion_machine cid stage) cs = Inr m"
    and "stage \<noteq> LIVE" and "prm_stage m = LIVE"
  shows "log_chain stage (prm_log m) LIVE
    \<and> (\<exists>e \<in> set (prm_log m). le_from e = VALIDATION \<and> le_trigger e = GATE_PASSED \<and> le_to e = LIVE)"
proof -
  have chain: "log_chain stage (prm_log m) LIVE"
    using prom.run_log_chain [OF assms(1)] assms(3) by (auto simp: new_promotion_machine_def)
  have "log_legal m"
    by (rule run_legal [OF _ assms(1)]) (simp add: log_legal_def new_promotion_machine_def)
  moreover obtain e where e: "e \<in> set (prm_log m)" "le_to e = LIVE"
    using live_needs_gate_entry [OF chain assms(2)] by blast
  ultimately have "le_from e = VALIDATION \<and> le_trigger e = GATE_PASSED"
    by (intro only_validation_enters_live) (auto simp: log_legal_def)
  with chain e show ?thesis by blast
qed

definition plain_promotion :: "promotion_trigger \<Rightarrow> promotion_call" where
  "plain_promotion t = \<lparr>prc_trigger = t, prc_reason = [], prc_metadata = None, prc_now = []\<rparr>"

theorem live_only_through_gate_witness:
  "\<exists>m. run_machine promote_step (new_promotion_machine 1 default_new_stage)
       (map plain_promotion [REQUEST_PROMOTION, GATE_FAILED, REQUEST_PROMOTION, GATE_PASSED]) = Inr m
     \<and> prm_stage m = LIVE
     \<and> (\<exists>e \<in> set (prm_log m). le_from e = VALIDATION \<and> le_trigger e = GATE_PASSED \<and> le_to e = LIVE)"
proof -
  obtain m where m: "run_machine promote_step (new_promotion_machine 1 default_new_stage)
       (map plain_promotion [REQUEST_PROMOTION, GATE_FAILED, REQUEST_PROMOTION, GATE_PASSED]) = Inr m"
    and s: "prm_stage m = LIVE"
    by (simp add: plain_promotion_def new_promotion_machine_def default_new_stage_def promote_step_def
        apply_transition_def)
  have "default_new_stage \<noteq> LIVE" by (simp add: default_new_stage_def)
  from live_only_through_gate [OF m this s] m s show ?thesis by blast
qed

text \<open>The gate is conservative. It promotes exactly when the sample is reliable (a health class,
  at least ten trades and at least the required number) and the time in the sandbox, the win rate
  and the drawdown meet their bars, a missing configuration or threshold standing for the built-in
  default; the criteria it reports as failed are empty exactly then.\<close>

theorem promotion_gate_exact:
  "pd_can_promote (evaluate_promotion_gate h risk_cfg days) =
     (sh_health_class h \<noteq> ''insufficient_data'' \<and> 10 \<le> sh_sample_size h
      \<and> resolve_threshold (Option.bind risk_cfg rc_promote_min_trades) 20 \<le> sh_sample_size h
      \<and> resolve_threshold (Option.bind risk_cfg rc_promote_min_sandbox_days) 7 \<le> days
      \<and> resolve_threshold (Option.bind risk_cfg rc_promote_min_win_rate_pct) 50 \<le> sh_win_rate_pct h
      \<and> sh_max_dd_pct h \<le> resolve_threshold (Option.bind risk_cfg rc_promote_max_dd_pct) 25)
   \<and> (pd_failed (evaluate_promotion_gate h risk_cfg days) = [])
       = pd_can_promote (evaluate_promotion_gate h risk_cfg days)"
proof
  show "(pd_failed (evaluate_promotion_gate h risk_cfg days) = [])
       = pd_can_promote (evaluate_promotion_gate h risk_cfg days)"
    by (auto simp: pd_failed_def evaluate_promotion_gate_def Let_def)
qed (auto simp: evaluate_promotion_gate_def Let_def health_class_insufficient_def health_min_trades_def
    default_promote_min_trades_def default_promote_min_sandbox_days_def
    default_promote_min_win_rate_pct_def default_promote_max_dd_pct_def)

end
