(* ===== verification/Rate_Limiter.thy ===== *)
theory Rate_Limiter
  imports Prelude
begin

text \<open>
  \<^verbatim>\<open>app/services/exchange/rate_limiter.py\<close>: \<open>AdaptiveRateLimiter\<close>, which keeps the counters an
  exchange reports in its response headers and decides whether the next order may go out. The clock
  is an argument; header values are Python values, read through \<open>str(value)\<close>, whose effect on
  values that are not strings or numbers is the parameter \<open>rp\<close>.
\<close>

datatype exchange_kind = Binance | Bybit

record rate_limiter =
  rl_exchange :: exchange_kind
  rl_counters :: "(string \<times> int) list"
  rl_limits :: "(string \<times> int) list"
  rl_reset_times :: "(string \<times> real) list"

definition new_limiter :: "string \<Rightarrow> py_error + rate_limiter" where
  "new_limiter exchange =
     (let normalized = py_lower (py_strip exchange) in
      if normalized = ''binance''
      then Inr \<lparr>rl_exchange = Binance, rl_counters = [],
                rl_limits = [(''order_count_10s'', 300), (''order_count_1m'', 1200),
                             (''weight_used_1m'', 2400)],
                rl_reset_times = []\<rparr>
      else if normalized = ''bybit''
      then Inr \<lparr>rl_exchange = Bybit, rl_counters = [], rl_limits = [(''remaining'', 100)],
                rl_reset_times = []\<rparr>
      else Inl (ValueError (''exchange must be 'binance' or 'bybit'' @ [CHR 0x27])))"

section \<open>Reading headers\<close>

definition header_float :: "(pyval \<Rightarrow> string) \<Rightarrow> pyval \<Rightarrow> real option" where
  "header_float rp v = (if v = VNone then None else parse_float (py_strip (py_str rp v)))"

definition header_int :: "(pyval \<Rightarrow> string) \<Rightarrow> pyval \<Rightarrow> int option" where
  "header_int rp v = map_option trunc_real (header_float rp v)"

definition store_counter ::
    "string \<Rightarrow> int option \<Rightarrow> rate_limiter \<Rightarrow> rate_limiter" where
  "store_counter k v l =
     (case v of None \<Rightarrow> l | Some n \<Rightarrow> l\<lparr>rl_counters := dict_set (rl_counters l) k n\<rparr>)"

definition store_retry_after :: "real \<Rightarrow> real option \<Rightarrow> rate_limiter \<Rightarrow> rate_limiter" where
  "store_retry_after now v l =
     (case v of
        None \<Rightarrow> l
      | Some r \<Rightarrow> if r > 0
                 then l\<lparr>rl_reset_times := dict_set (rl_reset_times l) ''retry_after'' (now + r)\<rparr>
                 else l)"

definition parse_binance_headers ::
    "(pyval \<Rightarrow> string) \<Rightarrow> real \<Rightarrow> rate_limiter \<Rightarrow> pydict \<Rightarrow> rate_limiter" where
  "parse_binance_headers rp now l headers =
     store_retry_after now (header_float rp (get_none headers ''retry-after''))
       (store_counter ''weight_used_1m'' (header_int rp (get_none headers ''x-mbx-used-weight-1m''))
         (store_counter ''order_count_1m'' (header_int rp (get_none headers ''x-mbx-order-count-1m''))
           (store_counter ''order_count_10s''
              (header_int rp (get_none headers ''x-mbx-order-count-10s'')) l)))"

definition parse_bybit_headers ::
    "(pyval \<Rightarrow> string) \<Rightarrow> real \<Rightarrow> rate_limiter \<Rightarrow> pydict \<Rightarrow> rate_limiter" where
  "parse_bybit_headers rp now l headers =
     (let l1 = store_counter ''remaining'' (header_int rp (get_none headers ''x-bapi-limit-status'')) l;
          l2 = (case header_float rp (get_none headers ''x-bapi-limit-reset-timestamp'') of
                  None \<Rightarrow> l1
                | Some ms \<Rightarrow> l1\<lparr>rl_reset_times := dict_set (rl_reset_times l1) ''main'' (ms / 1000)\<rparr>)
      in store_retry_after now (header_float rp (get_none headers ''retry-after'')) l2)"

text \<open>Header names are lower-cased into a fresh dictionary, later entries overwriting earlier ones.\<close>

definition lower_keys :: "pydict \<Rightarrow> pydict" where
  "lower_keys headers = fold (\<lambda>(k, v) d. dict_set d (py_lower k) v) headers []"

definition update_from_headers ::
    "(pyval \<Rightarrow> string) \<Rightarrow> real \<Rightarrow> rate_limiter \<Rightarrow> pydict \<Rightarrow> rate_limiter" where
  "update_from_headers rp now l headers =
     (if headers = [] then l
      else case rl_exchange l of
             Binance \<Rightarrow> parse_binance_headers rp now l (lower_keys headers)
           | Bybit \<Rightarrow> parse_bybit_headers rp now l (lower_keys headers))"

section \<open>Usage and pacing\<close>

definition limit_of :: "rate_limiter \<Rightarrow> string \<Rightarrow> int" where
  "limit_of l k = (case dict_get (rl_limits l) k of None \<Rightarrow> 0 | Some n \<Rightarrow> n)"

definition ratio_10s :: "int \<Rightarrow> int \<Rightarrow> real" where
  "ratio_10s n limit =
     (if of_int n / of_int limit < (98 / 100 :: real) then of_int n / of_int (limit + 50)
      else of_int n / of_int limit)"

definition binance_ratios :: "rate_limiter \<Rightarrow> real list" where
  "binance_ratios l =
     (case dict_get (rl_counters l) ''order_count_10s'' of
        None \<Rightarrow> [] | Some n \<Rightarrow> [ratio_10s n (limit_of l ''order_count_10s'')])
     @ (case dict_get (rl_counters l) ''order_count_1m'' of
          None \<Rightarrow> [] | Some n \<Rightarrow> [of_int n / of_int (limit_of l ''order_count_1m'')])
     @ (case dict_get (rl_counters l) ''weight_used_1m'' of
          None \<Rightarrow> [] | Some n \<Rightarrow> [of_int n / of_int (limit_of l ''weight_used_1m'')])"

definition list_max :: "real list \<Rightarrow> real" where
  "list_max xs = fold max (tl xs) (hd xs)"

definition list_min :: "real list \<Rightarrow> real" where
  "list_min xs = fold min (tl xs) (hd xs)"

definition get_usage_pct :: "rate_limiter \<Rightarrow> real" where
  "get_usage_pct l =
     (case rl_exchange l of
        Binance \<Rightarrow>
          (let ratios = binance_ratios l in
           if ratios = [] then 0 else max 0 (min (list_max ratios) 1))
      | Bybit \<Rightarrow>
          (case dict_get (rl_counters l) ''remaining'' of
             None \<Rightarrow> 0
           | Some n \<Rightarrow>
               let limit = limit_of l ''remaining''; remaining = max 0 n;
                   used = max 0 (limit - remaining)
               in max 0 (min (of_int used / of_int limit) 1)))"

definition time_until_reset :: "rate_limiter \<Rightarrow> real \<Rightarrow> real" where
  "time_until_reset l now =
     (let positive = filter (\<lambda>w. w > 0) (map (\<lambda>(k, ts). max 0 (ts - now)) (rl_reset_times l)) in
      if positive \<noteq> [] then list_min positive
      else case rl_exchange l of
        Binance \<Rightarrow>
          (case dict_get (rl_counters l) ''order_count_10s'' of
             None \<Rightarrow> 0
           | Some n \<Rightarrow> if n \<ge> trunc_real (of_int (limit_of l ''order_count_10s'') * (98 / 100)) then 1 else 0)
      | Bybit \<Rightarrow>
          (case dict_get (rl_counters l) ''remaining'' of
             None \<Rightarrow> 0
           | Some n \<Rightarrow> if n \<le> max 1 (trunc_real (of_int (limit_of l ''remaining'') * (1 / 10))) then 1 else 0))"

definition can_proceed :: "rate_limiter \<Rightarrow> real \<Rightarrow> bool \<Rightarrow> bool \<times> real" where
  "can_proceed l now is_sl =
     (if is_sl then (True, 0)
      else let usage_pct = get_usage_pct l in
           if usage_pct \<ge> 9 / 10 then (False, time_until_reset l now)
           else if usage_pct \<ge> 7 / 10 then (True, 2 / 10)
           else (True, 0))"

section \<open>Lemmas\<close>

text \<open>What the constructor establishes and no header changes: the table of limits.\<close>

definition limits_ok :: "rate_limiter \<Rightarrow> bool" where
  "limits_ok l =
     (case rl_exchange l of
        Binance \<Rightarrow> rl_limits l = [(''order_count_10s'', 300), (''order_count_1m'', 1200),
                                 (''weight_used_1m'', 2400)]
      | Bybit \<Rightarrow> rl_limits l = [(''remaining'', 100)])"

lemma new_limiter_ok: "new_limiter x = Inr l \<Longrightarrow> limits_ok l"
  by (auto simp: new_limiter_def limits_ok_def Let_def split: if_splits)

lemma store_frame [simp]:
  "rl_exchange (store_counter k v l) = rl_exchange l" "rl_limits (store_counter k v l) = rl_limits l"
  "rl_exchange (store_retry_after now r l) = rl_exchange l"
  "rl_limits (store_retry_after now r l) = rl_limits l"
  by (simp_all add: store_counter_def store_retry_after_def split: option.splits)

lemma update_frame [simp]:
  "rl_exchange (update_from_headers rp now l h) = rl_exchange l"
  "rl_limits (update_from_headers rp now l h) = rl_limits l"
  by (auto simp: update_from_headers_def parse_binance_headers_def parse_bybit_headers_def Let_def
      split: exchange_kind.splits option.splits)

lemma update_ok: "limits_ok l \<Longrightarrow> limits_ok (update_from_headers rp now l h)"
  by (cases "rl_exchange l") (simp_all add: limits_ok_def)

lemma fold_max_iff: "(x::real) \<le> fold max xs a \<longleftrightarrow> x \<le> a \<or> (\<exists>y \<in> set xs. x \<le> y)"
  by (induction xs arbitrary: a) (auto simp: max_def)

lemma list_max_iff: "xs \<noteq> [] \<Longrightarrow> x \<le> list_max xs \<longleftrightarrow> (\<exists>y \<in> set xs. x \<le> y)"
  by (cases xs) (auto simp: list_max_def fold_max_iff)

lemma fold_min_pos: "0 < a \<Longrightarrow> \<forall>x \<in> set xs. 0 < x \<Longrightarrow> 0 < fold min xs (a::real)"
  by (induction xs arbitrary: a) auto

lemma list_min_pos: "xs \<noteq> [] \<Longrightarrow> \<forall>x \<in> set xs. 0 < x \<Longrightarrow> 0 < list_min xs"
  by (cases xs) (auto simp: list_min_def fold_min_pos)

lemma usage_bounds: "0 \<le> get_usage_pct l \<and> get_usage_pct l \<le> 1"
  by (auto simp: get_usage_pct_def Let_def split: exchange_kind.splits option.splits)

lemma time_until_reset_nonneg: "0 \<le> time_until_reset l now"
proof -
  define ps where "ps = filter (\<lambda>w. w > 0) (map (\<lambda>(k, ts). max 0 (ts - now)) (rl_reset_times l))"
  have "ps \<noteq> [] \<Longrightarrow> 0 < list_min ps" by (intro list_min_pos) (auto simp: ps_def)
  then show ?thesis
    by (auto simp: time_until_reset_def Let_def ps_def [symmetric]
        split: exchange_kind.splits option.splits)
qed

lemma binance_high_usage:
  assumes "limits_ok l" and "rl_exchange l = Binance" and "0 < t" "t \<le> 1"
  shows "t \<le> get_usage_pct l \<longleftrightarrow>
    (\<exists>n. dict_get (rl_counters l) ''order_count_10s'' = Some n \<and> t \<le> ratio_10s n 300)
    \<or> (\<exists>n. dict_get (rl_counters l) ''order_count_1m'' = Some n \<and> t \<le> of_int n / 1200)
    \<or> (\<exists>n. dict_get (rl_counters l) ''weight_used_1m'' = Some n \<and> t \<le> of_int n / 2400)"
proof -
  have lims: "limit_of l ''order_count_10s'' = 300" "limit_of l ''order_count_1m'' = 1200"
    "limit_of l ''weight_used_1m'' = 2400"
    using assms(1,2) by (simp_all add: limits_ok_def limit_of_def)
  have "t \<le> get_usage_pct l \<longleftrightarrow> (\<exists>y \<in> set (binance_ratios l). t \<le> y)"
  proof (cases "binance_ratios l = []")
    case False
    then show ?thesis
      using assms(2-4) list_max_iff [OF False, of t] by (auto simp: get_usage_pct_def Let_def)
  qed (use assms in \<open>simp add: get_usage_pct_def\<close>)
  then show ?thesis
    by (cases "dict_get (rl_counters l) ''order_count_10s''";
        cases "dict_get (rl_counters l) ''order_count_1m''";
        cases "dict_get (rl_counters l) ''weight_used_1m''")
       (simp_all add: binance_ratios_def lims)
qed

lemma ratio_10s_high: "9 / 10 \<le> ratio_10s n 300 \<longleftrightarrow> 294 \<le> n"
proof (cases "n < 294")
  case True
  then have "real_of_int n / 300 < 98 / 100" "real_of_int n / 350 < 9 / 10" by simp_all
  with True show ?thesis by (simp add: ratio_10s_def)
next
  case False
  then have "98 / 100 \<le> real_of_int n / 300" by simp
  with False show ?thesis by (simp add: ratio_10s_def)
qed

section \<open>Properties\<close>

text \<open>The pacing decision. Stop-loss orders always go at once, whatever the counters say; for the
  others the usage is between 0 and 1, the answer is a refusal exactly from 90 per cent, a delay
  of a fifth of a second from 70 per cent, and no delay below; no wait is ever negative.\<close>

lemma pacing_decision:
  "can_proceed l now True = (True, 0)
   \<and> 0 \<le> get_usage_pct l \<and> get_usage_pct l \<le> 1
   \<and> (fst (can_proceed l now False) = (get_usage_pct l < 9 / 10))
   \<and> 0 \<le> snd (can_proceed l now False)
   \<and> (get_usage_pct l < 7 / 10 \<longrightarrow> can_proceed l now False = (True, 0))
   \<and> (7 / 10 \<le> get_usage_pct l \<and> get_usage_pct l < 9 / 10 \<longrightarrow> can_proceed l now False = (True, 2 / 10))"
  using usage_bounds [of l] time_until_reset_nonneg [of l now]
  by (auto simp: can_proceed_def Let_def)

text \<open>Which counters stop Binance orders. For a limiter made by the constructor and fed any
  headers, ordinary orders are refused exactly when the ten-second order count is at least 294 of
  300, the one-minute order count at least 1080 of 1200, or the used weight at least 2160 of 2400.
  (Ten-second counts from 270 to 293, already 90 per cent and more of the limit, do not refuse.)\<close>

theorem binance_refusal_thresholds:
  assumes "new_limiter x = Inr l0" and "rl_exchange l0 = Binance"
    and "l = fold (\<lambda>(t, h) l. update_from_headers rp t l h) hs l0"
  shows "\<not> fst (can_proceed l now False) \<longleftrightarrow>
    (\<exists>n. dict_get (rl_counters l) ''order_count_10s'' = Some n \<and> 294 \<le> n)
    \<or> (\<exists>n. dict_get (rl_counters l) ''order_count_1m'' = Some n \<and> 1080 \<le> n)
    \<or> (\<exists>n. dict_get (rl_counters l) ''weight_used_1m'' = Some n \<and> 2160 \<le> n)"
proof -
  have "limits_ok (fold (\<lambda>(t, h) l. update_from_headers rp t l h) hs l1)
      \<and> rl_exchange (fold (\<lambda>(t, h) l. update_from_headers rp t l h) hs l1) = rl_exchange l1"
    if "limits_ok l1" for l1
    using that by (induction hs arbitrary: l1) (auto simp: update_ok)
  then have l: "limits_ok l" "rl_exchange l = Binance"
    using new_limiter_ok [OF assms(1)] assms(2,3) by auto
  have "fst (can_proceed l now False) = (get_usage_pct l < 9 / 10)"
    by (auto simp: can_proceed_def Let_def)
  then show ?thesis
    using binance_high_usage [OF l, of "9 / 10"] unfolding ratio_10s_high by (simp add: not_less)
qed

definition sample_headers :: pydict where
  "sample_headers = [(''x-mbx-order-count-10s'', VStr ''280''), (''x-mbx-order-count-1m'', VStr ''1100'')]"

definition sample_limiter :: rate_limiter where
  "sample_limiter = \<lparr>rl_exchange = Binance, rl_counters = [],
     rl_limits = [(''order_count_10s'', 300), (''order_count_1m'', 1200), (''weight_used_1m'', 2400)],
     rl_reset_times = []\<rparr>"

lemma sample_counters:
  "rl_counters (update_from_headers (\<lambda>_. []) 0 sample_limiter sample_headers)
     = [(''order_count_10s'', 280), (''order_count_1m'', 1100)]"
  by (simp add: update_from_headers_def lower_keys_def parse_binance_headers_def store_counter_def
      store_retry_after_def header_int_def header_float_def sample_limiter_def sample_headers_def
      py_simps)

theorem binance_refusal_thresholds_witness:
  "\<not> fst (can_proceed (update_from_headers (\<lambda>_. []) 0 sample_limiter sample_headers) 0 False)"
proof -
  have n: "new_limiter ''binance '' = Inr sample_limiter"
    by (simp add: new_limiter_def sample_limiter_def py_simps)
  have b: "rl_exchange sample_limiter = Binance" by (simp add: sample_limiter_def)
  have f: "update_from_headers (\<lambda>_. []) 0 sample_limiter sample_headers
      = fold (\<lambda>(t, h) l. update_from_headers (\<lambda>_. []) t l h) [(0, sample_headers)] sample_limiter"
    by simp
  from binance_refusal_thresholds [OF n b f, of 0] show ?thesis by (simp add: sample_counters)
qed

end
