(* ===== verification/AI_Overlay.thy ===== *)
theory AI_Overlay
  imports Position_Context
begin

text \<open>
  \<^verbatim>\<open>app/services/auto_trade/ai_overlay/\<close>: the bounded influence of the AI trend on live parameters
  (\<open>scaler.py\<close>), the reading of that trend from the stored analyses (\<open>resolver.py\<close>) and the
  freshness rule both use (\<^verbatim>\<open>app/core/freshness.py\<close>). The configuration is
  \<^verbatim>\<open>app/schemas/ai_overlay.py\<close>. The history table is an argument; instants are seconds since the
  epoch, a naive timestamp being read as UTC.
\<close>

section \<open>Configuration and snapshot\<close>

record overlay_config =
  ov_enabled :: bool
  ov_entry_side_lock_enabled :: bool
  ov_atr_scaling_enabled :: bool
  ov_rsi_scaling_enabled :: bool
  ov_stale_max_minutes :: int
  ov_min_strength :: real
  ov_atr_low :: real
  ov_atr_high :: real
  ov_rsi_max_shift :: int

text \<open>The field bounds and the range validator of \<open>AiOverlayConfig\<close>.\<close>

definition overlay_valid :: "overlay_config \<Rightarrow> bool" where
  "overlay_valid ov =
     (1 \<le> ov_stale_max_minutes ov \<and> ov_stale_max_minutes ov \<le> 1440
      \<and> 0 \<le> ov_min_strength ov \<and> ov_min_strength ov \<le> 1
      \<and> 0 \<le> ov_rsi_max_shift ov \<and> ov_rsi_max_shift ov \<le> 20
      \<and> 1 / 10 \<le> ov_atr_low ov \<and> ov_atr_low ov \<le> 1 \<and> 1 \<le> ov_atr_high ov \<and> ov_atr_high ov \<le> 3)"

record reasoning_entry =
  re_agent_key :: "string option"
  re_signal :: "string option"
  re_confidence :: "real option"
  re_weight :: "real option"
  re_summary :: "string option"

record trend_snapshot =
  ts_direction :: string
  ts_strength :: real
  ts_occurred_at :: real
  ts_decision_event_id :: "string option"
  ts_reasoning_path :: "reasoning_entry list"

record overlay_decision =
  od_changed :: bool
  od_reason :: string

section \<open>The scaler\<close>

definition effective_strength :: "trend_snapshot \<Rightarrow> overlay_config \<Rightarrow> real" where
  "effective_strength s ov =
     (if ts_direction s = ''flat'' then 0
      else if ts_strength s < ov_min_strength ov then 0
      else ts_strength s)"

definition should_block_entry :: "string \<Rightarrow> trend_snapshot \<Rightarrow> overlay_config \<Rightarrow> bool \<times> string" where
  "should_block_entry intended_side s ov =
     (if \<not> ov_enabled ov \<or> \<not> ov_entry_side_lock_enabled ov then (False, ''overlay_disabled'')
      else if effective_strength s ov \<le> 0 then (False, ''below_min_strength_or_flat'')
      else if ts_direction s = ''up'' \<and> intended_side = ''short'' then (True, ''ai_trend_up_blocks_short'')
      else if ts_direction s = ''down'' \<and> intended_side = ''long'' then (True, ''ai_trend_down_blocks_long'')
      else (False, ''side_aligned_with_ai_trend''))"

definition trend_aligned :: "trend_snapshot \<Rightarrow> string \<Rightarrow> bool" where
  "trend_aligned s side =
     ((ts_direction s = ''up'' \<and> side = ''long'') \<or> (ts_direction s = ''down'' \<and> side = ''short''))"

definition scale_atr_multiplier ::
    "real \<Rightarrow> trend_snapshot \<Rightarrow> overlay_config \<Rightarrow> string \<Rightarrow> real \<times> overlay_decision" where
  "scale_atr_multiplier base s ov position_side =
     (if \<not> ov_enabled ov \<or> \<not> ov_atr_scaling_enabled ov
      then (base, \<lparr>od_changed = False, od_reason = ''overlay_disabled''\<rparr>)
      else
        let effective = effective_strength s ov in
        if effective \<le> 0
        then (base, \<lparr>od_changed = False, od_reason = ''below_min_strength_or_flat''\<rparr>)
        else
          let low = ov_atr_low ov; high = ov_atr_high ov;
              aligned = trend_aligned s position_side;
              factor = (if aligned then 1 + effective * (high - 1) else 1 - effective * (1 - low));
              reason = (if aligned then ''trend_aligned_widen'' else ''trend_opposed_tighten'');
              scaled = max (base * low) (min (base * high) (base * factor))
          in if scaled = base then (base, \<lparr>od_changed = False, od_reason = ''no_op''\<rparr>)
             else (scaled, \<lparr>od_changed = True, od_reason = reason\<rparr>))"

definition clamp_pct :: "int \<Rightarrow> int" where
  "clamp_pct x = max 0 (min 100 x)"

definition scale_rsi_thresholds ::
    "int \<Rightarrow> int \<Rightarrow> trend_snapshot \<Rightarrow> overlay_config \<Rightarrow> int \<times> int \<times> overlay_decision" where
  "scale_rsi_thresholds oversold overbought s ov =
     (if \<not> ov_enabled ov \<or> \<not> ov_rsi_scaling_enabled ov
      then (oversold, overbought, \<lparr>od_changed = False, od_reason = ''overlay_disabled''\<rparr>)
      else
        let effective = effective_strength s ov in
        if effective \<le> 0 \<or> ov_rsi_max_shift ov = 0
        then (oversold, overbought, \<lparr>od_changed = False, od_reason = ''below_min_strength_or_flat''\<rparr>)
        else
          let up = (ts_direction s = ''up'');
              shift = round_half_even ((if up then 1 else -1) * effective * of_int (ov_rsi_max_shift ov))
          in if shift = 0
             then (oversold, overbought, \<lparr>od_changed = False, od_reason = ''shift_rounded_to_zero''\<rparr>)
             else
               let new_oversold = clamp_pct (oversold + shift);
                   new_overbought = clamp_pct (overbought + shift)
               in if new_oversold = oversold \<and> new_overbought = overbought
                  then (oversold, overbought, \<lparr>od_changed = False, od_reason = ''clamped_no_op''\<rparr>)
                  else (new_oversold, new_overbought,
                        \<lparr>od_changed = True,
                          od_reason = (if up then ''trend_up_shift'' else ''trend_down_shift'')\<rparr>))"

text \<open>\<open>_fmt\<close>: the text of a float that is not an integer is left to \<open>rp\<close>.\<close>

definition fmt_threshold :: "(pyval \<Rightarrow> string) \<Rightarrow> real \<Rightarrow> string" where
  "fmt_threshold rp x = (if of_int \<lfloor>x\<rfloor> = x then show_int \<lfloor>x\<rfloor> else py_str rp (VFloat x))"

definition clamp_threshold :: "real \<Rightarrow> real" where
  "clamp_threshold x = max 0 (min 100 x)"

definition match_range :: "string \<Rightarrow> (string \<times> string \<times> string) option" where
  "match_range s =
     (case py_split s of
        [w, a, b] \<Rightarrow>
          if (py_lower w = ''between'' \<or> py_lower w = ''outside'') \<and> match_number a \<and> match_number b
          then Some (w, a, b) else None
      | _ \<Rightarrow> None)"

definition shift_watcher_condition_threshold :: "(pyval \<Rightarrow> string) \<Rightarrow> string \<Rightarrow> int \<Rightarrow> string" where
  "shift_watcher_condition_threshold rp condition shift =
     (if shift = 0 then condition
      else
        let text = py_strip condition;
            move = (\<lambda>raw. fmt_threshold rp (clamp_threshold (float_text raw + of_int shift)))
        in case match_comparison text of
             Some (op, raw) \<Rightarrow> op @ '' '' @ move raw
           | None \<Rightarrow>
               (case match_range text of
                  Some (kind, lower, upper) \<Rightarrow> kind @ '' '' @ move lower @ '' '' @ move upper
                | None \<Rightarrow> condition))"

section \<open>Reading a stored analysis\<close>

definition coerce_direction :: "pyval \<Rightarrow> string option" where
  "coerce_direction v =
     (case v of
        VStr s \<Rightarrow>
          (let lowered = py_lower (py_strip s) in
           if lowered \<in> {''up'', ''down'', ''flat''} then Some lowered else None)
      | _ \<Rightarrow> None)"

definition coerce_strength :: "pyval \<Rightarrow> real option" where
  "coerce_strength v =
     (case py_float v of Inl e \<Rightarrow> None | Inr x \<Rightarrow> if x < 0 \<or> x > 1 then None else Some x)"

definition is_dict :: "pyval \<Rightarrow> bool" where
  "is_dict v = (case v of VDict d \<Rightarrow> True | _ \<Rightarrow> False)"

definition has_trend :: "pydict \<Rightarrow> bool" where
  "has_trend d = (is_dict (get_none d ''aiTrend'') \<or> is_dict (get_none d ''ai_trend''))"

definition unwrap_envelope :: "pydict option \<Rightarrow> pydict option" where
  "unwrap_envelope data =
     (case data of
        None \<Rightarrow> None
      | Some d \<Rightarrow>
          if d = [] then None
          else if has_trend d then Some d
          else case py_or (get_none d ''result_json'') (get_none d ''result'') of
                 VDict n \<Rightarrow> if has_trend n then Some n else None
               | _ \<Rightarrow> None)"

definition coerce_str :: "pyval \<Rightarrow> string option" where
  "coerce_str v = (case v of VStr s \<Rightarrow> if py_strip s \<noteq> [] then Some (py_strip s) else None | _ \<Rightarrow> None)"

definition coerce_optional_float :: "pyval \<Rightarrow> real option" where
  "coerce_optional_float v = (case py_float v of Inl e \<Rightarrow> None | Inr x \<Rightarrow> Some x)"

definition reasoning_of :: "pyval \<Rightarrow> reasoning_entry option" where
  "reasoning_of v =
     (case v of
        VDict item \<Rightarrow>
          (let e = \<lparr>re_agent_key = coerce_str (py_or (get_none item ''agentKey'') (get_none item ''agent_key'')),
                    re_signal = coerce_str (get_none item ''signal''),
                    re_confidence = coerce_optional_float (get_none item ''confidence''),
                    re_weight = coerce_optional_float (get_none item ''weight''),
                    re_summary = coerce_str (get_none item ''summary'')\<rparr>
           in if re_agent_key e = None \<and> re_signal e = None \<and> re_confidence e = None
                 \<and> re_weight e = None \<and> re_summary e = None then None else Some e)
      | _ \<Rightarrow> None)"

definition extract_reasoning_path :: "pydict \<Rightarrow> reasoning_entry list" where
  "extract_reasoning_path d =
     (case py_or (get_none d ''reasoningPath'') (get_none d ''reasoning_path'') of
        VList xs \<Rightarrow> List.map_filter reasoning_of xs
      | _ \<Rightarrow> [])"

definition extract_ai_trend ::
    "pydict option \<Rightarrow> (string \<times> real \<times> string option \<times> reasoning_entry list) option" where
  "extract_ai_trend data =
     (case unwrap_envelope data of
        None \<Rightarrow> None
      | Some d \<Rightarrow>
          (case py_or (get_none d ''aiTrend'') (get_none d ''ai_trend'') of
             VDict candidate \<Rightarrow>
               (case (coerce_direction (get_none candidate ''direction''),
                      coerce_strength (get_none candidate ''strength'')) of
                  (Some direction, Some strength) \<Rightarrow>
                    Some (direction, strength,
                          coerce_str (py_or (get_none d ''decisionEventId'') (get_none d ''decision_event_id'')),
                          extract_reasoning_path d)
                | _ \<Rightarrow> None)
           | _ \<Rightarrow> None))"

section \<open>Freshness and resolution\<close>

definition age_minutes :: "real option \<Rightarrow> real \<Rightarrow> real option" where
  "age_minutes reference now = map_option (\<lambda>t. (now - t) / 60) reference"

definition is_fresh :: "real option \<Rightarrow> real \<Rightarrow> real \<Rightarrow> bool" where
  "is_fresh reference max_age now =
     (case age_minutes reference now of None \<Rightarrow> False | Some a \<Rightarrow> a \<le> max_age)"

record history_row =
  hr_user_id :: int
  hr_symbol :: string
  hr_profile_id :: int
  hr_created_at :: real
  hr_core_completed_at :: "real option"
  hr_analysis_data :: "pydict option"

text \<open>\<open>ORDER BY created_at DESC LIMIT 1\<close>.\<close>

fun newest :: "history_row list \<Rightarrow> history_row option" where
  "newest [] = None"
| "newest (r # rs) =
     (case newest rs of
        None \<Rightarrow> Some r
      | Some b \<Rightarrow> if hr_created_at b > hr_created_at r then Some b else Some r)"

definition row_matches :: "int \<Rightarrow> string \<Rightarrow> int option \<Rightarrow> history_row \<Rightarrow> bool" where
  "row_matches uid symbol profile r =
     (hr_user_id r = uid \<and> hr_symbol r = symbol
      \<and> (case profile of None \<Rightarrow> True | Some p \<Rightarrow> hr_profile_id r = p))"

definition resolve_ai_trend ::
    "history_row list \<Rightarrow> real \<Rightarrow> int \<Rightarrow> string \<Rightarrow> int \<Rightarrow> int option \<Rightarrow> trend_snapshot option" where
  "resolve_ai_trend rows now uid symbol max_age_minutes profile =
     (case newest (filter (row_matches uid symbol profile) rows) of
        None \<Rightarrow> None
      | Some r \<Rightarrow>
          (case extract_ai_trend (hr_analysis_data r) of
             None \<Rightarrow> None
           | Some (direction, strength, decision_event_id, reasoning_path) \<Rightarrow>
               let reference = (case hr_core_completed_at r of Some t \<Rightarrow> t | None \<Rightarrow> hr_created_at r) in
               if \<not> is_fresh (Some reference) (of_int max_age_minutes) now then None
               else Some \<lparr>ts_direction = direction, ts_strength = strength, ts_occurred_at = reference,
                          ts_decision_event_id = decision_event_id,
                          ts_reasoning_path = reasoning_path\<rparr>))"

section \<open>Lemmas\<close>

lemma round_half_even_bounds: "\<bar>of_int (round_half_even x) - x\<bar> \<le> 1 / 2"
proof -
  have "of_int \<lfloor>x\<rfloor> \<le> x" "x < of_int \<lfloor>x\<rfloor> + 1" by linarith+
  then show ?thesis by (auto simp: round_half_even_def Let_def)
qed

lemma round_half_even_le:
  assumes "\<bar>x\<bar> \<le> of_int n"
  shows "\<bar>round_half_even x\<bar> \<le> n"
proof -
  have "\<bar>real_of_int (round_half_even x)\<bar> \<le> of_int n + 1 / 2"
    using round_half_even_bounds [of x] assms by linarith
  then have "\<bar>round_half_even x\<bar> < n + 1" by linarith
  then show ?thesis by simp
qed

lemma effective_strength_range:
  "0 \<le> ts_strength s \<Longrightarrow> ts_strength s \<le> 1 \<Longrightarrow> 0 \<le> effective_strength s ov \<and> effective_strength s ov \<le> 1"
  by (simp add: effective_strength_def)

lemma newest_Some:
  "newest rs = Some r \<Longrightarrow> r \<in> set rs \<and> (\<forall>x \<in> set rs. hr_created_at x \<le> hr_created_at r)"
proof (induction rs arbitrary: r)
  case (Cons a rs)
  show ?case
  proof (cases "newest rs")
    case None
    then have "rs = []" by (cases rs) (auto split: option.splits if_splits)
    with Cons.prems show ?thesis by simp
  next
    case (Some b)
    with Cons.IH [OF Some] Cons.prems show ?thesis by (auto split: if_splits)
  qed
qed simp

lemma extract_range:
  "extract_ai_trend data = Some (d, x, e, p) \<Longrightarrow> d \<in> {''up'', ''down'', ''flat''} \<and> 0 \<le> x \<and> x \<le> 1"
  by (auto simp: extract_ai_trend_def coerce_direction_def coerce_strength_def Let_def
      split: option.splits pyval.splits sum.splits if_splits)

section \<open>Properties\<close>

text \<open>The AI can only nudge the stop distance. Under a valid configuration and for a non-negative
  base multiplier, the scaled multiplier stays in the envelope from base times the lower to base
  times the upper bound; a trend aligned with the position never tightens it, an opposed one never
  widens it; and it is the base itself unless the decision says it changed.\<close>

theorem atr_scaling_bounded:
  assumes "overlay_valid ov" and "0 \<le> base" and "0 \<le> ts_strength s" "ts_strength s \<le> 1"
    and "scale_atr_multiplier base s ov side = (m, d)"
  shows "base * ov_atr_low ov \<le> m \<and> m \<le> base * ov_atr_high ov
    \<and> (trend_aligned s side \<longrightarrow> base \<le> m) \<and> (\<not> trend_aligned s side \<longrightarrow> m \<le> base)
    \<and> (od_changed d \<longleftrightarrow> m \<noteq> base)"
proof -
  let ?e = "effective_strength s ov"
  note e = effective_strength_range [OF assms(3,4), of ov]
  have lh: "ov_atr_low ov \<le> 1" "1 \<le> ov_atr_high ov" using assms(1) by (simp_all add: overlay_valid_def)
  have env: "base * ov_atr_low ov \<le> base" "base \<le> base * ov_atr_high ov"
    using mult_left_mono [OF lh(1) assms(2)] mult_left_mono [OF lh(2) assms(2)] by simp_all
  have up: "base \<le> base * (1 + ?e * (ov_atr_high ov - 1))"
  proof -
    have "0 \<le> base * (?e * (ov_atr_high ov - 1))" using e lh assms(2) by simp
    then show ?thesis by (simp add: distrib_left)
  qed
  have down: "base * (1 - ?e * (1 - ov_atr_low ov)) \<le> base"
  proof -
    have "0 \<le> base * (?e * (1 - ov_atr_low ov))" using e lh assms(2) by simp
    then show ?thesis by (simp add: right_diff_distrib)
  qed
  show ?thesis
    using assms(5) env up down
    by (auto simp: scale_atr_multiplier_def Let_def max_def min_def split: if_splits)
qed

text \<open>RSI thresholds stay usable. With a strength in range and thresholds between 0 and 100 in
  order, the new thresholds are between 0 and 100, in order, and each moved by at most the
  configured maximum, both in the direction of the trend.\<close>

theorem rsi_scaling_bounded:
  assumes "overlay_valid ov" and "0 \<le> ts_strength s" "ts_strength s \<le> 1"
    and "0 \<le> lo" "lo \<le> hi" "hi \<le> 100" and "scale_rsi_thresholds lo hi s ov = (lo', hi', d)"
  shows "0 \<le> lo' \<and> lo' \<le> hi' \<and> hi' \<le> 100 \<and> \<bar>lo' - lo\<bar> \<le> ov_rsi_max_shift ov
    \<and> \<bar>hi' - hi\<bar> \<le> ov_rsi_max_shift ov
    \<and> (od_changed d \<longleftrightarrow> lo' \<noteq> lo \<or> hi' \<noteq> hi)"
proof -
  let ?e = "effective_strength s ov" and ?n = "ov_rsi_max_shift ov"
  define sh where "sh = round_half_even ((if ts_direction s = ''up'' then 1 else -1) * ?e * of_int ?n)"
  note e = effective_strength_range [OF assms(2,3), of ov]
  have n: "0 \<le> ?n" using assms(1) by (simp add: overlay_valid_def)
  have "?e * of_int ?n \<le> of_int ?n" using e n mult_right_mono [of ?e 1 "of_int ?n"] by simp
  then have "\<bar>(if ts_direction s = ''up'' then 1 else -1) * ?e * of_int ?n\<bar> \<le> of_int ?n"
    using e n by (auto simp: abs_mult)
  then have sh: "\<bar>sh\<bar> \<le> ?n" unfolding sh_def by (rule round_half_even_le)
  have cases: "(lo' = lo \<and> hi' = hi \<and> \<not> od_changed d)
      \<or> (lo' = clamp_pct (lo + sh) \<and> hi' = clamp_pct (hi + sh) \<and> od_changed d \<and> (lo' \<noteq> lo \<or> hi' \<noteq> hi))"
    using assms(7) by (auto simp: scale_rsi_thresholds_def Let_def sh_def [symmetric] split: if_splits)
  have cl: "0 \<le> clamp_pct x \<and> clamp_pct x \<le> 100" "x \<le> y \<Longrightarrow> clamp_pct x \<le> clamp_pct y"
    "0 \<le> x \<Longrightarrow> x \<le> 100 \<Longrightarrow> \<bar>clamp_pct (x + sh) - x\<bar> \<le> \<bar>sh\<bar>" for x y
    by (auto simp: clamp_pct_def max_def min_def)
  show ?thesis
    using cases
  proof
    assume "lo' = lo \<and> hi' = hi \<and> \<not> od_changed d"
    with assms(4-6) n show ?thesis by simp
  next
    assume "lo' = clamp_pct (lo + sh) \<and> hi' = clamp_pct (hi + sh) \<and> od_changed d
      \<and> (lo' \<noteq> lo \<or> hi' \<noteq> hi)"
    with cl(1) [of "lo + sh"] cl(1) [of "hi + sh"] cl(2) [of "lo + sh" "hi + sh"] cl(3) [of lo]
      cl(3) [of hi] sh assms(4-6) show ?thesis by auto
  qed
qed

text \<open>The trend the overlay acts on is the newest one and fresh. A resolved snapshot comes from
  a row of that user and symbol (and profile, if given) than which no such row is newer, its
  direction is one of the three, its strength lies between 0 and 1, and its reference time is at
  most the allowed number of minutes old.\<close>

theorem resolved_trend_sound:
  assumes "resolve_ai_trend rows now uid symbol max_age profile = Some s"
  shows "ts_direction s \<in> {''up'', ''down'', ''flat''} \<and> 0 \<le> ts_strength s \<and> ts_strength s \<le> 1
    \<and> now - ts_occurred_at s \<le> 60 * of_int max_age
    \<and> (\<exists>r \<in> set rows. row_matches uid symbol profile r
         \<and> ts_occurred_at s = (case hr_core_completed_at r of Some t \<Rightarrow> t | None \<Rightarrow> hr_created_at r)
         \<and> (\<forall>x \<in> set rows. row_matches uid symbol profile x \<longrightarrow> hr_created_at x \<le> hr_created_at r))"
proof -
  obtain r d x e p where r: "newest (filter (row_matches uid symbol profile) rows) = Some r"
    and ex: "extract_ai_trend (hr_analysis_data r) = Some (d, x, e, p)"
    and s: "s = \<lparr>ts_direction = d, ts_strength = x,
       ts_occurred_at = (case hr_core_completed_at r of Some t \<Rightarrow> t | None \<Rightarrow> hr_created_at r),
       ts_decision_event_id = e, ts_reasoning_path = p\<rparr>"
    and f: "is_fresh (Some (case hr_core_completed_at r of Some t \<Rightarrow> t | None \<Rightarrow> hr_created_at r))
       (of_int max_age) now"
    using assms unfolding resolve_ai_trend_def Let_def
    by (auto split: option.splits prod.splits if_splits)
  have "now - ts_occurred_at s \<le> 60 * of_int max_age"
    using f by (simp add: s is_fresh_def age_minutes_def)
  with extract_range [OF ex] newest_Some [OF r] show ?thesis by (auto simp: s)
qed

definition sample_overlay :: overlay_config where
  "sample_overlay = \<lparr>ov_enabled = True, ov_entry_side_lock_enabled = True,
     ov_atr_scaling_enabled = True, ov_rsi_scaling_enabled = True, ov_stale_max_minutes = 240,
     ov_min_strength = 2 / 5, ov_atr_low = 4 / 5, ov_atr_high = 6 / 5, ov_rsi_max_shift = 10\<rparr>"

definition sample_trend :: trend_snapshot where
  "sample_trend = \<lparr>ts_direction = ''up'', ts_strength = 1 / 2, ts_occurred_at = 0,
     ts_decision_event_id = None, ts_reasoning_path = []\<rparr>"

definition sample_history :: history_row where
  "sample_history = \<lparr>hr_user_id = 1, hr_symbol = ''BTC'', hr_profile_id = 7, hr_created_at = 600,
     hr_core_completed_at = None,
     hr_analysis_data = Some [(''aiTrend'', VDict [(''direction'', VStr ''up''), (''strength'', VFloat (1 / 2))])]\<rparr>"

lemma sample_valid: "overlay_valid sample_overlay"
  by (simp add: overlay_valid_def sample_overlay_def)

lemma sample_strength: "0 \<le> ts_strength sample_trend" "ts_strength sample_trend \<le> 1"
  by (simp_all add: sample_trend_def)

theorem atr_scaling_bounded_witness:
  "scale_atr_multiplier 2 sample_trend sample_overlay ''long''
      = (11 / 5, \<lparr>od_changed = True, od_reason = ''trend_aligned_widen''\<rparr>)
   \<and> 11 / 5 \<le> 2 * ov_atr_high sample_overlay"
proof -
  have e: "scale_atr_multiplier 2 sample_trend sample_overlay ''long''
      = (11 / 5, \<lparr>od_changed = True, od_reason = ''trend_aligned_widen''\<rparr>)"
    by (simp add: scale_atr_multiplier_def sample_trend_def sample_overlay_def effective_strength_def
        trend_aligned_def Let_def max_def min_def)
  from atr_scaling_bounded [OF sample_valid _ sample_strength e] e show ?thesis by simp
qed

theorem rsi_scaling_bounded_witness:
  "\<exists>d. scale_rsi_thresholds 30 98 sample_trend sample_overlay = (35, 100, d) \<and> od_changed d"
proof -
  have e: "scale_rsi_thresholds 30 98 sample_trend sample_overlay
      = (35, 100, \<lparr>od_changed = True, od_reason = ''trend_up_shift''\<rparr>)"
    by (simp add: scale_rsi_thresholds_def sample_trend_def sample_overlay_def effective_strength_def
        round_half_even_def clamp_pct_def Let_def)
  from rsi_scaling_bounded [OF sample_valid sample_strength _ _ _ e] e show ?thesis by simp
qed

theorem resolved_trend_sound_witness:
  "\<exists>s. resolve_ai_trend [sample_history] 1200 1 ''BTC'' 240 None = Some s \<and> ts_direction s = ''up''
     \<and> 1200 - ts_occurred_at s \<le> 60 * 240"
proof -
  obtain s where s: "resolve_ai_trend [sample_history] 1200 1 ''BTC'' 240 None = Some s"
    "ts_direction s = ''up''"
    by (simp add: resolve_ai_trend_def sample_history_def row_matches_def extract_ai_trend_def
        unwrap_envelope_def has_trend_def is_dict_def coerce_direction_def coerce_strength_def
        is_fresh_def age_minutes_def py_simps)
  from resolved_trend_sound [OF s(1)] s show ?thesis by auto
qed

text \<open>The width of the neutral band is not always kept: at the edge of the range the clamp narrows
  it, although both thresholds are shifted by the same amount.\<close>

lemma rsi_band_width_can_shrink:
  "\<exists>lo hi lo' hi' d. overlay_valid sample_overlay
     \<and> scale_rsi_thresholds lo hi sample_trend sample_overlay = (lo', hi', d)
     \<and> od_changed d \<and> hi' - lo' < hi - lo"
proof -
  have "scale_rsi_thresholds 30 98 sample_trend sample_overlay
      = (35, 100, \<lparr>od_changed = True, od_reason = ''trend_up_shift''\<rparr>)"
    by (simp add: scale_rsi_thresholds_def sample_trend_def sample_overlay_def effective_strength_def
        round_half_even_def clamp_pct_def Let_def)
  moreover have "(100::int) - 35 < 98 - 30" by simp
  ultimately show ?thesis using sample_valid by force
qed

end
