(* ===== verification/Futures_PnL.thy ===== *)
theory Futures_PnL
  imports Prelude "HOL-Library.Product_Lexorder" "HOL-Library.List_Lexorder" "HOL-Library.Char_ord"
begin

text \<open>
  \<^verbatim>\<open>app/services/execution/futures_pnl.py\<close>: first-in-first-out profit and loss over the fills of
  one futures symbol, and its decomposition into gross result, commission and funding. A fill is a
  record; the attributes the code reads with a default are total fields here.
\<close>

section \<open>Data\<close>

record fill_row =
  fl_traded_at :: "real option"
  fl_id :: string
  fl_symbol :: string
  fl_side :: string
  fl_amount :: real
  fl_price :: real
  fl_fee_cost :: real
  fl_fee_currency :: "string option"
  fl_realized_pnl :: "real option"

record lot =
  lt_qty :: real
  lt_entry_price :: real

record live_futures =
  lf_mark_price :: "real option"
  lf_unrealized_pnl :: "real option"

record realized_breakdown =
  rb_gross_realized :: real
  rb_commission :: real
  rb_funding :: real
  rb_unrealized :: "real option"
  rb_base_currency :: string
  rb_quote_currency :: string

definition net_realized :: "realized_breakdown \<Rightarrow> real" where
  "net_realized b = rb_gross_realized b - rb_commission b + rb_funding b"

definition total_pnl :: "realized_breakdown \<Rightarrow> real" where
  "total_pnl b = net_realized b + (case rb_unrealized b of None \<Rightarrow> 0 | Some u \<Rightarrow> u)"

definition fill_sort_key :: "fill_row \<Rightarrow> real \<times> string" where
  "fill_sort_key r = (case fl_traded_at r of None \<Rightarrow> 0 | Some t \<Rightarrow> t, fl_id r)"

definition or_str :: "string \<Rightarrow> string \<Rightarrow> string" where
  "or_str a b = (if a = [] then b else a)"

definition split_symbol :: "string \<Rightarrow> string \<times> string" where
  "split_symbol s =
     (if CHR ''/'' \<notin> set s then (''UNKNOWN'', ''USDT'')
      else
        let base = takeWhile (\<lambda>c. c \<noteq> CHR ''/'') s;
            quote_raw = tl (dropWhile (\<lambda>c. c \<noteq> CHR ''/'') s);
            quote = takeWhile (\<lambda>c. c \<noteq> CHR '':'') quote_raw
        in (or_str (py_upper (py_strip base)) ''UNKNOWN'', or_str (py_upper (py_strip quote)) ''USDT''))"

section \<open>Fees\<close>

definition fee_to_quote ::
    "real \<Rightarrow> string option \<Rightarrow> real \<Rightarrow> string \<Rightarrow> string \<Rightarrow> (string \<times> real) list option \<Rightarrow> real" where
  "fee_to_quote fee_cost fee_currency price base quote mark_prices =
     (case fee_currency of
        None \<Rightarrow> 0
      | Some cur \<Rightarrow>
          if fee_cost \<le> 0 \<or> cur = [] then 0
          else if py_upper cur = quote then fee_cost
          else if py_upper cur = base then (if price > 0 then fee_cost * price else 0)
          else case mark_prices of
                 None \<Rightarrow> 0
               | Some marks \<Rightarrow>
                   (case dict_get marks (py_upper cur) of
                      None \<Rightarrow> 0
                    | Some mark \<Rightarrow> if mark > 0 then fee_cost * mark else 0))"

definition row_commission ::
    "fill_row \<Rightarrow> string \<Rightarrow> string \<Rightarrow> (string \<times> real) list option \<Rightarrow> real" where
  "row_commission r base quote marks =
     fee_to_quote (max 0 (fl_fee_cost r)) (fl_fee_currency r) (max 0 (fl_price r)) base quote marks"

definition sum_fee_cost_quote :: "fill_row list \<Rightarrow> (string \<times> real) list option \<Rightarrow> real" where
  "sum_fee_cost_quote rows marks =
     sum_list (map (\<lambda>r. let (base, quote) = split_symbol (fl_symbol r)
                        in row_commission r base quote marks) rows)"

section \<open>The FIFO pass\<close>

definition dust :: real where
  "dust = 1 / 1000000000000"

text \<open>The closing loop: \<open>gain entry\<close> is the result per unit of a lot entered at \<open>entry\<close>. Returns the
  realised result, the lots left and the quantity left.\<close>

fun close_lots :: "(real \<Rightarrow> real) \<Rightarrow> real \<Rightarrow> lot list \<Rightarrow> real \<times> lot list \<times> real" where
  "close_lots gain remaining [] = (0, [], remaining)"
| "close_lots gain remaining (l # ls) =
     (if remaining > 0 then
        let close_qty = min remaining (lt_qty l);
            rest = lt_qty l - close_qty;
            left = remaining - close_qty;
            won = gain (lt_entry_price l) * close_qty
        in if rest \<le> dust
           then (let (r, ls', rem') = close_lots gain left ls in (won + r, ls', rem'))
           else (won, l\<lparr>lt_qty := rest\<rparr> # ls, left)
      else (0, l # ls, remaining))"

record fifo_state =
  fs_realized :: real
  fs_long :: "lot list"
  fs_short :: "lot list"
  fs_last_price :: real

definition open_lot :: "real \<Rightarrow> real \<Rightarrow> lot list" where
  "open_lot qty price = (if qty > 0 then [\<lparr>lt_qty = qty, lt_entry_price = price\<rparr>] else [])"

definition fifo_skips :: "fill_row \<Rightarrow> bool" where
  "fifo_skips r =
     (max 0 (fl_amount r) \<le> 0 \<or> max 0 (fl_price r) \<le> 0
      \<or> py_lower (fl_side r) \<notin> {''buy'', ''sell''})"

definition fifo_row :: "string \<Rightarrow> string \<Rightarrow> fill_row \<Rightarrow> fifo_state \<Rightarrow> fifo_state" where
  "fifo_row base quote r s =
     (if fifo_skips r then s
      else
        let qty = max 0 (fl_amount r); price = max 0 (fl_price r);
            fee_quote = row_commission r base quote None;
            realized = fs_realized s - fee_quote
        in if py_lower (fl_side r) = ''buy''
           then (let (g, short', rem') = close_lots (\<lambda>e. e - price) qty (fs_short s)
                 in s\<lparr>fs_realized := realized + g, fs_short := short',
                      fs_long := fs_long s @ open_lot rem' price, fs_last_price := price\<rparr>)
           else (let (g, long', rem') = close_lots (\<lambda>e. price - e) qty (fs_long s)
                 in s\<lparr>fs_realized := realized + g, fs_long := long',
                      fs_short := fs_short s @ open_lot rem' price, fs_last_price := price\<rparr>))"

definition fifo_pass :: "fill_row list \<Rightarrow> string \<Rightarrow> string \<Rightarrow> fifo_state" where
  "fifo_pass rows base quote =
     fold (fifo_row base quote) rows
       \<lparr>fs_realized = 0, fs_long = [], fs_short = [], fs_last_price = 0\<rparr>"

section \<open>The breakdown\<close>

definition total_commission ::
    "fill_row list \<Rightarrow> string \<Rightarrow> string \<Rightarrow> (string \<times> real) list option \<Rightarrow> real" where
  "total_commission rows base quote marks = sum_list (map (\<lambda>r. row_commission r base quote marks) rows)"

definition gross_realized ::
    "fill_row list \<Rightarrow> string \<Rightarrow> string \<Rightarrow> (string \<times> real) list option \<Rightarrow> real" where
  "gross_realized rows base quote marks =
     (if list_ex (\<lambda>r. fl_realized_pnl r \<noteq> None) rows
      then
        let tagged = sum_list (List.map_filter fl_realized_pnl rows);
            untagged = filter (\<lambda>r. fl_realized_pnl r = None) rows
        in if untagged = [] then tagged
           else tagged + (fs_realized (fifo_pass untagged base quote)
                          + total_commission untagged base quote marks)
      else fs_realized (fifo_pass rows base quote) + total_commission rows base quote marks)"

definition lots_value :: "(real \<Rightarrow> real) \<Rightarrow> lot list \<Rightarrow> real" where
  "lots_value gain ls = sum_list (map (\<lambda>l. gain (lt_entry_price l) * lt_qty l) ls)"

definition unrealized_of :: "fifo_state \<Rightarrow> live_futures option \<Rightarrow> real option" where
  "unrealized_of s live =
     (let mark = (case Option.bind live lf_mark_price of
                    Some m \<Rightarrow> if m > 0 then m else fs_last_price s
                  | None \<Rightarrow> fs_last_price s);
          from_lots = (if fs_long s \<noteq> [] \<or> fs_short s \<noteq> []
                       then Some (if mark > 0
                                  then lots_value (\<lambda>e. mark - e) (fs_long s)
                                       + lots_value (\<lambda>e. e - mark) (fs_short s)
                                  else 0)
                       else None)
      in case Option.bind live lf_unrealized_pnl of Some u \<Rightarrow> Some u | None \<Rightarrow> from_lots)"

definition compute_realized_breakdown ::
    "string \<Rightarrow> fill_row list \<Rightarrow> real \<Rightarrow> live_futures option \<Rightarrow> (string \<times> real) list option
      \<Rightarrow> realized_breakdown" where
  "compute_realized_breakdown symbol trades funding live marks =
     (let (base, quote) = split_symbol symbol;
          rows = sort_key fill_sort_key trades
      in \<lparr>rb_gross_realized = gross_realized rows base quote marks,
          rb_commission = total_commission rows base quote marks,
          rb_funding = funding,
          rb_unrealized = unrealized_of (fifo_pass rows base quote) live,
          rb_base_currency = base, rb_quote_currency = quote\<rparr>)"

definition calculate_futures_pnl_fifo ::
    "string \<Rightarrow> fill_row list \<Rightarrow> live_futures option \<Rightarrow> (string \<times> real) list option
      \<Rightarrow> real \<times> real \<times> string \<times> string" where
  "calculate_futures_pnl_fifo symbol trades live marks =
     (let b = compute_realized_breakdown symbol trades 0 live marks
      in (rb_gross_realized b, (case rb_unrealized b of None \<Rightarrow> 0 | Some u \<Rightarrow> u),
          rb_base_currency b, rb_quote_currency b))"

section \<open>Lemmas\<close>

definition lots_qty :: "lot list \<Rightarrow> real" where
  "lots_qty ls = sum_list (map lt_qty ls)"

text \<open>Every quantity is a multiple of the exchange's step, which exceeds the dust threshold: then a
  lot that is dropped as dust is empty.\<close>

definition on_grid :: "real \<Rightarrow> real \<Rightarrow> bool" where
  "on_grid step x = (\<exists>k::int. x = of_int k * step)"

lemma on_grid_diff: "on_grid step x \<Longrightarrow> on_grid step y \<Longrightarrow> on_grid step (x - y)"
  unfolding on_grid_def by (metis left_diff_distrib of_int_diff)

lemma on_grid_min: "on_grid step x \<Longrightarrow> on_grid step y \<Longrightarrow> on_grid step (min x y)"
  by (simp add: min_def)

lemma on_grid_small:
  assumes "on_grid step x" and "0 \<le> x" "x \<le> dust" and "dust < step"
  shows "x = 0"
proof -
  obtain k where k: "x = of_int k * step" using assms(1) by (auto simp: on_grid_def)
  have st: "0 < step" using assms(4) by (simp add: dust_def)
  have "of_int k * step < 1 * step" using k assms(3,4) by simp
  then have "k < 1" using st by simp
  moreover have "0 \<le> k" using k assms(2) st by (simp add: zero_le_mult_iff)
  ultimately show ?thesis using k by simp
qed

definition lots_ok :: "real \<Rightarrow> lot list \<Rightarrow> bool" where
  "lots_ok step ls = (\<forall>l \<in> set ls. 0 < lt_qty l \<and> on_grid step (lt_qty l))"

text \<open>One closing loop: the quantity is accounted for, what it realises is what the lots lose in
  value, and a quantity is left over only when no lot is.\<close>

lemma close_lots_exact:
  assumes "lots_ok step ls" and "0 \<le> q" and "on_grid step q" and "dust < step"
    and "close_lots gain q ls = (g, ls', rem')"
  shows "lots_ok step ls' \<and> 0 \<le> rem' \<and> on_grid step rem' \<and> (0 < rem' \<longrightarrow> ls' = [])
    \<and> lots_qty ls' - rem' = lots_qty ls - q \<and> g + lots_value gain ls' = lots_value gain ls"
  using assms
proof (induction ls arbitrary: q g ls' rem')
  case Nil
  then show ?case by (auto simp: lots_qty_def)
next
  case (Cons l ls)
  have l: "0 < lt_qty l" "on_grid step (lt_qty l)" and ls: "lots_ok step ls"
    using Cons.prems(1) by (auto simp: lots_ok_def)
  define c where "c = min q (lt_qty l)"
  have grid: "on_grid step c" "on_grid step (lt_qty l - c)" "on_grid step (q - c)"
    using l(2) Cons.prems(3) by (auto simp: c_def intro: on_grid_diff on_grid_min)
  show ?case
  proof (cases "0 < q \<and> lt_qty l - c \<le> dust")
    case True
    have zero: "lt_qty l - c = 0"
      using on_grid_small [OF grid(2) _ _ Cons.prems(4)] True by (simp add: c_def)
    obtain r where r: "close_lots gain (q - c) ls = (r, ls', rem')"
      "g = gain (lt_entry_price l) * c + r"
      using Cons.prems(5) True by (auto simp: Let_def c_def [symmetric] split: prod.splits)
    have "0 \<le> q - c" by (simp add: c_def)
    from Cons.IH [OF ls this grid(3) Cons.prems(4) r(1)] r(2) zero show ?thesis
      by (auto simp: lots_qty_def lots_value_def)
  next
    case False
    show ?thesis
    proof (cases "0 < q")
      case True
      with False have big: "dust < lt_qty l - c" by simp
      have d: "0 < dust" by (simp add: dust_def)
      have res: "g = gain (lt_entry_price l) * c" "ls' = l\<lparr>lt_qty := lt_qty l - c\<rparr> # ls" "rem' = q - c"
        using Cons.prems(5) True big by (auto simp: Let_def c_def [symmetric])
      have "c = q" using big d by (auto simp: c_def min_def split: if_splits)
      with res big d ls grid show ?thesis
        by (auto simp: lots_ok_def lots_qty_def lots_value_def algebra_simps)
    next
      case False
      with Cons.prems show ?thesis by auto
    qed
  qed
qed

definition fifo_inv :: "real \<Rightarrow> fifo_state \<Rightarrow> bool" where
  "fifo_inv step s = (lots_ok step (fs_long s) \<and> lots_ok step (fs_short s)
     \<and> (fs_long s = [] \<or> fs_short s = []))"

text \<open>Realised result plus open result at the price \<open>m\<close>, and what a fill adds to it.\<close>

definition marked_result :: "real \<Rightarrow> fifo_state \<Rightarrow> real" where
  "marked_result m s = fs_realized s + lots_value (\<lambda>e. m - e) (fs_long s)
     + lots_value (\<lambda>e. e - m) (fs_short s)"

definition signed_qty :: "fill_row \<Rightarrow> real" where
  "signed_qty r = (if fifo_skips r then 0
     else if py_lower (fl_side r) = ''buy'' then fl_amount r else - fl_amount r)"

definition paid_fee :: "string \<Rightarrow> string \<Rightarrow> fill_row \<Rightarrow> real" where
  "paid_fee base quote r = (if fifo_skips r then 0 else row_commission r base quote None)"

definition net_position :: "fifo_state \<Rightarrow> real" where
  "net_position s = lots_qty (fs_long s) - lots_qty (fs_short s)"

lemma lots_value_shift:
  "lots_value (\<lambda>e. e - m) ls = lots_value (\<lambda>e. e - p) ls + (p - m) * lots_qty ls"
  "lots_value (\<lambda>e. m - e) ls = lots_value (\<lambda>e. p - e) ls + (m - p) * lots_qty ls"
  by (induction ls) (simp_all add: lots_value_def lots_qty_def algebra_simps)

lemma lots_append [simp]:
  "lots_qty (xs @ ys) = lots_qty xs + lots_qty ys"
  "lots_value gain (xs @ ys) = lots_value gain xs + lots_value gain ys"
  "lots_ok step (xs @ ys) = (lots_ok step xs \<and> lots_ok step ys)"
  by (auto simp: lots_qty_def lots_value_def lots_ok_def)

lemma open_lot_simps:
  assumes "0 \<le> q"
  shows "lots_qty (open_lot q p) = q" "lots_value gain (open_lot q p) = gain p * q"
    "on_grid step q \<Longrightarrow> lots_ok step (open_lot q p)" "open_lot q p = [] \<longleftrightarrow> q = 0"
  using assms by (auto simp: open_lot_def lots_qty_def lots_value_def lots_ok_def)

lemma fifo_row_exact:
  assumes inv: "fifo_inv step s" and "dust < step" and "on_grid step (fl_amount r)"
  shows "fifo_inv step (fifo_row base quote r s)
    \<and> net_position (fifo_row base quote r s) = net_position s + signed_qty r
    \<and> marked_result m (fifo_row base quote r s)
        = marked_result m s + signed_qty r * (m - fl_price r) - paid_fee base quote r"
proof (cases "fifo_skips r")
  case True
  then show ?thesis using inv by (simp add: fifo_row_def signed_qty_def paid_fee_def)
next
  case ok: False
  then have q: "max 0 (fl_amount r) = fl_amount r" "max 0 (fl_price r) = fl_price r" "0 \<le> fl_amount r"
    by (auto simp: fifo_skips_def)
  let ?p = "fl_price r"
  show ?thesis
  proof (cases "py_lower (fl_side r) = ''buy''")
    case True
    obtain g sh rem' where c: "close_lots (\<lambda>e. e - ?p) (fl_amount r) (fs_short s) = (g, sh, rem')"
      by (metis prod_cases3)
    have so: "lots_ok step (fs_short s)" using inv by (simp add: fifo_inv_def)
    note e = close_lots_exact [OF so q(3) assms(3,2) c]
    have row: "fifo_row base quote r s = s\<lparr>fs_realized := fs_realized s - row_commission r base quote None + g,
        fs_short := sh, fs_long := fs_long s @ open_lot rem' ?p, fs_last_price := ?p\<rparr>"
      using ok True c q by (simp add: fifo_row_def Let_def)
    have qty: "lots_qty sh = lots_qty (fs_short s) - fl_amount r + rem'" using e by simp
    have val: "g + lots_value (\<lambda>e. e - ?p) sh = lots_value (\<lambda>e. e - ?p) (fs_short s)" using e by simp
    have nil: "sh = []" if "fs_short s = []" using c that by auto
    have "fs_long s @ open_lot rem' ?p = [] \<or> sh = []"
      using e inv open_lot_simps(4) [of rem' ?p] nil by (cases "rem' = 0") (auto simp: fifo_inv_def)
    with e inv row have "fifo_inv step (fifo_row base quote r s)"
      by (auto simp: fifo_inv_def open_lot_simps)
    moreover have "net_position (fifo_row base quote r s) = net_position s + signed_qty r"
      using e qty ok True by (simp add: row net_position_def open_lot_simps signed_qty_def)
    moreover have "marked_result m (fifo_row base quote r s)
        = marked_result m s + signed_qty r * (m - ?p) - paid_fee base quote r"
    proof -
      have "(m - ?p) * rem' + (?p - m) * lots_qty sh
          = (?p - m) * lots_qty (fs_short s) + fl_amount r * (m - ?p)"
        unfolding qty by (simp add: algebra_simps)
      with e val ok True show ?thesis
        by (simp add: row marked_result_def open_lot_simps signed_qty_def paid_fee_def
            lots_value_shift(1) [of m _ ?p])
    qed
    ultimately show ?thesis by blast
  next
    case False
    obtain g lo rem' where c: "close_lots (\<lambda>e. ?p - e) (fl_amount r) (fs_long s) = (g, lo, rem')"
      by (metis prod_cases3)
    have lok: "lots_ok step (fs_long s)" using inv by (simp add: fifo_inv_def)
    note e = close_lots_exact [OF lok q(3) assms(3,2) c]
    have row: "fifo_row base quote r s = s\<lparr>fs_realized := fs_realized s - row_commission r base quote None + g,
        fs_long := lo, fs_short := fs_short s @ open_lot rem' ?p, fs_last_price := ?p\<rparr>"
      using ok False c q by (simp add: fifo_row_def Let_def)
    have qty: "lots_qty lo = lots_qty (fs_long s) - fl_amount r + rem'" using e by simp
    have val: "g + lots_value (\<lambda>e. ?p - e) lo = lots_value (\<lambda>e. ?p - e) (fs_long s)" using e by simp
    have nil: "lo = []" if "fs_long s = []" using c that by auto
    have "lo = [] \<or> fs_short s @ open_lot rem' ?p = []"
      using e inv open_lot_simps(4) [of rem' ?p] nil by (cases "rem' = 0") (auto simp: fifo_inv_def)
    with e inv row have "fifo_inv step (fifo_row base quote r s)"
      by (auto simp: fifo_inv_def open_lot_simps)
    moreover have "net_position (fifo_row base quote r s) = net_position s + signed_qty r"
      using e qty ok False by (simp add: row net_position_def open_lot_simps signed_qty_def)
    moreover have "marked_result m (fifo_row base quote r s)
        = marked_result m s + signed_qty r * (m - ?p) - paid_fee base quote r"
    proof -
      have "(?p - m) * rem' + (m - ?p) * lots_qty lo
          = (m - ?p) * lots_qty (fs_long s) - fl_amount r * (m - ?p)"
        unfolding qty by (simp add: algebra_simps)
      with e val ok False show ?thesis
        by (simp add: row marked_result_def open_lot_simps signed_qty_def paid_fee_def
            lots_value_shift(2) [of m _ ?p])
    qed
    ultimately show ?thesis by blast
  qed
qed

lemma fifo_fold_exact:
  assumes "fifo_inv step s" and "dust < step" and "\<forall>r \<in> set rows. on_grid step (fl_amount r)"
  shows "fifo_inv step (fold (fifo_row base quote) rows s)
    \<and> net_position (fold (fifo_row base quote) rows s) = net_position s + sum_list (map signed_qty rows)
    \<and> marked_result m (fold (fifo_row base quote) rows s) = marked_result m s
        + sum_list (map (\<lambda>r. signed_qty r * (m - fl_price r)) rows)
        - sum_list (map (paid_fee base quote) rows)"
  using assms(1,3)
proof (induction rows arbitrary: s)
  case (Cons r rows)
  have "on_grid step (fl_amount r)" using Cons.prems(2) by simp
  note e = fifo_row_exact [OF Cons.prems(1) assms(2) this, of base quote]
  from e [of m] Cons.IH [of "fifo_row base quote r s"] Cons.prems(2) show ?case by simp
qed simp

section \<open>Properties\<close>

text \<open>C27: FIFO accounting is exact. When all amounts are multiples of a quantity step above the dust
  threshold, the lots left by the pass are all long or all short, their signed quantity is the
  signed quantity traded, and at any price the realised result plus the open result of the lots is
  the cash-flow result of the fills: for each fill its signed quantity times the price's distance
  from the fill price, less its fee.\<close>

theorem fifo_accounting_exact:
  assumes "dust < step" and "\<forall>r \<in> set rows. on_grid step (fl_amount r)"
  shows "(fs_long (fifo_pass rows base quote) = [] \<or> fs_short (fifo_pass rows base quote) = [])
    \<and> lots_qty (fs_long (fifo_pass rows base quote)) - lots_qty (fs_short (fifo_pass rows base quote))
        = sum_list (map signed_qty rows)
    \<and> fs_realized (fifo_pass rows base quote)
        + lots_value (\<lambda>e. m - e) (fs_long (fifo_pass rows base quote))
        + lots_value (\<lambda>e. e - m) (fs_short (fifo_pass rows base quote))
      = sum_list (map (\<lambda>r. signed_qty r * (m - fl_price r)) rows)
        - sum_list (map (paid_fee base quote) rows)"
proof -
  let ?s = "\<lparr>fs_realized = 0, fs_long = [], fs_short = [], fs_last_price = 0\<rparr> :: fifo_state"
  have "fifo_inv step ?s" by (simp add: fifo_inv_def lots_ok_def)
  from fifo_fold_exact [OF this assms, of base quote m] show ?thesis
    by (simp add: fifo_pass_def fifo_inv_def net_position_def marked_result_def lots_qty_def
        lots_value_def)
qed

definition sample_fill :: "string \<Rightarrow> real \<Rightarrow> real \<Rightarrow> string \<Rightarrow> fill_row" where
  "sample_fill side qty price currency = \<lparr>fl_traded_at = None, fl_id = [], fl_symbol = ''BTC/USDT'',
     fl_side = side, fl_amount = qty, fl_price = price, fl_fee_cost = 1,
     fl_fee_currency = Some currency, fl_realized_pnl = None\<rparr>"

theorem fifo_accounting_exact_witness:
  "fs_realized (fifo_pass [sample_fill ''buy'' 3 100 ''USDT'', sample_fill ''sell'' 2 110 ''USDT''] ''BTC'' ''USDT'')
     + lots_value (\<lambda>e. 120 - e) (fs_long (fifo_pass
         [sample_fill ''buy'' 3 100 ''USDT'', sample_fill ''sell'' 2 110 ''USDT''] ''BTC'' ''USDT''))
     + lots_value (\<lambda>e. e - 120) (fs_short (fifo_pass
         [sample_fill ''buy'' 3 100 ''USDT'', sample_fill ''sell'' 2 110 ''USDT''] ''BTC'' ''USDT'')) = 38"
proof -
  let ?rows = "[sample_fill ''buy'' 3 100 ''USDT'', sample_fill ''sell'' 2 110 ''USDT'']"
  have d: "dust < 1" by (simp add: dust_def)
  have "on_grid 1 3" "on_grid 1 2"
    unfolding on_grid_def by (rule exI [of _ 3], simp, rule exI [of _ 2], simp)
  then have g: "\<forall>r \<in> set ?rows. on_grid 1 (fl_amount r)" by (simp add: sample_fill_def)
  from fifo_accounting_exact [OF d g, of "''BTC''" "''USDT''" 120] show ?thesis
    by (simp add: sample_fill_def signed_qty_def paid_fee_def fifo_skips_def row_commission_def
        fee_to_quote_def py_simps)
qed

text \<open>When the gross result is fee-free. For fills without the exchange's own figure, all of them
  usable by the pass, the reported gross result is the fee-free FIFO result plus the commission
  that only the mark prices reveal: fees paid in a third asset with a known mark inflate the gross
  result by their full value, and so never reduce the net result.\<close>

theorem gross_result_inflated_by_third_asset_fees:
  assumes "\<forall>r \<in> set rows. fl_realized_pnl r = None \<and> \<not> fifo_skips r"
    and "dust < step" and "\<forall>r \<in> set rows. on_grid step (fl_amount r)"
  shows "gross_realized rows base quote marks
      = (sum_list (map (\<lambda>r. signed_qty r * (m - fl_price r)) rows)
         - lots_value (\<lambda>e. m - e) (fs_long (fifo_pass rows base quote))
         - lots_value (\<lambda>e. e - m) (fs_short (fifo_pass rows base quote)))
        + (total_commission rows base quote marks - total_commission rows base quote None)"
proof -
  let ?s = "\<lparr>fs_realized = 0, fs_long = [], fs_short = [], fs_last_price = 0\<rparr> :: fifo_state"
  have inv: "fifo_inv step ?s" by (simp add: fifo_inv_def lots_ok_def)
  have fees: "sum_list (map (paid_fee base quote) rows) = total_commission rows base quote None"
    using assms(1) by (induction rows) (simp_all add: paid_fee_def total_commission_def)
  have no: "\<not> list_ex (\<lambda>r. fl_realized_pnl r \<noteq> None) rows"
    using assms(1) by (auto simp: list_ex_iff)
  from fifo_fold_exact [OF inv assms(2,3), of base quote m] no show ?thesis
    by (simp add: gross_realized_def fifo_pass_def marked_result_def fees lots_value_def)
qed

theorem gross_result_inflated_by_third_asset_fees_witness:
  "gross_realized [sample_fill ''buy'' 1 100 ''BNB'', sample_fill ''sell'' 1 110 ''BNB''] ''BTC'' ''USDT''
     (Some [(''BNB'', 600)]) = 10 + 1200"
proof -
  let ?rows = "[sample_fill ''buy'' 1 100 ''BNB'', sample_fill ''sell'' 1 110 ''BNB'']"
  have a: "\<forall>r \<in> set ?rows. fl_realized_pnl r = None \<and> \<not> fifo_skips r"
    by (simp add: sample_fill_def fifo_skips_def py_simps)
  have d: "dust < 1" by (simp add: dust_def)
  have "on_grid 1 1" unfolding on_grid_def by (rule exI [of _ 1]) simp
  then have g: "\<forall>r \<in> set ?rows. on_grid 1 (fl_amount r)" by (simp add: sample_fill_def)
  have l: "fs_long (fifo_pass ?rows ''BTC'' ''USDT'') = []" "fs_short (fifo_pass ?rows ''BTC'' ''USDT'') = []"
    by (simp_all add: fifo_pass_def fifo_row_def sample_fill_def fifo_skips_def open_lot_def dust_def
        Let_def py_simps)
  from gross_result_inflated_by_third_asset_fees [OF a d g, of "''BTC''" "''USDT''" "Some [(''BNB'', 600)]" 0] l
  show ?thesis
    by (simp add: sample_fill_def signed_qty_def fifo_skips_def total_commission_def row_commission_def
        fee_to_quote_def lots_value_def py_simps)
qed

end
