(* ===== verification/Ws_Events.thy ===== *)
theory Ws_Events
  imports Position_Context
begin

text \<open>
  \<^verbatim>\<open>app/services/ws/manager.py\<close>, first part: reading an exchange event. The event is the dictionary
  the adapter delivers; the functions decide whether it is a fill, whether it is a stop-loss or
  take-profit trigger, and which level of the ladder it belongs to. \<open>rp\<close> is the text of values
  that are neither strings nor integers.
\<close>

section \<open>Symbols\<close>

definition normalize_symbol_key :: "string \<Rightarrow> string" where
  "normalize_symbol_key symbol =
     (let raw = py_strip symbol in
      if raw = [] then []
      else py_upper (filter (\<lambda>c. c \<noteq> CHR ''/'' \<and> c \<noteq> CHR ''-'' \<and> c \<noteq> CHR ''_'')
             (takeWhile (\<lambda>c. c \<noteq> CHR '':'') raw)))"

definition symbol_aliases :: "string \<Rightarrow> string list" where
  "symbol_aliases symbol =
     (let raw = py_strip symbol; normalized = normalize_symbol_key raw in
      if raw = [] then [] else if normalized = raw then [raw] else [raw, normalized])"

section \<open>Classification\<close>

definition coerce_float :: "pyval \<Rightarrow> real \<Rightarrow> real" where
  "coerce_float v dflt = (case py_float v of Inr x \<Rightarrow> x | Inl e \<Rightarrow> dflt)"

definition event_text :: "(pyval \<Rightarrow> string) \<Rightarrow> pydict \<Rightarrow> string \<Rightarrow> string" where
  "event_text rp e k = py_strip (py_str rp (get_default e k (VStr [])))"

definition order_type :: "(pyval \<Rightarrow> string) \<Rightarrow> pydict \<Rightarrow> string" where
  "order_type rp e = py_lower (event_text rp e ''order_type'')"

definition order_status :: "(pyval \<Rightarrow> string) \<Rightarrow> pydict \<Rightarrow> string" where
  "order_status rp e = py_lower (event_text rp e ''status'')"

definition execution_type :: "(pyval \<Rightarrow> string) \<Rightarrow> pydict \<Rightarrow> string" where
  "execution_type rp e = py_lower (event_text rp e ''execution_type'')"

definition is_conditional_order_event :: "(pyval \<Rightarrow> string) \<Rightarrow> pydict \<Rightarrow> bool" where
  "is_conditional_order_event rp e =
     (order_type rp e \<in> {''stop_loss'', ''take_profit'', ''trailing_stop''}
      \<or> py_truth (get_none e ''is_algo''))"

definition is_reduce_only_event :: "pydict \<Rightarrow> bool" where
  "is_reduce_only_event e =
     py_truth (py_or (py_or (get_none e ''reduce_only'') (get_none e ''close_position''))
                 (get_none e ''close_on_trigger''))"

definition is_fill_event :: "(pyval \<Rightarrow> string) \<Rightarrow> pydict \<Rightarrow> bool" where
  "is_fill_event rp e =
     (order_status rp e \<in> {''filled'', ''triggered''}
      \<or> execution_type rp e \<in> {''trade'', ''filled''}
      \<or> coerce_float (get_none e ''last_filled_quantity'') 0 > 0
      \<or> coerce_float (get_none e ''filled_quantity'') 0 > 0)"

fun first_positive :: "pydict \<Rightarrow> string list \<Rightarrow> real option" where
  "first_positive e [] = None"
| "first_positive e (k # ks) =
     (let v = coerce_float (get_none e k) 0 in if v > 0 then Some v else first_positive e ks)"

definition extract_event_price :: "pydict \<Rightarrow> real" where
  "extract_event_price e =
     (case first_positive e [''price'', ''trigger_price'', ''mark_price'', ''last_price''] of
        None \<Rightarrow> 0 | Some x \<Rightarrow> x)"

definition resolve_filled_quantity :: "pydict \<Rightarrow> real \<Rightarrow> real" where
  "resolve_filled_quantity e fallback =
     (case first_positive e [''filled_quantity'', ''last_filled_quantity'', ''quantity'', ''order_quantity''] of
        None \<Rightarrow> max fallback 0 | Some x \<Rightarrow> x)"

definition resolve_fill_price :: "pydict \<Rightarrow> real \<Rightarrow> real" where
  "resolve_fill_price e fallback =
     (case first_positive e [''average_price'', ''last_fill_price'', ''price'', ''trigger_price'', ''mark_price''] of
        None \<Rightarrow> max fallback 0 | Some x \<Rightarrow> x)"

section \<open>Which order an event is about\<close>

text \<open>The set \<open>event_ids\<close>, as a list.\<close>

definition event_ids :: "(pyval \<Rightarrow> string) \<Rightarrow> pydict \<Rightarrow> string list" where
  "event_ids rp e =
     filter (\<lambda>v. v \<noteq> []) [event_text rp e ''order_id'', event_text rp e ''client_order_id'']"

definition event_order_identifier :: "(pyval \<Rightarrow> string) \<Rightarrow> pydict \<Rightarrow> string" where
  "event_order_identifier rp e = (case event_ids rp e of [] \<Rightarrow> [] | v # _ \<Rightarrow> v)"

definition level_addressed :: "string list \<Rightarrow> tp_level \<Rightarrow> bool" where
  "level_addressed ids l =
     (case tl_exchange_order_id l of None \<Rightarrow> False | Some i \<Rightarrow> i \<noteq> [] \<and> i \<in> set ids)"

definition is_sl_trigger_event :: "(pyval \<Rightarrow> string) \<Rightarrow> position_context \<Rightarrow> pydict \<Rightarrow> bool" where
  "is_sl_trigger_event rp p e =
     (if \<not> is_fill_event rp e then False
      else if order_type rp e \<in> {''stop_loss'', ''trailing_stop''} then True
      else let i = event_order_identifier rp e in
           case pc_sl_exchange_order_id p of
             None \<Rightarrow> False
           | Some sl \<Rightarrow> i \<noteq> [] \<and> sl \<noteq> [] \<and> i = sl)"

definition is_tp_trigger_event :: "(pyval \<Rightarrow> string) \<Rightarrow> position_context \<Rightarrow> pydict \<Rightarrow> bool" where
  "is_tp_trigger_event rp p e =
     (if \<not> is_fill_event rp e then False
      else if order_type rp e = ''take_profit'' then True
      else let ids = event_ids rp e in
           ids \<noteq> [] \<and> list_ex (level_addressed ids) (pc_tp_levels p))"

section \<open>Which level of the ladder\<close>

text \<open>The scan both nearest-level searches perform: the first level of least cost, among those that
  have a cost.\<close>

fun least_cost :: "('a \<Rightarrow> real option) \<Rightarrow> nat \<Rightarrow> (nat \<times> real) option \<Rightarrow> 'a list \<Rightarrow> nat option" where
  "least_cost cost i best [] = map_option fst best"
| "least_cost cost i best (l # ls) =
     least_cost cost (i + 1)
       (case cost l of
          None \<Rightarrow> best
        | Some d \<Rightarrow> (case best of
                       None \<Rightarrow> Some (i, d)
                     | Some (j, b) \<Rightarrow> if d < b then Some (i, d) else best)) ls"

definition multi_tp_match_tolerance_pct :: real where
  "multi_tp_match_tolerance_pct = 5 / 1000"

definition multi_tp_min_delta :: real where
  "multi_tp_min_delta = 1 / 10000"

definition partial_close_qty_tolerance_pct :: real where
  "partial_close_qty_tolerance_pct = 5 / 1000"

definition match_tolerance :: "real \<Rightarrow> real" where
  "match_tolerance level_price = max (\<bar>level_price\<bar> * multi_tp_match_tolerance_pct) multi_tp_min_delta"

definition price_cost :: "real \<Rightarrow> tp_level \<Rightarrow> real option" where
  "price_cost event_price l =
     (if tl_status l = ''triggered'' \<or> tl_trigger_price l \<le> 0 then None
      else let delta = \<bar>tl_trigger_price l - event_price\<bar> in
           if delta > match_tolerance (tl_trigger_price l) then None else Some delta)"

definition closest_open_tp_level_index :: "position_context \<Rightarrow> real \<Rightarrow> nat option" where
  "closest_open_tp_level_index p event_price =
     (if event_price \<le> 0 then None
      else least_cost (price_cost event_price) 0 None (pc_tp_levels p))"

definition quantity_cost :: "real \<Rightarrow> real \<Rightarrow> tp_level \<Rightarrow> real option" where
  "quantity_cost original delta_qty l =
     (if tl_status l = ''triggered'' then None
      else let expected = original * (tl_close_pct l / 100) in
           if expected \<le> 0 then None
           else let diff_pct = \<bar>delta_qty - expected\<bar> / expected in
                if diff_pct > partial_close_qty_tolerance_pct then None else Some diff_pct)"

definition closest_open_tp_level_by_qty :: "position_context \<Rightarrow> real \<Rightarrow> nat option" where
  "closest_open_tp_level_by_qty p delta_qty =
     (if delta_qty \<le> 0 \<or> pc_original_quantity p \<le> 0 then None
      else least_cost (quantity_cost (pc_original_quantity p) delta_qty) 0 None (pc_tp_levels p))"

fun first_addressed :: "string list \<Rightarrow> nat \<Rightarrow> tp_level list \<Rightarrow> nat option" where
  "first_addressed ids i [] = None"
| "first_addressed ids i (l # ls) =
     (if tl_status l \<noteq> ''triggered'' \<and> level_addressed ids l then Some i
      else first_addressed ids (i + 1) ls)"

definition match_tp_level :: "(pyval \<Rightarrow> string) \<Rightarrow> position_context \<Rightarrow> pydict \<Rightarrow> nat option" where
  "match_tp_level rp p e =
     (let ids = event_ids rp e in
      if ids \<noteq> [] then first_addressed ids 0 (pc_tp_levels p)
      else
        let event_trigger = coerce_float (get_none e ''trigger_price'') 0 in
        case closest_open_tp_level_index p (if event_trigger > 0 then event_trigger else 0) of
          Some i \<Rightarrow> Some i
        | None \<Rightarrow>
            let event_price = extract_event_price e in
            if event_price \<le> 0 then None else closest_open_tp_level_index p event_price)"

definition event_matches_triggered_level :: "(pyval \<Rightarrow> string) \<Rightarrow> position_context \<Rightarrow> pydict \<Rightarrow> bool" where
  "event_matches_triggered_level rp p e =
     (let ids = event_ids rp e in
      ids \<noteq> [] \<and> list_ex (\<lambda>l. tl_status l = ''triggered'' \<and> level_addressed ids l) (pc_tp_levels p))"

definition is_duplicate_tp_trigger :: "(pyval \<Rightarrow> string) \<Rightarrow> position_context \<Rightarrow> pydict \<Rightarrow> bool" where
  "is_duplicate_tp_trigger rp p e =
     (if event_matches_triggered_level rp p e then True
      else let event_price = extract_event_price e in
           event_price > 0
           \<and> list_ex (\<lambda>l. tl_status l = ''triggered''
                \<and> \<bar>tl_trigger_price l - event_price\<bar> \<le> match_tolerance (tl_trigger_price l))
               (pc_tp_levels p))"

section \<open>Texts taken from an event\<close>

definition tp_level_sl_adjustment_reason :: "position_context \<Rightarrow> int \<Rightarrow> string" where
  "tp_level_sl_adjustment_reason p i =
     (if i < 0 \<or> i \<ge> int (length (pc_tp_levels p)) then ''multi_tp''
      else case tl_move_sl_to (pc_tp_levels p ! nat i) of
             None \<Rightarrow> ''multi_tp''
           | Some move \<Rightarrow>
               (let normalized = py_lower (py_strip move) in
                if normalized = ''breakeven'' then ''breakeven'' else ''multi_tp:'' @ normalized))"

definition conditional_reason :: "(pyval \<Rightarrow> string) \<Rightarrow> string \<Rightarrow> pydict \<Rightarrow> string" where
  "conditional_reason rp prefix e =
     (let order_id = py_strip (py_str rp (py_or (get_default e ''order_id'' (VStr []))
                                            (get_default e ''client_order_id'' (VStr [])))) in
      if order_id \<noteq> [] then prefix @ '': '' @ order_id else prefix)"

definition transition_metadata_from_event :: "pydict \<Rightarrow> pydict \<Rightarrow> pydict" where
  "transition_metadata_from_event e extra =
     filter (\<lambda>(k, v). v \<noteq> VNone \<and> v \<noteq> VStr [])
       (fold (\<lambda>(k, v) d. dict_set d k v) extra
          [(''event_type'', get_default e ''event_type'' (get_none e ''type'')),
           (''order_id'', get_none e ''order_id''), (''client_order_id'', get_none e ''client_order_id''),
           (''status'', get_none e ''status''), (''order_type'', get_none e ''order_type''),
           (''symbol'', get_none e ''symbol''), (''transaction_time'', get_none e ''transaction_time'')])"

text \<open>\<open>fmt_ts\<close> is \<open>datetime.fromtimestamp(..., tz=UTC).isoformat()\<close>, \<open>now_iso\<close> the current instant.\<close>

fun first_timestamp :: "pydict \<Rightarrow> string list \<Rightarrow> real option" where
  "first_timestamp e [] = None"
| "first_timestamp e (k # ks) =
     (let v = get_none e k in
      if v = VNone \<or> v = VStr [] then first_timestamp e ks
      else case py_float v of
             Inl err \<Rightarrow> first_timestamp e ks
           | Inr t \<Rightarrow> Some (if t > 10000000000 then t / 1000 else t))"

definition event_timestamp :: "(real \<Rightarrow> string) \<Rightarrow> string \<Rightarrow> pydict \<Rightarrow> string" where
  "event_timestamp fmt_ts now_iso e =
     (case first_timestamp e [''transaction_time'', ''event_time''] of
        None \<Rightarrow> now_iso | Some t \<Rightarrow> fmt_ts t)"

section \<open>Lemmas\<close>

lemma nth_after_head: "Suc i \<le> k \<Longrightarrow> (l # ls) ! (k - i) = ls ! (k - Suc i)"
  by (metis Suc_diff_le diff_Suc_Suc nth_Cons_Suc)

text \<open>The scan returns a cheapest element.\<close>

lemma least_cost_best:
  assumes "\<forall>j b. best = Some (j, b) \<longrightarrow> j < i"
  shows "case least_cost cost i best ls of
      None \<Rightarrow> best = None \<and> (\<forall>l \<in> set ls. cost l = None)
    | Some k \<Rightarrow> (\<exists>d. (best = Some (k, d) \<or> (i \<le> k \<and> k < i + length ls \<and> cost (ls ! (k - i)) = Some d))
        \<and> (\<forall>j b. best = Some (j, b) \<longrightarrow> d \<le> b)
        \<and> (\<forall>j d'. j < length ls \<longrightarrow> cost (ls ! j) = Some d' \<longrightarrow> d \<le> d'))"
  using assms
proof (induction cost i best ls rule: least_cost.induct)
  case (1 cost i best)
  then show ?case by (auto split: option.splits)
next
  case (2 cost i best l ls)
  let ?best = "case cost l of None \<Rightarrow> best
      | Some d \<Rightarrow> (case best of None \<Rightarrow> Some (i, d)
          | Some (j, b) \<Rightarrow> if d < b then Some (i, d) else best)"
  have "\<forall>j b. ?best = Some (j, b) \<longrightarrow> j < i + 1"
    using "2.prems" by (auto split: option.splits if_splits)
  from "2.IH" [OF this] show ?case
  proof (cases "least_cost cost (i + 1) ?best ls")
    case None
    with "2.IH" [OF \<open>\<forall>j b. ?best = Some (j, b) \<longrightarrow> j < i + 1\<close>] show ?thesis
      by (auto split: option.splits if_splits)
  next
    case (Some k)
    with "2.IH" [OF \<open>\<forall>j b. ?best = Some (j, b) \<longrightarrow> j < i + 1\<close>] obtain d where
      d: "?best = Some (k, d) \<or> (i + 1 \<le> k \<and> k < i + 1 + length ls \<and> cost (ls ! (k - (i + 1))) = Some d)"
        "\<forall>j b. ?best = Some (j, b) \<longrightarrow> d \<le> b" "\<forall>j d'. j < length ls \<longrightarrow> cost (ls ! j) = Some d' \<longrightarrow> d \<le> d'"
      by auto
    have le: "\<forall>j b. best = Some (j, b) \<longrightarrow> d \<le> b" "\<forall>d'. cost l = Some d' \<longrightarrow> d \<le> d'"
      using d(2) by (force split: option.splits if_splits)+
    have all: "\<forall>j d'. j < length (l # ls) \<longrightarrow> cost ((l # ls) ! j) = Some d' \<longrightarrow> d \<le> d'"
      using d(3) le(2) by (auto simp: nth_Cons split: nat.splits)
    have "best = Some (k, d) \<or> (i \<le> k \<and> k < i + length (l # ls) \<and> cost ((l # ls) ! (k - i)) = Some d)"
      using d(1) by (auto simp: nth_after_head split: option.splits if_splits)
    with le(1) all Some show ?thesis by auto
  qed
qed

lemma least_cost_Some:
  assumes "least_cost cost 0 None ls = Some k"
  shows "k < length ls" and "\<exists>d. cost (ls ! k) = Some d \<and> (\<forall>j d'. j < length ls \<longrightarrow> cost (ls ! j) = Some d' \<longrightarrow> d \<le> d')"
  using least_cost_best [where best = None and i = 0 and cost = cost and ls = ls] assms by auto

lemma least_cost_None: "least_cost cost 0 None ls = None \<longleftrightarrow> (\<forall>l \<in> set ls. cost l = None)"
proof
  assume r: "\<forall>l \<in> set ls. cost l = None"
  show "least_cost cost 0 None ls = None"
  proof (cases "least_cost cost 0 None ls")
    case (Some k)
    from least_cost_Some [OF this] r show ?thesis by (metis nth_mem option.simps(3))
  qed simp
qed (use least_cost_best [where best = None and i = 0 and cost = cost and ls = ls] in auto)

lemma first_addressed_Some:
  "first_addressed ids i ls = Some k \<Longrightarrow> i \<le> k \<and> k < i + length ls
     \<and> tl_status (ls ! (k - i)) \<noteq> ''triggered'' \<and> level_addressed ids (ls ! (k - i))"
proof (induction ids i ls rule: first_addressed.induct)
  case (2 ids i l ls)
  show ?case
  proof (cases "tl_status l \<noteq> ''triggered'' \<and> level_addressed ids l")
    case False
    with 2 have "i + 1 \<le> k \<and> k < i + 1 + length ls
      \<and> tl_status (ls ! (k - (i + 1))) \<noteq> ''triggered'' \<and> level_addressed ids (ls ! (k - (i + 1)))" by auto
    then show ?thesis by (auto simp: nth_after_head)
  qed (use 2 in auto)
qed simp

end
