(* ===== verification/Ws_Manager.thy ===== *)
theory Ws_Manager
  imports Ws_Events Multi_TP Live_Tracker
begin

text \<open>
  \<^verbatim>\<open>app/services/ws/manager.py\<close>, second part: \<open>WebSocketManager\<close>, the object that receives an account's
  exchange events and drives positions, engines and the order queue.

  Positions are mutable objects that several aliases of \<open>_positions\<close> share, so the state has a store
  from addresses to positions. A handler holds the position's lock from start to end and is one
  step here; what it asks from outside is the record \<open>ws_env\<close>: the clock, the exchange's answers and
  whether the queue became quiescent in time. \<open>ws_effect\<close> records, in order, what leaves the manager:
  persisted positions, cancelled orders, audit events, sleeps. The order of the cancellations of
  one clean-up is that of a Python set; the model takes the order of the list that denotes it.
  The queue resolver and the persistence hook are assumed to return; log lines and audit payloads
  are left out.
\<close>

section \<open>State\<close>

record cond_order =
  co_exchange_order_id :: string
  co_order_type :: string
  co_trigger_price :: real

record ws_env =
  we_repr :: "pyval \<Rightarrow> string"
  we_now :: real
  we_iso :: string
  we_fmt_ts :: "real \<Rightarrow> string"
  we_live :: "string \<Rightarrow> live_result"
  we_orders :: "string \<Rightarrow> cond_order list option"
  we_quiesced :: bool
  we_subscribed :: bool
  we_kline_ok :: bool

datatype ws_effect =
    Persisted position_context
  | CancelledOrder string string
  | Audited string
  | Slept real

record ws_manager =
  wm_account_id :: string
  wm_has_kill_handler :: bool
  wm_objects :: "nat \<Rightarrow> position_context"
  wm_positions :: "(string \<times> nat) list"
  wm_connected :: bool
  wm_reconnecting :: bool
  wm_reconnect_attempts :: nat
  wm_warmed_up :: bool
  wm_warmup_started_at :: real
  wm_last_prices :: "(string \<times> real) list"
  wm_good_prices :: "(string \<times> real) list"
  wm_last_heartbeat_at :: real
  wm_last_gap_ms :: real
  wm_jitter_ema_ms :: real
  wm_last_proactive_at :: real
  wm_adjusters :: "(string \<times> adjuster) list"
  wm_reconcilers :: "(string \<times> nat \<times> real) list"
  wm_queue :: queue_state
  wm_effects :: "ws_effect list"

definition max_reconnect_attempts :: nat where
  "max_reconnect_attempts = 50"

definition warmup_seconds :: real where
  "warmup_seconds = 4"

definition new_ws_manager :: "string \<Rightarrow> bool \<Rightarrow> queue_state \<Rightarrow> ws_manager" where
  "new_ws_manager account_id has_handler q =
     \<lparr>wm_account_id = account_id, wm_has_kill_handler = has_handler,
      wm_objects = (\<lambda>_. default_context), wm_positions = [], wm_connected = False,
      wm_reconnecting = False, wm_reconnect_attempts = 0, wm_warmed_up = False,
      wm_warmup_started_at = 0, wm_last_prices = [], wm_good_prices = [],
      wm_last_heartbeat_at = 0, wm_last_gap_ms = 0, wm_jitter_ema_ms = 0, wm_last_proactive_at = 0,
      wm_adjusters = [], wm_reconcilers = [], wm_queue = q, wm_effects = []\<rparr>"

definition upd_pos :: "nat \<Rightarrow> (position_context \<Rightarrow> position_context) \<Rightarrow> ws_manager \<Rightarrow> ws_manager" where
  "upd_pos a f m = m\<lparr>wm_objects := (wm_objects m)(a := f (wm_objects m a))\<rparr>"

definition emit :: "ws_effect \<Rightarrow> ws_manager \<Rightarrow> ws_manager" where
  "emit e m = m\<lparr>wm_effects := wm_effects m @ [e]\<rparr>"

definition persist :: "nat \<Rightarrow> ws_manager \<Rightarrow> ws_manager" where
  "persist a m = emit (Persisted (wm_objects m a)) m"

definition ws_enqueue :: "ws_env \<Rightarrow> order_task \<Rightarrow> ws_manager \<Rightarrow> ws_manager" where
  "ws_enqueue env t m = m\<lparr>wm_queue := enqueue (we_repr env) (wm_queue m) t\<rparr>"

definition ws_client_order_id :: "ws_env \<Rightarrow> ws_manager \<Rightarrow> string \<Rightarrow> string \<Rightarrow> string" where
  "ws_client_order_id env m position_id action =
     wm_account_id m @ ''-'' @ position_id @ ''-'' @ action @ ''-''
     @ show_int (trunc_real (we_now env * 1000))"

section \<open>Which positions are tracked\<close>

text \<open>Addresses of the distinct tracked positions, in dictionary order; positions without an id are
  told apart by identity.\<close>

fun unique_positions :: "(nat \<Rightarrow> position_context) \<Rightarrow> nat list \<Rightarrow> nat list \<Rightarrow> nat list" where
  "unique_positions st seen [] = rev seen"
| "unique_positions st seen (a # as) =
     (if (\<exists>b \<in> set seen. b = a \<or> (pc_position_id (st b) = pc_position_id (st a)
            \<and> pc_position_id (st a) \<noteq> []))
      then unique_positions st seen as else unique_positions st (a # seen) as)"

definition tracked_positions :: "ws_manager \<Rightarrow> nat list" where
  "tracked_positions m = unique_positions (wm_objects m) [] (map snd (wm_positions m))"

fun find_alias :: "(string \<times> nat) list \<Rightarrow> string list \<Rightarrow> nat option" where
  "find_alias d [] = None"
| "find_alias d (k # ks) = (case dict_get d k of Some a \<Rightarrow> Some a | None \<Rightarrow> find_alias d ks)"

definition find_position :: "ws_manager \<Rightarrow> string \<Rightarrow> nat option" where
  "find_position m symbol = find_alias (wm_positions m) (symbol_aliases symbol)"

definition find_position_by_id :: "ws_manager \<Rightarrow> string \<Rightarrow> nat option" where
  "find_position_by_id m pid =
     (if pid = [] then None
      else map_option snd (find (\<lambda>(k, a). pc_position_id (wm_objects m a) = pid) (wm_positions m)))"

definition is_tracked :: "ws_manager \<Rightarrow> string \<Rightarrow> bool" where
  "is_tracked m pid = (find_position_by_id m pid \<noteq> None)"

fun merge_levels :: "tp_level list \<Rightarrow> tp_level list \<Rightarrow> tp_level list" where
  "merge_levels (l # ls) (s # ss) =
     l\<lparr>tl_trigger_price := tl_trigger_price s, tl_close_pct := tl_close_pct s,
       tl_sl_lock_pct := tl_sl_lock_pct s, tl_move_sl_to := tl_move_sl_to s,
       tl_price_offset_pct := tl_price_offset_pct s\<rparr> # merge_levels ls ss"
| "merge_levels ls [] = ls"
| "merge_levels [] ss = []"

definition merge_persisted_fields_into_live ::
    "position_context \<Rightarrow> position_context \<Rightarrow> position_context" where
  "merge_persisted_fields_into_live live snapshot =
     live\<lparr>pc_entry_price := pc_entry_price snapshot,
       pc_original_quantity := pc_original_quantity snapshot, pc_leverage := pc_leverage snapshot,
       pc_current_sl_price := pc_current_sl_price snapshot,
       pc_current_tp_price := pc_current_tp_price snapshot, pc_tp_mode := pc_tp_mode snapshot,
       pc_tp_levels := merge_levels (pc_tp_levels live) (pc_tp_levels snapshot)\<rparr>"

definition set_aliases :: "string \<Rightarrow> nat \<Rightarrow> (string \<times> nat) list \<Rightarrow> (string \<times> nat) list" where
  "set_aliases symbol a d = fold (\<lambda>alias d. dict_set d alias a) (symbol_aliases symbol) d"

text \<open>\<open>track_position\<close> of the object at address \<open>a\<close>.\<close>

definition track_position :: "nat \<Rightarrow> bool \<Rightarrow> ws_manager \<Rightarrow> ws_manager" where
  "track_position a replace_in_place m =
     (let p = wm_objects m a in
      case find_position_by_id m (pc_position_id p) of
        None \<Rightarrow> m\<lparr>wm_positions := set_aliases (pc_symbol p) a (wm_positions m)\<rparr>
      | Some live \<Rightarrow>
          if replace_in_place \<or> live = a
          then m\<lparr>wm_positions := set_aliases (pc_symbol p) a (wm_positions m)\<rparr>
          else let m' = upd_pos live (\<lambda>q. merge_persisted_fields_into_live q p) m
               in m'\<lparr>wm_positions :=
                    set_aliases (pc_symbol (wm_objects m' live)) live (wm_positions m')\<rparr>)"

definition pop_aliases :: "string \<Rightarrow> (string \<times> nat) list \<Rightarrow> (string \<times> nat) list" where
  "pop_aliases symbol d = fold (\<lambda>alias d. dict_pop d alias) (symbol_aliases symbol) d"

definition is_final :: "position_state \<Rightarrow> bool" where
  "is_final s = (s = CLOSED \<or> s = CANCELLED \<or> s = FAILED)"

definition cleanup_realtime_sl_pipeline :: "nat \<Rightarrow> ws_manager \<Rightarrow> ws_manager" where
  "cleanup_realtime_sl_pipeline a m =
     (let closed = wm_objects m a; symbol = pc_symbol closed in
      case dict_get (wm_adjusters m) symbol of
        None \<Rightarrow> m
      | Some ad \<Rightarrow>
          let m1 = m\<lparr>wm_adjusters := dict_set (wm_adjusters m) symbol
                       (discard_position ad (pc_position_id closed))\<rparr>
          in if list_ex (\<lambda>b. let p = wm_objects m b in
                 pc_symbol p = symbol \<and> pc_position_id p \<noteq> pc_position_id closed
                 \<and> \<not> is_final (pc_state p) \<and> needs_realtime_monitoring p) (tracked_positions m)
             then m1
             else m1\<lparr>wm_adjusters := dict_pop (wm_adjusters m1) symbol\<rparr>)"

definition untrack_position :: "string \<Rightarrow> ws_manager \<Rightarrow> ws_manager" where
  "untrack_position symbol m =
     (case find_position m symbol of
        None \<Rightarrow> m\<lparr>wm_positions := pop_aliases symbol (wm_positions m)\<rparr>
      | Some a \<Rightarrow>
          cleanup_realtime_sl_pipeline a
            (m\<lparr>wm_positions := pop_aliases (pc_symbol (wm_objects m a)) (wm_positions m)\<rparr>))"

section \<open>Guards\<close>

definition check_warmup :: "real \<Rightarrow> ws_manager \<Rightarrow> ws_manager \<times> bool" where
  "check_warmup now m =
     (if wm_warmed_up m then (m, True)
      else if wm_warmup_started_at m \<le> 0 then (m, False)
      else if now - wm_warmup_started_at m \<ge> warmup_seconds then (m\<lparr>wm_warmed_up := True\<rparr>, True)
      else (m, False))"

definition get_stale_threshold :: "string \<Rightarrow> real" where
  "get_stale_threshold symbol =
     (let normalized = py_strip (py_upper symbol) in
      if starts_with normalized ''BTC'' \<or> starts_with normalized ''ETH'' then 2 / 100 else 5 / 100)"

definition setdefault :: "('k \<times> 'v) list \<Rightarrow> 'k \<Rightarrow> 'v \<Rightarrow> ('k \<times> 'v) list" where
  "setdefault d k v = (if dict_get d k = None then dict_set d k v else d)"

definition check_stale_tick :: "string \<Rightarrow> real \<Rightarrow> ws_manager \<Rightarrow> ws_manager \<times> bool" where
  "check_stale_tick symbol price m =
     (let last_price = dict_get (wm_last_prices m) symbol;
          reference = (case dict_get (wm_good_prices m) symbol of Some r \<Rightarrow> Some r | None \<Rightarrow> last_price);
          m1 = m\<lparr>wm_last_prices := dict_set (wm_last_prices m) symbol price\<rparr>
      in case reference of
           None \<Rightarrow> (m1\<lparr>wm_good_prices := dict_set (wm_good_prices m1) symbol price\<rparr>, True)
         | Some r \<Rightarrow>
             let m2 = (if r > 0 then m1\<lparr>wm_good_prices := setdefault (wm_good_prices m1) symbol r\<rparr> else m1)
             in if r \<le> 0 \<or> price \<le> 0
                then (m2\<lparr>wm_good_prices := dict_set (wm_good_prices m2) symbol price\<rparr>, True)
                else if \<bar>price - r\<bar> / \<bar>r\<bar> > get_stale_threshold symbol then (m2, False)
                else (m2\<lparr>wm_good_prices := dict_set (wm_good_prices m2) symbol price\<rparr>, True))"

definition update_heartbeat :: "real \<Rightarrow> ws_manager \<Rightarrow> ws_manager" where
  "update_heartbeat now m =
     (let m1 = (if wm_last_heartbeat_at m > 0
                then let gap = (now - wm_last_heartbeat_at m) * 1000 in
                     m\<lparr>wm_last_gap_ms := gap,
                       wm_jitter_ema_ms := (if wm_jitter_ema_ms m \<le> 0 then gap
                         else 3 / 10 * gap + (1 - 3 / 10) * wm_jitter_ema_ms m)\<rparr>
                else m)
      in m1\<lparr>wm_last_heartbeat_at := now\<rparr>)"

section \<open>Order tasks of the manager\<close>

definition emergency_sl_task :: "ws_env \<Rightarrow> ws_manager \<Rightarrow> position_context \<Rightarrow> order_task" where
  "emergency_sl_task env m p =
     \<lparr>ot_priority = Prio_EMERGENCY_SL, ot_created_at = we_now env,
      ot_position_id = pc_position_id p, ot_action = ''place_sl'',
      ot_params =
        [(''symbol'', VStr (pc_symbol p)), (''side'', VSide (closing_side (pc_side p))),
         (''quantity'', VFloat (pc_current_quantity p)),
         (''full_quantity'', VFloat (pc_current_quantity p)),
         (''trigger_price'', VFloat (pc_current_sl_price p)),
         (''client_order_id'', VStr (ws_client_order_id env m (pc_position_id p) ''emergency-sl'')),
         (''reduce_only'', VBool True), (''close_position'', VBool True),
         (''reason'', VStr ''ws_full_state_sync_missing_sl'')],
      ot_retry_count = 0, ot_max_retries = 3, ot_on_success = None\<rparr>"

definition enqueue_emergency_sl :: "ws_env \<Rightarrow> nat \<Rightarrow> ws_manager \<Rightarrow> ws_manager" where
  "enqueue_emergency_sl env a m =
     (let p = wm_objects m a in
      if pc_current_quantity p \<le> 0 \<or> pc_current_sl_price p \<le> 0 then m
      else ws_enqueue env (emergency_sl_task env m p) m)"

definition initial_sl_task :: "ws_env \<Rightarrow> ws_manager \<Rightarrow> position_context \<Rightarrow> order_task" where
  "initial_sl_task env m p =
     \<lparr>ot_priority = Prio_NEW_CONDITIONAL, ot_created_at = we_now env,
      ot_position_id = pc_position_id p, ot_action = ''place_sl'',
      ot_params =
        [(''symbol'', VStr (pc_symbol p)), (''side'', VSide (closing_side (pc_side p))),
         (''quantity'', VFloat (pc_current_quantity p)),
         (''full_quantity'', VFloat (pc_current_quantity p)),
         (''trigger_price'', VFloat (pc_current_sl_price p)),
         (''client_order_id'', VStr (ws_client_order_id env m (pc_position_id p) ''sl'')),
         (''reduce_only'', VBool True), (''close_position'', VBool True)],
      ot_retry_count = 0, ot_max_retries = 3, ot_on_success = Some ''conditional_order:sl''\<rparr>"

definition initial_tp_level_task ::
    "ws_env \<Rightarrow> ws_manager \<Rightarrow> position_context \<Rightarrow> nat \<Rightarrow> tp_level \<Rightarrow> order_task" where
  "initial_tp_level_task env m p i l =
     \<lparr>ot_priority = Prio_NEW_CONDITIONAL, ot_created_at = we_now env,
      ot_position_id = pc_position_id p, ot_action = ''place_tp'',
      ot_params =
        [(''level'', VInt (tl_level l)), (''symbol'', VStr (pc_symbol p)),
         (''side'', VSide (closing_side (pc_side p))),
         (''quantity'', VFloat (pc_original_quantity p * (tl_close_pct l / 100))),
         (''trigger_price'', VFloat (tl_trigger_price l)),
         (''client_order_id'', VStr (ws_client_order_id env m (pc_position_id p)
                                      (''tp-l'' @ show_nat (i + 1)))),
         (''reduce_only'', VBool True)],
      ot_retry_count = 0, ot_max_retries = 3,
      ot_on_success = Some (''conditional_order:tp:'' @ show_nat i)\<rparr>"

definition initial_tp_task :: "ws_env \<Rightarrow> ws_manager \<Rightarrow> position_context \<Rightarrow> real \<Rightarrow> order_task" where
  "initial_tp_task env m p tp =
     \<lparr>ot_priority = Prio_NEW_CONDITIONAL, ot_created_at = we_now env,
      ot_position_id = pc_position_id p, ot_action = ''place_tp'',
      ot_params =
        [(''symbol'', VStr (pc_symbol p)), (''side'', VSide (closing_side (pc_side p))),
         (''quantity'', VFloat (pc_current_quantity p)), (''trigger_price'', VFloat tp),
         (''client_order_id'', VStr (ws_client_order_id env m (pc_position_id p) ''tp'')),
         (''reduce_only'', VBool True)],
      ot_retry_count = 0, ot_max_retries = 3, ot_on_success = None\<rparr>"

definition initial_ladder_tasks :: "ws_env \<Rightarrow> ws_manager \<Rightarrow> position_context \<Rightarrow> order_task list" where
  "initial_ladder_tasks env m p =
     map (\<lambda>(i, l). initial_tp_level_task env m p i l)
       (filter (\<lambda>(i, l). tl_status l = ''pending'') (List.enumerate 0 (pc_tp_levels p)))"

definition initial_protection_tasks :: "ws_env \<Rightarrow> ws_manager \<Rightarrow> position_context \<Rightarrow> order_task list" where
  "initial_protection_tasks env m p =
     (if pc_current_sl_price p > 0 then [initial_sl_task env m p] else [])
     @ (if pc_tp_mode p = ''multi'' \<and> pc_tp_levels p \<noteq> [] then initial_ladder_tasks env m p
        else case pc_current_tp_price p of
               None \<Rightarrow> []
             | Some tp \<Rightarrow> if tp \<le> 0 then [] else [initial_tp_task env m p tp])"

definition enqueue_initial_protection_orders :: "ws_env \<Rightarrow> nat \<Rightarrow> ws_manager \<Rightarrow> ws_manager" where
  "enqueue_initial_protection_orders env a m =
     fold (ws_enqueue env) (initial_protection_tasks env m (wm_objects m a)) m"

definition emergency_close_task ::
    "ws_env \<Rightarrow> ws_manager \<Rightarrow> string \<Rightarrow> position_context \<Rightarrow> order_task" where
  "emergency_close_task env m reason p =
     \<lparr>ot_priority = Prio_EMERGENCY_CLOSE, ot_created_at = we_now env,
      ot_position_id = pc_position_id p, ot_action = ''emergency_market_close'',
      ot_params =
        [(''symbol'', VStr (pc_symbol p)), (''side'', VSide (closing_side (pc_side p))),
         (''full_quantity'', VFloat (pc_current_quantity p)),
         (''client_order_id'', VStr (ws_client_order_id env m (pc_position_id p) ''emergency-close'')),
         (''reason'', VStr reason)],
      ot_retry_count = 0, ot_max_retries = 3, ot_on_success = None\<rparr>"

definition emergency_close_one :: "ws_env \<Rightarrow> string \<Rightarrow> nat \<Rightarrow> ws_manager \<Rightarrow> ws_manager" where
  "emergency_close_one env reason a m =
     (let p = wm_objects m a in
      if pc_current_quantity p \<le> 0 \<or> pc_state p = CLOSED then m
      else ws_enqueue env (emergency_close_task env m reason p) m)"

definition emergency_close_all :: "ws_env \<Rightarrow> string \<Rightarrow> ws_manager \<Rightarrow> ws_manager" where
  "emergency_close_all env reason m = fold (emergency_close_one env reason) (tracked_positions m) m"

section \<open>Synchronising with the exchange\<close>

definition fsm_error_text :: "fsm_error \<Rightarrow> string" where
  "fsm_error_text e =
     (case e of InvalidTransitionError t s pid \<Rightarrow>
        ''Cannot '' @ trigger_value t @ '' in state '' @ position_state_value s
        @ '' for position '' @ pid)"

definition set_machine :: "position_machine \<Rightarrow> position_context \<Rightarrow> position_context" where
  "set_machine mc p = p\<lparr>pc_machine := mc, pc_state := pm_state mc\<rparr>"

definition apply_sync_transition ::
    "ws_env \<Rightarrow> transition_trigger \<Rightarrow> position_state \<Rightarrow> string \<Rightarrow> position_context \<Rightarrow> position_context" where
  "apply_sync_transition env t target reason p =
     (case transition (pc_machine p)
             \<lparr>tc_trigger = t, tc_reason = reason,
              tc_metadata = Some [(''source'', VStr ''ws_state_sync'')], tc_now = we_iso env\<rparr> of
        Inr mc \<Rightarrow> set_machine mc p
      | Inl e \<Rightarrow> set_machine ((pc_machine p)\<lparr>pm_state := target\<rparr>) p)"

definition force_open :: "position_context \<Rightarrow> position_context" where
  "force_open p =
     (if pc_state p \<in> {PENDING, ENTERING, CLOSED, CANCELLED, FAILED}
      then p\<lparr>pc_state := OPEN, pc_machine := (pc_machine p)\<lparr>pm_state := OPEN\<rparr>\<rparr> else p)"

definition reason_or :: "string option \<Rightarrow> string \<Rightarrow> string" where
  "reason_or r dflt = (case r of None \<Rightarrow> dflt | Some t \<Rightarrow> if t = [] then dflt else t)"

definition sync_flat :: "ws_env \<Rightarrow> string option \<Rightarrow> nat \<Rightarrow> ws_manager \<Rightarrow> ws_manager" where
  "sync_flat env sync_reason a m =
     persist a (upd_pos a (\<lambda>p. apply_sync_transition env ALL_CLOSED CLOSED
       (reason_or sync_reason ''Position closed during state sync'') (p\<lparr>pc_current_quantity := 0\<rparr>)) m)"

definition refresh_prices :: "string \<Rightarrow> real \<Rightarrow> ws_manager \<Rightarrow> ws_manager" where
  "refresh_prices symbol mark m =
     (let k = normalize_symbol_key symbol in
      if mark > 0 \<and> k \<noteq> []
      then m\<lparr>wm_last_prices := dict_set (wm_last_prices m) k mark,
             wm_good_prices := dict_set (wm_good_prices m) k mark\<rparr>
      else m)"

definition has_stop_order :: "cond_order list \<Rightarrow> bool" where
  "has_stop_order os = list_ex (\<lambda>q. py_lower (co_order_type q) = ''stop_loss'') os"

definition sync_protection :: "ws_env \<Rightarrow> string option \<Rightarrow> nat \<Rightarrow> ws_manager \<Rightarrow> cond_order list \<Rightarrow> ws_manager" where
  "sync_protection env sync_reason a m os =
     (let m1 = (if \<not> has_stop_order os \<and> pc_state (wm_objects m a) \<noteq> CLOSED
                then enqueue_emergency_sl env a m else m)
      in if pc_state (wm_objects m1 a) = RECONNECTING
         then upd_pos a (apply_sync_transition env SYNC_COMPLETE OPEN
                (reason_or sync_reason ''Full state sync after reconnection'')) m1
         else m1)"

text \<open>\<open>_sync_position\<close>; the flag is \<open>False\<close> when an adapter call raised.\<close>

definition sync_position ::
    "ws_env \<Rightarrow> bool \<Rightarrow> string option \<Rightarrow> nat \<Rightarrow> ws_manager \<Rightarrow> ws_manager \<times> bool" where
  "sync_position env reconnect_sync sync_reason a m =
     (let symbol = pc_symbol (wm_objects m a) in
      case we_live env symbol of
        LiveNone \<Rightarrow> (sync_flat env sync_reason a m, True)
      | LiveSnapshot sz mk \<Rightarrow>
          if \<bar>sz\<bar> = 0 then (sync_flat env sync_reason a m, True)
          else
            let m1 = upd_pos a force_open (refresh_prices symbol mk
                       (upd_pos a (\<lambda>p. p\<lparr>pc_current_quantity := \<bar>sz\<bar>\<rparr>) m))
            in if \<not> reconnect_sync then (persist a m1, True)
               else (case we_orders env symbol of
                       None \<Rightarrow> (m1, False)
                     | Some os \<Rightarrow> (persist a (sync_protection env sync_reason a m1 os), True))
      | _ \<Rightarrow> (m, False))"

text \<open>\<open>_attempt_state_sync\<close> swallows the exception.\<close>

definition attempt_state_sync :: "ws_env \<Rightarrow> string \<Rightarrow> nat \<Rightarrow> ws_manager \<Rightarrow> ws_manager" where
  "attempt_state_sync env reason a m = fst (sync_position env False (Some reason) a m)"

definition ws_apply_transition ::
    "ws_env \<Rightarrow> transition_trigger \<Rightarrow> string \<Rightarrow> pydict option \<Rightarrow> nat \<Rightarrow> ws_manager
      \<Rightarrow> ws_manager \<times> position_state option" where
  "ws_apply_transition env t reason metadata a m =
     (case transition (pc_machine (wm_objects m a))
             \<lparr>tc_trigger = t, tc_reason = reason, tc_metadata = metadata, tc_now = we_iso env\<rparr> of
        Inr mc \<Rightarrow> (upd_pos a (set_machine mc) m, Some (pm_state mc))
      | Inl e \<Rightarrow> (attempt_state_sync env (fsm_error_text e) a m, None))"

definition ws_close_position ::
    "ws_env \<Rightarrow> transition_trigger \<Rightarrow> string \<Rightarrow> pydict option \<Rightarrow> nat \<Rightarrow> ws_manager
      \<Rightarrow> ws_manager \<times> position_state option" where
  "ws_close_position env initial reason metadata a m =
     (let m1 = (if can_transition (pc_machine (wm_objects m a)) initial
                then fst (ws_apply_transition env initial reason metadata a m) else m)
      in ws_apply_transition env ALL_CLOSED reason metadata a m1)"

section \<open>Cleaning up after a close\<close>

definition protective_actions :: "string set" where
  "protective_actions = {''place_sl'', ''replace_sl'', ''place_tp'', ''replace_tp''}"

definition known_conditional_order_ids :: "position_context \<Rightarrow> string list" where
  "known_conditional_order_ids p =
     (case pc_sl_exchange_order_id p of None \<Rightarrow> [] | Some i \<Rightarrow> if i = [] then [] else [i])
     @ List.map_filter (\<lambda>l. case tl_exchange_order_id l of
          None \<Rightarrow> None | Some i \<Rightarrow> if i \<noteq> [] \<and> tl_status l \<noteq> ''triggered'' then Some i else None)
         (pc_tp_levels p)"

definition fetch_open_conditional_order_ids :: "ws_env \<Rightarrow> string \<Rightarrow> string list" where
  "fetch_open_conditional_order_ids env symbol =
     (case we_orders env symbol of
        None \<Rightarrow> [] | Some os \<Rightarrow> filter (\<lambda>i. i \<noteq> []) (map co_exchange_order_id os))"

definition forget_level :: "string list \<Rightarrow> tp_level \<Rightarrow> tp_level" where
  "forget_level ids l =
     (case tl_exchange_order_id l of
        Some i \<Rightarrow> if i \<in> set ids \<and> tl_status l \<noteq> ''triggered'' then l\<lparr>tl_status := ''cancelled''\<rparr> else l
      | None \<Rightarrow> l)"

definition forget_orders :: "string list \<Rightarrow> position_context \<Rightarrow> position_context" where
  "forget_orders ids p =
     p\<lparr>pc_sl_exchange_order_id := (case pc_sl_exchange_order_id p of
         Some i \<Rightarrow> if i \<in> set ids then None else Some i | None \<Rightarrow> None),
       pc_tp_levels := map (forget_level ids) (pc_tp_levels p)\<rparr>"

definition cancel_remaining_orders :: "ws_env \<Rightarrow> nat \<Rightarrow> ws_manager \<Rightarrow> ws_manager" where
  "cancel_remaining_orders env a m =
     (let p = wm_objects m a;
          m1 = m\<lparr>wm_queue := fst (purge_pending (wm_queue m) (pc_position_id p) protective_actions)\<rparr>;
          m2 = (if we_quiesced env then m1
                else emit (Audited ''cancel_remaining_orders_quiesce_timeout'') m1);
          ids = remdups (known_conditional_order_ids p
                          @ fetch_open_conditional_order_ids env (pc_symbol p))
      in if ids = [] then m2
         else upd_pos a (forget_orders ids)
                (fold (\<lambda>i. emit (CancelledOrder (pc_symbol p) i)) ids m2))"

section \<open>The realtime stop pipeline\<close>

text \<open>The defaults of \<open>RealtimeSLAdjuster.__init__\<close>, which accepts them.\<close>

definition ws_adjuster :: "string \<Rightarrow> bool \<Rightarrow> adjuster" where
  "ws_adjuster symbol has_handler =
     \<lparr>ad_symbol = symbol, ad_buffer_bars = 200, ad_throttle = 3, ad_buffer = [],
      ad_last_adjustment = [], ad_last_kill = [], ad_cache = [], ad_has_handler = has_handler\<rparr>"

definition ensure_realtime_sl_pipeline :: "ws_env \<Rightarrow> nat \<Rightarrow> ws_manager \<Rightarrow> ws_manager" where
  "ensure_realtime_sl_pipeline env a m =
     (let p = wm_objects m a; symbol = pc_symbol p in
      if \<not> needs_realtime_monitoring p \<or> dict_get (wm_adjusters m) symbol \<noteq> None then m
      else if we_kline_ok env
      then m\<lparr>wm_adjusters := dict_set (wm_adjusters m) symbol (ws_adjuster symbol (wm_has_kill_handler m))\<rparr>
      else m)"

definition write_back :: "(nat \<times> position_context) list \<Rightarrow> ws_manager \<Rightarrow> ws_manager" where
  "write_back aps m = fold (\<lambda>(a, p). upd_pos a (\<lambda>_. p)) aps m"

text \<open>The tick adjusts the positions of the symbol; each dispatched task is enqueued and its position
  persisted.\<close>

definition handle_realtime_kline ::
    "ws_env \<Rightarrow> (bar list \<Rightarrow> int \<Rightarrow> real list) \<Rightarrow> (position_context \<Rightarrow> kill_switch_signal \<Rightarrow> position_context)
      \<Rightarrow> string \<Rightarrow> pydict \<Rightarrow> ws_manager \<Rightarrow> ws_manager" where
  "handle_realtime_kline env atr_fn on_kill symbol event m =
     (case dict_get (wm_adjusters m) symbol of
        None \<Rightarrow> m
      | Some ad \<Rightarrow>
          let as = filter (\<lambda>a. pc_symbol (wm_objects m a) = symbol
                             \<and> needs_realtime_monitoring (wm_objects m a)) (tracked_positions m)
          in if as = [] then m
             else
               let r = on_tick atr_fn on_kill (ws_client_order_id env m) (we_now env) ad event
                         (map (wm_objects m) as);
                   m1 = write_back (zip as (tr_positions r))
                          (m\<lparr>wm_adjusters := dict_set (wm_adjusters m) symbol (tr_adjuster r)\<rparr>)
               in fold (\<lambda>t m. fold (\<lambda>p. emit (Persisted p))
                            (filter (\<lambda>p. pc_position_id p = ot_position_id t) (tr_positions r))
                            (ws_enqueue env t m))
                    (tr_tasks r) m1)"

section \<open>Lifecycle events\<close>

definition handle_entry_fill_event :: "ws_env \<Rightarrow> nat \<Rightarrow> pydict \<Rightarrow> ws_manager \<Rightarrow> ws_manager \<times> bool" where
  "handle_entry_fill_event env a e m =
     (let p = wm_objects m a; rp = we_repr env in
      if pc_state p \<noteq> ENTERING \<or> is_conditional_order_event rp e \<or> is_reduce_only_event e
         \<or> \<not> is_fill_event rp e
      then (m, False)
      else
        let filled = resolve_filled_quantity e (pc_current_quantity p);
            price = resolve_fill_price e (pc_entry_price p);
            m1 = upd_pos a (\<lambda>p. if price > 0 then p\<lparr>pc_entry_price := price\<rparr> else p) m;
            m2 = upd_pos a (\<lambda>p. if filled > 0
                   then p\<lparr>pc_original_quantity := filled, pc_current_quantity := filled\<rparr> else p) m1;
            (m3, next_state) = ws_apply_transition env ENTRY_FILLED ''Entry order filled via WebSocket''
              (Some (transition_metadata_from_event e
                 [(''filled_quantity'', VFloat filled), (''fill_price'', VFloat price)])) a m2
        in (if next_state = Some OPEN
            then ensure_realtime_sl_pipeline env a
                   (persist a (enqueue_initial_protection_orders env a m3))
            else m3, True))"

definition append_sl_trigger_history ::
    "ws_env \<Rightarrow> pydict \<Rightarrow> string \<Rightarrow> position_context \<Rightarrow> position_context" where
  "append_sl_trigger_history env e reason p =
     (let tp = coerce_float (get_none e ''trigger_price'') 0;
          trigger_price = (if tp \<le> 0 then pc_current_sl_price p else tp)
      in p\<lparr>pc_sl_history := pc_sl_history p @
           [\<lparr>sh_timestamp = event_timestamp (we_fmt_ts env) (we_iso env) e,
             sh_old_price = pc_current_sl_price p, sh_new_price = trigger_price,
             sh_reason = reason, sh_trigger_source = ''ws_manager'',
             sh_exchange_order_id = py_str (we_repr env)
               (py_or (py_or (get_none e ''order_id'') (opt_str (pc_sl_exchange_order_id p))) (VStr []))\<rparr>]\<rparr>)"

definition handle_sl_triggered_event :: "ws_env \<Rightarrow> nat \<Rightarrow> pydict \<Rightarrow> ws_manager \<Rightarrow> ws_manager \<times> bool" where
  "handle_sl_triggered_event env a e m =
     (let p = wm_objects m a; rp = we_repr env in
      if \<not> is_sl_trigger_event rp p e then (m, False)
      else if pc_state p = CLOSED \<and> pc_current_quantity p \<le> 0 then (m, True)
      else
        let reason = conditional_reason rp ''Stop loss triggered'' e;
            md = Some (transition_metadata_from_event e []);
            (m1, next_state) = ws_apply_transition env SL_TRIGGERED reason md a m
        in if next_state \<noteq> Some CLOSING then (m1, True)
           else
             let m2 = upd_pos a (append_sl_trigger_history env e reason)
                        (upd_pos a (\<lambda>p. p\<lparr>pc_current_quantity := 0\<rparr>) m1);
                 m3 = fst (ws_apply_transition env ALL_CLOSED reason md a m2)
             in (persist a (cancel_remaining_orders env a m3), True))"

definition cancel_partial_close_reconciler :: "nat \<Rightarrow> ws_manager \<Rightarrow> ws_manager" where
  "cancel_partial_close_reconciler a m =
     m\<lparr>wm_reconcilers := dict_pop (wm_reconcilers m) (pc_position_id (wm_objects m a))\<rparr>"

definition engine_env :: "ws_env \<Rightarrow> position_context \<Rightarrow> string \<Rightarrow> tp_env" where
  "engine_env env p source =
     \<lparr>te_now = we_now env, te_iso = we_iso env, te_live = we_live env (pc_symbol p),
      te_tp_callback = (\<lambda>_. None),
      te_sl_callback = (\<lambda>i. Some (''sl_adjustment:'' @ source @ '':''
                                   @ tp_level_sl_adjustment_reason p i))\<rparr>"

text \<open>A \<open>MultiTPEngine\<close> on the position and the queue, asked to handle a level.\<close>

definition run_engine ::
    "ws_env \<Rightarrow> string \<Rightarrow> nat \<Rightarrow> nat \<Rightarrow> ws_manager \<Rightarrow> py_error + ws_manager" where
  "run_engine env source a level m =
     (let p = wm_objects m a in
      case handle_tp_triggered (we_repr env) (engine_env env p source)
             \<lparr>es_position = p, es_queue = wm_queue m, es_audit = []\<rparr> (int level) of
        Inl err \<Rightarrow> Inl err
      | Inr s \<Rightarrow>
          Inr (fold (\<lambda>(ev, r). emit (Audited ev)) (es_audit s)
                 (upd_pos a (\<lambda>_. es_position s) (m\<lparr>wm_queue := es_queue s\<rparr>))))"

definition handle_multi_tp_event :: "ws_env \<Rightarrow> nat \<Rightarrow> pydict \<Rightarrow> ws_manager \<Rightarrow> py_error + ws_manager" where
  "handle_multi_tp_event env a e m =
     (let p = wm_objects m a; rp = we_repr env in
      if event_matches_triggered_level rp p e then Inr (cancel_partial_close_reconciler a m)
      else case match_tp_level rp p e of
             None \<Rightarrow> Inr (if is_duplicate_tp_trigger rp p e then m
                          else emit (Audited ''tp_fill_unmatched'') m)
           | Some level \<Rightarrow>
               (case run_engine env ''multi_tp'' a level m of
                  Inl err \<Rightarrow> Inl err
                | Inr m1 \<Rightarrow>
                    let m2 = cancel_partial_close_reconciler a m1;
                        m3 = (if pc_state (wm_objects m2 a) = CLOSED
                                 \<or> pc_current_quantity (wm_objects m2 a) \<le> 0
                              then cancel_remaining_orders env a m2 else m2)
                    in Inr (persist a m3)))"

definition handle_single_tp_event :: "ws_env \<Rightarrow> nat \<Rightarrow> pydict \<Rightarrow> ws_manager \<Rightarrow> ws_manager" where
  "handle_single_tp_event env a e m =
     (let p = wm_objects m a in
      if pc_state p = CLOSED \<and> pc_current_quantity p \<le> 0 then m
      else
        let (m1, next_state) = ws_close_position env TP_TRIGGERED
              (conditional_reason (we_repr env) ''Take profit triggered'' e)
              (Some (transition_metadata_from_event e [])) a
              (upd_pos a (\<lambda>p. p\<lparr>pc_current_quantity := 0\<rparr>) m)
        in if next_state \<noteq> None then persist a (cancel_remaining_orders env a m1) else m1)"

definition handle_tp_triggered_event ::
    "ws_env \<Rightarrow> nat \<Rightarrow> pydict \<Rightarrow> ws_manager \<Rightarrow> py_error + ws_manager \<times> bool" where
  "handle_tp_triggered_event env a e m =
     (let p = wm_objects m a in
      if \<not> is_tp_trigger_event (we_repr env) p e then Inr (m, False)
      else if pc_tp_mode p = ''multi'' \<and> pc_tp_levels p \<noteq> []
      then (case handle_multi_tp_event env a e m of Inl err \<Rightarrow> Inl err | Inr m1 \<Rightarrow> Inr (m1, True))
      else Inr (handle_single_tp_event env a e m, True))"

text \<open>\<open>_route_lifecycle_event\<close>. A position has none of the optional handlers that
  \<open>_route_to_position\<close> looks for when it returns \<open>False\<close>, so routing is this function.\<close>

definition route_lifecycle_event ::
    "ws_env \<Rightarrow> nat \<Rightarrow> pydict \<Rightarrow> ws_manager \<Rightarrow> py_error + ws_manager \<times> bool" where
  "route_lifecycle_event env a e m =
     (let (m1, entry) = handle_entry_fill_event env a e m in
      if entry then Inr (m1, True)
      else let (m2, sl) = handle_sl_triggered_event env a e m1 in
           if sl then Inr (m2, True) else handle_tp_triggered_event env a e m2)"

definition handle_order_update :: "ws_env \<Rightarrow> pydict \<Rightarrow> ws_manager \<Rightarrow> py_error + ws_manager" where
  "handle_order_update env e m =
     (let rp = we_repr env;
          symbol = py_str rp (py_or (get_default e ''symbol'' (VStr [])) (VStr []));
          price = extract_event_price e;
          (m1, tick_valid) = (if symbol \<noteq> [] \<and> price > 0 then check_stale_tick symbol price m
                              else (m, True))
      in if \<not> tick_valid \<and> \<not> (is_fill_event rp e \<or> is_conditional_order_event rp e) then Inr m1
         else let (m2, warm) = check_warmup (we_now env) m1 in
              if \<not> warm then Inr m2
              else case find_position m2 symbol of
                     None \<Rightarrow> Inr m2
                   | Some a \<Rightarrow> map_sum id fst (route_lifecycle_event env a e m2))"

section \<open>Position updates and inferred fills\<close>

definition handle_position_update :: "ws_env \<Rightarrow> pydict \<Rightarrow> ws_manager \<Rightarrow> ws_manager" where
  "handle_position_update env e m =
     (let rp = we_repr env;
          symbol = py_str rp (py_or (get_default e ''symbol'' (VStr [])) (VStr []))
      in case find_position m symbol of
           None \<Rightarrow> m
         | Some a \<Rightarrow>
             let p = wm_objects m a;
                 new_size = \<bar>coerce_float (get_default e ''size'' (get_none e ''qty'')) 0\<bar>;
                 old_size = pc_current_quantity p
             in if new_size \<le> 0 then
                  (if pc_state p \<noteq> CLOSED \<or> pc_current_quantity p > 0 then
                     persist a (cancel_remaining_orders env a
                       (fst (ws_close_position env MANUAL_CLOSE
                          (''Position closed: '' @ py_str rp (get_default e ''reason'' (VStr ''unknown'')))
                          (Some (transition_metadata_from_event e [])) a
                          (upd_pos a (\<lambda>p. p\<lparr>pc_current_quantity := 0\<rparr>) m))))
                   else m)
                else if new_size = old_size then m
                else
                  let m1 = (if new_size < old_size \<and> pc_tp_mode p = ''multi'' \<and> pc_tp_levels p \<noteq> []
                               \<and> pc_state p \<in> {OPEN, ADJUSTING}
                            then m\<lparr>wm_reconcilers := dict_set (wm_reconcilers m) (pc_position_id p)
                                     (a, old_size - new_size)\<rparr>
                            else m)
                  in persist a (upd_pos a (\<lambda>p. p\<lparr>pc_current_quantity := new_size\<rparr>) m1))"

text \<open>The deferred task of a position woke up.\<close>

definition reconcile_partial_close :: "ws_env \<Rightarrow> string \<Rightarrow> ws_manager \<Rightarrow> py_error + ws_manager" where
  "reconcile_partial_close env pid m =
     (case dict_get (wm_reconcilers m) pid of
        None \<Rightarrow> Inr m
      | Some (a, delta_qty) \<Rightarrow>
          let m1 = m\<lparr>wm_reconcilers := dict_pop (wm_reconcilers m) (pc_position_id (wm_objects m a))\<rparr>;
              p = wm_objects m1 a
          in if pc_state p \<notin> {OPEN, ADJUSTING} then Inr m1
             else case closest_open_tp_level_by_qty p delta_qty of
                    None \<Rightarrow> Inr m1
                  | Some level \<Rightarrow>
                      (case run_engine env ''position_update_inferred'' a level
                              (upd_pos a (\<lambda>p. p\<lparr>pc_current_quantity := pc_current_quantity p + delta_qty\<rparr>)
                                 (emit (Audited ''multi_tp_inferred_from_position_update'') m1)) of
                         Inl err \<Rightarrow> Inl err
                       | Inr m2 \<Rightarrow> Inr (persist a m2)))"

section \<open>Success callbacks\<close>

definition sl_placed :: "cond_order \<Rightarrow> nat \<Rightarrow> ws_manager \<Rightarrow> ws_manager" where
  "sl_placed r a m =
     persist a (upd_pos a (\<lambda>p. p\<lparr>pc_sl_exchange_order_id := Some (co_exchange_order_id r)\<rparr>) m)"

definition tp_placed :: "cond_order \<Rightarrow> nat \<Rightarrow> nat \<Rightarrow> ws_manager \<Rightarrow> ws_manager" where
  "tp_placed r i a m =
     persist a (upd_pos a (\<lambda>p. if i < length (pc_tp_levels p)
       then p\<lparr>pc_tp_levels := (pc_tp_levels p)[i := (pc_tp_levels p ! i)
                \<lparr>tl_exchange_order_id := Some (co_exchange_order_id r), tl_status := ''open''\<rparr>]\<rparr>
       else p) m)"

definition sl_adjusted ::
    "ws_env \<Rightarrow> string \<Rightarrow> string \<Rightarrow> cond_order \<Rightarrow> nat \<Rightarrow> ws_manager \<Rightarrow> ws_manager" where
  "sl_adjusted env reason source r a m =
     (let p = wm_objects m a;
          old_price = pc_current_sl_price p;
          new_price = (if co_trigger_price r > 0 then co_trigger_price r else old_price);
          p1 = p\<lparr>pc_current_sl_price := new_price,
                 pc_sl_exchange_order_id := Some (co_exchange_order_id r),
                 pc_last_adjusted_at := Some (we_iso env),
                 pc_sl_type := (if reason \<in> {''trailing'', ''breakeven'', ''volatility''} then reason
                                else pc_sl_type p),
                 pc_sl_history := pc_sl_history p @
                   [\<lparr>sh_timestamp = we_iso env, sh_old_price = old_price, sh_new_price = new_price,
                     sh_reason = reason, sh_trigger_source = source,
                     sh_exchange_order_id = co_exchange_order_id r\<rparr>]\<rparr>;
          p2 = (case transition (pc_machine p1)
                  \<lparr>tc_trigger = ADJUSTMENT_COMPLETE, tc_reason = ''SL adjustment applied: '' @ reason,
                   tc_metadata = Some [(''source'', VStr source),
                     (''exchange_order_id'', VStr (co_exchange_order_id r)),
                     (''new_sl_price'', VFloat new_price)], tc_now = we_iso env\<rparr> of
                  Inr mc \<Rightarrow> set_machine mc p1
                | Inl e \<Rightarrow> p1\<lparr>pc_state := pm_state (pc_machine p1)\<rparr>)
      in persist a (upd_pos a (\<lambda>_. p2) m))"

section \<open>Connection loss\<close>

text \<open>\<open>start\<close>; the flag is \<open>False\<close> when the subscription raised.\<close>

definition ws_start :: "ws_env \<Rightarrow> ws_manager \<Rightarrow> ws_manager \<times> bool" where
  "ws_start env m =
     (let m1 = m\<lparr>wm_warmed_up := False, wm_warmup_started_at := we_now env, wm_last_gap_ms := 0,
                 wm_jitter_ema_ms := 0\<rparr>;
          m2 = (if wm_reconnecting m then m1 else m1\<lparr>wm_reconnect_attempts := 0\<rparr>)
      in if we_subscribed env
         then (m2\<lparr>wm_connected := True, wm_last_heartbeat_at := we_now env\<rparr>, True)
         else (m2, False))"

fun sync_all :: "ws_env \<Rightarrow> nat list \<Rightarrow> ws_manager \<Rightarrow> ws_manager \<times> bool" where
  "sync_all env [] m = (m, True)"
| "sync_all env (a # as) m =
     (let (m1, ok) = sync_position env True None a m in if ok then sync_all env as m1 else (m1, False))"

definition full_state_sync :: "ws_env \<Rightarrow> ws_manager \<Rightarrow> ws_manager \<times> bool" where
  "full_state_sync env m = sync_all env (tracked_positions m) m"

definition restore_realtime_sl_pipelines :: "ws_env \<Rightarrow> ws_manager \<Rightarrow> ws_manager" where
  "restore_realtime_sl_pipelines env m =
     fold (\<lambda>a m. if is_final (pc_state (wm_objects m a)) then m else ensure_realtime_sl_pipeline env a m)
       (tracked_positions m) m"

definition reconnect_backoff :: "nat \<Rightarrow> real" where
  "reconnect_backoff attempts = min (1 * 2 ^ attempts) 60"

text \<open>One pass of the retry loop: sleep, count the attempt, start, synchronise, restore.\<close>

definition reconnect_once :: "ws_env \<Rightarrow> ws_manager \<Rightarrow> ws_manager \<times> bool" where
  "reconnect_once env m =
     (let attempt = wm_reconnect_attempts m + 1;
          m1 = (emit (Slept (reconnect_backoff (wm_reconnect_attempts m))) m)
                 \<lparr>wm_reconnect_attempts := attempt, wm_adjusters := []\<rparr>;
          (m2, started) = ws_start env m1
      in if \<not> started then (m2\<lparr>wm_reconnect_attempts := attempt\<rparr>, False)
         else let (m3, synced) = full_state_sync env m2 in
              if \<not> synced then (m3\<lparr>wm_reconnect_attempts := attempt\<rparr>, False)
              else ((restore_realtime_sl_pipelines env m3)\<lparr>wm_reconnect_attempts := 0\<rparr>, True))"

text \<open>The retry loop with the world \<open>w n\<close> met at the \<open>n\<close>-th attempt, and the emergency close when the
  attempts are used up.\<close>

function reconnect_loop :: "(nat \<Rightarrow> ws_env) \<Rightarrow> ws_manager \<Rightarrow> ws_manager \<times> bool" where
  "reconnect_loop w m =
     (let n = wm_reconnect_attempts m in
      if n < max_reconnect_attempts then
        let (m1, ok) = reconnect_once (w n) m in
        if ok then (m1, True) else reconnect_loop w m1
      else (emergency_close_all (w n) ''Max WS reconnect attempts exceeded'' m, False))"
  by pat_completeness auto

definition mark_disconnected :: "ws_env \<Rightarrow> nat \<Rightarrow> ws_manager \<Rightarrow> ws_manager" where
  "mark_disconnected env a m =
     (if is_final (pc_state (wm_objects m a)) then m
      else persist a (fst (ws_apply_transition env WS_DISCONNECTED ''WebSocket connection lost'' None a m)))"

section \<open>Termination of the retry loop\<close>

lemma reconnect_once_fails:
  "reconnect_once env m = (m1, False) \<Longrightarrow> wm_reconnect_attempts m1 = Suc (wm_reconnect_attempts m)"
  by (auto simp: reconnect_once_def Let_def split: prod.splits if_splits)

termination reconnect_loop
  by (relation "measure (\<lambda>(w, m). max_reconnect_attempts - wm_reconnect_attempts m)")
     (auto dest: reconnect_once_fails [OF sym] simp: reconnect_once_fails)

declare reconnect_loop.simps [simp del]

definition handle_disconnect :: "(nat \<Rightarrow> ws_env) \<Rightarrow> ws_env \<Rightarrow> ws_manager \<Rightarrow> ws_manager" where
  "handle_disconnect w env m =
     (if wm_reconnecting m then m
      else
        let m1 = m\<lparr>wm_reconnecting := True, wm_connected := False, wm_warmed_up := False\<rparr>;
            m2 = fold (mark_disconnected env) (tracked_positions m1) m1
        in (fst (reconnect_loop w m2))\<lparr>wm_reconnecting := False\<rparr>)"

definition check_connection_health :: "(nat \<Rightarrow> ws_env) \<Rightarrow> ws_env \<Rightarrow> ws_manager \<Rightarrow> ws_manager" where
  "check_connection_health w env m =
     (if \<not> wm_connected m then m
      else if max (wm_jitter_ema_ms m) (wm_last_gap_ms m) \<le> 5000 then m
      else if we_now env - wm_last_proactive_at m < 30 then m
      else handle_disconnect w env (m\<lparr>wm_last_proactive_at := we_now env\<rparr>))"

section \<open>Frame lemmas\<close>

lemma upd_pos_objects [simp]: "wm_objects (upd_pos a f m) = (wm_objects m)(a := f (wm_objects m a))"
  by (simp add: upd_pos_def)

lemma upd_pos_frame [simp]:
  "wm_queue (upd_pos a f m) = wm_queue m" "wm_effects (upd_pos a f m) = wm_effects m"
  "wm_positions (upd_pos a f m) = wm_positions m" "wm_adjusters (upd_pos a f m) = wm_adjusters m"
  "wm_reconcilers (upd_pos a f m) = wm_reconcilers m" "wm_account_id (upd_pos a f m) = wm_account_id m"
  "wm_reconnect_attempts (upd_pos a f m) = wm_reconnect_attempts m"
  "wm_reconnecting (upd_pos a f m) = wm_reconnecting m" "wm_connected (upd_pos a f m) = wm_connected m"
  "wm_good_prices (upd_pos a f m) = wm_good_prices m" "wm_last_prices (upd_pos a f m) = wm_last_prices m"
  by (simp_all add: upd_pos_def)

lemma emit_frame [simp]:
  "wm_objects (emit e m) = wm_objects m" "wm_queue (emit e m) = wm_queue m"
  "wm_effects (emit e m) = wm_effects m @ [e]" "wm_positions (emit e m) = wm_positions m"
  "wm_adjusters (emit e m) = wm_adjusters m" "wm_reconcilers (emit e m) = wm_reconcilers m"
  "wm_account_id (emit e m) = wm_account_id m" "wm_reconnect_attempts (emit e m) = wm_reconnect_attempts m"
  "wm_reconnecting (emit e m) = wm_reconnecting m" "wm_connected (emit e m) = wm_connected m"
  "wm_good_prices (emit e m) = wm_good_prices m" "wm_last_prices (emit e m) = wm_last_prices m"
  by (simp_all add: emit_def)

lemma persist_frame [simp]:
  "wm_objects (persist a m) = wm_objects m" "wm_queue (persist a m) = wm_queue m"
  "wm_effects (persist a m) = wm_effects m @ [Persisted (wm_objects m a)]"
  "wm_positions (persist a m) = wm_positions m" "wm_adjusters (persist a m) = wm_adjusters m"
  "wm_reconcilers (persist a m) = wm_reconcilers m"
  "wm_reconnect_attempts (persist a m) = wm_reconnect_attempts m"
  "wm_reconnecting (persist a m) = wm_reconnecting m" "wm_connected (persist a m) = wm_connected m"
  by (simp_all add: persist_def)

lemma ws_enqueue_frame [simp]:
  "wm_objects (ws_enqueue env t m) = wm_objects m"
  "wm_queue (ws_enqueue env t m) = enqueue (we_repr env) (wm_queue m) t"
  "wm_effects (ws_enqueue env t m) = wm_effects m" "wm_positions (ws_enqueue env t m) = wm_positions m"
  "wm_adjusters (ws_enqueue env t m) = wm_adjusters m"
  "wm_reconcilers (ws_enqueue env t m) = wm_reconcilers m"
  "wm_account_id (ws_enqueue env t m) = wm_account_id m"
  "wm_reconnect_attempts (ws_enqueue env t m) = wm_reconnect_attempts m"
  "wm_reconnecting (ws_enqueue env t m) = wm_reconnecting m" "wm_connected (ws_enqueue env t m) = wm_connected m"
  by (simp_all add: ws_enqueue_def)

lemma fold_emit_frame [simp]:
  "wm_objects (fold (\<lambda>i. emit (f i)) xs m) = wm_objects m"
  "wm_queue (fold (\<lambda>i. emit (f i)) xs m) = wm_queue m"
  "wm_effects (fold (\<lambda>i. emit (f i)) xs m) = wm_effects m @ map f xs"
  "wm_positions (fold (\<lambda>i. emit (f i)) xs m) = wm_positions m"
  "wm_reconcilers (fold (\<lambda>i. emit (f i)) xs m) = wm_reconcilers m"
  by (induction xs arbitrary: m) simp_all

lemma fold_enqueue_frame [simp]:
  "wm_objects (fold (ws_enqueue env) ts m) = wm_objects m"
  "wm_effects (fold (ws_enqueue env) ts m) = wm_effects m"
  "wm_queue (fold (ws_enqueue env) ts m) = enqueue_all (we_repr env) ts (wm_queue m)"
  by (induction ts arbitrary: m) (simp_all add: enqueue_all_def)

lemma ensure_pipeline_frame [simp]:
  "wm_objects (ensure_realtime_sl_pipeline env a m) = wm_objects m"
  "wm_effects (ensure_realtime_sl_pipeline env a m) = wm_effects m"
  "wm_queue (ensure_realtime_sl_pipeline env a m) = wm_queue m"
  by (simp_all add: ensure_realtime_sl_pipeline_def Let_def)

lemma initial_protection_frame [simp]:
  "wm_objects (enqueue_initial_protection_orders env a m) = wm_objects m"
  "wm_effects (enqueue_initial_protection_orders env a m) = wm_effects m"
  "wm_queue (enqueue_initial_protection_orders env a m)
     = enqueue_all (we_repr env) (initial_protection_tasks env m (wm_objects m a)) (wm_queue m)"
  by (simp_all add: enqueue_initial_protection_orders_def)

lemma emergency_sl_frame [simp]:
  "wm_objects (enqueue_emergency_sl env a m) = wm_objects m"
  "wm_effects (enqueue_emergency_sl env a m) = wm_effects m"
  by (simp_all add: enqueue_emergency_sl_def Let_def)

lemma refresh_prices_frame [simp]:
  "wm_objects (refresh_prices s x m) = wm_objects m" "wm_queue (refresh_prices s x m) = wm_queue m"
  "wm_effects (refresh_prices s x m) = wm_effects m"
  by (simp_all add: refresh_prices_def Let_def)

lemma cancel_reconciler_frame [simp]:
  "wm_objects (cancel_partial_close_reconciler a m) = wm_objects m"
  "wm_queue (cancel_partial_close_reconciler a m) = wm_queue m"
  "wm_effects (cancel_partial_close_reconciler a m) = wm_effects m"
  by (simp_all add: cancel_partial_close_reconciler_def)

lemma forget_orders_frame [simp]:
  "pc_state (forget_orders ids p) = pc_state p" "pc_machine (forget_orders ids p) = pc_machine p"
  "pc_current_quantity (forget_orders ids p) = pc_current_quantity p"
  "pc_position_id (forget_orders ids p) = pc_position_id p" "pc_symbol (forget_orders ids p) = pc_symbol p"
  "pc_tp_mode (forget_orders ids p) = pc_tp_mode p"
  "length (pc_tp_levels (forget_orders ids p)) = length (pc_tp_levels p)"
  by (simp_all add: forget_orders_def)

lemma cancel_remaining_queue [simp]:
  "wm_queue (cancel_remaining_orders env a m) =
     fst (purge_pending (wm_queue m) (pc_position_id (wm_objects m a)) protective_actions)"
  by (simp add: cancel_remaining_orders_def Let_def)

lemma cancel_remaining_objects:
  "\<exists>f. (f = id \<or> (\<exists>ids. f = forget_orders ids))
     \<and> wm_objects (cancel_remaining_orders env a m) = (wm_objects m)(a := f (wm_objects m a))"
proof (cases "remdups (known_conditional_order_ids (wm_objects m a)
    @ fetch_open_conditional_order_ids env (pc_symbol (wm_objects m a))) = []")
  case True
  then show ?thesis by (intro exI [of _ id]) (simp add: cancel_remaining_orders_def Let_def)
next
  case False
  then show ?thesis
    by (intro exI [of _ "forget_orders (remdups (known_conditional_order_ids (wm_objects m a)
        @ fetch_open_conditional_order_ids env (pc_symbol (wm_objects m a))))"])
      (auto simp: cancel_remaining_orders_def Let_def)
qed

lemma set_machine_frame [simp]:
  "pc_state (set_machine mc p) = pm_state mc" "pc_machine (set_machine mc p) = mc"
  "pc_current_quantity (set_machine mc p) = pc_current_quantity p"
  "pc_symbol (set_machine mc p) = pc_symbol p" "pc_position_id (set_machine mc p) = pc_position_id p"
  "pc_current_sl_price (set_machine mc p) = pc_current_sl_price p"
  by (simp_all add: set_machine_def)

lemma sync_transition_frame [simp]:
  "pc_current_quantity (apply_sync_transition env t s r p) = pc_current_quantity p"
  "pc_symbol (apply_sync_transition env t s r p) = pc_symbol p"
  "pc_position_id (apply_sync_transition env t s r p) = pc_position_id p"
  "pc_current_sl_price (apply_sync_transition env t s r p) = pc_current_sl_price p"
  "pm_state (pc_machine (apply_sync_transition env t s r p)) = pc_state (apply_sync_transition env t s r p)"
  by (simp_all add: apply_sync_transition_def split: sum.splits)

lemma map_of_closed: "map_of (valid_transitions s) ALL_CLOSED \<in> {None, Some CLOSED}"
  by (cases s) simp_all

text \<open>Whatever the machine says, a synchronisation that finds the position flat closes it.\<close>

lemma sync_all_closed [simp]: "pc_state (apply_sync_transition env ALL_CLOSED CLOSED r p) = CLOSED"
  using map_of_closed [of "pm_state (pc_machine p)"]
  by (auto simp: apply_sync_transition_def transition_def Let_def split: option.splits)

end
