(* ===== verification/Queue_Pending.thy ===== *)
theory Queue_Pending
  imports Order_Queue
begin

text \<open>
  Facts on the pending dictionary of the order queue that its clients share: no two keys name the
  same task object, a task enqueued is pending under its key with its parameters, and it leaves the
  other pending tasks alone.
\<close>

section \<open>Pending tasks are not shared\<close>

definition dict_inj :: "('k \<times> 'v) list \<Rightarrow> bool" where
  "dict_inj d = inj_on snd (set d)"

lemma dict_inj_subset: "dict_inj d \<Longrightarrow> set d' \<subseteq> set d \<Longrightarrow> dict_inj d'"
  by (simp add: dict_inj_def inj_on_subset)

lemma dict_inj_eq: "dict_inj d \<Longrightarrow> (k, a) \<in> set d \<Longrightarrow> (k', a) \<in> set d \<Longrightarrow> k' = k"
  unfolding dict_inj_def using inj_onD [of snd "set d" "(k', a)" "(k, a)"] by simp

lemma dict_inj_set:
  assumes "dict_inj d" and "\<And>k'. (k', a) \<in> set d \<Longrightarrow> k' = k"
  shows "dict_inj (dict_set d k a)"
proof -
  have "inj_on snd (insert (k, a) (set d))"
    using assms by (auto simp: dict_inj_def)
  then show ?thesis
    unfolding dict_inj_def using set_dict_set [of d k a] by (rule inj_on_subset)
qed

lemma dict_inj_pop: "dict_inj d \<Longrightarrow> dict_inj (dict_pop d k)"
  by (rule dict_inj_subset [OF _ set_dict_pop])

lemma set_dict_pop_key: "distinct (map fst d) \<Longrightarrow> (k', v) \<in> set (dict_pop d k) \<Longrightarrow> k' \<noteq> k \<and> (k', v) \<in> set d"
proof (induction d k rule: dict_pop.induct)
  case (2 k0 v0 d k)
  then show ?case by (cases "k0 = k") (auto simp: rev_image_eqI)
qed simp

lemma coalesce_quickfire_inj:
  assumes "queue_wf q" and "dict_inj (qs_pending q)" and "(ckey, a) \<in> set (qs_pending q)"
  shows "dict_inj (qs_pending (coalesce_quickfire rp q t ckey a))"
proof -
  have d: "distinct (map fst (qs_pending q))" using assms(1) by (simp add: queue_wf_def)
  have none: "False" if "(k', a) \<in> set (dict_pop (qs_pending q) ckey)" for k'
    using set_dict_pop_key [OF d that] dict_inj_eq [OF assms(2,3)] by blast
  show ?thesis
    using dict_inj_set [OF dict_inj_pop [OF assms(2)], of a ckey "key_of rp t"] none assms(2)
    by (auto simp: coalesce_quickfire_def Let_def)
qed

lemma put_new_inj:
  assumes "queue_wf q" and "dict_inj (qs_pending q)"
  shows "dict_inj (qs_pending (put_new rp q t))"
proof -
  have "(k', qs_next q) \<notin> set (qs_pending q)" for k'
    using assms(1) by (auto simp: queue_wf_def)
  then show ?thesis
    using dict_inj_set [OF assms(2), of "qs_next q" "key_of rp t"] by (simp add: put_new_def Let_def)
qed

lemma enqueue_inj:
  assumes "queue_wf q" and "dict_inj (qs_pending q)"
  shows "dict_inj (qs_pending (enqueue rp q t))"
  using assms coalesce_quickfire_inj [OF assms] put_new_inj [OF assms]
  by (auto simp: enqueue_def Let_def coalesce_existing_def dest: find_quickfire_in
      split: option.splits if_splits)

lemma finish_inj:
  assumes "queue_wf q" and "dict_inj (qs_pending q)" and "q_finish rp now q out = Some q'"
  shows "dict_inj (qs_pending q')"
proof -
  obtain key a where infl: "qs_inflight q = Some (key, a, Executing)"
    using assms(3) by (auto simp: q_finish_def split: option.splits loop_phase.splits)
  let ?q1 = "q\<lparr>qs_executing := dict_pop (qs_executing q) key\<rparr>"
  have "dict_inj (qs_pending (handle_max_retries rp now ?q1 task err))"
    "dict_inj (qs_pending (handle_fatal_error rp now ?q1 task err))" for task err
    using assms(1,2) enqueue_inj [of "?q1"] enqueue_inj [of "?q1\<lparr>qs_audit := au\<rparr>" for au]
    by (auto simp: handle_max_retries_def handle_fatal_error_def Let_def intro: enqueue_inj)
  then show ?thesis
    using assms(2,3) infl
    by (cases out) (auto simp: q_finish_def Let_def clear_inflight_def dict_inj_pop split: if_splits)
qed

lemma queue_step_inj:
  assumes "queue_step rp q q'" and "queue_wf q" and "dict_inj (qs_pending q)"
  shows "dict_inj (qs_pending q')"
  using assms(1)
proof (cases rule: queue_step.cases)
  case (step_purge pid actions)
  then show ?thesis
    using dict_inj_subset [OF assms(3)] by (simp add: purge_pending_def Let_def)
next
  case (step_finish now out)
  then show ?thesis using finish_inj assms(2,3) by blast
qed (use assms(2,3) enqueue_inj in \<open>auto simp: q_dequeue_def q_start_def q_requeue_def q_wake_def
      q_stop_def Let_def split: option.splits if_splits loop_phase.splits\<close>)

lemma reachable_inj: "queue_reachable rp q \<Longrightarrow> dict_inj (qs_pending q)"
proof (induction rule: queue_reachable.induct)
  case reach_new
  show ?case by (simp add: new_queue_def dict_inj_def)
next
  case (reach_step q q')
  then show ?case using queue_step_inj reachable_wf by blast
qed

section \<open>What enqueue leaves pending\<close>

lemma enqueue_pending_mono:
  assumes "dict_get (qs_pending q) k \<noteq> None" and "ot_action t \<noteq> ''replace_sl''"
  shows "dict_get (qs_pending (enqueue rp q t)) k \<noteq> None"
  using assms by (auto simp: enqueue_def Let_def coalesce_existing_def put_new_def split: option.splits)

lemma enqueue_own_key:
  assumes "ot_action t \<noteq> ''replace_sl''"
  shows "\<exists>b. dict_get (qs_pending (enqueue rp q t)) (key_of rp t) = Some b
    \<and> ot_params (qs_store (enqueue rp q t) b) = ot_params t"
  using assms
  by (auto simp: enqueue_def Let_def coalesce_existing_def put_new_def refresh_task_def split: option.splits)

lemma enqueue_keeps_other:
  assumes "queue_wf q" and "dict_inj (qs_pending q)" and "dict_get (qs_pending q) k = Some b"
    and "key_of rp t \<noteq> k" and "ot_action t \<noteq> ''replace_sl''"
  shows "dict_get (qs_pending (enqueue rp q t)) k = Some b" (is ?p)
    and "qs_store (enqueue rp q t) b = qs_store q b" (is ?s)
proof -
  have "b < qs_next q" using assms(1) dict_get_in_set [OF assms(3)] by (auto simp: queue_wf_def)
  moreover have "a \<noteq> b" if "dict_get (qs_pending q) (key_of rp t) = Some a" for a
    using dict_inj_eq [OF assms(2) dict_get_in_set [OF assms(3)]] dict_get_in_set [OF that] assms(4) by blast
  ultimately show ?p ?s
    using assms(3-5)
    by (auto simp: enqueue_def Let_def coalesce_existing_def put_new_def split: option.splits)
qed

end
