(* ===== verification/Ws_Recovery.thy ===== *)
theory Ws_Recovery
  imports Ws_Manager Queue_Pending
begin

text \<open>
  What the WebSocket manager guarantees: a closed position is cleaned up, a repeated fill does not
  advance the take-profit ladder twice, and after a lost connection the local state is the
  exchange's again, or every open position is on its way to an emergency close.
\<close>

section \<open>Closing\<close>

definition flat_live :: "live_result \<Rightarrow> bool" where
  "flat_live l = (case l of LiveNone \<Rightarrow> True | LiveSnapshot sz mk \<Rightarrow> sz = 0 | _ \<Rightarrow> False)"

lemma sync_position_flat:
  "flat_live (we_live env (pc_symbol (wm_objects m a))) \<Longrightarrow>
     sync_position env b r a m = (sync_flat env r a m, True)"
  by (auto simp: flat_live_def sync_position_def Let_def split: live_result.splits)

lemma ws_apply_transition_frame:
  assumes "ws_apply_transition env t r md a m = (m', s)"
  shows "wm_queue m' = wm_queue m" and "pc_symbol (wm_objects m' a) = pc_symbol (wm_objects m a)"
    and "pc_position_id (wm_objects m' a) = pc_position_id (wm_objects m a)"
    and "\<forall>b. b \<noteq> a \<longrightarrow> wm_objects m' b = wm_objects m b"
  using assms
  by (auto simp: ws_apply_transition_def attempt_state_sync_def sync_position_def sync_flat_def Let_def
      force_open_def split: sum.splits live_result.splits)

lemma ws_apply_transition_ok:
  assumes "map_of (valid_transitions (pm_state (pc_machine (wm_objects m a)))) t = Some s'"
    and "t \<noteq> SYNC_COMPLETE"
  shows "\<exists>mc. pm_state mc = s' \<and> ws_apply_transition env t r md a m = (upd_pos a (set_machine mc) m, Some s')"
proof -
  let ?c = "\<lparr>tc_trigger = t, tc_reason = r, tc_metadata = md, tc_now = we_iso env\<rparr>"
  have "\<exists>mc. transition (pc_machine (wm_objects m a)) ?c = Inr mc \<and> pm_state mc = s'"
    using assms by (auto simp: transition_def Let_def)
  then show ?thesis by (auto simp: ws_apply_transition_def)
qed

lemma all_closed_flat:
  assumes "flat_live (we_live env (pc_symbol (wm_objects m a)))"
    and "pc_current_quantity (wm_objects m a) = 0"
    and "ws_apply_transition env ALL_CLOSED r md a m = (m', s)"
  shows "pc_state (wm_objects m' a) = CLOSED \<and> pc_current_quantity (wm_objects m' a) = 0"
proof (cases "map_of (valid_transitions (pm_state (pc_machine (wm_objects m a)))) ALL_CLOSED")
  case None
  then obtain e where "m' = sync_flat env (Some e) a m"
    using assms(1,3) sync_position_flat [OF assms(1), of False]
    by (auto simp: ws_apply_transition_def transition_def attempt_state_sync_def)
  with assms(2) show ?thesis by (simp add: sync_flat_def)
next
  case (Some s')
  with map_of_closed [of "pm_state (pc_machine (wm_objects m a))"] have "s' = CLOSED" by auto
  with ws_apply_transition_ok [OF Some, of env r md] assms(2,3) show ?thesis by auto
qed

lemma close_position_flat:
  assumes "flat_live (we_live env (pc_symbol (wm_objects m a)))"
    and "pc_current_quantity (wm_objects m a) = 0"
    and "ws_close_position env t r md a m = (m', s)"
  shows "pc_state (wm_objects m' a) = CLOSED" and "pc_current_quantity (wm_objects m' a) = 0"
    and "pc_position_id (wm_objects m' a) = pc_position_id (wm_objects m a)"
    and "wm_queue m' = wm_queue m"
proof -
  obtain m1 where m1: "ws_apply_transition env ALL_CLOSED r md a m1 = (m', s)"
    "pc_current_quantity (wm_objects m1 a) = 0" "pc_symbol (wm_objects m1 a) = pc_symbol (wm_objects m a)"
    "pc_position_id (wm_objects m1 a) = pc_position_id (wm_objects m a)" "wm_queue m1 = wm_queue m"
  proof (cases "position_enabled (pm_state (pc_machine (wm_objects m a))) t")
    case True
    obtain m1 s1 where a1: "ws_apply_transition env t r md a m = (m1, s1)" by force
    have "pc_current_quantity (wm_objects m1 a) = 0"
      using True a1 assms(2)
      by (auto simp: ws_apply_transition_def position_enabled_def transition_def Let_def split: option.splits)
    with True a1 assms(3) ws_apply_transition_frame [OF a1] show ?thesis
      by (intro that [of m1]) (auto simp: ws_close_position_def Let_def)
  next
    case False
    with assms(2,3) show ?thesis by (intro that [of m]) (auto simp: ws_close_position_def Let_def)
  qed
  note f = ws_apply_transition_frame [OF m1(1)]
  show "pc_state (wm_objects m' a) = CLOSED" "pc_current_quantity (wm_objects m' a) = 0"
    using all_closed_flat [OF _ m1(2) m1(1)] assms(1) m1(3) by simp_all
  show "pc_position_id (wm_objects m' a) = pc_position_id (wm_objects m a)" "wm_queue m' = wm_queue m"
    using f m1(4,5) by simp_all
qed

lemma purge_clears:
  "(k, b) \<in> set (qs_pending (fst (purge_pending q pid actions))) \<Longrightarrow>
     \<not> (starts_with k (pid @ '':'')
        \<and> ot_action (qs_store (fst (purge_pending q pid actions)) b) \<in> actions)"
  by (auto simp: purge_pending_def purge_matches_def Let_def)

text \<open>No protective order of the position is left in the queue's books.\<close>

definition no_protective_pending :: "queue_state \<Rightarrow> string \<Rightarrow> bool" where
  "no_protective_pending q pid =
     (\<forall>(k, b) \<in> set (qs_pending q).
        \<not> (starts_with k (pid @ '':'') \<and> ot_action (qs_store q b) \<in> protective_actions))"

lemma cancel_remaining_clears:
  "no_protective_pending (wm_queue (cancel_remaining_orders env a m)) (pc_position_id (wm_objects m a))"
  by (auto simp: no_protective_pending_def dest: purge_clears)

section \<open>Properties\<close>

text \<open>A position the exchange reports as closed is closed here, and nothing keeps protecting it.
  When a position update of size zero arrives for a tracked position that is not closed yet, and the
  exchange confirms that the position is flat when asked, then whatever lifecycle state the position
  was in, it ends with quantity zero in state CLOSED, no protective task of it is pending in the
  queue, and the last thing the handler does is to persist exactly this position.\<close>

theorem closed_update_cleans:
  assumes "find_position m (py_str (we_repr env) (py_or (get_default e ''symbol'' (VStr [])) (VStr []))) = Some a"
    and "coerce_float (get_default e ''size'' (get_none e ''qty'')) 0 = 0"
    and "pc_state (wm_objects m a) \<noteq> CLOSED \<or> 0 < pc_current_quantity (wm_objects m a)"
    and "flat_live (we_live env (pc_symbol (wm_objects m a)))"
    and "m' = handle_position_update env e m"
  shows "pc_state (wm_objects m' a) = CLOSED \<and> pc_current_quantity (wm_objects m' a) = 0
    \<and> no_protective_pending (wm_queue m') (pc_position_id (wm_objects m' a))
    \<and> last (wm_effects m') = Persisted (wm_objects m' a)"
proof -
  let ?m0 = "upd_pos a (\<lambda>p. p\<lparr>pc_current_quantity := 0\<rparr>) m"
  let ?r = "''Position closed: '' @ py_str (we_repr env) (get_default e ''reason'' (VStr ''unknown''))"
  let ?md = "Some (transition_metadata_from_event e [])"
  obtain m1 s where c: "ws_close_position env MANUAL_CLOSE ?r ?md a ?m0 = (m1, s)" by force
  have m': "m' = persist a (cancel_remaining_orders env a m1)"
    using assms(1,2,3,5) c by (simp add: handle_position_update_def Let_def)
  have f: "pc_state (wm_objects m1 a) = CLOSED" "pc_current_quantity (wm_objects m1 a) = 0"
    using close_position_flat [OF _ _ c] assms(4) by auto
  obtain g where g: "g = id \<or> (\<exists>ids. g = forget_orders ids)"
    "wm_objects (cancel_remaining_orders env a m1) = (wm_objects m1)(a := g (wm_objects m1 a))"
    using cancel_remaining_objects [of env a m1] by blast
  show ?thesis
    unfolding m' using f g cancel_remaining_clears [of env a m1] by auto
qed

lemma settle_keeps [simp]:
  "pc_sl_exchange_order_id (settle_state ts p) = pc_sl_exchange_order_id p"
  "pc_tp_mode (settle_state ts p) = pc_tp_mode p" "pc_position_id (settle_state ts p) = pc_position_id p"
  "pc_symbol (settle_state ts p) = pc_symbol p"
  by (simp_all add: settle_state_def Let_def)

lemma record_fill_keeps [simp]:
  "pc_sl_exchange_order_id (record_fill ts i l b p) = pc_sl_exchange_order_id p"
  "pc_tp_mode (record_fill ts i l b p) = pc_tp_mode p"
  "pc_position_id (record_fill ts i l b p) = pc_position_id p"
  "pc_symbol (record_fill ts i l b p) = pc_symbol p"
  by (simp_all add: record_fill_def)

lemma settle_not_entering:
  "pm_state (pc_machine p) \<noteq> ENTERING \<Longrightarrow> pc_state (settle_state ts p) \<noteq> ENTERING"
  by (cases "pm_state (pc_machine p)")
     (auto simp: settle_state_def transition_all_closed_def transition_partial_close_def
       position_enabled_def pm_state_fire Let_def)

lemma run_engine_position:
  assumes "run_engine env src a i m = Inr m1"
  obtains s where "handle_tp_triggered (we_repr env) (engine_env env (wm_objects m a) src)
      \<lparr>es_position = wm_objects m a, es_queue = wm_queue m, es_audit = []\<rparr> (int i) = Inr s"
    and "wm_objects m1 = (wm_objects m)(a := es_position s)" and "wm_queue m1 = es_queue s"
  using assms by (auto simp: run_engine_def Let_def case_prod_unfold split: sum.splits)

text \<open>What handling a level leaves of the position: the level is triggered, ids and mode stay.\<close>

definition fill_of :: "nat \<Rightarrow> position_context \<Rightarrow> position_context \<Rightarrow> bool" where
  "fill_of i p p' =
     (pc_sl_exchange_order_id p' = pc_sl_exchange_order_id p \<and> pc_tp_mode p' = pc_tp_mode p
      \<and> pc_tp_levels p' = (pc_tp_levels p)[i := (pc_tp_levels p ! i)\<lparr>tl_status := ''triggered''\<rparr>]
      \<and> pc_state p' \<noteq> ENTERING)"

lemma run_engine_fill:
  assumes "run_engine env src a i m = Inr m1" and "i < length (pc_tp_levels (wm_objects m a))"
    and "tl_status (pc_tp_levels (wm_objects m a) ! i) \<noteq> ''triggered''"
    and "int i \<notin> pc_dispatched_sl_levels (wm_objects m a)"
    and "pm_state (pc_machine (wm_objects m a)) \<noteq> ENTERING"
  shows "fill_of i (wm_objects m a) (wm_objects m1 a)"
proof -
  obtain s where s: "handle_tp_triggered (we_repr env) (engine_env env (wm_objects m a) src)
      \<lparr>es_position = wm_objects m a, es_queue = wm_queue m, es_audit = []\<rparr> (int i) = Inr s"
    and o1: "wm_objects m1 = (wm_objects m)(a := es_position s)"
    using run_engine_position [OF assms(1)] by blast
  from s show ?thesis
  proof (cases rule: handle_ok_cases)
    case dup
    with assms(3,4) show ?thesis by simp
  next
    case (fill level is_last)
    with assms(5) o1 show ?thesis by (simp add: fill_of_def settle_not_entering)
  qed
qed

lemma forget_level_keeps [simp]:
  "tl_exchange_order_id (forget_level ids l) = tl_exchange_order_id l"
  "tl_status (forget_level ids l) = ''triggered'' \<longleftrightarrow> tl_status l = ''triggered''"
  "level_addressed xs (forget_level ids l) = level_addressed xs l"
  by (simp_all add: forget_level_def level_addressed_def split: option.splits)

lemma forget_keeps_triggered:
  assumes "g = id \<or> (\<exists>ids. g = forget_orders ids)"
  shows "list_ex (\<lambda>l. tl_status l = ''triggered'' \<and> level_addressed xs l) (pc_tp_levels p) \<Longrightarrow>
      list_ex (\<lambda>l. tl_status l = ''triggered'' \<and> level_addressed xs l) (pc_tp_levels (g p))"
    and "list_ex (level_addressed xs) (pc_tp_levels (g p)) = list_ex (level_addressed xs) (pc_tp_levels p)"
    and "pc_sl_exchange_order_id (g p) \<in> {None, pc_sl_exchange_order_id p}"
    and "pc_tp_levels (g p) = [] \<longleftrightarrow> pc_tp_levels p = []"
    and "pc_state (g p) = pc_state p" and "pc_tp_mode (g p) = pc_tp_mode p"
  using assms
  by (elim disjE exE; simp add: forget_orders_def list_ex_iff split: option.splits)+

lemma match_tp_level_range:
  assumes "match_tp_level rp p e = Some i"
  shows "i < length (pc_tp_levels p)" and "tl_status (pc_tp_levels p ! i) \<noteq> ''triggered''"
    and "event_ids rp e \<noteq> [] \<longrightarrow> level_addressed (event_ids rp e) (pc_tp_levels p ! i)"
proof -
  have c: "i < length (pc_tp_levels p) \<and> tl_status (pc_tp_levels p ! i) \<noteq> ''triggered''"
    if "closest_open_tp_level_index p x = Some i" for x
    using that least_cost_Some [of "price_cost x" "pc_tp_levels p" i]
    by (auto simp: closest_open_tp_level_index_def price_cost_def split: if_splits)
  show "i < length (pc_tp_levels p)" "tl_status (pc_tp_levels p ! i) \<noteq> ''triggered''"
    "event_ids rp e \<noteq> [] \<longrightarrow> level_addressed (event_ids rp e) (pc_tp_levels p ! i)"
    using assms first_addressed_Some [of "event_ids rp e" 0 "pc_tp_levels p" i] c
    by (auto simp: match_tp_level_def Let_def split: if_splits option.splits)
qed

lemma multi_tp_matched:
  assumes "handle_multi_tp_event env a e m = Inr m1"
    and "\<not> event_matches_triggered_level (we_repr env) (wm_objects m a) e"
    and "match_tp_level (we_repr env) (wm_objects m a) e = Some i"
  obtains m0 g where "run_engine env ''multi_tp'' a i m = Inr m0"
    and "g = id \<or> (\<exists>ids. g = forget_orders ids)" and "wm_objects m1 = (wm_objects m0)(a := g (wm_objects m0 a))"
    and "last (wm_effects m1) = Persisted (wm_objects m1 a)"
proof -
  obtain m0 where m0: "run_engine env ''multi_tp'' a i m = Inr m0"
    using assms by (auto simp: handle_multi_tp_event_def Let_def split: sum.splits)
  let ?m2 = "cancel_partial_close_reconciler a m0"
  obtain g where g: "g = id \<or> (\<exists>ids. g = forget_orders ids)"
    "wm_objects (cancel_remaining_orders env a ?m2) = (wm_objects ?m2)(a := g (wm_objects ?m2 a))"
    using cancel_remaining_objects [of env a ?m2] by blast
  have "m1 = persist a (cancel_remaining_orders env a ?m2) \<or> m1 = persist a ?m2"
    using assms m0 by (simp add: handle_multi_tp_event_def Let_def split: if_splits)
  with m0 g that [of m0 g] that [of m0 id] show ?thesis by auto
qed

text \<open>Duplicates of a fill do not advance the ladder. When a take-profit fill that names its order
  has been routed to an open multi-level position, routing the same event again, at any later time
  and whatever the exchange answers then, changes neither a position nor the queue.\<close>

theorem tp_event_idempotent:
  assumes "route_lifecycle_event env a e m = Inr (m1, True)"
    and "is_tp_trigger_event (we_repr env) (wm_objects m a) e"
    and "\<not> is_sl_trigger_event (we_repr env) (wm_objects m a) e"
    and "event_ids (we_repr env) e \<noteq> []"
    and "pc_tp_mode (wm_objects m a) = ''multi''" and "pc_tp_levels (wm_objects m a) \<noteq> []"
    and "\<forall>i. int i \<in> pc_dispatched_sl_levels (wm_objects m a) \<longrightarrow> i < length (pc_tp_levels (wm_objects m a)) \<longrightarrow>
           tl_status (pc_tp_levels (wm_objects m a) ! i) = ''triggered''"
    and "pc_state (wm_objects m a) \<noteq> ENTERING" and "pm_state (pc_machine (wm_objects m a)) \<noteq> ENTERING"
    and "we_repr env' = we_repr env"
  shows "\<exists>m2. route_lifecycle_event env' a e m1 = Inr (m2, True)
    \<and> wm_objects m2 = wm_objects m1 \<and> wm_queue m2 = wm_queue m1"
proof -
  let ?rp = "we_repr env" let ?p = "wm_objects m a" let ?ids = "event_ids ?rp e"
  have route: "route_lifecycle_event x a e mm = (case handle_multi_tp_event x a e mm of
      Inl err \<Rightarrow> Inl err | Inr m2 \<Rightarrow> Inr (m2, True))"
    if "pc_state (wm_objects mm a) \<noteq> ENTERING" "\<not> is_sl_trigger_event (we_repr x) (wm_objects mm a) e"
      "is_tp_trigger_event (we_repr x) (wm_objects mm a) e" "pc_tp_mode (wm_objects mm a) = ''multi''"
      "pc_tp_levels (wm_objects mm a) \<noteq> []" for x mm
    using that by (simp add: route_lifecycle_event_def handle_entry_fill_event_def
        handle_sl_triggered_event_def handle_tp_triggered_event_def Let_def)
  have h1: "handle_multi_tp_event env a e m = Inr m1"
    using assms(1) route [of m env] assms(2,3,5,6,8) by (auto split: sum.splits)
  show ?thesis
  proof (cases "\<not> event_matches_triggered_level ?rp ?p e \<and> match_tp_level ?rp ?p e \<noteq> None")
    case False
    then have o1: "wm_objects m1 = wm_objects m" "wm_queue m1 = wm_queue m"
      using h1 by (auto simp: handle_multi_tp_event_def Let_def split: if_splits option.splits)
    have "\<exists>m2. handle_multi_tp_event env' a e m1 = Inr m2 \<and> wm_objects m2 = wm_objects m1
        \<and> wm_queue m2 = wm_queue m1"
      using False o1 assms(10) by (auto simp: handle_multi_tp_event_def Let_def)
    with route [of m1 env'] o1 assms(2,3,5,6,8,10) show ?thesis by auto
  next
    case True
    then obtain i where i: "match_tp_level ?rp ?p e = Some i" by auto
    note r = match_tp_level_range [OF i]
    obtain m0 g where m0: "run_engine env ''multi_tp'' a i m = Inr m0"
      and g: "g = id \<or> (\<exists>ids. g = forget_orders ids)" "wm_objects m1 a = g (wm_objects m0 a)"
      using multi_tp_matched [OF h1 _ i] True by (metis fun_upd_same)
    have f: "fill_of i ?p (wm_objects m0 a)"
      using run_engine_fill [OF m0 r(1,2) _ assms(9)] assms(7) r(1,2) by blast
    let ?q = "wm_objects m0 a"
    have trig: "list_ex (\<lambda>l. tl_status l = ''triggered'' \<and> level_addressed ?ids l) (pc_tp_levels ?q)"
      using f r assms(4) by (auto simp: fill_of_def list_ex_iff level_addressed_def
          intro!: bexI [OF _ set_update_memI])
    note k1 = forget_keeps_triggered(1) [OF g(1) trig, folded g(2)]
    note k = forget_keeps_triggered(3-6) [OF g(1), where p = ?q, folded g(2)]
    have dup: "event_matches_triggered_level ?rp (wm_objects m1 a) e"
      using k1 assms(4) by (simp add: event_matches_triggered_level_def)
    have "is_tp_trigger_event ?rp (wm_objects m1 a) e"
      using assms(2,4) k1 by (auto simp: is_tp_trigger_event_def list_ex_iff split: if_splits)
    moreover have "\<not> is_sl_trigger_event ?rp (wm_objects m1 a) e"
      using assms(3) k(1) f by (auto simp: is_sl_trigger_event_def Let_def fill_of_def split: option.splits if_splits)
    moreover have "pc_state (wm_objects m1 a) \<noteq> ENTERING" "pc_tp_mode (wm_objects m1 a) = ''multi''"
      "pc_tp_levels (wm_objects m1 a) \<noteq> []"
      using k(2-4) f assms(5,6) by (auto simp: fill_of_def)
    moreover have "handle_multi_tp_event env' a e m1 = Inr (cancel_partial_close_reconciler a m1)"
      using dup assms(10) by (simp add: handle_multi_tp_event_def)
    ultimately show ?thesis using route [of m1 env'] assms(10) by simp
  qed
qed

subsection \<open>Synchronisation\<close>

lemma sync_complete_state:
  "pm_state (pc_machine p) = RECONNECTING \<Longrightarrow>
     pc_state (apply_sync_transition env SYNC_COMPLETE OPEN r p)
       = (case pm_pre_reconnect (pc_machine p) of None \<Rightarrow> OPEN | Some s \<Rightarrow> s)"
  by (auto simp: apply_sync_transition_def transition_def Let_def split: option.splits)


subsection \<open>Reconnecting\<close>

text \<open>The waiting times among the effects.\<close>

fun sleeps :: "ws_effect list \<Rightarrow> real list" where
  "sleeps [] = []"
| "sleeps (Slept t # es) = t # sleeps es"
| "sleeps (_ # es) = sleeps es"

lemma sleeps_append [simp]: "sleeps (es @ fs) = sleeps es @ sleeps fs"
  by (induction es rule: sleeps.induct) simp_all

lemma restore_frame [simp]:
  "wm_objects (restore_realtime_sl_pipelines env m) = wm_objects m"
  "wm_effects (restore_realtime_sl_pipelines env m) = wm_effects m"
  "wm_connected (restore_realtime_sl_pipelines env m) = wm_connected m"
proof -
  have "wm_objects (fold f xs m) = wm_objects m \<and> wm_effects (fold f xs m) = wm_effects m
      \<and> wm_connected (fold f xs m) = wm_connected m"
    if "f = (\<lambda>a m. if is_final (pc_state (wm_objects m a)) then m else ensure_realtime_sl_pipeline env a m)"
    for f xs
    unfolding that by (induction xs arbitrary: m) (simp_all add: ensure_realtime_sl_pipeline_def Let_def)
  then show "wm_objects (restore_realtime_sl_pipelines env m) = wm_objects m"
    "wm_effects (restore_realtime_sl_pipelines env m) = wm_effects m"
    "wm_connected (restore_realtime_sl_pipelines env m) = wm_connected m"
    by (simp_all add: restore_realtime_sl_pipelines_def)
qed

lemma sync_position_quiet:
  "sleeps (wm_effects (fst (sync_position env b r a m))) = sleeps (wm_effects m)"
  "wm_connected (fst (sync_position env b r a m)) = wm_connected m"
  by (auto simp: sync_position_def sync_flat_def sync_protection_def enqueue_emergency_sl_def Let_def
      refresh_prices_def split: live_result.splits option.splits)

lemma sync_all_quiet:
  "sleeps (wm_effects (fst (sync_all env as m))) = sleeps (wm_effects m)
     \<and> wm_connected (fst (sync_all env as m)) = wm_connected m"
proof (induction as arbitrary: m)
  case (Cons a as)
  show ?case
    using Cons [of "fst (sync_position env True None a m)"] sync_position_quiet [of env True None a m]
    by (auto split: prod.splits)
qed simp

lemma ws_start_frame:
  assumes "ws_start env m = (m', ok)"
  shows "wm_effects m' = wm_effects m" and "ok \<Longrightarrow> wm_connected m'"
  using assms by (auto simp: ws_start_def Let_def split: if_splits)

lemma reconnect_once_outcome:
  assumes "reconnect_once env m = (m', ok)"
  shows "sleeps (wm_effects m') = sleeps (wm_effects m) @ [reconnect_backoff (wm_reconnect_attempts m)]"
    and "ok \<Longrightarrow> wm_connected m' \<and> wm_reconnect_attempts m' = 0"
proof -
  let ?m1 = "(emit (Slept (reconnect_backoff (wm_reconnect_attempts m))) m)
      \<lparr>wm_reconnect_attempts := wm_reconnect_attempts m + 1, wm_adjusters := []\<rparr>"
  obtain m2 st where st: "ws_start env ?m1 = (m2, st)" by force
  obtain m3 sy where sy: "full_state_sync env m2 = (m3, sy)" by force
  note f = ws_start_frame [OF st] sync_all_quiet [of env "tracked_positions m2" m2]
  have m3: "sleeps (wm_effects m3) = sleeps (wm_effects m2)" "wm_connected m3 = wm_connected m2"
    using f(3) sy by (simp_all add: full_state_sync_def)
  have "m' = (if \<not> st then m2\<lparr>wm_reconnect_attempts := wm_reconnect_attempts m + 1\<rparr>
      else if \<not> sy then m3\<lparr>wm_reconnect_attempts := wm_reconnect_attempts m + 1\<rparr>
      else (restore_realtime_sl_pipelines env m3)\<lparr>wm_reconnect_attempts := 0\<rparr>)" and ok: "ok = (st \<and> sy)"
    using assms st sy by (simp_all add: reconnect_once_def Let_def split: if_splits)
  with f(1,2) m3 show "sleeps (wm_effects m') = sleeps (wm_effects m) @ [reconnect_backoff (wm_reconnect_attempts m)]"
    and "ok \<Longrightarrow> wm_connected m' \<and> wm_reconnect_attempts m' = 0" by auto
qed

lemma reconnect_backoff_bounds: "1 \<le> reconnect_backoff n \<and> reconnect_backoff n \<le> 60"
  by (simp add: reconnect_backoff_def)

lemma close_task_key:
  "key_of rp (emergency_close_task env m r p) = pc_position_id p @ '':emergency_market_close''"
  by (simp add: emergency_close_task_def task_key_def)

lemma close_one_frame [simp]: "wm_objects (emergency_close_one env r a m) = wm_objects m"
  "wm_effects (emergency_close_one env r a m) = wm_effects m"
  "wm_positions (emergency_close_one env r a m) = wm_positions m"
  by (simp_all add: emergency_close_one_def Let_def)

lemma close_fold_frame [simp]: "wm_objects (fold (emergency_close_one env r) as m) = wm_objects m"
  "wm_effects (fold (emergency_close_one env r) as m) = wm_effects m"
  "wm_positions (fold (emergency_close_one env r) as m) = wm_positions m"
  by (induction as arbitrary: m) simp_all

definition close_pending :: "ws_manager \<Rightarrow> string \<Rightarrow> bool" where
  "close_pending m pid \<longleftrightarrow> dict_get (qs_pending (wm_queue m)) (pid @ '':emergency_market_close'') \<noteq> None"

lemma close_one_mono: "close_pending m pid \<Longrightarrow> close_pending (emergency_close_one env r a m) pid"
  using enqueue_pending_mono
  by (simp add: close_pending_def emergency_close_one_def emergency_close_task_def Let_def)

lemma close_one_pending:
  assumes "0 < pc_current_quantity (wm_objects m a)" and "pc_state (wm_objects m a) \<noteq> CLOSED"
  shows "close_pending (emergency_close_one env r a m) (pc_position_id (wm_objects m a))"
  using assms enqueue_own_key [of "emergency_close_task env m r (wm_objects m a)" "we_repr env" "wm_queue m"]
  by (auto simp: close_pending_def emergency_close_one_def close_task_key [unfolded emergency_close_task_def]
      Let_def emergency_close_task_def)

lemma close_fold_mono:
  "close_pending m pid \<Longrightarrow> close_pending (fold (emergency_close_one env r) as m) pid"
  by (induction as arbitrary: m) (simp_all add: close_one_mono)

lemma close_fold_pending:
  assumes "a \<in> set as" and "0 < pc_current_quantity (wm_objects m a)" and "pc_state (wm_objects m a) \<noteq> CLOSED"
  shows "close_pending (fold (emergency_close_one env r) as m) (pc_position_id (wm_objects m a))"
  using assms
proof (induction as arbitrary: m)
  case (Cons b as)
  show ?case
  proof (cases "a = b")
    case True
    with close_one_pending [OF Cons.prems(2,3)] show ?thesis by (simp add: close_fold_mono)
  next
    case False
    with Cons.IH [of "emergency_close_one env r b m"] Cons.prems show ?thesis by simp
  qed
qed simp

lemma reconnect_loop_sleeps:
  assumes "reconnect_loop w m = (m', ok)"
  shows "\<exists>ts. sleeps (wm_effects m') = sleeps (wm_effects m) @ ts
    \<and> length ts \<le> max_reconnect_attempts - wm_reconnect_attempts m \<and> (\<forall>t \<in> set ts. 1 \<le> t \<and> t \<le> 60)"
  using assms
proof (induction w m rule: reconnect_loop.induct)
  case (1 w m)
  let ?n = "wm_reconnect_attempts m"
  show ?case
  proof (cases "?n < max_reconnect_attempts")
    case False
    with 1(2) show ?thesis by (auto simp: reconnect_loop.simps [of w m] emergency_close_all_def Let_def)
  next
    case True
    obtain m1 ok1 where o: "reconnect_once (w ?n) m = (m1, ok1)" by force
    note s = reconnect_once_outcome(1) [OF o]
    show ?thesis
    proof (cases ok1)
      case True
      with \<open>?n < max_reconnect_attempts\<close> 1(2) o s reconnect_backoff_bounds [of ?n] show ?thesis
        by (auto simp: reconnect_loop.simps [of w m] Let_def)
    next
      case False
      with o have n1: "wm_reconnect_attempts m1 = Suc ?n" by (simp add: reconnect_once_fails)
      have "reconnect_loop w m1 = (m', ok)"
        using 1(2) True False o by (simp add: reconnect_loop.simps [of w m] Let_def)
      from 1(1) [OF refl True o [symmetric] refl False this] obtain ts where
        "sleeps (wm_effects m') = sleeps (wm_effects m1) @ ts"
        "length ts \<le> max_reconnect_attempts - wm_reconnect_attempts m1" "\<forall>t \<in> set ts. 1 \<le> t \<and> t \<le> 60"
        by auto
      with s n1 True reconnect_backoff_bounds [of ?n] show ?thesis
        by (intro exI [of _ "reconnect_backoff ?n # ts"]) auto
    qed
  qed
qed

lemma reconnect_loop_result:
  "reconnect_loop w m = (m', ok) \<Longrightarrow>
     (if ok then wm_connected m' \<and> wm_reconnect_attempts m' = 0
      else \<exists>m0 env. m' = emergency_close_all env ''Max WS reconnect attempts exceeded'' m0)"
proof (induction w m rule: reconnect_loop.induct)
  case (1 w m)
  let ?n = "wm_reconnect_attempts m"
  obtain m1 ok1 where o: "reconnect_once (w ?n) m = (m1, ok1)" by force
  consider "\<not> ?n < max_reconnect_attempts" | "?n < max_reconnect_attempts" ok1
    | "?n < max_reconnect_attempts" "\<not> ok1" by blast
  then show ?case
  proof cases
    case 1
    with \<open>reconnect_loop w m = _\<close> show ?thesis by (auto simp: reconnect_loop.simps [of w m] Let_def)
  next
    case 2
    with \<open>reconnect_loop w m = _\<close> o reconnect_once_outcome(2) [OF o] show ?thesis
      by (simp add: reconnect_loop.simps [of w m] Let_def)
  next
    case 3
    with \<open>reconnect_loop w m = _\<close> o have "reconnect_loop w m1 = (m', ok)"
      by (simp add: reconnect_loop.simps [of w m] Let_def)
    with 1(1) [OF refl 3(1) o [symmetric] refl 3(2)] show ?thesis by simp
  qed
qed

text \<open>Every tracked position that still holds a quantity is being closed.\<close>

definition all_closing :: "ws_manager \<Rightarrow> bool" where
  "all_closing m =
     list_all (\<lambda>a. let p = wm_objects m a in pc_current_quantity p \<le> 0 \<or> pc_state p = CLOSED
       \<or> close_pending m (pc_position_id p)) (tracked_positions m)"

lemma emergency_close_all_closing: "all_closing (emergency_close_all env r m)"
  by (simp add: all_closing_def emergency_close_all_def tracked_positions_def list_all_iff Let_def)
     (metis close_fold_pending not_le)


section \<open>Which level a fill belongs to\<close>

lemma closest_level_sound:
  assumes "closest_open_tp_level_index p x = Some i"
  shows "0 < x \<and> i < length (pc_tp_levels p) \<and> tl_status (pc_tp_levels p ! i) \<noteq> ''triggered''
    \<and> \<bar>tl_trigger_price (pc_tp_levels p ! i) - x\<bar> \<le> match_tolerance (tl_trigger_price (pc_tp_levels p ! i))
    \<and> (\<forall>j < length (pc_tp_levels p). price_cost x (pc_tp_levels p ! j) \<noteq> None \<longrightarrow>
         \<bar>tl_trigger_price (pc_tp_levels p ! i) - x\<bar> \<le> \<bar>tl_trigger_price (pc_tp_levels p ! j) - x\<bar>)"
  using assms least_cost_Some [of "price_cost x" "pc_tp_levels p" i]
  by (force simp: closest_open_tp_level_index_def price_cost_def Let_def split: if_splits)

text \<open>A take-profit fill is attributed to the right level. The level the manager picks for a fill is
  in the ladder and not triggered yet; when the event names its order it is a level that carries that
  order's id; otherwise the event carries a positive price within half a percent (or 0.0001) of the level's
  trigger price, and no other open level within its own tolerance is nearer.\<close>

theorem matched_level_sound:
  assumes "match_tp_level rp p e = Some i"
  shows "i < length (pc_tp_levels p) \<and> tl_status (pc_tp_levels p ! i) \<noteq> ''triggered''
    \<and> (if event_ids rp e \<noteq> [] then level_addressed (event_ids rp e) (pc_tp_levels p ! i)
       else \<exists>x > 0. x \<in> {coerce_float (get_none e ''trigger_price'') 0, extract_event_price e}
         \<and> \<bar>tl_trigger_price (pc_tp_levels p ! i) - x\<bar> \<le> match_tolerance (tl_trigger_price (pc_tp_levels p ! i))
         \<and> (\<forall>j < length (pc_tp_levels p). price_cost x (pc_tp_levels p ! j) \<noteq> None \<longrightarrow>
              \<bar>tl_trigger_price (pc_tp_levels p ! i) - x\<bar> \<le> \<bar>tl_trigger_price (pc_tp_levels p ! j) - x\<bar>))"
proof (cases "event_ids rp e = []")
  case False
  with assms first_addressed_Some [of "event_ids rp e" 0 "pc_tp_levels p" i] show ?thesis
    by (simp add: match_tp_level_def)
next
  case True
  let ?t = "coerce_float (get_none e ''trigger_price'') 0"
  obtain x where "closest_open_tp_level_index p x = Some i" "x \<in> {?t, extract_event_price e}"
    using assms True
    by (auto simp: match_tp_level_def Let_def closest_open_tp_level_index_def [of p 0]
        split: if_splits option.splits)
  with True closest_level_sound [of p x i] show ?thesis by auto
qed

text \<open>A shrinking position is explained only by a level of that size. The level inferred from a
  position update is open and its share of the original quantity differs from the observed decrease by
  at most half a percent of that share; no open level explains it better.\<close>

theorem inferred_level_sound:
  assumes "closest_open_tp_level_by_qty p d = Some i"
    and "share = (\<lambda>j. pc_original_quantity p * (tl_close_pct (pc_tp_levels p ! j) / 100))"
  shows "i < length (pc_tp_levels p) \<and> tl_status (pc_tp_levels p ! i) \<noteq> ''triggered'' \<and> 0 < share i
    \<and> \<bar>d - share i\<bar> \<le> share i * 5 / 1000
    \<and> (\<forall>j < length (pc_tp_levels p). quantity_cost (pc_original_quantity p) d (pc_tp_levels p ! j) \<noteq> None \<longrightarrow>
         \<bar>d - share i\<bar> / share i \<le> \<bar>d - share j\<bar> / share j)"
proof -
  let ?c = "quantity_cost (pc_original_quantity p) d"
  have l: "least_cost ?c 0 None (pc_tp_levels p) = Some i"
    using assms(1) by (simp add: closest_open_tp_level_by_qty_def split: if_splits)
  have c: "?c (pc_tp_levels p ! j) \<noteq> None \<Longrightarrow> tl_status (pc_tp_levels p ! j) \<noteq> ''triggered'' \<and> 0 < share j
      \<and> ?c (pc_tp_levels p ! j) = Some (\<bar>d - share j\<bar> / share j) \<and> \<bar>d - share j\<bar> / share j \<le> 5 / 1000" for j
    by (auto simp: quantity_cost_def partial_close_qty_tolerance_pct_def assms(2) Let_def split: if_splits)
  from least_cost_Some [OF l] c [of i] have i: "i < length (pc_tp_levels p)"
    "tl_status (pc_tp_levels p ! i) \<noteq> ''triggered''" "0 < share i" "\<bar>d - share i\<bar> / share i \<le> 5 / 1000"
    by auto
  moreover have "\<bar>d - share i\<bar> \<le> share i * 5 / 1000" using i(3,4) by (simp add: field_simps)
  moreover have "\<bar>d - share i\<bar> / share i \<le> \<bar>d - share j\<bar> / share j"
    if "j < length (pc_tp_levels p)" "?c (pc_tp_levels p ! j) \<noteq> None" for j
    using least_cost_Some(2) [OF l] c [of i] c [OF that(2)] that(1) by auto
  ultimately show ?thesis by blast
qed

section \<open>Hydration\<close>

lemma merge_levels_nth:
  "length (merge_levels ls ss) = length ls"
  "i < length ls \<Longrightarrow> tl_status (merge_levels ls ss ! i) = tl_status (ls ! i)
     \<and> tl_exchange_order_id (merge_levels ls ss ! i) = tl_exchange_order_id (ls ! i)"
  by (induction ls ss arbitrary: i rule: merge_levels.induct) (auto simp: nth_Cons split: nat.splits)

text \<open>Hydration from the database does not rewind the engine. Tracking a database copy of a
  position that is already tracked keeps the live object, its quantity, lifecycle, order ids,
  histories and dispatched levels, and of each level its status and order id. The stop price is
  taken from the copy.\<close>

theorem hydration_keeps_engine_state:
  assumes "find_position_by_id m (pc_position_id (wm_objects m a)) = Some live" and "live \<noteq> a"
    and "m' = track_position a False m" and "p = wm_objects m live" and "p' = wm_objects m' live"
  shows "pc_current_quantity p' = pc_current_quantity p \<and> pc_state p' = pc_state p
    \<and> pc_machine p' = pc_machine p \<and> pc_sl_exchange_order_id p' = pc_sl_exchange_order_id p
    \<and> pc_sl_history p' = pc_sl_history p \<and> pc_tp_history p' = pc_tp_history p
    \<and> pc_dispatched_sl_levels p' = pc_dispatched_sl_levels p
    \<and> map tl_status (pc_tp_levels p') = map tl_status (pc_tp_levels p)
    \<and> map tl_exchange_order_id (pc_tp_levels p') = map tl_exchange_order_id (pc_tp_levels p)
    \<and> pc_current_sl_price p' = pc_current_sl_price (wm_objects m a)"
proof -
  have p': "p' = merge_persisted_fields_into_live p (wm_objects m a)"
    using assms by (simp add: track_position_def Let_def)
  show ?thesis
    unfolding p' by (simp add: merge_persisted_fields_into_live_def list_eq_iff_nth_eq merge_levels_nth)
qed

section \<open>Examples\<close>

text \<open>A manager that tracks the sample ladder, both of whose orders rest on the exchange, at address
  0, and a database copy of it with an older stop at address 1.\<close>

definition sample_ws_ladder :: position_context where
  "sample_ws_ladder = sample_ladder\<lparr>pc_symbol := ''BTCUSDT'', pc_tp_mode := ''multi'',
     pc_tp_levels := [(sample_level 1 110)\<lparr>tl_exchange_order_id := Some ''o1''\<rparr>,
                      (sample_level 2 120)\<lparr>tl_exchange_order_id := Some ''o2''\<rparr>]\<rparr>"

definition sample_ws :: ws_manager where
  "sample_ws = (new_ws_manager ''acc'' True new_queue)
     \<lparr>wm_objects := (\<lambda>_. default_context)(0 := sample_ws_ladder,
        1 := sample_ws_ladder\<lparr>pc_current_sl_price := 80\<rparr>),
      wm_positions := [(''BTCUSDT'', 0)], wm_warmed_up := True\<rparr>"

definition sample_ws_env :: "live_result \<Rightarrow> ws_env" where
  "sample_ws_env l = \<lparr>we_repr = (\<lambda>_. []), we_now = 10, we_iso = ''t'', we_fmt_ts = (\<lambda>_. ''t''),
     we_live = (\<lambda>_. l), we_orders = (\<lambda>_. Some []), we_quiesced = True, we_subscribed = True,
     we_kline_ok = True\<rparr>"

definition sample_tp_fill :: pydict where
  "sample_tp_fill = [(''symbol'', VStr ''BTCUSDT''), (''order_id'', VStr ''o1''),
     (''order_type'', VStr ''take_profit''), (''status'', VStr ''filled'')]"

lemmas sample_ws_simps = sample_ws_def sample_ws_ladder_def sample_ladder_def sample_level_def
  new_ws_manager_def default_context_def sample_ws_env_def new_position_machine_def

lemma sample_tp_fill_facts:
  "event_ids (\<lambda>_. []) sample_tp_fill = [''o1'']" "order_type (\<lambda>_. []) sample_tp_fill = ''take_profit''"
  "is_fill_event (\<lambda>_. []) sample_tp_fill"
  by code_simp+

theorem hydration_keeps_engine_state_witness:
  "pc_current_sl_price (wm_objects sample_ws 0) = 90
   \<and> pc_current_quantity (wm_objects (track_position 1 False sample_ws) 0) = 2
   \<and> pc_current_sl_price (wm_objects (track_position 1 False sample_ws) 0) = 80"
  using hydration_keeps_engine_state [of sample_ws 1 0, OF _ _ refl refl refl]
  by (simp add: sample_ws_simps find_position_by_id_def)

theorem matched_level_sound_witness:
  "match_tp_level (\<lambda>_. []) sample_ws_ladder sample_tp_fill = Some 0
   \<and> level_addressed (event_ids (\<lambda>_. []) sample_tp_fill) (pc_tp_levels sample_ws_ladder ! 0)"
proof -
  have "match_tp_level (\<lambda>_. []) sample_ws_ladder sample_tp_fill = Some 0"
    by (simp add: match_tp_level_def sample_tp_fill_facts sample_ws_simps level_addressed_def)
  with matched_level_sound [OF this] show ?thesis by (simp add: sample_tp_fill_facts)
qed

theorem inferred_level_sound_witness:
  "closest_open_tp_level_by_qty sample_ws_ladder 1 = Some 0
   \<and> tl_status (pc_tp_levels sample_ws_ladder ! 0) \<noteq> ''triggered''"
proof -
  have "closest_open_tp_level_by_qty sample_ws_ladder 1 = Some 0"
    by (simp add: closest_open_tp_level_by_qty_def quantity_cost_def sample_ws_simps
        partial_close_qty_tolerance_pct_def Let_def)
  with inferred_level_sound [OF this refl] show ?thesis by blast
qed

theorem closed_update_cleans_witness:
  "pc_state (wm_objects (handle_position_update (sample_ws_env LiveNone)
      [(''symbol'', VStr ''BTCUSDT''), (''size'', VInt 0)] sample_ws) 0) = CLOSED"
proof -
  let ?e = "[(''symbol'', VStr ''BTCUSDT''), (''size'', VInt 0)]"
  have "py_str (we_repr (sample_ws_env LiveNone)) (py_or (get_default ?e ''symbol'' (VStr [])) (VStr []))
      = ''BTCUSDT''" by code_simp
  moreover have "symbol_aliases ''BTCUSDT'' = [''BTCUSDT'']" by code_simp
  moreover have "coerce_float (get_default ?e ''size'' (get_none ?e ''qty'')) 0 = 0"
    by (simp add: coerce_float_def)
  ultimately show ?thesis
    using closed_update_cleans [of sample_ws "sample_ws_env LiveNone" ?e 0, OF _ _ _ _ refl]
    by (simp add: find_position_def sample_ws_simps flat_live_def)
qed


theorem tp_event_idempotent_witness:
  "\<exists>m1 m2. route_lifecycle_event (sample_ws_env (LiveSnapshot 1 110)) 0 sample_tp_fill sample_ws = Inr (m1, True)
     \<and> route_lifecycle_event (sample_ws_env LiveNone) 0 sample_tp_fill m1 = Inr (m2, True)
     \<and> tl_status (pc_tp_levels (wm_objects m2 0) ! 0) = ''triggered''"
proof -
  let ?env = "sample_ws_env (LiveSnapshot 1 110)"
  have r [simp]: "we_repr (sample_ws_env l) = (\<lambda>_. [])" for l by (simp add: sample_ws_env_def)
  have tp: "is_tp_trigger_event (\<lambda>_. []) p sample_tp_fill" for p
    by (simp add: is_tp_trigger_event_def sample_tp_fill_facts)
  have sl: "\<not> is_sl_trigger_event (\<lambda>_. []) (wm_objects sample_ws 0) sample_tp_fill"
    by (simp add: is_sl_trigger_event_def sample_tp_fill_facts sample_ws_simps)
  have i: "match_tp_level (\<lambda>_. []) (wm_objects sample_ws 0) sample_tp_fill = Some 0"
    "\<not> event_matches_triggered_level (\<lambda>_. []) (wm_objects sample_ws 0) sample_tp_fill"
    by (simp_all add: match_tp_level_def event_matches_triggered_level_def sample_tp_fill_facts sample_ws_simps
        level_addressed_def)
  let ?s = "\<lparr>es_position = wm_objects sample_ws 0, es_queue = wm_queue sample_ws, es_audit = []\<rparr>"
  have st: "pc_tp_mode (wm_objects sample_ws 0) = ''multi''" "length (pc_tp_levels (wm_objects sample_ws 0)) = 2"
    "tl_status (pc_tp_levels (wm_objects sample_ws 0) ! 0) = ''open''"
    "pc_dispatched_sl_levels (wm_objects sample_ws 0) = {}" "pc_state (wm_objects sample_ws 0) = OPEN"
    "pm_state (pc_machine (wm_objects sample_ws 0)) = OPEN" by (simp_all add: sample_ws_simps)
  obtain s where "handle_tp_triggered (\<lambda>_. []) (engine_env ?env (wm_objects sample_ws 0) ''multi_tp'') ?s 0 = Inr s"
    using handle_defined [of 0 ?s "\<lambda>_. []"] st(2) by auto
  then obtain m0 where m0: "run_engine ?env ''multi_tp'' 0 0 sample_ws = Inr m0"
    by (auto simp: run_engine_def Let_def)
  then obtain m1 where h: "handle_multi_tp_event ?env 0 sample_tp_fill sample_ws = Inr m1"
    using i by (auto simp: handle_multi_tp_event_def Let_def)
  then have r1: "route_lifecycle_event ?env 0 sample_tp_fill sample_ws = Inr (m1, True)"
    using tp sl st by (auto simp: route_lifecycle_event_def handle_entry_fill_event_def
        handle_sl_triggered_event_def handle_tp_triggered_event_def Let_def)
  have ne: "pc_tp_levels (wm_objects sample_ws 0) \<noteq> []" using st(2) by auto
  have f: "fill_of 0 (wm_objects sample_ws 0) (wm_objects m0 0)"
    using run_engine_fill [OF m0] st by simp
  obtain m0' g where g: "run_engine ?env ''multi_tp'' 0 0 sample_ws = Inr m0'"
    "g = id \<or> (\<exists>ids. g = forget_orders ids)" "wm_objects m1 = (wm_objects m0')(0 := g (wm_objects m0' 0))"
    using multi_tp_matched [OF h, unfolded r, OF i(2,1)] by metis
  then have "tl_status (pc_tp_levels (wm_objects m1 0) ! 0) = ''triggered''"
    using f m0 st(2) by (auto simp: fill_of_def forget_orders_def)
  with tp_event_idempotent [OF r1, of "sample_ws_env LiveNone"] tp sl st ne r1 show ?thesis
    by (auto simp: sample_tp_fill_facts)
qed

end
