(* ===== verification/Signal.thy ===== *)
theory Signal
  imports Position_Context
begin

text \<open>
  \<^verbatim>\<open>app/services/auto_trade/signal.py\<close>: how a stored analysis becomes a trade signal, and the three
  spellings of a market: the key under which positions are compared, the exchange's linear perpetual
  symbol and the chart symbol.

  \<open>datetime.fromisoformat\<close> is the parameter \<open>from_iso\<close>: it yields the instant of a text it accepts.
\<close>

section \<open>Symbols\<close>

definition known_quotes :: "string list" where
  "known_quotes = [''USDT'', ''USDC'', ''USD'', ''BTC'', ''ETH'', ''EUR'', ''BUSD'']"

definition default_quote :: string where
  "default_quote = ''USDT''"

definition ends_with :: "string \<Rightarrow> string \<Rightarrow> bool" where
  "ends_with s q = (length q \<le> length s \<and> drop (length s - length q) s = q)"

definition is_upper :: "char \<Rightarrow> bool" where
  "is_upper c = (let n = (of_char c :: nat) in 65 \<le> n \<and> n \<le> 90)"

text \<open>\<open>s.split(c, 1)\<close> of a text that contains \<open>c\<close>, and its first part for any text.\<close>

definition before_char :: "char \<Rightarrow> string \<Rightarrow> string" where
  "before_char c s = takeWhile (\<lambda>x. x \<noteq> c) s"

definition after_char :: "char \<Rightarrow> string \<Rightarrow> string" where
  "after_char c s = tl (dropWhile (\<lambda>x. x \<noteq> c) s)"

definition pair_base :: "string \<Rightarrow> string" where
  "pair_base raw = py_strip (before_char CHR ''/'' raw)"

definition pair_quote :: "string \<Rightarrow> string" where
  "pair_quote raw = py_strip (before_char CHR '':'' (after_char CHR ''/'' raw))"

definition compact_symbol :: "string \<Rightarrow> string" where
  "compact_symbol raw = filter (\<lambda>c. is_upper c \<or> is_digit c) raw"

definition quote_of :: "string \<Rightarrow> string option" where
  "quote_of squeezed = find (\<lambda>q. ends_with squeezed q \<and> length q < length squeezed) known_quotes"

definition bare_asset :: "string \<Rightarrow> bool" where
  "bare_asset squeezed = (list_all is_upper squeezed \<and> 2 \<le> length squeezed \<and> length squeezed \<le> 10)"

definition symbol_market_key :: "string \<Rightarrow> py_error + string" where
  "symbol_market_key symbol =
     (let raw = py_upper (py_strip symbol) in
      if raw = [] then Inl (ValueError ''symbol is required.'')
      else if CHR ''/'' \<in> set raw then
        (if pair_base raw = [] \<or> pair_quote raw = []
         then Inl (ValueError ''symbol must include base and quote asset.'')
         else Inr (pair_base raw @ pair_quote raw))
      else
        let squeezed = compact_symbol raw in
        if squeezed = [] then Inl (ValueError ''symbol must include alphanumeric assets.'')
        else case quote_of squeezed of
               Some q \<Rightarrow> Inr squeezed
             | None \<Rightarrow> if bare_asset squeezed then Inr (squeezed @ default_quote)
                       else Inl (ValueError ''symbol must include a supported quote asset.''))"

definition linear_text :: "string \<Rightarrow> string \<Rightarrow> string" where
  "linear_text base quote = base @ ''/'' @ quote @ '':'' @ quote"

definition to_linear_perp_symbol :: "string \<Rightarrow> py_error + string" where
  "to_linear_perp_symbol symbol =
     (let raw = py_upper (py_strip symbol) in
      if raw = [] then Inl (ValueError ''symbol is required.'')
      else if CHR ''/'' \<in> set raw then
        (if pair_base raw = [] \<or> pair_quote raw = []
         then Inl (ValueError ''symbol must include base and quote asset.'')
         else Inr (linear_text (pair_base raw) (pair_quote raw)))
      else
        let squeezed = compact_symbol raw in
        case quote_of squeezed of
          Some q \<Rightarrow> Inr (linear_text (take (length squeezed - length q) squeezed) q)
        | None \<Rightarrow> if bare_asset squeezed then Inr (linear_text squeezed default_quote)
                  else Inl (ValueError ''symbol must include a supported quote asset.''))"

definition to_bybit_linear_symbol :: "string \<Rightarrow> py_error + string" where
  "to_bybit_linear_symbol symbol = to_linear_perp_symbol symbol"

definition to_chart_symbol :: "string \<Rightarrow> py_error + string" where
  "to_chart_symbol symbol =
     (case to_linear_perp_symbol symbol of
        Inl e \<Rightarrow> Inl e
      | Inr t \<Rightarrow> Inr (before_char CHR ''/'' t @ ''/'' @ before_char CHR '':'' (after_char CHR ''/'' t)))"

section \<open>Signals\<close>

record parsed_signal =
  ps_schema_version :: string
  ps_symbol :: string
  ps_trend :: string
  ps_confidence_pct :: real
  ps_price_current :: real
  ps_generated_at :: string

definition trends :: "string set" where
  "trends = {''LONG'', ''SHORT'', ''NEUTRAL''}"

definition normalize_trend_from_bias :: "pyval \<Rightarrow> pyval" where
  "normalize_trend_from_bias v =
     (case v of
        VStr s \<Rightarrow>
          (let n = py_upper (py_strip s) in
           if n \<in> trends then VStr n
           else if n = ''BULLISH'' then VStr ''LONG''
           else if n = ''BEARISH'' then VStr ''SHORT''
           else if n = ''FLAT'' then VStr ''NEUTRAL'' else VNone)
      | _ \<Rightarrow> VNone)"

text \<open>\<open>isinstance(v, (int, float, str))\<close> without booleans. \<open>OrderSide\<close> derives from \<open>str\<close>.\<close>

fun number_like :: "pyval \<Rightarrow> bool" where
  "number_like (VInt i) = True"
| "number_like (VFloat x) = True"
| "number_like (VStr s) = True"
| "number_like (VSide s) = True"
| "number_like _ = False"

definition normalize_confidence_pct :: "pyval \<Rightarrow> pyval" where
  "normalize_confidence_pct v =
     (if \<not> number_like v then VNone
      else case py_float v of
             Inl e \<Rightarrow> VNone
           | Inr x \<Rightarrow> VFloat (if x \<le> 1 then x * 100 else x))"

definition strict_keys :: "string list" where
  "strict_keys = [''schema_version'', ''symbol'', ''trend'', ''confidence_pct'', ''price'', ''generated_at'']"

definition adapt_legacy_analysis_structured_payload ::
    "pydict \<Rightarrow> string option \<Rightarrow> string option \<Rightarrow> string option \<Rightarrow> pydict" where
  "adapt_legacy_analysis_structured_payload payload history_symbol core_completed_at history_created_at =
     (if list_all (\<lambda>k. dict_get payload k \<noteq> None) strict_keys then payload
      else case get_none payload ''analysisStructured'' of
             VDict a \<Rightarrow>
               [(''schema_version'', VStr ''legacy-analysisStructured-v1''),
                (''symbol'', py_or (get_none a ''symbol'') (opt_str history_symbol)),
                (''trend'', normalize_trend_from_bias (get_none a ''bias'')),
                (''confidence_pct'', normalize_confidence_pct (get_none a ''confidence'')),
                (''price'', VDict [(''current'', get_none a ''currentPrice'')]),
                (''generated_at'', py_or (py_or (get_none a ''timestamp'') (opt_str core_completed_at))
                                     (opt_str history_created_at))]
           | _ \<Rightarrow> payload)"

text \<open>\<open>value.replace("Z", "+00:00")\<close>.\<close>

definition replace_z :: "string \<Rightarrow> string" where
  "replace_z s = concat (map (\<lambda>c. if c = CHR ''Z'' then ''+00:00'' else [c]) s)"

definition parse_datetime :: "(string \<Rightarrow> string option) \<Rightarrow> pyval \<Rightarrow> py_error + string" where
  "parse_datetime from_iso v =
     (case v of
        VStr s \<Rightarrow>
          if py_strip s = [] then Inl (ValueError ''generated_at must be a non-empty ISO timestamp string.'')
          else (case from_iso (replace_z s) of
                  None \<Rightarrow> Inl (ValueError ''generated_at must be a valid ISO timestamp.'')
                | Some t \<Rightarrow> Inr t)
      | _ \<Rightarrow> Inl (ValueError ''generated_at must be a non-empty ISO timestamp string.''))"

definition parse_text :: "pyval \<Rightarrow> string option" where
  "parse_text v = (case v of VStr s \<Rightarrow> if py_strip s = [] then None else Some (py_strip s) | _ \<Rightarrow> None)"

definition parse_number :: "pyval \<Rightarrow> real option" where
  "parse_number v =
     (if \<not> number_like v then None else case py_float v of Inl e \<Rightarrow> None | Inr x \<Rightarrow> Some x)"

definition parse_auto_trade_signal :: "(string \<Rightarrow> string option) \<Rightarrow> pydict \<Rightarrow> py_error + parsed_signal" where
  "parse_auto_trade_signal from_iso payload =
     (case parse_text (get_none payload ''schema_version'') of
        None \<Rightarrow> Inl (ValueError ''schema_version is required.'')
      | Some schema \<Rightarrow>
      case parse_text (get_none payload ''symbol'') of
        None \<Rightarrow> Inl (ValueError ''symbol is required.'')
      | Some symbol \<Rightarrow>
      case get_none payload ''trend'' of
        VStr trend_raw \<Rightarrow>
          let trend = py_upper (py_strip trend_raw) in
          if trend \<notin> trends then Inl (ValueError ''trend must be one of LONG, SHORT, NEUTRAL.'')
          else (case parse_number (get_none payload ''confidence_pct'') of
                  None \<Rightarrow> Inl (ValueError ''confidence_pct must be a number in [0, 100].'')
                | Some c \<Rightarrow>
                    let confidence = (if 0 < c \<and> c \<le> 1 then c * 100 else c) in
                    if confidence < 0 \<or> confidence > 100
                    then Inl (ValueError ''confidence_pct must be in range [0, 100].'')
                    else (case get_none payload ''price'' of
                            VDict price_obj \<Rightarrow>
                              (case parse_number (get_none price_obj ''current'') of
                                 None \<Rightarrow> Inl (ValueError ''price.current must be a positive number.'')
                               | Some price \<Rightarrow>
                                   if price \<le> 0
                                   then Inl (ValueError ''price.current must be a positive number.'')
                                   else (case parse_datetime from_iso (get_none payload ''generated_at'') of
                                           Inl e \<Rightarrow> Inl e
                                         | Inr t \<Rightarrow>
                                             Inr \<lparr>ps_schema_version = schema, ps_symbol = symbol,
                                                  ps_trend = trend, ps_confidence_pct = confidence,
                                                  ps_price_current = price, ps_generated_at = t\<rparr>))
                          | _ \<Rightarrow> Inl (ValueError ''price object with current is required.'')))
      | _ \<Rightarrow> Inl (ValueError ''trend is required.''))"

section \<open>Lemmas\<close>

lemma upper_upper [simp]: "upper_char (upper_char c) = upper_char c"
  by (auto simp: upper_char_def Let_def)

lemma upper_id: "(\<And>c. c \<in> set s \<Longrightarrow> upper_char c = c) \<Longrightarrow> py_upper s = s"
  by (simp add: py_upper_def map_idI)

lemma set_dropWhile_subset: "set (dropWhile P s) \<subseteq> set s"
  by (auto dest: set_dropWhileD)

lemma set_py_strip: "set (py_strip s) \<subseteq> set s"
  unfolding py_strip_def set_rev by (metis set_dropWhile_subset set_rev subset_trans)

lemma set_before: "c \<notin> set (before_char c s)" "set (before_char c s) \<subseteq> set s"
  by (auto simp: before_char_def dest: set_takeWhileD)

lemma set_after: "set (after_char c s) \<subseteq> set s"
  unfolding after_char_def by (metis list.sel(2) list.set_sel(2) set_dropWhileD subsetI)

lemma before_append [simp]: "c \<notin> set a \<Longrightarrow> before_char c (a @ c # b) = a"
  by (induction a) (auto simp: before_char_def)

lemma after_append [simp]: "c \<notin> set a \<Longrightarrow> after_char c (a @ c # b) = b"
  by (induction a) (auto simp: after_char_def)

text \<open>A base and a quote as the code produces them: stripped, upper case, not empty, and without the
  separators that end them.\<close>

definition asset_parts :: "string \<Rightarrow> string \<Rightarrow> bool" where
  "asset_parts base quote =
     (base \<noteq> [] \<and> quote \<noteq> [] \<and> py_strip base = base \<and> py_strip quote = quote
      \<and> CHR ''/'' \<notin> set base \<and> CHR '':'' \<notin> set quote
      \<and> list_all (\<lambda>c. upper_char c = c) base \<and> list_all (\<lambda>c. upper_char c = c) quote)"

lemma strip_linear:
  assumes "asset_parts base quote"
  shows "py_upper (py_strip (linear_text base quote)) = linear_text base quote"
proof -
  have "\<not> is_space (hd base)" "\<not> is_space (last quote)"
    using assms strip_ends [of base] strip_ends [of quote] by (auto simp: asset_parts_def)
  then have "py_strip (linear_text base quote) = linear_text base quote"
    using assms by (intro strip_id) (auto simp: linear_text_def asset_parts_def)
  moreover have "upper_char CHR ''/'' = CHR ''/''" "upper_char CHR '':'' = CHR '':''"
    by (simp_all add: upper_char_def)
  ultimately show ?thesis
    using assms by (simp, intro upper_id) (auto simp: linear_text_def asset_parts_def list_all_iff)
qed

lemma parts_of_linear:
  assumes "asset_parts base quote"
  shows "pair_base (linear_text base quote) = base" and "pair_quote (linear_text base quote) = quote"
  using assms by (simp_all add: pair_base_def pair_quote_def linear_text_def asset_parts_def)

lemma linear_fixed:
  assumes "asset_parts base quote"
  shows "to_linear_perp_symbol (linear_text base quote) = Inr (linear_text base quote)"
    and "symbol_market_key (linear_text base quote) = Inr (base @ quote)"
    and "to_chart_symbol (linear_text base quote) = Inr (base @ ''/'' @ quote)"
proof -
  have s: "CHR ''/'' \<in> set (linear_text base quote)" "linear_text base quote \<noteq> []"
    by (auto simp: linear_text_def)
  have ne: "base \<noteq> []" "quote \<noteq> []" using assms by (auto simp: asset_parts_def)
  show l: "to_linear_perp_symbol (linear_text base quote) = Inr (linear_text base quote)"
    and "symbol_market_key (linear_text base quote) = Inr (base @ quote)"
    using assms s ne
    by (simp_all add: to_linear_perp_symbol_def symbol_market_key_def strip_linear parts_of_linear Let_def)
  show "to_chart_symbol (linear_text base quote) = Inr (base @ ''/'' @ quote)"
    using assms unfolding to_chart_symbol_def l
    by (simp add: linear_text_def asset_parts_def)
qed

lemma pair_parts:
  assumes "pair_base raw \<noteq> []" and "pair_quote raw \<noteq> []" and "\<forall>c \<in> set raw. upper_char c = c"
  shows "asset_parts (pair_base raw) (pair_quote raw)"
proof -
  let ?b = "before_char CHR ''/'' raw" let ?q = "before_char CHR '':'' (after_char CHR ''/'' raw)"
  have "set (pair_base raw) \<subseteq> set ?b" "set (pair_quote raw) \<subseteq> set ?q"
    by (simp_all add: pair_base_def pair_quote_def set_py_strip)
  moreover have "set ?b \<subseteq> set raw" "set ?q \<subseteq> set raw"
    using set_before(2) set_after by (metis subset_trans)+
  ultimately show ?thesis
    using assms set_before(1) [of "CHR ''/''" raw] set_before(1) [of "CHR '':''" "after_char CHR ''/'' raw"]
    by (auto simp: asset_parts_def pair_base_def pair_quote_def list_all_iff subset_iff)
qed

text \<open>Upper-case letters and digits.\<close>

lemma alnum_char:
  assumes "is_upper c \<or> is_digit c"
  shows "upper_char c = c" and "\<not> is_space c" and "c \<noteq> CHR ''/''" and "c \<noteq> CHR '':''"
proof -
  have n: "(65 \<le> (of_char c :: nat) \<and> (of_char c :: nat) \<le> 90) \<or> (48 \<le> (of_char c :: nat) \<and> (of_char c :: nat) \<le> 57)"
    using assms by (auto simp: is_upper_def is_digit_def Let_def)
  then show "upper_char c = c" "\<not> is_space c" by (auto simp: upper_char_def is_space_def Let_def)
  from n show "c \<noteq> CHR ''/''" "c \<noteq> CHR '':''" by auto
qed

lemma alnum_parts:
  assumes "base \<noteq> []" and "quote \<noteq> []" and "\<forall>c \<in> set (base @ quote). is_upper c \<or> is_digit c"
  shows "asset_parts base quote"
proof -
  have "py_strip s = s" if "set s \<subseteq> set (base @ quote)" for s
    using that assms(3) alnum_char(2) by (intro strip_id) (metis hd_in_set last_in_set subsetD)
  moreover have "CHR ''/'' \<notin> set base" "CHR '':'' \<notin> set quote"
    using assms(3) alnum_char(3,4) by auto
  ultimately show ?thesis using assms alnum_char(1) by (auto simp: asset_parts_def list_all_iff)
qed

lemma ends_with_split: "ends_with s q \<Longrightarrow> take (length s - length q) s @ q = s"
  by (metis append_take_drop_id ends_with_def)

lemma quote_of_Some:
  assumes "quote_of c = Some q"
  shows "q \<in> set known_quotes" and "take (length c - length q) c @ q = c" and "take (length c - length q) c \<noteq> []"
  using assms ends_with_split by (auto simp: quote_of_def find_Some_iff)

text \<open>What the two normalisations of one symbol have in common.\<close>

lemma symbol_cases:
  "(\<exists>base quote. asset_parts base quote \<and> to_linear_perp_symbol s = Inr (linear_text base quote)
       \<and> symbol_market_key s = Inr (base @ quote))
   \<or> (\<exists>e e'. to_linear_perp_symbol s = Inl (ValueError e) \<and> symbol_market_key s = Inl (ValueError e'))"
proof -
  let ?raw = "py_upper (py_strip s)" let ?c = "compact_symbol ?raw"
  have up: "\<forall>c \<in> set ?raw. upper_char c = c" by (auto simp: py_upper_def)
  have c: "\<forall>x \<in> set ?c. is_upper x \<or> is_digit x" by (auto simp: compact_symbol_def)
  show ?thesis
  proof (cases "?raw = [] \<or> CHR ''/'' \<in> set ?raw")
    case True
    with pair_parts [OF _ _ up] show ?thesis
      by (auto simp: to_linear_perp_symbol_def symbol_market_key_def Let_def)
  next
    case False
    show ?thesis
    proof (cases "quote_of ?c")
      case (Some q)
      note q = quote_of_Some [OF Some]
      have "q \<noteq> []" using q(1) by (auto simp: known_quotes_def)
      moreover have "?c \<noteq> []" using q(3) by auto
      moreover have "asset_parts (take (length ?c - length q) ?c) q"
        using q \<open>q \<noteq> []\<close> c by (intro alnum_parts) auto
      ultimately show ?thesis
        using False Some q(2)
        by (intro disjI1 exI [of _ "take (length ?c - length q) ?c"] exI [of _ q])
           (simp add: to_linear_perp_symbol_def symbol_market_key_def Let_def)
    next
      case None
      have "asset_parts ?c default_quote" if "bare_asset ?c"
      proof (rule alnum_parts)
        show "\<forall>x \<in> set (?c @ default_quote). is_upper x \<or> is_digit x"
          using c by (auto simp: default_quote_def is_upper_def)
      qed (use that in \<open>auto simp: bare_asset_def default_quote_def\<close>)
      moreover have "bare_asset ?c \<Longrightarrow> ?c \<noteq> []" by (auto simp: bare_asset_def)
      ultimately show ?thesis
        using False None by (auto simp: to_linear_perp_symbol_def symbol_market_key_def Let_def)
    qed
  qed
qed

section \<open>Properties\<close>

text \<open>One market, one symbol. The exchange symbol, the chart symbol and the comparison key accept the
  same texts, and raise only \<open>ValueError\<close>. The exchange symbol of an accepted text is a normal form:
  normalising it again changes nothing, and it has the key and the chart symbol of the text it came
  from; so texts with the same exchange symbol are compared as the same market.\<close>

theorem symbol_normal_form:
  "case to_linear_perp_symbol s of
     Inl e \<Rightarrow> \<exists>m m'. e = ValueError m \<and> symbol_market_key s = Inl (ValueError m') \<and> to_chart_symbol s = Inl e
   | Inr t \<Rightarrow> to_linear_perp_symbol t = Inr t \<and> symbol_market_key t = symbol_market_key s
       \<and> to_chart_symbol t = to_chart_symbol s
       \<and> (\<exists>k c. symbol_market_key s = Inr k \<and> to_chart_symbol s = Inr c)"
proof -
  consider (ok) base quote where "asset_parts base quote" "to_linear_perp_symbol s = Inr (linear_text base quote)"
      "symbol_market_key s = Inr (base @ quote)"
    | (err) e e' where "to_linear_perp_symbol s = Inl (ValueError e)" "symbol_market_key s = Inl (ValueError e')"
    using symbol_cases [of s] by blast
  then show ?thesis
  proof cases
    case ok
    note f = linear_fixed [OF ok(1)]
    have "to_chart_symbol s = to_chart_symbol (linear_text base quote)"
      using ok(2) f(1) by (simp add: to_chart_symbol_def)
    with ok f show ?thesis by simp
  next
    case err
    then show ?thesis by (simp add: to_chart_symbol_def)
  qed
qed

lemma parse_text_Some: "parse_text v = Some t \<Longrightarrow> t \<noteq> []"
  by (auto simp: parse_text_def split: pyval.splits if_splits)

lemma parse_ok:
  assumes "parse_auto_trade_signal from_iso d = Inr g"
  obtains c po where "parse_number (get_none d ''confidence_pct'') = Some c"
    and "ps_confidence_pct g = (if 0 < c \<and> c \<le> 1 then c * 100 else c)"
    and "0 \<le> ps_confidence_pct g" and "ps_confidence_pct g \<le> 100"
    and "get_none d ''price'' = VDict po" and "parse_number (get_none po ''current'') = Some (ps_price_current g)"
    and "0 < ps_price_current g" and "ps_trend g \<in> trends" and "ps_symbol g \<noteq> []"
  using assms
  by (auto simp: parse_auto_trade_signal_def Let_def dest: parse_text_Some
      split: option.splits pyval.splits if_splits sum.splits)

text \<open>An accepted signal is usable. When a payload parses, its trend is one of the three trends, its
  confidence lies between 0 and 100 and is the payload's number, read as a fraction when it is in
  (0, 1], and its price is the payload's number and positive; and a payload that does not parse is
  refused with a \<open>ValueError\<close>, never with another exception.\<close>

theorem parsed_signal_sound:
  "case parse_auto_trade_signal from_iso d of
     Inl e \<Rightarrow> \<exists>m. e = ValueError m
   | Inr g \<Rightarrow> ps_trend g \<in> trends \<and> ps_symbol g \<noteq> []
       \<and> 0 \<le> ps_confidence_pct g \<and> ps_confidence_pct g \<le> 100 \<and> 0 < ps_price_current g
       \<and> (\<exists>c. parse_number (get_none d ''confidence_pct'') = Some c
            \<and> (ps_confidence_pct g = c \<and> \<not> (0 < c \<and> c \<le> 1) \<or> ps_confidence_pct g = 100 * c \<and> 0 < c \<and> c \<le> 1))
       \<and> (\<exists>po. get_none d ''price'' = VDict po \<and> parse_number (get_none po ''current'') = Some (ps_price_current g))"
proof (cases "parse_auto_trade_signal from_iso d")
  case (Inl e)
  then have "\<exists>m. e = ValueError m"
    by (auto simp: parse_auto_trade_signal_def parse_datetime_def Let_def
        split: option.splits pyval.splits if_splits)
  with Inl show ?thesis by simp
next
  case (Inr g)
  from parse_ok [OF Inr] obtain c po where o: "parse_number (get_none d ''confidence_pct'') = Some c"
    "ps_confidence_pct g = (if 0 < c \<and> c \<le> 1 then c * 100 else c)" "0 \<le> ps_confidence_pct g"
    "ps_confidence_pct g \<le> 100" "get_none d ''price'' = VDict po"
    "parse_number (get_none po ''current'') = Some (ps_price_current g)" "0 < ps_price_current g"
    "ps_trend g \<in> trends" "ps_symbol g \<noteq> []" by blast
  then have "ps_confidence_pct g = c \<and> \<not> (0 < c \<and> c \<le> 1) \<or> ps_confidence_pct g = 100 * c \<and> 0 < c \<and> c \<le> 1"
    by (auto split: if_splits)
  with o Inr show ?thesis by simp
qed

text \<open>A legacy confidence is read as a fraction twice. The adapter turns a fraction into percent and
  the parser does so again for values up to one, so a legacy payload whose confidence is a fraction
  of at most one hundredth is accepted with one hundred times its confidence.\<close>

theorem legacy_confidence_scaled_twice:
  assumes "get_none d ''analysisStructured'' = VDict a" and "dict_get d ''trend'' = None"
    and "parse_number (get_none a ''confidence'') = Some x" and "0 < x" and "x \<le> 1 / 100"
    and "parse_auto_trade_signal from_iso (adapt_legacy_analysis_structured_payload d hs t1 t2) = Inr g"
  shows "ps_confidence_pct g = 100 * (100 * x)"
proof -
  let ?d = "adapt_legacy_analysis_structured_payload d hs t1 t2"
  have "number_like (get_none a ''confidence'')" "py_float (get_none a ''confidence'') = Inr x"
    using assms(3) by (auto simp: parse_number_def split: if_splits sum.splits)
  then have "get_none ?d ''confidence_pct'' = VFloat (x * 100)"
    using assms(1,2,5)
    by (auto simp: adapt_legacy_analysis_structured_payload_def strict_keys_def normalize_confidence_pct_def)
  moreover obtain c where "parse_number (get_none ?d ''confidence_pct'') = Some c"
    "ps_confidence_pct g = (if 0 < c \<and> c \<le> 1 then c * 100 else c)"
    using parse_ok [OF assms(6)] by blast
  ultimately show ?thesis using assms(4,5) by (simp add: parse_number_def)
qed

definition sample_analysis :: "real \<Rightarrow> pydict" where
  "sample_analysis x = [(''symbol'', VStr ''BTCUSDT''), (''bias'', VStr ''bullish''),
     (''confidence'', VFloat x), (''currentPrice'', VInt 5), (''timestamp'', VStr ''t'')]"

definition sample_legacy :: "real \<Rightarrow> pydict" where
  "sample_legacy x = [(''analysisStructured'', VDict (sample_analysis x))]"

lemma sample_texts [simp]: "py_upper (py_strip ''bullish'') = ''BULLISH''"
  "py_upper (py_strip ''LONG'') = ''LONG''" "py_strip ''BTCUSDT'' = ''BTCUSDT''"
  "py_strip ''legacy-analysisStructured-v1'' = ''legacy-analysisStructured-v1''"
  "py_strip ''t'' = ''t''" "replace_z ''t'' = ''t''"
  by code_simp+

theorem legacy_confidence_scaled_twice_witness:
  "\<exists>g. parse_auto_trade_signal Some (adapt_legacy_analysis_structured_payload
         (sample_legacy (5 / 1000)) None None None) = Inr g \<and> ps_confidence_pct g = 50"
proof -
  obtain g where g: "parse_auto_trade_signal Some (adapt_legacy_analysis_structured_payload
      (sample_legacy (5 / 1000)) None None None) = Inr g"
    by (simp add: sample_legacy_def sample_analysis_def adapt_legacy_analysis_structured_payload_def strict_keys_def
        parse_auto_trade_signal_def parse_text_def parse_number_def normalize_confidence_pct_def
        normalize_trend_from_bias_def trends_def py_or_def parse_datetime_def Let_def)
  have n: "parse_number (get_none (sample_analysis (5 / 1000)) ''confidence'') = Some (5 / 1000)"
    by (simp add: sample_analysis_def parse_number_def)
  from legacy_confidence_scaled_twice [OF _ _ n _ _ g] g show ?thesis
    by (simp add: sample_legacy_def)
qed

text \<open>A pair quoted in BUSD is read as a pair quoted in USD: the quote list tries \<open>USD\<close> first.\<close>

lemma busd_pair_misread: "to_linear_perp_symbol ''BTCBUSD'' = Inr ''BTCB/USD:USD''"
  by code_simp

end
