(* ===== verification/Watcher_Rules.thy ===== *)
theory Watcher_Rules
  imports Position_Context
begin

text \<open>
  \<^verbatim>\<open>app/services/watchers/rule_engine.py\<close>, which evaluates the condition of an indicator watcher, and
  the timeframes of \<^verbatim>\<open>app/services/watchers/service.py\<close> and \<^verbatim>\<open>scheduling.py\<close>, which turn the fastest
  timeframe of a position into the cron expression of its tick.
\<close>

section \<open>Conditions\<close>

definition rule_float :: "pyval \<Rightarrow> real option" where
  "rule_float v = (case py_float v of Inl e \<Rightarrow> None | Inr x \<Rightarrow> Some x)"

definition compare_op :: "string \<Rightarrow> real \<Rightarrow> real \<Rightarrow> bool option" where
  "compare_op op a b =
     (if op = ''>'' then Some (a > b) else if op = ''<'' then Some (a < b)
      else if op = ''>='' then Some (a \<ge> b) else if op = ''<='' then Some (a \<le> b) else None)"

definition evaluate_comparison :: "string \<Rightarrow> string \<Rightarrow> pyval \<Rightarrow> bool" where
  "evaluate_comparison op threshold_raw v =
     (case (rule_float v, rule_float (VStr threshold_raw)) of
        (Some current, Some threshold) \<Rightarrow> compare_op op current threshold = Some True
      | _ \<Rightarrow> False)"

definition cross_keys :: "string list" where
  "cross_keys = [''line'', ''signal'', ''prev_line'', ''prev_signal'']"

definition evaluate_cross :: "string \<Rightarrow> pyval \<Rightarrow> bool" where
  "evaluate_cross condition v =
     (case v of
        VDict d \<Rightarrow>
          if list_ex (\<lambda>k. dict_get d k = None) cross_keys then False
          else (case map (\<lambda>k. rule_float (get_none d k)) cross_keys of
                  [Some line, Some sig, Some prev_line, Some prev_sig] \<Rightarrow>
                    if condition = ''cross_below'' then line < sig \<and> prev_line \<ge> prev_sig
                    else line > sig \<and> prev_line \<le> prev_sig
                | _ \<Rightarrow> False)
      | _ \<Rightarrow> False)"

definition evaluate_range :: "string \<Rightarrow> string \<Rightarrow> string \<Rightarrow> pyval \<Rightarrow> bool" where
  "evaluate_range kind lower_raw upper_raw v =
     (case (rule_float v, rule_float (VStr lower_raw), rule_float (VStr upper_raw)) of
        (Some current, Some lower, Some upper) \<Rightarrow>
          if lower > upper then False
          else if kind = ''between'' then lower \<le> current \<and> current \<le> upper
          else current < lower \<or> current > upper
      | _ \<Rightarrow> False)"

text \<open>\<open>-?[\d.]+\<close>, and the two patterns on text that is trimmed, single-spaced and lower case.\<close>

definition rule_number :: "string \<Rightarrow> bool" where
  "rule_number s =
     (let t = (if s \<noteq> [] \<and> hd s = CHR ''-'' then tl s else s)
      in t \<noteq> [] \<and> list_all (\<lambda>c. is_digit c \<or> c = CHR ''.'') t)"

definition rule_comparison :: "string \<Rightarrow> (string \<times> string) option" where
  "rule_comparison s =
     (let op = (if starts_with s ''>='' then ''>='' else if starts_with s ''>'' then ''>''
                else if starts_with s ''<='' then ''<='' else if starts_with s ''<'' then ''<''
                else []);
          r = dropWhile is_space (drop (length op) s)
      in if op \<noteq> [] \<and> rule_number r then Some (op, r) else None)"

definition rule_range :: "string \<Rightarrow> (string \<times> string \<times> string) option" where
  "rule_range s =
     (case py_split s of
        [w, a, b] \<Rightarrow>
          if (w = ''between'' \<or> w = ''outside'') \<and> rule_number a \<and> rule_number b
          then Some (w, a, b) else None
      | _ \<Rightarrow> None)"

definition evaluate_condition :: "string \<Rightarrow> pyval \<Rightarrow> bool" where
  "evaluate_condition condition v =
     (if v = VNone then False
      else let normalized = py_lower (join_space (py_split (py_strip condition))) in
           if normalized = [] then False
           else if normalized = ''cross_below'' \<or> normalized = ''cross_above''
           then evaluate_cross normalized v
           else case rule_comparison normalized of
                  Some (op, threshold_raw) \<Rightarrow> evaluate_comparison op threshold_raw v
                | None \<Rightarrow>
                    (case rule_range normalized of
                       Some (kind, lower_raw, upper_raw) \<Rightarrow> evaluate_range kind lower_raw upper_raw v
                     | None \<Rightarrow> False))"

section \<open>Timeframes\<close>

definition unit_minutes :: "char \<Rightarrow> nat option" where
  "unit_minutes c =
     (if c = CHR ''m'' then Some 1 else if c = CHR ''h'' then Some 60
      else if c = CHR ''d'' then Some (60 * 24) else if c = CHR ''w'' then Some (60 * 24 * 7) else None)"

definition timeframe_to_minutes :: "string \<Rightarrow> py_error + nat" where
  "timeframe_to_minutes timeframe =
     (let s = py_strip timeframe in
      if s = [] \<or> \<not> all_digits (butlast s) then Inl (ValueError (''Unsupported timeframe format: '' @ timeframe))
      else case unit_minutes (lower_char (last s)) of
             None \<Rightarrow> Inl (ValueError (''Unsupported timeframe format: '' @ timeframe))
           | Some k \<Rightarrow> Inr (nat_of_digits 0 (butlast s) * k))"

definition watcher_timeframe :: "(pyval \<Rightarrow> string) \<Rightarrow> watcher_config \<Rightarrow> string" where
  "watcher_timeframe rp w = py_str rp (get_default (wc_params w) ''timeframe'' (VStr ''15m''))"

fun fastest_from ::
    "(pyval \<Rightarrow> string) \<Rightarrow> (nat \<times> string) option \<Rightarrow> watcher_config list \<Rightarrow> py_error + (nat \<times> string) option" where
  "fastest_from rp best [] = Inr best"
| "fastest_from rp best (w # ws) =
     (if \<not> wc_is_active w then fastest_from rp best ws
      else case timeframe_to_minutes (watcher_timeframe rp w) of
             Inl e \<Rightarrow> Inl e
           | Inr m \<Rightarrow>
               fastest_from rp
                 (case best of
                    None \<Rightarrow> Some (m, watcher_timeframe rp w)
                  | Some (b, t) \<Rightarrow> if m < b then Some (m, watcher_timeframe rp w) else best) ws)"

definition get_fastest_timeframe ::
    "(pyval \<Rightarrow> string) \<Rightarrow> watcher_config list \<Rightarrow> py_error + string option" where
  "get_fastest_timeframe rp ws =
     (case fastest_from rp None ws of Inl e \<Rightarrow> Inl e | Inr best \<Rightarrow> Inr (map_option snd best))"

definition timeframe_to_cron :: "string \<Rightarrow> py_error + string" where
  "timeframe_to_cron timeframe =
     (case timeframe_to_minutes timeframe of
        Inl e \<Rightarrow> Inl e
      | Inr minutes \<Rightarrow>
          if minutes < 60 then
            (if minutes = 0 then Inl (ZeroDivisionError ''integer modulo by zero'')
             else if 60 mod minutes \<noteq> 0
             then Inl (ValueError (''Minute timeframe '' @ timeframe @ '' cannot be represented as cron step.''))
             else if minutes = 1 then Inr ''* * * * *''
             else Inr (''*/'' @ show_nat minutes @ '' * * * *''))
          else if minutes < 60 * 24 then
            (if minutes mod 60 \<noteq> 0
             then Inl (ValueError (''Hour timeframe '' @ timeframe @ '' is not aligned to whole hours.''))
             else if minutes div 60 = 1 then Inr ''0 * * * *''
             else Inr (''0 */'' @ show_nat (minutes div 60) @ '' * * *''))
          else if minutes = 60 * 24 then Inr ''0 0 * * *''
          else if minutes = 60 * 24 * 7 then Inr ''0 0 * * 0''
          else Inl (ValueError (''Unsupported watcher timeframe for cron scheduling: '' @ timeframe)))"

definition watcher_schedule_id :: "string \<Rightarrow> string" where
  "watcher_schedule_id position_id = ''position-watcher:'' @ position_id"

text \<open>The schedules, by their id. A refused timeframe leaves the position without a schedule: the old
  one is deleted before the expression is computed.\<close>

definition schedule_position_watcher ::
    "(pyval \<Rightarrow> string) \<Rightarrow> position_context \<Rightarrow> (string \<times> string \<times> string) list
      \<Rightarrow> (string \<times> string \<times> string) list \<times> (py_error + string option)" where
  "schedule_position_watcher rp p schedules =
     (case get_fastest_timeframe rp (pc_active_watchers p) of
        Inl e \<Rightarrow> (schedules, Inl e)
      | Inr None \<Rightarrow> (schedules, Inr None)
      | Inr (Some timeframe) \<Rightarrow>
          let schedule_id = watcher_schedule_id (pc_position_id p);
              cleared = dict_pop schedules schedule_id
          in case timeframe_to_cron timeframe of
               Inl e \<Rightarrow> (cleared, Inl e)
             | Inr cron \<Rightarrow>
                 (dict_set cleared schedule_id (cron, pc_position_id p), Inr (Some schedule_id)))"

definition unschedule_position_watcher ::
    "string \<Rightarrow> (string \<times> string \<times> string) list \<Rightarrow> (string \<times> string \<times> string) list" where
  "unschedule_position_watcher position_id schedules = dict_pop schedules (watcher_schedule_id position_id)"

section \<open>Lemmas\<close>

lemma parse_exponent_Nil [simp]: "parse_exponent [] = Some 0"
  by (simp add: parse_exponent_def)

lemma all_digits_split: "all_digits s \<Longrightarrow> takeWhile is_digit s = s" "all_digits s \<Longrightarrow> dropWhile is_digit s = []"
  by (auto simp: all_digits_def list_all_iff)

text \<open>A number of the constructor's grammar: an optional minus sign, digits, an optional fraction.\<close>

lemma match_number_cases:
  assumes "match_number s"
  obtains neg ip fp where "s = neg @ ip @ fp" and "neg = [] \<or> neg = ''-''" and "all_digits ip"
    and "fp = [] \<or> (\<exists>ds. fp = CHR ''.'' # ds \<and> all_digits ds)"
proof -
  define t where "t = (if s \<noteq> [] \<and> hd s = CHR ''-'' then tl s else s)"
  have "s = t \<or> s = ''-'' @ t" by (cases s) (auto simp: t_def)
  moreover have m: "takeWhile is_digit t \<noteq> []" "dropWhile is_digit t = []
      \<or> (hd (dropWhile is_digit t) = CHR ''.'' \<and> all_digits (tl (dropWhile is_digit t)))"
    using assms unfolding match_number_def Let_def t_def by blast+
  moreover have "all_digits (takeWhile is_digit t)"
    using m(1) by (auto simp: all_digits_def list_all_iff dest: set_takeWhileD)
  moreover have "dropWhile is_digit t = [] \<or> (\<exists>ds. dropWhile is_digit t = CHR ''.'' # ds \<and> all_digits ds)"
    using m(2) by (metis list.collapse)
  moreover have "t = takeWhile is_digit t @ dropWhile is_digit t" by simp
  ultimately show thesis
    using that [of "[]" "takeWhile is_digit t" "dropWhile is_digit t"]
      that [of "''-''" "takeWhile is_digit t" "dropWhile is_digit t"] by auto
qed

lemma parse_ufloat_number:
  assumes "all_digits ip" and "fp = [] \<or> (\<exists>ds. fp = CHR ''.'' # ds \<and> all_digits ds)"
  shows "\<exists>x. parse_ufloat (ip @ fp) = Some x"
proof -
  have nd: "\<not> is_digit CHR ''.''" by (simp add: is_digit_def)
  have "takeWhile is_digit (ip @ fp) = ip" "dropWhile is_digit (ip @ fp) = fp"
    using assms nd by (auto simp: takeWhile_append dropWhile_append all_digits_def list_all_iff)
  moreover have "ip \<noteq> []" using assms(1) by (simp add: all_digits_def)
  ultimately show ?thesis
    using assms(2) by (auto simp: parse_ufloat_def Let_def all_digits_split)
qed

lemma digit_char: "is_digit c \<Longrightarrow> c \<noteq> CHR ''-'' \<and> c \<noteq> CHR ''+'' \<and> lower_char c = c"
proof -
  assume d: "is_digit c"
  then have "lower_char c = c" by (auto simp: is_digit_def lower_char_def Let_def)
  moreover have "\<not> is_digit CHR ''-''" "\<not> is_digit CHR ''+''" by (simp_all add: is_digit_def)
  ultimately show ?thesis using d by metis
qed

lemma match_number_facts:
  assumes "match_number s"
  shows "rule_number s" and "py_lower s = s" and "\<exists>x. parse_float s = Some x"
proof -
  obtain neg ip fp where s: "s = neg @ ip @ fp" "neg = [] \<or> neg = ''-''" "all_digits ip"
    "fp = [] \<or> (\<exists>ds. fp = CHR ''.'' # ds \<and> all_digits ds)"
    using match_number_cases [OF assms] by blast
  have hd: "is_digit (hd ip)" "ip \<noteq> []" using s(3) by (auto simp: all_digits_def list_all_iff)
  have dc: "is_digit c \<Longrightarrow> c \<noteq> CHR ''-'' \<and> c \<noteq> CHR ''+'' \<and> lower_char c = c" for c
    by (rule digit_char)
  have set_s: "\<forall>c \<in> set (ip @ fp). is_digit c \<or> c = CHR ''.''"
    using s(3,4) by (auto simp: all_digits_def list_all_iff)
  have "hd (ip @ fp) \<noteq> CHR ''-''" "ip @ fp \<noteq> []" using hd dc by simp_all
  with s(2) set_s show "rule_number s"
    unfolding s(1) by (elim disjE) (simp_all add: rule_number_def list_all_iff)
  have lc: "lower_char c = c" if "is_digit c \<or> c = CHR ''.'' \<or> c = CHR ''-''" for c
    using that dc by (elim disjE) (simp_all add: lower_char_def)
  have "\<forall>c \<in> set s. is_digit c \<or> c = CHR ''.'' \<or> c = CHR ''-''"
    using s(2) ball_Un [of "set ip" "set fp"] set_s unfolding s(1) by auto
  with lc show "py_lower s = s" unfolding py_lower_def by (intro map_idI) blast
  have st: "py_strip s = s" using match_number_blank_free [OF assms] by (intro strip_id) auto
  obtain x where x: "parse_ufloat (ip @ fp) = Some x" using parse_ufloat_number [OF s(3,4)] by blast
  obtain c r where ip: "ip = c # r" using hd(2) by (cases ip) auto
  from s(2) show "\<exists>x. parse_float s = Some x"
  proof
    assume "neg = []"
    then show ?thesis using x st dc [of c] hd by (simp add: parse_float_def s(1) ip)
  next
    assume "neg = ''-''"
    then show ?thesis using x st by (simp add: parse_float_def s(1))
  qed
qed

lemma rule_float_text: "match_number t \<Longrightarrow> rule_float (VStr t) = Some (float_text t)"
  using match_number_facts(3) [of t] by (auto simp: rule_float_def float_text_def)

lemma lower_append: "py_lower (a @ b) = py_lower a @ py_lower b"
  by (simp add: py_lower_def)

lemma join_split_strip_lower:
  assumes "blank_free a" and "a \<noteq> []" and "match_number t" and "py_lower a = a"
  shows "py_lower (join_space (py_split (py_strip (a @ '' '' @ t)))) = a @ '' '' @ t"
proof -
  note bf = match_number_blank_free [OF assms(3)]
  have "join_space (py_split (py_strip (a @ '' '' @ t))) = a @ '' '' @ t"
    using strip_words [OF assms(1,2), of t "'' ''"] split_word [OF assms(1,2), of t] split_one [of t] bf by simp
  then show ?thesis
    using assms(4) match_number_facts(2) [OF assms(3)] by (simp add: py_lower_def lower_char_def)
qed

lemma evaluate_comparison_condition:
  assumes "op \<in> {''>='', ''>'', ''<='', ''<''}" and "match_number t"
  shows "evaluate_condition (op @ '' '' @ t) (VFloat x) = (compare_op op x (float_text t) = Some True)"
proof -
  have opb: "blank_free op" "op \<noteq> []" "py_lower op = op"
    using assms(1) by (auto simp: is_space_def py_lower_def lower_char_def)
  note n = join_split_strip_lower [OF opb(1,2) assms(2) opb(3)]
  have "dropWhile is_space t = t"
    using match_number_blank_free [OF assms(2)] by (intro dropWhile_hd_neg) simp
  then have "rule_comparison (op @ '' '' @ t) = Some (op, t)"
    using assms match_number_facts(1) by (auto simp: rule_comparison_def Let_def is_space_def)
  then show ?thesis
    unfolding evaluate_condition_def n Let_def using assms opb(2) rule_float_text
    by (auto simp: evaluate_comparison_def rule_float_def)
qed

lemma evaluate_between_condition:
  assumes "match_number lo" and "match_number hi" and "float_text lo < float_text hi"
  shows "evaluate_condition (''between '' @ lo @ '' '' @ hi) (VFloat x) = (float_text lo \<le> x \<and> x \<le> float_text hi)"
proof -
  note bf = match_number_blank_free [OF assms(1)] match_number_blank_free [OF assms(2)]
  let ?s = "''between '' @ lo @ '' '' @ hi"
  have "blank_free ''between''" by (simp add: is_space_def)
  then have sp: "py_split ?s = [''between'', lo, hi]"
    using split_word [of "''between''" "lo @ '' '' @ hi"] split_word [of lo hi] split_one [of hi] bf
    by simp
  have "py_strip ?s = ?s"
    using strip_words [of "''between''" hi "'' '' @ lo @ '' ''"] bf by (simp add: is_space_def)
  with sp have n: "py_lower (join_space (py_split (py_strip ?s))) = ?s"
    using match_number_facts(2) assms by (simp add: py_lower_def lower_char_def)
  have "rule_comparison ?s = None" by (simp add: rule_comparison_def)
  moreover have "rule_range ?s = Some (''between'', lo, hi)"
    using sp match_number_facts(1) assms by (simp add: rule_range_def)
  ultimately show ?thesis
    unfolding evaluate_condition_def n Let_def using assms rule_float_text
    by (simp add: evaluate_range_def rule_float_def)
qed

lemma evaluate_cross_condition:
  "d = ''above'' \<or> d = ''below'' \<Longrightarrow>
     evaluate_condition (''cross_'' @ d) (VDict [(''line'', VFloat l), (''signal'', VFloat s),
       (''prev_line'', VFloat pl), (''prev_signal'', VFloat ps)])
     = (if d = ''below'' then l < s \<and> pl \<ge> ps else l > s \<and> pl \<le> ps)"
  by (elim disjE; simp add: evaluate_condition_def evaluate_cross_def cross_keys_def rule_float_def
      py_simps Let_def)

section \<open>Properties\<close>

text \<open>C37: The rule engine understands every condition the watcher constructor lets through, and gives it
  the meaning its text has. A normalised condition is a comparison with a number, a range with lower
  bound below the upper, or a crossing; on an indicator value the first two hold exactly for the
  values they describe, and a crossing exactly when the two lines changed sides between the previous
  and the current bar.\<close>

theorem condition_meaning:
  assumes "normalize_watcher_condition c = Inr n"
  shows "(\<exists>op t. n = op @ '' '' @ t \<and> op \<in> {''>='', ''>'', ''<='', ''<''} \<and> match_number t
            \<and> (\<forall>x. evaluate_condition n (VFloat x) = (compare_op op x (float_text t) = Some True)))
    \<or> (\<exists>lo hi. n = ''between '' @ lo @ '' '' @ hi \<and> float_text lo < float_text hi
            \<and> (\<forall>x. evaluate_condition n (VFloat x) = (float_text lo \<le> x \<and> x \<le> float_text hi)))
    \<or> (n = ''cross_above'' \<and> (\<forall>l s pl ps. evaluate_condition n (VDict [(''line'', VFloat l),
            (''signal'', VFloat s), (''prev_line'', VFloat pl), (''prev_signal'', VFloat ps)]) = (l > s \<and> pl \<le> ps)))
    \<or> (n = ''cross_below'' \<and> (\<forall>l s pl ps. evaluate_condition n (VDict [(''line'', VFloat l),
            (''signal'', VFloat s), (''prev_line'', VFloat pl), (''prev_signal'', VFloat ps)]) = (l < s \<and> pl \<ge> ps)))"
proof -
  let ?w = "join_space (py_split (py_strip c))"
  consider (cmp) op t where "match_comparison ?w = Some (op, t)" "n = op @ '' '' @ t"
    | (btw) lo hi where "match_between ?w = Some (lo, hi)" "float_text lo < float_text hi"
        "n = ''between '' @ lo @ '' '' @ hi"
    | (crs) d where "match_cross ?w = Some d" "n = ''cross_'' @ d"
    using assms by (auto simp: normalize_watcher_condition_def Let_def split: if_splits option.splits)
  then show ?thesis
  proof cases
    case cmp
    then have "op \<in> {''>='', ''>'', ''<='', ''<''}" "match_number t"
      by (auto simp: match_comparison_def Let_def split: if_splits)
    with cmp(2) evaluate_comparison_condition show ?thesis by blast
  next
    case btw
    then have "match_number lo" "match_number hi"
      by (auto simp: match_between_def split: list.splits if_splits)
    with btw(2,3) evaluate_between_condition show ?thesis by blast
  next
    case crs
    then have "d = ''above'' \<or> d = ''below''" by (auto simp: match_cross_def Let_def split: if_splits)
    with crs(2) evaluate_cross_condition [of d] show ?thesis by auto
  qed
qed

theorem condition_meaning_witness:
  "normalize_watcher_condition '' >=  70.5 '' = Inr ''>= 70.5''
   \<and> evaluate_condition ''>= 70.5'' (VFloat 71) \<and> \<not> evaluate_condition ''>= 70.5'' (VFloat 70)"
proof -
  have n: "normalize_watcher_condition '' >=  70.5 '' = Inr ''>= 70.5''" by code_simp
  have f: "float_text ''70.5'' = 141 / 2" by (simp add: float_text_def py_simps Let_def)
  from condition_meaning [OF n] obtain op t where o: "''>= 70.5'' = op @ '' '' @ t"
    "op \<in> {''>='', ''>'', ''<='', ''<''}"
    "\<forall>x. evaluate_condition ''>= 70.5'' (VFloat x) = (compare_op op x (float_text t) = Some True)"
    by (elim disjE) (blast, simp_all)
  then have "op = ''>=''" "t = ''70.5''" by auto
  with o(3) n f show ?thesis by (simp add: compare_op_def)
qed

section \<open>What the cron expressions mean\<close>

text \<open>The scheduler's reading of a cron expression: \<open>*\<close> is every value, \<open>*/n\<close> every value divisible by
  \<open>n\<close>, a number only itself. Time is counted in minutes from a Sunday at midnight; the expressions of
  this module have \<open>*\<close> for the day of the month and the month.\<close>

definition cron_field :: "string \<Rightarrow> nat \<Rightarrow> bool" where
  "cron_field f v =
     (if f = ''*'' then True
      else if starts_with f ''*/'' then v mod nat_of_digits 0 (drop 2 f) = 0
      else nat_of_digits 0 f = v)"

definition cron_fires :: "string \<Rightarrow> nat \<Rightarrow> bool" where
  "cron_fires cron t =
     (case py_split cron of
        [mins, hrs, mday, mon, wday] \<Rightarrow>
          cron_field mins (t mod 60) \<and> cron_field hrs (t div 60 mod 24)
          \<and> mday = ''*'' \<and> mon = ''*'' \<and> cron_field wday (t div (60 * 24) mod 7)
      | _ \<Rightarrow> False)"

lemma nat_of_digits_snoc: "nat_of_digits acc (s @ [c]) = 10 * nat_of_digits acc s + digit_val c"
  by (induction acc s rule: nat_of_digits.induct) simp_all

lemma digit_of_nat: "d < 10 \<Longrightarrow> digit_val (char_of (48 + d)) = d \<and> is_digit (char_of (48 + d))"
  by (simp add: digit_val_def is_digit_def Let_def)

lemma show_nat_roundtrip: "nat_of_digits 0 (show_nat n) = n"
proof (induction n rule: show_nat.induct)
  case (1 n)
  show ?case
  proof (cases "n < 10")
    case True
    then show ?thesis using digit_of_nat [of n] by (simp add: show_nat.simps [of n])
  next
    case False
    with 1 show ?thesis
      using digit_of_nat [of "n mod 10"] by (simp add: show_nat.simps [of n] nat_of_digits_snoc)
  qed
qed

lemma show_nat_digits: "show_nat n \<noteq> [] \<and> (\<forall>c \<in> set (show_nat n). is_digit c)"
proof (induction n rule: show_nat.induct)
  case (1 n)
  then show ?case
    using digit_of_nat [of n] digit_of_nat [of "n mod 10"] by (simp add: show_nat.simps [of n])
qed

lemma digit_not_space: "is_digit c \<Longrightarrow> \<not> is_space c"
  by (auto simp: is_digit_def is_space_def Let_def)

lemma step_field:
  "cron_field (''*/'' @ show_nat n) v = (v mod n = 0)"
  "blank_free (''*/'' @ show_nat n)" "''*/'' @ show_nat n \<noteq> []"
  using show_nat_digits [of n] digit_not_space
  by (auto simp: cron_field_def show_nat_roundtrip is_space_def)

lemma fields_split:
  assumes "\<forall>f \<in> {a, b, c, d, e}. blank_free f \<and> f \<noteq> []"
  shows "py_split (a @ '' '' @ b @ '' '' @ c @ '' '' @ d @ '' '' @ e) = [a, b, c, d, e]"
  using assms split_word [of a "b @ '' '' @ c @ '' '' @ d @ '' '' @ e"] split_word [of b "c @ '' '' @ d @ '' '' @ e"]
    split_word [of c "d @ '' '' @ e"] split_word [of d e] split_one [of e]
  by simp

lemma star_blank_free [simp]: "blank_free ''*''" "blank_free ''0''"
  by (simp_all add: is_space_def)

lemma fires_minutes:
  "cron_fires (''*/'' @ show_nat n @ '' * * * *'') t = (t mod 60 mod n = 0)"
proof -
  have "py_split (''*/'' @ show_nat n @ '' * * * *'') = [''*/'' @ show_nat n, ''*'', ''*'', ''*'', ''*'']"
    using fields_split [of "''*/'' @ show_nat n" "''*''" "''*''" "''*''" "''*''"] step_field(2,3) by simp
  then show ?thesis using step_field(1) [of n "t mod 60"] by (simp add: cron_fires_def cron_field_def [of "''*''"])
qed

lemma fires_hours:
  "cron_fires (''0 */'' @ show_nat h @ '' * * *'') t = (t mod 60 = 0 \<and> t div 60 mod 24 mod h = 0)"
proof -
  have "py_split (''0 */'' @ show_nat h @ '' * * *'') = [''0'', ''*/'' @ show_nat h, ''*'', ''*'', ''*'']"
    using fields_split [of "''0''" "''*/'' @ show_nat h" "''*''" "''*''" "''*''"] step_field(2,3) by simp
  moreover have "cron_field ''0'' (t mod 60) = (t mod 60 = 0)"
    by (auto simp: cron_field_def digit_val_def)
  ultimately show ?thesis
    using step_field(1) [of h "t div 60 mod 24"] by (simp add: cron_fires_def cron_field_def [of "''*''"])
qed

lemma fires_plain:
  "cron_fires ''* * * * *'' t" "cron_fires ''0 * * * *'' t = (t mod 60 = 0)"
  "cron_fires ''0 0 * * *'' t = (t mod 60 = 0 \<and> t div 60 mod 24 = 0)"
  "cron_fires ''0 0 * * 0'' t = (t mod 60 = 0 \<and> t div 60 mod 24 = 0 \<and> t div (60 * 24) mod 7 = 0)"
proof -
  have s: "py_split ''* * * * *'' = [''*'', ''*'', ''*'', ''*'', ''*'']"
    "py_split ''0 * * * *'' = [''0'', ''*'', ''*'', ''*'', ''*'']"
    "py_split ''0 0 * * *'' = [''0'', ''0'', ''*'', ''*'', ''*'']"
    "py_split ''0 0 * * 0'' = [''0'', ''0'', ''*'', ''*'', ''0'']" by code_simp+
  have z: "cron_field ''0'' v = (v = 0)" for v by (auto simp: cron_field_def digit_val_def)
  have w: "cron_field ''*'' v" for v by (simp add: cron_field_def)
  show "cron_fires ''* * * * *'' t" "cron_fires ''0 * * * *'' t = (t mod 60 = 0)"
    "cron_fires ''0 0 * * *'' t = (t mod 60 = 0 \<and> t div 60 mod 24 = 0)"
    "cron_fires ''0 0 * * 0'' t = (t mod 60 = 0 \<and> t div 60 mod 24 = 0 \<and> t div (60 * 24) mod 7 = 0)"
    unfolding cron_fires_def s by (simp_all add: z w)
qed

lemma dvd_by_parts: "(a * b) dvd (t::nat) \<longleftrightarrow> t mod a = 0 \<and> t div a mod b = 0"
proof (cases "a = 0")
  case False
  have "t mod (a * b) = a * (t div a mod b) + t mod a" by (simp add: mod_mult2_eq)
  with False show ?thesis by (auto simp: mod_eq_0_iff_dvd [symmetric])
qed simp



text \<open>A five-hour timeframe is accepted, but its ticks at 20:00 and 00:00 are four hours apart. A
  timeframe of zero raises \<open>ZeroDivisionError\<close>, not the \<open>ValueError\<close> of the other refusals.\<close>

lemma five_hour_ticks_uneven:
  "\<exists>cron. timeframe_to_cron ''5h'' = Inr cron \<and> cron_fires cron (20 * 60) \<and> cron_fires cron (24 * 60)"
proof -
  have c: "timeframe_to_cron ''5h'' = Inr (''0 */'' @ show_nat 5 @ '' * * *'')" by code_simp
  show ?thesis by (intro exI conjI, rule c) (simp_all only: fires_hours, simp_all)
qed

lemma zero_timeframe_raises: "timeframe_to_cron ''0m'' = Inl (ZeroDivisionError ''integer modulo by zero'')"
  by code_simp

end
