(* ===== verification/Watchers.thy ===== *)
theory Watchers
  imports Watcher_Rules Order_Queue
begin

text \<open>
  \<^verbatim>\<open>app/services/watchers/indicator_watcher.py\<close>, the rest of \<^verbatim>\<open>service.py\<close> and \<^verbatim>\<open>event_bus.py\<close>: indicator
  values are computed from price bars, normalised and checked against the watchers of a position;
  events that fire are published, and their handler tightens the stop, closes a part or notifies.

  The indicator library (\<^verbatim>\<open>pandas_ta\<close>) is the parameter \<open>compute\<close>: for an indicator, bars and
  parameters it raises or yields series, whose entries are \<open>None\<close> where not finite. Redis is the
  answer to the cooldown key, \<open>None\<close> when the call raises. The exchange's answer, the loaded
  position and the clock are arguments of the handler.
\<close>

section \<open>Indicators\<close>

record kline =
  kl_open :: real
  kl_high :: real
  kl_low :: real
  kl_close :: real
  kl_volume :: real

datatype indicator_result =
    ResSeries "real option list"
  | ResFrame "string list" "(string \<times> real option) list list"
  | ResPair indicator_result indicator_result
  | ResOther

type_synonym compute_fn = "string \<Rightarrow> kline list \<Rightarrow> pydict \<Rightarrow> indicator_result option"

fun get_positive_int :: "pydict \<Rightarrow> string list \<Rightarrow> int \<Rightarrow> int" where
  "get_positive_int params [] dflt = dflt"
| "get_positive_int params (k # ks) dflt =
     (let raw = get_none params k in
      if raw = VNone then get_positive_int params ks dflt
      else case py_int raw of
             Inl e \<Rightarrow> get_positive_int params ks dflt
           | Inr v \<Rightarrow> if v > 0 then v else get_positive_int params ks dflt)"

definition as_finite_float :: "string \<Rightarrow> real option \<Rightarrow> py_error + real" where
  "as_finite_float label v =
     (case v of None \<Rightarrow> Inl (ValueError (''Non-finite float in '' @ label)) | Some x \<Rightarrow> Inr x)"

definition normalize_scalar_series :: "indicator_result \<Rightarrow> py_error + pyval" where
  "normalize_scalar_series raw =
     (case raw of
        ResSeries xs \<Rightarrow>
          if xs = [] then Inl (ValueError ''Cannot normalize empty series.'')
          else (case as_finite_float ''series[-1]'' (last xs) of Inl e \<Rightarrow> Inl e | Inr x \<Rightarrow> Inr (VFloat x))
      | _ \<Rightarrow> Inl (TypeError ''Expected pandas Series for scalar indicator normalization.''))"

text \<open>The four values of a crossing, each checked in turn.\<close>

definition cross_value ::
    "string \<Rightarrow> real option \<Rightarrow> real option \<Rightarrow> real option \<Rightarrow> real option \<Rightarrow> py_error + pyval" where
  "cross_value prefix line sig prev_line prev_sig =
     (case (as_finite_float (prefix @ ''line'') line, as_finite_float (prefix @ ''signal'') sig,
            as_finite_float (prefix @ ''prev_line'') prev_line,
            as_finite_float (prefix @ ''prev_signal'') prev_sig) of
        (Inr l, Inr s, Inr pl, Inr ps) \<Rightarrow>
          Inr (VDict [(''line'', VFloat l), (''signal'', VFloat s), (''prev_line'', VFloat pl),
                      (''prev_signal'', VFloat ps)])
      | (Inl e, _, _, _) \<Rightarrow> Inl e
      | (_, Inl e, _, _) \<Rightarrow> Inl e
      | (_, _, Inl e, _) \<Rightarrow> Inl e
      | (_, _, _, Inl e) \<Rightarrow> Inl e)"

definition macd_periods :: "pydict \<Rightarrow> string" where
  "macd_periods params =
     show_int (get_positive_int params [''fast''] 12) @ ''_''
     @ show_int (get_positive_int params [''slow''] 26) @ ''_''
     @ show_int (get_positive_int params [''signal''] 9)"

definition cell :: "(string \<times> real option) list \<Rightarrow> string \<Rightarrow> real option" where
  "cell row col = (case dict_get row col of Some (Some x) \<Rightarrow> Some x | _ \<Rightarrow> None)"

definition normalize_macd :: "pydict \<Rightarrow> indicator_result \<Rightarrow> py_error + pyval" where
  "normalize_macd params raw =
     (case raw of
        ResFrame cols rows \<Rightarrow>
          if length rows < 2 then Inl (ValueError ''MACD normalization requires at least two bars.'')
          else
            let line_col = ''MACD_'' @ macd_periods params; signal_col = ''MACDs_'' @ macd_periods params in
            if line_col \<notin> set cols \<or> signal_col \<notin> set cols
            then Inl (KeyError ''MACD output columns are missing.'')
            else
              let current_row = rows ! (length rows - 1); previous_row = rows ! (length rows - 2)
              in cross_value ''macd.'' (cell current_row line_col) (cell current_row signal_col)
                   (cell previous_row line_col) (cell previous_row signal_col)
      | _ \<Rightarrow> Inl (TypeError ''Expected pandas DataFrame for MACD normalization.''))"

definition normalize_ema_cross :: "indicator_result \<Rightarrow> py_error + pyval" where
  "normalize_ema_cross raw =
     (case raw of
        ResPair (ResSeries fast) (ResSeries slow) \<Rightarrow>
          if length fast < 2 \<or> length slow < 2
          then Inl (ValueError ''EMA_CROSS normalization requires at least two bars.'')
          else cross_value ''ema_cross.'' (last fast) (last slow) (fast ! (length fast - 2)) (slow ! (length slow - 2))
      | ResPair a b \<Rightarrow> Inl (TypeError ''EMA_CROSS values must be pandas Series.'')
      | _ \<Rightarrow> Inl (TypeError ''EMA_CROSS normalization expects (fast_ema, slow_ema) tuple.''))"

text \<open>\<open>INDICATOR_REGISTRY\<close>.\<close>

definition spec_min_bars :: "string \<Rightarrow> pydict \<Rightarrow> int option" where
  "spec_min_bars indicator params =
     (if indicator = ''RSI'' \<or> indicator = ''ATR'' then Some (get_positive_int params [''period''] 14 + 10)
      else if indicator = ''MACD'' then
        Some (get_positive_int params [''slow''] 26 + get_positive_int params [''signal''] 9 + 10)
      else if indicator = ''EMA'' then Some (get_positive_int params [''period''] 21 + 10)
      else if indicator = ''SMA'' then Some (get_positive_int params [''period''] 50 + 10)
      else if indicator = ''EMA_CROSS'' then Some (get_positive_int params [''slow_period'', ''slow''] 50 + 10)
      else None)"

definition spec_normalize :: "string \<Rightarrow> pydict \<Rightarrow> indicator_result \<Rightarrow> py_error + pyval" where
  "spec_normalize indicator params raw =
     (if indicator = ''MACD'' then normalize_macd params raw
      else if indicator = ''EMA_CROSS'' then normalize_ema_cross raw
      else normalize_scalar_series raw)"

record watcher_event =
  wv_position_id :: string
  wv_indicator :: string
  wv_condition :: string
  wv_current_value :: pyval
  wv_action :: string
  wv_action_params :: pydict
  wv_timestamp :: string
  wv_market_price :: "real option"

text \<open>One watcher of \<open>IndicatorWatcher.tick\<close>: the event it fires, if any.\<close>

definition watcher_check ::
    "(pyval \<Rightarrow> string) \<Rightarrow> compute_fn \<Rightarrow> string \<Rightarrow> string \<Rightarrow> (string \<times> kline list) list \<Rightarrow> watcher_config
      \<Rightarrow> watcher_event option" where
  "watcher_check rp compute now_iso position_id buffers w =
     (if \<not> wc_is_active w then None
      else case spec_min_bars (wc_indicator w) (wc_params w) of
             None \<Rightarrow> None
           | Some min_bars \<Rightarrow>
               (case dict_get buffers (watcher_timeframe rp w) of
                  None \<Rightarrow> None
                | Some df \<Rightarrow>
                    if df = [] \<or> int (length df) < min_bars then None
                    else (case compute (wc_indicator w) df (wc_params w) of
                            None \<Rightarrow> None
                          | Some raw \<Rightarrow>
                              (case spec_normalize (wc_indicator w) (wc_params w) raw of
                                 Inl e \<Rightarrow> None
                               | Inr v \<Rightarrow>
                                   if evaluate_condition (wc_condition w) v
                                   then Some \<lparr>wv_position_id = position_id, wv_indicator = wc_indicator w,
                                              wv_condition = wc_condition w, wv_current_value = v,
                                              wv_action = wc_action w, wv_action_params = wc_action_params w,
                                              wv_timestamp = now_iso, wv_market_price = Some (kl_close (last df))\<rparr>
                                   else None))))"

definition watcher_tick ::
    "(pyval \<Rightarrow> string) \<Rightarrow> compute_fn \<Rightarrow> string \<Rightarrow> position_context \<Rightarrow> (string \<times> kline list) list
      \<Rightarrow> watcher_event list" where
  "watcher_tick rp compute now_iso p buffers =
     List.map_filter (watcher_check rp compute now_iso (pc_position_id p) buffers) (pc_active_watchers p)"

section \<open>Fetching history\<close>

definition require_bars ::
    "(pyval \<Rightarrow> string) \<Rightarrow> watcher_config \<Rightarrow> (string \<times> int) list \<Rightarrow> (string \<times> int) list" where
  "require_bars rp w requirements =
     (if \<not> wc_is_active w then requirements
      else case spec_min_bars (wc_indicator w) (wc_params w) of
             None \<Rightarrow> requirements
           | Some min_bars \<Rightarrow>
               (let timeframe = watcher_timeframe rp w;
                    old = (case dict_get requirements timeframe of None \<Rightarrow> 0 | Some n \<Rightarrow> n)
                in dict_set requirements timeframe (max old (max 100 min_bars))))"

definition get_required_kline_limits ::
    "(pyval \<Rightarrow> string) \<Rightarrow> watcher_config list \<Rightarrow> (string \<times> int) list" where
  "get_required_kline_limits rp ws = fold (require_bars rp) ws []"

datatype tick_status = MissingPosition | InactiveState | NoActiveWatchers | Processed

text \<open>\<open>run_position_watcher_tick\<close>: the status and the published events. \<open>fetch\<close> is the market data
  service, followed by the removal of incomplete rows.\<close>

definition run_position_watcher_tick ::
    "(pyval \<Rightarrow> string) \<Rightarrow> compute_fn \<Rightarrow> string \<Rightarrow> (string \<Rightarrow> int \<Rightarrow> kline list) \<Rightarrow> position_context option
      \<Rightarrow> tick_status \<times> watcher_event list" where
  "run_position_watcher_tick rp compute now_iso fetch loaded =
     (case loaded of
        None \<Rightarrow> (MissingPosition, [])
      | Some p \<Rightarrow>
          if pc_state p \<notin> {OPEN, ADJUSTING} then (InactiveState, [])
          else let requirements = get_required_kline_limits rp (pc_active_watchers p) in
               if requirements = [] then (NoActiveWatchers, [])
               else (Processed, watcher_tick rp compute now_iso p
                       (map (\<lambda>(timeframe, limit). (timeframe, fetch timeframe limit)) requirements)))"

section \<open>Acting on an event\<close>

definition compute_tightened_sl ::
    "position_context \<Rightarrow> real \<Rightarrow> real \<Rightarrow> real \<Rightarrow> real option" where
  "compute_tightened_sl p current_price atr_value offset_multiplier =
     (if atr_value \<le> 0 \<or> offset_multiplier \<le> 0 then None
      else let distance = atr_value * offset_multiplier in
           if pc_side p = SHORT then
             (let candidate = current_price + distance in
              if candidate \<ge> pc_current_sl_price p then None else Some candidate)
           else
             (let candidate = current_price - distance in
              if candidate \<le> pc_current_sl_price p then None else Some candidate))"

fun first_positive_value :: "pyval list \<Rightarrow> real option" where
  "first_positive_value [] = None"
| "first_positive_value (v # vs) =
     (if v = VNone then first_positive_value vs
      else case py_float v of
             Inl e \<Rightarrow> first_positive_value vs
           | Inr x \<Rightarrow> if x > 0 then Some x else first_positive_value vs)"

definition extract_atr_value :: "position_context \<Rightarrow> watcher_event \<Rightarrow> real option" where
  "extract_atr_value p e =
     first_positive_value
       [get_none (wv_action_params e) ''current_atr'',
        (if wv_indicator e = ''ATR'' then wv_current_value e else VNone),
        opt_float (pc_volatility_last_atr p)]"

definition resolve_current_price :: "position_context \<Rightarrow> live_result \<Rightarrow> real" where
  "resolve_current_price p snapshot =
     (case snapshot of
        LiveSnapshot sz mark \<Rightarrow> if mark > 0 then mark else pc_entry_price p
      | _ \<Rightarrow> pc_entry_price p)"

text \<open>\<open>float(str(value))\<close>.\<close>

definition bus_float :: "pyval \<Rightarrow> real \<Rightarrow> real" where
  "bus_float v dflt =
     (case v of
        VInt i \<Rightarrow> of_int i
      | VFloat x \<Rightarrow> x
      | VStr s \<Rightarrow> (case parse_float s of None \<Rightarrow> dflt | Some x \<Rightarrow> x)
      | _ \<Rightarrow> dflt)"

definition closing_order_side :: "position_side \<Rightarrow> order_side" where
  "closing_order_side s = (if s = SHORT then BUY else SELL)"

definition watcher_client_order_id :: "real \<Rightarrow> string \<Rightarrow> string \<Rightarrow> string" where
  "watcher_client_order_id now position_id action =
     position_id @ ''-'' @ action @ ''-'' @ show_int (trunc_real (now * 1000))"

definition cooldown_key :: "watcher_event \<Rightarrow> string" where
  "cooldown_key e =
     ''watcher:cooldown:'' @ wv_position_id e @ '':'' @ wv_indicator e @ '':'' @ wv_action e"

text \<open>\<open>_claim_trigger\<close>: \<open>redis\<close> is whether \<open>SET key 1 NX EX ttl\<close> stored the key, \<open>None\<close> when it raised.\<close>

definition claim_trigger :: "int \<Rightarrow> bool option \<Rightarrow> bool" where
  "claim_trigger ttl redis = (if ttl \<le> 0 then True else case redis of None \<Rightarrow> True | Some b \<Rightarrow> b)"

definition event_reason :: "watcher_event \<Rightarrow> string" where
  "event_reason e = ''indicator:'' @ wv_indicator e @ '':'' @ wv_condition e"

definition tighten_task :: "real \<Rightarrow> position_context \<Rightarrow> watcher_event \<Rightarrow> string \<Rightarrow> real \<Rightarrow> order_task" where
  "tighten_task now p e existing new_sl =
     \<lparr>ot_priority = Prio_SL_ADJUSTMENT, ot_created_at = now, ot_position_id = pc_position_id p,
      ot_action = ''replace_sl'',
      ot_params =
        [(''symbol'', VStr (pc_symbol p)), (''existing_order_id'', VStr existing),
         (''new_trigger_price'', VFloat new_sl), (''new_quantity'', VFloat (pc_current_quantity p)),
         (''client_order_id'', VStr (watcher_client_order_id now (pc_position_id p) ''watcher-sl'')),
         (''reason'', VStr (event_reason e))],
      ot_retry_count = 0, ot_max_retries = 3, ot_on_success = None\<rparr>"

definition partial_close_task :: "real \<Rightarrow> position_context \<Rightarrow> watcher_event \<Rightarrow> real \<Rightarrow> order_task" where
  "partial_close_task now p e close_qty =
     \<lparr>ot_priority = Prio_PARTIAL_CLOSE, ot_created_at = now, ot_position_id = pc_position_id p,
      ot_action = ''partial_close'',
      ot_params =
        [(''symbol'', VStr (pc_symbol p)), (''side'', VSide (closing_order_side (pc_side p))),
         (''quantity'', VFloat close_qty),
         (''client_order_id'', VStr (watcher_client_order_id now (pc_position_id p) ''watcher-close'')),
         (''reason'', VStr (event_reason e))],
      ot_retry_count = 0, ot_max_retries = 3, ot_on_success = None\<rparr>"

text \<open>What the handler asks for: nothing, one order task, or a notification. \<open>live\<close> is the answer of
  \<open>get_position\<close>; when it raises the handler raises, and the subscriber logs it.\<close>

datatype bus_outcome = Ignored | Enqueued order_task | Notified string | HandlerRaised

definition handle_tighten :: "real \<Rightarrow> live_result \<Rightarrow> position_context \<Rightarrow> watcher_event \<Rightarrow> bus_outcome" where
  "handle_tighten now live p e =
     (case extract_atr_value p e of
        None \<Rightarrow> Ignored
      | Some atr_value \<Rightarrow>
          if live = LiveRaised then HandlerRaised
          else
            let current_price = (case wv_market_price e of
                  Some mp \<Rightarrow> if mp > 0 then mp else resolve_current_price p live
                | None \<Rightarrow> resolve_current_price p live);
                offset_multiplier = bus_float (get_default (wv_action_params e) ''sl_offset_atr'' (VFloat (3 / 2))) (3 / 2)
            in case compute_tightened_sl p current_price atr_value offset_multiplier of
                 None \<Rightarrow> Ignored
               | Some new_sl \<Rightarrow>
                   (case pc_sl_exchange_order_id p of
                      None \<Rightarrow> Ignored
                    | Some existing \<Rightarrow>
                        if existing = [] then Ignored else Enqueued (tighten_task now p e existing new_sl)))"

definition handle_close_partial :: "real \<Rightarrow> position_context \<Rightarrow> watcher_event \<Rightarrow> bus_outcome" where
  "handle_close_partial now p e =
     (let close_pct = bus_float (get_default (wv_action_params e) ''close_pct'' (VFloat 25)) 25 in
      if close_pct \<le> 0 then Ignored
      else let close_qty = pc_current_quantity p * min close_pct 100 / 100 in
           if close_qty \<le> 0 then Ignored else Enqueued (partial_close_task now p e close_qty))"

definition handle_watcher_event ::
    "int \<Rightarrow> bool option \<Rightarrow> real \<Rightarrow> live_result \<Rightarrow> position_context option \<Rightarrow> watcher_event \<Rightarrow> bus_outcome" where
  "handle_watcher_event ttl redis now live loaded e =
     (if (wv_action e = ''tighten_sl'' \<or> wv_action e = ''close_partial'') \<and> \<not> claim_trigger ttl redis
      then Ignored
      else case loaded of
             None \<Rightarrow> HandlerRaised
           | Some p \<Rightarrow>
               if wv_action e = ''tighten_sl'' then handle_tighten now live p e
               else if wv_action e = ''close_partial'' then handle_close_partial now p e
               else if wv_action e = ''alert'' then Notified (pc_user_id p)
               else Ignored)"

section \<open>Events on the wire\<close>

text \<open>The dictionary that is dumped as JSON, without the entries that are \<open>None\<close>, and
  \<open>WatcherEvent(**payload)\<close>: a field without a default must be present, a key must be a field.\<close>

definition serialize_watcher_event :: "watcher_event \<Rightarrow> pydict" where
  "serialize_watcher_event e =
     filter (\<lambda>(k, v). v \<noteq> VNone)
       [(''position_id'', VStr (wv_position_id e)), (''indicator'', VStr (wv_indicator e)),
        (''condition'', VStr (wv_condition e)), (''current_value'', wv_current_value e),
        (''action'', VStr (wv_action e)), (''action_params'', VDict (wv_action_params e)),
        (''timestamp'', VStr (wv_timestamp e)), (''market_price'', opt_float (wv_market_price e))]"

definition event_fields :: "string list" where
  "event_fields = [''position_id'', ''indicator'', ''condition'', ''current_value'', ''action'',
     ''action_params'', ''timestamp'', ''market_price'']"

definition as_text :: "pyval \<Rightarrow> string" where
  "as_text v = (case v of VStr s \<Rightarrow> s | _ \<Rightarrow> [])"

definition deserialize_watcher_event :: "pydict \<Rightarrow> py_error + watcher_event" where
  "deserialize_watcher_event payload =
     (if \<not> list_all (\<lambda>(k, v). k \<in> set event_fields) payload
      then Inl (TypeError ''unexpected keyword argument'')
      else if list_ex (\<lambda>k. dict_get payload k = None) (butlast event_fields)
      then Inl (TypeError ''missing required positional argument'')
      else Inr \<lparr>wv_position_id = as_text (get_none payload ''position_id''),
                wv_indicator = as_text (get_none payload ''indicator''),
                wv_condition = as_text (get_none payload ''condition''),
                wv_current_value = get_none payload ''current_value'',
                wv_action = as_text (get_none payload ''action''),
                wv_action_params = (case get_none payload ''action_params'' of VDict d \<Rightarrow> d | _ \<Rightarrow> []),
                wv_timestamp = as_text (get_none payload ''timestamp''),
                wv_market_price = (case get_none payload ''market_price'' of VFloat x \<Rightarrow> Some x | _ \<Rightarrow> None)\<rparr>)"

section \<open>Lemmas\<close>

lemma require_bars_keeps:
  assumes "dict_get r tf = Some l"
  shows "\<exists>l'. dict_get (require_bars rp w r) tf = Some l' \<and> l \<le> l'"
  using assms by (auto simp: require_bars_def Let_def split: option.splits)

lemma require_fold_keeps:
  "dict_get r tf = Some l \<Longrightarrow> \<exists>l'. dict_get (fold (require_bars rp) ws r) tf = Some l' \<and> l \<le> l'"
proof (induction ws arbitrary: r l)
  case (Cons w ws)
  obtain l1 where "dict_get (require_bars rp w r) tf = Some l1" "l \<le> l1"
    using require_bars_keeps [OF Cons.prems] by blast
  with Cons.IH [OF this(1)] show ?case by fastforce
qed simp

lemma require_bars_enough:
  assumes "wc_is_active w" and "spec_min_bars (wc_indicator w) (wc_params w) = Some n"
  shows "\<exists>l. dict_get (require_bars rp w r) (watcher_timeframe rp w) = Some l \<and> n \<le> l \<and> 100 \<le> l"
  using assms by (auto simp: require_bars_def Let_def)

lemma cross_value_ok:
  "cross_value pre a b c d = Inr v \<Longrightarrow> \<exists>l s pl ps. v = VDict [(''line'', VFloat l), (''signal'', VFloat s),
     (''prev_line'', VFloat pl), (''prev_signal'', VFloat ps)]"
  by (auto simp: cross_value_def split: sum.splits)

lemma normalize_ok:
  assumes "spec_normalize i params raw = Inr v"
  shows "if i = ''MACD'' \<or> i = ''EMA_CROSS''
    then \<exists>l s pl ps. v = VDict [(''line'', VFloat l), (''signal'', VFloat s),
      (''prev_line'', VFloat pl), (''prev_signal'', VFloat ps)]
    else \<exists>x. v = VFloat x"
  using assms cross_value_ok
  by (auto simp: spec_normalize_def normalize_macd_def normalize_ema_cross_def
      normalize_scalar_series_def Let_def split: if_splits indicator_result.splits sum.splits)

text \<open>A condition asks for a crossing.\<close>

definition asks_crossing :: "string \<Rightarrow> bool" where
  "asks_crossing c =
     (py_lower (join_space (py_split (py_strip c))) \<in> {''cross_below'', ''cross_above''})"

lemma condition_kinds:
  "evaluate_condition c (VFloat x) \<Longrightarrow> \<not> asks_crossing c"
  "evaluate_condition c (VDict d) \<Longrightarrow> asks_crossing c"
  by (auto simp: evaluate_condition_def asks_crossing_def evaluate_cross_def evaluate_comparison_def
      evaluate_range_def rule_float_def Let_def split: if_splits option.splits)

lemma watcher_check_Some:
  assumes "watcher_check rp compute now pid bufs w = Some e"
  obtains df raw n where "wc_is_active w" and "dict_get bufs (watcher_timeframe rp w) = Some df"
    and "spec_min_bars (wc_indicator w) (wc_params w) = Some n" and "n \<le> int (length df)"
    and "compute (wc_indicator w) df (wc_params w) = Some raw"
    and "spec_normalize (wc_indicator w) (wc_params w) raw = Inr (wv_current_value e)"
    and "evaluate_condition (wc_condition w) (wv_current_value e)"
    and "wv_indicator e = wc_indicator w" and "wv_condition e = wc_condition w" and "wv_action e = wc_action w"
    and "wv_market_price e = Some (kl_close (last df))"
  using assms by (auto simp: watcher_check_def split: if_splits option.splits sum.splits)

section \<open>Properties\<close>

text \<open>Enough history is fetched. For every active watcher on a supported indicator, the number of bars
  requested for its timeframe is at least what its indicator needs, and at least one hundred; so a
  buffer filled as requested is never skipped for being too short.\<close>

theorem history_suffices:
  assumes "w \<in> set ws" and "wc_is_active w" and "spec_min_bars (wc_indicator w) (wc_params w) = Some n"
  shows "\<exists>l. dict_get (get_required_kline_limits rp ws) (watcher_timeframe rp w) = Some l \<and> n \<le> l \<and> 100 \<le> l"
proof -
  obtain us vs where ws: "ws = us @ w # vs" using assms(1) by (auto dest: split_list)
  let ?r = "fold (require_bars rp) us []"
  obtain l where "dict_get (require_bars rp w ?r) (watcher_timeframe rp w) = Some l" "n \<le> l" "100 \<le> l"
    using require_bars_enough [OF assms(2,3)] by blast
  with require_fold_keeps [OF this(1), of rp vs] show ?thesis
    by (fastforce simp: get_required_kline_limits_def ws)
qed

text \<open>C39: Indicator values are well typed. Every event of a tick comes from an active watcher of the
  position whose condition holds for the event's value. The value is a number for the scalar
  indicators and the four numbers of a crossing for \<open>MACD\<close> and \<open>EMA_CROSS\<close>, and the condition asks
  for a crossing exactly in the second case: a crossing condition on a scalar indicator, which the
  constructor accepts, never fires.\<close>

theorem tick_events_typed:
  assumes "e \<in> set (watcher_tick rp compute now p bufs)"
  shows "\<exists>w \<in> set (pc_active_watchers p). wc_is_active w
    \<and> evaluate_condition (wc_condition w) (wv_current_value e)
    \<and> wv_indicator e = wc_indicator w \<and> wv_condition e = wc_condition w \<and> wv_action e = wc_action w
    \<and> (if wc_indicator w \<in> {''MACD'', ''EMA_CROSS''}
       then asks_crossing (wc_condition w) \<and> (\<exists>l s pl ps. wv_current_value e = VDict [(''line'', VFloat l),
              (''signal'', VFloat s), (''prev_line'', VFloat pl), (''prev_signal'', VFloat ps)])
       else \<not> asks_crossing (wc_condition w) \<and> (\<exists>x. wv_current_value e = VFloat x))"
proof -
  obtain w where w: "w \<in> set (pc_active_watchers p)"
    "watcher_check rp compute now (pc_position_id p) bufs w = Some e"
    using assms by (auto simp: watcher_tick_def map_filter_def)
  from w(2) obtain df raw n where c: "wc_is_active w"
    "spec_normalize (wc_indicator w) (wc_params w) raw = Inr (wv_current_value e)"
    "evaluate_condition (wc_condition w) (wv_current_value e)" "wv_indicator e = wc_indicator w"
    "wv_condition e = wc_condition w" "wv_action e = wc_action w"
    by (rule watcher_check_Some)
  show ?thesis
    using w(1) c normalize_ok [OF c(2)] condition_kinds by (intro bexI [OF _ w(1)]) (auto split: if_splits)
qed

lemma handle_tighten_Enqueued:
  assumes "handle_tighten now live p e = Enqueued t"
  obtains price existing sl where "t = tighten_task now p e existing sl" and "existing \<noteq> []"
    and "pc_sl_exchange_order_id p = Some existing"
    and "price = (case wv_market_price e of Some mp \<Rightarrow> if mp > 0 then mp else resolve_current_price p live
           | None \<Rightarrow> resolve_current_price p live)"
    and "if pc_side p = SHORT then price < sl \<and> sl < pc_current_sl_price p
         else pc_current_sl_price p < sl \<and> sl < price"
  using assms
  by (auto simp: handle_tighten_def compute_tightened_sl_def Let_def not_le
      split: option.splits if_splits)

text \<open>A watcher can only tighten the recorded stop. When a \<open>tighten_sl\<close> event leads to an order task,
  the queue executes it as one cancel-and-replace of the position's stop order, for the whole
  remaining quantity, at a price strictly between the recorded stop and the price the decision used,
  on the protective side for the position's direction.\<close>

theorem watcher_stop_tightens:
  assumes "handle_watcher_event ttl redis now live (Some p) e = Enqueued t" and "wv_action e = ''tighten_sl''"
    and "pc_symbol p \<noteq> []"
    and "price = (case wv_market_price e of Some mp \<Rightarrow> if mp > 0 then mp else resolve_current_price p live
           | None \<Rightarrow> resolve_current_price p live)"
  shows "\<exists>existing sl cid. pc_sl_exchange_order_id p = Some existing
    \<and> execute_task fc any_live t = Inr (Some (CancelAndReplaceSl (pc_symbol p) existing sl (pc_current_quantity p) cid True))
    \<and> (if pc_side p = SHORT then price < sl \<and> sl < pc_current_sl_price p
       else pc_current_sl_price p < sl \<and> sl < price)"
proof -
  have "handle_tighten now live p e = Enqueued t"
    using assms(1,2) by (simp add: handle_watcher_event_def split: if_splits)
  then obtain existing sl where t: "t = tighten_task now p e existing sl" "existing \<noteq> []"
    "pc_sl_exchange_order_id p = Some existing"
    "if pc_side p = SHORT then price < sl \<and> sl < pc_current_sl_price p
     else pc_current_sl_price p < sl \<and> sl < price"
    using assms(4) by (auto elim!: handle_tighten_Enqueued)
  have "execute_task fc any_live t = Inr (Some (CancelAndReplaceSl (pc_symbol p) existing sl (pc_current_quantity p)
      (watcher_client_order_id now (pc_position_id p) ''watcher-sl'') True))"
    using t(1,2) assms(3)
    by (simp add: execute_task_def tighten_task_def require_str_def require_float_def require_bool_def
        watcher_client_order_id_def)
  with t(3,4) show ?thesis by blast
qed

text \<open>A partial close never exceeds the position. When a \<open>close_partial\<close> event leads to an order task,
  the queue executes it as one reduce order on the closing side, for a quantity that is positive and at
  most what the position holds; and an event within its cooldown leads to none.\<close>

theorem watcher_partial_close_bounded:
  assumes "handle_watcher_event ttl redis now live (Some p) e = Enqueued t" and "wv_action e = ''close_partial''"
    and "pc_symbol p \<noteq> []" and "0 \<le> pc_current_quantity p"
  shows "\<not> (0 < ttl \<and> redis = Some False)
    \<and> (\<exists>q cid. execute_task fc any_live t
         = Inr (Some (PartialClose (pc_symbol p) (closing_order_side (pc_side p)) q cid ''market'' None))
       \<and> 0 < q \<and> q \<le> pc_current_quantity p)"
proof -
  let ?pct = "bus_float (get_default (wv_action_params e) ''close_pct'' (VFloat 25)) 25"
  let ?q = "pc_current_quantity p * min ?pct 100 / 100"
  have c: "claim_trigger ttl redis" and "handle_close_partial now p e = Enqueued t"
    using assms(1,2) by (simp_all add: handle_watcher_event_def split: if_splits)
  then have t: "t = partial_close_task now p e ?q" "0 < ?q"
    by (auto simp: handle_close_partial_def Let_def not_le split: if_splits)
  have "pc_current_quantity p * min ?pct 100 \<le> pc_current_quantity p * 100"
    using assms(4) by (intro mult_left_mono) auto
  then have "?q \<le> pc_current_quantity p" by simp
  moreover have "execute_task fc any_live t = Inr (Some (PartialClose (pc_symbol p)
      (closing_order_side (pc_side p)) ?q (watcher_client_order_id now (pc_position_id p) ''watcher-close'') ''market'' None))"
    using t(1) assms(3)
    by (simp add: execute_task_def partial_close_task_def require_str_def require_float_def require_side_def
        optional_float_def watcher_client_order_id_def)
  moreover have "\<not> (0 < ttl \<and> redis = Some False)" using c by (auto simp: claim_trigger_def)
  ultimately show ?thesis using t(2) by blast
qed

text \<open>Watcher events survive the wire. An event whose value is present is rebuilt exactly from the
  dictionary that was published, with or without a market price; without a value it is refused.\<close>

theorem event_roundtrip:
  "deserialize_watcher_event (serialize_watcher_event e)
     = (if wv_current_value e = VNone then Inl (TypeError ''missing required positional argument'') else Inr e)"
  by (cases e; cases "wv_market_price e")
     (auto simp: serialize_watcher_event_def deserialize_watcher_event_def event_fields_def as_text_def
       opt_float_def)

section \<open>Examples\<close>

text \<open>A long position with its stop at 90, and an event at a price of 100 with a range of 2.\<close>

definition sample_watched :: position_context where
  "sample_watched = default_context\<lparr>pc_position_id := ''p'', pc_symbol := ''S'', pc_state := OPEN,
     pc_entry_price := 95, pc_current_quantity := 4, pc_current_sl_price := 90,
     pc_sl_exchange_order_id := Some ''o'',
     pc_active_watchers := [\<lparr>wc_indicator = ''RSI'', wc_params = [], wc_condition = ''> 70'',
       wc_action = ''alert'', wc_action_params = [], wc_is_active = True\<rparr>]\<rparr>"

definition sample_watcher_event :: "string \<Rightarrow> real \<Rightarrow> watcher_event" where
  "sample_watcher_event action price = \<lparr>wv_position_id = ''p'', wv_indicator = ''ATR'', wv_condition = ''> 1'',
     wv_current_value = VFloat 2, wv_action = action, wv_action_params = [], wv_timestamp = ''t'',
     wv_market_price = Some price\<rparr>"

lemmas sample_watch_simps = sample_watched_def sample_watcher_event_def default_context_def

lemma sample_tighten:
  "handle_watcher_event 300 (Some True) 1 LiveNone (Some sample_watched) (sample_watcher_event ''tighten_sl'' x)
     = (if x - 3 \<le> 90 \<or> x \<le> 0 then (if 0 < x \<or> 95 - 3 \<le> (90::real) then Ignored
          else Enqueued (tighten_task 1 sample_watched (sample_watcher_event ''tighten_sl'' x) ''o'' 92))
        else Enqueued (tighten_task 1 sample_watched (sample_watcher_event ''tighten_sl'' x) ''o'' (x - 3)))"
  by (simp add: handle_watcher_event_def claim_trigger_def handle_tighten_def extract_atr_value_def
      sample_watch_simps resolve_current_price_def bus_float_def compute_tightened_sl_def opt_float_def Let_def)

theorem watcher_stop_tightens_witness:
  "\<exists>t sl cid. handle_watcher_event 300 (Some True) 1 LiveNone (Some sample_watched)
       (sample_watcher_event ''tighten_sl'' 100) = Enqueued t
     \<and> execute_task [] LiveNone t = Inr (Some (CancelAndReplaceSl ''S'' ''o'' sl 4 cid True)) \<and> 90 < sl \<and> sl < 100"
proof -
  obtain t where t: "handle_watcher_event 300 (Some True) 1 LiveNone (Some sample_watched)
      (sample_watcher_event ''tighten_sl'' 100) = Enqueued t"
    by (simp add: sample_tighten)
  from watcher_stop_tightens [OF t _ _ refl, of "[]" LiveNone] t show ?thesis
    by (auto simp: sample_watch_simps)
qed

theorem watcher_partial_close_bounded_witness:
  "\<exists>t q cid. handle_watcher_event 300 None 1 LiveNone (Some sample_watched)
       (sample_watcher_event ''close_partial'' 100) = Enqueued t
     \<and> execute_task [] LiveNone t = Inr (Some (PartialClose ''S'' SELL q cid ''market'' None)) \<and> 0 < q \<and> q \<le> 4"
proof -
  obtain t where t: "handle_watcher_event 300 None 1 LiveNone (Some sample_watched)
      (sample_watcher_event ''close_partial'' 100) = Enqueued t"
    by (simp add: handle_watcher_event_def claim_trigger_def handle_close_partial_def bus_float_def
        sample_watch_simps Let_def)
  from watcher_partial_close_bounded [OF t, of "[]" LiveNone] t show ?thesis
    by (auto simp: sample_watch_simps closing_order_side_def)
qed

theorem history_suffices_witness:
  "\<exists>l. dict_get (get_required_kline_limits (\<lambda>_. []) (pc_active_watchers sample_watched)) ''15m'' = Some l
     \<and> 24 \<le> l \<and> 100 \<le> l"
  using history_suffices [of "hd (pc_active_watchers sample_watched)" "pc_active_watchers sample_watched" 24 "\<lambda>_. []"]
  by (simp add: sample_watch_simps spec_min_bars_def watcher_timeframe_def)

definition sample_bars :: "kline list" where
  "sample_bars = replicate 30 \<lparr>kl_open = 1, kl_high = 1, kl_low = 1, kl_close = 1, kl_volume = 1\<rparr>"

theorem tick_events_typed_witness:
  "\<exists>e \<in> set (watcher_tick (\<lambda>_. []) (\<lambda>_ _ _. Some (ResSeries [None, Some 75])) ''t'' sample_watched
      [(''15m'', sample_bars)]). \<not> asks_crossing (wv_condition e) \<and> wv_current_value e = VFloat 75"
proof -
  let ?tick = "watcher_tick (\<lambda>_. []) (\<lambda>_ _ _. Some (ResSeries [None, Some 75])) ''t'' sample_watched
      [(''15m'', sample_bars)]"
  have c: "evaluate_condition ''> 70'' (VFloat 75)"
  proof -
    have f: "float_text ''70'' = 70" "match_number ''70''"
      by (simp_all add: float_text_def match_number_def py_simps Let_def)
    show ?thesis using evaluate_comparison_condition [of "''>''" "''70''" 75] f by (simp add: compare_op_def)
  qed
  have "?tick \<noteq> [] \<and> wv_current_value (hd ?tick) = VFloat 75"
    using c by (simp add: watcher_tick_def watcher_check_def sample_watch_simps spec_min_bars_def
        watcher_timeframe_def sample_bars_def spec_normalize_def normalize_scalar_series_def
        as_finite_float_def map_filter_def)
  then have e: "hd ?tick \<in> set ?tick" "wv_current_value (hd ?tick) = VFloat 75" by auto
  from tick_events_typed [OF e(1)] e(2) have "\<not> asks_crossing (wv_condition (hd ?tick))"
    by (auto split: if_splits)
  with e show ?thesis by blast
qed

text \<open>The handler reads the recorded stop, which a tightening does not update: a second event at a
  lower price replaces the stop at 97 by one at 93.\<close>

lemma tightened_stop_not_recorded:
  "\<exists>t1 t2. handle_watcher_event 300 (Some True) 1 LiveNone (Some sample_watched)
        (sample_watcher_event ''tighten_sl'' 100) = Enqueued t1
     \<and> handle_watcher_event 300 (Some True) 1 LiveNone (Some sample_watched)
        (sample_watcher_event ''tighten_sl'' 96) = Enqueued t2
     \<and> ot_on_success t1 = None \<and> get_none (ot_params t1) ''new_trigger_price'' = VFloat 97
     \<and> get_none (ot_params t2) ''new_trigger_price'' = VFloat 93"
  by (simp add: sample_tighten) (simp add: tighten_task_def)

end
