(* ===== verification/Metrics.thy ===== *)
theory Metrics
  imports Prelude
begin

text \<open>
  The pure part of \<^verbatim>\<open>app/services/backtesting/common.py\<close>: position sizing and the performance metrics that
  backtests and live strategies share, computed from trades that are dictionaries.

  Numbers that are not finite are \<open>None\<close>. \<open>calculate_r_squared\<close> (a least-squares solver), the calendar
  arithmetic of the backtest period and the client labels are left out.
\<close>

section \<open>Position size\<close>

record position_sizer =
  sz_account_balance :: real
  sz_risk_per_trade :: real
  sz_max_open_positions :: int
  sz_max_position_pct :: real
  sz_open_trades :: int

datatype sizing =
    Refused string
  | Sized real real real real

text \<open>\<open>Sized quantity position_value risk_usdt risk_usdt_plan\<close>; a zero entry price divides by zero when
  the position is capped, which needs a positive position value.\<close>

definition calculate_position_size :: "position_sizer \<Rightarrow> real \<Rightarrow> real \<Rightarrow> sizing" where
  "calculate_position_size s entry stop_loss =
     (if sz_open_trades s \<ge> sz_max_open_positions s then Refused ''max_positions''
      else
        let risk_usdt = sz_account_balance s * (sz_risk_per_trade s / 100);
            sl_distance = \<bar>entry - stop_loss\<bar>
        in if sl_distance \<le> 0 then Refused ''invalid_sl_distance''
           else
             let quantity = risk_usdt / sl_distance;
                 position_value = quantity * entry;
                 max_value = sz_account_balance s * (sz_max_position_pct s / 100);
                 capped = (max_value > 0 \<and> position_value > max_value);
                 q = (if capped then max_value / entry else quantity)
             in Sized q (q * entry) (q * sl_distance) risk_usdt)"

section \<open>R multiples\<close>

definition metric_float :: "pyval \<Rightarrow> real option" where
  "metric_float v =
     (case v of
        VInt i \<Rightarrow> Some (of_int i)
      | VFloat x \<Rightarrow> Some x
      | VStr s \<Rightarrow> parse_float s
      | _ \<Rightarrow> None)"

definition trade_number :: "pydict \<Rightarrow> string \<Rightarrow> real option" where
  "trade_number t k = metric_float (get_none t k)"

definition positive :: "real option \<Rightarrow> real option" where
  "positive v = (case v of None \<Rightarrow> None | Some x \<Rightarrow> if x > 0 then Some x else None)"

definition is_open :: "pydict \<Rightarrow> bool" where
  "is_open t = (get_none t ''exit_reason'' = VStr ''OPEN'')"

definition derive_trade_risk_usdt :: "pydict \<Rightarrow> real option" where
  "derive_trade_risk_usdt t =
     (case (trade_number t ''entry'', trade_number t ''sl'') of
        (Some entry, Some sl) \<Rightarrow>
          let price_risk = \<bar>entry - sl\<bar> in
          if price_risk \<le> 0 then None
          else
            let quantity = (case positive (trade_number t ''position_size'') of
                              Some q \<Rightarrow> Some q | None \<Rightarrow> positive (trade_number t ''qty''))
            in (case quantity of
                  Some q \<Rightarrow> Some (price_risk * \<bar>q\<bar>)
                | None \<Rightarrow>
                    (case positive (trade_number t ''allocation_usdt'') of
                       Some a \<Rightarrow> if entry > 0 then Some (price_risk / \<bar>entry\<bar> * a) else None
                     | None \<Rightarrow> None))
      | _ \<Rightarrow> None)"

definition compute_trade_r_multiple :: "pydict \<Rightarrow> real option" where
  "compute_trade_r_multiple t =
     (case trade_number t ''r_real'' of
        Some r \<Rightarrow> Some r
      | None \<Rightarrow>
          (case trade_number t ''pnl_usdt'' of
             None \<Rightarrow> None
           | Some pnl \<Rightarrow>
               (case (case positive (trade_number t ''risk_usdt'') of
                        Some r \<Rightarrow> Some r | None \<Rightarrow> positive (derive_trade_risk_usdt t)) of
                  None \<Rightarrow> None
                | Some risk \<Rightarrow> Some (pnl / risk))))"

definition collect_valid_r_values :: "pydict list \<Rightarrow> real list" where
  "collect_valid_r_values ts =
     List.map_filter
       (\<lambda>t. case trade_number t ''r_multiple'' of Some r \<Rightarrow> Some r | None \<Rightarrow> compute_trade_r_multiple t)
       (filter (\<lambda>t. \<not> is_open t) ts)"

section \<open>Performance\<close>

definition mean :: "real list \<Rightarrow> real" where
  "mean xs = sum_list xs / real (length xs)"

text \<open>\<open>np.std(xs, ddof=1)\<close>.\<close>

definition std1 :: "real list \<Rightarrow> real" where
  "std1 xs = sqrt (sum_list (map (\<lambda>x. (x - mean xs)\<^sup>2) xs) / real (length xs - 1))"

definition calculate_sharpe_proxy :: "real list \<Rightarrow> real" where
  "calculate_sharpe_proxy rs =
     (if length rs < 2 then 0
      else if std1 rs \<le> 0 then 0
      else mean rs / std1 rs * sqrt (real (length rs)))"

record walk_window =
  ww_window :: nat
  ww_trades :: nat
  ww_win_rate :: real
  ww_avg_r :: real
  ww_total_r :: real

record walk_forward =
  wf_windows :: "walk_window list"
  wf_positive_windows :: nat
  wf_stability_score :: real

text \<open>\<open>np.array_split(xs, k)\<close>: the first \<open>n mod k\<close> of the \<open>k\<close> segments have one element more.\<close>

fun split_sizes :: "nat list \<Rightarrow> 'a list \<Rightarrow> 'a list list" where
  "split_sizes [] xs = []"
| "split_sizes (n # ns) xs = take n xs # split_sizes ns (drop n xs)"

definition array_split :: "nat \<Rightarrow> 'a list \<Rightarrow> 'a list list" where
  "array_split k xs =
     split_sizes (replicate (length xs mod k) (length xs div k + 1)
                  @ replicate (k - length xs mod k) (length xs div k)) xs"

definition win_count :: "real list \<Rightarrow> nat" where
  "win_count xs = length (filter (\<lambda>x. x > 0) xs)"

definition window_of :: "nat \<times> real list \<Rightarrow> walk_window" where
  "window_of w =
     (case w of (i, xs) \<Rightarrow>
        \<lparr>ww_window = i, ww_trades = length xs,
         ww_win_rate = (if xs = [] then 0 else real (win_count xs) / real (length xs) * 100),
         ww_avg_r = (if xs = [] then 0 else mean xs), ww_total_r = sum_list xs\<rparr>)"

definition build_walk_forward_stability :: "real list \<Rightarrow> nat \<Rightarrow> walk_forward" where
  "build_walk_forward_stability rs windows =
     (if rs = [] then \<lparr>wf_windows = [], wf_positive_windows = 0, wf_stability_score = 0\<rparr>
      else
        let ws = map window_of (List.enumerate 1 (array_split (min windows (length rs)) rs));
            positive_windows = length (filter (\<lambda>w. ww_total_r w > 0) ws)
        in \<lparr>wf_windows = ws, wf_positive_windows = positive_windows,
            wf_stability_score = (if ws = [] then 0 else real positive_windows / real (length ws))\<rparr>)"

text \<open>The greatest fall of the running sum below its running maximum.\<close>

fun r_drawdown :: "real option \<Rightarrow> real \<Rightarrow> real \<Rightarrow> real list \<Rightarrow> real" where
  "r_drawdown peak acc worst [] = worst"
| "r_drawdown peak acc worst (r # rs) =
     (let t = acc + r; p = (case peak of None \<Rightarrow> t | Some q \<Rightarrow> max q t)
      in r_drawdown (Some p) t (max worst (p - t)) rs)"

fun loss_streak :: "nat \<Rightarrow> nat \<Rightarrow> real list \<Rightarrow> nat" where
  "loss_streak streak longest [] = longest"
| "loss_streak streak longest (r # rs) =
     (if r < 0 then loss_streak (streak + 1) (max longest (streak + 1)) rs
      else loss_streak 0 longest rs)"

record performance =
  pf_total_trades :: nat
  pf_closed_trades :: nat
  pf_win_rate :: real
  pf_wins :: nat
  pf_losses :: nat
  pf_profit_factor :: real
  pf_best_trade :: real
  pf_worst_trade :: real
  pf_avg_r :: real
  pf_total_r :: real
  pf_max_drawdown :: real
  pf_sharpe_proxy :: real
  pf_walk_forward :: walk_forward
  pf_consecutive_losses :: nat

definition empty_performance :: "nat \<Rightarrow> nat \<Rightarrow> performance" where
  "empty_performance n_trades n_closed =
     \<lparr>pf_total_trades = n_trades, pf_closed_trades = n_closed, pf_win_rate = 0, pf_wins = 0, pf_losses = 0,
      pf_profit_factor = 0, pf_best_trade = 0, pf_worst_trade = 0, pf_avg_r = 0, pf_total_r = 0,
      pf_max_drawdown = 0, pf_sharpe_proxy = 0, pf_walk_forward = build_walk_forward_stability [] 4,
      pf_consecutive_losses = 0\<rparr>"

definition profit_factor :: "real list \<Rightarrow> real" where
  "profit_factor rs =
     (let total_wins = sum_list (filter (\<lambda>r. r > 0) rs);
          total_losses = \<bar>sum_list (filter (\<lambda>r. r < 0) rs)\<bar>
      in if total_losses > 0 then total_wins / total_losses else max 0 total_wins)"

definition calculate_performance_metrics :: "pydict list \<Rightarrow> performance" where
  "calculate_performance_metrics ts =
     (if ts = [] then empty_performance 0 0
      else
        let closed_trades = filter (\<lambda>t. \<not> is_open t) ts; rs = collect_valid_r_values closed_trades in
        if rs = [] then empty_performance (length ts) (length closed_trades)
        else \<lparr>pf_total_trades = length ts, pf_closed_trades = length closed_trades,
              pf_win_rate = real (win_count rs) / real (length rs) * 100,
              pf_wins = win_count rs, pf_losses = length (filter (\<lambda>r. r < 0) rs),
              pf_profit_factor = profit_factor rs, pf_best_trade = foldr max rs (hd rs),
              pf_worst_trade = foldr min rs (hd rs), pf_avg_r = mean rs, pf_total_r = sum_list rs,
              pf_max_drawdown = r_drawdown None 0 0 rs, pf_sharpe_proxy = calculate_sharpe_proxy rs,
              pf_walk_forward = build_walk_forward_stability rs 4,
              pf_consecutive_losses = loss_streak 0 0 rs\<rparr>)"

section \<open>Equity\<close>

record equity_point =
  ep_step :: nat
  ep_equity :: real
  ep_pnl_usdt :: real

fun equity_points :: "nat \<Rightarrow> real \<Rightarrow> pydict list \<Rightarrow> equity_point list" where
  "equity_points i equity [] = []"
| "equity_points i equity (t # ts) =
     (if is_open t then equity_points i equity ts
      else case trade_number t ''pnl_usdt'' of
             None \<Rightarrow> equity_points i equity ts
           | Some pnl \<Rightarrow>
               \<lparr>ep_step = i, ep_equity = equity + pnl, ep_pnl_usdt = pnl\<rparr>
               # equity_points (i + 1) (equity + pnl) ts)"

definition build_equity_curve :: "pydict list \<Rightarrow> real \<Rightarrow> equity_point list" where
  "build_equity_curve ts initial =
     \<lparr>ep_step = 0, ep_equity = initial, ep_pnl_usdt = 0\<rparr> # equity_points 1 initial ts"

text \<open>The peak starts at minus infinity, here \<open>None\<close>.\<close>

fun equity_drawdown :: "real option \<Rightarrow> real \<Rightarrow> real list \<Rightarrow> real" where
  "equity_drawdown peak worst [] = worst"
| "equity_drawdown peak worst (e # es) =
     (let p = (case peak of None \<Rightarrow> e | Some q \<Rightarrow> max q e)
      in equity_drawdown (Some p) (if p \<le> 0 then worst else max worst ((p - e) / p)) es)"

definition calculate_equity_max_drawdown_pct :: "equity_point list \<Rightarrow> real" where
  "calculate_equity_max_drawdown_pct curve = equity_drawdown None 0 (map ep_equity curve) * 100"

definition calculate_total_return_pct :: "real \<Rightarrow> real \<Rightarrow> real" where
  "calculate_total_return_pct initial final = (if initial > 0 then (final / initial - 1) * 100 else 0)"

definition calculate_annualized_return_pct :: "real \<Rightarrow> real \<Rightarrow> real \<Rightarrow> real" where
  "calculate_annualized_return_pct initial final period_days =
     (if initial > 0 \<and> final > 0 \<and> period_days > 0
      then ((final / initial) powr (36525 / 100 / period_days) - 1) * 100 else 0)"

definition calculate_calmar_ratio :: "real \<Rightarrow> real \<Rightarrow> real" where
  "calculate_calmar_ratio annualized drawdown = (if drawdown > 0 then annualized / drawdown else 0)"

fun running_sums :: "real \<Rightarrow> real list \<Rightarrow> real list" where
  "running_sums acc [] = []"
| "running_sums acc (r # rs) = (acc + r) # running_sums (acc + r) rs"

definition build_r_cumulative_curve :: "real list \<Rightarrow> real list" where
  "build_r_cumulative_curve rs = (if rs = [] then [0] else 0 # running_sums 0 rs)"

text \<open>The keys that \<open>add_capital_metrics\<close> writes over the summary, and the trades it annotates; the
  period is its length in days.\<close>

record capital_metrics =
  cm_initial_balance :: real
  cm_final_balance :: real
  cm_total_pnl :: real
  cm_total_return_pct :: real
  cm_avg_risk_per_trade :: real
  cm_avg_r :: real
  cm_total_r :: real
  cm_max_drawdown_pct :: real
  cm_annualized_return_pct :: real
  cm_calmar_ratio :: real

definition annotate_r :: "pydict \<Rightarrow> pydict" where
  "annotate_r t =
     dict_set t ''r_multiple''
       (if is_open t then VNone else opt_float (compute_trade_r_multiple t))"

definition closed_pnls :: "pydict list \<Rightarrow> real list" where
  "closed_pnls ts = List.map_filter (\<lambda>t. if is_open t then None else trade_number t ''pnl_usdt'') ts"

definition closed_risks :: "pydict list \<Rightarrow> real list" where
  "closed_risks ts =
     List.map_filter (\<lambda>t. if is_open t then None else positive (trade_number t ''risk_usdt'')) ts"

definition add_capital_metrics ::
    "pydict list \<Rightarrow> real \<Rightarrow> real \<Rightarrow> capital_metrics \<times> performance \<times> equity_point list \<times> pydict list" where
  "add_capital_metrics ts initial period_days =
     (let ts' = map annotate_r ts; rs = collect_valid_r_values ts'; risks = closed_risks ts;
          total_pnl = sum_list (closed_pnls ts); final = initial + total_pnl;
          curve = build_equity_curve ts' initial;
          dd = calculate_equity_max_drawdown_pct curve;
          annualized = calculate_annualized_return_pct initial final period_days
      in (\<lparr>cm_initial_balance = initial, cm_final_balance = final, cm_total_pnl = total_pnl,
           cm_total_return_pct = calculate_total_return_pct initial final,
           cm_avg_risk_per_trade = (if risks = [] then 0 else mean risks),
           cm_avg_r = (if rs = [] then 0 else mean rs), cm_total_r = last (build_r_cumulative_curve rs),
           cm_max_drawdown_pct = dd, cm_annualized_return_pct = annualized,
           cm_calmar_ratio = calculate_calmar_ratio annualized dd\<rparr>,
          calculate_performance_metrics ts', curve, ts'))"

section \<open>Outcome of a trade\<close>

definition exit_raw :: "(pyval \<Rightarrow> string) \<Rightarrow> pydict \<Rightarrow> string" where
  "exit_raw rp t =
     py_upper (py_str rp (py_or (py_or (get_none t ''exit_reason'') (get_none t ''exit_type'')) (VStr [])))"

definition exit_normalized :: "string \<Rightarrow> string" where
  "exit_normalized raw =
     (if raw = ''OPEN'' then ''OPEN''
      else if raw \<in> {''TAKE'', ''TP'', ''GRID_TP''} then ''TAKE_PROFIT''
      else if raw \<in> {''STOP'', ''SL''} then ''STOP_LOSS''
      else if raw = ''TIME'' then ''TIME_EXIT''
      else if raw = ''EOD_CLOSE'' then ''EOD_CLOSE'' else ''OTHER'')"

definition confirmation_status :: "(pyval \<Rightarrow> string) \<Rightarrow> pydict \<Rightarrow> string" where
  "confirmation_status rp t =
     (let n = exit_normalized (exit_raw rp t);
          pnl = (case trade_number t ''pnl_usdt'' of Some x \<Rightarrow> Some x | None \<Rightarrow> trade_number t ''pnl_pct'')
      in if n = ''OPEN'' then ''open''
         else if n = ''TAKE_PROFIT'' then ''take_profit''
         else if n = ''STOP_LOSS'' then ''stop_loss''
         else case pnl of
                None \<Rightarrow> ''unknown''
              | Some x \<Rightarrow> if x > 0 then ''profit'' else if x < 0 then ''loss'' else ''breakeven'')"

section \<open>Lemmas\<close>

lemma ratio_mono:
  assumes "0 < p" and "p \<le> (q::real)" and "0 \<le> e"
  shows "(p - e) / p \<le> (q - e) / q"
proof -
  have "e / q \<le> e / p" using assms by (simp add: divide_left_mono)
  then show ?thesis using assms by (simp add: diff_divide_distrib)
qed

text \<open>The scan with a peak reached so far dominates every decline, from that peak or between two
  points, and is one of them.\<close>

lemma drawdown_upper:
  assumes "\<forall>e \<in> set es. 0 \<le> e" and "0 \<le> w"
  shows "w \<le> equity_drawdown (Some p) w es
    \<and> (0 < p \<longrightarrow> (\<forall>j < length es. (p - es ! j) / p \<le> equity_drawdown (Some p) w es))
    \<and> (\<forall>j < length es. \<forall>i \<le> j. 0 < es ! i \<longrightarrow> (es ! i - es ! j) / es ! i \<le> equity_drawdown (Some p) w es)"
  using assms
proof (induction es arbitrary: p w)
  case (Cons e es)
  let ?q = "max p e" let ?w = "if ?q \<le> 0 then w else max w ((?q - e) / ?q)"
  let ?d = "equity_drawdown (Some ?q) ?w es"
  have w: "w \<le> ?w" "0 \<le> ?w" using Cons.prems(2) by auto
  from Cons.IH [of ?w ?q] Cons.prems(1) w(2) have ih: "?w \<le> ?d"
    "0 < ?q \<longrightarrow> (\<forall>j < length es. (?q - es ! j) / ?q \<le> ?d)"
    "\<forall>j < length es. \<forall>i \<le> j. 0 < es ! i \<longrightarrow> (es ! i - es ! j) / es ! i \<le> ?d" by auto
  have e: "0 \<le> e" using Cons.prems(1) by simp
  have d: "(x - (e # es) ! j) / x \<le> ?d" if x: "0 < x" "x \<le> ?q" and j: "j < length (e # es)" for x j
  proof (cases j)
    case 0
    have "(x - e) / x \<le> (?q - e) / ?q" using ratio_mono [OF x e] .
    also have "\<dots> \<le> ?w" using x by (simp only: if_False not_le [THEN iffD2, of 0 ?q] less_le_trans [OF x] max.cobounded2)
    finally show ?thesis using ih(1) 0 by simp
  next
    case (Suc k)
    then have "0 \<le> es ! k" using Cons.prems(1) j by simp
    from ratio_mono [OF x this] ih(2) x Suc j show ?thesis by fastforce
  qed
  have "w \<le> ?d" using w ih(1) by linarith
  moreover have "((e # es) ! i - (e # es) ! j) / (e # es) ! i \<le> ?d"
    if "j < length (e # es)" "i \<le> j" "0 < (e # es) ! i" for i j
  proof (cases i)
    case 0
    with d [of e j] that show ?thesis by simp
  next
    case (Suc k)
    with that ih(3) show ?thesis by (cases j) auto
  qed
  moreover have eq: "equity_drawdown (Some p) w (e # es) = ?d" by (simp add: Let_def)
  ultimately show ?case using d [OF _ max.cobounded1] unfolding eq by blast
qed simp

lemma drawdown_attained:
  "equity_drawdown (Some p) w es = w
   \<or> (\<exists>j < length es. 0 < p \<and> equity_drawdown (Some p) w es = (p - es ! j) / p)
   \<or> (\<exists>j < length es. \<exists>i \<le> j. 0 < es ! i \<and> equity_drawdown (Some p) w es = (es ! i - es ! j) / es ! i)"
proof (induction es arbitrary: p w)
  case (Cons e es)
  let ?q = "max p e" let ?w = "if ?q \<le> 0 then w else max w ((?q - e) / ?q)"
  let ?d = "equity_drawdown (Some ?q) ?w es"
  have d: "equity_drawdown (Some p) w (e # es) = ?d" by (simp add: Let_def)
  have q: "?q = p \<or> ?q = e" by auto
  from Cons.IH [of ?q ?w] consider (w) "?d = ?w"
    | (peak) j where "j < length es" "0 < ?q" "?d = (?q - es ! j) / ?q"
    | (pair) i j where "j < length es" "i \<le> j" "0 < es ! i" "?d = (es ! i - es ! j) / es ! i" by blast
  then show ?case
  proof cases
    case w
    moreover have "?w = w \<or> 0 < ?q \<and> ?w = (?q - e) / ?q" by (simp only: max_def not_le split: if_split) linarith
    ultimately consider "?d = w" | "0 < ?q" "?d = (?q - e) / ?q" by linarith
    then show ?thesis
    proof cases
      case 2
      from q show ?thesis
      proof
        assume "?q = p"
        with 2 d show ?thesis by (intro disjI2 disjI1 exI [of _ 0]) simp
      next
        assume "?q = e"
        with 2 d show ?thesis by (intro disjI2 exI [of _ 0]) simp
      qed
    qed (simp add: d)
  next
    case peak
    from q show ?thesis
    proof
      assume "?q = p"
      with peak d show ?thesis by (intro disjI2 disjI1 exI [of _ "Suc j"]) simp
    next
      assume e: "?q = e"
      have "\<exists>j' < length (e # es). \<exists>i \<le> j'. 0 < (e # es) ! i \<and> ?d = ((e # es) ! i - (e # es) ! j') / (e # es) ! i"
      proof -
        have "Suc j < length (e # es) \<and> 0 \<le> Suc j \<and> 0 < (e # es) ! 0
            \<and> ?d = ((e # es) ! 0 - (e # es) ! Suc j) / (e # es) ! 0"
          using peak e by simp
        then show ?thesis by blast
      qed
      with d show ?thesis by simp
    qed
  next
    case pair
    have "\<exists>j' < length (e # es). \<exists>i' \<le> j'. 0 < (e # es) ! i' \<and> ?d = ((e # es) ! i' - (e # es) ! j') / (e # es) ! i'"
    proof -
      have "Suc j < length (e # es) \<and> Suc i \<le> Suc j \<and> 0 < (e # es) ! Suc i
          \<and> ?d = ((e # es) ! Suc i - (e # es) ! Suc j) / (e # es) ! Suc i"
        using pair by simp
      then show ?thesis by blast
    qed
    with d show ?thesis by simp
  qed
qed simp

lemma equity_points_last:
  "ep_equity (last (\<lparr>ep_step = k, ep_equity = e, ep_pnl_usdt = x\<rparr> # equity_points i e ts)) = e + sum_list (closed_pnls ts)"
proof (induction i e ts arbitrary: k x rule: equity_points.induct)
  case (2 i e t ts)
  show ?case
  proof (cases "is_open t \<or> trade_number t ''pnl_usdt'' = None")
    case True
    with 2 show ?thesis by (auto simp: closed_pnls_def map_filter_simps)
  next
    case False
    then obtain pnl where "trade_number t ''pnl_usdt'' = Some pnl" by auto
    with False 2(3) [OF _ this, of i pnl] show ?thesis by (simp add: closed_pnls_def map_filter_simps)
  qed
qed (simp add: closed_pnls_def map_filter_simps)

section \<open>Properties\<close>

text \<open>The reported drawdown is the worst decline. On an equity curve that never goes below zero, the
  one-pass computation yields, in percent, a decline that is at least every relative decline from a
  positive point to the same or a later one, is zero or one of them, and lies between 0 and 100.\<close>

theorem drawdown_is_worst_decline:
  assumes "\<forall>p \<in> set curve. 0 \<le> ep_equity p"
    and "decline = (\<lambda>i j. (ep_equity (curve ! i) - ep_equity (curve ! j)) / ep_equity (curve ! i))"
    and "calculate_equity_max_drawdown_pct curve = 100 * d"
  shows "0 \<le> d \<and> d \<le> 1
    \<and> (\<forall>j < length curve. \<forall>i \<le> j. 0 < ep_equity (curve ! i) \<longrightarrow> decline i j \<le> d)
    \<and> (d = 0 \<or> (\<exists>j < length curve. \<exists>i \<le> j. 0 < ep_equity (curve ! i) \<and> d = decline i j))"
proof (cases curve)
  case Nil
  then show ?thesis using assms(3) by (simp add: calculate_equity_max_drawdown_pct_def)
next
  case (Cons c cs)
  let ?es = "map ep_equity curve" let ?d = "equity_drawdown (Some (ep_equity c)) 0 ?es"
  have "equity_drawdown None 0 ?es = ?d" by (simp add: Cons)
  then have d: "d = ?d" using assms(3) by (simp add: calculate_equity_max_drawdown_pct_def)
  have nn: "\<forall>e \<in> set ?es. 0 \<le> e" using assms(1) by simp
  note up = drawdown_upper [OF nn order_refl, of "ep_equity c"]
  have c0: "ep_equity c = ?es ! 0" by (simp add: Cons)
  have at: "?d = 0 \<or> (\<exists>j < length ?es. \<exists>i \<le> j. 0 < ?es ! i \<and> ?d = (?es ! i - ?es ! j) / ?es ! i)"
    using drawdown_attained [of "ep_equity c" 0 ?es] c0 by (metis zero_le)
  have "(?es ! i - ?es ! j) / ?es ! i \<le> 1" if "j < length ?es" "i \<le> j" "0 < ?es ! i" for i j
    using that nn by (simp add: divide_le_eq_1)
  with at have "?d \<le> 1" by fastforce
  moreover have "\<forall>j < length curve. \<forall>i \<le> j. 0 < ep_equity (curve ! i) \<longrightarrow> decline i j \<le> d"
    using up unfolding d assms(2) by auto
  moreover have "d = 0 \<or> (\<exists>j < length curve. \<exists>i \<le> j. 0 < ep_equity (curve ! i) \<and> d = decline i j)"
  proof (cases "?d = 0")
    case False
    with at obtain j i where "j < length ?es" "i \<le> j" "0 < ?es ! i" "?d = (?es ! i - ?es ! j) / ?es ! i"
      by blast
    then have "j < length curve \<and> i \<le> j \<and> 0 < ep_equity (curve ! i) \<and> d = decline i j"
      unfolding d assms(2) by simp
    then show ?thesis by blast
  qed (simp add: d)
  ultimately show ?thesis using up d by auto
qed

definition sample_curve :: "equity_point list" where
  "sample_curve = build_equity_curve
     [[(''pnl_usdt'', VInt 100)], [(''pnl_usdt'', VInt (- 50))], [(''exit_reason'', VStr ''OPEN'')]] 100"

lemma sample_curve_points: "map ep_equity sample_curve = [100, 200, 150]"
  by (simp add: sample_curve_def build_equity_curve_def is_open_def trade_number_def metric_float_def)

theorem drawdown_is_worst_decline_witness:
  "calculate_equity_max_drawdown_pct sample_curve = 25 \<and> (ep_equity (sample_curve ! 1) - ep_equity (sample_curve ! 2))
      / ep_equity (sample_curve ! 1) \<le> 1 / 4"
proof -
  have d: "calculate_equity_max_drawdown_pct sample_curve = 100 * (1 / 4)"
    by (simp add: calculate_equity_max_drawdown_pct_def sample_curve_points)
  have l: "length sample_curve = 3" using arg_cong [OF sample_curve_points, of length] by simp
  have e1: "ep_equity (sample_curve ! 1) = 200"
    using arg_cong [OF sample_curve_points, of "\<lambda>xs. xs ! 1"] l by auto
  have nn: "\<forall>p \<in> set sample_curve. 0 \<le> ep_equity p"
  proof
    fix p assume "p \<in> set sample_curve"
    then have "ep_equity p \<in> set (map ep_equity sample_curve)" by simp
    then show "0 \<le> ep_equity p" unfolding sample_curve_points by auto
  qed
  note w = drawdown_is_worst_decline [OF nn refl d]
  have "0 < ep_equity (sample_curve ! 1)" "2 < length sample_curve" "1 \<le> (2::nat)"
    using e1 l by simp_all
  with w have "(ep_equity (sample_curve ! 1) - ep_equity (sample_curve ! 2)) / ep_equity (sample_curve ! 1) \<le> 1 / 4"
    by blast
  with d show ?thesis by simp
qed

text \<open>The capital summary is consistent with the equity curve. The final balance is the initial
  balance plus the profit of the closed trades and equals the last point of the curve; the total
  return is that profit relative to a positive initial balance; and the total in R is the sum of the
  R multiples the summary counts.\<close>

lemma annotate_keeps [simp]:
  "is_open (annotate_r t) = is_open t" "trade_number (annotate_r t) ''pnl_usdt'' = trade_number t ''pnl_usdt''"
  by (simp_all add: annotate_r_def is_open_def trade_number_def)

lemma running_sums_last: "last (acc # running_sums acc rs) = acc + sum_list rs"
  by (induction acc rs rule: running_sums.induct) simp_all

theorem capital_metrics_consistent:
  "case add_capital_metrics ts initial days of (cm, pf, curve, ts') \<Rightarrow>
     cm_final_balance cm = initial + sum_list (closed_pnls ts)
     \<and> cm_final_balance cm = ep_equity (last curve)
     \<and> cm_total_return_pct cm = (if initial > 0 then sum_list (closed_pnls ts) / initial * 100 else 0)
     \<and> cm_total_r cm = sum_list (collect_valid_r_values ts')
     \<and> cm_max_drawdown_pct cm = calculate_equity_max_drawdown_pct curve"
proof -
  have c: "closed_pnls (map annotate_r ts) = closed_pnls ts"
    by (induction ts) (simp_all add: closed_pnls_def map_filter_simps split: option.split)
  have "last (build_r_cumulative_curve rs) = sum_list rs" for rs
    using running_sums_last [of 0 rs] by (simp add: build_r_cumulative_curve_def)
  moreover have "initial > 0 \<Longrightarrow> (initial + x) / initial - 1 = x / initial" for x
    by (simp add: field_simps)
  ultimately show ?thesis
    using equity_points_last [of 0 initial 0 1 "map annotate_r ts"] c
    by (simp add: add_capital_metrics_def Let_def build_equity_curve_def calculate_total_return_pct_def)
qed

lemma split_sizes_length [simp]: "length (split_sizes ns xs) = length ns"
  by (induction ns xs rule: split_sizes.induct) simp_all

lemma split_sizes_concat: "sum_list ns = length xs \<Longrightarrow> concat (split_sizes ns xs) = xs"
proof (induction ns xs rule: split_sizes.induct)
  case (2 n ns xs)
  then have "sum_list ns = length (drop n xs)" by auto
  with 2 show ?case by (metis append_take_drop_id concat.simps(2) split_sizes.simps(2))
qed simp

lemma array_split_parts:
  assumes "0 < k"
  shows "concat (array_split k xs) = xs" and "length (array_split k xs) = k"
proof -
  let ?n = "length xs"
  have m: "?n mod k < k" using assms by simp
  have "?n mod k * (?n div k + 1) + (k - ?n mod k) * (?n div k) = k * (?n div k) + ?n mod k"
    using m by (simp add: algebra_simps diff_mult_distrib)
  then have "sum_list (replicate (?n mod k) (?n div k + 1) @ replicate (k - ?n mod k) (?n div k)) = ?n"
    by (simp add: sum_list_replicate)
  from split_sizes_concat [OF this] show "concat (array_split k xs) = xs" by (simp add: array_split_def)
  show "length (array_split k xs) = k" using m by (simp add: array_split_def)
qed

lemma stability_bounds:
  "0 \<le> wf_stability_score (build_walk_forward_stability rs k) \<and> wf_stability_score (build_walk_forward_stability rs k) \<le> 1"
proof -
  have r: "0 \<le> real (length (filter P ws)) / real (length ws) \<and> real (length (filter P ws)) / real (length ws) \<le> 1"
    for P and ws :: "walk_window list"
    using length_filter_le [of P ws] by (cases "ws = []") (simp_all add: divide_le_eq_1)
  show ?thesis
    using r [of "\<lambda>w. ww_total_r w > 0"] by (simp only: build_walk_forward_stability_def Let_def
        walk_forward.simps if_True if_False split: if_split) simp
qed

lemma loss_streak_bound:
  "loss_streak s longest rs \<le> max longest (s + length (filter (\<lambda>r. r < 0) rs))"
proof (induction s longest rs rule: loss_streak.induct)
  case (2 s longest r rs)
  then show ?case by (cases "r < 0") (simp_all add: max_def split: if_splits)
qed simp

lemma wins_losses: "win_count rs + length (filter (\<lambda>r. r < 0) rs) \<le> length rs"
  by (induction rs) (auto simp: win_count_def)

lemma sum_filter_nonneg: "0 \<le> sum_list (filter (\<lambda>r. r > 0) rs)" for rs :: "real list"
  by (intro sum_list_nonneg) auto

lemma foldr_extrema:
  "rs \<noteq> [] \<Longrightarrow> \<forall>r \<in> set rs. foldr min rs (hd rs) \<le> r \<and> r \<le> foldr max rs (hd rs)" for rs :: "real list"
proof -
  have "(\<forall>r \<in> set rs. foldr min rs x \<le> r) \<and> (\<forall>r \<in> set rs. r \<le> foldr max rs x)" for x :: real
    by (induction rs) auto
  then show ?thesis by blast
qed

lemma mean_between:
  assumes "rs \<noteq> []" and "\<forall>r \<in> set rs. a \<le> r \<and> r \<le> b"
  shows "a \<le> mean rs \<and> mean rs \<le> b"
proof -
  have "real (length rs) * a \<le> sum_list rs \<and> sum_list rs \<le> real (length rs) * b"
    using assms(2) by (induction rs) (auto simp: algebra_simps)
  with assms(1) show ?thesis
    by (simp add: mean_def pos_le_divide_eq pos_divide_le_eq mult.commute)
qed

lemma win_rate_range:
  "0 \<le> pf_win_rate (calculate_performance_metrics ts) \<and> pf_win_rate (calculate_performance_metrics ts) \<le> 100"
proof -
  have "real (win_count rs) / real (length rs) * 100 \<le> 100" if "rs \<noteq> []" for rs
  proof -
    have "real (win_count rs) / real (length rs) \<le> 1"
      using wins_losses [of rs] that by (simp add: divide_le_eq_1)
    from mult_right_mono [OF this, of 100] show ?thesis by simp
  qed
  then show ?thesis by (simp add: calculate_performance_metrics_def empty_performance_def Let_def)
qed

text \<open>The performance figures are in range. For any trades, the win rate lies between 0 and 100, wins
  and losses do not exceed the counted trades, the stability score lies between 0 and 1, the profit
  factor is not negative, the average R lies between the worst and the best trade, and the longest
  losing streak is at most the number of losses.\<close>

theorem performance_in_range:
  "let pf = calculate_performance_metrics ts; n = length (collect_valid_r_values ts) in
     0 \<le> pf_win_rate pf \<and> pf_win_rate pf \<le> 100 \<and> pf_wins pf + pf_losses pf \<le> n
     \<and> 0 \<le> wf_stability_score (pf_walk_forward pf) \<and> wf_stability_score (pf_walk_forward pf) \<le> 1
     \<and> 0 \<le> pf_profit_factor pf \<and> pf_worst_trade pf \<le> pf_avg_r pf \<and> pf_avg_r pf \<le> pf_best_trade pf
     \<and> pf_consecutive_losses pf \<le> pf_losses pf"
proof -
  let ?rs = "collect_valid_r_values ts"
  have f: "collect_valid_r_values (filter (\<lambda>t. \<not> is_open t) ts) = ?rs"
    by (simp add: collect_valid_r_values_def)
  show ?thesis
  proof (cases "ts = [] \<or> ?rs = []")
    case True
    then have "\<exists>a b. calculate_performance_metrics ts = empty_performance a b"
      using f by (auto simp: calculate_performance_metrics_def Let_def)
    then show ?thesis using stability_bounds [of "[]" 4] by (auto simp: empty_performance_def)
  next
    case False
    then have rs: "?rs \<noteq> []" by simp
    have "foldr min ?rs (hd ?rs) \<le> mean ?rs \<and> mean ?rs \<le> foldr max ?rs (hd ?rs)"
      by (rule mean_between [OF rs foldr_extrema [OF rs]])
    moreover have "0 \<le> profit_factor ?rs"
      using sum_filter_nonneg [of ?rs] by (simp add: profit_factor_def Let_def)
    moreover have "loss_streak 0 0 ?rs \<le> length (filter (\<lambda>r. r < 0) ?rs)"
      using loss_streak_bound [of 0 0 ?rs] by simp
    ultimately show ?thesis
      using False f wins_losses [of ?rs] stability_bounds [of ?rs 4] win_rate_range [of ts]
      by (simp add: calculate_performance_metrics_def Let_def)
  qed
qed

text \<open>A sized position keeps to its budget. With a positive balance, risk, cap and entry price, an
  admitted position risks no more than planned and, when the cap is positive, is worth at most the
  capped share of the balance; it is admitted exactly when a slot is free and the stop differs from
  the entry.\<close>

theorem position_size_bounded:
  assumes "0 < entry" and "0 \<le> sz_account_balance s" and "0 \<le> sz_risk_per_trade s"
  shows "case calculate_position_size s entry sl of
     Refused r \<Rightarrow> sz_max_open_positions s \<le> sz_open_trades s \<or> entry = sl
   | Sized q v risk plan \<Rightarrow> sz_open_trades s < sz_max_open_positions s \<and> entry \<noteq> sl
       \<and> plan = sz_account_balance s * (sz_risk_per_trade s / 100) \<and> 0 \<le> q \<and> risk \<le> plan \<and> v = q * entry
       \<and> (0 < sz_account_balance s * (sz_max_position_pct s / 100) \<longrightarrow>
            v \<le> sz_account_balance s * (sz_max_position_pct s / 100))"
proof -
  let ?risk = "sz_account_balance s * (sz_risk_per_trade s / 100)" let ?d = "\<bar>entry - sl\<bar>"
  let ?max = "sz_account_balance s * (sz_max_position_pct s / 100)"
  have r: "0 \<le> ?risk" using assms by simp
  have cap: "?max / entry * ?d \<le> ?risk" if "0 < ?d" "?max < ?risk / ?d * entry"
    using that assms(1) by (simp add: field_simps)
  show ?thesis
    using assms(1) r cap by (auto simp: calculate_position_size_def Let_def not_le not_less)
qed

theorem position_size_bounded_witness:
  "calculate_position_size \<lparr>sz_account_balance = 1000, sz_risk_per_trade = 1, sz_max_open_positions = 1,
     sz_max_position_pct = 50, sz_open_trades = 0\<rparr> 100 99 = Sized 5 500 5 10"
  using position_size_bounded [of 100 "\<lparr>sz_account_balance = 1000, sz_risk_per_trade = 1,
     sz_max_open_positions = 1, sz_max_position_pct = 50, sz_open_trades = 0\<rparr>" 99]
  by (simp add: calculate_position_size_def)

end
