(* ===== verification/Health.thy ===== *)
theory Health
  imports Metrics Futures_PnL Risk_Gate
begin

text \<open>
  \<^verbatim>\<open>app/services/auto_trade/health.py\<close>: the health score of a strategy, from the fills of its
  sub-account or, without fills, from its closed positions.

  The results of the database queries are arguments: the fills of the account in the window in time
  order, the closed positions, the fills of a position and the funding of a symbol. \<open>fmt_time\<close> renders an
  instant. Persisting and pruning snapshots is left out.
\<close>

section \<open>Constants\<close>

definition health_weights :: "real \<times> real \<times> real \<times> real" where
  "health_weights = (30 / 100, 30 / 100, 20 / 100, 20 / 100)"

definition health_max_dd_reference_pct :: real where
  "health_max_dd_reference_pct = 50"

definition health_pnl_reference_pct :: real where
  "health_pnl_reference_pct = 20"

definition health_healthy_min :: real where
  "health_healthy_min = 70"

definition health_warning_min :: real where
  "health_warning_min = 40"

record health_report =
  hr_sample_size :: nat
  hr_win_rate_pct :: real
  hr_max_dd_pct :: real
  hr_total_pnl_usdt :: real
  hr_roi_pct :: real
  hr_sharpe_proxy :: real
  hr_stability_score :: real
  hr_health_score :: real
  hr_health_class :: string

text \<open>The part of a report that the KPI guard and the promotion gate read.\<close>

definition report_summary :: "health_report \<Rightarrow> strategy_health" where
  "report_summary h =
     \<lparr>sh_sample_size = int (hr_sample_size h), sh_win_rate_pct = hr_win_rate_pct h,
      sh_max_dd_pct = hr_max_dd_pct h, sh_health_class = hr_health_class h\<rparr>"

section \<open>The score\<close>

definition clamp01 :: "real \<Rightarrow> real" where
  "clamp01 x = max 0 (min 1 x)"

definition roi_pct :: "real \<Rightarrow> real \<Rightarrow> real" where
  "roi_pct pnl base = (if base \<le> 0 then 0 else pnl / base * 100)"

text \<open>\<open>round(x, 2)\<close>.\<close>

definition round2 :: "real \<Rightarrow> real" where
  "round2 x = of_int (round_half_even (x * 100)) / 100"

definition composite_score :: "real \<Rightarrow> real \<Rightarrow> real \<Rightarrow> real \<Rightarrow> real" where
  "composite_score win_rate dd pnl stability =
     (case health_weights of (w1, w2, w3, w4) \<Rightarrow>
        round2 ((w1 * clamp01 (win_rate / 100) + w2 * clamp01 (1 - dd / health_max_dd_reference_pct)
                 + w3 * clamp01 (1 / 2 + pnl / (2 * health_pnl_reference_pct)) + w4 * clamp01 stability) * 100))"

definition classify :: "real \<Rightarrow> string" where
  "classify score =
     (if score \<ge> health_healthy_min then ''healthy''
      else if score \<ge> health_warning_min then ''warning'' else ''critical'')"

text \<open>\<open>float(trade["pnl_usdt"])\<close> of the trades this module builds, where it is a number.\<close>

definition trade_pnl :: "pydict \<Rightarrow> real" where
  "trade_pnl t = (case py_float (get_none t ''pnl_usdt'') of Inr x \<Rightarrow> x | Inl e \<Rightarrow> 0)"

definition health_from_trades :: "pydict list \<Rightarrow> real \<Rightarrow> health_report" where
  "health_from_trades ts initial_balance =
     (let pnl = sum_list (map trade_pnl ts); roi = roi_pct pnl initial_balance in
      if int (length ts) < health_min_trades then
        \<lparr>hr_sample_size = length ts, hr_win_rate_pct = 0, hr_max_dd_pct = 0, hr_total_pnl_usdt = pnl,
         hr_roi_pct = roi, hr_sharpe_proxy = 0, hr_stability_score = 0, hr_health_score = 0,
         hr_health_class = health_class_insufficient\<rparr>
      else
        let rs = List.map_filter compute_trade_r_multiple ts;
            win_rate = pf_win_rate (calculate_performance_metrics ts);
            stability = wf_stability_score (build_walk_forward_stability rs 4);
            dd = calculate_equity_max_drawdown_pct (build_equity_curve ts initial_balance);
            score = composite_score win_rate dd roi stability
        in \<lparr>hr_sample_size = length ts, hr_win_rate_pct = win_rate, hr_max_dd_pct = dd,
            hr_total_pnl_usdt = pnl, hr_roi_pct = roi, hr_sharpe_proxy = calculate_sharpe_proxy rs,
            hr_stability_score = stability, hr_health_score = score, hr_health_class = classify score\<rparr>)"

section \<open>The trades of an account\<close>

definition add_to_group :: "fill_row \<Rightarrow> (string \<times> fill_row list) list \<Rightarrow> (string \<times> fill_row list) list" where
  "add_to_group f d =
     dict_set d (fl_symbol f) ((case dict_get d (fl_symbol f) of None \<Rightarrow> [] | Some fs \<Rightarrow> fs) @ [f])"

definition group_by_symbol :: "fill_row list \<Rightarrow> (string \<times> fill_row list) list" where
  "group_by_symbol fills = fold add_to_group fills []"

definition realized_or_zero :: "fill_row \<Rightarrow> real" where
  "realized_or_zero f = (case fl_realized_pnl f of None \<Rightarrow> 0 | Some r \<Rightarrow> r)"

definition symbol_net :: "(string \<Rightarrow> real) \<Rightarrow> string \<times> fill_row list \<Rightarrow> real" where
  "symbol_net funding g =
     net_realized (compute_realized_breakdown (fst g) (snd g) (funding (fst g)) None None)"

definition account_net :: "(string \<Rightarrow> real) \<Rightarrow> fill_row list \<Rightarrow> real" where
  "account_net funding fills = sum_list (map (symbol_net funding) (group_by_symbol fills))"

definition gross_total :: "fill_row list \<Rightarrow> real" where
  "gross_total fills =
     sum_list (map (\<lambda>g. sum_list (map realized_or_zero (snd g))) (group_by_symbol fills))"

definition closing_fills :: "fill_row list \<Rightarrow> fill_row list" where
  "closing_fills fills = filter (\<lambda>f. realized_or_zero f \<noteq> 0) fills"

definition close_share :: "fill_row list \<Rightarrow> fill_row \<Rightarrow> real" where
  "close_share closes f =
     (let total_close_qty = sum_list (map fl_amount closes) in
      if total_close_qty > 0 then fl_amount f / total_close_qty else 1 / real (length closes))"

definition close_trade :: "(real \<Rightarrow> string) \<Rightarrow> real \<Rightarrow> fill_row \<Rightarrow> pydict" where
  "close_trade fmt_time net f =
     [(''pnl_usdt'', VFloat net), (''r_real'', VFloat net), (''exit_reason'', VStr ''closed''),
      (''exit_time'', (case fl_traded_at f of None \<Rightarrow> VNone | Some t \<Rightarrow> VStr (fmt_time t)))]"

definition account_trades_for_health ::
    "(real \<Rightarrow> string) \<Rightarrow> (string \<Rightarrow> real) \<Rightarrow> bool \<Rightarrow> fill_row list \<Rightarrow> pydict list" where
  "account_trades_for_health fmt_time funding has_config fills =
     (if \<not> has_config \<or> fills = [] then []
      else
        let closes = closing_fills fills; adjustment = gross_total fills - account_net funding fills
        in map (\<lambda>f. close_trade fmt_time (realized_or_zero f - adjustment * close_share closes f) f) closes)"

section \<open>The fallback on stored positions\<close>

record closed_position =
  cp_id :: int
  cp_symbol :: string
  cp_side :: string
  cp_entry_price :: real
  cp_sl_price :: real
  cp_quantity :: real
  cp_close_price :: "real option"
  cp_close_reason :: "string option"
  cp_closed_at :: "string option"

definition gross_realized_pnl :: "closed_position \<Rightarrow> real option" where
  "gross_realized_pnl p =
     (case cp_close_price p of
        None \<Rightarrow> None
      | Some close \<Rightarrow>
          Some (if cp_side p = ''SHORT'' then (cp_entry_price p - close) * cp_quantity p
                else (close - cp_entry_price p) * cp_quantity p))"

definition position_to_trade :: "real \<Rightarrow> closed_position \<Rightarrow> pydict" where
  "position_to_trade realized p =
     [(''pnl_usdt'', VFloat realized),
      (''exit_reason'', VStr (case cp_close_reason p of None \<Rightarrow> ''closed'' | Some r \<Rightarrow> if r = [] then ''closed'' else r)),
      (''exit_time'', opt_str (cp_closed_at p)), (''entry'', VFloat (cp_entry_price p)),
      (''sl'', VFloat (cp_sl_price p)), (''position_size'', VFloat (cp_quantity p))]"

definition net_realized_of_position ::
    "(int \<Rightarrow> fill_row list) \<Rightarrow> (closed_position \<Rightarrow> real) \<Rightarrow> closed_position \<Rightarrow> real option" where
  "net_realized_of_position fills_of funding_of p =
     (if fills_of (cp_id p) = [] then None
      else Some (net_realized (compute_realized_breakdown (cp_symbol p) (fills_of (cp_id p)) (funding_of p) None None)))"

definition trades_for_health ::
    "(real \<Rightarrow> string) \<Rightarrow> (string \<Rightarrow> real) \<Rightarrow> bool \<Rightarrow> fill_row list
      \<Rightarrow> (int \<Rightarrow> fill_row list) \<Rightarrow> (closed_position \<Rightarrow> real) \<Rightarrow> closed_position list \<Rightarrow> pydict list" where
  "trades_for_health fmt_time funding has_config fills fills_of funding_of positions =
     (let ts = account_trades_for_health fmt_time funding has_config fills in
      if ts \<noteq> [] then ts
      else List.map_filter
             (\<lambda>p. case (case net_realized_of_position fills_of funding_of p of
                          Some r \<Rightarrow> Some r | None \<Rightarrow> gross_realized_pnl p) of
                    None \<Rightarrow> None | Some r \<Rightarrow> Some (position_to_trade r p))
             positions)"

text \<open>\<open>compute_strategy_health\<close> for a strategy of the given position size, \<open>None\<close> when it is unknown.\<close>

definition compute_strategy_health ::
    "(real \<Rightarrow> string) \<Rightarrow> (string \<Rightarrow> real) \<Rightarrow> real option \<Rightarrow> fill_row list
      \<Rightarrow> (int \<Rightarrow> fill_row list) \<Rightarrow> (closed_position \<Rightarrow> real) \<Rightarrow> closed_position list \<Rightarrow> health_report" where
  "compute_strategy_health fmt_time funding position_size fills fills_of funding_of positions =
     health_from_trades
       (trades_for_health fmt_time funding (position_size \<noteq> None) fills fills_of funding_of positions)
       (case position_size of None \<Rightarrow> 0 | Some x \<Rightarrow> x)"

section \<open>Lemmas\<close>

lemma group_sum_set:
  "sum_list (map (\<lambda>g. sum_list (map f (snd g))) (add_to_group r d))
     = sum_list (map (\<lambda>g. sum_list (map f (snd g))) d) + (f r :: real)"
  by (induction d) (auto simp: add_to_group_def dict_get_def split: option.splits if_splits)

lemma group_sum:
  "sum_list (map (\<lambda>g. sum_list (map f (snd g))) (fold add_to_group fills d))
     = sum_list (map (\<lambda>g. sum_list (map f (snd g))) d) + (sum_list (map f fills) :: real)"
  by (induction fills arbitrary: d) (simp_all add: group_sum_set)

lemma gross_total_closes: "gross_total fills = sum_list (map realized_or_zero (closing_fills fills))"
proof -
  have "sum_list (map realized_or_zero (filter (\<lambda>f. realized_or_zero f \<noteq> 0) xs)) = sum_list (map realized_or_zero xs)"
    for xs by (induction xs) auto
  with group_sum [of realized_or_zero fills "[]"] show ?thesis
    by (simp add: gross_total_def group_by_symbol_def closing_fills_def)
qed

lemma shares_sum: "closes \<noteq> [] \<Longrightarrow> sum_list (map (close_share closes) closes) = 1"
proof -
  assume ne: "closes \<noteq> []"
  let ?q = "sum_list (map fl_amount closes)"
  have amounts: "sum_list (map (\<lambda>f. fl_amount f / q) xs) = sum_list (map fl_amount xs) / q" for q xs
    by (induction xs) (simp_all add: add_divide_distrib)
  have equal: "sum_list (map (\<lambda>f. 1 / q) xs) = real (length xs) / q" for q :: real and xs :: "fill_row list"
    by (induction xs) (simp_all add: add_divide_distrib)
  show ?thesis
  proof (cases "?q > 0")
    case True
    then have "close_share closes = (\<lambda>f. fl_amount f / ?q)" by (simp add: close_share_def fun_eq_iff)
    with True amounts [of ?q closes] show ?thesis by simp
  next
    case False
    then have "close_share closes = (\<lambda>f. 1 / real (length closes))" by (simp add: close_share_def fun_eq_iff)
    with ne equal [of "real (length closes)" closes] show ?thesis by simp
  qed
qed

lemma round_half_even_close:
  assumes "0 \<le> x" and "x \<le> of_int n"
  shows "0 \<le> round_half_even x" and "round_half_even x \<le> n"
proof -
  have f: "0 \<le> \<lfloor>x\<rfloor>" "\<lfloor>x\<rfloor> \<le> n" using assms by (simp_all add: le_floor_iff floor_le_iff)
  then show "0 \<le> round_half_even x" by (simp add: round_half_even_def Let_def)
  have "x = of_int n" if "\<lfloor>x\<rfloor> = n" using that assms(2) by linarith
  with f show "round_half_even x \<le> n" by (cases "\<lfloor>x\<rfloor> = n") (auto simp: round_half_even_def Let_def)
qed

lemma clamp01_bounds: "0 \<le> clamp01 x \<and> clamp01 x \<le> 1"
  by (simp add: clamp01_def)

lemma weighted_bounds:
  fixes a b c d :: real
  assumes "0 \<le> a \<and> a \<le> 1" "0 \<le> b \<and> b \<le> 1" "0 \<le> c \<and> c \<le> 1" "0 \<le> d \<and> d \<le> 1"
  shows "0 \<le> (30 / 100 * a + 30 / 100 * b + 20 / 100 * c + 20 / 100 * d) * 100 * 100"
    and "(30 / 100 * a + 30 / 100 * b + 20 / 100 * c + 20 / 100 * d) * 100 * 100 \<le> of_int 10000"
  using assms by simp_all

lemma composite_bounds: "0 \<le> composite_score a b c d \<and> composite_score a b c d \<le> 100"
  using round_half_even_close [OF weighted_bounds [OF clamp01_bounds clamp01_bounds clamp01_bounds clamp01_bounds]]
  unfolding composite_score_def health_weights_def round2_def prod.case by simp

section \<open>Properties\<close>

text \<open>The trades shown for an account add up to its net result. Whenever a strategy's account has a
  closing fill in the window, there is one trade per closing fill and their profits sum to the exact
  account net: over all symbols, realised profit less commission plus funding. The health report's
  total is that number.\<close>

theorem account_trades_sum_to_net:
  assumes "closing_fills fills \<noteq> []"
  shows "length (account_trades_for_health fmt_time funding True fills) = length (closing_fills fills)
    \<and> sum_list (map trade_pnl (account_trades_for_health fmt_time funding True fills)) = account_net funding fills
    \<and> hr_total_pnl_usdt (compute_strategy_health fmt_time funding (Some base) fills fills_of funding_of positions)
        = account_net funding fills"
proof -
  let ?c = "closing_fills fills" let ?adj = "gross_total fills - account_net funding fills"
  have fills: "fills \<noteq> []" using assms by (auto simp: closing_fills_def)
  have pnl: "trade_pnl (close_trade fmt_time net f) = net" for net f by (simp add: trade_pnl_def close_trade_def)
  have "sum_list (map (\<lambda>f. realized_or_zero f - ?adj * close_share ?c f) xs)
      = sum_list (map realized_or_zero xs) - ?adj * sum_list (map (close_share ?c) xs)" for xs
    by (induction xs) (simp_all add: algebra_simps)
  then have s: "sum_list (map trade_pnl (account_trades_for_health fmt_time funding True fills)) = account_net funding fills"
    using fills gross_total_closes [of fills] shares_sum [OF assms]
    by (simp add: account_trades_for_health_def Let_def comp_def pnl)
  have l: "length (account_trades_for_health fmt_time funding True fills) = length ?c"
    using fills by (simp add: account_trades_for_health_def Let_def)
  with assms have "account_trades_for_health fmt_time funding True fills \<noteq> []" by auto
  then have "trades_for_health fmt_time funding True fills fills_of funding_of positions
      = account_trades_for_health fmt_time funding True fills" by (simp add: trades_for_health_def Let_def)
  with s l show ?thesis
    by (simp add: compute_strategy_health_def health_from_trades_def Let_def)
qed

text \<open>The health report is in range and honest about small samples. With fewer than ten trades the
  class is \<open>insufficient_data\<close>, every statistic is zero, and the KPI guard finds no statistical breach
  in it; with ten or more the score lies between 0 and 100, the class is the one of its score, and the
  win rate and stability are in range. The total is the sum of the trades in both cases.\<close>

theorem health_report_sound:
  assumes "h = health_from_trades ts base"
  shows "hr_total_pnl_usdt h = sum_list (map trade_pnl ts) \<and> hr_sample_size h = length ts
    \<and> (length ts < 10 \<longrightarrow> hr_health_class h = ''insufficient_data'' \<and> hr_health_score h = 0
         \<and> guard_statistics rc (report_summary h) = [])
    \<and> (10 \<le> length ts \<longrightarrow> 0 \<le> hr_health_score h \<and> hr_health_score h \<le> 100
         \<and> hr_health_class h = (if 70 \<le> hr_health_score h then ''healthy''
              else if 40 \<le> hr_health_score h then ''warning'' else ''critical'')
         \<and> 0 \<le> hr_win_rate_pct h \<and> hr_win_rate_pct h \<le> 100
         \<and> 0 \<le> hr_stability_score h \<and> hr_stability_score h \<le> 1)"
proof -
  have "0 \<le> pf_win_rate (calculate_performance_metrics ts) \<and> pf_win_rate (calculate_performance_metrics ts) \<le> 100"
    by (rule win_rate_range)
  then show ?thesis
    unfolding assms
    using composite_bounds stability_bounds
    by (auto simp: health_from_trades_def Let_def health_min_trades_def health_class_insufficient_def
        classify_def health_healthy_min_def health_warning_min_def guard_statistics_def reliable_sample_def
        report_summary_def)
qed

definition sample_fills :: "fill_row list" where
  "sample_fills =
     [\<lparr>fl_traded_at = Some 1, fl_id = ''1'', fl_symbol = ''A/USDT'', fl_side = ''buy'', fl_amount = 1,
       fl_price = 10, fl_fee_cost = 1, fl_fee_currency = Some ''USDT'', fl_realized_pnl = None\<rparr>,
      \<lparr>fl_traded_at = Some 2, fl_id = ''2'', fl_symbol = ''A/USDT'', fl_side = ''sell'', fl_amount = 1,
       fl_price = 20, fl_fee_cost = 1, fl_fee_currency = Some ''USDT'', fl_realized_pnl = Some 10\<rparr>]"

theorem account_trades_sum_to_net_witness:
  "sum_list (map trade_pnl (account_trades_for_health (\<lambda>_. []) (\<lambda>_. 0) True sample_fills))
     = account_net (\<lambda>_. 0) sample_fills \<and> length (account_trades_for_health (\<lambda>_. []) (\<lambda>_. 0) True sample_fills) = 1"
proof -
  have c: "closing_fills sample_fills = [sample_fills ! 1]"
    by (simp add: closing_fills_def sample_fills_def realized_or_zero_def)
  then have "closing_fills sample_fills \<noteq> []" by simp
  from account_trades_sum_to_net [OF this, of "\<lambda>_. []" "\<lambda>_. 0" 1] c show ?thesis by simp
qed

theorem health_report_sound_witness:
  "hr_health_class (health_from_trades [[(''pnl_usdt'', VInt 3)]] 100) = ''insufficient_data''
   \<and> hr_total_pnl_usdt (health_from_trades [[(''pnl_usdt'', VInt 3)]] 100) = 3"
  using health_report_sound [OF refl, of "[[(''pnl_usdt'', VInt 3)]]" 100] by (simp add: trade_pnl_def)

end
