(* ===== verification/Costs.thy ===== *)
theory Costs
  imports Metrics
begin

text \<open>
  \<^verbatim>\<open>app/services/backtesting/cost_model.py\<close>: fees, slippage and funding are netted off the profit of each
  closed backtest trade. Trades are dictionaries that the code updates in place; here the updated
  list is returned.
\<close>

section \<open>The model\<close>

record cost_model =
  cs_fee_pct :: real
  cs_slippage_pct :: real
  cs_funding_pct_per_bar :: real

definition cost_is_zero :: "cost_model \<Rightarrow> bool" where
  "cost_is_zero c = (cs_fee_pct c = 0 \<and> cs_slippage_pct c = 0 \<and> cs_funding_pct_per_bar c = 0)"

definition default_fee_pct :: real where
  "default_fee_pct = 6 / 100"

definition cost_float :: "pyval \<Rightarrow> real \<Rightarrow> real" where
  "cost_float v dflt = (case py_float v of Inl e \<Rightarrow> dflt | Inr x \<Rightarrow> x)"

definition cost_model_from_params :: "pydict \<Rightarrow> cost_model" where
  "cost_model_from_params params =
     (let fee = get_none params ''fee_pct'';
          fee' = (if fee = VNone then get_default params ''order_fee_pct'' (VFloat default_fee_pct) else fee)
      in \<lparr>cs_fee_pct = cost_float fee' default_fee_pct,
          cs_slippage_pct = cost_float (get_default params ''slippage_pct'' (VFloat 0)) 0,
          cs_funding_pct_per_bar = cost_float (get_default params ''funding_pct_per_bar'' (VFloat 0)) 0\<rparr>)"

text \<open>\<open>trade.get(k1, trade.get(k2, 0.0))\<close> as a number.\<close>

definition number_of :: "pydict \<Rightarrow> string \<Rightarrow> string \<Rightarrow> real" where
  "number_of t k1 k2 = cost_float (get_default t k1 (get_default t k2 (VFloat 0))) 0"

fun first_key :: "pydict \<Rightarrow> string list \<Rightarrow> pyval option" where
  "first_key t [] = None"
| "first_key t (k # ks) = (case dict_get t k of Some v \<Rightarrow> Some v | None \<Rightarrow> first_key t ks)"

definition entry_notional :: "pydict \<Rightarrow> real" where
  "entry_notional t =
     (case first_key t [''entry_notional'', ''notional_usdt'', ''position_value'', ''allocation_usdt''] of
        Some v \<Rightarrow> \<bar>cost_float v 0\<bar>
      | None \<Rightarrow> \<bar>number_of t ''qty'' ''position_size'' * number_of t ''entry'' ''entry_price''\<bar>)"

definition exit_notional :: "pydict \<Rightarrow> real \<Rightarrow> real" where
  "exit_notional t en =
     (case dict_get t ''exit_notional'' of
        Some v \<Rightarrow> \<bar>cost_float v 0\<bar>
      | None \<Rightarrow>
          (let qty = number_of t ''qty'' ''position_size''; exit_price = number_of t ''exit_price'' ''exit'';
               entry = number_of t ''entry'' ''entry_price''
           in if qty \<noteq> 0 \<and> exit_price \<noteq> 0 then \<bar>qty * exit_price\<bar>
              else if entry \<noteq> 0 \<and> exit_price \<noteq> 0 then en * (exit_price / entry)
              else en))"

definition holding_bars :: "pydict \<Rightarrow> real" where
  "holding_bars t = max (cost_float (get_default t ''bars_held'' (VFloat 0)) 0) 0"

definition trade_cost_usdt :: "real \<Rightarrow> real \<Rightarrow> real \<Rightarrow> cost_model \<Rightarrow> real" where
  "trade_cost_usdt en ex bars c =
     (en + ex) * (cs_fee_pct c + cs_slippage_pct c) / 100
     + en * cs_funding_pct_per_bar c / 100 * max bars 0"

definition gross_pnl :: "pydict \<Rightarrow> real" where
  "gross_pnl t = cost_float (get_default t ''pnl_usdt'' (VFloat 0)) 0"

definition cost_of :: "cost_model \<Rightarrow> pydict \<Rightarrow> real" where
  "cost_of c t = trade_cost_usdt (entry_notional t) (exit_notional t (entry_notional t)) (holding_bars t) c"

definition charge_trade :: "cost_model \<Rightarrow> pydict \<Rightarrow> pydict" where
  "charge_trade c t =
     (if is_open t \<or> entry_notional t \<le> 0 then t
      else
        let gross = gross_pnl t; net = gross - cost_of c t;
            t1 = dict_set (dict_set t ''cost_usdt'' (VFloat (cost_of c t))) ''pnl_usdt'' (VFloat net)
        in if dict_get t ''pnl_pct'' \<noteq> None \<and> gross \<noteq> 0
           then dict_set t1 ''pnl_pct'' (VFloat (cost_float (get_none t ''pnl_pct'') 0 * (net / gross)))
           else t1)"

definition apply_cost_model :: "pydict list \<Rightarrow> cost_model \<Rightarrow> pydict list" where
  "apply_cost_model ts c = (if cost_is_zero c then ts else map (charge_trade c) ts)"

text \<open>The two keys that \<open>refresh_net_pnl_summary\<close> rewrites: the total and, if a trade is closed, the
  win rate.\<close>

definition refresh_net_pnl_summary :: "pydict \<Rightarrow> pydict list \<Rightarrow> pydict" where
  "refresh_net_pnl_summary summary ts =
     (let closed_trades = filter (\<lambda>t. \<not> is_open t) ts;
          s1 = dict_set summary ''total_pnl_usdt'' (VFloat (sum_list (map gross_pnl closed_trades)))
      in if closed_trades = [] then s1
         else dict_set s1 ''win_rate''
                (VFloat (real (length (filter (\<lambda>t. gross_pnl t > 0) closed_trades))
                         / real (length closed_trades) * 100)))"

section \<open>Lemmas\<close>

text \<open>The trade is charged: it is closed and its notional is known.\<close>

definition chargeable :: "cost_model \<Rightarrow> pydict \<Rightarrow> bool" where
  "chargeable c t = (\<not> cost_is_zero c \<and> \<not> is_open t \<and> 0 < entry_notional t)"

lemma charge_open [simp]: "is_open (charge_trade c t) = is_open t"
  by (simp add: charge_trade_def is_open_def Let_def)

lemma charge_pnl:
  "gross_pnl (charge_trade c t) = gross_pnl t - (if is_open t \<or> entry_notional t \<le> 0 then 0 else cost_of c t)"
  by (simp add: charge_trade_def gross_pnl_def cost_float_def Let_def)

lemma filter_map_le:
  "(\<And>x. x \<in> set xs \<Longrightarrow> P (f x) \<Longrightarrow> Q x) \<Longrightarrow> length (filter P (map f xs)) \<le> length (filter Q xs)"
  by (induction xs) (auto simp: le_Suc_eq)

lemma trade_cost_nonneg:
  assumes "0 \<le> cs_fee_pct c" "0 \<le> cs_slippage_pct c" "0 \<le> cs_funding_pct_per_bar c" "0 \<le> en" "0 \<le> ex"
  shows "0 \<le> trade_cost_usdt en ex bars c"
  using assms by (simp add: trade_cost_usdt_def)

section \<open>Properties\<close>

text \<open>Costs are charged exactly once, to the right trades. A trade keeps its place in the list; an
  open trade, one without a notional, and every trade under a zero model stay as they are; from any
  other the recorded cost is subtracted, the cost being the rates on the entry and exit notional plus
  the funding over the held bars, and no other entry but the relative profit changes.\<close>

theorem cost_model_exact:
  assumes "i < length ts" and "t = ts ! i" and "t' = apply_cost_model ts c ! i"
  shows "length (apply_cost_model ts c) = length ts
    \<and> (\<not> chargeable c t \<longrightarrow> t' = t)
    \<and> (chargeable c t \<longrightarrow>
         get_none t' ''pnl_usdt'' = VFloat (gross_pnl t - cost_of c t) \<and> get_none t' ''cost_usdt'' = VFloat (cost_of c t)
         \<and> cost_of c t = (entry_notional t + exit_notional t (entry_notional t)) * (cs_fee_pct c + cs_slippage_pct c) / 100
             + entry_notional t * cs_funding_pct_per_bar c / 100 * holding_bars t
         \<and> (\<forall>k. k \<notin> {''pnl_usdt'', ''cost_usdt'', ''pnl_pct''} \<longrightarrow> dict_get t' k = dict_get t k))"
proof -
  have t': "t' = (if cost_is_zero c then t else charge_trade c t)"
    using assms by (simp add: apply_cost_model_def)
  have "max (holding_bars t) 0 = holding_bars t" by (simp add: holding_bars_def)
  then show ?thesis
    unfolding t' by (auto simp: apply_cost_model_def chargeable_def charge_trade_def cost_of_def
        trade_cost_usdt_def Let_def not_le)
qed

text \<open>The net summary can only be worse than the gross one. With rates that are not negative and exit
  notionals that are not negative, the refreshed total is the gross total less the costs of the
  charged trades, hence at most the gross total, and no more trades count as won than before.\<close>

theorem net_summary_not_better:
  assumes "0 \<le> cs_fee_pct c" and "0 \<le> cs_slippage_pct c" and "0 \<le> cs_funding_pct_per_bar c"
    and "\<forall>t \<in> set ts. 0 \<le> exit_notional t (entry_notional t)"
    and "net = apply_cost_model ts c" and "cl = filter (\<lambda>t. \<not> is_open t)"
  shows "get_none (refresh_net_pnl_summary s net) ''total_pnl_usdt''
      = VFloat (sum_list (map gross_pnl (cl ts)) - sum_list (map (cost_of c) (filter (chargeable c) ts)))
    \<and> sum_list (map gross_pnl (cl net)) \<le> sum_list (map gross_pnl (cl ts))
    \<and> length (filter (\<lambda>t. 0 < gross_pnl t) (cl net)) \<le> length (filter (\<lambda>t. 0 < gross_pnl t) (cl ts))
    \<and> length (cl net) = length (cl ts)"
proof -
  have cost: "0 \<le> cost_of c t" if "t \<in> set ts" for t
    using that assms(1-4) by (simp add: cost_of_def trade_cost_nonneg entry_notional_def split: option.splits)
  have total: "sum_list (map gross_pnl (cl net))
      = sum_list (map gross_pnl (cl ts)) - sum_list (map (cost_of c) (filter (chargeable c) ts))"
    unfolding assms(5,6) apply_cost_model_def
    by (induction ts) (auto simp: chargeable_def charge_pnl)
  have nonneg: "0 \<le> sum_list (map (cost_of c) (filter (chargeable c) ts))"
    by (intro sum_list_nonneg) (use cost in auto)
  have wins: "length (filter (\<lambda>t. 0 < gross_pnl t) (cl net)) \<le> length (filter (\<lambda>t. 0 < gross_pnl t) (cl ts))"
  proof (cases "cost_is_zero c")
    case False
    have "0 < gross_pnl (charge_trade c t) \<Longrightarrow> 0 < gross_pnl t" if "t \<in> set ts" for t
      using cost [OF that] by (simp add: charge_pnl split: if_splits)
    with False show ?thesis
      unfolding assms(5,6) apply_cost_model_def filter_filter
      by (simp only: if_False, intro filter_map_le) simp
  qed (simp add: assms(5) apply_cost_model_def)
  have len: "length (cl net) = length (cl ts)"
    unfolding assms(5,6) apply_cost_model_def by (induction ts) auto
  have "get_none (refresh_net_pnl_summary s net) ''total_pnl_usdt'' = VFloat (sum_list (map gross_pnl (cl net)))"
    by (simp add: refresh_net_pnl_summary_def assms(6) Let_def)
  with total nonneg wins len show ?thesis by simp
qed

definition sample_backtest_trade :: pydict where
  "sample_backtest_trade = [(''pnl_usdt'', VInt 10), (''qty'', VInt 1), (''entry'', VInt 100), (''exit_price'', VInt 110)]"

definition sample_costs :: cost_model where
  "sample_costs = \<lparr>cs_fee_pct = 1 / 10, cs_slippage_pct = 0, cs_funding_pct_per_bar = 0\<rparr>"

lemmas sample_cost_simps = sample_backtest_trade_def sample_costs_def entry_notional_def exit_notional_def
  number_of_def cost_float_def chargeable_def cost_is_zero_def is_open_def

theorem cost_model_exact_witness:
  "get_none (apply_cost_model [sample_backtest_trade] sample_costs ! 0) ''pnl_usdt''
     = VFloat (10 - cost_of sample_costs sample_backtest_trade)"
  using cost_model_exact [of 0 "[sample_backtest_trade]" _ _ sample_costs, OF _ refl refl]
  by (simp add: sample_cost_simps gross_pnl_def)

theorem net_summary_not_better_witness:
  "sum_list (map gross_pnl (filter (\<lambda>t. \<not> is_open t) (apply_cost_model [sample_backtest_trade] sample_costs)))
     \<le> sum_list (map gross_pnl (filter (\<lambda>t. \<not> is_open t) [sample_backtest_trade]))"
  using net_summary_not_better [of sample_costs "[sample_backtest_trade]", OF _ _ _ _ refl refl]
  by (simp add: sample_cost_simps)

end
