(* ===== verification/Spot_PnL.thy ===== *)
theory Spot_PnL
  imports Futures_PnL
begin

text \<open>
  \<^verbatim>\<open>app/services/execution/pnl.py\<close>: first-in-first-out profit and loss of spot holdings. A trade is the
  fill record of \<open>Futures_PnL\<close>. The three dictionaries the code keys by asset (lots, realised profit,
  fees) always gain their keys together, apart from the profit whose default is zero: they are one
  dictionary of books here.
\<close>

section \<open>Lots\<close>

record spot_lot =
  st_qty :: real
  st_entry_price :: real
  st_entry_price_clean :: real

record asset_book =
  ab_lots :: "spot_lot list"
  ab_realized :: real
  ab_fees :: real

definition empty_book :: asset_book where
  "empty_book = \<lparr>ab_lots = [], ab_realized = 0, ab_fees = 0\<rparr>"

definition spot_split_symbol :: "string \<Rightarrow> (string \<times> string) option" where
  "spot_split_symbol s =
     (if CHR ''/'' \<notin> set s then None
      else
        let base = py_upper (py_strip (takeWhile (\<lambda>c. c \<noteq> CHR ''/'') s));
            right = tl (dropWhile (\<lambda>c. c \<noteq> CHR ''/'') s);
            quote = py_upper (py_strip (takeWhile (\<lambda>c. c \<noteq> CHR '':'') right))
        in if base = [] \<or> quote = [] then None else Some (base, quote))"

definition spot_fee_to_quote :: "fill_row \<Rightarrow> string \<Rightarrow> string \<Rightarrow> (string \<times> real) list \<Rightarrow> real" where
  "spot_fee_to_quote t base quote marks =
     (case fl_fee_currency t of
        None \<Rightarrow> 0
      | Some cur \<Rightarrow>
          if fl_fee_cost t \<le> 0 \<or> cur = [] then 0
          else if py_upper cur = quote then fl_fee_cost t
          else if py_upper cur = base then (if fl_price t > 0 then fl_fee_cost t * fl_price t else 0)
          else case dict_get marks (py_upper cur) of
                 None \<Rightarrow> 0
               | Some mark \<Rightarrow> if mark \<le> 0 then 0 else fl_fee_cost t * mark)"

text \<open>The closing loop: the gross result, the lots left and the quantity no lot covers.\<close>

fun spot_close :: "real \<Rightarrow> real \<Rightarrow> spot_lot list \<Rightarrow> real \<times> spot_lot list \<times> real" where
  "spot_close price remaining [] = (0, [], remaining)"
| "spot_close price remaining (l # ls) =
     (if remaining > 0 then
        let closed_qty = min remaining (st_qty l);
            won = (price - st_entry_price l) * closed_qty;
            rest = st_qty l - closed_qty; left = remaining - closed_qty
        in if rest \<le> dust
           then (let (g, ls', rem') = spot_close price left ls in (won + g, ls', rem'))
           else (won, l\<lparr>st_qty := rest\<rparr> # ls, left)
      else (0, l # ls, remaining))"

definition book_trade :: "bool \<Rightarrow> real \<Rightarrow> real \<Rightarrow> real \<Rightarrow> asset_book \<Rightarrow> asset_book" where
  "book_trade is_buy qty price fee b =
     (let b1 = b\<lparr>ab_fees := ab_fees b + fee\<rparr> in
      if is_buy
      then b1\<lparr>ab_lots := ab_lots b1 @ [\<lparr>st_qty = qty, st_entry_price = (price * qty + fee) / qty,
                                         st_entry_price_clean = price\<rparr>]\<rparr>
      else (let (gross, lots', rem') = spot_close price qty (ab_lots b1)
            in b1\<lparr>ab_lots := lots', ab_realized := ab_realized b1 + gross - fee\<rparr>))"

definition get_book :: "(string \<times> asset_book) list \<Rightarrow> string \<Rightarrow> asset_book" where
  "get_book books asset = (case dict_get books asset of None \<Rightarrow> empty_book | Some b \<Rightarrow> b)"

text \<open>Whether a trade counts for a quote asset, and for which base.\<close>

definition trade_base :: "string \<Rightarrow> fill_row \<Rightarrow> string option" where
  "trade_base quote t =
     (case spot_split_symbol (fl_symbol t) of
        None \<Rightarrow> None
      | Some (base, q) \<Rightarrow>
          if q \<noteq> quote \<or> max 0 (fl_amount t) \<le> 0 \<or> max 0 (fl_price t) \<le> 0 then None else Some base)"

definition spot_row ::
    "string \<Rightarrow> (string \<times> real) list \<Rightarrow> fill_row \<Rightarrow> (string \<times> asset_book) list \<Rightarrow> (string \<times> asset_book) list" where
  "spot_row quote marks t books =
     (case trade_base quote t of
        None \<Rightarrow> books
      | Some base \<Rightarrow>
          dict_set books base
            (book_trade (fl_side t = ''buy'') (max 0 (fl_amount t)) (max 0 (fl_price t))
               (spot_fee_to_quote t base quote marks) (get_book books base)))"

definition spot_books ::
    "string \<Rightarrow> (string \<times> real) list \<Rightarrow> fill_row list \<Rightarrow> (string \<times> asset_book) list" where
  "spot_books quote marks trades =
     fold (spot_row quote marks)
       (sort_key (\<lambda>t. case fl_traded_at t of None \<Rightarrow> 0 | Some x \<Rightarrow> x) trades) []"

record spot_asset =
  sa_asset :: string
  sa_quantity :: real
  sa_average_entry_price :: "real option"
  sa_mark_price :: "real option"
  sa_realized :: real
  sa_unrealized :: real
  sa_fees :: real

definition lots_average :: "(spot_lot \<Rightarrow> real) \<Rightarrow> spot_lot list \<Rightarrow> real option" where
  "lots_average price ls =
     (let q = sum_list (map st_qty ls) in
      if ls \<noteq> [] \<and> q > 0 then Some (sum_list (map (\<lambda>l. st_qty l * price l) ls) / q) else None)"

definition asset_row ::
    "(string \<times> real) list \<Rightarrow> (string \<times> real) list \<Rightarrow> (string \<times> asset_book) list \<Rightarrow> string \<Rightarrow> spot_asset" where
  "asset_row balances marks books asset =
     (let qty = max 0 (case dict_get balances asset of None \<Rightarrow> 0 | Some q \<Rightarrow> q);
          b = get_book books asset;
          unrealized = (case (lots_average st_entry_price (ab_lots b), dict_get marks asset) of
              (Some cost_basis, Some mark) \<Rightarrow> if qty > 0 \<and> mark > 0 then (mark - cost_basis) * qty else 0
            | _ \<Rightarrow> 0)
      in \<lparr>sa_asset = asset, sa_quantity = qty,
          sa_average_entry_price = lots_average st_entry_price_clean (ab_lots b),
          sa_mark_price = dict_get marks asset, sa_realized = ab_realized b, sa_unrealized = unrealized,
          sa_fees = ab_fees b\<rparr>)"

text \<open>Balances are given as pairs of asset and total; later entries of the same asset win.\<close>

definition calculate_spot_pnl ::
    "fill_row list \<Rightarrow> (string \<times> real) list \<Rightarrow> string \<Rightarrow> (string \<times> real) list
      \<Rightarrow> spot_asset list \<times> real \<times> real \<times> real" where
  "calculate_spot_pnl trades balances quote_asset marks =
     (let quote = py_upper quote_asset;
          books = spot_books quote marks trades;
          balance_map = fold (\<lambda>(a, q) d. dict_set d (py_upper a) q) balances [];
          assets = sort (remdups (map fst balance_map @ map fst books));
          rows = filter (\<lambda>r. sa_quantity r > 0 \<or> sa_realized r \<noteq> 0 \<or> sa_fees r \<noteq> 0)
                   (map (asset_row balance_map marks books) (filter (\<lambda>a. a \<noteq> quote) assets))
      in (rows, sum_list (map sa_realized rows), sum_list (map sa_unrealized rows), sum_list (map sa_fees rows)))"

section \<open>Lemmas\<close>

definition lot_of :: "spot_lot \<Rightarrow> lot" where
  "lot_of l = \<lparr>lt_qty = st_qty l, lt_entry_price = st_entry_price l\<rparr>"

text \<open>The spot loop is the futures loop on the fee-inclusive prices.\<close>

lemma spot_close_refines:
  "spot_close price q ls = (g, ls', r) \<Longrightarrow> close_lots (\<lambda>e. price - e) q (map lot_of ls) = (g, map lot_of ls', r)"
proof (induction price q ls arbitrary: g ls' r rule: spot_close.induct)
  case (2 price q l ls)
  then show ?case by (auto simp: Let_def lot_of_def split: prod.splits if_splits)
qed simp

definition book_ok :: "real \<Rightarrow> asset_book \<Rightarrow> bool" where
  "book_ok step b = lots_ok step (map lot_of (ab_lots b))"

definition book_qty :: "asset_book \<Rightarrow> real" where
  "book_qty b = lots_qty (map lot_of (ab_lots b))"

text \<open>Realised profit plus the open lots valued at the price \<open>m\<close>.\<close>

definition book_value :: "real \<Rightarrow> asset_book \<Rightarrow> real" where
  "book_value m b = ab_realized b + lots_value (\<lambda>e. m - e) (map lot_of (ab_lots b))"

lemma value_shift:
  "lots_value (\<lambda>e. m - e) ls = lots_value (\<lambda>e. p - e) ls + (m - p) * lots_qty ls"
  by (induction ls) (simp_all add: lots_value_def lots_qty_def algebra_simps)

lemma sell_arith:
  fixes m :: real
  assumes "vm = vp + (m - p) * (q + x)" and "vm' = vp' + (m - p) * x" and "g + vp' = vp"
  shows "g + vm' = vm - m * q + p * q"
  using assms by (simp add: algebra_simps)

lemma book_buy:
  assumes "book_ok step b" and "0 < q" and "on_grid step q"
  shows "book_ok step (book_trade True q p fee b)" and "book_qty (book_trade True q p fee b) = book_qty b + q"
    and "book_value m (book_trade True q p fee b) = book_value m b + m * q - p * q - fee"
  using assms
  by (simp_all add: book_trade_def book_ok_def book_qty_def book_value_def lots_ok_def lots_qty_def
      lots_value_def lot_of_def field_simps)

lemma book_sell:
  assumes "book_ok step b" and "0 < q" and "on_grid step q" and "dust < step" and "q \<le> book_qty b"
  shows "book_ok step (book_trade False q p fee b)" and "book_qty (book_trade False q p fee b) = book_qty b - q"
    and "book_value m (book_trade False q p fee b) = book_value m b - m * q + p * q - fee"
proof -
  obtain g ls' r where c: "spot_close p q (ab_lots b) = (g, ls', r)" by (cases "spot_close p q (ab_lots b)") auto
  let ?ls = "map lot_of (ab_lots b)" let ?ls' = "map lot_of ls'"
  have e: "lots_ok step ?ls' \<and> 0 \<le> r \<and> on_grid step r \<and> (0 < r \<longrightarrow> ?ls' = [])
      \<and> lots_qty ?ls' - r = lots_qty ?ls - q
      \<and> g + lots_value (\<lambda>e. p - e) ?ls' = lots_value (\<lambda>e. p - e) ?ls"
    using close_lots_exact [OF _ _ assms(3,4) spot_close_refines [OF c]] assms(1,2) by (simp add: book_ok_def)
  have r: "r = 0"
  proof (rule ccontr)
    assume "r \<noteq> 0"
    with e have "lots_qty ?ls' = 0" by (simp add: lots_qty_def)
    with e \<open>r \<noteq> 0\<close> assms(5) show False by (simp add: book_qty_def)
  qed
  have b': "book_trade False q p fee b
      = b\<lparr>ab_fees := ab_fees b + fee, ab_lots := ls', ab_realized := ab_realized b + g - fee\<rparr>"
    by (simp add: book_trade_def c)
  show "book_ok step (book_trade False q p fee b)" "book_qty (book_trade False q p fee b) = book_qty b - q"
    using e r by (simp_all add: b' book_ok_def book_qty_def)
  show "book_value m (book_trade False q p fee b) = book_value m b - m * q + p * q - fee"
  proof -
    have q: "lots_qty ?ls = q + lots_qty ?ls'" using e r by linarith
    have "g + lots_value (\<lambda>e. p - e) ?ls' = lots_value (\<lambda>e. p - e) ?ls" using e by blast
    from sell_arith [OF value_shift [of m ?ls p, unfolded q] value_shift [of m ?ls' p] this] show ?thesis
      by (simp add: b' book_value_def)
  qed
qed

text \<open>Trades of one asset as direction, quantity, price and fee; what they leave of the asset, and
  whether no sale exceeds what the earlier trades left.\<close>

type_synonym asset_trade = "bool \<times> real \<times> real \<times> real"

fun held :: "real \<Rightarrow> asset_trade list \<Rightarrow> real" where
  "held h [] = h"
| "held h ((is_buy, q, p, fee) # ts) = held (if is_buy then h + q else h - q) ts"

fun covered :: "real \<Rightarrow> asset_trade list \<Rightarrow> bool" where
  "covered h [] = True"
| "covered h ((is_buy, q, p, fee) # ts) =
     ((is_buy \<or> q \<le> h) \<and> covered (if is_buy then h + q else h - q) ts)"

definition cash_flow :: "asset_trade \<Rightarrow> real" where
  "cash_flow t = (case t of (is_buy, q, p, fee) \<Rightarrow> (if is_buy then - (p * q) else p * q) - fee)"

definition run_book :: "asset_trade list \<Rightarrow> asset_book \<Rightarrow> asset_book" where
  "run_book ts b = fold (\<lambda>(is_buy, q, p, fee). book_trade is_buy q p fee) ts b"

lemma run_book_exact:
  assumes "book_ok step b" and "dust < step" and "covered (book_qty b) ts"
    and "\<forall>(is_buy, q, p, fee) \<in> set ts. 0 < q \<and> on_grid step q"
  shows "book_qty (run_book ts b) = held (book_qty b) ts
    \<and> book_value m (run_book ts b) - m * held (book_qty b) ts
        = book_value m b - m * book_qty b + sum_list (map cash_flow ts)"
  using assms
proof (induction ts arbitrary: b)
  case (Cons t ts)
  obtain is_buy q p fee where t: "t = (is_buy, q, p, fee)" by (cases t) auto
  let ?b = "book_trade is_buy q p fee b"
  have s: "book_ok step ?b \<and> book_qty ?b = (if is_buy then book_qty b + q else book_qty b - q)
      \<and> book_value m ?b - m * book_qty ?b = book_value m b - m * book_qty b + cash_flow t"
    using Cons.prems t book_buy [of step b q] book_sell [of step b q]
    by (cases is_buy) (simp_all add: cash_flow_def right_diff_distrib distrib_left)
  have h: "held (book_qty b) (t # ts) = held (book_qty ?b) ts" "run_book (t # ts) b = run_book ts ?b"
    "covered (book_qty ?b) ts"
    using s Cons.prems(3) by (simp_all add: t run_book_def)
  from Cons.IH [of ?b] s h(3) Cons.prems(2,4) have
    "book_qty (run_book ts ?b) = held (book_qty ?b) ts
     \<and> book_value m (run_book ts ?b) - m * held (book_qty ?b) ts
         = book_value m ?b - m * book_qty ?b + sum_list (map cash_flow ts)" by simp
  moreover have "book_value m ?b - m * book_qty ?b = book_value m b - m * book_qty b + cash_flow t"
    using s by blast
  ultimately show ?case unfolding h(1,2) list.map sum_list.Cons by linarith
qed (simp add: run_book_def)

section \<open>Property\<close>

text \<open>C28: Spot accounting is exact. For trades of one asset whose quantities are multiples of a step above
  the dust threshold and whose sales never exceed the holdings, the lots hold exactly what was bought
  and not sold, and the realised profit plus the open lots valued at any price is the cash flow of
  the trades, fees included, plus that holding at the price.\<close>

theorem spot_accounting_exact:
  assumes "dust < step" and "covered 0 ts" and "\<forall>(is_buy, q, p, fee) \<in> set ts. 0 < q \<and> on_grid step q"
  shows "book_qty (run_book ts empty_book) = held 0 ts
    \<and> book_value m (run_book ts empty_book) = m * held 0 ts + sum_list (map cash_flow ts)"
proof -
  have "book_ok step empty_book" "book_qty empty_book = 0" "book_value m empty_book = 0"
    by (simp_all add: book_ok_def book_qty_def book_value_def empty_book_def lots_ok_def lots_qty_def lots_value_def)
  with run_book_exact [of step empty_book ts m] assms show ?thesis by simp
qed

theorem spot_accounting_exact_witness:
  "book_value 120 (run_book [(True, 3, 100, 1), (False, 2, 110, 1)] empty_book) = 38"
proof -
  have d: "dust < 1" by (simp add: dust_def)
  have "on_grid 1 3" "on_grid 1 2"
    unfolding on_grid_def by (rule exI [of _ 3], simp, rule exI [of _ 2], simp)
  with spot_accounting_exact [OF d, of "[(True, 3, 100, 1), (False, 2, 110, 1)]" 120]
  show ?thesis by (simp add: cash_flow_def)
qed

end
