(* ===== verification/Strategy_Profile.thy ===== *)
theory Strategy_Profile
  imports Position_Context
begin

text \<open>
  \<^verbatim>\<open>app/schemas/strategy_profile.py\<close>: the exit plan a strategy stores (stop mode, take-profit
  ladder, rules, watchers) and the validators that admit it. The coercion of raw JSON to typed
  fields is Pydantic's and enters where a profile is read (theory \<open>Auto_Entry\<close>) as a parameter; the
  records here are the typed fields, the validators are the program's own.
\<close>

section \<open>The profile\<close>

record profile_level =
  pl_price_offset_pct :: real
  pl_close_pct :: real
  pl_move_sl_to :: "string option"
  pl_sl_lock_pct :: "real option"

record strategy_profile =
  sp_sl_mode :: string
  sp_sl_value :: real
  sp_tp_mode :: string
  sp_tp_value :: "real option"
  sp_tp_levels :: "profile_level list"
  sp_trailing_enabled :: bool
  sp_trailing_callback_rate :: real
  sp_breakeven_enabled :: bool
  sp_breakeven_trigger_rr :: real
  sp_volatility_sl_enabled :: bool
  sp_volatility_atr_period :: int
  sp_volatility_atr_multiplier :: real
  sp_watchers :: "watcher_config list"
  sp_adjustment_priority :: "string list"
  sp_max_position_pct :: real
  sp_allow_sl_widen :: bool

section \<open>Validators\<close>

definition validate_inclusive_range :: "string \<Rightarrow> real \<Rightarrow> real \<Rightarrow> real \<Rightarrow> py_error + real" where
  "validate_inclusive_range field lower upper v =
     (if lower \<le> v \<and> v \<le> upper then Inr v
      else Inl (ValueError (field @ '' must be between the bounds.'')))"

text \<open>\<open>^tp([1-9]\d*)$\<close>.\<close>

definition tp_reference :: "string \<Rightarrow> bool" where
  "tp_reference s =
     (case s of
        a # b # d # ds \<Rightarrow> a = CHR ''t'' \<and> b = CHR ''p'' \<and> is_digit d \<and> d \<noteq> CHR ''0'' \<and> list_all is_digit ds
      | _ \<Rightarrow> False)"

definition validate_move_sl_to :: "string option \<Rightarrow> py_error + string option" where
  "validate_move_sl_to v =
     (case v of
        None \<Rightarrow> Inr None
      | Some value \<Rightarrow>
          let normalized = py_lower (py_strip value) in
          if normalized = ''breakeven'' \<or> normalized = ''none'' \<or> tp_reference normalized
          then Inr (Some normalized)
          else Inl (ValueError ''move_sl_to must be null, breakeven, none or a tp reference''))"

text \<open>\<open>StrategyProfileTPLevel\<close>: the field bounds and the validator.\<close>

definition validate_profile_level :: "profile_level \<Rightarrow> py_error + profile_level" where
  "validate_profile_level l =
     (if \<not> 0 < pl_price_offset_pct l then Inl (ValueError ''price_offset_pct'')
      else if \<not> (0 < pl_close_pct l \<and> pl_close_pct l \<le> 100) then Inl (ValueError ''close_pct'')
      else if (case pl_sl_lock_pct l of None \<Rightarrow> False | Some x \<Rightarrow> x < - 100 \<or> 200 < x)
      then Inl (ValueError ''sl_lock_pct'')
      else case validate_move_sl_to (pl_move_sl_to l) of
             Inl e \<Rightarrow> Inl e
           | Inr m \<Rightarrow> Inr (l\<lparr>pl_move_sl_to := m\<rparr>))"

text \<open>\<open>StrategyProfileWatcher\<close>: lengths are checked before the text is trimmed.\<close>

definition field_length :: "nat \<Rightarrow> string \<Rightarrow> bool" where
  "field_length n s = (1 \<le> length s \<and> length s \<le> n)"

definition normalize_indicator :: "string \<Rightarrow> py_error + string" where
  "normalize_indicator v =
     (let n = py_upper (py_strip v) in
      if n \<noteq> [] then Inr n else Inl (ValueError ''indicator cannot be empty.''))"

definition normalize_non_empty_text :: "string \<Rightarrow> py_error + string" where
  "normalize_non_empty_text v =
     (let n = py_strip v in if n \<noteq> [] then Inr n else Inl (ValueError ''Value cannot be empty.''))"

definition validate_profile_watcher :: "watcher_config \<Rightarrow> py_error + watcher_config" where
  "validate_profile_watcher w =
     (if \<not> field_length 64 (wc_indicator w) \<or> \<not> field_length 128 (wc_condition w)
         \<or> \<not> field_length 64 (wc_action w) then Inl (ValueError ''length'')
      else case (normalize_indicator (wc_indicator w), normalize_non_empty_text (wc_condition w),
                 normalize_non_empty_text (wc_action w)) of
             (Inr i, Inr c, Inr a) \<Rightarrow>
               Inr (w\<lparr>wc_indicator := i, wc_condition := c, wc_action := a\<rparr>)
           | _ \<Rightarrow> Inl (ValueError ''Value cannot be empty.''))"

fun validate_each :: "('a \<Rightarrow> py_error + 'a) \<Rightarrow> 'a list \<Rightarrow> py_error + 'a list" where
  "validate_each f [] = Inr []"
| "validate_each f (x # xs) =
     (case f x of
        Inl e \<Rightarrow> Inl e
      | Inr y \<Rightarrow> (case validate_each f xs of Inl e \<Rightarrow> Inl e | Inr ys \<Rightarrow> Inr (y # ys)))"

definition validate_adjustment_priority :: "string list \<Rightarrow> py_error + string list" where
  "validate_adjustment_priority v =
     (let normalized = map (\<lambda>s. py_lower (py_strip s)) v in
      if \<not> set normalized \<subseteq> set default_priority
      then Inl (ValueError ''adjustment_priority contains invalid keys'')
      else if \<not> distinct normalized
      then Inl (ValueError ''adjustment_priority must not contain duplicates'')
      else Inr normalized)"

text \<open>\<open>math.isclose(total, 100, abs_tol=0.1)\<close>, with its relative tolerance of 1e-9.\<close>

definition close_pct_complete :: "real \<Rightarrow> bool" where
  "close_pct_complete s =
     (\<bar>s - 100\<bar> \<le> max (max \<bar>s\<bar> 100 / 1000000000) (1 / 10))"

definition silent_level :: "profile_level \<Rightarrow> bool" where
  "silent_level l = (pl_sl_lock_pct l = None \<and> pl_move_sl_to l = None)"

definition validate_tp_configuration :: "strategy_profile \<Rightarrow> py_error + strategy_profile" where
  "validate_tp_configuration p =
     (if sp_tp_mode p = ''single''
      then (if sp_tp_value p = None then Inl (ValueError ''tp_value is required'') else Inr p)
      else if sp_tp_levels p = [] then Inl (ValueError ''tp_levels is required'')
      else if \<not> close_pct_complete (sum_list (map pl_close_pct (sp_tp_levels p)))
      then Inl (ValueError ''tp_levels close_pct must sum to 100'')
      else if list_ex silent_level (butlast (sp_tp_levels p))
      then Inl (ValueError ''Multi-TP level must declare sl_lock_pct or move_sl_to'')
      else Inr p)"

text \<open>The field constraints that are not validators of their own.\<close>

definition profile_bounds_ok :: "strategy_profile \<Rightarrow> bool" where
  "profile_bounds_ok p =
     (sp_sl_mode p \<in> {''fixed'', ''atr'', ''percentage''} \<and> 0 < sp_sl_value p
      \<and> sp_tp_mode p \<in> {''single'', ''multi''}
      \<and> (case sp_tp_value p of None \<Rightarrow> True | Some v \<Rightarrow> 0 < v)
      \<and> 1 \<le> sp_volatility_atr_period p
      \<and> 0 < sp_max_position_pct p \<and> sp_max_position_pct p \<le> 100)"

definition validate_strategy_profile :: "strategy_profile \<Rightarrow> py_error + strategy_profile" where
  "validate_strategy_profile p =
     (if \<not> profile_bounds_ok p then Inl (ValueError ''field out of bounds'')
      else case (validate_inclusive_range ''trailing_callback_rate'' (1 / 10) 10 (sp_trailing_callback_rate p),
                 validate_inclusive_range ''breakeven_trigger_rr'' (1 / 2) 5 (sp_breakeven_trigger_rr p),
                 validate_inclusive_range ''volatility_atr_multiplier'' (1 / 2) 5 (sp_volatility_atr_multiplier p),
                 validate_adjustment_priority (sp_adjustment_priority p),
                 validate_each validate_profile_level (sp_tp_levels p),
                 validate_each validate_profile_watcher (sp_watchers p)) of
             (Inr _, Inr _, Inr _, Inr prio, Inr levels, Inr ws) \<Rightarrow>
               validate_tp_configuration
                 (p\<lparr>sp_adjustment_priority := prio, sp_tp_levels := levels, sp_watchers := ws\<rparr>)
           | _ \<Rightarrow> Inl (ValueError ''validation failed''))"

section \<open>What a validated profile guarantees\<close>

lemma validate_each_list_all:
  assumes "validate_each f xs = Inr ys" and "\<And>x y. f x = Inr y \<Longrightarrow> P y"
  shows "list_all P ys"
  using assms(1)
  by (induction xs arbitrary: ys) (auto split: sum.splits dest: assms(2))

definition level_sound :: "profile_level \<Rightarrow> bool" where
  "level_sound l = (0 < pl_price_offset_pct l \<and> 0 < pl_close_pct l \<and> pl_close_pct l \<le> 100)"

lemma validate_level_sound: "validate_profile_level l = Inr m \<Longrightarrow> level_sound m"
  by (auto simp: validate_profile_level_def level_sound_def split: if_splits sum.splits option.splits)

lemma validated_profile:
  assumes "validate_strategy_profile p = Inr q"
  shows "list_all level_sound (sp_tp_levels q)"
    and "sp_tp_mode q = ''single'' \<or> sp_tp_mode q = ''multi''"
    and "sp_tp_mode q = ''multi'' \<Longrightarrow> sp_tp_levels q \<noteq> []
           \<and> close_pct_complete (sum_list (map pl_close_pct (sp_tp_levels q)))"
  using assms validate_each_list_all [of validate_profile_level, OF _ validate_level_sound]
  by (auto simp: validate_strategy_profile_def validate_tp_configuration_def profile_bounds_ok_def
      split: if_splits sum.splits)

end
