(* ===== verification/Auto_Entry.thy ===== *)
theory Auto_Entry
  imports Strategy_Profile AI_Overlay Signal Multi_TP Risk_Gate Queue_Pending
begin

text \<open>
  The entry half of \<^verbatim>\<open>app/services/auto_trade/service.py\<close>: how a signal and a configuration become a
  position context, what is sent to the exchange, how the filled position is recorded in its
  database row, and how it gets its protective orders or is closed again when it cannot get them.
  Instants are seconds since the epoch; \<open>iso\<close> and \<open>fromiso\<close> are their text form. Pydantic's coercion of
  a stored profile is the parameter \<open>coerce\<close>.
\<close>

section \<open>Configuration and database row\<close>

record auto_config =
  cf_id :: int
  cf_user_id :: int
  cf_profile_id :: int
  cf_account_id :: int
  cf_enabled :: bool
  cf_is_running :: bool
  cf_position_size_usdt :: real
  cf_leverage :: int
  cf_min_confidence_pct :: real
  cf_fast_close_confidence_pct :: real
  cf_confirm_reports_required :: int
  cf_sl_pct :: real
  cf_tp_pct :: real
  cf_strategy_profile_json :: "pydict option"
  cf_overlay :: overlay_config
  cf_lifecycle_stage :: string
  cf_risk_mode :: string
  cf_strategy_name :: "string option"
  cf_attached_forecast_id :: "string option"
  cf_last_started_at :: "real option"
  cf_last_stopped_at :: "real option"
  cf_created_at :: real
  cf_sandbox_entered_at :: "real option"
  cf_risk_off_latched :: bool
  cf_risk_off_reason :: "string option"
  cf_risk_off_at :: "real option"

record auto_position =
  ap_id :: int
  ap_user_id :: int
  ap_config_id :: int
  ap_profile_id :: int
  ap_account_id :: int
  ap_symbol :: string
  ap_side :: string
  ap_status :: string
  ap_state :: string
  ap_entry_price :: real
  ap_quantity :: real
  ap_position_size_usdt :: real
  ap_leverage :: int
  ap_tp_price :: real
  ap_sl_price :: real
  ap_entry_confidence_pct :: real
  ap_opened_at :: real
  ap_closed_at :: "real option"
  ap_close_reason :: "string option"
  ap_close_price :: "real option"
  ap_open_order_id :: "string option"
  ap_close_order_id :: "string option"
  ap_open_history_id :: "int option"
  ap_close_history_id :: "int option"
  ap_decision_event_id :: "string option"
  ap_raw_open_order :: pydict
  ap_raw_close_order :: pydict
  ap_original_quantity :: "real option"
  ap_current_quantity :: "real option"
  ap_sl_exchange_order_id :: "string option"
  ap_sl_type :: "string option"
  ap_tp_mode :: "string option"
  ap_json :: pydict
  ap_last_adjusted_at :: "real option"

definition position_epsilon :: real where
  "position_epsilon = 1 / 1000000000"

definition runtime_position_side :: "string \<Rightarrow> position_side" where
  "runtime_position_side trend = (if trend = ''SHORT'' then SHORT else LONG)"

definition status_from_runtime_state :: "position_state \<Rightarrow> string" where
  "status_from_runtime_state s =
     (if s = CLOSED then ''closed'' else if s = CANCELLED \<or> s = FAILED then ''error'' else ''open'')"

definition parse_optional_datetime :: "(string \<Rightarrow> real option) \<Rightarrow> string option \<Rightarrow> real option" where
  "parse_optional_datetime fromiso v =
     (case v of None \<Rightarrow> None | Some s \<Rightarrow> if s = [] then None else fromiso s)"

definition parse_strategy_profile ::
    "(pydict \<Rightarrow> strategy_profile option) \<Rightarrow> pydict option \<Rightarrow> strategy_profile option" where
  "parse_strategy_profile coerce payload =
     (case payload of
        None \<Rightarrow> None
      | Some d \<Rightarrow>
          (case coerce d of
             None \<Rightarrow> None
           | Some p \<Rightarrow> (case validate_strategy_profile p of Inl e \<Rightarrow> None | Inr q \<Rightarrow> Some q)))"

definition resolve_base_atr_multiplier ::
    "(pydict \<Rightarrow> strategy_profile option) \<Rightarrow> auto_config \<Rightarrow> real" where
  "resolve_base_atr_multiplier coerce cfg =
     (case parse_strategy_profile coerce (cf_strategy_profile_json cfg) of
        None \<Rightarrow> 2
      | Some p \<Rightarrow> sp_volatility_atr_multiplier p)"

section \<open>Prices and context\<close>

definition calculate_tp_sl_for_entry_price :: "real \<Rightarrow> string \<Rightarrow> auto_config \<Rightarrow> real \<times> real" where
  "calculate_tp_sl_for_entry_price entry trend cfg =
     (let tp_pct = cf_tp_pct cfg / 100; sl_pct = cf_sl_pct cfg / 100 in
      if trend = ''LONG'' then (entry * (1 + tp_pct), entry * (1 - sl_pct))
      else (entry * (1 - tp_pct), entry * (1 + sl_pct)))"

definition calculate_tp_sl :: "parsed_signal \<Rightarrow> auto_config \<Rightarrow> real \<times> real" where
  "calculate_tp_sl s cfg = calculate_tp_sl_for_entry_price (ps_price_current s) (ps_trend s) cfg"

text \<open>The watchers of a profile become validated watcher configurations; a condition the constructor
  rejects raises.\<close>

definition shifted_condition :: "(pyval \<Rightarrow> string) \<Rightarrow> int \<Rightarrow> watcher_config \<Rightarrow> string" where
  "shifted_condition rp shift w =
     (if shift \<noteq> 0 \<and> py_upper (wc_indicator w) = ''RSI''
      then shift_watcher_condition_threshold rp (wc_condition w) shift else wc_condition w)"

definition profile_watchers ::
    "(pyval \<Rightarrow> string) \<Rightarrow> int \<Rightarrow> watcher_config list \<Rightarrow> py_error + watcher_config list" where
  "profile_watchers rp shift ws =
     validate_each watcher_post_init (map (\<lambda>w. w\<lparr>wc_condition := shifted_condition rp shift w\<rparr>) ws)"

definition profile_ladder :: "real \<Rightarrow> position_side \<Rightarrow> profile_level list \<Rightarrow> tp_level list" where
  "profile_ladder entry side levels =
     map (\<lambda>(i, l). tp_level_from_offset (int i + 1) (pl_price_offset_pct l) (pl_close_pct l) entry side
                     ''pending'' None (pl_move_sl_to l) (pl_sl_lock_pct l))
       (enumerate 0 levels)"

definition plain_position_context ::
    "auto_config \<Rightarrow> parsed_signal \<Rightarrow> string \<Rightarrow> string \<Rightarrow> real \<Rightarrow> real \<Rightarrow> real \<Rightarrow> real option \<Rightarrow> position_context" where
  "plain_position_context cfg s exchange symbol quantity tp sl atr_override =
     default_context\<lparr>
       pc_user_id := show_int (cf_user_id cfg), pc_account_id := show_int (cf_account_id cfg),
       pc_exchange := exchange, pc_symbol := symbol, pc_side := runtime_position_side (ps_trend s),
       pc_entry_price := ps_price_current s, pc_original_quantity := quantity,
       pc_current_quantity := quantity, pc_leverage := cf_leverage cfg, pc_current_sl_price := sl,
       pc_current_tp_price := Some tp,
       pc_volatility_atr_multiplier := (case atr_override of None \<Rightarrow> 2 | Some x \<Rightarrow> x)\<rparr>"

definition build_position_context ::
    "(pyval \<Rightarrow> string) \<Rightarrow> (pydict \<Rightarrow> strategy_profile option) \<Rightarrow> auto_config \<Rightarrow> parsed_signal \<Rightarrow> string \<Rightarrow> string
      \<Rightarrow> real \<Rightarrow> real \<Rightarrow> real \<Rightarrow> real option \<Rightarrow> int \<Rightarrow> py_error + position_context" where
  "build_position_context rp coerce cfg s exchange symbol quantity tp sl atr_override shift =
     (let c = plain_position_context cfg s exchange symbol quantity tp sl atr_override in
      case parse_strategy_profile coerce (cf_strategy_profile_json cfg) of
        None \<Rightarrow> Inr c
      | Some p \<Rightarrow>
          (case profile_watchers rp shift (sp_watchers p) of
             Inl e \<Rightarrow> Inl e
           | Inr ws \<Rightarrow>
               let levels = (if sp_tp_mode p = ''multi''
                             then profile_ladder (ps_price_current s) (pc_side c) (sp_tp_levels p) else [])
               in Inr (c\<lparr>
                 pc_sl_type := sp_sl_mode p, pc_tp_mode := sp_tp_mode p, pc_tp_levels := levels,
                 pc_current_tp_price := (if levels = [] then Some tp else Some (tl_trigger_price (hd levels))),
                 pc_trailing_enabled := sp_trailing_enabled p,
                 pc_trailing_callback_rate :=
                   (if sp_trailing_enabled p then Some (sp_trailing_callback_rate p) else None),
                 pc_breakeven_enabled := sp_breakeven_enabled p,
                 pc_breakeven_trigger_rr := sp_breakeven_trigger_rr p,
                 pc_volatility_sl_enabled := sp_volatility_sl_enabled p,
                 pc_volatility_atr_period := sp_volatility_atr_period p,
                 pc_volatility_atr_multiplier :=
                   (case atr_override of None \<Rightarrow> sp_volatility_atr_multiplier p | Some x \<Rightarrow> x),
                 pc_active_watchers := ws,
                 pc_adjustment_priority := sp_adjustment_priority p\<rparr>)))"

definition refresh_level :: "real \<Rightarrow> position_side \<Rightarrow> tp_level \<Rightarrow> tp_level" where
  "refresh_level entry side l =
     tp_level_from_offset (tl_level l) (tl_price_offset_pct l) (tl_close_pct l) entry side
       (tl_status l) (tl_exchange_order_id l) (tl_move_sl_to l) (tl_sl_lock_pct l)"

definition refresh_runtime_prices_after_fill ::
    "string \<Rightarrow> auto_config \<Rightarrow> string \<Rightarrow> real \<Rightarrow> real \<Rightarrow> position_context \<Rightarrow> position_context" where
  "refresh_runtime_prices_after_fill now_iso cfg trend entry_price filled p =
     (let (tp, sl) = calculate_tp_sl_for_entry_price entry_price trend cfg;
          levels = (if pc_tp_mode p = ''multi'' \<and> pc_tp_levels p \<noteq> []
                    then map (refresh_level entry_price (pc_side p)) (pc_tp_levels p) else pc_tp_levels p)
      in p\<lparr>pc_entry_price := entry_price, pc_original_quantity := filled,
           pc_current_quantity := filled, pc_current_sl_price := sl, pc_opened_at := now_iso,
           pc_last_adjusted_at := Some now_iso, pc_tp_levels := levels,
           pc_current_tp_price :=
             (if pc_tp_mode p = ''multi'' \<and> pc_tp_levels p \<noteq> []
              then Some (tl_trigger_price (hd levels)) else Some tp)\<rparr>)"

definition resolve_runtime_tp_price :: "position_context \<Rightarrow> real option" where
  "resolve_runtime_tp_price p =
     (if pc_tp_mode p = ''multi'' \<and> pc_tp_levels p \<noteq> []
      then Some (tl_trigger_price (hd (pc_tp_levels p))) else pc_current_tp_price p)"

section \<open>Writing the context into its row\<close>

definition json_columns :: "string list" where
  "json_columns = [''sl_history_json'', ''tp_levels_json'', ''tp_history_json'', ''trailing_config_json'',
     ''breakeven_config_json'', ''volatility_config_json'', ''active_watchers_json'',
     ''adjustment_priority_json'', ''transition_log_json'']"

definition merge_position_context_into_row ::
    "(string \<Rightarrow> real option) \<Rightarrow> real \<Rightarrow> position_context \<Rightarrow> auto_position \<Rightarrow> auto_position" where
  "merge_position_context_into_row fromiso now p row =
     (let payload = to_db_dict p;
          quantity = (if pc_state p \<noteq> CLOSED \<and> pc_current_quantity p > position_epsilon
                      then pc_current_quantity p
                      else if ap_quantity row \<le> position_epsilon \<and> pc_original_quantity p > position_epsilon
                      then pc_original_quantity p else ap_quantity row)
      in row\<lparr>
           ap_state := position_state_value (pc_state p),
           ap_status := status_from_runtime_state (pc_state p),
           ap_original_quantity := Some (pc_original_quantity p),
           ap_current_quantity := Some (pc_current_quantity p),
           ap_quantity := quantity,
           ap_sl_price := (if pc_current_sl_price p > position_epsilon then pc_current_sl_price p else ap_sl_price row),
           ap_tp_price := (case resolve_runtime_tp_price p of
                             None \<Rightarrow> ap_tp_price row
                           | Some tp \<Rightarrow> if tp > position_epsilon then tp else ap_tp_price row),
           ap_sl_exchange_order_id := pc_sl_exchange_order_id p,
           ap_sl_type := Some (pc_sl_type p),
           ap_tp_mode := Some (pc_tp_mode p),
           ap_json := fold (\<lambda>k d. dict_set d k (get_none payload k)) json_columns (ap_json row),
           ap_opened_at := (case parse_optional_datetime fromiso (Some (pc_opened_at p)) of
                              None \<Rightarrow> ap_opened_at row | Some t \<Rightarrow> t),
           ap_closed_at := (case parse_optional_datetime fromiso (pc_closed_at p) of
                              Some t \<Rightarrow> Some t
                            | None \<Rightarrow> if pc_state p = CLOSED \<and> ap_closed_at row = None then Some now
                                      else ap_closed_at row),
           ap_last_adjusted_at := parse_optional_datetime fromiso (pc_last_adjusted_at p)\<rparr>)"

section \<open>What is sent to the exchange\<close>

text \<open>An exception of the exchange or analysis client, with its \<open>retryable\<close> flag, or any other
  exception.\<close>

datatype trade_error = ServiceError string bool | OtherError string

fun error_text :: "trade_error \<Rightarrow> string" where
  "error_text (ServiceError m r) = m"
| "error_text (OtherError m) = m"

text \<open>The entry order of the adapter carries the ids of its attached orders, the one of the trading
  service does not.\<close>

datatype trade_call =
    SetLeverage string int
  | AdapterEntry string order_side real string "real option" "real option" "string option" "string option"
  | MarketEntry string order_side real string "real option" "real option"
  | CloseReduceOnly string order_side real string
  | PartialCloseMarket string order_side real string
  | MarketReduceOnly string order_side real string
  | CancelConditional string string

record entry_result =
  er_exchange_order_id :: string
  er_client_order_id :: string
  er_filled_quantity :: real
  er_price :: "real option"
  er_average_price :: "real option"
  er_raw :: pydict
  er_attached_sl :: "string option"
  er_attached_tp :: "string option"

record normalized_order =
  no_id :: string
  no_client_order_id :: "string option"
  no_filled :: real
  no_price :: "real option"
  no_average :: "real option"
  no_raw :: pydict

definition entry_result_from_legacy_order :: "normalized_order \<Rightarrow> entry_result" where
  "entry_result_from_legacy_order n =
     \<lparr>er_exchange_order_id = no_id n,
      er_client_order_id = (case no_client_order_id n of None \<Rightarrow> [] | Some c \<Rightarrow> c),
      er_filled_quantity = no_filled n, er_price = no_price n, er_average_price = no_average n,
      er_raw = no_raw n, er_attached_sl = None, er_attached_tp = None\<rparr>"

text \<open>The answers of everything outside: the clock, the exchange, and whether the queue, the scheduler
  and the WebSocket manager could be reached.\<close>

record entry_env =
  ee_now :: real
  ee_iso :: "real \<Rightarrow> string"
  ee_fromiso :: "string \<Rightarrow> real option"
  ee_repr :: "pyval \<Rightarrow> string"
  ee_coerce :: "pydict \<Rightarrow> strategy_profile option"
  ee_use_adapter :: bool
  ee_adapter_error :: "trade_error option"
  ee_leverage_error :: "trade_error option"
  ee_adapter_entry :: "trade_error + entry_result"
  ee_market_entry :: "trade_error + normalized_order"
  ee_queue_error :: "string option"
  ee_persist_error :: "string option"
  ee_schedule_error :: "string option"
  ee_track_error :: "string option"

definition at_client_order_id :: "string \<Rightarrow> int \<Rightarrow> int \<Rightarrow> int \<Rightarrow> string" where
  "at_client_order_id prefix user_id config_id history_id =
     take 64 (prefix @ ''-'' @ show_int user_id @ ''-'' @ show_int config_id @ ''-'' @ show_int history_id)"

definition build_position_runtime_order_id :: "real \<Rightarrow> string \<Rightarrow> string \<Rightarrow> string" where
  "build_position_runtime_order_id now position_id kind =
     take 64 (''pos-'' @ position_id @ ''-'' @ kind @ ''-'' @ show_int (trunc_real (now * 1000)))"

definition place_entry_order ::
    "entry_env \<Rightarrow> position_context \<Rightarrow> order_side \<Rightarrow> real \<Rightarrow> string \<Rightarrow> real option \<Rightarrow> real option
      \<Rightarrow> trade_call list \<times> (trade_error + entry_result)" where
  "place_entry_order env p side quantity coid tp sl =
     (let bracket_tp = (if pc_tp_mode p = ''single'' then tp else None);
          sl_coid = map_option (\<lambda>_. coid @ ''-sl'') sl;
          tp_coid = map_option (\<lambda>_. coid @ ''-tp'') bracket_tp
      in if ee_use_adapter env
         then (case ee_adapter_error env of
                 Some e \<Rightarrow> ([], Inl e)
               | None \<Rightarrow> ([AdapterEntry (pc_symbol p) side quantity coid bracket_tp sl sl_coid tp_coid],
                          ee_adapter_entry env))
         else ([MarketEntry (pc_symbol p) side quantity coid bracket_tp sl],
               map_sum id entry_result_from_legacy_order (ee_market_entry env)))"

section \<open>Protecting the filled position\<close>

definition runtime_sl_task :: "entry_env \<Rightarrow> position_context \<Rightarrow> order_task" where
  "runtime_sl_task env p =
     \<lparr>ot_priority = Prio_NEW_CONDITIONAL, ot_created_at = ee_now env,
      ot_position_id = pc_position_id p, ot_action = ''place_sl'',
      ot_params =
        [(''symbol'', VStr (pc_symbol p)), (''side'', VSide (closing_side (pc_side p))),
         (''quantity'', VFloat (pc_current_quantity p)),
         (''full_quantity'', VFloat (pc_current_quantity p)),
         (''trigger_price'', VFloat (pc_current_sl_price p)),
         (''client_order_id'', VStr (build_position_runtime_order_id (ee_now env) (pc_position_id p) ''sl'')),
         (''reduce_only'', VBool True), (''close_position'', VBool True)],
      ot_retry_count = 0, ot_max_retries = 3, ot_on_success = Some ''conditional_order:sl''\<rparr>"

definition runtime_tp_task :: "entry_env \<Rightarrow> position_context \<Rightarrow> real \<Rightarrow> order_task" where
  "runtime_tp_task env p tp =
     \<lparr>ot_priority = Prio_NEW_CONDITIONAL, ot_created_at = ee_now env,
      ot_position_id = pc_position_id p, ot_action = ''place_tp'',
      ot_params =
        [(''symbol'', VStr (pc_symbol p)), (''side'', VSide (closing_side (pc_side p))),
         (''quantity'', VFloat (pc_current_quantity p)), (''trigger_price'', VFloat tp),
         (''client_order_id'', VStr (build_position_runtime_order_id (ee_now env) (pc_position_id p) ''tp'')),
         (''reduce_only'', VBool True)],
      ot_retry_count = 0, ot_max_retries = 3, ot_on_success = Some ''conditional_order:tp''\<rparr>"

definition entry_tp_env :: "entry_env \<Rightarrow> tp_env" where
  "entry_tp_env env =
     \<lparr>te_now = ee_now env, te_iso = ee_iso env (ee_now env), te_live = LiveNone,
      te_tp_callback = (\<lambda>i. Some (''conditional_order:tp:'' @ show_nat i)), te_sl_callback = (\<lambda>_. None)\<rparr>"

text \<open>The stop: attached to the entry order, or a task of the queue.\<close>

definition protect_stop :: "entry_env \<Rightarrow> entry_result \<Rightarrow> position_context \<Rightarrow> queue_state \<Rightarrow> position_context \<times> queue_state" where
  "protect_stop env opened p q =
     (case er_attached_sl opened of
        Some xid \<Rightarrow> (p\<lparr>pc_sl_exchange_order_id := Some xid\<rparr>, q)
      | None \<Rightarrow> (p, enqueue (ee_repr env) q (runtime_sl_task env p)))"

definition protect_profit :: "entry_env \<Rightarrow> entry_result \<Rightarrow> position_context \<Rightarrow> queue_state \<Rightarrow> position_context \<times> queue_state" where
  "protect_profit env opened p q =
     (if pc_tp_mode p = ''multi'' \<and> pc_tp_levels p \<noteq> []
      then (let e = initialize_tp_levels (ee_repr env) (entry_tp_env env)
                      \<lparr>es_position = p, es_queue = q, es_audit = []\<rparr>
            in (es_position e, es_queue e))
      else case er_attached_tp opened of
             Some xid \<Rightarrow>
               (case pc_tp_levels p of
                  [] \<Rightarrow> (p, q)
                | l # ls \<Rightarrow> (p\<lparr>pc_tp_levels := l\<lparr>tl_exchange_order_id := Some xid, tl_status := ''open''\<rparr> # ls\<rparr>, q))
           | None \<Rightarrow>
               (case pc_current_tp_price p of
                  None \<Rightarrow> (p, q)
                | Some tp \<Rightarrow> if tp > position_epsilon then (p, enqueue (ee_repr env) q (runtime_tp_task env p tp))
                             else (p, q)))"

text \<open>The error that stops the initialisation, if any, with the context and the queue as they are then.\<close>

definition initialize_position_runtime ::
    "entry_env \<Rightarrow> entry_result \<Rightarrow> position_context \<Rightarrow> queue_state
      \<Rightarrow> string option \<times> position_context \<times> queue_state" where
  "initialize_position_runtime env opened p q =
     (if \<not> ee_use_adapter env then (None, p, q)
      else case ee_queue_error env of
             Some e \<Rightarrow> (Some e, p, q)
           | None \<Rightarrow>
               (let (p1, q1) = protect_stop env opened p q;
                    (p2, q2) = protect_profit env opened p1 q1
                in (case ee_persist_error env of
                      Some e \<Rightarrow> Some e
                    | None \<Rightarrow>
                        (case (if pc_active_watchers p2 \<noteq> [] then ee_schedule_error env else None) of
                           Some e \<Rightarrow> Some e
                         | None \<Rightarrow> ee_track_error env), p2, q2)))"

text \<open>\<open>_emergency_close_unprotected_position\<close>: the call that is sent, and the row. An error of the call
  is only recorded in the event.\<close>

definition unprotected_close_call :: "entry_env \<Rightarrow> position_context \<Rightarrow> real \<Rightarrow> trade_call" where
  "unprotected_close_call env p filled =
     (let coid = build_position_runtime_order_id (ee_now env) (pc_position_id p) ''emergency''; side = closing_side (pc_side p)
      in if ee_use_adapter env then PartialCloseMarket (pc_symbol p) side filled coid
         else MarketReduceOnly (pc_symbol p) side filled coid)"

definition unprotected_close_row :: "real \<Rightarrow> int \<Rightarrow> auto_position \<Rightarrow> auto_position" where
  "unprotected_close_row now history_id row =
     row\<lparr>ap_status := ''closed'', ap_state := ''closed'', ap_closed_at := Some now,
         ap_close_reason := Some ''emergency_unprotected'', ap_close_history_id := Some history_id,
         ap_current_quantity := Some 0\<rparr>"

section \<open>Prices and protection\<close>

lemma parsed_profile:
  assumes "parse_strategy_profile coerce payload = Some p"
  obtains r where "validate_strategy_profile r = Inr p"
  using assms by (auto simp: parse_strategy_profile_def split: option.splits sum.splits)

text \<open>The sign of a side: prices on the profit side of the entry lie in its direction.\<close>

definition direction :: "string \<Rightarrow> real" where
  "direction trend = (if trend = ''LONG'' then 1 else - 1)"

lemma trigger_on_profit_side:
  assumes "0 < entry" and "0 < off" and "trend = ''LONG'' \<or> trend = ''SHORT''"
  shows "0 < direction trend * (compute_trigger_price entry off (runtime_position_side trend) - entry)"
  using assms by (auto simp: compute_trigger_price_def runtime_position_side_def direction_def field_simps)

lemma built_ladder:
  assumes "build_position_context rp coerce cfg s ex mkt qty tp sl atr shift = Inr p"
  shows "pc_side p = runtime_position_side (ps_trend s)"
    and "list_all (\<lambda>l. 0 < tl_price_offset_pct l \<and> 0 < tl_close_pct l \<and> tl_status l = ''pending'') (pc_tp_levels p)"
    and "pc_tp_mode p \<noteq> ''multi'' \<Longrightarrow> pc_tp_levels p = []"
    and "pc_tp_mode p = ''multi'' \<Longrightarrow> pc_tp_levels p \<noteq> []
           \<and> close_pct_complete (sum_list (map tl_close_pct (pc_tp_levels p)))"
proof -
  have ladder: "map tl_close_pct (profile_ladder e d ls) = map pl_close_pct ls"
    "list_all level_sound ls \<Longrightarrow>
       list_all (\<lambda>l. 0 < tl_price_offset_pct l \<and> 0 < tl_close_pct l \<and> tl_status l = ''pending'') (profile_ladder e d ls)"
    "profile_ladder e d ls = [] \<longleftrightarrow> ls = []" for e d ls
    by (auto simp: profile_ladder_def tp_level_from_offset_def level_sound_def list_all_length
        enumerate_eq_zip intro!: nth_equalityI)
  consider "parse_strategy_profile coerce (cf_strategy_profile_json cfg) = None"
    | r q where "parse_strategy_profile coerce (cf_strategy_profile_json cfg) = Some q"
        "validate_strategy_profile r = Inr q"
    using parsed_profile by (metis option.exhaust)
  then have "pc_side p = runtime_position_side (ps_trend s)
    \<and> list_all (\<lambda>l. 0 < tl_price_offset_pct l \<and> 0 < tl_close_pct l \<and> tl_status l = ''pending'') (pc_tp_levels p)
    \<and> (pc_tp_mode p \<noteq> ''multi'' \<longrightarrow> pc_tp_levels p = [])
    \<and> (pc_tp_mode p = ''multi'' \<longrightarrow> pc_tp_levels p \<noteq> []
          \<and> close_pct_complete (sum_list (map tl_close_pct (pc_tp_levels p))))"
  proof cases
    case 1
    with assms show ?thesis
      by (auto simp: build_position_context_def plain_position_context_def default_context_def)
  next
    case (2 q r)
    with assms ladder validated_profile [OF 2(2)] show ?thesis
      by (auto simp: build_position_context_def plain_position_context_def Let_def split: sum.splits)
  qed
  then show "pc_side p = runtime_position_side (ps_trend s)"
    "list_all (\<lambda>l. 0 < tl_price_offset_pct l \<and> 0 < tl_close_pct l \<and> tl_status l = ''pending'') (pc_tp_levels p)"
    "pc_tp_mode p \<noteq> ''multi'' \<Longrightarrow> pc_tp_levels p = []"
    "pc_tp_mode p = ''multi'' \<Longrightarrow> pc_tp_levels p \<noteq> []
           \<and> close_pct_complete (sum_list (map tl_close_pct (pc_tp_levels p)))" by auto
qed

lemma refresh_level_close [simp]: "tl_close_pct (refresh_level e d l) = tl_close_pct l"
  by (simp add: refresh_level_def tp_level_from_offset_def)

text \<open>C33: An opened position starts with its stop on the losing side and its targets on the winning
  side. For a signal with a direction and percentages above zero (the stop below one hundred), the
  context that is built and then re-priced at the fill has the filled quantity, a stop strictly
  between zero and the entry (LONG) or above it (SHORT), a take profit and every ladder level
  strictly beyond the entry, and a ladder whose shares are positive and add up to the whole
  position within the validator's tolerance.\<close>

theorem opened_position_priced_safely:
  assumes "ps_trend s = ''LONG'' \<or> ps_trend s = ''SHORT''" and "0 < entry"
    and "0 < cf_sl_pct cfg" and "cf_sl_pct cfg < 100" and "0 < cf_tp_pct cfg"
    and "build_position_context rp coerce cfg s ex mkt qty tp sl atr shift = Inr p"
    and "p' = refresh_runtime_prices_after_fill t cfg (ps_trend s) entry filled p"
  shows "pc_original_quantity p' = filled \<and> pc_current_quantity p' = filled \<and> pc_entry_price p' = entry
    \<and> 0 < pc_current_sl_price p' \<and> 0 < direction (ps_trend s) * (entry - pc_current_sl_price p')
    \<and> (\<exists>x. resolve_runtime_tp_price p' = Some x \<and> 0 < direction (ps_trend s) * (x - entry))
    \<and> list_all (\<lambda>l. 0 < direction (ps_trend s) * (tl_trigger_price l - entry) \<and> 0 < tl_close_pct l) (pc_tp_levels p')
    \<and> (pc_tp_mode p' = ''multi'' \<longrightarrow> pc_tp_levels p' \<noteq> []
          \<and> close_pct_complete (sum_list (map tl_close_pct (pc_tp_levels p'))))"
proof -
  note b = built_ladder [OF assms(6)]
  let ?r = "refresh_level entry (pc_side p)"
  have lvl: "0 < direction (ps_trend s) * (tl_trigger_price (?r l) - entry) \<and> 0 < tl_close_pct (?r l)"
    if "l \<in> set (pc_tp_levels p)" for l
    using b(1,2) that trigger_on_profit_side [OF assms(2) _ assms(1)]
    by (auto simp: refresh_level_def tp_level_from_offset_def list_all_iff)
  have sgl: "0 < direction (ps_trend s) * (fst (calculate_tp_sl_for_entry_price entry (ps_trend s) cfg) - entry)"
    "0 < direction (ps_trend s) * (entry - snd (calculate_tp_sl_for_entry_price entry (ps_trend s) cfg))"
    "0 < snd (calculate_tp_sl_for_entry_price entry (ps_trend s) cfg)"
    using assms(1-5) by (auto simp: calculate_tp_sl_for_entry_price_def direction_def field_simps Let_def
        intro: add_pos_pos)
  show ?thesis
  proof (cases "pc_tp_mode p = ''multi''")
    case True
    with b(4) obtain l ls where "pc_tp_levels p = l # ls" by (cases "pc_tp_levels p") auto
    with True b(4) lvl sgl show ?thesis
      by (simp add: assms(7) refresh_runtime_prices_after_fill_def resolve_runtime_tp_price_def
          split_beta list_all_iff comp_def)
  next
    case False
    with b(3) sgl show ?thesis
      by (simp add: assms(7) refresh_runtime_prices_after_fill_def resolve_runtime_tp_price_def split_beta)
  qed
qed

definition stop_pending :: "(pyval \<Rightarrow> string) \<Rightarrow> order_task \<Rightarrow> queue_state \<Rightarrow> bool" where
  "stop_pending rp t q = (queue_wf q \<and> dict_inj (qs_pending q)
     \<and> (\<exists>b. dict_get (qs_pending q) (key_of rp t) = Some b \<and> ot_params (qs_store q b) = ot_params t))"

lemma sl_tp_keys_differ:
  assumes "ot_action s = ''place_sl''" and "ot_action t = ''place_tp''" and "ot_position_id t = ot_position_id s"
  shows "key_of rp t \<noteq> key_of rp s"
  using assms by (auto simp: task_key_def Let_def)

lemma stop_pending_enqueue:
  assumes "stop_pending rp s q" and "ot_action s = ''place_sl''" and "ot_action t = ''place_tp''"
    and "ot_position_id t = ot_position_id s"
  shows "stop_pending rp s (enqueue rp q t)"
  using assms enqueue_keeps_other [of q "key_of rp s" _ rp t] sl_tp_keys_differ [OF assms(2-4)]
  by (auto simp: stop_pending_def enqueue_wf enqueue_inj)

lemma place_tp_ident [simp]: "ot_action (place_tp_task env p i l) = ''place_tp''"
  "ot_position_id (place_tp_task env p i l) = pc_position_id p"
  by (simp_all add: place_tp_task_def)

lemma stop_pending_levels:
  assumes "stop_pending rp s q" and "ot_action s = ''place_sl''" and "pc_position_id p = ot_position_id s"
  shows "stop_pending rp s (place_levels rp env p i ls q)"
  using assms
  by (induction rp env p i ls q rule: place_levels.induct)
    (simp_all add: stop_pending_enqueue)

lemma stop_pending_own:
  assumes "queue_wf q" and "dict_inj (qs_pending q)" and "ot_action s = ''place_sl''"
  shows "stop_pending rp s (enqueue rp q s)"
  using assms enqueue_own_key [of s rp q] by (auto simp: stop_pending_def enqueue_wf enqueue_inj)

lemma protect_profit_frame:
  "protect_profit env opened p q = (p', q') \<Longrightarrow>
     pc_sl_exchange_order_id p' = pc_sl_exchange_order_id p \<and> pc_position_id p' = pc_position_id p"
  by (auto simp: protect_profit_def initialize_tp_levels_def split: if_splits option.splits list.splits)

text \<open>A filled entry gets its stop, whatever fails afterwards. Once the account's queue is reached, the
  position either carries the stop the exchange attached to the entry, or a stop-loss task for
  exactly its quantity and stop price is pending in the queue, and the placement of the take
  profits leaves that task alone; this holds even when persisting, scheduling or tracking fails.\<close>

theorem filled_entry_gets_stop:
  assumes "queue_reachable (ee_repr env) q" and "ee_use_adapter env" and "ee_queue_error env = None"
    and "initialize_position_runtime env opened p q = (err, p', q')"
  shows "(\<exists>xid. er_attached_sl opened = Some xid \<and> pc_sl_exchange_order_id p' = Some xid)
    \<or> (\<exists>b. dict_get (qs_pending q') (key_of (ee_repr env) (runtime_sl_task env p)) = Some b
         \<and> ot_params (qs_store q' b) = ot_params (runtime_sl_task env p))"
proof (cases "er_attached_sl opened")
  case (Some xid)
  with assms(2-4) show ?thesis
    using protect_profit_frame [of env opened "p\<lparr>pc_sl_exchange_order_id := Some xid\<rparr>" q p' q']
    by (auto simp: initialize_position_runtime_def protect_stop_def split: prod.splits)
next
  case None
  let ?s = "runtime_sl_task env p"
  let ?q = "enqueue (ee_repr env) q ?s"
  have a: "ot_action ?s = ''place_sl''" "ot_position_id ?s = pc_position_id p"
    by (simp_all add: runtime_sl_task_def)
  have "stop_pending (ee_repr env) ?s ?q"
    using stop_pending_own [OF reachable_wf [OF assms(1)] reachable_inj [OF assms(1)] a(1)] .
  then have "stop_pending (ee_repr env) ?s (snd (protect_profit env opened p ?q))"
    using a stop_pending_levels [of "ee_repr env" ?s ?q p]
      stop_pending_enqueue [of "ee_repr env" ?s ?q "runtime_tp_task env p tp" for tp]
    by (auto simp: protect_profit_def initialize_tp_levels_def runtime_tp_task_def
        split: option.splits list.splits)
  moreover have "q' = snd (protect_profit env opened p ?q)"
    using assms(2-4) None by (auto simp: initialize_position_runtime_def protect_stop_def split: prod.splits)
  ultimately show ?thesis by (simp add: stop_pending_def)
qed

end
