(* ===== verification/Signal_Queue.thy ===== *)
theory Signal_Queue
  imports Auto_Entry
begin

text \<open>
  The signal half of \<^verbatim>\<open>app/services/auto_trade/service.py\<close>: the queue of analysis results, and what one
  result does to the position of a configuration. The session's tables are the record \<open>trade_db\<close>: an
  exception does not roll back what was changed before it, so every step returns its error beside
  the tables. Answers of the exchange and of settings are the record \<open>signal_env\<close>, one per processed
  queue item. Events are kept as type and level; tables the code only queries through an aggregate
  (today's result, the health of a strategy) are answers too. Constraints of the database schema are
  not modelled, except the unique key of the signal queue.
\<close>

section \<open>Tables and answers\<close>

record signal_state =
  ss_last_processed_history_id :: int
  ss_last_trend :: "string option"
  ss_opposite_streak :: int
  ss_last_signal_confidence_pct :: "real option"
  ss_last_signal_at :: "string option"

definition new_signal_state :: signal_state where
  "new_signal_state =
     \<lparr>ss_last_processed_history_id = 0, ss_last_trend = None, ss_opposite_streak = 0,
      ss_last_signal_confidence_pct = None, ss_last_signal_at = None\<rparr>"

record queue_item =
  qi_id :: int
  qi_user_id :: int
  qi_config_id :: int
  qi_profile_id :: int
  qi_history_id :: int
  qi_status :: string
  qi_attempt :: int
  qi_max_attempts :: int
  qi_next_retry_at :: real
  qi_locked_at :: "real option"
  qi_processed_at :: "real option"
  qi_last_error :: "string option"

record analysis_profile =
  an_user_id :: int
  an_symbol :: string

record futures_position =
  fp_side :: string
  fp_contracts :: real
  fp_entry_price :: "real option"
  fp_mark_price :: "real option"
  fp_leverage :: "real option"
  fp_take_profit_price :: "real option"
  fp_stop_loss_price :: "real option"
  fp_raw :: pydict

record order_note =
  on_order_id :: string
  on_client_order_id :: string
  on_source :: string
  on_position_id :: int

record trade_db =
  td_configs :: "int \<rightharpoonup> auto_config"
  td_risk :: "int \<rightharpoonup> risk_config"
  td_states :: "int \<rightharpoonup> signal_state"
  td_positions :: "auto_position list"
  td_next_position :: int
  td_histories :: "(int \<times> history_row) list"
  td_profiles :: "int \<rightharpoonup> analysis_profile"
  td_items :: "queue_item list"
  td_events :: "(string \<times> string) list"
  td_notes :: "order_note list"
  td_calls :: "trade_call list"
  td_order_queue :: queue_state

record signal_env =
  se_entry :: entry_env
  se_from_iso :: "string \<Rightarrow> string option"
  se_locked :: bool
  se_position :: "trade_error + futures_position option"
  se_confirm :: "nat \<Rightarrow> trade_error + futures_position option"
  se_demo :: "int \<Rightarrow> bool"
  se_exchange_name :: "int \<Rightarrow> string"
  se_close :: "trade_error + normalized_order"
  se_today_pnl :: real
  se_balance :: "real option"
  se_freshness_block :: bool
  se_freshness_minutes :: int
  se_health :: strategy_health

definition emit_event :: "string \<Rightarrow> string \<Rightarrow> trade_db \<Rightarrow> trade_db" where
  "emit_event event level db = db\<lparr>td_events := td_events db @ [(event, level)]\<rparr>"

definition put_state :: "int \<Rightarrow> signal_state \<Rightarrow> trade_db \<Rightarrow> trade_db" where
  "put_state cid s db = db\<lparr>td_states := (td_states db)(cid \<mapsto> s)\<rparr>"

definition get_state :: "int \<Rightarrow> trade_db \<Rightarrow> signal_state" where
  "get_state cid db = (case td_states db cid of None \<Rightarrow> new_signal_state | Some s \<Rightarrow> s)"

text \<open>What most refusals do to the state: the trend is noted and the streak starts again.\<close>

definition note_trend :: "int \<Rightarrow> string \<Rightarrow> trade_db \<Rightarrow> trade_db" where
  "note_trend cid trend db =
     put_state cid ((get_state cid db)\<lparr>ss_last_trend := Some trend, ss_opposite_streak := 0\<rparr>) db"

definition upd_row :: "int \<Rightarrow> (auto_position \<Rightarrow> auto_position) \<Rightarrow> trade_db \<Rightarrow> trade_db" where
  "upd_row pid f db =
     db\<lparr>td_positions := map (\<lambda>p. if ap_id p = pid then f p else p) (td_positions db)\<rparr>"

definition get_row :: "trade_db \<Rightarrow> int \<Rightarrow> auto_position option" where
  "get_row db pid = find (\<lambda>p. ap_id p = pid) (td_positions db)"

definition record_call :: "trade_call \<Rightarrow> trade_db \<Rightarrow> trade_db" where
  "record_call c db = db\<lparr>td_calls := td_calls db @ [c]\<rparr>"

definition record_order_metadata :: "string \<Rightarrow> string \<Rightarrow> string \<Rightarrow> int \<Rightarrow> trade_db \<Rightarrow> trade_db" where
  "record_order_metadata oid coid source pid db =
     db\<lparr>td_notes := td_notes db @ [\<lparr>on_order_id = oid, on_client_order_id = coid, on_source = source,
                                    on_position_id = pid\<rparr>]\<rparr>"

section \<open>Agreeing with the exchange\<close>

definition is_position_closed_on_exchange :: "futures_position option \<Rightarrow> bool" where
  "is_position_closed_on_exchange f =
     (case f of None \<Rightarrow> True | Some p \<Rightarrow> fp_contracts p \<le> position_epsilon)"

definition positive_or_none :: "real option \<Rightarrow> real option" where
  "positive_or_none v = (case v of None \<Rightarrow> None | Some x \<Rightarrow> if x \<le> 0 then None else Some x)"

definition or_else :: "real option \<Rightarrow> real option \<Rightarrow> real option" where
  "or_else a b = (case a of None \<Rightarrow> b | Some x \<Rightarrow> Some x)"

definition price_close :: "real \<Rightarrow> real \<Rightarrow> bool" where
  "price_close a b = (\<bar>a - b\<bar> \<le> position_epsilon)"

definition settle_price :: "real \<Rightarrow> real \<Rightarrow> real" where
  "settle_price old new = (if price_close old new then old else new)"

definition normalize_legacy_closed_position :: "auto_position \<Rightarrow> auto_position" where
  "normalize_legacy_closed_position row =
     (if ap_status row = ''closed'' \<and> ap_close_reason row = Some ''already_closed_on_exchange''
         \<and> ap_close_order_id row = None
         \<and> (case ap_close_price row of None \<Rightarrow> False | Some x \<Rightarrow> price_close x (ap_entry_price row))
      then row\<lparr>ap_close_price := None\<rparr> else row)"

definition close_row :: "real \<Rightarrow> string \<Rightarrow> int option \<Rightarrow> auto_position \<Rightarrow> auto_position" where
  "close_row now reason history row =
     row\<lparr>ap_status := ''closed'', ap_state := ''closed'', ap_closed_at := Some now,
         ap_close_reason := Some reason, ap_close_history_id := history, ap_current_quantity := Some 0\<rparr>"

definition open_state_names :: "string list" where
  "open_state_names = [''pending'', ''entering'', ''open'', ''adjusting'', ''closing'', ''reconnecting'', ''error_recovery'']"

definition live_side :: "futures_position \<Rightarrow> string" where
  "live_side f = (if fp_side f = ''long'' then ''LONG'' else ''SHORT'')"

definition resolved_entry_price :: "futures_position \<Rightarrow> real option" where
  "resolved_entry_price f = or_else (positive_or_none (fp_entry_price f)) (positive_or_none (fp_mark_price f))"

definition resolved_leverage :: "auto_config \<Rightarrow> futures_position \<Rightarrow> int" where
  "resolved_leverage cfg f =
     (case positive_or_none (fp_leverage f) of None \<Rightarrow> cf_leverage cfg | Some l \<Rightarrow> max 1 (round_half_even l))"

text \<open>The row made for a position that only the exchange knows.\<close>

definition adopted_row :: "real \<Rightarrow> auto_config \<Rightarrow> string \<Rightarrow> int option \<Rightarrow> int \<Rightarrow> futures_position \<Rightarrow> real \<Rightarrow> auto_position" where
  "adopted_row now cfg symbol history pid f entry =
     (let size = entry * fp_contracts f;
          pick = (\<lambda>v. case positive_or_none v of None \<Rightarrow> entry | Some x \<Rightarrow> x)
      in \<lparr>ap_id = pid, ap_user_id = cf_user_id cfg, ap_config_id = cf_id cfg,
          ap_profile_id = cf_profile_id cfg, ap_account_id = cf_account_id cfg, ap_symbol = symbol,
          ap_side = live_side f, ap_status = ''open'', ap_state = ''open'', ap_entry_price = entry,
          ap_quantity = fp_contracts f,
          ap_position_size_usdt = (if size \<le> position_epsilon then max (cf_position_size_usdt cfg) 1 else size),
          ap_leverage = resolved_leverage cfg f, ap_tp_price = pick (fp_take_profit_price f),
          ap_sl_price = pick (fp_stop_loss_price f), ap_entry_confidence_pct = 0, ap_opened_at = now,
          ap_closed_at = None, ap_close_reason = None, ap_close_price = None, ap_open_order_id = None,
          ap_close_order_id = None, ap_open_history_id = history, ap_close_history_id = None,
          ap_decision_event_id = None, ap_raw_open_order = fp_raw f, ap_raw_close_order = [],
          ap_original_quantity = Some (fp_contracts f), ap_current_quantity = Some (fp_contracts f),
          ap_sl_exchange_order_id = None, ap_sl_type = None, ap_tp_mode = None, ap_json = [],
          ap_last_adjusted_at = None\<rparr>)"

text \<open>The row of a position both know takes over what the exchange reports.\<close>

definition sync_row :: "auto_config \<Rightarrow> string \<Rightarrow> futures_position \<Rightarrow> auto_position \<Rightarrow> auto_position" where
  "sync_row cfg symbol f row =
     (let entry = (case resolved_entry_price f of None \<Rightarrow> ap_entry_price row
                     | Some e \<Rightarrow> settle_price (ap_entry_price row) e);
          target = (\<lambda>live old. let t = (case positive_or_none live of None \<Rightarrow> old | Some x \<Rightarrow> x)
                               in settle_price old (if t \<le> position_epsilon then entry else t))
      in row\<lparr>ap_symbol := symbol, ap_account_id := cf_account_id cfg, ap_config_id := cf_id cfg,
             ap_profile_id := cf_profile_id cfg, ap_side := live_side f,
             ap_state := (if ap_state row \<in> set open_state_names then ap_state row else ''open''),
             ap_quantity := settle_price (ap_quantity row) (fp_contracts f),
             ap_current_quantity := Some (fp_contracts f),
             ap_original_quantity := (case ap_original_quantity row of None \<Rightarrow> Some (fp_contracts f) | Some x \<Rightarrow> Some x),
             ap_entry_price := entry, ap_leverage := resolved_leverage cfg f,
             ap_tp_price := target (fp_take_profit_price f) (ap_tp_price row),
             ap_sl_price := target (fp_stop_loss_price f) (ap_sl_price row),
             ap_raw_open_order := (if fp_raw f \<noteq> [] then fp_raw f else ap_raw_open_order row)\<rparr>)"

definition dedup_row :: "real \<Rightarrow> int option \<Rightarrow> auto_position \<Rightarrow> auto_position" where
  "dedup_row now history row =
     normalize_legacy_closed_position
       ((close_row now ''deduplicated_on_exchange_sync'' history row)\<lparr>ap_close_price := None\<rparr>)"

definition missing_row :: "real \<Rightarrow> int option \<Rightarrow> real option \<Rightarrow> auto_position \<Rightarrow> auto_position" where
  "missing_row now history mark row =
     (let r = normalize_legacy_closed_position (close_row now ''already_closed_on_exchange'' history row)
      in case mark of None \<Rightarrow> r | Some m \<Rightarrow> r\<lparr>ap_close_price := Some m\<rparr>)"

text \<open>Open rows of the account, the newest first. Rows are appended with increasing ids.\<close>

definition open_rows_of :: "auto_config \<Rightarrow> trade_db \<Rightarrow> auto_position list" where
  "open_rows_of cfg db =
     rev (filter (\<lambda>p. ap_user_id p = cf_user_id cfg \<and> ap_account_id p = cf_account_id cfg \<and> ap_status p = ''open'')
            (td_positions db))"

definition sync_open_position_with_exchange ::
    "signal_env \<Rightarrow> auto_config \<Rightarrow> string \<Rightarrow> int option \<Rightarrow> bool \<Rightarrow> bool \<Rightarrow> trade_db
      \<Rightarrow> (trade_error + (int option \<times> bool \<times> futures_position option)) \<times> trade_db" where
  "sync_open_position_with_exchange env cfg symbol history emit close_missing db =
     (let rows = open_rows_of cfg db; now = ee_now (se_entry env) in
      case se_position env of
        Inl e \<Rightarrow> (Inl e, db)
      | Inr live \<Rightarrow>
      case (live, rows) of
        (None, []) \<Rightarrow> (Inr (None, False, live), db)
      | (Some f, []) \<Rightarrow>
          if is_position_closed_on_exchange live then (Inr (None, False, live), db)
          else (case resolved_entry_price f of
                  None \<Rightarrow>
                    (Inr (None, False, live),
                     if emit then emit_event ''position_sync_skipped_missing_entry_price'' ''warning'' db else db)
                | Some entry \<Rightarrow>
                    (let pid = td_next_position db;
                         db1 = db\<lparr>td_positions := td_positions db @ [adopted_row now cfg symbol history pid f entry],
                                  td_next_position := pid + 1\<rparr>
                     in (Inr (Some pid, True, live),
                         if emit then emit_event ''position_synced_open_from_exchange'' ''info'' db1 else db1)))
      | (_, row # dups) \<Rightarrow>
          if is_position_closed_on_exchange live then
            (if \<not> close_missing then (Inr (Some (ap_id row), False, live), db)
             else (Inr (None, True, live),
                   fold (\<lambda>r. upd_row (ap_id r)
                           (missing_row now history (case live of None \<Rightarrow> None | Some f \<Rightarrow> positive_or_none (fp_mark_price f))))
                     rows db))
          else (case live of
                  None \<Rightarrow> (Inr (Some (ap_id row), False, live), db)
                | Some f \<Rightarrow>
                    (Inr (Some (ap_id row), sync_row cfg symbol f row \<noteq> row \<or> dups \<noteq> [], live),
                     fold (\<lambda>r. upd_row (ap_id r) (dedup_row now history)) dups
                       (upd_row (ap_id row) (sync_row cfg symbol f) db))))"

section \<open>A signal without an open position\<close>

text \<open>The gate before an entry: refused with its events, and with the trend noted in the state or
  not, or admitted with the trend snapshot of the overlay.\<close>

datatype gate_outcome =
    Refuse "(string \<times> string) list" bool
  | Admit "(string \<times> string) list" "trend_snapshot option"

definition overlay_needed :: "overlay_config \<Rightarrow> bool" where
  "overlay_needed ov =
     (ov_enabled ov \<and> (ov_entry_side_lock_enabled ov \<or> ov_atr_scaling_enabled ov \<or> ov_rsi_scaling_enabled ov))"

definition should_block_stale_entry :: "real option \<Rightarrow> real \<Rightarrow> int \<Rightarrow> bool \<Rightarrow> bool" where
  "should_block_stale_entry reference now threshold enabled =
     (enabled \<and> \<not> is_fresh reference (of_int threshold) now)"

definition history_reference :: "history_row \<Rightarrow> real" where
  "history_reference h = (case hr_core_completed_at h of Some t \<Rightarrow> t | None \<Rightarrow> hr_created_at h)"

definition intended_side :: "string \<Rightarrow> string" where
  "intended_side trend = (if trend = ''LONG'' then ''long'' else ''short'')"

definition risk_row :: "auto_position \<Rightarrow> position_row" where
  "risk_row p =
     \<lparr>pr_user_id = ap_user_id p, pr_status = ap_status p, pr_symbol = ap_symbol p, pr_side = ap_side p,
      pr_position_size_usdt = ap_position_size_usdt p\<rparr>"

definition evaluate_pre_trade_risk ::
    "signal_env \<Rightarrow> auto_config \<Rightarrow> parsed_signal \<Rightarrow> string \<Rightarrow> trade_db \<Rightarrow> risk_decision" where
  "evaluate_pre_trade_risk env cfg s symbol db =
     (let rc = td_risk db (cf_id cfg);
          pnl = (case rc of
                   Some r \<Rightarrow> if rc_enabled r \<and> (rc_daily_loss_limit_usdt r \<noteq> None \<or> rc_daily_loss_limit_pct r \<noteq> None)
                             then se_today_pnl env else 0
                 | None \<Rightarrow> 0);
          balance = (case rc of
                       Some r \<Rightarrow> if rc_enabled r \<and> rc_daily_loss_limit_pct r \<noteq> None \<and> pnl < 0
                                 then se_balance env else None
                     | None \<Rightarrow> None)
      in check_pre_trade (map risk_row (td_positions db))
           \<lparr>tc_user_id = cf_user_id cfg, tc_leverage = cf_leverage cfg,
            tc_position_size_usdt = cf_position_size_usdt cfg\<rparr>
           rc (ps_trend s) symbol pnl balance)"

definition resolve_overlay :: "signal_env \<Rightarrow> auto_config \<Rightarrow> history_row \<Rightarrow> trade_db \<Rightarrow> trend_snapshot option" where
  "resolve_overlay env cfg h db =
     (if overlay_needed (cf_overlay cfg)
      then resolve_ai_trend (map snd (td_histories db)) (ee_now (se_entry env)) (cf_user_id cfg) (hr_symbol h)
             (ov_stale_max_minutes (cf_overlay cfg)) (Some (cf_profile_id cfg))
      else None)"

text \<open>The checks in the order of the source, from the lifecycle stage to the position size.\<close>

definition entry_gate ::
    "signal_env \<Rightarrow> auto_config \<Rightarrow> parsed_signal \<Rightarrow> history_row \<Rightarrow> string \<Rightarrow> trade_db \<Rightarrow> gate_outcome" where
  "entry_gate env cfg s h symbol db =
     (if cf_lifecycle_stage cfg \<noteq> ''live'' \<and> \<not> se_demo env (cf_account_id cfg)
      then Refuse [(''signal_skipped_non_live'', ''info'')] False
      else if ps_trend s = ''NEUTRAL'' then Refuse [(''signal_neutral_no_action'', ''info'')] True
      else if 0 < cf_min_confidence_pct cfg \<and> cf_min_confidence_pct cfg < 1
      then Refuse [(''config_min_confidence_pct_looks_like_fraction'', ''error'')] True
      else if ps_confidence_pct s < cf_min_confidence_pct cfg
      then Refuse [(''signal_below_min_confidence'', ''info'')] True
      else if should_block_stale_entry (Some (history_reference h)) (ee_now (se_entry env))
                (se_freshness_minutes env) (se_freshness_block env)
      then Refuse [(''data_stale_blocked'', ''warning'')] False
      else
        let ov = cf_overlay cfg; snapshot = resolve_overlay env cfg h db;
            stale = (if overlay_needed ov \<and> snapshot = None then [(''ai_overlay_stale_fallback'', ''info'')] else []);
            blocked = (case snapshot of
                         None \<Rightarrow> False
                       | Some sn \<Rightarrow> ov_enabled ov \<and> ov_entry_side_lock_enabled ov
                                     \<and> fst (should_block_entry (intended_side (ps_trend s)) sn ov));
            risk = evaluate_pre_trade_risk env cfg s symbol db
        in if blocked then Refuse (stale @ [(''ai_overlay_block_entry'', ''info'')]) True
           else if \<not> rd_allowed risk then Refuse (stale @ [(''risk_blocked'', ''warning'')]) True
           else
             let warned = stale @ (case rd_warning risk of
                                     None \<Rightarrow> [] | Some w \<Rightarrow> if w = [] then [] else [(''risk_check_degraded'', ''warning'')])
             in if cf_position_size_usdt cfg / ps_price_current s \<le> 0
                then Refuse (warned @ [(''signal_invalid_position_size'', ''error'')]) False
                else Admit warned snapshot)"

text \<open>The influence of the overlay on the parameters of the position, computed once at the entry.\<close>

definition overlay_atr_override ::
    "signal_env \<Rightarrow> auto_config \<Rightarrow> string \<Rightarrow> trend_snapshot option \<Rightarrow> real option" where
  "overlay_atr_override env cfg trend snapshot =
     (case snapshot of
        None \<Rightarrow> None
      | Some sn \<Rightarrow>
          if ov_enabled (cf_overlay cfg) \<and> ov_atr_scaling_enabled (cf_overlay cfg) then
            (let (scaled, d) = scale_atr_multiplier (resolve_base_atr_multiplier (ee_coerce (se_entry env)) cfg) sn
                                 (cf_overlay cfg) (intended_side trend)
             in if od_changed d then Some scaled else None)
          else None)"

definition overlay_rsi_shift :: "auto_config \<Rightarrow> trend_snapshot option \<Rightarrow> int option" where
  "overlay_rsi_shift cfg snapshot =
     (case snapshot of
        None \<Rightarrow> None
      | Some sn \<Rightarrow>
          if ov_enabled (cf_overlay cfg) \<and> ov_rsi_scaling_enabled (cf_overlay cfg) then
            (let (lo, hi, d) = scale_rsi_thresholds 30 70 sn (cf_overlay cfg)
             in if od_changed d then Some (lo - 30) else None)
          else None)"

definition overlay_events :: "real option \<Rightarrow> int option \<Rightarrow> (string \<times> string) list" where
  "overlay_events atr shift =
     (case atr of None \<Rightarrow> [] | Some a \<Rightarrow> [(''ai_overlay_atr_scaled'', ''info'')])
     @ (case shift of None \<Rightarrow> [] | Some n \<Rightarrow> [(''ai_overlay_rsi_scaled'', ''info'')])"

definition entry_transition ::
    "entry_env \<Rightarrow> transition_trigger \<Rightarrow> string \<Rightarrow> pydict \<Rightarrow> position_context \<Rightarrow> trade_error + position_context" where
  "entry_transition env trigger reason metadata p =
     (case transition (pc_machine p)
             \<lparr>tc_trigger = trigger, tc_reason = reason, tc_metadata = Some metadata,
              tc_now = ee_iso env (ee_now env)\<rparr> of
        Inl e \<Rightarrow> Inl (OtherError ''Invalid position transition'')
      | Inr m \<Rightarrow> Inr (p\<lparr>pc_machine := m, pc_state := pm_state m\<rparr>))"

fun first_nonzero :: "real option list \<Rightarrow> real \<Rightarrow> real" where
  "first_nonzero [] dflt = dflt"
| "first_nonzero (None # xs) dflt = first_nonzero xs dflt"
| "first_nonzero (Some x # xs) dflt = (if x \<noteq> 0 then x else first_nonzero xs dflt)"

definition entry_side :: "string \<Rightarrow> order_side" where
  "entry_side trend = (if trend = ''LONG'' then BUY else SELL)"

section \<open>Opening the position\<close>

definition history_meta :: "int \<Rightarrow> string \<Rightarrow> pydict" where
  "history_meta hid coid = [(''history_id'', VInt hid), (''client_order_id'', VStr coid)]"

definition fill_meta :: "entry_result \<Rightarrow> real \<Rightarrow> pydict" where
  "fill_meta opened filled =
     [(''exchange_order_id'', VStr (er_exchange_order_id opened)), (''filled_quantity'', VFloat filled)]"

definition opened_row ::
    "signal_env \<Rightarrow> auto_config \<Rightarrow> parsed_signal \<Rightarrow> int \<Rightarrow> string \<Rightarrow> trend_snapshot option \<Rightarrow> entry_result \<Rightarrow> real \<Rightarrow> real
      \<Rightarrow> real \<Rightarrow> int \<Rightarrow> position_context \<Rightarrow> auto_position" where
  "opened_row env cfg s hid symbol snapshot opened entry_price filled tp_price pid p =
     \<lparr>ap_id = pid, ap_user_id = cf_user_id cfg, ap_config_id = cf_id cfg,
      ap_profile_id = cf_profile_id cfg, ap_account_id = cf_account_id cfg, ap_symbol = symbol,
      ap_side = ps_trend s, ap_status = ''open'', ap_state = ''pending'', ap_entry_price = entry_price,
      ap_quantity = filled, ap_position_size_usdt = cf_position_size_usdt cfg,
      ap_leverage = cf_leverage cfg, ap_tp_price = first_nonzero [resolve_runtime_tp_price p] tp_price,
      ap_sl_price = pc_current_sl_price p, ap_entry_confidence_pct = ps_confidence_pct s,
      ap_opened_at = (case parse_optional_datetime (ee_fromiso (se_entry env)) (Some (pc_opened_at p)) of
                        None \<Rightarrow> ee_now (se_entry env) | Some t \<Rightarrow> t),
      ap_closed_at = None, ap_close_reason = None, ap_close_price = None,
      ap_open_order_id = Some (er_exchange_order_id opened), ap_close_order_id = None,
      ap_open_history_id = Some hid, ap_close_history_id = None,
      ap_decision_event_id = (case snapshot of None \<Rightarrow> None | Some sn \<Rightarrow> ts_decision_event_id sn),
      ap_raw_open_order = er_raw opened, ap_raw_close_order = [], ap_original_quantity = None,
      ap_current_quantity = None, ap_sl_exchange_order_id = None, ap_sl_type = None,
      ap_tp_mode = None, ap_json = [], ap_last_adjusted_at = None\<rparr>"

text \<open>From the filled entry on: re-pricing, the row, protection, and the emergency close when the
  protection could not be set up and no stop is known.\<close>

definition settle_entry ::
    "signal_env \<Rightarrow> auto_config \<Rightarrow> parsed_signal \<Rightarrow> int \<Rightarrow> string \<Rightarrow> trend_snapshot option \<Rightarrow> real \<Rightarrow> real
      \<Rightarrow> entry_result \<Rightarrow> position_context \<Rightarrow> trade_db \<Rightarrow> trade_error option \<times> trade_db" where
  "settle_entry env cfg s hid symbol snapshot quantity tp_price opened p db =
     (let ee = se_entry env; now = ee_now ee; trend = ps_trend s;
          entry_price = first_nonzero [er_average_price opened, er_price opened, Some (pc_entry_price p)] (ps_price_current s);
          filled = (if er_filled_quantity opened > position_epsilon then er_filled_quantity opened else quantity);
          p1 = refresh_runtime_prices_after_fill (ee_iso ee now) cfg trend entry_price filled p
      in case entry_transition ee ENTRY_FILLED ''Auto-trade entry filled'' (fill_meta opened filled) p1 of
           Inl e \<Rightarrow> (Some e, db)
         | Inr p2 \<Rightarrow>
             (let pid = td_next_position db;
                  row = opened_row env cfg s hid symbol snapshot opened entry_price filled tp_price pid p2;
                  p3 = p2\<lparr>pc_position_id := show_int pid,
                          pc_machine := (pc_machine p2)\<lparr>pm_position_id := show_int pid\<rparr>\<rparr>;
                  db1 = record_order_metadata (er_exchange_order_id opened) (er_client_order_id opened)
                          ''auto_trade_open'' pid
                          (db\<lparr>td_positions := td_positions db @ [merge_position_context_into_row (ee_fromiso ee) now p3 row],
                             td_next_position := pid + 1\<rparr>);
                  (err, p4, q) = initialize_position_runtime ee opened p3 (td_order_queue db1);
                  db2 = db1\<lparr>td_order_queue := q\<rparr>;
                  unprotected = (er_attached_sl opened = None
                                 \<and> (case pc_sl_exchange_order_id p4 of None \<Rightarrow> True | Some x \<Rightarrow> x = []))
              in if err \<noteq> None \<and> unprotected
                 then (None, emit_event ''position_emergency_closed_unprotected'' ''error''
                               (upd_row pid (unprotected_close_row now hid)
                                 (record_call (unprotected_close_call ee p4 filled) db2)))
                 else (None,
                       (case err of None \<Rightarrow> id | Some e \<Rightarrow> emit_event ''position_runtime_integration_warning'' ''warning'')
                         (emit_event ''position_opened'' ''info'' (note_trend (cf_id cfg) trend db2)))))"

definition open_position ::
    "signal_env \<Rightarrow> auto_config \<Rightarrow> parsed_signal \<Rightarrow> int \<Rightarrow> string \<Rightarrow> trend_snapshot option \<Rightarrow> trade_db
      \<Rightarrow> trade_error option \<times> trade_db" where
  "open_position env cfg s hid symbol snapshot db =
     (let ee = se_entry env; trend = ps_trend s;
          quantity = cf_position_size_usdt cfg / ps_price_current s;
          (tp_price, sl_price) = calculate_tp_sl s cfg;
          coid = at_client_order_id ''at-open'' (cf_user_id cfg) (cf_id cfg) hid;
          atr = overlay_atr_override env cfg trend snapshot;
          shift = overlay_rsi_shift cfg snapshot;
          db1 = fold (\<lambda>(e, l). emit_event e l) (overlay_events atr shift) db
      in case build_position_context (ee_repr ee) (ee_coerce ee) cfg s (se_exchange_name env (cf_account_id cfg))
                symbol quantity tp_price sl_price atr (case shift of None \<Rightarrow> 0 | Some n \<Rightarrow> n) of
           Inl e \<Rightarrow> (Some (OtherError ''position context rejected''), db1)
         | Inr p \<Rightarrow>
         case entry_transition ee ENTRY_SUBMITTED ''Auto-trade entry submitted'' (history_meta hid coid) p of
           Inl e \<Rightarrow> (Some e, db1)
         | Inr p1 \<Rightarrow>
             (let db2 = record_call (SetLeverage symbol (cf_leverage cfg)) db1 in
              case ee_leverage_error ee of
                Some e \<Rightarrow> (Some e, db2)
              | None \<Rightarrow>
                  (let (calls, answer) = place_entry_order ee p1 (entry_side trend) quantity coid (Some tp_price) (Some sl_price);
                       db3 = fold record_call calls db2
                   in case answer of
                        Inl e \<Rightarrow> (Some e, db3)
                      | Inr opened \<Rightarrow> settle_entry env cfg s hid symbol snapshot quantity tp_price opened p1 db3)))"

definition process_without_open_position ::
    "signal_env \<Rightarrow> auto_config \<Rightarrow> parsed_signal \<Rightarrow> int \<Rightarrow> history_row \<Rightarrow> string \<Rightarrow> trade_db \<Rightarrow> trade_error option \<times> trade_db" where
  "process_without_open_position env cfg s hid h symbol db =
     (case entry_gate env cfg s h symbol db of
        Refuse events noted \<Rightarrow>
          (None, fold (\<lambda>(e, l). emit_event e l) events
                   (if noted then note_trend (cf_id cfg) (ps_trend s) db else db))
      | Admit events snapshot \<Rightarrow>
          open_position env cfg s hid symbol snapshot (fold (\<lambda>(e, l). emit_event e l) events db))"

section \<open>A signal with an open position\<close>

definition level_triggered :: "pyval \<Rightarrow> bool" where
  "level_triggered v = (case v of VDict d \<Rightarrow> get_none d ''status'' = VStr ''triggered'' | _ \<Rightarrow> False)"

definition triggered_tp_levels :: "auto_position \<Rightarrow> nat list" where
  "triggered_tp_levels row =
     (case get_none (ap_json row) ''tp_levels_json'' of
        VList ls \<Rightarrow> map fst (filter (\<lambda>(i, l). level_triggered l) (enumerate 1 ls))
      | _ \<Rightarrow> [])"

definition multi_tp_ladder_engaged :: "auto_position \<Rightarrow> bool" where
  "multi_tp_ladder_engaged row = (ap_tp_mode row = Some ''multi'' \<and> triggered_tp_levels row \<noteq> [])"

definition position_close_confirm_attempts :: nat where
  "position_close_confirm_attempts = 3"

fun confirm_from :: "(nat \<Rightarrow> trade_error + futures_position option) \<Rightarrow> nat \<Rightarrow> nat \<Rightarrow> trade_error + bool \<times> futures_position option" where
  "confirm_from answer attempt 0 = Inr (False, None)"
| "confirm_from answer attempt (Suc left) =
     (case answer attempt of
        Inl e \<Rightarrow> Inl e
      | Inr latest \<Rightarrow>
          if is_position_closed_on_exchange latest then Inr (True, latest)
          else if left = 0 then Inr (False, latest)
          else confirm_from answer (attempt + 1) left)"

definition confirm_position_closed :: "signal_env \<Rightarrow> trade_error + bool \<times> futures_position option" where
  "confirm_position_closed env = confirm_from (se_confirm env) 1 position_close_confirm_attempts"

text \<open>\<open>_auto_pause_strategy\<close>, \<open>apply_kpi_guard\<close> and the fast path after a close. The payload of the
  events is dropped.\<close>

definition auto_pause_strategy :: "real \<Rightarrow> int \<Rightarrow> string \<Rightarrow> trade_db \<Rightarrow> trade_db" where
  "auto_pause_strategy now cid trigger db =
     (case td_configs db cid of
        None \<Rightarrow> db
      | Some cfg \<Rightarrow>
          if \<not> cf_is_running cfg then db
          else emit_event ''strategy_auto_paused'' ''warning''
                 (emit_event trigger ''warning''
                   (db\<lparr>td_configs := (td_configs db)(cid \<mapsto> cfg\<lparr>cf_is_running := False, cf_last_stopped_at := Some now\<rparr>)\<rparr>)))"

definition guard_loss_inputs :: "signal_env \<Rightarrow> risk_config option \<Rightarrow> bool \<Rightarrow> real \<times> real option" where
  "guard_loss_inputs env rc has_config =
     (case rc of
        None \<Rightarrow> (0, None)
      | Some r \<Rightarrow>
          if \<not> has_config \<or> \<not> rc_kpi_guard_enabled r
             \<or> (rc_kpi_guard_max_daily_loss_usdt r = None \<and> rc_kpi_guard_max_daily_loss_pct r = None)
          then (0, None)
          else (se_today_pnl env,
                if rc_kpi_guard_max_daily_loss_pct r \<noteq> None \<and> se_today_pnl env < 0 then se_balance env else None))"

definition apply_kpi_guard :: "signal_env \<Rightarrow> int \<Rightarrow> trade_db \<Rightarrow> trade_db" where
  "apply_kpi_guard env cid db =
     (let rc = td_risk db cid; has_config = (td_configs db cid \<noteq> None);
          (pnl, balance) = guard_loss_inputs env rc has_config;
          d = evaluate_kpi_guard (se_health env) rc pnl balance;
          warned = (case gd_warning d of None \<Rightarrow> False | Some w \<Rightarrow> w \<noteq> []) \<and> has_config;
          db1 = (if warned then emit_event ''risk_check_degraded'' ''warning'' db else db)
      in if gd_should_pause d then auto_pause_strategy (ee_now (se_entry env)) cid ''kpi_guard_triggered'' db1 else db1)"

definition maybe_auto_pause_after_close :: "signal_env \<Rightarrow> int \<Rightarrow> trade_db \<Rightarrow> trade_db" where
  "maybe_auto_pause_after_close env cid db =
     (case (td_configs db cid, td_risk db cid) of
        (Some cfg, Some rc) \<Rightarrow>
          if cf_is_running cfg \<and> rc_kpi_guard_enabled rc then apply_kpi_guard env cid db else db
      | _ \<Rightarrow> db)"

definition closed_by_signal_row ::
    "real \<Rightarrow> string \<Rightarrow> int \<Rightarrow> real \<Rightarrow> normalized_order \<Rightarrow> auto_position \<Rightarrow> auto_position" where
  "closed_by_signal_row now reason hid price ord row =
     (close_row now reason (Some hid) row)\<lparr>ap_close_price := Some price, ap_close_order_id := Some (no_id ord),
        ap_raw_close_order := no_raw ord\<rparr>"

text \<open>The market close on an opposite trend, after the decision to close. The streak was stored
  before, so it stays when the close raises.\<close>

definition close_on_opposite ::
    "signal_env \<Rightarrow> auto_config \<Rightarrow> parsed_signal \<Rightarrow> int \<Rightarrow> auto_position \<Rightarrow> futures_position option \<Rightarrow> string \<Rightarrow> trade_db
      \<Rightarrow> trade_error option \<times> trade_db" where
  "close_on_opposite env cfg s hid row live reason db =
     (case live of
        None \<Rightarrow> (Some (ServiceError ''Exchange position snapshot missing for open position.'' True), db)
      | Some f \<Rightarrow>
          if fp_contracts f \<le> position_epsilon
          then (Some (ServiceError ''Exchange returned non-positive contracts for open position.'' True), db)
          else
            let side = (if ap_side row = ''LONG'' then SELL else BUY);
                coid = at_client_order_id ''at-close'' (cf_user_id cfg) (cf_id cfg) hid;
                db1 = record_call (CloseReduceOnly (ap_symbol row) side (fp_contracts f) coid) db
            in case se_close env of
                 Inl e \<Rightarrow> (Some e, db1)
               | Inr ord \<Rightarrow>
               case confirm_position_closed env of
                 Inl e \<Rightarrow> (Some e, db1)
               | Inr (False, residual) \<Rightarrow>
                   (Some (ServiceError ''Close order submitted but exchange still reports open contracts.'' True), db1)
               | Inr (True, residual) \<Rightarrow>
                   (let price = first_nonzero [no_average ord, no_price ord] (ps_price_current s);
                        db2 = upd_row (ap_id row) (closed_by_signal_row (ee_now (se_entry env)) reason hid price ord) db1;
                        db3 = record_order_metadata (no_id ord) (case no_client_order_id ord of None \<Rightarrow> [] | Some c \<Rightarrow> c)
                                ''auto_trade_close'' (ap_id row) db2;
                        db4 = emit_event ''position_closed_on_opposite_trend'' ''info'' (note_trend (cf_id cfg) (ps_trend s) db3)
                    in (None, maybe_auto_pause_after_close env (cf_id cfg) db4)))"

definition mark_already_closed :: "real \<Rightarrow> int \<Rightarrow> futures_position option \<Rightarrow> auto_position \<Rightarrow> auto_position" where
  "mark_already_closed now hid live row =
     (close_row now ''already_closed_on_exchange'' (Some hid) row)\<lparr>
        ap_close_price := (case live of None \<Rightarrow> None | Some f \<Rightarrow> fp_mark_price f)\<rparr>"

definition process_with_open_position ::
    "signal_env \<Rightarrow> auto_config \<Rightarrow> parsed_signal \<Rightarrow> int \<Rightarrow> auto_position \<Rightarrow> futures_position option \<Rightarrow> trade_db
      \<Rightarrow> trade_error option \<times> trade_db" where
  "process_with_open_position env cfg s hid row live db =
     (let cid = cf_id cfg; trend = ps_trend s; st = get_state cid db in
      if is_position_closed_on_exchange live
      then (None, emit_event ''position_marked_closed_from_exchange_state'' ''warning''
                    (note_trend cid trend (upd_row (ap_id row) (mark_already_closed (ee_now (se_entry env)) hid live) db)))
      else if trend = ''NEUTRAL''
      then (None, emit_event ''open_position_neutral_hold'' ''info'' (note_trend cid trend db))
      else if trend = ap_side row
      then (None, emit_event ''open_position_same_trend_hold'' ''info'' (note_trend cid trend db))
      else if multi_tp_ladder_engaged row
      then (None, emit_event ''opposite_signal_ignored_multi_tp_engaged'' ''info'' (note_trend cid trend db))
      else if ps_confidence_pct s \<ge> cf_fast_close_confidence_pct cfg
      then close_on_opposite env cfg s hid row live ''opposite_fast_confidence'' db
      else
        let streak = ss_opposite_streak st + 1;
            db1 = put_state cid (st\<lparr>ss_opposite_streak := streak\<rparr>) db
        in if streak \<ge> cf_confirm_reports_required cfg
           then close_on_opposite env cfg s hid row live ''opposite_confirmed'' db1
           else (None, put_state cid (st\<lparr>ss_opposite_streak := streak, ss_last_trend := Some trend\<rparr>)
                         (emit_event ''open_position_opposite_waiting_confirmation'' ''info'' db1)))"

section \<open>One item of the queue\<close>

definition mark_completed :: "real \<Rightarrow> queue_item \<Rightarrow> queue_item" where
  "mark_completed now i =
     i\<lparr>qi_status := ''completed'', qi_processed_at := Some now, qi_locked_at := None, qi_last_error := None\<rparr>"

definition mark_dead :: "real \<Rightarrow> string \<Rightarrow> queue_item \<Rightarrow> queue_item" where
  "mark_dead now err i =
     i\<lparr>qi_status := ''dead'', qi_last_error := Some err, qi_processed_at := Some now, qi_locked_at := None\<rparr>"

definition mark_retry_or_dead :: "real \<Rightarrow> real \<Rightarrow> string \<Rightarrow> bool \<Rightarrow> queue_item \<Rightarrow> bool \<times> queue_item" where
  "mark_retry_or_dead interval now err retryable i =
     (let i1 = i\<lparr>qi_last_error := Some err, qi_locked_at := None\<rparr> in
      if retryable \<and> qi_attempt i < qi_max_attempts i
      then (True, i1\<lparr>qi_status := ''pending'',
                     qi_next_retry_at := now + interval * of_int (max (qi_attempt i) 1)\<rparr>)
      else (False, i1\<lparr>qi_status := ''dead'', qi_processed_at := Some now\<rparr>))"

text \<open>The part of the state every consumed signal leaves behind.\<close>

definition note_processed :: "int \<Rightarrow> int \<Rightarrow> string \<Rightarrow> real option \<Rightarrow> trade_db \<Rightarrow> trade_db" where
  "note_processed cid hid signal_at confidence db =
     (let st = get_state cid db in
      put_state cid (st\<lparr>ss_last_processed_history_id := max (ss_last_processed_history_id st) hid,
                        ss_last_signal_at := Some signal_at,
                        ss_last_signal_confidence_pct := confidence\<rparr>) db)"

definition history_signal ::
    "signal_env \<Rightarrow> history_row \<Rightarrow> py_error + parsed_signal" where
  "history_signal env h =
     parse_auto_trade_signal (se_from_iso env)
       (adapt_legacy_analysis_structured_payload
          (case hr_analysis_data h of None \<Rightarrow> [] | Some d \<Rightarrow> d) (Some (hr_symbol h))
          (map_option (ee_iso (se_entry env)) (hr_core_completed_at h))
          (Some (ee_iso (se_entry env) (hr_created_at h))))"

text \<open>The signal meets the position of its configuration: synchronise, then open, hold or close.\<close>

definition act_on_signal ::
    "signal_env \<Rightarrow> auto_config \<Rightarrow> parsed_signal \<Rightarrow> int \<Rightarrow> history_row \<Rightarrow> string \<Rightarrow> trade_db \<Rightarrow> trade_error option \<times> trade_db" where
  "act_on_signal env cfg s hid h symbol db =
     (case sync_open_position_with_exchange env cfg symbol (Some hid) True False db of
        (Inl e, db1) \<Rightarrow> (Some e, db1)
      | (Inr (pid, changed, live), db1) \<Rightarrow>
          (case (case pid of None \<Rightarrow> None | Some i \<Rightarrow> get_row db1 i) of
             None \<Rightarrow> process_without_open_position env cfg s hid h symbol db1
           | Some row \<Rightarrow> process_with_open_position env cfg s hid row live db1))"

datatype item_outcome = Skipped | Completed | Dead

text \<open>\<open>_process_queue_item\<close>: an error leaves the item as it was, otherwise it is completed or dead.\<close>

definition process_queue_item ::
    "signal_env \<Rightarrow> real \<Rightarrow> queue_item \<Rightarrow> trade_db \<Rightarrow> (trade_error + item_outcome) \<times> queue_item \<times> trade_db" where
  "process_queue_item env now item db =
     (let cid = qi_config_id item; hid = qi_history_id item;
          done = mark_completed now item;
          skip = (\<lambda>event level d. (Inr Skipped, done, emit_event event level d)) in
      if se_locked env \<and> td_configs db cid \<noteq> None
      then (Inl (ServiceError ''Auto-trade config is currently locked by another worker.'' True), item, db)
      else case td_configs db cid of
        None \<Rightarrow> (Inr Dead, mark_dead now ''Auto-trade config not found.'' item, db)
      | Some cfg \<Rightarrow>
          if cf_id cfg \<noteq> cid then skip ''signal_skipped_stale_config'' ''warning'' db
          else if \<not> cf_enabled cfg \<or> \<not> cf_is_running cfg then skip ''signal_skipped_config_inactive'' ''info'' db
          else if cf_profile_id cfg \<noteq> qi_profile_id item then skip ''signal_skipped_profile_mismatch'' ''warning'' db
          else case dict_get (td_histories db) hid of
            None \<Rightarrow> (Inr Dead, mark_dead now ''Personal analysis history not found.'' item,
                     emit_event ''signal_dead_history_not_found'' ''error'' db)
          | Some h \<Rightarrow>
              let db0 = put_state cid (get_state cid db) db in
              if hid \<le> ss_last_processed_history_id (get_state cid db0)
              then skip ''signal_skipped_duplicate_history'' ''info'' db0
              else case history_signal env h of
                Inl e \<Rightarrow> skip ''signal_skipped_invalid_payload'' ''warning''
                           (note_processed cid hid (ee_iso (se_entry env) (history_reference h)) None db0)
              | Inr s \<Rightarrow>
                  (case (case td_profiles db (cf_profile_id cfg) of
                           None \<Rightarrow> None | Some a \<Rightarrow> if an_user_id a = cf_user_id cfg then Some a else None) of
                     None \<Rightarrow> skip ''signal_skipped_profile_not_found'' ''error'' db0
                   | Some a \<Rightarrow>
                   let noted = note_processed cid hid (ps_generated_at s) (Some (ps_confidence_pct s)) in
                   case symbol_market_key (ps_symbol s) of
                     Inl e \<Rightarrow> skip ''signal_skipped_invalid_payload'' ''warning'' (noted db0)
                   | Inr signal_key \<Rightarrow>
                   (case (symbol_market_key (an_symbol a), to_linear_perp_symbol (an_symbol a)) of
                      (Inr profile_key, Inr symbol) \<Rightarrow>
                        if signal_key \<noteq> profile_key
                        then skip ''signal_skipped_symbol_mismatch'' ''warning'' (noted db0)
                        else (case act_on_signal env cfg s hid h symbol db0 of
                                (Some e, db1) \<Rightarrow> (Inl e, item, db1)
                              | (None, db1) \<Rightarrow> (Inr Completed, done, noted db1))
                    | _ \<Rightarrow> skip ''signal_skipped_invalid_profile_symbol'' ''error'' db0)))"

section \<open>The queue of signals\<close>

record queue_stats =
  st_polled :: nat
  st_completed :: nat
  st_skipped :: nat
  st_retried :: nat
  st_dead :: nat
  st_errors :: nat

definition no_stats :: queue_stats where
  "no_stats = \<lparr>st_polled = 0, st_completed = 0, st_skipped = 0, st_retried = 0, st_dead = 0, st_errors = 0\<rparr>"

record queue_settings =
  qt_batch_size :: nat
  qt_max_attempts :: int
  qt_retry_interval :: real
  qt_loop_enabled :: bool

definition lock_item :: "real \<Rightarrow> queue_item \<Rightarrow> queue_item" where
  "lock_item now i = i\<lparr>qi_status := ''processing'', qi_locked_at := Some now, qi_attempt := qi_attempt i + 1\<rparr>"

fun retryable_error :: "trade_error \<Rightarrow> bool" where
  "retryable_error (ServiceError m r) = r"
| "retryable_error (OtherError m) = False"

fun error_event :: "trade_error \<Rightarrow> string" where
  "error_event (ServiceError m r) = ''signal_process_error''"
| "error_event (OtherError m) = ''signal_process_unexpected_error''"

definition run_item ::
    "queue_settings \<Rightarrow> real \<Rightarrow> signal_env \<Rightarrow> nat \<Rightarrow> queue_stats \<times> trade_db \<Rightarrow> queue_stats \<times> trade_db" where
  "run_item sets now env k sd =
     (let (stats, db) = sd;
          (result, item, db1) = process_queue_item env now (lock_item now (td_items db ! k)) db
      in case result of
           Inr outcome \<Rightarrow>
             (case outcome of
                Skipped \<Rightarrow> stats\<lparr>st_skipped := st_skipped stats + 1\<rparr>
              | Completed \<Rightarrow> stats\<lparr>st_completed := st_completed stats + 1\<rparr>
              | Dead \<Rightarrow> stats\<lparr>st_dead := st_dead stats + 1\<rparr>,
              db1\<lparr>td_items := (td_items db1)[k := item]\<rparr>)
         | Inl e \<Rightarrow>
             (let (retried, item1) = mark_retry_or_dead (qt_retry_interval sets) now (error_text e) (retryable_error e) item;
                  stats1 = (if retried then stats\<lparr>st_retried := st_retried stats + 1\<rparr>
                            else stats\<lparr>st_dead := st_dead stats + 1\<rparr>)
              in (stats1\<lparr>st_errors := st_errors stats1 + 1\<rparr>,
                  emit_event (error_event e) ''error'' (db1\<lparr>td_items := (td_items db1)[k := item1]\<rparr>))))"

definition item_due :: "real \<Rightarrow> queue_item \<Rightarrow> bool" where
  "item_due now i = (qi_status i = ''pending'' \<and> qi_next_retry_at i \<le> now)"

text \<open>The positions in the table of the next batch: due items by retry time and id.\<close>

definition poll_batch :: "queue_settings \<Rightarrow> real \<Rightarrow> trade_db \<Rightarrow> nat list" where
  "poll_batch sets now db =
     take (qt_batch_size sets)
       (List.sort_key (\<lambda>k. qi_next_retry_at (td_items db ! k))
          (List.sort_key (\<lambda>k. qi_id (td_items db ! k))
             (filter (\<lambda>k. item_due now (td_items db ! k)) [0..<length (td_items db)])))"

text \<open>Which answers the n-th processed item gets is the argument \<open>envs\<close>.\<close>

fun run_batch ::
    "queue_settings \<Rightarrow> real \<Rightarrow> (nat \<Rightarrow> signal_env) \<Rightarrow> nat list \<Rightarrow> nat \<Rightarrow> queue_stats \<times> trade_db \<Rightarrow> queue_stats \<times> trade_db" where
  "run_batch sets now envs [] n sd = sd"
| "run_batch sets now envs (k # ks) n sd =
     run_batch sets now envs ks (n + 1) (run_item sets now (envs n) k sd)"

section \<open>The queue table\<close>

lemma emit_event_frame [simp]: "td_items (emit_event e l db) = td_items db"
  "td_positions (emit_event e l db) = td_positions db" "td_calls (emit_event e l db) = td_calls db"
  "td_states (emit_event e l db) = td_states db" "td_configs (emit_event e l db) = td_configs db"
  "get_state c (emit_event e l db) = get_state c db"
  by (simp_all add: emit_event_def get_state_def)

lemma fold_emit_db_frame [simp]: "td_items (fold (\<lambda>(e, l). emit_event e l) es db) = td_items db"
  "td_positions (fold (\<lambda>(e, l). emit_event e l) es db) = td_positions db"
  "td_calls (fold (\<lambda>(e, l). emit_event e l) es db) = td_calls db"
  "td_states (fold (\<lambda>(e, l). emit_event e l) es db) = td_states db"
  by (induction es arbitrary: db) auto

lemma put_state_frame [simp]: "td_items (put_state c s db) = td_items db"
  "td_positions (put_state c s db) = td_positions db" "td_calls (put_state c s db) = td_calls db"
  "td_states (put_state c s db) = (td_states db)(c \<mapsto> s)" "td_configs (put_state c s db) = td_configs db"
  by (simp_all add: put_state_def)

lemma get_put_state [simp]: "get_state c (put_state c' s db) = (if c = c' then s else get_state c db)"
  by (simp add: get_state_def put_state_def)

lemma note_trend_frame [simp]: "td_items (note_trend c t db) = td_items db"
  "td_positions (note_trend c t db) = td_positions db" "td_calls (note_trend c t db) = td_calls db"
  "td_configs (note_trend c t db) = td_configs db"
  by (simp_all add: note_trend_def)

lemma upd_row_frame [simp]: "td_items (upd_row i f db) = td_items db"
  "td_calls (upd_row i f db) = td_calls db" "td_states (upd_row i f db) = td_states db"
  "td_configs (upd_row i f db) = td_configs db" "get_state c (upd_row i f db) = get_state c db"
  by (simp_all add: upd_row_def get_state_def)

lemma fold_upd_row_frame [simp]: "td_items (fold (\<lambda>r. upd_row (ap_id r) f) rs db) = td_items db"
  "td_calls (fold (\<lambda>r. upd_row (ap_id r) f) rs db) = td_calls db"
  "td_states (fold (\<lambda>r. upd_row (ap_id r) f) rs db) = td_states db"
  by (induction rs arbitrary: db) auto

lemma record_call_frame [simp]: "td_items (record_call c db) = td_items db"
  "td_calls (record_call c db) = td_calls db @ [c]" "td_positions (record_call c db) = td_positions db"
  "td_states (record_call c db) = td_states db" "get_state i (record_call c db) = get_state i db"
  by (simp_all add: record_call_def get_state_def)

lemma fold_record_call_frame [simp]: "td_items (fold record_call cs db) = td_items db"
  "td_calls (fold record_call cs db) = td_calls db @ cs" "td_states (fold record_call cs db) = td_states db"
  by (induction cs arbitrary: db) auto

lemma record_meta_frame [simp]: "td_items (record_order_metadata o' c s i db) = td_items db"
  "td_calls (record_order_metadata o' c s i db) = td_calls db"
  "td_states (record_order_metadata o' c s i db) = td_states db"
  "td_order_queue (record_order_metadata o' c s i db) = td_order_queue db"
  by (simp_all add: record_order_metadata_def)

lemma pause_frame [simp]: "td_items (maybe_auto_pause_after_close env c db) = td_items db"
  "td_calls (maybe_auto_pause_after_close env c db) = td_calls db"
  "td_states (maybe_auto_pause_after_close env c db) = td_states db"
  "td_positions (maybe_auto_pause_after_close env c db) = td_positions db"
  by (simp_all add: maybe_auto_pause_after_close_def apply_kpi_guard_def auto_pause_strategy_def Let_def
      split: option.splits prod.splits)

lemma sync_frame:
  assumes "sync_open_position_with_exchange env cfg symbol h emit cm db = (r, db')"
  shows "td_items db' = td_items db" and "td_calls db' = td_calls db" and "td_states db' = td_states db"
  using assms
  by (auto simp: sync_open_position_with_exchange_def Let_def split: sum.splits option.splits list.splits if_splits)

lemma settle_entry_items:
  "settle_entry env cfg s hid symbol sn q tp opened p db = (r, db') \<Longrightarrow> td_items db' = td_items db"
  by (auto simp: settle_entry_def Let_def split: sum.splits prod.splits if_splits option.splits)

lemma open_position_items:
  "open_position env cfg s hid symbol sn db = (r, db') \<Longrightarrow> td_items db' = td_items db"
  by (auto simp: open_position_def Let_def dest!: settle_entry_items split: sum.splits prod.splits option.splits)

lemma close_on_opposite_items:
  "close_on_opposite env cfg s hid row live reason db = (r, db') \<Longrightarrow> td_items db' = td_items db"
  by (auto simp: close_on_opposite_def Let_def split: sum.splits prod.splits if_splits option.splits bool.splits)

lemma act_on_signal_items:
  "act_on_signal env cfg s hid h symbol db = (r, db') \<Longrightarrow> td_items db' = td_items db"
  by (auto simp: act_on_signal_def process_without_open_position_def process_with_open_position_def Let_def
      dest!: sync_frame(1) open_position_items close_on_opposite_items
      split: sum.splits prod.splits option.splits gate_outcome.splits if_splits)

lemma process_item_outcome:
  assumes "process_queue_item env now item db = (r, item', db')"
  shows "td_items db' = td_items db"
    and "case r of Inl e \<Rightarrow> item' = item | Inr o' \<Rightarrow> qi_status item' = ''completed'' \<or> qi_status item' = ''dead''"
  using assms
  by (auto simp: process_queue_item_def Let_def mark_completed_def mark_dead_def note_processed_def
      dest!: act_on_signal_items split: sum.splits prod.splits option.splits if_splits)

text \<open>Work left in the table: how often each pending item can still be taken.\<close>

definition item_work :: "queue_item \<Rightarrow> nat" where
  "item_work i = (if qi_status i = ''pending'' then nat (qi_max_attempts i - qi_attempt i) + 1 else 0)"

definition queue_work :: "trade_db \<Rightarrow> nat" where
  "queue_work db = sum_list (map item_work (td_items db))"

lemma run_item_items:
  assumes "run_item sets now env k (stats, db) = (stats', db')"
  shows "\<exists>i. td_items db' = (td_items db)[k := i]
    \<and> (qi_status i = ''completed'' \<or> qi_status i = ''dead''
       \<or> qi_status i = ''pending'' \<and> qi_attempt i = qi_attempt (td_items db ! k) + 1
          \<and> qi_attempt i < qi_max_attempts i \<and> qi_max_attempts i = qi_max_attempts (td_items db ! k)
          \<and> qi_next_retry_at i = now + qt_retry_interval sets * of_int (max (qi_attempt i) 1))"
proof -
  obtain r item db1 where p: "process_queue_item env now (lock_item now (td_items db ! k)) db = (r, item, db1)"
    by (metis prod_cases3)
  note o = process_item_outcome [OF p]
  show ?thesis
    using assms p o
    by (auto simp: run_item_def Let_def mark_retry_or_dead_def lock_item_def split: sum.splits if_splits)
qed

lemma sum_list_update_less:
  fixes f :: "'a \<Rightarrow> nat"
  assumes "k < length xs" and "f x < f (xs ! k)"
  shows "sum_list (map f (xs[k := x])) < sum_list (map f xs)"
  using assms
proof (induction xs arbitrary: k)
  case (Cons a xs)
  then show ?case by (cases k) auto
qed simp

lemma run_item_work:
  assumes "run_item sets now env k (stats, db) = (stats', db')" and "k < length (td_items db)"
    and "qi_status (td_items db ! k) = ''pending''"
  shows "queue_work db' < queue_work db"
proof -
  obtain i where i: "td_items db' = (td_items db)[k := i]"
    "qi_status i = ''completed'' \<or> qi_status i = ''dead''
       \<or> qi_status i = ''pending'' \<and> qi_attempt i = qi_attempt (td_items db ! k) + 1
          \<and> qi_attempt i < qi_max_attempts i \<and> qi_max_attempts i = qi_max_attempts (td_items db ! k)"
    using run_item_items [OF assms(1)] by blast
  have "item_work i < item_work (td_items db ! k)"
    using i(2) assms(3) by (auto simp: item_work_def)
  then show ?thesis
    using sum_list_update_less [OF assms(2), of item_work i] i(1) by (simp add: queue_work_def)
qed

lemma poll_batch_props:
  "set (poll_batch sets now db) \<subseteq> {k. k < length (td_items db) \<and> item_due now (td_items db ! k)}"
  "distinct (poll_batch sets now db)"
  by (auto simp: poll_batch_def dest: in_set_takeD)

text \<open>Processing a batch of pending items leaves less work, and no other item changes.\<close>

lemma run_batch_work:
  assumes "run_batch sets now envs ks n (stats, db) = (stats', db')" and "distinct ks"
    and "\<forall>k \<in> set ks. k < length (td_items db) \<and> qi_status (td_items db ! k) = ''pending''"
  shows "queue_work db' + length ks \<le> queue_work db \<and> length (td_items db') = length (td_items db)"
  using assms
proof (induction ks arbitrary: n stats db)
  case Nil
  then show ?case by simp
next
  case (Cons k ks)
  obtain stats1 db1 where r: "run_item sets now (envs n) k (stats, db) = (stats1, db1)"
    by (meson surj_pair)
  from run_item_items [OF r] obtain i where i: "td_items db1 = (td_items db)[k := i]" by blast
  have "run_batch sets now envs ks (Suc n) (stats1, db1) = (stats', db')"
    using Cons.prems(1) r by simp
  moreover have "\<forall>j \<in> set ks. j < length (td_items db1) \<and> qi_status (td_items db1 ! j) = ''pending''"
    using Cons.prems(2,3) i by (auto simp: nth_list_update)
  ultimately have "queue_work db' + length ks \<le> queue_work db1 \<and> length (td_items db') = length (td_items db1)"
    using Cons.IH Cons.prems(2) by simp
  moreover have "queue_work db1 < queue_work db"
    using run_item_work [OF r] Cons.prems(3) by simp
  ultimately show ?case using i by simp
qed

text \<open>\<open>while True\<close> over the batches.\<close>

function process_batches ::
    "queue_settings \<Rightarrow> real \<Rightarrow> (nat \<Rightarrow> signal_env) \<Rightarrow> nat \<Rightarrow> queue_stats \<times> trade_db \<Rightarrow> queue_stats \<times> trade_db" where
  "process_batches sets now envs n sd =
     (let batch = poll_batch sets now (snd sd) in
      if batch = [] then sd
      else
        let sd' = run_batch sets now envs batch n
                    ((fst sd)\<lparr>st_polled := st_polled (fst sd) + length batch\<rparr>, snd sd)
        in if length batch < qt_batch_size sets then sd'
           else process_batches sets now envs (n + length batch) sd')"
  by pat_completeness auto

termination
proof (relation "measure (\<lambda>(sets, now, envs, n, sd). queue_work (snd sd))", goal_cases)
  case 1
  show ?case by simp
next
  case (2 sets now envs n sd batch sd')
  obtain stats' db' where r: "sd' = (stats', db')" by fastforce
  have "queue_work db' + length batch \<le> queue_work (snd sd)"
    using run_batch_work [of sets now envs batch n _ "snd sd" stats' db'] 2 r poll_batch_props [of sets now "snd sd"]
    by (auto simp: item_due_def)
  moreover have "0 < length batch" using 2(2) by simp
  ultimately have "queue_work db' < queue_work (snd sd)" by linarith
  then show ?case using r by simp
qed

declare process_batches.simps [simp del]

definition process_signal_queue ::
    "queue_settings \<Rightarrow> real \<Rightarrow> (nat \<Rightarrow> signal_env) \<Rightarrow> trade_db \<Rightarrow> queue_stats \<times> trade_db" where
  "process_signal_queue sets now envs db =
     (if \<not> qt_loop_enabled sets then (no_stats, db) else process_batches sets now envs 0 (no_stats, db))"

text \<open>A new analysis is queued once for every running configuration of its profile; a second row for
  the same analysis and configuration violates the unique key and is dropped.\<close>

definition new_queue_item :: "queue_settings \<Rightarrow> real \<Rightarrow> int \<Rightarrow> int \<Rightarrow> int \<Rightarrow> int \<Rightarrow> int \<Rightarrow> queue_item" where
  "new_queue_item sets now qid uid cid pid hid =
     \<lparr>qi_id = qid, qi_user_id = uid, qi_config_id = cid, qi_profile_id = pid, qi_history_id = hid,
      qi_status = ''pending'', qi_attempt = 0, qi_max_attempts = qt_max_attempts sets,
      qi_next_retry_at = now, qi_locked_at = None, qi_processed_at = None, qi_last_error = None\<rparr>"

fun enqueue_for_configs ::
    "queue_settings \<Rightarrow> real \<Rightarrow> int \<Rightarrow> history_row \<Rightarrow> int \<Rightarrow> auto_config list \<Rightarrow> bool \<times> trade_db \<Rightarrow> bool \<times> trade_db" where
  "enqueue_for_configs sets now hid h qid [] sd = sd"
| "enqueue_for_configs sets now hid h qid (cfg # cfgs) (any, db) =
     (if list_ex (\<lambda>i. qi_history_id i = hid \<and> qi_config_id i = cf_id cfg) (td_items db)
      then enqueue_for_configs sets now hid h (qid + 1) cfgs (any, db)
      else enqueue_for_configs sets now hid h (qid + 1) cfgs
             (True, emit_event ''signal_enqueued'' ''info''
                (db\<lparr>td_items := td_items db @ [new_queue_item sets now qid (hr_user_id h) (cf_id cfg) (hr_profile_id h) hid]\<rparr>)))"

definition enqueue_history_signal ::
    "queue_settings \<Rightarrow> real \<Rightarrow> int \<Rightarrow> history_row \<Rightarrow> int \<Rightarrow> auto_config list \<Rightarrow> trade_db \<Rightarrow> bool \<times> trade_db" where
  "enqueue_history_signal sets now hid h qid configs db =
     enqueue_for_configs sets now hid h qid
       (filter (\<lambda>c. cf_user_id c = hr_user_id h \<and> cf_profile_id c = hr_profile_id h \<and> cf_enabled c \<and> cf_is_running c) configs)
       (False, db)"

section \<open>The pass over the queue\<close>

text \<open>The attempts of an item stay within its maximum, and a pending item has one left.\<close>

definition attempts_ok :: "queue_item \<Rightarrow> bool" where
  "attempts_ok i = (qi_attempt i \<le> qi_max_attempts i
     \<and> (qi_status i = ''pending'' \<longrightarrow> qi_attempt i < qi_max_attempts i))"

lemma run_item_settles:
  assumes "run_item sets now env k (stats, db) = (stats', db')" and "k < length (td_items db)"
    and "0 < qt_retry_interval sets" and "\<forall>i \<in> set (td_items db). attempts_ok i"
    and "item_due now (td_items db ! k)"
  shows "\<not> item_due now (td_items db' ! k)" and "\<forall>i \<in> set (td_items db'). attempts_ok i"
proof -
  obtain r item db1 where p: "process_queue_item env now (lock_item now (td_items db ! k)) db = (r, item, db1)"
    by (metis prod_cases3)
  note o = process_item_outcome [OF p]
  have ok: "attempts_ok (td_items db ! k)" using assms(2,4) by simp
  have ends: "qi_attempt item = qi_attempt (lock_item now (td_items db ! k))
      \<and> qi_max_attempts item = qi_max_attempts (lock_item now (td_items db ! k))"
    using p by (auto simp: process_queue_item_def Let_def mark_completed_def mark_dead_def
        split: sum.splits prod.splits option.splits if_splits)
  have pos: "now < now + qt_retry_interval sets * real_of_int (max a 1)" for a
    using assms(3) by (simp add: mult_pos_pos)
  obtain i where i: "td_items db' = (td_items db)[k := i]" "\<not> item_due now i" "attempts_ok i"
    using assms(1,5) p o ok ends pos
    by (auto simp: run_item_def Let_def mark_retry_or_dead_def lock_item_def item_due_def attempts_ok_def
        not_le split: sum.splits if_splits prod.splits)
  with assms(2,4) show "\<not> item_due now (td_items db' ! k)" "\<forall>i \<in> set (td_items db'). attempts_ok i"
    using set_update_subset_insert [of "td_items db" k i] by auto
qed

lemma run_batch_settles:
  assumes "run_batch sets now envs ks n (stats, db) = (stats', db')" and "distinct ks"
    and "\<forall>k \<in> set ks. k < length (td_items db) \<and> item_due now (td_items db ! k)"
    and "0 < qt_retry_interval sets" and "\<forall>i \<in> set (td_items db). attempts_ok i"
  shows "(\<forall>k < length (td_items db). item_due now (td_items db' ! k) \<longrightarrow> k \<notin> set ks \<and> item_due now (td_items db ! k))
    \<and> (\<forall>i \<in> set (td_items db'). attempts_ok i) \<and> length (td_items db') = length (td_items db)"
  using assms
proof (induction ks arbitrary: n stats db)
  case (Cons k ks)
  obtain stats1 db1 where r: "run_item sets now (envs n) k (stats, db) = (stats1, db1)"
    by (meson surj_pair)
  have k: "k < length (td_items db)" "item_due now (td_items db ! k)" using Cons.prems(3) by auto
  note st = run_item_settles [OF r k(1) Cons.prems(4,5) k(2)]
  from run_item_items [OF r] obtain i where i: "td_items db1 = (td_items db)[k := i]" by blast
  have step: "run_batch sets now envs ks (n + 1) (stats1, db1) = (stats', db')"
    using Cons.prems(1) r by simp
  have due: "\<forall>j \<in> set ks. j < length (td_items db1) \<and> item_due now (td_items db1 ! j)"
    using Cons.prems(2,3) i by (auto simp: nth_list_update)
  have IH: "(\<forall>j < length (td_items db1). item_due now (td_items db' ! j) \<longrightarrow> j \<notin> set ks \<and> item_due now (td_items db1 ! j))
      \<and> (\<forall>i \<in> set (td_items db'). attempts_ok i) \<and> length (td_items db') = length (td_items db1)"
    by (rule Cons.IH [OF step _ due Cons.prems(4) st(2)]) (use Cons.prems(2) in simp)
  have "j \<noteq> k \<and> item_due now (td_items db ! j)" if "j < length (td_items db)" "item_due now (td_items db1 ! j)" for j
    using that st(1) i k(1) by (cases "j = k") auto
  with IH i show ?case by auto
qed simp

lemma full_batch:
  assumes "length (poll_batch sets now db) < qt_batch_size sets"
  shows "set (poll_batch sets now db) = {k. k < length (td_items db) \<and> item_due now (td_items db ! k)}"
  using assms by (auto simp: poll_batch_def)


end
