(* ===== verification/Flatten.thy ===== *)
theory Flatten
  imports Signal_Queue SL_Rules
begin

text \<open>
  Closing positions on demand: \<^verbatim>\<open>close_open_positions\<close>, \<^verbatim>\<open>_flatten_single_position\<close> and the in-trade
  kill-switch of \<^verbatim>\<open>app/services/auto_trade/service.py\<close>. Whether an adapter can be made, what the
  exchange answers to a cancellation, a look-up and a market close are the record \<open>flatten_env\<close>.
  Every attempted cancellation and close is a call in \<open>td_calls\<close>; removing the position from the
  WebSocket manager and the texts of the events are left out.
\<close>

section \<open>One position\<close>

record flatten_env =
  fe_now :: real
  fe_repr :: "pyval \<Rightarrow> string"
  fe_adapter_error :: "int \<Rightarrow> string option"
  fe_cancelled :: "int \<Rightarrow> string \<Rightarrow> bool"
  fe_position :: "int \<Rightarrow> live_result"
  fe_close :: "int \<Rightarrow> string + real \<times> real"

datatype flatten_outcome =
    Flattened int string real "real option" "string list"
  | FlattenFailed int string string
  | AlreadyFlat int

text \<open>A quantity read with \<open>or\<close>: zero counts as missing.\<close>

definition row_quantity :: "auto_position \<Rightarrow> real" where
  "row_quantity row = first_nonzero [ap_current_quantity row, Some (ap_quantity row)] 0"

definition row_closing_side :: "auto_position \<Rightarrow> order_side" where
  "row_closing_side row = closing_side (if py_upper (ap_side row) = ''SHORT'' then SHORT else LONG)"

definition level_order_id :: "(pyval \<Rightarrow> string) \<Rightarrow> pyval \<Rightarrow> string option" where
  "level_order_id rp v =
     (case v of
        VDict d \<Rightarrow>
          if get_none d ''status'' = VStr ''triggered'' then None
          else if py_truth (get_none d ''exchange_order_id'')
          then Some (py_str rp (get_none d ''exchange_order_id'')) else None
      | _ \<Rightarrow> None)"

fun dedup_first :: "'a list \<Rightarrow> 'a list" where
  "dedup_first [] = []"
| "dedup_first (x # xs) = x # filter (\<lambda>y. y \<noteq> x) (dedup_first xs)"

definition row_levels :: "auto_position \<Rightarrow> pyval list" where
  "row_levels row = (case get_none (ap_json row) ''tp_levels_json'' of VList ls \<Rightarrow> ls | _ \<Rightarrow> [])"

definition iter_known_conditional_order_ids :: "(pyval \<Rightarrow> string) \<Rightarrow> auto_position \<Rightarrow> string list" where
  "iter_known_conditional_order_ids rp row =
     dedup_first
       ((case ap_sl_exchange_order_id row of None \<Rightarrow> [] | Some x \<Rightarrow> if x = [] then [] else [x])
        @ List.map_filter (level_order_id rp) (row_levels row))"

definition count_known_conditional_orders :: "auto_position \<Rightarrow> nat" where
  "count_known_conditional_orders row =
     (case ap_sl_exchange_order_id row of None \<Rightarrow> 0 | Some x \<Rightarrow> if x = [] then 0 else 1)
     + length (filter (\<lambda>v. case v of VDict d \<Rightarrow> py_truth (get_none d ''exchange_order_id'')
                                            \<and> get_none d ''status'' \<noteq> VStr ''triggered''
                                  | _ \<Rightarrow> False) (row_levels row))"

definition mark_position_closed :: "real \<Rightarrow> string \<Rightarrow> real option \<Rightarrow> auto_position \<Rightarrow> auto_position" where
  "mark_position_closed now reason price row =
     row\<lparr>ap_state := ''closed'', ap_status := ''closed'', ap_current_quantity := Some 0,
         ap_closed_at := Some now, ap_close_reason := Some reason,
         ap_close_price := (case price of None \<Rightarrow> ap_close_price row
                              | Some x \<Rightarrow> if x > 0 then Some x else ap_close_price row)\<rparr>"

definition close_reason_or :: "string option \<Rightarrow> string \<Rightarrow> string" where
  "close_reason_or reason dflt = (case reason of None \<Rightarrow> dflt | Some r \<Rightarrow> if r = [] then dflt else r)"

text \<open>What the look-up says: the size on the exchange, or the quantity of the row when it raised or
  returned nothing.\<close>

definition flatten_size :: "live_result \<Rightarrow> real \<Rightarrow> real" where
  "flatten_size live known = (case live of LiveSnapshot sz entry \<Rightarrow> \<bar>sz\<bar> | LiveUnknown \<Rightarrow> 0 | _ \<Rightarrow> known)"

definition flatten_single_position ::
    "flatten_env \<Rightarrow> string option \<Rightarrow> auto_position \<Rightarrow> trade_db \<Rightarrow> flatten_outcome \<times> trade_db" where
  "flatten_single_position env reason row db =
     (let pid = ap_id row; symbol = ap_symbol row in
      case fe_adapter_error env pid of
        Some e \<Rightarrow> (FlattenFailed pid symbol (''adapter_init_failed: '' @ e), db)
      | None \<Rightarrow>
          let ids = iter_known_conditional_order_ids (fe_repr env) row;
              cancelled = filter (fe_cancelled env pid) ids;
              db1 = fold record_call (map (CancelConditional symbol) ids) db;
              sz = flatten_size (fe_position env pid) (row_quantity row)
          in if sz \<le> position_epsilon
             then (AlreadyFlat pid,
                   emit_event ''position_manual_closed'' ''info''
                     (upd_row pid (mark_position_closed (fe_now env) (close_reason_or reason ''manual_close_already_flat'') None) db1))
             else
               let coid = build_position_runtime_order_id (fe_now env) (show_int pid) ''manual-close'';
                   db2 = record_call (PartialCloseMarket symbol (row_closing_side row) sz coid) db1
               in case fe_close env pid of
                    Inl e \<Rightarrow> (FlattenFailed pid symbol e, emit_event ''position_manual_close_failed'' ''error'' db2)
                  | Inr (executed, avg) \<Rightarrow>
                      let price = (if avg > 0 then Some avg else None)
                      in (Flattened pid symbol executed price cancelled,
                          emit_event ''position_manual_closed'' ''info''
                            (upd_row pid (mark_position_closed (fe_now env) (close_reason_or reason ''manual_close'') price) db2)))"

section \<open>Every position of an account\<close>

definition terminal_state_names :: "string list" where
  "terminal_state_names = [''closed'', ''cancelled'', ''failed'']"

definition fetch_open_positions_for_close :: "int \<Rightarrow> int \<Rightarrow> trade_db \<Rightarrow> auto_position list" where
  "fetch_open_positions_for_close uid aid db =
     filter (\<lambda>p. ap_user_id p = uid \<and> ap_account_id p = aid \<and> ap_status p = ''open''
                 \<and> ap_state p \<notin> set terminal_state_names) (td_positions db)"

text \<open>The preview of what would be closed: from the exchange's open conditional orders when they can be
  read, otherwise from the row. An order is its type and its trigger price.\<close>

definition resolve_conditional_summary ::
    "(string \<times> real option) list option \<Rightarrow> auto_position \<Rightarrow> nat \<times> real option" where
  "resolve_conditional_summary orders row =
     (case orders of
        None \<Rightarrow> (count_known_conditional_orders row, None)
      | Some os \<Rightarrow>
          (length os, case find (\<lambda>(k, p). k = ''stop_loss'') os of None \<Rightarrow> None | Some (k, p) \<Rightarrow> p))"

record close_preview_item =
  cp_position_id :: int
  cp_current_quantity :: real
  cp_current_sl_price :: real
  cp_open_conditional_orders_count :: nat

definition preview_item :: "(int \<Rightarrow> (string \<times> real option) list option) \<Rightarrow> auto_position \<Rightarrow> close_preview_item" where
  "preview_item orders row =
     (let (n, sl) = resolve_conditional_summary (orders (ap_id row)) row
      in \<lparr>cp_position_id = ap_id row, cp_current_quantity = row_quantity row,
          cp_current_sl_price = (case sl of None \<Rightarrow> ap_sl_price row | Some x \<Rightarrow> x),
          cp_open_conditional_orders_count = n\<rparr>)"

datatype close_answer =
    ConfirmationRequired "close_preview_item list"
  | CloseResult "flatten_outcome list"

fun flatten_all ::
    "flatten_env \<Rightarrow> string option \<Rightarrow> auto_position list \<Rightarrow> trade_db \<Rightarrow> flatten_outcome list \<times> trade_db" where
  "flatten_all env reason [] db = ([], db)"
| "flatten_all env reason (row # rows) db =
     (let (o1, db1) = flatten_single_position env reason row db;
          (os, db2) = flatten_all env reason rows db1
      in (o1 # os, db2))"

fun flatten_failed :: "flatten_outcome \<Rightarrow> bool" where
  "flatten_failed (FlattenFailed i s e) = True"
| "flatten_failed _ = False"

text \<open>The configuration comes from the scope look-up.\<close>

definition close_open_positions ::
    "flatten_env \<Rightarrow> signal_env \<Rightarrow> (int \<Rightarrow> (string \<times> real option) list option) \<Rightarrow> auto_config \<Rightarrow> bool \<Rightarrow> string option
      \<Rightarrow> trade_db \<Rightarrow> close_answer \<times> trade_db" where
  "close_open_positions env senv orders cfg confirm reason db =
     (let rows = fetch_open_positions_for_close (cf_user_id cfg) (cf_account_id cfg) db in
      if \<not> confirm then (ConfirmationRequired (map (preview_item orders) rows), db)
      else if rows = []
      then (CloseResult [], emit_event ''auto_trade_close_positions_completed'' ''info'' db)
      else
        let (os, db1) = flatten_all env reason rows db;
            db2 = maybe_auto_pause_after_close senv (cf_id cfg) db1
        in (CloseResult os,
            emit_event ''auto_trade_close_positions_completed''
              (if list_ex flatten_failed os then ''error'' else ''info'') db2))"

section \<open>The kill-switch\<close>

definition latch_risk_off :: "real \<Rightarrow> int \<Rightarrow> string option \<Rightarrow> trade_db \<Rightarrow> trade_db" where
  "latch_risk_off now cid reason db =
     (case td_configs db cid of
        None \<Rightarrow> db
      | Some cfg \<Rightarrow>
          db\<lparr>td_configs := (td_configs db)(cid \<mapsto>
               cfg\<lparr>cf_risk_off_latched := True, cf_risk_off_reason := reason, cf_risk_off_at := Some now\<rparr>)\<rparr>)"

definition kill_switch_close_position ::
    "flatten_env \<Rightarrow> int \<Rightarrow> kill_switch_signal \<Rightarrow> trade_db \<Rightarrow> bool \<times> trade_db" where
  "kill_switch_close_position env pid signal db =
     (case get_row db pid of
        None \<Rightarrow> (False, db)
      | Some row \<Rightarrow>
          if ap_status row \<noteq> ''open'' then (False, db)
          else if td_configs db (ap_config_id row) = None then (False, db)
          else
            let (o1, db1) = flatten_single_position env (Some ''volatility_kill_switch'') row db;
                closed_ok = (case get_row db1 pid of None \<Rightarrow> False | Some r \<Rightarrow> ap_status r = ''closed'');
                db2 = emit_event ''kill_switch_triggered'' (if closed_ok then ''warning'' else ''error'') db1;
                db3 = auto_pause_strategy (fe_now env) (ap_config_id row) ''risk_off_entered'' db2
            in (closed_ok, latch_risk_off (fe_now env) (ap_config_id row) (ks_reason signal) db3))"

text \<open>The strategy's kill-switch settings on a tracked position.\<close>

definition apply_kill_switch_config :: "trade_db \<Rightarrow> int option \<Rightarrow> position_context \<Rightarrow> position_context" where
  "apply_kill_switch_config db pid p =
     (case Option.bind pid (get_row db) of
        None \<Rightarrow> p
      | Some row \<Rightarrow>
          (case td_risk db (ap_config_id row) of
             None \<Rightarrow> p
           | Some rc \<Rightarrow>
               if \<not> rc_kill_switch_enabled rc then p
               else p\<lparr>pc_kill_switch_enabled := True,
                      pc_kill_switch_atr_spike_mult := rc_kill_switch_atr_spike_mult rc,
                      pc_kill_switch_atr_period := rc_kill_switch_atr_period rc,
                      pc_kill_switch_price_move_pct := rc_kill_switch_price_move_pct rc,
                      pc_kill_switch_cooldown_seconds := rc_kill_switch_cooldown_seconds rc\<rparr>))"

section \<open>What a flatten leaves behind\<close>

lemma fold_calls_frame [simp]: "td_positions (fold record_call cs db) = td_positions db"
  "td_configs (fold record_call cs db) = td_configs db" "td_configs (record_call c db) = td_configs db"
  by (induction cs arbitrary: db) (auto simp: record_call_def)

text \<open>The whole effect of one flatten: what is sent, and what becomes of the rows.\<close>

lemma flatten_effect:
  assumes "flatten_single_position env reason row db = (oc, db')"
  shows "td_configs db' = td_configs db"
    and "case oc of
        FlattenFailed i s e \<Rightarrow> td_positions db' = td_positions db
      | AlreadyFlat i \<Rightarrow>
          td_calls db' = td_calls db @ map (CancelConditional (ap_symbol row)) (iter_known_conditional_order_ids (fe_repr env) row)
          \<and> flatten_size (fe_position env (ap_id row)) (row_quantity row) \<le> position_epsilon
          \<and> (\<exists>re. td_positions db' = map (\<lambda>p. if ap_id p = ap_id row then mark_position_closed (fe_now env) re None p else p) (td_positions db))
      | Flattened i s q price cs \<Rightarrow>
          (\<exists>coid. td_calls db' = td_calls db @ map (CancelConditional (ap_symbol row)) (iter_known_conditional_order_ids (fe_repr env) row)
             @ [PartialCloseMarket (ap_symbol row) (row_closing_side row)
                  (flatten_size (fe_position env (ap_id row)) (row_quantity row)) coid])
          \<and> (\<exists>re. td_positions db' = map (\<lambda>p. if ap_id p = ap_id row then mark_position_closed (fe_now env) re price p else p) (td_positions db))"
  using assms
  by (auto simp: flatten_single_position_def Let_def upd_row_def emit_event_def split: option.splits if_splits sum.splits)

lemma close_marks [simp]: "ap_id (mark_position_closed n re price p) = ap_id p"
  "ap_status (mark_position_closed n re price p) = ''closed''" "ap_current_quantity (mark_position_closed n re price p) = Some 0"
  by (simp_all add: mark_position_closed_def)

text \<open>Rows related across a flatten: a row stays as it is or is closed, and only the flattened one is.\<close>

definition closed_or_same :: "auto_position \<Rightarrow> auto_position \<Rightarrow> bool" where
  "closed_or_same p q = (ap_id q = ap_id p \<and> (q = p \<or> ap_status q = ''closed'' \<and> ap_current_quantity q = Some 0))"

lemma closed_or_same_trans: "closed_or_same p q \<Longrightarrow> closed_or_same q r \<Longrightarrow> closed_or_same p r"
  by (auto simp: closed_or_same_def)

lemma flatten_rows:
  assumes "flatten_single_position env reason row db = (oc, db')"
  shows "list_all2 (\<lambda>p q. closed_or_same p q \<and> (ap_id p \<noteq> ap_id row \<longrightarrow> q = p)
           \<and> (ap_id p = ap_id row \<longrightarrow> (if flatten_failed oc then q = p else ap_status q = ''closed'')))
         (td_positions db) (td_positions db')"
  using flatten_effect(2) [OF assms]
  by (cases oc) (auto simp: list_all2_conv_all_nth closed_or_same_def)

lemma flatten_all_rows:
  assumes "flatten_all env reason rows db = (os, db')" and "distinct (map ap_id rows)"
  shows "length os = length rows
    \<and> list_all2 (\<lambda>p q. closed_or_same p q \<and> (ap_id p \<notin> set (map ap_id rows) \<longrightarrow> q = p)
         \<and> (\<forall>i < length rows. ap_id p = ap_id (rows ! i) \<longrightarrow>
              (if flatten_failed (os ! i) then q = p else ap_status q = ''closed'')))
       (td_positions db) (td_positions db')"
  using assms
proof (induction rows arbitrary: db os)
  case Nil
  then show ?case by (auto simp: list_all2_conv_all_nth closed_or_same_def)
next
  case (Cons row rows)
  obtain oc db1 where f: "flatten_single_position env reason row db = (oc, db1)" by fastforce
  obtain os1 where a: "flatten_all env reason rows db1 = (os1, db')" and os: "os = oc # os1"
    using Cons.prems(1) f by (auto split: prod.splits)
  note one = flatten_rows [OF f, unfolded list_all2_conv_all_nth]
  from Cons.IH [OF a] Cons.prems(2) have
    len: "length os1 = length rows" and
    many: "list_all2 (\<lambda>p q. closed_or_same p q \<and> (ap_id p \<notin> set (map ap_id rows) \<longrightarrow> q = p)
         \<and> (\<forall>i < length rows. ap_id p = ap_id (rows ! i) \<longrightarrow>
              (if flatten_failed (os1 ! i) then q = p else ap_status q = ''closed'')))
       (td_positions db1) (td_positions db')" by auto
  have pt: "closed_or_same p q \<and> (ap_id p \<notin> set (map ap_id (row # rows)) \<longrightarrow> q = p)
      \<and> (\<forall>i < length (row # rows). ap_id p = ap_id ((row # rows) ! i) \<longrightarrow>
           (if flatten_failed (os ! i) then q = p else ap_status q = ''closed''))"
    if k: "k < length (td_positions db)" and p: "p = td_positions db ! k" and q: "q = td_positions db' ! k" for k p q
  proof -
    let ?m = "td_positions db1 ! k"
    have m: "closed_or_same p ?m" "ap_id p \<noteq> ap_id row \<longrightarrow> ?m = p"
      "ap_id p = ap_id row \<longrightarrow> (if flatten_failed oc then ?m = p else ap_status ?m = ''closed'')"
      using one k p by auto
    have n: "closed_or_same ?m q" "ap_id ?m \<notin> set (map ap_id rows) \<longrightarrow> q = ?m"
      "\<forall>i < length rows. ap_id ?m = ap_id (rows ! i) \<longrightarrow> (if flatten_failed (os1 ! i) then q = ?m else ap_status q = ''closed'')"
      using many one k q by (auto simp: list_all2_conv_all_nth)
    have id: "ap_id ?m = ap_id p" using m(1) by (simp add: closed_or_same_def)
    have head: "ap_id p = ap_id row \<Longrightarrow> q = ?m"
      using n(2) id Cons.prems(2) by auto
    have rest: "q = p" if "ap_id p \<notin> set (map ap_id (row # rows))"
      using that m(2) n(2) id by auto
    have each: "if flatten_failed (os ! i) then q = p else ap_status q = ''closed''"
      if i: "i < length (row # rows)" "ap_id p = ap_id ((row # rows) ! i)" for i
    proof (cases i)
      case 0
      then have "ap_id p = ap_id row" using i by simp
      with m(3) head os 0 show ?thesis by simp
    next
      case (Suc j)
      then have j: "j < length rows" "ap_id p = ap_id (rows ! j)" using i by simp_all
      then have "ap_id p \<noteq> ap_id row" using Cons.prems(2) by (metis distinct.simps(2) length_map list.simps(9) nth_map nth_mem)
      with m(2) have "?m = p" by simp
      with n(3) j os Suc show ?thesis by simp
    qed
    show ?thesis
    proof (intro conjI allI impI, goal_cases)
      case 1
      show ?case by (rule closed_or_same_trans [OF m(1) n(1)])
    qed (fact rest, fact each)
  qed
  have ln: "length (td_positions db) = length (td_positions db')"
    using one many by (auto dest: list_all2_lengthD)
  show ?case
    by (intro conjI list_all2_all_nthI [OF ln] pt [OF _ refl refl]) (use os len in simp_all)
qed

lemma pause_positions [simp]: "td_positions (auto_pause_strategy n c t db) = td_positions db"
  "td_positions (latch_risk_off n c r db) = td_positions db"
  by (auto simp: auto_pause_strategy_def latch_risk_off_def split: option.splits)

text \<open>C15: Closing everything accounts for everything. Without confirmation nothing is sent and nothing
  changes. With it, every open position of the account gets exactly one outcome: unless that outcome
  is a failure its row ends closed with quantity zero, with a failure its row is untouched, and no
  row of another account, another user or an earlier position changes.\<close>

theorem close_all_accounted:
  assumes "distinct (map ap_id (td_positions db))"
    and "close_open_positions env senv orders cfg confirm reason db = (ans, db')"
    and "rows = fetch_open_positions_for_close (cf_user_id cfg) (cf_account_id cfg) db"
  shows "if \<not> confirm then db' = db \<and> ans = ConfirmationRequired (map (preview_item orders) rows)
    else \<exists>os. ans = CloseResult os \<and> length os = length rows
      \<and> list_all2 (\<lambda>p q. ap_id q = ap_id p \<and> (ap_id p \<notin> set (map ap_id rows) \<longrightarrow> q = p)
           \<and> (\<forall>i < length rows. ap_id p = ap_id (rows ! i) \<longrightarrow>
                (if flatten_failed (os ! i) then q = p else ap_status q = ''closed'' \<and> ap_current_quantity q = Some 0)))
         (td_positions db) (td_positions db')"
proof (cases "confirm \<and> rows \<noteq> []")
  case False
  with assms(2,3) show ?thesis
    by (auto simp: close_open_positions_def Let_def list_all2_conv_all_nth)
next
  case True
  obtain os db1 where a: "flatten_all env reason rows db = (os, db1)" by fastforce
  have d: "distinct (map ap_id rows)"
    using assms(1,3) by (simp add: fetch_open_positions_for_close_def distinct_map_filter)
  have open_row: "p \<in> set rows" if "p \<in> set (td_positions db)" "ap_id p = ap_id r" "r \<in> set rows" for p r
    using that assms(1,3) by (auto simp: fetch_open_positions_for_close_def distinct_map inj_on_def)
  have res: "ans = CloseResult os" "td_positions db' = td_positions db1"
    using True a assms(2,3) by (auto simp: close_open_positions_def Let_def)
  note f = flatten_all_rows [OF a d]
  have "list_all2 (\<lambda>p q. ap_id q = ap_id p \<and> (ap_id p \<notin> set (map ap_id rows) \<longrightarrow> q = p)
         \<and> (\<forall>i < length rows. ap_id p = ap_id (rows ! i) \<longrightarrow>
              (if flatten_failed (os ! i) then q = p else ap_status q = ''closed'' \<and> ap_current_quantity q = Some 0)))
       (td_positions db) (td_positions db1)"
  proof (rule list_all2_all_nthI)
    show "length (td_positions db) = length (td_positions db1)" using f by (auto dest: list_all2_lengthD)
    fix k assume k: "k < length (td_positions db)"
    let ?p = "td_positions db ! k" let ?q = "td_positions db1 ! k"
    have r: "closed_or_same ?p ?q \<and> (ap_id ?p \<notin> set (map ap_id rows) \<longrightarrow> ?q = ?p)
        \<and> (\<forall>i < length rows. ap_id ?p = ap_id (rows ! i) \<longrightarrow>
             (if flatten_failed (os ! i) then ?q = ?p else ap_status ?q = ''closed''))"
      using f k by (simp add: list_all2_conv_all_nth)
    have "ap_current_quantity ?q = Some 0"
      if i: "i < length rows" "ap_id ?p = ap_id (rows ! i)" "\<not> flatten_failed (os ! i)" for i
    proof -
      have "?p \<in> set rows" using open_row [of ?p "rows ! i"] k i by simp
      then have "ap_status ?p = ''open''" using assms(3) by (simp add: fetch_open_positions_for_close_def)
      moreover have "ap_status ?q = ''closed''" using r i by simp
      ultimately show ?thesis using r by (auto simp: closed_or_same_def)
    qed
    with r show "ap_id ?q = ap_id ?p \<and> (ap_id ?p \<notin> set (map ap_id rows) \<longrightarrow> ?q = ?p)
        \<and> (\<forall>i < length rows. ap_id ?p = ap_id (rows ! i) \<longrightarrow>
             (if flatten_failed (os ! i) then ?q = ?p else ap_status ?q = ''closed'' \<and> ap_current_quantity ?q = Some 0))"
      by (auto simp: closed_or_same_def)
  qed
  with True res f show ?thesis by auto
qed

text \<open>C13: The kill-switch ends trading, and closes at most once. For an open row of a known strategy the
  strategy is stopped and latched risk-off whether or not the close succeeded, the answer is true
  exactly when the row is closed, and a second trip on a closed row changes nothing and sends nothing.\<close>

theorem kill_switch_latches:
  assumes "kill_switch_close_position env pid sig db = (ok, db')"
    and "get_row db pid = Some row" and "ap_status row = ''open''" and "td_configs db (ap_config_id row) = Some cfg"
  shows "(\<exists>cfg'. td_configs db' (ap_config_id row) = Some cfg' \<and> \<not> cf_is_running cfg' \<and> cf_risk_off_latched cfg'
            \<and> cf_risk_off_reason cfg' = ks_reason sig)
    \<and> ok = (\<exists>r. get_row db' pid = Some r \<and> ap_status r = ''closed'')
    \<and> (ok \<longrightarrow> kill_switch_close_position env' pid sig' db' = (False, db'))"
proof -
  obtain oc db1 where f: "flatten_single_position env (Some ''volatility_kill_switch'') row db = (oc, db1)" by fastforce
  let ?ok = "case get_row db1 pid of None \<Rightarrow> False | Some r \<Rightarrow> ap_status r = ''closed''"
  let ?db3 = "auto_pause_strategy (fe_now env) (ap_config_id row) ''risk_off_entered''
    (emit_event ''kill_switch_triggered'' (if ?ok then ''warning'' else ''error'') db1)"
  have r: "ok = ?ok" "db' = latch_risk_off (fe_now env) (ap_config_id row) (ks_reason sig) ?db3"
    using assms f by (auto simp: kill_switch_close_position_def Let_def)
  have rows: "get_row db' i = get_row db1 i" for i by (simp add: r(2) get_row_def)
  have "td_configs db1 (ap_config_id row) = Some cfg" using flatten_effect(1) [OF f] assms(4) by simp
  then have "\<exists>cfg'. td_configs db' (ap_config_id row) = Some cfg' \<and> \<not> cf_is_running cfg' \<and> cf_risk_off_latched cfg'
      \<and> cf_risk_off_reason cfg' = ks_reason sig"
    by (simp add: r(2) latch_risk_off_def auto_pause_strategy_def split: option.splits)
  moreover have ok: "ok = (\<exists>r. get_row db' pid = Some r \<and> ap_status r = ''closed'')"
    by (simp add: r(1) rows split: option.splits)
  moreover have "kill_switch_close_position env' pid sig' db' = (False, db')" if "ok"
    using that ok by (auto simp: kill_switch_close_position_def)
  ultimately show ?thesis by blast
qed

text \<open>A failed close leaves the position without its stop. When the market close is refused, the
  cancellation of the row's stop order has already been sent, while the row stays open and still
  names that order.\<close>

theorem failed_flatten_strips_stop:
  assumes "fe_adapter_error env (ap_id row) = None" and "fe_close env (ap_id row) = Inl e"
    and "position_epsilon < flatten_size (fe_position env (ap_id row)) (row_quantity row)"
    and "ap_sl_exchange_order_id row = Some x" and "x \<noteq> []"
    and "flatten_single_position env reason row db = (oc, db')"
  shows "oc = FlattenFailed (ap_id row) (ap_symbol row) e \<and> td_positions db' = td_positions db
    \<and> CancelConditional (ap_symbol row) x \<in> set (td_calls db')"
proof -
  have "x \<in> set (iter_known_conditional_order_ids (fe_repr env) row)"
    using assms(4,5) by (simp add: iter_known_conditional_order_ids_def)
  with assms show ?thesis
    by (auto simp: flatten_single_position_def Let_def)
qed

end
