(* ===== verification/Rest_Reconcile.thy ===== *)
theory Rest_Reconcile
  imports Flatten Ws_Manager
begin

text \<open>
  The reconciliation over REST of \<^verbatim>\<open>app/services/auto_trade/service.py\<close>, for fills the user-data stream
  missed: \<^verbatim>\<open>reconcile_open_positions_via_rest\<close> closes rows whose position the exchange confirms to be
  flat, \<^verbatim>\<open>_reconcile_partial_tp_via_rest\<close> advances take-profit levels whose orders vanished. The row is
  locked while the decision is made and again while it is written; what other transactions do in
  between is the function \<open>rs_others\<close> of the environment, with the answers of the exchange. Dropping
  the position from the WebSocket manager is left out.
\<close>

record rest_env =
  rs_now :: real
  rs_iso :: "real \<Rightarrow> string"
  rs_from_iso :: "string \<Rightarrow> real option"
  rs_repr :: "pyval \<Rightarrow> string"
  rs_loads :: "string \<Rightarrow> pyval option"
  rs_position :: "int \<Rightarrow> trade_error + futures_position option"
  rs_confirm :: "int \<Rightarrow> nat \<Rightarrow> trade_error + futures_position option"
  rs_adapter_error :: "int \<Rightarrow> bool"
  rs_open_orders :: "int \<Rightarrow> string + string option list"
  rs_queue_error :: "int \<Rightarrow> bool"
  rs_live :: "int \<Rightarrow> live_result"
  rs_others :: "int \<Rightarrow> trade_db \<Rightarrow> trade_db"

section \<open>The context of a row\<close>

text \<open>The columns of a row as the dictionary \<^verbatim>\<open>from_db_row\<close> reads; a missing type or mode is the
  default of its column.\<close>

definition opt_time :: "(real \<Rightarrow> string) \<Rightarrow> real option \<Rightarrow> pyval" where
  "opt_time fmt t = (case t of None \<Rightarrow> VNone | Some x \<Rightarrow> VTime (fmt x))"

definition opt_int :: "int option \<Rightarrow> pyval" where
  "opt_int v = (case v of None \<Rightarrow> VNone | Some x \<Rightarrow> VInt x)"

definition row_payload :: "(real \<Rightarrow> string) \<Rightarrow> auto_position \<Rightarrow> pydict" where
  "row_payload fmt row =
     [(''id'', VInt (ap_id row)), (''user_id'', VInt (ap_user_id row)), (''config_id'', VInt (ap_config_id row)),
      (''profile_id'', VInt (ap_profile_id row)), (''account_id'', VInt (ap_account_id row)),
      (''symbol'', VStr (ap_symbol row)), (''side'', VStr (ap_side row)), (''status'', VStr (ap_status row)),
      (''entry_price'', VFloat (ap_entry_price row)), (''quantity'', VFloat (ap_quantity row)),
      (''position_size_usdt'', VFloat (ap_position_size_usdt row)), (''leverage'', VInt (ap_leverage row)),
      (''tp_price'', VFloat (ap_tp_price row)), (''sl_price'', VFloat (ap_sl_price row)),
      (''entry_confidence_pct'', VFloat (ap_entry_confidence_pct row)), (''opened_at'', VTime (fmt (ap_opened_at row))),
      (''closed_at'', opt_time fmt (ap_closed_at row)), (''close_reason'', opt_str (ap_close_reason row)),
      (''close_price'', opt_float (ap_close_price row)), (''open_order_id'', opt_str (ap_open_order_id row)),
      (''close_order_id'', opt_str (ap_close_order_id row)), (''open_history_id'', opt_int (ap_open_history_id row)),
      (''close_history_id'', opt_int (ap_close_history_id row)),
      (''decision_event_id'', opt_str (ap_decision_event_id row)), (''raw_open_order'', VDict (ap_raw_open_order row)),
      (''raw_close_order'', VDict (ap_raw_close_order row)), (''state'', VStr (ap_state row)),
      (''original_quantity'', opt_float (ap_original_quantity row)),
      (''current_quantity'', opt_float (ap_current_quantity row)),
      (''sl_type'', VStr (case ap_sl_type row of None \<Rightarrow> ''fixed'' | Some s \<Rightarrow> s)),
      (''sl_exchange_order_id'', opt_str (ap_sl_exchange_order_id row)),
      (''tp_mode'', VStr (case ap_tp_mode row of None \<Rightarrow> ''single'' | Some s \<Rightarrow> s)),
      (''last_adjusted_at'', opt_time fmt (ap_last_adjusted_at row))]
     @ map (\<lambda>k. (k, get_none (ap_json row) k)) json_columns
     @ [(''position_id'', VStr (show_int (ap_id row)))]"

section \<open>Vanished take-profit orders\<close>

definition level_placed :: "tp_level \<Rightarrow> bool" where
  "level_placed l = (tl_status l \<in> {''open'', ''pending''}
     \<and> (case tl_exchange_order_id l of None \<Rightarrow> False | Some x \<Rightarrow> x \<noteq> []))"

definition rest_candidates :: "position_context \<Rightarrow> (nat \<times> tp_level) list" where
  "rest_candidates p =
     filter (\<lambda>(i, l). int i \<noteq> int (length (pc_tp_levels p)) - 1 \<and> level_placed l) (enumerate 0 (pc_tp_levels p))"

definition order_listed :: "string option list \<Rightarrow> tp_level \<Rightarrow> bool" where
  "order_listed ids l =
     (case tl_exchange_order_id l of None \<Rightarrow> False | Some x \<Rightarrow> Some x \<in> set (filter (\<lambda>v. v \<noteq> Some []) ids))"

definition level_nominal :: "real \<Rightarrow> tp_level \<Rightarrow> real" where
  "level_nominal original l = original * (tl_close_pct l / 100)"

fun accept_fills :: "real \<Rightarrow> real \<Rightarrow> real \<Rightarrow> (nat \<times> tp_level) list \<Rightarrow> (nat \<times> tp_level) list" where
  "accept_fills original observed cumulative [] = []"
| "accept_fills original observed cumulative ((i, l) # rest) =
     (let c = cumulative + level_nominal original l in
      if observed + position_epsilon \<ge> c * (1 / 2)
      then (i, l) # accept_fills original observed c rest else [])"

definition vanished_levels :: "string option list \<Rightarrow> position_context \<Rightarrow> (nat \<times> tp_level) list" where
  "vanished_levels ids p = filter (\<lambda>(i, l). \<not> order_listed ids l) (rest_candidates p)"

definition rest_engine_env :: "rest_env \<Rightarrow> int \<Rightarrow> position_context \<Rightarrow> tp_env" where
  "rest_engine_env env pid p =
     \<lparr>te_now = rs_now env, te_iso = rs_iso env (rs_now env), te_live = rs_live env pid,
      te_tp_callback = (\<lambda>_. None),
      te_sl_callback = (\<lambda>i. Some (''rest_sl_adjustment:'' @ tp_level_sl_adjustment_reason p i))\<rparr>"

fun drive_engine :: "rest_env \<Rightarrow> int \<Rightarrow> engine_state \<Rightarrow> nat list \<Rightarrow> nat \<times> engine_state" where
  "drive_engine env pid s [] = (0, s)"
| "drive_engine env pid s (i # is) =
     (case handle_tp_triggered (rs_repr env) (rest_engine_env env pid (es_position s)) s (int i) of
        Inl e \<Rightarrow> drive_engine env pid s is
      | Inr s1 \<Rightarrow> (let (n, s2) = drive_engine env pid s1 is in (n + 1, s2)))"

text \<open>The final write, under a fresh lock.\<close>

definition persist_reconciled :: "rest_env \<Rightarrow> int \<Rightarrow> position_context \<Rightarrow> trade_db \<Rightarrow> trade_db" where
  "persist_reconciled env pid p db =
     (case get_row db pid of
        None \<Rightarrow> db
      | Some row \<Rightarrow>
          if ap_status row \<noteq> ''open'' \<or> ap_state row = ''closed'' then db
          else emit_event ''multi_tp_reconciled_via_rest'' ''warning''
                 (upd_row pid (merge_position_context_into_row (rs_from_iso env) (rs_now env) p) db))"

text \<open>The number of levels advanced, \<open>None\<close> when the call raised.\<close>

definition reconcile_partial_tp ::
    "rest_env \<Rightarrow> int \<Rightarrow> futures_position option \<Rightarrow> trade_db \<Rightarrow> nat option \<times> trade_db" where
  "reconcile_partial_tp env pid live db =
     (let live_size = (case live of None \<Rightarrow> 0 | Some f \<Rightarrow> \<bar>fp_contracts f\<bar>) in
      if live_size \<le> position_epsilon then (Some 0, db) else
      case get_row db pid of None \<Rightarrow> (Some 0, db) | Some row \<Rightarrow>
      if ap_status row \<noteq> ''open'' \<or> ap_state row = ''closed'' \<or> ap_tp_mode row \<noteq> Some ''multi'' then (Some 0, db) else
      case from_db_row (rs_repr env) (rs_loads env) (row_payload (rs_iso env) row) of Inl e \<Rightarrow> (Some 0, db) | Inr p \<Rightarrow>
      if rest_candidates p = [] then (Some 0, db) else
      if rs_adapter_error env pid then (None, db) else
      case rs_open_orders env pid of Inl e \<Rightarrow> (Some 0, db) | Inr ids \<Rightarrow>
      let gone = vanished_levels ids p;
          original = pc_original_quantity p;
          accepted = accept_fills original (max (original - live_size) 0) 0 gone
      in if gone = [] then (Some 0, db)
         else if accepted = [] then (Some 0, emit_event ''multi_tp_rest_reconcile_size_mismatch'' ''warning'' db)
         else if rs_queue_error env pid then (None, db)
         else
           let p1 = p\<lparr>pc_current_quantity := live_size + sum_list (map (\<lambda>(i, l). level_nominal original l) accepted)\<rparr>;
               (n, s) = drive_engine env pid \<lparr>es_position = p1, es_queue = td_order_queue db, es_audit = []\<rparr> (map fst accepted);
               db1 = db\<lparr>td_order_queue := es_queue s\<rparr>
           in if n = 0 then (Some 0, db1)
              else (Some n, persist_reconciled env pid ((es_position s)\<lparr>pc_current_quantity := live_size\<rparr>)
                              (rs_others env pid db1)))"

section \<open>Positions the exchange has closed\<close>

definition reconcile_single :: "rest_env \<Rightarrow> int \<Rightarrow> trade_db \<Rightarrow> (trade_error + bool) \<times> trade_db" where
  "reconcile_single env pid db =
     (case rs_position env pid of
        Inl e \<Rightarrow> (Inl e, db)
      | Inr live \<Rightarrow>
          if \<not> is_position_closed_on_exchange live then (Inr False, snd (reconcile_partial_tp env pid live db))
          else case confirm_from (rs_confirm env pid) 1 position_close_confirm_attempts of
                 Inl e \<Rightarrow> (Inl e, db)
               | Inr (flat, latest) \<Rightarrow>
                   if \<not> flat then (Inr False, db)
                   else case get_row db pid of
                          None \<Rightarrow> (Inr False, db)
                        | Some row \<Rightarrow>
                            if ap_status row = ''closed'' \<or> ap_state row = ''closed'' then (Inr False, db)
                            else (Inr True, emit_event ''position_reconciled_closed_via_rest'' ''warning''
                                    (upd_row pid (mark_position_closed (rs_now env) ''reconciled_closed_on_exchange''
                                       (Option.bind latest fp_mark_price)) db)))"

definition reconcile_states :: "string list" where
  "reconcile_states = [''open'', ''adjusting'', ''closing'']"

fun reconcile_rows :: "rest_env \<Rightarrow> int list \<Rightarrow> trade_db \<Rightarrow> (nat \<times> nat \<times> nat) \<times> trade_db" where
  "reconcile_rows env [] db = ((0, 0, 0), db)"
| "reconcile_rows env (pid # ids) db =
     (let (r, db1) = reconcile_single env pid db; ((checked, closed, errors), db2) = reconcile_rows env ids db1
      in ((checked + 1, closed + (if r = Inr True then 1 else 0), errors + (case r of Inl e \<Rightarrow> 1 | Inr b \<Rightarrow> 0)), db2))"

definition reconcile_open_positions_via_rest :: "rest_env \<Rightarrow> trade_db \<Rightarrow> (nat \<times> nat \<times> nat) \<times> trade_db" where
  "reconcile_open_positions_via_rest env db =
     reconcile_rows env (map ap_id (filter (\<lambda>p. ap_state p \<in> set reconcile_states) (td_positions db))) db"

text \<open>The hook run when the replacement of a stop went through.\<close>

definition rest_sl_adjusted ::
    "string \<Rightarrow> string \<Rightarrow> string \<Rightarrow> cond_order \<Rightarrow> position_context \<Rightarrow> position_context" where
  "rest_sl_adjusted ts reason source r p =
     (let old_price = pc_current_sl_price p;
          new_price = (if co_trigger_price r > 0 then co_trigger_price r else old_price);
          p1 = p\<lparr>pc_current_sl_price := new_price, pc_sl_exchange_order_id := Some (co_exchange_order_id r),
                 pc_last_adjusted_at := Some ts,
                 pc_sl_history := pc_sl_history p @
                   [\<lparr>sh_timestamp = ts, sh_old_price = old_price, sh_new_price = new_price,
                     sh_reason = reason, sh_trigger_source = source,
                     sh_exchange_order_id = co_exchange_order_id r\<rparr>]\<rparr>
      in case transition (pc_machine p1)
                  \<lparr>tc_trigger = ADJUSTMENT_COMPLETE, tc_reason = ''SL adjustment applied via REST reconcile: '' @ reason,
                   tc_metadata = Some [(''source'', VStr source),
                     (''exchange_order_id'', VStr (co_exchange_order_id r)),
                     (''new_sl_price'', VFloat new_price)], tc_now = ts\<rparr> of
           Inr mc \<Rightarrow> p1\<lparr>pc_machine := mc, pc_state := pm_state mc\<rparr>
         | Inl e \<Rightarrow> p1\<lparr>pc_state := pm_state (pc_machine p1)\<rparr>)"


section \<open>Lemmas\<close>

lemma handle_levels:
  assumes "i < length (pc_tp_levels (es_position s))" and "tl_status (pc_tp_levels (es_position s) ! i) \<noteq> ''triggered''"
    and "int i \<notin> pc_dispatched_sl_levels (es_position s)"
  obtains s' where "handle_tp_triggered rp env s (int i) = Inr s'"
    "pc_tp_levels (es_position s')
       = (pc_tp_levels (es_position s))[i := (pc_tp_levels (es_position s) ! i)\<lparr>tl_status := ''triggered''\<rparr>]"
    "pc_dispatched_sl_levels (es_position s') = insert (int i) (pc_dispatched_sl_levels (es_position s))"
    "pc_original_quantity (es_position s') = pc_original_quantity (es_position s)"
proof -
  obtain s' where s': "handle_tp_triggered rp env s (int i) = Inr s'"
    using handle_defined [of "int i" s] assms(1) by auto
  then show ?thesis
    by (cases rule: handle_ok_cases) (use assms s' in \<open>auto intro: that\<close>)
qed

definition triggered_at :: "nat list \<Rightarrow> tp_level list \<Rightarrow> tp_level list" where
  "triggered_at is ls = map (\<lambda>(j, l). if j \<in> set is then l\<lparr>tl_status := ''triggered''\<rparr> else l) (enumerate 0 ls)"

lemma triggered_at_nth [simp]:
  "length (triggered_at is ls) = length ls"
  "j < length ls \<Longrightarrow> triggered_at is ls ! j = (if j \<in> set is then (ls ! j)\<lparr>tl_status := ''triggered''\<rparr> else ls ! j)"
  by (simp_all add: triggered_at_def nth_enumerate_eq)

lemma drive_engine_levels:
  assumes "distinct is"
    and "\<forall>i \<in> set is. i < length (pc_tp_levels (es_position s)) \<and> tl_status (pc_tp_levels (es_position s) ! i) \<noteq> ''triggered''
           \<and> int i \<notin> pc_dispatched_sl_levels (es_position s)"
    and "drive_engine env pid s is = (n, s')"
  shows "n = length is \<and> pc_tp_levels (es_position s') = triggered_at is (pc_tp_levels (es_position s))
    \<and> pc_original_quantity (es_position s') = pc_original_quantity (es_position s)"
  using assms
proof (induction "is" arbitrary: s n s')
  case Nil
  then show ?case by (auto simp: triggered_at_def intro!: nth_equalityI simp: nth_enumerate_eq)
next
  case (Cons i "is")
  obtain s1 where s1: "handle_tp_triggered (rs_repr env) (rest_engine_env env pid (es_position s)) s (int i) = Inr s1"
    "pc_tp_levels (es_position s1)
       = (pc_tp_levels (es_position s))[i := (pc_tp_levels (es_position s) ! i)\<lparr>tl_status := ''triggered''\<rparr>]"
    "pc_dispatched_sl_levels (es_position s1) = insert (int i) (pc_dispatched_sl_levels (es_position s))"
    "pc_original_quantity (es_position s1) = pc_original_quantity (es_position s)"
    using handle_levels [of i s] Cons.prems(2) by (metis list.set_intros(1))
  obtain m where m: "drive_engine env pid s1 is = (m, s')" "n = m + 1"
    using Cons.prems(3) s1(1) by (auto split: prod.splits)
  have pre: "\<forall>j \<in> set is. j < length (pc_tp_levels (es_position s1)) \<and> tl_status (pc_tp_levels (es_position s1) ! j) \<noteq> ''triggered''
           \<and> int j \<notin> pc_dispatched_sl_levels (es_position s1)"
    using Cons.prems(1,2) by (auto simp: s1(2,3) nth_list_update)
  from Cons.IH [OF _ pre m(1)] Cons.prems(1,2) m(2) s1(2,4) show ?case
    by (auto intro!: nth_equalityI simp: nth_list_update)
qed

lemma accept_prefix: "\<exists>ys. xs = accept_fills original observed c xs @ ys"
  by (induction xs arbitrary: c) (auto simp: Let_def)

lemma accept_covered:
  "accept_fills original observed c xs \<noteq> [] \<Longrightarrow>
     (c + sum_list (map (\<lambda>(i, l). level_nominal original l) (accept_fills original observed c xs))) / 2
       \<le> observed + position_epsilon"
proof (induction xs arbitrary: c)
  case (Cons x xs)
  then show ?case
    by (cases x; cases "accept_fills original observed (c + level_nominal original (snd x)) xs = []")
      (force simp: Let_def split: if_splits)+
qed simp

lemma vanished_in:
  "(i, l) \<in> set (vanished_levels ids p) \<longleftrightarrow> i < length (pc_tp_levels p) \<and> l = pc_tp_levels p ! i
     \<and> i + 1 \<noteq> length (pc_tp_levels p) \<and> level_placed l \<and> \<not> order_listed ids l"
  by (auto simp: vanished_levels_def rest_candidates_def in_set_enumerate_eq)

lemma vanished_distinct: "distinct (map fst (vanished_levels ids p))"
  by (simp add: vanished_levels_def rest_candidates_def distinct_map_filter)

lemma accepted_in: "x \<in> set (accept_fills original observed c xs) \<Longrightarrow> x \<in> set xs"
  using accept_prefix [of xs original observed c] by (metis UnCI set_append)

lemma accepted_distinct: "distinct (map fst xs) \<Longrightarrow> distinct (map fst (accept_fills original observed c xs))"
  using accept_prefix [of xs original observed c] by (metis distinct_append map_append)

text \<open>Writing a context into a row and reading it back keeps the ladder and the original quantity.\<close>

lemma json_column: "k \<in> set json_columns \<Longrightarrow>
    get_none (ap_json (merge_position_context_into_row fromiso now p row)) k = get_none (to_db_dict p) k"
  by (auto simp: merge_position_context_into_row_def json_columns_def Let_def)

lemma payload_parts:
  "get_none (row_payload fmt row) ''tp_levels_json'' = get_none (ap_json row) ''tp_levels_json''"
  "get_default (row_payload fmt row) ''original_quantity'' d = opt_float (ap_original_quantity row)"
  by (simp_all add: row_payload_def json_columns_def)

lemma merged_levels:
  assumes "from_db_row rp loads (row_payload fmt (merge_position_context_into_row fromiso now p row)) = Inr p'"
  shows "pc_tp_levels p' = pc_tp_levels p" and "pc_original_quantity p' = pc_original_quantity p"
proof -
  let ?row = "merge_position_context_into_row fromiso now p row"
  have lev: "get_none (row_payload fmt ?row) ''tp_levels_json'' = VList (map (\<lambda>l. VDict (tp_level_dict l)) (pc_tp_levels p))"
    by (simp add: payload_parts json_column [unfolded json_columns_def] to_db_dict_def Let_def)
  have orig: "get_default (row_payload fmt ?row) ''original_quantity'' d = VFloat (pc_original_quantity p)" for d
    unfolding payload_parts by (simp add: merge_position_context_into_row_def Let_def opt_float_def)
  obtain tcfg bcfg vcfg ws where "p' = (apply_rule_configs (row_payload fmt ?row) tcfg bcfg vcfg
      (context_of_row rp loads (row_payload fmt ?row)))\<lparr>pc_active_watchers := ws\<rparr>"
    using assms by (auto simp: from_db_row_def Let_def split: sum.splits)
  then show "pc_tp_levels p' = pc_tp_levels p" "pc_original_quantity p' = pc_original_quantity p"
    by (simp_all add: apply_rule_configs_def context_of_row_def Let_def lev orig o_def)
qed

lemma fresh_context:
  assumes "from_db_row rp loads row = Inr p"
  shows "pc_dispatched_sl_levels p = {}"
  using assms by (auto simp: from_db_row_def apply_rule_configs_def context_of_row_def default_context_def Let_def
      split: sum.splits)

text \<open>The one path on which levels are advanced.\<close>

definition accepted_levels :: "string option list \<Rightarrow> real \<Rightarrow> position_context \<Rightarrow> (nat \<times> tp_level) list" where
  "accepted_levels ids live p =
     accept_fills (pc_original_quantity p) (max (pc_original_quantity p - live) 0) 0 (vanished_levels ids p)"

lemma advanced_cases:
  assumes "reconcile_partial_tp env pid (Some f) db = (Some n, db')" and "0 < n"
  shows "\<exists>row p ids. \<exists>s :: engine_state. position_epsilon < \<bar>fp_contracts f\<bar> \<and> get_row db pid = Some row
    \<and> ap_status row = ''open'' \<and> ap_state row \<noteq> ''closed'' \<and> ap_tp_mode row = Some ''multi''
    \<and> from_db_row (rs_repr env) (rs_loads env) (row_payload (rs_iso env) row) = Inr p
    \<and> \<not> rs_adapter_error env pid \<and> rs_open_orders env pid = Inr ids
    \<and> n = length (accepted_levels ids \<bar>fp_contracts f\<bar> p)
    \<and> pc_tp_levels (es_position s) = triggered_at (map fst (accepted_levels ids \<bar>fp_contracts f\<bar> p)) (pc_tp_levels p)
    \<and> pc_original_quantity (es_position s) = pc_original_quantity p
    \<and> db' = persist_reconciled env pid ((es_position s)\<lparr>pc_current_quantity := \<bar>fp_contracts f\<bar>\<rparr>)
             (rs_others env pid (db\<lparr>td_order_queue := es_queue s\<rparr>))"
proof -
  obtain row p ids where a: "position_epsilon < \<bar>fp_contracts f\<bar>" "get_row db pid = Some row"
    "ap_status row = ''open''" "ap_state row \<noteq> ''closed''" "ap_tp_mode row = Some ''multi''"
    "from_db_row (rs_repr env) (rs_loads env) (row_payload (rs_iso env) row) = Inr p"
    "\<not> rs_adapter_error env pid" "rs_open_orders env pid = Inr ids"
    using assms by (auto simp: reconcile_partial_tp_def Let_def split: if_splits option.splits sum.splits)
  let ?live = "\<bar>fp_contracts f\<bar>"
  let ?acc = "accepted_levels ids ?live p"
  let ?p1 = "p\<lparr>pc_current_quantity := ?live + sum_list (map (\<lambda>(i, l). level_nominal (pc_original_quantity p) l) ?acc)\<rparr>"
  obtain m s where d: "drive_engine env pid \<lparr>es_position = ?p1, es_queue = td_order_queue db, es_audit = []\<rparr> (map fst ?acc) = (m, s)"
    by fastforce
  have r: "n = m" "db' = persist_reconciled env pid ((es_position s)\<lparr>pc_current_quantity := ?live\<rparr>)
             (rs_others env pid (db\<lparr>td_order_queue := es_queue s\<rparr>))"
    using assms a d [unfolded accepted_levels_def] by (auto simp: reconcile_partial_tp_def Let_def split: if_splits)
  have acc: "i < length (pc_tp_levels p)" "tl_status (pc_tp_levels p ! i) \<noteq> ''triggered''" if "i \<in> set (map fst ?acc)" for i
    using that accepted_in by (fastforce simp: accepted_levels_def vanished_in level_placed_def)+
  have "distinct (map fst ?acc)"
    by (simp add: accepted_levels_def accepted_distinct vanished_distinct)
  then have adv: "m = length ?acc \<and> pc_tp_levels (es_position s) = triggered_at (map fst ?acc) (pc_tp_levels p)
      \<and> pc_original_quantity (es_position s) = pc_original_quantity p"
    using drive_engine_levels [OF _ _ d] acc fresh_context [OF a(6)] by simp
  show ?thesis
    by (rule exI [of _ row], rule exI [of _ p], rule exI [of _ ids], rule exI [of _ s]) (use a r adv in simp)
qed

lemma get_upd_row:
  assumes "\<And>p. ap_id (g p) = ap_id p"
  shows "get_row (upd_row pid g db) i = map_option (\<lambda>p. if i = pid then g p else p) (get_row db i)"
proof -
  have "find (\<lambda>p. ap_id p = i) (map (\<lambda>p. if ap_id p = pid then g p else p) ps)
      = map_option (\<lambda>p. if i = pid then g p else p) (find (\<lambda>p. ap_id p = i) ps)" for ps
    by (induction ps) (auto simp: assms)
  then show ?thesis by (simp add: get_row_def upd_row_def)
qed

lemma get_emit [simp]: "get_row (emit_event e l db) i = get_row db i"
  by (simp add: get_row_def)

lemma persisted_row:
  assumes "get_row db pid = Some row" and "ap_status row = ''open''" and "ap_state row \<noteq> ''closed''"
  shows "get_row (persist_reconciled env pid p db) pid
    = Some (merge_position_context_into_row (rs_from_iso env) (rs_now env) p row)"
proof -
  have "ap_id (merge_position_context_into_row (rs_from_iso env) (rs_now env) p r) = ap_id r" for r
    by (simp add: merge_position_context_into_row_def Let_def)
  with assms show ?thesis
    by (simp add: persist_reconciled_def get_upd_row)
qed


section \<open>Properties\<close>

text \<open>C16: A row is closed only on two readings. Reconciling one position over REST closes its row exactly when
  the exchange reported it flat twice, the second time within the three confirming attempts, and the
  row is not closed yet; the row then is closed with quantity zero and no other row changes. A flat
  reading that is not confirmed, and one that raises, change no row at all.\<close>

theorem rest_close_confirmed:
  assumes "reconcile_single env pid db = (r, db')"
  shows "(r = Inr True \<longleftrightarrow> (\<exists>live latest row. rs_position env pid = Inr live \<and> is_position_closed_on_exchange live
        \<and> confirm_from (rs_confirm env pid) 1 position_close_confirm_attempts = Inr (True, latest)
        \<and> get_row db pid = Some row \<and> ap_status row \<noteq> ''closed'' \<and> ap_state row \<noteq> ''closed''))
    \<and> (r = Inr True \<longrightarrow> (\<exists>k \<in> {1..3}. \<exists>latest. rs_confirm env pid k = Inr latest \<and> is_position_closed_on_exchange latest)
        \<and> (\<exists>row'. get_row db' pid = Some row' \<and> ap_status row' = ''closed'' \<and> ap_state row' = ''closed''
              \<and> ap_current_quantity row' = Some 0)
        \<and> (\<forall>i. i \<noteq> pid \<longrightarrow> get_row db' i = get_row db i))
    \<and> (r \<noteq> Inr True \<and> (\<forall>live. rs_position env pid = Inr live \<longrightarrow> is_position_closed_on_exchange live) \<longrightarrow> db' = db)"
proof -
  have confirmed: "\<exists>k \<in> {a ..< a + n}. \<exists>latest. answer k = Inr latest \<and> is_position_closed_on_exchange latest"
    if "confirm_from answer a n = Inr (True, latest)" for answer a n latest
    using that by (induction answer a n rule: confirm_from.induct)
      (fastforce split: sum.splits if_splits)+
  have "\<exists>k \<in> {1..3}. \<exists>l. rs_confirm env pid k = Inr l \<and> is_position_closed_on_exchange l"
    if "confirm_from (rs_confirm env pid) 1 position_close_confirm_attempts = Inr (True, latest)" for latest
    using confirmed [OF that] by (force simp: position_close_confirm_attempts_def)
  with assms show ?thesis
    by (auto simp: reconcile_single_def get_upd_row mark_position_closed_def option.map_ident
        split: sum.splits if_splits option.splits prod.splits)
qed

lemma rest_tp_reconcile_shape:
  assumes "reconcile_partial_tp env pid (Some f) db = (Some n, db')" and "0 < n" and "rs_others env pid = id"
  shows "\<exists>row p ids row' adv. get_row db pid = Some row
    \<and> from_db_row (rs_repr env) (rs_loads env) (row_payload (rs_iso env) row) = Inr p
    \<and> rs_open_orders env pid = Inr ids \<and> get_row db' pid = Some row'
    \<and> ap_current_quantity row' = Some \<bar>fp_contracts f\<bar>
    \<and> length adv = n \<and> distinct adv \<and> (\<forall>i \<in> set adv. i + 1 < length (pc_tp_levels p)
          \<and> level_placed (pc_tp_levels p ! i) \<and> \<not> order_listed ids (pc_tp_levels p ! i))
    \<and> sum_list (map (\<lambda>i. level_nominal (pc_original_quantity p) (pc_tp_levels p ! i)) adv) / 2
        \<le> max (pc_original_quantity p - \<bar>fp_contracts f\<bar>) 0 + position_epsilon
    \<and> (\<forall>p'. from_db_row (rs_repr env) (rs_loads env) (row_payload (rs_iso env) row') = Inr p' \<longrightarrow>
          pc_tp_levels p' = triggered_at adv (pc_tp_levels p))
    \<and> (set adv = set (map fst (vanished_levels ids p)) \<longrightarrow> reconcile_partial_tp env pid (Some f) db' = (Some 0, db'))"
proof -
  obtain row p ids and s :: engine_state where 1: "position_epsilon < \<bar>fp_contracts f\<bar>" "get_row db pid = Some row"
    "ap_status row = ''open''" "ap_state row \<noteq> ''closed''" "ap_tp_mode row = Some ''multi''"
    "from_db_row (rs_repr env) (rs_loads env) (row_payload (rs_iso env) row) = Inr p"
    "\<not> rs_adapter_error env pid" "rs_open_orders env pid = Inr ids"
    "n = length (accepted_levels ids \<bar>fp_contracts f\<bar> p)"
    "pc_tp_levels (es_position s) = triggered_at (map fst (accepted_levels ids \<bar>fp_contracts f\<bar> p)) (pc_tp_levels p)"
    "pc_original_quantity (es_position s) = pc_original_quantity p"
    "db' = persist_reconciled env pid ((es_position s)\<lparr>pc_current_quantity := \<bar>fp_contracts f\<bar>\<rparr>)
             (rs_others env pid (db\<lparr>td_order_queue := es_queue s\<rparr>))"
    using advanced_cases [OF assms(1,2)] by blast
  let ?live = "\<bar>fp_contracts f\<bar>"
  let ?acc = "accepted_levels ids ?live p"
  let ?adv = "map fst ?acc"
  let ?row' = "merge_position_context_into_row (rs_from_iso env) (rs_now env) ((es_position s)\<lparr>pc_current_quantity := ?live\<rparr>) row"
  have row': "get_row db' pid = Some ?row'"
    unfolding 1(12) assms(3) using 1(2-4) by (intro persisted_row) (simp_all add: get_row_def)
  have acc: "i + 1 < length (pc_tp_levels p) \<and> l = pc_tp_levels p ! i \<and> level_placed l \<and> \<not> order_listed ids l"
    if "(i, l) \<in> set ?acc" for i l
    using accepted_in [OF that [unfolded accepted_levels_def]] by (auto simp: vanished_in)
  then have nominal: "map (\<lambda>i. level_nominal q (pc_tp_levels p ! i)) ?adv = map (\<lambda>(i, l). level_nominal q l) ?acc" for q
    by (auto simp: o_def split_beta intro!: map_cong dest!: acc [of "fst _" "snd _", simplified])
  have levels: "pc_tp_levels p' = triggered_at ?adv (pc_tp_levels p)"
    "pc_original_quantity p' = pc_original_quantity p"
    if "from_db_row (rs_repr env) (rs_loads env) (row_payload (rs_iso env) ?row') = Inr p'" for p'
    using merged_levels [OF that] 1(10,11) by simp_all
  have again: "reconcile_partial_tp env pid (Some f) db' = (Some 0, db')" if all: "set ?adv = set (map fst (vanished_levels ids p))"
  proof -
    have "vanished_levels ids p' = []"
      if "from_db_row (rs_repr env) (rs_loads env) (row_payload (rs_iso env) ?row') = Inr p'" for p'
    proof (rule ccontr)
      assume "vanished_levels ids p' \<noteq> []"
      then obtain i l where "(i, l) \<in> set (vanished_levels ids p')" by (metis list.set_intros(1) neq_Nil_conv surj_pair)
      then have v: "i < length (pc_tp_levels p)" "l = triggered_at ?adv (pc_tp_levels p) ! i"
        "i + 1 \<noteq> length (pc_tp_levels p)" "level_placed l" "\<not> order_listed ids l"
        unfolding vanished_in levels(1) [OF that] by (metis triggered_at_nth(1))+
      have "\<not> level_placed (l\<lparr>tl_status := ''triggered''\<rparr>)" for l by (simp add: level_placed_def)
      with v(1,2,4) have "i \<notin> set ?adv" by (metis triggered_at_nth(2))
      with v have "(i, pc_tp_levels p ! i) \<in> set (vanished_levels ids p)" by (simp add: vanished_in)
      with all \<open>i \<notin> set ?adv\<close> show False by force
    qed
    with 1(1,7,8) show ?thesis
      by (auto simp: reconcile_partial_tp_def row' Let_def split: sum.splits)
  qed
  have "?acc \<noteq> []" using 1(9) assms(2) by auto
  then have bound: "sum_list (map (\<lambda>i. level_nominal (pc_original_quantity p) (pc_tp_levels p ! i)) ?adv) / 2
      \<le> max (pc_original_quantity p - ?live) 0 + position_epsilon"
    unfolding nominal using accept_covered [of "pc_original_quantity p" _ 0] by (simp add: accepted_levels_def)
  have adv: "length ?adv = n" "distinct ?adv" "\<forall>i \<in> set ?adv. i + 1 < length (pc_tp_levels p)
          \<and> level_placed (pc_tp_levels p ! i) \<and> \<not> order_listed ids (pc_tp_levels p ! i)"
    using acc 1(9) by (force simp: accepted_levels_def accepted_distinct vanished_distinct)+
  have "ap_current_quantity ?row' = Some ?live" by (simp add: merge_position_context_into_row_def Let_def)
  then show ?thesis
    using 1(2,6,8) row' adv bound levels(1) again by blast
qed


lemma single_vanished_advances:
  assumes "position_epsilon < \<bar>fp_contracts f\<bar>" and "get_row db pid = Some row"
    and "ap_status row = ''open''" and "ap_state row \<noteq> ''closed''" and "ap_tp_mode row = Some ''multi''"
    and "from_db_row (rs_repr env) (rs_loads env) (row_payload (rs_iso env) row) = Inr p"
    and "\<not> rs_adapter_error env pid" and "\<not> rs_queue_error env pid" and "rs_open_orders env pid = Inr ids"
    and "vanished_levels ids p = [(k, l)]"
    and "level_nominal (pc_original_quantity p) l / 2 \<le> max (pc_original_quantity p - \<bar>fp_contracts f\<bar>) 0 + position_epsilon"
  shows "\<exists>db'. reconcile_partial_tp env pid (Some f) db = (Some 1, db')"
proof -
  let ?p1 = "p\<lparr>pc_current_quantity := \<bar>fp_contracts f\<bar> + level_nominal (pc_original_quantity p) l\<rparr>"
  obtain m s where d: "drive_engine env pid \<lparr>es_position = ?p1, es_queue = td_order_queue db, es_audit = []\<rparr> [k] = (m, s)"
    by fastforce
  have k: "k < length (pc_tp_levels p)" "tl_status (pc_tp_levels p ! k) \<noteq> ''triggered''" "rest_candidates p \<noteq> []"
    using assms(10) vanished_in [of k l ids p] by (auto simp: level_placed_def vanished_levels_def)
  have "m = 1"
    using drive_engine_levels [OF _ _ d] k(1,2) fresh_context [OF assms(6)] by simp
  with assms k(3) d show ?thesis
    by (simp add: reconcile_partial_tp_def Let_def not_le)
qed

text \<open>A cancelled order is taken for a fill once another level has filled. The shrink that must corroborate
  a vanished order is measured from the original quantity, so it still counts the levels that were
  triggered before. If all of the shrink is explained by those and one further order vanished, for
  whose level it would be enough, that level is advanced although nothing filled.\<close>

theorem cancelled_level_taken_for_fill:
  assumes "position_epsilon < \<bar>fp_contracts f\<bar>" and "get_row db pid = Some row"
    and "ap_status row = ''open''" and "ap_state row \<noteq> ''closed''" and "ap_tp_mode row = Some ''multi''"
    and "from_db_row (rs_repr env) (rs_loads env) (row_payload (rs_iso env) row) = Inr p"
    and "\<not> rs_adapter_error env pid" and "\<not> rs_queue_error env pid" and "rs_open_orders env pid = Inr ids"
    and "rs_others env pid = id" and "vanished_levels ids p = [(k, l)]"
    and "pc_original_quantity p - \<bar>fp_contracts f\<bar>
           = sum_list (map (level_nominal (pc_original_quantity p)) (filter (\<lambda>l. tl_status l = ''triggered'') (pc_tp_levels p)))"
    and "0 \<le> level_nominal (pc_original_quantity p) l"
    and "level_nominal (pc_original_quantity p) l \<le> pc_original_quantity p - \<bar>fp_contracts f\<bar>"
  shows "\<exists>db' row'. reconcile_partial_tp env pid (Some f) db = (Some 1, db') \<and> get_row db' pid = Some row'
    \<and> (\<forall>p'. from_db_row (rs_repr env) (rs_loads env) (row_payload (rs_iso env) row') = Inr p' \<longrightarrow>
          tl_status (pc_tp_levels p ! k) \<noteq> ''triggered'' \<and> tl_status (pc_tp_levels p' ! k) = ''triggered'')"
proof -
  have "level_nominal (pc_original_quantity p) l / 2 \<le> max (pc_original_quantity p - \<bar>fp_contracts f\<bar>) 0 + position_epsilon"
    using assms(13,14) by (simp add: position_epsilon_def)
  with assms obtain db' where r: "reconcile_partial_tp env pid (Some f) db = (Some 1, db')"
    using single_vanished_advances by blast
  have k: "k < length (pc_tp_levels p)" "tl_status (pc_tp_levels p ! k) \<noteq> ''triggered''"
    using assms(11) vanished_in [of k l ids p] by (auto simp: level_placed_def)
  obtain row' adv where s: "get_row db' pid = Some row'" "length adv = 1"
    "\<forall>i \<in> set adv. i + 1 < length (pc_tp_levels p) \<and> level_placed (pc_tp_levels p ! i) \<and> \<not> order_listed ids (pc_tp_levels p ! i)"
    "\<forall>p'. from_db_row (rs_repr env) (rs_loads env) (row_payload (rs_iso env) row') = Inr p' \<longrightarrow>
          pc_tp_levels p' = triggered_at adv (pc_tp_levels p)"
    using rest_tp_reconcile_shape [OF r _ assms(10)] assms(2,6,9) by auto
  have "adv = [k]"
    using s(2,3) assms(11) vanished_in [of _ _ ids p] by (cases adv) force+
  with r s(1,4) k show ?thesis by auto
qed

lemma get_column:
  "k \<notin> fst ` set xs \<Longrightarrow> k \<in> set ks \<Longrightarrow> get_default (xs @ map (\<lambda>k. (k, h k)) ks @ ys) k d = h k"
proof (induction xs)
  case Nil
  then show ?case by (induction ks) auto
qed auto

lemma payload_json:
  assumes "k \<in> set json_columns"
  shows "get_none (row_payload fmt row) k = get_none (ap_json row) k"
proof -
  have "\<forall>k \<in> set json_columns. k \<notin> set [''id'', ''user_id'', ''config_id'', ''profile_id'', ''account_id'', ''symbol'',
      ''side'', ''status'', ''entry_price'', ''quantity'', ''position_size_usdt'', ''leverage'', ''tp_price'', ''sl_price'',
      ''entry_confidence_pct'', ''opened_at'', ''closed_at'', ''close_reason'', ''close_price'', ''open_order_id'',
      ''close_order_id'', ''open_history_id'', ''close_history_id'', ''decision_event_id'', ''raw_open_order'',
      ''raw_close_order'', ''state'', ''original_quantity'', ''current_quantity'', ''sl_type'', ''sl_exchange_order_id'',
      ''tp_mode'', ''last_adjusted_at'']"
    by code_simp
  with assms show ?thesis
    unfolding row_payload_def by (intro get_column) simp_all
qed

lemma merged_reads:
  assumes "pc_active_watchers p = []"
  shows "\<exists>p'. from_db_row rp loads (row_payload fmt (merge_position_context_into_row fromiso now p row)) = Inr p'"
proof -
  let ?row = "merge_position_context_into_row fromiso now p row"
  have col: "get_none (row_payload fmt ?row) k = get_none (to_db_dict p) k" if "k \<in> set json_columns" for k
    using payload_json [OF that] json_column [OF that] by simp
  have "\<exists>t b v. get_none (to_db_dict p) ''trailing_config_json'' = VDict t
      \<and> get_none (to_db_dict p) ''breakeven_config_json'' = VDict b
      \<and> get_none (to_db_dict p) ''volatility_config_json'' = VDict v
      \<and> get_none (to_db_dict p) ''active_watchers_json'' = VList []"
    using assms by (simp add: to_db_dict_def Let_def)
  then show ?thesis
    by (auto simp: from_db_row_def col json_columns_def as_dict_def list_dicts_VDict [of "[]", simplified])
qed

end
