(* ===== verification/Strategy_Control.thy ===== *)
theory Strategy_Control
  imports Flatten Promotion
begin

text \<open>
  Starting, stopping, promoting and pausing strategies: \<^verbatim>\<open>set_running\<close>, \<^verbatim>\<open>set_running_bulk\<close>,
  \<^verbatim>\<open>promote_strategy\<close>, \<^verbatim>\<open>demote_strategy\<close>, the risk limits and the sweeps of
  \<^verbatim>\<open>app/services/auto_trade/service.py\<close>. The state adds the exchange accounts, the order of the
  configuration table and the audit of promotions to the tables of the signal queue. What the clock,
  the health of a strategy and the earlier events say is the record \<open>control_env\<close>; an exception of
  the database while one configuration is swept is \<open>ce_fails\<close>, and the sweep rolls it back.
\<close>

section \<open>State\<close>

record exchange_account =
  ea_user_id :: int
  ea_exchange_name :: string
  ea_mode :: string

record promotion_event =
  pe_config_id :: int
  pe_from_stage :: string
  pe_to_stage :: string
  pe_decision :: string
  pe_criteria :: "gate_criterion list"

record config_snapshot =
  sn_enabled :: bool
  sn_profile_id :: int
  sn_account_id :: int
  sn_position_size_usdt :: real
  sn_leverage :: int
  sn_min_confidence_pct :: real
  sn_fast_close_confidence_pct :: real
  sn_confirm_reports_required :: int
  sn_risk_mode :: string
  sn_sl_pct :: real
  sn_tp_pct :: real
  sn_strategy_profile :: "pydict option"
  sn_strategy_name :: "string option"
  sn_attached_forecast_id :: "string option"
  sn_risk :: "risk_config option"

record config_revision =
  rv_id :: int
  rv_config_id :: int
  rv_number :: int
  rv_snapshot :: config_snapshot

record control_state =
  cs_db :: trade_db
  cs_config_ids :: "int list"
  cs_next_config :: int
  cs_accounts :: "int \<rightharpoonup> exchange_account"
  cs_promotions :: "promotion_event list"
  cs_revisions :: "config_revision list"
  cs_next_revision :: int

datatype control_error =
    LookupError string
  | ValueErr string
  | InvalidPromotion string
  | PromotionGateError promotion_decision
  | UnexpectedError string

record control_env =
  ce_now :: real
  ce_signal :: "int \<Rightarrow> signal_env"
  ce_fails :: "int \<Rightarrow> bool"
  ce_recently_ready :: "int \<Rightarrow> bool"
  ce_portfolio_dd :: "int \<Rightarrow> real"

definition upd_db :: "(trade_db \<Rightarrow> trade_db) \<Rightarrow> control_state \<Rightarrow> control_state" where
  "upd_db f cs = cs\<lparr>cs_db := f (cs_db cs)\<rparr>"

definition config_of :: "control_state \<Rightarrow> int \<Rightarrow> auto_config option" where
  "config_of cs cid = td_configs (cs_db cs) cid"

definition put_config :: "auto_config \<Rightarrow> control_state \<Rightarrow> control_state" where
  "put_config cfg = upd_db (\<lambda>db. db\<lparr>td_configs := (td_configs db)(cf_id cfg \<mapsto> cfg)\<rparr>)"

definition emit_to :: "string \<Rightarrow> string \<Rightarrow> control_state \<Rightarrow> control_state" where
  "emit_to event level = upd_db (emit_event event level)"

definition configs_of :: "control_state \<Rightarrow> int \<Rightarrow> auto_config list" where
  "configs_of cs uid = filter (\<lambda>c. cf_user_id c = uid) (List.map_filter (config_of cs) (cs_config_ids cs))"

definition get_config_for_scope ::
    "control_state \<Rightarrow> int \<Rightarrow> int option \<Rightarrow> bool \<Rightarrow> control_error + auto_config option" where
  "get_config_for_scope cs uid aid fail_on_ambiguous =
     (let rows = configs_of cs uid in
      case aid of
        Some a \<Rightarrow> Inr (find (\<lambda>c. cf_account_id c = a) rows)
      | None \<Rightarrow>
          (case rows of
             [] \<Rightarrow> Inr None
           | c # rest \<Rightarrow>
               if fail_on_ambiguous \<and> rest \<noteq> []
               then Inl (ValueErr ''Multiple auto-trade configs found. Provide account_id to select config scope.'')
               else Inr (Some c)))"

section \<open>Running\<close>

definition account_is_demo :: "control_state \<Rightarrow> int \<Rightarrow> bool" where
  "account_is_demo cs aid = (case cs_accounts cs aid of None \<Rightarrow> False | Some a \<Rightarrow> ea_mode a = ''demo'')"

definition started :: "real \<Rightarrow> auto_config \<Rightarrow> auto_config" where
  "started now cfg =
     cfg\<lparr>cf_is_running := True, cf_last_started_at := Some now, cf_risk_off_latched := False,
         cf_risk_off_reason := None, cf_risk_off_at := None\<rparr>"

definition stopped :: "real \<Rightarrow> auto_config \<Rightarrow> auto_config" where
  "stopped now cfg = cfg\<lparr>cf_is_running := False, cf_last_stopped_at := Some now\<rparr>"

definition set_running ::
    "real \<Rightarrow> int \<Rightarrow> bool \<Rightarrow> int option \<Rightarrow> control_state \<Rightarrow> control_error + control_state" where
  "set_running now uid is_running aid cs =
     (case get_config_for_scope cs uid aid True of
        Inl e \<Rightarrow> Inl e
      | Inr None \<Rightarrow> Inl (LookupError ''Auto-trade config not found.'')
      | Inr (Some row) \<Rightarrow>
          if is_running \<and> \<not> cf_enabled row then Inl (ValueErr ''Auto-trade config is disabled.'')
          else if is_running \<and> cf_lifecycle_stage row \<noteq> ''live'' \<and> \<not> account_is_demo cs (cf_account_id row)
          then Inl (ValueErr ''A non-live strategy may only run on a demo account'')
          else Inr (emit_to (if is_running then ''auto_trade_play'' else ''auto_trade_stop'') ''info''
                      (put_config (if is_running then started now row else stopped now row) cs)))"

datatype bulk_status = BulkOk | BulkSkipped string | BulkFailed control_error

definition bulk_one :: "real \<Rightarrow> int \<Rightarrow> bool \<Rightarrow> int \<Rightarrow> control_state \<Rightarrow> bulk_status \<times> control_state" where
  "bulk_one now uid is_running cid cs =
     (case config_of cs cid of
        None \<Rightarrow> (BulkFailed (LookupError ''Auto-trade config not found.''), cs)
      | Some cfg \<Rightarrow>
          if is_running \<and> \<not> cf_enabled cfg then (BulkSkipped ''config_disabled'', cs)
          else if cf_is_running cfg = is_running then (BulkSkipped ''already_in_state'', cs)
          else (case set_running now uid is_running (Some (cf_account_id cfg)) cs of
                  Inl e \<Rightarrow> (BulkFailed e, cs)
                | Inr cs' \<Rightarrow> (BulkOk, cs')))"

fun bulk_all :: "real \<Rightarrow> int \<Rightarrow> bool \<Rightarrow> int list \<Rightarrow> control_state \<Rightarrow> bulk_status list \<times> control_state" where
  "bulk_all now uid is_running [] cs = ([], cs)"
| "bulk_all now uid is_running (cid # ids) cs =
     (let (s, cs1) = bulk_one now uid is_running cid cs; (ss, cs2) = bulk_all now uid is_running ids cs1
      in (s # ss, cs2))"

definition set_running_bulk :: "real \<Rightarrow> int \<Rightarrow> bool \<Rightarrow> control_state \<Rightarrow> bulk_status list \<times> control_state" where
  "set_running_bulk now uid is_running cs =
     (let (ss, cs1) = bulk_all now uid is_running (map cf_id (configs_of cs uid)) cs
      in (ss, emit_to (if is_running then ''bulk_play_all_invoked'' else ''bulk_stop_all_invoked'') ''info'' cs1))"

section \<open>Promotion\<close>

definition sandbox_days :: "real \<Rightarrow> auto_config \<Rightarrow> real" where
  "sandbox_days now cfg =
     (let anchor = (case cf_sandbox_entered_at cfg of Some t \<Rightarrow> t | None \<Rightarrow> cf_created_at cfg)
      in max 0 ((now - anchor) / 86400))"

definition evaluate_promotion :: "control_env \<Rightarrow> control_state \<Rightarrow> auto_config \<Rightarrow> promotion_decision" where
  "evaluate_promotion env cs cfg =
     evaluate_promotion_gate (se_health (ce_signal env (cf_id cfg))) (td_risk (cs_db cs) (cf_id cfg))
       (sandbox_days (ce_now env) cfg)"

definition record_promotion_event :: "promotion_event \<Rightarrow> control_state \<Rightarrow> control_state" where
  "record_promotion_event e cs = cs\<lparr>cs_promotions := cs_promotions cs @ [e]\<rparr>"

definition stage_of :: "string \<Rightarrow> lifecycle_stage option" where
  "stage_of s = find (\<lambda>st. stage_value st = s) [RESEARCH, SANDBOX, VALIDATION, LIVE, REJECTED, ARCHIVED]"

definition owned_config :: "control_state \<Rightarrow> int \<Rightarrow> int \<Rightarrow> auto_config option" where
  "owned_config cs uid cid =
     (case config_of cs cid of None \<Rightarrow> None | Some cfg \<Rightarrow> if cf_user_id cfg = uid then Some cfg else None)"

text \<open>Sandbox to validation to live, both moves of the machine; an error of the gate is recorded.\<close>

definition promote_strategy ::
    "control_env \<Rightarrow> int \<Rightarrow> int \<Rightarrow> control_state \<Rightarrow> control_error option \<times> control_state" where
  "promote_strategy env uid cid cs =
     (case owned_config cs uid cid of
        None \<Rightarrow> (Some (LookupError ''Auto-trade config not found.''), cs)
      | Some cfg \<Rightarrow>
      case stage_of (cf_lifecycle_stage cfg) of
        None \<Rightarrow> (Some (ValueErr ''not a valid LifecycleStage''), cs)
      | Some stage \<Rightarrow>
          if stage \<noteq> SANDBOX then (Some (InvalidPromotion ''Only sandbox strategies can be promoted''), cs)
          else
            let d = evaluate_promotion env cs cfg in
            if \<not> pd_can_promote d
            then (Some (PromotionGateError d),
                  emit_to ''promotion_gate_failed'' ''warning''
                    (record_promotion_event
                      \<lparr>pe_config_id = cid, pe_from_stage = stage_value stage, pe_to_stage = stage_value stage,
                       pe_decision = ''gate_failed'', pe_criteria = pd_criteria d\<rparr> cs))
            else (case apply_transition stage REQUEST_PROMOTION of
                    Inl e \<Rightarrow> (Some (InvalidPromotion ''request''), cs)
                  | Inr s1 \<Rightarrow>
                  case apply_transition s1 GATE_PASSED of
                    Inl e \<Rightarrow> (Some (InvalidPromotion ''gate''), cs)
                  | Inr s2 \<Rightarrow>
                      (None,
                       emit_to ''strategy_promoted'' ''info''
                         (record_promotion_event
                           \<lparr>pe_config_id = cid, pe_from_stage = ''sandbox'', pe_to_stage = stage_value s2,
                            pe_decision = ''promoted'', pe_criteria = pd_criteria d\<rparr>
                           (put_config (cfg\<lparr>cf_lifecycle_stage := stage_value s2, cf_sandbox_entered_at := None\<rparr>) cs)))))"

definition demote_strategy ::
    "real \<Rightarrow> int \<Rightarrow> int \<Rightarrow> control_state \<Rightarrow> control_error option \<times> control_state" where
  "demote_strategy now uid cid cs =
     (case owned_config cs uid cid of
        None \<Rightarrow> (Some (LookupError ''Auto-trade config not found.''), cs)
      | Some cfg \<Rightarrow>
      case stage_of (cf_lifecycle_stage cfg) of
        None \<Rightarrow> (Some (ValueErr ''not a valid LifecycleStage''), cs)
      | Some stage \<Rightarrow>
      case apply_transition stage DEMOTE of
        Inl (InvalidPromotionError m) \<Rightarrow> (Some (InvalidPromotion m), cs)
      | Inr s \<Rightarrow>
          (let c1 = cfg\<lparr>cf_lifecycle_stage := stage_value s, cf_sandbox_entered_at := Some now\<rparr>;
               c2 = (if cf_is_running c1 then stopped now c1 else c1)
           in (None,
               emit_to ''strategy_demoted'' ''warning''
                 (record_promotion_event
                   \<lparr>pe_config_id = cid, pe_from_stage = cf_lifecycle_stage cfg, pe_to_stage = stage_value s,
                    pe_decision = ''demoted'', pe_criteria = []\<rparr>
                   (put_config c2 cs)))))"

section \<open>Risk limits\<close>

definition exchange_max_leverage :: "string \<Rightarrow> int" where
  "exchange_max_leverage name =
     (let n = py_lower (py_strip name) in if n = ''binance'' then 125 else if n = ''bybit'' then 100 else 125)"

definition assert_leverage_ceiling :: "string \<Rightarrow> int \<Rightarrow> control_error option" where
  "assert_leverage_ceiling name limit =
     (if limit > exchange_max_leverage name
      then Some (ValueErr ''leverage_ceiling exceeds the maximum leverage of the exchange.'') else None)"

definition account_exchange :: "control_state \<Rightarrow> int \<Rightarrow> string" where
  "account_exchange cs aid = (case cs_accounts cs aid of None \<Rightarrow> [] | Some a \<Rightarrow> ea_exchange_name a)"

definition risk_ceiling_error :: "control_state \<Rightarrow> int \<Rightarrow> risk_config \<Rightarrow> control_error option" where
  "risk_ceiling_error cs cid risk =
     (case (rc_leverage_ceiling risk, config_of cs cid) of
        (Some n, Some cfg) \<Rightarrow> assert_leverage_ceiling (account_exchange cs (cf_account_id cfg)) n
      | _ \<Rightarrow> None)"

text \<open>The payload replaces the whole row; without one the row stays.\<close>

definition apply_risk_config :: "int \<Rightarrow> risk_config option \<Rightarrow> control_state \<Rightarrow> control_error + control_state" where
  "apply_risk_config cid risk cs =
     (case risk of
        None \<Rightarrow> Inr cs
      | Some r \<Rightarrow>
          (case risk_ceiling_error cs cid r of
             Some e \<Rightarrow> Inl e
           | None \<Rightarrow> Inr (upd_db (\<lambda>db. db\<lparr>td_risk := (td_risk db)(cid \<mapsto> r)\<rparr>) cs)))"

fun apply_risk_to :: "int list \<Rightarrow> risk_config \<Rightarrow> control_state \<Rightarrow> control_error + control_state" where
  "apply_risk_to [] risk cs = Inr cs"
| "apply_risk_to (cid # ids) risk cs =
     (case apply_risk_config cid (Some risk) cs of Inl e \<Rightarrow> Inl e | Inr cs' \<Rightarrow> apply_risk_to ids risk cs')"

text \<open>One transaction: an error leaves the state before it.\<close>

definition apply_risk_config_to_all_strategies ::
    "int \<Rightarrow> risk_config \<Rightarrow> control_state \<Rightarrow> (control_error + nat) \<times> control_state" where
  "apply_risk_config_to_all_strategies uid risk cs =
     (let ids = map cf_id (configs_of cs uid) in
      case apply_risk_to ids risk cs of Inl e \<Rightarrow> (Inl e, cs) | Inr cs' \<Rightarrow> (Inr (length ids), cs'))"

section \<open>Sweeps\<close>

definition active_ids :: "control_state \<Rightarrow> int list" where
  "active_ids cs =
     filter (\<lambda>cid. case config_of cs cid of None \<Rightarrow> False | Some c \<Rightarrow> cf_enabled c \<and> cf_is_running c) (cs_config_ids cs)"

text \<open>Every sweep goes over the ids taken at its start; each step sees the state the earlier ones left,
  and a step that raises is rolled back. A step reports whether it evaluated its configuration and
  whether it acted.\<close>

fun sweep ::
    "(int \<Rightarrow> bool) \<Rightarrow> (int \<Rightarrow> control_state \<Rightarrow> (bool \<times> bool) \<times> control_state) \<Rightarrow> int list \<Rightarrow> nat \<times> nat \<times> nat \<Rightarrow> control_state
      \<Rightarrow> (nat \<times> nat \<times> nat) \<times> control_state" where
  "sweep fails step [] stats cs = (stats, cs)"
| "sweep fails step (i # is) (evaluated, acted, errors) cs =
     (if fails i then sweep fails step is (evaluated, acted, errors + 1) cs
      else
        let ((ev, act), cs') = step i cs
        in sweep fails step is (evaluated + (if ev then 1 else 0), acted + (if act then 1 else 0), errors) cs')"

definition kpi_decision :: "signal_env \<Rightarrow> int \<Rightarrow> trade_db \<Rightarrow> guard_decision" where
  "kpi_decision env cid db =
     (let (pnl, balance) = guard_loss_inputs env (td_risk db cid) (td_configs db cid \<noteq> None)
      in evaluate_kpi_guard (se_health env) (td_risk db cid) pnl balance)"

definition kpi_guard_step :: "control_env \<Rightarrow> int \<Rightarrow> control_state \<Rightarrow> (bool \<times> bool) \<times> control_state" where
  "kpi_guard_step env cid cs =
     (case config_of cs cid of
        None \<Rightarrow> ((False, False), cs)
      | Some cfg \<Rightarrow>
          if \<not> cf_is_running cfg then ((False, False), cs)
          else ((True, gd_should_pause (kpi_decision (ce_signal env cid) cid (cs_db cs))),
                upd_db (apply_kpi_guard (ce_signal env cid) cid) cs))"

definition sweep_kpi_guards :: "control_env \<Rightarrow> control_state \<Rightarrow> (nat \<times> nat \<times> nat) \<times> control_state" where
  "sweep_kpi_guards env cs = sweep (ce_fails env) (kpi_guard_step env) (active_ids cs) (0, 0, 0) cs"

definition promotion_gate_step :: "control_env \<Rightarrow> int \<Rightarrow> control_state \<Rightarrow> (bool \<times> bool) \<times> control_state" where
  "promotion_gate_step env cid cs =
     (case config_of cs cid of
        None \<Rightarrow> ((False, False), cs)
      | Some cfg \<Rightarrow>
          if cf_lifecycle_stage cfg \<noteq> ''sandbox'' then ((False, False), cs)
          else if \<not> pd_can_promote (evaluate_promotion env cs cfg) \<or> ce_recently_ready env cid then ((True, False), cs)
          else ((True, True), emit_to ''promotion_ready'' ''info'' cs))"

definition sweep_promotion_gates :: "control_env \<Rightarrow> control_state \<Rightarrow> (nat \<times> nat \<times> nat) \<times> control_state" where
  "sweep_promotion_gates env cs =
     sweep (ce_fails env) (promotion_gate_step env)
       (filter (\<lambda>cid. map_option cf_lifecycle_stage (config_of cs cid) = Some ''sandbox'') (active_ids cs)) (0, 0, 0) cs"

text \<open>Per user; the users are numbers too, so \<open>ce_fails\<close> and the drawdown are asked for the user.\<close>

definition active_users :: "control_state \<Rightarrow> int list" where
  "active_users cs =
     List.sort (remdups (List.map_filter (\<lambda>cid. map_option cf_user_id (config_of cs cid)) (active_ids cs)))"

definition portfolio_dd_step :: "control_env \<Rightarrow> real \<Rightarrow> int \<Rightarrow> control_state \<Rightarrow> (bool \<times> bool) \<times> control_state" where
  "portfolio_dd_step env threshold uid cs =
     (if ce_portfolio_dd env uid < threshold then ((True, False), cs)
      else
        let (ss, cs1) = set_running_bulk (ce_now env) uid False cs
        in if BulkOk \<in> set ss then ((True, True), emit_to ''portfolio_dd_halt'' ''warning'' cs1) else ((True, False), cs1))"

definition sweep_portfolio_dd_guards ::
    "control_env \<Rightarrow> bool \<Rightarrow> real \<Rightarrow> control_state \<Rightarrow> (nat \<times> nat \<times> nat) \<times> control_state" where
  "sweep_portfolio_dd_guards env halt_enabled threshold cs =
     (if \<not> halt_enabled \<or> threshold \<le> 0 then ((0, 0, 0), cs)
      else sweep (ce_fails env) (portfolio_dd_step env threshold) (active_users cs) (0, 0, 0) cs)"

section \<open>Accounts\<close>

text \<open>The mode part of \<^verbatim>\<open>update_account\<close> of the credentials service.\<close>

definition update_account_mode :: "int \<Rightarrow> int \<Rightarrow> string \<Rightarrow> control_state \<Rightarrow> control_error + control_state" where
  "update_account_mode uid aid mode cs =
     (case cs_accounts cs aid of
        None \<Rightarrow> Inl (LookupError ''Exchange account not found.'')
      | Some a \<Rightarrow>
          if ea_user_id a \<noteq> uid then Inl (LookupError ''Exchange account not found.'')
          else
            let normalized = py_lower (py_strip mode)
            in if normalized \<notin> {''demo'', ''real''} then Inl (ValueErr ''Unsupported trading mode.'')
               else Inr (cs\<lparr>cs_accounts := (cs_accounts cs)(aid \<mapsto> a\<lparr>ea_mode := normalized\<rparr>)\<rparr>))"

end
