(* ===== verification/Config_Upsert.thy ===== *)
theory Config_Upsert
  imports Strategy_Control
begin

text \<open>
  Writing configurations: the request schema of \<^verbatim>\<open>app/schemas/auto_trade.py\<close>, \<^verbatim>\<open>upsert_config\<close>, the
  revisions and \<^verbatim>\<open>rollback_config\<close> of \<^verbatim>\<open>app/services/auto_trade/service.py\<close>; and the moves of the whole
  control plane as a step relation with its invariants. A strategy profile is carried as the JSON
  text it is stored as, so the request carries what \<^verbatim>\<open>_serialize_strategy_profile\<close> gives; \<open>None\<close> outside
  says the field was not sent. A revision keeps the columns themselves; its content hash is taken to
  be injective.
\<close>

section \<open>The request\<close>

text \<open>\<open>^1:(\d+(?:[.,]\d+)?)$\<close>, the text after the colon with the comma read as a point.\<close>

definition ratio_text :: "string \<Rightarrow> string option" where
  "ratio_text raw =
     (case raw of
        a # b # rest \<Rightarrow>
          if a = CHR ''1'' \<and> b = CHR '':''
          then (let whole = takeWhile is_digit rest; tail = dropWhile is_digit rest in
                if whole = [] then None
                else case tail of
                       [] \<Rightarrow> Some whole
                     | c # decs \<Rightarrow>
                         if (c = CHR ''.'' \<or> c = CHR '','') \<and> decs \<noteq> [] \<and> list_all is_digit decs
                         then Some (whole @ CHR ''.'' # decs) else None)
          else None
      | _ \<Rightarrow> None)"

text \<open>The ratio; the normalised text is \<open>1:\<close> and the ratio in the general format.\<close>

definition parse_risk_mode :: "(real \<Rightarrow> string) \<Rightarrow> string \<Rightarrow> control_error + string \<times> real" where
  "parse_risk_mode fmt_g text =
     (case ratio_text (py_strip text) of
        None \<Rightarrow> Inl (ValueErr ''risk_mode must look like 1:2 or 1:2.5.'')
      | Some t \<Rightarrow>
          (case py_float (VStr t) of
             Inl e \<Rightarrow> Inl (ValueErr ''risk_mode must contain a valid ratio.'')
           | Inr ratio \<Rightarrow>
               if ratio \<le> 0 then Inl (ValueErr ''risk_mode ratio must be a positive finite number.'')
               else Inr (''1:'' @ fmt_g ratio, ratio)))"

record upsert_request =
  uq_enabled :: bool
  uq_profile_id :: int
  uq_account_id :: int
  uq_position_size_usdt :: real
  uq_leverage :: int
  uq_min_confidence_pct :: real
  uq_fast_close_confidence_pct :: real
  uq_confirm_reports_required :: int
  uq_risk_mode :: string
  uq_sl_pct :: real
  uq_tp_pct :: real
  uq_strategy_profile :: "pydict option option"
  uq_strategy_name :: "string option option"
  uq_attached_forecast_id :: "string option option"
  uq_risk :: "risk_config option"

definition short_text :: "string option option \<Rightarrow> bool" where
  "short_text v = (case v of Some (Some s) \<Rightarrow> length s \<le> 64 | _ \<Rightarrow> True)"

definition opt_in :: "('a \<Rightarrow> bool) \<Rightarrow> 'a option \<Rightarrow> bool" where
  "opt_in P v = (case v of None \<Rightarrow> True | Some x \<Rightarrow> P x)"

definition percent :: "real \<Rightarrow> bool" where
  "percent x = (0 < x \<and> x \<le> 100)"

text \<open>The field bounds of the risk block.\<close>

definition risk_bounds_ok :: "risk_config \<Rightarrow> bool" where
  "risk_bounds_ok r =
     (opt_in (\<lambda>x. 0 \<le> x) (rc_daily_loss_limit_usdt r) \<and> opt_in percent (rc_daily_loss_limit_pct r)
      \<and> opt_in (\<lambda>n. 1 \<le> n) (rc_max_open_positions r) \<and> opt_in (\<lambda>n. 1 \<le> n) (rc_max_open_positions_per_symbol r)
      \<and> opt_in (\<lambda>x. 0 < x) (rc_exposure_cap_usdt r) \<and> opt_in (\<lambda>n. 1 \<le> n \<and> n \<le> 125) (rc_leverage_ceiling r)
      \<and> rc_conflicting_signal_policy r \<in> {''off'', ''block_opposite''}
      \<and> opt_in percent (rc_kpi_guard_max_dd_pct r) \<and> opt_in (\<lambda>x. 0 \<le> x) (rc_kpi_guard_max_daily_loss_usdt r)
      \<and> opt_in percent (rc_kpi_guard_max_daily_loss_pct r)
      \<and> opt_in (\<lambda>x. 0 \<le> x \<and> x \<le> 100) (rc_kpi_guard_min_win_rate_pct r) \<and> opt_in (\<lambda>n. 1 \<le> n) (rc_kpi_guard_min_trades r)
      \<and> opt_in (\<lambda>x. 1 < x) (rc_kill_switch_atr_spike_mult r) \<and> opt_in (\<lambda>n. 2 \<le> n) (rc_kill_switch_atr_period r)
      \<and> opt_in (\<lambda>x. 0 < x) (rc_kill_switch_price_move_pct r) \<and> opt_in (\<lambda>n. 0 \<le> n) (rc_kill_switch_cooldown_seconds r)
      \<and> opt_in (\<lambda>x. 0 < x \<and> x \<le> 20) (rc_anomaly_z_threshold r) \<and> opt_in (\<lambda>n. 2 \<le> n \<and> n \<le> 1000) (rc_anomaly_window r)
      \<and> opt_in (\<lambda>x. 0 \<le> x \<and> x \<le> 100) (rc_promote_min_win_rate_pct r) \<and> opt_in percent (rc_promote_max_dd_pct r)
      \<and> opt_in (\<lambda>n. 1 \<le> n) (rc_promote_min_trades r) \<and> opt_in (\<lambda>x. 0 \<le> x) (rc_promote_min_sandbox_days r))"

definition request_bounds_ok :: "upsert_request \<Rightarrow> bool" where
  "request_bounds_ok q =
     (0 < uq_profile_id q \<and> 0 < uq_account_id q \<and> 0 < uq_position_size_usdt q
      \<and> 1 \<le> uq_leverage q \<and> uq_leverage q \<le> 125
      \<and> 1 \<le> uq_min_confidence_pct q \<and> uq_min_confidence_pct q \<le> 100
      \<and> 1 \<le> uq_fast_close_confidence_pct q \<and> uq_fast_close_confidence_pct q \<le> 100
      \<and> 1 \<le> uq_confirm_reports_required q \<and> uq_confirm_reports_required q \<le> 5
      \<and> 0 < uq_sl_pct q \<and> 0 < uq_tp_pct q
      \<and> short_text (uq_strategy_name q) \<and> short_text (uq_attached_forecast_id q)
      \<and> opt_in risk_bounds_ok (uq_risk q))"

definition validate_request :: "(real \<Rightarrow> string) \<Rightarrow> upsert_request \<Rightarrow> control_error + upsert_request" where
  "validate_request fmt_g q =
     (if \<not> request_bounds_ok q then Inl (ValueErr ''field out of bounds'')
      else if uq_fast_close_confidence_pct q < uq_min_confidence_pct q
      then Inl (ValueErr ''fast_close_confidence_pct must be greater than or equal to min_confidence_pct.'')
      else case parse_risk_mode fmt_g (uq_risk_mode q) of
             Inl e \<Rightarrow> Inl e
           | Inr (normalized, expected) \<Rightarrow>
               if \<bar>uq_tp_pct q / uq_sl_pct q - expected\<bar> > 1 / 100
               then Inl (ValueErr ''tp_pct/sl_pct must match risk_mode'')
               else Inr (q\<lparr>uq_risk_mode := normalized\<rparr>))"

section \<open>Writing\<close>

definition default_overlay :: overlay_config where
  "default_overlay =
     \<lparr>ov_enabled = False, ov_entry_side_lock_enabled = False, ov_atr_scaling_enabled = False,
      ov_rsi_scaling_enabled = False, ov_stale_max_minutes = 240, ov_min_strength = 4 / 10, ov_atr_low = 8 / 10,
      ov_atr_high = 12 / 10, ov_rsi_max_shift = 5\<rparr>"

definition new_config :: "real \<Rightarrow> int \<Rightarrow> int \<Rightarrow> upsert_request \<Rightarrow> auto_config" where
  "new_config now cid uid q =
     \<lparr>cf_id = cid, cf_user_id = uid, cf_profile_id = uq_profile_id q, cf_account_id = uq_account_id q,
      cf_enabled = uq_enabled q, cf_is_running = False, cf_position_size_usdt = uq_position_size_usdt q,
      cf_leverage = uq_leverage q, cf_min_confidence_pct = uq_min_confidence_pct q,
      cf_fast_close_confidence_pct = uq_fast_close_confidence_pct q,
      cf_confirm_reports_required = uq_confirm_reports_required q, cf_sl_pct = uq_sl_pct q, cf_tp_pct = uq_tp_pct q,
      cf_strategy_profile_json = (case uq_strategy_profile q of None \<Rightarrow> None | Some v \<Rightarrow> v),
      cf_overlay = default_overlay, cf_lifecycle_stage = ''sandbox'', cf_risk_mode = uq_risk_mode q,
      cf_strategy_name = (case uq_strategy_name q of None \<Rightarrow> None | Some v \<Rightarrow> v),
      cf_attached_forecast_id = (case uq_attached_forecast_id q of None \<Rightarrow> None | Some v \<Rightarrow> v),
      cf_last_started_at = None, cf_last_stopped_at = (if uq_enabled q then None else Some now),
      cf_created_at = now, cf_sandbox_entered_at = Some now, cf_risk_off_latched = False,
      cf_risk_off_reason = None, cf_risk_off_at = None\<rparr>"

definition updated_config :: "real \<Rightarrow> upsert_request \<Rightarrow> auto_config \<Rightarrow> auto_config" where
  "updated_config now q row =
     (let r1 = row\<lparr>cf_profile_id := uq_profile_id q, cf_account_id := uq_account_id q, cf_enabled := uq_enabled q\<rparr>;
          r2 = (if uq_enabled q then r1 else stopped now r1);
          r3 = r2\<lparr>cf_position_size_usdt := uq_position_size_usdt q, cf_leverage := uq_leverage q,
                  cf_min_confidence_pct := uq_min_confidence_pct q,
                  cf_fast_close_confidence_pct := uq_fast_close_confidence_pct q,
                  cf_confirm_reports_required := uq_confirm_reports_required q,
                  cf_risk_mode := uq_risk_mode q, cf_sl_pct := uq_sl_pct q, cf_tp_pct := uq_tp_pct q\<rparr>;
          r4 = (case uq_strategy_profile q of None \<Rightarrow> r3 | Some v \<Rightarrow> r3\<lparr>cf_strategy_profile_json := v\<rparr>);
          r5 = (case uq_strategy_name q of None \<Rightarrow> r4 | Some v \<Rightarrow> r4\<lparr>cf_strategy_name := v\<rparr>)
      in case uq_attached_forecast_id q of None \<Rightarrow> r5 | Some v \<Rightarrow> r5\<lparr>cf_attached_forecast_id := v\<rparr>)"

definition content_snapshot :: "control_state \<Rightarrow> auto_config \<Rightarrow> config_snapshot" where
  "content_snapshot cs c =
     \<lparr>sn_enabled = cf_enabled c, sn_profile_id = cf_profile_id c, sn_account_id = cf_account_id c,
      sn_position_size_usdt = cf_position_size_usdt c, sn_leverage = cf_leverage c,
      sn_min_confidence_pct = cf_min_confidence_pct c, sn_fast_close_confidence_pct = cf_fast_close_confidence_pct c,
      sn_confirm_reports_required = cf_confirm_reports_required c, sn_risk_mode = cf_risk_mode c,
      sn_sl_pct = cf_sl_pct c, sn_tp_pct = cf_tp_pct c, sn_strategy_profile = cf_strategy_profile_json c,
      sn_strategy_name = cf_strategy_name c, sn_attached_forecast_id = cf_attached_forecast_id c,
      sn_risk = td_risk (cs_db cs) (cf_id c)\<rparr>"

text \<open>The latest revision of a configuration; numbers grow, so it is the last one recorded.\<close>

definition latest_revision :: "control_state \<Rightarrow> int \<Rightarrow> config_revision option" where
  "latest_revision cs cid = find (\<lambda>r. rv_config_id r = cid) (rev (cs_revisions cs))"

definition record_config_revision :: "int \<Rightarrow> control_state \<Rightarrow> control_state" where
  "record_config_revision cid cs =
     (case config_of cs cid of
        None \<Rightarrow> cs
      | Some c \<Rightarrow>
          let snap = content_snapshot cs c;
              add = (\<lambda>n. cs\<lparr>cs_revisions := cs_revisions cs @ [\<lparr>rv_id = cs_next_revision cs, rv_config_id = cid,
                                                               rv_number = n, rv_snapshot = snap\<rparr>],
                            cs_next_revision := cs_next_revision cs + 1\<rparr>)
          in case latest_revision cs cid of
               None \<Rightarrow> add 1
             | Some r \<Rightarrow> if rv_snapshot r = snap then cs else add (rv_number r + 1))"

definition supported_futures_exchange :: "string \<Rightarrow> bool" where
  "supported_futures_exchange name = (name = ''bybit'' \<or> name = ''binance'')"

definition owned_profile :: "control_state \<Rightarrow> int \<Rightarrow> int \<Rightarrow> analysis_profile option" where
  "owned_profile cs uid pid =
     (case td_profiles (cs_db cs) pid of None \<Rightarrow> None | Some p \<Rightarrow> if an_user_id p = uid then Some p else None)"

definition open_row_of :: "trade_db \<Rightarrow> int \<Rightarrow> int \<Rightarrow> bool" where
  "open_row_of db uid aid = list_ex (\<lambda>p. ap_user_id p = uid \<and> ap_account_id p = aid \<and> ap_status p = ''open'') (td_positions db)"

text \<open>Whether a position is in the way of a change of profile, after agreeing with the exchange.\<close>

definition blocking_position ::
    "signal_env \<Rightarrow> int \<Rightarrow> auto_config \<Rightarrow> control_state \<Rightarrow> (control_error + bool) \<times> trade_db" where
  "blocking_position senv uid row cs =
     (let db = cs_db cs; in_table = (Inr (open_row_of db uid (cf_account_id row)), db) in
      case owned_profile cs uid (cf_profile_id row) of
        None \<Rightarrow> in_table
      | Some p \<Rightarrow>
      case to_linear_perp_symbol (an_symbol p) of
        Inl e \<Rightarrow> in_table
      | Inr symbol \<Rightarrow>
      case sync_open_position_with_exchange senv row symbol None True True db of
        (Inl (ServiceError m r), db1) \<Rightarrow> (Inr (open_row_of db1 uid (cf_account_id row)), db1)
      | (Inl (OtherError m), db1) \<Rightarrow> (Inl (UnexpectedError m), db1)
      | (Inr (pid, changed, live), db1) \<Rightarrow> (Inr (pid \<noteq> None), db1))"

definition finish_upsert :: "int \<Rightarrow> upsert_request \<Rightarrow> control_state \<Rightarrow> control_error option \<times> control_state" where
  "finish_upsert cid q cs =
     (case apply_risk_config cid (uq_risk q) cs of
        Inl e \<Rightarrow> (Some e, cs)
      | Inr cs1 \<Rightarrow> (None, record_config_revision cid cs1))"

definition upsert_new :: "real \<Rightarrow> int \<Rightarrow> upsert_request \<Rightarrow> control_state \<Rightarrow> control_error option \<times> control_state" where
  "upsert_new now uid q cs =
     (let cid = cs_next_config cs;
          shared = list_ex (\<lambda>c. cf_profile_id c = uq_profile_id q) (configs_of cs uid);
          cs1 = emit_to ''config_created'' ''info''
                  (put_config (new_config now cid uid q)
                    (cs\<lparr>cs_config_ids := cs_config_ids cs @ [cid], cs_next_config := cid + 1\<rparr>))
      in finish_upsert cid q (if shared then emit_to ''config_shares_profile_with'' ''info'' cs1 else cs1))"

definition upsert_existing ::
    "real \<Rightarrow> signal_env \<Rightarrow> int \<Rightarrow> upsert_request \<Rightarrow> auto_config \<Rightarrow> control_state \<Rightarrow> control_error option \<times> control_state" where
  "upsert_existing now senv uid q row cs =
     (let change = (cf_profile_id row \<noteq> uq_profile_id q \<or> cf_account_id row \<noteq> uq_account_id q);
          (blocked, db1) = (if change then blocking_position senv uid row cs else (Inr False, cs_db cs))
      in case blocked of
           Inl e \<Rightarrow> (Some e, cs)
         | Inr b \<Rightarrow>
             if change \<and> cf_is_running row
             then (Some (ValueErr ''Cannot change profile_id/account_id while auto-trade is running.''), cs)
             else if b
             then (Some (ValueErr ''Cannot change profile_id/account_id while an auto-trade position is open.''), cs)
             else finish_upsert (cf_id row) q
                    (emit_to ''config_updated'' ''info'' (put_config (updated_config now q row) (cs\<lparr>cs_db := db1\<rparr>))))"

text \<open>A request that raises is rolled back, except that what was committed before stays: the row of
  the configuration when writing the risk limits fails.\<close>

definition upsert_config ::
    "real \<Rightarrow> signal_env \<Rightarrow> int \<Rightarrow> upsert_request \<Rightarrow> control_state \<Rightarrow> control_error option \<times> control_state" where
  "upsert_config now senv uid q cs =
     (case owned_profile cs uid (uq_profile_id q) of
        None \<Rightarrow> (Some (LookupError ''Personal analysis profile not found.''), cs)
      | Some p \<Rightarrow>
      case to_linear_perp_symbol (an_symbol p) of
        Inl e \<Rightarrow> (Some (ValueErr ''Unsupported profile symbol for linear futures''), cs)
      | Inr symbol \<Rightarrow>
      case cs_accounts cs (uq_account_id q) of
        None \<Rightarrow> (Some (LookupError ''Exchange account not found.''), cs)
      | Some a \<Rightarrow>
          if ea_user_id a \<noteq> uid then (Some (LookupError ''Exchange account not found.''), cs)
          else if \<not> supported_futures_exchange (ea_exchange_name a)
          then (Some (ValueErr ''Auto-trade futures v1 supports Bybit and Binance USDT-M only.''), cs)
          else (case Option.bind (Option.bind (uq_risk q) rc_leverage_ceiling)
                       (assert_leverage_ceiling (ea_exchange_name a)) of
                  Some e \<Rightarrow> (Some e, cs)
                | None \<Rightarrow>
                    (case find (\<lambda>c. cf_account_id c = uq_account_id q) (configs_of cs uid) of
                       None \<Rightarrow> upsert_new now uid q cs
                     | Some row \<Rightarrow> upsert_existing now senv uid q row cs)))"

definition snapshot_request :: "config_snapshot \<Rightarrow> upsert_request" where
  "snapshot_request s =
     \<lparr>uq_enabled = sn_enabled s, uq_profile_id = sn_profile_id s, uq_account_id = sn_account_id s,
      uq_position_size_usdt = sn_position_size_usdt s, uq_leverage = sn_leverage s,
      uq_min_confidence_pct = sn_min_confidence_pct s, uq_fast_close_confidence_pct = sn_fast_close_confidence_pct s,
      uq_confirm_reports_required = sn_confirm_reports_required s, uq_risk_mode = sn_risk_mode s,
      uq_sl_pct = sn_sl_pct s, uq_tp_pct = sn_tp_pct s, uq_strategy_profile = Some (sn_strategy_profile s),
      uq_strategy_name = Some (sn_strategy_name s), uq_attached_forecast_id = Some (sn_attached_forecast_id s),
      uq_risk = sn_risk s\<rparr>"

definition rollback_config ::
    "(real \<Rightarrow> string) \<Rightarrow> real \<Rightarrow> signal_env \<Rightarrow> int \<Rightarrow> int \<Rightarrow> int \<Rightarrow> control_state \<Rightarrow> control_error option \<times> control_state" where
  "rollback_config fmt_g now senv uid cid rid cs =
     (case owned_config cs uid cid of
        None \<Rightarrow> (Some (LookupError ''Auto-trade config not found.''), cs)
      | Some cfg \<Rightarrow>
      case find (\<lambda>r. rv_id r = rid) (cs_revisions cs) of
        None \<Rightarrow> (Some (LookupError ''Config revision not found for this strategy.''), cs)
      | Some r \<Rightarrow>
          if rv_config_id r \<noteq> cid then (Some (LookupError ''Config revision not found for this strategy.''), cs)
          else (case validate_request fmt_g (snapshot_request (rv_snapshot r)) of
                  Inl e \<Rightarrow> (Some e, cs)
                | Inr q \<Rightarrow> upsert_config now senv uid q cs))"

end
