(* ===== verification/Signal_Safety.thy ===== *)
theory Signal_Safety
  imports Signal_Queue
begin

text \<open>
  What one signal of the queue may do: it is acted on once, it enters only through the gate, it closes
  only on a confirmed opposite signal and only with the order that empties the live position.
\<close>

section \<open>One action per signal\<close>

abbreviation last_done :: "int \<Rightarrow> trade_db \<Rightarrow> int" where
  "last_done c db \<equiv> ss_last_processed_history_id (get_state c db)"

lemma get_state_frame: "td_states db' = td_states db \<Longrightarrow> get_state c db' = get_state c db"
  by (simp add: get_state_def)

lemma note_trend_last [simp]: "last_done c (note_trend i t db) = last_done c db"
  by (simp add: note_trend_def)

lemma record_frame_last [simp]: "get_state c (record_order_metadata o' i s p db) = get_state c db"
  "get_state c (fold record_call cs db) = get_state c db"
  "get_state c (fold (\<lambda>(e, l). emit_event e l) es db) = get_state c db"
  "get_state c (maybe_auto_pause_after_close env cfgid db) = get_state c db"
  by (rule get_state_frame, simp)+

lemma order_queue_frame [simp]: "td_order_queue (emit_event e l db) = td_order_queue db"
  "td_order_queue (put_state c s db) = td_order_queue db" "td_order_queue (note_trend c t db) = td_order_queue db"
  "td_order_queue (upd_row i f db) = td_order_queue db" "td_order_queue (record_call k db) = td_order_queue db"
  by (simp_all add: emit_event_def put_state_def note_trend_def upd_row_def record_call_def)

lemma settle_entry_last:
  "settle_entry env cfg s hid symbol sn q tp opened p db = (r, db') \<Longrightarrow> last_done c db' = last_done c db"
  by (auto simp: settle_entry_def Let_def get_state_def note_trend_def split: sum.splits prod.splits if_splits option.splits)

lemma open_position_last:
  "open_position env cfg s hid symbol sn db = (r, db') \<Longrightarrow> last_done c db' = last_done c db"
  by (auto simp: open_position_def Let_def dest!: settle_entry_last [where c = c] split: sum.splits prod.splits option.splits)

lemma close_on_opposite_last:
  "close_on_opposite env cfg s hid row live reason db = (r, db') \<Longrightarrow> last_done c db' = last_done c db"
  by (auto simp: close_on_opposite_def Let_def split: sum.splits prod.splits if_splits option.splits bool.splits)

lemma act_on_signal_last:
  "act_on_signal env cfg s hid h symbol db = (r, db') \<Longrightarrow> last_done c db' = last_done c db"
  by (auto simp: act_on_signal_def process_without_open_position_def process_with_open_position_def Let_def
      dest!: sync_frame(3) [THEN get_state_frame, of _ _ _ _ _ _ _ _ _ c] open_position_last [where c = c]
        close_on_opposite_last [where c = c]
      split: sum.splits prod.splits option.splits gate_outcome.splits if_splits)

lemma note_processed_frame [simp]: "td_calls (note_processed c h a f db) = td_calls db"
  "td_positions (note_processed c h a f db) = td_positions db"
  "td_order_queue (note_processed c h a f db) = td_order_queue db"
  "last_done i (note_processed c h a f db) = (if i = c then max (last_done i db) h else last_done i db)"
  by (simp_all add: note_processed_def Let_def put_state_def get_state_def)

text \<open>Either an item is dropped, and then nothing is traded and its analysis may be noted, or it
  meets the position of its running configuration.\<close>

lemma process_item_cases:
  assumes "process_queue_item env now item db = (r, item', db')"
  shows "(td_calls db' = td_calls db \<and> td_positions db' = td_positions db \<and> td_order_queue db' = td_order_queue db
            \<and> r \<noteq> Inr Completed \<and> (\<forall>c. last_done c db \<le> last_done c db'))
    \<or> (\<exists>cfg h s symbol r1 db1. td_configs db (qi_config_id item) = Some cfg \<and> cf_id cfg = qi_config_id item
         \<and> cf_enabled cfg \<and> cf_is_running cfg \<and> dict_get (td_histories db) (qi_history_id item) = Some h
         \<and> history_signal env h = Inr s \<and> last_done (qi_config_id item) db < qi_history_id item
         \<and> act_on_signal env cfg s (qi_history_id item) h symbol
             (put_state (qi_config_id item) (get_state (qi_config_id item) db) db) = (r1, db1)
         \<and> (case r1 of Some e \<Rightarrow> r = Inl e \<and> db' = db1
              | None \<Rightarrow> r = Inr Completed
                  \<and> db' = note_processed (qi_config_id item) (qi_history_id item) (ps_generated_at s)
                            (Some (ps_confidence_pct s)) db1))"
proof (cases "td_configs db (qi_config_id item)")
  case None
  with assms show ?thesis by (auto simp: process_queue_item_def Let_def)
next
  case (Some cfg)
  show ?thesis
  proof (cases "\<not> se_locked env \<and> cf_id cfg = qi_config_id item \<and> cf_enabled cfg \<and> cf_is_running cfg
      \<and> cf_profile_id cfg = qi_profile_id item \<and> dict_get (td_histories db) (qi_history_id item) \<noteq> None
      \<and> last_done (qi_config_id item) db < qi_history_id item")
    case False
    with Some assms show ?thesis
      by (auto simp: process_queue_item_def Let_def not_less split: if_splits option.splits)
  next
    case True
    then obtain h where h: "dict_get (td_histories db) (qi_history_id item) = Some h" by auto
    show ?thesis
    proof (cases "history_signal env h")
      case (Inl e)
      with True Some h assms show ?thesis
        by (auto simp: process_queue_item_def Let_def)
    next
      case (Inr s)
      with True Some h assms show ?thesis
        by (fastforce simp: process_queue_item_def Let_def
            split: sum.splits prod.splits option.splits if_splits)
    qed
  qed
qed

text \<open>C11: A signal is acted on at most once. Processing an item never lowers the last analysis noted for
  any configuration; a completed item leaves its analysis noted for its configuration; and an item
  whose analysis is already noted sends no order and changes no position and no order task, whatever
  the exchange answers: a replayed or re-enqueued analysis cannot trade twice.\<close>

theorem signal_acted_once:
  assumes "process_queue_item env now item db = (r, item', db')"
  shows "last_done c db \<le> last_done c db'
    \<and> (r = Inr Completed \<longrightarrow> qi_history_id item \<le> last_done (qi_config_id item) db')
    \<and> (qi_history_id item \<le> last_done (qi_config_id item) db \<longrightarrow>
         td_calls db' = td_calls db \<and> td_positions db' = td_positions db \<and> td_order_queue db' = td_order_queue db
         \<and> r \<noteq> Inr Completed)"
  using process_item_cases [OF assms]
  by (auto dest!: act_on_signal_last [where c = c] split: option.splits if_splits)

section \<open>Entering\<close>

fun entry_call :: "trade_call \<Rightarrow> (string \<times> order_side \<times> real) option" where
  "entry_call (AdapterEntry symbol side q c tp sl sc tc) = Some (symbol, side, q)"
| "entry_call (MarketEntry symbol side q c tp sl) = Some (symbol, side, q)"
| "entry_call _ = None"

lemma unprotected_close_no_entry [simp]: "entry_call (unprotected_close_call ee p q) = None"
  by (simp add: unprotected_close_call_def Let_def)

lemma frame_risk [simp]: "td_risk (emit_event e l db) = td_risk db" "td_risk (upd_row i f db) = td_risk db"
  "td_risk (put_state c s db) = td_risk db" "td_histories (emit_event e l db) = td_histories db"
  "td_histories (upd_row i f db) = td_histories db" "td_histories (put_state c s db) = td_histories db"
  by (simp_all add: emit_event_def upd_row_def put_state_def)

lemma position_ids_upd:
  assumes "\<And>r. ap_id (f r) = ap_id r"
  shows "map ap_id (td_positions (upd_row i f db)) = map ap_id (td_positions db)"
  using assms by (simp add: upd_row_def)

lemma position_ids_fold:
  assumes "\<And>r. ap_id (f r) = ap_id r"
  shows "map ap_id (td_positions (fold (\<lambda>r. upd_row (ap_id r) f) rs db)) = map ap_id (td_positions db)"
proof (induction rs arbitrary: db)
  case (Cons r rs)
  show ?case by (simp add: Cons.IH position_ids_upd [OF assms])
qed simp

lemma get_row_none: "get_row db i = None \<longleftrightarrow> i \<notin> set (map ap_id (td_positions db))"
  by (auto simp: get_row_def find_None_iff)

lemma sync_row_id [simp]: "ap_id (sync_row cfg symbol f r) = ap_id r"
  by (simp add: sync_row_def Let_def)

lemma dedup_row_id [simp]: "ap_id (dedup_row now h r) = ap_id r"
  by (simp add: dedup_row_def close_row_def normalize_legacy_closed_position_def)

text \<open>When synchronising gives no row, the account has none that is open, the exchange shows no position
  that can be adopted, and nothing was changed.\<close>

lemma sync_flat:
  assumes "sync_open_position_with_exchange env cfg symbol h emit False db = (Inr (pid, ch, live), db')"
    and "pid = None \<or> (\<exists>i. pid = Some i \<and> get_row db' i = None)"
  shows "open_rows_of cfg db = [] \<and> td_positions db' = td_positions db \<and> td_risk db' = td_risk db
    \<and> se_position env = Inr live
    \<and> (is_position_closed_on_exchange live \<or> (\<exists>f. live = Some f \<and> resolved_entry_price f = None))"
proof (cases "open_rows_of cfg db")
  case Nil
  with assms show ?thesis
    by (auto simp: sync_open_position_with_exchange_def Let_def get_row_none adopted_row_def
        is_position_closed_on_exchange_def split: sum.splits option.splits if_splits)
next
  case (Cons row dups)
  have "row \<in> set (open_rows_of cfg db)" using Cons by simp
  then have "row \<in> set (td_positions db)" by (auto simp: open_rows_of_def)
  then have "ap_id row \<in> set (map ap_id (td_positions db))" by simp
  moreover have "map ap_id (td_positions db') = map ap_id (td_positions db) \<and> pid = Some (ap_id row)"
    using assms(1) Cons
    by (simp add: sync_open_position_with_exchange_def Let_def position_ids_fold position_ids_upd
        split: sum.splits option.splits if_splits) (auto simp: position_ids_fold position_ids_upd)
  ultimately show ?thesis using assms(2) by (auto simp: get_row_none)
qed

lemma entry_gate_admits:
  assumes "entry_gate env cfg s h symbol db = Admit events sn"
  shows "(cf_lifecycle_stage cfg = ''live'' \<or> se_demo env (cf_account_id cfg)) \<and> ps_trend s \<noteq> ''NEUTRAL''
    \<and> \<not> (0 < cf_min_confidence_pct cfg \<and> cf_min_confidence_pct cfg < 1)
    \<and> cf_min_confidence_pct cfg \<le> ps_confidence_pct s
    \<and> (se_freshness_block env \<longrightarrow>
         is_fresh (Some (history_reference h)) (of_int (se_freshness_minutes env)) (ee_now (se_entry env)))
    \<and> rd_allowed (evaluate_pre_trade_risk env cfg s symbol db)
    \<and> 0 < cf_position_size_usdt cfg / ps_price_current s"
  using assms
  by (auto simp: entry_gate_def Let_def should_block_stale_entry_def not_less not_le split: if_splits)

lemma settle_entry_calls:
  assumes "settle_entry env cfg s hid symbol sn q tp opened p db = (r, db')"
  shows "\<exists>new. td_calls db' = td_calls db @ new \<and> (\<forall>c \<in> set new. entry_call c = None)"
  using assms
  by (auto simp: settle_entry_def Let_def split: sum.splits prod.splits if_splits option.splits)

lemma built_symbol:
  "build_position_context rp coerce cfg s ex symbol qty tp sl atr shift = Inr p \<Longrightarrow> pc_symbol p = symbol"
  by (auto simp: build_position_context_def plain_position_context_def Let_def split: option.splits sum.splits)

lemma entry_transition_symbol: "entry_transition ee tr reason md p = Inr p' \<Longrightarrow> pc_symbol p' = pc_symbol p"
  by (auto simp: entry_transition_def split: sum.splits)

lemma open_position_calls:
  assumes "open_position env cfg s hid symbol sn db = (r, db')"
  shows "\<exists>new. td_calls db' = td_calls db @ new
    \<and> (\<forall>c \<in> set new. entry_call c \<in> {None, Some (symbol, entry_side (ps_trend s), cf_position_size_usdt cfg / ps_price_current s)})
    \<and> length (filter (\<lambda>c. entry_call c \<noteq> None) new) \<le> 1"
proof -
  let ?ok = "\<lambda>new. (\<forall>c \<in> set new. entry_call c \<in> {None, Some (symbol, entry_side (ps_trend s), cf_position_size_usdt cfg / ps_price_current s)})
    \<and> length (filter (\<lambda>c. entry_call c \<noteq> None) new) \<le> 1"
  have calls: "(\<forall>c \<in> set cs. entry_call c = Some (pc_symbol p, side, q)) \<and> length cs \<le> 1"
    if "place_entry_order ee p side q coid tp sl = (cs, a)" for ee p side q coid tp sl cs a
    using that by (auto simp: place_entry_order_def Let_def split: if_splits option.splits)
  let ?db1 = "fold (\<lambda>(e, l). emit_event e l)
    (overlay_events (overlay_atr_override env cfg (ps_trend s) sn) (overlay_rsi_shift cfg sn)) db"
  consider "td_calls db' = td_calls db" | "td_calls db' = td_calls db @ [SetLeverage symbol (cf_leverage cfg)]"
    | p coid tp sl cs a where "place_entry_order (se_entry env) p (entry_side (ps_trend s))
          (cf_position_size_usdt cfg / ps_price_current s) coid tp sl = (cs, a)" "pc_symbol p = symbol"
        "case a of Inl e \<Rightarrow> td_calls db' = td_calls db @ SetLeverage symbol (cf_leverage cfg) # cs
          | Inr opened \<Rightarrow> \<exists>tpp. settle_entry env cfg s hid symbol sn (cf_position_size_usdt cfg / ps_price_current s) tpp opened p
              (fold record_call cs (record_call (SetLeverage symbol (cf_leverage cfg)) ?db1)) = (r, db')"
    using assms
    by (fastforce simp: open_position_def Let_def dest!: built_symbol entry_transition_symbol
        split: sum.splits prod.splits option.splits)
  then show ?thesis
  proof cases
    case 3
    note c = calls [OF 3(1)]
    obtain new where "td_calls db' = td_calls db @ SetLeverage symbol (cf_leverage cfg) # cs @ new"
      "\<forall>c \<in> set new. entry_call c = None"
      using 3(3) by (auto split: sum.splits dest!: settle_entry_calls)
    moreover have "filter (\<lambda>c. entry_call c \<noteq> None) new = []" using calculation(2) by (simp add: filter_empty_conv)
    ultimately show ?thesis
      using c 3(2) length_filter_le [of "\<lambda>c. entry_call c \<noteq> None" cs]
      by (intro exI [of _ "SetLeverage symbol (cf_leverage cfg) # cs @ new"]) auto
  qed auto
qed

lemma no_entry_calls:
  "close_on_opposite env cfg s hid row live reason db = (r, db') \<Longrightarrow>
     \<exists>new. td_calls db' = td_calls db @ new \<and> (\<forall>c \<in> set new. entry_call c = None)"
  by (auto simp: close_on_opposite_def Let_def split: sum.splits prod.splits if_splits option.splits bool.splits)

lemma open_side_no_entry:
  "process_with_open_position env cfg s hid row live db = (r, db') \<Longrightarrow>
     \<exists>new. td_calls db' = td_calls db @ new \<and> (\<forall>c \<in> set new. entry_call c = None)"
  by (auto simp: process_with_open_position_def Let_def dest!: no_entry_calls split: if_splits)

lemma risk_frame:
  "td_positions db' = td_positions db \<Longrightarrow> td_risk db' = td_risk db \<Longrightarrow>
     evaluate_pre_trade_risk env cfg s symbol db' = evaluate_pre_trade_risk env cfg s symbol db"
  by (simp add: evaluate_pre_trade_risk_def)

text \<open>What allows an entry with the given symbol, side and quantity.\<close>

definition entry_allowed ::
    "signal_env \<Rightarrow> auto_config \<Rightarrow> parsed_signal \<Rightarrow> history_row \<Rightarrow> trade_db \<Rightarrow> string \<Rightarrow> order_side \<Rightarrow> real \<Rightarrow> bool" where
  "entry_allowed env cfg s h db symbol side q \<longleftrightarrow>
     (cf_lifecycle_stage cfg = ''live'' \<or> se_demo env (cf_account_id cfg))
     \<and> ps_trend s \<noteq> ''NEUTRAL'' \<and> \<not> (0 < cf_min_confidence_pct cfg \<and> cf_min_confidence_pct cfg < 1)
     \<and> cf_min_confidence_pct cfg \<le> ps_confidence_pct s
     \<and> (se_freshness_block env \<longrightarrow>
          is_fresh (Some (history_reference h)) (of_int (se_freshness_minutes env)) (ee_now (se_entry env)))
     \<and> rd_allowed (evaluate_pre_trade_risk env cfg s symbol db)
     \<and> side = entry_side (ps_trend s) \<and> q = cf_position_size_usdt cfg / ps_price_current s \<and> 0 < q
     \<and> open_rows_of cfg db = []
     \<and> (\<exists>live. se_position env = Inr live
          \<and> (is_position_closed_on_exchange live \<or> (\<exists>f. live = Some f \<and> resolved_entry_price f = None)))"

lemma act_on_signal_entries:
  assumes "act_on_signal env cfg s hid h symbol db = (r, db')"
  shows "\<exists>new. td_calls db' = td_calls db @ new \<and> length (filter (\<lambda>c. entry_call c \<noteq> None) new) \<le> 1
    \<and> (\<forall>c \<in> set new. \<forall>sym side q. entry_call c = Some (sym, side, q) \<longrightarrow> entry_allowed env cfg s h db sym side q)"
proof -
  obtain a db1 where sync: "sync_open_position_with_exchange env cfg symbol (Some hid) True False db = (a, db1)"
    by fastforce
  note f = sync_frame(2) [OF sync]
  have none: ?thesis if "\<exists>new. td_calls db' = td_calls db @ new \<and> (\<forall>c \<in> set new. entry_call c = None)"
    using that by (fastforce simp: filter_empty_conv)
  show ?thesis
  proof (cases a)
    case (Inl e)
    with assms sync f show ?thesis by (intro none) (auto simp: act_on_signal_def)
  next
    case (Inr t)
    obtain pid ch live where t: "t = (pid, ch, live)" by (cases t)
    show ?thesis
    proof (cases "case pid of None \<Rightarrow> None | Some i \<Rightarrow> get_row db1 i")
      case (Some row)
      with assms sync Inr t have "process_with_open_position env cfg s hid row live db1 = (r, db')"
        by (simp add: act_on_signal_def)
      from open_side_no_entry [OF this] f show ?thesis by (intro none) auto
    next
      case None
      then have "pid = None \<or> (\<exists>i. pid = Some i \<and> get_row db1 i = None)" by (auto split: option.splits)
      note flat = sync_flat [OF sync [unfolded Inr t] this]
      have p: "process_without_open_position env cfg s hid h symbol db1 = (r, db')"
        using assms sync Inr t None by (simp add: act_on_signal_def)
      show ?thesis
      proof (cases "entry_gate env cfg s h symbol db1")
        case (Refuse events noted)
        with p f show ?thesis by (intro none) (auto simp: process_without_open_position_def split: if_splits)
      next
        case (Admit events sn)
        note g = entry_gate_admits [OF Admit]
        have "entry_allowed env cfg s h db symbol (entry_side (ps_trend s)) (cf_position_size_usdt cfg / ps_price_current s)"
          using g flat by (auto simp: entry_allowed_def risk_frame [of db1 db])
        moreover obtain new where "td_calls db' = td_calls db1 @ new"
          "\<forall>c \<in> set new. entry_call c \<in> {None, Some (symbol, entry_side (ps_trend s), cf_position_size_usdt cfg / ps_price_current s)}"
          "length (filter (\<lambda>c. entry_call c \<noteq> None) new) \<le> 1"
          using p Admit open_position_calls [of env cfg s hid symbol sn _ r db']
          by (force simp: process_without_open_position_def)
        ultimately show ?thesis using f by (intro exI [of _ new]) fastforce
      qed
    qed
  qed
qed

lemma item_entries:
  assumes "process_queue_item env now item db = (r, item', db')"
  shows "\<exists>new. td_calls db' = td_calls db @ new \<and> length (filter (\<lambda>c. entry_call c \<noteq> None) new) \<le> 1
    \<and> (\<forall>c \<in> set new. \<forall>symbol side q. entry_call c = Some (symbol, side, q) \<longrightarrow>
         (\<exists>cfg h s. td_configs db (qi_config_id item) = Some cfg \<and> cf_enabled cfg \<and> cf_is_running cfg
            \<and> dict_get (td_histories db) (qi_history_id item) = Some h \<and> history_signal env h = Inr s
            \<and> entry_allowed env cfg s h db symbol side q))"
proof -
  have put: "entry_allowed env cfg s h (put_state i st db) sym side q = entry_allowed env cfg s h db sym side q"
    for cfg s h i st sym side q
    by (simp add: entry_allowed_def open_rows_of_def risk_frame [of "put_state i st db" db])
  from process_item_cases [OF assms] show ?thesis
  proof (elim disjE exE conjE)
    fix cfg h s symbol r1 db1
    let ?db = "put_state (qi_config_id item) (get_state (qi_config_id item) db) db"
    assume a: "td_configs db (qi_config_id item) = Some cfg" "cf_enabled cfg" "cf_is_running cfg"
      "dict_get (td_histories db) (qi_history_id item) = Some h" "history_signal env h = Inr s"
      and act: "act_on_signal env cfg s (qi_history_id item) h symbol ?db = (r1, db1)"
      and rest: "case r1 of Some e \<Rightarrow> r = Inl e \<and> db' = db1
              | None \<Rightarrow> r = Inr Completed
                  \<and> db' = note_processed (qi_config_id item) (qi_history_id item) (ps_generated_at s)
                            (Some (ps_confidence_pct s)) db1"
    from rest have "td_calls db' = td_calls db1" by (auto split: option.splits)
    with act_on_signal_entries [OF act] a put show ?thesis by fastforce
  qed auto
qed

section \<open>Closing\<close>

text \<open>The decision to close: the signal opposes the position, the ladder has not been engaged, and it is
  confident enough or completes the required run.\<close>

definition close_decided :: "auto_config \<Rightarrow> parsed_signal \<Rightarrow> auto_position \<Rightarrow> signal_state \<Rightarrow> bool" where
  "close_decided cfg s row st \<longleftrightarrow>
     ps_trend s \<noteq> ''NEUTRAL'' \<and> ps_trend s \<noteq> ap_side row \<and> \<not> multi_tp_ladder_engaged row
     \<and> (cf_fast_close_confidence_pct cfg \<le> ps_confidence_pct s
        \<or> cf_confirm_reports_required cfg \<le> ss_opposite_streak st + 1)"

lemma confirmed_answer:
  "confirm_from answer k n = Inr (True, x) \<Longrightarrow>
     \<exists>j. k \<le> j \<and> j < k + n \<and> answer j = Inr x \<and> is_position_closed_on_exchange x"
proof (induction answer k n rule: confirm_from.induct)
  case (2 answer attempt left)
  show ?case
  proof (cases "answer attempt")
    case (Inr latest)
    show ?thesis
    proof (cases "is_position_closed_on_exchange latest \<or> left = 0")
      case True
      with 2(2) Inr show ?thesis by (intro exI [of _ attempt]) (auto split: if_splits)
    next
      case False
      with 2 Inr obtain j where "attempt + 1 \<le> j" "j < attempt + 1 + left" "answer j = Inr x"
          "is_position_closed_on_exchange x" by auto
      then show ?thesis by (intro exI [of _ j]) simp
    qed
  qed (use 2(2) in simp)
qed simp

lemma close_on_opposite_shape:
  assumes "close_on_opposite env cfg s hid row live reason db = (r, db')" and "\<not> is_position_closed_on_exchange live"
  shows "\<exists>f coid. live = Some f \<and> position_epsilon < fp_contracts f
    \<and> td_calls db' = td_calls db
        @ [CloseReduceOnly (ap_symbol row) (if ap_side row = ''LONG'' then SELL else BUY) (fp_contracts f) coid]
    \<and> (td_positions db' = td_positions db
       \<or> r = None \<and> (\<exists>x ord. confirm_position_closed env = Inr (True, x)
            \<and> td_positions db' = map (\<lambda>p. if ap_id p = ap_id row
                  then closed_by_signal_row (ee_now (se_entry env)) reason hid
                         (first_nonzero [no_average ord, no_price ord] (ps_price_current s)) ord p else p) (td_positions db)))"
  using assms
  by (fastforce simp: close_on_opposite_def Let_def is_position_closed_on_exchange_def upd_row_def
      record_call_def record_order_metadata_def
      split: sum.splits prod.splits if_splits option.splits bool.splits)

lemma open_position_decides:
  assumes "process_with_open_position env cfg s hid row live db = (r, db')"
    and "\<not> is_position_closed_on_exchange live" and "close_decided cfg s row (get_state (cf_id cfg) db)"
  obtains reason d where "close_on_opposite env cfg s hid row live reason d = (r, db')"
    and "td_calls d = td_calls db" and "td_positions d = td_positions db"
  using assms by (auto simp: process_with_open_position_def close_decided_def Let_def split: if_splits)

lemma open_position_holds:
  assumes "process_with_open_position env cfg s hid row live db = (r, db')"
    and "\<not> is_position_closed_on_exchange live" and "\<not> close_decided cfg s row (get_state (cf_id cfg) db)"
  shows "r = None" and "td_calls db' = td_calls db" and "td_positions db' = td_positions db"
    and "ps_trend s \<notin> {''NEUTRAL'', ap_side row} \<Longrightarrow> \<not> multi_tp_ladder_engaged row \<Longrightarrow>
           ss_opposite_streak (get_state (cf_id cfg) db') = ss_opposite_streak (get_state (cf_id cfg) db) + 1"
    and "ps_trend s \<in> {''NEUTRAL'', ap_side row} \<Longrightarrow> ss_opposite_streak (get_state (cf_id cfg) db') = 0"
  using assms
  by (auto simp: process_with_open_position_def close_decided_def Let_def note_trend_def split: if_splits)

lemma other_rows_stay:
  "(\<And>p. ap_id (g p) = ap_id p) \<Longrightarrow>
     filter (\<lambda>p. ap_id p \<noteq> i) (map (\<lambda>p. if ap_id p = i then g p else p) ps) = filter (\<lambda>p. ap_id p \<noteq> i) ps"
  by (induction ps) auto


section \<open>The run of opposite reports\<close>

text \<open>Signals that reach the same open position one after the other, up to the first that sends a close:
  its place in the list.\<close>

fun closing_signal ::
    "signal_env \<Rightarrow> auto_config \<Rightarrow> auto_position \<Rightarrow> futures_position option \<Rightarrow> (int \<times> parsed_signal) list \<Rightarrow> trade_db \<Rightarrow> nat option" where
  "closing_signal env cfg row live [] db = None"
| "closing_signal env cfg row live ((hid, s) # rest) db =
     (let (r, db') = process_with_open_position env cfg s hid row live db
      in if td_calls db' \<noteq> td_calls db then Some 0
         else map_option Suc (closing_signal env cfg row live rest db'))"

definition opposes :: "auto_position \<Rightarrow> parsed_signal \<Rightarrow> bool" where
  "opposes row s = (ps_trend s \<noteq> ''NEUTRAL'' \<and> ps_trend s \<noteq> ap_side row)"

text \<open>The opposite reports that end a list of signals.\<close>

definition trailing_run :: "auto_position \<Rightarrow> parsed_signal list \<Rightarrow> int" where
  "trailing_run row ss = int (length (takeWhile (opposes row) (rev ss)))"

lemma trailing_run_snoc: "trailing_run row (ss @ [s]) = (if opposes row s then trailing_run row ss + 1 else 0)"
  by (simp add: trailing_run_def)

definition closes_at :: "auto_config \<Rightarrow> auto_position \<Rightarrow> parsed_signal list \<Rightarrow> nat \<Rightarrow> bool" where
  "closes_at cfg row ss k = (opposes row (ss ! k)
     \<and> (cf_fast_close_confidence_pct cfg \<le> ps_confidence_pct (ss ! k)
        \<or> cf_confirm_reports_required cfg \<le> trailing_run row (take (Suc k) ss)))"

lemma decided_sends:
  assumes "process_with_open_position env cfg s hid row live db = (r, db')" and "\<not> is_position_closed_on_exchange live"
  shows "td_calls db' \<noteq> td_calls db \<longleftrightarrow> close_decided cfg s row (get_state (cf_id cfg) db)"
proof (cases "close_decided cfg s row (get_state (cf_id cfg) db)")
  case True
  obtain reason d where "close_on_opposite env cfg s hid row live reason d = (r, db')" "td_calls d = td_calls db"
    using open_position_decides [OF assms True] .
  with close_on_opposite_shape [OF this(1) assms(2)] True show ?thesis by auto
qed (use open_position_holds(2) [OF assms] in simp)

lemma closing_signal_run:
  assumes "\<not> is_position_closed_on_exchange live" and "\<not> multi_tp_ladder_engaged row"
    and "ss_opposite_streak (get_state (cf_id cfg) db) = trailing_run row pre"
  shows "closing_signal env cfg row live sigs db =
    (if \<exists>k < length sigs. closes_at cfg row (pre @ map snd sigs) (length pre + k)
     then Some (LEAST k. k < length sigs \<and> closes_at cfg row (pre @ map snd sigs) (length pre + k)) else None)"
  using assms(3)
proof (induction sigs arbitrary: pre db)
  case Nil
  then show ?case by simp
next
  case (Cons x rest)
  obtain hid s where x: "x = (hid, s)" by fastforce
  let ?all = "pre @ map snd (x # rest)"
  let ?P = "\<lambda>k. k < length (x # rest) \<and> closes_at cfg row ?all (length pre + k)"
  obtain r db' where p: "process_with_open_position env cfg s hid row live db = (r, db')" by fastforce
  have first: "closes_at cfg row ?all (length pre) \<longleftrightarrow> close_decided cfg s row (get_state (cf_id cfg) db)"
    using Cons.prems assms(2) x
    by (auto simp: closes_at_def close_decided_def opposes_def nth_append trailing_run_snoc)
  show ?case
  proof (cases "close_decided cfg s row (get_state (cf_id cfg) db)")
    case True
    then have "?P 0" using first by simp
    then have "(LEAST k. ?P k) = 0" by (rule Least_eq_0)
    moreover have "\<exists>k < length (x # rest). closes_at cfg row ?all (length pre + k)" using \<open>?P 0\<close> by blast
    ultimately show ?thesis using x p True decided_sends [OF p assms(1)] by simp
  next
    case False
    have streak: "ss_opposite_streak (get_state (cf_id cfg) db') = trailing_run row (pre @ [s])"
      using open_position_holds(4,5) [OF p assms(1) False] assms(2) Cons.prems
      by (auto simp: trailing_run_snoc opposes_def)
    have P: "?P (Suc k) \<longleftrightarrow> k < length rest \<and> closes_at cfg row ((pre @ [s]) @ map snd rest) (length (pre @ [s]) + k)" for k
      using x by simp
    have no0: "\<not> ?P 0" using first False by simp
    have ex: "(\<exists>k. ?P k) \<longleftrightarrow> (\<exists>k. ?P (Suc k))" using no0 by (metis not0_implies_Suc)
    have least: "(LEAST k. ?P k) = Suc (LEAST k. ?P (Suc k))" if "\<exists>k. ?P k"
      using that no0 Least_Suc [of ?P] by blast
    have step: "closing_signal env cfg row live (x # rest) db = map_option Suc (closing_signal env cfg row live rest db')"
      using x p False decided_sends [OF p assms(1)] by simp
    have IH: "closing_signal env cfg row live rest db' = (if \<exists>k. ?P (Suc k) then Some (LEAST k. ?P (Suc k)) else None)"
      unfolding P using Cons.IH [OF streak] by simp
    show ?thesis using step IH ex least by (auto simp del: closing_signal.simps)
  qed
qed


section \<open>Protection of the filled entry\<close>

lemma filled_is_open:
  assumes "entry_transition ee ENTRY_FILLED reason md p = Inr p'"
  shows "pc_state p' = OPEN" and "pc_current_quantity p' = pc_current_quantity p"
    and "pc_original_quantity p' = pc_original_quantity p" and "pc_current_sl_price p' = pc_current_sl_price p"
    and "pc_symbol p' = pc_symbol p" and "pc_side p' = pc_side p"
    and "pc_sl_exchange_order_id p' = pc_sl_exchange_order_id p"
  using assms
  by (cases "pm_state (pc_machine p)"; auto simp: entry_transition_def transition_def Let_def split: sum.splits)+

lemma merged_row:
  assumes "pc_state p \<noteq> CLOSED" and "pc_current_quantity p = q" and "pc_original_quantity p = q"
    and "ap_quantity row = q" and "ap_sl_price row = pc_current_sl_price p"
  shows "ap_quantity (merge_position_context_into_row f n p row) = q"
    and "ap_sl_price (merge_position_context_into_row f n p row) = pc_current_sl_price p"
    and "ap_id (merge_position_context_into_row f n p row) = ap_id row"
  using assms by (simp_all add: merge_position_context_into_row_def Let_def)

lemma get_new_row:
  assumes "\<forall>p \<in> set ps. ap_id p \<noteq> i" and "ap_id row = i" and "\<And>r. ap_id (f r) = ap_id r"
  shows "find (\<lambda>p. ap_id p = i) (ps @ [row]) = Some row"
    and "find (\<lambda>p. ap_id p = i) (map (\<lambda>p. if ap_id p = i then f p else p) (ps @ [row])) = Some (f row)"
  using assms by (induction ps) auto

text \<open>What protects the row of a filled entry: the stop the exchange attached, a pending stop-loss task for
  exactly the row's quantity and stop price, or the reduce-only close of the whole row that was sent.\<close>

definition stop_attached :: "entry_result \<Rightarrow> auto_position \<Rightarrow> bool" where
  "stop_attached opened row = (er_attached_sl opened \<noteq> None \<and> ap_status row = ''open'')"

definition stop_queued :: "(pyval \<Rightarrow> string) \<Rightarrow> queue_state \<Rightarrow> auto_position \<Rightarrow> bool" where
  "stop_queued rp q row \<longleftrightarrow> ap_status row = ''open''
     \<and> (\<exists>params b. dict_get (qs_pending q) (task_key rp (show_int (ap_id row)) ''place_sl'' params) = Some b
          \<and> ot_params (qs_store q b) = params
          \<and> get_none params ''full_quantity'' = VFloat (ap_quantity row)
          \<and> get_none params ''trigger_price'' = VFloat (ap_sl_price row))"

definition closed_unprotected :: "trade_call list \<Rightarrow> auto_position \<Rightarrow> bool" where
  "closed_unprotected calls row \<longleftrightarrow> ap_status row = ''closed'' \<and> ap_close_reason row = Some ''emergency_unprotected''
     \<and> (\<exists>symbol side coid. last calls = PartialCloseMarket symbol side (ap_quantity row) coid)"

lemma runtime_sl_params:
  "ot_position_id (runtime_sl_task ee p) = pc_position_id p" "ot_action (runtime_sl_task ee p) = ''place_sl''"
  "get_none (ot_params (runtime_sl_task ee p)) ''full_quantity'' = VFloat (pc_current_quantity p)"
  "get_none (ot_params (runtime_sl_task ee p)) ''trigger_price'' = VFloat (pc_current_sl_price p)"
  by (simp_all add: runtime_sl_task_def)

lemma initialize_unprotected:
  assumes "initialize_position_runtime ee opened p q = (err, p', q')" and "ee_use_adapter ee"
    and "queue_reachable (ee_repr ee) q" and "er_attached_sl opened = None"
  shows "err \<noteq> None \<and> pc_sl_exchange_order_id p' = pc_sl_exchange_order_id p
    \<or> (\<exists>b. dict_get (qs_pending q') (key_of (ee_repr ee) (runtime_sl_task ee p)) = Some b
         \<and> ot_params (qs_store q' b) = ot_params (runtime_sl_task ee p))"
proof (cases "ee_queue_error ee")
  case None
  with filled_entry_gets_stop [OF assms(3,2) None assms(1)] assms(4) show ?thesis by auto
qed (use assms in \<open>auto simp: initialize_position_runtime_def\<close>)

lemma settled_entry_protected:
  assumes "settle_entry env cfg s hid symbol sn quantity tp opened p db = (None, db')"
    and "ee_use_adapter (se_entry env)" and "queue_reachable (ee_repr (se_entry env)) (td_order_queue db)"
    and "\<forall>r \<in> set (td_positions db). ap_id r \<noteq> td_next_position db"
    and "pc_sl_exchange_order_id p = None"
  shows "\<exists>row. get_row db' (td_next_position db) = Some row
    \<and> ap_quantity row = (if er_filled_quantity opened > position_epsilon then er_filled_quantity opened else quantity)
    \<and> (stop_attached opened row \<or> stop_queued (ee_repr (se_entry env)) (td_order_queue db') row
       \<or> closed_unprotected (td_calls db') row)"
proof -
  let ?ee = "se_entry env"
  let ?rp = "ee_repr ?ee"
  let ?pid = "td_next_position db"
  let ?filled = "if er_filled_quantity opened > position_epsilon then er_filled_quantity opened else quantity"
  let ?entry = "first_nonzero [er_average_price opened, er_price opened, Some (pc_entry_price p)] (ps_price_current s)"
  let ?p1 = "refresh_runtime_prices_after_fill (ee_iso ?ee (ee_now ?ee)) cfg (ps_trend s) ?entry ?filled p"
  obtain p2 where p2: "entry_transition ?ee ENTRY_FILLED ''Auto-trade entry filled'' (fill_meta opened ?filled) ?p1 = Inr p2"
    using assms(1) by (auto simp: settle_entry_def Let_def split: sum.splits)
  define p3 where "p3 = p2\<lparr>pc_position_id := show_int ?pid, pc_machine := (pc_machine p2)\<lparr>pm_position_id := show_int ?pid\<rparr>\<rparr>"
  define row where "row = merge_position_context_into_row (ee_fromiso ?ee) (ee_now ?ee) p3
    (opened_row env cfg s hid symbol sn opened ?entry ?filled tp ?pid p2)"
  obtain err p4 q where init: "initialize_position_runtime ?ee opened p3 (td_order_queue db) = (err, p4, q)"
    by (metis prod_cases3)
  have p3: "pc_state p3 = OPEN" "pc_current_quantity p3 = ?filled" "pc_original_quantity p3 = ?filled"
      "pc_position_id p3 = show_int ?pid"
    using filled_is_open [OF p2] by (simp_all add: p3_def refresh_runtime_prices_after_fill_def split_beta Let_def)
  have row: "ap_quantity row = ?filled" "ap_sl_price row = pc_current_sl_price p3" "ap_id row = ?pid" "ap_status row = ''open''"
    using merged_row [of p3 ?filled "opened_row env cfg s hid symbol sn opened ?entry ?filled tp ?pid p2"] p3
    by (simp_all add: row_def opened_row_def p3_def merge_position_context_into_row_def Let_def status_from_runtime_state_def)
  let ?close = "unprotected_close_call ?ee p4 ?filled"
  have outcome: "if err \<noteq> None \<and> er_attached_sl opened = None \<and> (case pc_sl_exchange_order_id p4 of None \<Rightarrow> True | Some x \<Rightarrow> x = [])
    then td_calls db' = td_calls db @ [?close]
      \<and> td_positions db' = map (\<lambda>r. if ap_id r = ?pid then unprotected_close_row (ee_now ?ee) hid r else r) (td_positions db @ [row])
    else td_positions db' = td_positions db @ [row] \<and> td_order_queue db' = q"
    using assms(1) init [unfolded p3_def]
    by (cases err) (auto simp: settle_entry_def Let_def p2 p3_def row_def upd_row_def record_order_metadata_def
        split: if_splits)
  show ?thesis
  proof (cases "err \<noteq> None \<and> er_attached_sl opened = None
      \<and> (case pc_sl_exchange_order_id p4 of None \<Rightarrow> True | Some x \<Rightarrow> x = [])")
    case True
    have coid: "\<exists>symbol side coid. ?close = PartialCloseMarket symbol side ?filled coid"
      using assms(2) by (simp add: unprotected_close_call_def Let_def)
    have "get_row db' ?pid = Some (unprotected_close_row (ee_now ?ee) hid row)"
      using outcome True get_new_row(2) [of "td_positions db" ?pid row "unprotected_close_row (ee_now ?ee) hid"] assms(4) row(3)
      by (simp add: get_row_def unprotected_close_row_def)
    moreover have "closed_unprotected (td_calls db') (unprotected_close_row (ee_now ?ee) hid row)"
      using outcome True coid row(1) by (auto simp: closed_unprotected_def unprotected_close_row_def)
    ultimately show ?thesis using row(1) by (simp add: unprotected_close_row_def)
  next
    case False
    with outcome have db': "td_positions db' = td_positions db @ [row]" "td_order_queue db' = q" by auto
    then have found: "get_row db' ?pid = Some row"
      using get_new_row(1) [OF assms(4) row(3), of id] by (simp add: get_row_def)
    have "stop_attached opened row \<or> stop_queued ?rp q row"
    proof (cases "er_attached_sl opened")
      case None
      have "pc_sl_exchange_order_id p3 = None"
        using filled_is_open(7) [OF p2] assms(5)
        by (simp add: p3_def refresh_runtime_prices_after_fill_def split_beta Let_def)
      with initialize_unprotected [OF init assms(2,3) None] False None
      obtain b where "dict_get (qs_pending q) (key_of ?rp (runtime_sl_task ?ee p3)) = Some b"
        "ot_params (qs_store q b) = ot_params (runtime_sl_task ?ee p3)" by auto
      then show ?thesis
        using row p3 unfolding stop_queued_def
        by (intro disjI2 conjI exI [of _ "ot_params (runtime_sl_task ?ee p3)"] exI [of _ b])
          (simp_all add: runtime_sl_params)
    qed (use row(4) in \<open>simp add: stop_attached_def\<close>)
    with found row(1) db'(2) show ?thesis by auto
  qed
qed

lemma built_without_stop:
  "build_position_context rp coerce cfg s ex symbol qty tp sl atr shift = Inr p \<Longrightarrow> pc_sl_exchange_order_id p = None"
  by (auto simp: build_position_context_def plain_position_context_def default_context_def Let_def split: option.splits sum.splits)

text \<open>C4: A filled entry is never left bare. When the account trades through the adapter and the opening of
  the position ends without an error, its row carries the filled quantity and either the exchange
  attached the stop to the entry, or a stop-loss task for exactly this quantity and the row's stop
  price is pending in the account's order queue, or the position was closed again: its row is closed
  and the last order sent is the reduce-only close of the whole filled quantity. This holds whichever
  step of the set-up fails.\<close>

theorem entry_never_left_bare:
  assumes "open_position env cfg s hid symbol sn db = (None, db')"
    and "ee_use_adapter (se_entry env)" and "queue_reachable (ee_repr (se_entry env)) (td_order_queue db)"
    and "\<forall>r \<in> set (td_positions db). ap_id r \<noteq> td_next_position db"
  shows "\<exists>opened row. ee_adapter_entry (se_entry env) = Inr opened
    \<and> get_row db' (td_next_position db) = Some row
    \<and> ap_quantity row = (if er_filled_quantity opened > position_epsilon then er_filled_quantity opened
                          else cf_position_size_usdt cfg / ps_price_current s)
    \<and> (stop_attached opened row \<or> stop_queued (ee_repr (se_entry env)) (td_order_queue db') row
       \<or> closed_unprotected (td_calls db') row)"
proof -
  have frames: "td_positions (fold (\<lambda>(e, l). emit_event e l) es d) = td_positions d"
    "td_next_position (fold (\<lambda>(e, l). emit_event e l) es d) = td_next_position d"
    "td_order_queue (fold (\<lambda>(e, l). emit_event e l) es d) = td_order_queue d" for es d
    by (induction es arbitrary: d) (auto simp: emit_event_def)
  have calls: "td_positions (fold record_call cs d) = td_positions d"
    "td_next_position (fold record_call cs d) = td_next_position d"
    "td_order_queue (fold record_call cs d) = td_order_queue d" for cs d
    by (induction cs arbitrary: d) (auto simp: record_call_def)
  have submitted: "pc_sl_exchange_order_id p' = pc_sl_exchange_order_id p"
    if "entry_transition ee tr reason md p = Inr p'" for ee tr reason md p p'
    using that by (auto simp: entry_transition_def split: sum.splits)
  obtain opened p tp d where o: "ee_adapter_entry (se_entry env) = Inr opened"
    "settle_entry env cfg s hid symbol sn (cf_position_size_usdt cfg / ps_price_current s) tp opened p d = (None, db')"
    "td_positions d = td_positions db" "td_next_position d = td_next_position db" "td_order_queue d = td_order_queue db"
    "pc_sl_exchange_order_id p = None"
    using assms(1,2)
    by (fastforce simp: open_position_def Let_def place_entry_order_def frames calls record_call_def
        dest!: built_without_stop submitted
        split: sum.splits prod.splits option.splits)
  from settled_entry_protected [OF o(2) assms(2) _ _ o(6)] o(1,3-5) assms(3,4) show ?thesis by auto
qed

end
