(* ===== verification/Control_Safety.thy ===== *)
theory Control_Safety
  imports Config_Upsert Signal_Safety
begin

text \<open>
  The control plane as a whole: every operation that starts, stops, promotes, writes or trades a
  strategy is a move of the state, and what holds in every state that can be reached by them.
\<close>

section \<open>Trading only calms strategies\<close>

text \<open>A configuration may be stopped or latched, and nothing else of it that matters for running changes.\<close>

definition calmer_config :: "auto_config \<Rightarrow> auto_config \<Rightarrow> bool" where
  "calmer_config c c' \<longleftrightarrow> cf_id c' = cf_id c \<and> cf_user_id c' = cf_user_id c \<and> cf_account_id c' = cf_account_id c
     \<and> cf_enabled c' = cf_enabled c \<and> cf_lifecycle_stage c' = cf_lifecycle_stage c
     \<and> (cf_is_running c' \<longrightarrow> cf_is_running c \<and> cf_risk_off_latched c' = cf_risk_off_latched c)"

definition calmer :: "(int \<rightharpoonup> auto_config) \<Rightarrow> (int \<rightharpoonup> auto_config) \<Rightarrow> bool" where
  "calmer m m' \<longleftrightarrow> (\<forall>cid. rel_option calmer_config (m cid) (m' cid))"

lemma calmer_config_refl [simp]: "calmer_config c c"
  by (simp add: calmer_config_def)

lemma calmer_config_trans: "calmer_config a b \<Longrightarrow> calmer_config b c \<Longrightarrow> calmer_config a c"
  by (auto simp: calmer_config_def)

lemma calmer_refl [simp]: "calmer m m"
  by (simp add: calmer_def option.rel_refl)

lemma calmer_trans: "calmer a b \<Longrightarrow> calmer b c \<Longrightarrow> calmer a c"
  unfolding calmer_def
  by (metis (mono_tags, lifting) calmer_config_trans option.rel_transp transpD transpI)

lemma calmer_upd: "m cid = Some c \<Longrightarrow> calmer_config c c' \<Longrightarrow> calmer m (m(cid \<mapsto> c'))"
  by (simp add: calmer_def option.rel_refl)

lemma emit_configs [simp]: "td_configs (fold (\<lambda>(e, l). emit_event e l) es db) = td_configs db"
  by (induction es arbitrary: db) auto

lemma meta_configs [simp]: "td_configs (record_order_metadata o' c s i db) = td_configs db"
  "td_configs (put_state i st db) = td_configs db" "td_configs (note_processed i h a f db) = td_configs db"
  by (simp_all add: record_order_metadata_def put_state_def note_processed_def Let_def)

lemma calmer_pause: "td_configs db = m \<Longrightarrow> calmer m (td_configs (auto_pause_strategy now cid tr db))"
  by (auto simp: auto_pause_strategy_def calmer_config_def intro: calmer_upd split: option.splits)

lemma calmer_kpi: "td_configs db = m \<Longrightarrow> calmer m (td_configs (apply_kpi_guard env cid db))"
  by (simp add: apply_kpi_guard_def Let_def split_beta calmer_pause)

lemma calmer_after_close: "td_configs db = m \<Longrightarrow> calmer m (td_configs (maybe_auto_pause_after_close env cid db))"
  by (auto simp: maybe_auto_pause_after_close_def calmer_kpi split: option.splits)

lemma sync_configs:
  "sync_open_position_with_exchange env cfg symbol h emit cm db = (r, db') \<Longrightarrow> td_configs db' = td_configs db"
proof -
  have f: "td_configs (fold (\<lambda>r. upd_row (ap_id r) f) rs d) = td_configs d" for f rs d
    by (induction rs arbitrary: d) auto
  show "sync_open_position_with_exchange env cfg symbol h emit cm db = (r, db') \<Longrightarrow> td_configs db' = td_configs db"
    by (auto simp: sync_open_position_with_exchange_def Let_def f split: sum.splits option.splits list.splits if_splits)
qed

lemma settle_configs:
  "settle_entry env cfg s hid symbol sn q tp opened p db = (r, db') \<Longrightarrow> td_configs db' = td_configs db"
  by (auto simp: settle_entry_def Let_def note_trend_def split: sum.splits prod.splits if_splits option.splits)

lemma open_configs:
  "open_position env cfg s hid symbol sn db = (r, db') \<Longrightarrow> td_configs db' = td_configs db"
  by (auto simp: open_position_def Let_def dest!: settle_configs split: sum.splits prod.splits option.splits)

lemma close_calmer:
  "close_on_opposite env cfg s hid row live reason db = (r, db') \<Longrightarrow> calmer (td_configs db) (td_configs db')"
  by (auto simp: close_on_opposite_def Let_def intro!: calmer_after_close
      split: sum.splits prod.splits if_splits option.splits bool.splits)

lemma act_calmer:
  "act_on_signal env cfg s hid h symbol db = (r, db') \<Longrightarrow> calmer (td_configs db) (td_configs db')"
  by (auto simp: act_on_signal_def process_without_open_position_def process_with_open_position_def Let_def
      dest!: sync_configs open_configs close_calmer
      split: sum.splits prod.splits option.splits gate_outcome.splits if_splits)

lemma item_calmer:
  "process_queue_item env now item db = (r, item', db') \<Longrightarrow> calmer (td_configs db) (td_configs db')"
  by (auto simp: process_queue_item_def Let_def dest!: act_calmer
      split: sum.splits prod.splits option.splits if_splits)

lemma run_item_calmer: "calmer (td_configs (snd sd)) (td_configs (snd (run_item sets now env k sd)))"
proof -
  obtain r item db1 where p: "process_queue_item env now (lock_item now (td_items (snd sd) ! k)) (snd sd) = (r, item, db1)"
    by (metis prod_cases3)
  from item_calmer [OF p] p show ?thesis
    by (auto simp: run_item_def Let_def split_beta split: sum.splits prod.splits)
qed

lemma run_batch_calmer: "calmer (td_configs (snd sd)) (td_configs (snd (run_batch sets now envs ks n sd)))"
proof (induction sets now envs ks n sd rule: run_batch.induct)
  case (2 sets now envs k ks n sd)
  then show ?case using calmer_trans [OF run_item_calmer] by simp
qed simp

lemma process_batches_calmer: "calmer (td_configs (snd sd)) (td_configs (snd (process_batches sets now envs n sd)))"
proof (induction sets now envs n sd rule: process_batches.induct)
  case (1 sets now envs n sd)
  let ?b = "poll_batch sets now (snd sd)"
  let ?sd = "run_batch sets now envs ?b n ((fst sd)\<lparr>st_polled := st_polled (fst sd) + length ?b\<rparr>, snd sd)"
  have step: "calmer (td_configs (snd sd)) (td_configs (snd ?sd))"
    using run_batch_calmer [of "((fst sd)\<lparr>st_polled := st_polled (fst sd) + length ?b\<rparr>, snd sd)"] by simp
  show ?case
  proof (cases "?b = [] \<or> length ?b < qt_batch_size sets")
    case True
    then show ?thesis using step by (subst process_batches.simps) (auto simp: Let_def)
  next
    case False
    then have "process_batches sets now envs n sd = process_batches sets now envs (n + length ?b) ?sd"
      by (subst process_batches.simps) (simp add: Let_def)
    with "1.IH" [OF refl _ refl] False calmer_trans [OF step] show ?thesis by simp
  qed
qed

lemma queue_calmer:
  "process_signal_queue sets now envs db = (stats, db') \<Longrightarrow> calmer (td_configs db) (td_configs db')"
  using process_batches_calmer [of "(no_stats, db)" sets now envs 0]
  by (auto simp: process_signal_queue_def split: if_splits)

lemma flatten_all_configs: "flatten_all env reason rows db = (os, db') \<Longrightarrow> td_configs db' = td_configs db"
  by (induction rows arbitrary: db os) (auto split: prod.splits dest: flatten_effect(1))

lemma close_all_calmer:
  "close_open_positions env senv orders cfg confirm reason db = (ans, db') \<Longrightarrow> calmer (td_configs db) (td_configs db')"
  by (auto simp: close_open_positions_def Let_def intro!: calmer_after_close dest!: flatten_all_configs
      split: if_splits prod.splits)

lemma kill_switch_calmer:
  assumes "kill_switch_close_position env pid sig db = (ok, db')"
  shows "calmer (td_configs db) (td_configs db')"
proof -
  have latch: "calmer m (td_configs (latch_risk_off n c re (auto_pause_strategy n c t d)))" if "td_configs d = m" for m d n c re t
    using that by (auto simp: latch_risk_off_def auto_pause_strategy_def calmer_config_def intro: calmer_upd split: option.splits)
  show ?thesis
    using assms
    by (auto simp: kill_switch_close_position_def Let_def dest!: flatten_effect(1) intro!: latch
        split: option.splits prod.splits if_splits)
qed

section \<open>Moves of the control plane\<close>

inductive control_step :: "control_state \<Rightarrow> control_state \<Rightarrow> bool" where
  step_run: "set_running now uid b aid cs = Inr cs' \<Longrightarrow> control_step cs cs'"
| step_bulk: "set_running_bulk now uid b cs = (ss, cs') \<Longrightarrow> control_step cs cs'"
| step_promote: "promote_strategy env uid cid cs = (e, cs') \<Longrightarrow> control_step cs cs'"
| step_demote: "demote_strategy now uid cid cs = (e, cs') \<Longrightarrow> control_step cs cs'"
| step_upsert: "validate_request fmt_g q0 = Inr q \<Longrightarrow> upsert_config now senv uid q cs = (e, cs') \<Longrightarrow> control_step cs cs'"
| step_rollback: "rollback_config fmt_g now senv uid cid rid cs = (e, cs') \<Longrightarrow> control_step cs cs'"
| step_risk: "apply_risk_config_to_all_strategies uid risk cs = (r, cs') \<Longrightarrow> control_step cs cs'"
| step_kpi_sweep: "sweep_kpi_guards env cs = (stats, cs') \<Longrightarrow> control_step cs cs'"
| step_gate_sweep: "sweep_promotion_gates env cs = (stats, cs') \<Longrightarrow> control_step cs cs'"
| step_dd_sweep: "sweep_portfolio_dd_guards env halt limit cs = (stats, cs') \<Longrightarrow> control_step cs cs'"
| step_kill: "kill_switch_close_position fenv pid sig (cs_db cs) = (ok, db') \<Longrightarrow> control_step cs (cs\<lparr>cs_db := db'\<rparr>)"
| step_close: "close_open_positions fenv senv orders cfg confirm reason (cs_db cs) = (ans, db') \<Longrightarrow>
     control_step cs (cs\<lparr>cs_db := db'\<rparr>)"
| step_signals: "process_signal_queue sets now envs (cs_db cs) = (st, db') \<Longrightarrow> control_step cs (cs\<lparr>cs_db := db'\<rparr>)"

definition no_configs :: "control_state \<Rightarrow> bool" where
  "no_configs cs = (td_configs (cs_db cs) = Map.empty \<and> cs_config_ids cs = [])"

inductive control_reachable :: "control_state \<Rightarrow> bool" where
  reach_empty: "no_configs cs \<Longrightarrow> control_reachable cs"
| reach_move: "control_reachable cs \<Longrightarrow> control_step cs cs' \<Longrightarrow> control_reachable cs'"

text \<open>What a configuration must never be: running without being enabled, running with real money before
  it is live, running while latched, or live without a recorded promotion that passed the whole gate.\<close>

definition gate_recorded :: "control_state \<Rightarrow> int \<Rightarrow> bool" where
  "gate_recorded cs cid = (\<exists>e \<in> set (cs_promotions cs). pe_config_id e = cid \<and> pe_decision e = ''promoted''
     \<and> pe_from_stage e = ''sandbox'' \<and> pe_criteria e \<noteq> [] \<and> list_all gc_passed (pe_criteria e))"

definition config_safe :: "control_state \<Rightarrow> auto_config \<Rightarrow> bool" where
  "config_safe cs c \<longleftrightarrow> (cf_is_running c \<longrightarrow> cf_enabled c \<and> \<not> cf_risk_off_latched c
       \<and> (cf_lifecycle_stage c = ''live'' \<or> account_is_demo cs (cf_account_id c)))
     \<and> (cf_lifecycle_stage c = ''live'' \<longrightarrow> gate_recorded cs (cf_id c))"

definition control_ok :: "control_state \<Rightarrow> bool" where
  "control_ok cs \<longleftrightarrow>
     (\<forall>cid c. config_of cs cid = Some c \<longrightarrow> cf_id c = cid \<and> cid \<in> set (cs_config_ids cs) \<and> config_safe cs c)
     \<and> (\<forall>cid \<in> set (cs_config_ids cs). cid < cs_next_config cs)
     \<and> (\<forall>i j c d. config_of cs i = Some c \<longrightarrow> config_of cs j = Some d \<longrightarrow>
          cf_user_id c = cf_user_id d \<longrightarrow> cf_account_id c = cf_account_id d \<longrightarrow> i = j)"

lemma ok_config:
  "control_ok cs \<Longrightarrow> config_of cs cid = Some c \<Longrightarrow> cf_id c = cid \<and> cid \<in> set (cs_config_ids cs) \<and> config_safe cs c"
  unfolding control_ok_def by blast

lemma ok_next: "control_ok cs \<Longrightarrow> cid \<in> set (cs_config_ids cs) \<Longrightarrow> cid < cs_next_config cs"
  unfolding control_ok_def by blast

lemma ok_unique:
  "control_ok cs \<Longrightarrow> config_of cs i = Some c \<Longrightarrow> config_of cs j = Some d \<Longrightarrow> cf_user_id c = cf_user_id d \<Longrightarrow>
     cf_account_id c = cf_account_id d \<Longrightarrow> i = j"
  unfolding control_ok_def by blast

lemma control_frames [simp]:
  "config_of (emit_to e l cs) = config_of cs" "cs_accounts (emit_to e l cs) = cs_accounts cs"
  "cs_promotions (emit_to e l cs) = cs_promotions cs" "cs_config_ids (emit_to e l cs) = cs_config_ids cs"
  "cs_next_config (emit_to e l cs) = cs_next_config cs" "config_of (record_promotion_event v cs) = config_of cs"
  "cs_accounts (record_promotion_event v cs) = cs_accounts cs"
  "cs_promotions (record_promotion_event v cs) = cs_promotions cs @ [v]"
  "cs_config_ids (record_promotion_event v cs) = cs_config_ids cs"
  "cs_next_config (record_promotion_event v cs) = cs_next_config cs"
  "config_of (put_config c cs) = (config_of cs)(cf_id c \<mapsto> c)" "cs_accounts (put_config c cs) = cs_accounts cs"
  "cs_promotions (put_config c cs) = cs_promotions cs" "cs_config_ids (put_config c cs) = cs_config_ids cs"
  "cs_next_config (put_config c cs) = cs_next_config cs"
  by (simp_all add: emit_to_def upd_db_def config_of_def record_promotion_event_def put_config_def fun_eq_iff)

lemma safe_mono:
  assumes "config_safe cs c" and "cs_accounts cs' = cs_accounts cs" and "set (cs_promotions cs) \<subseteq> set (cs_promotions cs')"
  shows "config_safe cs' c"
  using assms by (auto simp: config_safe_def account_is_demo_def gate_recorded_def)

text \<open>Nothing about the configurations changes.\<close>

lemma ok_frame:
  assumes "control_ok cs" and "config_of cs' = config_of cs" and "cs_accounts cs' = cs_accounts cs"
    and "set (cs_promotions cs) \<subseteq> set (cs_promotions cs')" and "cs_config_ids cs' = cs_config_ids cs"
    and "cs_next_config cs' = cs_next_config cs"
  shows "control_ok cs'"
  using assms safe_mono [OF _ assms(3,4)] unfolding control_ok_def by simp

lemma ok_emit [intro]: "control_ok cs \<Longrightarrow> control_ok (emit_to e l cs)"
  by (rule ok_frame) auto

lemma ok_promotion_event [intro]: "control_ok cs \<Longrightarrow> control_ok (record_promotion_event v cs)"
  by (rule ok_frame) auto

text \<open>One configuration is replaced by another of the same owner and account.\<close>

lemma ok_put:
  assumes "control_ok cs" and "config_of cs (cf_id c') = Some c" and "cf_user_id c' = cf_user_id c"
    and "cf_account_id c' = cf_account_id c" and "config_safe (put_config c' cs) c'"
  shows "control_ok (put_config c' cs)"
proof -
  have "config_safe (put_config c' cs) d" if "config_of cs i = Some d" for i d
    using ok_config [OF assms(1) that] by - (rule safe_mono [of cs d], simp_all)
  note mono = this
  have was: "\<exists>d0. config_of cs i = Some d0 \<and> cf_user_id d0 = cf_user_id d \<and> cf_account_id d0 = cf_account_id d"
    if "config_of (put_config c' cs) i = Some d" for i d
    using that assms(2-4) by (cases "i = cf_id c'") auto
  show ?thesis
    unfolding control_ok_def
  proof (intro conjI allI impI ballI)
    fix i d assume d: "config_of (put_config c' cs) i = Some d"
    show "cf_id d = i" "i \<in> set (cs_config_ids (put_config c' cs))"
      using d ok_config [OF assms(1), of i] ok_config [OF assms(1,2)] by (auto split: if_splits)
    show "config_safe (put_config c' cs) d"
      using d assms(5) mono by (cases "i = cf_id c'") auto
  next
    fix i assume "i \<in> set (cs_config_ids (put_config c' cs))"
    with ok_next [OF assms(1)] show "i < cs_next_config (put_config c' cs)" by simp
  next
    fix i j d e assume "config_of (put_config c' cs) i = Some d" "config_of (put_config c' cs) j = Some e"
      and same: "cf_user_id d = cf_user_id e" "cf_account_id d = cf_account_id e"
    then obtain d0 e0 where "config_of cs i = Some d0" "config_of cs j = Some e0"
      "cf_user_id d0 = cf_user_id e0" "cf_account_id d0 = cf_account_id e0" using was by metis
    with ok_unique [OF assms(1)] show "i = j" by blast
  qed
qed

lemma ok_calmer:
  assumes "control_ok cs" and "calmer (td_configs (cs_db cs)) (td_configs db')"
  shows "control_ok (cs\<lparr>cs_db := db'\<rparr>)"
proof -
  have origin: "\<exists>c. config_of cs i = Some c \<and> calmer_config c c'" if "td_configs db' i = Some c'" for i c'
    using assms(2) that unfolding calmer_def config_of_def by (metis option.rel_cases option.distinct(1) option.inject)
  have safe: "config_safe (cs\<lparr>cs_db := db'\<rparr>) c'" if "config_safe cs c" "calmer_config c c'" for c c'
    using that by (auto simp: config_safe_def calmer_config_def account_is_demo_def gate_recorded_def)
  show ?thesis
    unfolding control_ok_def
  proof (intro conjI allI impI ballI)
    fix i c' assume "config_of (cs\<lparr>cs_db := db'\<rparr>) i = Some c'"
    then obtain c where c: "config_of cs i = Some c" "calmer_config c c'"
      using origin [of i c'] by (auto simp: config_of_def)
    note k = ok_config [OF assms(1) c(1)]
    show "cf_id c' = i" using k c(2) by (simp add: calmer_config_def)
    show "i \<in> set (cs_config_ids (cs\<lparr>cs_db := db'\<rparr>))" using k by simp
    show "config_safe (cs\<lparr>cs_db := db'\<rparr>) c'" using k c(2) safe by blast
  next
    fix i assume "i \<in> set (cs_config_ids (cs\<lparr>cs_db := db'\<rparr>))"
    with ok_next [OF assms(1)] show "i < cs_next_config (cs\<lparr>cs_db := db'\<rparr>)" by simp
  next
    fix i j c' d' assume ij: "config_of (cs\<lparr>cs_db := db'\<rparr>) i = Some c'" "config_of (cs\<lparr>cs_db := db'\<rparr>) j = Some d'"
      and same: "cf_user_id c' = cf_user_id d'" "cf_account_id c' = cf_account_id d'"
    obtain c where c: "config_of cs i = Some c" "calmer_config c c'"
      using origin [of i c'] ij(1) by (auto simp: config_of_def)
    obtain d where d: "config_of cs j = Some d" "calmer_config d d'"
      using origin [of j d'] ij(2) by (auto simp: config_of_def)
    show "i = j" using ok_unique [OF assms(1) c(1) d(1)] c(2) d(2) same by (simp add: calmer_config_def)
  qed
qed

section \<open>Every move keeps the invariant\<close>

lemma in_configs:
  assumes "control_ok cs" and "row \<in> set (configs_of cs uid)"
  shows "config_of cs (cf_id row) = Some row \<and> cf_user_id row = uid"
proof -
  obtain cid where "config_of cs cid = Some row" "cf_user_id row = uid"
    using assms(2) by (auto simp: configs_of_def List.map_filter_def)
  with ok_config [OF assms(1)] show ?thesis by auto
qed

lemma scope_found:
  assumes "get_config_for_scope cs uid aid b = Inr (Some row)"
  shows "row \<in> set (configs_of cs uid)"
  using assms
  by (auto simp: get_config_for_scope_def Let_def find_Some_iff split: option.splits list.splits if_splits)

lemma ok_set_running:
  assumes "control_ok cs" and "set_running now uid b aid cs = Inr cs'"
  shows "control_ok cs'"
proof -
  obtain row where s: "get_config_for_scope cs uid aid True = Inr (Some row)"
    and p: "b \<longrightarrow> cf_enabled row \<and> (cf_lifecycle_stage row = ''live'' \<or> account_is_demo cs (cf_account_id row))"
    and cs': "cs' = emit_to (if b then ''auto_trade_play'' else ''auto_trade_stop'') ''info''
        (put_config (if b then started now row else stopped now row) cs)"
    using assms(2) by (auto simp: set_running_def split: sum.splits option.splits if_splits)
  note row = in_configs [OF assms(1) scope_found [OF s]]
  have "config_safe cs row" using ok_config [OF assms(1)] row by blast
  then have "config_safe (put_config (if b then started now row else stopped now row) cs)
      (if b then started now row else stopped now row)"
    using p by (auto simp: config_safe_def started_def stopped_def account_is_demo_def gate_recorded_def)
  then have "control_ok (put_config (if b then started now row else stopped now row) cs)"
    using ok_put [OF assms(1), of "if b then started now row else stopped now row" row] row
    by (auto simp: started_def stopped_def)
  then show ?thesis unfolding cs' by (rule ok_emit)
qed

lemma ok_bulk_all: "control_ok cs \<Longrightarrow> bulk_all now uid b ids cs = (ss, cs') \<Longrightarrow> control_ok cs'"
proof (induction ids arbitrary: cs ss)
  case (Cons i ids)
  obtain s cs1 where o: "bulk_one now uid b i cs = (s, cs1)" by fastforce
  then have "control_ok cs1"
    using Cons.prems(1) by (auto simp: bulk_one_def split: option.splits sum.splits if_splits intro: ok_set_running)
  with Cons o show ?case by (auto split: prod.splits)
qed simp

lemma ok_bulk: "control_ok cs \<Longrightarrow> set_running_bulk now uid b cs = (ss, cs') \<Longrightarrow> control_ok cs'"
  by (auto simp: set_running_bulk_def split: prod.splits dest: ok_bulk_all)

lemma owned_ok:
  assumes "control_ok cs" and "owned_config cs uid cid = Some cfg"
  shows "config_of cs cid = Some cfg \<and> cf_id cfg = cid \<and> config_safe cs cfg"
  using assms ok_config [OF assms(1)] by (auto simp: owned_config_def split: option.splits if_splits)

lemma record_put: "record_promotion_event v (put_config c cs) = put_config c (record_promotion_event v cs)"
  by (simp add: record_promotion_event_def put_config_def upd_db_def)

lemma gate_criteria: "pd_can_promote (evaluate_promotion_gate h rc d) \<Longrightarrow>
    pd_criteria (evaluate_promotion_gate h rc d) \<noteq> [] \<and> list_all gc_passed (pd_criteria (evaluate_promotion_gate h rc d))"
  by (simp add: evaluate_promotion_gate_def Let_def)

lemma ok_promote:
  assumes "control_ok cs" and "promote_strategy env uid cid cs = (e, cs')"
  shows "control_ok cs'"
proof (cases "owned_config cs uid cid")
  case None
  with assms show ?thesis by (simp add: promote_strategy_def)
next
  case (Some cfg)
  note own = owned_ok [OF assms(1) Some]
  let ?d = "evaluate_promotion env cs cfg"
  let ?c = "cfg\<lparr>cf_lifecycle_stage := ''live'', cf_sandbox_entered_at := None\<rparr>"
  let ?v = "\<lparr>pe_config_id = cid, pe_from_stage = ''sandbox'', pe_to_stage = ''live'', pe_decision = ''promoted'',
      pe_criteria = pd_criteria ?d\<rparr>"
  consider "cs' = cs" | v where "cs' = emit_to ''promotion_gate_failed'' ''warning'' (record_promotion_event v cs)"
    | "pd_can_promote ?d" "cs' = emit_to ''strategy_promoted'' ''info'' (record_promotion_event ?v (put_config ?c cs))"
  proof (cases "stage_of (cf_lifecycle_stage cfg) = Some SANDBOX")
    case False
    with assms(2) Some have "cs' = cs" by (auto simp: promote_strategy_def split: option.splits if_splits)
    then show ?thesis by (rule that(1))
  next
    case True
    show ?thesis
    proof (cases "pd_can_promote ?d")
      case False
      with True assms(2) Some show ?thesis by (intro that(2)) (auto simp: promote_strategy_def Let_def)
    next
      case pass: True
      with True assms(2) Some show ?thesis
        by (intro that(3)) (auto simp: promote_strategy_def apply_transition_def Let_def)
    qed
  qed
  then show ?thesis
  proof cases
    case 3
    have "config_safe (put_config ?c (record_promotion_event ?v cs)) ?c"
      using own 3(1) gate_criteria
      by (auto simp: config_safe_def account_is_demo_def gate_recorded_def evaluate_promotion_def)
    with ok_put [OF ok_promotion_event [OF assms(1), of ?v], of ?c cfg] own
    show ?thesis by (auto simp: 3(2) record_put)
  qed (use assms(1) in auto)
qed

lemma ok_demote:
  assumes "control_ok cs" and "demote_strategy now uid cid cs = (e, cs')"
  shows "control_ok cs'"
proof (cases "owned_config cs uid cid")
  case None
  with assms show ?thesis by (simp add: demote_strategy_def)
next
  case (Some cfg)
  note own = owned_ok [OF assms(1) Some]
  let ?c = "\<lambda>st. if cf_is_running cfg then stopped now (cfg\<lparr>cf_lifecycle_stage := st, cf_sandbox_entered_at := Some now\<rparr>)
      else cfg\<lparr>cf_lifecycle_stage := st, cf_sandbox_entered_at := Some now\<rparr>"
  consider "cs' = cs" | v where "cs' = emit_to ''strategy_demoted'' ''warning'' (record_promotion_event v (put_config (?c ''sandbox'') cs))"
    using assms(2) Some
    by (auto simp: demote_strategy_def apply_transition_def stage_of_def Let_def
        split: option.splits if_splits promotion_error.splits sum.splits)
  then show ?thesis
  proof cases
    case (2 v)
    have "config_safe (put_config (?c ''sandbox'') cs) (?c ''sandbox'')"
      by (auto simp: config_safe_def stopped_def)
    with ok_put [OF assms(1), of "?c ''sandbox''" cfg] own
    have "control_ok (put_config (?c ''sandbox'') cs)" by (auto simp: stopped_def)
    then show ?thesis unfolding 2 by (intro ok_emit ok_promotion_event)
  qed (use assms(1) in simp)
qed

lemma ok_risk: "control_ok cs \<Longrightarrow> apply_risk_config cid risk cs = Inr cs' \<Longrightarrow> control_ok cs'"
  by (erule ok_frame) (auto simp: apply_risk_config_def upd_db_def config_of_def fun_eq_iff split: option.splits)

lemma ok_revision: "control_ok cs \<Longrightarrow> control_ok (record_config_revision cid cs)"
  by (erule ok_frame) (auto simp: record_config_revision_def Let_def config_of_def fun_eq_iff split: option.splits)

lemma ok_finish: "control_ok cs \<Longrightarrow> finish_upsert cid q cs = (e, cs') \<Longrightarrow> control_ok cs'"
  by (auto simp: finish_upsert_def split: sum.splits intro: ok_revision ok_risk)

lemma ok_risk_all: "control_ok cs \<Longrightarrow> apply_risk_config_to_all_strategies uid risk cs = (r, cs') \<Longrightarrow> control_ok cs'"
proof -
  have "control_ok cs \<Longrightarrow> apply_risk_to ids risk cs = Inr cs' \<Longrightarrow> control_ok cs'" for ids cs cs'
    by (induction ids arbitrary: cs) (auto split: sum.splits intro: ok_risk)
  then show "control_ok cs \<Longrightarrow> apply_risk_config_to_all_strategies uid risk cs = (r, cs') \<Longrightarrow> control_ok cs'"
    by (auto simp: apply_risk_config_to_all_strategies_def Let_def split: sum.splits)
qed

lemma ok_new:
  assumes "control_ok cs" and "find (\<lambda>c. cf_account_id c = uq_account_id q) (configs_of cs uid) = None"
  shows "control_ok (put_config (new_config now (cs_next_config cs) uid q)
           (cs\<lparr>cs_config_ids := cs_config_ids cs @ [cs_next_config cs], cs_next_config := cs_next_config cs + 1\<rparr>))"
    (is "control_ok (put_config ?c ?cs)")
proof -
  have look: "config_of (put_config ?c ?cs) i = (if i = cs_next_config cs then Some ?c else config_of cs i)" for i
    by (simp add: new_config_def config_of_def)
  have fresh: "config_of cs (cs_next_config cs) = None"
    using ok_config [OF assms(1)] ok_next [OF assms(1)] by (metis less_irrefl option.exhaust)
  have free: "\<not> (cf_user_id d = uid \<and> cf_account_id d = uq_account_id q)" if "config_of cs j = Some d" for j d
  proof
    assume "cf_user_id d = uid \<and> cf_account_id d = uq_account_id q"
    moreover have "j \<in> set (cs_config_ids cs)" using ok_config [OF assms(1) that] by simp
    ultimately have "d \<in> set (configs_of cs uid)"
      using that by (force simp: configs_of_def List.map_filter_def)
    with assms(2) \<open>cf_user_id d = uid \<and> cf_account_id d = uq_account_id q\<close> show False by (auto simp: find_None_iff)
  qed
  have safe: "config_safe (put_config ?c ?cs) d" if "config_of (put_config ?c ?cs) i = Some d" for i d
  proof (cases "i = cs_next_config cs")
    case True
    with that look show ?thesis by (auto simp: config_safe_def new_config_def)
  next
    case False
    with that look have "config_of cs i = Some d" by simp
    from ok_config [OF assms(1) this] have "config_safe cs d" by simp
    then show ?thesis by - (rule safe_mono [of cs d], simp_all)
  qed
  have one: "cf_user_id ?c = uid" "cf_account_id ?c = uq_account_id q" "cf_id ?c = cs_next_config cs"
    by (simp_all add: new_config_def)
  show ?thesis
    unfolding control_ok_def
  proof (intro conjI allI impI ballI)
    fix i d assume d: "config_of (put_config ?c ?cs) i = Some d"
    show "config_safe (put_config ?c ?cs) d" by (rule safe [OF d])
    show "cf_id d = i" "i \<in> set (cs_config_ids (put_config ?c ?cs))"
      using d look [of i] one(3) ok_config [OF assms(1), of i d] by (auto split: if_splits)
  next
    fix i assume "i \<in> set (cs_config_ids (put_config ?c ?cs))"
    then show "i < cs_next_config (put_config ?c ?cs)" using ok_next [OF assms(1), of i] by auto
  next
    fix i j d e assume "config_of (put_config ?c ?cs) i = Some d" "config_of (put_config ?c ?cs) j = Some e"
      "cf_user_id d = cf_user_id e" "cf_account_id d = cf_account_id e"
    then show "i = j"
      using look [of i] look [of j] free one ok_unique [OF assms(1), of i d j e] by (auto split: if_splits)
  qed
qed

lemma blocking_configs: "blocking_position senv uid row cs = (b, db1) \<Longrightarrow> td_configs db1 = td_configs (cs_db cs)"
  by (auto simp: blocking_position_def Let_def dest: sync_configs
      split: option.splits sum.splits prod.splits trade_error.splits)

lemma updated_frame: "cf_id (updated_config now q row) = cf_id row" "cf_user_id (updated_config now q row) = cf_user_id row"
  "cf_account_id (updated_config now q row) = uq_account_id q" "cf_enabled (updated_config now q row) = uq_enabled q"
  "cf_is_running (updated_config now q row) = (cf_is_running row \<and> uq_enabled q)"
  "cf_lifecycle_stage (updated_config now q row) = cf_lifecycle_stage row"
  "cf_risk_off_latched (updated_config now q row) = cf_risk_off_latched row"
  by (auto simp: updated_config_def Let_def stopped_def split: option.splits)

lemma ok_upsert_existing:
  assumes "control_ok cs" and "row \<in> set (configs_of cs uid)" and "cf_account_id row = uq_account_id q"
    and "upsert_existing now senv uid q row cs = (e, cs')"
  shows "control_ok cs'"
proof -
  note row = in_configs [OF assms(1,2)]
  obtain blocked db1 where b: "(if cf_profile_id row \<noteq> uq_profile_id q \<or> cf_account_id row \<noteq> uq_account_id q
      then blocking_position senv uid row cs else (Inr False, cs_db cs)) = (blocked, db1)" by fastforce
  then have same: "td_configs db1 = td_configs (cs_db cs)"
    by (auto dest: blocking_configs split: if_splits)
  have ok1: "control_ok (cs\<lparr>cs_db := db1\<rparr>)"
    by (rule ok_calmer [OF assms(1)]) (simp add: same)
  have cfg1: "config_of (cs\<lparr>cs_db := db1\<rparr>) = config_of cs"
    by (simp add: config_of_def fun_eq_iff same)
  have safe: "config_safe cs row" using ok_config [OF assms(1)] row by blast
  have "config_safe (put_config (updated_config now q row) (cs\<lparr>cs_db := db1\<rparr>)) (updated_config now q row)"
    using safe assms(3) by (auto simp: config_safe_def updated_frame account_is_demo_def gate_recorded_def)
  then have ok2: "control_ok (put_config (updated_config now q row) (cs\<lparr>cs_db := db1\<rparr>))"
    using ok_put [OF ok1, of "updated_config now q row" row] row cfg1 assms(3) by (simp add: updated_frame)
  consider "cs' = cs"
    | "finish_upsert (cf_id row) q (emit_to ''config_updated'' ''info''
         (put_config (updated_config now q row) (cs\<lparr>cs_db := db1\<rparr>))) = (e, cs')"
    using assms(4) b by (auto simp: upsert_existing_def Let_def split: sum.splits if_splits)
  then show ?thesis
    by cases (use assms(1) ok_finish [OF ok_emit [OF ok2]] in auto)
qed

lemma ok_upsert:
  assumes "control_ok cs" and "upsert_config now senv uid q cs = (e, cs')"
  shows "control_ok cs'"
proof -
  consider "cs' = cs"
    | "find (\<lambda>c. cf_account_id c = uq_account_id q) (configs_of cs uid) = None" "upsert_new now uid q cs = (e, cs')"
    | row where "find (\<lambda>c. cf_account_id c = uq_account_id q) (configs_of cs uid) = Some row"
        "upsert_existing now senv uid q row cs = (e, cs')"
    using assms(2) by (auto simp: upsert_config_def split: option.splits sum.splits if_splits)
  then show ?thesis
  proof cases
    case 2
    from 2(2) show ?thesis
      using ok_finish [OF ok_emit [OF ok_new [OF assms(1) 2(1), of now]]]
        ok_finish [OF ok_emit [OF ok_emit [OF ok_new [OF assms(1) 2(1), of now]]]]
      by (auto simp: upsert_new_def Let_def split: if_splits)
  next
    case (3 row)
    then have "row \<in> set (configs_of cs uid)" "cf_account_id row = uq_account_id q"
      by (auto simp: find_Some_iff)
    from ok_upsert_existing [OF assms(1) this 3(2)] show ?thesis .
  qed (use assms(1) in simp)
qed

lemma ok_sweep:
  assumes "\<And>i cs r cs'. control_ok cs \<Longrightarrow> step i cs = (r, cs') \<Longrightarrow> control_ok cs'"
  shows "control_ok cs \<Longrightarrow> sweep fails step ids stats cs = (st, cs') \<Longrightarrow> control_ok cs'"
proof (induction ids arbitrary: stats cs)
  case (Cons i ids)
  then show ?case
    by (cases stats) (auto split: if_splits prod.splits dest: assms)
qed (cases stats, simp)

lemma ok_kpi_step: "control_ok cs \<Longrightarrow> kpi_guard_step env cid cs = (r, cs') \<Longrightarrow> control_ok cs'"
  using ok_calmer [of cs, OF _ calmer_kpi [OF refl]]
  by (auto simp: kpi_guard_step_def upd_db_def split: option.splits if_splits)

lemma ok_gate_step: "control_ok cs \<Longrightarrow> promotion_gate_step env cid cs = (r, cs') \<Longrightarrow> control_ok cs'"
  by (auto simp: promotion_gate_step_def split: option.splits if_splits)

lemma ok_dd_step: "control_ok cs \<Longrightarrow> portfolio_dd_step env limit uid cs = (r, cs') \<Longrightarrow> control_ok cs'"
  by (auto simp: portfolio_dd_step_def split: prod.splits if_splits dest: ok_bulk)

lemma ok_kpi_sweep:
  assumes "control_ok cs" and "sweep_kpi_guards env cs = (st, cs')"
  shows "control_ok cs'"
proof (rule ok_sweep [of "kpi_guard_step env" cs])
  show "sweep (ce_fails env) (kpi_guard_step env) (active_ids cs) (0, 0, 0) cs = (st, cs')"
    using assms(2) by (simp add: sweep_kpi_guards_def)
qed (use assms(1) in \<open>auto intro: ok_kpi_step\<close>)

lemma ok_gate_sweep:
  assumes "control_ok cs" and "sweep_promotion_gates env cs = (st, cs')"
  shows "control_ok cs'"
proof (rule ok_sweep [of "promotion_gate_step env" cs])
  show "sweep (ce_fails env) (promotion_gate_step env)
      (filter (\<lambda>cid. map_option cf_lifecycle_stage (config_of cs cid) = Some ''sandbox'') (active_ids cs)) (0, 0, 0) cs = (st, cs')"
    using assms(2) by (simp add: sweep_promotion_gates_def)
qed (use assms(1) in \<open>auto intro: ok_gate_step\<close>)

lemma ok_dd_sweep:
  assumes "control_ok cs" and "sweep_portfolio_dd_guards env halt limit cs = (st, cs')"
  shows "control_ok cs'"
proof (cases "\<not> halt \<or> limit \<le> 0")
  case False
  show ?thesis
  proof (rule ok_sweep [of "portfolio_dd_step env limit" cs])
    show "sweep (ce_fails env) (portfolio_dd_step env limit) (active_users cs) (0, 0, 0) cs = (st, cs')"
      using assms(2) False by (simp add: sweep_portfolio_dd_guards_def)
  qed (use assms(1) in \<open>auto intro: ok_dd_step\<close>)
qed (use assms in \<open>auto simp: sweep_portfolio_dd_guards_def\<close>)

lemma control_step_ok:
  assumes "control_step cs cs'" and "control_ok cs"
  shows "control_ok cs'"
  using assms
proof cases
  case (step_rollback fmt_g now senv uid cid rid e)
  then show ?thesis
    using assms(2) by (auto simp: rollback_config_def split: option.splits sum.splits if_splits dest: ok_upsert)
qed (use assms(2) in \<open>auto dest: ok_set_running ok_kpi_sweep ok_gate_sweep ok_dd_sweep ok_bulk ok_promote ok_demote ok_upsert ok_risk_all
    ok_calmer [OF assms(2) kill_switch_calmer] ok_calmer [OF assms(2) close_all_calmer] ok_calmer [OF assms(2) queue_calmer]\<close>)

lemma reachable_ok: "control_reachable cs \<Longrightarrow> control_ok cs"
proof (induction rule: control_reachable.induct)
  case (reach_empty cs)
  then show ?case by (simp add: no_configs_def control_ok_def config_of_def)
qed (rule control_step_ok)

section \<open>What holds of every strategy\<close>

text \<open>C2: Strategies run safely. In every state reached by starting and stopping strategies one by one or
  all together, promoting and demoting them, writing and rolling back configurations and risk
  limits, the sweeps, the kill-switch, closing positions and working off the signal queue, a running
  strategy is enabled, is not latched risk-off, and is live or trades a demo account; and a strategy is
  live only if a promotion out of the sandbox was recorded in which every criterion of the gate passed.\<close>

theorem strategies_run_safely:
  assumes "control_reachable cs" and "td_configs (cs_db cs) cid = Some c"
  shows "(cf_is_running c \<longrightarrow> cf_enabled c \<and> \<not> cf_risk_off_latched c
       \<and> (cf_lifecycle_stage c = ''live'' \<or> account_is_demo cs (cf_account_id c)))
    \<and> (cf_lifecycle_stage c = ''live'' \<longrightarrow>
         (\<exists>e \<in> set (cs_promotions cs). pe_config_id e = cid \<and> pe_decision e = ''promoted''
            \<and> pe_from_stage e = ''sandbox'' \<and> pe_criteria e \<noteq> [] \<and> list_all gc_passed (pe_criteria e)))"
  using ok_config [OF reachable_ok [OF assms(1)], of cid c] assms(2)
  by (auto simp: config_of_def config_safe_def gate_recorded_def)


lemma sync_risk:
  "sync_open_position_with_exchange env cfg symbol h emit cm db = (r, db') \<Longrightarrow> td_risk db' = td_risk db"
proof -
  have f: "td_risk (fold (\<lambda>r. upd_row (ap_id r) f) rs d) = td_risk d" for f rs d
    by (induction rs arbitrary: d) auto
  show "sync_open_position_with_exchange env cfg symbol h emit cm db = (r, db') \<Longrightarrow> td_risk db' = td_risk db"
    by (auto simp: sync_open_position_with_exchange_def Let_def f split: sum.splits option.splits list.splits if_splits)
qed

lemma blocking_risk: "blocking_position senv uid row cs = (b, db1) \<Longrightarrow> td_risk db1 = td_risk (cs_db cs)"
  by (auto simp: blocking_position_def Let_def dest: sync_risk
      split: option.splits sum.splits prod.splits trade_error.splits)

lemma finish_content:
  assumes "finish_upsert cid q cs = (None, cs')"
  shows "config_of cs' = config_of cs"
    and "td_risk (cs_db cs') cid = (case uq_risk q of None \<Rightarrow> td_risk (cs_db cs) cid | Some x \<Rightarrow> Some x)"
proof -
  have r: "cs_db (record_config_revision cid c) = cs_db c" for c
    by (auto simp: record_config_revision_def Let_def split: option.splits)
  obtain cs1 where a: "apply_risk_config cid (uq_risk q) cs = Inr cs1" "cs' = record_config_revision cid cs1"
    using assms by (auto simp: finish_upsert_def split: sum.splits)
  then show "config_of cs' = config_of cs"
    "td_risk (cs_db cs') cid = (case uq_risk q of None \<Rightarrow> td_risk (cs_db cs) cid | Some x \<Rightarrow> Some x)"
    by (auto simp: r config_of_def fun_eq_iff apply_risk_config_def upd_db_def split: option.splits)
qed

lemma upsert_existing_content:
  assumes "upsert_existing now senv uid q row cs = (None, cs')"
  shows "config_of cs' (cf_id row) = Some (updated_config now q row)"
    and "td_risk (cs_db cs') (cf_id row)
      = (case uq_risk q of None \<Rightarrow> td_risk (cs_db cs) (cf_id row) | Some x \<Rightarrow> Some x)"
proof -
  obtain blocked db1 where b: "(if cf_profile_id row \<noteq> uq_profile_id q \<or> cf_account_id row \<noteq> uq_account_id q
      then blocking_position senv uid row cs else (Inr False, cs_db cs)) = (blocked, db1)" by fastforce
  then have risk: "td_risk db1 = td_risk (cs_db cs)" by (auto dest: blocking_risk split: if_splits)
  have f: "finish_upsert (cf_id row) q (emit_to ''config_updated'' ''info''
      (put_config (updated_config now q row) (cs\<lparr>cs_db := db1\<rparr>))) = (None, cs')"
    using assms b by (auto simp: upsert_existing_def Let_def split: sum.splits if_splits)
  show "config_of cs' (cf_id row) = Some (updated_config now q row)"
    using finish_content(1) [OF f] by (simp add: updated_frame)
  show "td_risk (cs_db cs') (cf_id row)
      = (case uq_risk q of None \<Rightarrow> td_risk (cs_db cs) (cf_id row) | Some x \<Rightarrow> Some x)"
    using finish_content(2) [OF f] risk
    by (cases "uq_risk q") (simp_all add: emit_to_def put_config_def upd_db_def)
qed

lemma updated_content:
  assumes "q = snapshot_request s\<lparr>uq_risk_mode := mode\<rparr>"
  shows "content_snapshot cs (updated_config now q row)
    = s\<lparr>sn_risk_mode := mode, sn_risk := td_risk (cs_db cs) (cf_id row)\<rparr>"
  by (simp add: assms content_snapshot_def updated_config_def snapshot_request_def stopped_def Let_def)

lemma validated_request: "validate_request fmt_g q0 = Inr q \<Longrightarrow> q = q0\<lparr>uq_risk_mode := uq_risk_mode q\<rparr>"
  by (auto simp: validate_request_def split: if_splits sum.splits prod.splits)


end
