(* ===== verification/Signal_Samples.thy ===== *)
theory Signal_Samples
  imports Control_Safety
begin

text \<open>
  A configuration, its signal and an account on which the properties of the signal queue are
  applied: a long signal at price 5 for a configuration that opens positions of 10 USDT on a demo account.
\<close>

definition sample_trade_config :: auto_config where
  "sample_trade_config = \<lparr>cf_id = 7, cf_user_id = 1, cf_profile_id = 3, cf_account_id = 2, cf_enabled = True,
     cf_is_running = True, cf_position_size_usdt = 10, cf_leverage = 5, cf_min_confidence_pct = 60,
     cf_fast_close_confidence_pct = 90, cf_confirm_reports_required = 2, cf_sl_pct = 2, cf_tp_pct = 4,
     cf_strategy_profile_json = None, cf_overlay = default_overlay, cf_lifecycle_stage = ''sandbox'',
     cf_risk_mode = ''1:2'', cf_strategy_name = None, cf_attached_forecast_id = None, cf_last_started_at = Some 20,
     cf_last_stopped_at = None, cf_created_at = 10, cf_sandbox_entered_at = Some 10, cf_risk_off_latched = False,
     cf_risk_off_reason = None, cf_risk_off_at = None\<rparr>"

definition sample_opened :: entry_result where
  "sample_opened = \<lparr>er_exchange_order_id = ''1'', er_client_order_id = ''c'', er_filled_quantity = 2,
     er_price = Some 5, er_average_price = Some 5, er_raw = [], er_attached_sl = None, er_attached_tp = None\<rparr>"

definition sample_entry_env :: "trade_error + entry_result \<Rightarrow> entry_env" where
  "sample_entry_env answer = \<lparr>ee_now = 100, ee_iso = (\<lambda>_. ''t''), ee_fromiso = (\<lambda>_. None), ee_repr = (\<lambda>_. ''''),
     ee_coerce = (\<lambda>_. None), ee_use_adapter = True, ee_adapter_error = None, ee_leverage_error = None,
     ee_adapter_entry = answer, ee_market_entry = Inl (OtherError ''unused''), ee_queue_error = None,
     ee_persist_error = None, ee_schedule_error = None, ee_track_error = None\<rparr>"

definition sample_health :: strategy_health where
  "sample_health = \<lparr>sh_sample_size = 0, sh_win_rate_pct = 0, sh_max_dd_pct = 0, sh_health_class = ''ok''\<rparr>"

definition sample_signal_env :: "trade_error + entry_result \<Rightarrow> signal_env" where
  "sample_signal_env answer = \<lparr>se_entry = sample_entry_env answer, se_from_iso = Some, se_locked = False,
     se_position = Inr None, se_confirm = (\<lambda>_. Inr None), se_demo = (\<lambda>_. True), se_exchange_name = (\<lambda>_. ''bybit''),
     se_close = Inl (OtherError ''unused''), se_today_pnl = 0, se_balance = None, se_freshness_block = False,
     se_freshness_minutes = 60, se_health = sample_health\<rparr>"

definition signal_history :: history_row where
  "signal_history = \<lparr>hr_user_id = 1, hr_symbol = ''BTCUSDT'', hr_profile_id = 3, hr_created_at = 90,
     hr_core_completed_at = None, hr_analysis_data = Some (sample_legacy 80)\<rparr>"

definition sample_parsed :: parsed_signal where
  "sample_parsed = \<lparr>ps_schema_version = ''legacy-analysisStructured-v1'', ps_symbol = ''BTCUSDT'', ps_trend = ''LONG'',
     ps_confidence_pct = 80, ps_price_current = 5, ps_generated_at = ''t''\<rparr>"

definition sample_db :: trade_db where
  "sample_db = \<lparr>td_configs = [7 \<mapsto> sample_trade_config], td_risk = Map.empty, td_states = Map.empty,
     td_positions = [], td_next_position = 1, td_histories = [(11, signal_history)],
     td_profiles = [3 \<mapsto> \<lparr>an_user_id = 1, an_symbol = ''BTCUSDT''\<rparr>], td_items = [],
     td_events = [(''config_created'', ''info''), (''auto_trade_play'', ''info'')], td_notes = [],
     td_calls = [], td_order_queue = new_queue\<rparr>"

definition sample_item :: queue_item where
  "sample_item = \<lparr>qi_id = 1, qi_user_id = 1, qi_config_id = 7, qi_profile_id = 3, qi_history_id = 11,
     qi_status = ''pending'', qi_attempt = 0, qi_max_attempts = 3, qi_next_retry_at = 0, qi_locked_at = None,
     qi_processed_at = None, qi_last_error = None\<rparr>"

lemma sample_signal: "history_signal (sample_signal_env answer) signal_history = Inr sample_parsed"
  by (simp add: history_signal_def sample_signal_env_def signal_history_def sample_legacy_def sample_analysis_def
      sample_entry_env_def sample_parsed_def adapt_legacy_analysis_structured_payload_def strict_keys_def
      parse_auto_trade_signal_def parse_text_def parse_number_def normalize_confidence_pct_def
      normalize_trend_from_bias_def trends_def py_or_def parse_datetime_def Let_def)

lemma sample_symbol: "symbol_market_key ''BTCUSDT'' = Inr ''BTCUSDT''"
  "to_linear_perp_symbol ''BTCUSDT'' = Inr ''BTC/USDT:USDT''"
  by code_simp+

lemma sample_gate:
  "entry_gate (sample_signal_env answer) sample_trade_config sample_parsed signal_history symbol
     (put_state 7 st sample_db) = Admit [] None"
  by (simp add: entry_gate_def sample_trade_config_def sample_parsed_def should_block_stale_entry_def
      sample_signal_env_def resolve_overlay_def overlay_needed_def default_overlay_def evaluate_pre_trade_risk_def
      check_pre_trade_def allow_decision_def put_state_def sample_db_def Let_def)

lemma sample_db_parts:
  "td_configs sample_db 7 = Some sample_trade_config" "dict_get (td_histories sample_db) 11 = Some signal_history"
  "td_profiles sample_db 3 = Some \<lparr>an_user_id = 1, an_symbol = ''BTCUSDT''\<rparr>"
  "ss_last_processed_history_id new_signal_state = 0" "an_user_id \<lparr>an_user_id = 1, an_symbol = x\<rparr> = 1"
  "get_state 7 sample_db = new_signal_state" "open_rows_of cfg (put_state 7 st sample_db) = []"
  "cf_id sample_trade_config = 7" "cf_enabled sample_trade_config" "cf_is_running sample_trade_config"
  "cf_profile_id sample_trade_config = 3" "cf_user_id sample_trade_config = 1"
  "qi_config_id sample_item = 7" "qi_history_id sample_item = 11" "qi_profile_id sample_item = 3"
  "se_locked (sample_signal_env answer) = False" "se_position (sample_signal_env answer) = Inr None"
  "ps_symbol sample_parsed = ''BTCUSDT''" "ps_generated_at sample_parsed = ''t''" "ps_confidence_pct sample_parsed = 80"
  by (simp_all add: new_signal_state_def sample_db_def sample_item_def sample_trade_config_def sample_signal_env_def sample_parsed_def
      get_state_def open_rows_of_def put_state_def)

lemma sample_flat:
  "act_on_signal (sample_signal_env answer) sample_trade_config sample_parsed hid signal_history symbol
      (put_state 7 st sample_db)
   = open_position (sample_signal_env answer) sample_trade_config sample_parsed hid symbol None (put_state 7 st sample_db)"
  by (simp add: act_on_signal_def process_without_open_position_def sample_gate sync_open_position_with_exchange_def
      sample_db_parts)

lemma sample_processed:
  "process_queue_item (sample_signal_env answer) 100 sample_item sample_db =
     (case open_position (sample_signal_env answer) sample_trade_config sample_parsed 11 ''BTC/USDT:USDT'' None
             (put_state 7 new_signal_state sample_db) of
        (Some e, db1) \<Rightarrow> (Inl e, sample_item, db1)
      | (None, db1) \<Rightarrow> (Inr Completed, mark_completed 100 sample_item, note_processed 7 11 ''t'' (Some 80) db1))"
  by (simp add: process_queue_item_def sample_db_parts sample_signal sample_symbol sample_flat Let_def)

text \<open>A context that has been submitted settles without an error.\<close>

lemma entering_settles:
  assumes "pm_state (pc_machine p) = ENTERING"
  shows "fst (settle_entry env cfg s hid symbol sn q tp opened p db) = None"
proof -
  have "entry_transition ee ENTRY_FILLED reason md (refresh_runtime_prices_after_fill t cfg tr e f p) \<noteq> Inl x"
    for ee reason md t tr e f x
    using assms by (simp add: entry_transition_def transition_def refresh_runtime_prices_after_fill_def split_beta Let_def)
  then show ?thesis
    by (simp add: settle_entry_def Let_def split: sum.splits prod.splits)
qed

lemma plain_submitted:
  "\<exists>p. entry_transition ee ENTRY_SUBMITTED reason md (plain_position_context cfg s ex symbol q tp sl atr) = Inr p
     \<and> pm_state (pc_machine p) = ENTERING \<and> pc_symbol p = symbol \<and> pc_tp_mode p = ''single''"
  by (simp add: entry_transition_def transition_def plain_position_context_def default_context_def new_position_machine_def Let_def)

lemma sample_env_parts:
  "ee_use_adapter (sample_entry_env answer)" "ee_adapter_error (sample_entry_env answer) = None"
  "ee_leverage_error (sample_entry_env answer) = None" "ee_adapter_entry (sample_entry_env answer) = answer"
  "se_entry (sample_signal_env answer) = sample_entry_env answer"
  "cf_strategy_profile_json sample_trade_config = None" "cf_leverage sample_trade_config = 5"
  "cf_position_size_usdt sample_trade_config = 10" "ps_price_current sample_parsed = 5" "ps_trend sample_parsed = ''LONG''"
  "overlay_atr_override env cfg trend None = None" "overlay_rsi_shift cfg None = None" "overlay_events None None = []"
  by (simp_all add: sample_entry_env_def sample_signal_env_def sample_trade_config_def sample_parsed_def
      overlay_atr_override_def overlay_rsi_shift_def overlay_events_def)

lemma sample_submitted:
  "\<exists>p tp sl. pm_state (pc_machine p) = ENTERING \<and>
    open_position (sample_signal_env answer) sample_trade_config sample_parsed hid symbol None db =
      (let coid = at_client_order_id ''at-open'' 1 7 hid;
           db1 = record_call (AdapterEntry symbol BUY 2 coid (Some tp) (Some sl) (Some (coid @ ''-sl'')) (Some (coid @ ''-tp'')))
                   (record_call (SetLeverage symbol 5) db)
       in case answer of Inl e \<Rightarrow> (Some e, db1)
          | Inr opened \<Rightarrow> settle_entry (sample_signal_env answer) sample_trade_config sample_parsed hid symbol None 2 tp opened p db1)"
proof -
  obtain tp sl where t: "calculate_tp_sl sample_parsed sample_trade_config = (tp, sl)" by fastforce
  obtain p where p: "entry_transition (sample_entry_env answer) ENTRY_SUBMITTED ''Auto-trade entry submitted''
      (history_meta hid (at_client_order_id ''at-open'' 1 7 hid))
      (plain_position_context sample_trade_config sample_parsed (se_exchange_name (sample_signal_env answer)
         (cf_account_id sample_trade_config)) symbol 2 tp sl None) = Inr p"
    "pm_state (pc_machine p) = ENTERING" "pc_symbol p = symbol" "pc_tp_mode p = ''single''"
    using plain_submitted by blast
  then show ?thesis
    by (intro exI [of _ p] exI [of _ tp] exI [of _ sl])
      (simp add: open_position_def Let_def t sample_env_parts sample_db_parts build_position_context_def
        parse_strategy_profile_def place_entry_order_def entry_side_def split: sum.splits)
qed

lemma sample_adapter_call:
  "\<exists>c \<in> set (td_calls (snd (snd (process_queue_item (sample_signal_env (Inl e)) 100 sample_item sample_db)))).
     entry_call c = Some (''BTC/USDT:USDT'', BUY, 2)"
  using sample_submitted [of "Inl e" 11 "''BTC/USDT:USDT''" "put_state 7 new_signal_state sample_db"]
  by (auto simp: sample_processed Let_def)

theorem signal_acted_once_witness:
  "\<exists>item' db' r' item'' db''. process_queue_item (sample_signal_env (Inr sample_opened)) 100 sample_item sample_db
       = (Inr Completed, item', db')
     \<and> process_queue_item (sample_signal_env (Inr sample_opened)) 100 sample_item db' = (r', item'', db'')
     \<and> td_calls db'' = td_calls db' \<and> td_positions db'' = td_positions db'"
proof -
  obtain p tp sl where "pm_state (pc_machine p) = ENTERING" and
    o: "open_position (sample_signal_env (Inr sample_opened)) sample_trade_config sample_parsed 11 ''BTC/USDT:USDT'' None
        (put_state 7 new_signal_state sample_db)
      = (let coid = at_client_order_id ''at-open'' 1 7 11;
           db1 = record_call (AdapterEntry ''BTC/USDT:USDT'' BUY 2 coid (Some tp) (Some sl) (Some (coid @ ''-sl'')) (Some (coid @ ''-tp'')))
                   (record_call (SetLeverage ''BTC/USDT:USDT'' 5) (put_state 7 new_signal_state sample_db))
         in settle_entry (sample_signal_env (Inr sample_opened)) sample_trade_config sample_parsed 11 ''BTC/USDT:USDT'' None 2 tp
              sample_opened p db1)"
    using sample_submitted [of "Inr sample_opened" 11 "''BTC/USDT:USDT''" "put_state 7 new_signal_state sample_db"] by auto
  then obtain db1 where "open_position (sample_signal_env (Inr sample_opened)) sample_trade_config sample_parsed 11
      ''BTC/USDT:USDT'' None (put_state 7 new_signal_state sample_db) = (None, db1)"
    using entering_settles by (metis prod.collapse)
  then obtain item' db' where p: "process_queue_item (sample_signal_env (Inr sample_opened)) 100 sample_item sample_db
      = (Inr Completed, item', db')"
    by (simp add: sample_processed)
  obtain r' item'' db'' where q: "process_queue_item (sample_signal_env (Inr sample_opened)) 100 sample_item db' = (r', item'', db'')"
    by (metis prod_cases3)
  from signal_acted_once [OF p, of 7] signal_acted_once [OF q, of 7] p q show ?thesis by blast
qed

theorem entry_never_left_bare_witness:
  "\<exists>row db'. open_position (sample_signal_env (Inr sample_opened)) sample_trade_config sample_parsed 11 ''BTC/USDT:USDT'' None
        sample_db = (None, db') \<and> get_row db' 1 = Some row \<and> ap_quantity row = 2
     \<and> (stop_queued (\<lambda>_. '''') (td_order_queue db') row \<or> closed_unprotected (td_calls db') row)"
proof -
  obtain p tp sl where "pm_state (pc_machine p) = ENTERING" and
    o: "open_position (sample_signal_env (Inr sample_opened)) sample_trade_config sample_parsed 11 ''BTC/USDT:USDT'' None sample_db
      = (let coid = at_client_order_id ''at-open'' 1 7 11;
           db1 = record_call (AdapterEntry ''BTC/USDT:USDT'' BUY 2 coid (Some tp) (Some sl) (Some (coid @ ''-sl'')) (Some (coid @ ''-tp'')))
                   (record_call (SetLeverage ''BTC/USDT:USDT'' 5) sample_db)
         in settle_entry (sample_signal_env (Inr sample_opened)) sample_trade_config sample_parsed 11 ''BTC/USDT:USDT'' None 2 tp
              sample_opened p db1)"
    using sample_submitted [of "Inr sample_opened" 11 "''BTC/USDT:USDT''" sample_db] by auto
  then obtain db' where d: "open_position (sample_signal_env (Inr sample_opened)) sample_trade_config sample_parsed 11
      ''BTC/USDT:USDT'' None sample_db = (None, db')"
    using entering_settles by (metis prod.collapse)
  have "queue_reachable (ee_repr (sample_entry_env a)) (td_order_queue sample_db)" for a
    by (simp add: sample_db_def queue_reachable.reach_new)
  from entry_never_left_bare [OF d] this d show ?thesis
    by (simp add: sample_env_parts sample_opened_def stop_attached_def position_epsilon_def)
      (auto simp: sample_db_def sample_entry_env_def)
qed

definition sample_live :: futures_position where
  "sample_live = \<lparr>fp_side = ''long'', fp_contracts = 2, fp_entry_price = Some 5, fp_mark_price = Some 5,
     fp_leverage = Some 5, fp_take_profit_price = None, fp_stop_loss_price = None, fp_raw = []\<rparr>"

definition sample_row :: auto_position where
  "sample_row = adopted_row 50 sample_trade_config ''BTC/USDT:USDT'' None 1 sample_live 5"

definition sample_short :: parsed_signal where
  "sample_short = sample_parsed\<lparr>ps_trend := ''SHORT''\<rparr>"

lemma sample_row_parts: "\<not> is_position_closed_on_exchange (Some sample_live)" "\<not> multi_tp_ladder_engaged sample_row"
  "ap_side sample_row = ''LONG''" "ap_symbol sample_row = ''BTC/USDT:USDT''" "fp_contracts sample_live = 2"
  "ps_trend sample_short = ''SHORT''" "ps_confidence_pct sample_short = 80"
  "cf_fast_close_confidence_pct sample_trade_config = 90" "cf_confirm_reports_required sample_trade_config = 2"
  "cf_min_confidence_pct sample_trade_config = 60"
  by (simp_all add: sample_row_def sample_live_def is_position_closed_on_exchange_def position_epsilon_def
      multi_tp_ladder_engaged_def adopted_row_def live_side_def sample_short_def sample_parsed_def sample_trade_config_def)



definition sample_settings :: queue_settings where
  "sample_settings = \<lparr>qt_batch_size = 5, qt_max_attempts = 3, qt_retry_interval = 60, qt_loop_enabled = True\<rparr>"


theorem opened_position_priced_safely_witness:
  "\<exists>p. build_position_context (\<lambda>_. '''') (\<lambda>_. None) sample_trade_config sample_parsed ''bybit'' ''BTC/USDT:USDT'' 2 5 5 None 0 = Inr p
     \<and> pc_current_sl_price (refresh_runtime_prices_after_fill ''t'' sample_trade_config ''LONG'' 6 2 p) < 6"
proof -
  obtain p where p: "build_position_context (\<lambda>_. '''') (\<lambda>_. None) sample_trade_config sample_parsed ''bybit''
      ''BTC/USDT:USDT'' 2 5 5 None 0 = Inr p"
    by (simp add: build_position_context_def parse_strategy_profile_def sample_env_parts Let_def)
  have "0 < cf_sl_pct sample_trade_config" "cf_sl_pct sample_trade_config < 100" "0 < cf_tp_pct sample_trade_config"
    by (simp_all add: sample_trade_config_def)
  from opened_position_priced_safely [OF _ _ this p refl, of 6 "''t''" 2] p show ?thesis
    by (simp add: sample_env_parts direction_def)
qed

end
