(* ===== verification/Control_Samples.thy ===== *)
theory Control_Samples
  imports Signal_Samples
begin

text \<open>
  A run of the control operations on which their properties are applied: a user with a demo account
  writes a configuration and starts it, which gives the tables of \<^verbatim>\<open>Signal_Samples\<close>.
\<close>

definition sample_request :: upsert_request where
  "sample_request = \<lparr>uq_enabled = True, uq_profile_id = 3, uq_account_id = 2, uq_position_size_usdt = 10, uq_leverage = 5,
     uq_min_confidence_pct = 60, uq_fast_close_confidence_pct = 90, uq_confirm_reports_required = 2,
     uq_risk_mode = ''1:2'', uq_sl_pct = 2, uq_tp_pct = 4, uq_strategy_profile = None, uq_strategy_name = None,
     uq_attached_forecast_id = None, uq_risk = None\<rparr>"

definition sample_start :: control_state where
  "sample_start = \<lparr>cs_db = sample_db\<lparr>td_configs := Map.empty, td_events := []\<rparr>, cs_config_ids = [], cs_next_config = 7,
     cs_accounts = [2 \<mapsto> \<lparr>ea_user_id = 1, ea_exchange_name = ''bybit'', ea_mode = ''demo''\<rparr>],
     cs_promotions = [], cs_revisions = [], cs_next_revision = 1\<rparr>"

definition sample_written :: control_state where
  "sample_written = snd (upsert_config 10 (sample_signal_env (Inr sample_opened)) 1 sample_request sample_start)"

definition sample_trading :: control_state where
  "sample_trading = sample_start\<lparr>cs_db := sample_db, cs_config_ids := [7], cs_next_config := 8,
     cs_revisions := [\<lparr>rv_id = 1, rv_config_id = 7, rv_number = 1,
        rv_snapshot = \<lparr>sn_enabled = True, sn_profile_id = 3, sn_account_id = 2, sn_position_size_usdt = 10,
          sn_leverage = 5, sn_min_confidence_pct = 60, sn_fast_close_confidence_pct = 90,
          sn_confirm_reports_required = 2, sn_risk_mode = ''1:2'', sn_sl_pct = 2, sn_tp_pct = 4,
          sn_strategy_profile = None, sn_strategy_name = None, sn_attached_forecast_id = None, sn_risk = None\<rparr>\<rparr>],
     cs_next_revision := 2\<rparr>"

definition sample_fmt :: "real \<Rightarrow> string" where
  "sample_fmt x = (if x = 2 then ''2'' else ''?'')"

lemma sample_mode: "parse_risk_mode sample_fmt ''1:2'' = Inr (''1:2'', 2)"
proof -
  have "ratio_text (py_strip ''1:2'') = Some ''2''" by code_simp
  moreover have "py_float (VStr ''2'') = Inr 2" by code_simp
  ultimately show ?thesis by (simp add: parse_risk_mode_def sample_fmt_def)
qed

lemma sample_request_valid: "validate_request sample_fmt sample_request = Inr sample_request"
  by (simp add: validate_request_def sample_request_def request_bounds_ok_def sample_mode opt_in_def short_text_def)

lemma sample_upsert:
  "\<exists>cs1. upsert_config 10 env 1 sample_request sample_start = (None, cs1) \<and> set_running 20 1 True (Some 2) cs1 = Inr sample_trading"
  by (simp add: upsert_config_def sample_request_def sample_start_def owned_profile_def sample_db_def sample_symbol
      supported_futures_exchange_def configs_of_def config_of_def upsert_new_def finish_upsert_def apply_risk_config_def
      record_config_revision_def put_config_def upd_db_def emit_to_def emit_event_def new_config_def latest_revision_def
      content_snapshot_def set_running_def get_config_for_scope_def account_is_demo_def started_def sample_trading_def
      sample_trade_config_def List.map_filter_def Let_def)

lemma sample_reachable: "control_reachable sample_trading"
proof -
  obtain cs1 where u: "upsert_config 10 (sample_signal_env (Inr sample_opened)) 1 sample_request sample_start = (None, cs1)"
    and r: "set_running 20 1 True (Some 2) cs1 = Inr sample_trading"
    using sample_upsert by blast
  have "control_reachable sample_start"
    by (rule reach_empty) (simp add: no_configs_def sample_start_def)
  then show ?thesis
    using step_upsert [OF sample_request_valid u] step_run [OF r] by (blast intro: reach_move)
qed

lemma sample_trading_db: "cs_db sample_trading = sample_db"
  by (simp add: sample_trading_def)

theorem strategies_run_safely_witness:
  "cf_is_running sample_trade_config \<and> cf_lifecycle_stage sample_trade_config = ''sandbox''
    \<and> account_is_demo sample_trading 2"
  using strategies_run_safely [OF sample_reachable, of 7 sample_trade_config]
  by (simp add: sample_trading_db sample_db_parts) (simp add: sample_trade_config_def)



section \<open>Closing on demand\<close>

definition sample_flatten_env :: "string + real \<times> real \<Rightarrow> flatten_env" where
  "sample_flatten_env answer = \<lparr>fe_now = 200, fe_repr = (\<lambda>_. ''''), fe_adapter_error = (\<lambda>_. None),
     fe_cancelled = (\<lambda>_ _. True), fe_position = (\<lambda>_. LiveSnapshot 2 5), fe_close = (\<lambda>_. answer)\<rparr>"

definition sample_stopped_row :: auto_position where
  "sample_stopped_row = sample_row\<lparr>ap_sl_exchange_order_id := Some ''77''\<rparr>"

definition sample_open_db :: trade_db where
  "sample_open_db = sample_db\<lparr>td_positions := [sample_stopped_row]\<rparr>"

lemma sample_open_parts:
  "ap_id sample_stopped_row = 1" "ap_status sample_stopped_row = ''open''" "ap_config_id sample_stopped_row = 7"
  "ap_user_id sample_stopped_row = 1" "ap_account_id sample_stopped_row = 2" "ap_state sample_stopped_row = ''open''"
  "ap_sl_exchange_order_id sample_stopped_row = Some ''77''" "ap_symbol sample_stopped_row = ''BTC/USDT:USDT''"
  "td_positions sample_open_db = [sample_stopped_row]" "td_configs sample_open_db 7 = Some sample_trade_config"
  "cf_account_id sample_trade_config = 2" "get_row sample_open_db 1 = Some sample_stopped_row"
  "flatten_size (fe_position (sample_flatten_env a) 1) q = 2" "fe_adapter_error (sample_flatten_env a) 1 = None"
  "fe_close (sample_flatten_env a) 1 = a" "fe_cancelled (sample_flatten_env a) i x" "row_levels sample_stopped_row = []"
  by (simp_all add: sample_stopped_row_def sample_row_def adopted_row_def sample_trade_config_def sample_open_db_def
      sample_db_def get_row_def flatten_size_def sample_flatten_env_def row_levels_def Let_def)

lemma sample_open_rows:
  "fetch_open_positions_for_close (cf_user_id sample_trade_config) (cf_account_id sample_trade_config) sample_open_db
     = [sample_stopped_row]"
  by (simp add: fetch_open_positions_for_close_def sample_open_parts sample_db_parts terminal_state_names_def)

lemma sample_flatten:
  "\<exists>db'. flatten_single_position (sample_flatten_env a) reason sample_stopped_row sample_open_db
     = ((case a of Inl e \<Rightarrow> FlattenFailed 1 ''BTC/USDT:USDT'' e
          | Inr (x, avg) \<Rightarrow> Flattened 1 ''BTC/USDT:USDT'' x (if avg > 0 then Some avg else None) [''77'']), db')"
  by (auto simp: flatten_single_position_def Let_def sample_open_parts position_epsilon_def
      iter_known_conditional_order_ids_def split: sum.splits)

theorem close_all_accounted_witness:
  "\<exists>o1 db' row. close_open_positions (sample_flatten_env (Inr (2, 5))) (sample_signal_env (Inr sample_opened)) (\<lambda>_. None)
       sample_trade_config True None sample_open_db = (CloseResult [o1], db')
     \<and> \<not> flatten_failed o1 \<and> td_positions db' = [row] \<and> ap_status row = ''closed''"
proof -
  obtain db1 where f: "flatten_single_position (sample_flatten_env (Inr (2, 5))) None sample_stopped_row sample_open_db
      = (Flattened 1 ''BTC/USDT:USDT'' 2 (Some 5) [''77''], db1)"
    using sample_flatten [of "Inr (2, 5)" None] by auto
  obtain db' where c: "close_open_positions (sample_flatten_env (Inr (2, 5))) (sample_signal_env (Inr sample_opened)) (\<lambda>_. None)
       sample_trade_config True None sample_open_db = (CloseResult [Flattened 1 ''BTC/USDT:USDT'' 2 (Some 5) [''77'']], db')"
    by (simp add: close_open_positions_def sample_open_rows f Let_def)
  have "distinct (map ap_id (td_positions sample_open_db))" by (simp add: sample_open_parts)
  from close_all_accounted [OF this c refl] c show ?thesis
    by (auto simp: sample_open_rows sample_open_parts sample_open_rows [unfolded sample_open_parts] list_all2_Cons1)
qed

definition sample_trip :: kill_switch_signal where
  "sample_trip = \<lparr>ks_should_close = True, ks_reason = Some ''atr_spike'', ks_actual = Some 4, ks_threshold = Some 3\<rparr>"

text \<open>A kill-switch whose close is refused still latches the strategy; and that close has already sent
  away the stop of the position.\<close>

theorem kill_switch_latches_witness:
  "\<exists>ok db' cfg'. kill_switch_close_position (sample_flatten_env (Inl ''timeout'')) 1 sample_trip sample_open_db = (ok, db')
     \<and> td_configs db' 7 = Some cfg' \<and> \<not> cf_is_running cfg' \<and> cf_risk_off_latched cfg'"
proof -
  obtain ok db' where k: "kill_switch_close_position (sample_flatten_env (Inl ''timeout'')) 1 sample_trip sample_open_db = (ok, db')"
    by fastforce
  have "td_configs sample_open_db (ap_config_id sample_stopped_row) = Some sample_trade_config"
    by (simp add: sample_open_parts)
  from kill_switch_latches [OF k _ _ this, of "sample_flatten_env (Inl ''timeout'')" sample_trip] k show ?thesis by (fastforce simp: sample_open_parts)
qed

theorem failed_flatten_strips_stop_witness:
  "\<exists>oc db'. flatten_single_position (sample_flatten_env (Inl ''timeout'')) None sample_stopped_row sample_open_db = (oc, db')
     \<and> flatten_failed oc \<and> CancelConditional ''BTC/USDT:USDT'' ''77'' \<in> set (td_calls db')"
proof -
  obtain oc db' where f: "flatten_single_position (sample_flatten_env (Inl ''timeout'')) None sample_stopped_row sample_open_db = (oc, db')"
    by fastforce
  have "position_epsilon < flatten_size (fe_position (sample_flatten_env (Inl ''timeout'')) (ap_id sample_stopped_row)) q" for q
    by (simp add: sample_open_parts position_epsilon_def)
  from failed_flatten_strips_stop [OF _ _ this _ _ f, of "''timeout''" "''77''"] f show ?thesis
    by (auto simp: sample_open_parts)
qed

section \<open>A way around the check of the account\<close>

text \<open>Changing the mode of the account is not one of the control steps: it may turn the demo account of
  a running sandbox strategy into a real one, which \<open>set_running\<close> would have refused.\<close>

theorem demo_switch_escapes_check:
  "\<exists>cs c. update_account_mode 1 2 ''real'' sample_trading = Inr cs \<and> config_of cs 7 = Some c
     \<and> cf_is_running c \<and> cf_lifecycle_stage c \<noteq> ''live'' \<and> \<not> account_is_demo cs (cf_account_id c)
     \<and> set_running 30 1 True (Some 2) cs = Inl (ValueErr ''A non-live strategy may only run on a demo account'')"
proof -
  have "py_lower (py_strip ''real'') = ''real''" by code_simp
  then show ?thesis
    by (simp add: update_account_mode_def sample_trading_def sample_start_def config_of_def sample_db_parts
        account_is_demo_def set_running_def get_config_for_scope_def configs_of_def List.map_filter_def sample_open_parts)
      (simp add: sample_trade_config_def)
qed

end
