(* ===== verification/Rest_Samples.thy ===== *)
theory Rest_Samples
  imports Rest_Reconcile Control_Samples
begin

text \<open>
  A long position of two units with a ladder of three levels, of which one unit is left, on which the
  properties of the reconciliation over REST are applied.
\<close>

definition sample_rung :: "int \<Rightarrow> string \<Rightarrow> real \<Rightarrow> string \<Rightarrow> tp_level" where
  "sample_rung i st pct order = \<lparr>tl_level = i, tl_price_offset_pct = 1, tl_close_pct = pct, tl_trigger_price = 6,
     tl_status = st, tl_exchange_order_id = Some order, tl_move_sl_to = None, tl_sl_lock_pct = None\<rparr>"

definition sample_multi :: "string \<Rightarrow> position_context" where
  "sample_multi st = default_context\<lparr>pc_state := OPEN, pc_tp_mode := ''multi'', pc_original_quantity := 2,
     pc_current_quantity := 1,
     pc_tp_levels := [sample_rung 0 st 50 ''8'', sample_rung 1 ''open'' 25 ''9'', sample_rung 2 ''open'' 25 ''10'']\<rparr>"

definition multi_row :: "string \<Rightarrow> auto_position" where
  "multi_row st = merge_position_context_into_row (\<lambda>_. None) 60 (sample_multi st) sample_stopped_row"

definition sample_rest_env :: "string option list \<Rightarrow> futures_position option \<Rightarrow> rest_env" where
  "sample_rest_env ids live = \<lparr>rs_now = 70, rs_iso = (\<lambda>_. ''t''), rs_from_iso = (\<lambda>_. None), rs_repr = (\<lambda>_. ''''),
     rs_loads = (\<lambda>_. None), rs_position = (\<lambda>_. Inr live), rs_confirm = (\<lambda>_ _. Inr live), rs_adapter_error = (\<lambda>_. False),
     rs_open_orders = (\<lambda>_. Inr ids), rs_queue_error = (\<lambda>_. False), rs_live = (\<lambda>_. LiveSnapshot 1 5), rs_others = (\<lambda>_. id)\<rparr>"

definition sample_multi_db :: "string \<Rightarrow> trade_db" where
  "sample_multi_db st = sample_db\<lparr>td_positions := [multi_row st]\<rparr>"

lemma multi_row_parts:
  "ap_id (multi_row st) = 1" "ap_status (multi_row st) = ''open''" "ap_state (multi_row st) = ''open''"
  "ap_tp_mode (multi_row st) = Some ''multi''" "get_row (sample_multi_db st) 1 = Some (multi_row st)"
  by (simp_all add: multi_row_def merge_position_context_into_row_def sample_multi_def sample_open_parts
      status_from_runtime_state_def sample_multi_db_def get_row_def Let_def)

lemma multi_row_reads:
  "\<exists>p. from_db_row rp loads (row_payload fmt (multi_row st)) = Inr p \<and> pc_original_quantity p = 2
     \<and> pc_tp_levels p = [sample_rung 0 st 50 ''8'', sample_rung 1 ''open'' 25 ''9'', sample_rung 2 ''open'' 25 ''10'']"
proof -
  have "pc_active_watchers (sample_multi st) = []" by (simp add: sample_multi_def default_context_def)
  then obtain p where p: "from_db_row rp loads (row_payload fmt (multi_row st)) = Inr p"
    unfolding multi_row_def using merged_reads by blast
  with merged_levels [OF p [unfolded multi_row_def]] show ?thesis by (simp add: sample_multi_def)
qed

definition sample_half :: futures_position where
  "sample_half = sample_live\<lparr>fp_contracts := 1\<rparr>"

lemma sample_rest_parts:
  "\<not> rs_adapter_error (sample_rest_env ids live) i" "\<not> rs_queue_error (sample_rest_env ids live) i"
  "rs_open_orders (sample_rest_env ids live) i = Inr ids" "rs_others (sample_rest_env ids live) i = id"
  "rs_position (sample_rest_env ids live) i = Inr live" "rs_confirm (sample_rest_env ids live) i k = Inr live"
  "\<bar>fp_contracts sample_half\<bar> = 1"
  by (simp_all add: sample_rest_env_def sample_half_def)


text \<open>The first level filled long ago; the order of the second is cancelled by hand, and it counts as filled.\<close>

theorem cancelled_level_taken_for_fill_witness:
  "\<exists>db' row'. reconcile_partial_tp (sample_rest_env [Some ''10''] None) 1 (Some sample_half) (sample_multi_db ''triggered'')
       = (Some 1, db')
     \<and> get_row db' 1 = Some row'"
proof -
  let ?env = "sample_rest_env [Some ''10''] None"
  obtain p where p: "from_db_row (rs_repr ?env) (rs_loads ?env) (row_payload (rs_iso ?env) (multi_row ''triggered'')) = Inr p"
    "pc_original_quantity p = 2"
    "pc_tp_levels p = [sample_rung 0 ''triggered'' 50 ''8'', sample_rung 1 ''open'' 25 ''9'', sample_rung 2 ''open'' 25 ''10'']"
    using multi_row_reads by blast
  have v: "vanished_levels [Some ''10''] p = [(1, sample_rung 1 ''open'' 25 ''9'')]"
    by (simp add: vanished_levels_def rest_candidates_def p(3) level_placed_def order_listed_def sample_rung_def)
  from cancelled_level_taken_for_fill [OF _ multi_row_parts(5) _ _ _ p(1) _ _ _ _ v, of sample_half] show ?thesis
    by (auto simp: sample_rest_parts multi_row_parts p(2,3) level_nominal_def sample_rung_def position_epsilon_def)
qed

theorem rest_close_confirmed_witness:
  "\<exists>db' row. reconcile_single (sample_rest_env [] None) 1 (sample_multi_db ''open'') = (Inr True, db')
     \<and> get_row db' 1 = Some row \<and> ap_status row = ''closed''"
proof -
  obtain r db' where r: "reconcile_single (sample_rest_env [] None) 1 (sample_multi_db ''open'') = (r, db')" by fastforce
  have "confirm_from (rs_confirm (sample_rest_env [] None) 1) 1 position_close_confirm_attempts = Inr (True, None)"
    by (simp add: position_close_confirm_attempts_def numeral_eq_Suc sample_rest_parts is_position_closed_on_exchange_def)
  with rest_close_confirmed [OF r] r show ?thesis
    by (auto simp: sample_rest_parts is_position_closed_on_exchange_def multi_row_parts)
qed

end
