(* ===== verification/Anomaly.thy ===== *)
theory Anomaly
  imports Strategy_Control Health
begin

text \<open>
  The anomaly detector \<^verbatim>\<open>app/services/auto_trade/anomaly/detector.py\<close> and the sweep that runs it,
  \<^verbatim>\<open>sweep_strategy_anomalies\<close> of \<^verbatim>\<open>app/services/auto_trade/service.py\<close>. The statistics of \<^verbatim>\<open>pandas\<close>
  (rolling and whole-series mean and standard deviation, exponentially weighted mean) are the record
  \<open>series_ops\<close>, and \<open>documented_ops\<close> states their documented values; \<open>None\<close> is a missing value.
  Running sums, maxima and differences of a series are written out.
\<close>

section \<open>Series\<close>

record series_ops =
  so_rolling_mean :: "nat \<Rightarrow> real option list \<Rightarrow> real option list"
  so_rolling_std :: "nat \<Rightarrow> real option list \<Rightarrow> real option list"
  so_mean :: "real list \<Rightarrow> real option"
  so_std :: "real list \<Rightarrow> real option"
  so_ewm_mean :: "real \<Rightarrow> real list \<Rightarrow> real list"

record anomaly_config =
  dc_z_threshold :: real
  dc_window :: nat
  dc_freq_alpha :: real

definition default_anomaly_config :: anomaly_config where
  "default_anomaly_config = \<lparr>dc_z_threshold = 3, dc_window = 20, dc_freq_alpha = 3 / 10\<rparr>"

definition critical_z_mult :: real where
  "critical_z_mult = 3 / 2"

record anomaly_finding =
  af_metric :: string
  af_value :: real
  af_baseline :: real
  af_z_score :: real
  af_severity :: string

definition severity :: "real \<Rightarrow> real \<Rightarrow> string" where
  "severity z threshold =
     (if \<bar>z\<bar> \<ge> threshold * critical_z_mult then ''critical''
      else if \<bar>z\<bar> \<ge> threshold then ''warning'' else ''info'')"

text \<open>The score of the last value and the mean it is measured against.\<close>

definition last_rolling_z :: "series_ops \<Rightarrow> nat \<Rightarrow> real option list \<Rightarrow> real option \<times> real option" where
  "last_rolling_z ops w values =
     (if values = [] then (None, None)
      else
        let m = last (so_rolling_mean ops w values) in
        case (last (so_rolling_std ops w values), m, last values) of
          (Some s, Some mu, Some v) \<Rightarrow> if s = 0 then (None, m) else (Some ((v - mu) / s), m)
        | _ \<Rightarrow> (None, m))"

fun cumsum_from :: "real \<Rightarrow> real list \<Rightarrow> real list" where
  "cumsum_from acc [] = []"
| "cumsum_from acc (x # xs) = (acc + x) # cumsum_from (acc + x) xs"

fun cummax_from :: "real \<Rightarrow> real list \<Rightarrow> real list" where
  "cummax_from acc [] = []"
| "cummax_from acc (x # xs) = max acc x # cummax_from (max acc x) xs"

definition cummax :: "real list \<Rightarrow> real list" where
  "cummax xs = (case xs of [] \<Rightarrow> [] | x # r \<Rightarrow> cummax_from x xs)"

definition diff :: "real list \<Rightarrow> real option list" where
  "diff xs = (case xs of [] \<Rightarrow> [] | x # r \<Rightarrow> None # map2 (\<lambda>a b. Some (b - a)) xs r)"

section \<open>The four metrics\<close>

definition finding :: "anomaly_config \<Rightarrow> string \<Rightarrow> real \<Rightarrow> real \<Rightarrow> real \<Rightarrow> anomaly_finding" where
  "finding cfg metric v base z =
     \<lparr>af_metric = metric, af_value = v, af_baseline = base, af_z_score = z,
      af_severity = severity z (dc_z_threshold cfg)\<rparr>"

definition detect_pnl :: "series_ops \<Rightarrow> anomaly_config \<Rightarrow> real list \<Rightarrow> anomaly_finding option" where
  "detect_pnl ops cfg pnls =
     (case last_rolling_z ops (dc_window cfg) (map Some pnls) of
        (Some z, Some base) \<Rightarrow>
          if \<bar>z\<bar> < dc_z_threshold cfg then None else Some (finding cfg ''pnl_zscore'' (last pnls) base z)
      | _ \<Rightarrow> None)"

definition drawdown_velocity :: "real list \<Rightarrow> real option list" where
  "drawdown_velocity pnls =
     (let equity = cumsum_from 0 pnls in diff (map2 (\<lambda>a b. a - b) (cummax equity) equity))"

definition detect_drawdown_velocity :: "series_ops \<Rightarrow> anomaly_config \<Rightarrow> real list \<Rightarrow> anomaly_finding option" where
  "detect_drawdown_velocity ops cfg pnls =
     (let velocity = drawdown_velocity pnls in
      case last_rolling_z ops (dc_window cfg) velocity of
        (Some z, Some base) \<Rightarrow>
          if z < dc_z_threshold cfg then None
          else Some (finding cfg ''drawdown_velocity'' (case last velocity of None \<Rightarrow> 0 | Some v \<Rightarrow> v) base z)
      | _ \<Rightarrow> None)"

definition detect_win_rate_collapse :: "series_ops \<Rightarrow> anomaly_config \<Rightarrow> real list \<Rightarrow> anomaly_finding option" where
  "detect_win_rate_collapse ops cfg pnls =
     (let wins = map (\<lambda>x. Some (if x > 0 then 1 else 0)) pnls;
          valid = List.map_filter id (so_rolling_mean ops (dc_window cfg) wins)
      in if length valid < 2 then None
         else case (so_mean ops valid, so_std ops valid) of
                (Some mu, Some s) \<Rightarrow>
                  if s = 0 then None
                  else let z = (last valid - mu) / s in
                       if z > - dc_z_threshold cfg then None
                       else Some (finding cfg ''win_rate_collapse'' (last valid * 100) (mu * 100) z)
              | _ \<Rightarrow> None)"

definition detect_trade_frequency :: "series_ops \<Rightarrow> anomaly_config \<Rightarrow> real list \<Rightarrow> anomaly_finding option" where
  "detect_trade_frequency ops cfg counts =
     (if length counts < 2 then None
      else
        let baseline = so_ewm_mean ops (dc_freq_alpha cfg) counts;
            resid = map2 (\<lambda>c b. c - b) counts baseline
        in case so_std ops resid of
             None \<Rightarrow> None
           | Some sigma \<Rightarrow>
               if sigma = 0 then None
               else let z = last resid / sigma in
                    if \<bar>z\<bar> < dc_z_threshold cfg then None
                    else Some (finding cfg ''trade_frequency'' (last counts) (last baseline) z))"

definition detect_anomalies :: "series_ops \<Rightarrow> anomaly_config \<Rightarrow> real list \<Rightarrow> real list option \<Rightarrow> anomaly_finding list" where
  "detect_anomalies ops cfg pnls counts =
     filter (\<lambda>f. af_severity f \<noteq> ''info'')
       (List.map_filter id
         [detect_pnl ops cfg pnls, detect_drawdown_velocity ops cfg pnls, detect_win_rate_collapse ops cfg pnls,
          case counts of None \<Rightarrow> None | Some cs \<Rightarrow> detect_trade_frequency ops cfg cs])"

section \<open>The sweep\<close>

definition anomaly_config_from_risk :: "risk_config \<Rightarrow> anomaly_config" where
  "anomaly_config_from_risk rc =
     default_anomaly_config
       \<lparr>dc_z_threshold := (case rc_anomaly_z_threshold rc of None \<Rightarrow> dc_z_threshold default_anomaly_config | Some z \<Rightarrow> z),
        dc_window := (case rc_anomaly_window rc of None \<Rightarrow> dc_window default_anomaly_config | Some n \<Rightarrow> nat n)\<rparr>"

record anomaly_env =
  ae_ops :: series_ops
  ae_fails :: "int \<Rightarrow> bool"
  ae_recent :: "int \<Rightarrow> bool"
  ae_limit :: nat

text \<open>The most recently closed rows, oldest first; a row without closing time sorts as the latest.\<close>

definition row_gross :: "auto_position \<Rightarrow> real option" where
  "row_gross p =
     (case ap_close_price p of
        None \<Rightarrow> None
      | Some close \<Rightarrow>
          Some (if ap_side p = ''SHORT'' then (ap_entry_price p - close) * ap_quantity p
                else (close - ap_entry_price p) * ap_quantity p))"

definition closed_before_key :: "auto_position \<Rightarrow> nat \<times> real" where
  "closed_before_key p = (case ap_closed_at p of None \<Rightarrow> (1, 0) | Some t \<Rightarrow> (0, t))"

definition load_anomaly_series :: "nat \<Rightarrow> int \<Rightarrow> trade_db \<Rightarrow> real list \<times> real list" where
  "load_anomaly_series limit cid db =
     (let rows = linorder_class.sort_key closed_before_key
                   (filter (\<lambda>p. ap_config_id p = cid \<and> ap_status p = ''closed'') (td_positions db));
          recent = drop (length rows - limit) rows;
          priced = filter (\<lambda>p. row_gross p \<noteq> None) recent;
          days = map (\<lambda>t. \<lfloor>t / 86400\<rfloor>) (List.map_filter ap_closed_at priced)
      in (List.map_filter row_gross priced, map (\<lambda>d. real (count_list days d)) (List.sort (remdups days))))"

definition anomaly_step :: "anomaly_env \<Rightarrow> int \<Rightarrow> control_state \<Rightarrow> (bool \<times> bool) \<times> control_state" where
  "anomaly_step env cid cs =
     (case config_of cs cid of
        None \<Rightarrow> ((False, False), cs)
      | Some cfg \<Rightarrow>
          if \<not> cf_is_running cfg then ((False, False), cs)
          else case td_risk (cs_db cs) cid of
                 None \<Rightarrow> ((False, False), cs)
               | Some rc \<Rightarrow>
                   if \<not> rc_anomaly_detection_enabled rc then ((False, False), cs)
                   else
                     let (pnls, counts) = load_anomaly_series (ae_limit env) cid (cs_db cs);
                         findings = detect_anomalies (ae_ops env) (anomaly_config_from_risk rc) pnls
                                      (if counts = [] then None else Some counts)
                     in if findings = [] \<or> ae_recent env cid then ((True, False), cs)
                        else ((True, True), emit_to ''strategy_anomaly_detected'' ''warning'' cs))"

definition sweep_strategy_anomalies :: "anomaly_env \<Rightarrow> control_state \<Rightarrow> (nat \<times> nat \<times> nat) \<times> control_state" where
  "sweep_strategy_anomalies env cs =
     sweep (ae_fails env) (anomaly_step env)
       (filter (\<lambda>cid. case td_risk (cs_db cs) cid of None \<Rightarrow> False | Some rc \<Rightarrow> rc_anomaly_detection_enabled rc) (active_ids cs))
       (0, 0, 0) cs"

section \<open>What is documented of the statistics\<close>

definition window_at :: "nat \<Rightarrow> real option list \<Rightarrow> nat \<Rightarrow> real list option" where
  "window_at w xs i =
     (let sub = take w (drop (i + 1 - w) xs)
      in if w \<le> i + 1 \<and> None \<notin> set sub then Some (map the sub) else None)"

definition opt_mean :: "real list \<Rightarrow> real option" where
  "opt_mean xs = (if xs = [] then None else Some (mean xs))"

definition opt_std :: "real list \<Rightarrow> real option" where
  "opt_std xs = (if length xs < 2 then None else Some (std1 xs))"

definition documented_ops :: "series_ops \<Rightarrow> bool" where
  "documented_ops ops \<longleftrightarrow>
     (\<forall>w xs. so_rolling_mean ops w xs = map (\<lambda>i. Option.bind (window_at w xs i) opt_mean) [0..<length xs])
     \<and> (\<forall>w xs. so_rolling_std ops w xs = map (\<lambda>i. Option.bind (window_at w xs i) opt_std) [0..<length xs])
     \<and> so_mean ops = opt_mean \<and> so_std ops = opt_std"


section \<open>A point in its own window\<close>

lemma square_sum_le: "(sum_list xs)\<^sup>2 \<le> real (length xs) * sum_list (map (\<lambda>x. x\<^sup>2) xs)"
proof (induction xs)
  case (Cons x xs)
  let ?s = "sum_list xs" and ?q = "sum_list (map (\<lambda>x. x\<^sup>2) xs)" and ?n = "real (length xs)"
  show ?case
  proof (cases "xs = []")
    case False
    then have n: "0 < ?n" by simp
    have "0 \<le> (?n * x - ?s)\<^sup>2 / ?n" using n by simp
    also have "\<dots> = ?n * x\<^sup>2 - 2 * x * ?s + ?s\<^sup>2 / ?n"
      using n by (simp add: power2_eq_square field_simps)
    finally have a: "2 * x * ?s \<le> ?n * x\<^sup>2 + ?s\<^sup>2 / ?n" by simp
    have "?s\<^sup>2 / ?n \<le> ?q" using Cons.IH n by (simp add: field_simps)
    with a Cons.IH show ?thesis by (simp add: power2_eq_square algebra_simps)
  qed simp
qed simp

lemma deviations_sum: "xs \<noteq> [] \<Longrightarrow> sum_list (map (\<lambda>x. x - mean xs) xs) = 0"
  by (simp add: sum_list_subtractf mean_def sum_list_triv)

lemma score_arith:
  fixes q S n :: real
  assumes "0 < S" and "2 \<le> n" and "n * q \<le> (n - 1) * S"
  shows "q / (S / (n - 1)) \<le> (n - 1)\<^sup>2 / n"
proof -
  have "q * (n - 1) * n = (n * q) * (n - 1)" by simp
  also have "\<dots> \<le> ((n - 1) * S) * (n - 1)" using assms by (intro mult_right_mono) auto
  finally have "q * (n - 1) * n \<le> (n - 1)\<^sup>2 * S" by (simp add: power2_eq_square mult.commute mult.left_commute)
  then have "q * (n - 1) / S \<le> (n - 1)\<^sup>2 / n"
    using assms(1,2) by (simp add: divide_le_eq le_divide_eq mult.commute)
  then show ?thesis by simp
qed

lemma own_score_bounded:
  assumes "2 \<le> length xs" and "std1 xs \<noteq> 0"
  shows "\<bar>(last xs - mean xs) / std1 xs\<bar> \<le> (real (length xs) - 1) / sqrt (real (length xs))"
proof -
  let ?n = "real (length xs)" and ?ds = "map (\<lambda>x. x - mean xs) xs"
  let ?S = "sum_list (map (\<lambda>x. (x - mean xs)\<^sup>2) xs)"
  let ?d = "last xs - mean xs"
  have ne: "xs \<noteq> []" and n: "2 \<le> ?n" using assms(1) by auto
  have split: "?ds = butlast ?ds @ [?d]"
    using ne by (metis append_butlast_last_id last_map map_is_Nil_conv)
  have "sum_list (butlast ?ds) = - ?d"
    using deviations_sum [OF ne] by (subst (asm) split) simp
  moreover have "length (butlast ?ds) = length xs - 1" by simp
  ultimately have c: "?d\<^sup>2 \<le> (?n - 1) * sum_list (map (\<lambda>x. x\<^sup>2) (butlast ?ds))"
    using square_sum_le [of "butlast ?ds"] n by (simp add: of_nat_diff power2_commute [of "last xs"])
  have "map (\<lambda>x. (x - mean xs)\<^sup>2) xs = map (\<lambda>x. x\<^sup>2) ?ds" by simp
  also have "\<dots> = map (\<lambda>x. x\<^sup>2) (butlast ?ds) @ [?d\<^sup>2]" by (subst split) simp
  finally have S: "?S = sum_list (map (\<lambda>x. x\<^sup>2) (butlast ?ds)) + ?d\<^sup>2" by simp
  then have b: "?n * ?d\<^sup>2 \<le> (?n - 1) * ?S" using c by (simp add: algebra_simps)
  have "0 \<le> ?S" by (auto intro!: sum_list_nonneg)
  then have std: "(std1 xs)\<^sup>2 = ?S / (?n - 1)"
    using n by (simp add: std1_def of_nat_diff)
  have pos: "0 < (std1 xs)\<^sup>2" using assms(2) by simp
  have "0 < ?S" using pos std n ne by (simp add: zero_less_divide_iff)
  have "(?d / std1 xs)\<^sup>2 = ?d\<^sup>2 / (?S / (?n - 1))" by (simp add: power_divide std)
  also have "\<dots> \<le> (?n - 1)\<^sup>2 / ?n" by (rule score_arith) (use \<open>0 < ?S\<close> n b in auto)
  also have "\<dots> = ((?n - 1) / sqrt ?n)\<^sup>2" using n by (simp add: power_divide)
  finally show ?thesis
    using n by (metis abs_le_square_iff abs_of_nonneg divide_nonneg_nonneg diff_ge_0_iff_ge order_trans one_le_numeral real_sqrt_ge_zero of_nat_0_le_iff)
qed

lemma last_window:
  assumes "xs \<noteq> []" and "window_at w xs (length xs - 1) = Some ys" and "0 < w"
  shows "last xs = Some (last ys)" and "length ys = w"
proof -
  let ?sub = "take w (drop (length xs - w) xs)"
  have e: "length xs - 1 + 1 - w = length xs - w" using assms(1) by (cases xs) auto
  have y: "w \<le> length xs" "None \<notin> set ?sub" "ys = map the ?sub"
    using assms(1,2) unfolding window_at_def e by (auto simp: Let_def split: if_splits)
  have s: "?sub = drop (length xs - w) xs" "?sub \<noteq> []" using y(1) assms(1,3) by auto
  then have l: "last ?sub = last xs" using y(1) assms(1,3) by (metis drop_eq_Nil last_drop linorder_not_less)
  have "last ?sub \<noteq> None" using s(2) y(2) by (metis last_in_set)
  then show "last xs = Some (last ys)" using l s(2) by (simp add: y(3) last_map)
  show "length ys = w" using y(1,3) by simp
qed

lemma rolling_score:
  assumes "documented_ops ops" and "2 \<le> w" and "last_rolling_z ops w values = (Some z, base)"
  shows "\<bar>z\<bar> \<le> (real w - 1) / sqrt (real w)" and "w \<le> length values"
    and "\<exists>v mu. last values = Some v \<and> base = Some mu \<and> sgn z = sgn (v - mu)"
proof -
  let ?i = "length values - 1"
  have ne: "values \<noteq> []" using assms(3) by (auto simp: last_rolling_z_def)
  have last: "last (map h [0..<length values]) = h ?i" for h :: "nat \<Rightarrow> real option"
    using ne by (simp add: last_map)
  obtain s mu v where q: "Option.bind (window_at w values ?i) opt_std = Some s"
    "Option.bind (window_at w values ?i) opt_mean = Some mu" "last values = Some v" "s \<noteq> 0" "z = (v - mu) / s" "base = Some mu"
    using assms(1,3) ne by (auto simp: last_rolling_z_def documented_ops_def last Let_def
        split: option.splits if_splits)
  then obtain ys where ys: "window_at w values ?i = Some ys" "opt_std ys = Some s" "opt_mean ys = Some mu"
    by (auto simp: bind_eq_Some_conv)
  have y: "last values = Some (last ys)" "length ys = w" using last_window [OF ne ys(1)] assms(2) by auto
  with q(3-5) ys(2,3) assms(2) own_score_bounded [of ys] show "\<bar>z\<bar> \<le> (real w - 1) / sqrt (real w)"
    by (auto simp: opt_std_def opt_mean_def split: if_splits)
  show "w \<le> length values" using ys(1) ne by (auto simp: window_at_def Let_def split: if_splits)
  have "0 \<le> s" using ys(2) by (auto simp: opt_std_def std1_def intro!: divide_nonneg_nonneg sum_list_nonneg split: if_splits)
  then show "\<exists>v mu. last values = Some v \<and> base = Some mu \<and> sgn z = sgn (v - mu)"
    using q by (auto simp: sgn_divide)
qed

lemma cumsum_length [simp]: "length (cumsum_from a xs) = length xs"
  by (induction xs arbitrary: a) auto

lemma cummax_length [simp]: "length (cummax xs) = length xs"
proof -
  have "length (cummax_from a ys) = length ys" for a ys by (induction ys arbitrary: a) auto
  then show ?thesis by (simp add: cummax_def split: list.split)
qed

lemma velocity_length: "length (drawdown_velocity pnls) = length pnls"
proof -
  have "length (diff xs) = length xs" for xs by (cases xs) (simp_all add: diff_def)
  then show ?thesis by (simp add: drawdown_velocity_def Let_def)
qed

lemma pnl_finding:
  assumes "documented_ops ops" and "2 \<le> dc_window cfg" and "detect_pnl ops cfg pnls = Some f"
  shows "af_metric f = ''pnl_zscore''" "af_severity f = severity (af_z_score f) (dc_z_threshold cfg)"
    "dc_z_threshold cfg \<le> \<bar>af_z_score f\<bar>" "dc_window cfg \<le> length pnls"
    "\<bar>af_z_score f\<bar> \<le> (real (dc_window cfg) - 1) / sqrt (real (dc_window cfg))"
  using assms(3) rolling_score [OF assms(1,2), of "map Some pnls"]
  by (auto simp: detect_pnl_def finding_def split: prod.splits option.splits if_splits)

lemma drawdown_finding:
  assumes "documented_ops ops" and "2 \<le> dc_window cfg" and "0 < dc_z_threshold cfg"
    and "detect_drawdown_velocity ops cfg pnls = Some f"
  shows "af_metric f = ''drawdown_velocity''" "af_severity f = severity (af_z_score f) (dc_z_threshold cfg)"
    "dc_z_threshold cfg \<le> \<bar>af_z_score f\<bar>" "dc_window cfg \<le> length pnls"
    "\<bar>af_z_score f\<bar> \<le> (real (dc_window cfg) - 1) / sqrt (real (dc_window cfg))"
    "af_baseline f < af_value f"
proof -
  obtain z base where l: "last_rolling_z ops (dc_window cfg) (drawdown_velocity pnls) = (Some z, Some base)"
    "dc_z_threshold cfg \<le> z"
    "f = finding cfg ''drawdown_velocity'' (case last (drawdown_velocity pnls) of None \<Rightarrow> 0 | Some v \<Rightarrow> v) base z"
    using assms(4) by (auto simp: detect_drawdown_velocity_def Let_def split: prod.splits option.splits if_splits)
  from rolling_score [OF assms(1,2) l(1)] obtain v where v: "last (drawdown_velocity pnls) = Some v" "sgn z = sgn (v - base)"
    "\<bar>z\<bar> \<le> (real (dc_window cfg) - 1) / sqrt (real (dc_window cfg))" "dc_window cfg \<le> length (drawdown_velocity pnls)"
    by auto
  then have "base < v" using l(2) assms(3) by (simp add: sgn_if split: if_splits)
  with l v show "af_metric f = ''drawdown_velocity''" "af_severity f = severity (af_z_score f) (dc_z_threshold cfg)"
    "dc_z_threshold cfg \<le> \<bar>af_z_score f\<bar>" "dc_window cfg \<le> length pnls"
    "\<bar>af_z_score f\<bar> \<le> (real (dc_window cfg) - 1) / sqrt (real (dc_window cfg))" "af_baseline f < af_value f"
    by (simp_all add: finding_def velocity_length)
qed

lemma win_finding:
  assumes "documented_ops ops" and "0 < dc_z_threshold cfg" and "detect_win_rate_collapse ops cfg pnls = Some f"
  shows "af_metric f = ''win_rate_collapse''" "af_severity f = severity (af_z_score f) (dc_z_threshold cfg)"
    "dc_z_threshold cfg \<le> \<bar>af_z_score f\<bar>" "af_value f < af_baseline f"
proof -
  have ops: "so_std ops = opt_std" using assms(1) by (simp add: documented_ops_def)
  define valid where "valid = List.map_filter id (so_rolling_mean ops (dc_window cfg) (map (\<lambda>x. Some (if x > 0 then 1 else 0)) pnls))"
  have "\<exists>mu s. s \<noteq> 0 \<and> opt_std valid = Some s \<and> (last valid - mu) / s \<le> - dc_z_threshold cfg
    \<and> f = finding cfg ''win_rate_collapse'' (last valid * 100) (mu * 100) ((last valid - mu) / s)"
    using assms(3) ops by (auto simp: detect_win_rate_collapse_def Let_def not_less valid_def [symmetric] split: option.splits if_splits)
  then obtain mu s where v: "s \<noteq> 0" "opt_std valid = Some s" "(last valid - mu) / s \<le> - dc_z_threshold cfg"
    "f = finding cfg ''win_rate_collapse'' (last valid * 100) (mu * 100) ((last valid - mu) / s)" by blast
  have "0 \<le> s" using v(2) by (auto simp: opt_std_def std1_def intro!: divide_nonneg_nonneg sum_list_nonneg split: if_splits)
  with v(1,3) assms(2) have "last valid - mu < 0"
    by (meson divide_nonneg_nonneg leD leI less_le_trans neg_less_0_iff_less order.strict_trans1)
  moreover define z where "z = (last valid - mu) / s"
  then have f: "f = finding cfg ''win_rate_collapse'' (last valid * 100) (mu * 100) z" and z: "z \<le> - dc_z_threshold cfg"
    using v(3,4) by simp_all
  from z assms(2) have "dc_z_threshold cfg \<le> \<bar>z\<bar>" by linarith
  ultimately show "af_metric f = ''win_rate_collapse''" "af_severity f = severity (af_z_score f) (dc_z_threshold cfg)"
    "dc_z_threshold cfg \<le> \<bar>af_z_score f\<bar>" "af_value f < af_baseline f"
    by (simp_all add: f finding_def)
qed

lemma frequency_finding:
  assumes "detect_trade_frequency ops cfg counts = Some f"
  shows "af_metric f = ''trade_frequency''" "af_severity f = severity (af_z_score f) (dc_z_threshold cfg)"
    "dc_z_threshold cfg \<le> \<bar>af_z_score f\<bar>"
  using assms by (auto simp: detect_trade_frequency_def finding_def Let_def split: option.splits if_splits)


section \<open>Properties\<close>

lemma anomaly_findings_shape:
  assumes "documented_ops ops" and "2 \<le> dc_window cfg" and "0 < dc_z_threshold cfg"
    and "f \<in> set (detect_anomalies ops cfg pnls counts)"
  shows "dc_z_threshold cfg \<le> \<bar>af_z_score f\<bar>
    \<and> af_severity f = (if dc_z_threshold cfg * critical_z_mult \<le> \<bar>af_z_score f\<bar> then ''critical'' else ''warning'')
    \<and> (af_metric f \<in> {''pnl_zscore'', ''drawdown_velocity''} \<longrightarrow> dc_window cfg \<le> length pnls
          \<and> \<bar>af_z_score f\<bar> \<le> (real (dc_window cfg) - 1) / sqrt (real (dc_window cfg)))
    \<and> (af_metric f = ''drawdown_velocity'' \<longrightarrow> af_baseline f < af_value f)
    \<and> (af_metric f = ''win_rate_collapse'' \<longrightarrow> af_value f < af_baseline f)"
proof -
  have "detect_pnl ops cfg pnls = Some f \<or> detect_drawdown_velocity ops cfg pnls = Some f
      \<or> detect_win_rate_collapse ops cfg pnls = Some f \<or> (\<exists>cs. detect_trade_frequency ops cfg cs = Some f)"
    using assms(4) by (auto simp: detect_anomalies_def List.map_filter_def split: option.splits if_splits)
  moreover have "severity z t = (if t * critical_z_mult \<le> \<bar>z\<bar> then ''critical'' else ''warning'')" if "t \<le> \<bar>z\<bar>" for z t
    using that by (simp add: severity_def)
  ultimately show ?thesis
    using pnl_finding [OF assms(1,2)] drawdown_finding [OF assms(1-3)] win_finding [OF assms(1,3)] frequency_finding
    by (elim disjE exE) simp_all
qed


text \<open>With the built-in settings, a window of twenty trades and a threshold of three, a loss or a drawdown
  is never critical, however large: its score stays below four and a half.\<close>

theorem default_detector_never_critical:
  assumes "documented_ops ops" and "f \<in> set (detect_anomalies ops default_anomaly_config pnls counts)"
    and "af_metric f \<in> {''pnl_zscore'', ''drawdown_velocity''}"
  shows "af_severity f = ''warning''"
proof -
  have "(real 20 - 1) / sqrt (real 20) < 9 / 2"
  proof -
    have "4 < sqrt (20 :: real)" by (rule real_less_rsqrt) simp
    then have "18 < 9 / 2 * sqrt (20 :: real)" by simp
    moreover have "(38 / 9) < sqrt (20 :: real)" by (rule real_less_rsqrt) (simp add: power2_eq_square)
    ultimately show ?thesis by (simp add: field_simps)
  qed
  moreover have "2 \<le> dc_window default_anomaly_config" "0 < dc_z_threshold default_anomaly_config"
    by (simp_all add: default_anomaly_config_def)
  note anomaly_findings_shape [OF assms(1) this assms(2)]
  ultimately show ?thesis using assms(3) by (simp add: default_anomaly_config_def critical_z_mult_def split: if_splits)
qed

text \<open>The sweep only alerts: it changes nothing but the list of events, to which it adds one warning for
  each strategy it counts as alerted.\<close>

lemma anomaly_sweep_effect:
  assumes "sweep_strategy_anomalies env cs = ((evaluated, alerted, errors), cs')"
  shows "cs' = upd_db (\<lambda>db. db\<lparr>td_events := td_events db @ replicate alerted (''strategy_anomaly_detected'', ''warning'')\<rparr>) cs
    \<and> alerted \<le> evaluated \<and> evaluated + errors \<le> length (active_ids cs)"
proof -
  have step: "snd r = (if snd (fst r) then emit_to ''strategy_anomaly_detected'' ''warning'' c else c)
      \<and> (snd (fst r) \<longrightarrow> fst (fst r))" if "r = anomaly_step env i c" for r i c
    by (auto simp: that anomaly_step_def Let_def split: option.splits prod.splits)
  have "cs' = upd_db (\<lambda>db. db\<lparr>td_events := td_events db @ replicate (a' - a) (''strategy_anomaly_detected'', ''warning'')\<rparr>) cs
      \<and> a \<le> a' \<and> a' - a \<le> e' - e \<and> e \<le> e' \<and> x \<le> x' \<and> (e' - e) + (x' - x) \<le> length ids"
    if "sweep (ae_fails env) (anomaly_step env) ids (e, a, x) cs = ((e', a', x'), cs')" for ids e a x e' a' x' cs cs'
    using that
  proof (induction ids arbitrary: e a x cs)
    case Nil
    then show ?case by (simp add: upd_db_def)
  next
    case (Cons i ids)
    show ?case
    proof (cases "ae_fails env i")
      case True
      with Cons.prems Cons.IH [of e a "x + 1" cs] show ?thesis by auto
    next
      case False
      obtain ev act c1 where s: "anomaly_step env i cs = ((ev, act), c1)" by (metis prod.collapse)
      from step [OF this [symmetric]] have c1: "c1 = (if act then emit_to ''strategy_anomaly_detected'' ''warning'' cs else cs)"
        "act \<longrightarrow> ev" by auto
      from Cons.prems False s have "sweep (ae_fails env) (anomaly_step env) ids
          (e + (if ev then 1 else 0), a + (if act then 1 else 0), x) c1 = ((e', a', x'), cs')" by simp
      note ih = Cons.IH [OF this]
      show ?thesis
      proof (cases act)
        case True
        with ih c1(2) have "a' - a = Suc (a' - (a + 1))" by auto
        with ih c1 True show ?thesis by (auto simp: upd_db_def emit_to_def emit_event_def)
      next
        case False
        with ih c1 show ?thesis by (auto split: if_splits)
      qed
    qed
  qed
  from this [OF assms [unfolded sweep_strategy_anomalies_def]] show ?thesis
    by (auto intro: order_trans [OF _ length_filter_le])
qed


text \<open>The anomaly sweep only alerts. Whatever the detectors find, it changes nothing but the list of events,
  to which it adds one warning for each strategy it counts as alerted; in particular no strategy is
  stopped or paused by it.\<close>

theorem anomaly_sweep_only_alerts:
  "case sweep_strategy_anomalies env cs of ((evaluated, alerted, errors), cs') \<Rightarrow>
     cs' = upd_db (\<lambda>db. db\<lparr>td_events := td_events db @ replicate alerted (''strategy_anomaly_detected'', ''warning'')\<rparr>) cs
     \<and> alerted \<le> evaluated \<and> evaluated + errors \<le> length (active_ids cs)"
  using anomaly_sweep_effect by (auto split: prod.split)


section \<open>On a concrete run of losses\<close>

definition demo_ops :: series_ops where
  "demo_ops = \<lparr>so_rolling_mean = (\<lambda>w xs. map (\<lambda>i. Option.bind (window_at w xs i) opt_mean) [0..<length xs]),
     so_rolling_std = (\<lambda>w xs. map (\<lambda>i. Option.bind (window_at w xs i) opt_std) [0..<length xs]),
     so_mean = opt_mean, so_std = opt_std, so_ewm_mean = (\<lambda>_ xs. xs)\<rparr>"

definition demo_pnls :: "real list" where
  "demo_pnls = replicate 19 0 @ [- 20]"

definition demo_loss :: anomaly_finding where
  "demo_loss = finding default_anomaly_config ''pnl_zscore'' (- 20) (- 1) (- 19 / sqrt 20)"

lemma demo_ops_documented: "documented_ops demo_ops"
  by (simp add: documented_ops_def demo_ops_def)

lemma demo_loss_found: "demo_loss \<in> set (detect_anomalies demo_ops default_anomaly_config demo_pnls None)"
proof -
  have w: "window_at 20 (map Some demo_pnls) 19 = Some demo_pnls"
    by (simp add: window_at_def demo_pnls_def)
  have m: "mean demo_pnls = - 1" by (simp add: mean_def demo_pnls_def sum_list_replicate)
  have "std1 demo_pnls = sqrt 20"
    by (simp add: std1_def m) (simp add: demo_pnls_def sum_list_replicate map_replicate_const power2_eq_square)
  then have s: "opt_std demo_pnls = Some (sqrt 20)" "opt_mean demo_pnls = Some (- 1)"
    by (simp_all add: opt_std_def opt_mean_def m) (simp_all add: demo_pnls_def)
  have l: "length demo_pnls = 20" "last demo_pnls = - 20" "demo_pnls \<noteq> []" by (simp_all add: demo_pnls_def)
  have last: "last (map h [0..<20]) = h 19" for h :: "nat \<Rightarrow> real option"
    by (simp add: last_map)
  have z: "last_rolling_z demo_ops 20 (map Some demo_pnls) = (Some (- 19 / sqrt 20), Some (- 1))"
    by (simp add: last_rolling_z_def demo_ops_def l last w s last_map Let_def)
  have "sqrt 20 \<le> (19 / 3 :: real)" by (rule real_le_lsqrt) (simp_all add: power2_eq_square)
  then have three: "3 \<le> 19 / sqrt (20 :: real)" by (simp add: le_divide_eq)
  have "detect_pnl demo_ops default_anomaly_config demo_pnls = Some demo_loss"
    using three by (simp add: detect_pnl_def default_anomaly_config_def demo_loss_def z l)
  moreover have "af_severity demo_loss \<noteq> ''info''"
    using three by (simp add: demo_loss_def finding_def severity_def default_anomaly_config_def)
  ultimately show ?thesis by (simp add: detect_anomalies_def List.map_filter_def)
qed


lemma default_detector_never_critical_witness: "af_severity demo_loss = ''warning''"
  by (rule default_detector_never_critical [OF demo_ops_documented demo_loss_found])
    (simp add: demo_loss_def finding_def)

end
