(* ===== verification/Call_Log.thy ===== *)
theory Call_Log
  imports Prelude
begin

text \<open>
  Programs that talk to the outside. A program is a function of the log of calls and answers so far; it
  ends with a value or an error and the longer log. The outside is a function from a log and a call to an
  answer, so it may answer anything and remember everything. The rules \<open>yields\<close> and \<open>sends\<close> relate what a
  program adds to the log with its result, one rule for each construct.
\<close>

section \<open>Operations on the log\<close>

type_synonym ('c, 'r, 'e, 'a) prog = "('c \<times> 'r) list \<Rightarrow> ('e + 'a) \<times> ('c \<times> 'r) list"

definition io_return :: "'a \<Rightarrow> ('c, 'r, 'e, 'a) prog" where
  "io_return v l = (Inr v, l)"

definition io_fail :: "'e \<Rightarrow> ('c, 'r, 'e, 'a) prog" where
  "io_fail e l = (Inl e, l)"

definition io_lift :: "'e + 'a \<Rightarrow> ('c, 'r, 'e, 'a) prog" where
  "io_lift r l = (r, l)"

definition io_bind :: "('c, 'r, 'e, 'a) prog \<Rightarrow> ('a \<Rightarrow> ('c, 'r, 'e, 'b) prog) \<Rightarrow> ('c, 'r, 'e, 'b) prog" where
  "io_bind m k l = (case m l of (Inl e, l') \<Rightarrow> (Inl e, l') | (Inr v, l') \<Rightarrow> k v l')"

text \<open>\<open>try\<close> with every exception caught: the outcome becomes a value.\<close>

definition io_attempt :: "('c, 'r, 'e, 'a) prog \<Rightarrow> ('c, 'r, 'e, 'e + 'a) prog" where
  "io_attempt m l = (case m l of (r, l') \<Rightarrow> (Inr r, l'))"

text \<open>Some exceptions caught: the handler sees the error, and raises it again or goes on.\<close>

definition io_handle :: "('c, 'r, 'e, 'a) prog \<Rightarrow> ('e \<Rightarrow> ('c, 'r, 'e, 'a) prog) \<Rightarrow> ('c, 'r, 'e, 'a) prog" where
  "io_handle m h l = (case m l of (Inl e, l') \<Rightarrow> h e l' | (Inr v, l') \<Rightarrow> (Inr v, l'))"

text \<open>A call: the answer depends on everything called before and is recorded.\<close>

definition query :: "(('c \<times> 'r) list \<Rightarrow> 'c \<Rightarrow> 'r) \<Rightarrow> 'c \<Rightarrow> ('c, 'r, 'e, 'r) prog" where
  "query answer c l = (Inr (answer l c), l @ [(c, answer l c)])"

lemma io_laws [simp]:
  "io_bind (io_return v) k = k v" "io_bind (io_fail e) k = io_fail e"
  "io_bind (io_lift (Inr v)) k = k v" "io_bind (io_lift (Inl e)) k = io_fail e"
  "io_attempt (io_return v) = io_return (Inr v)" "io_attempt (io_fail e) = io_return (Inl e)"
  by (auto simp: fun_eq_iff io_bind_def io_return_def io_fail_def io_lift_def io_attempt_def)

lemma bindE:
  assumes "io_bind m k l = (r, l')"
  obtains e where "m l = (Inl e, l')" and "r = Inl e"
    | v l1 where "m l = (Inr v, l1)" and "k v l1 = (r, l')"
  using assms by (auto simp: io_bind_def split: prod.splits sum.splits)

lemma handleE:
  assumes "io_handle m h l = (r, l')"
  obtains v where "m l = (Inr v, l')" and "r = Inr v"
    | e l1 where "m l = (Inl e, l1)" and "h e l1 = (r, l')"
  using assms by (auto simp: io_handle_def split: prod.splits sum.splits)

lemma returnE:
  assumes "io_return v l = (r, l')"
  obtains "r = Inr v" and "l' = l"
  using assms by (auto simp: io_return_def)

section \<open>What an operation adds to the log\<close>

text \<open>\<open>yields m \<phi>\<close>: from any log, \<open>m\<close> ends with a result and appends entries related by \<open>\<phi>\<close>;
  \<open>sends ok m\<close>: all calls it sends have a property. The rules follow the structure of an operation.\<close>

definition yields :: "('c, 'r, 'e, 'a) prog \<Rightarrow> ('e + 'a \<Rightarrow> ('c \<times> 'r) list \<Rightarrow> bool) \<Rightarrow> bool" where
  "yields m \<phi> \<longleftrightarrow> (\<forall>l. \<exists>new. snd (m l) = l @ new \<and> \<phi> (fst (m l)) new)"

definition sends :: "('c \<Rightarrow> bool) \<Rightarrow> ('c, 'r, 'e, 'a) prog \<Rightarrow> bool" where
  "sends ok m \<longleftrightarrow> yields m (\<lambda>r new. list_all (ok \<circ> fst) new)"

named_theorems yield_rules \<open>what operations yield\<close>
named_theorems send_rules \<open>which calls an operation sends\<close>

lemma yieldsE:
  assumes "yields m \<phi>" and "m l = (r, l')"
  obtains new where "l' = l @ new" and "\<phi> r new"
proof -
  from assms(1) obtain new where "snd (m l) = l @ new" "\<phi> (fst (m l)) new" unfolding yields_def by blast
  with assms(2) show thesis by (intro that [of new]) simp_all
qed

lemma yieldsI:
  assumes "\<And>l r l'. m l = (r, l') \<Longrightarrow> \<exists>new. l' = l @ new \<and> \<phi> r new"
  shows "yields m \<phi>"
  unfolding yields_def
proof
  fix l
  obtain r l' where "m l = (r, l')" by fastforce
  with assms [OF this] show "\<exists>new. snd (m l) = l @ new \<and> \<phi> (fst (m l)) new" by simp
qed

lemma yields_mono:
  assumes "yields m \<phi>" and "\<And>r new. \<phi> r new \<Longrightarrow> \<psi> r new"
  shows "yields m \<psi>"
  using assms unfolding yields_def by fast

lemma yields_both: "yields m \<phi> \<Longrightarrow> yields m \<psi> \<Longrightarrow> yields m (\<lambda>r new. \<phi> r new \<and> \<psi> r new)"
  unfolding yields_def by (metis same_append_eq)

lemma yields_simple:
  "\<phi> (Inr v) [] \<Longrightarrow> yields (io_return v) \<phi>" "\<phi> (Inl e) [] \<Longrightarrow> yields (io_fail e) \<phi>" "\<phi> r [] \<Longrightarrow> yields (io_lift r) \<phi>"
  "(\<And>a. \<psi> (Inr a) [(c, a)]) \<Longrightarrow> yields (query answer c) \<psi>"
  by (simp_all add: yields_def io_return_def io_fail_def io_lift_def query_def)

lemma yields_bind:
  assumes "yields m \<phi>" and "\<And>v. yields (k v) (\<psi> v)"
    and "\<And>e new. \<phi> (Inl e) new \<Longrightarrow> \<chi> (Inl e) new"
    and "\<And>v n1 r n2. \<phi> (Inr v) n1 \<Longrightarrow> \<psi> v r n2 \<Longrightarrow> \<chi> r (n1 @ n2)"
  shows "yields (io_bind m k) \<chi>"
proof (rule yieldsI)
  fix l r l'
  assume run: "io_bind m k l = (r, l')"
  obtain r1 l1 where m: "m l = (r1, l1)" by fastforce
  from assms(1) m obtain n1 where n1: "l1 = l @ n1" "\<phi> r1 n1" by (rule yieldsE)
  show "\<exists>new. l' = l @ new \<and> \<chi> r new"
  proof (cases r1)
    case (Inl e)
    with run m n1 assms(3) show ?thesis by (auto simp: io_bind_def)
  next
    case (Inr v)
    with run m have k: "k v l1 = (r, l')" by (simp add: io_bind_def)
    from assms(2) k obtain n2 where "l' = l1 @ n2" "\<psi> v r n2" by (rule yieldsE)
    with n1 Inr assms(4) show ?thesis by (intro exI [of _ "n1 @ n2"]) simp
  qed
qed

lemma yields_attempt:
  assumes "yields m \<phi>" and "\<And>r new. \<phi> r new \<Longrightarrow> \<chi> (Inr r) new"
  shows "yields (io_attempt m) \<chi>"
proof (rule yieldsI)
  fix l r l'
  assume run: "io_attempt m l = (r, l')"
  obtain r1 l1 where m: "m l = (r1, l1)" by fastforce
  from assms(1) m obtain n1 where "l1 = l @ n1" "\<phi> r1 n1" by (rule yieldsE)
  with run m assms(2) show "\<exists>new. l' = l @ new \<and> \<chi> r new" by (auto simp: io_attempt_def)
qed

lemma yields_handle:
  assumes "yields m \<phi>" and "\<And>e. yields (h e) (\<psi> e)"
    and "\<And>v new. \<phi> (Inr v) new \<Longrightarrow> \<chi> (Inr v) new"
    and "\<And>e n1 r n2. \<phi> (Inl e) n1 \<Longrightarrow> \<psi> e r n2 \<Longrightarrow> \<chi> r (n1 @ n2)"
  shows "yields (io_handle m h) \<chi>"
proof (rule yieldsI)
  fix l r l'
  assume run: "io_handle m h l = (r, l')"
  obtain r1 l1 where m: "m l = (r1, l1)" by fastforce
  from assms(1) m obtain n1 where n1: "l1 = l @ n1" "\<phi> r1 n1" by (rule yieldsE)
  show "\<exists>new. l' = l @ new \<and> \<chi> r new"
  proof (cases r1)
    case (Inr v)
    with run m n1 assms(3) show ?thesis by (auto simp: io_handle_def)
  next
    case (Inl e)
    with run m have k: "h e l1 = (r, l')" by (simp add: io_handle_def)
    from assms(2) k obtain n2 where "l' = l1 @ n2" "\<psi> e r n2" by (rule yieldsE)
    with n1 Inl assms(4) show ?thesis by (intro exI [of _ "n1 @ n2"]) simp
  qed
qed

lemma sends_simple [send_rules]:
  "sends ok (io_return v)" "sends ok (io_fail e)" "sends ok (io_lift r)" "ok c \<Longrightarrow> sends ok (query answer c)"
  by (auto simp: sends_def yields_def io_return_def io_fail_def io_lift_def query_def)

lemma sends_bind [send_rules]: "sends ok m \<Longrightarrow> (\<And>v. sends ok (k v)) \<Longrightarrow> sends ok (io_bind m k)"
  unfolding sends_def by (erule yields_bind) auto

lemma sends_attempt [send_rules]: "sends ok m \<Longrightarrow> sends ok (io_attempt m)"
  unfolding sends_def by (erule yields_attempt)

lemma sends_handle [send_rules]: "sends ok m \<Longrightarrow> (\<And>e. sends ok (h e)) \<Longrightarrow> sends ok (io_handle m h)"
  unfolding sends_def by (erule yields_handle) auto

lemma sends_mono: "sends ok m \<Longrightarrow> (\<And>c. ok c \<Longrightarrow> ok' c) \<Longrightarrow> sends ok' m"
  unfolding sends_def by (erule yields_mono) (auto simp: list_all_iff)

lemma sends_split [send_rules]:
  "(\<And>v. r = Inr v \<Longrightarrow> sends ok (g v)) \<Longrightarrow> (\<And>e. r = Inl e \<Longrightarrow> sends ok (f e)) \<Longrightarrow> sends ok (case r of Inl e \<Rightarrow> f e | Inr v \<Rightarrow> g v)"
  "(\<And>v. o' = Some v \<Longrightarrow> sends ok (h v)) \<Longrightarrow> sends ok n \<Longrightarrow> sends ok (case o' of None \<Rightarrow> n | Some v \<Rightarrow> h v)"
  "(b \<Longrightarrow> sends ok m1) \<Longrightarrow> (\<not> b \<Longrightarrow> sends ok m2) \<Longrightarrow> sends ok (if b then m1 else m2)"
  by (auto split: sum.split option.split)

end
