(* ===== verification/Exchange_Api.thy ===== *)
theory Exchange_Api
  imports Call_Log Order_Queue Ws_Events
begin

text \<open>
  What the two exchange adapters share: the results of \<^verbatim>\<open>app/services/exchange/adapter.py\<close>, the calls an
  adapter sends, and the conversions both classes repeat. The exchange and the client library are the
  record \<open>exchange\<close>: an answer to every call, which may depend on everything called before, and the
  rounding of prices and amounts. An operation is a function of the log of calls and answers so far; it
  returns a value or an error and the longer log. Timestamps, signatures and the transport are left out.
\<close>

section \<open>Calls, answers, errors\<close>

datatype exchange_call =
    Http string string pydict
  | CreateOrder string string order_side real "real option" pydict
  | FetchPositions string

text \<open>\<open>NoAnswer\<close>: the call raised (a time-out, a refused connection, an error of the client library).
  Otherwise the status and the decoded body; a call of the client library has status 200.\<close>

datatype answer = NoAnswer | Answer int pyval

type_synonym exchange_log = "(exchange_call \<times> answer) list"

datatype adapter_error =
    ApiError int pyval
  | WouldImmediatelyTrigger "int option" "real option"
  | AlreadyFlat "int option"
  | CriticalSLPlacement
  | OtherException

record exchange =
  xc_answer :: "exchange_log \<Rightarrow> exchange_call \<Rightarrow> answer"
  xc_amount :: "string \<Rightarrow> real \<Rightarrow> string option"
  xc_price :: "string \<Rightarrow> real \<Rightarrow> string option"
  xc_repr :: "pyval \<Rightarrow> string"

text \<open>How the order queue sees an error: no adapter ever raises \<open>TransientExchangeError\<close>.\<close>

fun queue_outcome :: "adapter_error + 'a \<Rightarrow> exec_outcome" where
  "queue_outcome (Inr r) = Succeeded"
| "queue_outcome (Inl (WouldImmediatelyTrigger c t)) = PlacementWouldImmediatelyTrigger"
| "queue_outcome (Inl (AlreadyFlat c)) = PositionAlreadyFlat"
| "queue_outcome (Inl (ApiError st p)) = FatalError ''API error''"
| "queue_outcome (Inl CriticalSLPlacement) = FatalError ''Unable to place replacement stop-loss after 3 retries.''"
| "queue_outcome (Inl OtherException) = FatalError ''unexpected''"

section \<open>Operations on the log\<close>

type_synonym 'a io = "(exchange_call, answer, adapter_error, 'a) prog"

text \<open>\<open>except BinanceAPIError\<close> and \<open>except BybitAPIError\<close>: only an error the exchange reported is caught.\<close>

definition io_catch :: "'a io \<Rightarrow> (int \<Rightarrow> pyval \<Rightarrow> 'a io) \<Rightarrow> 'a io" where
  "io_catch m h l =
     (case m l of
        (Inl e, l') \<Rightarrow> (case e of ApiError st p \<Rightarrow> h st p l' | _ \<Rightarrow> (Inl e, l'))
      | (Inr v, l') \<Rightarrow> (Inr v, l'))"

abbreviation ask :: "exchange \<Rightarrow> exchange_call \<Rightarrow> answer io" where
  "ask x \<equiv> query (xc_answer x)"

lemmas ask_def = query_def

lemma yields_catch:
  assumes "yields m \<phi>" and "\<And>st p. yields (h st p) (\<psi> st p)"
    and "\<And>r new. \<phi> r new \<Longrightarrow> (\<forall>st p. r \<noteq> Inl (ApiError st p)) \<Longrightarrow> \<chi> r new"
    and "\<And>st p n1 r n2. \<phi> (Inl (ApiError st p)) n1 \<Longrightarrow> \<psi> st p r n2 \<Longrightarrow> \<chi> r (n1 @ n2)"
  shows "yields (io_catch m h) \<chi>"
proof (rule yieldsI)
  fix l r l'
  assume run: "io_catch m h l = (r, l')"
  obtain r1 l1 where m: "m l = (r1, l1)" by fastforce
  from assms(1) m obtain n1 where n1: "l1 = l @ n1" "\<phi> r1 n1" by (rule yieldsE)
  show "\<exists>new. l' = l @ new \<and> \<chi> r new"
  proof (cases "\<exists>st p. r1 = Inl (ApiError st p)")
    case True
    then obtain st p where r1: "r1 = Inl (ApiError st p)" by blast
    with run m have k: "h st p l1 = (r, l')" by (simp add: io_catch_def)
    from assms(2) k obtain n2 where "l' = l1 @ n2" "\<psi> st p r n2" by (rule yieldsE)
    with n1 r1 assms(4) show ?thesis by (intro exI [of _ "n1 @ n2"]) simp
  next
    case False
    with run m have "r = r1" "l' = l1" by (auto simp: io_catch_def split: sum.splits adapter_error.splits)
    with n1 False assms(3) show ?thesis by blast
  qed
qed

lemma sends_catch [send_rules]: "sends ok m \<Longrightarrow> (\<And>st p. sends ok (h st p)) \<Longrightarrow> sends ok (io_catch m h)"
  unfolding sends_def by (erule yields_catch) auto

section \<open>Results\<close>

record conditional_order =
  co_exchange_order_id :: string
  co_client_order_id :: string
  co_order_type :: string
  co_trigger_price :: real
  co_quantity :: real
  co_status :: string
  co_is_algo :: bool

record close_result =
  cl_executed_qty :: real
  cl_avg_price :: real
  cl_remaining_qty :: real
  cl_order_id :: string
  cl_commission :: real

record entry_order =
  eo_exchange_order_id :: string
  eo_client_order_id :: string
  eo_symbol :: string
  eo_side :: order_side
  eo_order_type :: string
  eo_status :: string
  eo_quantity :: real
  eo_filled_quantity :: real
  eo_remaining_quantity :: real
  eo_price :: "real option"
  eo_average_price :: "real option"
  eo_cost :: "real option"
  eo_timestamp :: "real option"
  eo_raw :: pydict
  eo_attached_sl :: "conditional_order option"
  eo_attached_tp :: "conditional_order option"

record position_snapshot =
  px_symbol :: string
  px_side :: position_side
  px_size :: real
  px_entry_price :: real
  px_unrealized_pnl :: real
  px_leverage :: int
  px_mark_price :: real
  px_liquidation_price :: real

text \<open>What a call routed by the order queue returns.\<close>

datatype adapter_answer = Conditional conditional_order | Closed close_result | Cancelled bool

section \<open>Conversions\<close>

text \<open>\<open>float(str(value).strip())\<close> and \<open>int(float(...))\<close>: unlike \<open>float(value)\<close>, a truth value is no number.\<close>

fun to_optional_float :: "pyval \<Rightarrow> real option" where
  "to_optional_float (VInt i) = Some (of_int i)"
| "to_optional_float (VFloat v) = Some v"
| "to_optional_float (VStr s) = parse_float s"
| "to_optional_float _ = None"

definition to_float_or :: "real \<Rightarrow> pyval \<Rightarrow> real" where
  "to_float_or dflt v = (case to_optional_float v of None \<Rightarrow> dflt | Some r \<Rightarrow> r)"

definition to_optional_int :: "pyval \<Rightarrow> int option" where
  "to_optional_int v = map_option trunc_real (to_optional_float v)"

definition opt_int_val :: "int option \<Rightarrow> pyval" where
  "opt_int_val i = (case i of None \<Rightarrow> VNone | Some n \<Rightarrow> VInt n)"

definition int_of_text :: "(pyval \<Rightarrow> string) \<Rightarrow> pyval \<Rightarrow> int option" where
  "int_of_text rp v = parse_int (py_str rp v)"

definition exchange_symbol :: "string \<Rightarrow> string" where
  "exchange_symbol s = py_upper (py_strip (filter (\<lambda>c. c \<noteq> CHR ''/'') (takeWhile (\<lambda>c. c \<noteq> CHR '':'') s)))"

definition str_of :: "exchange \<Rightarrow> pydict \<Rightarrow> string \<Rightarrow> string" where
  "str_of x d k = py_str (xc_repr x) (get_default d k (VStr []))"

definition mapping_or_empty :: "pyval \<Rightarrow> pydict" where
  "mapping_or_empty v = (case v of VDict d \<Rightarrow> d | _ \<Rightarrow> [])"

definition list_or_empty :: "pyval \<Rightarrow> pyval list" where
  "list_or_empty v = (case v of VList vs \<Rightarrow> vs | _ \<Rightarrow> [])"

definition mappings :: "pyval list \<Rightarrow> pydict list" where
  "mappings vs = List.map_filter (\<lambda>v. case v of VDict d \<Rightarrow> Some d | _ \<Rightarrow> None) vs"

definition millis :: "pyval \<Rightarrow> real option" where
  "millis v =
     (case v of
        VInt i \<Rightarrow> if i > 0 then Some (of_int i / 1000) else None
      | VFloat t \<Rightarrow> if t > 0 then Some (of_int (trunc_real t) / 1000) else None
      | VBool b \<Rightarrow> if b then Some (1 / 1000) else None
      | _ \<Rightarrow> None)"

section \<open>What both adapters do alike\<close>

definition rounded_price :: "exchange \<Rightarrow> string \<Rightarrow> real \<Rightarrow> string io" where
  "rounded_price x symbol p = (case xc_price x symbol p of None \<Rightarrow> io_fail OtherException | Some s \<Rightarrow> io_return s)"

definition rounded_amount :: "exchange \<Rightarrow> string \<Rightarrow> real \<Rightarrow> string io" where
  "rounded_amount x symbol q = (case xc_amount x symbol q of None \<Rightarrow> io_fail OtherException | Some s \<Rightarrow> io_return s)"

definition numeric :: "string \<Rightarrow> real io" where
  "numeric s = (case parse_float s of None \<Rightarrow> io_fail OtherException | Some r \<Rightarrow> io_return r)"

definition library_dict :: "exchange \<Rightarrow> exchange_call \<Rightarrow> pydict io" where
  "library_dict x c =
     io_bind (ask x c) (\<lambda>a. case a of Answer _ (VDict d) \<Rightarrow> io_return d | _ \<Rightarrow> io_fail OtherException)"

text \<open>The position of the symbol, else the first one reported.\<close>

fun matching_position :: "exchange \<Rightarrow> string \<Rightarrow> pyval list \<Rightarrow> adapter_error + pydict option" where
  "matching_position x key [] = Inr None"
| "matching_position x key (v # vs) =
     (case v of
        VDict d \<Rightarrow> if exchange_symbol (str_of x d ''symbol'') = key then Inr (Some d) else matching_position x key vs
      | _ \<Rightarrow> Inl OtherException)"

definition selected_position :: "exchange \<Rightarrow> string \<Rightarrow> pydict option io" where
  "selected_position x symbol =
     io_bind (ask x (FetchPositions symbol)) (\<lambda>a. case a of
       Answer _ (VList (v # vs)) \<Rightarrow>
         io_bind (io_lift (matching_position x (exchange_symbol symbol) (v # vs))) (\<lambda>m.
           io_return (Some (case m of Some d \<Rightarrow> d | None \<Rightarrow> mapping_or_empty v)))
     | Answer _ p \<Rightarrow> if py_truth p then io_fail OtherException else io_return None
     | NoAnswer \<Rightarrow> io_fail OtherException)"

definition side_of_position :: "string \<Rightarrow> real \<Rightarrow> position_side" where
  "side_of_position raw_side raw_size =
     (if raw_side \<in> {''long'', ''buy''} then LONG
      else if raw_side \<in> {''short'', ''sell''} then SHORT
      else if raw_size > 0 then LONG else if raw_size < 0 then SHORT else BOTH)"

definition close_result_of :: "exchange \<Rightarrow> real \<Rightarrow> pydict \<Rightarrow> close_result" where
  "close_result_of x quantity order =
     (let executed = to_float_or 0 (get_none order ''filled'') in
      \<lparr>cl_executed_qty = executed,
       cl_avg_price = to_float_or 0 (get_default order ''average'' (get_none order ''price'')),
       cl_remaining_qty = to_float_or (max 0 (quantity - executed)) (get_none order ''remaining''),
       cl_order_id = py_str (xc_repr x) (get_default order ''id'' (get_default order ''orderId'' (VStr []))),
       cl_commission = (case get_none order ''fee'' of VDict f \<Rightarrow> to_float_or 0 (get_none f ''cost'') | _ \<Rightarrow> 0)\<rparr>)"

text \<open>A close order: always reduce-only, of the rounded amount.\<close>

definition reduce_only_order ::
    "exchange \<Rightarrow> pydict \<Rightarrow> string \<Rightarrow> order_side \<Rightarrow> real \<Rightarrow> string \<Rightarrow> real option \<Rightarrow> close_result io" where
  "reduce_only_order x params symbol side quantity otype price =
     io_bind (rounded_amount x symbol quantity) (\<lambda>amount.
     io_bind (case price of
                Some p \<Rightarrow> if py_lower otype = ''limit''
                          then io_bind (rounded_price x symbol p) (\<lambda>s. io_bind (numeric s) (\<lambda>r. io_return (Some r)))
                          else io_return None
              | None \<Rightarrow> io_return None) (\<lambda>order_price.
     io_bind (numeric amount) (\<lambda>q.
     io_bind (library_dict x (CreateOrder symbol (py_lower otype) side q order_price params)) (\<lambda>order.
     io_return (close_result_of x quantity order)))))"

text \<open>The entry order as reported, before any protection is attached.\<close>

definition entry_order_of ::
    "exchange \<Rightarrow> (pyval \<Rightarrow> string) \<Rightarrow> string \<Rightarrow> string \<Rightarrow> order_side \<Rightarrow> real \<Rightarrow> string \<Rightarrow> pydict \<Rightarrow> entry_order" where
  "entry_order_of x status client_key symbol side quantity coid order =
     \<lparr>eo_exchange_order_id = py_str (xc_repr x) (get_default order ''id'' (get_default order ''orderId'' (VStr []))),
      eo_client_order_id = py_str (xc_repr x)
        (py_or (py_or (get_none order ''clientOrderId'') (get_none order client_key)) (VStr coid)),
      eo_symbol = py_str (xc_repr x) (get_default order ''symbol'' (VStr symbol)), eo_side = side,
      eo_order_type = py_lower (py_str (xc_repr x) (get_default order ''type'' (VStr ''market''))),
      eo_status = status (get_default order ''status'' (VStr ''closed'')),
      eo_quantity = to_float_or quantity (get_none order ''amount''),
      eo_filled_quantity = to_float_or quantity (get_none order ''filled''),
      eo_remaining_quantity = to_float_or 0 (get_none order ''remaining''),
      eo_price = to_optional_float (get_none order ''price''),
      eo_average_price = to_optional_float (get_none order ''average''),
      eo_cost = to_optional_float (get_none order ''cost''),
      eo_timestamp = millis (get_none order ''timestamp''), eo_raw = order,
      eo_attached_sl = None, eo_attached_tp = None\<rparr>"

definition status_name :: "(string \<times> string) list \<Rightarrow> exchange \<Rightarrow> pyval \<Rightarrow> string" where
  "status_name table x v =
     (case map_of table (py_upper (py_str (xc_repr x) v)) of
        Some s \<Rightarrow> s
      | None \<Rightarrow> if v = VNone then ''new'' else py_lower (py_str (xc_repr x) v))"

text \<open>Is the client library set up for demo trading, the sandbox or the real exchange; the constructor
  refuses a mode that does not agree.\<close>

datatype client_environment = DemoClient | SandboxClient | MainnetClient

definition detect_ccxt_environment :: "pyval \<Rightarrow> pyval \<Rightarrow> client_environment" where
  "detect_ccxt_environment options sandbox =
     (if (case options of VDict d \<Rightarrow> py_truth (get_none d ''enableDemoTrading'') | _ \<Rightarrow> False) then DemoClient
      else if sandbox = VBool True then SandboxClient else MainnetClient)"

definition validate_ccxt_environment :: "bool \<Rightarrow> pyval \<Rightarrow> pyval \<Rightarrow> py_error + unit" where
  "validate_ccxt_environment demo options sandbox =
     (let e = detect_ccxt_environment options sandbox in
      if demo then (if e = DemoClient then Inr () else Inl (ValueError ''requires a client configured for demo trading''))
      else if e = MainnetClient then Inr () else Inl (ValueError ''cannot use a client configured for demo or sandbox''))"

lemma sends_helpers [send_rules]:
  "sends ok (rounded_price x s p)" "sends ok (rounded_amount x s q)" "sends ok (numeric t)"
  by (auto simp: rounded_price_def rounded_amount_def numeric_def intro!: send_rules split: option.split)

lemma sends_library [send_rules]: "ok c \<Longrightarrow> sends ok (library_dict x c)"
  unfolding library_dict_def by (auto intro!: send_rules split: answer.split pyval.split)

lemma sends_selected [send_rules]: "ok (FetchPositions symbol) \<Longrightarrow> sends ok (selected_position x symbol)"
  unfolding selected_position_def by (auto intro!: send_rules split: answer.split pyval.split list.split)

lemma sends_reduce_only [send_rules]:
  "(\<And>q p. ok (CreateOrder symbol (py_lower otype) side q p params)) \<Longrightarrow> sends ok (reduce_only_order x params symbol side quantity otype price)"
  unfolding reduce_only_order_def by (intro send_rules) (auto intro!: send_rules split: option.split)

lemma queue_outcome_never_transient: "queue_outcome r \<noteq> TransientExchangeError e"
  by (cases r rule: queue_outcome.cases) auto

end
