(* ===== verification/Bybit.thy ===== *)
theory Bybit
  imports Exchange_Api
begin

text \<open>
  The Bybit adapter, \<^verbatim>\<open>app/services/exchange/bybit_adapter.py\<close>: its requests, the protection that lives
  on the position itself, moving and removing stops and take-profits, and the translation of the
  messages of the private and the kline stream. Connections, background tasks and signatures are
  left out.
\<close>

section \<open>Requests\<close>

definition bybit_error_payload :: "exchange \<Rightarrow> pyval \<Rightarrow> bool" where
  "bybit_error_payload x payload =
     (case payload of
        VDict d \<Rightarrow>
          if get_none d ''retCode'' = VNone then False
          else (case int_of_text (xc_repr x) (get_none d ''retCode'') of None \<Rightarrow> False | Some n \<Rightarrow> n \<noteq> 0)
      | _ \<Rightarrow> False)"

definition bybit_request :: "exchange \<Rightarrow> string \<Rightarrow> string \<Rightarrow> pydict \<Rightarrow> pyval io" where
  "bybit_request x method path params =
     io_bind (ask x (Http method path (filter (\<lambda>(k, v). v \<noteq> VNone) params))) (\<lambda>a. case a of
       NoAnswer \<Rightarrow> io_fail OtherException
     | Answer st payload \<Rightarrow>
         if 400 \<le> st \<or> bybit_error_payload x payload then io_fail (ApiError st payload) else io_return payload)"

definition bybit_status :: "exchange \<Rightarrow> pyval \<Rightarrow> string" where
  "bybit_status = status_name
     [(''OK'', ''new''), (''NEW'', ''new''), (''UNTRIGGERED'', ''new''), (''ACTIVE'', ''new''),
      (''PARTIALLYFILLED'', ''new''), (''TRIGGERED'', ''triggered''), (''FILLED'', ''triggered''),
      (''CANCELED'', ''cancelled''), (''CANCELLED'', ''cancelled''), (''DEACTIVATED'', ''cancelled''),
      (''REJECTED'', ''rejected'')]"

definition bybit_conditional ::
    "exchange \<Rightarrow> pyval \<Rightarrow> string \<Rightarrow> real \<Rightarrow> real \<Rightarrow> string \<Rightarrow> string \<Rightarrow> conditional_order" where
  "bybit_conditional x payload otype trigger quantity coid dflt =
     (let d = mapping_or_empty payload; r = mapping_or_empty (get_none d ''result'');
          i = py_str (xc_repr x) (get_default r ''orderId'' (get_default d ''orderId'' (VStr dflt)))
      in \<lparr>co_exchange_order_id = (if i = [] then dflt else i), co_client_order_id = coid, co_order_type = otype,
          co_trigger_price = trigger, co_quantity = quantity,
          co_status = bybit_status x (get_default r ''orderStatus'' (get_default d ''retMsg'' (VStr ''new''))),
          co_is_algo = False\<rparr>)"

section \<open>The position and its protection\<close>

fun first_number :: "pyval list \<Rightarrow> real option" where
  "first_number [] = None"
| "first_number (v # vs) = (case to_optional_float v of None \<Rightarrow> first_number vs | Some r \<Rightarrow> Some r)"

definition bybit_position_payload :: "exchange \<Rightarrow> string \<Rightarrow> (pydict \<times> pydict \<times> real) option io" where
  "bybit_position_payload x symbol =
     io_bind (selected_position x symbol) (\<lambda>m. io_return (case m of
       None \<Rightarrow> None
     | Some selected \<Rightarrow>
         let info = mapping_or_empty (get_none selected ''info'');
             raw = (case first_number [get_none selected ''contracts'', get_none selected ''size'',
                                       get_none info ''size'', get_none info ''positionAmt''] of None \<Rightarrow> 0 | Some r \<Rightarrow> r)
         in if raw = 0 then None else Some (selected, info, raw)))"

definition bybit_position_side :: "exchange \<Rightarrow> pydict \<Rightarrow> real \<Rightarrow> position_side" where
  "bybit_position_side x p raw =
     side_of_position
       (py_lower (py_str (xc_repr x) (get_default p ''side'' (get_default p ''positionSide'' (VStr []))))) raw"

definition bybit_get_position :: "exchange \<Rightarrow> string \<Rightarrow> position_snapshot option io" where
  "bybit_get_position x symbol =
     io_bind (bybit_position_payload x symbol) (\<lambda>m. io_return (case m of
       None \<Rightarrow> None
     | Some (p, info, raw) \<Rightarrow>
         Some \<lparr>px_symbol = symbol, px_side = bybit_position_side x p raw, px_size = \<bar>raw\<bar>,
           px_entry_price = to_float_or 0 (get_default p ''entryPrice'' (get_none info ''avgPrice'')),
           px_unrealized_pnl = to_float_or 0 (get_default p ''unrealizedPnl'' (get_none info ''unrealisedPnl'')),
           px_leverage = trunc_real (to_float_or 0 (get_default p ''leverage'' (get_none info ''leverage''))),
           px_mark_price = to_float_or 0 (get_default p ''markPrice'' (get_none info ''markPrice'')),
           px_liquidation_price = to_float_or 0
             (get_default p ''liquidationPrice'' (get_default info ''liqPrice'' (get_none info ''liquidationPrice'')))\<rparr>))"

fun split_colon :: "string \<Rightarrow> string list" where
  "split_colon [] = [[]]"
| "split_colon (c # s) =
     (if c = CHR '':'' then [] # split_colon s
      else case split_colon s of [] \<Rightarrow> [[c]] | w # ws \<Rightarrow> (c # w) # ws)"

definition position_tpsl_prefix :: string where
  "position_tpsl_prefix = ''bybit-position-tpsl''"

definition position_tpsl_order_id :: "string \<Rightarrow> string \<Rightarrow> string" where
  "position_tpsl_order_id symbol otype = position_tpsl_prefix @ '':'' @ otype @ '':'' @ exchange_symbol symbol"

definition position_tpsl_order_type :: "string \<Rightarrow> string option" where
  "position_tpsl_order_type i =
     (if \<not> starts_with i (position_tpsl_prefix @ '':'') then None
      else let parts = split_colon i in
           if length parts < 3 then None
           else let t = py_lower (py_strip (parts ! 1)) in
                if t \<in> {''stop_loss'', ''take_profit'', ''trailing_stop''} then Some t else None)"

definition full_position_protection_orders :: "string \<Rightarrow> pydict \<Rightarrow> real \<Rightarrow> conditional_order list" where
  "full_position_protection_orders symbol info sz =
     List.map_filter (\<lambda>(field, otype).
         let trigger = to_float_or 0 (get_none info field) in
         if trigger \<le> 0 then None
         else Some \<lparr>co_exchange_order_id = position_tpsl_order_id symbol otype, co_client_order_id = [],
                co_order_type = otype, co_trigger_price = trigger, co_quantity = sz, co_status = ''new'', co_is_algo = False\<rparr>)
       [(''stopLoss'', ''stop_loss''), (''takeProfit'', ''take_profit''), (''trailingStop'', ''trailing_stop'')]"

section \<open>Open conditional orders\<close>

definition is_positive :: "real option \<Rightarrow> bool" where
  "is_positive r = (case r of None \<Rightarrow> False | Some v \<Rightarrow> v > 0)"

definition bybit_order_type :: "exchange \<Rightarrow> pydict \<Rightarrow> string" where
  "bybit_order_type x order =
     (let t = py_lower (py_strip (str_of x order ''stopOrderType'')) in
      if contains_sub t ''takeprofit'' then ''take_profit''
      else if contains_sub t ''stoploss'' then ''stop_loss''
      else if contains_sub t ''trailing'' then ''trailing_stop''
      else if is_positive (to_optional_float (get_none order ''takeProfit'')) then ''take_profit''
      else if is_positive (to_optional_float (get_none order ''stopLoss'')) then ''stop_loss''
      else ''unknown'')"

definition bybit_listed_order :: "exchange \<Rightarrow> pydict \<Rightarrow> conditional_order option" where
  "bybit_listed_order x item =
     (let otype = bybit_order_type x item;
          t0 = to_float_or 0 (get_none item ''triggerPrice'');
          t1 = (if t0 = 0 \<and> otype = ''take_profit'' then to_float_or 0 (get_none item ''takeProfit'') else t0);
          t2 = (if t1 = 0 \<and> otype = ''stop_loss'' then to_float_or 0 (get_none item ''stopLoss'') else t1);
          status = bybit_status x (get_default item ''orderStatus'' (VStr ''new''))
      in if otype = ''unknown'' \<or> status \<noteq> ''new'' then None
         else Some \<lparr>co_exchange_order_id = str_of x item ''orderId'', co_client_order_id = str_of x item ''orderLinkId'',
                co_order_type = otype, co_trigger_price = t2,
                co_quantity = to_float_or 0 (get_default item ''qty'' (get_default item ''orderQty'' (get_none item ''leavesQty''))),
                co_status = status, co_is_algo = False\<rparr>)"

definition result_list :: "pyval \<Rightarrow> pyval list" where
  "result_list payload = list_or_empty (get_none (mapping_or_empty (get_none (mapping_or_empty payload) ''result'')) ''list'')"

definition bybit_open_conditional_orders :: "exchange \<Rightarrow> string \<Rightarrow> conditional_order list io" where
  "bybit_open_conditional_orders x symbol =
     io_bind (bybit_request x ''GET'' ''/v5/order/realtime''
       [(''category'', VStr ''linear''), (''symbol'', VStr (exchange_symbol symbol)), (''openOnly'', VInt 0)]) (\<lambda>payload.
     let listed = List.map_filter (bybit_listed_order x) (mappings (result_list payload));
         seen = map (\<lambda>o'. (co_order_type o', co_trigger_price o')) listed
     in io_bind (bybit_position_payload x symbol) (\<lambda>m. io_return (case m of
       None \<Rightarrow> listed
     | Some (p, info, raw) \<Rightarrow>
         listed @ filter (\<lambda>o'. (co_order_type o', co_trigger_price o') \<notin> set seen)
                    (full_position_protection_orders symbol info \<bar>raw\<bar>))))"

section \<open>Placing orders\<close>

definition attached_protection :: "string \<Rightarrow> string \<Rightarrow> real option \<Rightarrow> real \<Rightarrow> string option \<Rightarrow> conditional_order option" where
  "attached_protection symbol otype trigger quantity coid =
     map_option (\<lambda>t. \<lparr>co_exchange_order_id = position_tpsl_order_id symbol otype,
        co_client_order_id = (case coid of None \<Rightarrow> [] | Some c \<Rightarrow> c), co_order_type = otype, co_trigger_price = t,
        co_quantity = quantity, co_status = ''new'', co_is_algo = False\<rparr>) trigger"

definition optional_price :: "exchange \<Rightarrow> string \<Rightarrow> real option \<Rightarrow> string option io" where
  "optional_price x symbol p =
     (case p of None \<Rightarrow> io_return None | Some v \<Rightarrow> io_bind (rounded_price x symbol v) (\<lambda>s. io_return (Some s)))"

definition bybit_place_entry_order ::
    "exchange \<Rightarrow> string \<Rightarrow> order_side \<Rightarrow> real \<Rightarrow> string \<Rightarrow> real option \<Rightarrow> real option \<Rightarrow> string option \<Rightarrow> string option
      \<Rightarrow> entry_order io" where
  "bybit_place_entry_order x symbol side quantity coid tp sl sl_coid tp_coid =
     io_bind (rounded_amount x symbol quantity) (\<lambda>amount.
     io_bind (optional_price x symbol sl) (\<lambda>sl_str.
     io_bind (optional_price x symbol tp) (\<lambda>tp_str.
     io_bind (numeric amount) (\<lambda>q.
     io_bind (library_dict x (CreateOrder symbol ''market'' side q None
       ([(''reduceOnly'', VBool False), (''orderLinkId'', VStr coid), (''clientOrderId'', VStr coid)]
        @ (case sl_str of None \<Rightarrow> [] | Some s \<Rightarrow>
             [(''stopLoss'', VStr s), (''slTriggerBy'', VStr ''MarkPrice''), (''slOrderType'', VStr ''Market'')])
        @ (case tp_str of None \<Rightarrow> [] | Some s \<Rightarrow>
             [(''takeProfit'', VStr s), (''tpTriggerBy'', VStr ''MarkPrice''), (''tpOrderType'', VStr ''Market'')])))) (\<lambda>order.
     let e = entry_order_of x (bybit_status x) ''orderLinkId'' symbol side quantity coid order in
     io_return (e\<lparr>eo_attached_sl := attached_protection symbol ''stop_loss'' sl (eo_filled_quantity e) sl_coid,
                  eo_attached_tp := attached_protection symbol ''take_profit'' tp (eo_filled_quantity e) tp_coid\<rparr>))))))"

definition trading_stop :: "exchange \<Rightarrow> string \<Rightarrow> pydict \<Rightarrow> pyval io" where
  "trading_stop x symbol extra =
     bybit_request x ''POST'' ''/v5/position/trading-stop''
       ([(''category'', VStr ''linear''), (''symbol'', VStr (exchange_symbol symbol)), (''positionIdx'', VInt 0)] @ extra)"

definition bybit_place_stop_loss ::
    "exchange \<Rightarrow> string \<Rightarrow> real \<Rightarrow> real \<Rightarrow> string \<Rightarrow> conditional_order io" where
  "bybit_place_stop_loss x symbol quantity trigger coid =
     io_bind (rounded_price x symbol trigger) (\<lambda>t.
     io_bind (trading_stop x symbol [(''tpslMode'', VStr ''Full''), (''stopLoss'', VStr t),
       (''slTriggerBy'', VStr ''MarkPrice''), (''slOrderType'', VStr ''Market''), (''orderLinkId'', VStr coid)]) (\<lambda>payload.
     io_bind (numeric t) (\<lambda>tn.
     io_return (bybit_conditional x payload ''stop_loss'' tn quantity coid (position_tpsl_order_id symbol ''stop_loss'')))))"

definition bybit_place_take_profit ::
    "exchange \<Rightarrow> string \<Rightarrow> real \<Rightarrow> real \<Rightarrow> string \<Rightarrow> real option \<Rightarrow> conditional_order io" where
  "bybit_place_take_profit x symbol quantity trigger coid limit =
     io_bind (rounded_price x symbol trigger) (\<lambda>t.
     io_bind (rounded_amount x symbol quantity) (\<lambda>q.
     io_bind (optional_price x symbol limit) (\<lambda>lp.
     io_bind (trading_stop x symbol
       ([(''takeProfit'', VStr t), (''tpTriggerBy'', VStr ''MarkPrice''), (''tpslMode'', VStr ''Partial''),
         (''tpSize'', VStr q), (''slSize'', VStr q),
         (''tpOrderType'', VStr (if limit = None then ''Market'' else ''Limit'')), (''orderLinkId'', VStr coid)]
        @ (case lp of None \<Rightarrow> [] | Some s \<Rightarrow> [(''tpLimitPrice'', VStr s)]))) (\<lambda>payload.
     io_bind (numeric t) (\<lambda>tn.
     io_bind (numeric q) (\<lambda>qn.
     io_return (bybit_conditional x payload ''take_profit'' tn qn coid coid)))))))"

definition bybit_place_trailing_stop ::
    "exchange \<Rightarrow> (real \<Rightarrow> string) \<Rightarrow> string \<Rightarrow> real \<Rightarrow> real \<Rightarrow> real option \<Rightarrow> string \<Rightarrow> conditional_order io" where
  "bybit_place_trailing_stop x fmt symbol quantity callback activation coid =
     io_bind (optional_price x symbol activation) (\<lambda>act.
     io_bind (trading_stop x symbol
       ([(''tpslMode'', VStr ''Full''), (''trailingStop'', VStr (fmt callback))]
        @ (case act of None \<Rightarrow> [] | Some s \<Rightarrow> [(''activePrice'', VStr s)]))) (\<lambda>payload.
     io_return (bybit_conditional x payload ''trailing_stop'' (case activation of None \<Rightarrow> 0 | Some a \<Rightarrow> a) quantity coid
       (position_tpsl_order_id symbol ''trailing_stop''))))"

section \<open>Moving and removing orders\<close>

definition cancel_position_trading_stop :: "exchange \<Rightarrow> string \<Rightarrow> string \<Rightarrow> bool io" where
  "cancel_position_trading_stop x symbol otype =
     (if otype \<notin> {''stop_loss'', ''take_profit'', ''trailing_stop''} then io_return False
      else io_catch
             (io_bind (trading_stop x symbol [(''tpslMode'', VStr ''Full''),
                (if otype = ''stop_loss'' then ''stopLoss'' else if otype = ''take_profit'' then ''takeProfit'' else ''trailingStop'',
                 VStr ''0'')]) (\<lambda>_. io_return True))
             (\<lambda>_ _. io_return False))"

definition bybit_cancel_conditional_order :: "exchange \<Rightarrow> string \<Rightarrow> string \<Rightarrow> bool io" where
  "bybit_cancel_conditional_order x symbol oid =
     (case position_tpsl_order_type oid of
        Some t \<Rightarrow> cancel_position_trading_stop x symbol t
      | None \<Rightarrow>
          io_catch
            (io_bind (bybit_request x ''POST'' ''/v5/order/cancel''
               [(''category'', VStr ''linear''), (''symbol'', VStr (exchange_symbol symbol)), (''orderId'', VStr oid)])
               (\<lambda>_. io_return True))
            (\<lambda>_ _. io_return False))"

definition bybit_clear_symbol :: "exchange \<Rightarrow> string \<Rightarrow> unit io" where
  "bybit_clear_symbol x symbol =
     io_bind (io_catch (io_bind (trading_stop x symbol [(''tpslMode'', VStr ''Full''), (''takeProfit'', VStr ''0''),
        (''stopLoss'', VStr ''0''), (''trailingStop'', VStr ''0'')]) (\<lambda>_. io_return ())) (\<lambda>_ _. io_return ())) (\<lambda>_.
     io_catch (io_bind (bybit_request x ''POST'' ''/v5/order/cancel-all''
        [(''category'', VStr ''linear''), (''symbol'', VStr (exchange_symbol symbol))]) (\<lambda>_. io_return ())) (\<lambda>_ _. io_return ()))"

definition bybit_replace_sl ::
    "exchange \<Rightarrow> string \<Rightarrow> string \<Rightarrow> real \<Rightarrow> real \<Rightarrow> string \<Rightarrow> bool \<Rightarrow> conditional_order io" where
  "bybit_replace_sl x symbol existing trigger quantity coid close =
     io_bind (rounded_price x symbol trigger) (\<lambda>t.
     io_bind (if close then io_return None
              else io_bind (rounded_amount x symbol quantity) (\<lambda>s. io_return (Some s))) (\<lambda>qty.
     io_catch
       (io_bind (trading_stop x symbol
          ([(''stopLoss'', VStr t), (''slTriggerBy'', VStr ''MarkPrice''), (''slOrderType'', VStr ''Market''),
            (''orderLinkId'', VStr coid)]
           @ (case qty of None \<Rightarrow> [(''tpslMode'', VStr ''Full'')]
              | Some s \<Rightarrow> [(''tpslMode'', VStr ''Partial''), (''slSize'', VStr s)]))) (\<lambda>payload.
        io_bind (numeric t) (\<lambda>tn.
        io_bind (case qty of None \<Rightarrow> io_return quantity | Some s \<Rightarrow> numeric s) (\<lambda>qn.
        io_return (bybit_conditional x payload ''stop_loss'' tn qn coid (position_tpsl_order_id symbol ''stop_loss''))))))
       (\<lambda>_ _.
        io_bind (case qty of Some s \<Rightarrow> io_return s | None \<Rightarrow> rounded_amount x symbol quantity) (\<lambda>amend.
        io_bind (bybit_request x ''POST'' ''/v5/order/amend''
          [(''category'', VStr ''linear''), (''symbol'', VStr (exchange_symbol symbol)), (''orderId'', VStr existing),
           (''orderLinkId'', VStr coid), (''triggerPrice'', VStr t), (''qty'', VStr amend)]) (\<lambda>payload.
        io_bind (numeric t) (\<lambda>tn.
        io_bind (numeric amend) (\<lambda>qn.
        io_return (bybit_conditional x payload ''stop_loss'' tn qn coid
          (if existing = [] then coid else existing)))))))))"

fun tpsl_mode_in :: "exchange \<Rightarrow> string \<Rightarrow> pydict list \<Rightarrow> string" where
  "tpsl_mode_in x oid [] = ''full''"
| "tpsl_mode_in x oid (item # items) =
     (if str_of x item ''orderId'' \<noteq> oid then tpsl_mode_in x oid items
      else let mode = py_lower (py_strip (str_of x item ''tpslMode'')) in
           if mode = ''partial'' then ''partial'' else if mode = ''full'' then ''full'' else tpsl_mode_in x oid items)"

definition resolve_tpsl_mode :: "exchange \<Rightarrow> string \<Rightarrow> string \<Rightarrow> string io" where
  "resolve_tpsl_mode x symbol oid =
     (if position_tpsl_order_type oid \<noteq> None then io_return ''full''
      else io_catch
             (io_bind (bybit_request x ''GET'' ''/v5/order/realtime''
                [(''category'', VStr ''linear''), (''symbol'', VStr (exchange_symbol symbol)), (''orderId'', VStr oid),
                 (''openOnly'', VInt 1)])
                (\<lambda>payload. io_return (tpsl_mode_in x oid (mappings (result_list payload)))))
             (\<lambda>_ _. io_return ''full''))"

definition resolve_take_profit_side :: "exchange \<Rightarrow> string \<Rightarrow> order_side io" where
  "resolve_take_profit_side x symbol =
     io_bind (io_attempt (bybit_get_position x symbol)) (\<lambda>r. io_return (case r of
       Inr (Some p) \<Rightarrow> if px_side p = SHORT then BUY else SELL
     | _ \<Rightarrow> SELL))"

definition bybit_replace_tp ::
    "exchange \<Rightarrow> string \<Rightarrow> string \<Rightarrow> real \<Rightarrow> real \<Rightarrow> string \<Rightarrow> real option \<Rightarrow> conditional_order io" where
  "bybit_replace_tp x symbol existing trigger quantity coid limit =
     io_bind (resolve_tpsl_mode x symbol existing) (\<lambda>mode.
     if mode = ''partial'' then
       io_bind (bybit_cancel_conditional_order x symbol existing) (\<lambda>_.
       io_bind (resolve_take_profit_side x symbol) (\<lambda>_.
       bybit_place_take_profit x symbol quantity trigger coid limit))
     else
       io_bind (rounded_price x symbol trigger) (\<lambda>t.
       io_bind (trading_stop x symbol [(''tpslMode'', VStr ''Full''), (''takeProfit'', VStr t),
         (''tpTriggerBy'', VStr ''MarkPrice''), (''tpOrderType'', VStr ''Market'')]) (\<lambda>payload.
       io_bind (numeric t) (\<lambda>tn.
       io_return (bybit_conditional x payload ''take_profit'' tn quantity coid
         (position_tpsl_order_id symbol ''take_profit''))))))"

definition bybit_partial_close ::
    "exchange \<Rightarrow> string \<Rightarrow> order_side \<Rightarrow> real \<Rightarrow> string \<Rightarrow> string \<Rightarrow> real option \<Rightarrow> close_result io" where
  "bybit_partial_close x symbol side quantity coid otype price =
     reduce_only_order x [(''reduceOnly'', VBool True), (''orderLinkId'', VStr coid), (''clientOrderId'', VStr coid)]
       symbol side quantity otype price"

text \<open>The calls the order queue routes to the adapter.\<close>

fun bybit_run :: "exchange \<Rightarrow> adapter_call \<Rightarrow> adapter_answer io" where
  "bybit_run x (PlaceStopLoss symbol side quantity trigger coid ro close) =
     io_bind (bybit_place_stop_loss x symbol quantity trigger coid) (\<lambda>r. io_return (Conditional r))"
| "bybit_run x (CancelAndReplaceSl symbol existing trigger quantity coid close) =
     io_bind (bybit_replace_sl x symbol existing trigger quantity coid close) (\<lambda>r. io_return (Conditional r))"
| "bybit_run x (PlaceTakeProfit symbol side quantity trigger coid ro limit) =
     io_bind (bybit_place_take_profit x symbol quantity trigger coid limit) (\<lambda>r. io_return (Conditional r))"
| "bybit_run x (CancelAndReplaceTp symbol existing trigger quantity coid limit) =
     io_bind (bybit_replace_tp x symbol existing trigger quantity coid limit) (\<lambda>r. io_return (Conditional r))"
| "bybit_run x (PartialClose symbol side quantity coid otype price) =
     io_bind (bybit_partial_close x symbol side quantity coid otype price) (\<lambda>r. io_return (Closed r))"
| "bybit_run x (CancelConditionalOrder symbol oid) =
     io_bind (bybit_cancel_conditional_order x symbol oid) (\<lambda>r. io_return (Cancelled r))"

end
