(* ===== verification/Binance.thy ===== *)
theory Binance
  imports Exchange_Api
begin

text \<open>
  The Binance adapter, \<^verbatim>\<open>app/services/exchange/binance_adapter.py\<close>: signed requests with their single
  repetition after a timestamp error, algo orders, the replacement of a stop with its attempts,
  recovery and classification of errors, and entries with attached protection. Signatures, clocks,
  the sleep between attempts, listen keys and connections are left out.
\<close>

section \<open>Requests\<close>

definition binance_error_payload :: "exchange \<Rightarrow> pyval \<Rightarrow> bool" where
  "binance_error_payload x payload =
     (case payload of
        VDict d \<Rightarrow>
          if get_none d ''code'' = VNone then False
          else (case int_of_text (xc_repr x) (get_none d ''code'') of None \<Rightarrow> False | Some n \<Rightarrow> n < 0)
      | _ \<Rightarrow> False)"

definition binance_timestamp_error :: "exchange \<Rightarrow> pyval \<Rightarrow> bool" where
  "binance_timestamp_error x payload =
     (case payload of VDict d \<Rightarrow> int_of_text (xc_repr x) (get_none d ''code'') = Some (- 1021) | _ \<Rightarrow> False)"

definition binance_answer :: "exchange \<Rightarrow> answer \<Rightarrow> pyval io" where
  "binance_answer x a =
     (case a of
        NoAnswer \<Rightarrow> io_fail OtherException
      | Answer st payload \<Rightarrow>
          if 400 \<le> st \<or> binance_error_payload x payload then io_fail (ApiError st payload) else io_return payload)"

definition sync_server_time_offset :: "exchange \<Rightarrow> unit io" where
  "sync_server_time_offset x =
     io_bind (ask x (Http ''GET'' ''/fapi/v1/time'' [])) (\<lambda>a. io_bind (binance_answer x a) (\<lambda>_. io_return ()))"

definition binance_request :: "exchange \<Rightarrow> string \<Rightarrow> string \<Rightarrow> pydict \<Rightarrow> pyval io" where
  "binance_request x method path params =
     (let call = Http method path (filter (\<lambda>(k, v). v \<noteq> VNone) params) in
      io_bind (ask x call) (\<lambda>a.
        io_catch (binance_answer x a) (\<lambda>st payload.
          if binance_timestamp_error x payload
          then io_bind (sync_server_time_offset x) (\<lambda>_. io_bind (ask x call) (binance_answer x))
          else io_fail (ApiError st payload))))"

definition binance_status :: "exchange \<Rightarrow> pyval \<Rightarrow> string" where
  "binance_status = status_name
     [(''NEW'', ''new''), (''TRIGGERING'', ''new''), (''TRIGGERED'', ''triggered''), (''FINISHED'', ''finished''),
      (''CANCELED'', ''cancelled''), (''CANCELLED'', ''cancelled''), (''REJECTED'', ''rejected''),
      (''EXPIRED'', ''cancelled'')]"

definition binance_order_type :: "exchange \<Rightarrow> pyval \<Rightarrow> string" where
  "binance_order_type x v =
     (case map_of [(''STOP_MARKET'', ''stop_loss''), (''STOP'', ''stop_loss''), (''TAKE_PROFIT_MARKET'', ''take_profit''),
                   (''TAKE_PROFIT'', ''take_profit''), (''TRAILING_STOP_MARKET'', ''trailing_stop'')]
           (py_upper (py_str (xc_repr x) v)) of
        Some t \<Rightarrow> t | None \<Rightarrow> ''unknown'')"

definition client_algo_id :: "string \<Rightarrow> string" where
  "client_algo_id coid =
     (let kept = filter (\<lambda>c. is_digit c \<or> upper_char c \<noteq> c \<or> lower_char c \<noteq> c \<or> c \<in> set ''._:-/'') coid
      in take 36 (if kept = [] then ''algo'' else kept))"

definition binance_conditional :: "exchange \<Rightarrow> pyval \<Rightarrow> string \<Rightarrow> real \<Rightarrow> real \<Rightarrow> string \<Rightarrow> conditional_order" where
  "binance_conditional x payload otype trigger quantity coid =
     (let d = mapping_or_empty payload in
      \<lparr>co_exchange_order_id = py_str (xc_repr x) (get_default d ''algoId'' (get_default d ''orderId'' (VStr []))),
       co_client_order_id = py_str (xc_repr x) (get_default d ''clientAlgoId'' (VStr coid)),
       co_order_type = otype, co_trigger_price = trigger, co_quantity = quantity,
       co_status = binance_status x (get_default d ''algoStatus'' (VStr ''new'')), co_is_algo = True\<rparr>)"

section \<open>Position and open orders\<close>

definition binance_get_position :: "exchange \<Rightarrow> string \<Rightarrow> position_snapshot option io" where
  "binance_get_position x symbol =
     io_bind (selected_position x symbol) (\<lambda>m. io_return (case m of
       None \<Rightarrow> None
     | Some p \<Rightarrow>
         let info = mapping_or_empty (get_none p ''info'');
             raw = (case to_optional_float (get_none p ''contracts'') of
                      Some r \<Rightarrow> r | None \<Rightarrow> to_float_or 0 (get_none info ''positionAmt''))
         in if raw = 0 then None
            else Some \<lparr>px_symbol = symbol, px_side = side_of_position (py_lower (str_of x p ''side'')) raw, px_size = \<bar>raw\<bar>,
                   px_entry_price = to_float_or 0 (get_none p ''entryPrice''),
                   px_unrealized_pnl = to_float_or 0 (get_none p ''unrealizedPnl''),
                   px_leverage = trunc_real (to_float_or 0 (get_none p ''leverage'')),
                   px_mark_price = to_float_or 0 (get_none p ''markPrice''),
                   px_liquidation_price = to_float_or 0
                     (get_default p ''liquidationPrice'' (get_none info ''liquidationPrice''))\<rparr>))"

definition binance_listed_order :: "exchange \<Rightarrow> pydict \<Rightarrow> conditional_order" where
  "binance_listed_order x item =
     \<lparr>co_exchange_order_id = str_of x item ''algoId'',
      co_client_order_id = py_str (xc_repr x) (get_default item ''clientAlgoId'' (get_default item ''newClientAlgoId'' (VStr []))),
      co_order_type = binance_order_type x (get_default item ''type'' (get_default item ''orderType'' (VStr []))),
      co_trigger_price = to_float_or 0 (get_default item ''triggerPrice'' (get_default item ''stopPrice'' (get_none item ''activatePrice''))),
      co_quantity = to_float_or 0 (get_none item ''quantity''),
      co_status = binance_status x (get_default item ''algoStatus'' (get_default item ''status'' (VStr ''new''))),
      co_is_algo = True\<rparr>"

definition binance_open_conditional_orders :: "exchange \<Rightarrow> string \<Rightarrow> conditional_order list io" where
  "binance_open_conditional_orders x symbol =
     io_bind (binance_request x ''GET'' ''/fapi/v1/openAlgoOrders'' [(''symbol'', VStr (exchange_symbol symbol))]) (\<lambda>payload.
     io_return (map (binance_listed_order x) (mappings
       (case payload of VList vs \<Rightarrow> vs | VDict d \<Rightarrow> list_or_empty (get_none d ''data'') | _ \<Rightarrow> []))))"

section \<open>Algo orders\<close>

definition algo_order_params ::
    "string \<Rightarrow> order_side \<Rightarrow> string \<Rightarrow> string \<Rightarrow> string \<Rightarrow> string option \<Rightarrow> string option \<Rightarrow> string option \<Rightarrow> bool \<Rightarrow> bool \<Rightarrow> pydict" where
  "algo_order_params symbol side quantity otype coid trigger callback activation reduce_only close =
     [(''algoType'', VStr ''CONDITIONAL''), (''symbol'', VStr (exchange_symbol symbol)),
      (''side'', VStr (py_upper (order_side_value side))), (''positionSide'', VStr ''BOTH''), (''type'', VStr otype),
      (''timeInForce'', VStr ''GTE_GTC''), (''workingType'', VStr ''CONTRACT_PRICE''), (''priceProtect'', VBool True),
      (''newClientAlgoId'', VStr (client_algo_id coid)), (''clientAlgoId'', VStr (client_algo_id coid))]
     @ (if close then [(''closePosition'', VBool True)]
        else [(''quantity'', VStr quantity), (''reduceOnly'', VBool reduce_only)])
     @ (case trigger of None \<Rightarrow> [] | Some t \<Rightarrow> [(''triggerPrice'', VStr t), (''stopPrice'', VStr t)])
     @ (case callback of None \<Rightarrow> [] | Some c \<Rightarrow> [(''callbackRate'', VStr c)])
     @ (case activation of None \<Rightarrow> [] | Some a \<Rightarrow> [(''activatePrice'', VStr a)])"

definition algo_path :: string where
  "algo_path = ''/fapi/v1/algoOrder''"

definition binance_place_stop_loss ::
    "exchange \<Rightarrow> string \<Rightarrow> order_side \<Rightarrow> real \<Rightarrow> real \<Rightarrow> string \<Rightarrow> bool \<Rightarrow> bool \<Rightarrow> conditional_order io" where
  "binance_place_stop_loss x symbol side quantity trigger coid reduce_only close =
     io_bind (rounded_price x symbol trigger) (\<lambda>t.
     io_bind (if close then io_return (''0'', max 0 quantity)
              else io_bind (rounded_amount x symbol quantity) (\<lambda>s. io_bind (numeric s) (\<lambda>n. io_return (s, n)))) (\<lambda>(q, qn).
     io_bind (binance_request x ''POST'' algo_path
       (algo_order_params symbol side q ''STOP_MARKET'' coid (Some t) None None reduce_only close)) (\<lambda>payload.
     io_bind (numeric t) (\<lambda>tn.
     io_return (binance_conditional x payload ''stop_loss'' tn qn (client_algo_id coid))))))"

definition binance_place_take_profit ::
    "exchange \<Rightarrow> string \<Rightarrow> order_side \<Rightarrow> real \<Rightarrow> real \<Rightarrow> string \<Rightarrow> bool \<Rightarrow> conditional_order io" where
  "binance_place_take_profit x symbol side quantity trigger coid reduce_only =
     io_bind (rounded_amount x symbol quantity) (\<lambda>q.
     io_bind (rounded_price x symbol trigger) (\<lambda>t.
     io_bind (binance_request x ''POST'' algo_path
       (algo_order_params symbol side q ''TAKE_PROFIT_MARKET'' coid (Some t) None None reduce_only False)) (\<lambda>payload.
     io_bind (numeric t) (\<lambda>tn.
     io_bind (numeric q) (\<lambda>qn.
     io_return (binance_conditional x payload ''take_profit'' tn qn (client_algo_id coid)))))))"

definition binance_place_trailing_stop ::
    "exchange \<Rightarrow> (real \<Rightarrow> string) \<Rightarrow> string \<Rightarrow> order_side \<Rightarrow> real \<Rightarrow> real \<Rightarrow> real option \<Rightarrow> string \<Rightarrow> conditional_order io" where
  "binance_place_trailing_stop x fmt symbol side quantity callback activation coid =
     io_bind (rounded_amount x symbol quantity) (\<lambda>q.
     io_bind (case activation of None \<Rightarrow> io_return None
              | Some a \<Rightarrow> io_bind (rounded_price x symbol a) (\<lambda>s. io_return (Some s))) (\<lambda>act.
     io_bind (binance_request x ''POST'' algo_path
       (algo_order_params symbol side q ''TRAILING_STOP_MARKET'' coid None (Some (fmt callback)) act True False)) (\<lambda>payload.
     io_bind (case act of None \<Rightarrow> io_return 0 | Some s \<Rightarrow> numeric s) (\<lambda>an.
     io_bind (numeric q) (\<lambda>qn.
     io_return (binance_conditional x payload ''trailing_stop'' an qn (client_algo_id coid)))))))"

definition delete_algo :: "exchange \<Rightarrow> string \<Rightarrow> string \<Rightarrow> pyval io" where
  "delete_algo x symbol oid =
     binance_request x ''DELETE'' algo_path [(''symbol'', VStr (exchange_symbol symbol)), (''algoId'', VStr oid)]"

definition binance_cancel_conditional_order :: "exchange \<Rightarrow> string \<Rightarrow> string \<Rightarrow> bool io" where
  "binance_cancel_conditional_order x symbol oid =
     io_catch (io_bind (delete_algo x symbol oid) (\<lambda>_. io_return True)) (\<lambda>_ _. io_return False)"

definition cancel_existing_sl :: "exchange \<Rightarrow> string \<Rightarrow> string \<Rightarrow> bool io" where
  "cancel_existing_sl = binance_cancel_conditional_order"

definition binance_partial_close ::
    "exchange \<Rightarrow> string \<Rightarrow> order_side \<Rightarrow> real \<Rightarrow> string \<Rightarrow> string \<Rightarrow> real option \<Rightarrow> close_result io" where
  "binance_partial_close x symbol side quantity coid otype price =
     reduce_only_order x [(''reduceOnly'', VBool True), (''newClientOrderId'', VStr coid)] symbol side quantity otype price"

section \<open>Errors and what they mean\<close>

definition error_code :: "pyval \<Rightarrow> int option" where
  "error_code payload =
     (case payload of
        VDict d \<Rightarrow> (case py_int (get_none d ''code'') of Inr n \<Rightarrow> Some n | Inl e \<Rightarrow> None)
      | _ \<Rightarrow> None)"

definition error_message :: "exchange \<Rightarrow> pyval \<Rightarrow> string" where
  "error_message x payload =
     (case payload of VDict d \<Rightarrow> py_str (xc_repr x) (py_or (get_none d ''msg'') (VStr [])) | _ \<Rightarrow> [])"

definition is_duplicate_client_id_error :: "exchange \<Rightarrow> pyval \<Rightarrow> bool" where
  "is_duplicate_client_id_error x payload =
     (error_code payload \<in> {Some (- 4045), Some (- 2022), Some (- 2010), Some (- 1100)}
      \<or> (let m = py_lower (error_message x payload) in contains_sub m ''duplicate'' \<and> contains_sub m ''client''))"

definition is_close_position_conflict_error :: "exchange \<Rightarrow> pyval \<Rightarrow> bool" where
  "is_close_position_conflict_error x payload =
     (error_code payload = Some (- 4130)
      \<or> (let m = filter (\<lambda>c. c \<noteq> CHR '' '') (py_lower (error_message x payload))
         in contains_sub m ''gte'' \<and> contains_sub m ''closeposition''))"

datatype classified = Retry | Typed adapter_error

definition classify_error :: "exchange \<Rightarrow> string \<Rightarrow> real option \<Rightarrow> int \<Rightarrow> pyval \<Rightarrow> classified option io" where
  "classify_error x symbol trigger st payload =
     (let code = error_code payload in
      if code \<in> {Some (- 2021), Some (- 4131), Some (- 4046)} then io_return (Some (Typed (WouldImmediatelyTrigger code trigger)))
      else if code \<in> {Some (- 1003), Some (- 1015), Some (- 1016)} \<or> (500 \<le> st \<and> st < 600) then io_return (Some Retry)
      else if code \<in> {Some (- 2022), Some (- 2010)} then
        io_bind (io_attempt (binance_get_position x symbol)) (\<lambda>r. io_return (case r of
          Inl e \<Rightarrow> None
        | Inr None \<Rightarrow> Some (Typed (AlreadyFlat code))
        | Inr (Some p) \<Rightarrow> if px_size p \<le> 1 / 1000000000 then Some (Typed (AlreadyFlat code)) else Some Retry))
      else io_return None)"

definition lookup_algo_by_client_id :: "exchange \<Rightarrow> string \<Rightarrow> string \<Rightarrow> conditional_order option io" where
  "lookup_algo_by_client_id x symbol coid =
     io_catch
       (io_bind (binance_request x ''GET'' algo_path
          [(''symbol'', VStr (exchange_symbol symbol)), (''clientAlgoId'', VStr coid)]) (\<lambda>payload. io_return
        (case payload of
           VDict d \<Rightarrow>
             (case (py_float (py_or (get_default d ''triggerPrice'' (VInt 0)) (VInt 0)),
                    py_float (py_or (get_default d ''quantity'' (VInt 0)) (VInt 0))) of
                (Inr t, Inr q) \<Rightarrow>
                  Some \<lparr>co_exchange_order_id = str_of x d ''algoId'',
                    co_client_order_id = py_str (xc_repr x) (get_default d ''clientAlgoId'' (VStr coid)),
                    co_order_type = ''stop_loss'', co_trigger_price = t, co_quantity = q,
                    co_status = binance_status x (get_none d ''algoStatus''), co_is_algo = True\<rparr>
              | _ \<Rightarrow> None)
         | _ \<Rightarrow> None)))
       (\<lambda>_ _. io_return None)"

section \<open>Replacing a stop\<close>

definition resolve_stop_loss_side :: "exchange \<Rightarrow> string \<Rightarrow> order_side io" where
  "resolve_stop_loss_side x symbol =
     io_bind (io_attempt (binance_get_position x symbol)) (\<lambda>r. io_return (case r of
       Inr (Some p) \<Rightarrow> if px_side p = SHORT then BUY else SELL
     | _ \<Rightarrow> SELL))"

definition attempt_client_id :: "string \<Rightarrow> nat \<Rightarrow> string" where
  "attempt_client_id coid n = take 36 (if n = 0 then coid else coid @ ''-r'' @ show_nat n)"

record sl_replacement =
  sr_symbol :: string
  sr_existing :: string
  sr_trigger :: real
  sr_quantity :: real
  sr_client_order_id :: string
  sr_close :: bool
  sr_side :: order_side

definition has_real_existing :: "string \<Rightarrow> bool" where
  "has_real_existing existing \<longleftrightarrow> existing \<noteq> [] \<and> existing \<noteq> ''active-sl''"

text \<open>The attempts: the order placed, if any, and the last error reported.\<close>

fun place_attempts ::
    "exchange \<Rightarrow> sl_replacement \<Rightarrow> nat list \<Rightarrow> bool \<Rightarrow> pyval option \<Rightarrow> (conditional_order option \<times> pyval option) io" where
  "place_attempts x s [] resolved last_error = io_return (None, last_error)"
| "place_attempts x s (n # ns) resolved last_error =
     io_bind (io_attempt (binance_place_stop_loss x (sr_symbol s) (sr_side s) (sr_quantity s) (sr_trigger s)
        (attempt_client_id (sr_client_order_id s) n) (\<not> sr_close s) (sr_close s))) (\<lambda>r. case r of
       Inr sl \<Rightarrow> io_return (Some sl, last_error)
     | Inl e \<Rightarrow>
        (case e of
           ApiError st payload \<Rightarrow>
             io_bind (if is_duplicate_client_id_error x payload
                      then lookup_algo_by_client_id x (sr_symbol s) (attempt_client_id (sr_client_order_id s) n)
                      else io_return None) (\<lambda>recovered. case recovered of
               Some sl \<Rightarrow> io_return (Some sl, Some payload)
             | None \<Rightarrow>
                 if sr_close s \<and> has_real_existing (sr_existing s) \<and> is_close_position_conflict_error x payload then
                   if resolved then io_return (None, Some payload)
                   else io_bind (cancel_existing_sl x (sr_symbol s) (sr_existing s)) (\<lambda>ok.
                     if ok then place_attempts x s ns True (Some payload) else io_return (None, Some payload))
                 else io_bind (classify_error x (sr_symbol s) (Some (sr_trigger s)) st payload) (\<lambda>c. case c of
                     Some (Typed e') \<Rightarrow> io_fail e'
                   | _ \<Rightarrow> place_attempts x s ns resolved (Some payload)))
         | _ \<Rightarrow> io_fail e))"

definition verified_flat :: "exchange \<Rightarrow> string \<Rightarrow> bool io" where
  "verified_flat x symbol =
     io_bind (io_attempt (binance_get_position x symbol)) (\<lambda>r. io_return (case r of
       Inl e \<Rightarrow> False
     | Inr None \<Rightarrow> True
     | Inr (Some p) \<Rightarrow> px_size p \<le> 1 / 1000000000))"

definition binance_replace_sl ::
    "exchange \<Rightarrow> string \<Rightarrow> string \<Rightarrow> real \<Rightarrow> real \<Rightarrow> string \<Rightarrow> bool \<Rightarrow> conditional_order io" where
  "binance_replace_sl x symbol existing trigger quantity coid close =
     io_bind (resolve_stop_loss_side x symbol) (\<lambda>side.
     io_bind (if close \<and> has_real_existing existing then cancel_existing_sl x symbol existing else io_return False) (\<lambda>resolved.
     io_bind (place_attempts x
       \<lparr>sr_symbol = symbol, sr_existing = existing, sr_trigger = trigger, sr_quantity = quantity,
        sr_client_order_id = coid, sr_close = close, sr_side = side\<rparr> [0, 1, 2, 3] resolved None) (\<lambda>(placed, last_error).
     case placed of
       None \<Rightarrow>
         io_bind (verified_flat x symbol) (\<lambda>flat.
           io_fail (if flat then AlreadyFlat (case last_error of None \<Rightarrow> None | Some p \<Rightarrow> error_code p)
                    else CriticalSLPlacement))
     | Some sl \<Rightarrow>
         io_bind (if \<not> close \<and> has_real_existing existing then cancel_existing_sl x symbol existing else io_return False) (\<lambda>_.
         io_return sl))))"

definition binance_replace_tp ::
    "exchange \<Rightarrow> string \<Rightarrow> string \<Rightarrow> real \<Rightarrow> real \<Rightarrow> string \<Rightarrow> conditional_order io" where
  "binance_replace_tp x symbol existing trigger quantity coid =
     io_bind (resolve_stop_loss_side x symbol) (\<lambda>side.
     io_bind (delete_algo x symbol existing) (\<lambda>_.
     binance_place_take_profit x symbol side quantity trigger coid True))"

section \<open>Entering with protection\<close>

definition rollback_entry :: "exchange \<Rightarrow> string \<Rightarrow> order_side \<Rightarrow> real \<Rightarrow> conditional_order option \<Rightarrow> string \<Rightarrow> unit io" where
  "rollback_entry x symbol side quantity attached coid =
     io_bind (case attached of
                Some sl \<Rightarrow> if co_exchange_order_id sl \<noteq> []
                           then io_bind (io_attempt (binance_cancel_conditional_order x symbol (co_exchange_order_id sl))) (\<lambda>_. io_return ())
                           else io_return ()
              | None \<Rightarrow> io_return ()) (\<lambda>_.
     io_bind (io_attempt (binance_partial_close x symbol side quantity (coid @ ''-rb'') ''market'' None)) (\<lambda>_. io_return ()))"

definition protective_side :: "order_side \<Rightarrow> order_side" where
  "protective_side side = (if side = BUY then SELL else BUY)"

definition own_or :: "string option \<Rightarrow> string \<Rightarrow> string" where
  "own_or given dflt = (case given of None \<Rightarrow> dflt | Some g \<Rightarrow> if g = [] then dflt else g)"

definition binance_place_entry_order ::
    "exchange \<Rightarrow> string \<Rightarrow> order_side \<Rightarrow> real \<Rightarrow> string \<Rightarrow> real option \<Rightarrow> real option \<Rightarrow> string option \<Rightarrow> string option
      \<Rightarrow> entry_order io" where
  "binance_place_entry_order x symbol side quantity coid tp sl sl_coid tp_coid =
     io_bind (rounded_amount x symbol quantity) (\<lambda>amount.
     io_bind (numeric amount) (\<lambda>q.
     io_bind (library_dict x (CreateOrder symbol ''market'' side q None
       [(''reduceOnly'', VBool False), (''newClientOrderId'', VStr coid)])) (\<lambda>order.
     let e = entry_order_of x (binance_status x) ''newClientOrderId'' symbol side quantity coid order;
         filled = eo_filled_quantity e; closing = protective_side side
     in if tp = None \<and> sl = None \<or> filled \<le> 0 then io_return e
        else
          io_bind (io_attempt (case sl of
              None \<Rightarrow> io_return None
            | Some p \<Rightarrow> io_bind (binance_place_stop_loss x symbol closing filled p (own_or sl_coid (coid @ ''-sl'')) True False)
                          (\<lambda>o'. io_return (Some o')))) (\<lambda>rs. case rs of
            Inl err \<Rightarrow> io_bind (rollback_entry x symbol closing filled None coid) (\<lambda>_. io_fail err)
          | Inr asl \<Rightarrow>
              io_bind (io_attempt (case tp of
                  None \<Rightarrow> io_return None
                | Some p \<Rightarrow> io_bind (binance_place_take_profit x symbol closing filled p (own_or tp_coid (coid @ ''-tp'')) True)
                              (\<lambda>o'. io_return (Some o')))) (\<lambda>rt. case rt of
                Inl err \<Rightarrow> io_bind (rollback_entry x symbol closing filled asl coid) (\<lambda>_. io_fail err)
              | Inr atp \<Rightarrow> io_return (e\<lparr>eo_attached_sl := asl, eo_attached_tp := atp\<rparr>))))))"

text \<open>The calls the order queue routes to the adapter.\<close>

fun binance_run :: "exchange \<Rightarrow> adapter_call \<Rightarrow> adapter_answer io" where
  "binance_run x (PlaceStopLoss symbol side quantity trigger coid ro close) =
     io_bind (binance_place_stop_loss x symbol side quantity trigger coid ro close) (\<lambda>r. io_return (Conditional r))"
| "binance_run x (CancelAndReplaceSl symbol existing trigger quantity coid close) =
     io_bind (binance_replace_sl x symbol existing trigger quantity coid close) (\<lambda>r. io_return (Conditional r))"
| "binance_run x (PlaceTakeProfit symbol side quantity trigger coid ro limit) =
     io_bind (binance_place_take_profit x symbol side quantity trigger coid ro) (\<lambda>r. io_return (Conditional r))"
| "binance_run x (CancelAndReplaceTp symbol existing trigger quantity coid limit) =
     io_bind (binance_replace_tp x symbol existing trigger quantity coid) (\<lambda>r. io_return (Conditional r))"
| "binance_run x (PartialClose symbol side quantity coid otype price) =
     io_bind (binance_partial_close x symbol side quantity coid otype price) (\<lambda>r. io_return (Closed r))"
| "binance_run x (CancelConditionalOrder symbol oid) =
     io_bind (binance_cancel_conditional_order x symbol oid) (\<lambda>r. io_return (Cancelled r))"

end
