(* ===== verification/Adapter_Streams.thy ===== *)
theory Adapter_Streams
  imports Bybit Binance
begin

text \<open>
  How the adapters translate what the exchanges push: \<^verbatim>\<open>_normalize_order_events\<close>,
  \<^verbatim>\<open>_normalize_execution_events\<close>, \<^verbatim>\<open>_normalize_position_events\<close>, \<^verbatim>\<open>_normalize_kline_event\<close> and
  \<^verbatim>\<open>_dispatch_private_payload\<close> of \<^verbatim>\<open>bybit_adapter.py\<close>; \<^verbatim>\<open>_normalize_order_trade_update\<close>,
  \<^verbatim>\<open>_normalize_algo_update\<close>, \<^verbatim>\<open>_normalize_account_update\<close>, \<^verbatim>\<open>_normalize_kline_payload\<close> and
  \<^verbatim>\<open>_dispatch_user_data_payload\<close> of \<^verbatim>\<open>binance_adapter.py\<close>. The events they produce are the dictionaries
  that \<open>Ws_Events\<close> classifies.
\<close>

datatype ws_callback = OrderUpdate pydict | PositionUpdate pydict

definition lower_of :: "exchange \<Rightarrow> pydict \<Rightarrow> string \<Rightarrow> string" where
  "lower_of x d k = py_lower (str_of x d k)"

definition float_field :: "pydict \<Rightarrow> string \<Rightarrow> pyval" where
  "float_field d k = VFloat (to_float_or 0 (get_none d k))"

definition int_field :: "pyval \<Rightarrow> pyval" where
  "int_field v = opt_int_val (to_optional_int v)"

definition flag_field :: "pydict \<Rightarrow> string \<Rightarrow> pyval" where
  "flag_field d k = VBool (py_truth (get_default d k (VBool False)))"

section \<open>Bybit\<close>

definition bybit_ws_order_type :: "exchange \<Rightarrow> pydict \<Rightarrow> string" where
  "bybit_ws_order_type x d =
     (let t = bybit_order_type x d; raw = py_lower (py_strip (str_of x d ''orderType'')) in
      if t \<noteq> ''unknown'' then t else if raw \<noteq> [] then raw else ''unknown'')"

fun trigger_candidate :: "pyval list \<Rightarrow> real" where
  "trigger_candidate [] = 0"
| "trigger_candidate (v # vs) =
     (case to_optional_float v of Some r \<Rightarrow> if r > 0 then r else trigger_candidate vs | None \<Rightarrow> trigger_candidate vs)"

definition resolve_order_trigger_price :: "pydict \<Rightarrow> real" where
  "resolve_order_trigger_price d =
     trigger_candidate (map (get_none d) [''triggerPrice'', ''stopLoss'', ''takeProfit'', ''price'', ''orderPrice''])"

definition is_conditional_type :: "string \<Rightarrow> bool" where
  "is_conditional_type t \<longleftrightarrow> t \<in> {''stop_loss'', ''take_profit'', ''trailing_stop''}"

definition bybit_order_event :: "exchange \<Rightarrow> pydict \<Rightarrow> pydict \<Rightarrow> pydict" where
  "bybit_order_event x payload item =
     (let t = bybit_ws_order_type x item in
      [(''type'', VStr ''order''), (''topic'', VStr ''order''), (''event_time'', int_field (get_none payload ''creationTime'')),
       (''transaction_time'', int_field (get_default item ''updatedTime'' (get_none item ''createdTime''))),
       (''symbol'', VStr (exchange_symbol (str_of x item ''symbol''))), (''order_id'', VStr (str_of x item ''orderId'')),
       (''client_order_id'', VStr (str_of x item ''orderLinkId'')),
       (''status'', VStr (bybit_status x (get_default item ''orderStatus'' (VStr ''new'')))),
       (''raw_status'', VStr (str_of x item ''orderStatus'')), (''order_type'', VStr t),
       (''raw_order_type'', VStr (str_of x item ''orderType'')),
       (''price'', VFloat (to_float_or 0 (get_default item ''triggerPrice'' (get_none item ''price'')))),
       (''trigger_price'', VFloat (resolve_order_trigger_price item)), (''average_price'', float_field item ''avgPrice''),
       (''quantity'', float_field item ''qty''), (''filled_quantity'', float_field item ''cumExecQty''),
       (''remaining_quantity'', float_field item ''leavesQty''), (''side'', VStr (lower_of x item ''side'')),
       (''reduce_only'', flag_field item ''reduceOnly''), (''close_on_trigger'', flag_field item ''closeOnTrigger''),
       (''is_algo'', VBool (is_conditional_type t)), (''raw'', VDict item)])"

definition bybit_execution_event :: "exchange \<Rightarrow> pydict \<Rightarrow> pydict \<Rightarrow> pydict" where
  "bybit_execution_event x payload item =
     (let t = bybit_ws_order_type x item; exec_qty = to_float_or 0 (get_none item ''execQty'');
          leaves = to_float_or 0 (get_none item ''leavesQty'')
      in [(''type'', VStr ''execution''), (''topic'', VStr ''execution''), (''event_time'', int_field (get_none payload ''creationTime'')),
       (''transaction_time'', int_field (get_none item ''execTime'')),
       (''symbol'', VStr (exchange_symbol (str_of x item ''symbol''))), (''order_id'', VStr (str_of x item ''orderId'')),
       (''client_order_id'', VStr (str_of x item ''orderLinkId'')),
       (''status'', VStr (if exec_qty > 0 \<and> leaves \<le> 0 then ''triggered'' else ''new'')),
       (''raw_status'', VStr (str_of x item ''execType'')), (''execution_type'', VStr (lower_of x item ''execType'')),
       (''order_type'', VStr t), (''raw_order_type'', VStr (str_of x item ''orderType'')),
       (''price'', VFloat (to_float_or 0 (get_default item ''execPrice'' (get_none item ''orderPrice'')))),
       (''trigger_price'', VFloat (resolve_order_trigger_price item)), (''quantity'', VFloat exec_qty),
       (''filled_quantity'', VFloat exec_qty), (''remaining_quantity'', VFloat leaves),
       (''order_quantity'', float_field item ''orderQty''), (''side'', VStr (lower_of x item ''side'')),
       (''mark_price'', float_field item ''markPrice''), (''exec_fee'', float_field item ''execFee''),
       (''is_algo'', VBool (is_conditional_type t)), (''raw'', VDict item)])"

definition bybit_position_event :: "exchange \<Rightarrow> pydict \<Rightarrow> pydict \<Rightarrow> pydict" where
  "bybit_position_event x payload item =
     (let side = lower_of x item ''side''; sz = to_float_or 0 (get_none item ''size'') in
      [(''type'', VStr ''position''), (''topic'', VStr ''position''), (''event_time'', int_field (get_none payload ''creationTime'')),
       (''transaction_time'', int_field (get_default item ''updatedTime'' (get_none item ''createdTime''))),
       (''symbol'', VStr (exchange_symbol (str_of x item ''symbol''))), (''size'', VFloat \<bar>sz\<bar>),
       (''position_amount'', VFloat (if side = ''sell'' then - \<bar>sz\<bar> else \<bar>sz\<bar>)), (''side'', VStr side),
       (''entry_price'', float_field item ''avgPrice''), (''mark_price'', float_field item ''markPrice''),
       (''liquidation_price'', float_field item ''liqPrice''), (''leverage'', int_field (get_none item ''leverage'')),
       (''unrealized_pnl'', float_field item ''unrealisedPnl''), (''position_status'', VStr (lower_of x item ''positionStatus'')),
       (''take_profit'', float_field item ''takeProfit''), (''stop_loss'', float_field item ''stopLoss''),
       (''trailing_stop'', float_field item ''trailingStop''), (''raw'', VDict item)])"

definition topic_items :: "pydict \<Rightarrow> pydict list" where
  "topic_items payload = mappings (list_or_empty (get_none payload ''data''))"

definition bybit_dispatch :: "exchange \<Rightarrow> pydict \<Rightarrow> adapter_error + ws_callback list" where
  "bybit_dispatch x payload =
     (let op = lower_of x payload ''op''; topic = py_lower (py_strip (str_of x payload ''topic'')) in
      if op \<in> {''auth'', ''subscribe'', ''ping'', ''pong''}
      then (case to_optional_int (get_none payload ''retCode'') of
              Some n \<Rightarrow> if n \<noteq> 0 then Inl (ApiError 400 (VDict payload)) else Inr []
            | None \<Rightarrow> Inr [])
      else if topic = ''order'' then Inr (map (\<lambda>i. OrderUpdate (bybit_order_event x payload i)) (topic_items payload))
      else if topic = ''execution'' then Inr (map (\<lambda>i. OrderUpdate (bybit_execution_event x payload i)) (topic_items payload))
      else if topic = ''position'' then Inr (map (\<lambda>i. PositionUpdate (bybit_position_event x payload i)) (topic_items payload))
      else Inr [])"

definition bybit_intervals :: "(string \<times> string) list" where
  "bybit_intervals =
     [(''1m'', ''1''), (''3m'', ''3''), (''5m'', ''5''), (''15m'', ''15''), (''30m'', ''30''), (''1h'', ''60''), (''2h'', ''120''),
      (''4h'', ''240''), (''6h'', ''360''), (''12h'', ''720''), (''1d'', ''D''), (''1w'', ''W''), (''1M'', ''M'')]"

definition to_bybit_kline_interval :: "string \<Rightarrow> py_error + string" where
  "to_bybit_kline_interval interval =
     (case map_of bybit_intervals (py_strip interval) of
        None \<Rightarrow> Inl (ValueError ''Unsupported Bybit kline interval'') | Some i \<Rightarrow> Inr i)"

definition from_bybit_kline_interval :: "string \<Rightarrow> string" where
  "from_bybit_kline_interval interval =
     (let i = py_strip interval in
      case map_of (map (\<lambda>(k, v). (v, k)) bybit_intervals) i of None \<Rightarrow> i | Some k \<Rightarrow> k)"

definition after_last_dot :: "string \<Rightarrow> string" where
  "after_last_dot s = rev (takeWhile (\<lambda>c. c \<noteq> CHR ''.'') (rev s))"

definition bybit_kline_event :: "exchange \<Rightarrow> pydict \<Rightarrow> pydict option" where
  "bybit_kline_event x payload =
     (let topic = py_strip (str_of x payload ''topic'') in
      if \<not> starts_with topic ''kline.'' then None
      else case list_or_empty (get_none payload ''data'') of
        VDict item # _ \<Rightarrow>
          let symbol = str_of x item ''symbol'' in Some
          [(''type'', VStr ''kline''), (''topic'', VStr topic), (''event_time'', int_field (get_none payload ''ts'')),
           (''symbol'', VStr (exchange_symbol (if symbol = [] then after_last_dot topic else symbol))),
           (''interval'', VStr (from_bybit_kline_interval (str_of x item ''interval''))),
           (''open_time'', int_field (get_none item ''start'')), (''close_time'', int_field (get_none item ''end'')),
           (''open'', float_field item ''open''), (''high'', float_field item ''high''), (''low'', float_field item ''low''),
           (''close'', float_field item ''close''), (''volume'', float_field item ''volume''),
           (''quote_volume'', float_field item ''turnover''), (''is_closed'', flag_field item ''confirm''),
           (''last_trade_timestamp'', int_field (get_none item ''timestamp'')), (''raw'', VDict item)]
      | _ \<Rightarrow> None)"

section \<open>Binance\<close>

definition binance_order_event :: "exchange \<Rightarrow> pydict \<Rightarrow> pydict option" where
  "binance_order_event x payload =
     (case get_none payload ''o'' of
        VDict o' \<Rightarrow> Some
          [(''type'', VStr ''ORDER_TRADE_UPDATE''), (''event_type'', VStr ''ORDER_TRADE_UPDATE''),
           (''event_time'', int_field (get_none payload ''E'')),
           (''transaction_time'', int_field (get_default payload ''T'' (get_none o' ''T''))),
           (''symbol'', VStr (exchange_symbol (str_of x o' ''s''))), (''order_id'', VStr (str_of x o' ''i'')),
           (''client_order_id'', VStr (str_of x o' ''c'')),
           (''status'', VStr (binance_status x (get_default o' ''X'' (VStr [])))),
           (''raw_status'', VStr (str_of x o' ''X'')), (''execution_type'', VStr (str_of x o' ''x'')),
           (''order_type'', VStr (binance_order_type x (get_default o' ''o'' (get_default o' ''ot'' (VStr []))))),
           (''raw_order_type'', VStr (py_str (xc_repr x) (get_default o' ''o'' (get_default o' ''ot'' (VStr []))))),
           (''price'', VFloat (to_float_or 0 (get_default o' ''sp'' (get_default o' ''p'' (get_none o' ''ap''))))),
           (''average_price'', float_field o' ''ap''), (''last_fill_price'', float_field o' ''L''),
           (''trigger_price'', float_field o' ''sp''), (''quantity'', float_field o' ''q''),
           (''filled_quantity'', float_field o' ''z''), (''last_filled_quantity'', float_field o' ''l''),
           (''side'', VStr (lower_of x o' ''S'')), (''position_side'', VStr (lower_of x o' ''ps'')),
           (''reduce_only'', flag_field o' ''R''), (''close_position'', flag_field o' ''cp''),
           (''is_algo'', VBool False), (''raw'', VDict o')]
      | _ \<Rightarrow> None)"

definition algo_order_payload :: "pydict \<Rightarrow> pydict option" where
  "algo_order_payload payload =
     (case get_none payload ''o'' of
        VDict d \<Rightarrow> Some d
      | _ \<Rightarrow> (case get_none payload ''ao'' of VDict d \<Rightarrow> Some d | _ \<Rightarrow> None))"

definition binance_algo_event :: "exchange \<Rightarrow> pydict \<Rightarrow> pydict option" where
  "binance_algo_event x payload =
     (case algo_order_payload payload of
        None \<Rightarrow> None
      | Some o' \<Rightarrow>
          let exec = py_upper (str_of x o' ''act''); trigger = to_float_or 0 (get_none o' ''tp'');
              order_price = to_float_or 0 (get_none o' ''p''); average = to_float_or 0 (get_none o' ''ap'');
              reason = str_of x o' ''rm''
          in Some
          [(''type'', VStr ''ALGO_UPDATE''), (''event_type'', VStr ''ALGO_UPDATE''),
           (''event_time'', int_field (get_none payload ''E'')), (''transaction_time'', int_field (get_none payload ''T'')),
           (''symbol'', VStr (exchange_symbol (str_of x o' ''s''))), (''order_id'', VStr (str_of x o' ''aid'')),
           (''client_order_id'', VStr (str_of x o' ''caid'')),
           (''status'', VStr (binance_status x (get_default o' ''X'' (VStr [])))),
           (''raw_status'', VStr (str_of x o' ''X'')), (''execution_type'', VStr exec),
           (''order_type'', VStr (binance_order_type x (get_default o' ''o'' (VStr [])))),
           (''raw_order_type'', VStr (str_of x o' ''o'')),
           (''actual_order_type'', if exec = [] then VNone else VStr exec),
           (''matched_order_id'', VStr (str_of x o' ''ai'')),
           (''price'', VFloat (if trigger \<noteq> 0 then trigger else if order_price \<noteq> 0 then order_price else average)),
           (''average_price'', VFloat average), (''last_fill_price'', VFloat average), (''trigger_price'', VFloat trigger),
           (''quantity'', float_field o' ''q''), (''filled_quantity'', float_field o' ''aq''),
           (''last_filled_quantity'', float_field o' ''aq''), (''side'', VStr (lower_of x o' ''S'')),
           (''position_side'', VStr (lower_of x o' ''ps'')), (''reduce_only'', VBool True), (''close_position'', VBool False),
           (''algo_type'', VStr (py_upper (str_of x o' ''at''))),
           (''failure_reason'', if reason = [] then VNone else VStr reason), (''is_algo'', VBool True), (''raw'', VDict o')])"

definition binance_account_event :: "exchange \<Rightarrow> pydict \<Rightarrow> pydict \<Rightarrow> pydict \<Rightarrow> pydict" where
  "binance_account_event x payload account item =
     (let amount = to_float_or 0 (get_none item ''pa'') in
      [(''type'', VStr ''ACCOUNT_UPDATE''), (''event_type'', VStr ''ACCOUNT_UPDATE''),
       (''event_time'', int_field (get_none payload ''E'')), (''transaction_time'', int_field (get_none payload ''T'')),
       (''reason'', VStr (str_of x account ''m'')), (''symbol'', VStr (exchange_symbol (str_of x item ''s''))),
       (''size'', VFloat \<bar>amount\<bar>), (''position_amount'', VFloat amount), (''entry_price'', float_field item ''ep''),
       (''breakeven_price'', float_field item ''bep''), (''unrealized_pnl'', float_field item ''up''),
       (''margin_type'', VStr (str_of x item ''mt'')), (''isolated_wallet'', float_field item ''iw''),
       (''position_side'', VStr (lower_of x item ''ps'')), (''raw'', VDict item)])"

definition binance_account_events :: "exchange \<Rightarrow> pydict \<Rightarrow> pydict list" where
  "binance_account_events x payload =
     (case get_none payload ''a'' of
        VDict account \<Rightarrow> map (binance_account_event x payload account) (mappings (list_or_empty (get_none account ''P'')))
      | _ \<Rightarrow> [])"

definition binance_kline_payload :: "exchange \<Rightarrow> pydict \<Rightarrow> pydict option" where
  "binance_kline_payload x payload =
     (if py_lower (py_strip (str_of x payload ''e'')) \<noteq> ''kline'' then None
      else case get_none payload ''k'' of
        VDict k \<Rightarrow> Some
          [(''type'', VStr ''kline''), (''event_time'', int_field (get_none payload ''E'')),
           (''symbol'', VStr (exchange_symbol (py_str (xc_repr x) (get_default payload ''s'' (get_default k ''s'' (VStr [])))))),
           (''interval'', VStr (str_of x k ''i'')), (''open_time'', int_field (get_none k ''t'')),
           (''close_time'', int_field (get_none k ''T'')), (''open'', float_field k ''o''), (''high'', float_field k ''h''),
           (''low'', float_field k ''l''), (''close'', float_field k ''c''), (''volume'', float_field k ''v''),
           (''quote_volume'', float_field k ''q''), (''trade_count'', int_field (get_none k ''n'')),
           (''is_closed'', flag_field k ''x''), (''taker_buy_volume'', float_field k ''V''),
           (''taker_buy_quote_volume'', float_field k ''Q''), (''raw'', VDict k)]
      | _ \<Rightarrow> None)"

text \<open>Whether the stream goes on, and the callbacks.\<close>

definition binance_dispatch :: "exchange \<Rightarrow> pydict \<Rightarrow> bool \<times> ws_callback list" where
  "binance_dispatch x payload =
     (let e = py_strip (str_of x payload ''e'') in
      if e = ''ORDER_TRADE_UPDATE''
      then (True, case binance_order_event x payload of None \<Rightarrow> [] | Some d \<Rightarrow> [OrderUpdate d])
      else if e = ''ALGO_UPDATE''
      then (True, case binance_algo_event x payload of None \<Rightarrow> [] | Some d \<Rightarrow> [OrderUpdate d])
      else if e = ''ACCOUNT_UPDATE'' then (True, map PositionUpdate (binance_account_events x payload))
      else (e \<noteq> ''listenKeyExpired'', []))"

end
