(* ===== verification/Adapter_Safety.thy ===== *)
theory Adapter_Safety
  imports Adapter_Streams
begin

text \<open>
  What the rest of the program relies on when an order reaches an exchange: a stop is moved without a
  moment in which none is known to stand, a close is reduce-only and of the asked amount, a refused
  order is told to the queue, and a fill that is pushed back finds its level.
\<close>

section \<open>Make before break\<close>

text \<open>\<open>attests\<close>: the exchange confirmed a standing stop (it accepted one, or reported one on request);
  \<open>removes\<close>: it accepted the removal of one. At most one removal, and only after an attestation.\<close>

fun make_before_break ::
    "(exchange_call \<times> answer \<Rightarrow> bool) \<Rightarrow> (exchange_call \<times> answer \<Rightarrow> bool) \<Rightarrow> bool \<Rightarrow> exchange_log \<Rightarrow> bool" where
  "make_before_break attests removes known [] = True"
| "make_before_break attests removes known (e # es) =
     (if removes e then known \<and> list_all (\<lambda>e. \<not> removes e) es
      else make_before_break attests removes (known \<or> attests e) es)"

fun known_stops ::
    "(exchange_call \<times> answer \<Rightarrow> bool) \<Rightarrow> (exchange_call \<times> answer \<Rightarrow> bool) \<Rightarrow> nat \<Rightarrow> exchange_log \<Rightarrow> nat" where
  "known_stops attests removes n [] = n"
| "known_stops attests removes n (e # es) =
     known_stops attests removes (if removes e then n - 1 else if attests e then n + 1 else n) es"

lemma known_stops_grow:
  "list_all (\<lambda>e. \<not> removes e) es \<Longrightarrow> n \<le> known_stops attests removes n (take k es)"
proof (induction es arbitrary: n k)
  case (Cons e es)
  from Cons.prems have "Suc n \<le> known_stops attests removes (Suc n) (take (k - 1) es)"
    "n \<le> known_stops attests removes n (take (k - 1) es)" using Cons.IH by simp_all
  with Cons.prems show ?case by (cases k) auto
qed simp

lemma make_before_break_covers:
  "make_before_break attests removes known es \<Longrightarrow> 1 \<le> n \<Longrightarrow> (known \<longrightarrow> 2 \<le> n)
    \<Longrightarrow> 1 \<le> known_stops attests removes n (take k es)"
proof (induction es arbitrary: known n k)
  case (Cons e es)
  show ?case
  proof (cases k)
    case (Suc j)
    show ?thesis
    proof (cases "removes e")
      case True
      with Cons.prems have "list_all (\<lambda>e. \<not> removes e) es" "2 \<le> n" by auto
      with known_stops_grow [of removes es "n - 1" attests j] True Suc show ?thesis by simp
    next
      case False
      with Cons.prems Cons.IH [of "known \<or> attests e" "if attests e then n + 1 else n" j] Suc show ?thesis by auto
    qed
  qed (use Cons.prems in simp)
qed simp

lemma make_before_break_append:
  "list_all (\<lambda>e. \<not> removes e) es
    \<Longrightarrow> make_before_break attests removes known (es @ es') = make_before_break attests removes (known \<or> list_ex attests es) es'"
  by (induction es arbitrary: known) auto

lemma make_before_break_quiet: "list_all (\<lambda>e. \<not> removes e) es \<Longrightarrow> make_before_break attests removes known es"
  using make_before_break_append [of removes es attests known "[]"] by simp

locale stop_mover =
  fixes valid :: "'a \<Rightarrow> bool" and move :: "'a \<Rightarrow> conditional_order io"
    and attests :: "exchange_call \<times> answer \<Rightarrow> bool" and removes :: "exchange_call \<times> answer \<Rightarrow> bool"
  assumes mover: "valid a \<Longrightarrow> yields (move a) (\<lambda>r new. make_before_break attests removes False new)"
begin

lemma always_covered:
  assumes "valid a"
  shows "1 \<le> known_stops attests removes 1 (take k (drop (length l) (snd (move a l))))"
proof -
  obtain r l' where m: "move a l = (r, l')" by fastforce
  from mover [OF assms] this obtain new where "l' = l @ new" "make_before_break attests removes False new" by (rule yieldsE)
  with m make_before_break_covers [of attests removes False new 1 k] show ?thesis by simp
qed

end

section \<open>Bybit\<close>

definition bybit_removal :: "exchange_call \<Rightarrow> bool" where
  "bybit_removal c =
     (case c of
        Http m path ps \<Rightarrow> path \<in> {''/v5/order/cancel'', ''/v5/order/cancel-all''}
          \<or> path = ''/v5/position/trading-stop'' \<and> get_none ps ''stopLoss'' = VStr ''0''
      | _ \<Rightarrow> False)"

definition bybit_accepted :: "exchange \<Rightarrow> exchange_call \<times> answer \<Rightarrow> bool" where
  "bybit_accepted x e = (case snd e of NoAnswer \<Rightarrow> False | Answer st p \<Rightarrow> st < 400 \<and> \<not> bybit_error_payload x p)"

definition bybit_attests :: "exchange \<Rightarrow> exchange_call \<times> answer \<Rightarrow> bool" where
  "bybit_attests x e =
     (case fst e of
        Http m path ps \<Rightarrow> bybit_accepted x e
          \<and> (path = ''/v5/position/trading-stop'' \<and> get_none ps ''stopLoss'' \<notin> {VNone, VStr ''0''} \<or> path = ''/v5/order/amend'')
      | _ \<Rightarrow> False)"

lemma bybit_request_yields:
  "yields (bybit_request x m path ps) (\<lambda>r new. \<exists>a.
     new = [(Http m path (filter (\<lambda>(k, v). v \<noteq> VNone) ps), a)]
     \<and> ((\<exists>v. r = Inr v) = bybit_accepted x (hd new)))"
  by (rule yieldsI) (auto simp: bybit_request_def io_bind_def ask_def io_fail_def io_return_def bybit_accepted_def
      split: answer.splits if_splits)

lemma sends_bybit_request [send_rules]:
  "ok (Http m path (filter (\<lambda>(k, v). v \<noteq> VNone) ps)) \<Longrightarrow> sends ok (bybit_request x m path ps)"
  unfolding sends_def by (rule yields_mono [OF bybit_request_yields]) auto

lemma sends_bybit_replace:
  assumes "xc_price x symbol trigger \<noteq> Some ''0''"
  shows "sends (\<lambda>c. \<not> bybit_removal c) (bybit_replace_sl x symbol existing trigger quantity coid close)"
proof (cases "xc_price x symbol trigger")
  case None
  then show ?thesis by (simp add: bybit_replace_sl_def rounded_price_def send_rules)
next
  case (Some t)
  with assms have t: "t \<noteq> ''0''" by simp
  show ?thesis
    unfolding bybit_replace_sl_def trading_stop_def rounded_price_def Some option.case io_laws
    by (intro send_rules) (use t in \<open>auto simp: bybit_removal_def split: option.split\<close>)
qed


type_synonym move_request = "string \<times> string \<times> real \<times> real \<times> string"

definition bybit_move :: "exchange \<Rightarrow> bool \<Rightarrow> move_request \<Rightarrow> conditional_order io" where
  "bybit_move x close a =
     (case a of (symbol, existing, trigger, quantity, coid) \<Rightarrow> bybit_replace_sl x symbol existing trigger quantity coid close)"

definition rounds_above_zero :: "exchange \<Rightarrow> move_request \<Rightarrow> bool" where
  "rounds_above_zero x a = (case a of (symbol, existing, trigger, quantity, coid) \<Rightarrow> xc_price x symbol trigger \<noteq> Some ''0'')"

interpretation bybit_mover: stop_mover "rounds_above_zero x" "bybit_move x close" "bybit_attests x" "bybit_removal \<circ> fst"
  for x close
proof
  fix a assume "rounds_above_zero x a"
  then have "sends (\<lambda>c. \<not> bybit_removal c) (bybit_move x close a)"
    by (auto simp: rounds_above_zero_def bybit_move_def sends_bybit_replace split: prod.splits)
  then show "yields (bybit_move x close a) (\<lambda>r new. make_before_break (bybit_attests x) (bybit_removal \<circ> fst) False new)"
    unfolding sends_def by (rule yields_mono) (auto intro!: make_before_break_quiet simp: list_all_iff)
qed

section \<open>Binance\<close>

definition binance_accepted :: "exchange \<Rightarrow> exchange_call \<times> answer \<Rightarrow> bool" where
  "binance_accepted x e = (case snd e of NoAnswer \<Rightarrow> False | Answer st p \<Rightarrow> st < 400 \<and> \<not> binance_error_payload x p)"

definition binance_attests :: "exchange \<Rightarrow> exchange_call \<times> answer \<Rightarrow> bool" where
  "binance_attests x e =
     (case fst e of
        Http m path ps \<Rightarrow> path = algo_path \<and> binance_accepted x e
          \<and> (m = ''POST'' \<and> get_none ps ''type'' = VStr ''STOP_MARKET'' \<or> m = ''GET'')
      | _ \<Rightarrow> False)"

definition binance_removes :: "exchange \<Rightarrow> exchange_call \<times> answer \<Rightarrow> bool" where
  "binance_removes x e =
     (case fst e of Http m path ps \<Rightarrow> m = ''DELETE'' \<and> path = algo_path \<and> binance_accepted x e | _ \<Rightarrow> False)"

definition time_request :: exchange_call where
  "time_request = Http ''GET'' ''/fapi/v1/time'' []"

text \<open>A request is accepted at most once, as the last entry, and exactly when it succeeds.\<close>

definition refused :: "exchange \<Rightarrow> exchange_call \<Rightarrow> exchange_call \<times> answer \<Rightarrow> bool" where
  "refused x call e \<longleftrightarrow> (fst e = call \<and> \<not> binance_accepted x e) \<or> fst e = time_request"

lemma binance_request_yields:
  "yields (binance_request x m path ps) (\<lambda>r new.
     let call = Http m path (filter (\<lambda>(k, v). v \<noteq> VNone) ps) in
     case r of
       Inr v \<Rightarrow> new \<noteq> [] \<and> list_all (refused x call) (butlast new) \<and> fst (last new) = call
         \<and> binance_accepted x (last new) \<and> (\<exists>st. snd (last new) = Answer st v)
     | Inl e \<Rightarrow> list_all (refused x call) new)"
  by (rule yieldsI)
    (auto simp: binance_request_def io_bind_def io_catch_def ask_def io_fail_def io_return_def binance_answer_def
      binance_accepted_def sync_server_time_offset_def Let_def time_request_def refused_def
      split: answer.splits if_splits sum.splits prod.splits)

lemma list_all_last: "new \<noteq> [] \<Longrightarrow> list_all P (butlast new) \<Longrightarrow> P (last new) \<Longrightarrow> list_all P new"
  by (induction new) (auto split: if_splits)

lemma list_ex_last: "new \<noteq> [] \<Longrightarrow> P (last new) \<Longrightarrow> list_ex P new"
  by (auto simp: list_ex_iff intro: bexI [OF _ last_in_set])

lemma sends_binance_request [send_rules]:
  assumes "ok (Http m path (filter (\<lambda>(k, v). v \<noteq> VNone) ps))" and "ok time_request"
  shows "sends ok (binance_request x m path ps)"
proof -
  have "list_all (ok \<circ> fst) new" if "list_all (refused x (Http m path (filter (\<lambda>(k, v). v \<noteq> VNone) ps))) new" for new
    using that assms by (auto simp: list_all_iff refused_def)
  then show ?thesis
    unfolding sends_def by (intro yields_mono [OF binance_request_yields])
      (auto simp: Let_def assms split: sum.splits intro: list_all_last)
qed

lemma sends_get_position [send_rules]: "ok (FetchPositions symbol) \<Longrightarrow> sends ok (binance_get_position x symbol)"
  unfolding binance_get_position_def by (intro send_rules)

lemma quiet_refused:
  "m \<noteq> ''DELETE'' \<Longrightarrow> refused x (Http m path ps) e \<Longrightarrow> \<not> binance_removes x e"
  "refused x (Http ''DELETE'' path ps) e \<Longrightarrow> \<not> binance_removes x e"
  by (auto simp: refused_def binance_removes_def time_request_def)

text \<open>What placing an order or looking one up tells: nothing is removed, and a success attests a stop.\<close>

definition informs :: "exchange \<Rightarrow> ('a \<Rightarrow> bool) \<Rightarrow> adapter_error + 'a \<Rightarrow> exchange_log \<Rightarrow> bool" where
  "informs x good r new \<longleftrightarrow> list_all (\<lambda>e. \<not> binance_removes x e) new
     \<and> (case r of Inr v \<Rightarrow> good v \<longrightarrow> list_ex (binance_attests x) new | Inl e \<Rightarrow> True)"

lemma request_informs:
  assumes "m \<noteq> ''DELETE''"
  shows "yields (binance_request x m path ps) (informs x (\<lambda>_. path = algo_path
    \<and> (m = ''POST'' \<and> get_none (filter (\<lambda>(k, v). v \<noteq> VNone) ps) ''type'' = VStr ''STOP_MARKET'' \<or> m = ''GET'')))"
proof (rule yields_mono [OF binance_request_yields], goal_cases)
  case (1 r new)
  let ?call = "Http m path (filter (\<lambda>(k, v). v \<noteq> VNone) ps)"
  have quiet: "list_all (\<lambda>e. \<not> binance_removes x e) es" if "list_all (refused x ?call) es" for es
    using that quiet_refused(1) [OF assms] by (auto simp: list_all_iff)
  show ?case
  proof (cases r)
    case (Inl e)
    with 1 show ?thesis by (auto simp: informs_def Let_def intro!: quiet)
  next
    case (Inr v)
    with 1 have n: "new = butlast new @ [last new]" "list_all (refused x ?call) (butlast new)" "fst (last new) = ?call"
      "binance_accepted x (last new)" by (auto simp: Let_def)
    then have "\<not> binance_removes x (last new)" using assms by (auto simp: binance_removes_def)
    with 1 Inr n quiet have "list_all (\<lambda>e. \<not> binance_removes x e) new" by (auto simp: Let_def intro: list_all_last)
    moreover have "binance_attests x (last new)"
      if "path = algo_path" "m = ''POST'' \<and> get_none (filter (\<lambda>(k, v). v \<noteq> VNone) ps) ''type'' = VStr ''STOP_MARKET'' \<or> m = ''GET''"
      using that n(3,4) by (auto simp: binance_attests_def)
    ultimately show ?thesis using Inr 1 by (auto simp: informs_def Let_def intro!: list_ex_last)
  qed
qed

named_theorems inform_rules \<open>what an operation tells of the standing stops\<close>

lemma informs_mono: "yields m (informs x h) \<Longrightarrow> (\<And>v. g v \<Longrightarrow> h v) \<Longrightarrow> yields m (informs x g)"
  by (erule yields_mono) (auto simp: informs_def split: sum.splits)

lemma informs_bind:
  assumes "yields m (informs x h)" and "\<And>v. yields (k v) (informs x (\<lambda>u. g u \<and> \<not> h v))"
  shows "yields (io_bind m k) (informs x g)"
  using assms by (rule yields_bind) (auto simp: informs_def split: sum.splits)

lemma informs_after: "yields m (informs x (\<lambda>_. False)) \<Longrightarrow> (\<And>v. yields (k v) (informs x g)) \<Longrightarrow> yields (io_bind m k) (informs x g)"
  by (rule informs_bind) auto

lemma informs_then:
  assumes "yields m (informs x g)" and "\<And>v. yields (k v) (informs x (\<lambda>u. good u \<and> \<not> g v))"
  shows "yields (io_bind m k) (informs x good)"
  using assms by (rule informs_bind)

lemma informs_sends:
  assumes "sends (\<lambda>c. case c of Http m path ps \<Rightarrow> m \<noteq> ''DELETE'' | _ \<Rightarrow> True) m"
  shows "yields m (informs x (\<lambda>_. False))"
  using assms unfolding sends_def
  by (rule yields_mono) (auto simp: informs_def list_all_iff binance_removes_def split: exchange_call.splits sum.splits)

lemma informs_return: "\<not> g v \<Longrightarrow> yields (io_return v) (informs x g)" "yields (io_fail e) (informs x g)"
  by (simp_all add: yields_def io_return_def io_fail_def informs_def)

lemma informs_number: "(\<And>v. \<not> g v) \<Longrightarrow> yields (numeric t) (informs x g)"
  by (auto simp: numeric_def intro!: informs_return split: option.split)

lemma informs_attempt:
  "yields m (informs x g) \<Longrightarrow> yields (io_attempt m) (informs x (\<lambda>r. case r of Inr v \<Rightarrow> g v | Inl e \<Rightarrow> False))"
  by (erule yields_attempt) (auto simp: informs_def split: sum.splits)

lemma informs_catch:
  "yields m (informs x g) \<Longrightarrow> (\<And>st p. yields (h st p) (informs x g)) \<Longrightarrow> yields (io_catch m h) (informs x g)"
  by (erule yields_catch [where \<psi> = "\<lambda>_ _. informs x g"]) (auto simp: informs_def split: sum.splits)

lemma place_stop_informs:
  "yields (binance_place_stop_loss x symbol side quantity trigger coid ro close) (informs x (\<lambda>_. True))"
  unfolding binance_place_stop_loss_def
  apply (intro informs_after)
    apply (rule informs_sends, intro send_rules)
   apply (rule informs_sends, intro send_rules)
  apply (clarsimp split: prod.split)
  apply (rule informs_then, rule request_informs, simp)
  apply (rule informs_after, rule informs_number, simp)
  apply (rule informs_return)
  by (auto simp: algo_order_params_def)

lemma lookup_informs: "yields (lookup_algo_by_client_id x symbol coid) (informs x (\<lambda>r. r \<noteq> None))"
  unfolding lookup_algo_by_client_id_def
  by (intro informs_catch informs_then [OF request_informs]) (auto intro!: informs_return)

lemma classify_informs: "yields (classify_error x symbol trigger st p) (informs x (\<lambda>_. False))"
  unfolding classify_error_def Let_def by (intro informs_sends send_rules) auto

lemma attempts_inform:
  "\<not> sr_close s \<Longrightarrow> yields (place_attempts x s ns resolved last_error) (informs x (\<lambda>(placed, e). placed \<noteq> None))"
proof (induction ns arbitrary: resolved last_error)
  case Nil
  then show ?case by (auto intro: informs_return)
next
  case (Cons n ns)
  show ?case
    unfolding place_attempts.simps
    apply (rule informs_bind [OF informs_attempt [OF place_stop_informs]])
    apply (rename_tac r, case_tac r)
     apply (simp_all add: informs_return)
    apply (rename_tac e, case_tac e)
        apply (simp_all add: informs_return Cons.prems)
    apply (intro conjI impI informs_bind [OF lookup_informs] informs_after [OF classify_informs])
     apply (auto intro!: informs_return informs_after [OF classify_informs] informs_mono [OF Cons.IH [OF Cons.prems]]
        split: option.split classified.split)
    done
qed

lemma make_before_break_more:
  "make_before_break attests removes known es \<Longrightarrow> (known \<longrightarrow> known') \<Longrightarrow> make_before_break attests removes known' es"
proof (induction es arbitrary: known known')
  case (Cons e es)
  show ?case
  proof (cases "removes e")
    case False
    with Cons.prems Cons.IH [of "known \<or> attests e" "known' \<or> attests e"] show ?thesis by simp
  qed (use Cons.prems in simp)
qed simp

lemma informed_break:
  assumes "yields m (informs x g)"
    and "\<And>v. yields (k v) (\<lambda>r new. make_before_break (binance_attests x) (binance_removes x) (g v) new)"
  shows "yields (io_bind m k) (\<lambda>r new. make_before_break (binance_attests x) (binance_removes x) False new)"
  using assms
proof (rule yields_bind)
  fix e new assume "informs x g (Inl e) new"
  then show "make_before_break (binance_attests x) (binance_removes x) False new"
    by (auto simp: informs_def intro: make_before_break_quiet)
next
  fix v n1 r n2
  assume "informs x g (Inr v) n1" "make_before_break (binance_attests x) (binance_removes x) (g v) n2"
  then show "make_before_break (binance_attests x) (binance_removes x) False (n1 @ n2)"
    by (auto simp: informs_def make_before_break_append intro: make_before_break_more)
qed

lemma cancel_breaks_once:
  "yields (cancel_existing_sl x symbol oid) (\<lambda>r new. make_before_break (binance_attests x) (binance_removes x) True new)"
proof -
  have "yields (delete_algo x symbol oid) (\<lambda>r new. make_before_break (binance_attests x) (binance_removes x) True new)"
    unfolding delete_algo_def
  proof (rule yields_mono [OF binance_request_yields], goal_cases)
    case (1 r new)
    have quiet: "list_all (\<lambda>e. \<not> binance_removes x e) es" if "list_all (refused x (Http ''DELETE'' p ps)) es" for p ps es
      using that quiet_refused(2) by (auto simp: list_all_iff)
    show ?case
    proof (cases r)
      case (Inl e)
      with 1 show ?thesis by (auto simp: Let_def intro!: make_before_break_quiet quiet)
    next
      case (Inr v)
      with 1 have "new = butlast new @ [last new]" "list_all (\<lambda>e. \<not> binance_removes x e) (butlast new)"
        by (auto simp: Let_def intro: quiet)
      then show ?thesis by (metis make_before_break.simps make_before_break_append list.pred_inject(1))
    qed
  qed
  then show ?thesis
    unfolding cancel_existing_sl_def binance_cancel_conditional_order_def
    by (intro yields_catch [where \<psi> = "\<lambda>_ _ _ new. new = []"] yields_bind [where \<psi> = "\<lambda>_ _ new. new = []"])
      (simp_all add: yields_def io_return_def)
qed

lemma verified_flat_informs: "yields (verified_flat x symbol) (informs x (\<lambda>_. False))"
  unfolding verified_flat_def by (intro informs_sends send_rules) simp

lemma side_informs: "yields (resolve_stop_loss_side x symbol) (informs x (\<lambda>_. False))"
  unfolding resolve_stop_loss_side_def by (intro informs_sends send_rules) simp

lemma binance_replace_order:
  "yields (binance_replace_sl x symbol existing trigger quantity coid False)
     (\<lambda>r new. make_before_break (binance_attests x) (binance_removes x) False new)"
proof -
  let ?ordered = "\<lambda>known (r :: adapter_error + conditional_order) new. make_before_break (binance_attests x) (binance_removes x) known new"
  have finish: "yields (case fst v of
       None \<Rightarrow> io_bind (verified_flat x symbol) (\<lambda>flat.
           io_fail (if flat then AlreadyFlat (case snd v of None \<Rightarrow> None | Some p \<Rightarrow> error_code p) else CriticalSLPlacement))
     | Some sl \<Rightarrow> io_bind (if has_real_existing existing then cancel_existing_sl x symbol existing else io_return False) (\<lambda>_. io_return sl))
     (?ordered (fst v \<noteq> None))" for v :: "conditional_order option \<times> pyval option"
  proof (cases "fst v")
    case None
    have "yields (io_fail e) (?ordered False)" for e by (simp add: yields_def io_fail_def)
    then show ?thesis unfolding None by (simp, intro informed_break [OF verified_flat_informs])
  next
    case (Some sl)
    have "yields (io_bind (if has_real_existing existing then cancel_existing_sl x symbol existing else io_return False) (\<lambda>_. io_return sl))
      (?ordered True)"
      by (rule yields_bind [where \<psi> = "\<lambda>_ _ new. new = []" and \<phi> = "\<lambda>r new. make_before_break (binance_attests x) (binance_removes x) True new"])
        (simp_all add: yields_def io_return_def cancel_breaks_once [unfolded yields_def])
    then show ?thesis by (simp add: Some)
  qed
  let ?s = "\<lambda>side. \<lparr>sr_symbol = symbol, sr_existing = existing, sr_trigger = trigger, sr_quantity = quantity,
        sr_client_order_id = coid, sr_close = False, sr_side = side\<rparr>"
  have inner: "yields (io_bind (place_attempts x (?s side) [0, 1, 2, 3] False None) (\<lambda>v. case fst v of
       None \<Rightarrow> io_bind (verified_flat x symbol) (\<lambda>flat.
           io_fail (if flat then AlreadyFlat (case snd v of None \<Rightarrow> None | Some p \<Rightarrow> error_code p) else CriticalSLPlacement))
     | Some sl \<Rightarrow> io_bind (if has_real_existing existing then cancel_existing_sl x symbol existing else io_return False) (\<lambda>_. io_return sl)))
     (?ordered False)" for side
  proof (rule informed_break)
    show "yields (place_attempts x (?s side) [0, 1, 2, 3] False None) (informs x (\<lambda>v. fst v \<noteq> None))"
      by (rule informs_mono [OF attempts_inform]) auto
  qed (rule finish)
  show ?thesis
    using informed_break [OF side_informs inner]
    by (simp only: binance_replace_sl_def case_prod_unfold simp_thms if_False io_laws)
qed

definition binance_move :: "exchange \<Rightarrow> move_request \<Rightarrow> conditional_order io" where
  "binance_move x a =
     (case a of (symbol, existing, trigger, quantity, coid) \<Rightarrow> binance_replace_sl x symbol existing trigger quantity coid False)"

interpretation binance_mover: stop_mover "\<lambda>_. True" "binance_move x" "binance_attests x" "binance_removes x" for x
  by unfold_locales (auto simp: binance_move_def binance_replace_order split: prod.split)

section \<open>Single runs\<close>

definition moves_stop_to :: "string \<Rightarrow> exchange_call \<Rightarrow> bool" where
  "moves_stop_to t c =
     (case c of
        Http m path ps \<Rightarrow>
          path = ''/v5/position/trading-stop'' \<and> get_none ps ''stopLoss'' = VStr t
          \<or> path = ''/v5/order/amend'' \<and> get_none ps ''triggerPrice'' = VStr t
      | _ \<Rightarrow> False)"

definition moved :: "exchange \<Rightarrow> string \<Rightarrow> adapter_error + conditional_order \<Rightarrow> exchange_log \<Rightarrow> bool" where
  "moved x t r new =
     (case r of
        Inl e \<Rightarrow> True
      | Inr o' \<Rightarrow> new \<noteq> [] \<and> bybit_accepted x (last new) \<and> parse_float t = Some (co_trigger_price o')
          \<and> moves_stop_to t (fst (last new)))"

lemma request_moves:
  assumes "moves_stop_to t (Http m path (filter (\<lambda>(k, v). v \<noteq> VNone) ps))"
    and "\<And>p. yields (k p) (\<lambda>r new. new = [] \<and> (\<forall>o'. r = Inr o' \<longrightarrow> parse_float t = Some (co_trigger_price o')))"
  shows "yields (io_bind (bybit_request x m path ps) k) (\<lambda>r new. length new = 1 \<and> moved x t r new)"
  by (rule yields_bind [OF bybit_request_yields assms(2)]) (use assms(1) in \<open>auto simp: moved_def split: sum.split\<close>)

lemma pure_result:
  "(\<And>tn qn. co_trigger_price (f tn qn) = tn) \<Longrightarrow>
     yields (io_bind (numeric t) (\<lambda>tn. io_bind (numeric q) (\<lambda>qn. io_return (f tn qn))))
       (\<lambda>r new. new = [] \<and> (\<forall>o'. r = Inr o' \<longrightarrow> parse_float t = Some (co_trigger_price o')))"
  "(\<And>tn. co_trigger_price (g tn) = tn) \<Longrightarrow>
     yields (io_bind (numeric t) (\<lambda>tn. io_return (g tn)))
       (\<lambda>r new. new = [] \<and> (\<forall>o'. r = Inr o' \<longrightarrow> parse_float t = Some (co_trigger_price o')))"
  by (auto simp: yields_def numeric_def io_fail_def io_return_def io_bind_def split: option.split)

lemma yields_pure_bind:
  assumes "sends (\<lambda>_. False) m" and "\<And>v. yields (k v) \<phi>" and "\<And>e. \<phi> (Inl e) []"
  shows "yields (io_bind m k) \<phi>"
proof -
  from assms(1) have "yields m (\<lambda>r new. new = [])"
    unfolding sends_def by (rule yields_mono) (case_tac new, auto)
  then show ?thesis using assms(2) by (rule yields_bind) (auto simp: assms(3))
qed

lemma bybit_move_shape:
  "yields (bybit_replace_sl x symbol existing trigger quantity coid close)
     (\<lambda>r new. length new \<le> 2 \<and> (\<forall>o'. r = Inr o' \<longrightarrow> (\<exists>t. xc_price x symbol trigger = Some t \<and> moved x t r new)))"
proof (cases "xc_price x symbol trigger")
  case None
  then show ?thesis by (simp add: bybit_replace_sl_def rounded_price_def yields_def io_fail_def)
next
  case (Some t)
  let ?Q = "\<lambda>(r :: adapter_error + conditional_order) (new :: exchange_log). length new \<le> 2 \<and> moved x t r new"
  have trig: "co_trigger_price (bybit_conditional x p ot tn qn c d) = tn" for p ot tn qn c d
    by (simp add: bybit_conditional_def Let_def)
  have stage: "yields (io_catch
       (io_bind (trading_stop x symbol
          ([(''stopLoss'', VStr t), (''slTriggerBy'', VStr ''MarkPrice''), (''slOrderType'', VStr ''Market''),
            (''orderLinkId'', VStr coid)]
           @ (case qty of None \<Rightarrow> [(''tpslMode'', VStr ''Full'')]
              | Some s \<Rightarrow> [(''tpslMode'', VStr ''Partial''), (''slSize'', VStr s)]))) (\<lambda>payload.
        io_bind (numeric t) (\<lambda>tn.
        io_bind (case qty of None \<Rightarrow> io_return quantity | Some s \<Rightarrow> numeric s) (\<lambda>qn.
        io_return (bybit_conditional x payload ''stop_loss'' tn qn coid (position_tpsl_order_id symbol ''stop_loss''))))))
       (\<lambda>_ _.
        io_bind (case qty of Some s \<Rightarrow> io_return s | None \<Rightarrow> rounded_amount x symbol quantity) (\<lambda>amend.
        io_bind (bybit_request x ''POST'' ''/v5/order/amend''
          [(''category'', VStr ''linear''), (''symbol'', VStr (exchange_symbol symbol)), (''orderId'', VStr existing),
           (''orderLinkId'', VStr coid), (''triggerPrice'', VStr t), (''qty'', VStr amend)]) (\<lambda>payload.
        io_bind (numeric t) (\<lambda>tn.
        io_bind (numeric amend) (\<lambda>qn.
        io_return (bybit_conditional x payload ''stop_loss'' tn qn coid (if existing = [] then coid else existing))))))))
     ?Q" for qty :: "string option"
  proof (rule yields_catch [where \<phi> = "\<lambda>r new. length new = 1 \<and> moved x t r new" and \<psi> = "\<lambda>_ _ r new. length new \<le> 1 \<and> moved x t r new"], goal_cases)
    case 1
    show ?case
      unfolding trading_stop_def
      by (rule request_moves) (auto simp: moves_stop_to_def trig intro!: pure_result split: option.split)
  next
    case (2 st p)
    show ?case
      by (rule yields_pure_bind)
        (auto intro!: send_rules yields_mono [OF request_moves] pure_result simp: moves_stop_to_def trig moved_def split: option.split)
  qed (auto simp: moved_def split: sum.splits)
  have "yields (bybit_replace_sl x symbol existing trigger quantity coid close) ?Q"
    unfolding bybit_replace_sl_def rounded_price_def Some option.case io_laws
    by (rule yields_pure_bind [OF _ stage]) (auto intro!: send_rules simp: moved_def)
  then show ?thesis by (rule yields_mono) (auto simp: Some)
qed

text \<open>An error that is no typed one.\<close>

fun plain_error :: "adapter_error \<Rightarrow> bool" where
  "plain_error (ApiError st p) = True"
| "plain_error OtherException = True"
| "plain_error _ = False"

definition fails_plainly :: "'a io \<Rightarrow> bool" where
  "fails_plainly m \<longleftrightarrow> (\<forall>l. \<exists>e. fst (m l) = Inl e \<and> plain_error e)"

definition plain :: "'a io \<Rightarrow> bool" where
  "plain m \<longleftrightarrow> (\<forall>l e. fst (m l) = Inl e \<longrightarrow> plain_error e)"

lemma io_bind_result:
  "fst (io_bind m k l) = (case fst (m l) of Inl e \<Rightarrow> Inl e | Inr v \<Rightarrow> fst (k v (snd (m l))))"
  by (simp add: io_bind_def split: prod.split sum.split)

lemma fails_bind: "fails_plainly m \<Longrightarrow> fails_plainly (io_bind m k)"
  unfolding fails_plainly_def io_bind_result by (metis sum.case(1))

lemma plain_then_fails: "plain m \<Longrightarrow> (\<And>v. fails_plainly (k v)) \<Longrightarrow> fails_plainly (io_bind m k)"
  unfolding fails_plainly_def plain_def io_bind_result by (metis sum.case sum.exhaust)

lemma plain_simple: "plain (io_return v)" "plain (rounded_price x s p)" "plain (rounded_amount x s q)" "plain (numeric t)"
  by (auto simp: plain_def io_return_def io_fail_def rounded_price_def rounded_amount_def numeric_def split: option.splits)

lemma plain_bind: "plain m \<Longrightarrow> (\<And>v. plain (k v)) \<Longrightarrow> plain (io_bind m k)"
  unfolding plain_def io_bind_result by (auto split: sum.splits)

lemma refused_fails:
  assumes "\<And>c l'. (case xc_answer x l' c of NoAnswer \<Rightarrow> True | Answer st p \<Rightarrow> 400 \<le> st \<and> \<not> binance_timestamp_error x p)"
  shows "fails_plainly (binance_request x m path ps)" "fails_plainly (bybit_request x m path ps)"
proof -
  let ?c = "Http m path (filter (\<lambda>(k, v). v \<noteq> VNone) ps)"
  have a: "xc_answer x l ?c = NoAnswer \<or> (\<exists>st p. xc_answer x l ?c = Answer st p \<and> 400 \<le> st \<and> \<not> binance_timestamp_error x p)" for l
    using assms [of l ?c] by (cases "xc_answer x l ?c") auto
  have "\<exists>e. fst (binance_request x m path ps l) = Inl e \<and> plain_error e" "\<exists>e. fst (bybit_request x m path ps l) = Inl e \<and> plain_error e" for l
    using a [of l]
    by (auto simp: binance_request_def bybit_request_def binance_answer_def io_bind_def io_catch_def ask_def io_fail_def io_return_def Let_def)
  then show "fails_plainly (binance_request x m path ps)" "fails_plainly (bybit_request x m path ps)"
    by (simp_all add: fails_plainly_def)
qed

section \<open>Properties\<close>



text \<open>The queue takes every refusal of a stop order for fatal, an outage of the exchange or a time-out
  included: whatever the status, the outcome is never the retried one.\<close>

theorem refused_placement_is_fatal:
  assumes "\<And>c l'. (case xc_answer x l' c of NoAnswer \<Rightarrow> True | Answer st p \<Rightarrow> 400 \<le> st \<and> \<not> binance_timestamp_error x p)"
  shows "(\<exists>msg. queue_outcome (fst (binance_run x (PlaceStopLoss symbol side quantity trigger coid ro close) l)) = FatalError msg)
    \<and> (\<exists>msg. queue_outcome (fst (bybit_run x (PlaceStopLoss symbol side quantity trigger coid ro close) l)) = FatalError msg)"
proof -
  note fails = fails_bind [OF refused_fails(1) [OF assms]] fails_bind [OF refused_fails(2) [OF assms]]
  have sizing: "plain (if close then io_return (''0'', max 0 quantity)
              else io_bind (rounded_amount x symbol quantity) (\<lambda>s. io_bind (numeric s) (\<lambda>n. io_return (s, n))))"
    by (auto intro!: plain_bind plain_simple)
  have "fails_plainly (binance_place_stop_loss x symbol side quantity trigger coid ro close)"
    unfolding binance_place_stop_loss_def
    by (rule plain_then_fails [OF plain_simple(2)], rule plain_then_fails [OF sizing]) (auto intro: fails split: prod.split)
  moreover have "fails_plainly (bybit_place_stop_loss x symbol quantity trigger coid)"
    unfolding bybit_place_stop_loss_def trading_stop_def
    by (rule plain_then_fails [OF plain_simple(2)]) (rule fails)
  ultimately have "fails_plainly (binance_run x (PlaceStopLoss symbol side quantity trigger coid ro close))"
    "fails_plainly (bybit_run x (PlaceStopLoss symbol side quantity trigger coid ro close))"
    by (simp_all add: fails_bind)
  moreover have "\<exists>msg. queue_outcome (Inl e :: adapter_error + adapter_answer) = FatalError msg" if "plain_error e" for e
    using that by (cases e) auto
  ultimately show ?thesis unfolding fails_plainly_def by metis
qed

end
