(* ===== verification/Adapter_Orders.thy ===== *)
theory Adapter_Orders
  imports Adapter_Safety
begin

text \<open>
  Orders that end or open a position, as they reach the exchanges: the close orders of the queue on both
  adapters, the entry with attached protection on Binance, a stop of the whole position moved on
  Binance, a ladder level moved on Bybit, and the fills that come back.
\<close>

section \<open>Closing\<close>

definition reduces :: "order_side \<Rightarrow> real \<Rightarrow> exchange_call \<Rightarrow> bool" where
  "reduces side bound c =
     (case c of
        CreateOrder s ty sd n p ps \<Rightarrow>
          ty = ''market'' \<and> sd = side \<and> p = None \<and> n \<le> bound \<and> get_none ps ''reduceOnly'' = VBool True
      | _ \<Rightarrow> False)"

text \<open>Rounding an amount to the lot size of the market never increases it.\<close>

definition rounds_down :: "exchange \<Rightarrow> bool" where
  "rounds_down x \<longleftrightarrow> (\<forall>s q t n. xc_amount x s q = Some t \<longrightarrow> parse_float t = Some n \<longrightarrow> n \<le> q)"

locale closing_adapter =
  fixes x :: exchange and run :: "adapter_call \<Rightarrow> adapter_answer io"
  assumes closes: "yields (run (PartialClose s sd q cid ''market'' None)) (\<lambda>r new. new = []
    \<or> (\<exists>t n ps a. xc_amount x s q = Some t \<and> parse_float t = Some n \<and> get_none ps ''reduceOnly'' = VBool True
        \<and> new = [(CreateOrder s ''market'' sd n None ps, a)]))"
begin

lemma emergency_reduces:
  assumes "emergency_market_close fc live params = Inr (Some call)" and "live_size live = Some z"
    and "require_side params ''side'' = Inr side" and "rounds_down x"
  shows "\<exists>new. snd (run call l) = l @ new \<and> length new \<le> 1 \<and> list_all (reduces side z \<circ> fst) new"
proof -
  from assms(1) obtain symbol sd q cid where call: "call = PartialClose symbol sd q cid ''market'' None"
    and q: "\<forall>z. live_size live = Some z \<longrightarrow> emergency_close_dust_epsilon < z \<and> q \<le> z"
    by (rule emergency_close_call)
  with assms(2) have bound: "q \<le> z" by simp
  have "sd = side" using assms(1,3) unfolding call
    by (auto simp: emergency_market_close_def ebind_Inr_iff Let_def split: if_splits option.splits)
  obtain r l' where run: "run call l = (r, l')" by fastforce
  obtain new where new: "l' = l @ new"
    "new = [] \<or> (\<exists>t n ps a. xc_amount x symbol q = Some t \<and> parse_float t = Some n \<and> get_none ps ''reduceOnly'' = VBool True
        \<and> new = [(CreateOrder symbol ''market'' sd n None ps, a)])"
    by (rule yieldsE [OF closes run [unfolded call]]) (rule that)
  have "n \<le> z" if "xc_amount x symbol q = Some t" "parse_float t = Some n" for t n
    using assms(4) that bound unfolding rounds_down_def by (meson order_trans)
  then have "length new \<le> 1 \<and> list_all (reduces side z \<circ> fst) new"
    using new(2) \<open>sd = side\<close> by (elim disjE exE conjE) (simp_all add: reduces_def)
  with run new(1) show ?thesis by auto
qed

end

lemma market_close_yields:
  assumes "get_none ps ''reduceOnly'' = VBool True"
  shows "yields (io_bind (reduce_only_order x ps s sd q ''market'' None) (\<lambda>r. io_return (Closed r))) (\<lambda>r new. new = []
    \<or> (\<exists>t n ps a. xc_amount x s q = Some t \<and> parse_float t = Some n \<and> get_none ps ''reduceOnly'' = VBool True
        \<and> new = [(CreateOrder s ''market'' sd n None ps, a)]))"
proof -
  have m: "py_lower ''market'' = ''market''" by (simp add: py_lower_def lower_char_def)
  show ?thesis
  proof (cases "xc_amount x s q")
    case None
    then show ?thesis by (simp add: reduce_only_order_def rounded_amount_def yields_def io_fail_def)
  next
    case (Some t)
    show ?thesis
    proof (cases "parse_float t")
      case None
      with Some show ?thesis by (simp add: reduce_only_order_def rounded_amount_def numeric_def yields_def io_fail_def io_bind_def io_return_def)
    next
      case (Some n)
      with \<open>xc_amount x s q = Some t\<close> show ?thesis using assms
        by (intro yieldsI) (auto simp: reduce_only_order_def rounded_amount_def numeric_def library_dict_def m
            io_bind_def ask_def io_return_def io_fail_def split: answer.splits pyval.splits)
    qed
  qed
qed

interpretation bybit_closer: closing_adapter x "bybit_run x" for x
  by unfold_locales (unfold bybit_run.simps bybit_partial_close_def, rule market_close_yields, simp)

interpretation binance_closer: closing_adapter x "binance_run x" for x
  by unfold_locales (unfold binance_run.simps binance_partial_close_def, rule market_close_yields, simp)

section \<open>Entering with protection on Binance\<close>

definition is_entry_call :: "exchange_call \<Rightarrow> bool" where
  "is_entry_call c = (case c of CreateOrder s ty sd n p ps \<Rightarrow> get_none ps ''reduceOnly'' = VBool False | _ \<Rightarrow> False)"

text \<open>The quantity the exchange reported as filled by an entry, if the entry is among the calls.\<close>

definition entry_filled :: "real \<Rightarrow> exchange_call \<times> answer \<Rightarrow> real option" where
  "entry_filled quantity e =
     (case snd e of
        Answer st (VDict order) \<Rightarrow> if is_entry_call (fst e) then Some (to_float_or quantity (get_none order ''filled'')) else None
      | _ \<Rightarrow> None)"

definition close_attempted :: "exchange \<Rightarrow> string \<Rightarrow> order_side \<Rightarrow> real \<Rightarrow> exchange_log \<Rightarrow> bool" where
  "close_attempted x symbol side filled new =
     (case Option.bind (xc_amount x symbol filled) parse_float of
        None \<Rightarrow> True
      | Some n \<Rightarrow> new \<noteq> []
          \<and> (case fst (last new) of
               CreateOrder s ty sd q p ps \<Rightarrow> s = symbol \<and> ty = ''market'' \<and> sd = side \<and> q = n \<and> p = None
                 \<and> get_none ps ''reduceOnly'' = VBool True
             | _ \<Rightarrow> False))"

lemma close_attempted_append: "close_attempted x symbol side q n2 \<Longrightarrow> close_attempted x symbol side q (n1 @ n2)"
  by (auto simp: close_attempted_def split: option.splits)

lemma partial_close_attempts:
  "yields (binance_partial_close x symbol side q cid ''market'' None) (\<lambda>r new. close_attempted x symbol side q new)"
proof -
  have m: "py_lower ''market'' = ''market''" by (simp add: py_lower_def lower_char_def)
  show ?thesis
  proof (cases "Option.bind (xc_amount x symbol q) parse_float")
    case None
    have "sends (\<lambda>_. True) (binance_partial_close x symbol side q cid ''market'' None)"
      unfolding binance_partial_close_def by (intro send_rules) simp
    then show ?thesis unfolding sends_def by (rule yields_mono) (simp add: close_attempted_def None)
  next
    case (Some n)
    then obtain t where "xc_amount x symbol q = Some t" "parse_float t = Some n" by (auto simp: bind_eq_Some_conv)
    then show ?thesis
      by (intro yieldsI) (auto simp: binance_partial_close_def reduce_only_order_def rounded_amount_def numeric_def
        library_dict_def m close_attempted_def io_bind_def ask_def io_return_def io_fail_def split: answer.splits pyval.splits)
  qed
qed

lemma yields_last:
  assumes "yields m \<phi>" and "\<And>v. yields (k v) (\<lambda>r new. close_attempted x symbol side q new)"
    and "\<And>e new. \<phi> (Inl e) new \<Longrightarrow> False"
  shows "yields (io_bind m k) (\<lambda>r new. close_attempted x symbol side q new)"
  using assms(1,2) by (rule yields_bind) (auto dest: assms(3) intro: close_attempted_append)

lemma rollback_attempts:
  "yields (rollback_entry x symbol side q attached coid) (\<lambda>r new. close_attempted x symbol side q new \<and> r = Inr ())"
proof -
  have first: "yields (case attached of
                Some sl \<Rightarrow> if co_exchange_order_id sl \<noteq> []
                           then io_bind (io_attempt (binance_cancel_conditional_order x symbol (co_exchange_order_id sl))) (\<lambda>_. io_return ())
                           else io_return ()
              | None \<Rightarrow> io_return ()) (\<lambda>r new. r = Inr ())"
  proof -
    have "sends (\<lambda>_. True) (binance_cancel_conditional_order x symbol oid)" for oid
      unfolding binance_cancel_conditional_order_def delete_algo_def by (intro send_rules) simp_all
    then have "yields (io_attempt (binance_cancel_conditional_order x symbol oid)) (\<lambda>r new. \<exists>v. r = Inr v)" for oid
      unfolding sends_def by (rule yields_attempt) simp
    then have "yields (io_bind (io_attempt (binance_cancel_conditional_order x symbol oid)) (\<lambda>_. io_return ())) (\<lambda>r new. r = Inr ())" for oid
      by (rule yields_bind [where \<psi> = "\<lambda>_ r new. r = Inr ()"]) (auto simp: yields_def io_return_def)
    then show ?thesis by (auto simp: yields_def io_return_def split: option.split)
  qed
  have close: "yields (io_attempt (binance_partial_close x symbol side q (coid @ ''-rb'') ''market'' None))
      (\<lambda>r new. close_attempted x symbol side q new \<and> (\<exists>v. r = Inr v))"
    by (rule yields_attempt [OF partial_close_attempts]) simp
  have "yields (io_bind (io_attempt (binance_partial_close x symbol side q (coid @ ''-rb'') ''market'' None)) (\<lambda>_. io_return ()))
      (\<lambda>r new. close_attempted x symbol side q new \<and> r = Inr ())"
    by (rule yields_bind [OF close, where \<psi> = "\<lambda>_ r new. r = Inr () \<and> new = []"]) (auto simp: yields_def io_return_def)
  then show ?thesis
    unfolding rollback_entry_def
    by (rule yields_bind [OF first]) (auto intro: close_attempted_append)
qed

text \<open>The protection of a filled entry, and its roll back.\<close>

definition entry_settled :: "exchange \<Rightarrow> string \<Rightarrow> order_side \<Rightarrow> real \<Rightarrow> adapter_error + entry_order \<Rightarrow> exchange_log \<Rightarrow> bool" where
  "entry_settled x symbol closing filled r new =
     (case r of
        Inl err \<Rightarrow> close_attempted x symbol closing filled new
      | Inr e \<Rightarrow> eo_attached_sl e \<noteq> None \<and> list_ex (binance_attests x) new)"

lemma failed_protection:
  "yields (io_bind (rollback_entry x symbol closing filled attached coid) (\<lambda>_. io_fail err)) (entry_settled x symbol closing filled)"
  by (rule yields_bind [OF rollback_attempts, where \<psi> = "\<lambda>_ r new. r = Inl err \<and> new = []"])
    (auto simp: yields_def io_fail_def entry_settled_def)

lemma entry_settled_later:
  "entry_settled x symbol closing filled r n2 \<Longrightarrow> entry_settled x symbol closing filled r (n1 @ n2)"
  by (auto simp: entry_settled_def close_attempted_append split: sum.splits)

definition settled_with ::
    "exchange \<Rightarrow> string \<Rightarrow> order_side \<Rightarrow> real \<Rightarrow> conditional_order option \<Rightarrow> adapter_error + entry_order \<Rightarrow> exchange_log \<Rightarrow> bool" where
  "settled_with x symbol closing filled asl r new =
     (case r of Inl err \<Rightarrow> close_attempted x symbol closing filled new | Inr e \<Rightarrow> eo_attached_sl e = asl)"

lemma take_profit_settles:
  "yields (io_bind (io_attempt (case tp of
       None \<Rightarrow> io_return None
     | Some p \<Rightarrow> io_bind (binance_place_take_profit x symbol closing filled p j True) (\<lambda>o'. io_return (Some o')))) (\<lambda>rt. case rt of
       Inl err \<Rightarrow> io_bind (rollback_entry x symbol closing filled asl coid) (\<lambda>_. io_fail err)
     | Inr atp \<Rightarrow> io_return (e\<lparr>eo_attached_sl := asl, eo_attached_tp := atp\<rparr>))) (settled_with x symbol closing filled asl)"
proof -
  have tp: "yields (io_attempt (case tp of None \<Rightarrow> io_return None
      | Some p \<Rightarrow> io_bind (binance_place_take_profit x symbol closing filled p j True) (\<lambda>o'. io_return (Some o')))) (\<lambda>r new. \<exists>v. r = Inr v)"
  proof -
    have "sends (\<lambda>_. True) (case tp of None \<Rightarrow> io_return None
      | Some p \<Rightarrow> io_bind (binance_place_take_profit x symbol closing filled p j True) (\<lambda>o'. io_return (Some o')))"
      unfolding binance_place_take_profit_def by (intro send_rules) simp_all
    then show ?thesis unfolding sends_def by (rule yields_attempt) simp
  qed
  have "yields (io_bind (rollback_entry x symbol closing filled asl coid) (\<lambda>_. io_fail err)) (settled_with x symbol closing filled asl)" for err
    by (rule yields_bind [OF rollback_attempts, where \<psi> = "\<lambda>_ r new. r = Inl err \<and> new = []"])
      (auto simp: yields_def io_fail_def settled_with_def)
  then have "yields (case rt of
       Inl err \<Rightarrow> io_bind (rollback_entry x symbol closing filled asl coid) (\<lambda>_. io_fail err)
     | Inr atp \<Rightarrow> io_return (e\<lparr>eo_attached_sl := asl, eo_attached_tp := atp\<rparr>)) (settled_with x symbol closing filled asl)"
    for rt :: "adapter_error + conditional_order option"
    by (cases rt) (auto simp: yields_def io_return_def settled_with_def)
  with tp show ?thesis
    by (rule yields_bind) (auto simp: settled_with_def close_attempted_append split: sum.splits)
qed

lemma protection_settles:
  "yields (io_bind (io_attempt (io_bind (binance_place_stop_loss x symbol closing filled p i True False) (\<lambda>o'. io_return (Some o')))) (\<lambda>rs. case rs of
       Inl err \<Rightarrow> io_bind (rollback_entry x symbol closing filled None coid) (\<lambda>_. io_fail err)
     | Inr asl \<Rightarrow>
         io_bind (io_attempt (case tp of
             None \<Rightarrow> io_return None
           | Some p \<Rightarrow> io_bind (binance_place_take_profit x symbol closing filled p j True) (\<lambda>o'. io_return (Some o')))) (\<lambda>rt. case rt of
           Inl err \<Rightarrow> io_bind (rollback_entry x symbol closing filled asl coid) (\<lambda>_. io_fail err)
         | Inr atp \<Rightarrow> io_return (e\<lparr>eo_attached_sl := asl, eo_attached_tp := atp\<rparr>))))
     (entry_settled x symbol closing filled)"
proof -
  let ?placed = "\<lambda>(r :: adapter_error + (adapter_error + conditional_order option)) new.
    \<exists>v. r = Inr v \<and> (case v of Inl e \<Rightarrow> True | Inr asl \<Rightarrow> asl \<noteq> None \<and> list_ex (binance_attests x) new)"
  have sl: "yields (io_attempt (io_bind (binance_place_stop_loss x symbol closing filled p i True False) (\<lambda>o'. io_return (Some o')))) ?placed"
  proof (rule yields_attempt)
    show "yields (io_bind (binance_place_stop_loss x symbol closing filled p i True False) (\<lambda>o'. io_return (Some o')))
      (\<lambda>r new. case r of Inl e \<Rightarrow> True | Inr asl \<Rightarrow> asl \<noteq> None \<and> list_ex (binance_attests x) new)"
      by (rule yields_bind [OF place_stop_informs, where \<psi> = "\<lambda>o' r new. r = Inr (Some o') \<and> new = []"])
        (auto simp: yields_def io_return_def informs_def)
  qed simp
  let ?after = "\<lambda>rs r new. case rs of Inl err \<Rightarrow> entry_settled x symbol closing filled r new
    | Inr asl \<Rightarrow> settled_with x symbol closing filled asl r new"
  show ?thesis
  proof (rule yields_bind [OF sl, where \<psi> = ?after])
    fix rs :: "adapter_error + conditional_order option"
    show "yields (case rs of
       Inl err \<Rightarrow> io_bind (rollback_entry x symbol closing filled None coid) (\<lambda>_. io_fail err)
     | Inr asl \<Rightarrow>
         io_bind (io_attempt (case tp of
             None \<Rightarrow> io_return None
           | Some p \<Rightarrow> io_bind (binance_place_take_profit x symbol closing filled p j True) (\<lambda>o'. io_return (Some o')))) (\<lambda>rt. case rt of
           Inl err \<Rightarrow> io_bind (rollback_entry x symbol closing filled asl coid) (\<lambda>_. io_fail err)
         | Inr atp \<Rightarrow> io_return (e\<lparr>eo_attached_sl := asl, eo_attached_tp := atp\<rparr>))) (?after rs)"
      using failed_protection take_profit_settles by (cases rs) simp_all
  qed (auto simp: entry_settled_def settled_with_def close_attempted_append split: sum.splits)
qed

lemma dict_answer_yields:
  "yields (library_dict x c) (\<lambda>r new. \<exists>a. new = [(c, a)]
     \<and> (case r of Inr d \<Rightarrow> \<exists>st. a = Answer st (VDict d) | Inl e \<Rightarrow> \<forall>st d. a \<noteq> Answer st (VDict d)))"
  by (intro yieldsI) (auto simp: library_dict_def io_bind_def ask_def io_return_def io_fail_def split: answer.splits pyval.splits)

lemma protection_is_no_entry:
  "sends (\<lambda>c. \<not> is_entry_call c) (binance_place_stop_loss x symbol closing filled p i ro close)"
  "sends (\<lambda>c. \<not> is_entry_call c) (binance_place_take_profit x symbol closing filled p i ro)"
  "sends (\<lambda>c. \<not> is_entry_call c) (rollback_entry x symbol closing filled asl coid)"
proof -
  show "sends (\<lambda>c. \<not> is_entry_call c) (binance_place_stop_loss x symbol closing filled p i ro close)"
    unfolding binance_place_stop_loss_def
    by (intro send_rules; (clarsimp split: prod.split)?; (intro send_rules)?) (simp_all add: is_entry_call_def time_request_def)
  show "sends (\<lambda>c. \<not> is_entry_call c) (binance_place_take_profit x symbol closing filled p i ro)"
    unfolding binance_place_take_profit_def by (intro send_rules) (simp_all add: is_entry_call_def time_request_def)
  show "sends (\<lambda>c. \<not> is_entry_call c) (rollback_entry x symbol closing filled asl coid)"
    unfolding rollback_entry_def binance_cancel_conditional_order_def delete_algo_def binance_partial_close_def
    by (intro send_rules) (simp_all add: is_entry_call_def time_request_def)
qed

section \<open>A stop of the whole position, refused\<close>

definition too_close :: pyval where
  "too_close = VDict [(''code'', VInt (- 2021)), (''msg'', VStr ''Order would immediately trigger.'')]"

lemma too_close_facts:
  "\<not> binance_timestamp_error x too_close" "\<not> is_duplicate_client_id_error x too_close"
  "\<not> is_close_position_conflict_error x too_close" "error_code too_close = Some (- 2021)"
  by (simp_all add: too_close_def binance_timestamp_error_def is_duplicate_client_id_error_def is_close_position_conflict_error_def
      error_code_def error_message_def int_of_text_def py_or_def py_lower_def lower_char_def parse_int_def show_int_def show_nat.simps
      py_strip_def is_space_def all_digits_def is_digit_def digit_val_def)

lemma known_stops_append:
  "known_stops attests removes n (es @ es') = known_stops attests removes (known_stops attests removes n es) es'"
  by (induction es arbitrary: n) auto

lemma known_stops_neutral:
  "list_all (\<lambda>e. \<not> attests e \<and> \<not> removes e) es \<Longrightarrow> known_stops attests removes n es = n"
  by (induction es) auto

definition cancel_call :: "string \<Rightarrow> string \<Rightarrow> exchange_call" where
  "cancel_call symbol oid = Http ''DELETE'' algo_path [(''symbol'', VStr (exchange_symbol symbol)), (''algoId'', VStr oid)]"

definition trigger_too_close :: "exchange \<Rightarrow> string \<Rightarrow> string \<Rightarrow> bool" where
  "trigger_too_close x symbol existing \<longleftrightarrow>
     (\<forall>l. binance_accepted x (cancel_call symbol existing, xc_answer x l (cancel_call symbol existing)))
     \<and> (\<forall>l ps. xc_answer x l (Http ''POST'' algo_path ps) = Answer 400 too_close)"

lemma cancel_granted:
  assumes "trigger_too_close x symbol existing"
  shows "cancel_existing_sl x symbol existing l
    = (Inr True, l @ [(cancel_call symbol existing, xc_answer x l (cancel_call symbol existing))])"
proof -
  have "binance_accepted x (cancel_call symbol existing, xc_answer x l (cancel_call symbol existing))"
    using assms by (simp add: trigger_too_close_def)
  then obtain st p where a: "xc_answer x l (cancel_call symbol existing) = Answer st p" "\<not> 400 \<le> st" "\<not> binance_error_payload x p"
    by (auto simp: binance_accepted_def split: answer.splits)
  then show ?thesis
    by (simp add: cancel_existing_sl_def binance_cancel_conditional_order_def delete_algo_def binance_request_def Let_def
      io_bind_def io_catch_def ask_def io_return_def io_fail_def binance_answer_def cancel_call_def)
qed

lemma placement_too_close:
  assumes "trigger_too_close x symbol existing" and "xc_price x symbol trigger = Some t"
  shows "\<exists>ps. binance_place_stop_loss x symbol side quantity trigger coid ro True l
    = (Inl (ApiError 400 too_close), l @ [(Http ''POST'' algo_path ps, Answer 400 too_close)])"
  using assms
  by (simp add: trigger_too_close_def binance_place_stop_loss_def rounded_price_def binance_request_def Let_def
      io_bind_def io_catch_def ask_def io_return_def io_fail_def binance_answer_def too_close_facts)

lemma attempts_too_close:
  assumes "trigger_too_close x symbol existing" and "xc_price x symbol trigger = Some t"
  shows "\<exists>ps. place_attempts x \<lparr>sr_symbol = symbol, sr_existing = existing, sr_trigger = trigger, sr_quantity = quantity,
        sr_client_order_id = coid, sr_close = True, sr_side = side\<rparr> (n # ns) resolved last_error l
    = (Inl (WouldImmediatelyTrigger (Some (- 2021)) (Some trigger)), l @ [(Http ''POST'' algo_path ps, Answer 400 too_close)])"
  using placement_too_close [OF assms, of side quantity "attempt_client_id coid n" False l]
  by (auto simp: io_bind_def io_attempt_def io_return_def io_fail_def too_close_facts classify_error_def Let_def)

section \<open>A ladder level moved on Bybit\<close>

text \<open>The endpoint that sets stops and take-profits of a position answers with an empty result: no order id.\<close>

definition accepted_empty :: pyval where
  "accepted_empty = VDict [(''retCode'', VInt 0), (''retMsg'', VStr ''OK''), (''result'', VDict [])]"

definition trading_stop_accepted :: "exchange \<Rightarrow> bool" where
  "trading_stop_accepted x \<longleftrightarrow> (\<forall>l ps. xc_answer x l (Http ''POST'' ''/v5/position/trading-stop'' ps) = Answer 200 accepted_empty)"

text \<open>The open orders can be listed, and none of them has this text as its id.\<close>

definition unlisted :: "exchange \<Rightarrow> string \<Rightarrow> bool" where
  "unlisted x oid \<longleftrightarrow> (\<forall>l ps. case xc_answer x l (Http ''GET'' ''/v5/order/realtime'' ps) of
      NoAnswer \<Rightarrow> False
    | Answer st p \<Rightarrow> list_all (\<lambda>item. str_of x item ''orderId'' \<noteq> oid) (mappings (result_list p)))"

lemma accepted_empty_facts: "\<not> bybit_error_payload x accepted_empty"
  by (simp add: accepted_empty_def bybit_error_payload_def int_of_text_def parse_int_def show_int_def show_nat.simps
      all_digits_def is_digit_def digit_val_def py_strip_def is_space_def)

lemma tpsl_mode_unlisted:
  "list_all (\<lambda>item. str_of x item ''orderId'' \<noteq> oid) items \<Longrightarrow> tpsl_mode_in x oid items = ''full''"
  by (induction items) auto

lemma trading_stop_run:
  assumes "trading_stop_accepted x"
  shows "\<exists>ps. trading_stop x symbol extra l = (Inr accepted_empty, l @ [(Http ''POST'' ''/v5/position/trading-stop'' ps, Answer 200 accepted_empty)])
    \<and> ps = filter (\<lambda>(k, v). v \<noteq> VNone) ([(''category'', VStr ''linear''), (''symbol'', VStr (exchange_symbol symbol)), (''positionIdx'', VInt 0)] @ extra)"
  using assms by (simp add: trading_stop_def bybit_request_def io_bind_def ask_def io_return_def trading_stop_accepted_def accepted_empty_facts)

lemma placed_level_id:
  assumes "trading_stop_accepted x" and "fst (bybit_place_take_profit x symbol quantity trigger coid limit l) = Inr o'"
  shows "co_exchange_order_id o' = coid"
proof -
  have "bybit_conditional x accepted_empty ot t q coid coid = o'' \<Longrightarrow> co_exchange_order_id o'' = coid" for ot t q o''
    by (auto simp: bybit_conditional_def accepted_empty_def mapping_or_empty_def Let_def)
  moreover obtain t q where "bybit_conditional x accepted_empty ''take_profit'' t q coid coid = o'"
    using assms(2) trading_stop_run [OF assms(1), of symbol]
    by (fastforce simp: bybit_place_take_profit_def io_bind_def io_return_def io_fail_def rounded_price_def rounded_amount_def
        optional_price_def numeric_def split: option.splits prod.splits sum.splits)
  ultimately show ?thesis by blast
qed

lemma unlisted_mode:
  assumes "unlisted x oid" and "position_tpsl_order_type oid = None"
  shows "\<exists>ps a. resolve_tpsl_mode x symbol oid l = (Inr ''full'', l @ [(Http ''GET'' ''/v5/order/realtime'' ps, a)])"
proof -
  let ?c = "Http ''GET'' ''/v5/order/realtime'' [(''category'', VStr ''linear''), (''symbol'', VStr (exchange_symbol symbol)),
    (''orderId'', VStr oid), (''openOnly'', VInt 1)]"
  from assms(1) obtain st p where "xc_answer x l ?c = Answer st p" "list_all (\<lambda>item. str_of x item ''orderId'' \<noteq> oid) (mappings (result_list p))"
    unfolding unlisted_def by (cases "xc_answer x l ?c") (fastforce split: answer.splits)+
  then show ?thesis
    using assms(2) by (simp add: resolve_tpsl_mode_def bybit_request_def io_bind_def io_catch_def ask_def io_return_def io_fail_def tpsl_mode_unlisted)
qed

section \<open>Properties\<close>

text \<open>C14: The emergency close on the exchange. When the queue executes an emergency close of a position of live
  size \<open>z\<close>, either adapter sends at most one order, a reduce-only market order on the side of the
  task for at most \<open>z\<close>: it can end the position but not turn it over.\<close>

theorem emergency_order_only_reduces:
  assumes "emergency_market_close fc live params = Inr (Some call)" and "live_size live = Some z"
    and "require_side params ''side'' = Inr side" and "rounds_down x" and "run \<in> {binance_run x, bybit_run x}"
  shows "\<exists>new. snd (run call l) = l @ new \<and> length new \<le> 1 \<and> list_all (reduces side z \<circ> fst) new"
  using assms(5) bybit_closer.emergency_reduces [OF assms(1-4)] binance_closer.emergency_reduces [OF assms(1-4)] by auto


text \<open>C6: An entry with a stop on Binance. When the call succeeds, either nothing was filled, or a stop order for
  the filled quantity was accepted and is returned. When it fails after the exchange reported a
  filled entry, the last thing it did was to send a reduce-only market order on the other side for that
  quantity (unless the quantity cannot be rounded to the lot size).\<close>

theorem binance_entry_protected_or_rolled_back:
  "case binance_place_entry_order x symbol side quantity coid tp (Some sl) sl_coid tp_coid l of (r, l') \<Rightarrow>
    \<exists>new. l' = l @ new
      \<and> (case r of
           Inr e \<Rightarrow> eo_filled_quantity e \<le> 0 \<or> eo_attached_sl e \<noteq> None \<and> list_ex (binance_attests x) new
         | Inl err \<Rightarrow>
             list_all (\<lambda>e. case entry_filled quantity e of
                 None \<Rightarrow> True | Some q \<Rightarrow> q \<le> 0 \<or> close_attempted x symbol (protective_side side) q new) new)"
proof -
  let ?closing = "protective_side side"
  let ?e = "\<lambda>order. entry_order_of x (binance_status x) ''newClientOrderId'' symbol side quantity coid order"
  let ?filled = "\<lambda>order. to_float_or quantity (get_none order ''filled'')"
  let ?ok = "\<lambda>r new. case r of
           Inr e \<Rightarrow> eo_filled_quantity e \<le> 0 \<or> eo_attached_sl e \<noteq> None \<and> list_ex (binance_attests x) new
         | Inl err \<Rightarrow>
             list_all (\<lambda>e. case entry_filled quantity e of
                 None \<Rightarrow> True | Some q \<Rightarrow> q \<le> 0 \<or> close_attempted x symbol ?closing q new) new"
  let ?after = "\<lambda>order (r :: adapter_error + entry_order) new. list_all ((\<lambda>c. \<not> is_entry_call c) \<circ> fst) new
    \<and> (?filled order \<le> 0 \<and> (\<exists>e. r = Inr e \<and> eo_filled_quantity e \<le> 0) \<or> entry_settled x symbol ?closing (?filled order) r new)"
  have filled: "eo_filled_quantity (?e order) = ?filled order" for order by (simp add: entry_order_of_def)
  have quiet: "entry_filled quantity (c, a) = None" if "\<not> is_entry_call c" for c a
    using that by (simp add: entry_filled_def split: answer.split pyval.split)
  have "yields (binance_place_entry_order x symbol side quantity coid tp (Some sl) sl_coid tp_coid) ?ok"
    unfolding binance_place_entry_order_def
  proof (rule yields_pure_bind, goal_cases)
    case 1
    show ?case by (intro send_rules)
  next
    case (2 amount)
    show ?case
    proof (rule yields_pure_bind, goal_cases)
      case 1
      show ?case by (intro send_rules)
    next
      case (2 q)
      show ?case
    proof (rule yields_bind [OF dict_answer_yields, where \<psi> = ?after], goal_cases)
      case (1 order)
      show ?case
      proof (cases "?filled order \<le> 0")
        case True
        then show ?thesis by (simp add: Let_def filled yields_def io_return_def)
      next
        case False
        have "sends (\<lambda>c. \<not> is_entry_call c) (io_bind (io_attempt (io_bind (binance_place_stop_loss x symbol ?closing (?filled order) sl (own_or sl_coid (coid @ ''-sl'')) True False) (\<lambda>o'. io_return (Some o')))) (\<lambda>rs. case rs of
            Inl err \<Rightarrow> io_bind (rollback_entry x symbol ?closing (?filled order) None coid) (\<lambda>_. io_fail err)
          | Inr asl \<Rightarrow>
              io_bind (io_attempt (case tp of
                  None \<Rightarrow> io_return None
                | Some p \<Rightarrow> io_bind (binance_place_take_profit x symbol ?closing (?filled order) p (own_or tp_coid (coid @ ''-tp'')) True)
                              (\<lambda>o'. io_return (Some o')))) (\<lambda>rt. case rt of
                Inl err \<Rightarrow> io_bind (rollback_entry x symbol ?closing (?filled order) asl coid) (\<lambda>_. io_fail err)
              | Inr atp \<Rightarrow> io_return ((?e order)\<lparr>eo_attached_sl := asl, eo_attached_tp := atp\<rparr>))))"
          by (intro send_rules protection_is_no_entry)
        from yields_both [OF this [unfolded sends_def] protection_settles] False show ?thesis
          unfolding Let_def filled by (auto elim!: yields_mono)
      qed
    next
      case (2 err new)
      then show ?case by (auto simp: entry_filled_def split: answer.splits pyval.splits)
    next
      case (3 order n1 r n2)
      then obtain a st where n1: "n1 = [(CreateOrder symbol ''market'' side q None
           [(''reduceOnly'', VBool False), (''newClientOrderId'', VStr coid)], Answer st (VDict order))]" by auto
      then have first: "entry_filled quantity (hd n1) = Some (?filled order)" by (simp add: entry_filled_def is_entry_call_def)
      from 3 have later: "list_all (\<lambda>e. entry_filled quantity e = None) n2" by (auto simp: list_all_iff quiet)
      show ?case
      proof (cases r)
        case (Inl err)
        with 3 have "close_attempted x symbol ?closing (?filled order) (n1 @ n2)"
          by (auto simp: entry_settled_def intro: close_attempted_append)
        with Inl first later n1 show ?thesis by (auto simp: list_all_iff split: option.split)
      next
        case (Inr e)
        with 3 show ?thesis by (auto simp: entry_settled_def)
      qed
    qed
    next
      case (3 e)
      show ?case by simp
    qed
  next
    case (3 e)
    show ?case by simp
  qed
  then show ?thesis unfolding yields_def by (auto split: prod.split dest!: spec [of _ l])
qed

text \<open>C40: A stop of the whole position moved too close to the price on Binance. When the old stop can be cancelled
  and every new one is refused as triggering at once, the operation ends with the error that the queue
  only records: the position is left without any stop, and the queue adds no task that would close it.\<close>

theorem rejected_close_mode_move_strips_stop:
  assumes "has_real_existing existing" and "xc_price x symbol trigger = Some t" and "trigger_too_close x symbol existing"
  shows "case binance_replace_sl x symbol existing trigger quantity coid True l of (r, l') \<Rightarrow>
      r = Inl (WouldImmediatelyTrigger (Some (- 2021)) (Some trigger))
    \<and> known_stops (binance_attests x) (binance_removes x) 1 (drop (length l) l') = 0
    \<and> map_option qs_heap (q_finish rp now q (queue_outcome r)) \<in> {None, Some (qs_heap q)}"
proof -
  obtain r0 l0 where side: "resolve_stop_loss_side x symbol l = (r0, l0)" by fastforce
  have "yields (resolve_stop_loss_side x symbol) (\<lambda>r new. (\<exists>v. r = Inr v) \<and> list_all (\<lambda>e. fst e = FetchPositions symbol) new)"
  proof -
    have "sends (\<lambda>c. c = FetchPositions symbol) (binance_get_position x symbol)" by (intro send_rules) simp
    then have "yields (io_attempt (binance_get_position x symbol)) (\<lambda>r new. (\<exists>v. r = Inr v) \<and> list_all (\<lambda>e. fst e = FetchPositions symbol) new)"
      unfolding sends_def by (rule yields_attempt) (auto simp: comp_def)
    then show ?thesis
      unfolding resolve_stop_loss_side_def
      by (rule yields_bind [where \<psi> = "\<lambda>_ r new. (\<exists>v. r = Inr v) \<and> new = []"]) (auto simp: yields_def io_return_def)
  qed
  from yieldsE [OF this side] obtain n0 s where n0: "l0 = l @ n0" "r0 = Inr s" "list_all (\<lambda>e. fst e = FetchPositions symbol) n0" by blast
  let ?c = "cancel_call symbol existing"
  from attempts_too_close [OF assms(3,2), of quantity coid s 0 "[1, 2, 3]" True None "l0 @ [(?c, xc_answer x l0 ?c)]"]
  obtain ps where run: "binance_replace_sl x symbol existing trigger quantity coid True l
      = (Inl (WouldImmediatelyTrigger (Some (- 2021)) (Some trigger)),
         l @ n0 @ [(?c, xc_answer x l0 ?c), (Http ''POST'' algo_path ps, Answer 400 too_close)])"
    using side n0 assms(1)
    by (auto simp: binance_replace_sl_def io_bind_def cancel_granted [OF assms(3)] simp del: place_attempts.simps)
  have "binance_removes x (?c, xc_answer x l0 ?c)" "\<not> binance_attests x (?c, xc_answer x l0 ?c)"
    using assms(3) by (auto simp: trigger_too_close_def binance_removes_def binance_attests_def cancel_call_def)
  moreover have "\<not> binance_attests x (Http ''POST'' algo_path ps, Answer 400 too_close)" "\<not> binance_removes x (Http ''POST'' algo_path ps, Answer 400 too_close)"
    by (simp_all add: binance_attests_def binance_removes_def binance_accepted_def)
  moreover have "list_all (\<lambda>e. \<not> binance_attests x e \<and> \<not> binance_removes x e) n0"
    using n0(3) by (auto simp: list_all_iff binance_attests_def binance_removes_def)
  ultimately have "known_stops (binance_attests x) (binance_removes x) 1 (n0 @ [(?c, xc_answer x l0 ?c), (Http ''POST'' algo_path ps, Answer 400 too_close)]) = 0"
    by (simp add: known_stops_append known_stops_neutral)
  moreover have "map_option qs_heap (q_finish rp now q PlacementWouldImmediatelyTrigger) \<in> {None, Some (qs_heap q)}"
    by (auto simp: q_finish_def Let_def clear_inflight_def split: option.split loop_phase.split)
  ultimately show ?thesis by (simp add: run)
qed

text \<open>A level of a take-profit ladder on Bybit. Because the exchange answers without an order id, the level is
  recorded under the client's own id; moving it later finds no order of that id, takes the protection for
  one of the whole position, cancels nothing, and sets a take-profit of the whole position at the price
  of the level.\<close>

theorem bybit_level_move_takes_whole_position:
  assumes "trading_stop_accepted x" and "unlisted x coid" and "position_tpsl_order_type coid = None"
    and "fst (bybit_place_take_profit x symbol quantity trigger coid limit l) = Inr o'" and "xc_price x symbol trigger' = Some t"
  shows "\<exists>new. snd (bybit_replace_tp x symbol (co_exchange_order_id o') trigger' quantity' coid' limit' l') = l' @ new
    \<and> length new = 2 \<and> list_all (\<lambda>e. \<not> bybit_removal (fst e)) new
    \<and> (case fst (last new) of
         Http m path ps \<Rightarrow> path = ''/v5/position/trading-stop'' \<and> get_none ps ''tpslMode'' = VStr ''Full''
           \<and> get_none ps ''takeProfit'' = VStr t
       | _ \<Rightarrow> False)"
proof -
  have i: "co_exchange_order_id o' = coid" using placed_level_id [OF assms(1,4)] .
  from unlisted_mode [OF assms(2,3), of symbol l'] obtain ps a where mode: "resolve_tpsl_mode x symbol coid l'
      = (Inr ''full'', l' @ [(Http ''GET'' ''/v5/order/realtime'' ps, a)])" by blast
  from trading_stop_run [OF assms(1), of symbol "[(''tpslMode'', VStr ''Full''), (''takeProfit'', VStr t),
         (''tpTriggerBy'', VStr ''MarkPrice''), (''tpOrderType'', VStr ''Market'')]" "l' @ [(Http ''GET'' ''/v5/order/realtime'' ps, a)]"]
  show ?thesis
    by (auto simp: i bybit_replace_tp_def io_bind_def mode rounded_price_def assms(5) io_return_def io_fail_def numeric_def bybit_removal_def
        split: option.split)
qed

text \<open>The event of a finished take-profit order on Binance. The adapter gives it a status of its own so that it is
  not taken for a second fill of the level, but the executed quantity it carries makes it one all the
  same.\<close>

theorem finished_algo_event_is_a_fill:
  assumes "algo_order_payload payload = Some o'" and "binance_algo_event x payload = Some e"
    and "get_none o' ''X'' = VStr ''FINISHED''" and "0 < to_float_or 0 (get_none o' ''aq'')"
    and "get_none o' ''o'' = VStr ''TAKE_PROFIT_MARKET''"
  shows "order_status rp e = ''finished'' \<and> is_fill_event rp e \<and> is_tp_trigger_event rp p e"
proof -
  have d: "get_default o' k (VStr []) = v" if "get_none o' k = v" "v \<noteq> VNone" for k v
    using that by (auto simp: get_default_def split: option.splits)
  have x: "get_default o' ''X'' (VStr []) = VStr ''FINISHED''" "get_default o' ''o'' (VStr []) = VStr ''TAKE_PROFIT_MARKET''"
    using assms(3,5) d by auto
  from assms(1,2) have e: "get_default e ''status'' (VStr []) = VStr (binance_status x (VStr ''FINISHED''))"
    "get_default e ''order_type'' (VStr []) = VStr (binance_order_type x (VStr ''TAKE_PROFIT_MARKET''))"
    "get_none e ''filled_quantity'' = VFloat (to_float_or 0 (get_none o' ''aq''))"
    by (auto simp: binance_algo_event_def x Let_def float_field_def)
  have t: "binance_status x (VStr ''FINISHED'') = ''finished''" "binance_order_type x (VStr ''TAKE_PROFIT_MARKET'') = ''take_profit''"
    by (simp_all add: binance_status_def status_name_def binance_order_type_def py_upper_def upper_char_def)
  have "order_status rp e = ''finished''" "order_type rp e = ''take_profit''"
    by (simp_all add: order_status_def order_type_def event_text_def e t py_simps)
  moreover have "is_fill_event rp e" using assms(4) by (simp add: is_fill_event_def coerce_float_def e)
  ultimately show ?thesis by (simp add: is_tp_trigger_event_def)
qed

text \<open>The fill of an entry on Bybit. When the entry order carries a take-profit price of its own, as the entries
  of this program do, and the exchange leaves the field for the stop type empty, its fill is announced as
  the fill of a take-profit order of whatever position is tracked.\<close>

theorem bybit_entry_fill_read_as_take_profit:
  assumes "get_none item ''stopOrderType'' = VStr []" and "0 < to_float_or 0 (get_none item ''takeProfit'')"
    and "get_none item ''orderStatus'' = VStr ''Filled''" and "get_none item ''reduceOnly'' = VBool False"
    and "get_none item ''closeOnTrigger'' = VBool False"
  shows "is_tp_trigger_event rp p (bybit_order_event x payload item) \<and> \<not> is_reduce_only_event (bybit_order_event x payload item)"
proof -
  have d: "get_default item k w = v" if "get_none item k = v" "v \<noteq> VNone" for k v w
    using that by (auto simp: get_default_def split: option.splits)
  have tp: "is_positive (to_optional_float (get_none item ''takeProfit''))"
    using assms(2) by (auto simp: is_positive_def to_float_or_def split: option.splits)
  have ot: "bybit_ws_order_type x item = ''take_profit''"
    using tp by (simp add: bybit_ws_order_type_def bybit_order_type_def str_of_def d [OF assms(1)] py_simps)
  have "py_upper ''Filled'' = ''FILLED''" by code_simp
  then have st: "bybit_status x (VStr ''Filled'') = ''triggered''"
    by (simp add: bybit_status_def status_name_def)
  have e: "get_default (bybit_order_event x payload item) ''status'' (VStr []) = VStr ''triggered''"
    "get_default (bybit_order_event x payload item) ''order_type'' (VStr []) = VStr ''take_profit''"
    "get_none (bybit_order_event x payload item) ''reduce_only'' = VBool False"
    "get_none (bybit_order_event x payload item) ''close_on_trigger'' = VBool False"
    "get_none (bybit_order_event x payload item) ''close_position'' = VNone"
    by (simp_all add: bybit_order_event_def Let_def ot st d [OF assms(3)] d [OF assms(4)] d [OF assms(5)] flag_field_def)
  have "is_fill_event rp (bybit_order_event x payload item)"
    by (simp add: is_fill_event_def order_status_def event_text_def e py_simps)
  moreover have "order_type rp (bybit_order_event x payload item) = ''take_profit''"
    by (simp add: order_type_def event_text_def e py_simps)
  ultimately show ?thesis by (simp add: is_tp_trigger_event_def is_reduce_only_event_def e py_or_def)
qed

end
