(* ===== verification/Adapter_Samples.thy ===== *)
theory Adapter_Samples
  imports Adapter_Orders
begin

text \<open>
  Concrete exchanges and messages on which the properties of the adapters are applied: one that grants
  everything, one that never answers, one that cancels a stop but refuses every new one.
\<close>

definition demo_exchange :: "(exchange_call \<Rightarrow> answer) \<Rightarrow> exchange" where
  "demo_exchange f = \<lparr>xc_answer = (\<lambda>l. f), xc_amount = (\<lambda>s q. if 1 \<le> q then Some ''1'' else None),
     xc_price = (\<lambda>s p. Some ''95''), xc_repr = (\<lambda>_. [])\<rparr>"

definition granting :: exchange where
  "granting = demo_exchange (\<lambda>c. case c of
     Http m path ps \<Rightarrow> Answer 200 (if m = ''POST'' then accepted_empty else VDict []) | _ \<Rightarrow> NoAnswer)"

definition silent :: exchange where
  "silent = demo_exchange (\<lambda>c. NoAnswer)"

definition refusing :: exchange where
  "refusing = demo_exchange (\<lambda>c. case c of
     Http m path ps \<Rightarrow> if m = ''POST'' then Answer 400 too_close else Answer 200 (VDict []) | _ \<Rightarrow> NoAnswer)"

lemma demo_exchange_simps [simp]:
  "xc_answer (demo_exchange f) l = f" "xc_price (demo_exchange f) s p = Some ''95''"
  "xc_amount (demo_exchange f) s q = (if 1 \<le> q then Some ''1'' else None)"
  by (simp_all add: demo_exchange_def)

lemma demo_numbers: "parse_float ''95'' = Some 95" "parse_float ''1'' = Some 1"
  by (simp_all add: parse_float_def parse_ufloat_def parse_exponent_def scale10_def py_strip_def is_space_def is_digit_def
      digit_val_def Let_def)


lemma refused_placement_is_fatal_witness:
  "\<exists>msg. queue_outcome (fst (binance_run silent (PlaceStopLoss ''BTCUSDT'' SELL 1 95 ''c1'' True True) [])) = FatalError msg"
proof -
  have "case xc_answer silent l' c of NoAnswer \<Rightarrow> True | Answer st p \<Rightarrow> 400 \<le> st \<and> \<not> binance_timestamp_error silent p" for c l'
    by (simp add: silent_def)
  from refused_placement_is_fatal [OF this, of "''BTCUSDT''" SELL 1 95 "''c1''" True True "[]"] show ?thesis by blast
qed

lemma emergency_order_only_reduces_witness:
  "\<exists>new. snd (binance_run granting (PartialClose ''BTC'' SELL 3 ''c1'' ''market'' None) []) = new
     \<and> length new \<le> 1 \<and> list_all (reduces SELL 3 \<circ> fst) new"
proof -
  have e: "emergency_market_close ''f'' (LiveSnapshot (-3) 100) sample_close_params
     = Inr (Some (PartialClose ''BTC'' SELL 3 ''c1'' ''market'' None))" by (simp add: close_simps)
  have "rounds_down granting" by (simp add: rounds_down_def granting_def demo_numbers)
  from emergency_order_only_reduces [OF e, of 3 SELL granting "binance_run granting" "[]"] this show ?thesis
    by (simp add: live_size_def require_side_def sample_close_params_def)
qed

lemma rejected_close_mode_move_strips_stop_witness:
  "fst (binance_replace_sl refusing ''BTCUSDT'' ''7'' 95 1 ''c1'' True []) = Inl (WouldImmediatelyTrigger (Some (- 2021)) (Some 95))
   \<and> known_stops (binance_attests refusing) (binance_removes refusing) 1
       (snd (binance_replace_sl refusing ''BTCUSDT'' ''7'' 95 1 ''c1'' True [])) = 0"
proof -
  have r: "has_real_existing ''7''" "xc_price refusing ''BTCUSDT'' 95 = Some ''95''" "trigger_too_close refusing ''BTCUSDT'' ''7''"
    by (simp_all add: has_real_existing_def refusing_def trigger_too_close_def cancel_call_def binance_accepted_def binance_error_payload_def)
  from rejected_close_mode_move_strips_stop [OF r, where quantity = 1 and coid = "''c1''" and l = "[]" and rp = "\<lambda>_. []" and now = 0 and q = sample_running] show ?thesis by (auto split: prod.splits)
qed

lemma bybit_level_move_takes_whole_position_witness:
  "\<exists>o' new. fst (bybit_place_take_profit granting ''BTCUSDT'' 1 95 ''lvl-1'' None []) = Inr o' \<and> co_exchange_order_id o' = ''lvl-1''
     \<and> snd (bybit_replace_tp granting ''BTCUSDT'' ''lvl-1'' 96 1 ''lvl-1b'' None []) = new \<and> length new = 2"
proof -
  have t: "trading_stop_accepted granting" by (simp add: trading_stop_accepted_def granting_def)
  have u: "unlisted granting ''lvl-1''"
    by (simp add: unlisted_def granting_def result_list_def mapping_or_empty_def list_or_empty_def mappings_def List.map_filter_def)
  have p: "position_tpsl_order_type ''lvl-1'' = None" by (simp add: position_tpsl_order_type_def position_tpsl_prefix_def)
  have "\<exists>l'. trading_stop granting ''BTCUSDT'' ex l = (Inr accepted_empty, l')" for ex l
    using trading_stop_run [OF t] by blast
  then obtain f where "\<And>ex l. trading_stop granting ''BTCUSDT'' ex l = (Inr accepted_empty, f ex l)" by metis
  then obtain o' where o': "fst (bybit_place_take_profit granting ''BTCUSDT'' 1 95 ''lvl-1'' None []) = Inr o'"
    by (simp add: bybit_place_take_profit_def io_bind_def io_return_def rounded_price_def rounded_amount_def optional_price_def
        numeric_def granting_def demo_numbers)
  have "xc_price granting ''BTCUSDT'' 96 = Some ''95''" by (simp add: granting_def)
  from bybit_level_move_takes_whole_position [OF t u p o' this, where quantity' = 1 and coid' = "''lvl-1b''" and limit' = None and l' = "[]"] placed_level_id [OF t o'] o' show ?thesis
    by auto
qed

definition finished_payload :: pydict where
  "finished_payload = [(''e'', VStr ''ALGO_UPDATE''), (''o'', VDict
     [(''X'', VStr ''FINISHED''), (''aq'', VFloat 1), (''o'', VStr ''TAKE_PROFIT_MARKET'')])]"

lemma finished_algo_event_is_a_fill_witness:
  "is_fill_event (\<lambda>_. []) (the (binance_algo_event granting finished_payload))"
  using finished_algo_event_is_a_fill [where payload = finished_payload and rp = "\<lambda>_. []" and x = granting]
  by (simp add: algo_order_payload_def finished_payload_def binance_algo_event_def Let_def to_float_or_def)

definition entry_item :: pydict where
  "entry_item = [(''orderId'', VStr ''55''), (''stopOrderType'', VStr []), (''takeProfit'', VStr ''95''), (''orderStatus'', VStr ''Filled''),
     (''reduceOnly'', VBool False), (''closeOnTrigger'', VBool False)]"

lemma bybit_entry_fill_read_as_take_profit_witness:
  "is_tp_trigger_event (\<lambda>_. []) default_context (bybit_order_event granting [] entry_item)"
  using bybit_entry_fill_read_as_take_profit [of entry_item "\<lambda>_. []" default_context granting "[]"]
  by (simp add: entry_item_def to_float_or_def demo_numbers)

end
