(* ===== verification/Ccxt.thy ===== *)
theory Ccxt
  imports Call_Log
begin

text \<open>
  \<^verbatim>\<open>app/services/execution/ccxt_adapter.py\<close>: the trading adapter over the client library ccxt. The library and
  the exchange behind it are the record \<open>ccxt_env\<close>: an answer to every call, which may depend on all calls
  before, and what the library offers. An operation is a program over the log of calls (theory Call_Log).
  Waiting between attempts, credentials and closing the client are left out.
\<close>

section \<open>Calls, answers, errors\<close>

datatype ccxt_call =
    CxMarkets
  | CxBalance
  | CxCreate string string order_side real "real option" pydict
  | CxCancel string "string option"
  | CxOpenOrders "string option" int
  | CxClosedOrders "string option" int
  | CxOrder string string
  | CxTrades "string option" "int option" int pydict
  | CxFunding string "int option" int pydict
  | CxTicker string
  | CxMarginMode string pydict
  | CxLeverage int string pydict
  | CxPositions string pydict
  | CxOhlcv string string "int option" int pydict

text \<open>The exceptions of the library, by the first clause of \<open>_map_ccxt_error\<close> that catches them.\<close>

datatype ccxt_class =
    AuthenticationError | PermissionDenied | BadSymbol | InsufficientFunds | RateLimitExceeded
  | RequestTimeout | NetworkError | ExchangeNotAvailable | ExchangeError | OtherClass

datatype library_answer = Returns pyval | Raises ccxt_class string

record service_error =
  sv_code :: string
  sv_message :: string
  sv_retryable :: bool

text \<open>\<open>Raised\<close>: an exception of another class, with its text.\<close>

datatype ccxt_failure = Service service_error | Raised string

type_synonym ccxt_log = "(ccxt_call \<times> library_answer) list"

type_synonym 'a ccxt = "(ccxt_call, library_answer, ccxt_failure, 'a) prog"

record ccxt_env =
  cx_answer :: "ccxt_log \<Rightarrow> ccxt_call \<Rightarrow> library_answer"
  cx_exchange :: string
  cx_demo :: bool
  cx_max_retries :: int
  cx_known :: "string \<Rightarrow> bool"
  cx_enable_demo :: "string \<Rightarrow> bool"
  cx_margin_mode :: bool
  cx_fetch_order :: bool
  cx_parse_time :: "string \<Rightarrow> int option"
  cx_repr :: "pyval \<Rightarrow> string"

definition service :: "string \<Rightarrow> string \<Rightarrow> ccxt_failure" where
  "service code message = Service \<lparr>sv_code = code, sv_message = message, sv_retryable = False\<rparr>"

fun map_ccxt_error :: "ccxt_class \<Rightarrow> string \<Rightarrow> service_error" where
  "map_ccxt_error k m =
     (case k of
        AuthenticationError \<Rightarrow> \<lparr>sv_code = ''authentication_failed'', sv_message = m, sv_retryable = False\<rparr>
      | PermissionDenied \<Rightarrow> \<lparr>sv_code = ''authentication_failed'', sv_message = m, sv_retryable = False\<rparr>
      | BadSymbol \<Rightarrow> \<lparr>sv_code = ''invalid_symbol'', sv_message = m, sv_retryable = False\<rparr>
      | InsufficientFunds \<Rightarrow> \<lparr>sv_code = ''insufficient_funds'', sv_message = m, sv_retryable = False\<rparr>
      | RateLimitExceeded \<Rightarrow> \<lparr>sv_code = ''rate_limited'', sv_message = m, sv_retryable = True\<rparr>
      | RequestTimeout \<Rightarrow> \<lparr>sv_code = ''temporary_unavailable'', sv_message = m, sv_retryable = True\<rparr>
      | NetworkError \<Rightarrow> \<lparr>sv_code = ''temporary_unavailable'', sv_message = m, sv_retryable = True\<rparr>
      | ExchangeNotAvailable \<Rightarrow> \<lparr>sv_code = ''temporary_unavailable'', sv_message = m, sv_retryable = True\<rparr>
      | ExchangeError \<Rightarrow> \<lparr>sv_code = ''exchange_error'', sv_message = m, sv_retryable = False\<rparr>
      | OtherClass \<Rightarrow> \<lparr>sv_code = ''unexpected_error'', sv_message = m, sv_retryable = False\<rparr>)"

text \<open>The attempts that are left.\<close>

fun retry_loop :: "ccxt_env \<Rightarrow> ccxt_call \<Rightarrow> nat \<Rightarrow> pyval ccxt" where
  "retry_loop x c 0 = io_fail (service ''unknown_error'' ''Unknown exchange error.'')"
| "retry_loop x c (Suc n) =
     io_bind (query (cx_answer x) c) (\<lambda>a. case a of
         Returns v \<Rightarrow> io_return v
       | Raises k m \<Rightarrow>
           if \<not> sv_retryable (map_ccxt_error k m) \<or> n = 0 then io_fail (Service (map_ccxt_error k m))
           else retry_loop x c n)"

definition retry_attempts :: "ccxt_env \<Rightarrow> nat" where
  "retry_attempts x = nat (max 1 (cx_max_retries x))"

definition call_with_retry :: "ccxt_env \<Rightarrow> ccxt_call \<Rightarrow> pyval ccxt" where
  "call_with_retry x c = retry_loop x c (retry_attempts x)"

text \<open>\<open>_configure_demo_mode\<close>; an exchange class is named like its id.\<close>

definition configure_demo_mode :: "ccxt_env \<Rightarrow> string \<Rightarrow> unit ccxt" where
  "configure_demo_mode x name =
     (if cx_enable_demo x name then io_return ()
      else if py_lower (py_strip name) \<in> {''binance'', ''binanceusdm'', ''bybit''}
      then io_fail (Raised ''CCXT exchange does not support demo trading.'')
      else io_return ())"

text \<open>\<open>async with self._client(...)\<close> around a body: the markets are loaded first; an exception that is not an
  \<open>ExchangeServiceError\<close> becomes one.\<close>

definition client :: "ccxt_env \<Rightarrow> string \<Rightarrow> 'a ccxt \<Rightarrow> 'a ccxt" where
  "client x name body =
     (if \<not> cx_known x name then io_fail (service ''unsupported_exchange'' ''Exchange is not supported.'')
      else io_bind (if cx_demo x then configure_demo_mode x name else io_return ()) (\<lambda>_.
        io_handle (io_bind (call_with_retry x CxMarkets) (\<lambda>_. body)) (\<lambda>e. case e of
          Service s \<Rightarrow> io_fail e
        | Raised m \<Rightarrow> io_fail (Service (map_ccxt_error OtherClass m)))))"

definition spot_client :: "ccxt_env \<Rightarrow> 'a ccxt \<Rightarrow> 'a ccxt" where
  "spot_client x = client x (cx_exchange x)"

section \<open>Conversions\<close>

text \<open>\<open>_to_float\<close>: a truth value is an integer; anything but numbers and text is the default.\<close>

fun ccxt_float :: "real \<Rightarrow> pyval \<Rightarrow> real" where
  "ccxt_float d (VBool b) = (if b then 1 else 0)"
| "ccxt_float d (VInt i) = of_int i"
| "ccxt_float d (VFloat r) = r"
| "ccxt_float d (VStr s) = (case parse_float s of None \<Rightarrow> d | Some r \<Rightarrow> r)"
| "ccxt_float d v = d"

definition optional_number :: "pydict \<Rightarrow> string \<Rightarrow> real option" where
  "optional_number d k = (if get_none d k = VNone then None else Some (ccxt_float 0 (get_none d k)))"

text \<open>\<open>_to_datetime(v if isinstance(v, int) else None)\<close>, in seconds.\<close>

fun datetime_of :: "pyval \<Rightarrow> real option" where
  "datetime_of (VInt i) = Some (of_int i / 1000)"
| "datetime_of (VBool b) = Some (if b then 1 / 1000 else 0)"
| "datetime_of v = None"

definition order_status_of :: "ccxt_env \<Rightarrow> pyval \<Rightarrow> string" where
  "order_status_of x v =
     (let raw = py_lower (py_str (cx_repr x) (py_or v (VStr []))) in
      if raw \<in> {''open'', ''closed'', ''canceled'', ''rejected'', ''expired''} then raw
      else if raw = ''cancelled'' then ''canceled'' else ''unknown'')"

definition given_text :: "string option \<Rightarrow> bool" where
  "given_text t \<longleftrightarrow> t \<noteq> None \<and> t \<noteq> Some []"

definition text_or :: "string option \<Rightarrow> string option \<Rightarrow> string option" where
  "text_or a b = (if given_text a then a else b)"

fun first_text :: "pydict \<Rightarrow> string list \<Rightarrow> string option" where
  "first_text d [] = None"
| "first_text d (k # ks) =
     (case get_none d k of
        VStr s \<Rightarrow> if s \<noteq> [] then Some s else first_text d ks
      | _ \<Rightarrow> first_text d ks)"

definition extract_client_order_id :: "pydict \<Rightarrow> string option" where
  "extract_client_order_id payload =
     (case first_text payload [''clientOrderId''] of
        Some s \<Rightarrow> Some s
      | None \<Rightarrow> (case get_none payload ''info'' of
                   VDict i \<Rightarrow> first_text i [''orderLinkId'', ''clientOrderId'', ''origClientOrderId'']
                 | _ \<Rightarrow> None))"

definition as_mapping :: "pyval \<Rightarrow> pydict ccxt" where
  "as_mapping v = (case v of VDict d \<Rightarrow> io_return d | _ \<Rightarrow> io_fail (Raised ''object has no attribute get''))"

text \<open>\<open>for row in rows\<close>: a mapping yields its keys, a text its characters.\<close>

definition iterate :: "pyval \<Rightarrow> pyval list ccxt" where
  "iterate v =
     (case v of
        VList vs \<Rightarrow> io_return vs
      | VDict d \<Rightarrow> io_return (map (\<lambda>(k, w). VStr k) d)
      | VStr s \<Rightarrow> io_return (map (\<lambda>c. VStr [c]) s)
      | _ \<Rightarrow> io_fail (Raised ''object is not iterable''))"

definition dicts_in :: "pyval list \<Rightarrow> pydict list" where
  "dicts_in vs = List.map_filter (\<lambda>v. case v of VDict d \<Rightarrow> Some d | _ \<Rightarrow> None) vs"

text \<open>One conversion for every row; the first that fails ends the comprehension.\<close>

fun convert_all :: "('a \<Rightarrow> 'b ccxt) \<Rightarrow> 'a list \<Rightarrow> 'b list ccxt" where
  "convert_all f [] = io_return []"
| "convert_all f (v # vs) = io_bind (f v) (\<lambda>w. io_bind (convert_all f vs) (\<lambda>ws. io_return (w # ws)))"

section \<open>Orders, trades, income\<close>

record placed_order =
  po_id :: string
  po_client_order_id :: "string option"
  po_symbol :: string
  po_side :: order_side
  po_type :: string
  po_status :: string
  po_amount :: real
  po_filled :: real
  po_remaining :: real
  po_price :: "real option"
  po_average :: "real option"
  po_cost :: "real option"
  po_timestamp :: "real option"
  po_raw :: pydict

record order_fallback =
  fb_symbol :: "string option"
  fb_side :: "order_side option"
  fb_type :: "string option"
  fb_amount :: "real option"
  fb_price :: "real option"

definition no_fallback :: order_fallback where
  "no_fallback = \<lparr>fb_symbol = None, fb_side = None, fb_type = None, fb_amount = None, fb_price = None\<rparr>"

definition side_of_text :: "string \<Rightarrow> order_side option" where
  "side_of_text s = (if s = ''buy'' then Some BUY else if s = ''sell'' then Some SELL else None)"

definition or_empty :: "string option \<Rightarrow> string" where
  "or_empty t = (case t of None \<Rightarrow> [] | Some s \<Rightarrow> s)"

text \<open>The schema of an order refuses a negative amount, filled or remaining quantity.\<close>

definition normalize_order :: "ccxt_env \<Rightarrow> order_fallback \<Rightarrow> pydict \<Rightarrow> placed_order ccxt" where
  "normalize_order x fb payload =
     (let rp = cx_repr x;
          side = py_lower (py_str rp (get_default payload ''side'' (VStr (case fb_side fb of None \<Rightarrow> [] | Some s \<Rightarrow> order_side_value s))));
          otype = py_lower (py_str rp (get_default payload ''type'' (VStr (or_empty (fb_type fb)))));
          amount = ccxt_float (case fb_amount fb of None \<Rightarrow> 0 | Some a \<Rightarrow> a) (get_none payload ''amount'');
          filled = ccxt_float 0 (get_none payload ''filled'');
          remaining = ccxt_float (max (amount - filled) 0) (get_none payload ''remaining'')
      in if amount < 0 \<or> filled < 0 \<or> remaining < 0 then io_fail (Raised ''validation error for NormalizedOrder'')
         else io_return
           \<lparr>po_id = py_str rp (get_default payload ''id'' (VStr [])),
            po_client_order_id = extract_client_order_id payload,
            po_symbol = py_str rp (get_default payload ''symbol'' (VStr (or_empty (fb_symbol fb)))),
            po_side = (case side_of_text side of
                         Some s \<Rightarrow> s
                       | None \<Rightarrow> (case fb_side fb of None \<Rightarrow> BUY | Some s \<Rightarrow> s)),
            po_type = (if otype \<in> {''market'', ''limit''} then otype
                       else if given_text (fb_type fb) then or_empty (fb_type fb) else ''limit''),
            po_status = order_status_of x (get_none payload ''status''),
            po_amount = amount, po_filled = filled, po_remaining = remaining,
            po_price = (if get_none payload ''price'' = VNone then fb_price fb else optional_number payload ''price''),
            po_average = optional_number payload ''average'', po_cost = optional_number payload ''cost'',
            po_timestamp = datetime_of (get_none payload ''timestamp''), po_raw = payload\<rparr>)"

record exchange_trade =
  xt_id :: string
  xt_order_id :: "string option"
  xt_symbol :: string
  xt_side :: order_side
  xt_amount :: real
  xt_price :: real
  xt_cost :: "real option"
  xt_fee_cost :: real
  xt_fee_currency :: "string option"
  xt_timestamp :: "real option"
  xt_raw :: pydict

definition normalize_trade :: "ccxt_env \<Rightarrow> pydict \<Rightarrow> exchange_trade ccxt" where
  "normalize_trade x payload =
     (let rp = cx_repr x;
          fee = get_default payload ''fee'' (VDict []);
          fee_cost = (case fee of VDict f \<Rightarrow> ccxt_float 0 (get_default f ''cost'' (VFloat 0)) | _ \<Rightarrow> 0);
          fee_currency = (case fee of VDict f \<Rightarrow> (case get_none f ''currency'' of VStr s \<Rightarrow> Some s | _ \<Rightarrow> None) | _ \<Rightarrow> None);
          amount = ccxt_float 0 (get_none payload ''amount'');
          price = ccxt_float 0 (get_none payload ''price'')
      in if amount < 0 \<or> price < 0 \<or> fee_cost < 0 then io_fail (Raised ''validation error for NormalizedTrade'')
         else io_return
           \<lparr>xt_id = py_str rp (get_default payload ''id'' (VStr [])),
            xt_order_id = (if get_none payload ''order'' = VNone then None else Some (py_str rp (get_none payload ''order''))),
            xt_symbol = py_str rp (get_default payload ''symbol'' (VStr [])),
            xt_side = (case side_of_text (py_lower (py_str rp (get_default payload ''side'' (VStr [])))) of
                         Some s \<Rightarrow> s | None \<Rightarrow> BUY),
            xt_amount = amount, xt_price = price, xt_cost = optional_number payload ''cost'',
            xt_fee_cost = fee_cost, xt_fee_currency = fee_currency,
            xt_timestamp = datetime_of (get_none payload ''timestamp''), xt_raw = payload\<rparr>)"

record exchange_income =
  xi_type :: string
  xi_asset :: string
  xi_income :: real
  xi_symbol :: "string option"
  xi_tran_id :: string
  xi_trade_id :: "string option"
  xi_info :: "string option"
  xi_timestamp :: "real option"
  xi_raw :: pydict

definition filled_text :: "ccxt_env \<Rightarrow> pyval \<Rightarrow> string option" where
  "filled_text x v = (if v = VNone \<or> v = VStr [] then None else Some (py_str (cx_repr x) v))"

text \<open>\<open>int(raw_time)\<close> when its text, without leading minus signs, is all digits.\<close>

definition info_time :: "pyval \<Rightarrow> int option ccxt" where
  "info_time v =
     (case v of
        VInt i \<Rightarrow> io_return (Some i)
      | VStr s \<Rightarrow> if all_digits (dropWhile (\<lambda>c. c = CHR ''-'') s)
                   then (case parse_int s of None \<Rightarrow> io_fail (Raised ''invalid literal for int()'') | Some i \<Rightarrow> io_return (Some i))
                   else io_return None
      | _ \<Rightarrow> io_return None)"

definition normalize_income :: "ccxt_env \<Rightarrow> pydict \<Rightarrow> exchange_income ccxt" where
  "normalize_income x payload =
     (let info = (case get_none payload ''info'' of VDict i \<Rightarrow> i | _ \<Rightarrow> []); rp = cx_repr x;
          symbol = py_or (get_none info ''symbol'') (get_none payload ''symbol'') in
      io_bind (case datetime_of (get_none payload ''timestamp'') of
                 Some t \<Rightarrow> io_return (Some t)
               | None \<Rightarrow> io_bind (info_time (get_none info ''time'')) (\<lambda>ms. io_return (map_option (\<lambda>i. of_int i / 1000) ms))) (\<lambda>t.
      io_return
        \<lparr>xi_type = py_str rp (py_or (get_none info ''incomeType'') (VStr ''FUNDING_FEE'')),
         xi_asset = py_str rp (py_or (py_or (get_none info ''asset'') (get_none payload ''code'')) (VStr [])),
         xi_income = ccxt_float (ccxt_float 0 (get_none payload ''amount'')) (get_none info ''income''),
         xi_symbol = (if py_truth symbol then Some (py_str rp symbol) else None),
         xi_tran_id = or_empty (filled_text x (py_or (get_none info ''tranId'') (get_none payload ''id''))),
         xi_trade_id = filled_text x (get_none info ''tradeId''), xi_info = filled_text x (get_none info ''info''),
         xi_timestamp = t, xi_raw = payload\<rparr>))"

end
