(* ===== verification/Ccxt_Orders.thy ===== *)
theory Ccxt_Orders
  imports Ccxt
begin

text \<open>
  Orders through ccxt: creating with recovery by the client order id, looking an order up and completing it
  from trades, spot orders with brackets, leverage and margin mode, futures market orders with brackets,
  reduce-only closes.
\<close>

section \<open>Looking orders up\<close>

text \<open>\<open>except ExchangeServiceError\<close> around one call.\<close>

definition unless_service_error :: "'a ccxt \<Rightarrow> 'a option ccxt" where
  "unless_service_error m =
     io_handle (io_bind m (\<lambda>v. io_return (Some v))) (\<lambda>e. case e of
       Service s \<Rightarrow> io_return None
     | Raised t \<Rightarrow> io_fail e)"

fun find_listed :: "ccxt_env \<Rightarrow> (pydict \<Rightarrow> bool) \<Rightarrow> ccxt_call list \<Rightarrow> pydict option ccxt" where
  "find_listed x p [] = io_return None"
| "find_listed x p (c # cs) =
     io_bind (unless_service_error (call_with_retry x c)) (\<lambda>o'. case o' of
       None \<Rightarrow> find_listed x p cs
     | Some v \<Rightarrow> io_bind (iterate v) (\<lambda>rows. case List.find p (dicts_in rows) of
         Some d \<Rightarrow> io_return (Some d)
       | None \<Rightarrow> find_listed x p cs))"

definition listed_client_id :: "pydict \<Rightarrow> string option" where
  "listed_client_id row =
     (case get_none row ''clientOrderId'' of
        VStr s \<Rightarrow> Some s
      | _ \<Rightarrow> (case get_none row ''info'' of
                VDict i \<Rightarrow> first_text i [''orderLinkId'', ''clientOrderId'', ''origClientOrderId'']
              | _ \<Rightarrow> None))"

definition find_order_by_client_order_id :: "ccxt_env \<Rightarrow> string \<Rightarrow> string \<Rightarrow> pydict option ccxt" where
  "find_order_by_client_order_id x symbol coid =
     find_listed x (\<lambda>row. listed_client_id row = Some coid) [CxOpenOrders (Some symbol) 200, CxClosedOrders (Some symbol) 200]"

definition find_order_by_id :: "ccxt_env \<Rightarrow> string \<Rightarrow> string \<Rightarrow> pydict option ccxt" where
  "find_order_by_id x symbol oid =
     find_listed x (\<lambda>row. py_str (cx_repr x) (get_none row ''id'') = oid) [CxOpenOrders (Some symbol) 200, CxClosedOrders (Some symbol) 200]"

section \<open>Creating an order\<close>

definition looks_like_duplicate_id_error :: "string \<Rightarrow> bool" where
  "looks_like_duplicate_id_error message =
     (let m = py_lower message in
      contains_sub m ''duplicate'' \<or> contains_sub m ''orderlinkid'' \<or> contains_sub m ''clientorderid''
      \<or> contains_sub m ''client order id'')"

definition create_order_with_idempotency ::
    "ccxt_env \<Rightarrow> string \<Rightarrow> string \<Rightarrow> order_side \<Rightarrow> real \<Rightarrow> real option \<Rightarrow> pydict \<Rightarrow> string option \<Rightarrow> pyval ccxt" where
  "create_order_with_idempotency x symbol otype side amount price params coid =
     io_handle (call_with_retry x (CxCreate symbol otype side amount price params)) (\<lambda>e. case e of
       Raised m \<Rightarrow> io_fail e
     | Service s \<Rightarrow>
         if given_text coid \<and> (looks_like_duplicate_id_error (sv_message s) \<or> sv_retryable s)
         then io_bind (find_order_by_client_order_id x symbol (or_empty coid)) (\<lambda>r. case r of
                Some d \<Rightarrow> io_return (VDict d)
              | None \<Rightarrow> io_fail e)
         else io_fail e)"

definition build_client_id_params :: "string option \<Rightarrow> pydict" where
  "build_client_id_params coid =
     (if given_text coid then [(''clientOrderId'', VStr (or_empty coid)), (''orderLinkId'', VStr (or_empty coid))] else [])"

definition child_client_order_id :: "string option \<Rightarrow> string \<Rightarrow> string option" where
  "child_client_order_id base suffix =
     (if given_text base then Some (take (64 - length (CHR ''-'' # suffix)) (or_empty base) @ CHR ''-'' # suffix) else None)"

section \<open>Completing an order\<close>

definition merge_entry :: "string \<times> pyval \<Rightarrow> pydict \<Rightarrow> pydict" where
  "merge_entry kv out =
     (case kv of (k, v) \<Rightarrow>
        if v = VNone then out
        else if k = ''info'' then
          (case (get_none out ''info'', v) of
             (VDict base, VDict fresh) \<Rightarrow>
               dict_set out k (VDict (fold (\<lambda>(ik, iv) m. if iv = VNone then m else dict_set m ik iv) fresh base))
           | _ \<Rightarrow> dict_set out k v)
        else dict_set out k v)"

definition merge_order_payload :: "pydict \<Rightarrow> pydict \<Rightarrow> pydict" where
  "merge_order_payload base fresh = fold merge_entry fresh base"

definition has_meaningful_order_fields :: "pydict \<Rightarrow> bool" where
  "has_meaningful_order_fields payload =
     ((case get_none payload ''side'' of VStr s \<Rightarrow> s \<noteq> [] | _ \<Rightarrow> False)
      \<and> (case get_none payload ''type'' of VStr s \<Rightarrow> s \<noteq> [] | _ \<Rightarrow> False)
      \<and> get_none payload ''amount'' \<noteq> VNone \<and> get_none payload ''status'' \<noteq> VNone)"

text \<open>The look-ups that are left, and the best payload so far.\<close>

fun hydrate_loop :: "ccxt_env \<Rightarrow> string \<Rightarrow> string \<Rightarrow> string option \<Rightarrow> nat \<Rightarrow> pydict \<Rightarrow> pydict ccxt" where
  "hydrate_loop x symbol created_id coid 0 best = io_return best"
| "hydrate_loop x symbol created_id coid (Suc n) best =
     io_bind (if created_id \<noteq> [] then find_order_by_id x symbol created_id else io_return None) (\<lambda>by_id.
     io_bind (if by_id = None \<and> given_text coid then find_order_by_client_order_id x symbol (or_empty coid)
              else io_return by_id) (\<lambda>candidate. case candidate of
       None \<Rightarrow> hydrate_loop x symbol created_id coid n best
     | Some d \<Rightarrow> let best' = merge_order_payload best d in
                 if has_meaningful_order_fields best' then io_return best'
                 else hydrate_loop x symbol created_id coid n best'))"

definition trades_of_order :: "ccxt_env \<Rightarrow> string \<Rightarrow> pyval list \<Rightarrow> pydict list" where
  "trades_of_order x oid rows = filter (\<lambda>r. py_str (cx_repr x) (get_none r ''order'') = oid) (dicts_in rows)"

definition fetch_order_trades :: "ccxt_env \<Rightarrow> string \<Rightarrow> string \<Rightarrow> pydict list ccxt" where
  "fetch_order_trades x symbol oid =
     (if oid = [] then io_return []
      else io_bind (unless_service_error (call_with_retry x (CxTrades (Some symbol) None 200 []))) (\<lambda>o'. case o' of
             None \<Rightarrow> io_return []
           | Some v \<Rightarrow> io_bind (iterate v) (\<lambda>rows. io_return (trades_of_order x oid rows))))"

definition number_or_zero :: "pydict \<Rightarrow> string \<Rightarrow> real" where
  "number_or_zero d k = ccxt_float 0 (get_none d k)"

definition trade_total :: "pydict list \<Rightarrow> string \<Rightarrow> real" where
  "trade_total trades k = sum_list (map (\<lambda>t. number_or_zero t k) trades)"

definition set_missing :: "bool \<Rightarrow> string \<Rightarrow> pyval \<Rightarrow> pydict \<Rightarrow> pydict" where
  "set_missing when k v d = (if when \<and> get_none d k = VNone then dict_set d k v else d)"

definition positive_int :: "pyval \<Rightarrow> int option" where
  "positive_int v =
     (case v of VInt i \<Rightarrow> if i > 0 then Some i else None | VBool b \<Rightarrow> if b then Some 1 else None | _ \<Rightarrow> None)"

definition enrich_order_from_trades :: "pydict \<Rightarrow> pydict list \<Rightarrow> pydict" where
  "enrich_order_from_trades payload trades =
     (if trades = [] then payload
      else
        let f0 = number_or_zero payload ''filled''; a0 = number_or_zero payload ''amount''; c0 = number_or_zero payload ''cost'';
            filled = (if f0 \<le> 0 then trade_total trades ''amount'' else f0);
            d1 = (if f0 \<le> 0 then dict_set payload ''filled'' (VFloat filled) else payload);
            cost = (if c0 \<le> 0 then trade_total trades ''cost'' else c0);
            d2 = (if c0 \<le> 0 \<and> cost > 0 then dict_set d1 ''cost'' (VFloat cost) else d1);
            d3 = set_missing (filled > 0 \<and> cost > 0) ''average'' (VFloat (cost / filled)) d2;
            take_filled = (a0 \<le> 0 \<and> filled > 0);
            amount = (if take_filled then filled else a0);
            d4 = (if take_filled then dict_set d3 ''amount'' (VFloat filled) else d3);
            d5 = set_missing (amount > 0 \<and> filled \<ge> 0) ''remaining'' (VFloat (max (amount - filled) 0)) d4;
            stamps = List.map_filter (\<lambda>t. positive_int (get_none t ''timestamp'')) trades;
            d6 = set_missing (stamps \<noteq> []) ''timestamp'' (VInt (Min (set stamps))) d5
        in set_missing (filled > 0) ''status''
             (VStr (if number_or_zero d6 ''remaining'' \<le> 0 then ''closed'' else ''open'')) d6)"

definition fill_order_fallbacks :: "string \<Rightarrow> order_side \<Rightarrow> string \<Rightarrow> real \<Rightarrow> real option \<Rightarrow> pydict \<Rightarrow> pydict" where
  "fill_order_fallbacks symbol side otype amount price payload =
     (let d1 = (case get_none payload ''symbol'' of
                  VStr (c # cs) \<Rightarrow> payload
                | _ \<Rightarrow> dict_set payload ''symbol'' (VStr symbol));
          d2 = set_missing True ''side'' (VStr (order_side_value side)) d1;
          d3 = set_missing True ''type'' (VStr otype) d2;
          d4 = set_missing True ''amount'' (VFloat amount) d3;
          d5 = set_missing (price \<noteq> None) ''price'' (opt_float price) d4;
          d6 = set_missing True ''filled'' (VFloat 0) d5;
          d7 = set_missing True ''remaining''
                 (VFloat (max (ccxt_float amount (get_none d6 ''amount'') - number_or_zero d6 ''filled'') 0)) d6
      in set_missing True ''status'' (VStr ''open'') d7)"

definition hydrate_created_order ::
    "ccxt_env \<Rightarrow> string \<Rightarrow> pydict \<Rightarrow> string option \<Rightarrow> order_side \<Rightarrow> string \<Rightarrow> real \<Rightarrow> real option \<Rightarrow> pydict ccxt" where
  "hydrate_created_order x symbol created coid side otype amount price =
     (let created_id = py_str (cx_repr x) (get_default created ''id'' (VStr [])) in
      io_bind (hydrate_loop x symbol created_id coid 4 created) (\<lambda>best.
      io_bind (fetch_order_trades x symbol created_id) (\<lambda>trades.
      io_return (fill_order_fallbacks symbol side otype amount price (enrich_order_from_trades best trades)))))"

text \<open>The executed quantity of an entry: reported, else from its trades, else the whole amount.\<close>

definition resolve_filled_amount_fast :: "ccxt_env \<Rightarrow> string \<Rightarrow> placed_order \<Rightarrow> real ccxt" where
  "resolve_filled_amount_fast x symbol entry =
     (let executed = max (po_filled entry) (max (po_amount entry - po_remaining entry) 0);
          fallback = (if po_amount entry > 0 then po_amount entry else 0)
      in if executed > 0 then io_return executed
         else io_bind (unless_service_error (call_with_retry x (CxTrades (Some symbol) None 100 []))) (\<lambda>o'. case o' of
                None \<Rightarrow> io_return fallback
              | Some v \<Rightarrow> io_bind (iterate v) (\<lambda>rows.
                  let filled = trade_total (trades_of_order x (po_id entry) rows) ''amount''
                  in io_return (if filled > 0 then filled else fallback))))"

section \<open>Spot orders\<close>

record trigger_order =
  tg_price :: real
  tg_type :: string
  tg_limit :: "real option"

definition build_attached_order_payload :: "trigger_order \<Rightarrow> pydict" where
  "build_attached_order_payload t =
     [(''type'', VStr (tg_type t)), (''triggerPrice'', VFloat (tg_price t))]
     @ (if tg_type t = ''limit'' \<and> tg_limit t \<noteq> None then [(''price'', opt_float (tg_limit t))] else [])"

definition create_independent_trigger_order ::
    "ccxt_env \<Rightarrow> string \<Rightarrow> order_side \<Rightarrow> real \<Rightarrow> trigger_order \<Rightarrow> string \<Rightarrow> string option \<Rightarrow> pyval ccxt" where
  "create_independent_trigger_order x symbol side amount t kind coid =
     create_order_with_idempotency x symbol (tg_type t) side amount (tg_limit t)
       (build_client_id_params coid @ [(kind, VFloat (tg_price t))]) coid"

definition other_side :: "order_side \<Rightarrow> order_side" where
  "other_side s = (if s = BUY then SELL else BUY)"

text \<open>Create one bracket when it is asked for; its answer is kept under a name.\<close>

definition bracket :: "string \<Rightarrow> 'a option \<Rightarrow> ('a \<Rightarrow> pyval ccxt) \<Rightarrow> pydict \<Rightarrow> pydict ccxt" where
  "bracket name wanted create so_far =
     (case wanted of
        None \<Rightarrow> io_return so_far
      | Some t \<Rightarrow> io_bind (create t) (\<lambda>raw. io_return (dict_set so_far name raw)))"

definition with_brackets :: "placed_order \<Rightarrow> pydict \<Rightarrow> placed_order" where
  "with_brackets entry bs = (if bs = [] then entry else entry\<lparr>po_raw := dict_set (po_raw entry) ''brackets'' (VDict bs)\<rparr>)"

definition entry_fallback :: "string \<Rightarrow> order_side \<Rightarrow> string \<Rightarrow> real \<Rightarrow> real option \<Rightarrow> order_fallback" where
  "entry_fallback symbol side otype amount price =
     \<lparr>fb_symbol = Some symbol, fb_side = Some side, fb_type = Some otype, fb_amount = Some amount, fb_price = price\<rparr>"

definition base_client_id :: "string option \<Rightarrow> placed_order \<Rightarrow> string option" where
  "base_client_id coid entry = text_or coid (text_or (po_client_order_id entry) (Some (po_id entry)))"

definition place_bybit_market_with_brackets ::
    "ccxt_env \<Rightarrow> string \<Rightarrow> order_side \<Rightarrow> real \<Rightarrow> string option \<Rightarrow> trigger_order option \<Rightarrow> trigger_order option \<Rightarrow> placed_order ccxt" where
  "place_bybit_market_with_brackets x symbol side amount coid tp sl =
     io_bind (create_order_with_idempotency x symbol ''market'' side amount None (build_client_id_params coid) coid) (\<lambda>raw.
     io_bind (as_mapping raw) (\<lambda>payload.
     io_bind (normalize_order x (entry_fallback symbol side ''market'' amount None) payload) (\<lambda>entry.
     io_bind (resolve_filled_amount_fast x symbol entry) (\<lambda>qty.
     if qty \<le> 0 then io_fail (service ''exchange_error'' ''Could not resolve executed quantity for market order.'')
     else
       let base = base_client_id coid entry; close = other_side side in
       io_bind (bracket ''take_profit'' tp (\<lambda>t. create_independent_trigger_order x symbol close qty t ''takeProfitPrice''
                  (child_client_order_id base ''tp'')) []) (\<lambda>bs.
       io_bind (bracket ''stop_loss'' sl (\<lambda>t. create_independent_trigger_order x symbol close qty t ''stopLossPrice''
                  (child_client_order_id base ''sl'')) bs) (\<lambda>bs'.
       io_return (with_brackets entry bs')))))))"

definition place_spot_order ::
    "ccxt_env \<Rightarrow> string \<Rightarrow> order_side \<Rightarrow> string \<Rightarrow> real \<Rightarrow> real option \<Rightarrow> string option \<Rightarrow> trigger_order option
      \<Rightarrow> trigger_order option \<Rightarrow> placed_order ccxt" where
  "place_spot_order x symbol side otype amount price coid tp sl =
     spot_client x
       (if cx_exchange x = ''bybit'' \<and> otype = ''market'' \<and> (tp \<noteq> None \<or> sl \<noteq> None)
        then place_bybit_market_with_brackets x symbol side amount coid tp sl
        else io_bind (create_order_with_idempotency x symbol otype side amount price
               (build_client_id_params coid
                @ (case tp of None \<Rightarrow> [] | Some t \<Rightarrow> [(''takeProfit'', VDict (build_attached_order_payload t))])
                @ (case sl of None \<Rightarrow> [] | Some t \<Rightarrow> [(''stopLoss'', VDict (build_attached_order_payload t))])) coid) (\<lambda>raw.
             io_bind (as_mapping raw) (normalize_order x (entry_fallback symbol side otype amount price))))"

definition cancel_order :: "ccxt_env \<Rightarrow> string \<Rightarrow> string option \<Rightarrow> placed_order ccxt" where
  "cancel_order x oid symbol =
     io_bind (spot_client x (call_with_retry x (CxCancel oid symbol))) (\<lambda>raw.
     io_bind (as_mapping raw) (normalize_order x no_fallback))"

definition fetch_orders :: "ccxt_env \<Rightarrow> ccxt_call \<Rightarrow> placed_order list ccxt" where
  "fetch_orders x c =
     io_bind (spot_client x (call_with_retry x c)) (\<lambda>raw.
     io_bind (iterate raw) (convert_all (\<lambda>v. io_bind (as_mapping v) (normalize_order x no_fallback))))"

definition fetch_open_orders :: "ccxt_env \<Rightarrow> string option \<Rightarrow> int \<Rightarrow> placed_order list ccxt" where
  "fetch_open_orders x symbol limit = fetch_orders x (CxOpenOrders symbol limit)"

definition fetch_closed_orders :: "ccxt_env \<Rightarrow> string option \<Rightarrow> int \<Rightarrow> placed_order list ccxt" where
  "fetch_closed_orders x symbol limit = fetch_orders x (CxClosedOrders symbol limit)"

definition fetch_order_detail :: "ccxt_env \<Rightarrow> string \<Rightarrow> string \<Rightarrow> placed_order ccxt" where
  "fetch_order_detail x oid symbol =
     spot_client x
       (io_bind (find_order_by_id x symbol oid) (\<lambda>listed.
        io_bind (case listed of
                   Some d \<Rightarrow> io_return (Some d)
                 | None \<Rightarrow> if cx_fetch_order x
                           then io_bind (unless_service_error (call_with_retry x (CxOrder oid symbol))) (\<lambda>o'. io_return
                                  (case o' of Some (VDict d) \<Rightarrow> Some d | _ \<Rightarrow> None))
                           else io_return None) (\<lambda>found. case found of
          None \<Rightarrow> io_fail (service ''not_found'' ''Order not found.'')
        | Some d \<Rightarrow>
            io_bind (hydrate_created_order x symbol d (extract_client_order_id d) BUY ''limit'' 0 None) (\<lambda>h.
            normalize_order x (no_fallback\<lparr>fb_symbol := Some symbol\<rparr>) h))))"

section \<open>Futures: profile, margin mode, leverage\<close>

record futures_profile =
  fu_exchange_id :: string
  fu_params :: pydict
  fu_isolated :: bool

definition ensure_futures_supported :: "ccxt_env \<Rightarrow> futures_profile ccxt" where
  "ensure_futures_supported x =
     (if cx_exchange x = ''bybit''
      then io_return \<lparr>fu_exchange_id = ''bybit'', fu_params = [(''category'', VStr ''linear'')], fu_isolated = True\<rparr>
      else if cx_exchange x = ''binance''
      then io_return \<lparr>fu_exchange_id = ''binanceusdm'', fu_params = [], fu_isolated = False\<rparr>
      else io_fail (service ''unsupported_exchange'' ''Auto-trade futures v1 supports Bybit and Binance USDT-M only.''))"

definition is_quote_char :: "char \<Rightarrow> bool" where
  "is_quote_char c \<longleftrightarrow> of_char c = (39 :: nat) \<or> of_char c = (34 :: nat)"

text \<open>The pattern quote, key, quote, blanks, colon, blanks, integer at the start of a text.\<close>

definition code_here :: "string \<Rightarrow> string \<Rightarrow> int option" where
  "code_here key s =
     (case s of
        [] \<Rightarrow> None
      | q # r \<Rightarrow>
          if \<not> is_quote_char q \<or> \<not> starts_with r key then None
          else (case drop (length key) r of
                  [] \<Rightarrow> None
                | q' # r' \<Rightarrow>
                    if \<not> is_quote_char q' then None
                    else (case dropWhile is_space r' of
                            [] \<Rightarrow> None
                          | c # r'' \<Rightarrow>
                              if c \<noteq> CHR '':'' then None
                              else let t = dropWhile is_space r''; neg = (t \<noteq> [] \<and> hd t = CHR ''-'');
                                       ds = takeWhile is_digit (if neg then tl t else t)
                                   in if ds = [] then None
                                      else Some (if neg then - int (nat_of_digits 0 ds) else int (nat_of_digits 0 ds)))))"

fun search_code :: "string \<Rightarrow> string \<Rightarrow> int option" where
  "search_code key [] = None"
| "search_code key (c # s) = (case code_here key (c # s) of Some n \<Rightarrow> Some n | None \<Rightarrow> search_code key s)"

definition extract_ret_code :: "string \<Rightarrow> int option" where
  "extract_ret_code = search_code ''retCode''"

definition extract_binance_error_code :: "string \<Rightarrow> int option" where
  "extract_binance_error_code = search_code ''code''"

definition exchange_reported :: "service_error \<Rightarrow> bool" where
  "exchange_reported e \<longleftrightarrow> sv_code e \<in> {''exchange_error'', ''unexpected_error''}"

definition is_non_critical_bybit_margin_mode_error :: "service_error \<Rightarrow> bool" where
  "is_non_critical_bybit_margin_mode_error e =
     (exchange_reported e
      \<and> (let m = py_lower (sv_message e) in
          extract_ret_code (sv_message e) = Some 110026
          \<or> contains_sub m ''margin mode'' \<and> (contains_sub m ''not modified'' \<or> contains_sub m ''same'')
          \<or> contains_sub m ''state change''))"

definition is_non_critical_binance_margin_mode_error :: "service_error \<Rightarrow> bool" where
  "is_non_critical_binance_margin_mode_error e =
     (exchange_reported e
      \<and> (extract_binance_error_code (sv_message e) = Some (- 4046)
          \<or> contains_sub (py_lower (sv_message e)) ''no need to change margin type''))"

definition is_leverage_not_modified :: "service_error \<Rightarrow> bool" where
  "is_leverage_not_modified e =
     (exchange_reported e
      \<and> (let m = py_lower (sv_message e) in
          extract_ret_code (sv_message e) = Some 110043
          \<or> contains_sub m ''leverage'' \<and> contains_sub m ''not modified''
          \<or> contains_sub m ''no need to change leverage''))"

definition tolerate :: "(service_error \<Rightarrow> bool) \<Rightarrow> unit ccxt \<Rightarrow> unit ccxt" where
  "tolerate harmless m =
     io_handle m (\<lambda>e. case e of
       Service s \<Rightarrow> if harmless s then io_return () else io_fail e
     | Raised t \<Rightarrow> io_fail e)"

definition ensure_binance_isolated_margin :: "ccxt_env \<Rightarrow> string \<Rightarrow> unit ccxt" where
  "ensure_binance_isolated_margin x symbol =
     (if \<not> cx_margin_mode x then io_return ()
      else tolerate is_non_critical_binance_margin_mode_error
             (io_bind (call_with_retry x (CxMarginMode symbol [])) (\<lambda>_. io_return ())))"

definition ensure_bybit_isolated_margin :: "ccxt_env \<Rightarrow> string \<Rightarrow> int option \<Rightarrow> unit ccxt" where
  "ensure_bybit_isolated_margin x symbol leverage =
     tolerate is_non_critical_bybit_margin_mode_error
       (io_bind (call_with_retry x (CxMarginMode symbol
          ((''category'', VStr ''linear'') # (case leverage of None \<Rightarrow> [] | Some n \<Rightarrow> [(''leverage'', VStr (show_int n))]))))
          (\<lambda>_. io_return ()))"

definition set_futures_leverage :: "ccxt_env \<Rightarrow> string \<Rightarrow> int \<Rightarrow> unit ccxt" where
  "set_futures_leverage x symbol leverage =
     io_bind (ensure_futures_supported x) (\<lambda>profile.
     tolerate is_leverage_not_modified
       (client x (fu_exchange_id profile)
         (io_bind (if fu_isolated profile then ensure_bybit_isolated_margin x symbol (Some leverage) else io_return ()) (\<lambda>_.
          io_bind (if cx_exchange x = ''binance'' then ensure_binance_isolated_margin x symbol else io_return ()) (\<lambda>_.
          io_bind (call_with_retry x (CxLeverage leverage symbol (fu_params profile))) (\<lambda>_. io_return ()))))))"

section \<open>Futures market orders\<close>

definition futures_order_params ::
    "ccxt_env \<Rightarrow> pydict \<Rightarrow> bool \<Rightarrow> string option \<Rightarrow> real option \<Rightarrow> real option \<Rightarrow> pydict" where
  "futures_order_params x base reduce_only coid tp sl =
     dict_set base ''reduceOnly'' (VBool reduce_only)
     @ (if given_text coid
        then (''clientOrderId'', VStr (or_empty coid))
             # (if cx_exchange x = ''bybit'' then [(''orderLinkId'', VStr (or_empty coid))] else [])
             @ (if cx_exchange x = ''binance'' then [(''newClientOrderId'', VStr (or_empty coid))] else [])
        else [])
     @ (if cx_exchange x \<noteq> ''binance''
        then (case tp of None \<Rightarrow> [] | Some p \<Rightarrow> [(''takeProfit'', VFloat p)])
             @ (case sl of None \<Rightarrow> [] | Some p \<Rightarrow> [(''stopLoss'', VFloat p)])
        else [])
     @ (if cx_exchange x = ''bybit'' \<and> (tp \<noteq> None \<or> sl \<noteq> None)
        then [(''tpslMode'', VStr ''Full''), (''tpTriggerBy'', VStr ''MarkPrice''), (''slTriggerBy'', VStr ''MarkPrice'')]
        else [])"

definition build_binance_futures_trigger_params :: "real \<Rightarrow> string option \<Rightarrow> pydict" where
  "build_binance_futures_trigger_params trigger coid =
     [(''reduceOnly'', VBool True), (''stopPrice'', VFloat trigger), (''workingType'', VStr ''MARK_PRICE'')]
     @ (if given_text coid
        then [(''newClientOrderId'', VStr (or_empty coid)), (''clientOrderId'', VStr (or_empty coid))] else [])"

definition place_binance_futures_market_with_brackets ::
    "ccxt_env \<Rightarrow> string \<Rightarrow> order_side \<Rightarrow> real \<Rightarrow> string option \<Rightarrow> pydict \<Rightarrow> real option \<Rightarrow> real option \<Rightarrow> placed_order ccxt" where
  "place_binance_futures_market_with_brackets x symbol side amount coid params tp sl =
     io_bind (create_order_with_idempotency x symbol ''market'' side amount None params coid) (\<lambda>raw.
     io_bind (as_mapping raw) (\<lambda>created.
     io_bind (hydrate_created_order x symbol created coid side ''market'' amount None) (\<lambda>hydrated.
     io_bind (normalize_order x (entry_fallback symbol side ''market'' amount None) hydrated) (\<lambda>entry.
     io_bind (resolve_filled_amount_fast x symbol entry) (\<lambda>resolved.
     let qty = (if resolved \<le> 0 then (if amount > 0 then amount else 0) else resolved) in
     if qty \<le> 0 then io_fail (service ''exchange_error'' ''Could not resolve executed quantity for Binance futures entry.'')
     else
       let base = base_client_id coid entry; close = other_side side;
           trigger = (\<lambda>otype suffix p. create_order_with_idempotency x symbol otype close qty None
                        (build_binance_futures_trigger_params p (child_client_order_id base suffix)) (child_client_order_id base suffix)) in
       io_bind (bracket ''stop_loss'' sl (trigger ''STOP_MARKET'' ''sl'') []) (\<lambda>bs.
       io_bind (bracket ''take_profit'' tp (trigger ''TAKE_PROFIT_MARKET'' ''tp'') bs) (\<lambda>bs'.
       io_return (with_brackets entry bs'))))))))"

definition place_futures_market_order ::
    "ccxt_env \<Rightarrow> string \<Rightarrow> order_side \<Rightarrow> real \<Rightarrow> bool \<Rightarrow> string option \<Rightarrow> real option \<Rightarrow> real option \<Rightarrow> placed_order ccxt" where
  "place_futures_market_order x symbol side amount reduce_only coid tp sl =
     io_bind (ensure_futures_supported x) (\<lambda>profile.
     let params = futures_order_params x (fu_params profile) reduce_only coid tp sl in
     client x (fu_exchange_id profile)
       (io_bind (if fu_isolated profile then ensure_bybit_isolated_margin x symbol None else io_return ()) (\<lambda>_.
        io_bind (if cx_exchange x = ''binance'' \<and> \<not> reduce_only then ensure_binance_isolated_margin x symbol else io_return ()) (\<lambda>_.
        if cx_exchange x = ''binance'' \<and> \<not> reduce_only \<and> (tp \<noteq> None \<or> sl \<noteq> None)
        then place_binance_futures_market_with_brackets x symbol side amount coid params tp sl
        else io_bind (create_order_with_idempotency x symbol ''market'' side amount None params coid) (\<lambda>raw.
             io_bind (as_mapping raw) (normalize_order x (entry_fallback symbol side ''market'' amount None)))))))"

definition close_futures_market_reduce_only ::
    "ccxt_env \<Rightarrow> string \<Rightarrow> order_side \<Rightarrow> real \<Rightarrow> string option \<Rightarrow> placed_order ccxt" where
  "close_futures_market_reduce_only x symbol side amount coid =
     place_futures_market_order x symbol side amount True coid None None"

end
