(* ===== verification/Ccxt_Market.thy ===== *)
theory Ccxt_Market
  imports Ccxt_Orders
begin

text \<open>
  Reading through ccxt: balances, spot positions, the futures position of a symbol, pages of trades, funding
  income, prices and candles.
\<close>

section \<open>Balances and spot positions\<close>

text \<open>Python's order on texts, and \<open>sorted(set(...))\<close>.\<close>

fun py_less :: "string \<Rightarrow> string \<Rightarrow> bool" where
  "py_less s [] = False"
| "py_less [] (d # t) = True"
| "py_less (c # s) (d # t) = ((of_char c :: nat) < of_char d \<or> c = d \<and> py_less s t)"

fun insert_text :: "string \<Rightarrow> string list \<Rightarrow> string list" where
  "insert_text s [] = [s]"
| "insert_text s (t # ts) = (if py_less t s then t # insert_text s ts else s # t # ts)"

definition sorted_texts :: "string list \<Rightarrow> string list" where
  "sorted_texts ts = foldr insert_text (remdups ts) []"

record balance =
  ba_asset :: string
  ba_free :: real
  ba_used :: real
  ba_total :: real

definition balance_row :: "pydict \<Rightarrow> pydict \<Rightarrow> pydict \<Rightarrow> string \<Rightarrow> balance ccxt" where
  "balance_row free used tot asset =
     (let f = ccxt_float 0 (get_default free asset (VFloat 0)); u = ccxt_float 0 (get_default used asset (VFloat 0));
          t = ccxt_float 0 (get_default tot asset (VFloat 0))
      in if f < 0 \<or> u < 0 \<or> t < 0 then io_fail (Raised ''validation error for NormalizedBalance'')
         else io_return \<lparr>ba_asset = asset, ba_free = f, ba_used = u, ba_total = t\<rparr>)"

definition fetch_balance :: "ccxt_env \<Rightarrow> balance list ccxt" where
  "fetch_balance x =
     io_bind (spot_client x (call_with_retry x CxBalance)) (\<lambda>raw.
     io_bind (as_mapping raw) (\<lambda>d.
     case (get_default d ''total'' (VDict []), get_default d ''free'' (VDict []), get_default d ''used'' (VDict [])) of
       (VDict tot, VDict free, VDict used) \<Rightarrow>
         io_bind (convert_all (balance_row free used tot) (sorted_texts (map fst tot @ map fst free @ map fst used))) (\<lambda>rows.
         io_return (filter (\<lambda>b. ba_total b > 0 \<or> ba_free b > 0 \<or> ba_used b > 0) rows))
     | _ \<Rightarrow> io_return []))"

record spot_position_view =
  sp_asset :: string
  sp_quantity :: real
  sp_mark_price :: "real option"
  sp_market_value :: "real option"
  sp_unrealized :: "real option"

definition unpriced :: "balance \<Rightarrow> spot_position_view" where
  "unpriced b = \<lparr>sp_asset = ba_asset b, sp_quantity = ba_total b, sp_mark_price = None, sp_market_value = None, sp_unrealized = None\<rparr>"

definition spot_position_of :: "ccxt_env \<Rightarrow> string \<Rightarrow> balance \<Rightarrow> spot_position_view ccxt" where
  "spot_position_of x quote b =
     (if py_upper (ba_asset b) = py_upper quote
      then io_return ((unpriced b)\<lparr>sp_mark_price := Some 1, sp_market_value := Some (ba_total b), sp_unrealized := Some 0\<rparr>)
      else io_bind (unless_service_error (call_with_retry x (CxTicker (ba_asset b @ ''/'' @ quote)))) (\<lambda>o'. case o' of
             None \<Rightarrow> io_return (unpriced b)
           | Some t \<Rightarrow> io_bind (as_mapping t) (\<lambda>d.
               let price = ccxt_float 0 (get_none d ''last'') in
               io_return (if price \<le> 0 then unpriced b
                          else (unpriced b)\<lparr>sp_mark_price := Some price, sp_market_value := Some (ba_total b * price)\<rparr>))))"

definition fetch_spot_positions_view :: "ccxt_env \<Rightarrow> string \<Rightarrow> spot_position_view list ccxt" where
  "fetch_spot_positions_view x quote =
     io_bind (fetch_balance x) (\<lambda>balances.
     spot_client x (convert_all (spot_position_of x quote) (filter (\<lambda>b. ba_total b > 0) balances)))"

section \<open>Trades, income, prices\<close>

definition fetch_trades :: "ccxt_env \<Rightarrow> string option \<Rightarrow> int \<Rightarrow> exchange_trade list ccxt" where
  "fetch_trades x symbol limit =
     io_bind (spot_client x (call_with_retry x (CxTrades symbol None limit []))) (\<lambda>raw.
     io_bind (iterate raw) (convert_all (\<lambda>v. io_bind (as_mapping v) (normalize_trade x))))"

text \<open>\<open>int(since.timestamp() * 1000)\<close>, on seconds.\<close>

definition since_millis :: "real option \<Rightarrow> int option" where
  "since_millis since = map_option (\<lambda>s. trunc_real (s * 1000)) since"

definition next_futures_trades_cursor :: "exchange_trade list \<Rightarrow> string option \<Rightarrow> string option" where
  "next_futures_trades_cursor trades previous =
     (if trades = [] \<or> xt_id (last trades) = [] \<or> previous = Some (xt_id (last trades)) then None
      else Some (xt_id (last trades)))"

definition trades_request :: "ccxt_env \<Rightarrow> pydict \<Rightarrow> string \<Rightarrow> real option \<Rightarrow> int \<Rightarrow> string option \<Rightarrow> ccxt_call" where
  "trades_request x base symbol since limit cursor =
     (if given_text cursor \<and> cx_exchange x = ''binance''
      then CxTrades (Some symbol) None limit (dict_set base ''fromId'' (VStr (or_empty cursor)))
      else CxTrades (Some symbol) (since_millis since) limit
             (if given_text cursor \<and> cx_exchange x = ''bybit'' then dict_set base ''cursor'' (VStr (or_empty cursor)) else base))"

definition fetch_futures_trades_page ::
    "ccxt_env \<Rightarrow> string \<Rightarrow> real option \<Rightarrow> int \<Rightarrow> string option \<Rightarrow> (exchange_trade list \<times> string option) ccxt" where
  "fetch_futures_trades_page x symbol since limit cursor =
     io_bind (ensure_futures_supported x) (\<lambda>profile.
     io_bind (client x (fu_exchange_id profile)
               (call_with_retry x (trades_request x (fu_params profile) symbol since limit cursor))) (\<lambda>raw.
     io_bind (iterate raw) (\<lambda>rows.
     io_bind (convert_all (\<lambda>v. io_bind (as_mapping v) (normalize_trade x)) rows) (\<lambda>trades.
     io_return (trades, next_futures_trades_cursor trades cursor)))))"

definition fetch_futures_trades :: "ccxt_env \<Rightarrow> string \<Rightarrow> real option \<Rightarrow> int \<Rightarrow> exchange_trade list ccxt" where
  "fetch_futures_trades x symbol since limit =
     io_bind (fetch_futures_trades_page x symbol since limit None) (\<lambda>(trades, cursor). io_return trades)"

definition fetch_futures_income :: "ccxt_env \<Rightarrow> string \<Rightarrow> real option \<Rightarrow> int \<Rightarrow> exchange_income list ccxt" where
  "fetch_futures_income x symbol since limit =
     (if cx_exchange x \<noteq> ''binance'' then io_return []
      else io_bind (ensure_futures_supported x) (\<lambda>profile.
           io_bind (client x (fu_exchange_id profile)
                     (call_with_retry x (CxFunding symbol (since_millis since) limit (fu_params profile)))) (\<lambda>raw.
           io_bind (iterate raw) (convert_all (\<lambda>v. io_bind (as_mapping v) (normalize_income x))))))"

text \<open>The set of assets is iterated in an order the language does not fix: the argument lists them.\<close>

definition wanted_assets :: "string list \<Rightarrow> string \<Rightarrow> string list" where
  "wanted_assets assets quote = remdups (filter (\<lambda>a. a \<noteq> py_upper quote) (map py_upper (filter (\<lambda>a. a \<noteq> []) assets)))"

fun mark_prices_of :: "ccxt_env \<Rightarrow> string \<Rightarrow> string list \<Rightarrow> (string \<times> real) list \<Rightarrow> (string \<times> real) list ccxt" where
  "mark_prices_of x quote [] found = io_return found"
| "mark_prices_of x quote (a # as) found =
     io_bind (unless_service_error (call_with_retry x (CxTicker (a @ ''/'' @ py_upper quote)))) (\<lambda>o'. case o' of
       None \<Rightarrow> mark_prices_of x quote as found
     | Some t \<Rightarrow> io_bind (as_mapping t) (\<lambda>d.
         let price = ccxt_float 0 (get_none d ''last'')
         in mark_prices_of x quote as (if price > 0 then found @ [(a, price)] else found)))"

definition fetch_mark_prices :: "ccxt_env \<Rightarrow> string list \<Rightarrow> string \<Rightarrow> (string \<times> real) list ccxt" where
  "fetch_mark_prices x assets quote =
     (if wanted_assets assets quote = [] then io_return []
      else spot_client x (mark_prices_of x quote (wanted_assets assets quote) []))"

section \<open>The futures position of a symbol\<close>

record position_report =
  pr_symbol :: string
  pr_side :: string
  pr_contracts :: real
  pr_entry_price :: "real option"
  pr_mark_price :: "real option"
  pr_leverage :: "real option"
  pr_unrealized_pnl :: "real option"
  pr_take_profit_price :: "real option"
  pr_stop_loss_price :: "real option"
  pr_liquidation_price :: "real option"
  pr_margin_mode :: "string option"
  pr_notional :: "real option"
  pr_collateral :: "real option"
  pr_raw :: pydict

definition normalize_margin_mode :: "ccxt_env \<Rightarrow> pyval \<Rightarrow> string option" where
  "normalize_margin_mode x v =
     (if v = VNone then None
      else let raw = py_lower (py_strip (py_str (cx_repr x) v)) in
        if raw \<in> {''cross'', ''crossed''} then Some ''cross''
        else if raw \<in> {''isolated'', ''isolate'', ''isol''} then Some ''isolated''
        else if raw = ''0'' then Some ''cross''
        else if raw = ''1'' then Some ''isolated'' else None)"

definition first_some :: "'a option list \<Rightarrow> 'a option" where
  "first_some os = (case dropWhile (\<lambda>o'. o' = None) os of [] \<Rightarrow> None | o' # _ \<Rightarrow> o')"

definition extract_margin_mode :: "ccxt_env \<Rightarrow> pydict \<Rightarrow> pydict option \<Rightarrow> string option" where
  "extract_margin_mode x row info =
     first_some
       (normalize_margin_mode x (get_none row ''marginMode'') #
        (case info of
           None \<Rightarrow> []
         | Some i \<Rightarrow> [normalize_margin_mode x (get_none i ''tradeMode''), normalize_margin_mode x (get_none i ''marginMode''),
                      (case get_none i ''isolated'' of VBool b \<Rightarrow> Some (if b then ''isolated'' else ''cross'') | _ \<Rightarrow> None)]))"

definition normalize_futures_side :: "ccxt_env \<Rightarrow> pyval \<Rightarrow> string" where
  "normalize_futures_side x v =
     (let side = py_lower (py_strip (py_str (cx_repr x) (py_or v (VStr [])))) in
      if side \<in> {''long'', ''short''} then side
      else if side = ''buy'' then ''long'' else if side = ''sell'' then ''short'' else ''flat'')"

definition row_contracts :: "pydict \<Rightarrow> real" where
  "row_contracts row =
     (let c = ccxt_float 0 (get_none row ''contracts'') in
      if c \<le> 0 then (case get_none row ''info'' of
                        VDict i \<Rightarrow> max (ccxt_float 0 (get_none i ''size'')) \<bar>ccxt_float 0 (get_none i ''positionAmt'')\<bar>
                      | _ \<Rightarrow> c)
      else c)"

definition row_side :: "ccxt_env \<Rightarrow> pydict \<Rightarrow> string" where
  "row_side x row =
     normalize_futures_side x
       (if py_truth (get_none row ''side'') then get_none row ''side''
        else (case get_none row ''info'' of VDict i \<Rightarrow> get_none i ''side'' | _ \<Rightarrow> get_none row ''side''))"

definition report_of :: "ccxt_env \<Rightarrow> string \<Rightarrow> pydict \<Rightarrow> position_report" where
  "report_of x symbol row =
     (let info = (case get_none row ''info'' of VDict i \<Rightarrow> Some i | _ \<Rightarrow> None);
          num = (\<lambda>k. case info of None \<Rightarrow> None | Some i \<Rightarrow> optional_number i k);
          row_symbol = py_str (cx_repr x) (py_or (get_none row ''symbol'') (VStr symbol))
      in \<lparr>pr_symbol = (if row_symbol = [] then symbol else row_symbol), pr_side = row_side x row, pr_contracts = row_contracts row,
          pr_entry_price = optional_number row ''entryPrice'', pr_mark_price = optional_number row ''markPrice'',
          pr_leverage = optional_number row ''leverage'', pr_unrealized_pnl = optional_number row ''unrealizedPnl'',
          pr_take_profit_price = num ''takeProfit'', pr_stop_loss_price = num ''stopLoss'',
          pr_liquidation_price = first_some [num ''liqPrice'', num ''liquidationPrice''],
          pr_margin_mode = extract_margin_mode x row info,
          pr_notional = first_some [num ''positionValue'', map_option abs (num ''notional'')],
          pr_collateral = first_some [num ''positionIM'', num ''isolatedWallet''],
          pr_raw = row\<rparr>)"

definition position_row_matches :: "ccxt_env \<Rightarrow> string \<Rightarrow> pydict \<Rightarrow> bool" where
  "position_row_matches x symbol row =
     ((let s = py_str (cx_repr x) (py_or (get_none row ''symbol'') (VStr symbol)) in s = [] \<or> s = symbol)
      \<and> row_contracts row > 0 \<and> row_side x row \<noteq> ''flat'')"

definition fetch_futures_position :: "ccxt_env \<Rightarrow> string \<Rightarrow> position_report option ccxt" where
  "fetch_futures_position x symbol =
     io_bind (ensure_futures_supported x) (\<lambda>profile.
     io_bind (client x (fu_exchange_id profile) (call_with_retry x (CxPositions symbol (fu_params profile)))) (\<lambda>raw.
     io_return (case raw of
       VList rows \<Rightarrow> map_option (report_of x symbol) (List.find (position_row_matches x symbol) (dicts_in rows))
     | _ \<Rightarrow> None)))"

section \<open>Candles\<close>

text \<open>\<open>int(item[0])\<close>.\<close>

definition candle_time :: "pyval \<Rightarrow> ccxt_failure + int" where
  "candle_time item =
     (case item of
        VList (v # vs) \<Rightarrow> (case py_int v of Inr t \<Rightarrow> Inr t | Inl e \<Rightarrow> Inl (Raised ''int() argument''))
      | _ \<Rightarrow> Inl (Raised ''list index out of range''))"

text \<open>The rows of a batch from the start of the range on; true when a row after its end was met.\<close>

fun scan_batch :: "int \<Rightarrow> int option \<Rightarrow> pyval list \<Rightarrow> pyval list \<Rightarrow> ccxt_failure + bool \<times> pyval list" where
  "scan_batch since end [] rows = Inr (False, rows)"
| "scan_batch since end (item # items) rows =
     (case candle_time item of
        Inl e \<Rightarrow> Inl e
      | Inr t \<Rightarrow> if (case end of None \<Rightarrow> False | Some u \<Rightarrow> t > u) then Inr (True, rows)
                 else scan_batch since end items (if t \<ge> since then rows @ [item] else rows))"

definition fetch_batch :: "ccxt_env \<Rightarrow> ccxt_call \<Rightarrow> pyval list ccxt" where
  "fetch_batch x c =
     io_bind (call_with_retry x c) (\<lambda>v. if py_truth v then iterate v else io_return [])"

lemma scan_batch_grows:
  "scan_batch since end items rows = Inr (b, rows') \<Longrightarrow> length rows \<le> length rows'"
  by (induction since "end" items rows rule: scan_batch.induct) (fastforce split: sum.splits if_splits)+

lemma scan_batch_last:
  assumes "scan_batch since end items rows = Inr (False, rows')" and "items \<noteq> []"
    and "candle_time (last items) = Inr t" and "since \<le> t"
  shows "length rows < length rows'"
  using assms
proof (induction since "end" items rows rule: scan_batch.induct)
  case (2 since "end" item items rows)
  show ?case
  proof (cases "items = []")
    case True
    with 2 show ?thesis by (auto split: if_splits)
  next
    case False
    with 2(2,4) obtain t' where t': "candle_time item = Inr t'"
      "\<not> (case end of None \<Rightarrow> False | Some u \<Rightarrow> t' > u)"
      "scan_batch since end items (if t' \<ge> since then rows @ [item] else rows) = Inr (False, rows')"
      by (auto split: sum.splits if_splits)
    from 2(1) [OF t'(1,2,3) False _ 2(5)] 2(4) False
    have "length (if t' \<ge> since then rows @ [item] else rows) < length rows'" by simp
    then show ?thesis by (auto split: if_splits)
  qed
qed simp

lemma range_progress:
  assumes "scan_batch since end batch rows = Inr (False, rows')" and "batch \<noteq> []"
    and "candle_time (last batch) = Inr t" and "\<not> t + 1 \<le> cursor" and "\<not> limit \<le> int (length rows)"
  shows "nat (limit - int (length rows')) + nat (since - (t + 1)) < nat (limit - int (length rows)) + nat (since - cursor)"
proof (cases "since \<le> t")
  case True
  with scan_batch_last [OF assms(1-3)] assms(4,5) show ?thesis by auto
next
  case False
  with scan_batch_grows [OF assms(1)] assms(4,5) show ?thesis by auto
qed

text \<open>Every further request has a later start, or more rows than before: the loop ends whatever the
  exchange answers.\<close>

function range_loop ::
    "ccxt_env \<Rightarrow> (int \<Rightarrow> ccxt_call) \<Rightarrow> int \<Rightarrow> int option \<Rightarrow> int \<Rightarrow> pyval list \<Rightarrow> int \<Rightarrow> pyval list ccxt" where
  "range_loop x request since end limit rows cursor l =
     (if int (length rows) \<ge> limit then (Inr (take (nat limit) rows), l)
      else case fetch_batch x (request cursor) l of
        (Inl e, l') \<Rightarrow> (Inl e, l')
      | (Inr batch, l') \<Rightarrow>
          if batch = [] then (Inr (take (nat limit) rows), l')
          else (case scan_batch since end batch rows of
              Inl e \<Rightarrow> (Inl e, l')
            | Inr (over, rows') \<Rightarrow>
                if over then (Inr (take (nat limit) rows'), l')
                else (case candle_time (last batch) of
                    Inl e \<Rightarrow> (Inl e, l')
                  | Inr t \<Rightarrow> if t + 1 \<le> cursor then (Inr (take (nat limit) rows'), l')
                             else range_loop x request since end limit rows' (t + 1) l')))"
  by pat_completeness auto

termination
  by (relation "measure (\<lambda>(x, request, since, end, limit, rows, cursor, l).
        nat (limit - int (length rows)) + nat (since - cursor))")
     (auto simp del: nat_add_distrib intro: range_progress)

declare range_loop.simps [simp del]

definition fetch_ohlcv_range ::
    "ccxt_env \<Rightarrow> string \<Rightarrow> string \<Rightarrow> int \<Rightarrow> int option \<Rightarrow> int \<Rightarrow> pydict \<Rightarrow> pyval list ccxt" where
  "fetch_ohlcv_range x symbol timeframe since end limit params =
     range_loop x (\<lambda>cursor. CxOhlcv symbol timeframe (Some cursor) (min (max limit 1) 1000) params) since end limit [] since"

definition parse_time_ms :: "ccxt_env \<Rightarrow> string option \<Rightarrow> int option" where
  "parse_time_ms x t = (if given_text t then cx_parse_time x (or_empty t) else None)"

definition fetch_ohlcv ::
    "ccxt_env \<Rightarrow> string \<Rightarrow> string \<Rightarrow> int \<Rightarrow> bool \<Rightarrow> string option \<Rightarrow> string option \<Rightarrow> pyval ccxt" where
  "fetch_ohlcv x symbol timeframe bars futures start end =
     (let body = (\<lambda>params. case parse_time_ms x start of
                    Some since \<Rightarrow> io_bind (fetch_ohlcv_range x symbol timeframe since (parse_time_ms x end) bars params)
                                    (\<lambda>rows. io_return (VList rows))
                  | None \<Rightarrow> call_with_retry x (CxOhlcv symbol timeframe None bars params))
      in if futures then io_bind (ensure_futures_supported x) (\<lambda>profile. client x (fu_exchange_id profile) (body (fu_params profile)))
         else spot_client x (body []))"

end
