(* ===== verification/Ccxt_Safety.thy ===== *)
theory Ccxt_Safety
  imports Ccxt_Market
begin

text \<open>
  What the operations of the ccxt adapter send, whatever the exchange answers: how often a call is repeated,
  which orders a close and an entry create, what an order recovered by its client id is, which candles and
  which position are returned.
\<close>

lemma bind_okE:
  assumes "io_bind m k l = (Inr r, l')"
  obtains v l1 where "m l = (Inr v, l1)" and "k v l1 = (Inr r, l')"
  using assms by (cases rule: bindE) simp_all

section \<open>Repeated calls\<close>

definition retryable_answer :: "library_answer \<Rightarrow> bool" where
  "retryable_answer a = (case a of Returns v \<Rightarrow> False | Raises k m \<Rightarrow> sv_retryable (map_ccxt_error k m))"

definition answer_result :: "library_answer \<Rightarrow> ccxt_failure + pyval" where
  "answer_result a = (case a of Returns v \<Rightarrow> Inr v | Raises k m \<Rightarrow> Inl (Service (map_ccxt_error k m)))"

definition retried :: "nat \<Rightarrow> ccxt_call \<Rightarrow> ccxt_failure + pyval \<Rightarrow> ccxt_log \<Rightarrow> bool" where
  "retried n c r new \<longleftrightarrow> new \<noteq> [] \<and> length new \<le> n \<and> list_all (\<lambda>e. fst e = c) new
     \<and> list_all (retryable_answer \<circ> snd) (butlast new) \<and> r = answer_result (snd (last new))
     \<and> (retryable_answer (snd (last new)) \<longrightarrow> length new = n)"

lemma retry_loop_yields: "yields (retry_loop x c (Suc n)) (retried (Suc n) c)"
proof (induction n)
  case 0
  show ?case
    by (rule yieldsI) (auto simp: io_bind_def query_def io_return_def io_fail_def retried_def answer_result_def retryable_answer_def
      split: library_answer.splits)
next
  case (Suc n)
  show ?case
  proof (rule yieldsI)
    fix l r l'
    assume run: "retry_loop x c (Suc (Suc n)) l = (r, l')"
    let ?a = "cx_answer x l c"
    show "\<exists>new. l' = l @ new \<and> retried (Suc (Suc n)) c r new"
    proof (cases "retryable_answer ?a")
      case True
      with run [unfolded retry_loop.simps(2) [of x c "Suc n"]] have "retry_loop x c (Suc n) (l @ [(c, ?a)]) = (r, l')"
        by (auto simp: io_bind_def query_def retryable_answer_def simp del: retry_loop.simps split: library_answer.splits if_splits)
      from yieldsE [OF Suc.IH this] obtain new where "l' = (l @ [(c, ?a)]) @ new" "retried (Suc n) c r new" .
      with True show ?thesis by (intro exI [of _ "(c, ?a) # new"]) (auto simp: retried_def)
    next
      case False
      with run have "r = answer_result ?a" "l' = l @ [(c, ?a)]"
        by (auto simp: io_bind_def query_def io_fail_def io_return_def retryable_answer_def answer_result_def split: library_answer.splits if_splits)
      with False show ?thesis by (auto simp: retried_def)
    qed
  qed
qed

lemma retry_attempts_Suc: obtains n where "retry_attempts x = Suc n"
  by (cases "retry_attempts x") (auto simp: retry_attempts_def)

lemma yields_call: "yields (call_with_retry x c) (retried (retry_attempts x) c)"
proof -
  obtain n where "retry_attempts x = Suc n" by (rule retry_attempts_Suc)
  with retry_loop_yields show ?thesis by (simp add: call_with_retry_def del: retry_loop.simps)
qed

text \<open>A call is sent at least once and at most as often as configured; every answer but the last was a
  retryable failure; the last answer decides the result, and a retryable failure is only reported when no
  attempt is left.\<close>

theorem retry_policy_exact:
  "case call_with_retry x c l of (r, l') \<Rightarrow>
     \<exists>new. l' = l @ new \<and> 1 \<le> length new \<and> length new \<le> nat (max 1 (cx_max_retries x))
       \<and> list_all (\<lambda>e. fst e = c) new \<and> list_all (retryable_answer \<circ> snd) (butlast new)
       \<and> r = answer_result (snd (last new))
       \<and> (retryable_answer (snd (last new)) \<longrightarrow> length new = nat (max 1 (cx_max_retries x)))"
proof -
  obtain r l' where run: "call_with_retry x c l = (r, l')" by fastforce
  from yieldsE [OF yields_call run] obtain new where "l' = l @ new" "retried (retry_attempts x) c r new" .
  with run show ?thesis by (auto simp: retried_def retry_attempts_def Suc_le_eq)
qed

section \<open>Which calls an operation sends\<close>

lemma sends_call [send_rules]:
  assumes "ok c"
  shows "sends ok (call_with_retry x c)"
  unfolding sends_def
proof (rule yields_mono [OF yields_call])
  fix r new
  assume "retried (retry_attempts x) c r new"
  with assms show "list_all (ok \<circ> fst) new" by (auto simp: retried_def list_all_iff)
qed

lemma sends_answers [send_rules]:
  "sends ok (as_mapping v)" "sends ok (iterate v)" "sends ok (normalize_order x fb d)" "sends ok (ensure_futures_supported x)"
  "sends ok (normalize_trade x d)" "sends ok (info_time v)"
  by (auto simp: as_mapping_def iterate_def normalize_order_def ensure_futures_supported_def normalize_trade_def info_time_def Let_def
      intro!: send_rules split: pyval.split option.split)

lemma sends_convert [send_rules]: "(\<And>v. sends ok (f v)) \<Longrightarrow> sends ok (convert_all f vs)"
  by (induction vs) (auto intro!: send_rules)

lemma sends_client [send_rules]: "ok CxMarkets \<Longrightarrow> sends ok body \<Longrightarrow> sends ok (client x name body)"
  unfolding client_def configure_demo_mode_def by (auto intro!: send_rules split: ccxt_failure.split)

lemma sends_unless [send_rules]: "sends ok m \<Longrightarrow> sends ok (unless_service_error m)"
  unfolding unless_service_error_def by (auto intro!: send_rules split: ccxt_failure.split)

lemma sends_tolerate [send_rules]: "sends ok m \<Longrightarrow> sends ok (tolerate h m)"
  unfolding tolerate_def by (auto intro!: send_rules split: ccxt_failure.split)

lemma sends_find [send_rules]: "list_all ok cs \<Longrightarrow> sends ok (find_listed x p cs)"
  by (induction cs) (auto intro!: send_rules)


definition is_create :: "ccxt_call \<Rightarrow> bool" where
  "is_create c = (case c of CxCreate s t sd q p ps \<Rightarrow> True | _ \<Rightarrow> False)"

text \<open>How often an operation sends calls of a kind.\<close>

definition calls_at_most :: "(ccxt_call \<Rightarrow> bool) \<Rightarrow> nat \<Rightarrow> 'a ccxt \<Rightarrow> bool" where
  "calls_at_most p n m \<longleftrightarrow> yields m (\<lambda>r new. length (filter (p \<circ> fst) new) \<le> n)"

lemma calls_none: "sends (\<lambda>c. \<not> p c) m \<Longrightarrow> calls_at_most p 0 m"
  unfolding sends_def calls_at_most_def by (erule yields_mono) (auto simp: filter_empty_conv list_all_iff)

lemma calls_mono: "calls_at_most p n m \<Longrightarrow> n \<le> n' \<Longrightarrow> calls_at_most p n' m"
  unfolding calls_at_most_def by (erule yields_mono) simp

lemma calls_once: "calls_at_most p (retry_attempts x) (call_with_retry x c)"
  unfolding calls_at_most_def
  by (rule yields_mono [OF yields_call]) (auto simp: retried_def intro: order_trans [OF length_filter_le])

lemma calls_bind: "calls_at_most p a m \<Longrightarrow> (\<And>v. calls_at_most p b (k v)) \<Longrightarrow> calls_at_most p (a + b) (io_bind m k)"
  unfolding calls_at_most_def
  by (rule yields_bind [where \<phi> = "\<lambda>r new. length (filter (p \<circ> fst) new) \<le> a"
        and \<psi> = "\<lambda>_ r new. length (filter (p \<circ> fst) new) \<le> b"]) auto

lemma calls_handle: "calls_at_most p a m \<Longrightarrow> (\<And>e. calls_at_most p b (h e)) \<Longrightarrow> calls_at_most p (a + b) (io_handle m h)"
  unfolding calls_at_most_def
  by (rule yields_handle [where \<phi> = "\<lambda>r new. length (filter (p \<circ> fst) new) \<le> a"
        and \<psi> = "\<lambda>_ r new. length (filter (p \<circ> fst) new) \<le> b"]) auto

lemma sends_find_client_id [send_rules]:
  assumes "\<And>n. ok (CxOpenOrders (Some symbol) n)" and "\<And>n. ok (CxClosedOrders (Some symbol) n)"
  shows "sends ok (find_order_by_client_order_id x symbol coid)" "sends ok (find_order_by_id x symbol coid)"
  unfolding find_order_by_client_order_id_def find_order_by_id_def using assms by (auto intro!: send_rules)

lemma sends_create [send_rules]:
  assumes "ok (CxCreate symbol otype side amount price params)"
    and "\<And>n. ok (CxOpenOrders (Some symbol) n)" and "\<And>n. ok (CxClosedOrders (Some symbol) n)"
  shows "sends ok (create_order_with_idempotency x symbol otype side amount price params coid)"
  unfolding create_order_with_idempotency_def using assms by (auto intro!: send_rules split: ccxt_failure.split option.split)

lemma creates_create: "calls_at_most is_create (retry_attempts x) (create_order_with_idempotency x symbol otype side amount price params coid)"
proof -
  have "calls_at_most is_create (retry_attempts x + 0) (create_order_with_idempotency x symbol otype side amount price params coid)"
    unfolding create_order_with_idempotency_def
    by (rule calls_handle [OF calls_once], rule calls_none)
       (auto intro!: send_rules simp: is_create_def split: ccxt_failure.split option.split)
  then show ?thesis by simp
qed

section \<open>Reduce-only closes\<close>

text \<open>The only order a close may create.\<close>

definition closing_create :: "string \<Rightarrow> order_side \<Rightarrow> real \<Rightarrow> string option \<Rightarrow> ccxt_call \<Rightarrow> bool" where
  "closing_create symbol side amount coid c =
     (case c of
        CxCreate s t sd q p ps \<Rightarrow> s = symbol \<and> t = ''market'' \<and> sd = side \<and> q = amount \<and> p = None
          \<and> get_none ps ''reduceOnly'' = VBool True
          \<and> (given_text coid \<longrightarrow> get_none ps ''clientOrderId'' = VStr (or_empty coid))
      | CxCancel oid s \<Rightarrow> False
      | CxLeverage n s ps \<Rightarrow> False
      | _ \<Rightarrow> True)"

lemma closing_params:
  assumes "base \<in> {[], [(''category'', VStr ''linear'')]}"
  shows "get_none (futures_order_params x base ro coid tp sl) ''reduceOnly'' = VBool ro"
    and "given_text coid \<Longrightarrow> get_none (futures_order_params x base ro coid tp sl) ''clientOrderId'' = VStr (or_empty coid)"
  using assms by (auto simp: futures_order_params_def)

lemma futures_profile_params:
  assumes "fst (ensure_futures_supported x l) = Inr f"
  shows "fu_params f \<in> {[], [(''category'', VStr ''linear'')]}"
  using assms by (auto simp: ensure_futures_supported_def io_return_def io_fail_def split: if_splits)

lemma bind_supported:
  assumes "\<And>f. fu_params f \<in> {[], [(''category'', VStr ''linear'')]} \<Longrightarrow> yields (k f) \<phi>" and "\<And>e. \<phi> (Inl e) []"
  shows "yields (io_bind (ensure_futures_supported x) k) \<phi>"
proof (cases "cx_exchange x \<in> {''bybit'', ''binance''}")
  case True
  with assms(1) show ?thesis by (auto simp: ensure_futures_supported_def)
next
  case False
  then have refused: "io_bind (ensure_futures_supported x) k
      = io_fail (service ''unsupported_exchange'' ''Auto-trade futures v1 supports Bybit and Binance USDT-M only.'')"
    by (simp add: ensure_futures_supported_def)
  show ?thesis unfolding refused by (rule yields_simple(2)) (rule assms(2))
qed

lemma sends_margin [send_rules]:
  assumes "\<And>ps. ok (CxMarginMode symbol ps)"
  shows "sends ok (ensure_bybit_isolated_margin x symbol n)" "sends ok (ensure_binance_isolated_margin x symbol)"
  unfolding ensure_bybit_isolated_margin_def ensure_binance_isolated_margin_def using assms by (auto intro!: send_rules)

lemma calls_client:
  assumes "calls_at_most p n body" and "\<not> p CxMarkets"
  shows "calls_at_most p n (client x name body)"
proof -
  have "calls_at_most p (0 + n) (io_bind (call_with_retry x CxMarkets) (\<lambda>_. body))"
    by (rule calls_bind [OF calls_none assms(1)]) (auto intro!: send_rules simp: assms(2))
  then have "calls_at_most p (0 + n + 0) (io_handle (io_bind (call_with_retry x CxMarkets) (\<lambda>_. body))
      (\<lambda>e. case e of Service s \<Rightarrow> io_fail e | Raised m \<Rightarrow> io_fail (Service (map_ccxt_error OtherClass m))))"
    by (rule calls_handle) (auto intro!: calls_none send_rules split: ccxt_failure.split)
  then have guarded: "calls_at_most p (0 + n) (io_bind (if cx_demo x then configure_demo_mode x name else io_return ()) (\<lambda>_.
      io_handle (io_bind (call_with_retry x CxMarkets) (\<lambda>_. body))
      (\<lambda>e. case e of Service s \<Rightarrow> io_fail e | Raised m \<Rightarrow> io_fail (Service (map_ccxt_error OtherClass m)))))"
    by (intro calls_bind) (auto intro!: calls_none send_rules simp: configure_demo_mode_def)
  show ?thesis
  proof (cases "cx_known x name")
    case True
    with guarded show ?thesis by (simp add: client_def)
  next
    case False
    then show ?thesis by (auto simp: client_def intro!: calls_mono [OF calls_none] send_rules)
  qed
qed

text \<open>C35: A reduce-only close creates no order but the close itself, for the given amount, on the given side,
  reduce-only, always under the same client id, and at most as often as attempts are configured; it cancels
  nothing and changes no leverage.\<close>

theorem reduce_only_close_sound:
  "case close_futures_market_reduce_only x symbol side amount coid l of (r, l') \<Rightarrow>
     \<exists>new. l' = l @ new \<and> list_all (closing_create symbol side amount coid \<circ> fst) new
       \<and> length (filter (is_create \<circ> fst) new) \<le> nat (max 1 (cx_max_retries x))"
proof -
  let ?body = "\<lambda>f. io_bind (if fu_isolated f then ensure_bybit_isolated_margin x symbol None else io_return ()) (\<lambda>_.
      io_bind (create_order_with_idempotency x symbol ''market'' side amount None (futures_order_params x (fu_params f) True coid None None) coid)
        (\<lambda>raw. io_bind (as_mapping raw) (normalize_order x (entry_fallback symbol side ''market'' amount None))))"
  have shape: "close_futures_market_reduce_only x symbol side amount coid
      = io_bind (ensure_futures_supported x) (\<lambda>f. client x (fu_exchange_id f) (?body f))"
    by (simp add: close_futures_market_reduce_only_def place_futures_market_order_def)
  have "yields (client x (fu_exchange_id f) (?body f)) (\<lambda>r new. list_all (closing_create symbol side amount coid \<circ> fst) new
      \<and> length (filter (is_create \<circ> fst) new) \<le> retry_attempts x)"
    if "fu_params f \<in> {[], [(''category'', VStr ''linear'')]}" for f
  proof (rule yields_both)
    have "sends (closing_create symbol side amount coid) (client x (fu_exchange_id f) (?body f))"
      using closing_params [OF that] by (auto intro!: send_rules simp: closing_create_def)
    then show "yields (client x (fu_exchange_id f) (?body f)) (\<lambda>r new. list_all (closing_create symbol side amount coid \<circ> fst) new)"
      by (simp add: sends_def)
    have "calls_at_most is_create (0 + (retry_attempts x + 0)) (?body f)"
      by (intro calls_bind creates_create) (auto intro!: calls_none send_rules simp: is_create_def)
    then show "yields (client x (fu_exchange_id f) (?body f)) (\<lambda>r new. length (filter (is_create \<circ> fst) new) \<le> retry_attempts x)"
      using calls_client [of is_create "retry_attempts x" "?body f" x "fu_exchange_id f"] by (simp add: calls_at_most_def is_create_def)
  qed
  then have yielded: "yields (close_futures_market_reduce_only x symbol side amount coid) (\<lambda>r new.
      list_all (closing_create symbol side amount coid \<circ> fst) new \<and> length (filter (is_create \<circ> fst) new) \<le> retry_attempts x)"
    unfolding shape by (rule bind_supported) simp_all
  obtain r l' where run: "close_futures_market_reduce_only x symbol side amount coid l = (r, l')" by fastforce
  from yieldsE [OF yielded run] run show ?thesis by (auto simp: retry_attempts_def)
qed

section \<open>Orders found again\<close>

lemma yields_trivial: "sends (\<lambda>c. True) m \<Longrightarrow> yields m (\<lambda>r new. True)"
  unfolding sends_def by (erule yields_mono) simp

lemma yields_unless:
  assumes "yields m \<phi>"
  shows "yields (unless_service_error m) (\<lambda>r new. case r of
      Inr (Some v) \<Rightarrow> \<phi> (Inr v) new | Inr None \<Rightarrow> \<exists>s. \<phi> (Inl (Service s)) new | Inl e \<Rightarrow> \<phi> (Inl e) new)"
proof (rule yieldsI)
  fix l r l'
  assume run: "unless_service_error m l = (r, l')"
  obtain r1 l1 where m: "m l = (r1, l1)" by fastforce
  from assms m obtain new where "l1 = l @ new" "\<phi> r1 new" by (rule yieldsE)
  with run m show "\<exists>new. l' = l @ new \<and> (case r of
      Inr (Some v) \<Rightarrow> \<phi> (Inr v) new | Inr None \<Rightarrow> \<exists>s. \<phi> (Inl (Service s)) new | Inl e \<Rightarrow> \<phi> (Inl e) new)"
  proof (cases r1)
    case (Inl e)
    with run m \<open>l1 = l @ new\<close> \<open>\<phi> r1 new\<close> show ?thesis
      by (cases e) (auto simp: unless_service_error_def io_handle_def io_bind_def io_return_def io_fail_def)
  next
    case (Inr v)
    with run m \<open>l1 = l @ new\<close> \<open>\<phi> r1 new\<close> show ?thesis
      by (auto simp: unless_service_error_def io_handle_def io_bind_def io_return_def)
  qed
qed

text \<open>An order is listed in the answer to a call of the log.\<close>

definition listed_in :: "ccxt_log \<Rightarrow> ccxt_call list \<Rightarrow> pydict \<Rightarrow> bool" where
  "listed_in new cs d \<longleftrightarrow> (\<exists>c vs. c \<in> set cs \<and> (c, Returns (VList vs)) \<in> set new \<and> VDict d \<in> set vs)"

lemma iterate_rows:
  assumes "iterate v l = (r, l')"
  shows "l' = l" and "r = Inr rows \<Longrightarrow> v = VList rows \<or> dicts_in rows = []"
proof -
  show "l' = l" using assms by (cases v) (auto simp: iterate_def io_return_def io_fail_def)
  show "v = VList rows \<or> dicts_in rows = []" if "r = Inr rows"
    using assms that by (cases v) (auto simp: iterate_def io_return_def io_fail_def dicts_in_def map_filter_def filter_empty_conv)
qed

lemma dicts_in_mem [simp]: "d \<in> set (dicts_in rows) \<longleftrightarrow> VDict d \<in> set rows"
proof (induction rows)
  case (Cons v rows)
  then show ?case by (cases v) (auto simp: dicts_in_def map_filter_def)
qed (simp add: dicts_in_def map_filter_def)

lemma retried_answer:
  assumes "retried n c (Inr v) new"
  shows "(c, Returns v) \<in> set new"
proof -
  from assms have "new \<noteq> []" "fst (last new) = c" "snd (last new) = Returns v"
    by (auto simp: retried_def list_all_iff answer_result_def split: library_answer.splits)
  then show ?thesis by (metis last_in_set prod.collapse)
qed

lemma listed_row:
  assumes "retried n c (Inr v) new" and "iterate v l = (Inr rows, l')" and "List.find p (dicts_in rows) = Some d"
  shows "p d" and "listed_in new (c # cs) d"
proof -
  from assms(3) have found: "p d" "d \<in> set (dicts_in rows)" unfolding find_Some_iff by (blast, metis nth_mem)
  then show "p d" by simp
  from iterate_rows(2) [OF assms(2) refl] found(2) have "v = VList rows" by force
  with retried_answer [OF assms(1)] have "(c, Returns (VList rows)) \<in> set new" by simp
  moreover from found(2) have "VDict d \<in> set rows" by simp
  ultimately show "listed_in new (c # cs) d" unfolding listed_in_def by auto
qed

lemma listed_later: "listed_in n cs d \<Longrightarrow> listed_in (n' @ n) (c # cs) d"
  unfolding listed_in_def by auto

lemma find_listed_yields:
  "yields (find_listed x p cs) (\<lambda>r new. \<forall>d. r = Inr (Some d) \<longrightarrow> p d \<and> listed_in new cs d)"
proof (induction cs)
  case Nil
  then show ?case by (simp add: yields_simple)
next
  case (Cons c cs)
  let ?found = "\<lambda>r new. \<forall>d. r = Inr (Some d) \<longrightarrow> p d \<and> listed_in new (c # cs) d"
  show ?case
  proof (rule yieldsI)
    fix l r l'
    assume "find_listed x p (c # cs) l = (r, l')"
    then have run: "io_bind (unless_service_error (call_with_retry x c)) (\<lambda>o'. case o' of
         None \<Rightarrow> find_listed x p cs
       | Some v \<Rightarrow> io_bind (iterate v) (\<lambda>rows. case List.find p (dicts_in rows) of
           Some d \<Rightarrow> io_return (Some d)
         | None \<Rightarrow> find_listed x p cs)) l = (r, l')"
      by (simp only: find_listed.simps)
    have rest: "\<exists>new. l' = l @ new \<and> ?found r new" if "l1 = l @ n1" "find_listed x p cs l1 = (r, l')" for n1 l1
    proof -
      from yieldsE [OF Cons.IH that(2)] obtain n2 where "l' = l1 @ n2" "\<forall>d. r = Inr (Some d) \<longrightarrow> p d \<and> listed_in n2 cs d" .
      with that(1) listed_later show ?thesis by (intro exI [of _ "n1 @ n2"]) simp
    qed
    from run show "\<exists>new. l' = l @ new \<and> ?found r new"
    proof (cases rule: bindE)
      case (1 e)
      from yieldsE [OF yields_unless [OF yields_call] 1(1)] obtain n1 where "l' = l @ n1" by blast
      with 1 show ?thesis by simp
    next
      case (2 o' l1)
      from yieldsE [OF yields_unless [OF yields_call] 2(1)] obtain n1 where "l1 = l @ n1"
        "case Inr o' of Inr (Some v) \<Rightarrow> retried (retry_attempts x) c (Inr v) n1
          | Inr None \<Rightarrow> \<exists>s. retried (retry_attempts x) c (Inl (Service s)) n1 | Inl e \<Rightarrow> retried (retry_attempts x) c (Inl e) n1" .
      then have n1: "l1 = l @ n1" "\<forall>v. o' = Some v \<longrightarrow> retried (retry_attempts x) c (Inr v) n1" by (auto split: option.splits)
      show ?thesis
      proof (cases o')
        case None
        with 2(2) n1(1) rest show ?thesis by simp
      next
        case (Some v)
        with 2(2) have "io_bind (iterate v) (\<lambda>rows. case List.find p (dicts_in rows) of
           Some d \<Rightarrow> io_return (Some d) | None \<Rightarrow> find_listed x p cs) l1 = (r, l')" by simp
        then show ?thesis
        proof (cases rule: bindE)
          case (1 e)
          with iterate_rows(1) [OF 1(1)] n1(1) show ?thesis by simp
        next
          case inner: (2 rows l2)
          with iterate_rows(1) have l2: "l2 = l1" by blast
          show ?thesis
          proof (cases "List.find p (dicts_in rows)")
            case None
            with inner(2) l2 n1(1) rest show ?thesis by simp
          next
            case (Some d)
            with inner(2) l2 have "r = Inr (Some d)" "l' = l1" by (auto simp: io_return_def)
            with listed_row [OF _ inner(1) Some] n1 \<open>o' = Some v\<close> show ?thesis by (intro exI [of _ n1]) simp
          qed
        qed
      qed
    qed
  qed
qed

text \<open>What an order creation returns is the answer of the exchange to this very order, or an order the
  exchange lists, open or closed, under the client id of this order.\<close>

theorem created_order_is_ours:
  assumes "create_order_with_idempotency x symbol otype side amount price params coid l = (Inr v, l')"
  shows "\<exists>new. l' = l @ new
    \<and> ((CxCreate symbol otype side amount price params, Returns v) \<in> set new
       \<or> (\<exists>d. v = VDict d \<and> given_text coid \<and> listed_client_id d = coid
            \<and> listed_in new [CxOpenOrders (Some symbol) 200, CxClosedOrders (Some symbol) 200] d))"
proof -
  let ?c = "CxCreate symbol otype side amount price params"
  obtain r1 l1 where first: "call_with_retry x ?c l = (r1, l1)" by fastforce
  from yieldsE [OF yields_call first] obtain n1 where n1: "l1 = l @ n1" "retried (retry_attempts x) ?c r1 n1" .
  show ?thesis
  proof (cases r1)
    case (Inr w)
    with assms first have "w = v" "l' = l1" by (auto simp: create_order_with_idempotency_def io_handle_def)
    with n1 Inr retried_answer show ?thesis by blast
  next
    case (Inl e)
    then obtain s where e: "e = Service s" using n1 by (auto simp: retried_def answer_result_def split: library_answer.splits)
    with assms first Inl have handled: "(if given_text coid \<and> (looks_like_duplicate_id_error (sv_message s) \<or> sv_retryable s)
         then io_bind (find_order_by_client_order_id x symbol (or_empty coid)) (\<lambda>r. case r of
                Some d \<Rightarrow> io_return (VDict d) | None \<Rightarrow> io_fail (Service s))
         else io_fail (Service s)) l1 = (Inr v, l')"
      by (simp add: create_order_with_idempotency_def io_handle_def)
    then have given: "given_text coid" by (auto simp: io_fail_def split: if_splits)
    from handled have "io_bind (find_order_by_client_order_id x symbol (or_empty coid)) (\<lambda>r. case r of
                Some d \<Rightarrow> io_return (VDict d) | None \<Rightarrow> io_fail (Service s)) l1 = (Inr v, l')"
      by (auto simp: io_fail_def split: if_splits)
    then obtain d where found: "find_order_by_client_order_id x symbol (or_empty coid) l1 = (Inr (Some d), l')" "v = VDict d"
      by (cases rule: bindE) (auto simp: io_return_def io_fail_def split: option.splits)
    from yieldsE [OF find_listed_yields found(1) [unfolded find_order_by_client_order_id_def]] obtain n2 where "l' = l1 @ n2"
      "\<forall>d'. (Inr (Some d) :: ccxt_failure + pydict option) = Inr (Some d') \<longrightarrow> listed_client_id d' = Some (or_empty coid)
         \<and> listed_in n2 [CxOpenOrders (Some symbol) 200, CxClosedOrders (Some symbol) 200] d'" .
    then have n2: "l' = l1 @ n2" "listed_client_id d = Some (or_empty coid)"
      "listed_in n2 [CxOpenOrders (Some symbol) 200, CxClosedOrders (Some symbol) 200] d" by simp_all
    from given have "Some (or_empty coid) = coid" by (auto simp: given_text_def or_empty_def)
    with n1 n2 found given show ?thesis
      by (intro exI [of _ "n1 @ n2"]) (auto simp: listed_in_def)
  qed
qed

section \<open>How much of an entry counts as executed\<close>

text \<open>The executed quantity taken for an entry is never nothing; when the exchange reports nothing executed
  and lists no trade of the order, it is the whole amount.\<close>

theorem unreported_fill_counts_in_full:
  assumes "resolve_filled_amount_fast x symbol entry l = (Inr q, l')" and "0 < po_amount entry"
  shows "0 < q \<and> (max (po_filled entry) (po_amount entry - po_remaining entry) \<le> 0
      \<and> (\<forall>(c, a) \<in> set (drop (length l) l'). \<forall>vs d. a = Returns (VList vs) \<and> VDict d \<in> set vs
            \<longrightarrow> py_str (cx_repr x) (get_none d ''order'') \<noteq> po_id entry) \<longrightarrow> q = po_amount entry)"
proof (cases "0 < max (po_filled entry) (max (po_amount entry - po_remaining entry) 0)")
  case True
  with assms show ?thesis by (auto simp: resolve_filled_amount_fast_def Let_def io_return_def split: if_splits)
next
  case False
  let ?c = "CxTrades (Some symbol) None 100 []"
  let ?total = "\<lambda>rows. trade_total (trades_of_order x (po_id entry) rows) ''amount''"
  obtain r1 l1 where first: "unless_service_error (call_with_retry x ?c) l = (r1, l1)" by fastforce
  from yieldsE [OF yields_unless [OF yields_call] first] obtain n1 where n1: "l1 = l @ n1"
      "case r1 of Inr (Some v) \<Rightarrow> retried (retry_attempts x) ?c (Inr v) n1
        | Inr None \<Rightarrow> \<exists>s. retried (retry_attempts x) ?c (Inl (Service s)) n1 | Inl e \<Rightarrow> retried (retry_attempts x) ?c (Inl e) n1" .
  from assms(2) have fallback: "(if 0 < po_amount entry then po_amount entry else 0) = po_amount entry" by simp
  from False assms(1) have run: "io_bind (unless_service_error (call_with_retry x ?c)) (\<lambda>o'. case o' of
        None \<Rightarrow> io_return (po_amount entry)
      | Some v \<Rightarrow> io_bind (iterate v) (\<lambda>rows.
          io_return (if ?total rows > 0 then ?total rows else po_amount entry))) l = (Inr q, l')"
    by (simp add: resolve_filled_amount_fast_def Let_def fallback)
  have "(r1 = Inr None \<and> q = po_amount entry) \<or> (\<exists>v rows. r1 = Inr (Some v) \<and> iterate v l1 = (Inr rows, l') \<and> l' = l1
        \<and> q = (if ?total rows > 0 then ?total rows else po_amount entry))"
    using run
  proof (cases rule: bindE)
    case (2 o' l2)
    show ?thesis
    proof (cases o')
      case None
      with 2 first show ?thesis by (simp add: io_return_def)
    next
      case (Some v)
      with 2(2) have "io_bind (iterate v) (\<lambda>rows.
          io_return (if ?total rows > 0 then ?total rows else po_amount entry)) l2 = (Inr q, l')" by simp
      then show ?thesis
      proof (cases rule: bindE)
        case inner: (2 rows l3)
        with iterate_rows(1) [OF inner(1)] 2(1) Some first show ?thesis
          by (auto simp: Let_def io_return_def split: if_splits)
      qed simp
    qed
  qed simp
  then consider (none) "r1 = Inr None" "q = po_amount entry"
    | (rows) v rows where "r1 = Inr (Some v)" "iterate v l1 = (Inr rows, l')" "l' = l1"
        "q = (if ?total rows > 0 then ?total rows else po_amount entry)"
    by blast
  then show ?thesis
  proof cases
    case none
    with assms(2) show ?thesis by simp
  next
    case rows
    have "q = po_amount entry"
      if quiet: "\<forall>(c, a) \<in> set (drop (length l) l'). \<forall>vs d. a = Returns (VList vs) \<and> VDict d \<in> set vs
            \<longrightarrow> py_str (cx_repr x) (get_none d ''order'') \<noteq> po_id entry"
    proof -
      from n1 rows retried_answer have last: "(?c, Returns v) \<in> set (drop (length l) l')" by simp
      have "trades_of_order x (po_id entry) rows = []"
      proof (cases "v = VList rows")
        case True
        with quiet last show ?thesis
          by (fastforce simp: trades_of_order_def filter_empty_conv)
      next
        case False
        with iterate_rows(2) [OF rows(2) refl] have "dicts_in rows = []" by simp
        then show ?thesis by (simp add: trades_of_order_def)
      qed
      with rows(4) show ?thesis by (simp add: trade_total_def)
    qed
    with rows(4) assms(2) show ?thesis by (auto simp: Let_def)
  qed
qed

section \<open>Candles and positions\<close>

lemma client_returns:
  "yields (client x name (call_with_retry x c)) (\<lambda>r new. \<forall>v. r = Inr v \<longrightarrow> (\<exists>c. (c, Returns v) \<in> set new))"
proof (rule yieldsI)
  fix l r l'
  assume run: "client x name (call_with_retry x c) l = (r, l')"
  have "sends (\<lambda>c. True) (client x name (call_with_retry x c))" by (intro send_rules) simp_all
  from yieldsE [OF this [unfolded sends_def] run] obtain new where new: "l' = l @ new" .
  show "\<exists>new. l' = l @ new \<and> (\<forall>v. r = Inr v \<longrightarrow> (\<exists>c. (c, Returns v) \<in> set new))"
  proof (cases r)
    case (Inl e)
    with new show ?thesis by simp
  next
    case (Inr v)
    with run obtain l0 where "io_handle (io_bind (call_with_retry x CxMarkets) (\<lambda>_. call_with_retry x c)) (\<lambda>e. case e of
          Service s \<Rightarrow> io_fail e | Raised m \<Rightarrow> io_fail (Service (map_ccxt_error OtherClass m))) l0 = (Inr v, l')" "l0 = l"
      by (auto simp: client_def configure_demo_mode_def io_fail_def io_bind_def io_return_def split: if_splits)
    then have "io_bind (call_with_retry x CxMarkets) (\<lambda>_. call_with_retry x c) l = (Inr v, l')"
      by (auto elim!: handleE simp: io_fail_def split: ccxt_failure.splits)
    then obtain m l1 where "call_with_retry x CxMarkets l = (Inr m, l1)" "call_with_retry x c l1 = (Inr v, l')" by (cases rule: bindE) auto
    with yieldsE [OF yields_call this(1)] yieldsE [OF yields_call this(2)] retried_answer obtain n1 n2
      where "l1 = l @ n1" "l' = l1 @ n2" "(c, Returns v) \<in> set n2" by metis
    with Inr show ?thesis by (intro exI [of _ "n1 @ n2"]) auto
  qed
qed

definition in_range :: "int \<Rightarrow> int option \<Rightarrow> pyval \<Rightarrow> bool" where
  "in_range since end item \<longleftrightarrow> (\<exists>t. candle_time item = Inr t \<and> since \<le> t \<and> (\<forall>u. end = Some u \<longrightarrow> t \<le> u))"

lemma scan_batch_sound:
  assumes "scan_batch since end items rows = Inr (b, rows')" and "list_all (in_range since end) rows"
  shows "list_all (in_range since end) rows'"
  using assms
  by (induction since "end" items rows rule: scan_batch.induct)
     (auto simp: in_range_def split: sum.splits if_splits option.splits)

text \<open>The starts of the candle requests sent; a repeated attempt counts once.\<close>

definition candle_starts :: "ccxt_log \<Rightarrow> ccxt_call set" where
  "candle_starts new = fst ` set new"

lemma batch_calls: "yields (fetch_batch x c) (\<lambda>r new. candle_starts new = {c} \<and> length new \<le> retry_attempts x)"
proof (rule yieldsI)
  fix l r l'
  assume "fetch_batch x c l = (r, l')"
  then have run: "io_bind (call_with_retry x c) (\<lambda>v. if py_truth v then iterate v else io_return []) l = (r, l')"
    by (simp add: fetch_batch_def)
  have once: "candle_starts new = {c} \<and> length new \<le> retry_attempts x" if "retried (retry_attempts x) c r1 new" for r1 new
    using that by (cases new) (auto simp: retried_def candle_starts_def list_all_iff)
  from run show "\<exists>new. l' = l @ new \<and> candle_starts new = {c} \<and> length new \<le> retry_attempts x"
  proof (cases rule: bindE)
    case (1 e)
    from yieldsE [OF yields_call 1(1)] once show ?thesis by metis
  next
    case (2 v l1)
    from 2(2) iterate_rows(1) have "l' = l1" by (auto simp: io_return_def split: if_splits)
    with yieldsE [OF yields_call 2(1)] once show ?thesis by metis
  qed
qed

lemma range_loop_sound:
  assumes "range_loop x request since end limit rows cursor l = (r, l')" and "list_all (in_range since end) rows" and "since \<le> cursor"
  shows "\<exists>new. l' = l @ new \<and> length new \<le> nat (limit - int (length rows)) * retry_attempts x
    \<and> (\<forall>out. r = Inr out \<longrightarrow> list_all (in_range since end) out \<and> int (length out) \<le> max limit 0)"
  using assms
proof (induction x request since "end" limit rows cursor l rule: range_loop.induct)
  case (1 x request since "end" limit rows cursor l)
  have cut: "list_all (in_range since end) (take (nat limit) out) \<and> int (length (take (nat limit) out)) \<le> max limit 0"
    if "list_all (in_range since end) out" for out
    using that by (auto simp: list_all_iff dest: in_set_takeD)
  show ?case
  proof (cases "limit \<le> int (length rows)")
    case True
    with 1(2) have "r = Inr (take (nat limit) rows)" "l' = l" by (auto simp: range_loop.simps)
    with cut [OF 1(3)] show ?thesis by (simp del: length_take)
  next
    case more: False
    obtain r1 l1 where batch: "fetch_batch x (request cursor) l = (r1, l1)" by fastforce
    from yieldsE [OF batch_calls batch] obtain n1 where n1: "l1 = l @ n1" "length n1 \<le> retry_attempts x" by blast
    from more have one: "retry_attempts x \<le> nat (limit - int (length rows)) * retry_attempts x"
      by (metis le_eq_less_or_eq mult_le_mono1 nat_mult_1 not_le zero_less_diff zero_less_nat_eq Suc_leI One_nat_def diff_gt_0_iff_gt)
    note unfolded = 1(2) [unfolded range_loop.simps [of x request since "end" limit rows cursor l]]
    show ?thesis
    proof (cases "\<exists>bs rows' t. r1 = Inr bs \<and> bs \<noteq> [] \<and> scan_batch since end bs rows = Inr (False, rows')
        \<and> candle_time (last bs) = Inr t \<and> \<not> t + 1 \<le> cursor")
      case True
      then obtain bs rows' t where next': "r1 = Inr bs" "bs \<noteq> []" "scan_batch since end bs rows = Inr (False, rows')"
        "candle_time (last bs) = Inr t" "\<not> t + 1 \<le> cursor" by blast
      with unfolded batch more have rec: "range_loop x request since end limit rows' (t + 1) l1 = (r, l')" by simp
      have continued: "\<not> False" by simp
      from next'(5) 1(4) have later: "since \<le> t + 1" "since \<le> t" by auto
      from 1(1) [OF more batch [symmetric] next'(1) next'(2) next'(3) refl continued next'(4,5) rec scan_batch_sound [OF next'(3) 1(3)] later(1)]
      obtain n2 where n2: "l' = l1 @ n2" "length n2 \<le> nat (limit - int (length rows')) * retry_attempts x"
        "\<forall>out. r = Inr out \<longrightarrow> list_all (in_range since end) out \<and> int (length out) \<le> max limit 0" by blast
      from scan_batch_last [OF next'(3,2,4) later(2)] more
      have "Suc (nat (limit - int (length rows'))) \<le> nat (limit - int (length rows))" by auto
      then have "Suc (nat (limit - int (length rows'))) * retry_attempts x \<le> nat (limit - int (length rows)) * retry_attempts x"
        by (rule mult_le_mono1)
      with n1 n2 show ?thesis by (intro exI [of _ "n1 @ n2"]) auto
    next
      case False
      with unfolded batch more have "l' = l1 \<and> (\<forall>out. r = Inr out \<longrightarrow> (\<exists>rows'. out = take (nat limit) rows'
          \<and> (rows' = rows \<or> (\<exists>bs b. scan_batch since end bs rows = Inr (b, rows')))))"
        by (auto simp del: take_all take_all_iff split: sum.splits if_splits)
      with cut scan_batch_sound 1(3) n1 one show ?thesis by (intro exI [of _ n1]) (auto intro: order_trans)
    qed
  qed
qed

text \<open>C31: Reading a range of candles ends whatever the exchange answers: it sends at most one request, with its
  attempts, for each candle asked for; all candles returned lie in the range and there are at most as many
  as asked for.\<close>

theorem candle_range_terminates:
  "case fetch_ohlcv_range x symbol timeframe since until limit params l of (r, l') \<Rightarrow>
     \<exists>new. l' = l @ new \<and> length new \<le> nat limit * nat (max 1 (cx_max_retries x))
       \<and> (\<forall>out. r = Inr out \<longrightarrow> list_all (in_range since until) out \<and> int (length out) \<le> max limit 0)"
proof -
  obtain r l' where run: "fetch_ohlcv_range x symbol timeframe since until limit params l = (r, l')" by fastforce
  from range_loop_sound [OF run [unfolded fetch_ohlcv_range_def]] run show ?thesis by (auto simp: retry_attempts_def)
qed

text \<open>A reported futures position is one the exchange listed for this symbol (or without a symbol), of a
  positive size and a definite side.\<close>

theorem position_report_sound:
  assumes "fetch_futures_position x symbol l = (Inr (Some p), l')"
  shows "pr_symbol p = symbol \<and> 0 < pr_contracts p \<and> pr_side p \<in> {''long'', ''short''}
    \<and> (\<exists>c vs. (c, Returns (VList vs)) \<in> set (drop (length l) l') \<and> VDict (pr_raw p) \<in> set vs)"
proof -
  from assms obtain f l1 where 1: "io_bind (client x (fu_exchange_id f) (call_with_retry x (CxPositions symbol (fu_params f)))) (\<lambda>raw.
     io_return (case raw of
       VList rows \<Rightarrow> map_option (report_of x symbol) (List.find (position_row_matches x symbol) (dicts_in rows))
     | _ \<Rightarrow> None)) l1 = (Inr (Some p), l')" and l1: "ensure_futures_supported x l = (Inr f, l1)"
    unfolding fetch_futures_position_def by (cases rule: bindE) auto
  from 1 obtain raw where raw: "client x (fu_exchange_id f) (call_with_retry x (CxPositions symbol (fu_params f))) l1 = (Inr raw, l')"
    "(case raw of VList rows \<Rightarrow> map_option (report_of x symbol) (List.find (position_row_matches x symbol) (dicts_in rows)) | _ \<Rightarrow> None) = Some p"
    by (cases rule: bindE) (auto simp: io_return_def)
  then obtain rows row where rows: "raw = VList rows" "position_row_matches x symbol row" "VDict row \<in> set rows" "p = report_of x symbol row"
    by (cases raw) (auto simp: find_Some_iff, metis dicts_in_mem nth_mem)
  from l1 have same: "l1 = l" by (auto simp: ensure_futures_supported_def io_return_def io_fail_def split: if_splits)
  have "normalize_futures_side x v \<in> {''long'', ''short'', ''flat''}" for v by (auto simp: normalize_futures_side_def Let_def)
  then have "row_side x row \<noteq> ''flat'' \<Longrightarrow> row_side x row \<in> {''long'', ''short''}" unfolding row_side_def by blast
  with rows(2,4) have fields: "pr_symbol p = symbol \<and> 0 < pr_contracts p \<and> pr_side p \<in> {''long'', ''short''} \<and> pr_raw p = row"
    by (auto simp: report_of_def position_row_matches_def Let_def)
  from yieldsE [OF client_returns raw(1)] obtain new where new: "l' = l1 @ new"
    "\<forall>v. (Inr raw :: ccxt_failure + pyval) = Inr v \<longrightarrow> (\<exists>c. (c, Returns v) \<in> set new)" .
  then obtain c where "(c, Returns raw) \<in> set new" by blast
  with new(1) same rows fields show ?thesis by auto
qed

end
