(* ===== verification/Ccxt_Entries.thy ===== *)
theory Ccxt_Entries
  imports Ccxt_Safety
begin

text \<open>
  Entries and their brackets through the ccxt adapter: which orders an entry creates, what happens when a
  bracket is refused, and a close that is held up by the margin mode.
\<close>

section \<open>The orders of an entry\<close>

definition entry_create :: "string \<Rightarrow> order_side \<Rightarrow> real \<Rightarrow> ccxt_call \<Rightarrow> bool" where
  "entry_create symbol side amount c =
     (case c of
        CxCreate s t sd q p ps \<Rightarrow> s = symbol \<and> p = None
          \<and> (t = ''market'' \<and> sd = side \<and> q = amount \<and> get_none ps ''reduceOnly'' = VBool False
             \<or> t \<in> {''STOP_MARKET'', ''TAKE_PROFIT_MARKET''} \<and> sd = other_side side \<and> 0 < q
               \<and> get_none ps ''reduceOnly'' = VBool True)
      | CxCancel oid s \<Rightarrow> False
      | CxLeverage n s ps \<Rightarrow> False
      | _ \<Rightarrow> True)"

lemma sends_bracket [send_rules]: "(\<And>t. wanted = Some t \<Longrightarrow> sends ok (create t)) \<Longrightarrow> sends ok (bracket name wanted create bs)"
  unfolding bracket_def by (auto intro!: send_rules split: option.split)

lemma sends_hydrate_loop [send_rules]:
  assumes "\<And>n. ok (CxOpenOrders (Some symbol) n)" and "\<And>n. ok (CxClosedOrders (Some symbol) n)"
  shows "sends ok (hydrate_loop x symbol cid coid n best)"
proof (induction n arbitrary: best)
  case (Suc n)
  show ?case using Suc assms by (auto simp: Let_def intro!: send_rules split: option.split)
qed (auto intro!: send_rules)

lemma sends_hydrate [send_rules]:
  assumes "\<And>n. ok (CxOpenOrders (Some symbol) n)" and "\<And>n. ok (CxClosedOrders (Some symbol) n)"
    and "\<And>n. ok (CxTrades (Some symbol) None n [])"
  shows "sends ok (hydrate_created_order x symbol created coid side otype amount price)"
    and "sends ok (resolve_filled_amount_fast x symbol entry)"
  unfolding hydrate_created_order_def resolve_filled_amount_fast_def fetch_order_trades_def Let_def
  using assms by (auto intro!: send_rules split: option.split)

lemma entry_params:
  assumes "base \<in> {[], [(''category'', VStr ''linear'')]}"
  shows "get_none (futures_order_params x base ro coid tp sl) ''reduceOnly'' = VBool ro"
  using closing_params(1) [OF assms] .

lemma trigger_params: "get_none (build_binance_futures_trigger_params p coid) ''reduceOnly'' = VBool True"
  by (simp add: build_binance_futures_trigger_params_def)

lemma bracketed_entry_sends:
  assumes "get_none params ''reduceOnly'' = VBool False"
  shows "sends (entry_create symbol side amount) (place_binance_futures_market_with_brackets x symbol side amount coid params tp sl)"
  unfolding place_binance_futures_market_with_brackets_def Let_def
  using assms trigger_params by (intro send_rules) (auto intro!: send_rules simp: entry_create_def)

text \<open>An entry on either exchange creates the market order asked for and, on Binance, reduce-only triggers
  on the other side; whatever fails, it never sends a market order that would close what was entered.\<close>

theorem futures_entry_orders:
  "case place_futures_market_order x symbol side amount False coid tp sl l of (r, l') \<Rightarrow>
     \<exists>new. l' = l @ new \<and> list_all (entry_create symbol side amount \<circ> fst) new"
proof -
  have "yields (place_futures_market_order x symbol side amount False coid tp sl)
      (\<lambda>r new. list_all (entry_create symbol side amount \<circ> fst) new)"
    unfolding place_futures_market_order_def
  proof (rule bind_supported)
    fix f :: futures_profile
    assume "fu_params f \<in> {[], [(''category'', VStr ''linear'')]}"
    note params = entry_params [OF this, where x = x and ro = False and coid = coid and tp = tp and sl = sl]
    show "yields (let params = futures_order_params x (fu_params f) False coid tp sl in
     client x (fu_exchange_id f)
       (io_bind (if fu_isolated f then ensure_bybit_isolated_margin x symbol None else io_return ()) (\<lambda>_.
        io_bind (if cx_exchange x = ''binance'' \<and> \<not> False then ensure_binance_isolated_margin x symbol else io_return ()) (\<lambda>_.
        if cx_exchange x = ''binance'' \<and> \<not> False \<and> (tp \<noteq> None \<or> sl \<noteq> None)
        then place_binance_futures_market_with_brackets x symbol side amount coid params tp sl
        else io_bind (create_order_with_idempotency x symbol ''market'' side amount None params coid) (\<lambda>raw.
             io_bind (as_mapping raw) (normalize_order x (entry_fallback symbol side ''market'' amount None)))))))
      (\<lambda>r new. list_all (entry_create symbol side amount \<circ> fst) new)"
      unfolding Let_def sends_def [symmetric]
      using params bracketed_entry_sends [OF params] by (auto intro!: send_rules simp: entry_create_def)
  qed simp
  then show ?thesis unfolding yields_def by (simp add: case_prod_beta)
qed

section \<open>Operations that fail\<close>

definition always_fails :: "'a ccxt \<Rightarrow> bool" where
  "always_fails m \<longleftrightarrow> yields m (\<lambda>r new. \<exists>e. r = Inl e)"

lemma always_fails_bind: "always_fails m \<Longrightarrow> (\<And>v. sends (\<lambda>_. True) (k v)) \<Longrightarrow> always_fails (io_bind m k)"
  unfolding always_fails_def sends_def
  by (rule yields_bind [where \<phi> = "\<lambda>r new. \<exists>e. r = Inl e" and \<psi> = "\<lambda>v r new. list_all ((\<lambda>_. True) \<circ> fst) new"]) auto

lemma fails_later: "sends (\<lambda>_. True) m \<Longrightarrow> (\<And>v. always_fails (k v)) \<Longrightarrow> always_fails (io_bind m k)"
  unfolding always_fails_def sends_def
  by (rule yields_bind [where \<phi> = "\<lambda>r new. list_all ((\<lambda>_. True) \<circ> fst) new" and \<psi> = "\<lambda>v r new. \<exists>e. r = Inl e"]) auto

lemma fails_handle: "always_fails m \<Longrightarrow> (\<And>e. always_fails (h e)) \<Longrightarrow> always_fails (io_handle m h)"
  unfolding always_fails_def
  by (rule yields_handle [where \<phi> = "\<lambda>r new. \<exists>e. r = Inl e" and \<psi> = "\<lambda>e r new. \<exists>e. r = Inl e"]) auto

lemma fails_fail: "always_fails (io_fail e)"
  unfolding always_fails_def by (rule yields_simple(2)) simp

lemma fails_client: "always_fails body \<Longrightarrow> always_fails (client x name body)"
  unfolding client_def
  by (auto intro!: fails_later fails_handle fails_fail send_rules simp: configure_demo_mode_def split: ccxt_failure.split)

lemma any_sends: "sends (\<lambda>_. True) (create_order_with_idempotency x symbol otype side amount price params coid)"
  "sends (\<lambda>_. True) (normalize_order x fb d)" "sends (\<lambda>_. True) (hydrate_created_order x symbol d coid side otype amount price)"
  "sends (\<lambda>_. True) (resolve_filled_amount_fast x symbol entry)"
  by (intro send_rules; simp)+

text \<open>The exchange refuses a call with an error that is not retried.\<close>

definition refuses :: "ccxt_env \<Rightarrow> (string \<Rightarrow> bool) \<Rightarrow> ccxt_call \<Rightarrow> bool" where
  "refuses x p c \<longleftrightarrow> (\<forall>l. case cx_answer x l c of Raises k m \<Rightarrow> k = ExchangeError \<and> p m | Returns v \<Rightarrow> False)"

lemma refused_call:
  assumes "refuses x p c"
  shows "\<exists>m. p m \<and> call_with_retry x c l = (Inl (Service (map_ccxt_error ExchangeError m)), l @ [(c, cx_answer x l c)])"
proof -
  from assms obtain m where m: "cx_answer x l c = Raises ExchangeError m" "p m"
    unfolding refuses_def by (cases "cx_answer x l c") (auto dest: spec [of _ l])
  obtain n where "retry_attempts x = Suc n" by (rule retry_attempts_Suc)
  with m show ?thesis by (auto simp: call_with_retry_def io_bind_def query_def io_fail_def)
qed

lemma refused_create:
  assumes "refuses x (\<lambda>m. \<not> looks_like_duplicate_id_error m) (CxCreate symbol otype side amount price params)"
  shows "always_fails (create_order_with_idempotency x symbol otype side amount price params coid)"
  unfolding always_fails_def
proof (rule yieldsI)
  fix l r l'
  assume run: "create_order_with_idempotency x symbol otype side amount price params coid l = (r, l')"
  from refused_call [OF assms] obtain m where "\<not> looks_like_duplicate_id_error m"
    "call_with_retry x (CxCreate symbol otype side amount price params) l
       = (Inl (Service (map_ccxt_error ExchangeError m)), l @ [(CxCreate symbol otype side amount price params,
            cx_answer x l (CxCreate symbol otype side amount price params))])" by blast
  with run show "\<exists>new. l' = l @ new \<and> (\<exists>e. r = Inl e)"
    by (auto simp: create_order_with_idempotency_def io_handle_def io_fail_def)
qed

section \<open>A refused bracket\<close>

lemma bracketed_entry_fails:
  assumes "\<And>q ps. refuses x (\<lambda>m. \<not> looks_like_duplicate_id_error m) (CxCreate symbol ''STOP_MARKET'' (other_side side) q None ps)"
  shows "always_fails (place_binance_futures_market_with_brackets x symbol side amount coid params tp (Some p))"
proof -
  have stop: "always_fails (bracket ''stop_loss'' (Some p) (\<lambda>t. create_order_with_idempotency x symbol ''STOP_MARKET''
      (other_side side) q None (ps t) (ids t)) bs)" for q ps ids bs
    unfolding bracket_def by (auto intro!: always_fails_bind refused_create assms send_rules)
  show ?thesis
    unfolding place_binance_futures_market_with_brackets_def Let_def
    by (intro fails_later any_sends)
       (auto intro!: always_fails_bind [OF stop] fails_fail send_rules any_sends)
qed

text \<open>C32: When the exchange refuses the stop of a Binance entry, the entry call fails, and nothing was sent to
  close the market order that was executed before: what it bought or sold stays open without a stop.\<close>

theorem refused_stop_leaves_entry_bare:
  assumes "cx_exchange x = ''binance''"
    and "\<And>q ps. refuses x (\<lambda>m. \<not> looks_like_duplicate_id_error m) (CxCreate symbol ''STOP_MARKET'' (other_side side) q None ps)"
  shows "case place_futures_market_order x symbol side amount False coid tp (Some p) l of (r, l') \<Rightarrow>
     \<exists>e new. r = Inl e \<and> l' = l @ new
       \<and> (\<forall>(c, a) \<in> set new. \<forall>s t sd q lim ps. c = CxCreate s t sd q lim ps \<and> sd \<noteq> side \<longrightarrow> t \<noteq> ''market'')"
proof -
  obtain r l' where run: "place_futures_market_order x symbol side amount False coid tp (Some p) l = (r, l')" by fastforce
  have "always_fails (place_futures_market_order x symbol side amount False coid tp (Some p))"
    unfolding place_futures_market_order_def Let_def
    by (intro fails_later fails_client) (auto intro!: bracketed_entry_fails send_rules assms)
  from yieldsE [OF this [unfolded always_fails_def] run] obtain e where "r = Inl e" by blast
  moreover from futures_entry_orders [where x = x and symbol = symbol and side = side and amount = amount and coid = coid and tp = tp
        and sl = "Some p" and l = l] run obtain new
    where "l' = l @ new" "list_all (entry_create symbol side amount \<circ> fst) new" by auto
  ultimately show ?thesis using run
    by (auto simp: list_all_iff entry_create_def split: ccxt_call.splits)
qed

section \<open>A close held up by the margin mode\<close>

text \<open>On Bybit every order, also a reduce-only close, first switches the symbol to isolated margin. When the
  exchange refuses the switch with an error that is not known as harmless, the close is never sent.\<close>

theorem margin_mode_blocks_close:
  assumes "cx_exchange x = ''bybit''"
    and "refuses x (\<lambda>m. \<not> is_non_critical_bybit_margin_mode_error (map_ccxt_error ExchangeError m))
           (CxMarginMode symbol [(''category'', VStr ''linear'')])"
  shows "case close_futures_market_reduce_only x symbol side amount coid l of (r, l') \<Rightarrow>
     \<exists>e new. r = Inl e \<and> l' = l @ new \<and> list_all (\<lambda>e. \<not> is_create (fst e)) new"
proof -
  let ?quiet = "\<lambda>r new. (\<exists>e. r = Inl e) \<and> list_all (\<lambda>e. \<not> is_create (fst e)) new"
  have switch: "yields (ensure_bybit_isolated_margin x symbol None) ?quiet"
  proof (rule yieldsI)
    fix l r l'
    assume run: "ensure_bybit_isolated_margin x symbol None l = (r, l')"
    let ?c = "CxMarginMode symbol [(''category'', VStr ''linear'')]"
    from refused_call [OF assms(2)] obtain m where "\<not> is_non_critical_bybit_margin_mode_error (map_ccxt_error ExchangeError m)"
      "call_with_retry x ?c l = (Inl (Service (map_ccxt_error ExchangeError m)), l @ [(?c, cx_answer x l ?c)])" by blast
    with run show "\<exists>new. l' = l @ new \<and> ?quiet r new"
      by (auto simp: ensure_bybit_isolated_margin_def tolerate_def io_handle_def io_bind_def io_fail_def is_create_def)
  qed
  have body: "yields (io_bind (ensure_bybit_isolated_margin x symbol None) k) ?quiet"
    if "\<And>v. sends (\<lambda>_. True) (k v)" for k :: "unit \<Rightarrow> placed_order ccxt"
    by (rule yields_bind [OF switch that [unfolded sends_def]]) auto
  have guarded: "yields (client x name b) ?quiet" if "yields b ?quiet" for name and b :: "placed_order ccxt"
  proof -
    have "yields (io_bind (call_with_retry x CxMarkets) (\<lambda>_. b)) ?quiet"
      by (rule yields_bind [OF yields_call that]) (auto simp: retried_def list_all_iff is_create_def)
    then have "yields (io_handle (io_bind (call_with_retry x CxMarkets) (\<lambda>_. b)) (\<lambda>e. case e of
          Service s \<Rightarrow> io_fail e | Raised m \<Rightarrow> io_fail (Service (map_ccxt_error OtherClass m)))) ?quiet"
      by (rule yields_handle [where \<psi> = "\<lambda>e r new. ?quiet r new"]) (auto intro: yields_simple(2) split: ccxt_failure.split)
    then have "yields (io_bind (if cx_demo x then configure_demo_mode x name else io_return ()) (\<lambda>_.
        io_handle (io_bind (call_with_retry x CxMarkets) (\<lambda>_. b)) (\<lambda>e. case e of
          Service s \<Rightarrow> io_fail e | Raised m \<Rightarrow> io_fail (Service (map_ccxt_error OtherClass m))))) ?quiet"
      by (intro yields_bind [where \<phi> = "\<lambda>r new. new = []"]) (auto simp: configure_demo_mode_def intro: yields_simple)
    then show ?thesis by (auto simp: client_def service_def intro: yields_simple(2))
  qed
  obtain r l' where run: "close_futures_market_reduce_only x symbol side amount coid l = (r, l')" by fastforce
  have "yields (close_futures_market_reduce_only x symbol side amount coid) ?quiet"
    using assms(1) unfolding close_futures_market_reduce_only_def place_futures_market_order_def ensure_futures_supported_def
    by (auto intro!: guarded body send_rules any_sends simp: Let_def)
  from yieldsE [OF this run] run show ?thesis by auto
qed

end
