(* ===== verification/Ccxt_Samples.thy ===== *)
theory Ccxt_Samples
  imports Ccxt_Entries
begin

text \<open>
  The properties of the ccxt adapter on concrete answers of the exchange.
\<close>

definition sample_order :: "string \<Rightarrow> order_side \<Rightarrow> real \<Rightarrow> pyval" where
  "sample_order oid side q =
     VDict [(''id'', VStr oid), (''side'', VStr (order_side_value side)), (''type'', VStr ''market''), (''status'', VStr ''closed''),
            (''amount'', VFloat q), (''filled'', VFloat q), (''remaining'', VFloat 0)]"

text \<open>Market orders are executed, triggers are refused, nothing is listed.\<close>

fun refusing_answer :: "ccxt_call \<Rightarrow> library_answer" where
  "refusing_answer (CxCreate s t side q p ps) =
     (if t = ''market'' then Returns (sample_order ''e1'' side q) else Raises ExchangeError ''refused'')"
| "refusing_answer (CxOpenOrders s n) = Returns (VList [])"
| "refusing_answer (CxClosedOrders s n) = Returns (VList [])"
| "refusing_answer (CxTrades s t n ps) = Returns (VList [])"
| "refusing_answer (CxMarginMode s ps) = Raises ExchangeError ''position open''"
| "refusing_answer (CxOhlcv s tf t n ps) =
     (case t of Some i \<Rightarrow> Returns (VList [VList [VInt i], VList [VInt (i + 60000)]]) | None \<Rightarrow> Returns VNone)"
| "refusing_answer (CxPositions s ps) =
     Returns (VList [VDict [(''symbol'', VStr s), (''side'', VStr ''long''), (''contracts'', VFloat 2)]])"
| "refusing_answer c = Returns VNone"

definition refusing_env :: "string \<Rightarrow> ccxt_env" where
  "refusing_env name =
     \<lparr>cx_answer = (\<lambda>l. refusing_answer), cx_exchange = name, cx_demo = False, cx_max_retries = 3, cx_known = (\<lambda>_. True),
      cx_enable_demo = (\<lambda>_. True), cx_margin_mode = False, cx_fetch_order = True, cx_parse_time = (\<lambda>_. None),
      cx_repr = (\<lambda>_. ''?'')\<rparr>"

lemma refusing_env_simps [simp]:
  "cx_answer (refusing_env n) = (\<lambda>l. refusing_answer)" "cx_exchange (refusing_env n) = n" "cx_repr (refusing_env n) = (\<lambda>_. ''?'')"
  "cx_known (refusing_env n) = (\<lambda>_. True)" "\<not> cx_demo (refusing_env n)" "\<not> cx_margin_mode (refusing_env n)"
  "cx_max_retries (refusing_env n) = 3" "retry_attempts (refusing_env n) = Suc (Suc (Suc 0))"
  by (simp_all add: refusing_env_def retry_attempts_def)

lemma refused_text: "\<not> looks_like_duplicate_id_error ''refused''"
  "\<not> is_non_critical_bybit_margin_mode_error (map_ccxt_error ExchangeError ''position open'')"
  by (code_simp, code_simp)

lemmas run_simps = io_bind_def io_handle_def io_return_def io_fail_def query_def call_with_retry_def client_def Let_def
  unless_service_error_def iterate_def as_mapping_def

theorem refused_stop_leaves_entry_bare_witness:
  "case place_futures_market_order (refusing_env ''binance'') ''BTC/USDT:USDT'' BUY 2 False (Some ''c1'') None (Some 90) [] of (r, l') \<Rightarrow>
     (\<exists>e new. r = Inl e \<and> l' = new
       \<and> (\<forall>(c, a) \<in> set new. \<forall>s t sd q lim ps. c = CxCreate s t sd q lim ps \<and> sd \<noteq> BUY \<longrightarrow> t \<noteq> ''market''))"
proof -
  have "refuses (refusing_env ''binance'') (\<lambda>m. \<not> looks_like_duplicate_id_error m)
      (CxCreate ''BTC/USDT:USDT'' ''STOP_MARKET'' (other_side BUY) q None ps)" for q ps
    by (simp add: refuses_def refused_text)
  from refused_stop_leaves_entry_bare [OF _ this, where amount = 2 and coid = "Some ''c1''" and tp = None and p = 90 and l = "[]"]
  show ?thesis by simp
qed

theorem margin_mode_blocks_close_witness:
  "case close_futures_market_reduce_only (refusing_env ''bybit'') ''BTC/USDT:USDT'' SELL 2 None [] of (r, l') \<Rightarrow>
     \<exists>e new. r = Inl e \<and> l' = new \<and> list_all (\<lambda>e. \<not> is_create (fst e)) new"
proof -
  have "refuses (refusing_env ''bybit'') (\<lambda>m. \<not> is_non_critical_bybit_margin_mode_error (map_ccxt_error ExchangeError m))
      (CxMarginMode ''BTC/USDT:USDT'' [(''category'', VStr ''linear'')])"
    by (simp add: refuses_def refused_text del: map_ccxt_error.simps)
  from margin_mode_blocks_close [OF _ this, where side = SELL and amount = 2 and coid = None and l = "[]"]
  show ?thesis by simp
qed

lemma sample_candles:
  "fst (fetch_ohlcv_range (refusing_env ''binance'') ''BTC/USDT'' ''1m'' 0 (Some 60000) 3 [] []) = Inr [VList [VInt 0], VList [VInt 60000]]"
  by (simp add: fetch_ohlcv_range_def range_loop.simps fetch_batch_def run_simps candle_time_def)

theorem candle_range_terminates_witness:
  "\<exists>new. snd (fetch_ohlcv_range (refusing_env ''binance'') ''BTC/USDT'' ''1m'' 0 (Some 60000) 3 [] []) = new
     \<and> length new \<le> 9 \<and> list_all (in_range 0 (Some 60000)) [VList [VInt 0], VList [VInt 60000]]"
proof -
  obtain r l' where run: "fetch_ohlcv_range (refusing_env ''binance'') ''BTC/USDT'' ''1m'' 0 (Some 60000) 3 [] [] = (r, l')" by fastforce
  with sample_candles have "r = Inr [VList [VInt 0], VList [VInt 60000]]" by simp
  with candle_range_terminates [where x = "refusing_env ''binance''" and symbol = "''BTC/USDT''" and timeframe = "''1m''" and since = 0
      and until = "Some 60000" and limit = 3 and params = "[]" and l = "[]"] run
  show ?thesis by auto
qed

theorem position_report_sound_witness:
  "\<exists>p. fst (fetch_futures_position (refusing_env ''bybit'') ''BTC/USDT:USDT'' []) = Inr (Some p)
     \<and> pr_symbol p = ''BTC/USDT:USDT'' \<and> 0 < pr_contracts p \<and> pr_side p \<in> {''long'', ''short''}"
proof -
  have "\<exists>p l'. fetch_futures_position (refusing_env ''bybit'') ''BTC/USDT:USDT'' [] = (Inr (Some p), l')"
    by (simp add: fetch_futures_position_def ensure_futures_supported_def run_simps dicts_in_def map_filter_def position_row_matches_def
        row_contracts_def row_side_def normalize_futures_side_def py_or_def)
       code_simp
  then obtain p l' where "fetch_futures_position (refusing_env ''bybit'') ''BTC/USDT:USDT'' [] = (Inr (Some p), l')" by blast
  with position_report_sound [OF this] show ?thesis by (intro exI [of _ p]) auto
qed

definition sample_entry :: placed_order where
  "sample_entry = \<lparr>po_id = ''e2'', po_client_order_id = None, po_symbol = ''BTC/USDT'', po_side = BUY, po_type = ''market'',
     po_status = ''canceled'', po_amount = 2, po_filled = 0, po_remaining = 2, po_price = None, po_average = None, po_cost = None,
     po_timestamp = None, po_raw = []\<rparr>"

theorem unreported_fill_counts_in_full_witness:
  "\<exists>l'. resolve_filled_amount_fast (refusing_env ''binance'') ''BTC/USDT'' sample_entry [] = (Inr 2, l')
     \<and> po_status sample_entry = ''canceled''"
proof -
  obtain q l' where run: "resolve_filled_amount_fast (refusing_env ''binance'') ''BTC/USDT'' sample_entry [] = (Inr q, l')"
    and l': "l' = [(CxTrades (Some ''BTC/USDT'') None 100 [], Returns (VList []))]"
    by (simp add: resolve_filled_amount_fast_def sample_entry_def run_simps trades_of_order_def dicts_in_def map_filter_def trade_total_def)
  from unreported_fill_counts_in_full [OF run] l' have "q = 2" by (simp add: sample_entry_def)
  with run show ?thesis by (simp add: sample_entry_def)
qed

theorem created_order_is_ours_witness:
  "\<exists>v new. create_order_with_idempotency (refusing_env ''binance'') ''BTC/USDT:USDT'' ''market'' BUY 2 None [] None [] = (Inr v, new)
     \<and> (CxCreate ''BTC/USDT:USDT'' ''market'' BUY 2 None [], Returns v) \<in> set new"
proof -
  obtain v l' where run: "create_order_with_idempotency (refusing_env ''binance'') ''BTC/USDT:USDT'' ''market'' BUY 2 None [] None [] = (Inr v, l')"
    by (simp add: create_order_with_idempotency_def run_simps)
  from created_order_is_ours [OF run] run show ?thesis by (auto simp: given_text_def)
qed

end
