(* ===== verification/Ledger.thy ===== *)
theory Ledger
  imports Prelude
begin

text \<open>
  \<^verbatim>\<open>INSERT ... ON CONFLICT DO UPDATE\<close> on a table with a unique key, as the two synchronisation services use
  it. The table is the list of its rows in the order of their insertion. The locale \<open>upsert_table\<close> is the
  contract of a key and of the update of the conflicting row; its lemmas hold for both ledgers.
\<close>

fun upsert_row :: "('r \<Rightarrow> 'k) \<Rightarrow> ('r \<Rightarrow> 'r \<Rightarrow> 'r) \<Rightarrow> 'r \<Rightarrow> 'r list \<Rightarrow> 'r list" where
  "upsert_row key refresh r [] = [r]"
| "upsert_row key refresh r (s # t) = (if key s = key r then refresh s r # t else s # upsert_row key refresh r t)"

definition upsert_rows :: "('r \<Rightarrow> 'k) \<Rightarrow> ('r \<Rightarrow> 'r \<Rightarrow> 'r) \<Rightarrow> 'r list \<Rightarrow> 'r list \<Rightarrow> 'r list" where
  "upsert_rows key refresh rows t = fold (upsert_row key refresh) rows t"

text \<open>One statement for all rows. PostgreSQL refuses a statement that would update a row twice.\<close>

datatype sql_dialect = Sqlite | Postgres

definition upsert :: "sql_dialect \<Rightarrow> ('r \<Rightarrow> 'k) \<Rightarrow> ('r \<Rightarrow> 'r \<Rightarrow> 'r) \<Rightarrow> 'r list \<Rightarrow> 'r list \<Rightarrow> 'r list option" where
  "upsert d key refresh rows t =
     (if d = Postgres \<and> \<not> distinct (map key rows) then None else Some (upsert_rows key refresh rows t))"

definition row_at :: "('r \<Rightarrow> 'k) \<Rightarrow> 'r list \<Rightarrow> 'k \<Rightarrow> 'r option" where
  "row_at key t k = List.find (\<lambda>r. key r = k) t"

lemma row_at_simps [simp]:
  "row_at key [] k = None" "row_at key (r # t) k = (if key r = k then Some r else row_at key t k)"
  by (auto simp: row_at_def)

lemma row_at_None: "row_at key t k = None \<longleftrightarrow> k \<notin> key ` set t"
  by (auto simp: row_at_def find_None_iff)

lemma row_at_Some: "row_at key t k = Some r \<Longrightarrow> r \<in> set t \<and> key r = k"
  by (auto simp: row_at_def find_Some_iff)

lemma row_at_member: "distinct (map key t) \<Longrightarrow> r \<in> set t \<Longrightarrow> row_at key t (key r) = Some r"
  by (induction t) (auto simp: rev_image_eqI)

lemma table_ext:
  assumes "map key t = map key t'" and "distinct (map key t)" and "\<And>k. row_at key t k = row_at key t' k"
  shows "t = t'"
  using assms
proof (induction t arbitrary: t')
  case (Cons r t)
  then obtain r' u where t': "t' = r' # u" "key r' = key r" "map key t = map key u" by (cases t') auto
  from Cons(4) [of "key r"] t' have "r' = r" by simp
  moreover have "row_at key t k = row_at key u k" for k
  proof (cases "k = key r")
    case True
    with Cons(3) t'(3) have "k \<notin> set (map key t)" "k \<notin> set (map key u)" by auto
    then show ?thesis by (simp add: row_at_None [THEN iffD2])
  next
    case False
    with Cons(4) [of k] t' show ?thesis by auto
  qed
  ultimately show ?case using Cons t' by auto
qed simp

locale upsert_table =
  fixes key :: "'r \<Rightarrow> 'k" and refresh :: "'r \<Rightarrow> 'r \<Rightarrow> 'r"
  assumes key_refresh: "key (refresh s r) = key s"
    and refresh_latest: "refresh (refresh s r) r' = refresh s r'"
    and refresh_self: "refresh r r = r"
begin

lemma keys_row: "map key (upsert_row key refresh r t) = (if key r \<in> key ` set t then map key t else map key t @ [key r])"
  by (induction t) (auto simp: key_refresh)

lemma keys_rows: "key ` set (upsert_rows key refresh rows t) = key ` set rows \<union> key ` set t"
proof (induction rows arbitrary: t)
  case (Cons r rows)
  have "set (map key (upsert_row key refresh r t)) = insert (key r) (key ` set t)" by (auto simp: keys_row)
  with Cons show ?case by (simp add: upsert_rows_def)
qed (simp add: upsert_rows_def)

lemma distinct_rows: "distinct (map key t) \<Longrightarrow> distinct (map key (upsert_rows key refresh rows t))"
proof (induction rows arbitrary: t)
  case (Cons r rows)
  from Cons(2) have "distinct (map key (upsert_row key refresh r t))" by (auto simp: keys_row)
  with Cons(1) show ?case by (simp add: upsert_rows_def)
qed (simp add: upsert_rows_def)

lemma row_at_row:
  "row_at key (upsert_row key refresh r t) k
     = (if key r = k then Some (case row_at key t k of None \<Rightarrow> r | Some s \<Rightarrow> refresh s r) else row_at key t k)"
  by (induction t) (auto simp: key_refresh)

lemma row_at_rows:
  "row_at key (upsert_rows key refresh rows t) k
     = (case filter (\<lambda>r. key r = k) rows of
          [] \<Rightarrow> row_at key t k
        | r # rs \<Rightarrow> Some (refresh (case row_at key t k of None \<Rightarrow> r | Some s \<Rightarrow> s) (last (r # rs))))"
proof (induction rows arbitrary: t)
  case (Cons r rows)
  have step: "row_at key (upsert_rows key refresh (r # rows) t) k
      = row_at key (upsert_rows key refresh rows (upsert_row key refresh r t)) k"
    by (simp add: upsert_rows_def)
  show ?case
    unfolding step Cons row_at_row by (auto simp: refresh_latest refresh_self split: list.split option.split)
qed (simp add: upsert_rows_def)

lemma stored: "r \<in> set rows \<Longrightarrow> \<exists>s. row_at key (upsert_rows key refresh rows t) (key r) = Some s"
  by (auto simp: row_at_rows filter_empty_conv split: list.split)

lemma untouched: "k \<notin> key ` set rows \<Longrightarrow> row_at key (upsert_rows key refresh rows t) k = row_at key t k"
  by (auto simp: row_at_rows filter_empty_conv split: list.split dest: filter_eq_ConsD)

lemma order_kept: "\<exists>new. map key (upsert_rows key refresh rows t) = map key t @ new"
proof (induction rows arbitrary: t)
  case (Cons r rows)
  from Cons [of "upsert_row key refresh r t"] show ?case by (auto simp: upsert_rows_def keys_row split: if_splits)
qed (simp add: upsert_rows_def)

lemma known_keys: "key ` set rows \<subseteq> key ` set t \<Longrightarrow> map key (upsert_rows key refresh rows t) = map key t"
proof (induction rows arbitrary: t)
  case (Cons r rows)
  then have "map key (upsert_row key refresh r t) = map key t" by (auto simp: keys_row)
  moreover from this have "key ` set (upsert_row key refresh r t) = key ` set t" by (metis list.set_map)
  ultimately show ?case using Cons by (simp add: upsert_rows_def)
qed (simp add: upsert_rows_def)

text \<open>Storing the same rows again changes nothing.\<close>

lemma idempotent:
  assumes "distinct (map key t)"
  shows "upsert_rows key refresh rows (upsert_rows key refresh rows t) = upsert_rows key refresh rows t"
proof (rule table_ext)
  show "map key (upsert_rows key refresh rows (upsert_rows key refresh rows t)) = map key (upsert_rows key refresh rows t)"
    by (rule known_keys) (auto simp: keys_rows)
  then show "distinct (map key (upsert_rows key refresh rows (upsert_rows key refresh rows t)))"
    using distinct_rows [OF assms] by simp
  show "row_at key (upsert_rows key refresh rows (upsert_rows key refresh rows t)) k = row_at key (upsert_rows key refresh rows t) k" for k
    by (auto simp: row_at_rows refresh_latest split: list.split)
qed

end

end
