(* ===== verification/Trade_Sync.thy ===== *)
theory Trade_Sync
  imports Ccxt_Market Ledger Signal Auto_Entry
begin

text \<open>
  \<^verbatim>\<open>app/services/auto_trade/trade_sync.py\<close>: fills of an account are read page by page (theory Ccxt_Market) and
  stored in a ledger with one row per trade, together with what the platform knows about the order behind
  the fill. A row per account, symbol and market remembers how far the synchronisation has come. The database
  is the record \<open>sync_db\<close>; an exception of an operation leaves it to the caller to roll back.
\<close>

section \<open>Rows\<close>

record order_meta =
  om_id :: int
  om_account_id :: int
  om_exchange_order_id :: "string option"
  om_client_order_id :: "string option"
  om_source :: string
  om_config_id :: "int option"
  om_position_id :: "int option"
  om_history_id :: "int option"

record trade_origin =
  og_origin :: string
  og_confidence :: string
  og_config_id :: "int option"
  og_position_id :: "int option"
  og_open_history_id :: "int option"
  og_close_history_id :: "int option"

record ledger_row =
  le_user_id :: int
  le_account_id :: int
  le_exchange_name :: string
  le_market_type :: string
  le_symbol :: string
  le_trade_id :: string
  le_order_id :: "string option"
  le_client_order_id :: "string option"
  le_side :: order_side
  le_price :: real
  le_amount :: real
  le_cost :: "real option"
  le_fee_cost :: real
  le_fee_currency :: "string option"
  le_traded_at :: real
  le_ingested_at :: real
  le_origin :: trade_origin
  le_realized_pnl :: "real option"
  le_raw :: pydict

type_synonym ledger_key = "int \<times> string \<times> string \<times> string \<times> string"

definition ledger_key_of :: "ledger_row \<Rightarrow> ledger_key" where
  "ledger_key_of r = (le_account_id r, le_exchange_name r, le_market_type r, le_symbol r, le_trade_id r)"

text \<open>The columns an insertion overwrites in the row with the same key.\<close>

definition refresh_ledger_row :: "ledger_row \<Rightarrow> ledger_row \<Rightarrow> ledger_row" where
  "refresh_ledger_row old new =
     old\<lparr>le_order_id := le_order_id new, le_client_order_id := le_client_order_id new, le_cost := le_cost new,
         le_fee_cost := le_fee_cost new, le_fee_currency := le_fee_currency new, le_realized_pnl := le_realized_pnl new,
         le_origin := le_origin new, le_raw := le_raw new, le_ingested_at := le_ingested_at new\<rparr>"

record sync_state =
  ys_user_id :: int
  ys_account_id :: int
  ys_symbol :: string
  ys_market_type :: string
  ys_last_trade_ts_ms :: int
  ys_last_trade_id :: "string option"
  ys_last_sync_at :: "real option"
  ys_last_backfill_at :: "real option"
  ys_error_count :: int

record sync_db =
  sd_dialect :: sql_dialect
  sd_ledger :: "ledger_row list"
  sd_states :: "sync_state list"
  sd_meta :: "order_meta list"
  sd_positions :: "auto_position list"
  sd_exchange_name :: "int \<Rightarrow> string option"

text \<open>\<open>sy_access\<close>: the exception with which reading the account or its credentials ends, if any.\<close>

record sync_env =
  sy_ccxt :: "int \<Rightarrow> ccxt_env"
  sy_access :: "int \<Rightarrow> int \<Rightarrow> ccxt_failure option"
  sy_now :: real
  sy_default_page_limit :: int
  sy_profile_symbol :: "int \<Rightarrow> int \<Rightarrow> string option"

definition page_limit :: "sync_env \<Rightarrow> int" where
  "page_limit env = max 10 (min (sy_default_page_limit env) 200)"

definition sync_overlap_ms :: int where
  "sync_overlap_ms = 2 * 60 * 1000"

section \<open>What a stored fill says\<close>

text \<open>The profit the exchange reports for a fill: the first source with a numeric value.\<close>

fun first_numeric :: "pydict list \<Rightarrow> string \<Rightarrow> real option" where
  "first_numeric [] k = None"
| "first_numeric (d # ds) k =
     (if get_none d k = VNone then first_numeric ds k
      else case py_float (get_none d k) of Inr r \<Rightarrow> Some r | Inl e \<Rightarrow> first_numeric ds k)"

definition extract_realized_pnl :: "pydict \<Rightarrow> real option" where
  "extract_realized_pnl raw =
     first_numeric ((case get_none raw ''info'' of VDict i \<Rightarrow> [i] | _ \<Rightarrow> []) @ [raw]) ''realizedPnl''"

definition trade_client_order_id :: "exchange_trade \<Rightarrow> string option" where
  "trade_client_order_id t =
     (case py_or (get_none (xt_raw t) ''clientOrderId'') (get_none (xt_raw t) ''orderLinkId'') of
        VStr (c # cs) \<Rightarrow> Some (c # cs)
      | _ \<Rightarrow> (case get_none (xt_raw t) ''info'' of
                VDict i \<Rightarrow> first_text i [''clientOrderId'', ''orderLinkId'', ''origClientOrderId'']
              | _ \<Rightarrow> None))"

text \<open>A comparison with NULL is not true.\<close>

definition same_id :: "string option \<Rightarrow> string option \<Rightarrow> bool" where
  "same_id column value \<longleftrightarrow> column \<noteq> None \<and> column = value"

definition newest_by :: "('a \<Rightarrow> int) \<Rightarrow> 'a list \<Rightarrow> 'a option" where
  "newest_by f xs = (if xs = [] then None else Some (fold (\<lambda>a b. if f a > f b then a else b) (tl xs) (hd xs)))"

definition meta_matches :: "int \<Rightarrow> string option \<Rightarrow> string option \<Rightarrow> order_meta \<Rightarrow> bool" where
  "meta_matches aid oid coid m \<longleftrightarrow> om_account_id m = aid \<and> (same_id (om_exchange_order_id m) oid \<or> same_id (om_client_order_id m) coid)"

definition position_matches :: "int \<Rightarrow> string option \<Rightarrow> string option \<Rightarrow> auto_position \<Rightarrow> bool" where
  "position_matches aid oid coid p \<longleftrightarrow> ap_account_id p = aid
     \<and> (same_id (ap_open_order_id p) oid \<or> same_id (ap_close_order_id p) oid
        \<or> same_id (ap_open_order_id p) coid \<or> same_id (ap_close_order_id p) coid)"

definition external_origin :: trade_origin where
  "external_origin = \<lparr>og_origin = ''external'', og_confidence = ''none'', og_config_id = None, og_position_id = None,
     og_open_history_id = None, og_close_history_id = None\<rparr>"

definition origin_of_meta :: "order_meta \<Rightarrow> trade_origin" where
  "origin_of_meta m =
     \<lparr>og_origin = (if starts_with (om_source m) ''auto_trade_'' then ''platform'' else ''external''), og_confidence = ''strong'',
      og_config_id = om_config_id m, og_position_id = om_position_id m,
      og_open_history_id = (if om_source m = ''auto_trade_open'' then om_history_id m else None),
      og_close_history_id = (if om_source m = ''auto_trade_close'' then om_history_id m else None)\<rparr>"

definition origin_of_position :: "auto_position \<Rightarrow> trade_origin" where
  "origin_of_position p =
     \<lparr>og_origin = ''platform'', og_confidence = ''weak'', og_config_id = Some (ap_config_id p), og_position_id = Some (ap_id p),
      og_open_history_id = ap_open_history_id p, og_close_history_id = ap_close_history_id p\<rparr>"

definition resolve_origin :: "sync_db \<Rightarrow> int \<Rightarrow> exchange_trade \<Rightarrow> trade_origin" where
  "resolve_origin db aid t =
     (let coid = trade_client_order_id t; oid = xt_order_id t;
          meta = (if given_text oid \<or> given_text coid then newest_by om_id (filter (meta_matches aid oid coid) (sd_meta db)) else None)
      in case meta of
           Some m \<Rightarrow> origin_of_meta m
         | None \<Rightarrow> (case newest_by ap_id (filter (position_matches aid oid coid) (sd_positions db)) of
                      Some p \<Rightarrow> origin_of_position p
                    | None \<Rightarrow> external_origin))"

definition exchange_name_of :: "sync_db \<Rightarrow> int \<Rightarrow> string" where
  "exchange_name_of db aid = (if given_text (sd_exchange_name db aid) then or_empty (sd_exchange_name db aid) else ''unknown'')"

definition traded_at :: "real \<Rightarrow> exchange_trade \<Rightarrow> real" where
  "traded_at now t = (case xt_timestamp t of None \<Rightarrow> now | Some s \<Rightarrow> s)"

definition ledger_row_of :: "sync_db \<Rightarrow> real \<Rightarrow> int \<Rightarrow> int \<Rightarrow> string \<Rightarrow> string \<Rightarrow> exchange_trade \<Rightarrow> ledger_row" where
  "ledger_row_of db now uid aid symbol market t =
     \<lparr>le_user_id = uid, le_account_id = aid, le_exchange_name = exchange_name_of db aid, le_market_type = market,
      le_symbol = (if xt_symbol t = [] then symbol else xt_symbol t), le_trade_id = xt_id t, le_order_id = xt_order_id t,
      le_client_order_id = trade_client_order_id t, le_side = xt_side t, le_price = xt_price t, le_amount = xt_amount t,
      le_cost = xt_cost t, le_fee_cost = xt_fee_cost t, le_fee_currency = xt_fee_currency t, le_traded_at = traded_at now t,
      le_ingested_at = now, le_origin = resolve_origin db aid t, le_realized_pnl = extract_realized_pnl (xt_raw t), le_raw = xt_raw t\<rparr>"

section \<open>A page\<close>

record sync_progress =
  sg_ledger :: "ledger_row list"
  sg_count :: nat
  sg_max_ts :: int
  sg_max_id :: "string option"
  sg_cursor :: "string option"

text \<open>\<open>trade.id > max_trade_id\<close> compares texts.\<close>

definition later_id :: "string option \<Rightarrow> exchange_trade \<Rightarrow> string option" where
  "later_id m t =
     (if xt_id t \<noteq> [] \<and> (case m of None \<Rightarrow> True | Some s \<Rightarrow> py_less s (xt_id t)) then Some (xt_id t) else m)"

definition trade_ms :: "real \<Rightarrow> exchange_trade \<Rightarrow> int" where
  "trade_ms now t = trunc_real (traded_at now t * 1000)"

definition store_page ::
    "sync_db \<Rightarrow> real \<Rightarrow> int \<Rightarrow> int \<Rightarrow> string \<Rightarrow> string \<Rightarrow> exchange_trade list \<Rightarrow> sync_progress \<Rightarrow> sync_progress option" where
  "store_page db now uid aid symbol market trades g =
     map_option (\<lambda>ledger. g\<lparr>sg_ledger := ledger, sg_count := sg_count g + length trades,
         sg_max_ts := fold (\<lambda>t m. max m (trade_ms now t)) trades (sg_max_ts g),
         sg_max_id := fold (\<lambda>t m. later_id m t) trades (sg_max_id g)\<rparr>)
       (upsert (sd_dialect db) ledger_key_of refresh_ledger_row
          (map (ledger_row_of db now uid aid symbol market) trades) (sg_ledger g))"

definition fetch_page ::
    "sync_env \<Rightarrow> int \<Rightarrow> int \<Rightarrow> string \<Rightarrow> real option \<Rightarrow> string option \<Rightarrow> (exchange_trade list \<times> string option) ccxt" where
  "fetch_page env uid aid symbol since cursor =
     (case sy_access env uid aid of
        Some e \<Rightarrow> io_fail e
      | None \<Rightarrow> fetch_futures_trades_page (sy_ccxt env aid) symbol since (page_limit env) cursor)"

text \<open>The pages that may still be read. The first value is the exception that ended the loop, if any; the
  progress holds what was stored until then. \<open>skip\<close>: are trades without an id left out?\<close>

fun sync_pages ::
    "sync_env \<Rightarrow> sync_db \<Rightarrow> int \<Rightarrow> int \<Rightarrow> string \<Rightarrow> string \<Rightarrow> real option \<Rightarrow> bool \<Rightarrow> nat \<Rightarrow> sync_progress \<Rightarrow> ccxt_log
      \<Rightarrow> (ccxt_failure option \<times> sync_progress) \<times> ccxt_log" where
  "sync_pages env db uid aid symbol market since skip 0 g l = ((None, g), l)"
| "sync_pages env db uid aid symbol market since skip (Suc n) g l =
     (case fetch_page env uid aid symbol since (sg_cursor g) l of
        (Inl e, l') \<Rightarrow> ((Some e, g), l')
      | (Inr (trades, next_cursor), l') \<Rightarrow>
          if trades = [] then ((None, g), l')
          else case store_page db (sy_now env) uid aid symbol market
                      (if skip then filter (\<lambda>t. xt_id t \<noteq> []) trades else trades) g of
                 None \<Rightarrow> ((Some (Raised ''CardinalityViolation''), g), l')
               | Some g' \<Rightarrow>
                   if next_cursor = None \<or> next_cursor = sg_cursor g then ((None, g'), l')
                   else sync_pages env db uid aid symbol market since skip n (g'\<lparr>sg_cursor := next_cursor\<rparr>) l')"

section \<open>The state of a synchronisation\<close>

definition state_scope :: "int \<Rightarrow> string \<Rightarrow> string \<Rightarrow> sync_state \<Rightarrow> bool" where
  "state_scope aid symbol market s \<longleftrightarrow> ys_account_id s = aid \<and> ys_symbol s = symbol \<and> ys_market_type s = market"

definition fresh_state :: "int \<Rightarrow> int \<Rightarrow> string \<Rightarrow> string \<Rightarrow> sync_state" where
  "fresh_state uid aid symbol market =
     \<lparr>ys_user_id = uid, ys_account_id = aid, ys_symbol = symbol, ys_market_type = market, ys_last_trade_ts_ms = 0,
      ys_last_trade_id = None, ys_last_sync_at = None, ys_last_backfill_at = None, ys_error_count = 0\<rparr>"

definition get_or_create_sync_state :: "sync_db \<Rightarrow> int \<Rightarrow> int \<Rightarrow> string \<Rightarrow> string \<Rightarrow> sync_state" where
  "get_or_create_sync_state db uid aid symbol market =
     (case List.find (state_scope aid symbol market) (sd_states db) of
        Some s \<Rightarrow> s
      | None \<Rightarrow> fresh_state uid aid symbol market)"

fun put_state_row :: "sync_state \<Rightarrow> sync_state list \<Rightarrow> sync_state list" where
  "put_state_row s [] = [s]"
| "put_state_row s (r # rs) =
     (if state_scope (ys_account_id s) (ys_symbol s) (ys_market_type s) r then s # rs else r # put_state_row s rs)"

definition get_sync_state :: "sync_db \<Rightarrow> int \<Rightarrow> int \<Rightarrow> string \<Rightarrow> string \<Rightarrow> sync_state option" where
  "get_sync_state db uid aid symbol market =
     List.find (\<lambda>s. ys_user_id s = uid \<and> state_scope aid symbol market s) (sd_states db)"

text \<open>Seconds before the newest fill from which it is read again.\<close>

definition since_last :: "sync_state \<Rightarrow> real" where
  "since_last s = of_int (max 0 (ys_last_trade_ts_ms s - sync_overlap_ms)) / 1000"

definition finish_sync_state :: "real \<Rightarrow> sync_progress \<Rightarrow> sync_state \<Rightarrow> sync_state" where
  "finish_sync_state now g s =
     s\<lparr>ys_last_trade_ts_ms := max (ys_last_trade_ts_ms s) (sg_max_ts g), ys_last_trade_id := sg_max_id g,
       ys_last_sync_at := Some now, ys_error_count := 0\<rparr>"

definition start_progress :: "sync_db \<Rightarrow> sync_state \<Rightarrow> string option \<Rightarrow> sync_progress" where
  "start_progress db s cursor =
     \<lparr>sg_ledger = sd_ledger db, sg_count = 0, sg_max_ts = ys_last_trade_ts_ms s, sg_max_id = ys_last_trade_id s, sg_cursor = cursor\<rparr>"

section \<open>Synchronising\<close>

definition sync_symbol_trades ::
    "sync_env \<Rightarrow> int \<Rightarrow> int \<Rightarrow> string \<Rightarrow> string \<Rightarrow> int \<Rightarrow> sync_db \<Rightarrow> (nat \<times> sync_db) ccxt" where
  "sync_symbol_trades env uid aid symbol market backfill_days db l =
     (let s0 = get_or_create_sync_state db uid aid symbol market; now = sy_now env;
          since = (if ys_last_backfill_at s0 = None then now - of_int backfill_days * 86400
                   else if ys_last_trade_ts_ms s0 > 0 then since_last s0 else now - 12 * 3600);
          s = (if ys_last_backfill_at s0 = None then s0\<lparr>ys_last_backfill_at := Some now\<rparr> else s0)
      in case sync_pages env db uid aid symbol market (Some since) False 20 (start_progress db s (ys_last_trade_id s)) l of
           ((Some e, g), l') \<Rightarrow> (Inl e, l')
         | ((None, g), l') \<Rightarrow>
             (Inr (sg_count g, db\<lparr>sd_ledger := sg_ledger g, sd_states := put_state_row (finish_sync_state now g s) (sd_states db)\<rparr>), l'))"

record sync_result =
  sr_inserted_or_updated :: nat
  sr_warnings :: "string list"
  sr_last_trade_id :: "string option"
  sr_last_trade_ts :: "real option"

definition sync_report :: "nat \<Rightarrow> string list \<Rightarrow> sync_state \<Rightarrow> sync_result" where
  "sync_report n warnings s =
     \<lparr>sr_inserted_or_updated = n, sr_warnings = warnings, sr_last_trade_id = ys_last_trade_id s,
      sr_last_trade_ts = (if ys_last_trade_ts_ms s > 0 then Some (of_int (ys_last_trade_ts_ms s) / 1000) else None)\<rparr>"

text \<open>An error of the exchange is reported as a warning; the pages stored before it are kept.\<close>

definition sync_account_symbol_trades ::
    "sync_env \<Rightarrow> int \<Rightarrow> int \<Rightarrow> string \<Rightarrow> string \<Rightarrow> sync_db \<Rightarrow> (sync_result \<times> sync_db) ccxt" where
  "sync_account_symbol_trades env uid aid symbol market db l =
     (let s = get_or_create_sync_state db uid aid symbol market; now = sy_now env; known = ys_last_trade_ts_ms s > 0;
          outcome = sync_pages env db uid aid symbol market (if known then Some (since_last s) else None) True
                      (if known then 20 else 200) (start_progress db s (if known then ys_last_trade_id s else None)) l;
          g = snd (fst outcome); l' = snd outcome;
          close = (\<lambda>warnings s'. (Inr (sync_report (sg_count g) warnings s',
                     db\<lparr>sd_ledger := sg_ledger g, sd_states := put_state_row s' (sd_states db)\<rparr>), l'))
      in case fst (fst outcome) of
           Some (Raised m) \<Rightarrow> (Inl (Raised m), l')
         | Some (Service e) \<Rightarrow> close [sv_code e @ '': '' @ sv_message e] (s\<lparr>ys_error_count := ys_error_count s + 1, ys_last_sync_at := Some now\<rparr>)
         | None \<Rightarrow> close [] (finish_sync_state now g s))"

definition sync_config_trades :: "sync_env \<Rightarrow> auto_config \<Rightarrow> sync_db \<Rightarrow> (nat \<times> sync_db) ccxt" where
  "sync_config_trades env cfg db =
     (case sy_profile_symbol env (cf_profile_id cfg) (cf_user_id cfg) of
        None \<Rightarrow> io_return (0, db)
      | Some raw \<Rightarrow> (case to_linear_perp_symbol raw of
            Inl e \<Rightarrow> io_fail (Raised ''symbol'')
          | Inr symbol \<Rightarrow> sync_symbol_trades env (cf_user_id cfg) (cf_account_id cfg) symbol ''futures'' 30 db))"

record sync_stats =
  st_configs :: nat
  st_synced :: nat
  st_rows :: nat
  st_errors :: nat

text \<open>A configuration whose synchronisation raised is rolled back and counted; the others are committed.\<close>

fun sync_configs :: "sync_env \<Rightarrow> auto_config list \<Rightarrow> sync_stats \<Rightarrow> sync_db \<Rightarrow> ccxt_log \<Rightarrow> (sync_stats \<times> sync_db) \<times> ccxt_log" where
  "sync_configs env [] s db l = ((s, db), l)"
| "sync_configs env (cfg # cfgs) s db l =
     (case sync_config_trades env cfg db l of
        (Inl e, l') \<Rightarrow> sync_configs env cfgs (s\<lparr>st_errors := st_errors s + 1\<rparr>) db l'
      | (Inr (n, db'), l') \<Rightarrow> sync_configs env cfgs (s\<lparr>st_synced := st_synced s + 1, st_rows := st_rows s + n\<rparr>) db' l')"

definition sync_running_configs ::
    "sync_env \<Rightarrow> auto_config list \<Rightarrow> sync_db \<Rightarrow> ccxt_log \<Rightarrow> (sync_stats \<times> sync_db) \<times> ccxt_log" where
  "sync_running_configs env cfgs db =
     (let active = filter (\<lambda>c. cf_enabled c \<and> cf_is_running c) cfgs
      in sync_configs env active \<lparr>st_configs = length active, st_synced = 0, st_rows = 0, st_errors = 0\<rparr> db)"

text \<open>Newest first; among fills of the same time the one stored last.\<close>

definition list_trades ::
    "sync_db \<Rightarrow> int \<Rightarrow> int \<Rightarrow> string option \<Rightarrow> string option \<Rightarrow> nat \<Rightarrow> int option \<Rightarrow> ledger_row list" where
  "list_trades db uid aid symbol origin limit config_id =
     take limit (linorder_class.sort_key (\<lambda>r. - le_traded_at r) (rev (filter (\<lambda>r.
       le_user_id r = uid \<and> le_account_id r = aid \<and> le_market_type r = ''futures''
       \<and> (symbol = None \<or> symbol = Some (le_symbol r))
       \<and> (origin = None \<or> origin = Some (og_origin (le_origin r)))
       \<and> (config_id = None \<or> og_config_id (le_origin r) = config_id)) (sd_ledger db))))"

interpretation trade_ledger: upsert_table ledger_key_of refresh_ledger_row
  by unfold_locales (simp_all add: ledger_key_of_def refresh_ledger_row_def)

end
