(* ===== verification/Income_Sync.thy ===== *)
theory Income_Sync
  imports Trade_Sync
begin

text \<open>
  \<^verbatim>\<open>app/services/auto_trade/income_sync.py\<close>: funding payments of a Binance account are read page by page
  (\<open>fetch_futures_income\<close> of theory Ccxt_Market) and stored in a ledger with one row per transaction;
  \<open>sum_funding\<close> is what the profit of a position or of a configuration reads from it.
\<close>

record income_row =
  ic_user_id :: int
  ic_account_id :: int
  ic_exchange_name :: string
  ic_market_type :: string
  ic_type :: string
  ic_asset :: string
  ic_income :: real
  ic_symbol :: string
  ic_tran_id :: string
  ic_trade_id :: "string option"
  ic_info :: "string option"
  ic_at :: real
  ic_ingested_at :: real
  ic_raw :: pydict

type_synonym income_key = "int \<times> string \<times> string \<times> string"

definition income_key_of :: "income_row \<Rightarrow> income_key" where
  "income_key_of r = (ic_account_id r, ic_exchange_name r, ic_type r, ic_tran_id r)"

definition refresh_income_row :: "income_row \<Rightarrow> income_row \<Rightarrow> income_row" where
  "refresh_income_row old new =
     old\<lparr>ic_asset := ic_asset new, ic_income := ic_income new, ic_symbol := ic_symbol new, ic_trade_id := ic_trade_id new,
         ic_info := ic_info new, ic_at := ic_at new, ic_ingested_at := ic_ingested_at new, ic_raw := ic_raw new\<rparr>"

record income_db =
  id_dialect :: sql_dialect
  id_rows :: "income_row list"
  id_exchange_name :: "int \<Rightarrow> string option"

section \<open>What the profit reads\<close>

definition funding_of :: "int \<Rightarrow> string \<Rightarrow> income_row \<Rightarrow> bool" where
  "funding_of aid symbol r \<longleftrightarrow> ic_account_id r = aid \<and> ic_symbol r = symbol \<and> ic_type r = ''FUNDING_FEE''"

definition in_window :: "real option \<Rightarrow> real option \<Rightarrow> real \<Rightarrow> bool" where
  "in_window start end t \<longleftrightarrow> (case start of None \<Rightarrow> True | Some s \<Rightarrow> s \<le> t) \<and> (case end of None \<Rightarrow> True | Some e \<Rightarrow> t < e)"

definition sum_funding :: "income_db \<Rightarrow> int \<Rightarrow> string \<Rightarrow> real option \<Rightarrow> real option \<Rightarrow> real" where
  "sum_funding db aid symbol start end =
     sum_list (map ic_income (filter (\<lambda>r. funding_of aid symbol r \<and> in_window start end (ic_at r)) (id_rows db)))"

section \<open>Synchronising\<close>

text \<open>Thirty days back, or five minutes before the newest stored payment of the symbol.\<close>

definition compute_since :: "real \<Rightarrow> income_row list \<Rightarrow> int \<Rightarrow> string \<Rightarrow> real" where
  "compute_since now rows aid symbol =
     (case filter (funding_of aid symbol) rows of
        [] \<Rightarrow> now - 30 * 86400
      | r # rs \<Rightarrow> fold max (map ic_at rs) (ic_at r) - 5 * 60)"

definition income_row_of :: "real \<Rightarrow> int \<Rightarrow> int \<Rightarrow> string \<Rightarrow> string \<Rightarrow> exchange_income \<Rightarrow> income_row" where
  "income_row_of now uid aid exchange symbol i =
     \<lparr>ic_user_id = uid, ic_account_id = aid, ic_exchange_name = exchange, ic_market_type = ''futures'',
      ic_type = xi_type i, ic_asset = xi_asset i, ic_income = xi_income i,
      ic_symbol = (if given_text (xi_symbol i) then or_empty (xi_symbol i) else symbol), ic_tran_id = xi_tran_id i,
      ic_trade_id = xi_trade_id i, ic_info = xi_info i,
      ic_at = (case xi_timestamp i of None \<Rightarrow> now | Some t \<Rightarrow> t), ic_ingested_at = now, ic_raw = xi_raw i\<rparr>"

definition income_values :: "real \<Rightarrow> int \<Rightarrow> int \<Rightarrow> string \<Rightarrow> string \<Rightarrow> exchange_income list \<Rightarrow> income_row list" where
  "income_values now uid aid exchange symbol rows =
     map (income_row_of now uid aid exchange symbol) (filter (\<lambda>i. xi_tran_id i \<noteq> []) rows)"

definition upsert_income_rows :: "sql_dialect \<Rightarrow> income_row list \<Rightarrow> income_row list \<Rightarrow> (income_row list \<times> nat) option" where
  "upsert_income_rows d values t =
     (if values = [] then Some (t, 0)
      else map_option (\<lambda>t'. (t', length values)) (upsert d income_key_of refresh_income_row values t))"

definition fetch_income :: "sync_env \<Rightarrow> int \<Rightarrow> int \<Rightarrow> string \<Rightarrow> real \<Rightarrow> exchange_income list ccxt" where
  "fetch_income env uid aid symbol since =
     (case sy_access env uid aid of
        Some e \<Rightarrow> io_fail e
      | None \<Rightarrow> fetch_futures_income (sy_ccxt env aid) symbol (Some since) 1000)"

text \<open>Where the next page starts; None when this was the last one.\<close>

definition next_since :: "real \<Rightarrow> exchange_income list \<Rightarrow> real option" where
  "next_since since rows =
     (case List.map_filter xi_timestamp rows of
        [] \<Rightarrow> None
      | t # ts \<Rightarrow> let latest = fold max ts t in
          if length rows < 1000 \<or> latest \<le> since then None else Some (latest + 1 / 1000))"

fun income_pages ::
    "sync_env \<Rightarrow> sql_dialect \<Rightarrow> int \<Rightarrow> int \<Rightarrow> string \<Rightarrow> string \<Rightarrow> nat \<Rightarrow> real \<Rightarrow> income_row list \<Rightarrow> nat
      \<Rightarrow> (income_row list \<times> nat) ccxt" where
  "income_pages env d uid aid symbol exchange 0 since t k = io_return (t, k)"
| "income_pages env d uid aid symbol exchange (Suc n) since t k =
     io_bind (fetch_income env uid aid symbol since) (\<lambda>rows.
       if rows = [] then io_return (t, k)
       else case upsert_income_rows d (income_values (sy_now env) uid aid exchange symbol rows) t of
              None \<Rightarrow> io_fail (Raised ''CardinalityViolation'')
            | Some (t', j) \<Rightarrow>
                (case next_since since rows of
                   None \<Rightarrow> io_return (t', k + j)
                 | Some since' \<Rightarrow> income_pages env d uid aid symbol exchange n since' t' (k + j)))"

definition sync_symbol_income ::
    "sync_env \<Rightarrow> int \<Rightarrow> int \<Rightarrow> string \<Rightarrow> string \<Rightarrow> income_db \<Rightarrow> (nat \<times> income_db) ccxt" where
  "sync_symbol_income env uid aid symbol exchange db =
     io_bind (income_pages env (id_dialect db) uid aid symbol exchange 10
                (compute_since (sy_now env) (id_rows db) aid symbol) (id_rows db) 0) (\<lambda>(t, k).
     io_return (k, db\<lparr>id_rows := t\<rparr>))"

definition sync_config_income :: "sync_env \<Rightarrow> auto_config \<Rightarrow> income_db \<Rightarrow> (nat \<times> income_db) ccxt" where
  "sync_config_income env cfg db =
     (if id_exchange_name db (cf_account_id cfg) \<noteq> Some ''binance'' then io_return (0, db)
      else case sy_profile_symbol env (cf_profile_id cfg) (cf_user_id cfg) of
             None \<Rightarrow> io_return (0, db)
           | Some raw \<Rightarrow> (case to_linear_perp_symbol raw of
                 Inl e \<Rightarrow> io_fail (Raised ''symbol'')
               | Inr symbol \<Rightarrow> sync_symbol_income env (cf_user_id cfg) (cf_account_id cfg) symbol ''binance'' db))"

fun income_configs :: "sync_env \<Rightarrow> auto_config list \<Rightarrow> sync_stats \<Rightarrow> income_db \<Rightarrow> ccxt_log \<Rightarrow> (sync_stats \<times> income_db) \<times> ccxt_log" where
  "income_configs env [] s db l = ((s, db), l)"
| "income_configs env (cfg # cfgs) s db l =
     (case sync_config_income env cfg db l of
        (Inl e, l') \<Rightarrow> income_configs env cfgs (s\<lparr>st_errors := st_errors s + 1\<rparr>) db l'
      | (Inr (n, db'), l') \<Rightarrow> income_configs env cfgs (s\<lparr>st_synced := st_synced s + 1, st_rows := st_rows s + n\<rparr>) db' l')"

definition sync_running_income ::
    "sync_env \<Rightarrow> auto_config list \<Rightarrow> income_db \<Rightarrow> ccxt_log \<Rightarrow> (sync_stats \<times> income_db) \<times> ccxt_log" where
  "sync_running_income env cfgs db =
     (let active = filter (\<lambda>c. cf_enabled c \<and> cf_is_running c) cfgs
      in income_configs env active \<lparr>st_configs = length active, st_synced = 0, st_rows = 0, st_errors = 0\<rparr> db)"

interpretation income_ledger: upsert_table income_key_of refresh_income_row
  by unfold_locales (simp_all add: income_key_of_def refresh_income_row_def)

end
