(* ===== verification/Trade_Sync_Safety.thy ===== *)
theory Trade_Sync_Safety
  imports Trade_Sync Ccxt_Safety
begin

text \<open>
  What the synchronisation of fills guarantees: the constraints of its tables hold after every run, every
  fill that was read is stored, a failed run keeps its place, the number of requests is bounded; and how
  the comparison of ids as texts makes it read the same pages for ever.
\<close>

section \<open>A page\<close>

lemma convert_all_maps:
  assumes "convert_all f vs l = (Inr ws, l')"
  shows "list_all2 (\<lambda>v w. \<exists>l1 l2. f v l1 = (Inr w, l2)) vs ws"
  using assms
proof (induction vs arbitrary: ws l)
  case (Cons v vs)
  from Cons(2) have "io_bind (f v) (\<lambda>w. io_bind (convert_all f vs) (\<lambda>ws. io_return (w # ws))) l = (Inr ws, l')" by simp
  then obtain w l1 where w: "f v l = (Inr w, l1)" "io_bind (convert_all f vs) (\<lambda>ws. io_return (w # ws)) l1 = (Inr ws, l')"
    by (rule bind_okE)
  obtain rest where "convert_all f vs l1 = (Inr rest, l')" "ws = w # rest"
    by (rule bind_okE [OF w(2)]) (simp add: io_return_def)
  with Cons.IH w(1) show ?case by auto
qed (simp add: io_return_def)

definition row_trade :: "ccxt_env \<Rightarrow> pyval \<Rightarrow> exchange_trade \<Rightarrow> bool" where
  "row_trade x v t \<longleftrightarrow> (\<exists>d. v = VDict d \<and> normalize_trade x d [] = (Inr t, []))"

lemma normalize_trade_log: "normalize_trade x d l = (r, l') \<Longrightarrow> normalize_trade x d [] = (r, []) \<and> l' = l"
  by (auto simp: normalize_trade_def Let_def io_return_def io_fail_def split: if_splits)

lemma converted_row:
  assumes "io_bind (as_mapping v) (normalize_trade x) l = (Inr t, l')"
  shows "row_trade x v t"
  using assms normalize_trade_log
  by (cases v) (auto simp: row_trade_def as_mapping_def io_bind_def io_return_def io_fail_def)

definition is_trades_call :: "ccxt_call \<Rightarrow> bool" where
  "is_trades_call c = (case c of CxTrades s t n ps \<Rightarrow> True | _ \<Rightarrow> False)"

text \<open>The rows of a page, in the log, are the trades it returns.\<close>

definition page_read :: "ccxt_env \<Rightarrow> ccxt_log \<Rightarrow> exchange_trade list \<Rightarrow> bool" where
  "page_read x new trades \<longleftrightarrow>
     (\<forall>c vs. (c, Returns (VList vs)) \<in> set new \<and> is_trades_call c \<longrightarrow> list_all2 (row_trade x) vs trades)"

lemma sends_markets: "sends (\<lambda>c. c = CxMarkets) (if cx_demo x then configure_demo_mode x name else io_return ())"
  by (auto intro!: send_rules simp: configure_demo_mode_def)

lemma client_last_call:
  assumes "client x name (call_with_retry x c) l = (Inr v, l')"
  shows "\<exists>n1 n2. l' = l @ n1 @ n2 \<and> list_all (\<lambda>e. fst e = CxMarkets) n1 \<and> retried (retry_attempts x) c (Inr v) n2"
proof -
  from assms have "io_bind (call_with_retry x CxMarkets) (\<lambda>_. call_with_retry x c) l = (Inr v, l')"
    by (auto elim!: handleE simp: client_def configure_demo_mode_def io_fail_def io_bind_def io_return_def io_handle_def
        split: if_splits ccxt_failure.splits prod.splits sum.splits)
  then obtain m l1 where *: "call_with_retry x CxMarkets l = (Inr m, l1)" "call_with_retry x c l1 = (Inr v, l')"
    by (rule bind_okE)
  from yieldsE [OF yields_call *(1)] obtain n1 where "l1 = l @ n1" "retried (retry_attempts x) CxMarkets (Inr m) n1" .
  moreover from yieldsE [OF yields_call *(2)] obtain n2 where "l' = l1 @ n2" "retried (retry_attempts x) c (Inr v) n2" .
  ultimately show ?thesis by (auto simp: retried_def)
qed

lemma fetch_page_reads:
  assumes "fetch_page env uid aid symbol since cursor l = (Inr (trades, next_cursor), l')"
  shows "\<exists>new. l' = l @ new \<and> page_read (sy_ccxt env aid) new trades"
    and "\<And>t. t \<in> set trades \<Longrightarrow> \<exists>v. row_trade (sy_ccxt env aid) v t"
proof -
  let ?x = "sy_ccxt env aid"
  from assms have run: "fetch_futures_trades_page ?x symbol since (page_limit env) cursor l = (Inr (trades, next_cursor), l')"
    by (auto simp: fetch_page_def io_fail_def split: option.splits)
  then obtain f l1 where f: "ensure_futures_supported ?x l = (Inr f, l1)"
    "io_bind (client ?x (fu_exchange_id f) (call_with_retry ?x (trades_request ?x (fu_params f) symbol since (page_limit env) cursor))) (\<lambda>raw.
     io_bind (iterate raw) (\<lambda>rows.
     io_bind (convert_all (\<lambda>v. io_bind (as_mapping v) (normalize_trade ?x)) rows) (\<lambda>trades.
     io_return (trades, next_futures_trades_cursor trades cursor)))) l1 = (Inr (trades, next_cursor), l')"
    unfolding fetch_futures_trades_page_def by (rule bind_okE)
  then have l1: "l1 = l" by (auto simp: ensure_futures_supported_def io_return_def io_fail_def split: if_splits)
  let ?c = "trades_request ?x (fu_params f) symbol since (page_limit env) cursor"
  from f(2) obtain raw l2 where raw: "client ?x (fu_exchange_id f) (call_with_retry ?x ?c) l1 = (Inr raw, l2)"
    "io_bind (iterate raw) (\<lambda>rows.
     io_bind (convert_all (\<lambda>v. io_bind (as_mapping v) (normalize_trade ?x)) rows) (\<lambda>trades.
     io_return (trades, next_futures_trades_cursor trades cursor))) l2 = (Inr (trades, next_cursor), l')"
    by (rule bind_okE)
  from raw(2) obtain rows l3 where rows: "iterate raw l2 = (Inr rows, l3)"
    "io_bind (convert_all (\<lambda>v. io_bind (as_mapping v) (normalize_trade ?x)) rows) (\<lambda>trades.
     io_return (trades, next_futures_trades_cursor trades cursor)) l3 = (Inr (trades, next_cursor), l')"
    by (rule bind_okE)
  obtain ts l4 where ts: "convert_all (\<lambda>v. io_bind (as_mapping v) (normalize_trade ?x)) rows l3 = (Inr ts, l4)" "ts = trades" "l' = l4"
    by (rule bind_okE [OF rows(2)]) (simp add: io_return_def)
  have all2: "list_all2 (row_trade ?x) rows trades"
    unfolding ts(2) [symmetric] by (rule list_all2_mono [OF convert_all_maps [OF ts(1)]]) (elim exE, rule converted_row)
  have "sends (\<lambda>_. False) (convert_all (\<lambda>v. io_bind (as_mapping v) (normalize_trade ?x)) rows)"
    by (intro send_rules)
  from yieldsE [OF this [unfolded sends_def] ts(1)] obtain none where "l4 = l3 @ none" "list_all ((\<lambda>_. False) \<circ> fst) none" .
  then have l4: "l4 = l3" by (cases none) auto
  from iterate_rows(1) [OF rows(1)] have l3: "l3 = l2" .
  from client_last_call [OF raw(1)] obtain n1 n2 where log: "l2 = l1 @ n1 @ n2" "list_all (\<lambda>e. fst e = CxMarkets) n1"
    "retried (retry_attempts ?x) ?c (Inr raw) n2" by blast
  have "page_read ?x (n1 @ n2) trades"
    unfolding page_read_def
  proof (intro allI impI)
    fix c vs
    assume "(c, Returns (VList vs)) \<in> set (n1 @ n2) \<and> is_trades_call c"
    with log(2) have mem: "(c, Returns (VList vs)) \<in> set n2" by (auto simp: list_all_iff is_trades_call_def)
    with log(3) have "Returns (VList vs) = Returns raw"
      by (cases n2 rule: rev_cases) (auto simp: retried_def list_all_iff retryable_answer_def answer_result_def split: library_answer.splits)
    with rows(1) all2 show "list_all2 (row_trade ?x) vs trades" by (auto simp: iterate_def io_return_def)
  qed
  with log(1) l1 l3 l4 ts(3) show "\<exists>new. l' = l @ new \<and> page_read ?x new trades" by auto
  show "\<exists>v. row_trade ?x v t" if "t \<in> set trades" for t
    using all2 that by (auto simp: list_all2_conv_all_nth in_set_conv_nth)
qed

lemma row_trade_bounds:
  assumes "row_trade x v t"
  shows "0 \<le> xt_amount t" and "0 \<le> xt_price t" and "0 \<le> xt_fee_cost t"
  using assms by (auto simp: row_trade_def normalize_trade_def Let_def io_return_def io_fail_def split: if_splits)

section \<open>All pages\<close>

text \<open>Induction over the pages: a relation of log and progress that storing a page keeps holds at the end,
  and held before an exception.\<close>

lemma sync_pages_rule:
  assumes "sync_pages env db uid aid symbol market since skip n g l = ((e, g'), l')" and "R l g"
    and stored: "\<And>l g trades nc l1 g1 c. R l g \<Longrightarrow> fetch_page env uid aid symbol since (sg_cursor g) l = (Inr (trades, nc), l1)
      \<Longrightarrow> store_page db (sy_now env) uid aid symbol market (if skip then filter (\<lambda>t. xt_id t \<noteq> []) trades else trades) g = Some g1
      \<Longrightarrow> R l1 g1 \<and> R l1 (g1\<lparr>sg_cursor := c\<rparr>)"
    and idle: "\<And>l g nc l1. R l g \<Longrightarrow> fetch_page env uid aid symbol since (sg_cursor g) l = (Inr ([], nc), l1) \<Longrightarrow> R l1 g"
  shows "(e = None \<longrightarrow> R l' g') \<and> (\<exists>l1. R l1 g')"
  using assms(1,2)
proof (induction n arbitrary: g l)
  case (Suc n)
  show ?case
  proof (cases "fetch_page env uid aid symbol since (sg_cursor g) l")
    case (Pair r l1)
    show ?thesis
    proof (cases r)
      case (Inl err)
      with Suc.prems Pair show ?thesis by auto
    next
      case (Inr page)
      obtain trades nc where page: "page = (trades, nc)" by (cases page)
      note fetched = Pair [unfolded Inr page]
      let ?kept = "if skip then filter (\<lambda>t. xt_id t \<noteq> []) trades else trades"
      show ?thesis
      proof (cases "trades = []")
        case True
        with idle [OF Suc.prems(2)] fetched have "R l1 g" by blast
        with Suc.prems(1) fetched True show ?thesis by auto
      next
        case False
        show ?thesis
        proof (cases "store_page db (sy_now env) uid aid symbol market ?kept g")
          case None
          with Suc.prems fetched False show ?thesis by auto
        next
          case (Some g1)
          note keep = stored [OF Suc.prems(2) fetched Some]
          show ?thesis
          proof (cases "nc = None \<or> nc = sg_cursor g")
            case True
            with Suc.prems(1) fetched False Some have "e = None" "g' = g1" "l' = l1" by auto
            with keep show ?thesis by blast
          next
            case more: False
            with Suc.prems(1) fetched False Some
            have "sync_pages env db uid aid symbol market since skip n (g1\<lparr>sg_cursor := nc\<rparr>) l1 = ((e, g'), l')" by auto
            from Suc.IH [OF this] keep show ?thesis by blast
          qed
        qed
      qed
    qed
  qed
qed auto

lemma stored_page:
  assumes "store_page db now uid aid symbol market trades g = Some g1"
  shows "sg_ledger g1 = upsert_rows ledger_key_of refresh_ledger_row (map (ledger_row_of db now uid aid symbol market) trades) (sg_ledger g)"
    and "sg_max_id g1 = fold (\<lambda>t m. later_id m t) trades (sg_max_id g)" and "sg_max_ts g \<le> sg_max_ts g1" and "sg_cursor g1 = sg_cursor g"
    and "sg_count g1 = sg_count g + length trades"
proof -
  have "m \<le> fold (\<lambda>t m. max m (trade_ms now t)) ts m" for m ts
    by (induction ts arbitrary: m) (auto intro: order_trans [OF max.cobounded1])
  with assms show "sg_ledger g1 = upsert_rows ledger_key_of refresh_ledger_row (map (ledger_row_of db now uid aid symbol market) trades) (sg_ledger g)"
    "sg_max_id g1 = fold (\<lambda>t m. later_id m t) trades (sg_max_id g)" "sg_max_ts g \<le> sg_max_ts g1" "sg_cursor g1 = sg_cursor g"
    "sg_count g1 = sg_count g + length trades"
    by (auto simp: store_page_def upsert_def split: if_splits)
qed

section \<open>The constraints of the tables\<close>

definition row_checks :: "ledger_row \<Rightarrow> bool" where
  "row_checks r \<longleftrightarrow> 0 \<le> le_price r \<and> 0 \<le> le_amount r \<and> 0 \<le> le_fee_cost r \<and> le_market_type r \<in> {''spot'', ''futures''}
     \<and> og_origin (le_origin r) \<in> {''platform'', ''external'', ''unknown''}
     \<and> og_confidence (le_origin r) \<in> {''strong'', ''weak'', ''none''}"

definition state_key :: "sync_state \<Rightarrow> int \<times> string \<times> string" where
  "state_key s = (ys_account_id s, ys_symbol s, ys_market_type s)"

definition tables_ok :: "sync_db \<Rightarrow> bool" where
  "tables_ok db \<longleftrightarrow> distinct (map ledger_key_of (sd_ledger db)) \<and> list_all row_checks (sd_ledger db)
     \<and> distinct (map state_key (sd_states db))
     \<and> list_all (\<lambda>s. ys_market_type s \<in> {''spot'', ''futures''} \<and> 0 \<le> ys_error_count s) (sd_states db)"

lemma upsert_rows_all:
  assumes "\<And>s r. P s \<Longrightarrow> P r \<Longrightarrow> P (refresh s r)" and "list_all P rows" and "list_all P t"
  shows "list_all P (upsert_rows key refresh rows t)"
proof -
  have one: "list_all P (upsert_row key refresh r t)" if "P r" "list_all P t" for r t
    using that by (induction t) (auto intro: assms(1))
  show ?thesis
    using assms(2,3) by (induction rows arbitrary: t) (auto simp: upsert_rows_def one)
qed

lemma origin_checked:
  "og_origin (resolve_origin db aid t) \<in> {''platform'', ''external'', ''unknown''}
    \<and> og_confidence (resolve_origin db aid t) \<in> {''strong'', ''weak'', ''none''}"
  by (auto simp: resolve_origin_def Let_def origin_of_meta_def origin_of_position_def external_origin_def split: option.split)

definition progress_ok :: "sync_progress \<Rightarrow> bool" where
  "progress_ok g \<longleftrightarrow> distinct (map ledger_key_of (sg_ledger g)) \<and> list_all row_checks (sg_ledger g)"

lemma store_page_ok:
  assumes "progress_ok g" and "store_page db now uid aid symbol market trades g = Some g1" and "market \<in> {''spot'', ''futures''}"
    and "\<And>t. t \<in> set trades \<Longrightarrow> 0 \<le> xt_amount t \<and> 0 \<le> xt_price t \<and> 0 \<le> xt_fee_cost t"
  shows "progress_ok g1"
proof -
  have "list_all row_checks (map (ledger_row_of db now uid aid symbol market) trades)"
    using assms(3,4) origin_checked by (auto simp: list_all_iff row_checks_def ledger_row_of_def)
  then have "list_all row_checks (sg_ledger g1)"
    unfolding stored_page(1) [OF assms(2)] using assms(1)
    by (intro upsert_rows_all) (auto simp: progress_ok_def row_checks_def refresh_ledger_row_def)
  with assms(1) show ?thesis
    unfolding progress_ok_def stored_page(1) [OF assms(2)] by (simp add: trade_ledger.distinct_rows)
qed

lemma sync_pages_ok:
  assumes "sync_pages env db uid aid symbol market since skip n g l = ((e, g'), l')" and "progress_ok g"
    and "market \<in> {''spot'', ''futures''}"
  shows "progress_ok g'"
proof -
  have "(e = None \<longrightarrow> progress_ok g') \<and> (\<exists>l1 :: ccxt_log. progress_ok g')"
  proof (rule sync_pages_rule [where R = "\<lambda>l. progress_ok", OF assms(1,2)])
    fix l g trades nc l1 g1 c
    assume g: "progress_ok g" "fetch_page env uid aid symbol since (sg_cursor g) l = (Inr (trades, nc), l1)"
      "store_page db (sy_now env) uid aid symbol market (if skip then filter (\<lambda>t. xt_id t \<noteq> []) trades else trades) g = Some g1"
    have "0 \<le> xt_amount t \<and> 0 \<le> xt_price t \<and> 0 \<le> xt_fee_cost t" if "t \<in> set trades" for t
      using fetch_page_reads(2) [OF g(2) that] row_trade_bounds by blast
    then have "progress_ok g1" by (intro store_page_ok [OF g(1,3) assms(3)]) (auto split: if_splits)
    then show "progress_ok g1 \<and> progress_ok (g1\<lparr>sg_cursor := c\<rparr>)" by (simp add: progress_ok_def)
  qed simp
  then show ?thesis by blast
qed

lemma state_scope_key: "state_scope (ys_account_id s) (ys_symbol s) (ys_market_type s) r \<longleftrightarrow> state_key r = state_key s"
  by (auto simp: state_scope_def state_key_def)

lemma put_state_keys:
  "map state_key (put_state_row s rs) = (if state_key s \<in> state_key ` set rs then map state_key rs else map state_key rs @ [state_key s])"
  by (induction rs) (auto simp: state_scope_key)

lemma put_state_ok:
  assumes "distinct (map state_key rs)" and "list_all P rs" and "P s"
  shows "distinct (map state_key (put_state_row s rs))" and "list_all P (put_state_row s rs)"
  using assms by (auto simp: put_state_keys) (induction rs, auto)

lemma find_state:
  assumes "list_all P (sd_states db)" and "P (fresh_state uid aid symbol market)"
  shows "P (get_or_create_sync_state db uid aid symbol market)"
    and "state_key (get_or_create_sync_state db uid aid symbol market) = (aid, symbol, market)"
  using assms by (auto simp: get_or_create_sync_state_def fresh_state_def state_key_def state_scope_def list_all_iff find_Some_iff split: option.split)

lemma found_put_state:
  "state_key s = (aid, symbol, market) \<Longrightarrow> get_or_create_sync_state (db\<lparr>sd_states := put_state_row s rs\<rparr>) uid aid symbol market = s"
  by (induction rs) (auto simp: get_or_create_sync_state_def state_scope_def state_key_def split: option.split)

abbreviation state_checks :: "sync_state \<Rightarrow> bool" where
  "state_checks s \<equiv> ys_market_type s \<in> {''spot'', ''futures''} \<and> 0 \<le> ys_error_count s"

lemma settled_ok:
  assumes "tables_ok db" and "progress_ok g" and "state_checks s"
  shows "tables_ok (db\<lparr>sd_ledger := sg_ledger g, sd_states := put_state_row s (sd_states db)\<rparr>)"
  using assms put_state_ok [where P = state_checks and s = s and rs = "sd_states db"] by (auto simp: tables_ok_def progress_ok_def)

lemma start_ok: "tables_ok db \<Longrightarrow> progress_ok (start_progress db s c)"
  by (simp add: tables_ok_def progress_ok_def start_progress_def)

lemma found_state_checks:
  assumes "tables_ok db" and "market \<in> {''spot'', ''futures''}"
  shows "state_checks (get_or_create_sync_state db uid aid symbol market)"
proof (rule find_state(1) [where P = state_checks])
  show "list_all state_checks (sd_states db)" using assms(1) by (simp add: tables_ok_def)
  show "state_checks (fresh_state uid aid symbol market)" using assms(2) by (simp add: fresh_state_def)
qed

definition symbol_state :: "sync_env \<Rightarrow> int \<Rightarrow> int \<Rightarrow> string \<Rightarrow> string \<Rightarrow> sync_db \<Rightarrow> sync_state" where
  "symbol_state env uid aid symbol market db =
     (let s = get_or_create_sync_state db uid aid symbol market in
      if ys_last_backfill_at s = None then s\<lparr>ys_last_backfill_at := Some (sy_now env)\<rparr> else s)"

lemma sync_symbol_shape:
  "\<exists>since. sync_symbol_trades env uid aid symbol market days db l = (case sync_pages env db uid aid symbol market (Some since) False 20
        (start_progress db (symbol_state env uid aid symbol market db) (ys_last_trade_id (symbol_state env uid aid symbol market db))) l of
           ((Some e, g), l1) \<Rightarrow> (Inl e, l1)
         | ((None, g), l1) \<Rightarrow> (Inr (sg_count g, db\<lparr>sd_ledger := sg_ledger g,
             sd_states := put_state_row (finish_sync_state (sy_now env) g (symbol_state env uid aid symbol market db)) (sd_states db)\<rparr>), l1))"
  unfolding sync_symbol_trades_def Let_def symbol_state_def by blast

lemma sync_symbolE:
  assumes "sync_symbol_trades env uid aid symbol market days db l = (Inr (n, db'), l')"
  obtains since g where "sync_pages env db uid aid symbol market (Some since) False 20
        (start_progress db (symbol_state env uid aid symbol market db) (ys_last_trade_id (symbol_state env uid aid symbol market db))) l
      = ((None, g), l')"
    and "db' = db\<lparr>sd_ledger := sg_ledger g,
      sd_states := put_state_row (finish_sync_state (sy_now env) g (symbol_state env uid aid symbol market db)) (sd_states db)\<rparr>"
    and "n = sg_count g"
proof -
  from sync_symbol_shape obtain since where "sync_symbol_trades env uid aid symbol market days db l = (case sync_pages env db uid aid symbol market (Some since) False 20
        (start_progress db (symbol_state env uid aid symbol market db) (ys_last_trade_id (symbol_state env uid aid symbol market db))) l of
           ((Some e, g), l1) \<Rightarrow> (Inl e, l1)
         | ((None, g), l1) \<Rightarrow> (Inr (sg_count g, db\<lparr>sd_ledger := sg_ledger g,
             sd_states := put_state_row (finish_sync_state (sy_now env) g (symbol_state env uid aid symbol market db)) (sd_states db)\<rparr>), l1))" by blast
  with assms have "(case sync_pages env db uid aid symbol market (Some since) False 20
        (start_progress db (symbol_state env uid aid symbol market db) (ys_last_trade_id (symbol_state env uid aid symbol market db))) l of
           ((Some e, g), l1) \<Rightarrow> (Inl e, l1)
         | ((None, g), l1) \<Rightarrow> (Inr (sg_count g, db\<lparr>sd_ledger := sg_ledger g,
             sd_states := put_state_row (finish_sync_state (sy_now env) g (symbol_state env uid aid symbol market db)) (sd_states db)\<rparr>), l1))
      = (Inr (n, db'), l')" by simp
  then obtain g where "sync_pages env db uid aid symbol market (Some since) False 20
        (start_progress db (symbol_state env uid aid symbol market db) (ys_last_trade_id (symbol_state env uid aid symbol market db))) l
      = ((None, g), l')"
    "db' = db\<lparr>sd_ledger := sg_ledger g,
      sd_states := put_state_row (finish_sync_state (sy_now env) g (symbol_state env uid aid symbol market db)) (sd_states db)\<rparr>"
    "n = sg_count g"
    by (auto split: prod.splits option.splits)
  then show thesis by (rule that)
qed

definition account_run :: "sync_env \<Rightarrow> int \<Rightarrow> int \<Rightarrow> string \<Rightarrow> string \<Rightarrow> sync_db \<Rightarrow> ccxt_log
    \<Rightarrow> (ccxt_failure option \<times> sync_progress) \<times> ccxt_log" where
  "account_run env uid aid symbol market db =
     (let s = get_or_create_sync_state db uid aid symbol market; known = ys_last_trade_ts_ms s > 0
      in sync_pages env db uid aid symbol market (if known then Some (since_last s) else None) True (if known then 20 else 200)
           (start_progress db s (if known then ys_last_trade_id s else None)))"

lemma sync_accountE:
  assumes "sync_account_symbol_trades env uid aid symbol market db l = (Inr (r, db'), l')"
  obtains e g s' where "account_run env uid aid symbol market db l = ((e, g), l')"
    and "db' = db\<lparr>sd_ledger := sg_ledger g, sd_states := put_state_row s' (sd_states db)\<rparr>"
    and "(e = None \<and> sr_warnings r = [] \<and> s' = finish_sync_state (sy_now env) g (get_or_create_sync_state db uid aid symbol market))
      \<or> (e \<noteq> None \<and> sr_warnings r \<noteq> [] \<and> s' = (get_or_create_sync_state db uid aid symbol market)
            \<lparr>ys_error_count := ys_error_count (get_or_create_sync_state db uid aid symbol market) + 1, ys_last_sync_at := Some (sy_now env)\<rparr>)"
proof -
  obtain e g l1 where run: "account_run env uid aid symbol market db l = ((e, g), l1)" by (metis prod.collapse)
  note body = assms [unfolded sync_account_symbol_trades_def Let_def, folded account_run_def [unfolded Let_def, THEN fun_cong],
      unfolded run fst_conv snd_conv]
  show thesis
  proof (cases e)
    case None
    with body run show thesis by (intro that [of e g]) (auto simp: sync_report_def)
  next
    case (Some err)
    with body run show thesis by (cases err) (auto intro!: that [of e g] simp: sync_report_def)
  qed
qed

lemma sync_symbol_ok:
  assumes "sync_symbol_trades env uid aid symbol market days db l = (Inr (n, db'), l')" and "tables_ok db"
    and "market \<in> {''spot'', ''futures''}"
  shows "tables_ok db'"
  using assms(1)
proof (cases rule: sync_symbolE)
  case (1 since g)
  have "state_checks (finish_sync_state (sy_now env) g (symbol_state env uid aid symbol market db))"
    using found_state_checks [OF assms(2,3), of uid aid symbol] by (simp add: finish_sync_state_def symbol_state_def Let_def)
  with sync_pages_ok [OF 1(1) start_ok [OF assms(2)] assms(3)] show ?thesis unfolding 1(2) by (intro settled_ok assms(2))
qed

lemma sync_account_ok:
  assumes "sync_account_symbol_trades env uid aid symbol market db l = (Inr (r, db'), l')" and "tables_ok db"
    and "market \<in> {''spot'', ''futures''}"
  shows "tables_ok db'"
  using assms(1)
proof (cases rule: sync_accountE)
  case (1 e g s')
  have "progress_ok g"
    using 1(1) unfolding account_run_def Let_def by (rule sync_pages_ok [OF _ start_ok [OF assms(2)] assms(3)])
  moreover have "state_checks s'"
    using 1(3) found_state_checks [OF assms(2,3), of uid aid symbol] by (auto simp: finish_sync_state_def)
  ultimately show ?thesis unfolding 1(2) by (intro settled_ok assms(2))
qed

lemma sync_configs_ok:
  assumes "tables_ok db"
  shows "tables_ok (snd (fst (sync_configs env cfgs s db l)))"
  using assms
proof (induction cfgs arbitrary: s db l)
  case (Cons cfg cfgs)
  obtain r l1 where run: "sync_config_trades env cfg db l = (r, l1)" by fastforce
  show ?case
  proof (cases r)
    case (Inl e)
    with run Cons show ?thesis by simp
  next
    case (Inr v)
    obtain n db1 where v: "v = (n, db1)" by (cases v)
    from run [unfolded Inr v] Cons.prems have "tables_ok db1"
      by (auto simp: sync_config_trades_def io_return_def io_fail_def split: option.splits sum.splits dest: sync_symbol_ok)
    with run Inr v Cons.IH show ?thesis by simp
  qed
qed simp

text \<open>Whatever the exchange answers, and whichever accounts fail, the tables keep their constraints: one row
  for each trade of an account and symbol, prices, amounts and fees that are not negative, known origins; one
  state for each account, symbol and market.\<close>

theorem sync_keeps_constraints:
  assumes "tables_ok db"
  shows "tables_ok (snd (fst (sync_running_configs env cfgs db l)))
    \<and> (case fst (sync_account_symbol_trades env uid aid symbol ''futures'' db l) of
         Inl e \<Rightarrow> True | Inr (r, db') \<Rightarrow> tables_ok db')"
proof
  show "tables_ok (snd (fst (sync_running_configs env cfgs db l)))"
    unfolding sync_running_configs_def Let_def using sync_configs_ok [OF assms] .
  obtain out l' where "sync_account_symbol_trades env uid aid symbol ''futures'' db l = (out, l')" by fastforce
  with sync_account_ok [OF _ assms] show "case fst (sync_account_symbol_trades env uid aid symbol ''futures'' db l) of
         Inl e \<Rightarrow> True | Inr (r, db') \<Rightarrow> tables_ok db'"
    by (auto split: sum.split)
qed

section \<open>Every fill is stored\<close>

definition has_key :: "ledger_key \<Rightarrow> ledger_row list \<Rightarrow> bool" where
  "has_key k t \<longleftrightarrow> k \<in> ledger_key_of ` set t"

definition fills_stored :: "sync_env \<Rightarrow> sync_db \<Rightarrow> int \<Rightarrow> int \<Rightarrow> string \<Rightarrow> string \<Rightarrow> ccxt_log \<Rightarrow> ledger_row list \<Rightarrow> bool" where
  "fills_stored env db uid aid symbol market new ledger \<longleftrightarrow>
     (\<forall>c vs v. (c, Returns (VList vs)) \<in> set new \<and> is_trades_call c \<and> v \<in> set vs
       \<longrightarrow> (\<exists>t. row_trade (sy_ccxt env aid) v t
              \<and> (xt_id t \<noteq> [] \<longrightarrow> has_key (ledger_key_of (ledger_row_of db (sy_now env) uid aid symbol market t)) ledger)))"

lemma related_member: "list_all2 P xs ys \<Longrightarrow> x \<in> set xs \<Longrightarrow> \<exists>y \<in> set ys. P x y"
  by (induction xs ys rule: list_all2_induct) auto

lemma stored_keys:
  assumes "store_page db now uid aid symbol market trades g = Some g1"
  shows "has_key k (sg_ledger g) \<Longrightarrow> has_key k (sg_ledger g1)"
    and "t \<in> set trades \<Longrightarrow> has_key (ledger_key_of (ledger_row_of db now uid aid symbol market t)) (sg_ledger g1)"
  by (auto simp: has_key_def stored_page(1) [OF assms] trade_ledger.keys_rows image_image)

lemma sync_pages_store:
  assumes run: "sync_pages env db uid aid symbol market since skip n g l = ((e, g'), l')"
  shows "(e = None \<longrightarrow> (\<exists>new. l' = l @ new \<and> fills_stored env db uid aid symbol market new (sg_ledger g')))
    \<and> (\<forall>k. has_key k (sg_ledger g) \<longrightarrow> has_key k (sg_ledger g'))"
proof -
  let ?R = "\<lambda>l1 g1. \<exists>new. l1 = l @ new \<and> fills_stored env db uid aid symbol market new (sg_ledger g1)
      \<and> (\<forall>k. has_key k (sg_ledger g) \<longrightarrow> has_key k (sg_ledger g1))"
  have "(e = None \<longrightarrow> ?R l' g') \<and> (\<exists>l1. ?R l1 g')"
  proof (rule sync_pages_rule [OF run])
    show "?R l g" by (simp add: fills_stored_def)
  next
    fix l1 l2 g1 g2 nc c and trades :: "exchange_trade list"
    let ?kept = "if skip then filter (\<lambda>t. xt_id t \<noteq> []) trades else trades"
    assume "?R l1 g1" and page: "fetch_page env uid aid symbol since (sg_cursor g1) l1 = (Inr (trades, nc), l2)"
      and store: "store_page db (sy_now env) uid aid symbol market ?kept g1 = Some g2"
    then obtain n1 n2 where log: "l1 = l @ n1" "fills_stored env db uid aid symbol market n1 (sg_ledger g1)"
      "\<forall>k. has_key k (sg_ledger g) \<longrightarrow> has_key k (sg_ledger g1)" "l2 = l1 @ n2" "page_read (sy_ccxt env aid) n2 trades"
      using fetch_page_reads(1) [OF page] by blast
    have old: "has_key k (sg_ledger g1) \<Longrightarrow> has_key k (sg_ledger g2)" for k by (rule stored_keys(1) [OF store])
    have new: "has_key (ledger_key_of (ledger_row_of db (sy_now env) uid aid symbol market t)) (sg_ledger g2)"
      if "t \<in> set trades" "xt_id t \<noteq> []" for t
      using that by (intro stored_keys(2) [OF store]) auto
    have "fills_stored env db uid aid symbol market (n1 @ n2) (sg_ledger g2)"
      unfolding fills_stored_def
    proof (intro allI impI)
      fix c vs v
      assume v: "(c, Returns (VList vs)) \<in> set (n1 @ n2) \<and> is_trades_call c \<and> v \<in> set vs"
      show "\<exists>t. row_trade (sy_ccxt env aid) v t
          \<and> (xt_id t \<noteq> [] \<longrightarrow> has_key (ledger_key_of (ledger_row_of db (sy_now env) uid aid symbol market t)) (sg_ledger g2))"
      proof (cases "(c, Returns (VList vs)) \<in> set n1")
        case True
        with v log(2) old show ?thesis unfolding fills_stored_def by metis
      next
        case False
        with v log(5) have "list_all2 (row_trade (sy_ccxt env aid)) vs trades" by (auto simp: page_read_def)
        with v obtain t where "t \<in> set trades" "row_trade (sy_ccxt env aid) v t"
          using related_member by metis
        with new show ?thesis by blast
      qed
    qed
    with log old show "?R l2 g2 \<and> ?R l2 (g2\<lparr>sg_cursor := c\<rparr>)" by auto
  next
    fix l1 g1 nc l2
    assume "?R l1 g1" and page: "fetch_page env uid aid symbol since (sg_cursor g1) l1 = (Inr ([], nc), l2)"
    then obtain n1 n2 where log: "l1 = l @ n1" "fills_stored env db uid aid symbol market n1 (sg_ledger g1)"
      "\<forall>k. has_key k (sg_ledger g) \<longrightarrow> has_key k (sg_ledger g1)" "l2 = l1 @ n2" "page_read (sy_ccxt env aid) n2 []"
      using fetch_page_reads(1) [OF page] by blast
    then have "fills_stored env db uid aid symbol market (n1 @ n2) (sg_ledger g1)"
      by (fastforce simp: fills_stored_def page_read_def)
    with log show "?R l2 g1" by auto
  qed
  then show ?thesis by blast
qed

text \<open>C36: A synchronisation of an account that ends without a warning has stored every fill with an id that any
  page listed; whether or not it ends with a warning, it loses no fill stored before. With a warning, the
  next synchronisation starts where this one did: the newest fill and the cursor of its state are as before,
  and the error is counted.\<close>

theorem account_sync_loses_no_fill:
  assumes "sync_account_symbol_trades env uid aid symbol market db l = (Inr (r, db'), l')"
  shows "(\<forall>k. has_key k (sd_ledger db) \<longrightarrow> has_key k (sd_ledger db'))
    \<and> (sr_warnings r = [] \<longrightarrow> (\<exists>new. l' = l @ new \<and> fills_stored env db uid aid symbol market new (sd_ledger db')))
    \<and> (sr_warnings r \<noteq> [] \<longrightarrow>
        (let s = get_or_create_sync_state db uid aid symbol market; s' = get_or_create_sync_state db' uid aid symbol market
         in ys_last_trade_id s' = ys_last_trade_id s \<and> ys_last_trade_ts_ms s' = ys_last_trade_ts_ms s
            \<and> ys_error_count s' = ys_error_count s + 1))"
  using assms
proof (cases rule: sync_accountE)
  case (1 e g s')
  have "state_key (get_or_create_sync_state db uid aid symbol market) = (aid, symbol, market)"
    by (rule find_state(2) [where P = "\<lambda>_. True"]) (simp_all add: list_all_iff)
  then have key: "state_key s' = (aid, symbol, market)" using 1(3) by (auto simp: finish_sync_state_def state_key_def)
  have after: "get_or_create_sync_state db' uid aid symbol market = s'"
    using found_put_state [OF key, where db = "db\<lparr>sd_ledger := sg_ledger g\<rparr>" and rs = "sd_states db"] 1(2) by simp
  note stored = sync_pages_store [OF 1(1) [unfolded account_run_def Let_def]]
  from stored 1(2) have "\<forall>k. has_key k (sd_ledger db) \<longrightarrow> has_key k (sd_ledger db')" by (simp add: start_progress_def)
  moreover from stored 1(2,3) have "sr_warnings r = [] \<longrightarrow> (\<exists>new. l' = l @ new \<and> fills_stored env db uid aid symbol market new (sd_ledger db'))"
    by auto
  ultimately show ?thesis using after 1(3) by (auto simp: Let_def)
qed

section \<open>The number of requests\<close>

lemma fetch_page_calls: "calls_at_most is_trades_call (retry_attempts (sy_ccxt env aid)) (fetch_page env uid aid symbol since cursor)"
proof (cases "sy_access env uid aid")
  case None
  let ?x = "sy_ccxt env aid"
  have "calls_at_most is_trades_call (0 + (retry_attempts ?x + (0 + (0 + 0)))) (fetch_futures_trades_page ?x symbol since (page_limit env) cursor)"
    unfolding fetch_futures_trades_page_def
    by (intro calls_bind calls_client calls_once) (auto intro!: calls_none send_rules simp: is_trades_call_def)
  with None show ?thesis by (simp add: fetch_page_def)
next
  case (Some e)
  then show ?thesis by (auto simp: fetch_page_def intro!: calls_mono [OF calls_none] send_rules)
qed

lemma sync_pages_calls:
  assumes "sync_pages env db uid aid symbol market since skip n g l = ((e, g'), l')"
  shows "\<exists>new. l' = l @ new \<and> length (filter (is_trades_call \<circ> fst) new) \<le> n * retry_attempts (sy_ccxt env aid)"
  using assms
proof (induction n arbitrary: g l)
  case (Suc n)
  obtain r l1 where page: "fetch_page env uid aid symbol since (sg_cursor g) l = (r, l1)" by fastforce
  from yieldsE [OF fetch_page_calls [unfolded calls_at_most_def] page] obtain n1
    where n1: "l1 = l @ n1" "length (filter (is_trades_call \<circ> fst) n1) \<le> retry_attempts (sy_ccxt env aid)" .
  have here: "?case" if "l' = l1"
    using that n1 by (auto simp: comp_def)
  show ?case
  proof (cases "l' = l1")
    case True
    then show ?thesis by (rule here)
  next
    case False
    with Suc.prems page obtain trades nc g1 where
      "sync_pages env db uid aid symbol market since skip n (g1\<lparr>sg_cursor := nc\<rparr>) l1 = ((e, g'), l')"
      by (auto split: sum.splits prod.splits option.splits if_splits)
    from Suc.IH [OF this] obtain n2 where "l' = l1 @ n2" "length (filter (is_trades_call \<circ> fst) n2) \<le> n * retry_attempts (sy_ccxt env aid)"
      by blast
    with n1 show ?thesis by (intro exI [of _ "n1 @ n2"]) (auto simp: comp_def)
  qed
qed simp

text \<open>A synchronisation ends whatever the exchange answers: it asks for at most twenty pages, or two hundred
  when the account was never synchronised, each with its attempts.\<close>

theorem sync_request_bound:
  "(\<exists>new. snd (sync_symbol_trades env uid aid symbol market days db l) = l @ new
      \<and> length (filter (is_trades_call \<circ> fst) new) \<le> 20 * nat (max 1 (cx_max_retries (sy_ccxt env aid))))
   \<and> (\<exists>new. snd (sync_account_symbol_trades env uid aid symbol market db l) = l @ new
      \<and> length (filter (is_trades_call \<circ> fst) new)
          \<le> (if ys_last_trade_ts_ms (get_or_create_sync_state db uid aid symbol market) > 0 then 20 else 200)
            * nat (max 1 (cx_max_retries (sy_ccxt env aid))))"
proof
  from sync_symbol_shape obtain since where shape: "sync_symbol_trades env uid aid symbol market days db l = (case sync_pages env db uid aid symbol market (Some since) False 20
        (start_progress db (symbol_state env uid aid symbol market db) (ys_last_trade_id (symbol_state env uid aid symbol market db))) l of
           ((Some e, g), l1) \<Rightarrow> (Inl e, l1)
         | ((None, g), l1) \<Rightarrow> (Inr (sg_count g, db\<lparr>sd_ledger := sg_ledger g,
             sd_states := put_state_row (finish_sync_state (sy_now env) g (symbol_state env uid aid symbol market db)) (sd_states db)\<rparr>), l1))" by blast
  obtain e g l' where run: "sync_pages env db uid aid symbol market (Some since) False 20
      (start_progress db (symbol_state env uid aid symbol market db) (ys_last_trade_id (symbol_state env uid aid symbol market db))) l = ((e, g), l')"
    by (metis prod.collapse)
  have "snd (sync_symbol_trades env uid aid symbol market days db l) = l'"
    unfolding shape run by (auto split: option.split)
  with sync_pages_calls [OF run] show "\<exists>new. snd (sync_symbol_trades env uid aid symbol market days db l) = l @ new
      \<and> length (filter (is_trades_call \<circ> fst) new) \<le> 20 * nat (max 1 (cx_max_retries (sy_ccxt env aid)))"
    by (simp add: retry_attempts_def)
next
  obtain e g l' where run: "account_run env uid aid symbol market db l = ((e, g), l')" by (metis prod.collapse)
  have "snd (sync_account_symbol_trades env uid aid symbol market db l) = l'"
    unfolding sync_account_symbol_trades_def Let_def account_run_def [unfolded Let_def, THEN fun_cong, symmetric] run
    by (auto split: option.split ccxt_failure.split)
  with sync_pages_calls [OF run [unfolded account_run_def Let_def]]
  show "\<exists>new. snd (sync_account_symbol_trades env uid aid symbol market db l) = l @ new
      \<and> length (filter (is_trades_call \<circ> fst) new)
          \<le> (if ys_last_trade_ts_ms (get_or_create_sync_state db uid aid symbol market) > 0 then 20 else 200)
            * nat (max 1 (cx_max_retries (sy_ccxt env aid)))"
    by (simp add: retry_attempts_def)
qed

section \<open>A cursor that sticks\<close>

lemma later_id_keeps: "(\<And>t. t \<in> set trades \<Longrightarrow> \<not> py_less c (xt_id t)) \<Longrightarrow> fold (\<lambda>t m. later_id m t) trades (Some c) = Some c"
  by (induction trades) (auto simp: later_id_def)

text \<open>Trade ids are compared as texts. When no id that is listed comes after the remembered one in the order of
  texts, the remembered id stays: after the trade 999 the trades from 1000 on never move it, and every
  synchronisation reads the same pages again.\<close>

theorem text_cursor_sticks:
  assumes "sync_symbol_trades env uid aid symbol market days db l = (Inr (n, db'), l')"
    and "ys_last_trade_id (get_or_create_sync_state db uid aid symbol market) = Some c"
    and "\<And>since cursor l0 trades nc l1 t. fetch_page env uid aid symbol since cursor l0 = (Inr (trades, nc), l1)
          \<Longrightarrow> t \<in> set trades \<Longrightarrow> \<not> py_less c (xt_id t)"
  shows "ys_last_trade_id (get_or_create_sync_state db' uid aid symbol market) = Some c"
  using assms(1)
proof (cases rule: sync_symbolE)
  case (1 since g)
  have same: "ys_last_trade_id (symbol_state env uid aid symbol market db) = Some c"
    using assms(2) by (simp add: symbol_state_def Let_def)
  have "((None :: ccxt_failure option) = None \<longrightarrow> sg_max_id g = Some c) \<and> (\<exists>l1 :: ccxt_log. sg_max_id g = Some c)"
  proof (rule sync_pages_rule [where R = "\<lambda>l g. sg_max_id g = Some c", OF 1(1)])
    show "sg_max_id (start_progress db (symbol_state env uid aid symbol market db)
        (ys_last_trade_id (symbol_state env uid aid symbol market db))) = Some c"
      using same by (simp add: start_progress_def)
  next
    fix l0 l1 g0 g1 nc d and trades :: "exchange_trade list"
    assume "sg_max_id g0 = Some c" and page: "fetch_page env uid aid symbol (Some since) (sg_cursor g0) l0 = (Inr (trades, nc), l1)"
      and "store_page db (sy_now env) uid aid symbol market (if False then filter (\<lambda>t. xt_id t \<noteq> []) trades else trades) g0 = Some g1"
    then show "sg_max_id g1 = Some c \<and> sg_max_id (g1\<lparr>sg_cursor := d\<rparr>) = Some c"
      using stored_page(2) later_id_keeps assms(3) [OF page] by auto
  qed
  then have "ys_last_trade_id (finish_sync_state (sy_now env) g (symbol_state env uid aid symbol market db)) = Some c"
    by (simp add: finish_sync_state_def)
  moreover have "state_key (get_or_create_sync_state db uid aid symbol market) = (aid, symbol, market)"
    by (rule find_state(2) [where P = "\<lambda>_. True"]) (simp_all add: list_all_iff)
  then have "state_key (finish_sync_state (sy_now env) g (symbol_state env uid aid symbol market db)) = (aid, symbol, market)"
    by (simp add: finish_sync_state_def symbol_state_def state_key_def Let_def)
  note found_put_state [OF this, where db = "db\<lparr>sd_ledger := sg_ledger g\<rparr>" and rs = "sd_states db" and uid = uid]
  ultimately show ?thesis using 1(2) by simp
qed

end
