(* ===== verification/Trade_Sync_Rebate.thy ===== *)
theory Trade_Sync_Rebate
  imports Trade_Sync_Safety
begin

text \<open>
  What a synchronisation (theory Trade_Sync) does with a fill whose fee is negative, a maker rebate: the
  schema of trades refuses it, and with it the page.
\<close>

lemma answered: "call_with_retry x c l = (Inr v, l') \<Longrightarrow> \<exists>l0. cx_answer x l0 c = Returns v"
proof -
  have "retry_loop x c n l = (Inr v, l') \<Longrightarrow> \<exists>l0. cx_answer x l0 c = Returns v" for n
  proof (induction n arbitrary: l)
    case (Suc n)
    show ?case
    proof (cases "cx_answer x l c")
      case (Returns w)
      with Suc.prems show ?thesis by (auto simp: io_bind_def query_def io_return_def)
    next
      case (Raises k m)
      with Suc show ?thesis by (auto simp: io_bind_def query_def io_fail_def simp del: map_ccxt_error.simps split: if_splits)
    qed
  qed (simp add: io_fail_def)
  then show "call_with_retry x c l = (Inr v, l') \<Longrightarrow> \<exists>l0. cx_answer x l0 c = Returns v" by (simp add: call_with_retry_def)
qed

lemma client_answered:
  assumes "client x name (call_with_retry x c) l = (Inr v, l')"
  shows "\<exists>l0. cx_answer x l0 c = Returns v"
proof -
  from assms have "io_bind (call_with_retry x CxMarkets) (\<lambda>_. call_with_retry x c) l = (Inr v, l')"
    by (auto elim!: handleE simp: client_def configure_demo_mode_def io_fail_def io_bind_def io_return_def io_handle_def
        split: if_splits ccxt_failure.splits prod.splits sum.splits)
  then obtain m l1 where "call_with_retry x c l1 = (Inr v, l')" by (rule bind_okE)
  then show ?thesis by (rule answered)
qed

definition rebate_row :: "pyval \<Rightarrow> bool" where
  "rebate_row v = (case v of VDict d \<Rightarrow> (case get_none d ''fee'' of VDict f \<Rightarrow> ccxt_float 0 (get_none f ''cost'') < 0 | _ \<Rightarrow> False) | _ \<Rightarrow> False)"

lemma default_unused: "get_none d k = v \<Longrightarrow> v \<noteq> VNone \<Longrightarrow> get_default d k w = v"
  by (auto simp: get_default_def split: option.splits)

lemma rebate_rejected:
  assumes "rebate_row v"
  shows "\<not> row_trade x v t"
proof -
  from assms obtain d f where d: "v = VDict d" "get_none d ''fee'' = VDict f" "ccxt_float 0 (get_none f ''cost'') < 0"
    by (auto simp: rebate_row_def split: pyval.splits)
  have fee: "get_default d ''fee'' (VDict []) = VDict f" by (rule default_unused [OF d(2)]) simp
  have "get_default f ''cost'' (VFloat 0) = get_none f ''cost''"
    by (rule default_unused [OF refl]) (use d(3) in auto)
  with d(3) have "ccxt_float 0 (get_default f ''cost'' (VFloat 0)) < 0" by simp
  with fee have "normalize_trade x d [] = (Inl (Raised ''validation error for NormalizedTrade''), [])"
    by (simp add: normalize_trade_def Let_def io_fail_def)
  with d(1) show ?thesis by (simp add: row_trade_def)
qed

lemma rebate_page_fails:
  assumes "\<And>l0 s t n ps. \<exists>vs. cx_answer (sy_ccxt env aid) l0 (CxTrades s t n ps) = Returns (VList vs) \<and> (\<exists>v \<in> set vs. rebate_row v)"
  shows "\<exists>e. fst (fetch_page env uid aid symbol since cursor l) = Inl e"
proof (rule ccontr)
  let ?x = "sy_ccxt env aid"
  assume "\<nexists>e. fst (fetch_page env uid aid symbol since cursor l) = Inl e"
  then obtain trades nc l' where page: "fetch_page env uid aid symbol since cursor l = (Inr (trades, nc), l')"
    by (cases "fetch_page env uid aid symbol since cursor l"; cases "fst (fetch_page env uid aid symbol since cursor l)") auto
  from fetch_page_reads(1) [OF page] obtain new where new: "l' = l @ new" "page_read ?x new trades" by blast
  from page have run: "fetch_futures_trades_page ?x symbol since (page_limit env) cursor l = (Inr (trades, nc), l')"
    by (auto simp: fetch_page_def io_fail_def split: option.splits)
  then obtain f l1 where f: "ensure_futures_supported ?x l = (Inr f, l1)"
    "io_bind (client ?x (fu_exchange_id f) (call_with_retry ?x (trades_request ?x (fu_params f) symbol since (page_limit env) cursor))) (\<lambda>raw.
     io_bind (iterate raw) (\<lambda>rows.
     io_bind (convert_all (\<lambda>v. io_bind (as_mapping v) (normalize_trade ?x)) rows) (\<lambda>trades.
     io_return (trades, next_futures_trades_cursor trades cursor)))) l1 = (Inr (trades, nc), l')"
    unfolding fetch_futures_trades_page_def by (rule bind_okE)
  have "\<exists>s t n ps. trades_request ?x (fu_params f) symbol since (page_limit env) cursor = CxTrades s t n ps"
    unfolding trades_request_def by (cases "given_text cursor \<and> cx_exchange ?x = ''binance''") auto
  then obtain s t n ps where c: "trades_request ?x (fu_params f) symbol since (page_limit env) cursor = CxTrades s t n ps" by blast
  from f(2) obtain raw l2 where raw: "client ?x (fu_exchange_id f) (call_with_retry ?x (CxTrades s t n ps)) l1 = (Inr raw, l2)"
    "io_bind (iterate raw) (\<lambda>rows.
     io_bind (convert_all (\<lambda>v. io_bind (as_mapping v) (normalize_trade ?x)) rows) (\<lambda>trades.
     io_return (trades, next_futures_trades_cursor trades cursor))) l2 = (Inr (trades, nc), l')"
    unfolding c by (rule bind_okE)
  from client_answered [OF raw(1)] assms obtain vs v where vs: "raw = VList vs" "v \<in> set vs" "rebate_row v" by (metis library_answer.inject(1))
  from raw(2) vs(1) obtain rows l4 where "iterate (VList vs) l2 = (Inr rows, l4)"
    "io_bind (convert_all (\<lambda>v. io_bind (as_mapping v) (normalize_trade ?x)) rows) (\<lambda>trades.
     io_return (trades, next_futures_trades_cursor trades cursor)) l4 = (Inr (trades, nc), l')" by (auto elim: bind_okE)
  then have conv: "io_bind (convert_all (\<lambda>v. io_bind (as_mapping v) (normalize_trade ?x)) vs) (\<lambda>trades.
     io_return (trades, next_futures_trades_cursor trades cursor)) l4 = (Inr (trades, nc), l')" by (simp add: iterate_def io_return_def)
  obtain ts l5 where "convert_all (\<lambda>v. io_bind (as_mapping v) (normalize_trade ?x)) vs l4 = (Inr ts, l5)" by (rule bind_okE [OF conv])
  from related_member [OF convert_all_maps [OF this] vs(2)] obtain t' l6 l7
    where "io_bind (as_mapping v) (normalize_trade ?x) l6 = (Inr t', l7)" by blast
  from converted_row [OF this] rebate_rejected [OF vs(3)] show False by blast
qed

text \<open>A fill with a negative fee, a rebate, is refused by the schema of trades and with it the whole page: as
  long as the exchange lists such a fill no fill is stored at all, and the periodic synchronisation of the
  configuration fails every time.\<close>

theorem maker_rebate_blocks_sync:
  assumes "\<And>l0 s t n ps. \<exists>vs. cx_answer (sy_ccxt env aid) l0 (CxTrades s t n ps) = Returns (VList vs) \<and> (\<exists>v \<in> set vs. rebate_row v)"
  shows "(\<exists>e. fst (sync_symbol_trades env uid aid symbol market days db l) = Inl e)
    \<and> (case fst (sync_account_symbol_trades env uid aid symbol market db l) of
         Inl e \<Rightarrow> True | Inr (r, db') \<Rightarrow> sd_ledger db' = sd_ledger db \<and> sr_warnings r \<noteq> [])"
proof
  have first: "\<exists>err l1. sync_pages env db uid aid symbol market since skip n g l = ((Some err, g), l1)" if "0 < n" for since skip n g
  proof -
    from that obtain m where n: "n = Suc m" by (cases n) auto
    from rebate_page_fails [OF assms, of uid symbol since "sg_cursor g" l] obtain e l1
      where "fetch_page env uid aid symbol since (sg_cursor g) l = (Inl e, l1)" by (metis prod.collapse)
    then show ?thesis unfolding n by simp
  qed
  obtain since where shape: "sync_symbol_trades env uid aid symbol market days db l = (case sync_pages env db uid aid symbol market (Some since) False 20
        (start_progress db (symbol_state env uid aid symbol market db) (ys_last_trade_id (symbol_state env uid aid symbol market db))) l of
           ((Some e, g), l1) \<Rightarrow> (Inl e, l1)
         | ((None, g), l1) \<Rightarrow> (Inr (sg_count g, db\<lparr>sd_ledger := sg_ledger g,
             sd_states := put_state_row (finish_sync_state (sy_now env) g (symbol_state env uid aid symbol market db)) (sd_states db)\<rparr>), l1))" using sync_symbol_shape by blast
  obtain err l1 where "sync_pages env db uid aid symbol market (Some since) False 20
        (start_progress db (symbol_state env uid aid symbol market db) (ys_last_trade_id (symbol_state env uid aid symbol market db))) l
      = ((Some err, start_progress db (symbol_state env uid aid symbol market db) (ys_last_trade_id (symbol_state env uid aid symbol market db))), l1)"
    using first [where n = 20 and since = "Some since" and skip = False
      and g = "start_progress db (symbol_state env uid aid symbol market db) (ys_last_trade_id (symbol_state env uid aid symbol market db))", OF zero_less_numeral]
    by blast
  with shape show "\<exists>e. fst (sync_symbol_trades env uid aid symbol market days db l) = Inl e" by simp
  show "case fst (sync_account_symbol_trades env uid aid symbol market db l) of
         Inl e \<Rightarrow> True | Inr (r, db') \<Rightarrow> sd_ledger db' = sd_ledger db \<and> sr_warnings r \<noteq> []"
  proof (cases "sync_account_symbol_trades env uid aid symbol market db l")
    case (Pair out l')
    show ?thesis
    proof (cases out)
      case (Inr v)
      obtain r db' where v: "v = (r, db')" by (cases v)
      from Pair [unfolded Inr v] show ?thesis
      proof (cases rule: sync_accountE)
        case (1 e g s')
        let ?start = "start_progress db (get_or_create_sync_state db uid aid symbol market)
            (if ys_last_trade_ts_ms (get_or_create_sync_state db uid aid symbol market) > 0
             then ys_last_trade_id (get_or_create_sync_state db uid aid symbol market) else None)"
        have run: "account_run env uid aid symbol market db l
          = sync_pages env db uid aid symbol market
              (if ys_last_trade_ts_ms (get_or_create_sync_state db uid aid symbol market) > 0
               then Some (since_last (get_or_create_sync_state db uid aid symbol market)) else None) True
              (if ys_last_trade_ts_ms (get_or_create_sync_state db uid aid symbol market) > 0 then 20 else 200) ?start l"
          by (simp add: account_run_def Let_def)
        have "0 < (if ys_last_trade_ts_ms (get_or_create_sync_state db uid aid symbol market) > 0 then 20 else (200 :: nat))" by simp
        from first [where since = "if ys_last_trade_ts_ms (get_or_create_sync_state db uid aid symbol market) > 0
               then Some (since_last (get_or_create_sync_state db uid aid symbol market)) else None"
            and skip = True and g = ?start, OF this, folded run]
        obtain err l1 where "account_run env uid aid symbol market db l = ((Some err, ?start), l1)" by blast
        with 1(1) have "e = Some err" "g = ?start" by simp_all
        with 1 Pair Inr v show ?thesis by (auto simp: start_progress_def)
      qed
    qed (simp add: Pair)
  qed
qed

end
