(* ===== verification/Income_Sync_Safety.thy ===== *)
theory Income_Sync_Safety
  imports Income_Sync Trade_Sync_Rebate
begin

text \<open>
  What the funding ledger guarantees: a transaction is stored once, a synchronisation asks for a bounded number
  of pages, adjacent windows share no payment; and that payments listed under the name the exchange itself
  gives a symbol are never counted.
\<close>

section \<open>Runs\<close>

lemma upsert_income_rows_Some:
  "upsert_income_rows d values t = Some (t', j) \<Longrightarrow> t' = upsert_rows income_key_of refresh_income_row values t \<and> j = length values"
  by (auto simp: upsert_income_rows_def upsert_def upsert_rows_def split: if_splits)

text \<open>What every stored page preserves holds at the end.\<close>

lemma income_pages_rule:
  assumes "income_pages env d uid aid symbol exchange n since t k l = (Inr (t', k'), l')" and "R t"
    and page: "\<And>since l0 rows l1 t. fetch_income env uid aid symbol since l0 = (Inr rows, l1) \<Longrightarrow> R t
      \<Longrightarrow> R (upsert_rows income_key_of refresh_income_row (income_values (sy_now env) uid aid exchange symbol rows) t)"
  shows "R t'"
  using assms(1,2)
proof (induction n arbitrary: since t k l)
  case (Suc n)
  obtain rows l1 where rows: "fetch_income env uid aid symbol since l = (Inr rows, l1)"
    and rest: "(if rows = [] then io_return (t, k)
       else case upsert_income_rows d (income_values (sy_now env) uid aid exchange symbol rows) t of
              None \<Rightarrow> io_fail (Raised ''CardinalityViolation'')
            | Some (u, j) \<Rightarrow>
                (case next_since since rows of
                   None \<Rightarrow> io_return (u, k + j)
                 | Some since' \<Rightarrow> income_pages env d uid aid symbol exchange n since' u (k + j))) l1 = (Inr (t', k'), l')"
    using Suc.prems(1) [unfolded income_pages.simps] by (rule bind_okE)
  show ?case
  proof (cases "rows = []")
    case True
    with rest Suc.prems(2) show ?thesis by (simp add: io_return_def)
  next
    case False
    with rest obtain u j where stored: "upsert_income_rows d (income_values (sy_now env) uid aid exchange symbol rows) t = Some (u, j)"
      by (auto simp: io_fail_def split: option.splits)
    from page [OF rows Suc.prems(2)] upsert_income_rows_Some [OF stored] have "R u" by simp
    with False rest stored Suc.IH show ?thesis by (auto simp: io_return_def split: option.splits)
  qed
qed (simp add: io_return_def)

lemma sync_incomeE:
  assumes "sync_symbol_income env uid aid symbol exchange db l = (Inr (k, db'), l')"
  obtains t where "income_pages env (id_dialect db) uid aid symbol exchange 10
      (compute_since (sy_now env) (id_rows db) aid symbol) (id_rows db) 0 l = (Inr (t, k), l')" "db' = db\<lparr>id_rows := t\<rparr>"
proof -
  from assms obtain p l1 where *: "income_pages env (id_dialect db) uid aid symbol exchange 10
      (compute_since (sy_now env) (id_rows db) aid symbol) (id_rows db) 0 l = (Inr p, l1)"
    "((case p of (t, k) \<Rightarrow> io_return (k, db\<lparr>id_rows := t\<rparr>)) :: (nat \<times> income_db) ccxt) l1 = (Inr (k, db'), l')"
    unfolding sync_symbol_income_def by (rule bind_okE)
  from *(2) have "p = (id_rows db', k)" "l1 = l'" "db' = db\<lparr>id_rows := id_rows db'\<rparr>" by (auto simp: io_return_def split: prod.splits)
  with *(1) that [of "id_rows db'"] show thesis by simp
qed

section \<open>Every transaction once\<close>

text \<open>A payment is one row however often it is read: no two rows of the ledger have the same transaction, over
  any number of synchronisations of any configurations, failed ones included.\<close>

lemma symbol_income_keys:
  assumes "distinct (map income_key_of (id_rows db))" and "sync_symbol_income env uid aid symbol exchange db l = (Inr (k, db'), l')"
  shows "distinct (map income_key_of (id_rows db'))"
  using assms(2)
proof (cases rule: sync_incomeE)
  case (1 t)
  have "distinct (map income_key_of t)"
    by (rule income_pages_rule [where R = "\<lambda>t. distinct (map income_key_of t)", OF 1(1) assms(1)]) (rule income_ledger.distinct_rows)
  with 1(2) show ?thesis by simp
qed

lemma config_income_keys:
  assumes "distinct (map income_key_of (id_rows db))" and "sync_config_income env cfg db l = (Inr (k, db'), l')"
  shows "distinct (map income_key_of (id_rows db'))"
  using assms symbol_income_keys
  by (auto simp: sync_config_income_def io_return_def io_fail_def split: if_splits option.splits sum.splits)

theorem payments_stored_once:
  assumes "distinct (map income_key_of (id_rows db))"
  shows "distinct (map income_key_of (id_rows (snd (fst (sync_running_income env cfgs db l)))))"
proof -
  have "distinct (map income_key_of (id_rows (snd (fst (income_configs env cs s db l)))))" for cs s
    using assms
  proof (induction cs arbitrary: s db l)
    case (Cons c cs)
    show ?case
    proof (cases "sync_config_income env c db l")
      case (Pair r l1)
      with Cons config_income_keys [OF Cons(2)] show ?thesis by (cases r) (auto split: prod.split)
    qed
  qed simp
  then show ?thesis by (simp add: sync_running_income_def Let_def)
qed

text \<open>Windows that follow each other share no payment and lose none: what is paid between the opening of a
  position and the closing of the next one is the sum of the two positions' funding.\<close>

theorem adjacent_windows_add:
  assumes "a \<le> b" and "b \<le> c"
  shows "sum_funding db aid symbol (Some a) (Some c) = sum_funding db aid symbol (Some a) (Some b) + sum_funding db aid symbol (Some b) (Some c)"
proof -
  have "sum_list (map ic_income (filter (\<lambda>r. funding_of aid symbol r \<and> in_window (Some a) (Some c) (ic_at r)) rows))
      = sum_list (map ic_income (filter (\<lambda>r. funding_of aid symbol r \<and> in_window (Some a) (Some b) (ic_at r)) rows))
      + sum_list (map ic_income (filter (\<lambda>r. funding_of aid symbol r \<and> in_window (Some b) (Some c) (ic_at r)) rows))" for rows
    using assms by (induction rows) (auto simp: in_window_def)
  then show ?thesis by (simp add: sum_funding_def)
qed

section \<open>Requests\<close>

definition is_funding_call :: "ccxt_call \<Rightarrow> bool" where
  "is_funding_call c = (case c of CxFunding s t n ps \<Rightarrow> True | _ \<Rightarrow> False)"

lemma sends_income [send_rules]: "sends ok (normalize_income x d)"
  by (auto simp: normalize_income_def Let_def intro!: send_rules split: option.split)

lemma fetch_income_calls: "calls_at_most is_funding_call (retry_attempts (sy_ccxt env aid)) (fetch_income env uid aid symbol since)"
proof -
  let ?x = "sy_ccxt env aid"
  have "calls_at_most is_funding_call (retry_attempts ?x) (fetch_futures_income ?x symbol (Some since) 1000)"
  proof (cases "cx_exchange ?x = ''binance''")
    case True
    have "calls_at_most is_funding_call (0 + (retry_attempts ?x + 0)) (fetch_futures_income ?x symbol (Some since) 1000)"
      unfolding fetch_futures_income_def if_P [OF True] if_not_P [OF not_not [THEN iffD2, OF True]]
      by (intro calls_bind calls_client calls_once) (auto intro!: calls_none send_rules simp: is_funding_call_def)
    then show ?thesis by simp
  next
    case False
    then show ?thesis by (auto simp: fetch_futures_income_def intro!: calls_mono [OF calls_none] send_rules)
  qed
  then show ?thesis by (auto simp: fetch_income_def intro!: calls_mono [OF calls_none] send_rules split: option.split)
qed

lemma income_pages_calls:
  "calls_at_most is_funding_call (n * retry_attempts (sy_ccxt env aid)) (income_pages env d uid aid symbol exchange n since t k)"
proof (induction n arbitrary: since t k)
  case 0
  show ?case by (auto intro!: calls_none send_rules)
next
  case (Suc n)
  show ?case
    unfolding income_pages.simps mult_Suc
    by (intro calls_bind fetch_income_calls) (auto intro!: calls_mono [OF calls_none] Suc send_rules split: option.split)
qed

text \<open>A synchronisation ends whatever the exchange answers: at most ten pages, each with its attempts.\<close>

theorem income_request_bound:
  "\<exists>new. snd (sync_symbol_income env uid aid symbol exchange db l) = l @ new
     \<and> length (filter (is_funding_call \<circ> fst) new) \<le> 10 * nat (max 1 (cx_max_retries (sy_ccxt env aid)))"
proof -
  have "calls_at_most is_funding_call (10 * retry_attempts (sy_ccxt env aid) + 0) (sync_symbol_income env uid aid symbol exchange db)"
    unfolding sync_symbol_income_def
    by (intro calls_bind income_pages_calls) (auto intro!: calls_none send_rules)
  then show ?thesis
    unfolding calls_at_most_def retry_attempts_def by (rule yieldsE) (auto intro: prod.collapse [symmetric])
qed

section \<open>The name of the symbol\<close>

lemma upsert_rows_new:
  assumes "\<And>r. r \<in> set rows \<Longrightarrow> P r" and "\<And>r s. r \<in> set rows \<Longrightarrow> P (refresh s r)" and "list_all P t"
  shows "list_all P (upsert_rows key refresh rows t)"
proof -
  have one: "list_all P (upsert_row key refresh r t)" if "P r" "\<And>s. P (refresh s r)" "list_all P t" for r t
    using that by (induction t) auto
  show ?thesis
    using assms by (induction rows arbitrary: t) (auto simp: upsert_rows_def one)
qed

text \<open>A row whose own record names the symbol otherwise than the platform does, as \<^verbatim>\<open>BTCUSDT\<close> for
  \<^verbatim>\<open>BTC/USDT:USDT\<close>.\<close>

definition foreign_row :: "string \<Rightarrow> pyval \<Rightarrow> bool" where
  "foreign_row symbol v =
     (case v of VDict d \<Rightarrow> (case get_none d ''info'' of VDict i \<Rightarrow> (case get_none i ''symbol'' of VStr t \<Rightarrow> t \<noteq> [] \<and> t \<noteq> symbol | _ \<Rightarrow> False)
                            | _ \<Rightarrow> False) | _ \<Rightarrow> False)"

lemma foreign_income:
  assumes "io_bind (as_mapping v) (normalize_income x) l = (Inr i, l')" and "foreign_row symbol v"
  shows "given_text (xi_symbol i) \<and> xi_symbol i \<noteq> Some symbol"
proof -
  from assms(2) obtain d f t where d: "v = VDict d" "get_none d ''info'' = VDict f" "get_none f ''symbol'' = VStr t" "t \<noteq> []" "t \<noteq> symbol"
    by (auto simp: foreign_row_def split: pyval.splits)
  from assms(1) d(1) have "normalize_income x d l = (Inr i, l')" by (simp add: as_mapping_def io_bind_def io_return_def)
  then have "xi_symbol i = Some t"
    unfolding normalize_income_def Let_def
    by (rule bind_okE) (use d in \<open>auto simp: io_return_def py_or_def\<close>)
  with d show ?thesis by (simp add: given_text_def)
qed

lemma foreign_page:
  assumes run: "fetch_income env uid aid symbol since l = (Inr rows, l')"
    and answers: "\<And>l0 s n ps vs v. cx_answer (sy_ccxt env aid) l0 (CxFunding symbol s n ps) = Returns (VList vs) \<Longrightarrow> v \<in> set vs \<Longrightarrow> foreign_row symbol v"
    and i: "i \<in> set rows"
  shows "given_text (xi_symbol i) \<and> xi_symbol i \<noteq> Some symbol"
proof -
  let ?x = "sy_ccxt env aid"
  have binance: "cx_exchange ?x = ''binance''" "sy_access env uid aid = None"
    using run i by (auto simp: fetch_income_def fetch_futures_income_def io_return_def io_fail_def split: option.splits if_splits)
  from run binance have "io_bind (ensure_futures_supported ?x) (\<lambda>f. io_bind (client ?x (fu_exchange_id f)
       (call_with_retry ?x (CxFunding symbol (since_millis (Some since)) 1000 (fu_params f)))) (\<lambda>raw.
     io_bind (iterate raw) (convert_all (\<lambda>v. io_bind (as_mapping v) (normalize_income ?x))))) l = (Inr rows, l')"
    by (simp add: fetch_income_def fetch_futures_income_def)
  then obtain f l1 where "ensure_futures_supported ?x l = (Inr f, l1)" "io_bind (client ?x (fu_exchange_id f)
       (call_with_retry ?x (CxFunding symbol (since_millis (Some since)) 1000 (fu_params f)))) (\<lambda>raw.
     io_bind (iterate raw) (convert_all (\<lambda>v. io_bind (as_mapping v) (normalize_income ?x)))) l1 = (Inr rows, l')"
    by (rule bind_okE)
  from this(2) obtain raw l2 where raw: "client ?x (fu_exchange_id f)
       (call_with_retry ?x (CxFunding symbol (since_millis (Some since)) 1000 (fu_params f))) l1 = (Inr raw, l2)"
     "io_bind (iterate raw) (convert_all (\<lambda>v. io_bind (as_mapping v) (normalize_income ?x))) l2 = (Inr rows, l')"
    by (rule bind_okE)
  from raw(2) obtain vs l3 where vs: "iterate raw l2 = (Inr vs, l3)"
    "convert_all (\<lambda>v. io_bind (as_mapping v) (normalize_income ?x)) vs l3 = (Inr rows, l')" by (rule bind_okE)
  have all: "list_all2 (\<lambda>v w. \<exists>l1 l2. io_bind (as_mapping v) (normalize_income ?x) l1 = (Inr w, l2)) vs rows"
    by (rule convert_all_maps [OF vs(2)])
  from i obtain j where j: "j < length rows" "i = rows ! j" by (auto simp: in_set_conv_nth)
  then have "vs ! j \<in> set vs" using list_all2_lengthD [OF all] by simp
  with j list_all2_nthD2 [OF all, of j]
  obtain v l4 l5 where v: "v \<in> set vs" "io_bind (as_mapping v) (normalize_income ?x) l4 = (Inr i, l5)" by blast
  from v(2) have "\<exists>d. v = VDict d" by (cases v) (simp_all add: as_mapping_def io_bind_def io_fail_def)
  with vs(1) v(1) have "raw = VList vs" by (auto simp: iterate_def io_return_def io_fail_def split: pyval.splits)
  with client_answered [OF raw(1)] answers v(1) have "foreign_row symbol v" by blast
  with foreign_income [OF v(2)] show ?thesis by blast
qed

text \<open>C29: Payments that the exchange lists under its own name of the symbol are stored under that name, and what
  is stored so is neither counted for the symbol nor remembered: the funding of the symbol stays zero and
  the next synchronisation starts thirty days back again.\<close>

theorem own_symbol_funding_lost:
  assumes "sync_symbol_income env uid aid symbol exchange db l = (Inr (k, db'), l')"
    and "\<And>l0 s n ps vs v. cx_answer (sy_ccxt env aid) l0 (CxFunding symbol s n ps) = Returns (VList vs) \<Longrightarrow> v \<in> set vs \<Longrightarrow> foreign_row symbol v"
    and "list_all (\<lambda>r. \<not> funding_of aid symbol r) (id_rows db)"
  shows "sum_funding db' aid symbol start end = 0 \<and> compute_since now (id_rows db') aid symbol = now - 30 * 86400
    \<and> list_all (\<lambda>r. \<not> funding_of aid symbol r) (id_rows db')"
  using assms(1)
proof (cases rule: sync_incomeE)
  case (1 t)
  have "list_all (\<lambda>r. \<not> funding_of aid symbol r) t"
  proof (rule income_pages_rule [where R = "list_all (\<lambda>r. \<not> funding_of aid symbol r)", OF 1(1) assms(3)])
    fix since l0 rows l1 and t :: "income_row list"
    assume page: "fetch_income env uid aid symbol since l0 = (Inr rows, l1)" and "list_all (\<lambda>r. \<not> funding_of aid symbol r) t"
    show "list_all (\<lambda>r. \<not> funding_of aid symbol r)
        (upsert_rows income_key_of refresh_income_row (income_values (sy_now env) uid aid exchange symbol rows) t)"
    proof (rule upsert_rows_new)
      show "list_all (\<lambda>r. \<not> funding_of aid symbol r) t" by fact
      fix r s
      assume "r \<in> set (income_values (sy_now env) uid aid exchange symbol rows)"
      then obtain i where "i \<in> set rows" "r = income_row_of (sy_now env) uid aid exchange symbol i" by (auto simp: income_values_def)
      moreover from this(1) have "given_text (xi_symbol i) \<and> xi_symbol i \<noteq> Some symbol"
        by (intro foreign_page [OF page]) (rule assms(2))
      ultimately have "ic_symbol r \<noteq> symbol"
        by (cases "xi_symbol i") (auto simp: income_row_of_def given_text_def or_empty_def)
      then show "\<not> funding_of aid symbol r" "\<not> funding_of aid symbol (refresh_income_row s r)"
        by (simp_all add: funding_of_def refresh_income_row_def)
    qed
  qed
  then have "filter (funding_of aid symbol) (id_rows db') = []" "list_all (\<lambda>r. \<not> funding_of aid symbol r) (id_rows db')"
    using 1(2) by (simp_all add: list_all_iff filter_empty_conv)
  moreover from this(2) have "filter (\<lambda>r. funding_of aid symbol r \<and> in_window start end (ic_at r)) (id_rows db') = []"
    by (auto simp: list_all_iff filter_empty_conv)
  ultimately show ?thesis by (simp add: sum_funding_def compute_since_def)
qed

end
