(* ===== verification/Sync_Samples.thy ===== *)
theory Sync_Samples
  imports Ccxt_Samples Income_Sync_Safety
begin

text \<open>
  The two synchronisations on an exchange that lists one fill and one funding payment.
\<close>

definition listed_fill :: pydict where
  "listed_fill = [(''id'', VStr ''7''), (''symbol'', VStr ''BTC/USDT:USDT''), (''side'', VStr ''buy''), (''amount'', VFloat 1),
     (''price'', VFloat 100), (''timestamp'', VInt 1000)]"

definition sample_payment :: pydict where
  "sample_payment = [(''info'', VDict [(''symbol'', VStr ''BTCUSDT''), (''incomeType'', VStr ''FUNDING_FEE''), (''asset'', VStr ''USDT''),
     (''income'', VFloat (- 5)), (''tranId'', VStr ''9'')]), (''timestamp'', VInt 1000)]"

fun listing_answer :: "ccxt_call \<Rightarrow> library_answer" where
  "listing_answer (CxTrades s t n ps) = Returns (VList [VDict listed_fill])"
| "listing_answer (CxFunding s t n ps) = Returns (VList [VDict sample_payment])"
| "listing_answer c = Returns VNone"

definition listing_env :: sync_env where
  "listing_env = \<lparr>sy_ccxt = (\<lambda>_. (refusing_env ''binance'')\<lparr>cx_answer := \<lambda>l. listing_answer\<rparr>), sy_access = (\<lambda>_ _. None), sy_now = 2,
     sy_default_page_limit = 100, sy_profile_symbol = (\<lambda>_ _. Some ''BTC/USDT'')\<rparr>"

definition empty_ledger :: sync_db where
  "empty_ledger = \<lparr>sd_dialect = Postgres, sd_ledger = [], sd_states = [], sd_meta = [], sd_positions = [],
     sd_exchange_name = (\<lambda>_. Some ''binance'')\<rparr>"

definition empty_income :: income_db where
  "empty_income = \<lparr>id_dialect = Postgres, id_rows = [], id_exchange_name = (\<lambda>_. Some ''binance'')\<rparr>"

lemma listing_env_simps [simp]:
  "cx_answer (sy_ccxt listing_env aid) = (\<lambda>l. listing_answer)" "cx_exchange (sy_ccxt listing_env aid) = ''binance''"
  "cx_repr (sy_ccxt listing_env aid) = (\<lambda>_. ''?'')" "cx_known (sy_ccxt listing_env aid) = (\<lambda>_. True)"
  "\<not> cx_demo (sy_ccxt listing_env aid)" "retry_attempts (sy_ccxt listing_env aid) = Suc (Suc (Suc 0))"
  "sy_access listing_env = (\<lambda>_ _. None)" "sy_now listing_env = 2" "page_limit listing_env = 100"
  by (simp_all add: listing_env_def refusing_env_def page_limit_def retry_attempts_def)

definition listed_trade :: exchange_trade where
  "listed_trade = \<lparr>xt_id = ''7'', xt_order_id = None, xt_symbol = ''BTC/USDT:USDT'', xt_side = BUY, xt_amount = 1, xt_price = 100,
      xt_cost = None, xt_fee_cost = 0, xt_fee_currency = None, xt_timestamp = Some 1, xt_raw = listed_fill\<rparr>"

lemma fill_row: "normalize_trade (sy_ccxt listing_env aid) listed_fill = io_return listed_trade"
  by (simp add: normalize_trade_def listed_fill_def listed_trade_def Let_def get_default_def optional_number_def side_of_text_def py_lower_def)

lemma listed_page:
  "\<exists>l'. fetch_page listing_env uid aid s since cursor l = (Inr ([listed_trade], if cursor = Some ''7'' then None else Some ''7''), l')"
proof -
  have "xt_id listed_trade = ''7''" by (simp add: listed_trade_def)
  then show ?thesis
    by (simp add: fetch_page_def fetch_futures_trades_page_def ensure_futures_supported_def trades_request_def run_simps fill_row
        next_futures_trades_cursor_def split: option.split)
qed

lemma listed_pages:
  assumes "sg_ledger g = []" and "sg_cursor g = None"
  shows "\<exists>g' l'. sync_pages listing_env empty_ledger 1 2 s m since True (Suc (Suc n)) g l = ((None, g'), l') \<and> map le_trade_id (sg_ledger g') = [''7'']"
proof -
  have id: "xt_id listed_trade = ''7''" by (simp add: listed_trade_def)
  obtain l1 where 1: "fetch_page listing_env 1 2 s since None l = (Inr ([listed_trade], Some ''7''), l1)"
    using listed_page [of 1 2 s since None l] by auto
  obtain l2 where 2: "fetch_page listing_env 1 2 s since (Some ''7'') l1 = (Inr ([listed_trade], None), l2)"
    using listed_page [of 1 2 s since "Some ''7''" l1] by auto
  show ?thesis
    by (simp add: 1 2 assms id store_page_def upsert_def upsert_rows_def empty_ledger_def ledger_row_of_def ledger_key_of_def refresh_ledger_row_def exchange_name_of_def)
qed

definition listed_payment :: exchange_income where
  "listed_payment = \<lparr>xi_type = ''FUNDING_FEE'', xi_asset = ''USDT'', xi_income = - 5, xi_symbol = Some ''BTCUSDT'', xi_tran_id = ''9'',
     xi_trade_id = None, xi_info = None, xi_timestamp = Some 1, xi_raw = sample_payment\<rparr>"

lemma payment_row: "normalize_income (sy_ccxt listing_env aid) sample_payment l = (Inr listed_payment, l)"
  by (simp add: normalize_income_def sample_payment_def listed_payment_def Let_def get_default_def io_bind_def io_return_def
      py_or_def filled_text_def or_empty_def)

lemma listed_income: "\<exists>l'. fetch_income listing_env uid aid s since l = (Inr [listed_payment], l')"
  by (simp add: fetch_income_def fetch_futures_income_def ensure_futures_supported_def run_simps payment_row)

lemma account_run_listed:
  "\<exists>r db' l'. sync_account_symbol_trades listing_env 1 2 ''BTC/USDT:USDT'' ''futures'' empty_ledger [] = (Inr (r, db'), l')
     \<and> sr_warnings r = [] \<and> map le_trade_id (sd_ledger db') = [''7'']"
proof -
  let ?start = "start_progress empty_ledger (fresh_state 1 2 ''BTC/USDT:USDT'' ''futures'') None"
  have fresh: "get_or_create_sync_state empty_ledger 1 2 ''BTC/USDT:USDT'' ''futures'' = fresh_state 1 2 ''BTC/USDT:USDT'' ''futures''"
    by (simp add: get_or_create_sync_state_def empty_ledger_def)
  obtain g l' where "sync_pages listing_env empty_ledger 1 2 ''BTC/USDT:USDT'' ''futures'' None True 200 ?start [] = ((None, g), l')"
    "map le_trade_id (sg_ledger g) = [''7'']"
    using listed_pages [where g = ?start and n = 198 and s = "''BTC/USDT:USDT''" and m = "''futures''" and since = None and l = "[]"]
    by (auto simp: start_progress_def empty_ledger_def)
  then show ?thesis
    by (simp add: sync_account_symbol_trades_def Let_def fresh fresh_state_def [THEN arg_cong [of _ _ ys_last_trade_ts_ms]] sync_report_def)
qed

theorem account_sync_loses_no_fill_witness:
  "\<exists>r db' l'. sync_account_symbol_trades listing_env 1 2 ''BTC/USDT:USDT'' ''futures'' empty_ledger [] = (Inr (r, db'), l')
     \<and> (\<exists>new. l' = [] @ new \<and> fills_stored listing_env empty_ledger 1 2 ''BTC/USDT:USDT'' ''futures'' new (sd_ledger db'))
     \<and> map le_trade_id (sd_ledger db') = [''7'']"
proof -
  from account_run_listed obtain r db' l' where run:
    "sync_account_symbol_trades listing_env 1 2 ''BTC/USDT:USDT'' ''futures'' empty_ledger [] = (Inr (r, db'), l')"
    "sr_warnings r = []" "map le_trade_id (sd_ledger db') = [''7'']" by (elim exE conjE) (rule that)
  from account_sync_loses_no_fill [OF run(1)] run(2)
  have stored: "\<exists>new. l' = [] @ new \<and> fills_stored listing_env empty_ledger 1 2 ''BTC/USDT:USDT'' ''futures'' new (sd_ledger db')" by simp
  show ?thesis by (rule exI [of _ r], rule exI [of _ db'], rule exI [of _ l'], intro conjI run(1,3) stored)
qed

lemma income_run_listed:
  "\<exists>k db' l'. sync_symbol_income listing_env 1 2 ''BTC/USDT:USDT'' ''binance'' empty_income [] = (Inr (k, db'), l')
     \<and> map ic_income (id_rows db') = [- 5]"
proof -
  have last: "next_since since [listed_payment] = None" for since by (simp add: next_since_def map_filter_def)
  have payment: "xi_tran_id listed_payment = ''9''" "xi_income listed_payment = - 5" by (simp_all add: listed_payment_def)
  have "\<exists>t l'. income_pages listing_env Postgres 1 2 ''BTC/USDT:USDT'' ''binance'' (Suc n) since [] 0 [] = (Inr (t, 1), l')
      \<and> map ic_income t = [- 5]" for since n
  proof -
    obtain l' where "fetch_income listing_env 1 2 ''BTC/USDT:USDT'' since [] = (Inr [listed_payment], l')" using listed_income by blast
    with payment show ?thesis
      by (simp add: io_bind_def io_return_def last upsert_income_rows_def income_values_def upsert_def upsert_rows_def income_row_of_def)
  qed
  from this [of 9 "compute_since 2 [] 2 ''BTC/USDT:USDT''"] show ?thesis
    by (auto simp: sync_symbol_income_def empty_income_def io_bind_def io_return_def)
qed

theorem own_symbol_funding_lost_witness:
  "\<exists>k db' l'. sync_symbol_income listing_env 1 2 ''BTC/USDT:USDT'' ''binance'' empty_income [] = (Inr (k, db'), l')
     \<and> map ic_income (id_rows db') = [- 5] \<and> sum_funding db' 2 ''BTC/USDT:USDT'' None None = 0"
proof -
  from income_run_listed obtain k db' l' where run:
    "sync_symbol_income listing_env 1 2 ''BTC/USDT:USDT'' ''binance'' empty_income [] = (Inr (k, db'), l')"
    "map ic_income (id_rows db') = [- 5]" by (elim exE conjE) (rule that)
  have "foreign_row ''BTC/USDT:USDT'' (VDict sample_payment)"
    by (simp add: foreign_row_def sample_payment_def get_default_def)
  then have "cx_answer (sy_ccxt listing_env 2) l0 (CxFunding ''BTC/USDT:USDT'' s n ps) = Returns (VList vs) \<Longrightarrow> v \<in> set vs
      \<Longrightarrow> foreign_row ''BTC/USDT:USDT'' v" for l0 s n ps vs v by auto
  from own_symbol_funding_lost [OF run(1) this] run show ?thesis by (auto simp: empty_income_def)
qed

end
