(* ===== verification/Spec2Isabelle.thy ===== *)
theory Spec2Isabelle
  imports Heapq Live_Tracker Multi_TP Promotion Rate_Limiter AI_Overlay Futures_PnL Risk_Gate
    Ws_Recovery Signal Watchers Health Costs Spot_PnL Rest_Samples Anomaly Adapter_Samples Sync_Samples
begin

text \<open>
  A verification library for the trading backend under \<^verbatim>\<open>src/app\<close>: an automated futures trader that
  opens positions on signals, protects them with stop-loss and take-profit orders, and stops itself
  when its limits are reached. The library models the part of the program that decides about orders
  and money; every definition follows a function, method or class of the sources, and the
  theorems are about these definitions.

  \<^bold>\<open>The program and its parts.\<close>
  A signal passes the pre-trade gate (\<^verbatim>\<open>auto_trade/risk/engine.py\<close>), with parameters nudged by the
  AI overlay (\<^verbatim>\<open>auto_trade/ai_overlay\<close>), and becomes a position: a \<open>PositionContext\<close> with a lifecycle
  machine (\<^verbatim>\<open>position/context.py\<close>, \<^verbatim>\<open>position/state_machine.py\<close>). While it is open, exchange events
  drive two engines that mutate it: \<open>MultiTPEngine\<close> on a filled take-profit level
  (\<^verbatim>\<open>sl_tp/multi_tp.py\<close>) and \<open>RealtimeSLAdjuster\<close> on a kline event (\<^verbatim>\<open>sl_tp/live_tracker.py\<close>, over the
  rules of \<^verbatim>\<open>sl_tp/trailing.py\<close>, \<^verbatim>\<open>breakeven.py\<close>, \<^verbatim>\<open>volatility.py\<close>, \<^verbatim>\<open>pipeline.py\<close>, \<^verbatim>\<open>kill_switch.py\<close>).
  Both hand order tasks to the account's \<open>OrderExecutionQueue\<close> (\<^verbatim>\<open>position/order_queue.py\<close>), a priority
  queue with deduplication, retries and an emergency close when a stop-loss order cannot be placed,
  paced by \<open>AdaptiveRateLimiter\<close> (\<^verbatim>\<open>exchange/rate_limiter.py\<close>). The fills that come back are accounted
  first-in-first-out (\<^verbatim>\<open>execution/futures_pnl.py\<close>); from the results the KPI guard pauses a strategy
  (\<^verbatim>\<open>auto_trade/risk/kpi_guard.py\<close>) and the promotion machine moves it towards real money
  (\<^verbatim>\<open>auto_trade/promotion\<close>).

  \<^bold>\<open>The layers.\<close>
  The foundation is \<open>Prelude\<close> (Python values, dictionaries, conversions). On it stand the components
  of a position, the queue and rules that act on it, the manager that feeds them exchange events, the
  orchestration that opens and closes positions, and at the outside two stacks of exchange adapters,
  written as programs over the log of calls they send. Every answer of an exchange is arbitrary and may
  depend on everything sent before.

  \<^bold>\<open>Which theory models what.\<close> (paths below \<^verbatim>\<open>src/app/services\<close> unless they say otherwise)
  \<^item> Machines and state of a position. \<open>Lifecycle\<close>: the locale \<open>lifecycle\<close>, the contract of a logged
    state machine, interpreted as \<open>pos\<close> and \<open>prom\<close>. \<open>Position_FSM\<close>: \<^verbatim>\<open>position/state_machine.py\<close>.
    \<open>Position_Context\<close>: \<^verbatim>\<open>position/context.py\<close> and its database round trip. \<open>Strategy_Profile\<close>:
    \<^verbatim>\<open>app/schemas/strategy_profile.py\<close>.
  \<^item> Stops and targets. \<open>SL_Rules\<close>: the rules, pipeline and kill-switch test of \<^verbatim>\<open>sl_tp\<close>, with the locale
    \<open>protective_rule\<close>. \<open>Multi_TP\<close>: \<^verbatim>\<open>sl_tp/multi_tp.py\<close>. \<open>Live_Tracker\<close>: \<^verbatim>\<open>sl_tp/live_tracker.py\<close>.
  \<^item> The order queue. \<open>Heapq\<close>: Python's binary heap and the locale \<open>priority_queue\<close>. \<open>Order_Task\<close> and
    \<open>Order_Queue\<close>: \<^verbatim>\<open>position/order_queue.py\<close>, the queue as a state with a store of task objects and the
    step relation \<open>queue_step\<close>, cut at the awaits of the processing loop; \<open>Queue_Pending\<close>: facts on its
    pending tasks. \<open>Rate_Limiter\<close>: \<^verbatim>\<open>exchange/rate_limiter.py\<close>.
  \<^item> Events. \<open>Ws_Events\<close>, \<open>Ws_Manager\<close>: \<^verbatim>\<open>ws/manager.py\<close>; \<open>Ws_Recovery\<close>: its properties.
    \<open>Watcher_Rules\<close>, \<open>Watchers\<close>: \<^verbatim>\<open>watchers\<close>.
  \<^item> Signals and entries. \<open>Signal\<close>: \<^verbatim>\<open>auto_trade/signal.py\<close>. \<open>AI_Overlay\<close>: \<^verbatim>\<open>auto_trade/ai_overlay\<close>.
    \<open>Risk_Gate\<close>: \<^verbatim>\<open>auto_trade/risk\<close>. \<open>Promotion\<close>: \<^verbatim>\<open>auto_trade/promotion\<close>. \<open>Auto_Entry\<close>, \<open>Signal_Queue\<close>: the
    signal queue and entries of \<^verbatim>\<open>auto_trade/service.py\<close>; \<open>Signal_Safety\<close>, \<open>Signal_Samples\<close>: properties.
  \<^item> Control, from the same file. \<open>Flatten\<close>: closing on demand and the kill-switch. \<open>Strategy_Control\<close>:
    starting, stopping, promoting, guards. \<open>Config_Upsert\<close>: configurations and their revisions.
    \<open>Control_Safety\<close>, \<open>Control_Samples\<close>: all of these as moves of one state (\<open>control_step\<close>).
    \<open>Rest_Reconcile\<close>, \<open>Rest_Samples\<close>: the reconciliation over REST. \<open>Anomaly\<close>: the detector of
    \<^verbatim>\<open>auto_trade/anomaly\<close> and its sweep.
  \<^item> Adapters of the position engine. \<open>Call_Log\<close>: programs over a log of calls. \<open>Exchange_Api\<close>, \<open>Bybit\<close>,
    \<open>Binance\<close>, \<open>Adapter_Streams\<close>: \<^verbatim>\<open>exchange/adapter.py\<close>, \<^verbatim>\<open>bybit_adapter.py\<close>, \<^verbatim>\<open>binance_adapter.py\<close>;
    \<open>Adapter_Safety\<close>, \<open>Adapter_Orders\<close>, \<open>Adapter_Samples\<close>: properties, with the locales \<open>stop_mover\<close> and
    \<open>closing_adapter\<close> interpreted for both exchanges.
  \<^item> The trading adapter over ccxt. \<open>Ccxt\<close>, \<open>Ccxt_Orders\<close>, \<open>Ccxt_Market\<close>: \<^verbatim>\<open>execution/ccxt_adapter.py\<close>;
    \<open>Ccxt_Safety\<close>, \<open>Ccxt_Entries\<close>, \<open>Ccxt_Samples\<close>: properties.
  \<^item> Accounting. \<open>Futures_PnL\<close>, \<open>Spot_PnL\<close>: \<^verbatim>\<open>execution/futures_pnl.py\<close>, \<^verbatim>\<open>pnl.py\<close>. \<open>Health\<close>:
    \<^verbatim>\<open>auto_trade/health.py\<close>. \<open>Metrics\<close>, \<open>Costs\<close>: \<^verbatim>\<open>backtesting/common.py\<close>, \<^verbatim>\<open>cost_model.py\<close>. \<open>Ledger\<close>: tables with
    a unique key, the locale \<open>upsert_table\<close>. \<open>Trade_Sync\<close>, \<open>Income_Sync\<close>: \<^verbatim>\<open>auto_trade/trade_sync.py\<close> and
    \<^verbatim>\<open>income_sync.py\<close>; \<open>Trade_Sync_Safety\<close>, \<open>Trade_Sync_Rebate\<close>, \<open>Income_Sync_Safety\<close>, \<open>Sync_Samples\<close>:
    properties.
  \<^item> This theory: one account, whose positions, adjusters and queue interleave (\<open>account_step\<close>), and
    properties that span components.

  \<^bold>\<open>What the lemmas show.\<close>
  Entries: a position is opened only through the gate, on an account its stage allows, with its stop
  enqueued or attached; on Binance it is protected or rolled back; a signal is acted on once and closes
  only on a confirmed opposite. Stops: an adjustment is strictly more protective (with the one
  exception of an armed break-even), a stop move in reduce-only mode never leaves the position
  uncovered whatever the exchange answers, a stop order that fails for good leaves an emergency close
  pending, which is reduce-only and at most the live size. Queue: a structural invariant under every
  interleaving, service in priority order, bounded retries. Ladder: hitting all levels closes the
  position. State: machine runs are logged without gaps, a lost connection ends with the exchange's
  state or an emergency close, the REST loop closes only with confirmation, a rollback restores a
  configuration. Limits: an allowed entry respects every limit, guards and promotion are characterised.
  Accounting: the FIFO passes conserve quantity and cash, a synchronisation loses no fill, stores each
  payment once and asks for a bounded number of pages. Loops over the network end whatever is answered.
  Further theorems pin down behaviour at odds with what the sources intend: a refused stop that leaves
  an entry bare, a rejected stop move that strips the position, funding that is never counted, ids
  compared as texts, and others.

  \<^bold>\<open>Idealisations and bounds.\<close>
  Python floats are real numbers: no rounding, infinity or NaN, so equalities such as the FIFO
  identity are those of exact arithmetic. Strings are ASCII. The ten-digit number format of a task
  key looks for the decimal exponent in at most 400 steps, more than the range of a double needs.
  Loops with a bound in the code have the same bound here: the attempts of a call, four look-ups of a
  created order, 20 or 200 pages of fills, 10 pages of funding; the candle loop has none in the code
  and is proved to end. A clock is read once per tick or call and passed as an argument. Log lines, the
  prose of \<open>reason\<close> and \<open>detail\<close> texts and the payloads of audit events are left out; the events
  themselves are recorded where the code emits them. Database tables are lists of rows, a query
  being its filter and aggregate, a commit the returned tables. Code outside the repository is a
  parameter: the formulas of \<open>pandas_ta\<close>, the JSON decoder, date parsing, the text of a float (\<open>rp\<close>),
  ccxt and the exchanges, client-order-id factories.

  \<^bold>\<open>What is not modelled.\<close>
  \<^item> \<^verbatim>\<open>auto_trade/portfolio.py\<close>, \<^verbatim>\<open>ai_overlay/audit.py\<close> and the listing operations of
    \<^verbatim>\<open>auto_trade/service.py\<close>: reports assembled from database queries. Recording and pruning of snapshots.
  \<^item> \<^verbatim>\<open>execution/trading_service.py\<close>, \<^verbatim>\<open>account_trades_service.py\<close>, \<^verbatim>\<open>factory.py\<close>: fetch credentials and
    pass the call on. Connecting, signing and keeping streams alive in the adapters.
  \<^item> The simulation engines of \<^verbatim>\<open>backtesting\<close> and the formulas of \<^verbatim>\<open>indicators\<close>: loops over pandas frames.
  \<^item> Transport, persistence and identity: \<^verbatim>\<open>app/api\<close>, \<^verbatim>\<open>app/models\<close> beyond the rows named above,
    authentication, notifications, analysis proxies, worker, migrations.
  \<^item> In \<open>account_step\<close> a position appears by an unconstrained step, and the emergency theorem assumes
    that client order ids are not empty. \<open>control_step\<close> leaves out \<open>update_account_mode\<close>, after which its
    invariant does not hold (\<^verbatim>\<open>Control_Samples.demo_switch_escapes_check\<close>).
\<close>

section \<open>One account: positions, adjusters and the queue together\<close>

text \<open>The positions of an account share one order queue. \<open>account_step\<close> interleaves what the modelled
  components do to it: a position is adopted, its ladder is placed, a take-profit level fills, a
  kline event ticks the adjuster of a symbol over some of the positions, and the queue's own loop
  moves. \<open>environment\<close> collects what the code is given from outside: the average true range, the
  kill-switch handler and the client-order-id factory.\<close>

record environment =
  en_repr :: "pyval \<Rightarrow> string"
  en_atr :: "bar list \<Rightarrow> int \<Rightarrow> real list"
  en_on_kill :: "position_context \<Rightarrow> kill_switch_signal \<Rightarrow> position_context"
  en_client_id :: "string \<Rightarrow> string \<Rightarrow> string"

record account_state =
  ac_positions :: "string \<rightharpoonup> position_context"
  ac_adjusters :: "string \<Rightarrow> adjuster"
  ac_queue :: queue_state
  ac_audit :: "(string \<times> string) list"

definition engine_of :: "account_state \<Rightarrow> position_context \<Rightarrow> engine_state" where
  "engine_of s p = \<lparr>es_position = p, es_queue = ac_queue s, es_audit = ac_audit s\<rparr>"

definition store_engine :: "account_state \<Rightarrow> string \<Rightarrow> engine_state \<Rightarrow> account_state" where
  "store_engine s pid e =
     s\<lparr>ac_positions := (ac_positions s)(pid \<mapsto> es_position e), ac_queue := es_queue e,
       ac_audit := es_audit e\<rparr>"

definition store_tick :: "(pyval \<Rightarrow> string) \<Rightarrow> account_state \<Rightarrow> string \<Rightarrow> tick_result \<Rightarrow> account_state" where
  "store_tick rp s symb r =
     s\<lparr>ac_positions := ac_positions s ++ map_of (map (\<lambda>p. (pc_position_id p, p)) (tr_positions r)),
       ac_adjusters := (ac_adjusters s)(symb := tr_adjuster r),
       ac_queue := enqueue_all rp (tr_tasks r) (ac_queue s)\<rparr>"

definition ladder_ok :: "position_context \<Rightarrow> bool" where
  "ladder_ok p = (0 < pc_original_quantity p \<and> list_all (\<lambda>l. 0 < tl_close_pct l) (pc_tp_levels p))"

inductive account_step :: "environment \<Rightarrow> account_state \<Rightarrow> account_state \<Rightarrow> bool" for x where
  acc_adopt: "account_step x s (s\<lparr>ac_positions := (ac_positions s)(pc_position_id p \<mapsto> p)\<rparr>)"
| acc_ladder: "ac_positions s pid = Some p \<Longrightarrow> pc_symbol p \<noteq> [] \<Longrightarrow> ladder_ok p \<Longrightarrow>
    account_step x s (store_engine s pid (initialize_tp_levels (en_repr x) env (engine_of s p)))"
| acc_fill: "ac_positions s pid = Some p \<Longrightarrow> pc_symbol p \<noteq> [] \<Longrightarrow>
    handle_tp_triggered (en_repr x) env (engine_of s p) i = Inr e \<Longrightarrow>
    account_step x s (store_engine s pid e)"
| acc_tick: "symb \<noteq> [] \<Longrightarrow> ad_symbol (ac_adjusters s symb) = symb \<Longrightarrow>
    \<forall>p \<in> set ps. ac_positions s (pc_position_id p) = Some p \<Longrightarrow>
    account_step x s (store_tick (en_repr x) s symb
      (on_tick (en_atr x) (en_on_kill x) (en_client_id x) now (ac_adjusters s symb) event ps))"
| acc_purge: "account_step x s (s\<lparr>ac_queue := fst (purge_pending (ac_queue s) pid actions)\<rparr>)"
| acc_dequeue: "q_dequeue (en_repr x) (ac_queue s) = Some q \<Longrightarrow> account_step x s (s\<lparr>ac_queue := q\<rparr>)"
| acc_start: "q_start (ac_queue s) = Some q \<Longrightarrow> account_step x s (s\<lparr>ac_queue := q\<rparr>)"
| acc_requeue: "q_requeue (ac_queue s) = Some q \<Longrightarrow> account_step x s (s\<lparr>ac_queue := q\<rparr>)"
| acc_finish: "q_finish (en_repr x) now (ac_queue s) out = Some q \<Longrightarrow> account_step x s (s\<lparr>ac_queue := q\<rparr>)"
| acc_wake: "q_wake (ac_queue s) = Some q \<Longrightarrow> account_step x s (s\<lparr>ac_queue := q\<rparr>)"
| acc_stop: "account_step x s (s\<lparr>ac_queue := q_stop (ac_queue s)\<rparr>)"

inductive account_reachable :: "environment \<Rightarrow> account_state \<Rightarrow> bool" for x where
  acc_new: "ac_positions s = Map.empty \<Longrightarrow> ac_queue s = new_queue \<Longrightarrow> account_reachable x s"
| acc_next: "account_reachable x s \<Longrightarrow> account_step x s s' \<Longrightarrow> account_reachable x s'"

subsection \<open>The queue of an account is a queue\<close>

lemma enqueue_reachable: "queue_reachable rp q \<Longrightarrow> queue_reachable rp (enqueue rp q t)"
  by (rule reach_step [OF _ step_enqueue])

lemma place_levels_reachable:
  "queue_reachable rp q \<Longrightarrow> queue_reachable rp (place_levels rp env p i ls q)"
  by (induction ls arbitrary: i q) (simp_all add: enqueue_reachable)

lemma dispatch_reachable:
  "queue_reachable rp (es_queue s) \<Longrightarrow> queue_reachable rp (es_queue (dispatch_sl_shift rp env l i b s))"
  by (simp add: dispatch_sl_shift_def enqueue_sl_replace_def enqueue_reachable split: sl_shift.splits)

lemma fill_reachable:
  assumes "handle_tp_triggered rp env s i = Inr s'" and "queue_reachable rp (es_queue s)"
  shows "queue_reachable rp (es_queue s')"
  using assms(1)
proof (cases rule: handle_ok_cases)
  case (fill level is_last)
  then show ?thesis using assms(2) by (simp add: dispatch_reachable)
qed (use assms(2) in simp)

lemma account_step_queue:
  assumes "account_step x s s'" and "queue_reachable (en_repr x) (ac_queue s)"
  shows "queue_reachable (en_repr x) (ac_queue s')"
  using assms
proof (cases rule: account_step.cases)
  case (acc_ladder pid p env)
  with assms(2) show ?thesis
    by (simp add: store_engine_def initialize_tp_levels_def engine_of_def place_levels_reachable)
next
  case (acc_fill pid p env i e)
  with assms(2) fill_reachable [OF acc_fill(4)] show ?thesis
    by (simp add: store_engine_def engine_of_def)
next
  case (acc_tick symb ps now event)
  with assms(2) show ?thesis by (simp add: store_tick_def enqueue_all_reachable)
qed (auto intro: reach_step queue_step.intros)

lemma account_queue_reachable:
  "account_reachable x s \<Longrightarrow> queue_reachable (en_repr x) (ac_queue s)"
  by (induction rule: account_reachable.induct)
     (auto intro: reach_new account_step_queue)

subsection \<open>Every task can be turned into an emergency close\<close>

text \<open>\<open>closable\<close>: the parameters name a symbol, a side, an order id and a positive quantity, in the
  places the emergency task takes them from.\<close>

definition emergency_quantity :: "pydict \<Rightarrow> pyval" where
  "emergency_quantity ps =
     get_default ps ''full_quantity'' (get_default ps ''quantity'' (get_none ps ''new_quantity''))"

definition nonempty_str :: "pyval \<Rightarrow> bool" where
  "nonempty_str v = (case v of VStr t \<Rightarrow> t \<noteq> [] | _ \<Rightarrow> False)"

definition closable :: "pydict \<Rightarrow> bool" where
  "closable ps =
     (nonempty_str (get_none ps ''symbol'') \<and> nonempty_str (get_none ps ''client_order_id'')
      \<and> (\<exists>sd. get_none ps ''side'' = VSide sd) \<and> (case emergency_quantity ps of VFloat v \<Rightarrow> 0 < v | _ \<Rightarrow> False))"

definition all_closable :: "queue_state \<Rightarrow> bool" where
  "all_closable q = (\<forall>a < qs_next q. closable (ot_params (qs_store q a)))"

lemma closable_emergency:
  "closable (ot_params t) \<Longrightarrow> closable (ot_params (emergency_task t now r))"
  by (simp add: closable_def emergency_task_def emergency_quantity_def Let_def)

lemma closableE:
  assumes "closable ps"
  obtains symbol side v cid where "get_none ps ''symbol'' = VStr symbol" "symbol \<noteq> []"
    "get_none ps ''side'' = VSide side" "get_none ps ''client_order_id'' = VStr cid" "cid \<noteq> []"
    "emergency_quantity ps = VFloat v" "0 < v"
proof -
  have "\<exists>v. emergency_quantity ps = VFloat v \<and> 0 < v"
    using assms by (cases "emergency_quantity ps") (simp_all add: closable_def)
  moreover have "nonempty_str w \<Longrightarrow> \<exists>t. w = VStr t \<and> t \<noteq> []" for w
    by (cases w) (simp_all add: nonempty_str_def)
  ultimately show ?thesis using that assms unfolding closable_def by blast
qed

lemma closable_resolves:
  assumes "closable ps"
  shows "has_positive_emergency_quantity ps"
    and "emergency_quantity ps = VFloat v \<Longrightarrow> resolve_emergency_quantity ps = Inr v"
  by (rule closableE [OF assms];
      auto simp: emergency_quantity_def has_positive_emergency_quantity_def resolve_emergency_quantity_def
        quantity_keys_def get_default_def split: option.splits)+

lemma enqueue_closable:
  assumes "all_closable q" and "closable (ot_params t)"
  shows "all_closable (enqueue rp q t)"
  using assms
  by (auto simp: all_closable_def enqueue_def Let_def coalesce_quickfire_def coalesce_existing_def
      put_new_def refresh_task_def less_Suc_eq split: option.splits)

lemma enqueue_all_closable:
  "all_closable q \<Longrightarrow> \<forall>t \<in> set ts. closable (ot_params t) \<Longrightarrow> all_closable (enqueue_all rp ts q)"
  by (induction ts arbitrary: q) (auto simp: enqueue_all_def enqueue_closable)

lemma closing_param_simps:
  "closable (ot_params (place_tp_task env p i l)) \<longleftrightarrow>
     pc_symbol p \<noteq> [] \<and> 0 < pc_original_quantity p * (tl_close_pct l / 100)"
  "closable (ot_params (replace_sl_task env p v j)) \<longleftrightarrow> pc_symbol p \<noteq> [] \<and> 0 < pc_current_quantity p"
  "closable (ot_params (realtime_task mk now p r o')) \<longleftrightarrow>
     pc_symbol p \<noteq> [] \<and> mk (pc_position_id p) ''rt-sl'' \<noteq> [] \<and> 0 < pc_current_quantity p"
  by (simp_all add: closable_def nonempty_str_def emergency_quantity_def place_tp_task_def
      replace_sl_task_def realtime_task_def build_client_order_id_def)

lemma place_levels_closable:
  assumes "pc_symbol p \<noteq> []" and "0 < pc_original_quantity p"
  shows "list_all (\<lambda>l. 0 < tl_close_pct l) ls \<Longrightarrow> all_closable q \<Longrightarrow>
    all_closable (place_levels rp env p i ls q)"
  by (induction ls arbitrary: i q)
     (use assms in \<open>auto simp: enqueue_closable closing_param_simps\<close>)

lemma shift_needs_quantity: "sl_shift_decision p live l b = Shift v \<Longrightarrow> 0 < pc_current_quantity p"
  by (auto simp: sl_shift_decision_def split: if_splits option.splits)

lemma dispatch_closable:
  assumes "all_closable (es_queue s)" and "pc_symbol (es_position s) \<noteq> []"
  shows "all_closable (es_queue (dispatch_sl_shift rp env l i b s))"
  using assms shift_needs_quantity [of "es_position s" "te_live env" l b]
  by (auto simp: dispatch_sl_shift_def enqueue_sl_replace_def enqueue_closable closing_param_simps
      split: sl_shift.splits)

lemma fill_closable:
  assumes "handle_tp_triggered rp env s i = Inr s'" and "all_closable (es_queue s)"
    and "pc_symbol (es_position s) \<noteq> []"
  shows "all_closable (es_queue s')"
  using assms(1)
proof (cases rule: handle_ok_cases)
  case (fill level is_last)
  then show ?thesis using assms(2,3) by (simp add: dispatch_closable record_fill_def)
qed (use assms(2) in simp)

lemma tick_tasks_shape:
  assumes "t \<in> set (tr_tasks (on_tick atr_fn on_kill mk now ad event ps))"
  obtains p r i where "p \<in> set (tr_positions (on_tick atr_fn on_kill mk now ad event ps))"
    and "pc_symbol p = ad_symbol ad" and "pc_current_sl_price p = ar_new_sl_price r"
    and "0 < pc_current_quantity p" and "i \<noteq> []" and "pc_sl_exchange_order_id p = Some i"
    and "t = realtime_task mk now p r i"
proof (cases rule: on_tick_cases [of atr_fn on_kill mk now ad event ps])
  case quiet
  with assms show ?thesis by simp
next
  case (work b ad1 ad2 ps2 ks ad3 ps3 ts)
  with assms have "t \<in> set ts" by simp
  with adjust_pass_tasks [OF work(5)] work(6,9) that show ?thesis by fastforce
qed

lemma finish_closable:
  assumes "queue_wf q" and "all_closable q" and "q_finish rp now q out = Some q'"
  shows "all_closable q'"
proof -
  obtain key a where i: "qs_inflight q = Some (key, a, Executing)"
    using assms(3) by (auto simp: q_finish_def split: option.splits loop_phase.splits)
  let ?t = "qs_store q a"
  have t: "closable (ot_params ?t)"
    using assms(2) inflight_lt_next [OF assms(1) i] by (simp add: all_closable_def)
  have e: "all_closable (enqueue rp q1 (emergency_task ?t now r))"
    if "qs_store q1 = qs_store q" "qs_next q1 = qs_next q" for q1 r
    using assms(2) t that by (intro enqueue_closable) (simp_all add: closable_emergency all_closable_def)
  have c: "all_closable (clear_inflight q1 key) = all_closable q1" for q1
    by (simp add: clear_inflight_def all_closable_def)
  have h: "all_closable (handle_max_retries rp now q1 ?t err)"
    "all_closable (handle_fatal_error rp now q1 ?t err)"
    if "qs_store q1 = qs_store q" "qs_next q1 = qs_next q" for q1 err
    using e that assms(2)
    by (simp_all add: handle_max_retries_def handle_fatal_error_def Let_def, simp_all add: all_closable_def)
  have b: "all_closable (q\<lparr>qs_executing := ex, qs_store := (qs_store q)(a := ?t\<lparr>ot_retry_count := n\<rparr>),
      qs_inflight := fl\<rparr>)" for ex n fl
    using assms(2) t by (simp add: all_closable_def)
  have k: "all_closable (q\<lparr>qs_executing := ex\<rparr>)" "all_closable (q\<lparr>qs_executing := ex, qs_audit := au\<rparr>)" for ex au
    using assms(2) by (simp_all add: all_closable_def)
  show ?thesis
    using assms(3) i by (cases out) (auto simp: q_finish_def Let_def c h b k split: if_splits)
qed

lemma account_step_closable:
  assumes "\<forall>a b. en_client_id x a b \<noteq> []"
    and "account_step x s s'" and "queue_wf (ac_queue s)" and "all_closable (ac_queue s)"
  shows "all_closable (ac_queue s')"
  using assms(2)
proof (cases rule: account_step.cases)
  case (acc_ladder pid p env)
  then show ?thesis using assms(4)
    by (simp add: store_engine_def initialize_tp_levels_def engine_of_def ladder_ok_def place_levels_closable)
next
  case (acc_fill pid p env i e)
  then show ?thesis using assms(4) fill_closable [OF acc_fill(4)]
    by (simp add: store_engine_def engine_of_def)
next
  case (acc_tick symb ps now event)
  have "closable (ot_params t)"
    if "t \<in> set (tr_tasks (on_tick (en_atr x) (en_on_kill x) (en_client_id x) now
          (ac_adjusters s symb) event ps))" for t
    using tick_tasks_shape [OF that] assms(1) acc_tick(2,3) by (metis closing_param_simps(3))
  with acc_tick assms(4) show ?thesis by (simp add: store_tick_def enqueue_all_closable)
next
  case (acc_finish now out q)
  with finish_closable [OF assms(3,4) acc_finish(2)] show ?thesis by simp
qed (use assms(4) in \<open>auto simp: all_closable_def purge_pending_def Let_def q_dequeue_def q_start_def
    q_requeue_def q_wake_def q_stop_def split: option.splits if_splits loop_phase.splits\<close>)

lemma account_closable:
  assumes "\<forall>a b. en_client_id x a b \<noteq> []" and "account_reachable x s"
  shows "all_closable (ac_queue s)"
  using assms(2)
proof (induction rule: account_reachable.induct)
  case (acc_new s)
  then show ?case by (simp add: all_closable_def new_queue_def)
next
  case (acc_next s s')
  show ?case
    by (rule account_step_closable [OF assms(1) acc_next(2)
          reachable_wf [OF account_queue_reachable [OF acc_next(1)]] acc_next(3)])
qed

lemma closable_closes:
  assumes "closable ps" and "emergency_close_dust_epsilon < \<bar>sz\<bar>"
  shows "\<exists>symbol side q cid.
    emergency_market_close fc (LiveSnapshot sz mk) ps = Inr (Some (PartialClose symbol side q cid ''market'' None))"
proof -
  from closableE [OF assms(1)] obtain symbol side v cid where
    p: "get_none ps ''symbol'' = VStr symbol" "symbol \<noteq> []" "get_none ps ''side'' = VSide side"
      "get_none ps ''client_order_id'' = VStr cid" "cid \<noteq> []" "emergency_quantity ps = VFloat v" "0 < v" .
  have d: "get_default ps ''client_order_id'' w = VStr cid" for w
    using p(4) by (simp add: get_default_def split: option.splits)
  note closable_resolves(2) [OF assms(1) p(6)]
  with p d assms(2) show ?thesis
    by (simp add: emergency_market_close_def require_str_def require_side_def raw_live_is_none_def
        live_size_def)
qed

section \<open>Properties that span the components\<close>

text \<open>C5: End to end, no dispatched stop move fails silently. In every state an account reaches by
  adopting positions, placing ladders, filling levels, ticking and running its queue: when the
  adapter call of a stop-loss task ends in a fatal error, or in a transient one with the retries
  used up, an emergency close of the position is pending, and its parameters are complete: while
  the exchange reports a live size above the dust threshold, executing it issues a market close of
  a positive quantity that is at most the live size. (The client-order-id factory is assumed
  never to return an empty id.)\<close>

theorem account_stop_failure_closes_position:
  assumes "\<forall>a b. en_client_id x a b \<noteq> []" and "account_reachable x s"
    and "qs_inflight (ac_queue s) = Some (key, a, Executing)"
    and "t = qs_store (ac_queue s) a" and "is_sl_action (ot_action t)"
    and "out = FatalError err \<or> (out = TransientExchangeError err \<and> ot_max_retries t \<le> ot_retry_count t)"
    and "q_finish (en_repr x) now (ac_queue s) out = Some q'"
  shows "\<exists>b. dict_get (qs_pending q') (ot_position_id t @ '':emergency_market_close'') = Some b
    \<and> (\<forall>fc sz mk. emergency_close_dust_epsilon < \<bar>sz\<bar> \<longrightarrow>
         (\<exists>symbol side q cid. emergency_market_close fc (LiveSnapshot sz mk) (ot_params (qs_store q' b))
              = Inr (Some (PartialClose symbol side q cid ''market'' None)) \<and> 0 < q \<and> q \<le> \<bar>sz\<bar>))"
proof -
  note r = account_queue_reachable [OF assms(2)]
  have c: "closable (ot_params t)"
    using account_closable [OF assms(1,2)] inflight_lt_next [OF reachable_wf [OF r] assms(3)] assms(4)
    by (simp add: all_closable_def)
  obtain b why where b: "dict_get (qs_pending q') (ot_position_id t @ '':emergency_market_close'') = Some b"
    "ot_params (qs_store q' b) = ot_params (emergency_task t now why)"
    using escalation [OF reachable_wf [OF r] reachable_key_ok [OF r] assms(3), of out err now q'] assms(4-7)
      closable_resolves(1) [OF c] by blast
  have "\<exists>symbol side q cid. emergency_market_close fc (LiveSnapshot sz mk) (ot_params (qs_store q' b))
      = Inr (Some (PartialClose symbol side q cid ''market'' None)) \<and> 0 < q \<and> q \<le> \<bar>sz\<bar>"
    if dust: "emergency_close_dust_epsilon < \<bar>sz\<bar>" for fc sz mk
  proof -
    obtain symbol side q cid where
      e: "emergency_market_close fc (LiveSnapshot sz mk) (ot_params (qs_store q' b))
        = Inr (Some (PartialClose symbol side q cid ''market'' None))"
      using closable_closes [OF closable_emergency [OF c] dust] b(2) by metis
    from emergency_close_call [OF e] e show ?thesis by (auto simp: live_size_def)
  qed
  with b(1) show ?thesis by blast
qed

definition sample_cid :: "string \<Rightarrow> string \<Rightarrow> string" where
  "sample_cid a b = ''c-'' @ b @ a"

definition sample_environment :: environment where
  "sample_environment = \<lparr>en_repr = (\<lambda>_. []), en_atr = (\<lambda>_ _. []), en_on_kill = (\<lambda>p _. p),
     en_client_id = sample_cid\<rparr>"

definition sample_account :: account_state where
  "sample_account = \<lparr>ac_positions = [''p1'' \<mapsto> sample_trailing], ac_adjusters = (\<lambda>_. sample_adjuster),
     ac_queue = new_queue, ac_audit = []\<rparr>"

definition sample_stop_task :: order_task where
  "sample_stop_task = realtime_task sample_cid 50
     (sample_trailing\<lparr>pc_current_sl_price := 99, pc_trailing_highest_price := Some 110\<rparr>)
     \<lparr>ar_new_sl_price = 99, ar_reason = ''trailing'', ar_is_valid = True,
      ar_update_tracking = [(''trailing_highest_price'', VFloat 110)]\<rparr> ''sl1''"

lemma sample_account_tick:
  "tr_tasks (on_tick (\<lambda>_ _. []) (\<lambda>p _. p) sample_cid 50 sample_adjuster sample_event [sample_trailing])
     = [sample_stop_task]"
  by (simp add: tick_simps sample_stop_task_def)

text \<open>The tick's stop move is on the queue, taken by the loop, and its adapter call is running.\<close>

definition sample_stop_running :: "queue_state \<Rightarrow> queue_state" where
  "sample_stop_running q =
     (let key = key_of (\<lambda>_. []) sample_stop_task in
      q\<lparr>qs_heap := [], qs_executing := [(key, 0)], qs_inflight := Some (key, 0, Executing)\<rparr>)"

lemma sample_stop_enqueued:
  "enqueue (\<lambda>_. []) new_queue sample_stop_task = new_queue\<lparr>qs_store := (\<lambda>_. empty_task)(0 := sample_stop_task),
     qs_next := 1, qs_pending := [(key_of (\<lambda>_. []) sample_stop_task, 0)], qs_heap := [0]\<rparr>"
  by (simp add: enqueue_def put_new_def new_queue_def Let_def sample_stop_task_def realtime_task_def
      is_multi_tp_reason_def del: starts_with_append)

lemma sample_account_running:
  "\<exists>s. account_reachable sample_environment s
     \<and> ac_queue s = sample_stop_running (enqueue (\<lambda>_. []) new_queue sample_stop_task)"
proof -
  let ?x = sample_environment
  let ?q = "enqueue (\<lambda>_. []) new_queue sample_stop_task"
  let ?key = "key_of (\<lambda>_. []) sample_stop_task"
  let ?q1 = "?q\<lparr>qs_heap := [], qs_inflight := Some (?key, 0, Waiting)\<rparr>"
  let ?s0 = "sample_account\<lparr>ac_positions := Map.empty\<rparr>"
  have "account_reachable ?x ?s0" by (rule acc_new) (simp_all add: sample_account_def)
  from acc_next [OF this acc_adopt [of ?x ?s0 sample_trailing]]
  have r0: "account_reachable ?x sample_account"
    by (simp add: sample_account_def sample_trailing_def)
  define s1 where "s1 = store_tick (en_repr ?x) sample_account (ad_symbol sample_adjuster)
    (on_tick (en_atr ?x) (en_on_kill ?x) (en_client_id ?x) 50
       (ac_adjusters sample_account (ad_symbol sample_adjuster)) sample_event [sample_trailing])"
  have r1: "account_reachable ?x s1"
    unfolding s1_def by (rule acc_next [OF r0 acc_tick])
      (simp_all add: sample_account_def sample_adjuster_def sample_trailing_def)
  have q1: "ac_queue s1 = ?q"
    by (simp add: s1_def store_tick_def sample_environment_def sample_account_def sample_account_tick
        enqueue_all_def)
  have "q_dequeue (en_repr ?x) (ac_queue s1) = Some ?q1"
    unfolding q1 sample_stop_enqueued
    by (simp add: q_dequeue_def sample_environment_def new_queue_def heappop_def Let_def)
  note r2 = acc_next [OF r1 acc_dequeue [OF this]]
  have "q_start (ac_queue (s1\<lparr>ac_queue := ?q1\<rparr>)) = Some (sample_stop_running ?q)"
    unfolding sample_stop_enqueued
    by (simp add: q_start_def sample_stop_running_def new_queue_def Let_def)
  from acc_next [OF r2 acc_start [OF this]] show ?thesis by (metis account_state.select_convs(3) account_state.surjective account_state.update_convs(3))
qed

theorem account_stop_failure_closes_position_witness:
  "\<exists>q' b q. q_finish (\<lambda>_. []) 60 (sample_stop_running (enqueue (\<lambda>_. []) new_queue sample_stop_task)) (FatalError ''x'') = Some q'
    \<and> dict_get (qs_pending q') ''p1:emergency_market_close'' = Some b
    \<and> emergency_market_close ''f'' (LiveSnapshot 1 100) (ot_params (qs_store q' b)) = Inr (Some q)"
proof -
  let ?q = "sample_stop_running (enqueue (\<lambda>_. []) new_queue sample_stop_task)"
  obtain s where s: "account_reachable sample_environment s" "ac_queue s = ?q"
    using sample_account_running by blast
  have x: "\<forall>a b. en_client_id sample_environment a b \<noteq> []" by (simp add: sample_environment_def sample_cid_def)
  have i: "qs_inflight (ac_queue s) = Some (key_of (\<lambda>_. []) sample_stop_task, 0, Executing)"
    by (simp add: s(2) sample_stop_running_def Let_def)
  obtain q' where q': "q_finish (\<lambda>_. []) 60 ?q (FatalError ''x'') = Some q'"
    using i by (simp add: s(2) q_finish_def Let_def)
  have t: "qs_store (ac_queue s) 0 = sample_stop_task"
    by (simp add: s(2) sample_stop_running_def sample_stop_enqueued Let_def)
  have "is_sl_action (ot_action sample_stop_task)" "ot_position_id sample_stop_task = ''p1''"
    by (simp_all add: sample_stop_task_def realtime_task_def is_sl_action_def sample_trailing_def)
  then obtain b where b: "dict_get (qs_pending q') ''p1:emergency_market_close'' = Some b"
    and close: "\<And>fc sz mk. emergency_close_dust_epsilon < \<bar>sz\<bar> \<Longrightarrow>
      \<exists>q. emergency_market_close fc (LiveSnapshot sz mk) (ot_params (qs_store q' b)) = Inr (Some q)"
    using account_stop_failure_closes_position [OF x s(1) i t [symmetric],
        of "FatalError ''x''" "''x''" 60 q'] q' s(2) by (fastforce simp: sample_environment_def)
  with close [of 1 "''f''" 100] q' show ?thesis by (auto simp: emergency_close_dust_epsilon_def)
qed

text \<open>A stop move the tracker decides on reaches the exchange as decided. Every task a tick
  dispatches, when the queue executes it, becomes exactly one call that replaces the position's
  known stop order: for the adjuster's symbol, at the stop price now recorded on the position, for
  its current quantity, which is positive, reduce-only rather than closing the position.\<close>

theorem tick_orders_route:
  assumes "t \<in> set (tr_tasks (on_tick atr_fn on_kill mk now ad event ps))"
    and "ad_symbol ad \<noteq> []" and "\<forall>a b. mk a b \<noteq> []"
  shows "\<exists>p \<in> set (tr_positions (on_tick atr_fn on_kill mk now ad event ps)). \<exists>i cid.
    pc_sl_exchange_order_id p = Some i \<and> 0 < pc_current_quantity p
    \<and> execute_task fc live t = Inr (Some (CancelAndReplaceSl (ad_symbol ad) i
         (pc_current_sl_price p) (pc_current_quantity p) cid False))"
proof -
  from tick_tasks_shape [OF assms(1)] obtain p r i where
    p: "p \<in> set (tr_positions (on_tick atr_fn on_kill mk now ad event ps))"
      "pc_symbol p = ad_symbol ad" "pc_current_sl_price p = ar_new_sl_price r"
      "0 < pc_current_quantity p" "i \<noteq> []" "pc_sl_exchange_order_id p = Some i"
      "t = realtime_task mk now p r i" .
  have "execute_task fc live t = Inr (Some (CancelAndReplaceSl (ad_symbol ad) i
      (pc_current_sl_price p) (pc_current_quantity p) (mk (pc_position_id p) ''rt-sl'') False))"
    using p(2,3,5,7) assms(2,3)
    by (simp add: execute_task_def realtime_task_def require_str_def require_float_def require_bool_def)
  with p show ?thesis by blast
qed

theorem tick_orders_route_witness:
  "\<exists>i q cid. execute_task [] LiveUnknown sample_stop_task
     = Inr (Some (CancelAndReplaceSl (ad_symbol sample_adjuster) i 99 q cid False)) \<and> 0 < q"
proof -
  have "sample_stop_task \<in> set (tr_tasks (on_tick (\<lambda>_ _. []) (\<lambda>p _. p) sample_cid 50 sample_adjuster
      sample_event [sample_trailing]))"
    by (simp add: sample_account_tick)
  from tick_orders_route [OF this, of "[]" LiveUnknown] show ?thesis
    by (auto simp: sample_cid_def sample_adjuster_def sample_stop_task_def execute_task_def
        realtime_task_def require_str_def require_float_def require_bool_def sample_trailing_def)
qed

end
